(* ===== verification/Prelude.thy ===== *)
theory Prelude
  imports Main "HOL-Library.Word"
begin

text \<open>
  Shared vocabulary of the development: the integer widths of the Rust sources, fallible
  results with the combinators the code chains them with, the checked and Euclidean integer
  operations of the standard library, little-endian byte encodings, byte buffers, and
  decimal rendering of numbers. The collection \<^verbatim>\<open>result_simps\<close> holds the
  rewrite rules that carry error propagation through every component.
\<close>

named_theorems result_simps \<open>error propagation through fallible results\<close>
named_theorems int_simps \<open>checked machine arithmetic in terms of mathematical integers\<close>

subsection \<open>Machine integers\<close>

type_synonym u8 = "8 word"
type_synonym u16 = "16 word"
type_synonym u32 = "32 word"
type_synonym u64 = "64 word"
type_synonym u128 = "128 word"
type_synonym i8 = "8 word"
type_synonym i16 = "16 word"
type_synonym i32 = "32 word"
type_synonym i64 = "64 word"
type_synonym i128 = "128 word"
type_synonym i256 = "256 word"
type_synonym usize = nat

text \<open>
  A signed machine integer is a word read with \<^term>\<open>sint\<close>, an unsigned one a word read
  with \<^term>\<open>uint\<close> or \<^term>\<open>unat\<close>. Values held in structures keep their width. Inside a
  computation the code widens to \<^verbatim>\<open>i64\<close> or \<^verbatim>\<open>i128\<close>; there the model computes in \<^typ>\<open>int\<close>
  and writes the range test of each checked operation out. Lengths and indices
  (\<^verbatim>\<open>usize\<close>, 64 bits) are \<^typ>\<open>nat\<close> with the overflow test written out.
\<close>

definition in_signed :: "nat \<Rightarrow> int \<Rightarrow> bool" where
  "in_signed w x \<longleftrightarrow> - (2 ^ (w - 1)) \<le> x \<and> x < 2 ^ (w - 1)"

definition in_unsigned :: "nat \<Rightarrow> int \<Rightarrow> bool" where
  "in_unsigned w x \<longleftrightarrow> 0 \<le> x \<and> x < 2 ^ w"

abbreviation in_i64 :: "int \<Rightarrow> bool" where "in_i64 \<equiv> in_signed 64"
abbreviation in_i128 :: "int \<Rightarrow> bool" where "in_i128 \<equiv> in_signed 128"

definition checked_i64 :: "int \<Rightarrow> int option" where
  "checked_i64 x = (if in_i64 x then Some x else None)"

definition checked_i128 :: "int \<Rightarrow> int option" where
  "checked_i128 x = (if in_i128 x then Some x else None)"

definition checked_usize :: "nat \<Rightarrow> usize option" where
  "checked_usize n = (if n < 2 ^ 64 then Some n else None)"

text \<open>\<^verbatim>\<open>u8::checked_add\<close>, \<^verbatim>\<open>u8::try_from\<close>, \<^verbatim>\<open>u32::try_from\<close> and their kin: the value when it
  fits the width.\<close>

definition try_unsigned :: "int \<Rightarrow> ('w::len) word option" where
  "try_unsigned x = (if in_unsigned LENGTH('w) x then Some (word_of_int x) else None)"

definition try_signed :: "int \<Rightarrow> ('w::len) word option" where
  "try_signed x = (if in_signed LENGTH('w) x then Some (word_of_int x) else None)"

text \<open>\<^verbatim>\<open>div_euclid\<close> and \<^verbatim>\<open>rem_euclid\<close>: the remainder is never negative.\<close>

definition div_euclid :: "int \<Rightarrow> int \<Rightarrow> int" where
  "div_euclid a b = (if 0 < b then a div b else - (a div (- b)))"

definition rem_euclid :: "int \<Rightarrow> int \<Rightarrow> int" where
  "rem_euclid a b = a mod \<bar>b\<bar>"

text \<open>Rust's \<^verbatim>\<open>/\<close> and \<^verbatim>\<open>%\<close> truncate towards zero.\<close>

definition trunc_div :: "int \<Rightarrow> int \<Rightarrow> int" where
  "trunc_div a b = sgn a * sgn b * (\<bar>a\<bar> div \<bar>b\<bar>)"

definition trunc_rem :: "int \<Rightarrow> int \<Rightarrow> int" where
  "trunc_rem a b = a - b * trunc_div a b"

lemma div_euclid_pos [simp]: "0 < b \<Longrightarrow> div_euclid a b = a div b"
  by (simp add: div_euclid_def)

lemma rem_euclid_pos [simp]: "0 < b \<Longrightarrow> rem_euclid a b = a mod b"
  by (simp add: rem_euclid_def)

lemma checked_i64_Some [int_simps]: "checked_i64 x = Some y \<longleftrightarrow> in_i64 x \<and> y = x"
  by (auto simp: checked_i64_def)

lemma checked_i64_None [int_simps]: "checked_i64 x = None \<longleftrightarrow> \<not> in_i64 x"
  by (simp add: checked_i64_def)

lemma checked_i128_Some [int_simps]: "checked_i128 x = Some y \<longleftrightarrow> in_i128 x \<and> y = x"
  by (auto simp: checked_i128_def)

lemma checked_i128_None [int_simps]: "checked_i128 x = None \<longleftrightarrow> \<not> in_i128 x"
  by (simp add: checked_i128_def)

lemma checked_usize_Some [int_simps]: "checked_usize n = Some m \<longleftrightarrow> n < 2 ^ 64 \<and> m = n"
  by (auto simp: checked_usize_def)

lemma checked_usize_None [int_simps]: "checked_usize n = None \<longleftrightarrow> 2 ^ 64 \<le> n"
  by (auto simp: checked_usize_def)

lemma sint_bounds: "- (2 ^ (LENGTH('w::len) - 1)) \<le> sint (w :: 'w word)"
  "sint (w :: 'w word) < 2 ^ (LENGTH('w) - 1)"
  using sint_range_size [of w] by (simp_all add: word_size)

lemma i64_bounds: "- 9223372036854775808 \<le> sint (x :: i64)" "sint (x :: i64) < 9223372036854775808"
  using sint_bounds [of x] by simp_all

lemma i32_bounds: "- 2147483648 \<le> sint (x :: i32)" "sint (x :: i32) < 2147483648"
  using sint_bounds [of x] by simp_all

lemma i16_bounds: "- 32768 \<le> sint (x :: i16)" "sint (x :: i16) < 32768"
  using sint_bounds [of x] by simp_all

lemma i8_bounds: "- 128 \<le> sint (x :: i8)" "sint (x :: i8) < 128"
  using sint_bounds [of x] by simp_all

lemma u64_bound: "uint (x :: u64) < 18446744073709551616"
  using uint_lt2p [of x] by simp

lemma u8_bound: "unat (x :: u8) < 256"
  using unsigned_less [of x, where ?'a = nat] by simp

lemma power10_mono: "m \<le> n \<Longrightarrow> (10::int) ^ m \<le> 10 ^ n"
  by (rule power_increasing) simp_all

lemma in_signed_sint [simp]: "in_signed LENGTH('w::len) (sint (x :: 'w word))"
  using sint_bounds [of x] by (simp add: in_signed_def)

lemma sint_inject: "sint v = sint w \<longleftrightarrow> v = (w :: 'w::len word)"
  by (rule word_eq_iff_signed [symmetric])

lemma unat_inject: "unat v = unat w \<longleftrightarrow> v = (w :: 'w::len word)"
  by (rule word_unat_eq_iff [symmetric])

lemmas word_read_inject = sint_inject unat_inject

lemma sint_word_of_int_fits:
  "in_signed LENGTH('w::len) x \<Longrightarrow> sint (word_of_int x :: 'w word) = x"
  by (simp add: in_signed_def sint_sbintrunc' signed_take_bit_int_eq_self)

lemma uint_word_of_int_fits:
  "in_unsigned LENGTH('w::len) x \<Longrightarrow> uint (word_of_int x :: 'w word) = x"
  by (simp add: in_unsigned_def word_of_int_inverse)

lemma try_unsigned_Some:
  "try_unsigned x = Some (w :: 'w::len word) \<longleftrightarrow> in_unsigned LENGTH('w) x \<and> uint w = x"
  by (auto simp: try_unsigned_def in_unsigned_def uint_word_of_int_fits)

lemma try_signed_Some:
  "try_signed x = Some (w :: 'w::len word) \<longleftrightarrow> in_signed LENGTH('w) x \<and> sint w = x"
  by (auto simp: try_signed_def sint_word_of_int_fits)

subsection \<open>Fallible results\<close>

text \<open>\<^verbatim>\<open>Result<T, E>\<close> is the sum type with the error on the left. \<^term>\<open>and_then\<close> is
  both \<^verbatim>\<open>Result::and_then\<close> and the \<^verbatim>\<open>?\<close> operator.\<close>

abbreviation Ok :: "'a \<Rightarrow> 'e + 'a" where "Ok \<equiv> Inr"
abbreviation Err :: "'e \<Rightarrow> 'e + 'a" where "Err \<equiv> Inl"

definition and_then :: "'e + 'a \<Rightarrow> ('a \<Rightarrow> 'e + 'b) \<Rightarrow> 'e + 'b" where
  "and_then r f = (case r of Inl e \<Rightarrow> Inl e | Inr x \<Rightarrow> f x)"

definition map_ok :: "('a \<Rightarrow> 'b) \<Rightarrow> 'e + 'a \<Rightarrow> 'e + 'b" where
  "map_ok f r = (case r of Inl e \<Rightarrow> Inl e | Inr x \<Rightarrow> Inr (f x))"

definition map_err :: "('e \<Rightarrow> 'f) \<Rightarrow> 'e + 'a \<Rightarrow> 'f + 'a" where
  "map_err f r = (case r of Inl e \<Rightarrow> Inl (f e) | Inr x \<Rightarrow> Inr x)"

definition ok_or :: "'e \<Rightarrow> 'a option \<Rightarrow> 'e + 'a" where
  "ok_or e o' = (case o' of None \<Rightarrow> Inl e | Some x \<Rightarrow> Inr x)"

definition guard :: "bool \<Rightarrow> 'e \<Rightarrow> 'e + unit" where
  "guard b e = (if b then Inr () else Inl e)"

definition is_ok :: "'e + 'a \<Rightarrow> bool" where
  "is_ok r \<longleftrightarrow> (case r of Inl _ \<Rightarrow> False | Inr _ \<Rightarrow> True)"

text \<open>A \<^verbatim>\<open>for\<close> loop whose body may return early with an error.\<close>

primrec for_each :: "('a \<Rightarrow> 's \<Rightarrow> 'e + 's) \<Rightarrow> 'a list \<Rightarrow> 's \<Rightarrow> 'e + 's" where
  "for_each body [] s = Ok s"
| "for_each body (x # xs) s = and_then (body x s) (for_each body xs)"

primrec try_map :: "('a \<Rightarrow> 'e + 'b) \<Rightarrow> 'a list \<Rightarrow> 'e + 'b list" where
  "try_map f [] = Ok []"
| "try_map f (x # xs) = and_then (f x) (\<lambda>y. map_ok ((#) y) (try_map f xs))"

lemma and_then_simps [simp, result_simps]:
  "and_then (Inl e) f = Inl e" "and_then (Inr x) f = f x"
  by (simp_all add: and_then_def)

lemma map_ok_simps [simp, result_simps]: "map_ok f (Inl e) = Inl e" "map_ok f (Inr x) = Inr (f x)"
  by (simp_all add: map_ok_def)

lemma map_err_simps [simp, result_simps]:
  "map_err f (Inl e) = Inl (f e)" "map_err f (Inr x) = Inr x"
  by (simp_all add: map_err_def)

lemma ok_or_simps [simp, result_simps]: "ok_or e None = Inl e" "ok_or e (Some x) = Inr x"
  by (simp_all add: ok_or_def)

lemma is_ok_simps [simp]: "\<not> is_ok (Inl e)" "is_ok (Inr x)"
  by (simp_all add: is_ok_def)

lemma and_then_Inr [result_simps]: "and_then r f = Inr y \<longleftrightarrow> (\<exists>x. r = Inr x \<and> f x = Inr y)"
  by (cases r) auto

lemma and_then_Inl [result_simps]:
  "and_then r f = Inl e \<longleftrightarrow> r = Inl e \<or> (\<exists>x. r = Inr x \<and> f x = Inl e)"
  by (cases r) auto

lemma map_ok_Inr [result_simps]: "map_ok f r = Inr y \<longleftrightarrow> (\<exists>x. r = Inr x \<and> y = f x)"
  by (cases r) auto

lemma map_ok_Inl [result_simps]: "map_ok f r = Inl e \<longleftrightarrow> r = Inl e"
  by (cases r) auto

lemma map_err_Inr [result_simps]: "map_err f r = Inr y \<longleftrightarrow> r = Inr y"
  by (cases r) auto

lemma map_err_Inl [result_simps]: "map_err f r = Inl e \<longleftrightarrow> (\<exists>d. r = Inl d \<and> e = f d)"
  by (cases r) auto

lemma ok_or_Inr [result_simps]: "ok_or e r = Inr y \<longleftrightarrow> r = Some y"
  by (cases r) auto

lemma ok_or_Inl [result_simps]: "ok_or e r = Inl d \<longleftrightarrow> r = None \<and> d = e"
  by (cases r) auto

lemma guard_Inr [simp, result_simps]: "guard b e = Inr u \<longleftrightarrow> b"
  by (simp add: guard_def)

lemma guard_Inl [simp, result_simps]: "guard b e = Inl d \<longleftrightarrow> \<not> b \<and> d = e"
  by (auto simp: guard_def)

lemma and_then_guard [result_simps]: "and_then (guard b e) f = (if b then f () else Inl e)"
  by (simp add: guard_def)

lemma is_ok_iff: "is_ok r \<longleftrightarrow> (\<exists>x. r = Inr x)"
  by (cases r) simp_all

lemma is_ok_and_then: "is_ok (and_then r f) \<longleftrightarrow> (\<exists>x. r = Inr x \<and> is_ok (f x))"
  by (cases r) simp_all

lemma for_each_append:
  "for_each body (xs @ ys) s = and_then (for_each body xs s) (for_each body ys)"
proof (induction xs arbitrary: s)
  case (Cons x xs)
  then show ?case by (cases "body x s") simp_all
qed simp

lemma try_map_Inr:
  "try_map f xs = Inr ys \<longleftrightarrow> length ys = length xs \<and> (\<forall>i < length xs. f (xs ! i) = Inr (ys ! i))"
proof (induction xs arbitrary: ys)
  case Nil
  then show ?case by auto
next
  case (Cons x xs)
  show ?case
  proof (cases ys)
    case Nil
    then show ?thesis by (auto simp: result_simps)
  next
    case (Cons y ys')
    then show ?thesis using Cons.IH [of ys'] by (auto simp: result_simps nth_Cons split: nat.splits)
  qed
qed

subsection \<open>Byte encodings and buffers\<close>

text \<open>\<^term>\<open>le_bytes n v\<close> is \<^verbatim>\<open>to_le_bytes\<close> cut to its first \<^term>\<open>n\<close> bytes; \<^term>\<open>le_nat\<close>
  reads such a field back.\<close>

primrec le_bytes :: "nat \<Rightarrow> nat \<Rightarrow> u8 list" where
  "le_bytes 0 v = []"
| "le_bytes (Suc n) v = word_of_nat v # le_bytes n (v div 256)"

primrec le_nat :: "u8 list \<Rightarrow> nat" where
  "le_nat [] = 0"
| "le_nat (b # bs) = unat b + 256 * le_nat bs"

lemma length_le_bytes [simp]: "length (le_bytes n v) = n"
  by (induction n arbitrary: v) simp_all

lemma le_nat_le_bytes: "le_nat (le_bytes n v) = v mod 256 ^ n"
proof (induction n arbitrary: v)
  case (Suc n)
  have "unat (word_of_nat v :: u8) = v mod 256"
    by (simp add: unat_of_nat)
  with Suc show ?case
    by (simp add: mod_mult2_eq)
qed simp

lemma le_nat_bound: "le_nat bs < 256 ^ length bs"
proof (induction bs)
  case (Cons b bs)
  from Cons have "256 * le_nat bs + 256 \<le> 256 * 256 ^ length bs" by simp
  with u8_bound [of b] show ?case by simp
qed simp

lemma le_nat_append: "le_nat (xs @ ys) = le_nat xs + 256 ^ length xs * le_nat ys"
  by (induction xs) (simp_all add: algebra_simps)

lemma le_bytes_append: "le_bytes (m + n) v = le_bytes m v @ le_bytes n (v div 256 ^ m)"
  by (induction m arbitrary: v) (simp_all add: div_mult2_eq)

lemma take_le_bytes: "m \<le> n \<Longrightarrow> take m (le_bytes n v) = le_bytes m v"
  using le_bytes_append [of m "n - m" v] by simp

text \<open>Writing \<^term>\<open>ys\<close> over the bytes of a buffer from offset \<^term>\<open>off\<close> on
  (\<^verbatim>\<open>copy_from_slice\<close> into a sub-slice).\<close>

definition splice :: "'a list \<Rightarrow> nat \<Rightarrow> 'a list \<Rightarrow> 'a list" where
  "splice xs off ys = take off xs @ ys @ drop (off + length ys) xs"

lemma length_splice [simp]: "off + length ys \<le> length xs \<Longrightarrow> length (splice xs off ys) = length xs"
  by (simp add: splice_def)

lemma nth_splice:
  assumes "off + length ys \<le> length xs" "i < length xs"
  shows "splice xs off ys ! i =
    (if off \<le> i \<and> i < off + length ys then ys ! (i - off) else xs ! i)"
  using assms by (auto simp: splice_def nth_append min_def)

lemma splice_all: "length ys = length xs \<Longrightarrow> splice xs 0 ys = ys"
  by (simp add: splice_def)

lemma splice_middle: "splice (xs @ ys @ zs) (length xs) ys' = xs @ ys' @ zs"
  if "length ys' = length ys"
  using that by (simp add: splice_def)

subsection \<open>Text\<close>

text \<open>A Rust \<^verbatim>\<open>String\<close> is the sequence of its Unicode scalar values.\<close>

type_synonym rstr = "nat list"

definition scalar_value :: "nat \<Rightarrow> bool" where
  "scalar_value c \<longleftrightarrow> c < 0xD800 \<or> (0xE000 \<le> c \<and> c < 0x110000)"

definition lit :: "string \<Rightarrow> rstr" where
  "lit s = map of_char s"

text \<open>\<^verbatim>\<open>to_string\<close> of an unsigned and of a signed integer.\<close>

fun dec :: "nat \<Rightarrow> rstr" where
  "dec n = (if n < 10 then [48 + n] else dec (n div 10) @ [48 + n mod 10])"

declare dec.simps [simp del]

definition dec_int :: "int \<Rightarrow> rstr" where
  "dec_int x = (if x < 0 then 45 # dec (nat (- x)) else dec (nat x))"

definition undec :: "rstr \<Rightarrow> nat" where
  "undec cs = foldl (\<lambda>n c. 10 * n + (c - 48)) 0 cs"

lemma undec_dec [simp]: "undec (dec n) = n"
proof (induction n rule: dec.induct)
  case (1 n)
  then show ?case by (subst dec.simps) (auto simp: undec_def)
qed

lemma dec_inject [simp]: "dec m = dec n \<longleftrightarrow> m = n"
  by (metis undec_dec)

lemma dec_digits: "c \<in> set (dec n) \<Longrightarrow> 48 \<le> c \<and> c \<le> 57"
proof (induction n rule: dec.induct)
  case (1 n)
  then show ?case by (subst (asm) dec.simps) (auto split: if_splits)
qed

lemma dec_not_Nil [simp]: "dec n \<noteq> []"
  by (subst dec.simps) simp

lemma dec_int_inject [simp]: "dec_int x = dec_int y \<longleftrightarrow> x = y"
proof -
  have "hd (dec n) \<noteq> 45" for n
    using dec_digits [OF hd_in_set [OF dec_not_Nil], of n] by linarith
  then have "45 # cs \<noteq> dec n" "dec n \<noteq> 45 # cs" for cs n by (metis list.sel(1))+
  then show ?thesis by (auto simp: dec_int_def)
qed

end
