(* ===== verification/Errors.thy ===== *)
theory Errors
  imports Prelude
begin

text \<open>
  Structured diagnostics and errors: \<^verbatim>\<open>src/diagnostic.rs\<close> and \<^verbatim>\<open>src/error.rs\<close>, with the
  two enumerations of other files that errors carry (\<^verbatim>\<open>MssqlVersion\<close>, \<^verbatim>\<open>WriteBackend\<close>).

  A diagnostic keeps its severity, code, field and row. Its message is text for people,
  assembled from the \<^verbatim>\<open>Display\<close> and \<^verbatim>\<open>Debug\<close> output of dependencies; it is not modelled, and
  no code under \<^verbatim>\<open>src/\<close> reads it back. Errors of the transport and of the driver are opaque
  values of a type parameter.
\<close>

subsection \<open>Diagnostics\<close>

datatype diagnostic_severity = SevWarning | SevError

datatype diagnostic_code =
    UnsupportedArrowType
  | LossyConversionRequiresPolicy
  | PolicyApplied
  | IdentifierInvalid
  | IdentifierTooLong
  | DecimalOutOfRange
  | IntegerOutOfRange
  | TimestampOutOfRange
  | TimezoneUnsupported
  | SchemaMismatch
  | CodeBackendUnavailable
  | ProfileDependentConversion
  | ObservedDataRequired
  | ValueConversionUnsupported
  | ValueTypeMismatch
  | NullInNonNullableColumn
  | NonFiniteFloat
  | ValueTooLong
  | RowIndexOutOfBounds
  | DirectEncodingInvalidPayload
  | DirectEncodingUnsupportedMapping
  | DirectEncodingUnsupportedBatch

record field_ref =
  ref_index :: usize
  ref_name :: rstr

record diagnostic =
  diag_severity :: diagnostic_severity
  diag_code :: diagnostic_code
  diag_field :: "field_ref option"
  diag_row :: "usize option"

definition diagnostic_new :: "diagnostic_severity \<Rightarrow> diagnostic_code \<Rightarrow> diagnostic" where
  "diagnostic_new sev c = \<lparr>diag_severity = sev, diag_code = c, diag_field = None, diag_row = None\<rparr>"

definition diagnostic_warning :: "diagnostic_code \<Rightarrow> diagnostic" where
  "diagnostic_warning c = diagnostic_new SevWarning c"

definition diagnostic_error :: "diagnostic_code \<Rightarrow> diagnostic" where
  "diagnostic_error c = diagnostic_new SevError c"

definition with_field :: "diagnostic \<Rightarrow> field_ref \<Rightarrow> diagnostic" where
  "with_field d f = d\<lparr>diag_field := Some f\<rparr>"

definition with_row :: "diagnostic \<Rightarrow> usize \<Rightarrow> diagnostic" where
  "with_row d r = d\<lparr>diag_row := Some r\<rparr>"

definition is_error :: "diagnostic \<Rightarrow> bool" where
  "is_error d \<longleftrightarrow> (case diag_severity d of SevError \<Rightarrow> True | SevWarning \<Rightarrow> False)"

type_synonym diagnostic_set = "diagnostic list"

definition diagnostics_push :: "diagnostic_set \<Rightarrow> diagnostic \<Rightarrow> diagnostic_set" where
  "diagnostics_push ds d = ds @ [d]"

definition has_errors :: "diagnostic_set \<Rightarrow> bool" where
  "has_errors ds \<longleftrightarrow> list_ex is_error ds"

record 'a plan_outcome =
  outcome_value :: 'a
  outcome_diagnostics :: diagnostic_set

lemma diagnostic_error_fields [simp]:
  "diag_severity (diagnostic_error c) = SevError" "diag_code (diagnostic_error c) = c"
  "diag_field (diagnostic_error c) = None" "diag_row (diagnostic_error c) = None"
  by (simp_all add: diagnostic_error_def diagnostic_new_def)

lemma with_field_fields [simp]:
  "diag_severity (with_field d f) = diag_severity d" "diag_code (with_field d f) = diag_code d"
  "diag_field (with_field d f) = Some f" "diag_row (with_field d f) = diag_row d"
  by (simp_all add: with_field_def)

lemma with_row_fields [simp]:
  "diag_severity (with_row d r) = diag_severity d" "diag_code (with_row d r) = diag_code d"
  "diag_field (with_row d r) = diag_field d" "diag_row (with_row d r) = Some r"
  by (simp_all add: with_row_def)

lemma is_error_severity [simp]: "is_error d \<longleftrightarrow> diag_severity d = SevError"
  by (simp add: is_error_def split: diagnostic_severity.split)

subsection \<open>Errors\<close>

datatype mssql_version =
  SqlServer2016 | SqlServer2017 | SqlServer2019 | SqlServer2022 | SqlServer2025

datatype write_backend = BackendAuto | BaselineTokenRow | DirectFramedBulk | DirectRawBulk

datatype write_phase =
    SchemaPlanning
  | WriterInitialization
  | TargetMetadataValidation
  | BatchWrite
  | BatchSchemaValidation
  | PhaseValueConversion
  | PhaseDirectEncoding
  | PacketWrite
  | Finish
  | Finalize

fun write_phase_as_str :: "write_phase \<Rightarrow> rstr" where
  "write_phase_as_str SchemaPlanning = lit ''schema_planning''"
| "write_phase_as_str WriterInitialization = lit ''writer_initialization''"
| "write_phase_as_str TargetMetadataValidation = lit ''target_metadata_validation''"
| "write_phase_as_str BatchWrite = lit ''batch_write''"
| "write_phase_as_str BatchSchemaValidation = lit ''batch_schema_validation''"
| "write_phase_as_str PhaseValueConversion = lit ''value_conversion''"
| "write_phase_as_str PhaseDirectEncoding = lit ''direct_encoding''"
| "write_phase_as_str PacketWrite = lit ''packet_write''"
| "write_phase_as_str Finish = lit ''finish''"
| "write_phase_as_str Finalize = lit ''finalize''"

text \<open>The parameter \<^typ>\<open>'src\<close> stands for the errors of the I/O layer and of the driver.\<close>

datatype 'src error_of =
    WritePhaseContext write_phase "'src error_of"
  | InvalidCompatibilityLevel u16
  | UnsupportedCompatibilityLevel mssql_version u16
  | InvalidIdentifier rstr
  | Planning diagnostic_set
  | ValueConversion diagnostic_set
  | DirectEncoding diagnostic_set
  | BackendUnavailable write_backend rstr
  | InvalidConnectionString
  | ConnectionTcpConnect 'src
  | ConnectionClientSetup 'src
  | TableExistsQuery 'src
  | TableExistsUnexpectedResult rstr
  | TargetRowCountQuery 'src
  | TargetRowCountUnexpectedResult rstr
  | SqlExecution 'src
  | Tiberius 'src

typedecl external_error

type_synonym error = "external_error error_of"

definition with_write_phase :: "'src error_of \<Rightarrow> write_phase \<Rightarrow> 'src error_of" where
  "with_write_phase e p = WritePhaseContext p e"

fun error_write_phase :: "'src error_of \<Rightarrow> write_phase option" where
  "error_write_phase (WritePhaseContext phase _) = Some phase"
| "error_write_phase (Planning _) = Some SchemaPlanning"
| "error_write_phase (ValueConversion _) = Some PhaseValueConversion"
| "error_write_phase (DirectEncoding _) = Some PhaseDirectEncoding"
| "error_write_phase _ = None"

fun without_write_phase :: "'src error_of \<Rightarrow> 'src error_of" where
  "without_write_phase (WritePhaseContext _ source) = without_write_phase source"
| "without_write_phase e = e"

fun error_kind :: "'src error_of \<Rightarrow> rstr" where
  "error_kind (WritePhaseContext _ source) = error_kind source"
| "error_kind (InvalidCompatibilityLevel _) = lit ''InvalidCompatibilityLevel''"
| "error_kind (UnsupportedCompatibilityLevel _ _) = lit ''UnsupportedCompatibilityLevel''"
| "error_kind (InvalidIdentifier _) = lit ''InvalidIdentifier''"
| "error_kind (Planning _) = lit ''Planning''"
| "error_kind (ValueConversion _) = lit ''ValueConversion''"
| "error_kind (DirectEncoding _) = lit ''DirectEncoding''"
| "error_kind (BackendUnavailable _ _) = lit ''BackendUnavailable''"
| "error_kind InvalidConnectionString = lit ''InvalidConnectionString''"
| "error_kind (ConnectionTcpConnect _) = lit ''ConnectionTcpConnect''"
| "error_kind (ConnectionClientSetup _) = lit ''ConnectionClientSetup''"
| "error_kind (TableExistsQuery _) = lit ''TableExistsQuery''"
| "error_kind (TableExistsUnexpectedResult _) = lit ''TableExistsUnexpectedResult''"
| "error_kind (TargetRowCountQuery _) = lit ''TargetRowCountQuery''"
| "error_kind (TargetRowCountUnexpectedResult _) = lit ''TargetRowCountUnexpectedResult''"
| "error_kind (SqlExecution _) = lit ''SqlExecution''"
| "error_kind (Tiberius _) = lit ''Tiberius''"

fun safe_summary :: "'src error_of \<Rightarrow> rstr" where
  "safe_summary (WritePhaseContext _ source) = safe_summary source"
| "safe_summary (InvalidCompatibilityLevel _) = lit ''invalid compatibility level''"
| "safe_summary (UnsupportedCompatibilityLevel _ _) =
     lit ''compatibility level is not supported by SQL Server version''"
| "safe_summary (InvalidIdentifier _) = lit ''invalid identifier''"
| "safe_summary (Planning _) = lit ''planning failed with diagnostics''"
| "safe_summary (ValueConversion _) = lit ''value conversion failed with diagnostics''"
| "safe_summary (DirectEncoding _) = lit ''direct encoding failed with diagnostics''"
| "safe_summary (BackendUnavailable _ _) = lit ''write backend unavailable''"
| "safe_summary InvalidConnectionString = lit ''invalid connection string''"
| "safe_summary (ConnectionTcpConnect _) = lit ''TCP connection failed''"
| "safe_summary (ConnectionClientSetup _) = lit ''SQL Server client setup failed''"
| "safe_summary (TableExistsQuery _) = lit ''table existence query failed''"
| "safe_summary (TableExistsUnexpectedResult _) =
     lit ''table existence query returned unexpected result''"
| "safe_summary (TargetRowCountQuery _) = lit ''target row count query failed''"
| "safe_summary (TargetRowCountUnexpectedResult _) =
     lit ''target row count query returned unexpected result''"
| "safe_summary (SqlExecution _) = lit ''SQL statement execution failed''"
| "safe_summary (Tiberius _) = lit ''tiberius operation failed''"

fun error_diagnostics :: "'src error_of \<Rightarrow> diagnostic_set option" where
  "error_diagnostics (WritePhaseContext _ source) = error_diagnostics source"
| "error_diagnostics (Planning ds) = Some ds"
| "error_diagnostics (ValueConversion ds) = Some ds"
| "error_diagnostics (DirectEncoding ds) = Some ds"
| "error_diagnostics _ = None"

record error_info =
  info_phase :: "write_phase option"
  info_kind :: rstr
  info_summary :: rstr
  info_diagnostics :: "diagnostic_set option"

definition safe_error_info :: "'src error_of \<Rightarrow> error_info" where
  "safe_error_info e =
     (let inner = without_write_phase e in
      \<lparr>info_phase = error_write_phase e,
       info_kind = error_kind inner,
       info_summary = safe_summary inner,
       info_diagnostics = error_diagnostics inner\<rparr>)"

text \<open>The derived \<^verbatim>\<open>Debug\<close> output of a diagnostic code is its variant name.\<close>

fun diagnostic_code_debug :: "diagnostic_code \<Rightarrow> rstr" where
  "diagnostic_code_debug UnsupportedArrowType = lit ''UnsupportedArrowType''"
| "diagnostic_code_debug LossyConversionRequiresPolicy = lit ''LossyConversionRequiresPolicy''"
| "diagnostic_code_debug PolicyApplied = lit ''PolicyApplied''"
| "diagnostic_code_debug IdentifierInvalid = lit ''IdentifierInvalid''"
| "diagnostic_code_debug IdentifierTooLong = lit ''IdentifierTooLong''"
| "diagnostic_code_debug DecimalOutOfRange = lit ''DecimalOutOfRange''"
| "diagnostic_code_debug IntegerOutOfRange = lit ''IntegerOutOfRange''"
| "diagnostic_code_debug TimestampOutOfRange = lit ''TimestampOutOfRange''"
| "diagnostic_code_debug TimezoneUnsupported = lit ''TimezoneUnsupported''"
| "diagnostic_code_debug SchemaMismatch = lit ''SchemaMismatch''"
| "diagnostic_code_debug CodeBackendUnavailable = lit ''BackendUnavailable''"
| "diagnostic_code_debug ProfileDependentConversion = lit ''ProfileDependentConversion''"
| "diagnostic_code_debug ObservedDataRequired = lit ''ObservedDataRequired''"
| "diagnostic_code_debug ValueConversionUnsupported = lit ''ValueConversionUnsupported''"
| "diagnostic_code_debug ValueTypeMismatch = lit ''ValueTypeMismatch''"
| "diagnostic_code_debug NullInNonNullableColumn = lit ''NullInNonNullableColumn''"
| "diagnostic_code_debug NonFiniteFloat = lit ''NonFiniteFloat''"
| "diagnostic_code_debug ValueTooLong = lit ''ValueTooLong''"
| "diagnostic_code_debug RowIndexOutOfBounds = lit ''RowIndexOutOfBounds''"
| "diagnostic_code_debug DirectEncodingInvalidPayload = lit ''DirectEncodingInvalidPayload''"
| "diagnostic_code_debug DirectEncodingUnsupportedMapping =
     lit ''DirectEncodingUnsupportedMapping''"
| "diagnostic_code_debug DirectEncodingUnsupportedBatch = lit ''DirectEncodingUnsupportedBatch''"

definition diagnostic_codes :: "diagnostic_set \<Rightarrow> rstr" where
  "diagnostic_codes ds =
     foldl (\<lambda>codes d. (if codes = [] then codes else codes @ lit '','')
                        @ diagnostic_code_debug (diag_code d)) [] ds"

definition info_diagnostic_codes :: "error_info \<Rightarrow> rstr" where
  "info_diagnostic_codes info =
     (case info_diagnostics info of
        Some ds \<Rightarrow> diagnostic_codes ds
      | None \<Rightarrow> if info_kind info = lit ''BackendUnavailable''
               then diagnostic_code_debug CodeBackendUnavailable else [])"

subsection \<open>Properties\<close>

text \<open>Attaching phases from the inside out.\<close>

definition with_write_phases :: "'src error_of \<Rightarrow> write_phase list \<Rightarrow> 'src error_of" where
  "with_write_phases e ps = foldl with_write_phase e ps"

lemma with_write_phases_snoc:
  "with_write_phases e (ps @ [p]) = WritePhaseContext p (with_write_phases e ps)"
  by (simp add: with_write_phases_def with_write_phase_def)

lemma with_write_phases_Nil [simp]: "with_write_phases e [] = e"
  by (simp add: with_write_phases_def)

lemma without_write_phases [simp]:
  "without_write_phase (with_write_phases e ps) = without_write_phase e"
  by (induction ps rule: rev_induct) (simp_all add: with_write_phases_snoc)

lemma error_write_phases:
  "error_write_phase (with_write_phases e ps) = (if ps = [] then error_write_phase e else Some (last ps))"
  by (induction ps rule: rev_induct) (simp_all add: with_write_phases_snoc)

lemma without_write_phase_map:
  "without_write_phase (map_error_of f e) = map_error_of f (without_write_phase e)"
  by (induction e) simp_all

lemma error_views_map [simp]:
  "error_write_phase (map_error_of f e) = error_write_phase e"
  "error_kind (map_error_of f e) = error_kind e"
  "safe_summary (map_error_of f e) = safe_summary e"
  "error_diagnostics (map_error_of f e) = error_diagnostics e"
  by (induction e) simp_all

text \<open>Splitting compact code lists back at the commas.\<close>

fun split_commas :: "rstr \<Rightarrow> rstr list" where
  "split_commas [] = [[]]"
| "split_commas (c # cs) =
     (if c = 44 then [] # split_commas cs
      else (case split_commas cs of [] \<Rightarrow> [[c]] | w # ws \<Rightarrow> (c # w) # ws))"

lemma split_commas_word:
  "44 \<notin> set w \<Longrightarrow> split_commas (w @ 44 # rest) = w # split_commas rest"
  "44 \<notin> set w \<Longrightarrow> split_commas w = [w]"
  by (induction w) auto

lemma diagnostic_code_debug_plain:
  "44 \<notin> set (diagnostic_code_debug c) \<and> diagnostic_code_debug c \<noteq> []"
  by (cases c) (simp_all add: lit_def)

lemma diagnostic_code_debug_inject:
  "diagnostic_code_debug c = diagnostic_code_debug d \<Longrightarrow> c = d"
  by (cases c; cases d) (simp_all add: lit_def)

lemma split_commas_diagnostic_codes:
  "ds \<noteq> [] \<Longrightarrow> split_commas (diagnostic_codes ds @ 44 # rest) =
     map (diagnostic_code_debug \<circ> diag_code) ds @ split_commas rest
   \<and> diagnostic_codes ds \<noteq> []"
proof (induction ds arbitrary: rest rule: rev_induct)
  case (snoc d ds)
  have snoc_eq: "diagnostic_codes (ds @ [d]) =
      (if diagnostic_codes ds = [] then [] else diagnostic_codes ds @ [44])
        @ diagnostic_code_debug (diag_code d)"
    by (simp add: diagnostic_codes_def lit_def)
  show ?case
  proof (cases "ds = []")
    case True
    then show ?thesis using diagnostic_code_debug_plain [of "diag_code d"]
      by (simp add: snoc_eq) (simp add: diagnostic_codes_def split_commas_word)
  next
    case False
    with snoc.IH have "diagnostic_codes ds \<noteq> []" by blast
    with False snoc.IH [of "diagnostic_code_debug (diag_code d) @ 44 # rest"] show ?thesis
      using diagnostic_code_debug_plain [of "diag_code d"]
      by (simp add: snoc_eq split_commas_word)
  qed
qed simp

text \<open>Erasing the payloads of the variants of an error: rejected values, results and the wrapped errors of the
  driver. The variant, the phases and the diagnostics stay, with the fields and columns that diagnostics name.\<close>

fun erase_payloads :: "'src error_of \<Rightarrow> unit error_of" where
  "erase_payloads (WritePhaseContext p source) = WritePhaseContext p (erase_payloads source)"
| "erase_payloads (InvalidCompatibilityLevel _) = InvalidCompatibilityLevel 0"
| "erase_payloads (UnsupportedCompatibilityLevel _ _) = UnsupportedCompatibilityLevel SqlServer2016 0"
| "erase_payloads (InvalidIdentifier _) = InvalidIdentifier []"
| "erase_payloads (Planning ds) = Planning ds"
| "erase_payloads (ValueConversion ds) = ValueConversion ds"
| "erase_payloads (DirectEncoding ds) = DirectEncoding ds"
| "erase_payloads (BackendUnavailable _ _) = BackendUnavailable BackendAuto []"
| "erase_payloads InvalidConnectionString = InvalidConnectionString"
| "erase_payloads (ConnectionTcpConnect _) = ConnectionTcpConnect ()"
| "erase_payloads (ConnectionClientSetup _) = ConnectionClientSetup ()"
| "erase_payloads (TableExistsQuery _) = TableExistsQuery ()"
| "erase_payloads (TableExistsUnexpectedResult _) = TableExistsUnexpectedResult []"
| "erase_payloads (TargetRowCountQuery _) = TargetRowCountQuery ()"
| "erase_payloads (TargetRowCountUnexpectedResult _) = TargetRowCountUnexpectedResult []"
| "erase_payloads (SqlExecution _) = SqlExecution ()"
| "erase_payloads (Tiberius _) = Tiberius ()"

lemma erase_payloads_views:
  "error_write_phase (erase_payloads e) = error_write_phase e" "error_kind (erase_payloads e) = error_kind e"
  "safe_summary (erase_payloads e) = safe_summary e" "error_diagnostics (erase_payloads e) = error_diagnostics e"
  by (induction e) simp_all

lemma erase_payloads_without_write_phase: "without_write_phase (erase_payloads e) = erase_payloads (without_write_phase e)"
  by (induction e) simp_all

text \<open>The error information depends on an error only through its variant, its phases and its diagnostics: a rejected
  identifier or version, a probe result and a wrapped driver error do not change it. The diagnostics are passed on
  whole; their message texts are outside the model. Attaching write phases from the inside out changes only
  its phase, which is the outermost one.\<close>

lemma safe_error_info_erase_payloads:
  "safe_error_info (with_write_phases e ps) =
     (safe_error_info (erase_payloads e))\<lparr>info_phase := (if ps = [] then error_write_phase e else Some (last ps))\<rparr>"
  by (simp add: safe_error_info_def Let_def error_write_phases erase_payloads_views erase_payloads_without_write_phase)

lemma map_debug_inject:
  "map (diagnostic_code_debug \<circ> diag_code) ds = map (diagnostic_code_debug \<circ> diag_code) ds'
     \<longleftrightarrow> map diag_code ds = map diag_code ds'"
proof -
  have "inj diagnostic_code_debug" by (rule injI) (rule diagnostic_code_debug_inject)
  then show ?thesis by (simp add: inj_map_eq_map flip: map_map)
qed

text \<open>diagnostic_codes_recoverable: the compact code list of a trace event loses no code: two
  diagnostic sets render to the same list exactly when they have the same codes in the same
  order.\<close>

theorem diagnostic_codes_recoverable:
  "diagnostic_codes ds = diagnostic_codes ds' \<longleftrightarrow> map diag_code ds = map diag_code ds'"
proof
  assume eq: "diagnostic_codes ds = diagnostic_codes ds'"
  have empty: "diagnostic_codes xs = [] \<longleftrightarrow> xs = []" for xs
    using split_commas_diagnostic_codes [of xs "[]"] by (cases "xs = []") (auto simp: diagnostic_codes_def)
  show "map diag_code ds = map diag_code ds'"
  proof (cases "ds = [] \<or> ds' = []")
    case True
    with eq empty show ?thesis by (metis (mono_tags, lifting))
  next
    case False
    with split_commas_diagnostic_codes [of ds "[]"] split_commas_diagnostic_codes [of ds' "[]"] eq
    have "map (diagnostic_code_debug \<circ> diag_code) ds = map (diagnostic_code_debug \<circ> diag_code) ds'"
      by simp
    then show ?thesis by (simp add: map_debug_inject)
  qed
next
  have fold_eq: "diagnostic_codes xs = foldl (\<lambda>codes c. (if codes = [] then codes else codes @ lit '','')
      @ diagnostic_code_debug c) [] (map diag_code xs)" for xs
    by (simp add: diagnostic_codes_def foldl_map)
  assume "map diag_code ds = map diag_code ds'"
  then show "diagnostic_codes ds = diagnostic_codes ds'" by (simp add: fold_eq)
qed

end
