(* ===== verification/Identifiers.thy ===== *)
theory Identifiers
  imports Errors
begin

text \<open>
  SQL Server identifiers and table names: \<^verbatim>\<open>src/mssql/identifier.rs\<close>. The quoting is
  specified by a reader of T-SQL delimited identifiers (\<^verbatim>\<open>read_bracketed\<close>): inside brackets
  a doubled \<^verbatim>\<open>]\<close> stands for one, and a single \<^verbatim>\<open>]\<close> ends the identifier.
\<close>

definition MAX_IDENTIFIER_CHARS :: usize where
  "MAX_IDENTIFIER_CHARS = 128"

datatype identifier_policy = BracketQuoted

datatype sql_identifier = Identifier (identifier_as_str: rstr)

record table_name =
  table_schema :: "sql_identifier option"
  table_table :: sql_identifier

text \<open>\<^verbatim>\<open>char::is_control\<close>: the Unicode category Cc.\<close>

definition is_control :: "nat \<Rightarrow> bool" where
  "is_control c \<longleftrightarrow> c < 32 \<or> (127 \<le> c \<and> c < 160)"

definition validate_identifier :: "rstr \<Rightarrow> identifier_policy \<Rightarrow> error + unit" where
  "validate_identifier v policy =
     (case policy of BracketQuoted \<Rightarrow>
        if v = [] then Err (InvalidIdentifier (lit ''identifier cannot be empty''))
        else if list_ex is_control v
        then Err (InvalidIdentifier (lit ''identifier cannot contain control characters''))
        else if length v > MAX_IDENTIFIER_CHARS
        then Err (InvalidIdentifier (lit ''identifier is '' @ dec (length v)
               @ lit '' characters; maximum is '' @ dec MAX_IDENTIFIER_CHARS))
        else Ok ())"

definition identifier_with_policy :: "rstr \<Rightarrow> identifier_policy \<Rightarrow> error + sql_identifier" where
  "identifier_with_policy v policy =
     and_then (validate_identifier v policy) (\<lambda>_. Ok (Identifier v))"

definition identifier_new :: "rstr \<Rightarrow> error + sql_identifier" where
  "identifier_new v = identifier_with_policy v BracketQuoted"

definition bracket_quote :: "rstr \<Rightarrow> rstr" where
  "bracket_quote v = [91] @ concat (map (\<lambda>c. if c = 93 then [93, 93] else [c]) v) @ [93]"

definition identifier_quoted_sql :: "sql_identifier \<Rightarrow> rstr" where
  "identifier_quoted_sql i = bracket_quote (identifier_as_str i)"

definition table_name_new :: "rstr \<Rightarrow> rstr \<Rightarrow> error + table_name" where
  "table_name_new schema table =
     and_then (identifier_new schema) (\<lambda>s.
     and_then (identifier_new table) (\<lambda>t.
       Ok \<lparr>table_schema = Some s, table_table = t\<rparr>))"

definition table_name_unqualified :: "rstr \<Rightarrow> error + table_name" where
  "table_name_unqualified table =
     and_then (identifier_new table) (\<lambda>t. Ok \<lparr>table_schema = None, table_table = t\<rparr>)"

definition table_quoted_sql :: "table_name \<Rightarrow> rstr" where
  "table_quoted_sql t =
     (case table_schema t of
        Some s \<Rightarrow> identifier_quoted_sql s @ lit ''.'' @ identifier_quoted_sql (table_table t)
      | None \<Rightarrow> identifier_quoted_sql (table_table t))"

subsection \<open>Validity\<close>

definition valid_identifier :: "sql_identifier \<Rightarrow> bool" where
  "valid_identifier i \<longleftrightarrow> (let v = identifier_as_str i in
     v \<noteq> [] \<and> (\<forall>c \<in> set v. \<not> is_control c) \<and> length v \<le> 128)"

definition valid_table_name :: "table_name \<Rightarrow> bool" where
  "valid_table_name t \<longleftrightarrow>
     pred_option valid_identifier (table_schema t) \<and> valid_identifier (table_table t)"

lemma identifier_new_Ok:
  "identifier_new v = Ok i \<longleftrightarrow> i = Identifier v \<and> valid_identifier (Identifier v)"
  by (auto simp: identifier_new_def identifier_with_policy_def validate_identifier_def
      valid_identifier_def MAX_IDENTIFIER_CHARS_def list_ex_iff result_simps split: if_splits)

lemma identifier_new_Err:
  "identifier_new v = Err e \<Longrightarrow> \<exists>reason. e = InvalidIdentifier reason"
  by (auto simp: identifier_new_def identifier_with_policy_def validate_identifier_def
      result_simps split: if_splits)

lemma valid_identifier_no_control:
  "valid_identifier i \<Longrightarrow> is_control c \<Longrightarrow> c \<notin> set (identifier_as_str i)"
  by (auto simp: valid_identifier_def Let_def)

subsection \<open>Reading a delimited identifier\<close>

fun read_bracket_body :: "rstr \<Rightarrow> (rstr \<times> rstr) option" where
  "read_bracket_body [] = None"
| "read_bracket_body (c # cs) =
     (if c = 93
      then (case cs of
              d # ds \<Rightarrow> if d = 93 then map_option (\<lambda>(v, r). (93 # v, r)) (read_bracket_body ds)
                       else Some ([], cs)
            | [] \<Rightarrow> Some ([], []))
      else map_option (\<lambda>(v, r). (c # v, r)) (read_bracket_body cs))"

fun read_bracketed :: "rstr \<Rightarrow> (rstr \<times> rstr) option" where
  "read_bracketed [] = None"
| "read_bracketed (c # cs) = (if c = 91 then read_bracket_body cs else None)"

fun starts_with :: "nat \<Rightarrow> rstr \<Rightarrow> bool" where
  "starts_with c [] = False"
| "starts_with c (d # ds) = (c = d)"

lemma read_bracket_body_quoted:
  assumes "\<not> starts_with 93 rest"
  shows "read_bracket_body (concat (map (\<lambda>c. if c = 93 then [93, 93] else [c]) v) @ 93 # rest)
       = Some (v, rest)"
proof (induction v)
  case Nil
  then show ?case using assms by (cases rest) auto
qed auto

lemma read_bracketed_quoted:
  "\<not> starts_with 93 rest \<Longrightarrow> read_bracketed (bracket_quote v @ rest) = Some (v, rest)"
  by (simp add: bracket_quote_def read_bracket_body_quoted)

lemma bracket_quote_cancel:
  assumes "bracket_quote v @ r = bracket_quote v' @ r'"
    and "\<not> starts_with 93 r" "\<not> starts_with 93 r'"
  shows "v = v' \<and> r = r'"
  using read_bracketed_quoted [OF assms(2), of v] read_bracketed_quoted [OF assms(3), of v']
  unfolding assms(1) by simp

text \<open>Reading a one-part or two-part table name.\<close>

definition read_table_name :: "rstr \<Rightarrow> ((rstr option \<times> rstr) \<times> rstr) option" where
  "read_table_name cs =
     (case read_bracketed cs of
        None \<Rightarrow> None
      | Some (a, r) \<Rightarrow>
          (case r of
             d # ds \<Rightarrow> if d = 46 then map_option (\<lambda>(b, r'). ((Some a, b), r')) (read_bracketed ds)
                      else Some ((None, a), r)
           | [] \<Rightarrow> Some ((None, a), [])))"

lemma read_table_name_quoted:
  assumes "\<not> starts_with 93 rest" "\<not> starts_with 46 rest"
  shows "read_table_name (table_quoted_sql t @ rest)
       = Some ((map_option identifier_as_str (table_schema t),
                identifier_as_str (table_table t)), rest)"
proof (cases "table_schema t")
  case None
  with assms show ?thesis
    by (cases rest) (simp_all add: table_quoted_sql_def identifier_quoted_sql_def
        read_table_name_def read_bracketed_quoted [of "[]", simplified] read_bracketed_quoted)
next
  case (Some s)
  with assms show ?thesis
    by (simp add: table_quoted_sql_def identifier_quoted_sql_def read_table_name_def lit_def
        read_bracketed_quoted)
qed

lemma table_quoted_sql_cancel:
  assumes "table_quoted_sql t @ r = table_quoted_sql t' @ r'"
    and "\<not> starts_with 93 r" "\<not> starts_with 46 r" "\<not> starts_with 93 r'" "\<not> starts_with 46 r'"
  shows "t = t' \<and> r = r'"
proof -
  have "map_option identifier_as_str (table_schema t) = map_option identifier_as_str (table_schema t')
      \<and> identifier_as_str (table_table t) = identifier_as_str (table_table t') \<and> r = r'"
    using read_table_name_quoted [OF assms(2,3), of t] read_table_name_quoted [OF assms(4,5), of t']
    unfolding assms(1) by simp
  then show ?thesis
    by (cases t; cases t'; cases "table_schema t"; cases "table_schema t'")
      (auto intro: sql_identifier.expand)
qed

lemma table_name_new_Ok:
  "table_name_new s t = Ok n \<longleftrightarrow> n = \<lparr>table_schema = Some (Identifier s), table_table = Identifier t\<rparr>
     \<and> valid_table_name n"
  by (auto simp: table_name_new_def result_simps identifier_new_Ok valid_table_name_def)

text \<open>C16: a quoted table name cannot be broken out of. Any schema and
  table name that the constructor accepts (nonempty, at most 128 characters, no control
  characters, but otherwise arbitrary, brackets, dots and quotes included) is read back by a
  reader of delimited identifiers as exactly these two parts, in front of any SQL text that
  does not itself continue the name.\<close>

theorem table_name_injection_safe:
  assumes "table_name_new s t = Ok n"
    and "\<not> starts_with 93 rest" "\<not> starts_with 46 rest"
  shows "read_table_name (table_quoted_sql n @ rest) = Some ((Some s, t), rest)
    \<and> valid_table_name n"
  using assms(1) read_table_name_quoted [OF assms(2,3), of n] by (auto simp: table_name_new_Ok)

theorem table_name_injection_safe_witness:
  "\<exists>n. table_name_new (lit ''dbo'') (lit ''a].[b'') = Ok n
     \<and> read_table_name (table_quoted_sql n @ lit '' (x int)'')
       = Some ((Some (lit ''dbo''), lit ''a].[b''), lit '' (x int)'')"
proof -
  have "\<exists>n. table_name_new (lit ''dbo'') (lit ''a].[b'') = Ok n"
    by (simp add: table_name_new_Ok valid_table_name_def valid_identifier_def lit_def is_control_def)
  then obtain n where n: "table_name_new (lit ''dbo'') (lit ''a].[b'') = Ok n" ..
  have "\<not> starts_with 93 (lit '' (x int)'')" "\<not> starts_with 46 (lit '' (x int)'')"
    by (simp_all add: lit_def)
  from table_name_injection_safe [OF n this] n show ?thesis by blast
qed

end
