(* ===== verification/MssqlTypes.thy ===== *)
theory MssqlTypes
  imports Identifiers
begin

text \<open>
  SQL Server types, columns and \<^verbatim>\<open>CREATE TABLE\<close> rendering: \<^verbatim>\<open>src/mssql/ty.rs\<close>,
  \<^verbatim>\<open>src/mssql/column.rs\<close> and \<^verbatim>\<open>src/mssql/ddl.rs\<close>.
\<close>

datatype mssql_type_length = Bounded usize | MaxLength

datatype mssql_time_precision = MssqlTimePrecision (time_precision_get: u8)

definition time_precision_new :: "u8 \<Rightarrow> mssql_time_precision option" where
  "time_precision_new p = (if unat p \<le> 7 then Some (MssqlTimePrecision p) else None)"

definition type_length_render :: "mssql_type_length \<Rightarrow> rstr" where
  "type_length_render l = (case l of Bounded n \<Rightarrow> dec n | MaxLength \<Rightarrow> lit ''max'')"

datatype mssql_type =
    MsBit
  | MsTinyInt
  | MsSmallInt
  | MsInt
  | MsBigInt
  | MsReal
  | MsFloat u8
  | MsNVarChar mssql_type_length
  | MsVarBinary mssql_type_length
  | MsBinary usize
  | MsDecimal u8 i8
  | MsDate
  | MsTime mssql_time_precision
  | MsDateTime
  | MsDateTime2 u8
  | MsDateTimeOffset u8

fun to_sql :: "mssql_type \<Rightarrow> rstr" where
  "to_sql MsBit = lit ''bit''"
| "to_sql MsTinyInt = lit ''tinyint''"
| "to_sql MsSmallInt = lit ''smallint''"
| "to_sql MsInt = lit ''int''"
| "to_sql MsBigInt = lit ''bigint''"
| "to_sql MsReal = lit ''real''"
| "to_sql (MsFloat precision) = lit ''float('' @ dec (unat precision) @ lit '')''"
| "to_sql (MsNVarChar l) = lit ''nvarchar('' @ type_length_render l @ lit '')''"
| "to_sql (MsVarBinary l) = lit ''varbinary('' @ type_length_render l @ lit '')''"
| "to_sql (MsBinary n) = lit ''binary('' @ dec n @ lit '')''"
| "to_sql (MsDecimal precision scale) =
     lit ''decimal('' @ dec (unat precision) @ lit '','' @ dec_int (sint scale) @ lit '')''"
| "to_sql MsDate = lit ''date''"
| "to_sql (MsTime precision) = lit ''time('' @ dec (unat (time_precision_get precision)) @ lit '')''"
| "to_sql MsDateTime = lit ''datetime''"
| "to_sql (MsDateTime2 precision) = lit ''datetime2('' @ dec (unat precision) @ lit '')''"
| "to_sql (MsDateTimeOffset precision) =
     lit ''datetimeoffset('' @ dec (unat precision) @ lit '')''"

record mssql_column =
  column_name :: sql_identifier
  column_ty :: mssql_type
  column_nullable :: bool

definition column_to_sql :: "mssql_column \<Rightarrow> rstr" where
  "column_to_sql c =
     (let nullability = (if column_nullable c then lit ''NULL'' else lit ''NOT NULL'') in
      identifier_quoted_sql (column_name c) @ lit '' '' @ to_sql (column_ty c) @ lit '' ''
        @ nullability)"

text \<open>The loop of \<^verbatim>\<open>create_table_sql\<close> over \<^verbatim>\<open>columns.iter().enumerate()\<close>; \<^term>\<open>n\<close> is
  \<^verbatim>\<open>columns.len()\<close>.\<close>

primrec create_table_columns :: "usize \<Rightarrow> usize \<Rightarrow> mssql_column list \<Rightarrow> rstr \<Rightarrow> rstr" where
  "create_table_columns n index [] sql = sql"
| "create_table_columns n index (c # cs) sql =
     (let suffix = (if index + 1 = n then [] else lit '','') in
      create_table_columns n (index + 1) cs (sql @ [10] @ lit ''    '' @ column_to_sql c @ suffix))"

definition create_table_sql :: "table_name \<Rightarrow> mssql_column list \<Rightarrow> rstr" where
  "create_table_sql table columns =
     (let sql = lit ''CREATE TABLE '' @ table_quoted_sql table @ lit '' ('' in
      if columns = [] then sql @ [10] @ lit '');''
      else create_table_columns (length columns) 0 columns sql @ [10] @ lit '');'')"

subsection \<open>Rendering is injective\<close>

lemma dec_cancel:
  assumes "dec m @ c # r = dec n @ c' # r'" "\<not> (48 \<le> c \<and> c \<le> 57)" "\<not> (48 \<le> c' \<and> c' \<le> 57)"
  shows "m = n \<and> c # r = c' # r'"
proof -
  have "takeWhile (\<lambda>d. 48 \<le> d \<and> d \<le> 57) (dec k @ d # s) = dec k"
    if "\<not> (48 \<le> d \<and> d \<le> 57)" for k d s
    using that dec_digits by (subst takeWhile_append2) auto
  from this [OF assms(2)] this [OF assms(3)] assms(1) have "dec m = dec n"
    by (metis (lifting))
  with assms(1) show ?thesis by simp
qed

lemma dec_no_char: "\<not> (48 \<le> c \<and> c \<le> 57) \<Longrightarrow> c \<notin> set (dec n)"
  using dec_digits by blast

lemma dec_hd: "dec n = c # r \<Longrightarrow> 48 \<le> c \<and> c \<le> 57"
  using dec_digits [of c n] by simp

lemma dec_neq_Cons [simp]:
  "\<not> (48 \<le> c \<and> c \<le> 57) \<Longrightarrow> dec n \<noteq> c # r" "\<not> (48 \<le> c \<and> c \<le> 57) \<Longrightarrow> c # r \<noteq> dec n"
  by (auto dest: dec_hd dest: sym)

lemma dec_app_hd: "dec n @ s = c # r \<Longrightarrow> 48 \<le> c \<and> c \<le> 57"
  by (cases "dec n") (auto dest: dec_hd)

lemma dec_close_cancel: "dec m @ [41] = dec n @ [41] \<longleftrightarrow> m = n"
  by simp

lemma type_length_render_inject:
  "type_length_render l = type_length_render l' \<longleftrightarrow> l = l'"
  by (cases l; cases l') (auto simp: type_length_render_def lit_def dest: dec_app_hd)

lemma decimal_render_inject:
  "dec p @ 44 # dec_int s @ [41] = dec p' @ 44 # dec_int s' @ [41] \<longleftrightarrow> p = p' \<and> s = s'"
  using dec_cancel [of p 44 "dec_int s @ [41]" p' 44 "dec_int s' @ [41]"] by auto

lemma to_sql_inject: "to_sql t = to_sql t' \<longleftrightarrow> t = t'"
proof
  assume "to_sql t = to_sql t'"
  then show "t = t'"
    by (cases t; cases t')
      (simp_all add: lit_def type_length_render_inject decimal_render_inject word_read_inject
        mssql_time_precision.expand)
qed simp

text \<open>Cutting a rendered column, and a rendered column list, off a longer text.\<close>

lemma no_char_cancel:
  assumes "a @ c # r = b @ c # r'" "c \<notin> set a" "c \<notin> set b"
  shows "a = b \<and> r = r'"
proof -
  have cut: "takeWhile (\<lambda>d. d \<noteq> c) (x @ c # s) = x" if "c \<notin> set x" for x s
    using that by (subst takeWhile_append2) auto
  have "a = b" using cut [OF assms(2), of r] cut [OF assms(3), of r'] unfolding assms(1) by simp
  with assms(1) show ?thesis by simp
qed

lemma dec_int_no_space: "32 \<notin> set (dec_int s)"
  by (auto simp: dec_int_def dec_no_char)

lemma to_sql_no_space: "32 \<notin> set (to_sql t)"
  by (cases t) (auto simp: lit_def dec_no_char dec_int_no_space type_length_render_def
      split: mssql_type_length.split)

definition column_tail :: "mssql_column \<Rightarrow> rstr" where
  "column_tail c = to_sql (column_ty c) @ 32 # (if column_nullable c then lit ''NULL'' else lit ''NOT NULL'')"

lemma column_to_sql_split:
  "column_to_sql c = identifier_quoted_sql (column_name c) @ 32 # column_tail c"
  by (simp add: column_to_sql_def column_tail_def lit_def)

lemma column_to_sql_cancel:
  assumes "column_to_sql c @ d # r = column_to_sql c' @ d' # r'"
  shows "c = c' \<and> d # r = d' # r'"
proof -
  let ?null = "\<lambda>c. if column_nullable c then lit ''NULL'' else lit ''NOT NULL''"
  from assms have "bracket_quote (identifier_as_str (column_name c)) @ 32 # column_tail c @ d # r
      = bracket_quote (identifier_as_str (column_name c')) @ 32 # column_tail c' @ d' # r'"
    by (simp only: column_to_sql_split identifier_quoted_sql_def append_assoc append_Cons)
  from bracket_quote_cancel [OF this]
  have name: "identifier_as_str (column_name c) = identifier_as_str (column_name c')"
    and tail: "column_tail c @ d # r = column_tail c' @ d' # r'" by simp_all
  from tail have "to_sql (column_ty c) @ 32 # ?null c @ d # r
      = to_sql (column_ty c') @ 32 # ?null c' @ d' # r'"
    by (simp only: column_tail_def append_assoc append_Cons)
  from no_char_cancel [OF this to_sql_no_space to_sql_no_space]
  have "to_sql (column_ty c) = to_sql (column_ty c')"
    and "?null c @ d # r = ?null c' @ d' # r'" by blast+
  then have "column_nullable c = column_nullable c' \<and> d # r = d' # r'"
    by (auto simp: lit_def split: if_splits)
  with name \<open>to_sql (column_ty c) = to_sql (column_ty c')\<close> show ?thesis
    by (cases c; cases c') (auto simp: to_sql_inject intro: sql_identifier.expand)
qed

lemma column_to_sql_cancel_list:
  assumes "column_to_sql c @ xs = column_to_sql c' @ ys" "xs \<noteq> []" "ys \<noteq> []"
  shows "c = c' \<and> xs = ys"
  using assms column_to_sql_cancel [of c _ _ c'] by (cases xs; cases ys) blast+

lemma create_table_columns_prefix:
  "create_table_columns n k cs sql = sql @ create_table_columns n k cs []"
proof (induction cs arbitrary: k sql)
  case (Cons c cs)
  show ?case
    using Cons.IH [of "k + 1" "sql @ [10] @ lit ''    '' @ column_to_sql c @ (if k + 1 = n then [] else lit '','')"]
      Cons.IH [of "k + 1" "[10] @ lit ''    '' @ column_to_sql c @ (if k + 1 = n then [] else lit '','')"]
    by (simp add: Let_def)
qed simp

lemma create_table_columns_cancel:
  assumes "create_table_columns (k + length cs) k cs [] @ 10 # r
         = create_table_columns (k' + length cs') k' cs' [] @ 10 # r'"
    and "cs \<noteq> []" "cs' \<noteq> []"
  shows "cs = cs' \<and> r = r'"
  using assms
proof (induction cs arbitrary: k k' cs')
  case (Cons c cs)
  from Cons.prems obtain c' ds where cs': "cs' = c' # ds" by (cases cs') auto
  let ?tail = "\<lambda>k cs. create_table_columns (k + length cs) k cs []"
  have unroll: "create_table_columns (j + length (b # bs)) j (b # bs) [] @ 10 # s
      = 10 # lit ''    '' @ column_to_sql b @
          (if bs = [] then 10 # s else 44 # ?tail (Suc j) bs @ 10 # s)" for j b bs s
    by (subst create_table_columns.simps, subst create_table_columns_prefix)
      (auto simp: lit_def Let_def)
  have eq: "column_to_sql c @ (if cs = [] then 10 # r else 44 # ?tail (Suc k) cs @ 10 # r)
      = column_to_sql c' @ (if ds = [] then 10 # r' else 44 # ?tail (Suc k') ds @ 10 # r')"
    using Cons.prems(1) unfolding cs' unroll by (simp add: lit_def)
  have "c = c' \<and> (if cs = [] then 10 # r else 44 # ?tail (Suc k) cs @ 10 # r)
      = (if ds = [] then 10 # r' else 44 # ?tail (Suc k') ds @ 10 # r')"
    by (rule column_to_sql_cancel_list [OF eq]) simp_all
  then have "c = c'" and rest: "(if cs = [] then 10 # r else 44 # ?tail (Suc k) cs @ 10 # r)
      = (if ds = [] then 10 # r' else 44 # ?tail (Suc k') ds @ 10 # r')" by blast+
  show ?case
  proof (cases "cs = [] \<or> ds = []")
    case True
    with rest \<open>c = c'\<close> cs' show ?thesis by (auto split: if_splits)
  next
    case False
    with rest Cons.IH [of "Suc k" "Suc k'" ds] \<open>c = c'\<close> cs' show ?thesis by simp
  qed
qed simp

text \<open>C30: the rendered DDL determines the plan. Two calls of
  \<^verbatim>\<open>create_table_sql\<close> that give the same text were made with the same table name and the
  same columns: names, types, nullability and order.\<close>

theorem create_table_sql_inject:
  "create_table_sql t cs = create_table_sql t' cs' \<longleftrightarrow> t = t' \<and> cs = cs'"
proof
  let ?body = "\<lambda>cs. (if cs = [] then [] else create_table_columns (length cs) 0 cs [])"
  have form: "create_table_sql u ds
      = lit ''CREATE TABLE '' @ table_quoted_sql u @ 32 # 40 # ?body ds @ 10 # lit '');''" for u ds
    by (subst create_table_sql_def, subst create_table_columns_prefix) (simp add: lit_def Let_def)
  assume "create_table_sql t cs = create_table_sql t' cs'"
  then have "table_quoted_sql t @ 32 # 40 # ?body cs @ 10 # lit '');''
      = table_quoted_sql t' @ 32 # 40 # ?body cs' @ 10 # lit '');''"
    by (simp only: form append_same_eq same_append_eq)
  from table_quoted_sql_cancel [OF this]
  have "t = t'" and body: "?body cs @ 10 # lit '');'' = ?body cs' @ 10 # lit '');''" by auto
  have first: "length (?body ds) \<noteq> 0" if "ds \<noteq> []" for ds
    using that by (cases ds) (simp_all add: Let_def create_table_columns_prefix [of _ _ _ "_ # _"])
  have "cs = cs'"
  proof (cases "cs = [] \<or> cs' = []")
    case True
    have "length (?body cs) = length (?body cs')" using arg_cong [OF body, of length] by simp
    with True first show ?thesis by (metis list.size(3))
  next
    case False
    with body create_table_columns_cancel [of 0 cs "lit '');''" 0 cs' "lit '');''"]
    show ?thesis by simp
  qed
  with \<open>t = t'\<close> show "t = t' \<and> cs = cs'" by simp
qed simp

end
