(* ===== verification/Profiles.thy ===== *)
theory Profiles
  imports Errors
begin

text \<open>
  SQL Server profiles (\<^verbatim>\<open>src/mssql/profile.rs\<close>), planning policies (\<^verbatim>\<open>src/write/policy.rs\<close>)
  and the runtime conversion context (\<^verbatim>\<open>src/write/context.rs\<close>).
\<close>

subsection \<open>Versions and compatibility levels\<close>

datatype compatibility_level = CompatibilityLevel (level_as_u16: u16)

text \<open>\<^verbatim>\<open>CompatibilityLevel\<close> derives \<^verbatim>\<open>PartialOrd\<close> and \<^verbatim>\<open>Ord\<close>: the order of its number.\<close>

instantiation compatibility_level :: linorder
begin

definition less_eq_compatibility_level :: "compatibility_level \<Rightarrow> compatibility_level \<Rightarrow> bool" where
  "a \<le> b \<longleftrightarrow> level_as_u16 a \<le> level_as_u16 b"

definition less_compatibility_level :: "compatibility_level \<Rightarrow> compatibility_level \<Rightarrow> bool" where
  "a < b \<longleftrightarrow> level_as_u16 a < level_as_u16 b"

instance
  by standard (auto simp: less_eq_compatibility_level_def less_compatibility_level_def
      intro: compatibility_level.expand)

end

definition level_is_supported :: "u16 \<Rightarrow> bool" where
  "level_is_supported level \<longleftrightarrow> level \<in> {100, 110, 120, 130, 140, 150, 160, 170}"

definition compatibility_level_new :: "u16 \<Rightarrow> error + compatibility_level" where
  "compatibility_level_new level =
     (if \<not> level_is_supported level then Err (InvalidCompatibilityLevel level)
      else Ok (CompatibilityLevel level))"

fun default_compatibility_level :: "mssql_version \<Rightarrow> compatibility_level" where
  "default_compatibility_level SqlServer2016 = CompatibilityLevel 130"
| "default_compatibility_level SqlServer2017 = CompatibilityLevel 140"
| "default_compatibility_level SqlServer2019 = CompatibilityLevel 150"
| "default_compatibility_level SqlServer2022 = CompatibilityLevel 160"
| "default_compatibility_level SqlServer2025 = CompatibilityLevel 170"

fun supports_compatibility_level :: "mssql_version \<Rightarrow> compatibility_level \<Rightarrow> bool" where
  "supports_compatibility_level SqlServer2016 l = (level_as_u16 l \<le> 130)"
| "supports_compatibility_level SqlServer2017 l = (level_as_u16 l \<le> 140)"
| "supports_compatibility_level SqlServer2019 l = (level_as_u16 l \<le> 150)"
| "supports_compatibility_level SqlServer2022 l = (level_as_u16 l \<le> 160)"
| "supports_compatibility_level SqlServer2025 l = (level_as_u16 l \<le> 170)"

record mssql_profile =
  profile_version :: mssql_version
  profile_level :: compatibility_level

datatype datetime_rounding = LegacyPre130 | Compat130Plus

definition mssql_profile_new :: "mssql_version \<Rightarrow> compatibility_level \<Rightarrow> error + mssql_profile" where
  "mssql_profile_new v l =
     (if \<not> supports_compatibility_level v l
      then Err (UnsupportedCompatibilityLevel v (level_as_u16 l))
      else Ok \<lparr>profile_version = v, profile_level = l\<rparr>)"

definition sql_server_2016_compat_100 :: mssql_profile where
  "sql_server_2016_compat_100 =
     \<lparr>profile_version = SqlServer2016, profile_level = CompatibilityLevel 100\<rparr>"

definition sql_server_2017_compat_100 :: mssql_profile where
  "sql_server_2017_compat_100 =
     \<lparr>profile_version = SqlServer2017, profile_level = CompatibilityLevel 100\<rparr>"

definition sql_server_2017_compat_110 :: mssql_profile where
  "sql_server_2017_compat_110 =
     \<lparr>profile_version = SqlServer2017, profile_level = CompatibilityLevel 110\<rparr>"

definition sql_server_2017_compat_120 :: mssql_profile where
  "sql_server_2017_compat_120 =
     \<lparr>profile_version = SqlServer2017, profile_level = CompatibilityLevel 120\<rparr>"

definition sql_server_2017_compat_130 :: mssql_profile where
  "sql_server_2017_compat_130 =
     \<lparr>profile_version = SqlServer2017, profile_level = CompatibilityLevel 130\<rparr>"

definition sql_server_2017_compat_140 :: mssql_profile where
  "sql_server_2017_compat_140 =
     \<lparr>profile_version = SqlServer2017, profile_level = CompatibilityLevel 140\<rparr>"

definition profile_datetime_rounding :: "mssql_profile \<Rightarrow> datetime_rounding" where
  "profile_datetime_rounding p =
     (if level_as_u16 (profile_level p) < 130 then LegacyPre130 else Compat130Plus)"

subsection \<open>Policies\<close>

datatype string_policy = PolNVarCharMax | PolNVarChar usize | ObservedNVarChar
datatype binary_policy = PolVarBinaryMax | PolVarBinary usize | ObservedVarBinary
datatype timestamp_policy = PolDateTime2 u8 | PolDateTime
datatype timezone_policy = RejectTimezone | PolDateTimeOffset | NormalizeUtcDateTime2
datatype nanosecond_policy = RejectNon100ns | RoundTo100ns | TruncateTo100ns
datatype uint64_policy = RejectUInt64 | PolDecimal20_0 | PolCheckedBigInt
datatype decimal_policy = RejectNegativeScale | NormalizeNegativeScale
datatype decimal256_policy = CheckedDowncast | RejectDecimal256
datatype float_policy = RejectNonFinite
datatype date64_policy = RejectNonMidnight | TimestampDateTime2
datatype schema_check = StrictCheck

record plan_options =
  string_policy :: string_policy
  binary_policy :: binary_policy
  timezone_policy :: timezone_policy
  timestamp_policy :: timestamp_policy
  nanosecond_policy :: nanosecond_policy
  uint64_policy :: uint64_policy
  decimal_policy :: decimal_policy
  decimal256_policy :: decimal256_policy
  float_policy :: float_policy
  date64_policy :: date64_policy

definition plan_options_default :: plan_options where
  "plan_options_default =
     \<lparr>string_policy = PolNVarCharMax, binary_policy = PolVarBinaryMax,
      timezone_policy = RejectTimezone, timestamp_policy = PolDateTime2 7,
      nanosecond_policy = RejectNon100ns, uint64_policy = RejectUInt64,
      decimal_policy = RejectNegativeScale, decimal256_policy = CheckedDowncast,
      float_policy = RejectNonFinite, date64_policy = RejectNonMidnight\<rparr>"

record runtime_context =
  context_profile :: mssql_profile
  context_options :: plan_options

definition context_nanosecond_policy :: "runtime_context \<Rightarrow> nanosecond_policy" where
  "context_nanosecond_policy c = nanosecond_policy (context_options c)"

definition context_datetime_rounding :: "runtime_context \<Rightarrow> datetime_rounding" where
  "context_datetime_rounding c = profile_datetime_rounding (context_profile c)"

subsection \<open>Properties\<close>

lemma supports_iff_default: "supports_compatibility_level v l \<longleftrightarrow> l \<le> default_compatibility_level v"
  by (cases v) (simp_all add: less_eq_compatibility_level_def)

text \<open>compatibility_profile_contract: a profile can be built for exactly the validated levels
  up to the default level of its engine version, the level is stored unchanged, and the profile
  selects the legacy \<^verbatim>\<open>datetime\<close> rounding exactly for levels 100, 110 and 120.\<close>

theorem compatibility_profile_contract:
  assumes "compatibility_level_new n = Ok l"
  shows "mssql_profile_new v l =
      (if l \<le> default_compatibility_level v then Ok \<lparr>profile_version = v, profile_level = l\<rparr>
       else Err (UnsupportedCompatibilityLevel v n))
    \<and> (profile_datetime_rounding \<lparr>profile_version = v, profile_level = l\<rparr> = LegacyPre130
        \<longleftrightarrow> n \<in> {100, 110, 120})"
proof -
  from assms have n: "level_as_u16 l = n" "level_is_supported n"
    by (auto simp: compatibility_level_new_def split: if_splits)
  then have "profile_datetime_rounding \<lparr>profile_version = v, profile_level = l\<rparr> = LegacyPre130
        \<longleftrightarrow> n \<in> {100, 110, 120}"
    by (auto simp: profile_datetime_rounding_def level_is_supported_def split: if_splits)
  then show ?thesis by (simp add: mssql_profile_new_def supports_iff_default n)
qed

theorem compatibility_profile_contract_witness:
  "mssql_profile_new SqlServer2017 (CompatibilityLevel 120)
     = Ok \<lparr>profile_version = SqlServer2017, profile_level = CompatibilityLevel 120\<rparr>
   \<and> mssql_profile_new SqlServer2016 (CompatibilityLevel 140)
     = Err (UnsupportedCompatibilityLevel SqlServer2016 140)
   \<and> profile_datetime_rounding
       \<lparr>profile_version = SqlServer2017, profile_level = CompatibilityLevel 120\<rparr> = LegacyPre130"
proof -
  have lv: "compatibility_level_new 120 = Ok (CompatibilityLevel 120)"
    "compatibility_level_new 140 = Ok (CompatibilityLevel 140)"
    by (simp_all add: compatibility_level_new_def level_is_supported_def)
  show ?thesis
    using compatibility_profile_contract [OF lv(1), of SqlServer2017]
      compatibility_profile_contract [OF lv(2), of SqlServer2016]
    by (simp add: less_eq_compatibility_level_def)
qed

end
