(* ===== verification/ArrowTypes.thy ===== *)
theory ArrowTypes
  imports MssqlTypes Profiles
begin

text \<open>
  Arrow schema metadata (\<^verbatim>\<open>src/arrow/field.rs\<close>) and the mapping of one Arrow field to one SQL
  Server column (\<^verbatim>\<open>src/schema/mapping.rs\<close>), with the diagnostics that every conversion
  attaches to a mapping.

  \<^verbatim>\<open>DataType\<close> and \<^verbatim>\<open>Field\<close> come from \<^verbatim>\<open>arrow_schema\<close>: the model has the constructors the
  sources match on. The child types of nested and encoded types are never looked into and are
  an opaque identity here.
\<close>

datatype time_unit = Second | Millisecond | Microsecond | Nanosecond

type_synonym nested_type = nat

datatype data_type =
    DtNull
  | DtBoolean
  | DtInt8 | DtInt16 | DtInt32 | DtInt64
  | DtUInt8 | DtUInt16 | DtUInt32 | DtUInt64
  | DtFloat16 | DtFloat32 | DtFloat64
  | DtTimestamp time_unit "rstr option"
  | DtDate32 | DtDate64
  | DtTime32 time_unit | DtTime64 time_unit
  | DtDuration time_unit
  | DtInterval nat
  | DtBinary | DtFixedSizeBinary i32 | DtLargeBinary | DtBinaryView
  | DtUtf8 | DtLargeUtf8 | DtUtf8View
  | DtList nested_type | DtListView nested_type | DtFixedSizeList nested_type i32
  | DtLargeList nested_type | DtLargeListView nested_type
  | DtStruct nested_type | DtUnion nested_type | DtMap nested_type bool
  | DtDictionary nested_type | DtRunEndEncoded nested_type
  | DtDecimal32 u8 i8 | DtDecimal64 u8 i8 | DtDecimal128 u8 i8 | DtDecimal256 u8 i8

record arrow_field =
  field_name :: rstr
  field_data_type :: data_type
  field_nullable :: bool

record arrow_field_ref =
  arrow_index :: usize
  arrow_name :: rstr
  arrow_nullable :: bool
  arrow_data_type :: data_type

definition is_arrow_string_family :: "data_type \<Rightarrow> bool" where
  "is_arrow_string_family t \<longleftrightarrow>
     (case t of DtUtf8 \<Rightarrow> True | DtLargeUtf8 \<Rightarrow> True | DtUtf8View \<Rightarrow> True | _ \<Rightarrow> False)"

definition is_arrow_binary_family :: "data_type \<Rightarrow> bool" where
  "is_arrow_binary_family t \<longleftrightarrow>
     (case t of DtBinary \<Rightarrow> True | DtLargeBinary \<Rightarrow> True | DtBinaryView \<Rightarrow> True | _ \<Rightarrow> False)"

record schema_mapping =
  mapping_arrow :: arrow_field_ref
  mapping_mssql :: mssql_column

abbreviation source_type :: "schema_mapping \<Rightarrow> data_type" where
  "source_type m \<equiv> arrow_data_type (mapping_arrow m)"

abbreviation target_type :: "schema_mapping \<Rightarrow> mssql_type" where
  "target_type m \<equiv> column_ty (mapping_mssql m)"

definition mapping_field_ref :: "schema_mapping \<Rightarrow> field_ref" where
  "mapping_field_ref m =
     \<lparr>ref_index = arrow_index (mapping_arrow m), ref_name = arrow_name (mapping_arrow m)\<rparr>"

definition mapping_diagnostic :: "schema_mapping \<Rightarrow> diagnostic_code \<Rightarrow> diagnostic" where
  "mapping_diagnostic m code = with_field (diagnostic_error code) (mapping_field_ref m)"

definition row_mapping_diagnostic :: "schema_mapping \<Rightarrow> usize \<Rightarrow> diagnostic_code \<Rightarrow> diagnostic" where
  "row_mapping_diagnostic m row code = with_row (mapping_diagnostic m code) row"

definition value_conversion_error :: "diagnostic \<Rightarrow> error" where
  "value_conversion_error d = ValueConversion [d]"

abbreviation conversion_error :: "schema_mapping \<Rightarrow> usize \<Rightarrow> diagnostic_code \<Rightarrow> error" where
  "conversion_error m row code \<equiv> value_conversion_error (row_mapping_diagnostic m row code)"

lemma conversion_error_inject:
  "conversion_error m row code = conversion_error m row code' \<longleftrightarrow> code = code'"
proof
  assume "conversion_error m row code = conversion_error m row code'"
  then have "diag_code (row_mapping_diagnostic m row code) = diag_code (row_mapping_diagnostic m row code')"
    by (simp add: value_conversion_error_def)
  then show "code = code'" by (simp add: row_mapping_diagnostic_def mapping_diagnostic_def)
qed simp

text \<open>An error of the conversion of one value: one diagnostic that names the column and row.\<close>

definition located_conversion_error :: "schema_mapping \<Rightarrow> usize \<Rightarrow> error \<Rightarrow> bool" where
  "located_conversion_error m row e \<longleftrightarrow> (\<exists>code. e = conversion_error m row code)"

lemma located_conversion_error [simp]: "located_conversion_error m row (conversion_error m row code)"
  by (auto simp: located_conversion_error_def)

end
