(* ===== verification/Planning.thy ===== *)
theory Planning
  imports ArrowTypes
begin

text \<open>
  Schema planning: \<^verbatim>\<open>src/schema/type_conversion.rs\<close> (the SQL Server type of one Arrow type under
  the planning policies) and \<^verbatim>\<open>src/schema/table_mapping.rs\<close> (a whole schema).
\<close>

definition SQL_SERVER_MAX_DECIMAL_PRECISION :: u8 where
  "SQL_SERVER_MAX_DECIMAL_PRECISION = 38"

definition SQL_SERVER_MAX_BINARY_LEN :: usize where
  "SQL_SERVER_MAX_BINARY_LEN = 8000"

definition field_diagnostic :: "diagnostic_code \<Rightarrow> usize \<Rightarrow> arrow_field \<Rightarrow> diagnostic" where
  "field_diagnostic code index field =
     with_field (diagnostic_error code) \<lparr>ref_index = index, ref_name = field_name field\<rparr>"

definition policy_required :: "usize \<Rightarrow> arrow_field \<Rightarrow> diagnostic" where
  "policy_required index field = field_diagnostic ProfileDependentConversion index field"

definition observed_data_required :: "usize \<Rightarrow> arrow_field \<Rightarrow> diagnostic" where
  "observed_data_required index field = field_diagnostic ObservedDataRequired index field"

definition decimal_out_of_range :: "usize \<Rightarrow> arrow_field \<Rightarrow> diagnostic" where
  "decimal_out_of_range index field = field_diagnostic DecimalOutOfRange index field"

definition fixed_size_binary_out_of_range :: "usize \<Rightarrow> arrow_field \<Rightarrow> diagnostic" where
  "fixed_size_binary_out_of_range index field = field_diagnostic UnsupportedArrowType index field"

definition unsupported_arrow_type :: "usize \<Rightarrow> arrow_field \<Rightarrow> diagnostic" where
  "unsupported_arrow_type index field = field_diagnostic UnsupportedArrowType index field"

definition plan_arrow_uint64 :: "uint64_policy \<Rightarrow> usize \<Rightarrow> arrow_field \<Rightarrow> diagnostic + mssql_type" where
  "plan_arrow_uint64 policy index field =
     (case policy of
        RejectUInt64 \<Rightarrow> Err (policy_required index field)
      | PolDecimal20_0 \<Rightarrow> Ok (MsDecimal 20 0)
      | PolCheckedBigInt \<Rightarrow> Ok MsBigInt)"

definition plan_arrow_string :: "string_policy \<Rightarrow> usize \<Rightarrow> arrow_field \<Rightarrow> diagnostic + mssql_type" where
  "plan_arrow_string policy index field =
     (case policy of
        PolNVarCharMax \<Rightarrow> Ok (MsNVarChar MaxLength)
      | PolNVarChar n \<Rightarrow> Ok (MsNVarChar (Bounded n))
      | ObservedNVarChar \<Rightarrow> Err (observed_data_required index field))"

definition plan_arrow_binary :: "binary_policy \<Rightarrow> usize \<Rightarrow> arrow_field \<Rightarrow> diagnostic + mssql_type" where
  "plan_arrow_binary policy index field =
     (case policy of
        PolVarBinaryMax \<Rightarrow> Ok (MsVarBinary MaxLength)
      | PolVarBinary n \<Rightarrow> Ok (MsVarBinary (Bounded n))
      | ObservedVarBinary \<Rightarrow> Err (observed_data_required index field))"

text \<open>\<^verbatim>\<open>usize::try_from\<close> of the \<^verbatim>\<open>i32\<close> length fails exactly on negative lengths.\<close>

definition plan_arrow_fixed_size_binary :: "i32 \<Rightarrow> usize \<Rightarrow> arrow_field \<Rightarrow> diagnostic + mssql_type" where
  "plan_arrow_fixed_size_binary n index field =
     (if sint n < 0 then Err (fixed_size_binary_out_of_range index field)
      else let len = nat (sint n) in
        if \<not> (1 \<le> len \<and> len \<le> SQL_SERVER_MAX_BINARY_LEN)
        then Err (fixed_size_binary_out_of_range index field)
        else Ok (MsBinary len))"

definition normalize_arrow_decimal_shape ::
    "u8 \<Rightarrow> i8 \<Rightarrow> decimal_policy \<Rightarrow> usize \<Rightarrow> arrow_field \<Rightarrow> diagnostic + (u8 \<times> i8)" where
  "normalize_arrow_decimal_shape precision scale policy index field =
     (if precision = 0 then Err (decimal_out_of_range index field)
      else and_then
        (if sint scale < 0 then
           (case policy of
              RejectNegativeScale \<Rightarrow> Err (policy_required index field)
            | NormalizeNegativeScale \<Rightarrow>
                map_ok (\<lambda>p. (p, 0)) (ok_or (decimal_out_of_range index field)
                  (try_unsigned (uint precision + \<bar>sint scale\<bar>))))
         else Ok (precision, scale))
        (\<lambda>(p, s).
          if p > SQL_SERVER_MAX_DECIMAL_PRECISION then Err (decimal_out_of_range index field)
          else and_then (ok_or (decimal_out_of_range index field) (try_unsigned (sint s)))
            (\<lambda>scale_as_u8 :: u8.
              if scale_as_u8 > p then Err (decimal_out_of_range index field) else Ok (p, s))))"

definition plan_arrow_decimal ::
    "u8 \<Rightarrow> i8 \<Rightarrow> decimal_policy \<Rightarrow> usize \<Rightarrow> arrow_field \<Rightarrow> diagnostic + mssql_type" where
  "plan_arrow_decimal precision scale policy index field =
     map_ok (\<lambda>(p, s). MsDecimal p s)
       (normalize_arrow_decimal_shape precision scale policy index field)"

definition plan_arrow_decimal256 ::
    "u8 \<Rightarrow> i8 \<Rightarrow> decimal_policy \<Rightarrow> decimal256_policy \<Rightarrow> usize \<Rightarrow> arrow_field \<Rightarrow> diagnostic + mssql_type" where
  "plan_arrow_decimal256 precision scale policy policy256 index field =
     (case policy256 of
        CheckedDowncast \<Rightarrow> plan_arrow_decimal precision scale policy index field
      | RejectDecimal256 \<Rightarrow> Err (policy_required index field))"

definition plan_arrow_date64 :: "date64_policy \<Rightarrow> usize \<Rightarrow> arrow_field \<Rightarrow> diagnostic + mssql_type" where
  "plan_arrow_date64 policy index field =
     (case policy of
        RejectNonMidnight \<Rightarrow> Err (observed_data_required index field)
      | TimestampDateTime2 \<Rightarrow> Ok (MsDateTime2 3))"

definition plan_timestamp_policy :: "timestamp_policy \<Rightarrow> usize \<Rightarrow> arrow_field \<Rightarrow> diagnostic + mssql_type" where
  "plan_timestamp_policy policy index field =
     (case policy of
        PolDateTime \<Rightarrow> Ok MsDateTime
      | PolDateTime2 precision \<Rightarrow>
          if precision \<le> 7 then Ok (MsDateTime2 precision) else Err (policy_required index field))"

definition has_timezone :: "rstr option \<Rightarrow> bool" where
  "has_timezone tz \<longleftrightarrow> (case tz of None \<Rightarrow> False | Some s \<Rightarrow> s \<noteq> [])"

definition plan_arrow_timestamp ::
    "rstr option \<Rightarrow> timezone_policy \<Rightarrow> timestamp_policy \<Rightarrow> usize \<Rightarrow> arrow_field \<Rightarrow> diagnostic + mssql_type" where
  "plan_arrow_timestamp tz tz_policy ts_policy index field =
     (if has_timezone tz \<and> tz_policy = RejectTimezone then Err (policy_required index field)
      else if has_timezone tz \<and> tz_policy = PolDateTimeOffset then Ok (MsDateTimeOffset 7)
      else plan_timestamp_policy ts_policy index field)"

definition plan_arrow_data_type ::
    "usize \<Rightarrow> arrow_field \<Rightarrow> plan_options \<Rightarrow> diagnostic + mssql_type" where
  "plan_arrow_data_type index field options =
     (case field_data_type field of
        DtBoolean \<Rightarrow> Ok MsBit
      | DtInt8 \<Rightarrow> Ok MsSmallInt
      | DtInt16 \<Rightarrow> Ok MsSmallInt
      | DtInt32 \<Rightarrow> Ok MsInt
      | DtInt64 \<Rightarrow> Ok MsBigInt
      | DtUInt8 \<Rightarrow> Ok MsTinyInt
      | DtUInt16 \<Rightarrow> Ok MsInt
      | DtUInt32 \<Rightarrow> Ok MsBigInt
      | DtUInt64 \<Rightarrow> plan_arrow_uint64 (uint64_policy options) index field
      | DtFloat16 \<Rightarrow> Ok MsReal
      | DtFloat32 \<Rightarrow> Ok MsReal
      | DtFloat64 \<Rightarrow> Ok (MsFloat 53)
      | DtUtf8 \<Rightarrow> plan_arrow_string (string_policy options) index field
      | DtLargeUtf8 \<Rightarrow> plan_arrow_string (string_policy options) index field
      | DtUtf8View \<Rightarrow> plan_arrow_string (string_policy options) index field
      | DtBinary \<Rightarrow> plan_arrow_binary (binary_policy options) index field
      | DtLargeBinary \<Rightarrow> plan_arrow_binary (binary_policy options) index field
      | DtBinaryView \<Rightarrow> plan_arrow_binary (binary_policy options) index field
      | DtFixedSizeBinary n \<Rightarrow> plan_arrow_fixed_size_binary n index field
      | DtDecimal32 p s \<Rightarrow> plan_arrow_decimal p s (decimal_policy options) index field
      | DtDecimal64 p s \<Rightarrow> plan_arrow_decimal p s (decimal_policy options) index field
      | DtDecimal128 p s \<Rightarrow> plan_arrow_decimal p s (decimal_policy options) index field
      | DtDecimal256 p s \<Rightarrow>
          plan_arrow_decimal256 p s (decimal_policy options) (decimal256_policy options) index field
      | DtDate32 \<Rightarrow> Ok MsDate
      | DtDate64 \<Rightarrow> plan_arrow_date64 (date64_policy options) index field
      | DtTime32 u \<Rightarrow>
          (case u of Second \<Rightarrow> Ok (MsTime (MssqlTimePrecision 0))
           | Millisecond \<Rightarrow> Ok (MsTime (MssqlTimePrecision 3))
           | _ \<Rightarrow> Err (unsupported_arrow_type index field))
      | DtTime64 u \<Rightarrow>
          (case u of Microsecond \<Rightarrow> Ok (MsTime (MssqlTimePrecision 6))
           | Nanosecond \<Rightarrow> Ok (MsTime (MssqlTimePrecision 7))
           | _ \<Rightarrow> Err (unsupported_arrow_type index field))
      | DtTimestamp _ tz \<Rightarrow>
          plan_arrow_timestamp tz (timezone_policy options) (timestamp_policy options) index field
      | _ \<Rightarrow> Err (unsupported_arrow_type index field))"

subsection \<open>A whole schema\<close>

record planned_schema =
  planned_profile :: mssql_profile
  planned_options :: plan_options
  planned_mappings :: "schema_mapping list"

definition plan_arrow_field :: "usize \<Rightarrow> arrow_field \<Rightarrow> plan_options \<Rightarrow> diagnostic + schema_mapping" where
  "plan_arrow_field index field options =
     and_then (map_err (\<lambda>_. field_diagnostic IdentifierInvalid index field)
                (identifier_new (field_name field))) (\<lambda>name.
     and_then (plan_arrow_data_type index field options) (\<lambda>ty.
       Ok \<lparr>mapping_arrow = \<lparr>arrow_index = index, arrow_name = field_name field,
             arrow_nullable = field_nullable field, arrow_data_type = field_data_type field\<rparr>,
           mapping_mssql = \<lparr>column_name = name, column_ty = ty,
             column_nullable = field_nullable field\<rparr>\<rparr>))"

text \<open>The loop over \<^verbatim>\<open>schema.fields().iter().enumerate()\<close>; it never stops early.\<close>

primrec plan_fields ::
    "plan_options \<Rightarrow> usize \<Rightarrow> arrow_field list \<Rightarrow> schema_mapping list \<times> diagnostic_set
      \<Rightarrow> schema_mapping list \<times> diagnostic_set" where
  "plan_fields options index [] acc = acc"
| "plan_fields options index (f # fs) acc =
     plan_fields options (index + 1) fs
       (case plan_arrow_field index f options of
          Inr m \<Rightarrow> (fst acc @ [m], snd acc)
        | Inl d \<Rightarrow> (fst acc, diagnostics_push (snd acc) d))"

definition plan_arrow_schema_inner ::
    "arrow_field list \<Rightarrow> mssql_profile \<Rightarrow> plan_options \<Rightarrow> error + planned_schema plan_outcome" where
  "plan_arrow_schema_inner fs profile options =
     (let (mappings, diagnostics) = plan_fields options 0 fs ([], []) in
      if has_errors diagnostics then Err (Planning diagnostics)
      else Ok \<lparr>outcome_value = \<lparr>planned_profile = profile, planned_options = options,
                 planned_mappings = mappings\<rparr>,
               outcome_diagnostics = diagnostics\<rparr>)"

text \<open>The public entry point adds tracing, which passes the result through.\<close>

definition plan_arrow_schema_to_mssql_schema ::
    "arrow_field list \<Rightarrow> mssql_profile \<Rightarrow> plan_options \<Rightarrow> error + planned_schema plan_outcome" where
  "plan_arrow_schema_to_mssql_schema fs profile options =
     plan_arrow_schema_inner fs profile options"

definition mssql_columns_from_mappings :: "schema_mapping list \<Rightarrow> mssql_column list" where
  "mssql_columns_from_mappings ms = map mapping_mssql ms"

definition create_table_sql_from_mappings :: "table_name \<Rightarrow> schema_mapping list \<Rightarrow> rstr" where
  "create_table_sql_from_mappings table ms = create_table_sql table (mssql_columns_from_mappings ms)"

subsection \<open>What planning promises\<close>

text \<open>The SQL Server types planning may choose: \<^verbatim>\<open>decimal(p,s)\<close> with \<^verbatim>\<open>1 <= p <= 38\<close> and
  \<^verbatim>\<open>0 <= s <= p\<close>, \<^verbatim>\<open>binary(1..8000)\<close>, fractional precisions up to 7.\<close>

fun valid_mssql_type :: "mssql_type \<Rightarrow> bool" where
  "valid_mssql_type (MsDecimal p s) = (1 \<le> uint p \<and> uint p \<le> 38 \<and> 0 \<le> sint s \<and> sint s \<le> uint p)"
| "valid_mssql_type (MsBinary n) = (1 \<le> n \<and> n \<le> 8000)"
| "valid_mssql_type (MsFloat p) = (p = 53)"
| "valid_mssql_type (MsTime p) = (time_precision_get p \<le> 7)"
| "valid_mssql_type (MsDateTime2 p) = (p \<le> 7)"
| "valid_mssql_type (MsDateTimeOffset p) = (p = 7)"
| "valid_mssql_type _ = True"

lemma normalize_arrow_decimal_shape_Ok:
  assumes "normalize_arrow_decimal_shape p s policy index field = Ok (p', s')"
  shows "1 \<le> uint p' \<and> uint p' \<le> 38 \<and> 0 \<le> sint s' \<and> sint s' \<le> uint p'
    \<and> (if sint s < 0 then policy = NormalizeNegativeScale \<and> s' = 0 \<and> uint p' = uint p - sint s
       else p' = p \<and> s' = s)"
proof -
  from assms have "p \<noteq> 0" by (auto simp: normalize_arrow_decimal_shape_def)
  then have "uint p \<noteq> 0" by (simp add: unsigned_eq_0_iff)
  moreover have "0 \<le> uint p" by simp
  ultimately have p1: "1 \<le> uint p" by linarith
  show ?thesis
  proof (cases "sint s < 0")
    case True
    with assms \<open>p \<noteq> 0\<close> have "policy = NormalizeNegativeScale" and "s' = 0"
      and "in_unsigned 8 (uint p - sint s)" and "uint p' = uint p - sint s" and "\<not> p' > 38"
      by (auto simp: normalize_arrow_decimal_shape_def result_simps try_unsigned_Some
          SQL_SERVER_MAX_DECIMAL_PRECISION_def split: decimal_policy.splits if_splits)
    with True p1 show ?thesis by (simp add: word_less_def)
  next
    case False
    with assms \<open>p \<noteq> 0\<close> obtain k :: u8 where "p' = p" "s' = s" "uint k = sint s" "\<not> k > p" "\<not> p > 38"
      by (auto simp: normalize_arrow_decimal_shape_def result_simps try_unsigned_Some
          SQL_SERVER_MAX_DECIMAL_PRECISION_def split: if_splits)
    with False p1 show ?thesis by (simp add: word_less_def)
  qed
qed

lemma plan_arrow_decimal_Ok:
  "plan_arrow_decimal p s policy index field = Ok ty \<Longrightarrow> valid_mssql_type ty"
  by (auto simp: plan_arrow_decimal_def result_simps dest!: normalize_arrow_decimal_shape_Ok)

lemmas plan_cases = plan_arrow_uint64_def plan_arrow_string_def plan_arrow_binary_def
  plan_arrow_fixed_size_binary_def plan_arrow_decimal256_def plan_arrow_date64_def
  plan_timestamp_policy_def plan_arrow_timestamp_def Let_def

lemmas plan_splits = data_type.splits uint64_policy.splits string_policy.splits binary_policy.splits
  decimal256_policy.splits date64_policy.splits timestamp_policy.splits time_unit.splits if_splits

lemma plan_arrow_data_type_valid:
  assumes "plan_arrow_data_type index field options = Ok ty"
  shows "valid_mssql_type ty"
  using assms
  by (auto simp: plan_arrow_data_type_def plan_cases SQL_SERVER_MAX_BINARY_LEN_def
      dest: plan_arrow_decimal_Ok split: plan_splits)

lemma field_diagnostic_fields [simp]:
  "diag_severity (field_diagnostic code index field) = SevError"
  "diag_field (field_diagnostic code index field) = Some \<lparr>ref_index = index, ref_name = field_name field\<rparr>"
  "diag_row (field_diagnostic code index field) = None"
  by (simp_all add: field_diagnostic_def)

lemmas planning_diagnostics = policy_required_def observed_data_required_def decimal_out_of_range_def
  fixed_size_binary_out_of_range_def unsupported_arrow_type_def

text \<open>Every planning diagnostic is an error that names the field.\<close>

definition locates :: "usize \<Rightarrow> arrow_field \<Rightarrow> diagnostic \<Rightarrow> bool" where
  "locates index field d \<longleftrightarrow> (\<exists>code. d = field_diagnostic code index field)"

lemma locates_diagnostics [simp, intro!]:
  "locates index field (policy_required index field)"
  "locates index field (observed_data_required index field)"
  "locates index field (decimal_out_of_range index field)"
  "locates index field (fixed_size_binary_out_of_range index field)"
  "locates index field (unsupported_arrow_type index field)"
  "locates index field (field_diagnostic code index field)"
  by (auto simp: locates_def planning_diagnostics)

lemma plan_arrow_decimal_Err:
  "plan_arrow_decimal p s policy index field = Err d \<Longrightarrow> locates index field d"
  by (auto simp: plan_arrow_decimal_def normalize_arrow_decimal_shape_def result_simps
      split: decimal_policy.splits if_splits)

lemma plan_arrow_data_type_Err:
  assumes "plan_arrow_data_type index field options = Err d"
  shows "locates index field d"
  using assms
  by (auto simp: plan_arrow_data_type_def plan_cases dest: plan_arrow_decimal_Err split: plan_splits)

lemma plan_arrow_field_Err:
  "plan_arrow_field index field options = Err d \<Longrightarrow> locates index field d"
  by (auto simp: plan_arrow_field_def result_simps dest: plan_arrow_data_type_Err)

subsection \<open>Planning a schema, field by field\<close>

text \<open>The specification: every field is planned on its own, under its index.\<close>

definition planned_fields :: "plan_options \<Rightarrow> usize \<Rightarrow> arrow_field list \<Rightarrow> (diagnostic + schema_mapping) list" where
  "planned_fields options k fs =
     map (\<lambda>i. plan_arrow_field (k + i) (fs ! i) options) [0..<length fs]"

definition successes :: "('e + 'a) list \<Rightarrow> 'a list" where
  "successes rs = List.map_filter (\<lambda>r. case r of Inr x \<Rightarrow> Some x | Inl _ \<Rightarrow> None) rs"

definition failures :: "('e + 'a) list \<Rightarrow> 'e list" where
  "failures rs = List.map_filter (\<lambda>r. case r of Inr _ \<Rightarrow> None | Inl e \<Rightarrow> Some e) rs"

lemma successes_simps [simp]:
  "successes [] = []" "successes (Inr x # rs) = x # successes rs" "successes (Inl e # rs) = successes rs"
  by (simp_all add: successes_def map_filter_simps)

lemma failures_simps [simp]:
  "failures [] = []" "failures (Inr x # rs) = failures rs" "failures (Inl e # rs) = e # failures rs"
  by (simp_all add: failures_def map_filter_simps)

lemma set_failures: "e \<in> set (failures rs) \<longleftrightarrow> Inl e \<in> set rs"
  by (induction rs) (auto split: sum.splits simp: failures_def map_filter_simps)

lemma failures_Nil: "failures rs = [] \<Longrightarrow> map Inr (successes rs) = rs"
proof (induction rs)
  case (Cons r rs)
  then show ?case by (cases r) simp_all
qed simp

lemma planned_fields_Cons:
  "planned_fields options k (f # fs)
     = plan_arrow_field k f options # planned_fields options (k + 1) fs"
  by (simp add: planned_fields_def upt_conv_Cons map_Suc_upt [symmetric] del: upt_Suc)

lemma plan_fields_spec:
  "plan_fields options k fs (ms, ds) =
     (ms @ successes (planned_fields options k fs), ds @ failures (planned_fields options k fs))"
proof (induction fs arbitrary: k ms ds)
  case Nil
  then show ?case by (simp add: planned_fields_def)
next
  case (Cons f fs)
  then show ?case
    by (cases "plan_arrow_field k f options")
      (simp_all add: planned_fields_Cons diagnostics_push_def)
qed

lemma in_planned_fields:
  "r \<in> set (planned_fields options k fs)
     \<longleftrightarrow> (\<exists>i < length fs. r = plan_arrow_field (k + i) (fs ! i) options)"
  by (auto simp: planned_fields_def)

lemma failures_planned_fields:
  "d \<in> set (failures (planned_fields options k fs)) \<Longrightarrow> diag_severity d = SevError"
  by (auto simp: set_failures in_planned_fields locates_def dest!: plan_arrow_field_Err [OF sym])

lemma has_errors_planned_fields:
  "has_errors (failures (planned_fields options k fs)) \<longleftrightarrow> failures (planned_fields options k fs) \<noteq> []"
  by (cases "failures (planned_fields options k fs)")
    (auto simp: has_errors_def list_ex_iff failures_planned_fields [where options = options and k = k and fs = fs])

text \<open>C12: planning a schema is planning its fields independently.
  It returns one mapping per field in field order, with no diagnostics, when every field plans;
  otherwise it returns a planning error with exactly the diagnostics of the fields that do not
  plan, in field order.\<close>

theorem plan_schema_field_by_field:
  "plan_arrow_schema_to_mssql_schema fs profile options =
     (let rs = planned_fields options 0 fs in
      if list_all is_ok rs
      then Ok \<lparr>outcome_value = \<lparr>planned_profile = profile, planned_options = options,
             planned_mappings = successes rs\<rparr>, outcome_diagnostics = []\<rparr>
      else Err (Planning (failures rs)))"
proof -
  have ok: "list_all is_ok rs \<longleftrightarrow> failures rs = []" for rs :: "(diagnostic + schema_mapping) list"
  proof (induction rs)
    case (Cons r rs)
    then show ?case by (cases r) simp_all
  qed simp
  show ?thesis
    by (simp add: plan_arrow_schema_to_mssql_schema_def plan_arrow_schema_inner_def plan_fields_spec
        has_errors_planned_fields ok Let_def)
qed

lemma plan_arrow_field_Ok:
  assumes "plan_arrow_field index field options = Ok m"
  shows "mapping_arrow m = \<lparr>arrow_index = index, arrow_name = field_name field,
      arrow_nullable = field_nullable field, arrow_data_type = field_data_type field\<rparr>"
    and "column_nullable (mapping_mssql m) = field_nullable field"
    and "column_name (mapping_mssql m) = Identifier (field_name field)"
    and "valid_identifier (column_name (mapping_mssql m))"
    and "plan_arrow_data_type index field options = Ok (target_type m)"
    and "valid_mssql_type (target_type m)"
  using assms
  by (auto simp: plan_arrow_field_def result_simps identifier_new_Ok dest: plan_arrow_data_type_valid)

lemma planned_mappings_nth:
  assumes "plan_arrow_schema_to_mssql_schema fs profile options = Ok out"
    and ms: "ms = planned_mappings (outcome_value out)"
  shows "length ms = length fs"
    and "i < length fs \<Longrightarrow> plan_arrow_field i (fs ! i) options = Ok (ms ! i)"
proof -
  from assms(1) have "failures (planned_fields options 0 fs) = []"
    and out: "ms = successes (planned_fields options 0 fs)"
    by (auto simp: plan_arrow_schema_to_mssql_schema_def plan_arrow_schema_inner_def plan_fields_spec
        has_errors_planned_fields Let_def ms split: if_splits)
  from failures_Nil [OF this(1)] have eq: "map Inr ms = planned_fields options 0 fs" by (simp add: out)
  from arg_cong [OF eq, of length] show len: "length ms = length fs"
    by (simp add: planned_fields_def)
  assume "i < length fs"
  with arg_cong [OF eq, of "\<lambda>xs. xs ! i"] len show "plan_arrow_field i (fs ! i) options = Ok (ms ! i)"
    by (simp add: planned_fields_def)
qed

text \<open>C26: a planned schema describes its source. Mapping number
  \<^verbatim>\<open>i\<close> carries the index, name, nullability and Arrow type of field \<^verbatim>\<open>i\<close>; its column has that
  name as a valid identifier and that nullability; and its SQL Server type is the one planned
  for the field alone, with a decimal precision in 1..38, a scale in 0..precision, a binary
  length in 1..8000 and fractional precisions of at most 7.\<close>

theorem planned_mappings_faithful:
  assumes "plan_arrow_schema_to_mssql_schema fs profile options = Ok out"
    and "i < length fs"
  shows "let m = planned_mappings (outcome_value out) ! i; f = fs ! i in
      length (planned_mappings (outcome_value out)) = length fs
    \<and> mapping_arrow m = \<lparr>arrow_index = i, arrow_name = field_name f,
        arrow_nullable = field_nullable f, arrow_data_type = field_data_type f\<rparr>
    \<and> column_name (mapping_mssql m) = Identifier (field_name f)
    \<and> valid_identifier (column_name (mapping_mssql m))
    \<and> column_nullable (mapping_mssql m) = field_nullable f
    \<and> plan_arrow_data_type i f options = Ok (target_type m)
    \<and> valid_mssql_type (target_type m)"
  using plan_arrow_field_Ok [OF planned_mappings_nth(2) [OF assms(1) refl assms(2)]]
    planned_mappings_nth(1) [OF assms(1) refl]
  by (simp add: Let_def)

definition example_fields :: "arrow_field list" where
  "example_fields =
     [\<lparr>field_name = lit ''id'', field_data_type = DtInt64, field_nullable = False\<rparr>,
      \<lparr>field_name = lit ''amount'', field_data_type = DtDecimal128 18 4, field_nullable = True\<rparr>,
      \<lparr>field_name = lit ''at'', field_data_type = DtTimestamp Nanosecond None, field_nullable = True\<rparr>]"

lemma example_fields_plan:
  "\<exists>out. plan_arrow_schema_to_mssql_schema example_fields sql_server_2016_compat_100 plan_options_default
       = Ok out"
  by (simp add: example_fields_def plan_arrow_schema_to_mssql_schema_def plan_arrow_schema_inner_def
      plan_arrow_field_def identifier_new_def identifier_with_policy_def validate_identifier_def lit_def
      is_control_def MAX_IDENTIFIER_CHARS_def plan_arrow_data_type_def plan_arrow_decimal_def
      normalize_arrow_decimal_shape_def SQL_SERVER_MAX_DECIMAL_PRECISION_def try_unsigned_def
      in_unsigned_def plan_arrow_timestamp_def has_timezone_def plan_timestamp_policy_def
      plan_options_default_def has_errors_def map_err_def guard_def)

theorem planned_mappings_faithful_witness:
  "\<exists>out. plan_arrow_schema_to_mssql_schema example_fields sql_server_2016_compat_100 plan_options_default
       = Ok out
     \<and> target_type (planned_mappings (outcome_value out) ! 1) = MsDecimal 18 4"
proof -
  obtain out where out: "plan_arrow_schema_to_mssql_schema example_fields sql_server_2016_compat_100
      plan_options_default = Ok out"
    using example_fields_plan by blast
  from planned_mappings_faithful [OF this, of 1] have
    "plan_arrow_data_type 1 (example_fields ! 1) plan_options_default
       = Ok (target_type (planned_mappings (outcome_value out) ! 1))"
    by (simp add: example_fields_def Let_def)
  then have "target_type (planned_mappings (outcome_value out) ! 1) = MsDecimal 18 4"
    by (simp add: example_fields_def plan_arrow_data_type_def plan_arrow_decimal_def
        normalize_arrow_decimal_shape_def SQL_SERVER_MAX_DECIMAL_PRECISION_def try_unsigned_def
        in_unsigned_def)
  with out show ?thesis by blast
qed

end
