(* ===== verification/Classify.thy ===== *)
theory Classify
  imports Planning
begin

text \<open>
  Classification of planned mappings, \<^verbatim>\<open>src/conversion/arrow_to_mssql/*.rs\<close>: which conversion
  a planned pair of Arrow type and SQL Server type selects. Both the baseline conversion and
  the direct encoder start from it. Each family has a \<^verbatim>\<open>classify\<close> operation; what the clients
  rely on is the locale \<^verbatim>\<open>mapping_classifier\<close>, which every family interprets.
\<close>

subsection \<open>The classes\<close>

datatype uint64_conversion = U64CheckedBigInt | U64Decimal20_0

datatype primitive_conversion =
    BooleanToBit | UInt8ToTinyInt | Int8ToSmallInt | Int16ToSmallInt | Int32ToInt | UInt16ToInt
  | Int64ToBigInt | UInt32ToBigInt | UInt64ToCheckedBigInt | Float16ToReal | Float32ToReal
  | Float64ToFloat

datatype decimal_conversion =
    FromDecimal32 (target_precision: u8) (target_scale: u8) (arrow_scale: i8)
  | FromDecimal64 (target_precision: u8) (target_scale: u8) (arrow_scale: i8)
  | FromDecimal128 (target_precision: u8) (target_scale: u8) (arrow_scale: i8)
  | FromDecimal256 (target_precision: u8) (target_scale: u8) (arrow_scale: i8)

datatype variable_width_conversion =
    StringToNVarChar mssql_type_length
  | BytesToVarBinary mssql_type_length

datatype fixed_size_binary_conversion = FixedSizeBinaryToBinary usize

datatype temporal_conversion =
    Date32ToDate
  | Date64ToDateTime2
  | Time32SecondToTime
  | Time32MillisecondToTime
  | Time64MicrosecondToTime
  | Time64NanosecondToTime
  | TimestampSecondToDateTime2
  | TimestampMillisecondToDateTime2
  | TimestampMicrosecondToDateTime2
  | TimestampNanosecondToDateTime2
  | TimestampSecondTzToDateTime2
  | TimestampMillisecondTzToDateTime2
  | TimestampMicrosecondTzToDateTime2
  | TimestampNanosecondTzToDateTime2
  | TimestampSecondToDateTime
  | TimestampMillisecondToDateTime
  | TimestampMicrosecondToDateTime
  | TimestampNanosecondToDateTime
  | TimestampSecondTzToDateTime
  | TimestampMillisecondTzToDateTime
  | TimestampMicrosecondTzToDateTime
  | TimestampNanosecondTzToDateTime
  | TimestampSecondTzToDateTimeOffset
  | TimestampMillisecondTzToDateTimeOffset
  | TimestampMicrosecondTzToDateTimeOffset
  | TimestampNanosecondTzToDateTimeOffset

subsection \<open>The classifiers\<close>

definition uint64_classify :: "schema_mapping \<Rightarrow> usize \<Rightarrow> error + uint64_conversion" where
  "uint64_classify m row =
     (if source_type m = DtUInt64 \<and> target_type m = MsBigInt then Ok U64CheckedBigInt
      else if source_type m = DtUInt64 \<and> target_type m = MsDecimal 20 0 then Ok U64Decimal20_0
      else Err (conversion_error m row ValueConversionUnsupported))"

definition primitive_classify :: "schema_mapping \<Rightarrow> usize \<Rightarrow> error + primitive_conversion" where
  "primitive_classify m row =
     (let unsupported = Err (conversion_error m row ValueConversionUnsupported) in
      case source_type m of
        DtBoolean \<Rightarrow> if target_type m = MsBit then Ok BooleanToBit else unsupported
      | DtUInt8 \<Rightarrow> if target_type m = MsTinyInt then Ok UInt8ToTinyInt else unsupported
      | DtInt8 \<Rightarrow> if target_type m = MsSmallInt then Ok Int8ToSmallInt else unsupported
      | DtInt16 \<Rightarrow> if target_type m = MsSmallInt then Ok Int16ToSmallInt else unsupported
      | DtInt32 \<Rightarrow> if target_type m = MsInt then Ok Int32ToInt else unsupported
      | DtUInt16 \<Rightarrow> if target_type m = MsInt then Ok UInt16ToInt else unsupported
      | DtInt64 \<Rightarrow> if target_type m = MsBigInt then Ok Int64ToBigInt else unsupported
      | DtUInt32 \<Rightarrow> if target_type m = MsBigInt then Ok UInt32ToBigInt else unsupported
      | DtUInt64 \<Rightarrow> if target_type m = MsBigInt
          then and_then (uint64_classify m row) (\<lambda>_. Ok UInt64ToCheckedBigInt) else unsupported
      | DtFloat16 \<Rightarrow> if target_type m = MsReal then Ok Float16ToReal else unsupported
      | DtFloat32 \<Rightarrow> if target_type m = MsReal then Ok Float32ToReal else unsupported
      | DtFloat64 \<Rightarrow> if target_type m = MsFloat 53 then Ok Float64ToFloat else unsupported
      | _ \<Rightarrow> unsupported)"

text \<open>Decimals: the scale of the plan must fit the driver's numeric (below 38) and must be the
  Arrow scale, or 0 for a negative Arrow scale.\<close>

definition decimal_target :: "schema_mapping \<Rightarrow> usize \<Rightarrow> error + (u8 \<times> u8)" where
  "decimal_target m row =
     (case target_type m of
        MsDecimal precision scale \<Rightarrow>
          and_then (ok_or (conversion_error m row DecimalOutOfRange) (try_unsigned (sint scale)))
            (\<lambda>target_scale :: u8.
              if target_scale \<ge> 38 then Err (conversion_error m row DecimalOutOfRange)
              else Ok (precision, target_scale))
      | _ \<Rightarrow> Err (conversion_error m row ValueTypeMismatch))"

definition validate_scale_compatibility ::
    "schema_mapping \<Rightarrow> usize \<Rightarrow> u8 \<Rightarrow> i8 \<Rightarrow> error + unit" where
  "validate_scale_compatibility m row target_sc arrow_sc =
     and_then
       (if sint arrow_sc < 0 then Ok 0
        else ok_or (conversion_error m row DecimalOutOfRange) (try_unsigned (sint arrow_sc)))
       (\<lambda>expected_scale :: u8.
         if target_sc = expected_scale then Ok ()
         else Err (conversion_error m row SchemaMismatch))"

datatype decimal_source = SrcDecimal32 | SrcDecimal64 | SrcDecimal128 | SrcDecimal256

definition decimal_classify :: "schema_mapping \<Rightarrow> usize \<Rightarrow> error + decimal_conversion" where
  "decimal_classify m row =
     and_then (decimal_target m row) (\<lambda>(precision, scale).
     and_then
       (case source_type m of
          DtDecimal32 _ arrow_sc \<Rightarrow> Ok (SrcDecimal32, arrow_sc)
        | DtDecimal64 _ arrow_sc \<Rightarrow> Ok (SrcDecimal64, arrow_sc)
        | DtDecimal128 _ arrow_sc \<Rightarrow> Ok (SrcDecimal128, arrow_sc)
        | DtDecimal256 _ arrow_sc \<Rightarrow> Ok (SrcDecimal256, arrow_sc)
        | _ \<Rightarrow> Err (conversion_error m row ValueConversionUnsupported)) (\<lambda>(source, arrow_sc).
     and_then (validate_scale_compatibility m row scale arrow_sc) (\<lambda>_.
       Ok (case source of
             SrcDecimal32 \<Rightarrow> FromDecimal32 precision scale arrow_sc
           | SrcDecimal64 \<Rightarrow> FromDecimal64 precision scale arrow_sc
           | SrcDecimal128 \<Rightarrow> FromDecimal128 precision scale arrow_sc
           | SrcDecimal256 \<Rightarrow> FromDecimal256 precision scale arrow_sc))))"

definition variable_width_classify ::
    "schema_mapping \<Rightarrow> usize \<Rightarrow> error + variable_width_conversion" where
  "variable_width_classify m row =
     (case target_type m of
        MsNVarChar len \<Rightarrow>
          if is_arrow_string_family (source_type m) then Ok (StringToNVarChar len)
          else Err (conversion_error m row ValueConversionUnsupported)
      | MsVarBinary len \<Rightarrow>
          if is_arrow_binary_family (source_type m) then Ok (BytesToVarBinary len)
          else Err (conversion_error m row ValueConversionUnsupported)
      | _ \<Rightarrow> Err (conversion_error m row ValueConversionUnsupported))"

definition is_string_family_to_nvarchar :: "schema_mapping \<Rightarrow> bool" where
  "is_string_family_to_nvarchar m \<longleftrightarrow> is_arrow_string_family (source_type m)
     \<and> (case target_type m of MsNVarChar _ \<Rightarrow> True | _ \<Rightarrow> False)"

definition is_binary_family_to_varbinary :: "schema_mapping \<Rightarrow> bool" where
  "is_binary_family_to_varbinary m \<longleftrightarrow> is_arrow_binary_family (source_type m)
     \<and> (case target_type m of MsVarBinary _ \<Rightarrow> True | _ \<Rightarrow> False)"

definition arrow_type_compatible_with_mapping :: "data_type \<Rightarrow> schema_mapping \<Rightarrow> bool" where
  "arrow_type_compatible_with_mapping runtime m \<longleftrightarrow>
     runtime = source_type m
     \<or> (is_arrow_string_family runtime \<and> is_string_family_to_nvarchar m)
     \<or> (is_arrow_binary_family runtime \<and> is_binary_family_to_varbinary m)"

definition fixed_size_binary_classify ::
    "schema_mapping \<Rightarrow> usize \<Rightarrow> error + fixed_size_binary_conversion" where
  "fixed_size_binary_classify m row =
     (case source_type m of
        DtFixedSizeBinary n \<Rightarrow>
          (case target_type m of
             MsBinary mssql_length \<Rightarrow>
               if sint n < 0 then Err (conversion_error m row ValueConversionUnsupported)
               else if nat (sint n) \<noteq> mssql_length
               then Err (conversion_error m row ValueTypeMismatch)
               else Ok (FixedSizeBinaryToBinary mssql_length)
           | _ \<Rightarrow> Err (conversion_error m row ValueConversionUnsupported))
      | _ \<Rightarrow> Err (conversion_error m row ValueConversionUnsupported))"

definition is_timezone_free :: "rstr option \<Rightarrow> bool" where
  "is_timezone_free tz \<longleftrightarrow> (case tz of None \<Rightarrow> True | Some s \<Rightarrow> s = [])"

definition temporal_classify :: "schema_mapping \<Rightarrow> usize \<Rightarrow> error + temporal_conversion" where
  "temporal_classify m row =
     (let unsupported = Err (conversion_error m row ValueConversionUnsupported) in
      case source_type m of
        DtDate32 \<Rightarrow> if target_type m = MsDate then Ok Date32ToDate else unsupported
      | DtDate64 \<Rightarrow> if target_type m = MsDateTime2 3 then Ok Date64ToDateTime2 else unsupported
      | DtTime32 u \<Rightarrow>
          (case u of
             Second \<Rightarrow> if target_type m = MsTime (MssqlTimePrecision 0)
               then Ok Time32SecondToTime else unsupported
           | Millisecond \<Rightarrow> if target_type m = MsTime (MssqlTimePrecision 3)
               then Ok Time32MillisecondToTime else unsupported
           | _ \<Rightarrow> unsupported)
      | DtTime64 u \<Rightarrow>
          (case u of
             Microsecond \<Rightarrow> if target_type m = MsTime (MssqlTimePrecision 6)
               then Ok Time64MicrosecondToTime else unsupported
           | Nanosecond \<Rightarrow> if target_type m = MsTime (MssqlTimePrecision 7)
               then Ok Time64NanosecondToTime else unsupported
           | _ \<Rightarrow> unsupported)
      | DtTimestamp u tz \<Rightarrow>
          (case target_type m of
             MsDateTime2 precision \<Rightarrow>
               if precision > 7 then unsupported
               else if is_timezone_free tz
               then Ok (case u of
                          Second \<Rightarrow> TimestampSecondToDateTime2
                        | Millisecond \<Rightarrow> TimestampMillisecondToDateTime2
                        | Microsecond \<Rightarrow> TimestampMicrosecondToDateTime2
                        | Nanosecond \<Rightarrow> TimestampNanosecondToDateTime2)
               else Ok (case u of
                          Second \<Rightarrow> TimestampSecondTzToDateTime2
                        | Millisecond \<Rightarrow> TimestampMillisecondTzToDateTime2
                        | Microsecond \<Rightarrow> TimestampMicrosecondTzToDateTime2
                        | Nanosecond \<Rightarrow> TimestampNanosecondTzToDateTime2)
           | MsDateTime \<Rightarrow>
               if is_timezone_free tz
               then Ok (case u of
                          Second \<Rightarrow> TimestampSecondToDateTime
                        | Millisecond \<Rightarrow> TimestampMillisecondToDateTime
                        | Microsecond \<Rightarrow> TimestampMicrosecondToDateTime
                        | Nanosecond \<Rightarrow> TimestampNanosecondToDateTime)
               else Ok (case u of
                          Second \<Rightarrow> TimestampSecondTzToDateTime
                        | Millisecond \<Rightarrow> TimestampMillisecondTzToDateTime
                        | Microsecond \<Rightarrow> TimestampMicrosecondTzToDateTime
                        | Nanosecond \<Rightarrow> TimestampNanosecondTzToDateTime)
           | MsDateTimeOffset precision \<Rightarrow>
               if precision = 7 \<and> \<not> is_timezone_free tz
               then Ok (case u of
                          Second \<Rightarrow> TimestampSecondTzToDateTimeOffset
                        | Millisecond \<Rightarrow> TimestampMillisecondTzToDateTimeOffset
                        | Microsecond \<Rightarrow> TimestampMicrosecondTzToDateTimeOffset
                        | Nanosecond \<Rightarrow> TimestampNanosecondTzToDateTimeOffset)
               else unsupported
           | _ \<Rightarrow> unsupported)
      | _ \<Rightarrow> unsupported)"

subsection \<open>What each class stands for\<close>

text \<open>The pairs of Arrow type and SQL Server type a class is the conversion of, read off the
  documentation of the variants.\<close>

fun uint64_fits :: "uint64_conversion \<Rightarrow> data_type \<Rightarrow> mssql_type \<Rightarrow> bool" where
  "uint64_fits U64CheckedBigInt t ty = (t = DtUInt64 \<and> ty = MsBigInt)"
| "uint64_fits U64Decimal20_0 t ty = (t = DtUInt64 \<and> ty = MsDecimal 20 0)"

fun primitive_fits :: "primitive_conversion \<Rightarrow> data_type \<Rightarrow> mssql_type \<Rightarrow> bool" where
  "primitive_fits BooleanToBit t ty = (t = DtBoolean \<and> ty = MsBit)"
| "primitive_fits UInt8ToTinyInt t ty = (t = DtUInt8 \<and> ty = MsTinyInt)"
| "primitive_fits Int8ToSmallInt t ty = (t = DtInt8 \<and> ty = MsSmallInt)"
| "primitive_fits Int16ToSmallInt t ty = (t = DtInt16 \<and> ty = MsSmallInt)"
| "primitive_fits Int32ToInt t ty = (t = DtInt32 \<and> ty = MsInt)"
| "primitive_fits UInt16ToInt t ty = (t = DtUInt16 \<and> ty = MsInt)"
| "primitive_fits Int64ToBigInt t ty = (t = DtInt64 \<and> ty = MsBigInt)"
| "primitive_fits UInt32ToBigInt t ty = (t = DtUInt32 \<and> ty = MsBigInt)"
| "primitive_fits UInt64ToCheckedBigInt t ty = (t = DtUInt64 \<and> ty = MsBigInt)"
| "primitive_fits Float16ToReal t ty = (t = DtFloat16 \<and> ty = MsReal)"
| "primitive_fits Float32ToReal t ty = (t = DtFloat32 \<and> ty = MsReal)"
| "primitive_fits Float64ToFloat t ty = (t = DtFloat64 \<and> ty = MsFloat 53)"

fun decimal_source_fits :: "decimal_conversion \<Rightarrow> data_type \<Rightarrow> bool" where
  "decimal_source_fits (FromDecimal32 _ _ s) t = (case t of DtDecimal32 _ s' \<Rightarrow> s = s' | _ \<Rightarrow> False)"
| "decimal_source_fits (FromDecimal64 _ _ s) t = (case t of DtDecimal64 _ s' \<Rightarrow> s = s' | _ \<Rightarrow> False)"
| "decimal_source_fits (FromDecimal128 _ _ s) t = (case t of DtDecimal128 _ s' \<Rightarrow> s = s' | _ \<Rightarrow> False)"
| "decimal_source_fits (FromDecimal256 _ _ s) t = (case t of DtDecimal256 _ s' \<Rightarrow> s = s' | _ \<Rightarrow> False)"

definition decimal_fits :: "decimal_conversion \<Rightarrow> data_type \<Rightarrow> mssql_type \<Rightarrow> bool" where
  "decimal_fits c t ty \<longleftrightarrow>
     decimal_source_fits c t
     \<and> (case ty of
          MsDecimal p s \<Rightarrow> p = target_precision c \<and> uint (target_scale c) = sint s \<and> sint s < 38
            \<and> sint s = max 0 (sint (arrow_scale c))
        | _ \<Rightarrow> False)"

fun variable_width_fits :: "variable_width_conversion \<Rightarrow> data_type \<Rightarrow> mssql_type \<Rightarrow> bool" where
  "variable_width_fits (StringToNVarChar l) t ty = (is_arrow_string_family t \<and> ty = MsNVarChar l)"
| "variable_width_fits (BytesToVarBinary l) t ty = (is_arrow_binary_family t \<and> ty = MsVarBinary l)"

fun fixed_size_binary_fits :: "fixed_size_binary_conversion \<Rightarrow> data_type \<Rightarrow> mssql_type \<Rightarrow> bool" where
  "fixed_size_binary_fits (FixedSizeBinaryToBinary n) t ty =
     ((case t of DtFixedSizeBinary k \<Rightarrow> sint k = int n | _ \<Rightarrow> False) \<and> ty = MsBinary n)"

definition timestamp_of :: "time_unit \<Rightarrow> bool \<Rightarrow> data_type \<Rightarrow> bool" where
  "timestamp_of u free t \<longleftrightarrow>
     (case t of DtTimestamp u' tz \<Rightarrow> u' = u \<and> is_timezone_free tz = free | _ \<Rightarrow> False)"

definition datetime2_target :: "mssql_type \<Rightarrow> bool" where
  "datetime2_target ty \<longleftrightarrow> (case ty of MsDateTime2 p \<Rightarrow> p \<le> 7 | _ \<Rightarrow> False)"

fun temporal_fits :: "temporal_conversion \<Rightarrow> data_type \<Rightarrow> mssql_type \<Rightarrow> bool" where
  "temporal_fits Date32ToDate t ty = (t = DtDate32 \<and> ty = MsDate)"
| "temporal_fits Date64ToDateTime2 t ty = (t = DtDate64 \<and> ty = MsDateTime2 3)"
| "temporal_fits Time32SecondToTime t ty = (t = DtTime32 Second \<and> ty = MsTime (MssqlTimePrecision 0))"
| "temporal_fits Time32MillisecondToTime t ty =
     (t = DtTime32 Millisecond \<and> ty = MsTime (MssqlTimePrecision 3))"
| "temporal_fits Time64MicrosecondToTime t ty =
     (t = DtTime64 Microsecond \<and> ty = MsTime (MssqlTimePrecision 6))"
| "temporal_fits Time64NanosecondToTime t ty =
     (t = DtTime64 Nanosecond \<and> ty = MsTime (MssqlTimePrecision 7))"
| "temporal_fits TimestampSecondToDateTime2 t ty = (timestamp_of Second True t \<and> datetime2_target ty)"
| "temporal_fits TimestampMillisecondToDateTime2 t ty =
     (timestamp_of Millisecond True t \<and> datetime2_target ty)"
| "temporal_fits TimestampMicrosecondToDateTime2 t ty =
     (timestamp_of Microsecond True t \<and> datetime2_target ty)"
| "temporal_fits TimestampNanosecondToDateTime2 t ty =
     (timestamp_of Nanosecond True t \<and> datetime2_target ty)"
| "temporal_fits TimestampSecondTzToDateTime2 t ty =
     (timestamp_of Second False t \<and> datetime2_target ty)"
| "temporal_fits TimestampMillisecondTzToDateTime2 t ty =
     (timestamp_of Millisecond False t \<and> datetime2_target ty)"
| "temporal_fits TimestampMicrosecondTzToDateTime2 t ty =
     (timestamp_of Microsecond False t \<and> datetime2_target ty)"
| "temporal_fits TimestampNanosecondTzToDateTime2 t ty =
     (timestamp_of Nanosecond False t \<and> datetime2_target ty)"
| "temporal_fits TimestampSecondToDateTime t ty = (timestamp_of Second True t \<and> ty = MsDateTime)"
| "temporal_fits TimestampMillisecondToDateTime t ty =
     (timestamp_of Millisecond True t \<and> ty = MsDateTime)"
| "temporal_fits TimestampMicrosecondToDateTime t ty =
     (timestamp_of Microsecond True t \<and> ty = MsDateTime)"
| "temporal_fits TimestampNanosecondToDateTime t ty =
     (timestamp_of Nanosecond True t \<and> ty = MsDateTime)"
| "temporal_fits TimestampSecondTzToDateTime t ty = (timestamp_of Second False t \<and> ty = MsDateTime)"
| "temporal_fits TimestampMillisecondTzToDateTime t ty =
     (timestamp_of Millisecond False t \<and> ty = MsDateTime)"
| "temporal_fits TimestampMicrosecondTzToDateTime t ty =
     (timestamp_of Microsecond False t \<and> ty = MsDateTime)"
| "temporal_fits TimestampNanosecondTzToDateTime t ty =
     (timestamp_of Nanosecond False t \<and> ty = MsDateTime)"
| "temporal_fits TimestampSecondTzToDateTimeOffset t ty =
     (timestamp_of Second False t \<and> ty = MsDateTimeOffset 7)"
| "temporal_fits TimestampMillisecondTzToDateTimeOffset t ty =
     (timestamp_of Millisecond False t \<and> ty = MsDateTimeOffset 7)"
| "temporal_fits TimestampMicrosecondTzToDateTimeOffset t ty =
     (timestamp_of Microsecond False t \<and> ty = MsDateTimeOffset 7)"
| "temporal_fits TimestampNanosecondTzToDateTimeOffset t ty =
     (timestamp_of Nanosecond False t \<and> ty = MsDateTimeOffset 7)"

subsection \<open>The interface of a classifier\<close>

locale mapping_classifier =
  fixes classify :: "schema_mapping \<Rightarrow> usize \<Rightarrow> error + 'c"
    and fits :: "'c \<Rightarrow> data_type \<Rightarrow> mssql_type \<Rightarrow> bool"
  assumes classify_Ok: "classify m row = Inr c \<longleftrightarrow> fits c (source_type m) (target_type m)"
    and classify_Err: "classify m row = Inl e \<Longrightarrow> located_conversion_error m row e"
begin

lemma row_independent: "classify m row = Inr c \<longleftrightarrow> classify m row' = Inr c"
  by (simp add: classify_Ok)

lemma is_ok_row_independent: "is_ok (classify m row) \<longleftrightarrow> is_ok (classify m row')"
  by (simp add: is_ok_iff classify_Ok)

lemma at_most_one:
  "fits c (source_type m) (target_type m) \<Longrightarrow> fits c' (source_type m) (target_type m) \<Longrightarrow> c = c'"
  using classify_Ok [of m 0 c] classify_Ok [of m 0 c'] by simp

lemma unsupported_located:
  "(\<forall>c. \<not> fits c (source_type m) (target_type m)) \<Longrightarrow>
     \<exists>e. classify m row = Inl e \<and> located_conversion_error m row e"
  using classify_Ok [of m row] classify_Err [of m row] by (cases "classify m row") auto

end

lemmas type_splits = data_type.splits mssql_type.splits time_unit.splits if_splits

interpretation uint64_cls: mapping_classifier uint64_classify uint64_fits
proof unfold_locales
  fix m row c
  show "uint64_classify m row = Inr c \<longleftrightarrow> uint64_fits c (source_type m) (target_type m)"
    by (cases c) (auto simp: uint64_classify_def)
qed (auto simp: uint64_classify_def split: if_splits)

interpretation primitive_cls: mapping_classifier primitive_classify primitive_fits
proof unfold_locales
  fix m row c
  show "primitive_classify m row = Inr c \<longleftrightarrow> primitive_fits c (source_type m) (target_type m)"
    by (cases c) (auto simp: primitive_classify_def uint64_classify_def Let_def split: data_type.split)
qed (auto simp: primitive_classify_def uint64_classify_def Let_def split: data_type.splits if_splits)

interpretation variable_width_cls: mapping_classifier variable_width_classify variable_width_fits
proof unfold_locales
  fix m row c
  show "variable_width_classify m row = Inr c \<longleftrightarrow> variable_width_fits c (source_type m) (target_type m)"
    by (cases c) (auto simp: variable_width_classify_def split: mssql_type.split)
qed (auto simp: variable_width_classify_def split: mssql_type.splits if_splits)

interpretation fixed_size_binary_cls: mapping_classifier fixed_size_binary_classify fixed_size_binary_fits
proof unfold_locales
  fix m row c
  show "fixed_size_binary_classify m row = Inr c
      \<longleftrightarrow> fixed_size_binary_fits c (source_type m) (target_type m)"
    by (cases c) (auto simp: fixed_size_binary_classify_def split: data_type.split mssql_type.split)
qed (auto simp: fixed_size_binary_classify_def split: data_type.splits mssql_type.splits if_splits)

lemma decimal_target_Ok:
  "decimal_target m row = Ok (p, k) \<longleftrightarrow>
     (\<exists>s. target_type m = MsDecimal p s \<and> uint k = sint s \<and> sint s < 38)"
proof -
  have "0 \<le> sint s" if "uint k = sint s" for s using uint_nonnegative [of k] that by simp
  then show ?thesis
    by (cases "target_type m")
      (auto simp: decimal_target_def result_simps try_unsigned_Some word_less_def word_le_def
        in_unsigned_def split: if_splits intro!: exI [of _ k])
qed

lemma decimal_target_Err: "decimal_target m row = Err e \<Longrightarrow> located_conversion_error m row e"
  by (auto simp: decimal_target_def result_simps split: mssql_type.splits if_splits)

lemma validate_scale_Ok:
  "validate_scale_compatibility m row k s = Ok u \<longleftrightarrow> uint k = max 0 (sint s)"
proof (cases "sint s < 0")
  case True
  then show ?thesis by (auto simp: validate_scale_compatibility_def unsigned_eq_0_iff)
next
  case False
  then have "in_unsigned 8 (sint s)" using i8_bounds [of s] by (simp add: in_unsigned_def)
  then obtain e :: u8 where e: "try_unsigned (sint s) = Some e" "uint e = sint s"
    using try_unsigned_Some [of "sint s" s] by (simp add: try_unsigned_def)
  with False show ?thesis
    by (simp add: validate_scale_compatibility_def word_uint_eq_iff)
qed

lemma validate_scale_Err:
  "validate_scale_compatibility m row k s = Err e \<Longrightarrow> located_conversion_error m row e"
  by (auto simp: validate_scale_compatibility_def result_simps split: if_splits)

interpretation decimal_cls: mapping_classifier decimal_classify decimal_fits
proof unfold_locales
  fix m row c
  show "decimal_classify m row = Inr c \<longleftrightarrow> decimal_fits c (source_type m) (target_type m)"
    by (cases c; cases "target_type m"; cases "source_type m")
      (auto simp: decimal_classify_def decimal_fits_def result_simps decimal_target_Ok validate_scale_Ok)
next
  fix m row e
  show "decimal_classify m row = Inl e \<Longrightarrow> located_conversion_error m row e"
    by (auto simp: decimal_classify_def result_simps dest: decimal_target_Err validate_scale_Err
        split: data_type.splits)
qed

interpretation temporal_cls: mapping_classifier temporal_classify temporal_fits
proof unfold_locales
  fix m row c
  show "temporal_classify m row = Inr c \<longleftrightarrow> temporal_fits c (source_type m) (target_type m)"
    by (cases c)
      (auto simp: temporal_classify_def Let_def timestamp_of_def datetime2_target_def
        split: data_type.splits mssql_type.splits time_unit.splits)
qed (auto simp: temporal_classify_def Let_def split: data_type.splits mssql_type.splits time_unit.splits
    if_splits)

end
