(* ===== verification/DirectPlan.thy ===== *)
theory DirectPlan
  imports Classify
begin

text \<open>
  Support checks of the direct raw encoder: \<^verbatim>\<open>src/write/direct/plan.rs\<close>. The trait
  \<^verbatim>\<open>DirectEncoderSupport\<close> is the locale \<^verbatim>\<open>direct_encoder_support\<close>, interpreted for both of
  its implementations. The text of an unsupported reason goes into a message and is not
  modelled.
\<close>

datatype direct_column_encoding =
    EncPrimitive primitive_conversion
  | EncUInt64Decimal20_0
  | EncDecimal decimal_conversion
  | EncVariableWidth variable_width_conversion
  | EncFixedSizeBinary fixed_size_binary_conversion
  | EncTemporal temporal_conversion

datatype direct_mapping_support = Supported direct_column_encoding | Unsupported

definition no_direct_support :: "schema_mapping \<Rightarrow> direct_mapping_support" where
  "no_direct_support m = Unsupported"

definition temporal_support :: "schema_mapping \<Rightarrow> direct_mapping_support" where
  "temporal_support m =
     (case temporal_classify m 0 of Inr c \<Rightarrow> Supported (EncTemporal c) | Inl _ \<Rightarrow> Unsupported)"

definition fixed_size_binary_support :: "schema_mapping \<Rightarrow> direct_mapping_support" where
  "fixed_size_binary_support m =
     (case fixed_size_binary_classify m 0 of
        Inr c \<Rightarrow> Supported (EncFixedSizeBinary c) | Inl _ \<Rightarrow> temporal_support m)"

definition variable_width_support :: "schema_mapping \<Rightarrow> direct_mapping_support" where
  "variable_width_support m =
     (case variable_width_classify m 0 of
        Inr c \<Rightarrow> Supported (EncVariableWidth c) | Inl _ \<Rightarrow> fixed_size_binary_support m)"

definition uint64_support :: "schema_mapping \<Rightarrow> direct_mapping_support" where
  "uint64_support m =
     (case uint64_classify m 0 of
        Inr U64Decimal20_0 \<Rightarrow> Supported EncUInt64Decimal20_0
      | Inr U64CheckedBigInt \<Rightarrow> Supported (EncPrimitive UInt64ToCheckedBigInt)
      | Inl _ \<Rightarrow> variable_width_support m)"

definition decimal_support :: "schema_mapping \<Rightarrow> direct_mapping_support" where
  "decimal_support m =
     (case decimal_classify m 0 of
        Inr c \<Rightarrow> Supported (EncDecimal c) | Inl _ \<Rightarrow> uint64_support m)"

definition current_direct_support :: "schema_mapping \<Rightarrow> direct_mapping_support" where
  "current_direct_support m =
     (case primitive_classify m 0 of
        Inr c \<Rightarrow> Supported (EncPrimitive c) | Inl _ \<Rightarrow> decimal_support m)"

record direct_column_plan =
  plan_source_index :: usize
  plan_source_name :: rstr
  plan_target_type :: mssql_type
  plan_nullable :: bool
  plan_encoding :: direct_column_encoding

definition column_plan_from_mapping ::
    "schema_mapping \<Rightarrow> direct_column_encoding \<Rightarrow> direct_column_plan" where
  "column_plan_from_mapping m enc =
     \<lparr>plan_source_index = arrow_index (mapping_arrow m),
      plan_source_name = arrow_name (mapping_arrow m),
      plan_target_type = column_ty (mapping_mssql m),
      plan_nullable = column_nullable (mapping_mssql m),
      plan_encoding = enc\<rparr>"

definition unsupported_mapping_diagnostic :: "schema_mapping \<Rightarrow> diagnostic" where
  "unsupported_mapping_diagnostic m =
     with_field (diagnostic_error DirectEncodingUnsupportedMapping) (mapping_field_ref m)"

primrec plan_direct_columns ::
    "(schema_mapping \<Rightarrow> direct_mapping_support) \<Rightarrow> schema_mapping list
      \<Rightarrow> direct_column_plan list \<times> diagnostic_set \<Rightarrow> direct_column_plan list \<times> diagnostic_set" where
  "plan_direct_columns support [] acc = acc"
| "plan_direct_columns support (m # ms) acc =
     plan_direct_columns support ms
       (case support m of
          Supported enc \<Rightarrow> (fst acc @ [column_plan_from_mapping m enc], snd acc)
        | Unsupported \<Rightarrow> (fst acc, diagnostics_push (snd acc) (unsupported_mapping_diagnostic m)))"

text \<open>A \<^verbatim>\<open>DirectEncoderPlan\<close> is its list of columns.\<close>

type_synonym direct_encoder_plan = "direct_column_plan list"

definition direct_encoder_plan_new ::
    "schema_mapping list \<Rightarrow> (schema_mapping \<Rightarrow> direct_mapping_support) \<Rightarrow> error + direct_encoder_plan" where
  "direct_encoder_plan_new ms support =
     (let (columns, diagnostics) = plan_direct_columns support ms ([], []) in
      if has_errors diagnostics then Err (DirectEncoding diagnostics) else Ok columns)"

subsection \<open>The support interface\<close>

text \<open>What an encoding encodes: the relation of its family.\<close>

fun encoding_fits :: "direct_column_encoding \<Rightarrow> data_type \<Rightarrow> mssql_type \<Rightarrow> bool" where
  "encoding_fits (EncPrimitive c) t ty = primitive_fits c t ty"
| "encoding_fits EncUInt64Decimal20_0 t ty = uint64_fits U64Decimal20_0 t ty"
| "encoding_fits (EncDecimal c) t ty = decimal_fits c t ty"
| "encoding_fits (EncVariableWidth c) t ty = variable_width_fits c t ty"
| "encoding_fits (EncFixedSizeBinary c) t ty = fixed_size_binary_fits c t ty"
| "encoding_fits (EncTemporal c) t ty = temporal_fits c t ty"

locale direct_encoder_support =
  fixes support_mapping :: "schema_mapping \<Rightarrow> direct_mapping_support"
  assumes supported_fits:
    "support_mapping m = Supported enc \<Longrightarrow> encoding_fits enc (source_type m) (target_type m)"
begin

lemma plan_direct_columns_spec:
  "plan_direct_columns support_mapping ms (cols, ds) =
     (cols @ List.map_filter (\<lambda>m. case support_mapping m of
          Supported enc \<Rightarrow> Some (column_plan_from_mapping m enc) | Unsupported \<Rightarrow> None) ms,
      ds @ map unsupported_mapping_diagnostic (filter (\<lambda>m. support_mapping m = Unsupported) ms))"
  by (induction ms arbitrary: cols ds)
    (auto simp: map_filter_simps diagnostics_push_def split: direct_mapping_support.split)

lemma all_supported:
  "filter (\<lambda>m. support_mapping m = Unsupported) ms = [] \<Longrightarrow>
     List.map_filter (\<lambda>m. case support_mapping m of
          Supported enc \<Rightarrow> Some (column_plan_from_mapping m enc) | Unsupported \<Rightarrow> None) ms
     = map (\<lambda>m. column_plan_from_mapping m
         (case support_mapping m of Supported enc \<Rightarrow> enc | Unsupported \<Rightarrow> undefined)) ms"
  by (induction ms) (auto simp: map_filter_simps split: direct_mapping_support.splits)

lemma has_errors_unsupported:
  "has_errors (map unsupported_mapping_diagnostic ms) \<longleftrightarrow> ms \<noteq> []"
  by (cases ms) (auto simp: has_errors_def unsupported_mapping_diagnostic_def)

lemma plan_new:
  "direct_encoder_plan_new ms support_mapping =
     (if \<exists>m \<in> set ms. support_mapping m = Unsupported
      then Inl (DirectEncoding (map unsupported_mapping_diagnostic
             (filter (\<lambda>m. support_mapping m = Unsupported) ms)))
      else Inr (map (\<lambda>m. column_plan_from_mapping m
             (case support_mapping m of Supported enc \<Rightarrow> enc | Unsupported \<Rightarrow> undefined)) ms))"
  using all_supported [of ms]
  by (auto simp: direct_encoder_plan_new_def plan_direct_columns_spec has_errors_unsupported
      filter_empty_conv)

lemma plan_new_Ok:
  assumes "direct_encoder_plan_new ms support_mapping = Inr cols"
  shows "length cols = length ms"
    and "i < length ms \<Longrightarrow> \<exists>enc. support_mapping (ms ! i) = Supported enc
           \<and> cols ! i = column_plan_from_mapping (ms ! i) enc
           \<and> encoding_fits enc (source_type (ms ! i)) (target_type (ms ! i))"
proof -
  from assms have all: "\<forall>m \<in> set ms. support_mapping m \<noteq> Unsupported"
    and cols: "cols = map (\<lambda>m. column_plan_from_mapping m
             (case support_mapping m of Supported enc \<Rightarrow> enc | Unsupported \<Rightarrow> undefined)) ms"
    by (auto simp: plan_new split: if_splits)
  from cols show "length cols = length ms" by simp
  assume i: "i < length ms"
  with all obtain enc where "support_mapping (ms ! i) = Supported enc"
    by (metis direct_mapping_support.exhaust nth_mem)
  with i cols supported_fits show "\<exists>enc. support_mapping (ms ! i) = Supported enc
      \<and> cols ! i = column_plan_from_mapping (ms ! i) enc
      \<and> encoding_fits enc (source_type (ms ! i)) (target_type (ms ! i))"
    by auto
qed

end

interpretation no_support: direct_encoder_support no_direct_support
  by unfold_locales (simp add: no_direct_support_def)

lemmas support_chain = current_direct_support_def decimal_support_def uint64_support_def
  variable_width_support_def fixed_size_binary_support_def temporal_support_def

lemmas classifiers_Ok = primitive_cls.classify_Ok decimal_cls.classify_Ok uint64_cls.classify_Ok
  variable_width_cls.classify_Ok fixed_size_binary_cls.classify_Ok temporal_cls.classify_Ok

lemma encoding_fits_chain:
  "current_direct_support m = Supported enc \<Longrightarrow> encoding_fits enc (source_type m) (target_type m)"
  by (auto simp: support_chain classifiers_Ok uint64_fits.simps
      split: sum.splits uint64_conversion.splits)

interpretation current_support: direct_encoder_support current_direct_support
  by unfold_locales (rule encoding_fits_chain)

subsection \<open>The chain of families is exact\<close>

text \<open>The family a pair of types belongs to; the families do not overlap.\<close>

fun encoding_family :: "direct_column_encoding \<Rightarrow> nat" where
  "encoding_family (EncPrimitive c) = 0"
| "encoding_family EncUInt64Decimal20_0 = 1"
| "encoding_family (EncDecimal c) = 2"
| "encoding_family (EncVariableWidth c) = 3"
| "encoding_family (EncFixedSizeBinary c) = 4"
| "encoding_family (EncTemporal c) = 5"

definition type_family :: "data_type \<Rightarrow> mssql_type \<Rightarrow> nat" where
  "type_family t ty =
     (case t of
        DtUInt64 \<Rightarrow> if ty = MsBigInt then 0 else 1
      | DtDecimal32 _ _ \<Rightarrow> 2 | DtDecimal64 _ _ \<Rightarrow> 2 | DtDecimal128 _ _ \<Rightarrow> 2 | DtDecimal256 _ _ \<Rightarrow> 2
      | DtUtf8 \<Rightarrow> 3 | DtLargeUtf8 \<Rightarrow> 3 | DtUtf8View \<Rightarrow> 3
      | DtBinary \<Rightarrow> 3 | DtLargeBinary \<Rightarrow> 3 | DtBinaryView \<Rightarrow> 3
      | DtFixedSizeBinary _ \<Rightarrow> 4
      | DtDate32 \<Rightarrow> 5 | DtDate64 \<Rightarrow> 5 | DtTime32 _ \<Rightarrow> 5 | DtTime64 _ \<Rightarrow> 5 | DtTimestamp _ _ \<Rightarrow> 5
      | _ \<Rightarrow> 0)"

lemma primitive_family: "primitive_fits c t ty \<Longrightarrow> type_family t ty = 0"
  by (cases c) (simp_all add: type_family_def)

lemma decimal_family: "decimal_fits c t ty \<Longrightarrow> type_family t ty = 2"
  by (cases c) (auto simp: type_family_def decimal_fits_def split: data_type.splits)

lemma variable_width_family: "variable_width_fits c t ty \<Longrightarrow> type_family t ty = 3"
  by (cases c) (auto simp: type_family_def is_arrow_string_family_def is_arrow_binary_family_def
      split: data_type.splits)

lemma fixed_size_binary_family: "fixed_size_binary_fits c t ty \<Longrightarrow> type_family t ty = 4"
  by (cases c) (auto simp: type_family_def split: data_type.splits)

lemma temporal_family: "temporal_fits c t ty \<Longrightarrow> type_family t ty = 5"
  by (cases c) (auto simp: type_family_def timestamp_of_def split: data_type.splits)

lemma encoding_family_fits:
  "encoding_fits enc t ty \<Longrightarrow> encoding_family enc = type_family t ty"
  by (cases enc) (auto simp: primitive_family decimal_family variable_width_family
      fixed_size_binary_family temporal_family, simp add: type_family_def)

lemma encoding_fits_unique:
  assumes "encoding_fits enc (source_type m) (target_type m)"
    and "encoding_fits enc' (source_type m) (target_type m)"
  shows "enc = enc'"
  using assms encoding_family_fits [OF assms(1)] encoding_family_fits [OF assms(2)]
    primitive_cls.at_most_one decimal_cls.at_most_one variable_width_cls.at_most_one
    fixed_size_binary_cls.at_most_one temporal_cls.at_most_one
  by (cases enc; cases enc') auto

lemma current_direct_unsupported:
  assumes "current_direct_support m = Unsupported"
  shows "\<not> encoding_fits enc (source_type m) (target_type m)"
proof -
  have no: "\<not> primitive_fits c (source_type m) (target_type m)"
    "\<not> decimal_fits d (source_type m) (target_type m)"
    "\<not> uint64_fits u (source_type m) (target_type m)"
    "\<not> variable_width_fits v (source_type m) (target_type m)"
    "\<not> fixed_size_binary_fits f (source_type m) (target_type m)"
    "\<not> temporal_fits t (source_type m) (target_type m)" for c d u v f t
    using assms unfolding classifiers_Ok [where row = 0, symmetric]
    by (auto simp: support_chain split: sum.splits uint64_conversion.splits)
  then show ?thesis by (cases enc) (simp_all del: uint64_fits.simps add: no)
qed

text \<open>C27: the support check of the direct encoder selects an encoding for a
  mapping exactly when that encoding is the conversion between its two types. The families the
  check tries in turn do not overlap, so its answer does not depend on their order, and no
  mapping has two encodings.\<close>

theorem direct_support_exact:
  "current_direct_support m = Supported enc \<longleftrightarrow> encoding_fits enc (source_type m) (target_type m)"
proof
  assume fits: "encoding_fits enc (source_type m) (target_type m)"
  then obtain enc' where enc': "current_direct_support m = Supported enc'"
    using current_direct_unsupported by (cases "current_direct_support m") blast+
  from encoding_fits_unique [OF fits encoding_fits_chain [OF this]] enc'
  show "current_direct_support m = Supported enc" by simp
qed (rule encoding_fits_chain)

subsection \<open>Planned mappings and the direct encoder\<close>

definition beyond_driver_scale :: "mssql_type \<Rightarrow> bool" where
  "beyond_driver_scale ty \<longleftrightarrow> (case ty of MsDecimal _ s \<Rightarrow> 38 \<le> sint s | _ \<Rightarrow> False)"

lemma plan_arrow_decimal_shape:
  assumes "plan_arrow_decimal p s policy index field = Ok ty"
  shows "\<exists>p' s'. ty = MsDecimal p' s' \<and> sint s' = max 0 (sint s) \<and> sint s' \<le> 38"
proof -
  from assms obtain p' s' where ty: "ty = MsDecimal p' s'"
    and shape: "normalize_arrow_decimal_shape p s policy index field = Ok (p', s')"
    by (auto simp: plan_arrow_decimal_def result_simps)
  from normalize_arrow_decimal_shape_Ok [OF shape] have "sint s' = max 0 (sint s)" "sint s' \<le> 38"
    by (auto split: if_splits)
  with ty show ?thesis by blast
qed

lemma decimal_encoding_fits:
  assumes "plan_arrow_decimal p s policy index field = Ok ty"
    and from_source: "\<And>p' k. decimal_source_fits (D p' k s) t \<and> target_precision (D p' k s) = p'
      \<and> target_scale (D p' k s) = k \<and> arrow_scale (D p' k s) = s"
  shows "\<not> beyond_driver_scale ty \<longleftrightarrow> (\<exists>enc. encoding_fits (EncDecimal enc) t ty)"
proof -
  from plan_arrow_decimal_shape [OF assms(1)] obtain p' s' where ty: "ty = MsDecimal p' s'"
    and s': "sint s' = max 0 (sint s)" "sint s' \<le> 38" by blast
  show ?thesis
  proof
    assume "\<not> beyond_driver_scale ty"
    then have "sint s' < 38" by (simp add: beyond_driver_scale_def ty)
    moreover have "uint (word_of_int (sint s') :: u8) = sint s'"
      using s' by (intro uint_word_of_int_fits) (simp add: in_unsigned_def)
    ultimately have "decimal_fits (D p' (word_of_int (sint s')) s) t ty"
      using s' from_source by (simp add: decimal_fits_def ty)
    then show "\<exists>enc. encoding_fits (EncDecimal enc) t ty" by auto
  qed (auto simp: decimal_fits_def beyond_driver_scale_def ty)
qed

lemma decimal_encoding_only:
  "type_family t ty = 2 \<Longrightarrow> (\<exists>enc. encoding_fits (EncDecimal enc) t ty) \<longleftrightarrow> (\<exists>enc. encoding_fits enc t ty)"
proof
  assume fam: "type_family t ty = 2" and "\<exists>enc. encoding_fits enc t ty"
  then obtain enc where enc: "encoding_fits enc t ty" by blast
  with encoding_family_fits [OF enc] fam show "\<exists>enc. encoding_fits (EncDecimal enc) t ty"
    by (cases enc) auto
qed blast

lemma planned_decimal_fits:
  assumes "plan_arrow_decimal p s policy index field = Ok ty" "type_family t ty = 2"
    and "\<And>p' k. decimal_source_fits (D p' k s) t \<and> target_precision (D p' k s) = p'
      \<and> target_scale (D p' k s) = k \<and> arrow_scale (D p' k s) = s"
  shows "(\<exists>enc. encoding_fits enc t ty) \<longleftrightarrow> \<not> beyond_driver_scale ty"
  using decimal_encoding_fits [of p s policy index field ty D t] decimal_encoding_only [of t ty] assms
  by blast

text \<open>Existence of an encoding for a pair of types, decided by running the check.\<close>

definition sample_mapping :: "data_type \<Rightarrow> mssql_type \<Rightarrow> schema_mapping" where
  "sample_mapping t ty =
     \<lparr>mapping_arrow = \<lparr>arrow_index = 0, arrow_name = [], arrow_nullable = True, arrow_data_type = t\<rparr>,
      mapping_mssql = \<lparr>column_name = Identifier [], column_ty = ty, column_nullable = True\<rparr>\<rparr>"

lemma sample_mapping_types [simp]:
  "source_type (sample_mapping t ty) = t" "target_type (sample_mapping t ty) = ty"
  by (simp_all add: sample_mapping_def)

lemma fits_iff_supported:
  "(\<exists>enc. encoding_fits enc t ty) \<longleftrightarrow> current_direct_support (sample_mapping t ty) \<noteq> Unsupported"
  using current_direct_unsupported [of "sample_mapping t ty"] encoding_fits_chain [of "sample_mapping t ty"]
  by (cases "current_direct_support (sample_mapping t ty)") auto

lemmas run_support = support_chain primitive_classify_def decimal_classify_def decimal_target_def
  uint64_classify_def variable_width_classify_def fixed_size_binary_classify_def temporal_classify_def
  is_arrow_string_family_def is_arrow_binary_family_def and_then_def

lemma planned_type_fits:
  assumes "plan_arrow_data_type index field options = Ok ty"
  shows "(\<exists>enc. encoding_fits enc (field_data_type field) ty) \<longleftrightarrow> \<not> beyond_driver_scale ty"
proof (cases "field_data_type field")
  case (DtDecimal32 p s)
  with assms have "plan_arrow_decimal p s (decimal_policy options) index field = Ok ty"
    by (simp add: plan_arrow_data_type_def)
  with DtDecimal32 show ?thesis
    by (simp add: planned_decimal_fits [where D = FromDecimal32] type_family_def)
next
  case (DtDecimal64 p s)
  with assms have "plan_arrow_decimal p s (decimal_policy options) index field = Ok ty"
    by (simp add: plan_arrow_data_type_def)
  with DtDecimal64 show ?thesis
    by (simp add: planned_decimal_fits [where D = FromDecimal64] type_family_def)
next
  case (DtDecimal128 p s)
  with assms have "plan_arrow_decimal p s (decimal_policy options) index field = Ok ty"
    by (simp add: plan_arrow_data_type_def)
  with DtDecimal128 show ?thesis
    by (simp add: planned_decimal_fits [where D = FromDecimal128] type_family_def)
next
  case (DtDecimal256 p s)
  with assms have "plan_arrow_decimal p s (decimal_policy options) index field = Ok ty"
    by (simp add: plan_arrow_data_type_def plan_arrow_decimal256_def split: decimal256_policy.splits)
  with DtDecimal256 show ?thesis
    by (simp add: planned_decimal_fits [where D = FromDecimal256] type_family_def)
next
  case (DtTimestamp u tz)
  with assms show ?thesis
    by (auto simp: fits_iff_supported run_support plan_arrow_data_type_def plan_cases
        beyond_driver_scale_def has_timezone_def is_timezone_free_def
        split: timestamp_policy.splits if_splits option.splits)
qed (use assms in \<open>auto simp: fits_iff_supported run_support plan_arrow_data_type_def plan_cases
    beyond_driver_scale_def SQL_SERVER_MAX_BINARY_LEN_def try_unsigned_def in_unsigned_def ok_or_def
    split: uint64_policy.splits string_policy.splits binary_policy.splits date64_policy.splits
      time_unit.splits if_splits\<close>)

lemma planned_mapping_supported:
  assumes "plan_arrow_schema_to_mssql_schema fs profile options = Ok out"
    and "m \<in> set (planned_mappings (outcome_value out))"
  shows "current_direct_support m = Unsupported \<longleftrightarrow> beyond_driver_scale (target_type m)"
proof -
  from assms planned_mappings_nth(1) [OF assms(1) refl] obtain i where i: "i < length fs"
    "m = planned_mappings (outcome_value out) ! i"
    by (metis in_set_conv_nth)
  from plan_arrow_field_Ok [OF planned_mappings_nth(2) [OF assms(1) refl i(1)]] i(2)
  have "source_type m = field_data_type (fs ! i)"
    and "plan_arrow_data_type i (fs ! i) options = Ok (target_type m)" by simp_all
  with planned_type_fits [OF this(2)] show ?thesis
    using current_direct_unsupported [of m] encoding_fits_chain [of m]
    by (cases "current_direct_support m") auto
qed

text \<open>C13: a planned schema can be written by the direct encoder
  exactly when none of its columns is a decimal of scale 38. Then the plan has one column per
  mapping, in order, each with the mapping's index, name, target type and nullability and with
  the encoding of its pair of types; otherwise planning reports exactly the scale-38 columns,
  in order, each as one error diagnostic that names the column.\<close>

theorem direct_plan_of_planned_schema:
  assumes "plan_arrow_schema_to_mssql_schema fs profile options = Ok out"
  shows "let ms = planned_mappings (outcome_value out);
             bad = filter (\<lambda>m. beyond_driver_scale (target_type m)) ms in
      if bad = []
      then \<exists>cols. direct_encoder_plan_new ms current_direct_support = Ok cols
        \<and> list_all2 (\<lambda>m col. col = column_plan_from_mapping m (plan_encoding col)
            \<and> encoding_fits (plan_encoding col) (source_type m) (target_type m)) ms cols
      else direct_encoder_plan_new ms current_direct_support
        = Err (DirectEncoding (map unsupported_mapping_diagnostic bad))"
proof -
  let ?ms = "planned_mappings (outcome_value out)"
  note supp = planned_mapping_supported [OF assms]
  have bad: "filter (\<lambda>m. current_direct_support m = Unsupported) ?ms
      = filter (\<lambda>m. beyond_driver_scale (target_type m)) ?ms"
    by (rule filter_cong [OF refl]) (simp add: supp)
  show ?thesis
  proof (cases "filter (\<lambda>m. beyond_driver_scale (target_type m)) ?ms = []")
    case True
    with supp obtain cols where cols: "direct_encoder_plan_new ?ms current_direct_support = Ok cols"
      by (auto simp: current_support.plan_new filter_empty_conv)
    have "list_all2 (\<lambda>m col. col = column_plan_from_mapping m (plan_encoding col)
            \<and> encoding_fits (plan_encoding col) (source_type m) (target_type m)) ?ms cols"
      using current_support.plan_new_Ok [OF cols]
      by (force simp: list_all2_conv_all_nth column_plan_from_mapping_def)
    with True cols show ?thesis by (simp add: Let_def)
  next
    case False
    with bad show ?thesis
      by (auto simp: Let_def current_support.plan_new supp filter_empty_conv)
  qed
qed

theorem direct_plan_of_planned_schema_witness:
  "\<exists>out cols. plan_arrow_schema_to_mssql_schema example_fields sql_server_2016_compat_100
       plan_options_default = Ok out
     \<and> direct_encoder_plan_new (planned_mappings (outcome_value out)) current_direct_support = Ok cols
     \<and> length cols = 3"
proof -
  obtain out where out: "plan_arrow_schema_to_mssql_schema example_fields sql_server_2016_compat_100
      plan_options_default = Ok out"
    using example_fields_plan by blast
  let ?ms = "planned_mappings (outcome_value out)"
  have "\<not> beyond_driver_scale (target_type (?ms ! i))" if "i < length example_fields" for i
    using plan_arrow_field_Ok(5) [OF planned_mappings_nth(2) [OF out refl that]] that
    by (auto simp: example_fields_def less_Suc_eq plan_arrow_data_type_def plan_arrow_decimal_def
        normalize_arrow_decimal_shape_def SQL_SERVER_MAX_DECIMAL_PRECISION_def try_unsigned_def
        in_unsigned_def plan_arrow_timestamp_def has_timezone_def plan_timestamp_policy_def
        plan_options_default_def beyond_driver_scale_def dest!: sym [of _ "target_type _"])
  then have "filter (\<lambda>m. beyond_driver_scale (target_type m)) ?ms = []"
    using planned_mappings_nth(1) [OF out refl] by (auto simp: filter_empty_conv in_set_conv_nth)
  with direct_plan_of_planned_schema [OF out] planned_mappings_nth(1) [OF out refl] out show ?thesis
    by (auto simp: Let_def example_fields_def dest: list_all2_lengthD)
qed

end
