(* ===== verification/Cells.thy ===== *)
theory Cells
  imports Classify
begin

text \<open>
  The values a row is made of: the Arrow cell read from an array (\<^verbatim>\<open>ArrowCell\<close> of
  \<^verbatim>\<open>src/arrow/cell.rs\<close>) and the SQL Server cell written for it (\<^verbatim>\<open>src/mssql/cell.rs\<close>), and the
  runtime mapping that pairs a mapping with the write context
  (\<^verbatim>\<open>src/mssql/cell/from_arrow.rs\<close>).

  Floating point values are their IEEE bit patterns; no arithmetic is done on them.
\<close>

type_synonym f32 = "32 word"
type_synonym f64 = "64 word"
type_synonym bytes = "u8 list"

text \<open>\<^verbatim>\<open>is_finite\<close>: the exponent is not all ones.\<close>

definition f32_is_finite :: "f32 \<Rightarrow> bool" where
  "f32_is_finite v \<longleftrightarrow> unat (drop_bit 23 v) mod 256 \<noteq> 255"

definition f64_is_finite :: "f64 \<Rightarrow> bool" where
  "f64_is_finite v \<longleftrightarrow> unat (drop_bit 52 v) mod 2048 \<noteq> 2047"

datatype arrow_cell =
    CellNull
  | CellBoolean bool
  | CellInt8 i8
  | CellInt16 i16
  | CellInt32 i32
  | CellInt64 i64
  | CellUInt8 u8
  | CellUInt16 u16
  | CellUInt32 u32
  | CellUInt64 u64
  | CellDecimal32 i32
  | CellDecimal64 i64
  | CellDecimal128 i128
  | CellDecimal256 i256
  | CellDate32 i32
  | CellDate64 i64
  | CellTime32Second i32
  | CellTime32Millisecond i32
  | CellTime64Microsecond i64
  | CellTime64Nanosecond i64
  | CellTimestampSecond i64
  | CellTimestampMillisecond i64
  | CellTimestampMicrosecond i64
  | CellTimestampNanosecond i64
  | CellFloat32 f32
  | CellFloat16 f32
  | CellFloat64 f64
  | CellUtf8 rstr
  | CellBinary bytes

subsection \<open>SQL Server values\<close>

record mssql_decimal =
  dec_unscaled :: i128
  dec_scale :: u8

record mssql_date =
  date_days :: u32

record mssql_time =
  time_increments :: u64
  time_scale :: u8

record mssql_datetime =
  datetime_days :: i32
  datetime_fragments :: u32

record mssql_datetime2 =
  datetime2_date :: mssql_date
  datetime2_time :: mssql_time

record mssql_datetimeoffset =
  dto_datetime2 :: mssql_datetime2
  dto_offset_minutes :: i16

datatype mssql_cell =
    CBit "bool option"
  | CTinyInt "u8 option"
  | CSmallInt "i16 option"
  | CInt "i32 option"
  | CBigInt "i64 option"
  | CDecimal "mssql_decimal option"
  | CDate "mssql_date option"
  | CTime "mssql_time option"
  | CDateTime "mssql_datetime option"
  | CDateTime2 "mssql_datetime2 option"
  | CDateTimeOffset "mssql_datetimeoffset option"
  | CReal "f32 option"
  | CFloat "f64 option"
  | CNVarChar "rstr option"
  | CVarBinary "bytes option"

definition mssql_decimal_new :: "i128 \<Rightarrow> u8 \<Rightarrow> mssql_decimal" where
  "mssql_decimal_new v s = \<lparr>dec_unscaled = v, dec_scale = s\<rparr>"

definition mssql_date_new :: "u32 \<Rightarrow> mssql_date" where
  "mssql_date_new d = \<lparr>date_days = d\<rparr>"

definition mssql_time_new :: "u64 \<Rightarrow> u8 \<Rightarrow> mssql_time" where
  "mssql_time_new i s = \<lparr>time_increments = i, time_scale = s\<rparr>"

definition mssql_datetime_new :: "i32 \<Rightarrow> u32 \<Rightarrow> mssql_datetime" where
  "mssql_datetime_new d f = \<lparr>datetime_days = d, datetime_fragments = f\<rparr>"

definition mssql_datetime2_new :: "mssql_date \<Rightarrow> mssql_time \<Rightarrow> mssql_datetime2" where
  "mssql_datetime2_new d t = \<lparr>datetime2_date = d, datetime2_time = t\<rparr>"

definition mssql_datetimeoffset_new :: "mssql_datetime2 \<Rightarrow> i16 \<Rightarrow> mssql_datetimeoffset" where
  "mssql_datetimeoffset_new d off = \<lparr>dto_datetime2 = d, dto_offset_minutes = off\<rparr>"

lemmas cell_new_defs = mssql_decimal_new_def mssql_date_new_def mssql_time_new_def
  mssql_datetime_new_def mssql_datetime2_new_def mssql_datetimeoffset_new_def

record runtime_mapping =
  rm_mapping :: schema_mapping
  rm_context :: runtime_context

definition rm_nanosecond_policy :: "runtime_mapping \<Rightarrow> nanosecond_policy" where
  "rm_nanosecond_policy rm = context_nanosecond_policy (rm_context rm)"

definition rm_datetime_rounding :: "runtime_mapping \<Rightarrow> datetime_rounding" where
  "rm_datetime_rounding rm = context_datetime_rounding (rm_context rm)"

definition is_null_cell :: "mssql_cell \<Rightarrow> bool" where
  "is_null_cell c \<longleftrightarrow>
     (case c of
        CBit v \<Rightarrow> v = None | CTinyInt v \<Rightarrow> v = None | CSmallInt v \<Rightarrow> v = None | CInt v \<Rightarrow> v = None
      | CBigInt v \<Rightarrow> v = None | CDecimal v \<Rightarrow> v = None | CDate v \<Rightarrow> v = None | CTime v \<Rightarrow> v = None
      | CDateTime v \<Rightarrow> v = None | CDateTime2 v \<Rightarrow> v = None | CDateTimeOffset v \<Rightarrow> v = None
      | CReal v \<Rightarrow> v = None | CFloat v \<Rightarrow> v = None | CNVarChar v \<Rightarrow> v = None
      | CVarBinary v \<Rightarrow> v = None)"

text \<open>The kind of cell a SQL Server type takes.\<close>

definition cell_has_type :: "mssql_cell \<Rightarrow> mssql_type \<Rightarrow> bool" where
  "cell_has_type c ty \<longleftrightarrow>
     (case ty of
        MsBit \<Rightarrow> (case c of CBit _ \<Rightarrow> True | _ \<Rightarrow> False)
      | MsTinyInt \<Rightarrow> (case c of CTinyInt _ \<Rightarrow> True | _ \<Rightarrow> False)
      | MsSmallInt \<Rightarrow> (case c of CSmallInt _ \<Rightarrow> True | _ \<Rightarrow> False)
      | MsInt \<Rightarrow> (case c of CInt _ \<Rightarrow> True | _ \<Rightarrow> False)
      | MsBigInt \<Rightarrow> (case c of CBigInt _ \<Rightarrow> True | _ \<Rightarrow> False)
      | MsReal \<Rightarrow> (case c of CReal _ \<Rightarrow> True | _ \<Rightarrow> False)
      | MsFloat _ \<Rightarrow> (case c of CFloat _ \<Rightarrow> True | _ \<Rightarrow> False)
      | MsNVarChar _ \<Rightarrow> (case c of CNVarChar _ \<Rightarrow> True | _ \<Rightarrow> False)
      | MsVarBinary _ \<Rightarrow> (case c of CVarBinary _ \<Rightarrow> True | _ \<Rightarrow> False)
      | MsBinary _ \<Rightarrow> (case c of CVarBinary _ \<Rightarrow> True | _ \<Rightarrow> False)
      | MsDecimal _ _ \<Rightarrow> (case c of CDecimal _ \<Rightarrow> True | _ \<Rightarrow> False)
      | MsDate \<Rightarrow> (case c of CDate _ \<Rightarrow> True | _ \<Rightarrow> False)
      | MsTime _ \<Rightarrow> (case c of CTime _ \<Rightarrow> True | _ \<Rightarrow> False)
      | MsDateTime \<Rightarrow> (case c of CDateTime _ \<Rightarrow> True | _ \<Rightarrow> False)
      | MsDateTime2 _ \<Rightarrow> (case c of CDateTime2 _ \<Rightarrow> True | _ \<Rightarrow> False)
      | MsDateTimeOffset _ \<Rightarrow> (case c of CDateTimeOffset _ \<Rightarrow> True | _ \<Rightarrow> False))"

text \<open>A mapping of one nullable column, for examples.\<close>

definition example_mapping :: "data_type \<Rightarrow> mssql_type \<Rightarrow> schema_mapping" where
  "example_mapping t ty =
     \<lparr>mapping_arrow = \<lparr>arrow_index = 0, arrow_name = lit ''c'', arrow_nullable = True,
        arrow_data_type = t\<rparr>,
      mapping_mssql = \<lparr>column_name = Identifier (lit ''c''), column_ty = ty, column_nullable = True\<rparr>\<rparr>"

lemma example_mapping_simps [simp]:
  "source_type (example_mapping t ty) = t" "target_type (example_mapping t ty) = ty"
  "column_nullable (mapping_mssql (example_mapping t ty)) = True"
  by (simp_all add: example_mapping_def)

end
