(* ===== verification/ScalarConversion.thy ===== *)
theory ScalarConversion
  imports Complex_Main Cells
begin

text \<open>
  Baseline conversion of primitive, decimal, string and binary cells:
  \<^verbatim>\<open>src/mssql/cell/from_arrow/primitive.rs\<close>, \<^verbatim>\<open>decimal.rs\<close> and \<^verbatim>\<open>variable_width.rs\<close>.
  The code's \<^verbatim>\<open>debug_assert_eq!\<close> of the two length arguments of the variable-width
  conversions is the lemma \<^verbatim>\<open>lengths_agree\<close>.
\<close>

subsection \<open>Primitives\<close>

definition primitive_mssql_cell :: "schema_mapping \<Rightarrow> usize \<Rightarrow> arrow_cell \<Rightarrow> error + mssql_cell" where
  "primitive_mssql_cell m row cell =
     (let mismatch = Err (conversion_error m row ValueTypeMismatch);
          non_finite = Err (conversion_error m row NonFiniteFloat) in
      case primitive_classify m row of
        Inl _ \<Rightarrow> mismatch
      | Inr c \<Rightarrow>
          (case c of
             BooleanToBit \<Rightarrow> (case cell of CellBoolean v \<Rightarrow> Ok (CBit (Some v)) | _ \<Rightarrow> mismatch)
           | UInt8ToTinyInt \<Rightarrow> (case cell of CellUInt8 v \<Rightarrow> Ok (CTinyInt (Some v)) | _ \<Rightarrow> mismatch)
           | Int8ToSmallInt \<Rightarrow> (case cell of CellInt8 v \<Rightarrow> Ok (CSmallInt (Some (scast v))) | _ \<Rightarrow> mismatch)
           | Int16ToSmallInt \<Rightarrow> (case cell of CellInt16 v \<Rightarrow> Ok (CSmallInt (Some v)) | _ \<Rightarrow> mismatch)
           | Int32ToInt \<Rightarrow> (case cell of CellInt32 v \<Rightarrow> Ok (CInt (Some v)) | _ \<Rightarrow> mismatch)
           | UInt16ToInt \<Rightarrow> (case cell of CellUInt16 v \<Rightarrow> Ok (CInt (Some (ucast v))) | _ \<Rightarrow> mismatch)
           | Int64ToBigInt \<Rightarrow> (case cell of CellInt64 v \<Rightarrow> Ok (CBigInt (Some v)) | _ \<Rightarrow> mismatch)
           | UInt32ToBigInt \<Rightarrow> (case cell of CellUInt32 v \<Rightarrow> Ok (CBigInt (Some (ucast v))) | _ \<Rightarrow> mismatch)
           | UInt64ToCheckedBigInt \<Rightarrow>
               (case cell of
                  CellUInt64 v \<Rightarrow>
                    map_ok (\<lambda>w. CBigInt (Some w))
                      (ok_or (conversion_error m row IntegerOutOfRange) (try_signed (uint v)))
                | _ \<Rightarrow> mismatch)
           | Float16ToReal \<Rightarrow>
               (case cell of
                  CellFloat16 v \<Rightarrow> if f32_is_finite v then Ok (CReal (Some v)) else non_finite
                | _ \<Rightarrow> mismatch)
           | Float32ToReal \<Rightarrow>
               (case cell of
                  CellFloat32 v \<Rightarrow> if f32_is_finite v then Ok (CReal (Some v)) else non_finite
                | _ \<Rightarrow> mismatch)
           | Float64ToFloat \<Rightarrow>
               (case cell of
                  CellFloat64 v \<Rightarrow> if f64_is_finite v then Ok (CFloat (Some v)) else non_finite
                | _ \<Rightarrow> mismatch)))"

subsection \<open>Decimals\<close>

definition classify_uint64_decimal20_0 :: "schema_mapping \<Rightarrow> usize \<Rightarrow> error + unit" where
  "classify_uint64_decimal20_0 m row =
     and_then (uint64_classify m row) (\<lambda>c.
       case c of
         U64Decimal20_0 \<Rightarrow> Ok ()
       | U64CheckedBigInt \<Rightarrow> Err (conversion_error m row ValueTypeMismatch))"

definition is_uint64_decimal20_0_mapping :: "schema_mapping \<Rightarrow> bool" where
  "is_uint64_decimal20_0_mapping m \<longleftrightarrow>
     (case uint64_classify m 0 of Inr U64Decimal20_0 \<Rightarrow> True | _ \<Rightarrow> False)"

definition decimal_scale :: "schema_mapping \<Rightarrow> usize \<Rightarrow> error + u8" where
  "decimal_scale m row =
     (case target_type m of
        MsDecimal _ scale \<Rightarrow>
          and_then (ok_or (conversion_error m row DecimalOutOfRange) (try_unsigned (sint scale)))
            (\<lambda>s :: u8. if s \<ge> 38 then Err (conversion_error m row DecimalOutOfRange) else Ok s)
      | _ \<Rightarrow> Err (conversion_error m row ValueTypeMismatch))"

definition validate_uint64_decimal_scale_compatibility ::
    "schema_mapping \<Rightarrow> usize \<Rightarrow> u8 \<Rightarrow> error + unit" where
  "validate_uint64_decimal_scale_compatibility m row planned_scale =
     and_then (classify_uint64_decimal20_0 m row) (\<lambda>_.
       if planned_scale = 0 then Ok () else Err (conversion_error m row SchemaMismatch))"

text \<open>\<^verbatim>\<open>10_i128.checked_pow(p)\<close> and \<^verbatim>\<open>checked_sub(1)\<close>.\<close>

definition decimal_max_unscaled :: "u8 \<Rightarrow> int option" where
  "decimal_max_unscaled precision =
     Option.bind (checked_i128 (10 ^ unat precision)) (\<lambda>p. checked_i128 (p - 1))"

definition decimal_unscaled_fits_precision :: "int \<Rightarrow> u8 \<Rightarrow> bool" where
  "decimal_unscaled_fits_precision v precision \<longleftrightarrow>
     (if precision = 0 then False
      else case decimal_max_unscaled precision of
             None \<Rightarrow> False
           | Some mx \<Rightarrow> v \<le> mx \<and> v \<ge> - mx)"

definition mssql_decimal_with_shape ::
    "schema_mapping \<Rightarrow> usize \<Rightarrow> int \<Rightarrow> u8 \<Rightarrow> u8 \<Rightarrow> error + mssql_decimal" where
  "mssql_decimal_with_shape m row unscaled precision scale =
     (if decimal_unscaled_fits_precision unscaled precision
      then Ok (mssql_decimal_new (word_of_int unscaled) scale)
      else Err (conversion_error m row DecimalOutOfRange))"

definition mssql_decimal :: "schema_mapping \<Rightarrow> usize \<Rightarrow> int \<Rightarrow> u8 \<Rightarrow> error + mssql_decimal" where
  "mssql_decimal m row unscaled scale =
     (case target_type m of
        MsDecimal precision _ \<Rightarrow> mssql_decimal_with_shape m row unscaled precision scale
      | _ \<Rightarrow> Err (conversion_error m row ValueTypeMismatch))"

definition mssql_decimal_for_classification ::
    "schema_mapping \<Rightarrow> usize \<Rightarrow> int \<Rightarrow> decimal_conversion \<Rightarrow> error + mssql_decimal" where
  "mssql_decimal_for_classification m row unscaled c =
     mssql_decimal_with_shape m row unscaled (target_precision c) (target_scale c)"

definition normalize_negative_scale :: "schema_mapping \<Rightarrow> usize \<Rightarrow> int \<Rightarrow> i8 \<Rightarrow> error + int" where
  "normalize_negative_scale m row unscaled arrow_sc =
     (if sint arrow_sc \<ge> 0 then Ok unscaled
      else
        and_then (ok_or (conversion_error m row DecimalOutOfRange)
                    (checked_i128 (10 ^ nat \<bar>sint arrow_sc\<bar>)))
          (\<lambda>factor. ok_or (conversion_error m row DecimalOutOfRange)
                      (checked_i128 (unscaled * factor))))"

definition normalize_unscaled_decimal :: "schema_mapping \<Rightarrow> usize \<Rightarrow> int \<Rightarrow> i8 \<Rightarrow> error + int" where
  "normalize_unscaled_decimal m row unscaled arrow_sc =
     (if sint arrow_sc \<ge> 0 then Ok unscaled
      else normalize_negative_scale m row unscaled arrow_sc)"

definition mssql_decimal_value :: "schema_mapping \<Rightarrow> usize \<Rightarrow> arrow_cell \<Rightarrow> error + mssql_decimal" where
  "mssql_decimal_value m row cell =
     (if source_type m = DtUInt64 then
        and_then (decimal_scale m row) (\<lambda>scale.
        and_then (validate_uint64_decimal_scale_compatibility m row scale) (\<lambda>_.
          (case cell of
             CellUInt64 v \<Rightarrow>
               and_then (classify_uint64_decimal20_0 m row) (\<lambda>_. mssql_decimal m row (uint v) scale)
           | _ \<Rightarrow> Err (conversion_error m row ValueTypeMismatch))))
      else
        and_then (decimal_classify m row) (\<lambda>c.
          let mismatch = Err (conversion_error m row ValueTypeMismatch);
              finish = (\<lambda>v. and_then (normalize_unscaled_decimal m row v (arrow_scale c))
                              (\<lambda>v'. mssql_decimal_for_classification m row v' c)) in
          case c of
            FromDecimal32 _ _ _ \<Rightarrow> (case cell of CellDecimal32 v \<Rightarrow> finish (sint v) | _ \<Rightarrow> mismatch)
          | FromDecimal64 _ _ _ \<Rightarrow> (case cell of CellDecimal64 v \<Rightarrow> finish (sint v) | _ \<Rightarrow> mismatch)
          | FromDecimal128 _ _ _ \<Rightarrow> (case cell of CellDecimal128 v \<Rightarrow> finish (sint v) | _ \<Rightarrow> mismatch)
          | FromDecimal256 _ _ _ \<Rightarrow>
              (case cell of
                 CellDecimal256 v \<Rightarrow>
                   and_then (ok_or (conversion_error m row DecimalOutOfRange) (checked_i128 (sint v)))
                     finish
               | _ \<Rightarrow> mismatch)))"

definition supports_null_decimal_cell :: "schema_mapping \<Rightarrow> bool" where
  "supports_null_decimal_cell m \<longleftrightarrow>
     (let decimal_target = (case target_type m of MsDecimal _ _ \<Rightarrow> True | _ \<Rightarrow> False) in
      case source_type m of
        DtUInt64 \<Rightarrow> is_uint64_decimal20_0_mapping m
      | DtDecimal32 _ _ \<Rightarrow> decimal_target
      | DtDecimal64 _ _ \<Rightarrow> decimal_target
      | DtDecimal128 _ _ \<Rightarrow> decimal_target
      | DtDecimal256 _ _ \<Rightarrow> decimal_target
      | _ \<Rightarrow> False)"

subsection \<open>Strings and binary values\<close>

text \<open>\<^verbatim>\<open>encode_utf16\<close>: one code unit up to U+FFFF, a surrogate pair above.\<close>

definition utf16_units :: "nat \<Rightarrow> u16 list" where
  "utf16_units c =
     (if c < 0x10000 then [word_of_nat c]
      else [word_of_nat (0xD800 + (c - 0x10000) div 0x400), word_of_nat (0xDC00 + (c - 0x10000) mod 0x400)])"

definition encode_utf16 :: "rstr \<Rightarrow> u16 list" where
  "encode_utf16 s = concat (map utf16_units s)"

definition exceeds_length :: "mssql_type_length \<Rightarrow> usize \<Rightarrow> bool" where
  "exceeds_length len actual \<longleftrightarrow> (case len of Bounded limit \<Rightarrow> actual > limit | MaxLength \<Rightarrow> False)"

definition mssql_nvarchar_value :: "schema_mapping \<Rightarrow> usize \<Rightarrow> arrow_cell \<Rightarrow> error + rstr" where
  "mssql_nvarchar_value m row cell =
     (case cell of CellUtf8 v \<Rightarrow> Ok v | _ \<Rightarrow> Err (conversion_error m row ValueTypeMismatch))"

definition mssql_varbinary_value :: "schema_mapping \<Rightarrow> usize \<Rightarrow> arrow_cell \<Rightarrow> error + bytes" where
  "mssql_varbinary_value m row cell =
     (case cell of CellBinary v \<Rightarrow> Ok v | _ \<Rightarrow> Err (conversion_error m row ValueTypeMismatch))"

definition nvar_char_cell ::
    "schema_mapping \<Rightarrow> usize \<Rightarrow> mssql_type_length \<Rightarrow> arrow_cell \<Rightarrow> error + mssql_cell" where
  "nvar_char_cell m row len cell =
     and_then (variable_width_classify m row) (\<lambda>c.
       case c of
         StringToNVarChar _ \<Rightarrow>
           and_then (mssql_nvarchar_value m row cell) (\<lambda>v.
             if exceeds_length len (length (encode_utf16 v))
             then Err (conversion_error m row ValueTooLong)
             else Ok (CNVarChar (Some v)))
       | BytesToVarBinary _ \<Rightarrow> Err (conversion_error m row ValueConversionUnsupported))"

definition var_binary_cell ::
    "schema_mapping \<Rightarrow> usize \<Rightarrow> mssql_type_length \<Rightarrow> arrow_cell \<Rightarrow> error + mssql_cell" where
  "var_binary_cell m row len cell =
     and_then (variable_width_classify m row) (\<lambda>c.
       case c of
         BytesToVarBinary _ \<Rightarrow>
           and_then (mssql_varbinary_value m row cell) (\<lambda>v.
             if exceeds_length len (length v)
             then Err (conversion_error m row ValueTooLong)
             else Ok (CVarBinary (Some v)))
       | StringToNVarChar _ \<Rightarrow> Err (conversion_error m row ValueConversionUnsupported))"

definition binary_cell ::
    "schema_mapping \<Rightarrow> usize \<Rightarrow> usize \<Rightarrow> arrow_cell \<Rightarrow> error + mssql_cell" where
  "binary_cell m row len cell =
     and_then (fixed_size_binary_classify m row) (\<lambda>_.
     and_then (mssql_varbinary_value m row cell) (\<lambda>v.
       if length v \<noteq> len then Err (conversion_error m row ValueTypeMismatch)
       else Ok (CVarBinary (Some v))))"

subsection \<open>Primitive values are preserved\<close>

datatype prim_value = VBool bool | VInt int | VF32 f32 | VF64 f64

text \<open>The value of an Arrow cell, and of a SQL Server cell.\<close>

definition arrow_prim :: "arrow_cell \<Rightarrow> prim_value option" where
  "arrow_prim cell =
     (case cell of
        CellBoolean b \<Rightarrow> Some (VBool b)
      | CellInt8 v \<Rightarrow> Some (VInt (sint v)) | CellInt16 v \<Rightarrow> Some (VInt (sint v))
      | CellInt32 v \<Rightarrow> Some (VInt (sint v)) | CellInt64 v \<Rightarrow> Some (VInt (sint v))
      | CellUInt8 v \<Rightarrow> Some (VInt (uint v)) | CellUInt16 v \<Rightarrow> Some (VInt (uint v))
      | CellUInt32 v \<Rightarrow> Some (VInt (uint v)) | CellUInt64 v \<Rightarrow> Some (VInt (uint v))
      | CellFloat16 v \<Rightarrow> Some (VF32 v) | CellFloat32 v \<Rightarrow> Some (VF32 v)
      | CellFloat64 v \<Rightarrow> Some (VF64 v)
      | _ \<Rightarrow> None)"

definition mssql_prim :: "mssql_cell \<Rightarrow> prim_value option" where
  "mssql_prim c =
     (case c of
        CBit v \<Rightarrow> map_option VBool v
      | CTinyInt v \<Rightarrow> map_option (VInt \<circ> uint) v
      | CSmallInt v \<Rightarrow> map_option (VInt \<circ> sint) v
      | CInt v \<Rightarrow> map_option (VInt \<circ> sint) v
      | CBigInt v \<Rightarrow> map_option (VInt \<circ> sint) v
      | CReal v \<Rightarrow> map_option VF32 v
      | CFloat v \<Rightarrow> map_option VF64 v
      | _ \<Rightarrow> None)"

text \<open>The payload each conversion takes, and the values the target cannot hold.\<close>

definition primitive_payload :: "primitive_conversion \<Rightarrow> arrow_cell \<Rightarrow> bool" where
  "primitive_payload c cell \<longleftrightarrow>
     (case c of
        BooleanToBit \<Rightarrow> (case cell of CellBoolean _ \<Rightarrow> True | _ \<Rightarrow> False)
      | UInt8ToTinyInt \<Rightarrow> (case cell of CellUInt8 _ \<Rightarrow> True | _ \<Rightarrow> False)
      | Int8ToSmallInt \<Rightarrow> (case cell of CellInt8 _ \<Rightarrow> True | _ \<Rightarrow> False)
      | Int16ToSmallInt \<Rightarrow> (case cell of CellInt16 _ \<Rightarrow> True | _ \<Rightarrow> False)
      | Int32ToInt \<Rightarrow> (case cell of CellInt32 _ \<Rightarrow> True | _ \<Rightarrow> False)
      | UInt16ToInt \<Rightarrow> (case cell of CellUInt16 _ \<Rightarrow> True | _ \<Rightarrow> False)
      | Int64ToBigInt \<Rightarrow> (case cell of CellInt64 _ \<Rightarrow> True | _ \<Rightarrow> False)
      | UInt32ToBigInt \<Rightarrow> (case cell of CellUInt32 _ \<Rightarrow> True | _ \<Rightarrow> False)
      | UInt64ToCheckedBigInt \<Rightarrow> (case cell of CellUInt64 _ \<Rightarrow> True | _ \<Rightarrow> False)
      | Float16ToReal \<Rightarrow> (case cell of CellFloat16 _ \<Rightarrow> True | _ \<Rightarrow> False)
      | Float32ToReal \<Rightarrow> (case cell of CellFloat32 _ \<Rightarrow> True | _ \<Rightarrow> False)
      | Float64ToFloat \<Rightarrow> (case cell of CellFloat64 _ \<Rightarrow> True | _ \<Rightarrow> False))"

definition too_large_for_bigint :: "arrow_cell \<Rightarrow> bool" where
  "too_large_for_bigint cell \<longleftrightarrow> (case cell of CellUInt64 v \<Rightarrow> 2 ^ 63 \<le> uint v | _ \<Rightarrow> False)"

definition non_finite_cell :: "arrow_cell \<Rightarrow> bool" where
  "non_finite_cell cell \<longleftrightarrow>
     (case cell of
        CellFloat16 v \<Rightarrow> \<not> f32_is_finite v | CellFloat32 v \<Rightarrow> \<not> f32_is_finite v
      | CellFloat64 v \<Rightarrow> \<not> f64_is_finite v | _ \<Rightarrow> False)"

lemma sint_ucast_up:
  "LENGTH('a::len) < LENGTH('b::len) \<Longrightarrow> sint (ucast (w :: 'a word) :: 'b word) = uint w"
proof -
  assume less: "LENGTH('a) < LENGTH('b)"
  have "uint w < 2 ^ LENGTH('a)" by (rule uint_lt2p)
  also have "\<dots> \<le> (2::int) ^ (LENGTH('b) - 1)" using less by simp
  finally have "in_signed LENGTH('b) (uint w)"
    by (simp add: in_signed_def) (meson neg_le_0_iff_le order_trans uint_nonnegative zero_le_numeral zero_le_power)
  then show ?thesis
    by (metis sint_word_of_int_fits unsigned_ucast_eq word_of_int_uint ucast_eq)
qed

lemma sint_scast_up:
  "LENGTH('a::len) \<le> LENGTH('b::len) \<Longrightarrow> sint (scast (w :: 'a word) :: 'b word) = sint w"
  by (simp add: sint_up_scast is_up)

lemma primitive_cells:
  assumes "primitive_classify m row = Ok c" "primitive_payload c cell"
  shows "primitive_mssql_cell m row cell =
      (if too_large_for_bigint cell then Err (conversion_error m row IntegerOutOfRange)
       else if non_finite_cell cell then Err (conversion_error m row NonFiniteFloat)
       else primitive_mssql_cell m row cell)"
    and "primitive_mssql_cell m row cell = Ok out \<Longrightarrow>
      mssql_prim out = arrow_prim cell \<and> arrow_prim cell \<noteq> None \<and> cell_has_type out (target_type m)"
    and "\<not> too_large_for_bigint cell \<Longrightarrow> \<not> non_finite_cell cell \<Longrightarrow> is_ok (primitive_mssql_cell m row cell)"
proof -
  note fits = assms(1) [unfolded primitive_cls.classify_Ok]
  show "primitive_mssql_cell m row cell =
      (if too_large_for_bigint cell then Err (conversion_error m row IntegerOutOfRange)
       else if non_finite_cell cell then Err (conversion_error m row NonFiniteFloat)
       else primitive_mssql_cell m row cell)"
    using assms
    by (cases c; cases cell)
      (auto simp: primitive_mssql_cell_def primitive_payload_def too_large_for_bigint_def
        non_finite_cell_def try_signed_def in_signed_def Let_def)
  show "primitive_mssql_cell m row cell = Ok out \<Longrightarrow>
      mssql_prim out = arrow_prim cell \<and> arrow_prim cell \<noteq> None \<and> cell_has_type out (target_type m)"
    using assms fits
    by (cases c; cases cell)
      (auto simp: primitive_mssql_cell_def primitive_payload_def mssql_prim_def arrow_prim_def
        cell_has_type_def Let_def result_simps try_signed_Some sint_ucast_up sint_scast_up split: if_splits)
  show "\<not> too_large_for_bigint cell \<Longrightarrow> \<not> non_finite_cell cell \<Longrightarrow> is_ok (primitive_mssql_cell m row cell)"
    using assms
    by (cases c; cases cell)
      (auto simp: primitive_mssql_cell_def primitive_payload_def too_large_for_bigint_def
        non_finite_cell_def try_signed_def in_signed_def Let_def intro: order_trans [OF _ uint_nonnegative])
qed

lemma primitive_mismatch:
  assumes "primitive_classify m row = Ok c" "\<not> primitive_payload c cell"
  shows "primitive_mssql_cell m row cell = Err (conversion_error m row ValueTypeMismatch)"
  using assms by (cases c; cases cell) (auto simp: primitive_mssql_cell_def primitive_payload_def Let_def)

text \<open>primitive_conversion_exact: a planned primitive conversion either keeps the value or
  says why it cannot. With the payload of its class, an unsigned 64-bit value of 2^63 or more
  planned as \<^verbatim>\<open>bigint\<close> is an integer range error, a NaN or infinity is a non-finite error, and
  every other value is converted to a cell of the planned type that holds the same boolean,
  integer or float; with any other payload it is a type mismatch.\<close>

theorem primitive_conversion_exact:
  assumes "primitive_classify m row = Ok c"
  shows "if \<not> primitive_payload c cell
      then primitive_mssql_cell m row cell = Err (conversion_error m row ValueTypeMismatch)
      else if too_large_for_bigint cell
      then primitive_mssql_cell m row cell = Err (conversion_error m row IntegerOutOfRange)
      else if non_finite_cell cell
      then primitive_mssql_cell m row cell = Err (conversion_error m row NonFiniteFloat)
      else \<exists>out. primitive_mssql_cell m row cell = Ok out \<and> mssql_prim out = arrow_prim cell
        \<and> arrow_prim cell \<noteq> None \<and> cell_has_type out (target_type m)"
  using primitive_mismatch [OF assms] primitive_cells [OF assms, of cell]
  by (auto simp: is_ok_iff)

theorem primitive_conversion_exact_witness:
  "primitive_mssql_cell (example_mapping DtUInt64 MsBigInt) 7 (CellUInt64 (2 ^ 63))
     = Err (conversion_error (example_mapping DtUInt64 MsBigInt) 7 IntegerOutOfRange)
   \<and> (\<exists>out. primitive_mssql_cell (example_mapping DtUInt64 MsBigInt) 8 (CellUInt64 (2 ^ 63 - 1)) = Ok out
        \<and> mssql_prim out = Some (VInt (2 ^ 63 - 1)))"
proof -
  have "primitive_classify (example_mapping DtUInt64 MsBigInt) row = Ok UInt64ToCheckedBigInt" for row
    by (simp add: primitive_classify_def uint64_classify_def)
  from primitive_conversion_exact [OF this, of "CellUInt64 (2 ^ 63)" 7]
    primitive_conversion_exact [OF this, of "CellUInt64 (2 ^ 63 - 1)" 8]
  show ?thesis
    by (auto simp: primitive_payload_def too_large_for_bigint_def non_finite_cell_def arrow_prim_def)
qed

subsection \<open>Decimal values are preserved\<close>

definition decimal_payload :: "decimal_conversion \<Rightarrow> arrow_cell \<Rightarrow> int option" where
  "decimal_payload c cell =
     (case c of
        FromDecimal32 _ _ _ \<Rightarrow> (case cell of CellDecimal32 v \<Rightarrow> Some (sint v) | _ \<Rightarrow> None)
      | FromDecimal64 _ _ _ \<Rightarrow> (case cell of CellDecimal64 v \<Rightarrow> Some (sint v) | _ \<Rightarrow> None)
      | FromDecimal128 _ _ _ \<Rightarrow> (case cell of CellDecimal128 v \<Rightarrow> Some (sint v) | _ \<Rightarrow> None)
      | FromDecimal256 _ _ _ \<Rightarrow> (case cell of CellDecimal256 v \<Rightarrow> Some (sint v) | _ \<Rightarrow> None))"

text \<open>The number an unscaled integer stands for at a scale.\<close>

definition decimal_number :: "int \<Rightarrow> int \<Rightarrow> rat" where
  "decimal_number unscaled scale = of_int unscaled * 10 powi (- scale)"

lemma power10_in_i128: "n \<le> 38 \<Longrightarrow> in_i128 (10 ^ n)"
  using power10_mono [of n 38] by (simp add: in_signed_def order_trans [of _ 0])

lemma decimal_fits_precision:
  assumes "1 \<le> unat precision" "unat precision \<le> 38"
  shows "decimal_unscaled_fits_precision v precision \<longleftrightarrow> \<bar>v\<bar> < 10 ^ unat precision"
proof -
  have "in_i128 (10 ^ unat precision)" using assms by (intro power10_in_i128) simp
  moreover have "in_i128 (10 ^ unat precision - 1)"
    using calculation zero_le_power [of "10::int" "unat precision"] unfolding in_signed_def by linarith
  moreover have "precision \<noteq> 0" using assms by auto
  ultimately show ?thesis
    by (auto simp: decimal_unscaled_fits_precision_def decimal_max_unscaled_def checked_i128_def)
qed

lemma normalize_unscaled:
  assumes "- sint s \<le> 38"
  shows "normalize_unscaled_decimal m row v s =
    (let u = v * 10 ^ nat (- sint s) in
     if 0 \<le> sint s \<or> in_i128 u then Ok u else Err (conversion_error m row DecimalOutOfRange))"
proof (cases "0 \<le> sint s")
  case False
  then have "in_i128 (10 ^ nat \<bar>sint s\<bar>)" using assms by (intro power10_in_i128) simp
  with False show ?thesis
    by (simp add: normalize_unscaled_decimal_def normalize_negative_scale_def checked_i128_def Let_def)
qed (simp add: normalize_unscaled_decimal_def)

lemma small_in_i128: "\<bar>v\<bar> < 10 ^ n \<Longrightarrow> n \<le> 38 \<Longrightarrow> in_i128 v"
proof -
  assume "\<bar>v\<bar> < 10 ^ n" "n \<le> 38"
  moreover have "(10::int) ^ n \<le> 10 ^ 38" using \<open>n \<le> 38\<close> by (rule power10_mono)
  ultimately have "\<bar>v\<bar> < 10 ^ 38" by linarith
  then show ?thesis by (simp add: in_signed_def abs_less_iff)
qed

lemma decimal_finish:
  assumes "1 \<le> unat precision" "unat precision \<le> 38" "- sint s \<le> 38"
    and "0 \<le> sint s \<Longrightarrow> in_i128 v"
  shows "and_then (normalize_unscaled_decimal m row v s)
      (\<lambda>u. mssql_decimal_with_shape m row u precision scale) =
    (let u = v * 10 ^ nat (- sint s) in
     if \<bar>u\<bar> < 10 ^ unat precision then Ok (mssql_decimal_new (word_of_int u) scale)
     else Err (conversion_error m row DecimalOutOfRange))"
  using assms small_in_i128 [of "v * 10 ^ nat (- sint s)" "unat precision"]
  by (auto simp: normalize_unscaled Let_def mssql_decimal_with_shape_def decimal_fits_precision)

lemma i128_smaller: "\<not> in_i128 v \<Longrightarrow> n \<le> 38 \<Longrightarrow> \<not> \<bar>v * 10 ^ k\<bar> < 10 ^ n"
proof
  assume "\<not> in_i128 v" "n \<le> 38" "\<bar>v * 10 ^ k\<bar> < 10 ^ n"
  moreover have "\<bar>v\<bar> \<le> \<bar>v * 10 ^ k\<bar>" by (simp add: abs_mult mult_le_cancel_left1)
  ultimately have "\<bar>v\<bar> < 10 ^ n" by linarith
  with \<open>n \<le> 38\<close> \<open>\<not> in_i128 v\<close> small_in_i128 show False by blast
qed

lemma i32_in_i128: "in_i128 (sint (v :: i32))"
  using i32_bounds [of v] by (simp add: in_signed_def)

lemma i64_in_i128: "in_i128 (sint (v :: i64))"
  using i64_bounds [of v] by (simp add: in_signed_def)

lemma i128_in_i128: "in_i128 (sint (v :: i128))"
  using in_signed_sint [of v] by simp

lemma mssql_decimal_value_spec:
  assumes "decimal_classify m row = Ok c" "decimal_payload c cell = Some v"
    and "1 \<le> unat (target_precision c)" "unat (target_precision c) \<le> 38" "- sint (arrow_scale c) \<le> 38"
  shows "mssql_decimal_value m row cell =
    (let u = v * 10 ^ nat (- sint (arrow_scale c)) in
     if \<bar>u\<bar> < 10 ^ unat (target_precision c)
     then Ok (mssql_decimal_new (word_of_int u) (target_scale c))
     else Err (conversion_error m row DecimalOutOfRange))"
proof -
  note fits = assms(1) [unfolded decimal_cls.classify_Ok]
  have no_uint64: "source_type m \<noteq> DtUInt64"
    using fits by (cases c) (auto simp: decimal_fits_def split: data_type.splits)
  note fin = decimal_finish [OF assms(3-5), where m = m and row = row and scale = "target_scale c"]
  show ?thesis
  proof (cases c)
    case (FromDecimal32 p k s)
    with assms(2) obtain w where "cell = CellDecimal32 w" "v = sint w"
      by (auto simp: decimal_payload_def split: arrow_cell.splits)
    with FromDecimal32 assms(1) no_uint64 fin [of v] show ?thesis
      by (simp add: mssql_decimal_value_def mssql_decimal_for_classification_def i32_in_i128)
  next
    case (FromDecimal64 p k s)
    with assms(2) obtain w where "cell = CellDecimal64 w" "v = sint w"
      by (auto simp: decimal_payload_def split: arrow_cell.splits)
    with FromDecimal64 assms(1) no_uint64 fin [of v] show ?thesis
      by (simp add: mssql_decimal_value_def mssql_decimal_for_classification_def i64_in_i128)
  next
    case (FromDecimal128 p k s)
    with assms(2) obtain w where "cell = CellDecimal128 w" "v = sint w"
      by (auto simp: decimal_payload_def split: arrow_cell.splits)
    with FromDecimal128 assms(1) no_uint64 fin [of v] show ?thesis
      by (simp add: mssql_decimal_value_def mssql_decimal_for_classification_def i128_in_i128)
  next
    case (FromDecimal256 p k s)
    with assms(2) obtain w where "cell = CellDecimal256 w" "v = sint w"
      by (auto simp: decimal_payload_def split: arrow_cell.splits)
    with FromDecimal256 assms(1) no_uint64 fin [of v] i128_smaller [OF _ assms(4)] show ?thesis
      by (cases "in_i128 v")
        (auto simp: mssql_decimal_value_def mssql_decimal_for_classification_def checked_i128_def Let_def)
  qed
qed

lemma decimal_number_rescale:
  assumes "k = max 0 s"
  shows "decimal_number (v * 10 ^ nat (- s)) k = decimal_number v s"
  using assms by (cases "0 \<le> s") (simp_all add: decimal_number_def power_int_def)



text \<open>uint64_decimal_lossless: the \<^verbatim>\<open>decimal(20,0)\<close> policy for unsigned 64-bit integers never
  fails on a value and never changes one.\<close>

theorem uint64_decimal_lossless:
  assumes "source_type m = DtUInt64" "target_type m = MsDecimal 20 0"
  shows "\<exists>out. mssql_decimal_value m row (CellUInt64 v) = Ok out
    \<and> sint (dec_unscaled out) = uint v \<and> dec_scale out = 0"
proof -
  have "\<bar>uint v\<bar> < 10 ^ unat (20 :: u8)" using u64_bound [of v] by simp
  moreover have "sint (word_of_int (uint v) :: i128) = uint v"
    using u64_bound [of v] sint_word_of_int_fits [of "uint v", where 'w = 128]
    by (simp add: in_signed_def order_trans [OF _ uint_nonnegative])
  ultimately show ?thesis using assms
    by (simp add: mssql_decimal_value_def decimal_scale_def try_unsigned_def in_unsigned_def
        validate_uint64_decimal_scale_compatibility_def classify_uint64_decimal20_0_def
        uint64_classify_def mssql_decimal_def mssql_decimal_with_shape_def decimal_fits_precision
        mssql_decimal_new_def)
qed

theorem uint64_decimal_lossless_witness:
  "\<exists>out. mssql_decimal_value (example_mapping DtUInt64 (MsDecimal 20 0)) 0 (CellUInt64 18446744073709551615)
     = Ok out \<and> sint (dec_unscaled out) = 18446744073709551615"
  using uint64_decimal_lossless [of "example_mapping DtUInt64 (MsDecimal 20 0)" 0 18446744073709551615]
  by auto

subsection \<open>UTF-16\<close>

text \<open>A decoder of UTF-16: surrogate pairs are joined, anything else is one character.\<close>

fun decode_utf16 :: "u16 list \<Rightarrow> rstr" where
  "decode_utf16 [] = []"
| "decode_utf16 [u] = [unat u]"
| "decode_utf16 (u # v # us) =
     (if 0xD800 \<le> unat u \<and> unat u < 0xDC00
      then (0x10000 + (unat u - 0xD800) * 0x400 + (unat v - 0xDC00)) # decode_utf16 us
      else unat u # decode_utf16 (v # us))"

lemma decode_utf16_bmp:
  "\<not> (0xD800 \<le> unat u \<and> unat u < 0xDC00) \<Longrightarrow> decode_utf16 (u # us) = unat u # decode_utf16 us"
  by (cases us) auto

lemma decode_utf16_units:
  assumes "scalar_value c"
  shows "decode_utf16 (utf16_units c @ us) = c # decode_utf16 us"
proof (cases "c < 0x10000")
  case True
  then have "unat (word_of_nat c :: u16) = c" by (simp add: unat_of_nat)
  with True assms show ?thesis
    using decode_utf16_bmp [of "word_of_nat c" us] by (auto simp: utf16_units_def scalar_value_def)
next
  case False
  define q r where "q = (c - 0x10000) div 0x400" and "r = (c - 0x10000) mod 0x400"
  have c: "c = 0x10000 + q * 0x400 + r" using False unfolding q_def r_def by presburger
  have "q < 0x400" using assms unfolding q_def scalar_value_def by auto
  have "r < 0x400" unfolding r_def by simp
  have u: "unat (word_of_nat (0xD800 + q) :: u16) = 0xD800 + q"
    "unat (word_of_nat (0xDC00 + r) :: u16) = 0xDC00 + r"
    using \<open>q < 0x400\<close> \<open>r < 0x400\<close> by (simp_all add: unat_of_nat del: of_nat_add)
  have "utf16_units c @ us = word_of_nat (0xD800 + q) # word_of_nat (0xDC00 + r) # us"
    using False by (simp add: utf16_units_def q_def r_def)
  then show ?thesis using u \<open>q < 0x400\<close> c by (simp del: of_nat_add)
qed

text \<open>The UTF-16 text of a string decodes to it, with two code units for each character above
  U+FFFF and one for each other.\<close>

lemma utf16_round_trip:
  assumes "\<forall>c \<in> set s. scalar_value c"
  shows "decode_utf16 (encode_utf16 s) = s
    \<and> length (encode_utf16 s) = length s + length (filter (\<lambda>c. 0x10000 \<le> c) s)"
  using assms
proof (induction s)
  case (Cons c s)
  then show ?case
    by (simp add: encode_utf16_def decode_utf16_units) (simp add: utf16_units_def)
qed (simp add: encode_utf16_def)

end
