(* ===== verification/DateTimes.thy ===== *)
theory DateTimes
  imports Cells
begin

text \<open>
  Temporal values: \<^verbatim>\<open>date.rs\<close>, \<^verbatim>\<open>date64.rs\<close>, \<^verbatim>\<open>time.rs\<close>, \<^verbatim>\<open>datetime.rs\<close> and
  \<^verbatim>\<open>datetime2.rs\<close> of \<^verbatim>\<open>src/mssql/cell/from_arrow/temporal/\<close>. The code computes in \<^verbatim>\<open>i64\<close> and \<^verbatim>\<open>i128\<close>; the model computes in
  \<^typ>\<open>int\<close> with every checked operation written out, and the lemmas on ranges show that the
  unchecked ones stay inside their width.

  The three rounding routines share one contract, the locale \<^verbatim>\<open>nearest_rounding\<close>.
\<close>

definition SQL_SERVER_DATE_UNIX_EPOCH_DAYS :: int where "SQL_SERVER_DATE_UNIX_EPOCH_DAYS = 719162"
definition SQL_SERVER_DATE_MAX_DAYS :: int where "SQL_SERVER_DATE_MAX_DAYS = 3652058"
definition SECONDS_PER_DAY :: int where "SECONDS_PER_DAY = 86400"
definition MILLISECONDS_PER_DAY :: int where "MILLISECONDS_PER_DAY = 86400000"
definition MICROSECONDS_PER_DAY :: int where "MICROSECONDS_PER_DAY = 86400000000"
definition NANOSECONDS_PER_DAY :: int where "NANOSECONDS_PER_DAY = 86400000000000"
definition SQL_SERVER_DATETIME2_DATE64_SCALE :: u8 where "SQL_SERVER_DATETIME2_DATE64_SCALE = 3"
definition SQL_SERVER_DATETIME2_TIMESTAMP_SCALE :: u8 where
  "SQL_SERVER_DATETIME2_TIMESTAMP_SCALE = 7"
definition TICKS_100NS_PER_SECOND :: int where "TICKS_100NS_PER_SECOND = 10000000"
definition TICKS_100NS_PER_MILLISECOND :: int where "TICKS_100NS_PER_MILLISECOND = 10000"
definition TICKS_100NS_PER_MICROSECOND :: int where "TICKS_100NS_PER_MICROSECOND = 10"
definition TICKS_100NS_PER_DAY :: int where "TICKS_100NS_PER_DAY = 864000000000"
definition NANOSECONDS_PER_100NS_TICK :: int where "NANOSECONDS_PER_100NS_TICK = 100"
definition SQL_SERVER_DATETIME_DAYS_FROM_1900_TO_UNIX_EPOCH :: int where
  "SQL_SERVER_DATETIME_DAYS_FROM_1900_TO_UNIX_EPOCH = 25567"
definition SQL_SERVER_DATETIME_MIN_DAYS :: int where "SQL_SERVER_DATETIME_MIN_DAYS = - 53690"
definition SQL_SERVER_DATETIME_MAX_DAYS :: int where "SQL_SERVER_DATETIME_MAX_DAYS = 2958463"
definition SQL_SERVER_DATETIME_FRAGMENTS_PER_SECOND :: int where
  "SQL_SERVER_DATETIME_FRAGMENTS_PER_SECOND = 300"
definition SQL_SERVER_DATETIME_FRAGMENTS_PER_DAY :: int where
  "SQL_SERVER_DATETIME_FRAGMENTS_PER_DAY = 86400 * SQL_SERVER_DATETIME_FRAGMENTS_PER_SECOND"
definition SQL_SERVER_DATETIME_MIN_UNIX_EPOCH_100NS_TICKS :: int where
  "SQL_SERVER_DATETIME_MIN_UNIX_EPOCH_100NS_TICKS =
     (SQL_SERVER_DATETIME_MIN_DAYS - SQL_SERVER_DATETIME_DAYS_FROM_1900_TO_UNIX_EPOCH)
       * TICKS_100NS_PER_DAY"
definition SQL_SERVER_DATETIME2_MIN_UNIX_EPOCH_100NS_TICKS :: int where
  "SQL_SERVER_DATETIME2_MIN_UNIX_EPOCH_100NS_TICKS =
     - SQL_SERVER_DATE_UNIX_EPOCH_DAYS * TICKS_100NS_PER_DAY"

lemmas time_constants = SQL_SERVER_DATE_UNIX_EPOCH_DAYS_def SQL_SERVER_DATE_MAX_DAYS_def
  SECONDS_PER_DAY_def MILLISECONDS_PER_DAY_def MICROSECONDS_PER_DAY_def NANOSECONDS_PER_DAY_def
  SQL_SERVER_DATETIME2_DATE64_SCALE_def SQL_SERVER_DATETIME2_TIMESTAMP_SCALE_def
  TICKS_100NS_PER_SECOND_def TICKS_100NS_PER_MILLISECOND_def TICKS_100NS_PER_MICROSECOND_def
  TICKS_100NS_PER_DAY_def NANOSECONDS_PER_100NS_TICK_def
  SQL_SERVER_DATETIME_DAYS_FROM_1900_TO_UNIX_EPOCH_def SQL_SERVER_DATETIME_MIN_DAYS_def
  SQL_SERVER_DATETIME_MAX_DAYS_def SQL_SERVER_DATETIME_FRAGMENTS_PER_SECOND_def
  SQL_SERVER_DATETIME_FRAGMENTS_PER_DAY_def SQL_SERVER_DATETIME_MIN_UNIX_EPOCH_100NS_TICKS_def
  SQL_SERVER_DATETIME2_MIN_UNIX_EPOCH_100NS_TICKS_def

subsection \<open>Dates\<close>

definition mssql_date_from_arrow_date32 :: "schema_mapping \<Rightarrow> usize \<Rightarrow> i32 \<Rightarrow> error + mssql_date" where
  "mssql_date_from_arrow_date32 m row v =
     (let days = sint v + SQL_SERVER_DATE_UNIX_EPOCH_DAYS in
      if 0 \<le> days \<and> days \<le> SQL_SERVER_DATE_MAX_DAYS
      then Ok (mssql_date_new (word_of_int days))
      else Err (conversion_error m row TimestampOutOfRange))"

definition mssql_date_value :: "schema_mapping \<Rightarrow> usize \<Rightarrow> arrow_cell \<Rightarrow> error + mssql_date" where
  "mssql_date_value m row cell =
     and_then (temporal_classify m row) (\<lambda>c.
       case cell of
         CellDate32 v \<Rightarrow>
           if c = Date32ToDate then mssql_date_from_arrow_date32 m row v
           else Err (conversion_error m row ValueTypeMismatch)
       | _ \<Rightarrow> Err (conversion_error m row ValueTypeMismatch))"

definition mssql_datetime2_from_arrow_date64 ::
    "schema_mapping \<Rightarrow> usize \<Rightarrow> i64 \<Rightarrow> error + mssql_datetime2" where
  "mssql_datetime2_from_arrow_date64 m row v =
     (let days_from_unix_epoch = div_euclid (sint v) MILLISECONDS_PER_DAY;
          milliseconds_since_midnight = rem_euclid (sint v) MILLISECONDS_PER_DAY;
          days = days_from_unix_epoch + SQL_SERVER_DATE_UNIX_EPOCH_DAYS in
      if \<not> (0 \<le> days \<and> days \<le> SQL_SERVER_DATE_MAX_DAYS)
      then Err (conversion_error m row TimestampOutOfRange)
      else Ok (mssql_datetime2_new (mssql_date_new (word_of_int days))
                 (mssql_time_new (word_of_int milliseconds_since_midnight)
                    SQL_SERVER_DATETIME2_DATE64_SCALE)))"

subsection \<open>Time of day\<close>

definition mssql_time_from_i64 ::
    "schema_mapping \<Rightarrow> usize \<Rightarrow> int \<Rightarrow> int \<Rightarrow> u8 \<Rightarrow> error + mssql_time" where
  "mssql_time_from_i64 m row increments increments_per_day scale =
     (if \<not> (0 \<le> increments \<and> increments < increments_per_day)
      then Err (conversion_error m row TimestampOutOfRange)
      else Ok (mssql_time_new (word_of_int increments) scale))"

definition mssql_time_from_arrow_time32_second ::
    "schema_mapping \<Rightarrow> usize \<Rightarrow> i32 \<Rightarrow> error + mssql_time" where
  "mssql_time_from_arrow_time32_second m row v = mssql_time_from_i64 m row (sint v) SECONDS_PER_DAY 0"

definition mssql_time_from_arrow_time32_millisecond ::
    "schema_mapping \<Rightarrow> usize \<Rightarrow> i32 \<Rightarrow> error + mssql_time" where
  "mssql_time_from_arrow_time32_millisecond m row v =
     mssql_time_from_i64 m row (sint v) MILLISECONDS_PER_DAY 3"

definition mssql_time_from_arrow_time64_microsecond ::
    "schema_mapping \<Rightarrow> usize \<Rightarrow> i64 \<Rightarrow> error + mssql_time" where
  "mssql_time_from_arrow_time64_microsecond m row v =
     mssql_time_from_i64 m row (sint v) MICROSECONDS_PER_DAY 6"

definition time_nanoseconds_to_100ns_ticks ::
    "schema_mapping \<Rightarrow> usize \<Rightarrow> int \<Rightarrow> nanosecond_policy \<Rightarrow> error + int" where
  "time_nanoseconds_to_100ns_ticks m row ns policy =
     (let base_ticks = div_euclid ns NANOSECONDS_PER_100NS_TICK;
          remainder = rem_euclid ns NANOSECONDS_PER_100NS_TICK in
      case policy of
        RejectNon100ns \<Rightarrow>
          if remainder = 0 then Ok base_ticks
          else Err (conversion_error m row LossyConversionRequiresPolicy)
      | TruncateTo100ns \<Rightarrow> Ok base_ticks
      | RoundTo100ns \<Rightarrow>
          if remainder \<ge> 50
          then ok_or (conversion_error m row TimestampOutOfRange) (checked_i64 (base_ticks + 1))
          else Ok base_ticks)"

definition mssql_time_from_nanoseconds ::
    "schema_mapping \<Rightarrow> usize \<Rightarrow> int \<Rightarrow> nanosecond_policy \<Rightarrow> error + mssql_time" where
  "mssql_time_from_nanoseconds m row ns policy =
     (if \<not> (0 \<le> ns \<and> ns < NANOSECONDS_PER_DAY)
      then Err (conversion_error m row TimestampOutOfRange)
      else
        and_then (time_nanoseconds_to_100ns_ticks m row ns policy) (\<lambda>ticks.
        and_then (ok_or (conversion_error m row TimestampOutOfRange) (try_unsigned ticks)) (\<lambda>t :: u64.
          if uint t \<ge> TICKS_100NS_PER_DAY then Err (conversion_error m row TimestampOutOfRange)
          else Ok (mssql_time_new t 7))))"

definition mssql_time_from_arrow_time64_nanosecond ::
    "schema_mapping \<Rightarrow> usize \<Rightarrow> i64 \<Rightarrow> nanosecond_policy \<Rightarrow> error + mssql_time" where
  "mssql_time_from_arrow_time64_nanosecond m row v policy =
     mssql_time_from_nanoseconds m row (sint v) policy"

definition mssql_time_value :: "runtime_mapping \<Rightarrow> usize \<Rightarrow> arrow_cell \<Rightarrow> error + mssql_time" where
  "mssql_time_value rm row cell =
     (let m = rm_mapping rm; mismatch = Err (conversion_error m row ValueTypeMismatch) in
      and_then (temporal_classify m row) (\<lambda>c.
        case cell of
          CellTime32Second v \<Rightarrow>
            if c = Time32SecondToTime
            then mssql_time_from_i64 m row (sint v) SECONDS_PER_DAY 0 else mismatch
        | CellTime32Millisecond v \<Rightarrow>
            if c = Time32MillisecondToTime
            then mssql_time_from_i64 m row (sint v) MILLISECONDS_PER_DAY 3 else mismatch
        | CellTime64Microsecond v \<Rightarrow>
            if c = Time64MicrosecondToTime
            then mssql_time_from_i64 m row (sint v) MICROSECONDS_PER_DAY 6 else mismatch
        | CellTime64Nanosecond v \<Rightarrow>
            if c = Time64NanosecondToTime
            then mssql_time_from_nanoseconds m row (sint v) (rm_nanosecond_policy rm) else mismatch
        | _ \<Rightarrow> mismatch))"

definition null_time_cell :: "schema_mapping \<Rightarrow> usize \<Rightarrow> error + mssql_cell" where
  "null_time_cell m row =
     and_then (temporal_classify m row) (\<lambda>c.
       if c \<in> {Time32SecondToTime, Time32MillisecondToTime, Time64MicrosecondToTime,
               Time64NanosecondToTime}
       then Ok (CTime None)
       else Err (conversion_error m row ValueConversionUnsupported))"

subsection \<open>Timestamps as datetime2\<close>

definition nanoseconds_to_100ns_ticks ::
    "schema_mapping \<Rightarrow> usize \<Rightarrow> i64 \<Rightarrow> nanosecond_policy \<Rightarrow> error + int" where
  "nanoseconds_to_100ns_ticks m row v policy =
     (let base_ticks = div_euclid (sint v) NANOSECONDS_PER_100NS_TICK;
          remainder = rem_euclid (sint v) NANOSECONDS_PER_100NS_TICK in
      case policy of
        RejectNon100ns \<Rightarrow>
          if remainder = 0 then Ok base_ticks
          else Err (conversion_error m row LossyConversionRequiresPolicy)
      | TruncateTo100ns \<Rightarrow> Ok base_ticks
      | RoundTo100ns \<Rightarrow>
          if remainder \<ge> 50
          then ok_or (conversion_error m row TimestampOutOfRange) (checked_i64 (base_ticks + 1))
          else Ok base_ticks)"

text \<open>\<^verbatim>\<open>10_u64.pow(7 - scale)\<close>; the subtraction and the power do not overflow for scales up to 7.\<close>

definition ticks_per_datetime2_increment :: "u8 \<Rightarrow> int" where
  "ticks_per_datetime2_increment scale =
     10 ^ (unat SQL_SERVER_DATETIME2_TIMESTAMP_SCALE - unat scale)"

definition round_100ns_ticks_to_datetime2_scale ::
    "schema_mapping \<Rightarrow> usize \<Rightarrow> int \<Rightarrow> u8 \<Rightarrow> error + int" where
  "round_100ns_ticks_to_datetime2_scale m row ticks scale =
     (if scale = SQL_SERVER_DATETIME2_TIMESTAMP_SCALE then Ok ticks
      else
        let factor = ticks_per_datetime2_increment scale;
            base = div_euclid ticks factor;
            remainder = rem_euclid ticks factor in
        and_then
          (if remainder * 2 \<ge> factor
           then ok_or (conversion_error m row TimestampOutOfRange) (checked_i128 (base + 1))
           else Ok base)
          (\<lambda>rounded_base.
            ok_or (conversion_error m row TimestampOutOfRange) (checked_i128 (rounded_base * factor))))"

definition mssql_datetime2_from_unix_epoch_100ns_ticks_at_scale ::
    "schema_mapping \<Rightarrow> usize \<Rightarrow> int \<Rightarrow> u8 \<Rightarrow> error + mssql_datetime2" where
  "mssql_datetime2_from_unix_epoch_100ns_ticks_at_scale m row ticks scale =
     (if ticks < SQL_SERVER_DATETIME2_MIN_UNIX_EPOCH_100NS_TICKS
      then Err (conversion_error m row TimestampOutOfRange)
      else
        and_then (round_100ns_ticks_to_datetime2_scale m row ticks scale) (\<lambda>ticks.
          let days_from_unix_epoch = div_euclid ticks TICKS_100NS_PER_DAY;
              ticks_since_midnight = rem_euclid ticks TICKS_100NS_PER_DAY;
              days = days_from_unix_epoch + SQL_SERVER_DATE_UNIX_EPOCH_DAYS in
          if \<not> (0 \<le> days \<and> days \<le> SQL_SERVER_DATE_MAX_DAYS)
          then Err (conversion_error m row TimestampOutOfRange)
          else
            and_then (ok_or (conversion_error m row TimestampOutOfRange) (try_unsigned days)) (\<lambda>d :: u32.
            and_then (ok_or (conversion_error m row TimestampOutOfRange)
                        (try_unsigned ticks_since_midnight)) (\<lambda>t :: u64.
              Ok (mssql_datetime2_new (mssql_date_new d)
                    (mssql_time_new (word_of_int (uint t div ticks_per_datetime2_increment scale))
                       scale))))))"

definition mssql_datetime2_from_unix_epoch_100ns_ticks ::
    "schema_mapping \<Rightarrow> usize \<Rightarrow> int \<Rightarrow> error + mssql_datetime2" where
  "mssql_datetime2_from_unix_epoch_100ns_ticks m row ticks =
     mssql_datetime2_from_unix_epoch_100ns_ticks_at_scale m row ticks
       SQL_SERVER_DATETIME2_TIMESTAMP_SCALE"

definition target_datetime2_timestamp_scale :: "schema_mapping \<Rightarrow> usize \<Rightarrow> error + u8" where
  "target_datetime2_timestamp_scale m row =
     (case target_type m of
        MsDateTime2 precision \<Rightarrow>
          if precision \<le> SQL_SERVER_DATETIME2_TIMESTAMP_SCALE then Ok precision
          else Err (conversion_error m row ValueConversionUnsupported)
      | _ \<Rightarrow> Err (conversion_error m row ValueConversionUnsupported))"

definition mssql_datetime2_from_arrow_timestamp_ticks ::
    "schema_mapping \<Rightarrow> usize \<Rightarrow> int \<Rightarrow> error + mssql_datetime2" where
  "mssql_datetime2_from_arrow_timestamp_ticks m row ticks =
     and_then (target_datetime2_timestamp_scale m row)
       (mssql_datetime2_from_unix_epoch_100ns_ticks_at_scale m row ticks)"

definition mssql_datetime2_from_arrow_timestamp_second ::
    "schema_mapping \<Rightarrow> usize \<Rightarrow> i64 \<Rightarrow> error + mssql_datetime2" where
  "mssql_datetime2_from_arrow_timestamp_second m row v =
     mssql_datetime2_from_arrow_timestamp_ticks m row (sint v * TICKS_100NS_PER_SECOND)"

definition mssql_datetime2_from_arrow_timestamp_millisecond ::
    "schema_mapping \<Rightarrow> usize \<Rightarrow> i64 \<Rightarrow> error + mssql_datetime2" where
  "mssql_datetime2_from_arrow_timestamp_millisecond m row v =
     mssql_datetime2_from_arrow_timestamp_ticks m row (sint v * TICKS_100NS_PER_MILLISECOND)"

definition mssql_datetime2_from_arrow_timestamp_microsecond ::
    "schema_mapping \<Rightarrow> usize \<Rightarrow> i64 \<Rightarrow> error + mssql_datetime2" where
  "mssql_datetime2_from_arrow_timestamp_microsecond m row v =
     mssql_datetime2_from_arrow_timestamp_ticks m row (sint v * TICKS_100NS_PER_MICROSECOND)"

definition mssql_datetime2_from_arrow_timestamp_nanosecond ::
    "schema_mapping \<Rightarrow> usize \<Rightarrow> i64 \<Rightarrow> nanosecond_policy \<Rightarrow> error + mssql_datetime2" where
  "mssql_datetime2_from_arrow_timestamp_nanosecond m row v policy =
     and_then (nanoseconds_to_100ns_ticks m row v policy)
       (mssql_datetime2_from_arrow_timestamp_ticks m row)"

subsection \<open>Timestamps as datetime\<close>

definition round_100ns_ticks_to_nearest_millisecond ::
    "schema_mapping \<Rightarrow> usize \<Rightarrow> int \<Rightarrow> error + int" where
  "round_100ns_ticks_to_nearest_millisecond m row ticks =
     (let base = div_euclid ticks TICKS_100NS_PER_MILLISECOND;
          remainder = rem_euclid ticks TICKS_100NS_PER_MILLISECOND in
      and_then
        (if remainder * 2 \<ge> TICKS_100NS_PER_MILLISECOND
         then ok_or (conversion_error m row TimestampOutOfRange) (checked_i128 (base + 1))
         else Ok base)
        (\<lambda>milliseconds. ok_or (conversion_error m row TimestampOutOfRange)
           (checked_i128 (milliseconds * TICKS_100NS_PER_MILLISECOND))))"

definition round_100ns_ticks_to_nearest_datetime_fragment ::
    "schema_mapping \<Rightarrow> usize \<Rightarrow> int \<Rightarrow> error + int" where
  "round_100ns_ticks_to_nearest_datetime_fragment m row ticks =
     and_then (ok_or (conversion_error m row TimestampOutOfRange)
                (checked_i128 (ticks * SQL_SERVER_DATETIME_FRAGMENTS_PER_SECOND))) (\<lambda>numerator.
       let base = div_euclid numerator TICKS_100NS_PER_SECOND;
           remainder = rem_euclid numerator TICKS_100NS_PER_SECOND in
       if remainder * 2 \<ge> TICKS_100NS_PER_SECOND
       then ok_or (conversion_error m row TimestampOutOfRange) (checked_i128 (base + 1))
       else Ok base)"

definition round_100ns_ticks_to_datetime_fragments ::
    "schema_mapping \<Rightarrow> usize \<Rightarrow> int \<Rightarrow> datetime_rounding \<Rightarrow> error + int" where
  "round_100ns_ticks_to_datetime_fragments m row ticks rounding =
     (case rounding of
        LegacyPre130 \<Rightarrow>
          and_then (round_100ns_ticks_to_nearest_millisecond m row ticks)
            (round_100ns_ticks_to_nearest_datetime_fragment m row)
      | Compat130Plus \<Rightarrow> round_100ns_ticks_to_nearest_datetime_fragment m row ticks)"

definition mssql_datetime_from_unix_epoch_100ns_ticks ::
    "schema_mapping \<Rightarrow> usize \<Rightarrow> int \<Rightarrow> datetime_rounding \<Rightarrow> error + mssql_datetime" where
  "mssql_datetime_from_unix_epoch_100ns_ticks m row ticks rounding =
     (if ticks < SQL_SERVER_DATETIME_MIN_UNIX_EPOCH_100NS_TICKS
      then Err (conversion_error m row TimestampOutOfRange)
      else
        and_then (round_100ns_ticks_to_datetime_fragments m row ticks rounding) (\<lambda>fragments.
          let days_from_unix_epoch = div_euclid fragments SQL_SERVER_DATETIME_FRAGMENTS_PER_DAY;
              seconds_fragments = rem_euclid fragments SQL_SERVER_DATETIME_FRAGMENTS_PER_DAY;
              days = days_from_unix_epoch + SQL_SERVER_DATETIME_DAYS_FROM_1900_TO_UNIX_EPOCH in
          if \<not> (SQL_SERVER_DATETIME_MIN_DAYS \<le> days \<and> days \<le> SQL_SERVER_DATETIME_MAX_DAYS)
          then Err (conversion_error m row TimestampOutOfRange)
          else
            and_then (ok_or (conversion_error m row TimestampOutOfRange) (try_signed days)) (\<lambda>d :: i32.
            and_then (ok_or (conversion_error m row TimestampOutOfRange)
                        (try_unsigned seconds_fragments)) (\<lambda>f :: u32.
              Ok (mssql_datetime_new d f)))))"

definition mssql_datetime_from_arrow_timestamp_second ::
    "schema_mapping \<Rightarrow> usize \<Rightarrow> i64 \<Rightarrow> datetime_rounding \<Rightarrow> error + mssql_datetime" where
  "mssql_datetime_from_arrow_timestamp_second m row v rounding =
     mssql_datetime_from_unix_epoch_100ns_ticks m row (sint v * TICKS_100NS_PER_SECOND) rounding"

definition mssql_datetime_from_arrow_timestamp_millisecond ::
    "schema_mapping \<Rightarrow> usize \<Rightarrow> i64 \<Rightarrow> datetime_rounding \<Rightarrow> error + mssql_datetime" where
  "mssql_datetime_from_arrow_timestamp_millisecond m row v rounding =
     mssql_datetime_from_unix_epoch_100ns_ticks m row (sint v * TICKS_100NS_PER_MILLISECOND) rounding"

definition mssql_datetime_from_arrow_timestamp_microsecond ::
    "schema_mapping \<Rightarrow> usize \<Rightarrow> i64 \<Rightarrow> datetime_rounding \<Rightarrow> error + mssql_datetime" where
  "mssql_datetime_from_arrow_timestamp_microsecond m row v rounding =
     mssql_datetime_from_unix_epoch_100ns_ticks m row (sint v * TICKS_100NS_PER_MICROSECOND) rounding"

definition mssql_datetime_from_arrow_timestamp_nanosecond ::
    "schema_mapping \<Rightarrow> usize \<Rightarrow> i64 \<Rightarrow> nanosecond_policy \<Rightarrow> datetime_rounding
      \<Rightarrow> error + mssql_datetime" where
  "mssql_datetime_from_arrow_timestamp_nanosecond m row v policy rounding =
     and_then (nanoseconds_to_100ns_ticks m row v policy)
       (\<lambda>ticks. mssql_datetime_from_unix_epoch_100ns_ticks m row ticks rounding)"

subsection \<open>Rounding to the nearest unit\<close>

text \<open>Nearest multiple, halves upwards.\<close>

definition round_half_up :: "int \<Rightarrow> int \<Rightarrow> int" where
  "round_half_up x d = x div d + (if 2 * (x mod d) \<ge> d then 1 else 0)"

lemma round_half_up_floor:
  assumes "0 < d"
  shows "round_half_up x d = (2 * x + d) div (2 * d)"
proof -
  define q r where "q = x div d" and "r = x mod d"
  have x: "x = d * q + r" and r: "0 \<le> r" "r < d" using assms by (simp_all add: q_def r_def)
  have sum: "2 * x + d = (2 * r + d) + q * (2 * d)" by (simp add: x algebra_simps)
  have "(2 * x + d) div (2 * d) = q + (2 * r + d) div (2 * d)"
    unfolding sum using assms by (subst div_mult_self1) simp_all
  also have "(2 * r + d) div (2 * d) = (if 2 * r \<ge> d then 1 else 0)"
  proof (cases "2 * r \<ge> d")
    case True
    then have "(2 * r + d) div (2 * d) = 1"
      using r assms by (intro int_div_pos_eq [of _ _ _ "2 * r - d"]) auto
    with True show ?thesis by simp
  qed (use r assms in \<open>simp add: div_pos_pos_trivial\<close>)
  finally show ?thesis by (simp add: round_half_up_def q_def r_def)
qed

lemma round_half_up_nearest:
  assumes "0 < d"
  shows "- d < 2 * (d * round_half_up x d - x)" "2 * (d * round_half_up x d - x) \<le> d"
proof -
  have "2 * d * ((2 * x + d) div (2 * d)) = 2 * x + d - (2 * x + d) mod (2 * d)"
    by (simp add: minus_mod_eq_mult_div)
  moreover have "0 \<le> (2 * x + d) mod (2 * d)" "(2 * x + d) mod (2 * d) < 2 * d"
    using assms by simp_all
  ultimately show "- d < 2 * (d * round_half_up x d - x)" "2 * (d * round_half_up x d - x) \<le> d"
    using round_half_up_floor [OF assms] by (simp_all add: algebra_simps)
qed

lemma double_abs_le: "2 * \<bar>x\<bar> \<le> c \<longleftrightarrow> - c \<le> 2 * x \<and> 2 * x \<le> (c :: int)"
  by auto

lemma round_half_up_error: "0 < d \<Longrightarrow> 2 * \<bar>d * round_half_up x d - x\<bar> \<le> d"
  using round_half_up_nearest [of d x] by linarith

lemma round_half_up_mono: "0 < d \<Longrightarrow> x \<le> y \<Longrightarrow> round_half_up x d \<le> round_half_up y d"
  by (simp add: round_half_up_floor zdiv_mono1)

lemma round_half_up_exact: "0 < d \<Longrightarrow> round_half_up (d * k) d = k"
  by (simp add: round_half_up_def)

lemma round_half_up_one [simp]: "round_half_up x 1 = x"
  by (simp add: round_half_up_def)

lemma round_half_up_abs:
  assumes "0 < d"
  shows "\<bar>round_half_up x d\<bar> \<le> \<bar>x\<bar> + 1"
proof -
  have "\<bar>d * round_half_up x d\<bar> \<le> \<bar>x\<bar> + d"
    using round_half_up_nearest [OF assms, of x] abs_ge_self [of x] abs_ge_minus_self [of x]
    unfolding abs_le_iff right_diff_distrib by linarith
  also have "\<dots> \<le> d * (\<bar>x\<bar> + 1)"
    using assms mult_right_mono [of 1 d "\<bar>x\<bar>"] by (simp add: algebra_simps)
  finally show ?thesis using assms by (simp add: abs_mult)
qed

text \<open>The range of instants that matters: every timestamp of 64 bits in any unit lies in it, and
  no rounding step leaves 128 bits on it.\<close>

definition instant_range :: "int \<Rightarrow> bool" where
  "instant_range x \<longleftrightarrow> \<bar>x\<bar> \<le> 10 ^ 30"

text \<open>The contract of a rounding step: it rounds \<^term>\<open>num p * x / den p\<close> to the nearest integer,
  halves upwards, in units of \<^term>\<open>out p\<close>.\<close>

locale nearest_rounding =
  fixes round_op :: "'p \<Rightarrow> schema_mapping \<Rightarrow> usize \<Rightarrow> int \<Rightarrow> error + int"
    and num den out :: "'p \<Rightarrow> int"
    and admissible :: "'p \<Rightarrow> bool"
  assumes positive: "admissible p \<Longrightarrow> 0 < num p \<and> 0 < den p \<and> 0 < out p"
    and rounds: "admissible p \<Longrightarrow> instant_range x \<Longrightarrow>
      round_op p m row x = Inr (out p * round_half_up (num p * x) (den p))"
begin

lemma total: "admissible p \<Longrightarrow> instant_range x \<Longrightarrow> is_ok (round_op p m row x)"
  by (simp add: rounds)

lemma half_step:
  assumes "admissible p" "instant_range x" "round_op p m row x = Inr y"
  shows "- (den p * out p) < 2 * (den p * y - num p * out p * x)"
    and "2 * (den p * y - num p * out p * x) \<le> den p * out p"
proof -
  let ?r = "round_half_up (num p * x) (den p)"
  have y: "y = out p * ?r" using assms rounds by simp
  have pos: "0 < den p" "0 < out p" using positive assms(1) by auto
  have eq: "2 * (den p * y - num p * out p * x) = out p * (2 * (den p * ?r - num p * x))"
    by (simp add: y algebra_simps)
  from round_half_up_nearest [OF pos(1), of "num p * x"] pos(2)
  have "out p * (- den p) < out p * (2 * (den p * ?r - num p * x))"
    and "out p * (2 * (den p * ?r - num p * x)) \<le> out p * den p"
    by (simp_all only: mult_less_cancel_left_pos mult_le_cancel_left_pos)
  then show "- (den p * out p) < 2 * (den p * y - num p * out p * x)"
    and "2 * (den p * y - num p * out p * x) \<le> den p * out p"
    unfolding eq by (simp_all add: mult.commute)
qed

lemma monotone:
  assumes "admissible p" "instant_range x" "instant_range x'" "x \<le> x'"
    and "round_op p m row x = Inr y" "round_op p m row x' = Inr y'"
  shows "y \<le> y'"
  using assms rounds positive [OF assms(1)]
  by (auto intro!: round_half_up_mono mult_left_mono simp: less_imp_le)

lemma exact:
  assumes "admissible p" "instant_range x" "num p * x = den p * k"
  shows "round_op p m row x = Inr (out p * k)"
  using assms rounds positive [OF assms(1)] by (simp add: round_half_up_exact)

end

lemma instant_range_i128: "instant_range x \<Longrightarrow> \<bar>c\<bar> \<le> 1000 \<Longrightarrow> in_i128 (x * c)"
proof -
  assume "instant_range x" "\<bar>c\<bar> \<le> 1000"
  then have "\<bar>x * c\<bar> \<le> 10 ^ 30 * 1000"
    unfolding abs_mult instant_range_def by (intro mult_mono) auto
  then show ?thesis by (simp add: in_signed_def abs_le_iff)
qed

lemma checked_half_up:
  assumes "0 < d" "\<bar>x\<bar> \<le> 10 ^ 33"
  shows "(if rem_euclid x d * 2 \<ge> d then ok_or e (checked_i128 (div_euclid x d + 1))
      else Inr (div_euclid x d)) = Inr (round_half_up x d)"
proof -
  have "\<bar>round_half_up x d\<bar> \<le> 10 ^ 33 + 1"
    using round_half_up_abs [OF assms(1), of x] assms(2) by linarith
  then have "in_i128 (round_half_up x d)" by (simp add: in_signed_def abs_le_iff)
  then show ?thesis using assms(1)
    by (auto simp: round_half_up_def checked_i128_def mult.commute)
qed

interpretation millisecond_rounding: nearest_rounding
  "\<lambda>_::unit. round_100ns_ticks_to_nearest_millisecond" "\<lambda>_. 1" "\<lambda>_. 10000" "\<lambda>_. 10000" "\<lambda>_. True"
proof unfold_locales
  fix x m row
  assume range: "instant_range x"
  then have "\<bar>x\<bar> \<le> 10 ^ 33" by (simp add: instant_range_def)
  note step = checked_half_up [OF _ this, of 10000]
  have "\<bar>round_half_up x 10000 * 10000\<bar> \<le> (10 ^ 30 + 1) * 10000"
    using round_half_up_abs [of 10000 x] range
    unfolding instant_range_def abs_mult by (intro mult_mono) auto
  then have "checked_i128 (round_half_up x 10000 * 10000) = Some (round_half_up x 10000 * 10000)"
    by (simp add: checked_i128_def in_signed_def abs_le_iff)
  then have "round_100ns_ticks_to_nearest_millisecond m row x = Inr (round_half_up x 10000 * 10000)"
    unfolding round_100ns_ticks_to_nearest_millisecond_def time_constants Let_def
    by (simp only: ok_or_simps and_then_simps step zero_less_numeral)
  then show "round_100ns_ticks_to_nearest_millisecond m row x
      = Inr (10000 * round_half_up (1 * x) 10000)"
    by (simp only: mult.commute [of 10000] mult_1)
qed simp_all

interpretation fragment_rounding: nearest_rounding
  "\<lambda>_::unit. round_100ns_ticks_to_nearest_datetime_fragment" "\<lambda>_. 300" "\<lambda>_. 10000000" "\<lambda>_. 1" "\<lambda>_. True"
proof unfold_locales
  fix x m row
  assume range: "instant_range x"
  then have "\<bar>x * 300\<bar> \<le> 10 ^ 33" by (simp add: instant_range_def abs_mult)
  note step = checked_half_up [OF _ this, of 10000000]
  from instant_range_i128 [OF range, of 300] have "checked_i128 (x * 300) = Some (x * 300)"
    by (simp add: checked_i128_def)
  then have "round_100ns_ticks_to_nearest_datetime_fragment m row x
      = Inr (round_half_up (x * 300) 10000000)"
    unfolding round_100ns_ticks_to_nearest_datetime_fragment_def time_constants Let_def
    by (simp only: ok_or_simps and_then_simps step zero_less_numeral)
  then show "round_100ns_ticks_to_nearest_datetime_fragment m row x
      = Inr (1 * round_half_up (300 * x) 10000000)"
    by (simp only: mult.commute [of 300] mult_1)
qed simp_all

lemma ticks_per_increment:
  assumes "unat scale \<le> 7"
  shows "0 < ticks_per_datetime2_increment scale" "ticks_per_datetime2_increment scale \<le> 10000000"
    "ticks_per_datetime2_increment scale dvd 10000000"
    "ticks_per_datetime2_increment scale * 10 ^ unat scale = 10000000"
proof -
  have f: "ticks_per_datetime2_increment scale = 10 ^ (7 - unat scale)"
    by (simp add: ticks_per_datetime2_increment_def time_constants)
  show "0 < ticks_per_datetime2_increment scale" by (simp add: f)
  have "(10::int) ^ (7 - unat scale) \<le> 10 ^ 7" by (rule power_increasing) simp_all
  then show "ticks_per_datetime2_increment scale \<le> 10000000" by (simp add: f)
  show prod: "ticks_per_datetime2_increment scale * 10 ^ unat scale = 10000000"
    using assms by (simp add: f flip: power_add)
  show "ticks_per_datetime2_increment scale dvd 10000000" using prod by (metis dvd_triv_left)
qed

interpretation datetime2_rounding: nearest_rounding
  "\<lambda>scale m row x. round_100ns_ticks_to_datetime2_scale m row x scale"
  "\<lambda>_. 1" ticks_per_datetime2_increment ticks_per_datetime2_increment "\<lambda>scale. unat scale \<le> 7"
proof unfold_locales
  fix scale :: u8 and x m row
  assume scale: "unat scale \<le> 7" and range: "instant_range x"
  let ?f = "ticks_per_datetime2_increment scale"
  note f = ticks_per_increment [OF scale]
  from range have "\<bar>x\<bar> \<le> 10 ^ 33" by (simp add: instant_range_def)
  note step = checked_half_up [OF f(1) this]
  have "\<bar>round_half_up x ?f * ?f\<bar> \<le> (10 ^ 30 + 1) * 10000000"
    using round_half_up_abs [OF f(1), of x] range f(1,2)
    unfolding instant_range_def abs_mult by (intro mult_mono) auto
  then have "checked_i128 (round_half_up x ?f * ?f) = Some (round_half_up x ?f * ?f)"
    by (simp add: checked_i128_def in_signed_def abs_le_iff)
  moreover have "?f = 1" if "scale = 7"
    using that by (simp add: ticks_per_datetime2_increment_def time_constants)
  ultimately have "round_100ns_ticks_to_datetime2_scale m row x scale = Inr (round_half_up x ?f * ?f)"
    unfolding round_100ns_ticks_to_datetime2_scale_def SQL_SERVER_DATETIME2_TIMESTAMP_SCALE_def Let_def
    by (simp only: ok_or_simps and_then_simps step round_half_up_one mult_1_right if_cancel split: if_splits)
      simp
  then show "round_100ns_ticks_to_datetime2_scale m row x scale
      = Inr (?f * round_half_up (1 * x) ?f)"
    by (simp only: mult.commute [of ?f] mult_1)
qed (simp_all add: ticks_per_increment)

subsection \<open>Dates and the calendar\<close>

text \<open>Days before January 1 of a year in the proleptic Gregorian calendar, counted from January 1
  of year 1.\<close>

definition days_before_year :: "int \<Rightarrow> int" where
  "days_before_year y = 365 * (y - 1) + (y - 1) div 4 - (y - 1) div 100 + (y - 1) div 400"

lemma calendar_constants:
  "SQL_SERVER_DATE_UNIX_EPOCH_DAYS = days_before_year 1970"
  "SQL_SERVER_DATE_MAX_DAYS + 1 = days_before_year 10000"
  "SQL_SERVER_DATETIME_DAYS_FROM_1900_TO_UNIX_EPOCH = days_before_year 1970 - days_before_year 1900"
  "SQL_SERVER_DATETIME_MIN_DAYS = days_before_year 1753 - days_before_year 1900"
  "SQL_SERVER_DATETIME_MAX_DAYS + 1 = days_before_year 10000 - days_before_year 1900"
  by (simp_all add: days_before_year_def time_constants)

lemma days_of_word: "0 \<le> d \<Longrightarrow> d \<le> 3652058 \<Longrightarrow> uint (word_of_int d :: u32) = d"
  by (rule uint_word_of_int_fits) (simp add: in_unsigned_def)

text \<open>date_conversion_calendar: dates are converted exactly within the years 1 to 9999 and
  refused outside. A day offset (Date32) becomes the day number from 0001-01-01 of the same
  calendar day; a Date64 instant becomes that day number and the milliseconds since its
  midnight, so that the two parts give back the instant.\<close>

theorem date_conversion_calendar:
  "(let day = days_before_year 1970 + sint v in
    if days_before_year 1 \<le> day \<and> day < days_before_year 10000
    then \<exists>d. mssql_date_from_arrow_date32 m row v = Ok d \<and> uint (date_days d) = day
    else mssql_date_from_arrow_date32 m row v = Err (conversion_error m row TimestampOutOfRange))
   \<and> (let start = (days_before_year 1 - days_before_year 1970) * 86400000;
          stop = (days_before_year 10000 - days_before_year 1970) * 86400000 in
    if start \<le> sint w \<and> sint w < stop
    then \<exists>c. mssql_datetime2_from_arrow_date64 m row w = Ok c
      \<and> (uint (date_days (datetime2_date c)) - days_before_year 1970) * 86400000
          + uint (time_increments (datetime2_time c)) = sint w
      \<and> uint (time_increments (datetime2_time c)) < 86400000 \<and> time_scale (datetime2_time c) = 3
    else mssql_datetime2_from_arrow_date64 m row w = Err (conversion_error m row TimestampOutOfRange))"
proof (rule conjI, goal_cases)
  case 1
  define x where "x = sint v"
  have out: "mssql_date_from_arrow_date32 m row v =
      (if 0 \<le> x + 719162 \<and> x + 719162 \<le> 3652058
       then Ok \<lparr>date_days = word_of_int (x + 719162)\<rparr>
       else Err (conversion_error m row TimestampOutOfRange))"
    unfolding mssql_date_from_arrow_date32_def time_constants cell_new_defs Let_def x_def ..
  have "days_before_year 1 = 0" "days_before_year 1970 = 719162" "days_before_year 10000 = 3652059"
    by (simp_all add: days_before_year_def)
  then show ?case
    unfolding x_def [symmetric] out using days_of_word [of "x + 719162"] by (simp add: Let_def)
next
  case 2
  define q r where "q = sint w div 86400000" and "r = sint w mod 86400000"
  have w: "sint w = q * 86400000 + r" and r: "0 \<le> r" "r < 86400000" by (simp_all add: q_def r_def)
  have inc: "uint (word_of_int r :: u64) = r"
    using r by (intro uint_word_of_int_fits) (simp add: in_unsigned_def)
  have range: "(- 719162 * 86400000 \<le> sint w \<and> sint w < 2932897 * 86400000)
      \<longleftrightarrow> 0 \<le> q + 719162 \<and> q + 719162 \<le> 3652058"
    using w r by auto
  define dw :: u32 where "dw = word_of_int (q + 719162)"
  have day: "uint dw = q + 719162" if "0 \<le> q + 719162 \<and> q + 719162 \<le> 3652058"
    using that days_of_word unfolding dw_def by blast
  have dby: "days_before_year 1 = 0" "days_before_year 1970 = 719162" "days_before_year 10000 = 3652059"
    by (simp_all add: days_before_year_def)
  have out: "mssql_datetime2_from_arrow_date64 m row w =
      (if 0 \<le> q + 719162 \<and> q + 719162 \<le> 3652058
       then Ok \<lparr>datetime2_date = \<lparr>date_days = dw\<rparr>,
         datetime2_time = \<lparr>time_increments = word_of_int r, time_scale = 3\<rparr>\<rparr>
       else Err (conversion_error m row TimestampOutOfRange))"
    unfolding mssql_datetime2_from_arrow_date64_def time_constants cell_new_defs Let_def
    by (simp add: q_def r_def dw_def)
  show ?case
  proof (cases "0 \<le> q + 719162 \<and> q + 719162 \<le> 3652058")
    case True
    then have "- 719162 * 86400000 \<le> sint w \<and> sint w < 2932897 * 86400000" using range by blast
    with True show ?thesis by (simp add: out day inc dby w r Let_def)
  next
    case False
    then have "\<not> (- 719162 * 86400000 \<le> sint w \<and> sint w < 2932897 * 86400000)" using range by blast
    with False show ?thesis by (simp add: out dby Let_def)
  qed
qed

subsection \<open>Nanoseconds\<close>

text \<open>What a policy may make of a nanosecond count.\<close>

definition nanosecond_policy_relation :: "nanosecond_policy \<Rightarrow> int \<Rightarrow> int \<Rightarrow> bool" where
  "nanosecond_policy_relation policy ns ticks \<longleftrightarrow>
     (case policy of
        RejectNon100ns \<Rightarrow> ns = 100 * ticks
      | TruncateTo100ns \<Rightarrow> 0 \<le> ns - 100 * ticks \<and> ns - 100 * ticks < 100
      | RoundTo100ns \<Rightarrow> - 100 < 2 * (100 * ticks - ns) \<and> 2 * (100 * ticks - ns) \<le> 100)"

lemma nanosecond_ticks_i64: "in_i64 (sint (v :: i64) div 100 + 1)"
proof -
  have "- 9223372036854775808 div 100 \<le> sint v div 100" "sint v div 100 \<le> 9223372036854775808 div 100"
    using i64_bounds [of v] by (intro zdiv_mono1; simp)+
  then show ?thesis by (simp add: in_signed_def)
qed

lemma policy_relation_div:
  "nanosecond_policy_relation TruncateTo100ns ns (ns div 100)"
  "ns mod 100 = 0 \<Longrightarrow> nanosecond_policy_relation RejectNon100ns ns (ns div 100)"
  "ns mod 100 \<ge> 50 \<Longrightarrow> nanosecond_policy_relation RoundTo100ns ns (ns div 100 + 1)"
  "ns mod 100 < 50 \<Longrightarrow> nanosecond_policy_relation RoundTo100ns ns (ns div 100)"
proof -
  have "ns = 100 * (ns div 100) + ns mod 100" "0 \<le> ns mod 100" "ns mod 100 < 100" by simp_all
  then show "nanosecond_policy_relation TruncateTo100ns ns (ns div 100)"
    "ns mod 100 = 0 \<Longrightarrow> nanosecond_policy_relation RejectNon100ns ns (ns div 100)"
    "ns mod 100 \<ge> 50 \<Longrightarrow> nanosecond_policy_relation RoundTo100ns ns (ns div 100 + 1)"
    "ns mod 100 < 50 \<Longrightarrow> nanosecond_policy_relation RoundTo100ns ns (ns div 100)"
    unfolding nanosecond_policy_relation_def by (simp_all, linarith+)
qed

lemma nanosecond_policy_unique:
  assumes "nanosecond_policy_relation policy ns t" "nanosecond_policy_relation policy ns t'"
  shows "t = t'"
  using assms by (cases policy) (auto simp: nanosecond_policy_relation_def)

text \<open>nanosecond_policy_contract: the nanosecond policy decides what happens to the last two
  digits of a nanosecond timestamp. Rejection accepts exactly the multiples of 100 ns and keeps
  them; truncation goes down to the last tick, before the epoch too; rounding goes to the
  nearest tick, halves upwards. Only rejection can fail, and never by overflow.\<close>

theorem nanosecond_policy_contract:
  "case nanoseconds_to_100ns_ticks m row v policy of
     Inr ticks \<Rightarrow> nanosecond_policy_relation policy (sint v) ticks
   | Inl e \<Rightarrow> policy = RejectNon100ns \<and> sint v mod 100 \<noteq> 0
       \<and> e = conversion_error m row LossyConversionRequiresPolicy"
  using policy_relation_div [of "sint v"] nanosecond_ticks_i64 [of v]
  by (auto simp: nanoseconds_to_100ns_ticks_def time_constants Let_def checked_i64_def
      split: nanosecond_policy.splits)

subsection \<open>datetime2\<close>

text \<open>The instant a cell stands for, in 100 ns ticks from the Unix epoch.\<close>

definition datetime2_ticks :: "mssql_datetime2 \<Rightarrow> int" where
  "datetime2_ticks c =
     (uint (date_days (datetime2_date c)) - 719162) * 864000000000
       + uint (time_increments (datetime2_time c)) * 10 ^ (7 - unat (time_scale (datetime2_time c)))"

definition valid_time :: "mssql_time \<Rightarrow> bool" where
  "valid_time t \<longleftrightarrow> unat (time_scale t) \<le> 7 \<and> uint (time_increments t) < 86400 * 10 ^ unat (time_scale t)"

definition valid_datetime2 :: "mssql_datetime2 \<Rightarrow> bool" where
  "valid_datetime2 c \<longleftrightarrow> uint (date_days (datetime2_date c)) \<le> 3652058 \<and> valid_time (datetime2_time c)"

lemma split_day:
  assumes "0 < f" "f dvd 10000000" "(x :: int) = f * k"
  shows "x mod 864000000000 = f * (x mod 864000000000 div f)"
    and "x mod 864000000000 div f < 864000000000 div f"
proof -
  have "f dvd 864000000000"
    using assms(2) dvd_trans [of f 10000000 864000000000] by simp
  then obtain n where n: "864000000000 = f * n" by blast
  have "f dvd x mod 864000000000" using assms(3) \<open>f dvd 864000000000\<close> by (simp add: dvd_mod)
  then show "x mod 864000000000 = f * (x mod 864000000000 div f)" by simp
  with assms(1) n show "x mod 864000000000 div f < 864000000000 div f"
    by (metis mult_less_cancel_left_pos nonzero_mult_div_cancel_left order_less_irrefl
        pos_mod_bound zero_less_numeral)
qed

lemma datetime2_lower:
  assumes "unat scale \<le> 7" "- 719162 * 864000000000 \<le> ticks"
  shows "- 719162 \<le> ticks_per_datetime2_increment scale
    * round_half_up ticks (ticks_per_datetime2_increment scale) div 864000000000"
proof -
  let ?f = "ticks_per_datetime2_increment scale"
  note f = ticks_per_increment [OF assms(1)]
  from f(3) obtain n where n: "10000000 = ?f * n" by blast
  have lo: "- 719162 * 864000000000 = ?f * (- 719162 * 86400 * n)"
    using n by (simp add: algebra_simps)
  then have "round_half_up (- 719162 * 864000000000) ?f = - 719162 * 86400 * n"
    using round_half_up_exact [OF f(1)] by metis
  with round_half_up_mono [OF f(1) assms(2)] have "- 719162 * 86400 * n \<le> round_half_up ticks ?f" by simp
  then have "?f * (- 719162 * 86400 * n) \<le> ?f * round_half_up ticks ?f"
    using f(1) by (simp only: mult_le_cancel_left_pos)
  with lo have "- 719162 * 864000000000 \<le> ?f * round_half_up ticks ?f" by (simp only:)
  from zdiv_mono1 [OF this, of 864000000000] show ?thesis by simp
qed

lemma datetime2_at_scale:
  assumes scale: "unat scale \<le> 7" and range: "instant_range ticks"
  defines "f \<equiv> ticks_per_datetime2_increment scale"
  shows "mssql_datetime2_from_unix_epoch_100ns_ticks_at_scale m row ticks scale =
    (if - 719162 * 864000000000 \<le> ticks
        \<and> f * round_half_up ticks f < (3652059 - 719162) * 864000000000
     then (let x = f * round_half_up ticks f in
       Ok \<lparr>datetime2_date = \<lparr>date_days = word_of_int (x div 864000000000 + 719162)\<rparr>,
           datetime2_time = \<lparr>time_increments = word_of_int (x mod 864000000000 div f),
             time_scale = scale\<rparr>\<rparr>)
     else Err (conversion_error m row TimestampOutOfRange))"
proof -
  define x where "x = f * round_half_up ticks f"
  note f = ticks_per_increment [OF scale, folded f_def]
  have round: "round_100ns_ticks_to_datetime2_scale m row ticks scale = Inr x"
    using datetime2_rounding.rounds [OF scale range] by (simp add: x_def f_def)
  have upper: "x < (3652059 - 719162) * 864000000000 \<longleftrightarrow> x div 864000000000 + 719162 \<le> 3652058"
    by auto
  have lower: "0 \<le> x div 864000000000 + 719162" if "- 719162 * 864000000000 \<le> ticks"
    using datetime2_lower [OF scale that] by (simp add: x_def f_def)
  show ?thesis
  proof (cases "- 719162 * 864000000000 \<le> ticks \<and> x div 864000000000 + 719162 \<le> 3652058")
    case True
    define d where "d = x div 864000000000 + 719162"
    define t where "t = x mod 864000000000"
    have d: "0 \<le> d" "d \<le> 3652058" using True lower by (simp_all add: d_def)
    have t: "0 \<le> t" "t < 864000000000" by (simp_all add: t_def)
    have try_d: "try_unsigned d = Some (word_of_int d :: u32)"
      using d by (simp add: try_unsigned_def in_unsigned_def)
    have try_t: "try_unsigned t = Some (word_of_int t :: u64)"
      using t by (simp add: try_unsigned_def in_unsigned_def)
    have ut: "uint (word_of_int t :: u64) = t"
      using t by (intro uint_word_of_int_fits) (simp add: in_unsigned_def)
    have "mssql_datetime2_from_unix_epoch_100ns_ticks_at_scale m row ticks scale =
        Ok \<lparr>datetime2_date = \<lparr>date_days = word_of_int d\<rparr>,
            datetime2_time = \<lparr>time_increments = word_of_int (t div f), time_scale = scale\<rparr>\<rparr>"
      using True d try_d try_t ut
      unfolding mssql_datetime2_from_unix_epoch_100ns_ticks_at_scale_def round cell_new_defs
        f_def [symmetric] d_def t_def
      by (simp add: time_constants Let_def del: of_int_add)
    with True upper show ?thesis unfolding x_def [symmetric] by (simp add: d_def t_def Let_def)
  next
    case False
    with upper show ?thesis unfolding x_def [symmetric]
      by (auto simp: mssql_datetime2_from_unix_epoch_100ns_ticks_at_scale_def round time_constants Let_def)
  qed
qed

lemma datetime2_accepted:
  assumes scale: "unat scale \<le> 7" and range: "instant_range ticks"
  defines "f \<equiv> ticks_per_datetime2_increment scale"
  defines "x \<equiv> f * round_half_up ticks f"
  assumes bounds: "- 719162 * 864000000000 \<le> ticks" "x < (3652059 - 719162) * 864000000000"
  shows "\<exists>c. mssql_datetime2_from_unix_epoch_100ns_ticks_at_scale m row ticks scale = Ok c
      \<and> valid_datetime2 c \<and> time_scale (datetime2_time c) = scale \<and> datetime2_ticks c = x"
proof -
  note fs = ticks_per_increment [OF scale, folded f_def]
  have f: "f = 10 ^ (7 - unat scale)"
    by (simp add: f_def ticks_per_datetime2_increment_def time_constants)
  note out = datetime2_at_scale [OF scale range, of m row, unfolded Let_def, folded f_def, folded x_def]
  define d t where "d = x div 864000000000 + 719162" and "t = x mod 864000000000 div f"
  define c where "c = \<lparr>datetime2_date = \<lparr>date_days = word_of_int d\<rparr>,
      datetime2_time = \<lparr>time_increments = word_of_int t, time_scale = scale\<rparr>\<rparr>"
  have c: "mssql_datetime2_from_unix_epoch_100ns_ticks_at_scale m row ticks scale = Ok c"
    using bounds unfolding out c_def d_def t_def by simp
  note day = split_day [OF fs(1,3) x_def [THEN meta_eq_to_obj_eq], folded t_def]
  have "864000000000 = f * (86400 * 10 ^ unat scale)" using fs(4) by simp
  then have per_day: "864000000000 div f = 86400 * 10 ^ unat scale"
    using fs(1) by (metis nonzero_mult_div_cancel_left order_less_irrefl)
  have t: "0 \<le> t" "t < 86400 * 10 ^ unat scale"
    using day(2) per_day fs(1) by (simp_all add: t_def pos_imp_zdiv_nonneg_iff)
  have "(86400::int) * 10 ^ unat scale \<le> 86400 * 10 ^ 7"
    using scale by (intro mult_left_mono power_increasing) simp_all
  with t(2) have "t < 864000000000" by simp
  then have ut: "uint (word_of_int t :: u64) = t"
    using t by (intro uint_word_of_int_fits) (simp add: in_unsigned_def)
  have "x div 864000000000 \<le> 2932896" using bounds by auto
  moreover have "- 719162 \<le> x div 864000000000"
    using bounds datetime2_lower [OF scale] unfolding x_def f_def by blast
  ultimately have ud: "uint (word_of_int d :: u32) = d" "d \<le> 3652058"
    by (auto simp: d_def intro!: days_of_word simp del: of_int_add)
  have "t * f = x mod 864000000000" using day(1) by (simp only: mult.commute)
  then have "(d - 719162) * 864000000000 + t * f = x" by (simp add: d_def)
  then have "datetime2_ticks c = x" by (simp add: datetime2_ticks_def c_def ud ut f)
  moreover have "valid_datetime2 c"
    using ud ut t scale by (simp add: valid_datetime2_def valid_time_def c_def)
  moreover have "time_scale (datetime2_time c) = scale" by (simp add: c_def)
  ultimately show ?thesis using c by blast
qed

lemma datetime2_ticks_of:
  assumes "unat scale \<le> 7" "\<bar>ticks\<bar> \<le> 10 ^ 30"
    and "mssql_datetime2_from_unix_epoch_100ns_ticks_at_scale m row ticks scale = Ok c"
  shows "datetime2_ticks c = 10 ^ (7 - unat scale) * round_half_up ticks (10 ^ (7 - unat scale))"
    and "valid_datetime2 c" and "time_scale (datetime2_time c) = scale"
proof -
  have range: "instant_range ticks" using assms(2) by (simp add: instant_range_def)
  have f: "ticks_per_datetime2_increment scale = 10 ^ (7 - unat scale)"
    by (simp add: ticks_per_datetime2_increment_def time_constants)
  from assms(3) have "- 719162 * 864000000000 \<le> ticks
      \<and> 10 ^ (7 - unat scale) * round_half_up ticks (10 ^ (7 - unat scale)) < (3652059 - 719162) * 864000000000"
    unfolding datetime2_at_scale [OF assms(1) range] f by (auto split: if_splits)
  then obtain c' where "mssql_datetime2_from_unix_epoch_100ns_ticks_at_scale m row ticks scale = Ok c'"
    "valid_datetime2 c'" "time_scale (datetime2_time c') = scale"
    "datetime2_ticks c' = 10 ^ (7 - unat scale) * round_half_up ticks (10 ^ (7 - unat scale))"
    using datetime2_accepted [OF assms(1) range, of m row] unfolding f by blast
  with assms(3) show "datetime2_ticks c = 10 ^ (7 - unat scale) * round_half_up ticks (10 ^ (7 - unat scale))"
    "valid_datetime2 c" "time_scale (datetime2_time c) = scale" by simp_all
qed

text \<open>C18: an instant is stored as \<^verbatim>\<open>datetime2(p)\<close> rounded to the
  nearest \<^verbatim>\<open>10^-p\<close> seconds, halves upwards, or refused. It is accepted exactly when it is not
  before 0001-01-01 and its rounding is before 10000-01-01; the cell is then a valid date and
  time of day at scale \<^verbatim>\<open>p\<close> and stands for the rounded instant, which differs from the source by
  at most half a unit. Rounding carries into the next day; no 128-bit step overflows.\<close>

theorem datetime2_conversion_contract:
  assumes "unat scale \<le> 7" "\<bar>ticks\<bar> \<le> 10 ^ 30"
  shows "let f = 10 ^ (7 - unat scale); x = f * round_half_up ticks f in
    if (days_before_year 1 - days_before_year 1970) * 864000000000 \<le> ticks
       \<and> x < (days_before_year 10000 - days_before_year 1970) * 864000000000
    then \<exists>c. mssql_datetime2_from_unix_epoch_100ns_ticks_at_scale m row ticks scale = Ok c
      \<and> valid_datetime2 c \<and> time_scale (datetime2_time c) = scale
      \<and> datetime2_ticks c = x \<and> 2 * \<bar>x - ticks\<bar> \<le> f
    else mssql_datetime2_from_unix_epoch_100ns_ticks_at_scale m row ticks scale
      = Err (conversion_error m row TimestampOutOfRange)"
proof -
  have range: "instant_range ticks" using assms(2) by (simp add: instant_range_def)
  have f: "ticks_per_datetime2_increment scale = 10 ^ (7 - unat scale)"
    by (simp add: ticks_per_datetime2_increment_def time_constants)
  have dby: "days_before_year 1 - days_before_year 1970 = - 719162"
    "days_before_year 10000 - days_before_year 1970 = 3652059 - 719162"
    by (simp_all add: days_before_year_def)
  have near: "2 * \<bar>10 ^ (7 - unat scale) * round_half_up ticks (10 ^ (7 - unat scale)) - ticks\<bar>
      \<le> 10 ^ (7 - unat scale)"
    by (rule round_half_up_error) simp
  show ?thesis
    using datetime2_accepted [OF assms(1) range, of m row, unfolded f]
      datetime2_at_scale [OF assms(1) range, of m row, unfolded f] near
    unfolding Let_def dby by (auto split: if_splits)
qed

theorem datetime2_conversion_contract_witness:
  "\<exists>c. mssql_datetime2_from_unix_epoch_100ns_ticks_at_scale
       (example_mapping (DtTimestamp Nanosecond None) (MsDateTime2 3)) 0 (- 5000) 3 = Ok c
     \<and> valid_datetime2 c \<and> datetime2_ticks c = 0"
proof -
  have "round_half_up (- 5000) 10000 = 0" by (simp add: round_half_up_def)
  with datetime2_conversion_contract [of 3 "- 5000"
      "example_mapping (DtTimestamp Nanosecond None) (MsDateTime2 3)" 0]
  show ?thesis by (auto simp: days_before_year_def)
qed

subsection \<open>datetime\<close>

text \<open>The instant a cell stands for, in 1/300 seconds from the Unix epoch.\<close>

definition datetime_instant :: "mssql_datetime \<Rightarrow> int" where
  "datetime_instant c = (sint (datetime_days c) - 25567) * 25920000 + uint (datetime_fragments c)"

definition valid_datetime :: "mssql_datetime \<Rightarrow> bool" where
  "valid_datetime c \<longleftrightarrow> - 53690 \<le> sint (datetime_days c) \<and> sint (datetime_days c) \<le> 2958463
     \<and> uint (datetime_fragments c) < 25920000"

definition fragments_of :: "datetime_rounding \<Rightarrow> int \<Rightarrow> int" where
  "fragments_of rounding ticks =
     (case rounding of
        LegacyPre130 \<Rightarrow> round_half_up (300 * (10000 * round_half_up ticks 10000)) 10000000
      | Compat130Plus \<Rightarrow> round_half_up (300 * ticks) 10000000)"

lemma fragments_rounds:
  assumes "\<bar>ticks\<bar> \<le> 10 ^ 29"
  shows "round_100ns_ticks_to_datetime_fragments m row ticks rounding = Inr (fragments_of rounding ticks)"
proof -
  have range: "instant_range ticks" using assms by (simp add: instant_range_def)
  let ?ms = "10000 * round_half_up ticks 10000"
  have "\<bar>?ms\<bar> \<le> \<bar>ticks\<bar> + 10000" using round_half_up_nearest [of 10000 ticks] by simp
  then have "instant_range ?ms" using assms by (simp add: instant_range_def)
  then show ?thesis
    using millisecond_rounding.rounds [OF TrueI range] fragment_rounding.rounds [OF TrueI range]
      fragment_rounding.rounds [OF TrueI, of ?ms]
    by (cases rounding) (simp_all add: round_100ns_ticks_to_datetime_fragments_def fragments_of_def)
qed

lemma fragments_mono: "x \<le> y \<Longrightarrow> fragments_of rounding x \<le> fragments_of rounding y"
  by (cases rounding) (simp_all add: fragments_of_def round_half_up_mono)

lemma fragments_of_day: "fragments_of rounding (d * 864000000000) = d * 25920000"
proof -
  have ms: "round_half_up (d * 864000000000) 10000 = d * 86400000"
    using round_half_up_exact [of 10000 "d * 86400000"] by (simp add: mult.commute)
  have frag: "round_half_up (300 * (d * 864000000000)) 10000000 = d * 25920000"
    using round_half_up_exact [of 10000000 "d * 25920000"] by (simp add: mult.commute)
  show ?thesis
    using ms frag by (cases rounding) (simp_all add: fragments_of_def mult.commute mult.left_commute)
qed

lemma datetime_spec:
  assumes "\<bar>ticks\<bar> \<le> 10 ^ 29"
  shows "mssql_datetime_from_unix_epoch_100ns_ticks m row ticks rounding =
    (let x = fragments_of rounding ticks in
     if (- 53690 - 25567) * 864000000000 \<le> ticks \<and> x < (2958464 - 25567) * 25920000
     then Ok \<lparr>datetime_days = word_of_int (x div 25920000 + 25567),
              datetime_fragments = word_of_int (x mod 25920000)\<rparr>
     else Err (conversion_error m row TimestampOutOfRange))"
proof -
  define x where "x = fragments_of rounding ticks"
  have round: "round_100ns_ticks_to_datetime_fragments m row ticks rounding = Inr x"
    using fragments_rounds [OF assms] by (simp add: x_def)
  have upper: "x < (2958464 - 25567) * 25920000 \<longleftrightarrow> x div 25920000 + 25567 \<le> 2958463" by auto
  show ?thesis
  proof (cases "(- 53690 - 25567) * 864000000000 \<le> ticks \<and> x < (2958464 - 25567) * 25920000")
    case True
    have "(- 53690 - 25567) * 25920000 \<le> x"
      using True fragments_mono [of "(- 53690 - 25567) * 864000000000" ticks rounding]
      unfolding x_def by (simp only: fragments_of_day)
    then have lower: "- 53690 \<le> x div 25920000 + 25567" by auto
    define d t where "d = x div 25920000 + 25567" and "t = x mod 25920000"
    have d: "- 53690 \<le> d" "d \<le> 2958463" using True upper lower by (simp_all only: d_def)
    have t: "0 \<le> t" "t < 25920000" by (simp_all add: t_def)
    have parts: "try_signed d = Some (word_of_int d :: i32)" "try_unsigned t = Some (word_of_int t :: u32)"
      using d t by (simp_all add: try_signed_def try_unsigned_def in_signed_def in_unsigned_def)
    have "mssql_datetime_from_unix_epoch_100ns_ticks m row ticks rounding
        = Ok \<lparr>datetime_days = word_of_int d, datetime_fragments = word_of_int t\<rparr>"
      using True d parts unfolding mssql_datetime_from_unix_epoch_100ns_ticks_def round cell_new_defs d_def t_def
      by (simp add: time_constants Let_def del: of_int_add)
    with True show ?thesis unfolding x_def [symmetric] by (simp add: d_def t_def Let_def del: of_int_add)
  next
    case False
    with upper show ?thesis unfolding x_def [symmetric]
      by (auto simp: mssql_datetime_from_unix_epoch_100ns_ticks_def round time_constants Let_def)
  qed
qed

text \<open>C19: an instant is stored as \<^verbatim>\<open>datetime\<close> at the 1/300-second
  fragment its rounding mode selects, or refused. From compatibility level 130 on that is the nearest
  fragment, halves rounded up; below, it is the nearest fragment to the nearest millisecond. The instant is
  accepted exactly when it is not before 1753-01-01 and the fragment is before 10000-01-01; the cell
  then has a day and a time of day in the range of the type and stands for that fragment. Rounding
  carries over midnight into the next day. Every instant a 64-bit timestamp of any unit can name is within
  the assumed bound.\<close>

theorem datetime_conversion_contract:
  assumes "\<bar>ticks\<bar> \<le> 10 ^ 29"
  shows "let x = (case rounding of
         LegacyPre130 \<Rightarrow> round_half_up (300 * (10000 * round_half_up ticks 10000)) 10000000
       | Compat130Plus \<Rightarrow> round_half_up (300 * ticks) 10000000) in
    (case rounding of
       LegacyPre130 \<Rightarrow> \<exists>ms. 2 * \<bar>10000 * ms - ticks\<bar> \<le> 10000 \<and> 2 * \<bar>10000000 * x - 300 * (10000 * ms)\<bar> \<le> 10000000
     | Compat130Plus \<Rightarrow> 2 * \<bar>10000000 * x - 300 * ticks\<bar> \<le> 10000000)
    \<and> (if (days_before_year 1753 - days_before_year 1970) * 864000000000 \<le> ticks
         \<and> x < (days_before_year 10000 - days_before_year 1970) * 25920000
       then \<exists>c. mssql_datetime_from_unix_epoch_100ns_ticks m row ticks rounding = Ok c
         \<and> valid_datetime c \<and> datetime_instant c = x
       else mssql_datetime_from_unix_epoch_100ns_ticks m row ticks rounding
         = Err (conversion_error m row TimestampOutOfRange))"
proof -
  define x where "x = fragments_of rounding ticks"
  have near: "case rounding of
       LegacyPre130 \<Rightarrow> \<exists>ms. 2 * \<bar>10000 * ms - ticks\<bar> \<le> 10000 \<and> 2 * \<bar>10000000 * x - 300 * (10000 * ms)\<bar> \<le> 10000000
     | Compat130Plus \<Rightarrow> 2 * \<bar>10000000 * x - 300 * ticks\<bar> \<le> 10000000"
    using round_half_up_error [of 10000 ticks] round_half_up_error [of 10000000 "300 * ticks"]
      round_half_up_error [of 10000000 "300 * (10000 * round_half_up ticks 10000)"]
    by (cases rounding) (auto simp: x_def fragments_of_def intro: exI [of _ "round_half_up ticks 10000"])
  have dby: "days_before_year 1753 - days_before_year 1970 = - 53690 - 25567"
    "days_before_year 10000 - days_before_year 1970 = 2958464 - 25567"
    by (simp_all add: days_before_year_def)
  note out = datetime_spec [OF assms(1), of m row rounding, folded x_def, unfolded Let_def]
  have stored: "if (- 53690 - 25567) * 864000000000 \<le> ticks \<and> x < (2958464 - 25567) * 25920000
    then \<exists>c. mssql_datetime_from_unix_epoch_100ns_ticks m row ticks rounding = Ok c
      \<and> valid_datetime c \<and> datetime_instant c = x
    else mssql_datetime_from_unix_epoch_100ns_ticks m row ticks rounding
      = Err (conversion_error m row TimestampOutOfRange)"
  proof (cases "(- 53690 - 25567) * 864000000000 \<le> ticks \<and> x < (2958464 - 25567) * 25920000")
    case True
    define d t where "d = x div 25920000 + 25567" and "t = x mod 25920000"
    have "(- 53690 - 25567) * 25920000 \<le> x"
      using True fragments_mono [of "(- 53690 - 25567) * 864000000000" ticks rounding]
      unfolding x_def by (simp only: fragments_of_day)
    with True have d: "- 53690 \<le> d" "d \<le> 2958463" by (auto simp: d_def)
    have t: "0 \<le> t" "t < 25920000" by (simp_all add: t_def)
    define dw :: i32 where "dw = word_of_int d"
    define tw :: u32 where "tw = word_of_int t"
    have words: "sint dw = d" "uint tw = t"
      unfolding dw_def tw_def
      using d t by (simp_all add: sint_word_of_int_fits uint_word_of_int_fits in_signed_def in_unsigned_def)
    have "mssql_datetime_from_unix_epoch_100ns_ticks m row ticks rounding
        = Ok \<lparr>datetime_days = dw, datetime_fragments = tw\<rparr>"
      using True unfolding out dw_def tw_def d_def t_def by simp
    moreover have "(d - 25567) * 25920000 + t = x" by (simp add: d_def t_def)
    ultimately show ?thesis using True d t words
      by (simp add: valid_datetime_def datetime_instant_def)
  next
    case False
    then show ?thesis unfolding out by (simp only: if_False)
  qed
  show ?thesis
    unfolding dby Let_def
    by (intro conjI) (rule near [unfolded x_def fragments_of_def], rule stored [unfolded x_def fragments_of_def])
qed

theorem datetime_conversion_contract_witness:
  "\<exists>c. mssql_datetime_from_unix_epoch_100ns_ticks (example_mapping (DtTimestamp Nanosecond None) MsDateTime)
       5 863999999999 Compat130Plus = Ok c \<and> datetime_instant c = 25920000"
  using datetime_conversion_contract [of 863999999999 Compat130Plus
      "example_mapping (DtTimestamp Nanosecond None) MsDateTime" 5]
  by (auto simp: days_before_year_def round_half_up_def)

text \<open>datetime_rounding_modes: what the compatibility level changes. From level 130 on the
  stored fragment is the nearest one, within 1/600 s of the instant. Below, the instant is first
  rounded to milliseconds, so the error may be larger by half a millisecond. The two fragments
  never differ by more than one, and not at all for instants that are whole milliseconds.\<close>

theorem datetime_rounding_modes:
  assumes "\<bar>ticks\<bar> \<le> 10 ^ 29"
    and "round_100ns_ticks_to_datetime_fragments m row ticks LegacyPre130 = Ok a"
    and "round_100ns_ticks_to_datetime_fragments m row ticks Compat130Plus = Ok b"
  shows "2 * \<bar>10000000 * b - 300 * ticks\<bar> \<le> 10000000
    \<and> 2 * \<bar>10000000 * a - 300 * ticks\<bar> \<le> 10000000 + 300 * 10000
    \<and> \<bar>a - b\<bar> \<le> 1 \<and> (ticks mod 10000 = 0 \<longrightarrow> a = b)"
proof -
  define ms where "ms = 10000 * round_half_up ticks 10000"
  have a: "a = round_half_up (300 * ms) 10000000" and b: "b = round_half_up (300 * ticks) 10000000"
    using assms(2,3) fragments_rounds [OF assms(1), of m row] by (simp_all add: fragments_of_def ms_def)
  have err_b: "2 * \<bar>10000000 * b - 300 * ticks\<bar> \<le> 10000000"
    unfolding b by (rule round_half_up_error) simp
  have "2 * \<bar>10000000 * a - 300 * ms\<bar> \<le> 10000000"
    unfolding a by (rule round_half_up_error) simp
  moreover have "2 * \<bar>ms - ticks\<bar> \<le> 10000"
    unfolding ms_def by (rule round_half_up_error) simp
  ultimately have err_a: "2 * \<bar>10000000 * a - 300 * ticks\<bar> \<le> 10000000 + 300 * 10000"
    unfolding double_abs_le by auto
  have "\<bar>a - b\<bar> \<le> 1" using err_a err_b unfolding double_abs_le abs_le_iff by auto
  moreover have "a = b" if "ticks mod 10000 = 0"
  proof -
    from that obtain k where "ticks = 10000 * k" by (metis mod_0_imp_dvd dvdE)
    then have "ms = ticks" using round_half_up_exact [of 10000 k] by (simp add: ms_def)
    with a b show ?thesis by simp
  qed
  ultimately show ?thesis using err_a err_b by simp
qed

theorem datetime_rounding_modes_witness:
  "round_100ns_ticks_to_datetime_fragments (example_mapping (DtTimestamp Microsecond None) MsDateTime)
     0 6845820 LegacyPre130 = Ok 206
   \<and> round_100ns_ticks_to_datetime_fragments (example_mapping (DtTimestamp Microsecond None) MsDateTime)
     0 6845820 Compat130Plus = Ok 205 \<and> \<bar>206 - 205\<bar> \<le> (1::int)"
proof -
  let ?m = "example_mapping (DtTimestamp Microsecond None) MsDateTime"
  have r: "round_100ns_ticks_to_datetime_fragments ?m 0 6845820 LegacyPre130 = Ok 206"
    "round_100ns_ticks_to_datetime_fragments ?m 0 6845820 Compat130Plus = Ok 205"
    using fragments_rounds [of 6845820 ?m 0] by (simp_all add: fragments_of_def round_half_up_def)
  from datetime_rounding_modes [OF _ r] r show ?thesis by simp
qed

subsection \<open>Timestamps of every unit\<close>

text \<open>C28: a timestamp keeps its exact instant whenever the planned precision
  can hold its unit. Every accepted second timestamp is stored exactly, every millisecond
  timestamp at precision 3 and up, every microsecond timestamp at precision 6 and up, and every
  nanosecond timestamp at precision 7 under the policy that rejects fractions of 100 ns.\<close>

theorem timestamp_lossless:
  assumes "target_type m = MsDateTime2 p" "unat p \<le> 7"
  shows "(mssql_datetime2_from_arrow_timestamp_second m row v = Ok c \<longrightarrow>
        datetime2_ticks c = sint v * 10 ^ 7)
    \<and> (3 \<le> unat p \<and> mssql_datetime2_from_arrow_timestamp_millisecond m row v = Ok c \<longrightarrow>
        datetime2_ticks c = sint v * 10 ^ 4)
    \<and> (6 \<le> unat p \<and> mssql_datetime2_from_arrow_timestamp_microsecond m row v = Ok c \<longrightarrow>
        datetime2_ticks c = sint v * 10)
    \<and> (unat p = 7 \<and> mssql_datetime2_from_arrow_timestamp_nanosecond m row v RejectNon100ns = Ok c \<longrightarrow>
        datetime2_ticks c * 100 = sint v)"
proof -
  have scale: "target_datetime2_timestamp_scale m row = Ok p"
    using assms by (simp add: target_datetime2_timestamp_scale_def time_constants word_le_nat_alt)
  have exact: "datetime2_ticks c = 10 ^ (7 - unat p) * k"
    if "mssql_datetime2_from_arrow_timestamp_ticks m row (10 ^ (7 - unat p) * k) = Ok c"
      and "\<bar>10 ^ (7 - unat p) * k\<bar> \<le> 10 ^ 30" for k
    using datetime2_ticks_of [OF assms(2) that(2)] that(1)
      round_half_up_exact [of "10 ^ (7 - unat p)" k]
    by (simp add: mssql_datetime2_from_arrow_timestamp_ticks_def scale)
  have unit: "datetime2_ticks c = sint v * 10 ^ n"
    if "mssql_datetime2_from_arrow_timestamp_ticks m row (sint v * 10 ^ n) = Ok c"
      and "7 - unat p \<le> n" "n \<le> 7" for n
  proof -
    have split: "10 ^ (7 - unat p) * (sint v * 10 ^ (n - (7 - unat p))) = sint v * 10 ^ n"
      using that(2) by (simp add: mult.left_commute flip: power_add)
    have "\<bar>sint v * 10 ^ n\<bar> \<le> 9223372036854775808 * 10 ^ 7"
      unfolding abs_mult using i64_bounds [of v] power10_mono [OF that(3)]
      by (intro mult_mono) (auto simp: abs_le_iff)
    with that(1) show ?thesis
      using exact [of "sint v * 10 ^ (n - (7 - unat p))"] unfolding split by simp
  qed
  have ns: "datetime2_ticks c * 100 = sint v"
    if "unat p = 7" "mssql_datetime2_from_arrow_timestamp_nanosecond m row v RejectNon100ns = Ok c"
  proof -
    from that(2) have "sint v mod 100 = 0"
      and conv: "mssql_datetime2_from_arrow_timestamp_ticks m row (sint v div 100) = Ok c"
      by (auto simp: mssql_datetime2_from_arrow_timestamp_nanosecond_def nanoseconds_to_100ns_ticks_def
          time_constants Let_def result_simps split: if_splits)
    have "\<bar>sint v div 100\<bar> \<le> 10 ^ 30" using i64_bounds [of v] by (simp add: abs_le_iff) linarith
    with exact [of "sint v div 100"] conv that(1) have "datetime2_ticks c = sint v div 100" by simp
    with \<open>sint v mod 100 = 0\<close> show ?thesis by auto
  qed
  show ?thesis
    using unit [of 7] unit [of 4] unit [of 1] ns
    unfolding mssql_datetime2_from_arrow_timestamp_second_def
      mssql_datetime2_from_arrow_timestamp_millisecond_def
      mssql_datetime2_from_arrow_timestamp_microsecond_def time_constants
    by auto
qed

theorem timestamp_lossless_witness:
  "\<exists>c. mssql_datetime2_from_arrow_timestamp_millisecond
        (example_mapping (DtTimestamp Millisecond None) (MsDateTime2 3)) 0 (- 1) = Ok c
     \<and> datetime2_ticks c = - 10000"
proof -
  let ?m = "example_mapping (DtTimestamp Millisecond None) (MsDateTime2 3)"
  have p: "target_type ?m = MsDateTime2 3" "unat (3 :: u8) \<le> 7" by simp_all
  have "\<exists>c. mssql_datetime2_from_arrow_timestamp_millisecond ?m 0 (- 1) = Ok c"
    by (simp add: mssql_datetime2_from_arrow_timestamp_millisecond_def
        mssql_datetime2_from_arrow_timestamp_ticks_def target_datetime2_timestamp_scale_def
        mssql_datetime2_from_unix_epoch_100ns_ticks_at_scale_def
        round_100ns_ticks_to_datetime2_scale_def ticks_per_datetime2_increment_def time_constants
        checked_i128_def in_signed_def try_unsigned_def in_unsigned_def Let_def)
  then obtain c where c: "mssql_datetime2_from_arrow_timestamp_millisecond ?m 0 (- 1) = Ok c" ..
  with timestamp_lossless [OF p, of 0 "- 1" c] show ?thesis by auto
qed

subsection \<open>Time of day\<close>

text \<open>The time of day of a cell and of an Arrow value, in nanoseconds.\<close>

definition time_nanoseconds :: "mssql_time \<Rightarrow> int" where
  "time_nanoseconds t = uint (time_increments t) * 10 ^ (9 - unat (time_scale t))"

definition arrow_time_nanoseconds :: "arrow_cell \<Rightarrow> int option" where
  "arrow_time_nanoseconds cell =
     (case cell of
        CellTime32Second v \<Rightarrow> Some (sint v * 10 ^ 9)
      | CellTime32Millisecond v \<Rightarrow> Some (sint v * 10 ^ 6)
      | CellTime64Microsecond v \<Rightarrow> Some (sint v * 10 ^ 3)
      | CellTime64Nanosecond v \<Rightarrow> Some (sint v)
      | _ \<Rightarrow> None)"

lemma time_from_i64_Ok:
  assumes "mssql_time_from_i64 m row v n scale = Ok t" "n \<le> 86400000000"
  shows "t = \<lparr>time_increments = word_of_int v, time_scale = scale\<rparr>"
    and "uint (word_of_int v :: u64) = v" and "0 \<le> v" and "v < n"
proof -
  from assms(1) show "t = \<lparr>time_increments = word_of_int v, time_scale = scale\<rparr>" "0 \<le> v" "v < n"
    by (auto simp: mssql_time_from_i64_def mssql_time_new_def split: if_splits)
  with assms(2) show "uint (word_of_int v :: u64) = v"
    by (intro uint_word_of_int_fits) (simp add: in_unsigned_def)
qed

lemma time_nanosecond_ticks:
  assumes "0 \<le> ns" "ns < 86400000000000"
  shows "case time_nanoseconds_to_100ns_ticks m row ns policy of
     Inr ticks \<Rightarrow> nanosecond_policy_relation policy ns ticks \<and> 0 \<le> ticks \<and> ticks \<le> 864000000000
   | Inl e \<Rightarrow> policy = RejectNon100ns \<and> ns mod 100 \<noteq> 0
       \<and> e = conversion_error m row LossyConversionRequiresPolicy"
proof -
  have bounds: "0 \<le> ns div 100" "ns div 100 < 864000000000" using assms by auto
  then have "in_i64 (ns div 100 + 1)" by (simp add: in_signed_def)
  with bounds show ?thesis
    using policy_relation_div [of ns]
    by (auto simp: time_nanoseconds_to_100ns_ticks_def time_constants Let_def checked_i64_def
        split: nanosecond_policy.splits)
qed

lemma time_from_nanoseconds_Ok:
  assumes "mssql_time_from_nanoseconds m row ns policy = Ok t"
  shows "time_scale t = 7" and "nanosecond_policy_relation policy ns (uint (time_increments t))"
    and "uint (time_increments t) < 864000000000"
proof -
  from assms obtain ticks w where range: "0 \<le> ns" "ns < 86400000000000"
    and ticks: "time_nanoseconds_to_100ns_ticks m row ns policy = Ok ticks"
    and w: "in_unsigned 64 ticks" "uint (w :: u64) = ticks" "ticks < 864000000000"
    and t: "t = \<lparr>time_increments = w, time_scale = 7\<rparr>"
    by (auto simp: mssql_time_from_nanoseconds_def time_constants result_simps try_unsigned_Some
        mssql_time_new_def split: if_splits)
  from time_nanosecond_ticks [OF range, where m = m and row = row and policy = policy] ticks w t
  show "time_scale t = 7" "nanosecond_policy_relation policy ns (uint (time_increments t))"
    "uint (time_increments t) < 864000000000" by simp_all
qed

text \<open>time_of_day_contract: a time-of-day cell is valid and faithful. When a planned time
  conversion accepts a value, the cell has the planned precision, lies within one day, and
  stands for the source's time of day exactly; for nanoseconds, up to what the policy allows at
  100 ns.\<close>

theorem time_of_day_contract:
  assumes "mssql_time_value rm row cell = Ok t"
  shows "\<exists>ns. arrow_time_nanoseconds cell = Some ns
    \<and> target_type (rm_mapping rm) = MsTime (MssqlTimePrecision (time_scale t))
    \<and> valid_time t
    \<and> (case cell of
         CellTime64Nanosecond _ \<Rightarrow>
           nanosecond_policy_relation (rm_nanosecond_policy rm) ns (uint (time_increments t))
       | _ \<Rightarrow> time_nanoseconds t = ns)"
proof -
  let ?m = "rm_mapping rm"
  from assms obtain c where c: "temporal_classify ?m row = Ok c"
    by (auto simp: mssql_time_value_def Let_def result_simps)
  note fits = c [unfolded temporal_cls.classify_Ok]
  show ?thesis
  proof (cases cell)
    case (CellTime32Second v)
    with assms c have "c = Time32SecondToTime"
      and t: "mssql_time_from_i64 ?m row (sint v) SECONDS_PER_DAY 0 = Ok t"
      by (auto simp: mssql_time_value_def Let_def split: if_splits)
    with fits CellTime32Second time_from_i64_Ok [OF t] show ?thesis
      by (simp add: arrow_time_nanoseconds_def valid_time_def time_nanoseconds_def time_constants)
  next
    case (CellTime32Millisecond v)
    with assms c have "c = Time32MillisecondToTime"
      and t: "mssql_time_from_i64 ?m row (sint v) MILLISECONDS_PER_DAY 3 = Ok t"
      by (auto simp: mssql_time_value_def Let_def split: if_splits)
    with fits CellTime32Millisecond time_from_i64_Ok [OF t] show ?thesis
      by (simp add: arrow_time_nanoseconds_def valid_time_def time_nanoseconds_def time_constants)
  next
    case (CellTime64Microsecond v)
    with assms c have "c = Time64MicrosecondToTime"
      and t: "mssql_time_from_i64 ?m row (sint v) MICROSECONDS_PER_DAY 6 = Ok t"
      by (auto simp: mssql_time_value_def Let_def split: if_splits)
    with fits CellTime64Microsecond time_from_i64_Ok [OF t] show ?thesis
      by (simp add: arrow_time_nanoseconds_def valid_time_def time_nanoseconds_def time_constants)
  next
    case (CellTime64Nanosecond v)
    with assms c have "c = Time64NanosecondToTime"
      and t: "mssql_time_from_nanoseconds ?m row (sint v) (rm_nanosecond_policy rm) = Ok t"
      by (auto simp: mssql_time_value_def Let_def split: if_splits)
    with fits CellTime64Nanosecond time_from_nanoseconds_Ok [OF t] show ?thesis
      by (simp add: arrow_time_nanoseconds_def valid_time_def)
  qed (use assms c in \<open>auto simp: mssql_time_value_def Let_def\<close>)
qed

definition example_runtime :: "data_type \<Rightarrow> mssql_type \<Rightarrow> nanosecond_policy \<Rightarrow> runtime_mapping" where
  "example_runtime t ty policy =
     \<lparr>rm_mapping = example_mapping t ty,
      rm_context = \<lparr>context_profile = sql_server_2017_compat_140,
        context_options = plan_options_default\<lparr>nanosecond_policy := policy\<rparr>\<rparr>\<rparr>"

lemma example_runtime_simps [simp]:
  "rm_mapping (example_runtime t ty policy) = example_mapping t ty"
  "rm_nanosecond_policy (example_runtime t ty policy) = policy"
  by (simp_all add: example_runtime_def rm_nanosecond_policy_def context_nanosecond_policy_def)

theorem time_of_day_contract_witness:
  "\<exists>t. mssql_time_value (example_runtime (DtTime64 Nanosecond) (MsTime (MssqlTimePrecision 7)) RoundTo100ns)
       0 (CellTime64Nanosecond 150) = Ok t \<and> uint (time_increments t) = 2 \<and> valid_time t"
proof -
  let ?rm = "example_runtime (DtTime64 Nanosecond) (MsTime (MssqlTimePrecision 7)) RoundTo100ns"
  have "\<exists>t. mssql_time_value ?rm 0 (CellTime64Nanosecond 150) = Ok t"
    by (simp add: mssql_time_value_def temporal_classify_def mssql_time_from_nanoseconds_def
        time_nanoseconds_to_100ns_ticks_def time_constants checked_i64_def in_signed_def
        try_unsigned_def in_unsigned_def Let_def)
  then obtain t where t: "mssql_time_value ?rm 0 (CellTime64Nanosecond 150) = Ok t" ..
  from time_of_day_contract [OF t] have "valid_time t"
    and "nanosecond_policy_relation RoundTo100ns 150 (uint (time_increments t))"
    by (auto simp: arrow_time_nanoseconds_def)
  then show ?thesis using t by (auto simp: nanosecond_policy_relation_def)
qed

end
