(* ===== verification/DateTimeOffsets.thy ===== *)
theory DateTimeOffsets
  imports DateTimes
begin

text \<open>
  Timezone-aware timestamps: \<^verbatim>\<open>timezone.rs\<close> and \<^verbatim>\<open>datetimeoffset.rs\<close> of
  \<^verbatim>\<open>src/mssql/cell/from_arrow/temporal/\<close>.

  The timezone database (\<^verbatim>\<open>Tz\<close> of \<^verbatim>\<open>arrow_array\<close> with \<^verbatim>\<open>chrono\<close>) is the parameter
  \<^verbatim>\<open>timezone_db\<close>: how a name is parsed, and the UTC offset in seconds of a zone at an
  instant, where the instant is representable.
\<close>

record 'tz timezone_db =
  tz_parse :: "rstr \<Rightarrow> 'tz option"
  tz_offset_at :: "'tz \<Rightarrow> int \<Rightarrow> nat \<Rightarrow> int option"

subsection \<open>Timezone metadata\<close>

definition SQL_SERVER_DATETIMEOFFSET_MAX_OFFSET_MINUTES :: int where
  "SQL_SERVER_DATETIMEOFFSET_MAX_OFFSET_MINUTES = 14 * 60"

datatype 'tz timezone_resolution = FixedOffset int | NamedZone 'tz

text \<open>\<^verbatim>\<open>str::as_bytes\<close>: UTF-8.\<close>

definition utf8_char :: "nat \<Rightarrow> nat list" where
  "utf8_char c =
     (if c < 0x80 then [c]
      else if c < 0x800 then [0xC0 + c div 64, 0x80 + c mod 64]
      else if c < 0x10000 then [0xE0 + c div 4096, 0x80 + c div 64 mod 64, 0x80 + c mod 64]
      else [0xF0 + c div 262144, 0x80 + c div 4096 mod 64, 0x80 + c div 64 mod 64, 0x80 + c mod 64])"

definition utf8_bytes :: "rstr \<Rightarrow> nat list" where
  "utf8_bytes s = concat (map utf8_char s)"

definition ascii_lower :: "nat \<Rightarrow> nat" where
  "ascii_lower c = (if 65 \<le> c \<and> c \<le> 90 then c + 32 else c)"

definition eq_ignore_ascii_case :: "rstr \<Rightarrow> rstr \<Rightarrow> bool" where
  "eq_ignore_ascii_case a b \<longleftrightarrow> map ascii_lower a = map ascii_lower b"

definition is_ascii_digit :: "nat \<Rightarrow> bool" where
  "is_ascii_digit c \<longleftrightarrow> 48 \<le> c \<and> c \<le> 57"

definition checked_i16 :: "int \<Rightarrow> int option" where
  "checked_i16 x = (if in_signed 16 x then Some x else None)"

text \<open>\<^verbatim>\<open>None\<close> when the text is not written as a fixed offset at all.\<close>

definition parse_sql_server_fixed_timezone_offset ::
    "schema_mapping \<Rightarrow> usize \<Rightarrow> rstr \<Rightarrow> (error + int) option" where
  "parse_sql_server_fixed_timezone_offset m row timezone =
     (let b = utf8_bytes timezone;
          unsupported = Err (conversion_error m row TimezoneUnsupported) in
      if \<not> (b \<noteq> [] \<and> (hd b = 43 \<or> hd b = 45)) then None
      else
        (case (if length b = 3 then Some [b ! 1, b ! 2, 48, 48]
               else if length b = 5 then Some [b ! 1, b ! 2, b ! 3, b ! 4]
               else if length b = 6 \<and> b ! 3 = 58 then Some [b ! 1, b ! 2, b ! 4, b ! 5]
               else None) of
           None \<Rightarrow> Some unsupported
         | Some digits \<Rightarrow>
             if list_ex (\<lambda>d. \<not> is_ascii_digit d) digits then Some unsupported
             else
               let hours = int ((digits ! 0 - 48) * 10 + (digits ! 1 - 48));
                   minutes = int ((digits ! 2 - 48) * 10 + (digits ! 3 - 48)) in
               if minutes \<ge> 60 then Some unsupported
               else
                 (case Option.bind (checked_i16 (hours * 60)) (\<lambda>v. checked_i16 (v + minutes)) of
                    None \<Rightarrow> Some unsupported
                  | Some total_minutes \<Rightarrow>
                      if total_minutes > SQL_SERVER_DATETIMEOFFSET_MAX_OFFSET_MINUTES
                      then Some unsupported
                      else if hd b = 45 then Some (Ok (- total_minutes))
                      else Some (Ok total_minutes))))"

definition timezone_resolution_from_metadata ::
    "'tz timezone_db \<Rightarrow> schema_mapping \<Rightarrow> usize \<Rightarrow> rstr \<Rightarrow> error + 'tz timezone_resolution" where
  "timezone_resolution_from_metadata db m row timezone =
     (if eq_ignore_ascii_case timezone (lit ''Z'') \<or> eq_ignore_ascii_case timezone (lit ''UTC'')
      then Ok (FixedOffset 0)
      else
        (case parse_sql_server_fixed_timezone_offset m row timezone of
           Some r \<Rightarrow> map_ok FixedOffset r
         | None \<Rightarrow>
             map_ok NamedZone
               (ok_or (conversion_error m row TimezoneUnsupported) (tz_parse db timezone))))"

definition sql_server_offset_minutes :: "schema_mapping \<Rightarrow> usize \<Rightarrow> int \<Rightarrow> error + int" where
  "sql_server_offset_minutes m row offset_seconds =
     (if trunc_rem offset_seconds 60 \<noteq> 0 then Err (conversion_error m row TimezoneUnsupported)
      else
        and_then (ok_or (conversion_error m row TimezoneUnsupported)
                    (checked_i16 (trunc_div offset_seconds 60)))
          (\<lambda>minutes.
            if \<bar>minutes\<bar> > SQL_SERVER_DATETIMEOFFSET_MAX_OFFSET_MINUTES
            then Err (conversion_error m row TimezoneUnsupported)
            else Ok minutes))"

definition offset_for_instant ::
    "'tz timezone_db \<Rightarrow> 'tz timezone_resolution \<Rightarrow> schema_mapping \<Rightarrow> usize \<Rightarrow> int \<Rightarrow> nat \<Rightarrow> error + int" where
  "offset_for_instant db resolution m row seconds nanoseconds =
     (case resolution of
        FixedOffset offset_minutes \<Rightarrow> Ok offset_minutes
      | NamedZone tz \<Rightarrow>
          and_then (ok_or (conversion_error m row TimestampOutOfRange)
                      (tz_offset_at db tz seconds nanoseconds))
            (sql_server_offset_minutes m row))"

subsection \<open>Conversion\<close>

text \<open>\<^verbatim>\<open>u32::try_from\<close> of the nanosecond part.\<close>

definition epoch_parts :: "schema_mapping \<Rightarrow> usize \<Rightarrow> int \<Rightarrow> int \<Rightarrow> error + (int \<times> nat)" where
  "epoch_parts m row seconds nanoseconds =
     and_then (ok_or (conversion_error m row TimestampOutOfRange) (try_unsigned nanoseconds))
       (\<lambda>n :: u32. Ok (seconds, unat n))"

definition epoch_parts_from_milliseconds :: "schema_mapping \<Rightarrow> usize \<Rightarrow> i64 \<Rightarrow> error + (int \<times> nat)" where
  "epoch_parts_from_milliseconds m row v =
     epoch_parts m row (div_euclid (sint v) 1000) (rem_euclid (sint v) 1000 * 1000000)"

definition epoch_parts_from_microseconds :: "schema_mapping \<Rightarrow> usize \<Rightarrow> i64 \<Rightarrow> error + (int \<times> nat)" where
  "epoch_parts_from_microseconds m row v =
     epoch_parts m row (div_euclid (sint v) 1000000) (rem_euclid (sint v) 1000000 * 1000)"

definition epoch_parts_from_nanoseconds :: "schema_mapping \<Rightarrow> usize \<Rightarrow> i64 \<Rightarrow> error + (int \<times> nat)" where
  "epoch_parts_from_nanoseconds m row v =
     epoch_parts m row (div_euclid (sint v) 1000000000) (rem_euclid (sint v) 1000000000)"

definition validate_datetimeoffset_local_range :: "schema_mapping \<Rightarrow> usize \<Rightarrow> int \<Rightarrow> error + unit" where
  "validate_datetimeoffset_local_range m row local_ticks =
     map_ok (\<lambda>_. ()) (mssql_datetime2_from_unix_epoch_100ns_ticks m row local_ticks)"

definition mssql_datetimeoffset_from_utc_100ns_ticks ::
    "schema_mapping \<Rightarrow> usize \<Rightarrow> int \<Rightarrow> int \<Rightarrow> error + mssql_datetimeoffset" where
  "mssql_datetimeoffset_from_utc_100ns_ticks m row utc_ticks offset_minutes =
     (let offset_ticks = offset_minutes * 60 * TICKS_100NS_PER_SECOND in
      and_then (ok_or (conversion_error m row TimestampOutOfRange)
                  (checked_i128 (utc_ticks + offset_ticks))) (\<lambda>local_ticks.
      and_then (validate_datetimeoffset_local_range m row local_ticks) (\<lambda>_.
      and_then (mssql_datetime2_from_unix_epoch_100ns_ticks m row utc_ticks) (\<lambda>utc_datetime2.
        Ok (mssql_datetimeoffset_new utc_datetime2 (word_of_int offset_minutes))))))"

definition mssql_datetimeoffset_from_arrow_timestamp_second ::
    "'tz timezone_db \<Rightarrow> schema_mapping \<Rightarrow> usize \<Rightarrow> i64 \<Rightarrow> rstr \<Rightarrow> error + mssql_datetimeoffset" where
  "mssql_datetimeoffset_from_arrow_timestamp_second db m row v timezone =
     and_then (timezone_resolution_from_metadata db m row timezone) (\<lambda>resolution.
     and_then (offset_for_instant db resolution m row (sint v) 0) (\<lambda>offset_minutes.
       mssql_datetimeoffset_from_utc_100ns_ticks m row (sint v * TICKS_100NS_PER_SECOND)
         offset_minutes))"

definition mssql_datetimeoffset_from_arrow_timestamp_millisecond ::
    "'tz timezone_db \<Rightarrow> schema_mapping \<Rightarrow> usize \<Rightarrow> i64 \<Rightarrow> rstr \<Rightarrow> error + mssql_datetimeoffset" where
  "mssql_datetimeoffset_from_arrow_timestamp_millisecond db m row v timezone =
     and_then (epoch_parts_from_milliseconds m row v) (\<lambda>(seconds, nanoseconds).
     and_then (timezone_resolution_from_metadata db m row timezone) (\<lambda>resolution.
     and_then (offset_for_instant db resolution m row seconds nanoseconds) (\<lambda>offset_minutes.
       mssql_datetimeoffset_from_utc_100ns_ticks m row (sint v * TICKS_100NS_PER_MILLISECOND)
         offset_minutes)))"

definition mssql_datetimeoffset_from_arrow_timestamp_microsecond ::
    "'tz timezone_db \<Rightarrow> schema_mapping \<Rightarrow> usize \<Rightarrow> i64 \<Rightarrow> rstr \<Rightarrow> error + mssql_datetimeoffset" where
  "mssql_datetimeoffset_from_arrow_timestamp_microsecond db m row v timezone =
     and_then (epoch_parts_from_microseconds m row v) (\<lambda>(seconds, nanoseconds).
     and_then (timezone_resolution_from_metadata db m row timezone) (\<lambda>resolution.
     and_then (offset_for_instant db resolution m row seconds nanoseconds) (\<lambda>offset_minutes.
       mssql_datetimeoffset_from_utc_100ns_ticks m row (sint v * TICKS_100NS_PER_MICROSECOND)
         offset_minutes)))"

definition mssql_datetimeoffset_from_arrow_timestamp_nanosecond ::
    "'tz timezone_db \<Rightarrow> schema_mapping \<Rightarrow> usize \<Rightarrow> i64 \<Rightarrow> rstr \<Rightarrow> nanosecond_policy
      \<Rightarrow> error + mssql_datetimeoffset" where
  "mssql_datetimeoffset_from_arrow_timestamp_nanosecond db m row v timezone policy =
     and_then (epoch_parts_from_nanoseconds m row v) (\<lambda>(seconds, nanoseconds).
     and_then (timezone_resolution_from_metadata db m row timezone) (\<lambda>resolution.
     and_then (offset_for_instant db resolution m row seconds nanoseconds) (\<lambda>offset_minutes.
     and_then (nanoseconds_to_100ns_ticks m row v policy) (\<lambda>utc_ticks.
       mssql_datetimeoffset_from_utc_100ns_ticks m row utc_ticks offset_minutes))))"

definition timestamp_timezone :: "schema_mapping \<Rightarrow> rstr option" where
  "timestamp_timezone m = (case source_type m of DtTimestamp _ tz \<Rightarrow> tz | _ \<Rightarrow> None)"

definition mssql_datetimeoffset_value ::
    "'tz timezone_db \<Rightarrow> runtime_mapping \<Rightarrow> usize \<Rightarrow> arrow_cell \<Rightarrow> error + mssql_datetimeoffset" where
  "mssql_datetimeoffset_value db rm row cell =
     (let m = rm_mapping rm; mismatch = Err (conversion_error m row ValueTypeMismatch) in
      and_then (temporal_classify m row) (\<lambda>c.
        case timestamp_timezone m of
          None \<Rightarrow> mismatch
        | Some timezone \<Rightarrow>
            (case cell of
               CellTimestampSecond v \<Rightarrow>
                 if c = TimestampSecondTzToDateTimeOffset
                 then mssql_datetimeoffset_from_arrow_timestamp_second db m row v timezone
                 else mismatch
             | CellTimestampMillisecond v \<Rightarrow>
                 if c = TimestampMillisecondTzToDateTimeOffset
                 then mssql_datetimeoffset_from_arrow_timestamp_millisecond db m row v timezone
                 else mismatch
             | CellTimestampMicrosecond v \<Rightarrow>
                 if c = TimestampMicrosecondTzToDateTimeOffset
                 then mssql_datetimeoffset_from_arrow_timestamp_microsecond db m row v timezone
                 else mismatch
             | CellTimestampNanosecond v \<Rightarrow>
                 if c = TimestampNanosecondTzToDateTimeOffset
                 then mssql_datetimeoffset_from_arrow_timestamp_nanosecond db m row v timezone
                        (rm_nanosecond_policy rm)
                 else mismatch
             | _ \<Rightarrow> mismatch)))"

subsection \<open>Fixed offsets\<close>

lemma utf8_bytes_Cons: "utf8_bytes (c # s) = utf8_char c @ utf8_bytes s"
  by (simp add: utf8_bytes_def)

lemma utf8_bytes_ascii: "\<forall>c \<in> set s. c < 128 \<Longrightarrow> utf8_bytes s = s"
  by (induction s) (simp_all add: utf8_bytes_def utf8_char_def)

lemma utf8_bytes_only_ascii: "\<forall>b \<in> set (utf8_bytes s). b < 128 \<Longrightarrow> utf8_bytes s = s"
proof (induction s)
  case (Cons c s)
  have "hd (utf8_char c) \<in> set (utf8_bytes (c # s))"
    by (simp add: utf8_bytes_Cons utf8_char_def)
  with Cons.prems have "hd (utf8_char c) < 128" by blast
  then have "c < 128" by (simp add: utf8_char_def split: if_splits)
  with Cons show ?case by (simp add: utf8_bytes_Cons utf8_char_def)
qed (simp add: utf8_bytes_def)

text \<open>The spellings of a fixed offset SQL Server can represent: a sign, two digits of hours, and
  two digits of minutes, directly after, after a colon, or left out.\<close>

definition two_digits :: "nat \<Rightarrow> nat \<Rightarrow> int" where
  "two_digits a b = int ((a - 48) * 10 + (b - 48))"

definition offset_spelling :: "rstr \<Rightarrow> int \<Rightarrow> bool" where
  "offset_spelling s off \<longleftrightarrow>
     (\<exists>sign h1 h2 m1 m2.
        (sign = 43 \<or> sign = 45)
      \<and> is_ascii_digit h1 \<and> is_ascii_digit h2 \<and> is_ascii_digit m1 \<and> is_ascii_digit m2
      \<and> (s = [sign, h1, h2, 58, m1, m2] \<or> s = [sign, h1, h2, m1, m2]
          \<or> (s = [sign, h1, h2] \<and> m1 = 48 \<and> m2 = 48))
      \<and> (let hours = two_digits h1 h2; minutes = two_digits m1 m2 in
           minutes < 60 \<and> hours * 60 + minutes \<le> 14 * 60
         \<and> off = (if sign = 45 then - (hours * 60 + minutes) else hours * 60 + minutes)))"

definition starts_with_sign :: "rstr \<Rightarrow> bool" where
  "starts_with_sign s \<longleftrightarrow> s \<noteq> [] \<and> (hd s = 43 \<or> hd s = 45)"

lemma utf8_sign: "(utf8_bytes s \<noteq> [] \<and> (hd (utf8_bytes s) = 43 \<or> hd (utf8_bytes s) = 45)) \<longleftrightarrow> starts_with_sign s"
proof (cases s)
  case (Cons c t)
  have "hd (utf8_char c @ utf8_bytes t) = 43 \<longleftrightarrow> c = 43" "hd (utf8_char c @ utf8_bytes t) = 45 \<longleftrightarrow> c = 45"
    by (auto simp: utf8_char_def split: if_splits)
  moreover have "utf8_char c \<noteq> []" by (simp add: utf8_char_def)
  ultimately show ?thesis by (simp add: Cons utf8_bytes_Cons starts_with_sign_def)
qed (simp add: utf8_bytes_def starts_with_sign_def)

lemma offset_digits:
  assumes "is_ascii_digit h1" "is_ascii_digit h2" "is_ascii_digit m1" "is_ascii_digit m2"
  shows "Option.bind (checked_i16 (two_digits h1 h2 * 60)) (\<lambda>v. checked_i16 (v + two_digits m1 m2))
    = Some (two_digits h1 h2 * 60 + two_digits m1 m2)"
  using assms by (auto simp: is_ascii_digit_def checked_i16_def in_signed_def two_digits_def)

lemma parse_fixed_offset_digits:
  assumes sign: "utf8_bytes s \<noteq> []" "hd (utf8_bytes s) = 43 \<or> hd (utf8_bytes s) = 45"
    and digits: "(if length (utf8_bytes s) = 3 then Some [utf8_bytes s ! 1, utf8_bytes s ! 2, 48, 48]
      else if length (utf8_bytes s) = 5
      then Some [utf8_bytes s ! 1, utf8_bytes s ! 2, utf8_bytes s ! 3, utf8_bytes s ! 4]
      else if length (utf8_bytes s) = 6 \<and> utf8_bytes s ! 3 = 58
      then Some [utf8_bytes s ! 1, utf8_bytes s ! 2, utf8_bytes s ! 4, utf8_bytes s ! 5]
      else None) = Some [h1, h2, m1, m2]"
  shows "parse_sql_server_fixed_timezone_offset m row s =
    (let total = two_digits h1 h2 * 60 + two_digits m1 m2 in
     if list_all is_ascii_digit [h1, h2, m1, m2] \<and> two_digits m1 m2 < 60 \<and> total \<le> 14 * 60
     then Some (Ok (if hd (utf8_bytes s) = 45 then - total else total))
     else Some (Err (conversion_error m row TimezoneUnsupported)))"
proof -
  have cond: "\<not> (utf8_bytes s \<noteq> [] \<and> (hd (utf8_bytes s) = 43 \<or> hd (utf8_bytes s) = 45)) \<longleftrightarrow> False"
    using sign by blast
  show ?thesis
  proof (cases "list_all is_ascii_digit [h1, h2, m1, m2]")
    case True
    then have all: "list_ex (\<lambda>d. \<not> is_ascii_digit d) [h1, h2, m1, m2] \<longleftrightarrow> False" by simp
    have bind: "Option.bind (checked_i16 (two_digits h1 h2 * 60))
        (\<lambda>v. checked_i16 (v + two_digits m1 m2)) = Some (two_digits h1 h2 * 60 + two_digits m1 m2)"
      using True offset_digits by simp
    show ?thesis using True
      unfolding parse_sql_server_fixed_timezone_offset_def Let_def cond digits
      by (simp only: if_False option.case all nth_Cons_0 nth_Cons_Suc One_nat_def numeral_2_eq_2
          numeral_3_eq_3 two_digits_def [symmetric] bind
          SQL_SERVER_DATETIMEOFFSET_MAX_OFFSET_MINUTES_def simp_thms) auto
  next
    case False
    then have ex: "list_ex (\<lambda>d. \<not> is_ascii_digit d) [h1, h2, m1, m2] \<longleftrightarrow> True" by simp
    from False show ?thesis
      unfolding parse_sql_server_fixed_timezone_offset_def Let_def cond digits
      by (simp only: if_False option.case ex if_True simp_thms)
  qed
qed

lemma length_cases:
  "length b = 3 \<longleftrightarrow> (\<exists>x0 x1 x2. b = [x0, x1, x2])"
  "length b = 5 \<longleftrightarrow> (\<exists>x0 x1 x2 x3 x4. b = [x0, x1, x2, x3, x4])"
  "length b = 6 \<longleftrightarrow> (\<exists>x0 x1 x2 x3 x4 x5. b = [x0, x1, x2, x3, x4, x5])"
  by (auto simp: length_Suc_conv numeral_eq_Suc)

lemma parse_fixed_offset_None:
  "parse_sql_server_fixed_timezone_offset m row s = None \<longleftrightarrow> \<not> starts_with_sign s"
  unfolding utf8_sign [symmetric]
  by (auto simp: parse_sql_server_fixed_timezone_offset_def Let_def split: option.splits)

lemma ascii_digit_less: "is_ascii_digit d \<Longrightarrow> d < 128"
  by (simp add: is_ascii_digit_def)

lemma parse_fixed_offset_complete:
  assumes "offset_spelling s off"
  shows "parse_sql_server_fixed_timezone_offset m row s = Some (Ok off)"
proof -
  from assms obtain sign h1 h2 m1 m2 where sign: "sign = 43 \<or> sign = 45"
    and digits: "is_ascii_digit h1" "is_ascii_digit h2" "is_ascii_digit m1" "is_ascii_digit m2"
    and form: "s = [sign, h1, h2, 58, m1, m2] \<or> s = [sign, h1, h2, m1, m2]
          \<or> (s = [sign, h1, h2] \<and> m1 = 48 \<and> m2 = 48)"
    and off: "two_digits m1 m2 < 60" "two_digits h1 h2 * 60 + two_digits m1 m2 \<le> 14 * 60"
      "off = (if sign = 45 then - (two_digits h1 h2 * 60 + two_digits m1 m2)
              else two_digits h1 h2 * 60 + two_digits m1 m2)"
    unfolding offset_spelling_def Let_def by blast
  have "\<forall>c \<in> set s. c < 128" using form sign digits [THEN ascii_digit_less] by auto
  then have b: "utf8_bytes s = s" by (rule utf8_bytes_ascii)
  have hd: "s \<noteq> []" "hd s = sign" using form by auto
  have ds: "(if length s = 3 then Some [s ! 1, s ! 2, 48, 48]
      else if length s = 5 then Some [s ! 1, s ! 2, s ! 3, s ! 4]
      else if length s = 6 \<and> s ! 3 = 58 then Some [s ! 1, s ! 2, s ! 4, s ! 5]
      else None) = Some [h1, h2, m1, m2]"
    using form by auto
  note parse = parse_fixed_offset_digits [of s h1 h2 m1 m2 m row, unfolded b Let_def,
      OF hd(1) _ ds, unfolded hd(2), OF sign]
  show ?thesis using digits off(1,2) unfolding parse off(3) by simp
qed

lemma parse_fixed_offset_sound:
  assumes "starts_with_sign s"
  shows "(\<exists>off. parse_sql_server_fixed_timezone_offset m row s = Some (Ok off) \<and> offset_spelling s off)
    \<or> parse_sql_server_fixed_timezone_offset m row s = Some (Err (conversion_error m row TimezoneUnsupported))"
proof -
  define b where "b = utf8_bytes s"
  have sign: "b \<noteq> []" "hd b = 43 \<or> hd b = 45" using assms utf8_sign by (auto simp: b_def)
  let ?digits = "if length b = 3 then Some [b ! 1, b ! 2, 48, 48]
      else if length b = 5 then Some [b ! 1, b ! 2, b ! 3, b ! 4]
      else if length b = 6 \<and> b ! 3 = 58 then Some [b ! 1, b ! 2, b ! 4, b ! 5]
      else None"
  show ?thesis
  proof (cases ?digits)
    case None
    with sign have "parse_sql_server_fixed_timezone_offset m row s
        = Some (Err (conversion_error m row TimezoneUnsupported))"
      unfolding b_def parse_sql_server_fixed_timezone_offset_def Let_def by (simp only: option.case) simp
    then show ?thesis by blast
  next
    case (Some ds)
    then obtain h1 h2 m1 m2 where ds: "ds = [h1, h2, m1, m2]" by (auto split: if_splits)
    define total where "total = two_digits h1 h2 * 60 + two_digits m1 m2"
    note parse = parse_fixed_offset_digits [of s h1 h2 m1 m2 m row, folded b_def total_def,
        OF sign Some [unfolded ds], unfolded Let_def]
    show ?thesis
    proof (cases "list_all is_ascii_digit [h1, h2, m1, m2] \<and> two_digits m1 m2 < 60 \<and> total \<le> 14 * 60")
      case True
      then have digit: "is_ascii_digit h1" "is_ascii_digit h2" "is_ascii_digit m1" "is_ascii_digit m2"
        by simp_all
      obtain sg where sg: "hd b = sg" by blast
      have form: "b = [sg, h1, h2, 58, m1, m2] \<or> b = [sg, h1, h2, m1, m2]
          \<or> (b = [sg, h1, h2] \<and> m1 = 48 \<and> m2 = 48)"
        using Some [unfolded ds] sg by (auto simp: length_cases split: if_splits)
      moreover have "sg < 128" using sign(2) sg by auto
      ultimately have "\<forall>c \<in> set b. c < 128" using digit [THEN ascii_digit_less] by auto
      then have "s = b" using utf8_bytes_only_ascii unfolding b_def by metis
      with form sign(2) [unfolded sg] digit True have "offset_spelling s (if sg = 45 then - total else total)"
        unfolding offset_spelling_def Let_def total_def by blast
      with parse True sg show ?thesis by auto
    next
      case False
      with parse show ?thesis by auto
    qed
  qed
qed

text \<open>fixed_offset_parse: the parser of fixed timezone offsets accepts exactly the offsets SQL
  Server can represent: a sign, two-digit hours and optional two-digit minutes with or without a
  colon, minutes below 60 and at most 14 hours in all, with the value they spell. Other text
  that starts with a sign is an unsupported-timezone error; text that does not is left to the
  timezone database.\<close>

theorem fixed_offset_parse:
  "(\<forall>off. parse_sql_server_fixed_timezone_offset m row s = Some (Ok off) \<longleftrightarrow> offset_spelling s off)
   \<and> (\<forall>e. parse_sql_server_fixed_timezone_offset m row s = Some (Err e) \<longleftrightarrow>
        starts_with_sign s \<and> (\<nexists>off. offset_spelling s off)
        \<and> e = conversion_error m row TimezoneUnsupported)
   \<and> (parse_sql_server_fixed_timezone_offset m row s = None \<longleftrightarrow> \<not> starts_with_sign s)"
proof (cases "starts_with_sign s")
  case True
  then have some: "parse_sql_server_fixed_timezone_offset m row s \<noteq> None"
    by (simp add: parse_fixed_offset_None)
  have ok: "parse_sql_server_fixed_timezone_offset m row s = Some (Ok off) \<longleftrightarrow> offset_spelling s off" for off
    using parse_fixed_offset_sound [OF True, of m row]
  proof (elim disjE exE conjE)
    fix off'
    assume "parse_sql_server_fixed_timezone_offset m row s = Some (Ok off')" "offset_spelling s off'"
    then show ?thesis
      using parse_fixed_offset_complete [of s off m row] by (metis option.inject sum.inject(2))
  next
    assume "parse_sql_server_fixed_timezone_offset m row s
        = Some (Err (conversion_error m row TimezoneUnsupported))"
    then show ?thesis
      using parse_fixed_offset_complete [of s off m row] by (metis option.inject sum.distinct(1))
  qed
  have err: "parse_sql_server_fixed_timezone_offset m row s = Some (Err e) \<longleftrightarrow>
      (\<nexists>off. offset_spelling s off) \<and> e = conversion_error m row TimezoneUnsupported" for e
    using parse_fixed_offset_sound [OF True, of m row]
  proof (elim disjE exE conjE)
    fix off
    assume "parse_sql_server_fixed_timezone_offset m row s = Some (Ok off)" "offset_spelling s off"
    then show ?thesis by auto
  next
    assume "parse_sql_server_fixed_timezone_offset m row s
        = Some (Err (conversion_error m row TimezoneUnsupported))"
    with ok show ?thesis by (metis option.inject sum.distinct(1) sum.inject(1))
  qed
  show ?thesis using True by (intro conjI allI ok) (simp_all add: err some)
next
  case False
  then have none: "parse_sql_server_fixed_timezone_offset m row s = None"
    by (simp add: parse_fixed_offset_None)
  have "\<not> offset_spelling s off" for off
    using parse_fixed_offset_complete [of s off m row] none by auto
  with False none show ?thesis by auto
qed

subsection \<open>Offsets and instants\<close>

lemma offset_spelling_bound: "offset_spelling s off \<Longrightarrow> \<bar>off\<bar> \<le> 840"
  by (auto simp: offset_spelling_def Let_def two_digits_def split: if_splits)

lemma trunc_div_60:
  assumes "trunc_rem x 60 = 0"
  shows "trunc_div x 60 * 60 = x"
  using assms by (simp add: trunc_rem_def)

lemma resolution_fixed:
  assumes "timezone_resolution_from_metadata db m row tz = Ok (FixedOffset off)"
  shows "off = 0 \<or> offset_spelling tz off"
proof (cases "eq_ignore_ascii_case tz (lit ''Z'') \<or> eq_ignore_ascii_case tz (lit ''UTC'')")
  case True
  with assms show ?thesis by (simp add: timezone_resolution_from_metadata_def)
next
  case False
  with assms have "parse_sql_server_fixed_timezone_offset m row tz = Some (Ok off)"
    by (auto simp: timezone_resolution_from_metadata_def result_simps split: option.splits)
  moreover from this have "starts_with_sign tz" by (metis option.distinct(1) parse_fixed_offset_None)
  ultimately show ?thesis using parse_fixed_offset_sound [of tz m row] by auto
qed

text \<open>What the resolved offset of a column is at an instant.\<close>

definition offset_at ::
    "'tz timezone_db \<Rightarrow> 'tz timezone_resolution \<Rightarrow> int \<Rightarrow> nat \<Rightarrow> int \<Rightarrow> bool" where
  "offset_at db resolution seconds nanoseconds minutes \<longleftrightarrow>
     (case resolution of
        FixedOffset off \<Rightarrow> minutes = off
      | NamedZone tz \<Rightarrow> tz_offset_at db tz seconds nanoseconds = Some (60 * minutes))"

lemma offset_for_instant_Ok:
  assumes "timezone_resolution_from_metadata db m row tz = Ok resolution"
    and "offset_for_instant db resolution m row seconds nanoseconds = Ok off"
  shows "offset_at db resolution seconds nanoseconds off \<and> \<bar>off\<bar> \<le> 840"
proof (cases resolution)
  case (FixedOffset off')
  with assms resolution_fixed [of db m row tz off'] offset_spelling_bound show ?thesis
    by (auto simp: offset_for_instant_def offset_at_def)
next
  case (NamedZone z)
  with assms(2) obtain secs where secs: "tz_offset_at db z seconds nanoseconds = Some secs"
    "trunc_rem secs 60 = 0" "off = trunc_div secs 60" "\<bar>off\<bar> \<le> 840"
    by (auto simp: offset_for_instant_def result_simps sql_server_offset_minutes_def checked_i16_def
        SQL_SERVER_DATETIMEOFFSET_MAX_OFFSET_MINUTES_def split: if_splits)
  with trunc_div_60 [OF secs(2)] NamedZone show ?thesis by (simp add: offset_at_def mult.commute)
qed

lemma datetime2_full_precision:
  assumes "\<bar>ticks\<bar> \<le> 10 ^ 30"
  shows "if - 719162 * 864000000000 \<le> ticks \<and> ticks < (3652059 - 719162) * 864000000000
    then \<exists>c. mssql_datetime2_from_unix_epoch_100ns_ticks m row ticks = Ok c
      \<and> valid_datetime2 c \<and> time_scale (datetime2_time c) = 7 \<and> datetime2_ticks c = ticks
    else mssql_datetime2_from_unix_epoch_100ns_ticks m row ticks
      = Err (conversion_error m row TimestampOutOfRange)"
proof -
  have f: "ticks_per_datetime2_increment 7 = 1"
    by (simp add: ticks_per_datetime2_increment_def time_constants)
  have range: "instant_range ticks" using assms by (simp add: instant_range_def)
  have seven: "unat (7 :: u8) \<le> 7" by simp
  show ?thesis
    using datetime2_accepted [OF seven range, of m row, unfolded f] datetime2_at_scale [OF seven range, of m row, unfolded f]
    unfolding mssql_datetime2_from_unix_epoch_100ns_ticks_def SQL_SERVER_DATETIME2_TIMESTAMP_SCALE_def
    by (simp only: mult_1 round_half_up_one) auto
qed

lemma datetimeoffset_spec:
  assumes "\<bar>utc\<bar> \<le> 10 ^ 29" "\<bar>off\<bar> \<le> 840"
  defines "in_years \<equiv> \<lambda>ticks. - 719162 * 864000000000 \<le> ticks
    \<and> ticks < (3652059 - 719162) * (864000000000 :: int)"
  shows "if in_years utc \<and> in_years (utc + off * 600000000)
    then \<exists>c. mssql_datetimeoffset_from_utc_100ns_ticks m row utc off = Ok c
      \<and> valid_datetime2 (dto_datetime2 c) \<and> time_scale (datetime2_time (dto_datetime2 c)) = 7
      \<and> datetime2_ticks (dto_datetime2 c) = utc \<and> sint (dto_offset_minutes c) = off
    else mssql_datetimeoffset_from_utc_100ns_ticks m row utc off
      = Err (conversion_error m row TimestampOutOfRange)"
proof -
  let ?local = "utc + off * 600000000"
  have loc: "\<bar>?local\<bar> \<le> 10 ^ 30" using assms(1,2) by (simp add: abs_le_iff)
  then have checked: "checked_i128 ?local = Some ?local"
    by (simp add: checked_i128_def in_signed_def abs_le_iff)
  have utc: "\<bar>utc\<bar> \<le> 10 ^ 30" using assms(1) by simp
  have off: "sint (word_of_int off :: i16) = off"
    using assms(2) by (intro sint_word_of_int_fits) (simp add: in_signed_def abs_le_iff)
  have step: "mssql_datetimeoffset_from_utc_100ns_ticks m row utc off =
      and_then (validate_datetimeoffset_local_range m row ?local) (\<lambda>_.
      and_then (mssql_datetime2_from_unix_epoch_100ns_ticks m row utc) (\<lambda>c.
        Ok \<lparr>dto_datetime2 = c, dto_offset_minutes = word_of_int off\<rparr>))"
  proof -
    have "off * 60 * TICKS_100NS_PER_SECOND = off * 600000000" by (simp add: time_constants)
    then show ?thesis
      unfolding mssql_datetimeoffset_from_utc_100ns_ticks_def Let_def
      by (simp only: checked ok_or_simps and_then_simps cell_new_defs)
  qed
  show ?thesis
    using datetime2_full_precision [OF loc, of m row, folded in_years_def]
      datetime2_full_precision [OF utc, of m row, folded in_years_def]
    unfolding step validate_datetimeoffset_local_range_def
    by (cases "in_years ?local"; cases "in_years utc") (auto simp: off in_years_def)
qed

text \<open>C22: a \<^verbatim>\<open>datetimeoffset\<close> is stored exactly as its UTC instant
  and offset. It is accepted exactly when both the UTC instant and the local time the offset
  shows lie in the years 1 to 9999, because SQL Server refuses a local time outside; the
  addition of the offset never overflows.\<close>

theorem datetimeoffset_range_contract:
  assumes "\<bar>utc\<bar> \<le> 10 ^ 29" "\<bar>off\<bar> \<le> 840"
  shows "let lo = (days_before_year 1 - days_before_year 1970) * 864000000000;
             hi = (days_before_year 10000 - days_before_year 1970) * 864000000000;
             loc = utc + off * 600000000 in
    if lo \<le> utc \<and> utc < hi \<and> lo \<le> loc \<and> loc < hi
    then \<exists>c. mssql_datetimeoffset_from_utc_100ns_ticks m row utc off = Ok c
      \<and> valid_datetime2 (dto_datetime2 c) \<and> datetime2_ticks (dto_datetime2 c) = utc
      \<and> sint (dto_offset_minutes c) = off
    else mssql_datetimeoffset_from_utc_100ns_ticks m row utc off
      = Err (conversion_error m row TimestampOutOfRange)"
proof -
  have dby: "days_before_year 1 - days_before_year 1970 = - 719162"
    "days_before_year 10000 - days_before_year 1970 = 3652059 - 719162"
    by (simp_all add: days_before_year_def)
  show ?thesis
    using datetimeoffset_spec [OF assms, of m row] unfolding Let_def dby by (auto split: if_splits)
qed

theorem datetimeoffset_range_contract_witness:
  "mssql_datetimeoffset_from_utc_100ns_ticks
     (example_mapping (DtTimestamp Second (Some (lit ''+01:00''))) (MsDateTimeOffset 7)) 0
     (2932897 * 864000000000 - 1) 60
   = Err (conversion_error
       (example_mapping (DtTimestamp Second (Some (lit ''+01:00''))) (MsDateTimeOffset 7)) 0
       TimestampOutOfRange)"
  using datetimeoffset_range_contract [of "2932897 * 864000000000 - 1" 60
      "example_mapping (DtTimestamp Second (Some (lit ''+01:00''))) (MsDateTimeOffset 7)" 0]
  by (simp add: days_before_year_def)

subsection \<open>From the Arrow value to the stored instant\<close>

definition arrow_timestamp_nanoseconds :: "arrow_cell \<Rightarrow> int option" where
  "arrow_timestamp_nanoseconds cell =
     (case cell of
        CellTimestampSecond v \<Rightarrow> Some (sint v * 10 ^ 9)
      | CellTimestampMillisecond v \<Rightarrow> Some (sint v * 10 ^ 6)
      | CellTimestampMicrosecond v \<Rightarrow> Some (sint v * 10 ^ 3)
      | CellTimestampNanosecond v \<Rightarrow> Some (sint v)
      | _ \<Rightarrow> None)"

text \<open>The seconds and nanoseconds the timezone is asked about are those of the instant.\<close>

lemma epoch_parts_Ok:
  assumes "0 \<le> n" "n < 1000000000"
  shows "epoch_parts m row s n = Ok (s, nat n)"
proof -
  have fits: "in_unsigned LENGTH(32) n" using assms by (simp add: in_unsigned_def)
  then have "unat (word_of_int n :: u32) = nat n"
    using uint_word_of_int_fits [of n, where 'w = 32] by (simp only: unat_eq_nat_uint)
  then show ?thesis using fits unfolding epoch_parts_def try_unsigned_def
    by (simp only: if_True ok_or_simps and_then_simps)
qed

lemma scaled_div_mod:
  assumes "0 < k" "k * d = (1000000000 :: int)" "0 < d"
  shows "v * k div 1000000000 = v div d" and "v * k mod 1000000000 = v mod d * k"
proof -
  have "k * v div (k * d) = v div d" using assms(1) by simp
  then show "v * k div 1000000000 = v div d" unfolding assms(2) by (simp only: mult.commute)
  have "k * v mod (k * d) = k * (v mod d)" by (rule mult_mod_right [symmetric])
  then show "v * k mod 1000000000 = v mod d * k" unfolding assms(2) by (simp only: mult.commute)
qed

lemma epoch_parts_instant:
  "epoch_parts_from_milliseconds m row v
     = Ok (sint v * 10 ^ 6 div 10 ^ 9, nat (sint v * 10 ^ 6 mod 10 ^ 9))"
  "epoch_parts_from_microseconds m row v
     = Ok (sint v * 10 ^ 3 div 10 ^ 9, nat (sint v * 10 ^ 3 mod 10 ^ 9))"
  "epoch_parts_from_nanoseconds m row v = Ok (sint v div 10 ^ 9, nat (sint v mod 10 ^ 9))"
proof -
  have "0 \<le> sint v mod 1000" "sint v mod 1000 < 1000" by simp_all
  then show "epoch_parts_from_milliseconds m row v
     = Ok (sint v * 10 ^ 6 div 10 ^ 9, nat (sint v * 10 ^ 6 mod 10 ^ 9))"
    using scaled_div_mod [of 1000000 1000 "sint v"]
    by (simp add: epoch_parts_from_milliseconds_def epoch_parts_Ok)
  have "0 \<le> sint v mod 1000000" "sint v mod 1000000 < 1000000" by simp_all
  then show "epoch_parts_from_microseconds m row v
     = Ok (sint v * 10 ^ 3 div 10 ^ 9, nat (sint v * 10 ^ 3 mod 10 ^ 9))"
    using scaled_div_mod [of 1000 1000000 "sint v"]
    by (simp add: epoch_parts_from_microseconds_def epoch_parts_Ok)
  show "epoch_parts_from_nanoseconds m row v = Ok (sint v div 10 ^ 9, nat (sint v mod 10 ^ 9))"
    by (simp add: epoch_parts_from_nanoseconds_def epoch_parts_Ok)
qed

text \<open>The common tail of the four conversions.\<close>

lemma datetimeoffset_of_instant:
  assumes "and_then (timezone_resolution_from_metadata db m row tz) (\<lambda>resolution.
      and_then (offset_for_instant db resolution m row s n) (\<lambda>off.
        mssql_datetimeoffset_from_utc_100ns_ticks m row utc off)) = Ok c"
    and "\<bar>utc\<bar> \<le> 10 ^ 29"
  shows "datetime2_ticks (dto_datetime2 c) = utc \<and> \<bar>sint (dto_offset_minutes c)\<bar> \<le> 840
    \<and> (\<exists>resolution. timezone_resolution_from_metadata db m row tz = Ok resolution
        \<and> offset_at db resolution s n (sint (dto_offset_minutes c)))"
proof -
  from assms(1) obtain resolution off where
    res: "timezone_resolution_from_metadata db m row tz = Ok resolution"
    and off: "offset_for_instant db resolution m row s n = Ok off"
    and c: "mssql_datetimeoffset_from_utc_100ns_ticks m row utc off = Ok c"
    by (auto simp: result_simps)
  from offset_for_instant_Ok [OF res off] have "offset_at db resolution s n off" "\<bar>off\<bar> \<le> 840" by simp_all
  moreover from datetimeoffset_spec [OF assms(2) this(2), of m row] c
  have "datetime2_ticks (dto_datetime2 c) = utc" "sint (dto_offset_minutes c) = off"
    by (auto split: if_splits)
  ultimately show ?thesis using res by auto
qed

lemma timestamp_ticks_range:
  "k \<le> 10000000 \<Longrightarrow> 0 \<le> k \<Longrightarrow> \<bar>sint (v :: i64) * k\<bar> \<le> 10 ^ 29"
proof -
  assume k: "k \<le> 10000000" "0 \<le> k"
  have "\<bar>sint v * k\<bar> \<le> 9223372036854775808 * 10000000"
    unfolding abs_mult using i64_bounds [of v] k by (intro mult_mono) (auto simp: abs_le_iff)
  then show ?thesis by simp
qed

lemma nanosecond_ticks_Ok:
  assumes "nanoseconds_to_100ns_ticks m row v policy = Ok ticks"
  shows "nanosecond_policy_relation policy (sint v) ticks" "\<bar>ticks\<bar> \<le> 10 ^ 29"
proof -
  show rel: "nanosecond_policy_relation policy (sint v) ticks"
    using assms policy_relation_div [of "sint v"] nanosecond_ticks_i64 [of v]
    by (auto simp: nanoseconds_to_100ns_ticks_def time_constants Let_def checked_i64_def
        split: nanosecond_policy.splits if_splits)
  then have "100 * \<bar>ticks\<bar> \<le> \<bar>sint v\<bar> + 100"
    by (auto simp: nanosecond_policy_relation_def split: nanosecond_policy.splits)
  moreover have "\<bar>sint v\<bar> \<le> 9223372036854775808" using i64_bounds [of v] by (simp add: abs_le_iff)
  ultimately have "\<bar>ticks\<bar> \<le> 9223372036854775808" by linarith
  then show "\<bar>ticks\<bar> \<le> 10 ^ 29" by simp
qed

text \<open>C21: a timezone-aware timestamp is stored as the same UTC
  instant with the offset its zone has then. For second, millisecond and microsecond values the
  cell's UTC instant is the source exactly, for nanoseconds up to the policy; its offset is the
  fixed offset of the column, or what the timezone database gives for the zone at exactly that
  instant, in whole minutes and at most 14 hours.\<close>

theorem datetimeoffset_instant_contract:
  assumes "mssql_datetimeoffset_value db rm row cell = Ok c"
  shows "\<exists>ns tz resolution. arrow_timestamp_nanoseconds cell = Some ns
    \<and> timestamp_timezone (rm_mapping rm) = Some tz
    \<and> timezone_resolution_from_metadata db (rm_mapping rm) row tz = Ok resolution
    \<and> offset_at db resolution (ns div 10 ^ 9) (nat (ns mod 10 ^ 9)) (sint (dto_offset_minutes c))
    \<and> \<bar>sint (dto_offset_minutes c)\<bar> \<le> 14 * 60
    \<and> (case cell of
         CellTimestampNanosecond _ \<Rightarrow>
           nanosecond_policy_relation (rm_nanosecond_policy rm) ns (datetime2_ticks (dto_datetime2 c))
       | _ \<Rightarrow> datetime2_ticks (dto_datetime2 c) * 100 = ns)"
proof -
  let ?m = "rm_mapping rm"
  from assms obtain cls tz where tz: "timestamp_timezone ?m = Some tz"
    and cls: "temporal_classify ?m row = Ok cls"
    by (auto simp: mssql_datetimeoffset_value_def Let_def result_simps split: option.splits)
  show ?thesis
  proof (cases cell)
    case (CellTimestampSecond v)
    with assms tz cls have "mssql_datetimeoffset_from_arrow_timestamp_second db ?m row v tz = Ok c"
      by (auto simp: mssql_datetimeoffset_value_def Let_def split: if_splits)
    then have "and_then (timezone_resolution_from_metadata db ?m row tz) (\<lambda>resolution.
      and_then (offset_for_instant db resolution ?m row (sint v) 0) (\<lambda>off.
        mssql_datetimeoffset_from_utc_100ns_ticks ?m row (sint v * 10000000) off)) = Ok c"
      by (simp add: mssql_datetimeoffset_from_arrow_timestamp_second_def time_constants)
    from datetimeoffset_of_instant [OF this timestamp_ticks_range] CellTimestampSecond tz
    show ?thesis by (auto simp: arrow_timestamp_nanoseconds_def)
  next
    case (CellTimestampMillisecond v)
    with assms tz cls have "mssql_datetimeoffset_from_arrow_timestamp_millisecond db ?m row v tz = Ok c"
      by (auto simp: mssql_datetimeoffset_value_def Let_def split: if_splits)
    then have "and_then (timezone_resolution_from_metadata db ?m row tz) (\<lambda>resolution.
      and_then (offset_for_instant db resolution ?m row (sint v * 10 ^ 6 div 10 ^ 9)
          (nat (sint v * 10 ^ 6 mod 10 ^ 9))) (\<lambda>off.
        mssql_datetimeoffset_from_utc_100ns_ticks ?m row (sint v * 10000) off)) = Ok c"
      unfolding mssql_datetimeoffset_from_arrow_timestamp_millisecond_def epoch_parts_instant
        time_constants by (simp only: and_then_simps prod.case)
    from datetimeoffset_of_instant [OF this timestamp_ticks_range] CellTimestampMillisecond tz
    show ?thesis by (auto simp: arrow_timestamp_nanoseconds_def)
  next
    case (CellTimestampMicrosecond v)
    with assms tz cls have "mssql_datetimeoffset_from_arrow_timestamp_microsecond db ?m row v tz = Ok c"
      by (auto simp: mssql_datetimeoffset_value_def Let_def split: if_splits)
    then have "and_then (timezone_resolution_from_metadata db ?m row tz) (\<lambda>resolution.
      and_then (offset_for_instant db resolution ?m row (sint v * 10 ^ 3 div 10 ^ 9)
          (nat (sint v * 10 ^ 3 mod 10 ^ 9))) (\<lambda>off.
        mssql_datetimeoffset_from_utc_100ns_ticks ?m row (sint v * 10) off)) = Ok c"
      unfolding mssql_datetimeoffset_from_arrow_timestamp_microsecond_def epoch_parts_instant
        time_constants by (simp only: and_then_simps prod.case)
    from datetimeoffset_of_instant [OF this timestamp_ticks_range] CellTimestampMicrosecond tz
    show ?thesis by (auto simp: arrow_timestamp_nanoseconds_def)
  next
    case (CellTimestampNanosecond v)
    with assms tz cls have conv: "mssql_datetimeoffset_from_arrow_timestamp_nanosecond db ?m row v tz
        (rm_nanosecond_policy rm) = Ok c"
      by (auto simp: mssql_datetimeoffset_value_def Let_def split: if_splits)
    then obtain ticks where ticks: "nanoseconds_to_100ns_ticks ?m row v (rm_nanosecond_policy rm) = Ok ticks"
      by (auto simp: mssql_datetimeoffset_from_arrow_timestamp_nanosecond_def result_simps)
    from conv have "and_then (timezone_resolution_from_metadata db ?m row tz) (\<lambda>resolution.
      and_then (offset_for_instant db resolution ?m row (sint v div 10 ^ 9)
          (nat (sint v mod 10 ^ 9))) (\<lambda>off.
        mssql_datetimeoffset_from_utc_100ns_ticks ?m row ticks off)) = Ok c"
      unfolding mssql_datetimeoffset_from_arrow_timestamp_nanosecond_def epoch_parts_instant ticks
      by (simp only: and_then_simps prod.case)
    from datetimeoffset_of_instant [OF this nanosecond_ticks_Ok(2) [OF ticks]]
      nanosecond_ticks_Ok(1) [OF ticks] CellTimestampNanosecond tz
    show ?thesis by (auto simp: arrow_timestamp_nanoseconds_def)
  qed (use assms tz cls in \<open>auto simp: mssql_datetimeoffset_value_def Let_def\<close>)
qed

text \<open>A database with one zone whose offset changes at the epoch.\<close>

definition example_timezone_db :: "unit timezone_db" where
  "example_timezone_db =
     \<lparr>tz_parse = \<lambda>s. if s = lit ''Europe/X'' then Some () else None,
      tz_offset_at = \<lambda>_ seconds _. Some (if seconds < 0 then 3600 else 7200)\<rparr>"

theorem datetimeoffset_instant_contract_witness:
  "let rm = example_runtime (DtTimestamp Millisecond (Some (lit ''Europe/X''))) (MsDateTimeOffset 7)
              RejectNon100ns in
   \<exists>c. mssql_datetimeoffset_value example_timezone_db rm 0 (CellTimestampMillisecond (- 1)) = Ok c
     \<and> datetime2_ticks (dto_datetime2 c) = - 10000 \<and> sint (dto_offset_minutes c) = 60"
proof -
  let ?tz = "lit ''Europe/X''"
  let ?rm = "example_runtime (DtTimestamp Millisecond (Some ?tz)) (MsDateTimeOffset 7) RejectNon100ns"
  let ?m = "rm_mapping ?rm"
  have res: "timezone_resolution_from_metadata example_timezone_db ?m 0 ?tz = Ok (NamedZone ())"
    by (simp add: timezone_resolution_from_metadata_def eq_ignore_ascii_case_def lit_def ascii_lower_def
        parse_sql_server_fixed_timezone_offset_def utf8_bytes_def utf8_char_def example_timezone_db_def)
  have off: "offset_for_instant example_timezone_db (NamedZone ()) ?m 0 (- 1) 999000000 = Ok 60"
    by (simp add: offset_for_instant_def example_timezone_db_def sql_server_offset_minutes_def
        trunc_rem_def trunc_div_def checked_i16_def in_signed_def
        SQL_SERVER_DATETIMEOFFSET_MAX_OFFSET_MINUTES_def)
  have parts: "epoch_parts_from_milliseconds ?m 0 (- 1) = Ok (- 1, 999000000)"
    by (simp add: epoch_parts_from_milliseconds_def epoch_parts_Ok)
  obtain c where utc: "mssql_datetimeoffset_from_utc_100ns_ticks ?m 0 (- 10000) 60 = Ok c"
    using datetimeoffset_spec [of "- 10000" 60 ?m 0] by auto
  have "mssql_datetimeoffset_from_arrow_timestamp_millisecond example_timezone_db ?m 0 (- 1) ?tz = Ok c"
    unfolding mssql_datetimeoffset_from_arrow_timestamp_millisecond_def parts
    using res off utc by (simp add: time_constants)
  then have c: "mssql_datetimeoffset_value example_timezone_db ?rm 0 (CellTimestampMillisecond (- 1)) = Ok c"
    by (simp add: mssql_datetimeoffset_value_def temporal_classify_def timestamp_timezone_def
        is_timezone_free_def lit_def Let_def)
  from datetimeoffset_instant_contract [OF c] res
  have "datetime2_ticks (dto_datetime2 c) * 100 = - 1000000"
    and "offset_at example_timezone_db (NamedZone ()) (- 1) 999000000 (sint (dto_offset_minutes c))"
    by (auto simp: arrow_timestamp_nanoseconds_def timestamp_timezone_def)
  with c show ?thesis by (simp add: offset_at_def example_timezone_db_def)
qed

end
