(* ===== verification/CellConversion.thy ===== *)
theory CellConversion
  imports ScalarConversion DateTimeOffsets DirectPlan
begin

text \<open>
  Conversion of one Arrow cell to one SQL Server cell: the dispatch of
  \<^verbatim>\<open>src/mssql/cell/from_arrow.rs\<close> and of \<^verbatim>\<open>src/mssql/cell/from_arrow/temporal.rs\<close>.
\<close>

subsection \<open>Timestamps\<close>

definition validate_timestamp_timezone_metadata ::
    "'tz timezone_db \<Rightarrow> schema_mapping \<Rightarrow> usize \<Rightarrow> rstr option \<Rightarrow> error + unit" where
  "validate_timestamp_timezone_metadata db m row timezone =
     (case timezone of
        None \<Rightarrow> Ok ()
      | Some tz \<Rightarrow>
          if tz = [] then Ok ()
          else map_ok (\<lambda>_. ()) (timezone_resolution_from_metadata db m row tz))"

definition validate_null_timestamp_timezone_metadata ::
    "'tz timezone_db \<Rightarrow> schema_mapping \<Rightarrow> usize \<Rightarrow> error + unit" where
  "validate_null_timestamp_timezone_metadata db m row =
     (case source_type m of
        DtTimestamp _ timezone \<Rightarrow> validate_timestamp_timezone_metadata db m row timezone
      | _ \<Rightarrow> Ok ())"

definition validate_mapping_timestamp_timezone_metadata ::
    "'tz timezone_db \<Rightarrow> schema_mapping \<Rightarrow> usize \<Rightarrow> error + unit" where
  "validate_mapping_timestamp_timezone_metadata db m row =
     (case source_type m of
        DtTimestamp _ timezone \<Rightarrow> validate_timestamp_timezone_metadata db m row timezone
      | _ \<Rightarrow> Ok ())"

definition datetime_mapping_kind :: "schema_mapping \<Rightarrow> usize \<Rightarrow> error + unit" where
  "datetime_mapping_kind m row =
     (case source_type m of
        DtTimestamp _ _ \<Rightarrow>
          if target_type m = MsDateTime then Ok ()
          else Err (conversion_error m row ValueConversionUnsupported)
      | _ \<Rightarrow> Err (conversion_error m row ValueConversionUnsupported))"

definition mssql_datetime_value ::
    "'tz timezone_db \<Rightarrow> runtime_mapping \<Rightarrow> usize \<Rightarrow> arrow_cell \<Rightarrow> error + mssql_datetime" where
  "mssql_datetime_value db rm row cell =
     (let m = rm_mapping rm; rounding = rm_datetime_rounding rm in
      and_then (datetime_mapping_kind m row) (\<lambda>_.
        case cell of
          CellTimestampSecond v \<Rightarrow>
            and_then (validate_mapping_timestamp_timezone_metadata db m row) (\<lambda>_.
              mssql_datetime_from_arrow_timestamp_second m row v rounding)
        | CellTimestampMillisecond v \<Rightarrow>
            and_then (validate_mapping_timestamp_timezone_metadata db m row) (\<lambda>_.
              mssql_datetime_from_arrow_timestamp_millisecond m row v rounding)
        | CellTimestampMicrosecond v \<Rightarrow>
            and_then (validate_mapping_timestamp_timezone_metadata db m row) (\<lambda>_.
              mssql_datetime_from_arrow_timestamp_microsecond m row v rounding)
        | CellTimestampNanosecond v \<Rightarrow>
            and_then (validate_mapping_timestamp_timezone_metadata db m row) (\<lambda>_.
              mssql_datetime_from_arrow_timestamp_nanosecond m row v (rm_nanosecond_policy rm) rounding)
        | _ \<Rightarrow> Err (conversion_error m row ValueTypeMismatch)))"

definition null_datetime_cell :: "'tz timezone_db \<Rightarrow> schema_mapping \<Rightarrow> usize \<Rightarrow> error + mssql_cell" where
  "null_datetime_cell db m row =
     and_then (datetime_mapping_kind m row) (\<lambda>_.
     and_then (validate_null_timestamp_timezone_metadata db m row) (\<lambda>_. Ok (CDateTime None)))"

datatype datetime2_kind = KindDate64 | KindTimestamp

definition datetime2_mapping_kind :: "schema_mapping \<Rightarrow> usize \<Rightarrow> error + datetime2_kind" where
  "datetime2_mapping_kind m row =
     (let unsupported = Err (conversion_error m row ValueConversionUnsupported) in
      case source_type m of
        DtDate64 \<Rightarrow> if target_type m = MsDateTime2 3 then Ok KindDate64 else unsupported
      | DtTimestamp _ _ \<Rightarrow>
          (case target_type m of
             MsDateTime2 precision \<Rightarrow>
               if precision \<le> SQL_SERVER_DATETIME2_TIMESTAMP_SCALE then Ok KindTimestamp else unsupported
           | _ \<Rightarrow> unsupported)
      | _ \<Rightarrow> unsupported)"

definition mssql_datetime2_value ::
    "'tz timezone_db \<Rightarrow> runtime_mapping \<Rightarrow> usize \<Rightarrow> arrow_cell \<Rightarrow> error + mssql_datetime2" where
  "mssql_datetime2_value db rm row cell =
     (let m = rm_mapping rm; mismatch = Err (conversion_error m row ValueTypeMismatch) in
      and_then (datetime2_mapping_kind m row) (\<lambda>kind.
        case kind of
          KindDate64 \<Rightarrow>
            (case cell of
               CellDate64 v \<Rightarrow> mssql_datetime2_from_arrow_date64 m row v
             | _ \<Rightarrow> mismatch)
        | KindTimestamp \<Rightarrow>
            (case cell of
               CellTimestampSecond v \<Rightarrow>
                 and_then (validate_mapping_timestamp_timezone_metadata db m row) (\<lambda>_.
                   mssql_datetime2_from_arrow_timestamp_second m row v)
             | CellTimestampMillisecond v \<Rightarrow>
                 and_then (validate_mapping_timestamp_timezone_metadata db m row) (\<lambda>_.
                   mssql_datetime2_from_arrow_timestamp_millisecond m row v)
             | CellTimestampMicrosecond v \<Rightarrow>
                 and_then (validate_mapping_timestamp_timezone_metadata db m row) (\<lambda>_.
                   mssql_datetime2_from_arrow_timestamp_microsecond m row v)
             | CellTimestampNanosecond v \<Rightarrow>
                 and_then (validate_mapping_timestamp_timezone_metadata db m row) (\<lambda>_.
                   mssql_datetime2_from_arrow_timestamp_nanosecond m row v (rm_nanosecond_policy rm))
             | _ \<Rightarrow> mismatch)))"

definition null_datetime2_cell :: "'tz timezone_db \<Rightarrow> schema_mapping \<Rightarrow> usize \<Rightarrow> error + mssql_cell" where
  "null_datetime2_cell db m row =
     and_then (datetime2_mapping_kind m row) (\<lambda>_.
     and_then (validate_null_timestamp_timezone_metadata db m row) (\<lambda>_. Ok (CDateTime2 None)))"

definition null_datetimeoffset_cell ::
    "'tz timezone_db \<Rightarrow> schema_mapping \<Rightarrow> usize \<Rightarrow> error + mssql_cell" where
  "null_datetimeoffset_cell db m row =
     and_then (temporal_classify m row) (\<lambda>c.
       if c \<in> {TimestampSecondTzToDateTimeOffset, TimestampMillisecondTzToDateTimeOffset,
               TimestampMicrosecondTzToDateTimeOffset, TimestampNanosecondTzToDateTimeOffset}
       then and_then (validate_null_timestamp_timezone_metadata db m row)
              (\<lambda>_. Ok (CDateTimeOffset None))
       else Err (conversion_error m row ValueConversionUnsupported))"

subsection \<open>The dispatch\<close>

definition null_mssql_cell :: "'tz timezone_db \<Rightarrow> schema_mapping \<Rightarrow> usize \<Rightarrow> error + mssql_cell" where
  "null_mssql_cell db m row =
     (case target_type m of
        MsBit \<Rightarrow> Ok (CBit None)
      | MsTinyInt \<Rightarrow> Ok (CTinyInt None)
      | MsSmallInt \<Rightarrow> Ok (CSmallInt None)
      | MsInt \<Rightarrow> Ok (CInt None)
      | MsBigInt \<Rightarrow> Ok (CBigInt None)
      | MsDecimal _ _ \<Rightarrow>
          if supports_null_decimal_cell m then Ok (CDecimal None)
          else Err (conversion_error m row ValueConversionUnsupported)
      | MsDate \<Rightarrow> Ok (CDate None)
      | MsTime _ \<Rightarrow> null_time_cell m row
      | MsDateTime \<Rightarrow> null_datetime_cell db m row
      | MsDateTime2 _ \<Rightarrow> null_datetime2_cell db m row
      | MsDateTimeOffset _ \<Rightarrow> null_datetimeoffset_cell db m row
      | MsReal \<Rightarrow> Ok (CReal None)
      | MsFloat _ \<Rightarrow> Ok (CFloat None)
      | MsNVarChar _ \<Rightarrow> Ok (CNVarChar None)
      | MsVarBinary _ \<Rightarrow> Ok (CVarBinary None)
      | MsBinary _ \<Rightarrow> Ok (CVarBinary None))"

definition mssql_cell_from_arrow_cell ::
    "'tz timezone_db \<Rightarrow> runtime_mapping \<Rightarrow> arrow_cell \<Rightarrow> usize \<Rightarrow> error + mssql_cell" where
  "mssql_cell_from_arrow_cell db rm cell row =
     (let m = rm_mapping rm in
      if cell = CellNull
      then (if \<not> column_nullable (mapping_mssql m)
            then Err (conversion_error m row NullInNonNullableColumn)
            else null_mssql_cell db m row)
      else
        (case target_type m of
           MsBit \<Rightarrow> primitive_mssql_cell m row cell
         | MsTinyInt \<Rightarrow> primitive_mssql_cell m row cell
         | MsSmallInt \<Rightarrow> primitive_mssql_cell m row cell
         | MsInt \<Rightarrow> primitive_mssql_cell m row cell
         | MsBigInt \<Rightarrow> primitive_mssql_cell m row cell
         | MsReal \<Rightarrow> primitive_mssql_cell m row cell
         | MsFloat _ \<Rightarrow> primitive_mssql_cell m row cell
         | MsDecimal _ _ \<Rightarrow> map_ok (\<lambda>v. CDecimal (Some v)) (mssql_decimal_value m row cell)
         | MsDate \<Rightarrow> map_ok (\<lambda>v. CDate (Some v)) (mssql_date_value m row cell)
         | MsTime _ \<Rightarrow> map_ok (\<lambda>v. CTime (Some v)) (mssql_time_value rm row cell)
         | MsDateTime \<Rightarrow> map_ok (\<lambda>v. CDateTime (Some v)) (mssql_datetime_value db rm row cell)
         | MsDateTime2 _ \<Rightarrow> map_ok (\<lambda>v. CDateTime2 (Some v)) (mssql_datetime2_value db rm row cell)
         | MsDateTimeOffset _ \<Rightarrow>
             map_ok (\<lambda>v. CDateTimeOffset (Some v)) (mssql_datetimeoffset_value db rm row cell)
         | MsNVarChar len \<Rightarrow> nvar_char_cell m row len cell
         | MsVarBinary len \<Rightarrow> var_binary_cell m row len cell
         | MsBinary len \<Rightarrow> binary_cell m row len cell))"

subsection \<open>Every error names its row and column\<close>

named_theorems located \<open>operations whose errors are located\<close>

text \<open>\<^term>\<open>located_at m row r\<close>: if \<^term>\<open>r\<close> is an error, it names the column and the row.\<close>

definition located_at :: "schema_mapping \<Rightarrow> usize \<Rightarrow> error + 'a \<Rightarrow> bool" where
  "located_at m row r \<longleftrightarrow> (case r of Inl e \<Rightarrow> located_conversion_error m row e | Inr _ \<Rightarrow> True)"

lemma located_at_basic [simp]:
  "located_at m row (Inr x)" "located_at m row (Inl (conversion_error m row code))"
  "located_at m row (map_ok f r) \<longleftrightarrow> located_at m row r"
  "located_at m row (ok_or (conversion_error m row code) opt)"
  by (auto simp: located_at_def map_ok_def ok_or_def split: sum.split option.split)

lemma located_at_and_then [intro]:
  "located_at m row r \<Longrightarrow> (\<And>x. r = Inr x \<Longrightarrow> located_at m row (f x)) \<Longrightarrow> located_at m row (and_then r f)"
  by (cases r) (auto simp: located_at_def)

lemma located_at_if [intro]:
  "(b \<Longrightarrow> located_at m row x) \<Longrightarrow> (\<not> b \<Longrightarrow> located_at m row y) \<Longrightarrow> located_at m row (if b then x else y)"
  by simp

lemma located_at_classifiers [simp]:
  "located_at m row (primitive_classify m row)" "located_at m row (uint64_classify m row)"
  "located_at m row (decimal_classify m row)" "located_at m row (variable_width_classify m row)"
  "located_at m row (fixed_size_binary_classify m row)" "located_at m row (temporal_classify m row)"
  by (auto simp: located_at_def split: sum.split intro: primitive_cls.classify_Err
      uint64_cls.classify_Err decimal_cls.classify_Err variable_width_cls.classify_Err
      fixed_size_binary_cls.classify_Err temporal_cls.classify_Err)

declare located_at_and_then [intro!]

lemma located_at_scalars [simp]:
  "located_at m row (primitive_mssql_cell m row cell)"
  "located_at m row (nvar_char_cell m row len cell)"
  "located_at m row (var_binary_cell m row len cell)"
  "located_at m row (binary_cell m row n cell)"
  by (auto simp: primitive_mssql_cell_def nvar_char_cell_def var_binary_cell_def binary_cell_def
      mssql_nvarchar_value_def mssql_varbinary_value_def Let_def
      split: sum.split primitive_conversion.split arrow_cell.split variable_width_conversion.split)

lemma located_at_decimal_steps [simp]:
  "located_at m row (normalize_unscaled_decimal m row v s)"
  "located_at m row (mssql_decimal_with_shape m row v p k)"
  "located_at m row (decimal_scale m row)"
  "located_at m row (classify_uint64_decimal20_0 m row)"
  by (auto simp: normalize_unscaled_decimal_def normalize_negative_scale_def
      mssql_decimal_with_shape_def decimal_scale_def classify_uint64_decimal20_0_def
      split: mssql_type.split uint64_conversion.split)

lemma located_at_decimal [simp]: "located_at m row (mssql_decimal_value m row cell)"
  by (auto simp: mssql_decimal_value_def validate_uint64_decimal_scale_compatibility_def
      mssql_decimal_def mssql_decimal_for_classification_def Let_def
      split: mssql_type.split decimal_conversion.split arrow_cell.split)

lemma located_at_dates [simp]:
  "located_at m row (mssql_date_value m row cell)"
  "located_at m row (mssql_datetime2_from_arrow_date64 m row v)"
  by (auto simp: mssql_date_value_def mssql_date_from_arrow_date32_def
      mssql_datetime2_from_arrow_date64_def Let_def split: arrow_cell.split)

lemma located_at_times [simp]:
  "located_at m row (time_nanoseconds_to_100ns_ticks m row ns policy)"
  "located_at m row (nanoseconds_to_100ns_ticks m row w policy)"
  "located_at m row (mssql_time_from_i64 m row v n k)"
  by (auto simp: time_nanoseconds_to_100ns_ticks_def nanoseconds_to_100ns_ticks_def
      mssql_time_from_i64_def Let_def split: nanosecond_policy.split)

lemma located_at_time [simp]:
  "located_at (rm_mapping rm) row (mssql_time_value rm row cell)"
  "located_at m row (null_time_cell m row)"
  by (auto simp: mssql_time_value_def mssql_time_from_nanoseconds_def null_time_cell_def Let_def
      split: arrow_cell.split)

lemma located_at_datetime2_ticks [simp]:
  "located_at m row (mssql_datetime2_from_unix_epoch_100ns_ticks_at_scale m row ticks scale)"
  "located_at m row (mssql_datetime2_from_unix_epoch_100ns_ticks m row ticks)"
  by (auto simp: mssql_datetime2_from_unix_epoch_100ns_ticks_def
      mssql_datetime2_from_unix_epoch_100ns_ticks_at_scale_def
      round_100ns_ticks_to_datetime2_scale_def Let_def)

lemma located_at_datetime2 [simp]:
  "located_at m row (mssql_datetime2_from_arrow_timestamp_second m row v)"
  "located_at m row (mssql_datetime2_from_arrow_timestamp_millisecond m row v)"
  "located_at m row (mssql_datetime2_from_arrow_timestamp_microsecond m row v)"
  "located_at m row (mssql_datetime2_from_arrow_timestamp_nanosecond m row v policy)"
  by (auto simp: mssql_datetime2_from_arrow_timestamp_second_def
      mssql_datetime2_from_arrow_timestamp_millisecond_def
      mssql_datetime2_from_arrow_timestamp_microsecond_def
      mssql_datetime2_from_arrow_timestamp_nanosecond_def mssql_datetime2_from_arrow_timestamp_ticks_def
      target_datetime2_timestamp_scale_def split: mssql_type.split)

lemma located_at_datetime_ticks [simp]:
  "located_at m row (mssql_datetime_from_unix_epoch_100ns_ticks m row ticks rounding)"
  by (auto simp: mssql_datetime_from_unix_epoch_100ns_ticks_def
      round_100ns_ticks_to_datetime_fragments_def round_100ns_ticks_to_nearest_millisecond_def
      round_100ns_ticks_to_nearest_datetime_fragment_def Let_def split: datetime_rounding.split)

lemma located_at_datetime [simp]:
  "located_at m row (mssql_datetime_from_arrow_timestamp_second m row v rounding)"
  "located_at m row (mssql_datetime_from_arrow_timestamp_millisecond m row v rounding)"
  "located_at m row (mssql_datetime_from_arrow_timestamp_microsecond m row v rounding)"
  "located_at m row (mssql_datetime_from_arrow_timestamp_nanosecond m row v policy rounding)"
  by (auto simp: mssql_datetime_from_arrow_timestamp_second_def
      mssql_datetime_from_arrow_timestamp_millisecond_def
      mssql_datetime_from_arrow_timestamp_microsecond_def
      mssql_datetime_from_arrow_timestamp_nanosecond_def)

lemma located_at_timezone [simp]:
  "located_at m row (timezone_resolution_from_metadata db m row tz)"
  "located_at m row (offset_for_instant db resolution m row sec n)"
  "located_at m row (epoch_parts m row sec ns)"
proof -
  show "located_at m row (timezone_resolution_from_metadata db m row tz)"
    using parse_fixed_offset_sound [of tz m row] parse_fixed_offset_None [of m row tz]
    by (auto simp: timezone_resolution_from_metadata_def split: option.split)
  show "located_at m row (offset_for_instant db resolution m row sec n)"
    by (auto simp: offset_for_instant_def sql_server_offset_minutes_def split: timezone_resolution.split)
  show "located_at m row (epoch_parts m row sec ns)" by (auto simp: epoch_parts_def)
qed

lemma located_at_utc [simp]:
  "located_at m row (mssql_datetimeoffset_from_utc_100ns_ticks m row utc off)"
  by (auto simp: mssql_datetimeoffset_from_utc_100ns_ticks_def validate_datetimeoffset_local_range_def
      Let_def)

lemma located_at_datetimeoffset [simp]:
  "located_at (rm_mapping rm) row (mssql_datetimeoffset_value db rm row cell)"
  by (auto simp: mssql_datetimeoffset_value_def mssql_datetimeoffset_from_arrow_timestamp_second_def
      mssql_datetimeoffset_from_arrow_timestamp_millisecond_def
      mssql_datetimeoffset_from_arrow_timestamp_microsecond_def
      mssql_datetimeoffset_from_arrow_timestamp_nanosecond_def
      epoch_parts_from_milliseconds_def epoch_parts_from_microseconds_def
      epoch_parts_from_nanoseconds_def Let_def split: option.split arrow_cell.split)

lemma located_at_timezone_checks [simp]:
  "located_at m row (validate_null_timestamp_timezone_metadata db m row)"
  "located_at m row (validate_mapping_timestamp_timezone_metadata db m row)"
  by (auto simp: validate_null_timestamp_timezone_metadata_def
      validate_mapping_timestamp_timezone_metadata_def validate_timestamp_timezone_metadata_def
      split: data_type.split option.split)

lemma located_at_timestamp_values [simp]:
  "located_at (rm_mapping rm) row (mssql_datetime_value db rm row cell)"
  "located_at (rm_mapping rm) row (mssql_datetime2_value db rm row cell)"
  by (auto simp: mssql_datetime_value_def mssql_datetime2_value_def datetime_mapping_kind_def
      datetime2_mapping_kind_def Let_def
      split: arrow_cell.split datetime2_kind.split data_type.split mssql_type.split)

lemma located_at_nulls [simp]: "located_at m row (null_mssql_cell db m row)"
  by (auto simp: null_mssql_cell_def null_datetime_cell_def null_datetime2_cell_def
      null_datetimeoffset_cell_def datetime_mapping_kind_def datetime2_mapping_kind_def Let_def
      split: mssql_type.split data_type.split)

lemma located_at_cell: "located_at (rm_mapping rm) row (mssql_cell_from_arrow_cell db rm cell row)"
  by (auto simp: mssql_cell_from_arrow_cell_def Let_def split: mssql_type.split)

subsection \<open>Every cell has the planned type\<close>

lemma primitive_cell_type:
  assumes "primitive_mssql_cell m row cell = Ok out"
  shows "cell_has_type out (target_type m) \<and> \<not> is_null_cell out"
proof -
  from assms obtain c where c: "primitive_classify m row = Ok c"
    by (auto simp: primitive_mssql_cell_def Let_def split: sum.splits)
  with assms have "primitive_payload c cell"
    using primitive_mismatch [OF c, of cell] by (cases "primitive_payload c cell") auto
  from primitive_cells(2) [OF c this assms] show ?thesis
    by (auto simp: is_null_cell_def mssql_prim_def split: mssql_cell.splits)
qed

lemma variable_width_cell_type:
  "nvar_char_cell m row len cell = Ok out \<Longrightarrow> \<exists>v. out = CNVarChar (Some v)"
  "var_binary_cell m row len cell = Ok out \<Longrightarrow> \<exists>v. out = CVarBinary (Some v)"
  "binary_cell m row n cell = Ok out \<Longrightarrow> \<exists>v. out = CVarBinary (Some v)"
  by (auto simp: nvar_char_cell_def var_binary_cell_def binary_cell_def result_simps
      split: variable_width_conversion.splits if_splits)
    (metis variable_width_conversion.exhaust)+

definition null_cell_of :: "mssql_type \<Rightarrow> mssql_cell" where
  "null_cell_of ty =
     (case ty of
        MsBit \<Rightarrow> CBit None | MsTinyInt \<Rightarrow> CTinyInt None | MsSmallInt \<Rightarrow> CSmallInt None
      | MsInt \<Rightarrow> CInt None | MsBigInt \<Rightarrow> CBigInt None | MsReal \<Rightarrow> CReal None | MsFloat _ \<Rightarrow> CFloat None
      | MsNVarChar _ \<Rightarrow> CNVarChar None | MsVarBinary _ \<Rightarrow> CVarBinary None | MsBinary _ \<Rightarrow> CVarBinary None
      | MsDecimal _ _ \<Rightarrow> CDecimal None | MsDate \<Rightarrow> CDate None | MsTime _ \<Rightarrow> CTime None
      | MsDateTime \<Rightarrow> CDateTime None | MsDateTime2 _ \<Rightarrow> CDateTime2 None
      | MsDateTimeOffset _ \<Rightarrow> CDateTimeOffset None)"

lemma null_cell_of_type [simp]: "cell_has_type (null_cell_of ty) ty" "is_null_cell (null_cell_of ty)"
  by (simp_all add: cell_has_type_def null_cell_of_def is_null_cell_def split: mssql_type.split)

lemma null_mssql_cell_Ok:
  "null_mssql_cell db m row = Ok out \<Longrightarrow> out = null_cell_of (target_type m)"
  by (auto simp: null_mssql_cell_def null_cell_of_def null_time_cell_def null_datetime_cell_def
      null_datetime2_cell_def null_datetimeoffset_cell_def result_simps
      split: mssql_type.splits if_splits)

text \<open>C17: the value conversion of the baseline writer is well typed and
  never loses where an error came from. A converted cell has the kind of the planned SQL Server
  type and is null exactly for a null source; every error is one structured diagnostic that
  names the column's index and name and the row.\<close>

theorem cell_conversion_contract:
  "case mssql_cell_from_arrow_cell db rm cell row of
     Inr out \<Rightarrow> cell_has_type out (target_type (rm_mapping rm)) \<and> (is_null_cell out \<longleftrightarrow> cell = CellNull)
   | Inl e \<Rightarrow> \<exists>code. e = ValueConversion
       [\<lparr>diag_severity = SevError, diag_code = code,
         diag_field = Some (mapping_field_ref (rm_mapping rm)), diag_row = Some row\<rparr>]"
proof (cases "mssql_cell_from_arrow_cell db rm cell row")
  case (Inl e)
  with located_at_cell [of rm row db cell] obtain code where
    "e = conversion_error (rm_mapping rm) row code"
    by (auto simp: located_at_def located_conversion_error_def)
  with Inl show ?thesis
    by (simp add: value_conversion_error_def row_mapping_diagnostic_def mapping_diagnostic_def
        with_row_def with_field_def diagnostic_error_def diagnostic_new_def)
next
  case (Inr out)
  show ?thesis
  proof (cases "cell = CellNull")
    case True
    with Inr null_mssql_cell_Ok [of db "rm_mapping rm" row out] show ?thesis
      by (auto simp: mssql_cell_from_arrow_cell_def Let_def split: if_splits)
  next
    case False
    with Inr primitive_cell_type [of "rm_mapping rm" row cell out]
      variable_width_cell_type [of "rm_mapping rm" row _ cell out]
    show ?thesis
      by (cases "target_type (rm_mapping rm)")
        (auto simp: mssql_cell_from_arrow_cell_def Let_def result_simps is_null_cell_def
          dest!: variable_width_cell_type, auto simp: cell_has_type_def)
  qed
qed

subsection \<open>Nulls\<close>

lemma planned_null_cell:
  assumes "plan_arrow_field index field options = Ok m"
  shows "null_mssql_cell db m row =
    map_ok (\<lambda>_. null_cell_of (target_type m)) (validate_null_timestamp_timezone_metadata db m row)"
proof -
  have src: "source_type m = field_data_type field" using plan_arrow_field_Ok(1) [OF assms] by simp
  have ty: "plan_arrow_data_type index field options = Ok (target_type m)"
    by (rule plan_arrow_field_Ok(5) [OF assms])
  show ?thesis
  proof (cases "field_data_type field")
    case (DtTimestamp u tz)
    with ty src show ?thesis
      by (auto simp: plan_arrow_data_type_def plan_cases null_mssql_cell_def null_cell_of_def
          null_datetime_cell_def datetime_mapping_kind_def null_datetime2_cell_def
          datetime2_mapping_kind_def null_datetimeoffset_cell_def temporal_classify_def
          has_timezone_def is_timezone_free_def SQL_SERVER_DATETIME2_TIMESTAMP_SCALE_def
          validate_null_timestamp_timezone_metadata_def map_ok_def and_then_def
          dest!: sym [of _ "target_type m"]
          split: timestamp_policy.splits if_splits option.splits time_unit.splits sum.splits)
  next
    case (DtDecimal32 p s)
    with ty src show ?thesis
      by (auto simp: plan_arrow_data_type_def plan_arrow_decimal_def result_simps null_mssql_cell_def
          null_cell_of_def supports_null_decimal_cell_def validate_null_timestamp_timezone_metadata_def
          dest!: sym [of _ "target_type m"])
  next
    case (DtDecimal64 p s)
    with ty src show ?thesis
      by (auto simp: plan_arrow_data_type_def plan_arrow_decimal_def result_simps null_mssql_cell_def
          null_cell_of_def supports_null_decimal_cell_def validate_null_timestamp_timezone_metadata_def
          dest!: sym [of _ "target_type m"])
  next
    case (DtDecimal128 p s)
    with ty src show ?thesis
      by (auto simp: plan_arrow_data_type_def plan_arrow_decimal_def result_simps null_mssql_cell_def
          null_cell_of_def supports_null_decimal_cell_def validate_null_timestamp_timezone_metadata_def
          dest!: sym [of _ "target_type m"])
  next
    case (DtDecimal256 p s)
    with ty src show ?thesis
      by (auto simp: plan_arrow_data_type_def plan_arrow_decimal256_def plan_arrow_decimal_def
          result_simps null_mssql_cell_def null_cell_of_def supports_null_decimal_cell_def
          validate_null_timestamp_timezone_metadata_def dest!: sym [of _ "target_type m"]
          split: decimal256_policy.splits)
  qed (use ty src in \<open>auto simp: plan_arrow_data_type_def plan_cases null_mssql_cell_def
      null_cell_of_def null_time_cell_def null_datetime2_cell_def datetime2_mapping_kind_def
      temporal_classify_def supports_null_decimal_cell_def is_uint64_decimal20_0_mapping_def
      uint64_classify_def validate_null_timestamp_timezone_metadata_def Let_def
      split: uint64_policy.splits string_policy.splits binary_policy.splits date64_policy.splits
        time_unit.splits if_splits dest!: sym [of _ "target_type m"]\<close>)
qed

text \<open>null_cell_contract: nulls of a planned column. In a nullable column a null becomes the
  null of the planned type, for every type planning can choose, unless the column's timezone
  metadata is invalid, which is then reported; in a column that is not nullable it is the
  null-in-non-nullable error.\<close>

theorem null_cell_contract:
  assumes "plan_arrow_field index field options = Ok (rm_mapping rm)"
  shows "mssql_cell_from_arrow_cell db rm CellNull row =
    (if \<not> field_nullable field
     then Err (conversion_error (rm_mapping rm) row NullInNonNullableColumn)
     else map_ok (\<lambda>_. null_cell_of (target_type (rm_mapping rm)))
            (validate_null_timestamp_timezone_metadata db (rm_mapping rm) row))"
  using planned_null_cell [OF assms, of db row] plan_arrow_field_Ok(2) [OF assms]
  by (simp add: mssql_cell_from_arrow_cell_def Let_def)

definition example_field :: "data_type \<Rightarrow> bool \<Rightarrow> arrow_field" where
  "example_field t nullable = \<lparr>field_name = lit ''c'', field_data_type = t, field_nullable = nullable\<rparr>"

lemma example_field_identifier:
  "map_err e (identifier_new (field_name (example_field t nullable))) = Ok (Identifier (lit ''c''))"
  by (simp add: identifier_new_Ok valid_identifier_def example_field_def is_control_def lit_def
      map_err_Inr)

lemma example_field_plans:
  assumes "plan_arrow_data_type 0 (example_field t True) options = Ok ty"
  shows "plan_arrow_field 0 (example_field t True) options = Ok (example_mapping t ty)"
  using assms
  by (simp add: plan_arrow_field_def example_field_identifier)
    (simp add: example_field_def example_mapping_def)

theorem null_cell_contract_witness:
  "let rm = example_runtime (DtTimestamp Second (Some (lit ''Nowhere''))) (MsDateTimeOffset 7) RejectNon100ns in
   mssql_cell_from_arrow_cell example_timezone_db rm CellNull 4
     = Err (conversion_error (rm_mapping rm) 4 TimezoneUnsupported)"
proof -
  let ?t = "DtTimestamp Second (Some (lit ''Nowhere''))"
  let ?rm = "example_runtime ?t (MsDateTimeOffset 7) RejectNon100ns"
  let ?options = "plan_options_default\<lparr>timezone_policy := PolDateTimeOffset\<rparr>"
  have "plan_arrow_data_type 0 (example_field ?t True) ?options = Ok (MsDateTimeOffset 7)"
    by (simp add: plan_arrow_data_type_def plan_arrow_timestamp_def has_timezone_def example_field_def lit_def)
  then have plan: "plan_arrow_field 0 (example_field ?t True) ?options = Ok (rm_mapping ?rm)"
    by (simp add: example_field_plans)
  have "validate_null_timestamp_timezone_metadata example_timezone_db (rm_mapping ?rm) 4
      = Err (conversion_error (rm_mapping ?rm) 4 TimezoneUnsupported)"
    by (simp add: validate_null_timestamp_timezone_metadata_def validate_timestamp_timezone_metadata_def
        timezone_resolution_from_metadata_def eq_ignore_ascii_case_def lit_def ascii_lower_def
        parse_sql_server_fixed_timezone_offset_def utf8_bytes_def utf8_char_def example_timezone_db_def)
  with null_cell_contract [OF plan, of example_timezone_db 4] show ?thesis
    by (simp add: Let_def example_field_def)
qed

subsection \<open>Lengths\<close>

lemma planned_length_classes:
  assumes "plan_arrow_field index field options = Ok m"
  shows "target_type m = MsNVarChar len \<Longrightarrow> variable_width_classify m row = Ok (StringToNVarChar len)"
    and "target_type m = MsVarBinary len \<Longrightarrow> variable_width_classify m row = Ok (BytesToVarBinary len)"
    and "target_type m = MsBinary n \<Longrightarrow>
      fixed_size_binary_classify m row = Ok (FixedSizeBinaryToBinary n)"
proof -
  have src: "source_type m = field_data_type field" using plan_arrow_field_Ok(1) [OF assms] by simp
  have ty: "plan_arrow_data_type index field options = Ok (target_type m)"
    by (rule plan_arrow_field_Ok(5) [OF assms])
  show "target_type m = MsNVarChar len \<Longrightarrow> variable_width_classify m row = Ok (StringToNVarChar len)"
    "target_type m = MsVarBinary len \<Longrightarrow> variable_width_classify m row = Ok (BytesToVarBinary len)"
    "target_type m = MsBinary n \<Longrightarrow> fixed_size_binary_classify m row = Ok (FixedSizeBinaryToBinary n)"
    using ty src
    by (cases "field_data_type field";
        auto simp: plan_arrow_data_type_def plan_cases plan_arrow_decimal_def result_simps
          variable_width_classify_def fixed_size_binary_classify_def is_arrow_string_family_def
          is_arrow_binary_family_def
          split: uint64_policy.splits string_policy.splits binary_policy.splits date64_policy.splits
            decimal256_policy.splits timestamp_policy.splits time_unit.splits if_splits)+
qed

text \<open>C29: lengths of strings and binary values. A planned \<^verbatim>\<open>nvarchar(n)\<close>
  takes exactly the strings of at most \<^verbatim>\<open>n\<close> UTF-16 code units, \<^verbatim>\<open>varbinary(n)\<close> the values of
  at most \<^verbatim>\<open>n\<close> bytes, \<^verbatim>\<open>binary(n)\<close> those of exactly \<^verbatim>\<open>n\<close> bytes, and the \<^verbatim>\<open>max\<close> types
  everything; an accepted value is passed on unchanged. A longer string or \<^verbatim>\<open>varbinary\<close> value is
  \<^verbatim>\<open>ValueTooLong\<close>; a value of any other length than \<^verbatim>\<open>n\<close> is, for \<^verbatim>\<open>binary(n)\<close>, \<^verbatim>\<open>ValueTypeMismatch\<close>.\<close>

theorem length_checks_contract:
  assumes "plan_arrow_field index field options = Ok (rm_mapping rm)"
  shows "case target_type (rm_mapping rm) of
       MsNVarChar len \<Rightarrow>
         mssql_cell_from_arrow_cell db rm (CellUtf8 s) row =
           (if (case len of Bounded n \<Rightarrow> length (encode_utf16 s) \<le> n | MaxLength \<Rightarrow> True)
            then Ok (CNVarChar (Some s)) else Err (conversion_error (rm_mapping rm) row ValueTooLong))
     | MsVarBinary len \<Rightarrow>
         mssql_cell_from_arrow_cell db rm (CellBinary b) row =
           (if (case len of Bounded n \<Rightarrow> length b \<le> n | MaxLength \<Rightarrow> True)
            then Ok (CVarBinary (Some b)) else Err (conversion_error (rm_mapping rm) row ValueTooLong))
     | MsBinary n \<Rightarrow>
         mssql_cell_from_arrow_cell db rm (CellBinary b) row =
           (if length b = n then Ok (CVarBinary (Some b))
            else Err (conversion_error (rm_mapping rm) row ValueTypeMismatch))
     | _ \<Rightarrow> True"
  using planned_length_classes [OF assms]
  by (auto simp: mssql_cell_from_arrow_cell_def nvar_char_cell_def var_binary_cell_def binary_cell_def
      mssql_nvarchar_value_def mssql_varbinary_value_def exceeds_length_def Let_def
      split: mssql_type.split mssql_type_length.split)

theorem length_checks_contract_witness:
  "let rm = example_runtime DtUtf8 (MsNVarChar (Bounded 2)) RejectNon100ns in
     mssql_cell_from_arrow_cell example_timezone_db rm (CellUtf8 [0x1F600]) 0
       = Ok (CNVarChar (Some [0x1F600]))
   \<and> mssql_cell_from_arrow_cell example_timezone_db rm (CellUtf8 [0x1F600, 0x41]) 0
       = Err (conversion_error (rm_mapping rm) 0 ValueTooLong)"
proof -
  let ?rm = "example_runtime DtUtf8 (MsNVarChar (Bounded 2)) RejectNon100ns"
  let ?options = "plan_options_default\<lparr>string_policy := PolNVarChar 2\<rparr>"
  have "plan_arrow_data_type 0 (example_field DtUtf8 True) ?options = Ok (MsNVarChar (Bounded 2))"
    by (simp add: plan_arrow_data_type_def plan_arrow_string_def example_field_def)
  then have plan: "plan_arrow_field 0 (example_field DtUtf8 True) ?options = Ok (rm_mapping ?rm)"
    by (simp add: example_field_plans)
  note contract = length_checks_contract [OF plan, of example_timezone_db _ 0]
  from contract [of "[0x1F600]"] contract [of "[0x1F600, 0x41]"] show ?thesis
    by (simp add: Let_def encode_utf16_def utf16_units_def)
qed

subsection \<open>Scale 38\<close>

text \<open>C40: a \<^verbatim>\<open>decimal(38,38)\<close> column is planned but cannot be
  written. Schema planning accepts it; the direct encoder has no encoding for it; the value
  conversion refuses every value with a decimal range error, and yet accepts its nulls.\<close>

theorem decimal_scale_38_unwritable:
  "\<exists>m. plan_arrow_field 0 (example_field (DtDecimal128 38 38) True) plan_options_default = Ok m
     \<and> target_type m = MsDecimal 38 38
     \<and> current_direct_support m = Unsupported
     \<and> (\<forall>ctx row v.
          mssql_cell_from_arrow_cell db \<lparr>rm_mapping = m, rm_context = ctx\<rparr> (CellDecimal128 v) row
            = Err (conversion_error m row DecimalOutOfRange)
        \<and> mssql_cell_from_arrow_cell db \<lparr>rm_mapping = m, rm_context = ctx\<rparr> CellNull row
            = Ok (CDecimal None))"
proof -
  let ?m = "example_mapping (DtDecimal128 38 38) (MsDecimal 38 38)"
  have "plan_arrow_data_type 0 (example_field (DtDecimal128 38 38) True) plan_options_default
      = Ok (MsDecimal 38 38)"
    by (simp add: plan_arrow_data_type_def plan_arrow_decimal_def normalize_arrow_decimal_shape_def
        SQL_SERVER_MAX_DECIMAL_PRECISION_def try_unsigned_def in_unsigned_def example_field_def)
  note plan = example_field_plans [OF this]
  have dec: "decimal_classify ?m row = Err (conversion_error ?m row DecimalOutOfRange)" for row
    by (simp add: decimal_classify_def decimal_target_def try_unsigned_def in_unsigned_def)
  have "current_direct_support ?m = Unsupported"
    by (simp add: run_support try_unsigned_def in_unsigned_def Let_def)
  moreover have "mssql_cell_from_arrow_cell db \<lparr>rm_mapping = ?m, rm_context = ctx\<rparr> (CellDecimal128 v) row
        = Err (conversion_error ?m row DecimalOutOfRange)
      \<and> mssql_cell_from_arrow_cell db \<lparr>rm_mapping = ?m, rm_context = ctx\<rparr> CellNull row
        = Ok (CDecimal None)" for ctx row v
    by (simp add: mssql_cell_from_arrow_cell_def mssql_decimal_value_def dec Let_def
        null_mssql_cell_def supports_null_decimal_cell_def)
  ultimately show ?thesis using plan by (intro exI [of _ ?m]) simp
qed

end
