(* ===== verification/CellCodec.thy ===== *)
theory CellCodec
  imports Cells DirectPlan
begin

text \<open>
  The contract every value encoder of the direct writer keeps: a non-null cell is one length
  byte followed by its payload, a null cell is the byte 0, and a cell is written the same way
  whether into an exactly sized slice or onto the end of the append buffer. The locale
  \<^verbatim>\<open>cell_codec\<close> states it; \<^verbatim>\<open>TdsValues\<close> and \<^verbatim>\<open>TdsDecimal\<close> interpret it for the six kinds
  of cells of \<^verbatim>\<open>src/write/direct/types/temporal/value.rs\<close> and
  \<^verbatim>\<open>src/write/direct/types/decimal.rs\<close>. Reading a cell back is the receiver's side of the
  wire format and specification only: the repository has no decoder.
\<close>

subsection \<open>Errors of the direct writer\<close>

text \<open>The helpers \<^verbatim>\<open>invalid_payload\<close>, \<^verbatim>\<open>row_column_diagnostic\<close> and \<^verbatim>\<open>value_conversion_error\<close>,
  which each file under \<^verbatim>\<open>src/write/direct/\<close> repeats.\<close>

definition invalid_payload :: error where
  "invalid_payload = DirectEncoding [diagnostic_error DirectEncodingInvalidPayload]"

definition row_column_diagnostic :: "direct_column_plan \<Rightarrow> usize \<Rightarrow> diagnostic_code \<Rightarrow> diagnostic" where
  "row_column_diagnostic col row c =
     with_row (with_field (diagnostic_error c)
       \<lparr>ref_index = plan_source_index col, ref_name = plan_source_name col\<rparr>) row"

definition direct_conversion_error :: "direct_column_plan \<Rightarrow> usize \<Rightarrow> diagnostic_code \<Rightarrow> error" where
  "direct_conversion_error col row c = value_conversion_error (row_column_diagnostic col row c)"

text \<open>The column a mapping is planned to reports errors as the mapping itself does.\<close>

lemma direct_conversion_error_from_mapping:
  "direct_conversion_error (column_plan_from_mapping m enc) row c = conversion_error m row c"
  by (simp add: direct_conversion_error_def row_column_diagnostic_def column_plan_from_mapping_def
      row_mapping_diagnostic_def mapping_diagnostic_def mapping_field_ref_def)

subsection \<open>Reading cells\<close>

definition read_cell ::
    "('p \<Rightarrow> bytes \<Rightarrow> 'v option) \<Rightarrow> 'p \<Rightarrow> bytes \<Rightarrow> ('v option \<times> bytes) option" where
  "read_cell read_payload p bs =
     (case bs of
        [] \<Rightarrow> None
      | n # rest \<Rightarrow>
          if n = 0 then Some (None, rest)
          else if length rest < unat n then None
          else map_option (\<lambda>v. (Some v, drop (unat n) rest)) (read_payload p (take (unat n) rest)))"

primrec read_cells ::
    "('p \<Rightarrow> bytes \<Rightarrow> 'v option) \<Rightarrow> 'p \<Rightarrow> nat \<Rightarrow> bytes \<Rightarrow> ('v option list \<times> bytes) option" where
  "read_cells read_payload p 0 bs = Some ([], bs)"
| "read_cells read_payload p (Suc k) bs =
     (case read_cell read_payload p bs of
        None \<Rightarrow> None
      | Some (v, rest) \<Rightarrow>
          map_option (\<lambda>(vs, rest'). (v # vs, rest')) (read_cells read_payload p k rest))"

text \<open>Appending a column of optional values, one cell each.\<close>

definition append_cells ::
    "(bytes \<Rightarrow> 'v \<Rightarrow> error + bytes) \<Rightarrow> (bytes \<Rightarrow> bytes) \<Rightarrow> 'v option list \<Rightarrow> bytes \<Rightarrow> error + bytes" where
  "append_cells append_value append_null =
     for_each (\<lambda>v buf. case v of None \<Rightarrow> Ok (append_null buf) | Some v \<Rightarrow> append_value buf v)"

subsection \<open>Writing a cell into its slice\<close>

lemma write_one_part: "length dst = Suc (length ys) \<Longrightarrow> splice (dst[0 := b]) (Suc 0) ys = b # ys"
  by (cases dst) (simp_all add: splice_def)

lemma write_two_parts:
  "length dst = Suc (length ys + length zs) \<Longrightarrow>
     splice (splice (dst[0 := b]) (Suc 0) ys) (Suc (length ys)) zs = b # ys @ zs"
  by (cases dst) (simp_all add: splice_def min_def)

lemma write_three_parts:
  "length dst = Suc (length xs + length ys + length zs) \<Longrightarrow>
     splice (splice (splice (dst[0 := b]) (Suc 0) xs) (Suc (length xs)) ys)
       (Suc (length xs + length ys)) zs = b # xs @ ys @ zs"
  by (cases dst) (simp_all add: splice_def min_def)

subsection \<open>The contract of a value encoder\<close>

locale cell_codec =
  fixes cell_len :: "'v \<Rightarrow> error + usize"
    and write_cell :: "bytes \<Rightarrow> 'v \<Rightarrow> error + bytes"
    and append_cell :: "bytes \<Rightarrow> 'v \<Rightarrow> error + bytes"
    and append_null :: "bytes \<Rightarrow> bytes"
    and encodable :: "'v \<Rightarrow> bool"
    and shape :: "'v \<Rightarrow> 'p"
    and payload :: "'v \<Rightarrow> bytes"
    and read_payload :: "'p \<Rightarrow> bytes \<Rightarrow> 'v option"
  assumes payload_len: "encodable v \<Longrightarrow> payload v \<noteq> [] \<and> length (payload v) < 256"
    and cell_len: "encodable v \<Longrightarrow> cell_len v = Ok (Suc (length (payload v)))"
    and write_cell: "write_cell dst v =
      (if encodable v \<and> length dst = Suc (length (payload v))
       then Ok (word_of_nat (length (payload v)) # payload v) else Err invalid_payload)"
    and append_cell: "append_cell buf v =
      (if encodable v then Ok (buf @ word_of_nat (length (payload v)) # payload v)
       else Err invalid_payload)"
    and append_null: "append_null buf = buf @ [0]"
    and read_payload: "encodable v \<Longrightarrow> read_payload (shape v) (payload v) = Some v"
begin

lemma append_as_write:
  assumes "encodable v" "cell_len v = Ok n" "length dst = n"
  shows "append_cell buf v = map_ok ((@) buf) (write_cell dst v)"
  using assms cell_len [OF assms(1)] by (simp add: append_cell write_cell)

lemma cell_len_written: "write_cell dst v = Ok bs \<Longrightarrow> cell_len v = Ok (length bs)"
  by (auto simp: write_cell cell_len split: if_splits)

lemma read_appended:
  assumes "append_cell buf v = Ok out"
  shows "\<exists>bs. out = buf @ bs \<and> cell_len v = Ok (length bs)
    \<and> read_cell read_payload (shape v) (bs @ rest) = Some (Some v, rest)"
proof -
  let ?n = "length (payload v)"
  from assms have v: "encodable v" and out: "out = buf @ word_of_nat ?n # payload v"
    by (auto simp: append_cell split: if_splits)
  from payload_len [OF v] have n: "unat (word_of_nat ?n :: u8) = ?n" "0 < ?n"
    by (simp_all add: unat_of_nat)
  then have "(word_of_nat ?n :: u8) \<noteq> 0" by (metis less_numeral_extra(3) unsigned_0)
  with n read_payload [OF v] out cell_len [OF v] show ?thesis
    by (simp add: read_cell_def)
qed

lemma read_null: "read_cell read_payload p (drop (length buf) (append_null buf) @ rest) = Some (None, rest)"
  by (simp add: append_null read_cell_def)

lemma append_cells_Ok:
  "is_ok (append_cells append_cell append_null vs buf) \<longleftrightarrow> (\<forall>v. Some v \<in> set vs \<longrightarrow> encodable v)"
proof (induction vs arbitrary: buf)
  case (Cons v vs)
  then show ?case
    by (cases v) (auto simp: append_cells_def append_cell)
qed (simp add: append_cells_def)

lemma append_cells_Err:
  "append_cells append_cell append_null vs buf = Err e \<Longrightarrow> e = invalid_payload"
proof (induction vs arbitrary: buf)
  case (Cons v vs)
  then show ?case
    by (cases v) (auto simp: append_cells_def append_cell split: if_splits)
qed (simp add: append_cells_def)

lemma append_one:
  assumes "append_cell buf v = Ok out"
  shows "\<exists>bs. out = buf @ bs \<and> (\<forall>rest. read_cell read_payload (shape v) (bs @ rest) = Some (Some v, rest))"
  using read_appended [OF assms] by (metis same_append_eq)

text \<open>A column of cells of one shape is self-delimiting: the receiver recovers the values and
  the nulls, in order, and the position after them.\<close>

lemma read_column:
  assumes "append_cells append_cell append_null vs buf = Ok out" "\<forall>v. Some v \<in> set vs \<longrightarrow> shape v = p"
  shows "\<exists>bs. out = buf @ bs \<and> read_cells read_payload p (length vs) (bs @ rest) = Some (vs, rest)"
  using assms
proof (induction vs arbitrary: buf)
  case Nil
  then show ?case by (simp add: append_cells_def)
next
  case (Cons v vs)
  obtain bs where step: "case v of None \<Rightarrow> Ok (append_null buf) = (Ok (buf @ bs) :: error + bytes)
      | Some v \<Rightarrow> append_cell buf v = Ok (buf @ bs)"
    and read: "read_cell read_payload p (bs @ rest') = Some (v, rest')" for rest'
  proof (cases v)
    case None
    then show ?thesis using that [of "[0]"] by (simp add: append_null read_cell_def)
  next
    case (Some w)
    with Cons.prems obtain out' where "append_cell buf w = Ok out'" "shape w = p"
      by (auto simp: append_cells_def result_simps)
    from append_one [OF this(1)] obtain bs where "out' = buf @ bs"
      "\<forall>rest. read_cell read_payload (shape w) (bs @ rest) = Some (Some w, rest)" by blast
    with Some that [of bs] \<open>append_cell buf w = Ok out'\<close> \<open>shape w = p\<close> show ?thesis by simp
  qed
  from Cons.prems(1) step have "append_cells append_cell append_null vs (buf @ bs) = Ok out"
    by (cases v) (auto simp: append_cells_def)
  with Cons.IH [of "buf @ bs"] Cons.prems(2) obtain bs' where
    "out = buf @ bs @ bs'" "read_cells read_payload p (length vs) (bs' @ rest) = Some (vs, rest)"
    by auto
  with read [of "bs' @ rest"] show ?case by (intro exI [of _ "bs @ bs'"]) simp
qed

end

end
