(* ===== verification/TdsValues.thy ===== *)
theory TdsValues
  imports CellCodec DateTimeOffsets
begin

text \<open>
  Wire format of temporal cells: \<^verbatim>\<open>src/write/direct/types/temporal/value.rs\<close>. A destination
  slice is the list of its bytes; a write returns the bytes after it.
\<close>

definition DATE_PAYLOAD_LEN :: usize where "DATE_PAYLOAD_LEN = 3"
definition DATETIME_PAYLOAD_LEN :: usize where "DATETIME_PAYLOAD_LEN = 8"
definition DATETIMEOFFSET_OFFSET_LEN :: usize where "DATETIMEOFFSET_OFFSET_LEN = 2"
definition NULL_TEMPORAL_CELL_LEN :: usize where "NULL_TEMPORAL_CELL_LEN = 1"

lemmas payload_lengths = DATE_PAYLOAD_LEN_def DATETIME_PAYLOAD_LEN_def DATETIMEOFFSET_OFFSET_LEN_def
  NULL_TEMPORAL_CELL_LEN_def

subsection \<open>Lengths\<close>

definition time_payload_len :: "u8 \<Rightarrow> error + usize" where
  "time_payload_len precision =
     (if unat precision \<le> 2 then Ok 3
      else if unat precision \<le> 4 then Ok 4
      else if unat precision \<le> 7 then Ok 5
      else Err invalid_payload)"

definition null_temporal_cell_len :: usize where
  "null_temporal_cell_len = NULL_TEMPORAL_CELL_LEN"

definition date_cell_len :: usize where
  "date_cell_len = NULL_TEMPORAL_CELL_LEN + DATE_PAYLOAD_LEN"

definition time_cell_len :: "u8 \<Rightarrow> error + usize" where
  "time_cell_len precision = map_ok (\<lambda>n. NULL_TEMPORAL_CELL_LEN + n) (time_payload_len precision)"

definition datetime2_cell_len :: "u8 \<Rightarrow> error + usize" where
  "datetime2_cell_len precision =
     map_ok (\<lambda>n. NULL_TEMPORAL_CELL_LEN + n + DATE_PAYLOAD_LEN) (time_payload_len precision)"

definition datetime_cell_len :: usize where
  "datetime_cell_len = NULL_TEMPORAL_CELL_LEN + DATETIME_PAYLOAD_LEN"

definition datetime_payload_len :: usize where
  "datetime_payload_len = DATETIME_PAYLOAD_LEN"

definition datetimeoffset_cell_len :: "u8 \<Rightarrow> error + usize" where
  "datetimeoffset_cell_len precision =
     map_ok (\<lambda>n. NULL_TEMPORAL_CELL_LEN + n + DATE_PAYLOAD_LEN + DATETIMEOFFSET_OFFSET_LEN)
       (time_payload_len precision)"

subsection \<open>Checks\<close>

definition validate_precision :: "u8 \<Rightarrow> error + unit" where
  "validate_precision precision = map_ok (\<lambda>_. ()) (time_payload_len precision)"

definition max_time_increments :: "u8 \<Rightarrow> error + int" where
  "max_time_increments precision =
     and_then (validate_precision precision) (\<lambda>_. Ok (SECONDS_PER_DAY * 10 ^ unat precision))"

definition validate_date :: "mssql_date \<Rightarrow> error + unit" where
  "validate_date v = guard (uint (date_days v) \<le> SQL_SERVER_DATE_MAX_DAYS) invalid_payload"

definition validate_datetime :: "mssql_datetime \<Rightarrow> error + unit" where
  "validate_datetime v =
     and_then (guard (SQL_SERVER_DATETIME_MIN_DAYS \<le> sint (datetime_days v)
       \<and> sint (datetime_days v) \<le> SQL_SERVER_DATETIME_MAX_DAYS) invalid_payload) (\<lambda>_.
     guard (uint (datetime_fragments v) < SQL_SERVER_DATETIME_FRAGMENTS_PER_DAY) invalid_payload)"

definition validate_time :: "mssql_time \<Rightarrow> error + unit" where
  "validate_time v =
     and_then (validate_precision (time_scale v)) (\<lambda>_.
     and_then (max_time_increments (time_scale v)) (\<lambda>mx.
     guard (uint (time_increments v) < mx) invalid_payload))"

definition validate_datetimeoffset_offset :: "i16 \<Rightarrow> error + unit" where
  "validate_datetimeoffset_offset offset_minutes =
     guard (\<bar>sint offset_minutes\<bar> \<le> SQL_SERVER_DATETIMEOFFSET_MAX_OFFSET_MINUTES) invalid_payload"

subsection \<open>Writing into a slice\<close>

text \<open>\<^verbatim>\<open>write_u64_le_n(&mut dst[start..start + len], value)\<close>.\<close>

definition write_u64_le_n :: "bytes \<Rightarrow> nat \<Rightarrow> nat \<Rightarrow> u64 \<Rightarrow> error + bytes" where
  "write_u64_le_n dst start len v =
     (if 8 < len then Err invalid_payload
      else Ok (splice dst start (take len (le_bytes 8 (unat v)))))"

definition write_null_temporal_cell :: "bytes \<Rightarrow> error + bytes" where
  "write_null_temporal_cell dst =
     (if length dst \<noteq> NULL_TEMPORAL_CELL_LEN then Err invalid_payload else Ok (dst[0 := 0]))"

definition write_date_cell :: "bytes \<Rightarrow> mssql_date \<Rightarrow> error + bytes" where
  "write_date_cell dst v =
     (if length dst \<noteq> date_cell_len then Err invalid_payload
      else and_then (validate_date v) (\<lambda>_.
        write_u64_le_n (dst[0 := of_nat DATE_PAYLOAD_LEN]) 1 (length dst - 1) (ucast (date_days v))))"

definition write_time_cell :: "bytes \<Rightarrow> mssql_time \<Rightarrow> error + bytes" where
  "write_time_cell dst v =
     and_then (time_cell_len (time_scale v)) (\<lambda>expected_len.
       if length dst \<noteq> expected_len then Err invalid_payload
       else and_then (validate_time v) (\<lambda>_.
         and_then (time_payload_len (time_scale v)) (\<lambda>payload_len.
           write_u64_le_n (dst[0 := of_nat payload_len]) 1 (length dst - 1) (time_increments v))))"

definition write_datetime2_cell :: "bytes \<Rightarrow> mssql_datetime2 \<Rightarrow> error + bytes" where
  "write_datetime2_cell dst v =
     (let date = datetime2_date v; time = datetime2_time v in
      and_then (datetime2_cell_len (time_scale time)) (\<lambda>expected_len.
        if length dst \<noteq> expected_len then Err invalid_payload
        else and_then (validate_date date) (\<lambda>_. and_then (validate_time time) (\<lambda>_.
          and_then (time_payload_len (time_scale time)) (\<lambda>n.
          and_then (write_u64_le_n (dst[0 := of_nat (n + DATE_PAYLOAD_LEN)]) 1 n (time_increments time)) (\<lambda>dst.
          write_u64_le_n dst (1 + n) DATE_PAYLOAD_LEN (ucast (date_days date))))))))"

definition write_datetime_payload :: "bytes \<Rightarrow> nat \<Rightarrow> mssql_datetime \<Rightarrow> error + bytes" where
  "write_datetime_payload dst start v =
     (if length dst - start \<noteq> datetime_payload_len then Err invalid_payload
      else and_then (validate_datetime v) (\<lambda>_.
        Ok (splice (splice dst start (le_bytes 4 (unat (datetime_days v))))
              (start + 4) (le_bytes 4 (unat (datetime_fragments v))))))"

definition write_datetime_cell :: "bytes \<Rightarrow> mssql_datetime \<Rightarrow> error + bytes" where
  "write_datetime_cell dst v =
     (if length dst \<noteq> datetime_cell_len then Err invalid_payload
      else write_datetime_payload (dst[0 := of_nat DATETIME_PAYLOAD_LEN]) 1 v)"

definition write_datetimeoffset_cell :: "bytes \<Rightarrow> mssql_datetimeoffset \<Rightarrow> error + bytes" where
  "write_datetimeoffset_cell dst v =
     (let datetime2 = dto_datetime2 v; date = datetime2_date datetime2; time = datetime2_time datetime2 in
      and_then (datetimeoffset_cell_len (time_scale time)) (\<lambda>expected_len.
        if length dst \<noteq> expected_len then Err invalid_payload
        else and_then (validate_date date) (\<lambda>_. and_then (validate_time time) (\<lambda>_.
          and_then (validate_datetimeoffset_offset (dto_offset_minutes v)) (\<lambda>_.
          and_then (time_payload_len (time_scale time)) (\<lambda>n.
          and_then (write_u64_le_n
              (dst[0 := of_nat (n + DATE_PAYLOAD_LEN + DATETIMEOFFSET_OFFSET_LEN)]) 1 n
              (time_increments time)) (\<lambda>dst.
          and_then (write_u64_le_n dst (1 + n) DATE_PAYLOAD_LEN (ucast (date_days date))) (\<lambda>dst.
          let offset_start = 1 + n + DATE_PAYLOAD_LEN in
          Ok (splice dst offset_start (le_bytes 2 (unat (dto_offset_minutes v))))))))))))"

subsection \<open>Appending to the rows buffer\<close>

text \<open>Each append writes into a fresh zeroed slice of the cell's length and copies it out.\<close>

definition append_null_temporal_cell :: "bytes \<Rightarrow> bytes" where
  "append_null_temporal_cell buf = buf @ [0]"

definition append_date_cell :: "bytes \<Rightarrow> mssql_date \<Rightarrow> error + bytes" where
  "append_date_cell buf v =
     map_ok (\<lambda>bs. buf @ bs)
       (write_date_cell (replicate (NULL_TEMPORAL_CELL_LEN + DATE_PAYLOAD_LEN) 0) v)"

definition append_time_cell :: "bytes \<Rightarrow> mssql_time \<Rightarrow> error + bytes" where
  "append_time_cell buf v =
     and_then (time_cell_len (time_scale v)) (\<lambda>n.
       map_ok (\<lambda>bs. buf @ bs) (write_time_cell (replicate n 0) v))"

definition append_datetime2_cell :: "bytes \<Rightarrow> mssql_datetime2 \<Rightarrow> error + bytes" where
  "append_datetime2_cell buf v =
     and_then (datetime2_cell_len (time_scale (datetime2_time v))) (\<lambda>n.
       map_ok (\<lambda>bs. buf @ bs) (write_datetime2_cell (replicate n 0) v))"

definition append_datetime_cell :: "bytes \<Rightarrow> mssql_datetime \<Rightarrow> error + bytes" where
  "append_datetime_cell buf v =
     map_ok (\<lambda>bs. buf @ bs)
       (write_datetime_cell (replicate (NULL_TEMPORAL_CELL_LEN + DATETIME_PAYLOAD_LEN) 0) v)"

definition append_datetimeoffset_cell :: "bytes \<Rightarrow> mssql_datetimeoffset \<Rightarrow> error + bytes" where
  "append_datetimeoffset_cell buf v =
     and_then (datetimeoffset_cell_len (time_scale (datetime2_time (dto_datetime2 v)))) (\<lambda>n.
       map_ok (\<lambda>bs. buf @ bs) (write_datetimeoffset_cell (replicate n 0) v))"

subsection \<open>Conversions of the direct path\<close>

definition direct_date_from_arrow_date32 ::
    "direct_column_plan \<Rightarrow> usize \<Rightarrow> i32 \<Rightarrow> error + mssql_date" where
  "direct_date_from_arrow_date32 col row v =
     (let days = sint v + SQL_SERVER_DATE_UNIX_EPOCH_DAYS in
      if 0 \<le> days \<and> days \<le> SQL_SERVER_DATE_MAX_DAYS
      then Ok (mssql_date_new (word_of_int days))
      else Err (direct_conversion_error col row TimestampOutOfRange))"

definition direct_datetime2_from_arrow_date64 ::
    "direct_column_plan \<Rightarrow> usize \<Rightarrow> i64 \<Rightarrow> error + mssql_datetime2" where
  "direct_datetime2_from_arrow_date64 col row v =
     (let days_from_unix_epoch = div_euclid (sint v) MILLISECONDS_PER_DAY;
          milliseconds_since_midnight = rem_euclid (sint v) MILLISECONDS_PER_DAY;
          days = days_from_unix_epoch + SQL_SERVER_DATE_UNIX_EPOCH_DAYS in
      if \<not> (0 \<le> days \<and> days \<le> SQL_SERVER_DATE_MAX_DAYS)
      then Err (direct_conversion_error col row TimestampOutOfRange)
      else Ok (mssql_datetime2_new (mssql_date_new (word_of_int days))
                 (mssql_time_new (word_of_int milliseconds_since_midnight)
                    SQL_SERVER_DATETIME2_DATE64_SCALE)))"

lemma direct_dates_agree:
  "direct_date_from_arrow_date32 (column_plan_from_mapping m enc) row v32
     = mssql_date_from_arrow_date32 m row v32"
  "direct_datetime2_from_arrow_date64 (column_plan_from_mapping m enc) row v64
     = mssql_datetime2_from_arrow_date64 m row v64"
  by (simp_all add: direct_date_from_arrow_date32_def mssql_date_from_arrow_date32_def
      direct_datetime2_from_arrow_date64_def mssql_datetime2_from_arrow_date64_def
      direct_conversion_error_from_mapping Let_def)

subsection \<open>The wire format\<close>

text \<open>The values the checks accept are the valid ones, and the payload of a valid value is its
  fields in little-endian order: the time increments in as many bytes as the precision takes,
  the day count in three bytes, the UTC offset in two.\<close>

definition time_len :: "u8 \<Rightarrow> nat" where
  "time_len precision = (if unat precision \<le> 2 then 3 else if unat precision \<le> 4 then 4 else 5)"

definition valid_date :: "mssql_date \<Rightarrow> bool" where
  "valid_date v \<longleftrightarrow> uint (date_days v) \<le> 3652058"

definition valid_datetimeoffset :: "mssql_datetimeoffset \<Rightarrow> bool" where
  "valid_datetimeoffset v \<longleftrightarrow> valid_datetime2 (dto_datetime2 v) \<and> \<bar>sint (dto_offset_minutes v)\<bar> \<le> 840"

definition date_payload :: "mssql_date \<Rightarrow> bytes" where
  "date_payload v = le_bytes 3 (unat (date_days v))"

definition time_payload :: "mssql_time \<Rightarrow> bytes" where
  "time_payload v = le_bytes (time_len (time_scale v)) (unat (time_increments v))"

definition datetime2_payload :: "mssql_datetime2 \<Rightarrow> bytes" where
  "datetime2_payload v = time_payload (datetime2_time v) @ date_payload (datetime2_date v)"

definition datetime_payload :: "mssql_datetime \<Rightarrow> bytes" where
  "datetime_payload v = le_bytes 4 (unat (datetime_days v)) @ le_bytes 4 (unat (datetime_fragments v))"

definition datetimeoffset_payload :: "mssql_datetimeoffset \<Rightarrow> bytes" where
  "datetimeoffset_payload v =
     datetime2_payload (dto_datetime2 v) @ le_bytes 2 (unat (dto_offset_minutes v))"

definition read_date :: "bytes \<Rightarrow> mssql_date option" where
  "read_date bs =
     (if length bs = 3 then Some \<lparr>date_days = word_of_nat (le_nat bs)\<rparr> else None)"

definition read_time :: "u8 \<Rightarrow> bytes \<Rightarrow> mssql_time option" where
  "read_time precision bs =
     (if length bs = time_len precision
      then Some \<lparr>time_increments = word_of_nat (le_nat bs), time_scale = precision\<rparr> else None)"

definition read_datetime2 :: "u8 \<Rightarrow> bytes \<Rightarrow> mssql_datetime2 option" where
  "read_datetime2 precision bs =
     (let n = time_len precision in
      case (read_time precision (take n bs), read_date (drop n bs)) of
        (Some t, Some d) \<Rightarrow> Some \<lparr>datetime2_date = d, datetime2_time = t\<rparr>
      | _ \<Rightarrow> None)"

definition read_datetime :: "bytes \<Rightarrow> mssql_datetime option" where
  "read_datetime bs =
     (if length bs = 8
      then Some \<lparr>datetime_days = word_of_nat (le_nat (take 4 bs)),
                 datetime_fragments = word_of_nat (le_nat (drop 4 bs))\<rparr>
      else None)"

definition read_datetimeoffset :: "u8 \<Rightarrow> bytes \<Rightarrow> mssql_datetimeoffset option" where
  "read_datetimeoffset precision bs =
     (let n = time_len precision + 3 in
      case read_datetime2 precision (take n bs) of
        Some c \<Rightarrow>
          if length (drop n bs) = 2
          then Some \<lparr>dto_datetime2 = c, dto_offset_minutes = word_of_nat (le_nat (drop n bs))\<rparr>
          else None
      | None \<Rightarrow> None)"

lemmas payload_defs = date_payload_def time_payload_def datetime2_payload_def datetime_payload_def
  datetimeoffset_payload_def

lemma length_payloads [simp]:
  "length (date_payload d) = 3" "length (time_payload t) = time_len (time_scale t)"
  "length (datetime2_payload c) = time_len (time_scale (datetime2_time c)) + 3"
  "length (datetime_payload dt) = 8"
  "length (datetimeoffset_payload z) = time_len (time_scale (datetime2_time (dto_datetime2 z))) + 5"
  by (simp_all add: payload_defs)

lemma time_len_bounds: "3 \<le> time_len p" "time_len p \<le> 5"
  by (simp_all add: time_len_def)

lemma time_len_small [simp]: "0 < time_len p" "time_len p < 256" "time_len p < 253" "time_len p < 251"
  by (simp_all add: time_len_def)

lemma time_payload_len_iff:
  "time_payload_len p = (if unat p \<le> 7 then Ok (time_len p) else Err invalid_payload)"
  by (simp add: time_payload_len_def time_len_def)

lemma validations:
  "validate_date d = guard (valid_date d) invalid_payload"
  "validate_time t = guard (valid_time t) invalid_payload"
  "validate_datetime dt = guard (valid_datetime dt) invalid_payload"
  "validate_datetimeoffset_offset off = guard (\<bar>sint off\<bar> \<le> 840) invalid_payload"
proof -
  show "validate_date d = guard (valid_date d) invalid_payload"
    by (simp add: validate_date_def valid_date_def time_constants)
  show "validate_time t = guard (valid_time t) invalid_payload"
    by (simp add: validate_time_def validate_precision_def max_time_increments_def valid_time_def
        time_payload_len_iff time_constants guard_def)
  show "validate_datetime dt = guard (valid_datetime dt) invalid_payload"
    by (simp add: validate_datetime_def valid_datetime_def time_constants guard_def)
  show "validate_datetimeoffset_offset off = guard (\<bar>sint off\<bar> \<le> 840) invalid_payload"
    by (simp add: validate_datetimeoffset_offset_def SQL_SERVER_DATETIMEOFFSET_MAX_OFFSET_MINUTES_def)
qed

lemma cell_lens:
  "time_cell_len p = (if unat p \<le> 7 then Ok (Suc (time_len p)) else Err invalid_payload)"
  "datetime2_cell_len p = (if unat p \<le> 7 then Ok (Suc (time_len p + 3)) else Err invalid_payload)"
  "datetimeoffset_cell_len p = (if unat p \<le> 7 then Ok (Suc (time_len p + 5)) else Err invalid_payload)"
  "date_cell_len = 4" "datetime_cell_len = 9"
  by (simp_all add: time_cell_len_def datetime2_cell_len_def datetimeoffset_cell_len_def
      date_cell_len_def datetime_cell_len_def time_payload_len_iff payload_lengths)

lemma write_u64_le_n_eq:
  "n \<le> 8 \<Longrightarrow> write_u64_le_n dst start n v = Ok (splice dst start (le_bytes n (unat v)))"
  by (simp add: write_u64_le_n_def take_le_bytes)

lemma date_u64: "unat (ucast (d :: u32) :: u64) = unat d"
  by transfer (simp add: take_bit_eq_mod)

lemma valid_time_scale: "valid_time t \<Longrightarrow> unat (time_scale t) \<le> 7"
  by (simp add: valid_time_def)

lemma valid_datetime2_parts:
  "valid_datetime2 c \<longleftrightarrow> valid_date (datetime2_date c) \<and> valid_time (datetime2_time c)"
  by (simp add: valid_datetime2_def valid_date_def)

lemma write_cells:
  "write_date_cell dst d = (if valid_date d \<and> length dst = 4
     then Ok (3 # date_payload d) else Err invalid_payload)"
  "write_time_cell dst t = (if valid_time t \<and> length dst = Suc (time_len (time_scale t))
     then Ok (of_nat (time_len (time_scale t)) # time_payload t) else Err invalid_payload)"
  "write_datetime2_cell dst c =
     (if valid_datetime2 c \<and> length dst = Suc (time_len (time_scale (datetime2_time c)) + 3)
      then Ok (of_nat (time_len (time_scale (datetime2_time c)) + 3) # datetime2_payload c)
      else Err invalid_payload)"
  "write_datetime_cell dst dt = (if valid_datetime dt \<and> length dst = 9
     then Ok (8 # datetime_payload dt) else Err invalid_payload)"
  "write_datetimeoffset_cell dst z =
     (if valid_datetimeoffset z
         \<and> length dst = Suc (time_len (time_scale (datetime2_time (dto_datetime2 z))) + 5)
      then Ok (of_nat (time_len (time_scale (datetime2_time (dto_datetime2 z))) + 5)
             # datetimeoffset_payload z)
      else Err invalid_payload)"
proof -
  note defs = write_date_cell_def write_time_cell_def write_datetime2_cell_def
    write_datetime_cell_def write_datetime_payload_def write_datetimeoffset_cell_def
  show "write_date_cell dst d = (if valid_date d \<and> length dst = 4
     then Ok (3 # date_payload d) else Err invalid_payload)"
    using write_one_part [of dst "date_payload d" 3]
    by (simp add: defs cell_lens validations write_u64_le_n_eq date_u64 guard_def payload_lengths
        date_payload_def)
  show "write_time_cell dst t = (if valid_time t \<and> length dst = Suc (time_len (time_scale t))
     then Ok (of_nat (time_len (time_scale t)) # time_payload t) else Err invalid_payload)"
    using write_one_part [of dst "time_payload t"] time_len_bounds [of "time_scale t"]
    by (auto simp: defs cell_lens validations time_payload_len_iff write_u64_le_n_eq guard_def
        time_payload_def valid_time_scale)
  show "write_datetime2_cell dst c =
     (if valid_datetime2 c \<and> length dst = Suc (time_len (time_scale (datetime2_time c)) + 3)
      then Ok (of_nat (time_len (time_scale (datetime2_time c)) + 3) # datetime2_payload c)
      else Err invalid_payload)"
    using write_two_parts [of dst "time_payload (datetime2_time c)" "date_payload (datetime2_date c)"]
      time_len_bounds [of "time_scale (datetime2_time c)"]
    by (auto simp: defs cell_lens validations time_payload_len_iff write_u64_le_n_eq guard_def
        payload_defs valid_time_scale payload_lengths date_u64 valid_datetime2_parts Let_def)
  show "write_datetime_cell dst dt = (if valid_datetime dt \<and> length dst = 9
     then Ok (8 # datetime_payload dt) else Err invalid_payload)"
    using write_two_parts [of dst "le_bytes 4 (unat (datetime_days dt))"
        "le_bytes 4 (unat (datetime_fragments dt))" 8]
    by (auto simp: defs cell_lens validations guard_def payload_defs payload_lengths
        datetime_payload_len_def)
  show "write_datetimeoffset_cell dst z =
     (if valid_datetimeoffset z
         \<and> length dst = Suc (time_len (time_scale (datetime2_time (dto_datetime2 z))) + 5)
      then Ok (of_nat (time_len (time_scale (datetime2_time (dto_datetime2 z))) + 5)
             # datetimeoffset_payload z)
      else Err invalid_payload)"
    using write_three_parts [of dst "time_payload (datetime2_time (dto_datetime2 z))"
        "date_payload (datetime2_date (dto_datetime2 z))" "le_bytes 2 (unat (dto_offset_minutes z))"]
      time_len_bounds [of "time_scale (datetime2_time (dto_datetime2 z))"]
    by (auto simp: defs cell_lens validations time_payload_len_iff write_u64_le_n_eq guard_def
        payload_defs valid_time_scale payload_lengths date_u64 valid_datetime2_parts Let_def
        valid_datetimeoffset_def)
qed

subsection \<open>Reading back\<close>

lemma word_of_le_bytes:
  assumes "unat (w :: 'w::len word) < 256 ^ n"
  shows "word_of_nat (le_nat (le_bytes n (unat w))) = w"
  using assms by (simp add: le_nat_le_bytes)

lemma read_date_payload: "valid_date d \<Longrightarrow> read_date (date_payload d) = Some d"
proof -
  assume "valid_date d"
  then have "unat (date_days d) < 256 ^ 3"
    by (simp add: valid_date_def flip: nat_uint_eq)
  from word_of_le_bytes [OF this] show ?thesis
    by (simp add: read_date_def date_payload_def)
qed

lemma time_fits: "valid_time t \<Longrightarrow> unat (time_increments t) < 256 ^ time_len (time_scale t)"
proof -
  assume t: "valid_time t"
  let ?p = "unat (time_scale t)"
  from t have "int (unat (time_increments t)) < int (86400 * 10 ^ ?p)"
    by (simp add: valid_time_def)
  then have lt: "unat (time_increments t) < 86400 * 10 ^ ?p" by (simp only: of_nat_less_iff)
  have "86400 * 10 ^ ?p \<le> (256 :: nat) ^ time_len (time_scale t)"
  proof -
    from t have "?p \<in> {0, 1, 2, 3, 4, 5, 6, 7}" by (auto simp: valid_time_def)
    then show ?thesis by (auto simp: time_len_def)
  qed
  with lt show ?thesis by (rule less_le_trans)
qed

lemma read_time_payload: "valid_time t \<Longrightarrow> read_time (time_scale t) (time_payload t) = Some t"
  using word_of_le_bytes [OF time_fits] by (simp add: read_time_def time_payload_def)

lemma read_datetime2_payload:
  "valid_datetime2 c \<Longrightarrow> read_datetime2 (time_scale (datetime2_time c)) (datetime2_payload c) = Some c"
  by (simp add: read_datetime2_def datetime2_payload_def read_date_payload read_time_payload
      valid_datetime2_parts)

lemma read_datetime_payload: "read_datetime (datetime_payload dt) = Some dt"
proof -
  have "unat (datetime_days dt) < 256 ^ 4" "unat (datetime_fragments dt) < 256 ^ 4"
    using unsigned_less [of "datetime_days dt", where ?'a = nat]
      unsigned_less [of "datetime_fragments dt", where ?'a = nat] by simp_all
  from this [THEN word_of_le_bytes] show ?thesis by (simp add: read_datetime_def datetime_payload_def)
qed

lemma read_datetimeoffset_payload:
  assumes "valid_datetimeoffset z"
  shows "read_datetimeoffset (time_scale (datetime2_time (dto_datetime2 z))) (datetimeoffset_payload z)
    = Some z"
proof -
  have "unat (dto_offset_minutes z) < 256 ^ 2"
    using unsigned_less [of "dto_offset_minutes z", where ?'a = nat] by simp
  from word_of_le_bytes [OF this] assms show ?thesis
    by (simp add: read_datetimeoffset_def datetimeoffset_payload_def read_datetime2_payload
        valid_datetimeoffset_def)
qed

lemmas append_defs = append_date_cell_def append_time_cell_def append_datetime2_cell_def
  append_datetime_cell_def append_datetimeoffset_cell_def

interpretation date_codec: cell_codec "\<lambda>_. Ok date_cell_len" write_date_cell append_date_cell
  append_null_temporal_cell valid_date "\<lambda>_. ()" date_payload "\<lambda>_. read_date"
  by unfold_locales (auto simp: cell_lens write_cells append_defs append_null_temporal_cell_def
      read_date_payload payload_lengths simp flip: length_greater_0_conv)

interpretation time_codec: cell_codec "\<lambda>t. time_cell_len (time_scale t)" write_time_cell
  append_time_cell append_null_temporal_cell valid_time time_scale time_payload read_time
  using time_len_bounds
  by unfold_locales (auto simp: cell_lens write_cells append_defs append_null_temporal_cell_def
      read_time_payload valid_time_scale le_less_trans simp flip: length_greater_0_conv)

interpretation datetime2_codec: cell_codec "\<lambda>c. datetime2_cell_len (time_scale (datetime2_time c))"
  write_datetime2_cell append_datetime2_cell append_null_temporal_cell valid_datetime2
  "\<lambda>c. time_scale (datetime2_time c)" datetime2_payload read_datetime2
  using time_len_bounds
  by unfold_locales (auto simp: cell_lens write_cells append_defs append_null_temporal_cell_def
      read_datetime2_payload valid_datetime2_parts valid_time_scale simp flip: length_greater_0_conv)

interpretation datetime_codec: cell_codec "\<lambda>_. Ok datetime_cell_len" write_datetime_cell
  append_datetime_cell append_null_temporal_cell valid_datetime "\<lambda>_. ()" datetime_payload
  "\<lambda>_. read_datetime"
  by unfold_locales (auto simp: cell_lens write_cells append_defs append_null_temporal_cell_def
      read_datetime_payload payload_lengths simp flip: length_greater_0_conv)

interpretation datetimeoffset_codec: cell_codec
  "\<lambda>z. datetimeoffset_cell_len (time_scale (datetime2_time (dto_datetime2 z)))"
  write_datetimeoffset_cell append_datetimeoffset_cell append_null_temporal_cell
  valid_datetimeoffset "\<lambda>z. time_scale (datetime2_time (dto_datetime2 z))"
  datetimeoffset_payload read_datetimeoffset
  using time_len_bounds
  by unfold_locales (auto simp: cell_lens write_cells append_defs append_null_temporal_cell_def
      read_datetimeoffset_payload valid_datetime2_parts valid_datetimeoffset_def valid_time_scale
      simp flip: length_greater_0_conv)

text \<open>temporal_cell_formats: each temporal encoder accepts exactly the values SQL Server can
  store and appends exactly their cell. The checks accept a date up to 9999-12-31, a time of day
  below one day at a precision of at most 7, a datetime between 1753 and 9999 with fewer than
  25,920,000 fragments and an offset of at most 840 minutes; the cell is the payload length and
  the fields in little-endian order, the time of day in 3, 4 or 5 bytes by its precision.
  Everything else is one invalid-payload error and nothing is appended.\<close>

theorem temporal_cell_formats:
  "append_date_cell buf d =
     (if valid_date d then Ok (buf @ 3 # date_payload d) else Err invalid_payload)
   \<and> append_time_cell buf t =
     (if valid_time t then Ok (buf @ of_nat (time_len (time_scale t)) # time_payload t)
      else Err invalid_payload)
   \<and> append_datetime_cell buf dt =
     (if valid_datetime dt then Ok (buf @ 8 # datetime_payload dt) else Err invalid_payload)
   \<and> append_datetime2_cell buf c =
     (if valid_datetime2 c
      then Ok (buf @ of_nat (time_len (time_scale (datetime2_time c)) + 3) # datetime2_payload c)
      else Err invalid_payload)
   \<and> append_datetimeoffset_cell buf z =
     (if valid_datetimeoffset z
      then Ok (buf @ of_nat (time_len (time_scale (datetime2_time (dto_datetime2 z))) + 5)
             # datetimeoffset_payload z)
      else Err invalid_payload)"
  using date_codec.append_cell [of buf d] time_codec.append_cell [of buf t]
    datetime_codec.append_cell [of buf dt] datetime2_codec.append_cell [of buf c]
    datetimeoffset_codec.append_cell [of buf z]
  by simp

text \<open>datetimeoffset_column_round_trip: a column of optional datetimeoffset values of one
  precision, once appended, is read back exactly: every value, every null, in order, and the
  position after the column, whatever follows it.\<close>

theorem datetimeoffset_column_round_trip:
  assumes "append_cells append_datetimeoffset_cell append_null_temporal_cell zs buf = Ok out"
    and "\<forall>z. Some z \<in> set zs \<longrightarrow> time_scale (datetime2_time (dto_datetime2 z)) = precision"
  shows "\<exists>bs. out = buf @ bs
    \<and> read_cells read_datetimeoffset precision (length zs) (bs @ rest) = Some (zs, rest)"
  by (rule datetimeoffset_codec.read_column [OF assms])

definition example_offset :: mssql_datetimeoffset where
  "example_offset =
     \<lparr>dto_datetime2 = \<lparr>datetime2_date = \<lparr>date_days = 719162\<rparr>,
        datetime2_time = \<lparr>time_increments = 864000000000 - 1, time_scale = 7\<rparr>\<rparr>,
      dto_offset_minutes = - 840\<rparr>"

lemma example_offset_valid: "valid_datetimeoffset example_offset"
  by (simp add: example_offset_def valid_datetimeoffset_def valid_datetime2_def valid_time_def)

theorem datetimeoffset_column_round_trip_witness:
  "\<exists>out bs. append_cells append_datetimeoffset_cell append_null_temporal_cell
       [Some example_offset, None, Some example_offset] [7] = Ok out \<and> out = [7] @ bs
     \<and> read_cells read_datetimeoffset 7 3 (bs @ [255]) = Some ([Some example_offset, None, Some example_offset], [255])"
proof -
  let ?zs = "[Some example_offset, None, Some example_offset]"
  obtain out where out: "append_cells append_datetimeoffset_cell append_null_temporal_cell ?zs [7] = Ok out"
    using datetimeoffset_codec.append_cells_Ok [of ?zs "[7]"] example_offset_valid by (auto simp: is_ok_iff)
  have "\<forall>z. Some z \<in> set ?zs \<longrightarrow> time_scale (datetime2_time (dto_datetime2 z)) = 7"
    by (simp add: example_offset_def)
  from datetimeoffset_column_round_trip [OF out this, of "[255]"] out show ?thesis
    by (auto simp: numeral_3_eq_3)
qed

end
