(* ===== verification/TdsDecimal.thy ===== *)
theory TdsDecimal
  imports CellCodec ScalarConversion "HOL-Library.While_Combinator"
begin

text \<open>
  Wire format of decimal cells and the normalisation of decimals of the direct writer: the value
  helpers of \<^verbatim>\<open>src/write/direct/types/decimal.rs\<close>. A cell is its length, a sign byte and the
  magnitude in 4, 8, 12 or 16 bytes, by its number of decimal digits.
\<close>

definition NULL_DECIMAL_CELL_LEN :: usize where "NULL_DECIMAL_CELL_LEN = 1"
definition DECIMAL_SIGN_LEN :: usize where "DECIMAL_SIGN_LEN = 1"
definition DECIMAL_NEGATIVE_SIGN :: u8 where "DECIMAL_NEGATIVE_SIGN = 0"
definition DECIMAL_POSITIVE_SIGN :: u8 where "DECIMAL_POSITIVE_SIGN = 1"

lemmas decimal_constants = NULL_DECIMAL_CELL_LEN_def DECIMAL_SIGN_LEN_def
  DECIMAL_NEGATIVE_SIGN_def DECIMAL_POSITIVE_SIGN_def

subsection \<open>Cells\<close>

text \<open>\<^verbatim>\<open>unsigned_abs\<close>: a magnitude of at most 128 bits, without overflow at the minimum.\<close>

definition unsigned_abs :: "i128 \<Rightarrow> nat" where
  "unsigned_abs v = nat \<bar>sint v\<bar>"

fun decimal_precision_loop :: "nat \<Rightarrow> nat \<Rightarrow> nat" where
  "decimal_precision_loop magnitude digits =
     (if magnitude \<ge> 10 then decimal_precision_loop (magnitude div 10) (digits + 1) else digits)"

declare decimal_precision_loop.simps [simp del]

definition decimal_precision :: "nat \<Rightarrow> nat" where
  "decimal_precision magnitude = decimal_precision_loop magnitude 1"

definition decimal_magnitude_len :: "nat \<Rightarrow> usize" where
  "decimal_magnitude_len magnitude =
     (let precision = decimal_precision magnitude in
      if 1 \<le> precision \<and> precision \<le> 9 then 4
      else if 10 \<le> precision \<and> precision \<le> 19 then 8
      else if 20 \<le> precision \<and> precision \<le> 28 then 12
      else 16)"

definition decimal_sign :: "i128 \<Rightarrow> u8" where
  "decimal_sign unscaled =
     (if sint unscaled < 0 then DECIMAL_NEGATIVE_SIGN else DECIMAL_POSITIVE_SIGN)"

definition decimal_value_len :: "i128 \<Rightarrow> usize" where
  "decimal_value_len unscaled = DECIMAL_SIGN_LEN + decimal_magnitude_len (unsigned_abs unscaled)"

definition decimal_cell_len :: "i128 \<Rightarrow> usize" where
  "decimal_cell_len unscaled = NULL_DECIMAL_CELL_LEN + decimal_value_len unscaled"

definition write_null_decimal_cell :: "bytes \<Rightarrow> error + bytes" where
  "write_null_decimal_cell dst =
     (if length dst \<noteq> NULL_DECIMAL_CELL_LEN then Err invalid_payload else Ok (dst[0 := 0]))"

text \<open>The magnitude goes to the slice from \<^verbatim>\<open>dst[2..]\<close> on.\<close>

definition write_decimal_magnitude :: "bytes \<Rightarrow> nat \<Rightarrow> error + bytes" where
  "write_decimal_magnitude dst magnitude =
     (let n = decimal_magnitude_len magnitude in
      if n = 4 then Ok (splice dst 2 (le_bytes 4 magnitude))
      else if n = 8 then Ok (splice dst 2 (le_bytes 8 magnitude))
      else if n = 12 then
        Ok (splice (splice dst 2 (le_bytes 8 magnitude)) 10 (le_bytes 4 (magnitude div 2 ^ 64)))
      else if n = 16 then Ok (splice dst 2 (le_bytes 16 magnitude))
      else Err invalid_payload)"

definition write_decimal_value :: "bytes \<Rightarrow> i128 \<Rightarrow> error + bytes" where
  "write_decimal_value dst unscaled =
     write_decimal_magnitude
       (dst[0 := of_nat (decimal_value_len unscaled), 1 := decimal_sign unscaled])
       (unsigned_abs unscaled)"

definition write_decimal_cell :: "bytes \<Rightarrow> i128 \<Rightarrow> error + bytes" where
  "write_decimal_cell dst unscaled =
     (if length dst \<noteq> decimal_cell_len unscaled then Err invalid_payload
      else write_decimal_value dst unscaled)"

definition append_null_decimal_cell :: "bytes \<Rightarrow> bytes" where
  "append_null_decimal_cell buf = buf @ [0]"

definition append_decimal_magnitude :: "bytes \<Rightarrow> nat \<Rightarrow> error + bytes" where
  "append_decimal_magnitude buf magnitude =
     (let n = decimal_magnitude_len magnitude in
      if n = 4 then Ok (buf @ le_bytes 4 magnitude)
      else if n = 8 then Ok (buf @ le_bytes 8 magnitude)
      else if n = 12 then Ok ((buf @ le_bytes 8 magnitude) @ le_bytes 4 (magnitude div 2 ^ 64))
      else if n = 16 then Ok ((buf @ le_bytes 8 magnitude) @ le_bytes 8 (magnitude div 2 ^ 64))
      else Err invalid_payload)"

definition append_decimal_cell :: "bytes \<Rightarrow> i128 \<Rightarrow> error + bytes" where
  "append_decimal_cell buf unscaled =
     append_decimal_magnitude
       ((buf @ [of_nat (decimal_value_len unscaled)]) @ [decimal_sign unscaled])
       (unsigned_abs unscaled)"

subsection \<open>Normalisation\<close>

text \<open>The direct path repeats the checked arithmetic of the baseline; the two copies of
  \<^verbatim>\<open>decimal_max_unscaled\<close> and \<^verbatim>\<open>decimal_unscaled_fits_precision\<close> are the same text.\<close>

definition direct_normalize_negative_scale ::
    "direct_column_plan \<Rightarrow> usize \<Rightarrow> int \<Rightarrow> i8 \<Rightarrow> error + int" where
  "direct_normalize_negative_scale col row unscaled arrow_sc =
     (if sint arrow_sc \<ge> 0 then Ok unscaled
      else
        and_then (ok_or (direct_conversion_error col row DecimalOutOfRange)
                    (checked_i128 (10 ^ nat \<bar>sint arrow_sc\<bar>)))
          (\<lambda>factor. ok_or (direct_conversion_error col row DecimalOutOfRange)
                      (checked_i128 (unscaled * factor))))"

definition normalized_decimal_value ::
    "direct_column_plan \<Rightarrow> decimal_conversion \<Rightarrow> usize \<Rightarrow> i128 \<Rightarrow> error + i128" where
  "normalized_decimal_value col c row unscaled =
     and_then (direct_normalize_negative_scale col row (sint unscaled) (arrow_scale c)) (\<lambda>u.
       if decimal_unscaled_fits_precision u (target_precision c) then Ok (word_of_int u)
       else Err (direct_conversion_error col row DecimalOutOfRange))"

definition decimal256_to_i128 :: "i256 \<Rightarrow> direct_column_plan \<Rightarrow> usize \<Rightarrow> error + i128" where
  "decimal256_to_i128 v col row =
     ok_or (direct_conversion_error col row DecimalOutOfRange)
       (map_option word_of_int (checked_i128 (sint v)))"

definition null_decimal_cell_len :: "direct_column_plan \<Rightarrow> usize \<Rightarrow> error + usize" where
  "null_decimal_cell_len col row =
     (if \<not> plan_nullable col then Err (direct_conversion_error col row NullInNonNullableColumn)
      else Ok NULL_DECIMAL_CELL_LEN)"

subsection \<open>The digit count\<close>

lemma decimal_precision_loop_dec: "decimal_precision_loop m d = d + length (dec m) - 1"
proof (induction m d rule: decimal_precision_loop.induct)
  case (1 m d)
  show ?case
  proof (cases "m \<ge> 10")
    case True
    then have "dec m = dec (m div 10) @ [48 + m mod 10]" by (subst dec.simps) simp
    moreover have "0 < length (dec (m div 10))" by simp
    ultimately show ?thesis
      using 1 True by (subst decimal_precision_loop.simps) simp
  next
    case False
    then have "dec m = [48 + m]" by (subst dec.simps) simp
    with False show ?thesis by (subst decimal_precision_loop.simps) simp
  qed
qed

lemma decimal_precision_dec: "decimal_precision m = length (dec m)"
  by (simp add: decimal_precision_def decimal_precision_loop_dec)

text \<open>The loop as a loop.\<close>

lemma digit_loop:
  "while_option (\<lambda>(m, digits). 10 \<le> m) (\<lambda>(m, digits). (m div 10, digits + 1)) (m, d)
   = Some (m div 10 ^ (length (dec m) - 1), d + (length (dec m) - 1))"
proof (induction m arbitrary: d rule: dec.induct)
  case (1 m)
  show ?case
  proof (cases "m < 10")
    case True
    then have "length (dec m) = 1" by (subst dec.simps) simp
    with True show ?thesis by (subst while_option_unfold) simp
  next
    case False
    then have "length (dec m) = Suc (length (dec (m div 10)))" by (subst dec.simps) simp
    moreover obtain n where "length (dec (m div 10)) = Suc n"
      using dec_not_Nil by (cases "length (dec (m div 10))") auto
    ultimately show ?thesis using 1 [OF False] False
      by (subst while_option_unfold) (simp add: div_mult2_eq)
  qed
qed

lemma length_dec_le: "0 < n \<Longrightarrow> length (dec m) \<le> n \<longleftrightarrow> m < 10 ^ n"
proof (induction n arbitrary: m)
  case (Suc n)
  show ?case
  proof (cases "m < 10")
    case True
    moreover have "(10::nat) \<le> 10 ^ Suc n" by simp
    ultimately have "m < 10 ^ Suc n" by linarith
    with True show ?thesis by (subst dec.simps) simp
  next
    case False
    then have len: "length (dec m) = Suc (length (dec (m div 10)))" by (subst dec.simps) simp
    show ?thesis
    proof (cases "n = 0")
      case True
      with False len show ?thesis by simp
    next
      case n: False
      with Suc.IH [of "m div 10"] have "length (dec m) \<le> Suc n \<longleftrightarrow> m div 10 < 10 ^ n" by (simp add: len)
      also have "\<dots> \<longleftrightarrow> m < 10 ^ Suc n" by (simp add: div_less_iff_less_mult mult.commute)
      finally show ?thesis .
    qed
  qed
qed simp

lemma decimal_magnitude_len_eq:
  "decimal_magnitude_len m =
     (if m < 10 ^ 9 then 4 else if m < 10 ^ 19 then 8 else if m < 10 ^ 28 then 12 else 16)"
proof -
  have "1 \<le> decimal_precision m" by (simp add: decimal_precision_dec Suc_le_eq)
  moreover have "decimal_precision m \<le> 9 \<longleftrightarrow> m < 10 ^ 9" "decimal_precision m \<le> 19 \<longleftrightarrow> m < 10 ^ 19"
    "decimal_precision m \<le> 28 \<longleftrightarrow> m < 10 ^ 28"
    by (simp_all only: decimal_precision_dec length_dec_le zero_less_numeral)
  moreover have "10 \<le> decimal_precision m \<longleftrightarrow> \<not> decimal_precision m \<le> 9"
    "20 \<le> decimal_precision m \<longleftrightarrow> \<not> decimal_precision m \<le> 19" by linarith+
  moreover have "m < 10 ^ 9 \<Longrightarrow> m < 10 ^ 19" "m < 10 ^ 19 \<Longrightarrow> m < 10 ^ 28" by simp_all
  ultimately show ?thesis unfolding decimal_magnitude_len_def Let_def by (simp only:) auto
qed

lemma unsigned_abs_bound: "unsigned_abs v \<le> 2 ^ 127"
  using sint_bounds [of v] by (simp add: unsigned_abs_def)

lemma magnitude_fits: "m \<le> 2 ^ 127 \<Longrightarrow> m < 256 ^ decimal_magnitude_len m"
  by (auto simp: decimal_magnitude_len_eq)

lemma magnitude_len_cases: "decimal_magnitude_len m \<in> {4, 8, 12, 16}"
  by (simp add: decimal_magnitude_len_eq)

subsection \<open>Cells and the contract of encoders\<close>

definition decimal_cell_payload :: "i128 \<Rightarrow> bytes" where
  "decimal_cell_payload v =
     decimal_sign v # le_bytes (decimal_magnitude_len (unsigned_abs v)) (unsigned_abs v)"

definition read_decimal :: "bytes \<Rightarrow> i128 option" where
  "read_decimal bs =
     (case bs of
        [] \<Rightarrow> None
      | sign # magnitude \<Rightarrow>
          if length magnitude \<in> {4, 8, 12, 16}
          then Some (if sign = 0 then - word_of_nat (le_nat magnitude) else word_of_nat (le_nat magnitude))
          else None)"

lemma length_decimal_payload:
  "length (decimal_cell_payload v) = decimal_value_len v"
  "length (decimal_cell_payload v) < 256"
  using magnitude_len_cases [of "unsigned_abs v"]
  by (auto simp: decimal_cell_payload_def decimal_value_len_def decimal_constants)

lemma le_bytes_12: "le_bytes 8 m @ le_bytes 4 (m div 2 ^ 64) = le_bytes 12 m"
  using le_bytes_append [of 8 4 m] by simp

lemma le_bytes_16: "le_bytes 8 m @ le_bytes 8 (m div 2 ^ 64) = le_bytes 16 m"
  using le_bytes_append [of 8 8 m] by simp

lemma append_magnitude:
  "append_decimal_magnitude buf m = Ok (buf @ le_bytes (decimal_magnitude_len m) m)"
  using magnitude_len_cases [of m] le_bytes_12 [of m] le_bytes_16 [of m]
  by (auto simp: append_decimal_magnitude_def Let_def)

lemma write_magnitude:
  assumes "length dst = decimal_magnitude_len m"
  shows "write_decimal_magnitude (a # b # dst) m = Ok (a # b # le_bytes (decimal_magnitude_len m) m)"
proof -
  have "splice (splice (a # b # dst) 2 (le_bytes 8 m)) 10 (le_bytes 4 (m div 2 ^ 64))
      = a # b # le_bytes 12 m" if "length dst = 12"
    using that le_bytes_12 [of m] by (simp add: splice_def)
  moreover have "splice (a # b # dst) 2 (le_bytes n m) = a # b # le_bytes n m" if "length dst = n" for n
    using that by (simp add: splice_def)
  ultimately show ?thesis
    using assms magnitude_len_cases [of m] by (auto simp: write_decimal_magnitude_def Let_def)
qed

lemma write_decimal_cell_eq:
  "write_decimal_cell dst v =
     (if length dst = Suc (decimal_value_len v)
      then Ok (of_nat (decimal_value_len v) # decimal_cell_payload v) else Err invalid_payload)"
proof (cases "length dst = Suc (decimal_value_len v)")
  case True
  then obtain a b dst' where "dst = a # b # dst'" "length dst' = decimal_magnitude_len (unsigned_abs v)"
    by (auto simp: decimal_value_len_def decimal_constants length_Suc_conv)
  then show ?thesis
    by (simp add: write_decimal_cell_def write_decimal_value_def decimal_cell_len_def
        write_magnitude decimal_cell_payload_def decimal_value_len_def decimal_constants)
qed (simp add: write_decimal_cell_def decimal_cell_len_def decimal_constants)

lemma append_decimal_cell_eq:
  "append_decimal_cell buf v = Ok (buf @ of_nat (decimal_value_len v) # decimal_cell_payload v)"
  by (simp add: append_decimal_cell_def append_magnitude decimal_cell_payload_def)

lemma read_decimal_payload: "read_decimal (decimal_cell_payload v) = Some v"
proof -
  let ?m = "unsigned_abs v"
  have m: "le_nat (le_bytes (decimal_magnitude_len ?m) ?m) = ?m"
    using magnitude_fits [OF unsigned_abs_bound, of v] by (simp add: le_nat_le_bytes)
  have "(word_of_nat ?m :: i128) = word_of_int \<bar>sint v\<bar>"
    by (simp add: unsigned_abs_def)
  then have "(if sint v < 0 then - word_of_nat ?m else word_of_nat ?m) = v"
    by (simp add: abs_if flip: word_of_int_minus)
  with m magnitude_len_cases [of ?m] show ?thesis
    by (auto simp: read_decimal_def decimal_cell_payload_def decimal_sign_def decimal_constants)
qed

interpretation decimal_codec: cell_codec "\<lambda>v. Ok (decimal_cell_len v)" write_decimal_cell
  append_decimal_cell append_null_decimal_cell "\<lambda>_. True" "\<lambda>_. ()" decimal_cell_payload
  "\<lambda>_. read_decimal"
proof unfold_locales
  show "decimal_cell_payload v \<noteq> [] \<and> length (decimal_cell_payload v) < 256" for v
    by (simp add: length_decimal_payload(2)) (simp add: decimal_cell_payload_def)
qed (simp_all add: length_decimal_payload(1) write_decimal_cell_eq append_decimal_cell_eq
    append_null_decimal_cell_def read_decimal_payload decimal_cell_len_def NULL_DECIMAL_CELL_LEN_def)

text \<open>C25: decimal cells are lossless and self-delimiting on the wire.
  Appending a column of optional 128-bit decimals never fails, and a reader of the wire format
  recovers every value, every null and the position after the column, whatever follows it.\<close>

theorem decimal_column_round_trip:
  "\<exists>bs. append_cells append_decimal_cell append_null_decimal_cell vs buf = Ok (buf @ bs)
     \<and> read_cells (\<lambda>_. read_decimal) () (length vs) (bs @ rest) = Some (vs, rest)"
proof -
  obtain out where out: "append_cells append_decimal_cell append_null_decimal_cell vs buf = Ok out"
    using decimal_codec.append_cells_Ok [of vs buf] by (auto simp: is_ok_iff)
  from decimal_codec.read_column [OF out, of "()"] out show ?thesis by auto
qed

text \<open>decimal_cell_storage: a decimal cell has the storage size of its value's own digits:
  after the length and the sign, 4 bytes up to 9 digits, 8 up to 19, 12 up to 28 and 16 beyond;
  written into an exactly sized slice or appended, the bytes are the same, they begin with the
  length of the rest, and any other slice length is refused.\<close>

theorem decimal_cell_storage:
  "let m = nat \<bar>sint v\<bar>;
       n = (if length (dec m) \<le> 9 then 4 else if length (dec m) \<le> 19 then 8
            else if length (dec m) \<le> 28 then 12 else 16) in
   m < 256 ^ n \<and> decimal_cell_len v = n + 2
   \<and> (case write_decimal_cell dst v of
        Inr bs \<Rightarrow> length dst = n + 2 \<and> length bs = n + 2 \<and> unat (hd bs) = n + 1
          \<and> append_decimal_cell buf v = Ok (buf @ bs)
      | Inl e \<Rightarrow> length dst \<noteq> n + 2 \<and> e = invalid_payload)"
proof -
  define m where "m = nat \<bar>sint v\<bar>"
  have m: "unsigned_abs v = m" by (simp add: unsigned_abs_def m_def)
  have n: "decimal_magnitude_len m = (if length (dec m) \<le> 9 then 4 else if length (dec m) \<le> 19 then 8
            else if length (dec m) \<le> 28 then 12 else 16)"
    by (simp only: decimal_magnitude_len_eq length_dec_le zero_less_numeral)
  have len: "decimal_value_len v = decimal_magnitude_len m + 1"
    by (simp add: decimal_value_len_def m DECIMAL_SIGN_LEN_def)
  have "unat (word_of_nat (decimal_magnitude_len m + 1) :: u8) = decimal_magnitude_len m + 1"
    using magnitude_len_cases [of m] by auto
  then show ?thesis
    unfolding Let_def m_def [symmetric] n [symmetric]
    using magnitude_fits [OF unsigned_abs_bound, of v]
    by (simp add: m len write_decimal_cell_eq append_decimal_cell_eq length_decimal_payload(1)
        decimal_cell_len_def NULL_DECIMAL_CELL_LEN_def)
qed

text \<open>C24: the digit loop ends and counts. On the magnitude of any value of 128 bits the
  loop of the code, as a loop, returns after at most 38 rounds; it has divided the
  magnitude by ten once per round, and its counter, which stays below 40 and so within a byte, is
  the number of decimal digits.\<close>

theorem digit_loop_counts:
  "\<exists>k \<le> 38. while_option (\<lambda>(m, digits). 10 \<le> m) (\<lambda>(m, digits). (m div 10, digits + 1)) (unsigned_abs v, 1)
        = Some (unsigned_abs v div 10 ^ k, Suc k)
     \<and> decimal_precision (unsigned_abs v) = Suc k
     \<and> unsigned_abs v < 10 ^ Suc k \<and> 10 ^ k \<le> max 1 (unsigned_abs v)"
proof -
  let ?m = "unsigned_abs v"
  obtain k where k: "length (dec ?m) = Suc k" using dec_not_Nil by (cases "length (dec ?m)") auto
  have "?m < 10 ^ 39" using unsigned_abs_bound [of v] by (rule le_less_trans) simp
  then have "k \<le> 38" using length_dec_le [of 39 ?m] k by simp
  moreover have "?m < 10 ^ Suc k" using length_dec_le [of "Suc k" ?m] k by simp
  moreover have "10 ^ k \<le> max 1 ?m"
  proof (cases "k = 0")
    case False
    with length_dec_le [of k ?m] k show ?thesis by simp
  qed simp
  ultimately show ?thesis
    using digit_loop [of ?m 1] k by (intro exI [of _ k]) (simp add: decimal_precision_dec)
qed

subsection \<open>Agreement with the baseline conversion\<close>

lemma direct_normalize_agrees:
  "direct_normalize_negative_scale (column_plan_from_mapping m enc) row v s
     = normalize_unscaled_decimal m row v s"
  by (simp add: direct_normalize_negative_scale_def normalize_unscaled_decimal_def
      normalize_negative_scale_def direct_conversion_error_from_mapping)

lemma normalized_decimal_agrees:
  "map_ok (\<lambda>v'. mssql_decimal_new v' (target_scale c))
     (normalized_decimal_value (column_plan_from_mapping m enc) c row v)
   = and_then (normalize_unscaled_decimal m row (sint v) (arrow_scale c))
       (\<lambda>u. mssql_decimal_for_classification m row u c)"
  by (cases "normalize_unscaled_decimal m row (sint v) (arrow_scale c)")
    (simp_all add: normalized_decimal_value_def direct_normalize_agrees
      mssql_decimal_for_classification_def mssql_decimal_with_shape_def
      direct_conversion_error_from_mapping)

text \<open>The direct value of a decimal cell: the source's reader, then the normalisation.\<close>

definition direct_decimal_cell ::
    "direct_column_plan \<Rightarrow> decimal_conversion \<Rightarrow> usize \<Rightarrow> arrow_cell \<Rightarrow> (error + i128) option" where
  "direct_decimal_cell col c row cell =
     (case (c, cell) of
        (FromDecimal32 _ _ _, CellDecimal32 v) \<Rightarrow> Some (normalized_decimal_value col c row (scast v))
      | (FromDecimal64 _ _ _, CellDecimal64 v) \<Rightarrow> Some (normalized_decimal_value col c row (scast v))
      | (FromDecimal128 _ _ _, CellDecimal128 v) \<Rightarrow> Some (normalized_decimal_value col c row v)
      | (FromDecimal256 _ _ _, CellDecimal256 v) \<Rightarrow>
          Some (and_then (decimal256_to_i128 v col row) (normalized_decimal_value col c row))
      | _ \<Rightarrow> None)"

lemma decimal256_normalized:
  "map_ok (\<lambda>v'. mssql_decimal_new v' (target_scale c))
     (and_then (decimal256_to_i128 v (column_plan_from_mapping m enc) row)
        (normalized_decimal_value (column_plan_from_mapping m enc) c row))
   = and_then (ok_or (conversion_error m row DecimalOutOfRange) (checked_i128 (sint v)))
       (\<lambda>w. and_then (normalize_unscaled_decimal m row w (arrow_scale c))
          (\<lambda>u. mssql_decimal_for_classification m row u c))"
proof (cases "in_i128 (sint v)")
  case True
  then have "sint (word_of_int (sint v) :: i128) = sint v"
    using sint_word_of_int_fits [of "sint v", where 'w = 128] by simp
  with True normalized_decimal_agrees [of c m enc row "word_of_int (sint v)"] show ?thesis
    by (simp add: decimal256_to_i128_def checked_i128_def)
qed (simp add: decimal256_to_i128_def checked_i128_def direct_conversion_error_from_mapping)

text \<open>C23: the two write paths convert decimals alike. For a
  mapping classified as a decimal conversion and a cell of that conversion's width, the direct
  normalisation yields the unscaled value of the baseline's cell, and fails on the same values
  with the same error.\<close>

theorem direct_decimal_agrees_with_baseline:
  assumes "decimal_classify m row = Ok c" "decimal_payload c cell \<noteq> None"
  shows "\<exists>r. direct_decimal_cell (column_plan_from_mapping m (EncDecimal c)) c row cell = Some r
    \<and> mssql_decimal_value m row cell = map_ok (\<lambda>v. mssql_decimal_new v (target_scale c)) r"
proof -
  have no_uint64: "source_type m \<noteq> DtUInt64"
    using assms(1) [unfolded decimal_cls.classify_Ok]
    by (cases c) (auto simp: decimal_fits_def split: data_type.splits)
  note agree = normalized_decimal_agrees [of c m "EncDecimal c" row] decimal256_normalized [of c _ m "EncDecimal c" row]
  show ?thesis
    using assms no_uint64 agree
    by (cases c; cases cell)
      (auto simp: decimal_payload_def direct_decimal_cell_def mssql_decimal_value_def sint_scast_up)
qed

theorem direct_decimal_agrees_with_baseline_witness:
  "let m = example_mapping (DtDecimal32 5 (- 2)) (MsDecimal 7 0); c = FromDecimal32 7 0 (- 2) in
   \<exists>r. direct_decimal_cell (column_plan_from_mapping m (EncDecimal c)) c 3 (CellDecimal32 (- 12)) = Some r
     \<and> mssql_decimal_value m 3 (CellDecimal32 (- 12)) = map_ok (\<lambda>v. mssql_decimal_new v 0) r
     \<and> r = Ok (- 1200)"
proof -
  let ?m = "example_mapping (DtDecimal32 5 (- 2)) (MsDecimal 7 0)" and ?c = "FromDecimal32 7 0 (- 2)"
  have "decimal_classify ?m 3 = Ok ?c"
    by (simp add: decimal_classify_def decimal_target_def try_unsigned_def in_unsigned_def
        validate_scale_compatibility_def)
  with direct_decimal_agrees_with_baseline [of ?m 3 ?c "CellDecimal32 (- 12)"]
  show ?thesis
    by (simp add: decimal_payload_def Let_def direct_decimal_cell_def normalized_decimal_value_def
        direct_normalize_negative_scale_def checked_i128_def in_signed_def
        decimal_unscaled_fits_precision_def decimal_max_unscaled_def)
qed

end
