(* ===== verification/WireCells.thy ===== *)
theory WireCells
  imports CellConversion TdsValues TdsDecimal
begin

text \<open>
  The converted cells and their wire format: what the conversion of \<^verbatim>\<open>src/mssql/cell/from_arrow\<close>
  accepts, the encoders of \<^verbatim>\<open>src/write/direct/types\<close> accept too.
\<close>

subsection \<open>Converted values are valid\<close>

lemma date_value_valid: "mssql_date_value m row cell = Ok d \<Longrightarrow> valid_date d"
  by (cases cell) (auto simp: mssql_date_value_def result_simps mssql_date_from_arrow_date32_def Let_def
      time_constants mssql_date_new_def valid_date_def days_of_word simp del: of_int_add
      split: if_splits)

lemma time_from_i64_valid:
  "mssql_time_from_i64 m row v n scale = Ok t \<Longrightarrow> n \<le> 86400 * 10 ^ unat scale \<Longrightarrow> n \<le> 86400000000
    \<Longrightarrow> unat scale \<le> 7 \<Longrightarrow> valid_time t"
  using time_from_i64_Ok [of m row v n scale t] by (simp add: valid_time_def)

lemma time_from_nanoseconds_valid:
  "mssql_time_from_nanoseconds m row ns policy = Ok t \<Longrightarrow> valid_time t"
  using time_from_nanoseconds_Ok [of m row ns policy t] by (simp add: valid_time_def)

lemma time_value_valid: "mssql_time_value rm row cell = Ok t \<Longrightarrow> valid_time t"
  by (cases cell)
    (auto simp: mssql_time_value_def Let_def result_simps time_constants split: if_splits
      intro: time_from_i64_valid time_from_nanoseconds_valid)

lemma datetime2_at_scale_valid:
  assumes "mssql_datetime2_from_unix_epoch_100ns_ticks_at_scale m row ticks scale = Ok c"
    and "unat scale \<le> 7" "\<bar>ticks\<bar> \<le> 10 ^ 30"
  shows "valid_datetime2 c"
proof -
  have range: "instant_range ticks" using assms(3) by (simp add: instant_range_def)
  show ?thesis
    using datetime2_at_scale [OF assms(2) range, of m row] datetime2_accepted [OF assms(2) range, of m row]
      assms(1)
    by (auto split: if_splits)
qed

lemma datetime2_ticks_valid:
  assumes "mssql_datetime2_from_arrow_timestamp_ticks m row ticks = Ok c" "\<bar>ticks\<bar> \<le> 10 ^ 29"
  shows "valid_datetime2 c"
proof -
  from assms(1) obtain p where "unat p \<le> 7"
    and "mssql_datetime2_from_unix_epoch_100ns_ticks_at_scale m row ticks p = Ok c"
    by (auto simp: mssql_datetime2_from_arrow_timestamp_ticks_def target_datetime2_timestamp_scale_def
        time_constants word_le_nat_alt result_simps split: mssql_type.splits if_splits)
  with assms(2) datetime2_at_scale_valid show ?thesis by simp
qed

lemma date64_valid: "mssql_datetime2_from_arrow_date64 m row v = Ok c \<Longrightarrow> valid_datetime2 c"
proof -
  assume ok: "mssql_datetime2_from_arrow_date64 m row v = Ok c"
  define d t where "d = sint v div 86400000 + 719162" and "t = sint v mod 86400000"
  have t: "uint (word_of_int t :: u64) = t" "t < 86400000"
    by (auto simp: t_def in_unsigned_def intro!: uint_word_of_int_fits)
  have "0 \<le> d" "d \<le> 3652058"
    and "c = \<lparr>datetime2_date = \<lparr>date_days = word_of_int d\<rparr>,
      datetime2_time = \<lparr>time_increments = word_of_int t, time_scale = 3\<rparr>\<rparr>"
    using ok by (auto simp: mssql_datetime2_from_arrow_date64_def Let_def time_constants cell_new_defs
        d_def t_def simp del: of_int_add split: if_splits)
  with t days_of_word [of d] show ?thesis by (simp add: valid_datetime2_def valid_time_def)
qed

lemma datetime2_value_valid:
  assumes "mssql_datetime2_value db rm row cell = Ok c"
  shows "valid_datetime2 c"
proof -
  from assms obtain kind where kind: "datetime2_mapping_kind (rm_mapping rm) row = Ok kind"
    by (auto simp: mssql_datetime2_value_def Let_def result_simps)
  show ?thesis
    using assms kind
    by (cases kind; cases cell)
      (auto simp: mssql_datetime2_value_def Let_def result_simps time_constants
        mssql_datetime2_from_arrow_timestamp_second_def
        mssql_datetime2_from_arrow_timestamp_millisecond_def
        mssql_datetime2_from_arrow_timestamp_microsecond_def
        mssql_datetime2_from_arrow_timestamp_nanosecond_def
        dest: date64_valid datetime2_ticks_valid [OF _ timestamp_ticks_range]
          datetime2_ticks_valid [OF _ nanosecond_ticks_Ok(2)])
qed

lemma datetime_ticks_valid:
  assumes "mssql_datetime_from_unix_epoch_100ns_ticks m row ticks rounding = Ok c"
  shows "valid_datetime c"
  using assms
  by (auto simp: mssql_datetime_from_unix_epoch_100ns_ticks_def Let_def result_simps time_constants
      try_signed_Some try_unsigned_Some mssql_datetime_new_def valid_datetime_def split: if_splits)

lemma datetime_value_valid: "mssql_datetime_value db rm row cell = Ok c \<Longrightarrow> valid_datetime c"
  by (auto simp: mssql_datetime_value_def Let_def result_simps
      mssql_datetime_from_arrow_timestamp_second_def mssql_datetime_from_arrow_timestamp_millisecond_def
      mssql_datetime_from_arrow_timestamp_microsecond_def mssql_datetime_from_arrow_timestamp_nanosecond_def
      split: arrow_cell.splits dest: datetime_ticks_valid)

lemma datetimeoffset_utc_valid:
  assumes "mssql_datetimeoffset_from_utc_100ns_ticks m row utc off = Ok c" "\<bar>utc\<bar> \<le> 10 ^ 29" "\<bar>off\<bar> \<le> 840"
  shows "valid_datetimeoffset c"
  using datetimeoffset_spec [OF assms(2,3), of m row] assms
  by (auto simp: valid_datetimeoffset_def split: if_splits)

lemma resolved_offset_valid:
  assumes "timezone_resolution_from_metadata db m row tz = Ok resolution"
    and "offset_for_instant db resolution m row s n = Ok off"
    and "mssql_datetimeoffset_from_utc_100ns_ticks m row utc off = Ok c" "\<bar>utc\<bar> \<le> 10 ^ 29"
  shows "valid_datetimeoffset c"
  using datetimeoffset_utc_valid [OF assms(3,4)] offset_for_instant_Ok [OF assms(1,2)] by simp

lemma datetimeoffset_value_valid:
  assumes "mssql_datetimeoffset_value db rm row cell = Ok c"
  shows "valid_datetimeoffset c"
proof -
  from assms obtain cls tz where known: "temporal_classify (rm_mapping rm) row = Ok cls"
    "timestamp_timezone (rm_mapping rm) = Some tz"
    by (auto simp: mssql_datetimeoffset_value_def Let_def result_simps split: option.splits)
  show ?thesis
    using assms known
    by (cases cell)
      (auto simp: mssql_datetimeoffset_value_def Let_def result_simps time_constants
        mssql_datetimeoffset_from_arrow_timestamp_second_def
        mssql_datetimeoffset_from_arrow_timestamp_millisecond_def
        mssql_datetimeoffset_from_arrow_timestamp_microsecond_def
        mssql_datetimeoffset_from_arrow_timestamp_nanosecond_def
        split: if_splits
        dest: resolved_offset_valid [OF _ _ _ timestamp_ticks_range]
          resolved_offset_valid [OF _ _ _ nanosecond_ticks_Ok(2)])
qed

subsection \<open>Converted cells are encodable\<close>

text \<open>The wire cell of a temporal or decimal SQL Server cell; other cells have encoders of their
  own.\<close>

definition append_fixed_shape_cell :: "bytes \<Rightarrow> mssql_cell \<Rightarrow> error + bytes" where
  "append_fixed_shape_cell buf cell =
     (case cell of
        CDate v \<Rightarrow> append_cells append_date_cell append_null_temporal_cell [v] buf
      | CTime v \<Rightarrow> append_cells append_time_cell append_null_temporal_cell [v] buf
      | CDateTime v \<Rightarrow> append_cells append_datetime_cell append_null_temporal_cell [v] buf
      | CDateTime2 v \<Rightarrow> append_cells append_datetime2_cell append_null_temporal_cell [v] buf
      | CDateTimeOffset v \<Rightarrow> append_cells append_datetimeoffset_cell append_null_temporal_cell [v] buf
      | CDecimal v \<Rightarrow>
          append_cells append_decimal_cell append_null_decimal_cell [map_option dec_unscaled v] buf
      | _ \<Rightarrow> Ok buf)"

text \<open>C15: no accepted value is lost between conversion and encoding.
  Whatever Arrow cell the conversion turns into a decimal or temporal cell of any planned column,
  null or not, the wire encoder of that kind accepts it and only appends to the buffer: the
  checks of the encoders never reject a converted value.\<close>

theorem converted_cells_encodable:
  assumes "mssql_cell_from_arrow_cell db rm cell row = Ok out"
  shows "\<exists>bs. append_fixed_shape_cell buf out = Ok (buf @ bs)"
proof -
  have valid: "case out of
      CDate (Some v) \<Rightarrow> valid_date v | CTime (Some v) \<Rightarrow> valid_time v
    | CDateTime (Some v) \<Rightarrow> valid_datetime v | CDateTime2 (Some v) \<Rightarrow> valid_datetime2 v
    | CDateTimeOffset (Some v) \<Rightarrow> valid_datetimeoffset v | _ \<Rightarrow> True"
  proof (cases "cell = CellNull")
    case True
    with assms null_mssql_cell_Ok [of db "rm_mapping rm" row out] have "is_null_cell out"
      by (auto simp: mssql_cell_from_arrow_cell_def Let_def split: if_splits)
    then show ?thesis by (cases out) (simp_all add: is_null_cell_def)
  next
    case False
    show ?thesis
      using assms False variable_width_cell_type [of "rm_mapping rm" row _ cell out]
        primitive_cell_type [of "rm_mapping rm" row cell out]
      by (cases "target_type (rm_mapping rm)")
        (auto simp: mssql_cell_from_arrow_cell_def Let_def result_simps cell_has_type_def
          date_value_valid time_value_valid datetime_value_valid datetime2_value_valid
          datetimeoffset_value_valid split: mssql_cell.splits option.splits)
  qed
  have one: "\<exists>bs. append_cells f g [v] buf = Ok (buf @ bs)"
    if "cell_codec l w f g ok sh pay rd" "\<And>x. v = Some x \<Longrightarrow> ok x"
    for l w f g ok sh pay rd and v :: "'v option"
    using that unfolding cell_codec_def
    by (cases v) (simp_all add: append_cells_def)
  show ?thesis
    using valid
    by (cases out)
      (auto simp: append_fixed_shape_cell_def
        intro!: one [OF date_codec.cell_codec_axioms] one [OF time_codec.cell_codec_axioms]
          one [OF datetime_codec.cell_codec_axioms] one [OF datetime2_codec.cell_codec_axioms]
          one [OF datetimeoffset_codec.cell_codec_axioms] one [OF decimal_codec.cell_codec_axioms])
qed

theorem converted_cells_encodable_witness:
  "\<exists>out bs. mssql_cell_from_arrow_cell example_timezone_db
       (example_runtime DtDate32 MsDate RejectNon100ns) (CellDate32 (- 719162)) 5 = Ok out
     \<and> append_fixed_shape_cell [1, 2] out = Ok ([1, 2] @ bs)"
proof -
  let ?rm = "example_runtime DtDate32 MsDate RejectNon100ns"
  have "mssql_cell_from_arrow_cell example_timezone_db ?rm (CellDate32 (- 719162)) 5
      = Ok (CDate (Some \<lparr>date_days = 0\<rparr>))"
    by (simp add: mssql_cell_from_arrow_cell_def mssql_date_value_def temporal_classify_def
        mssql_date_from_arrow_date32_def time_constants mssql_date_new_def)
  from converted_cells_encodable [OF this, of "[1, 2]"] this show ?thesis by blast
qed

end
