(* ===== verification/RowLayout.thy ===== *)
theory RowLayout
  imports CellCodec
begin

text \<open>
  Row-major layout of a rows payload, \<^verbatim>\<open>src/write/direct/layout.rs\<close>, and the payload with its
  row tokens, \<^verbatim>\<open>src/write/direct/payload.rs\<close>. Both report failures as the same
  invalid-payload error.

  The matrix of cell lengths is row-major; the code indexes it without a check, so that a
  matrix shorter than the range of rows makes it panic. Both callers pass a complete matrix and
  the lemmas assume one.
\<close>

definition TDS_ROW_TOKEN :: u8 where "TDS_ROW_TOKEN = 0xD1"
definition ROW_TOKEN_LEN :: usize where "ROW_TOKEN_LEN = 1"

record cell_position =
  pos_row :: usize
  pos_column :: usize
  pos_offset :: usize
  pos_len :: usize

record row_layout =
  layout_row_token_offsets :: "usize list"
  layout_row_lengths :: "usize list"
  layout_cell_positions :: "cell_position list"
  layout_payload_len :: usize

subsection \<open>Validation\<close>

definition validate_row_span ::
    "usize list \<Rightarrow> usize list \<Rightarrow> usize \<Rightarrow> nat \<Rightarrow> unit \<Rightarrow> error + unit" where
  "validate_row_span row_token_offsets row_lengths payload_len index _ =
     and_then (ok_or invalid_payload
         (checked_usize (row_token_offsets ! index + row_lengths ! index))) (\<lambda>row_end.
       if row_end > payload_len then Err invalid_payload
       else if index + 1 < length row_token_offsets \<and> row_token_offsets ! (index + 1) \<noteq> row_end
       then Err invalid_payload
       else Ok ())"

definition validate_rows :: "usize list \<Rightarrow> usize list \<Rightarrow> usize \<Rightarrow> error + unit" where
  "validate_rows row_token_offsets row_lengths payload_len =
     (if length row_token_offsets \<noteq> length row_lengths then Err invalid_payload
      else if row_token_offsets = [] then (if payload_len = 0 then Ok () else Err invalid_payload)
      else if row_token_offsets ! 0 \<noteq> 0 then Err invalid_payload
      else
        and_then (for_each (validate_row_span row_token_offsets row_lengths payload_len)
                   [0..<length row_token_offsets] ()) (\<lambda>_.
        and_then (ok_or invalid_payload
            (checked_usize (last row_token_offsets + last row_lengths))) (\<lambda>last_end.
          if last_end \<noteq> payload_len then Err invalid_payload else Ok ())))"

definition validate_cell :: "usize \<Rightarrow> usize \<Rightarrow> cell_position \<Rightarrow> unit \<Rightarrow> error + unit" where
  "validate_cell row_count payload_len cell _ =
     (if pos_row cell \<ge> row_count then Err invalid_payload
      else
        and_then (ok_or invalid_payload (checked_usize (pos_offset cell + pos_len cell))) (\<lambda>cell_end.
          if cell_end > payload_len then Err invalid_payload else Ok ()))"

definition validate_cells :: "cell_position list \<Rightarrow> usize \<Rightarrow> usize \<Rightarrow> error + unit" where
  "validate_cells cell_positions row_count payload_len =
     for_each (validate_cell row_count payload_len) cell_positions ()"

definition row_layout_new ::
    "usize list \<Rightarrow> usize list \<Rightarrow> cell_position list \<Rightarrow> usize \<Rightarrow> error + row_layout" where
  "row_layout_new row_token_offsets row_lengths cell_positions payload_len =
     and_then (validate_rows row_token_offsets row_lengths payload_len) (\<lambda>_.
     and_then (validate_cells cell_positions (length row_token_offsets) payload_len) (\<lambda>_.
       Ok \<lparr>layout_row_token_offsets = row_token_offsets, layout_row_lengths = row_lengths,
           layout_cell_positions = cell_positions, layout_payload_len = payload_len\<rparr>))"

subsection \<open>Building a layout\<close>

definition layout_checked_add :: "usize \<Rightarrow> usize \<Rightarrow> error + usize" where
  "layout_checked_add lhs rhs = ok_or invalid_payload (checked_usize (lhs + rhs))"

definition layout_cell ::
    "usize \<Rightarrow> usize \<Rightarrow> usize list \<Rightarrow> usize \<Rightarrow> usize \<Rightarrow> cell_position list \<times> usize
      \<Rightarrow> error + (cell_position list \<times> usize)" where
  "layout_cell start_row column_count cell_lengths row_index column_index = (\<lambda>(cells, offset).
     let cell_len = cell_lengths ! (row_index * column_count + column_index) in
     and_then (layout_checked_add offset cell_len) (\<lambda>next.
       Ok (cells @ [\<lparr>pos_row = row_index - start_row, pos_column = column_index,
                     pos_offset = offset, pos_len = cell_len\<rparr>], next)))"

definition layout_row ::
    "usize \<Rightarrow> usize \<Rightarrow> usize list \<Rightarrow> usize
      \<Rightarrow> usize list \<times> usize list \<times> cell_position list \<times> usize
      \<Rightarrow> error + (usize list \<times> usize list \<times> cell_position list \<times> usize)" where
  "layout_row start_row column_count cell_lengths row_index = (\<lambda>(tokens, lengths, cells, row_offset).
     and_then (layout_checked_add row_offset ROW_TOKEN_LEN) (\<lambda>offset.
     and_then (for_each (layout_cell start_row column_count cell_lengths row_index)
                [0..<column_count] (cells, offset)) (\<lambda>(cells, offset).
       Ok (tokens @ [row_offset], lengths @ [offset - row_offset], cells, offset))))"

definition build_fixed_width_row_range_layout ::
    "usize \<Rightarrow> usize \<Rightarrow> usize \<Rightarrow> usize list \<Rightarrow> error + row_layout" where
  "build_fixed_width_row_range_layout start_row row_count column_count cell_lengths =
     and_then (ok_or invalid_payload (checked_usize (start_row + row_count))) (\<lambda>end_row.
     and_then (for_each (layout_row start_row column_count cell_lengths)
                [start_row..<end_row] ([], [], [], 0)) (\<lambda>(tokens, lengths, cells, offset).
       row_layout_new tokens lengths cells offset))"

definition build_fixed_width_row_layout :: "usize \<Rightarrow> usize \<Rightarrow> usize list \<Rightarrow> error + row_layout" where
  "build_fixed_width_row_layout row_count column_count cell_lengths =
     build_fixed_width_row_range_layout 0 row_count column_count cell_lengths"

definition allocate_rows_payload_with_tokens :: "row_layout \<Rightarrow> bytes" where
  "allocate_rows_payload_with_tokens layout =
     foldl (\<lambda>bs row_offset. bs[row_offset := TDS_ROW_TOKEN])
       (replicate (layout_payload_len layout) 0) (layout_row_token_offsets layout)"

subsection \<open>Encoded payloads\<close>

record encoded_rows_payload =
  payload_bytes :: bytes
  payload_row_token_offsets :: "usize list"

definition validate_row_token :: "bytes \<Rightarrow> usize \<Rightarrow> usize option \<Rightarrow> error + usize option" where
  "validate_row_token bs offset previous =
     (if offset \<ge> length bs then Err invalid_payload
      else if (case previous of Some p \<Rightarrow> offset \<le> p | None \<Rightarrow> False) then Err invalid_payload
      else if bs ! offset \<noteq> TDS_ROW_TOKEN then Err invalid_payload
      else Ok (Some offset))"

definition validate_row_token_offsets :: "bytes \<Rightarrow> usize list \<Rightarrow> error + unit" where
  "validate_row_token_offsets bs row_token_offsets =
     and_then (for_each (validate_row_token bs) row_token_offsets None) (\<lambda>_.
       if row_token_offsets = [] \<and> bs \<noteq> [] then Err invalid_payload else Ok ())"

definition encoded_rows_payload_new :: "bytes \<Rightarrow> usize list \<Rightarrow> error + encoded_rows_payload" where
  "encoded_rows_payload_new bs row_token_offsets =
     and_then (validate_row_token_offsets bs row_token_offsets) (\<lambda>_.
       Ok \<lparr>payload_bytes = bs, payload_row_token_offsets = row_token_offsets\<rparr>)"

subsection \<open>The layout of a matrix of lengths\<close>

text \<open>The abstract layout: rows follow one another, each a token byte and its cells in order.\<close>

primrec place_cells :: "usize \<Rightarrow> usize \<Rightarrow> usize \<Rightarrow> usize list \<Rightarrow> cell_position list" where
  "place_cells row column offset [] = []"
| "place_cells row column offset (n # ns) =
     \<lparr>pos_row = row, pos_column = column, pos_offset = offset, pos_len = n\<rparr>
       # place_cells row (column + 1) (offset + n) ns"

primrec place_rows :: "usize \<Rightarrow> usize \<Rightarrow> usize list list \<Rightarrow> cell_position list" where
  "place_rows row offset [] = []"
| "place_rows row offset (ns # rows) =
     place_cells row 0 (offset + 1) ns @ place_rows (row + 1) (offset + 1 + sum_list ns) rows"

primrec row_starts :: "usize \<Rightarrow> usize list list \<Rightarrow> usize list" where
  "row_starts offset [] = []"
| "row_starts offset (ns # rows) = offset # row_starts (offset + 1 + sum_list ns) rows"

definition row_size :: "usize list \<Rightarrow> usize" where
  "row_size ns = 1 + sum_list ns"

definition rows_size :: "usize list list \<Rightarrow> usize" where
  "rows_size rows = sum_list (map row_size rows)"

definition layout_of :: "usize list list \<Rightarrow> row_layout" where
  "layout_of rows =
     \<lparr>layout_row_token_offsets = row_starts 0 rows, layout_row_lengths = map row_size rows,
      layout_cell_positions = place_rows 0 0 rows, layout_payload_len = rows_size rows\<rparr>"

text \<open>The rows \<^term>\<open>r\<close>, \<^term>\<open>r + 1\<close>, ... of a row-major matrix.\<close>

definition matrix_row :: "usize \<Rightarrow> usize list \<Rightarrow> usize \<Rightarrow> usize list" where
  "matrix_row column_count cell_lengths row = take column_count (drop (row * column_count) cell_lengths)"

definition matrix_rows :: "usize \<Rightarrow> usize list \<Rightarrow> usize \<Rightarrow> usize \<Rightarrow> usize list list" where
  "matrix_rows column_count cell_lengths start_row row_count =
     map (matrix_row column_count cell_lengths) [start_row..<start_row + row_count]"

lemma rows_size_simps [simp]:
  "rows_size [] = 0" "rows_size (ns # rows) = 1 + sum_list ns + rows_size rows"
  by (simp_all add: rows_size_def row_size_def)

lemma length_row_starts [simp]: "length (row_starts offset rows) = length rows"
  by (induction rows arbitrary: offset) simp_all

lemma nth_row_starts:
  "i < length rows \<Longrightarrow> row_starts offset rows ! i = offset + rows_size (take i rows)"
  by (induction rows arbitrary: offset i) (auto simp: nth_Cons split: nat.split)

lemma matrix_row_nth:
  assumes "(row + 1) * column_count \<le> length cell_lengths"
  shows "matrix_row column_count cell_lengths row
    = map (\<lambda>c. cell_lengths ! (row * column_count + c)) [0..<column_count]"
  using assms by (intro nth_equalityI) (auto simp: matrix_row_def)

lemma layout_checked_add_eq:
  "layout_checked_add a b = (if a + b < 2 ^ 64 then Ok (a + b) else Err invalid_payload)"
  by (simp add: layout_checked_add_def checked_usize_def)

lemma layout_cell_step:
  "layout_cell start_row column_count cell_lengths row_index k (cells, offset) =
     (let n = cell_lengths ! (row_index * column_count + k) in
      if offset + n < 2 ^ 64
      then Ok (cells @ [\<lparr>pos_row = row_index - start_row, pos_column = k, pos_offset = offset,
                         pos_len = n\<rparr>], offset + n)
      else Err invalid_payload)"
  by (simp add: layout_cell_def layout_checked_add_eq Let_def)

lemma layout_cells:
  "offset < 2 ^ 64 \<Longrightarrow>
   for_each (layout_cell start_row column_count cell_lengths row_index) [k..<k + n] (cells, offset) =
     (let ns = map (\<lambda>c. cell_lengths ! (row_index * column_count + c)) [k..<k + n] in
      if offset + sum_list ns < 2 ^ 64
      then Ok (cells @ place_cells (row_index - start_row) k offset ns, offset + sum_list ns)
      else Err invalid_payload)"
proof (induction n arbitrary: k cells offset)
  case (Suc n)
  have upt: "[k..<k + Suc n] = k # [Suc k..<Suc k + n]" by (simp add: upt_conv_Cons)
  let ?n = "cell_lengths ! (row_index * column_count + k)"
  show ?case
  proof (cases "offset + ?n < 2 ^ 64")
    case True
    from Suc.IH [OF this, of "Suc k" "cells @ [\<lparr>pos_row = row_index - start_row, pos_column = k,
        pos_offset = offset, pos_len = ?n\<rparr>]"] True
    show ?thesis
      unfolding upt for_each.simps
      by (simp add: layout_cell_step Let_def add.assoc del: upt_Suc)
  qed (unfold upt for_each.simps, simp add: layout_cell_step Let_def)
qed simp

lemma layout_rows:
  assumes "(start + n) * column_count \<le> length cell_lengths" "offset < 2 ^ 64" "start_row \<le> start"
  shows "for_each (layout_row start_row column_count cell_lengths) [start..<start + n]
      (tokens, lengths, cells, offset) =
     (let rows = matrix_rows column_count cell_lengths start n in
      if offset + rows_size rows < 2 ^ 64
      then Ok (tokens @ row_starts offset rows, lengths @ map row_size rows,
               cells @ place_rows (start - start_row) offset rows, offset + rows_size rows)
      else Err invalid_payload)"
  using assms
proof (induction n arbitrary: start tokens lengths cells offset)
  case (Suc n)
  have upt: "[start..<start + Suc n] = start # [Suc start..<Suc start + n]"
    by (simp add: upt_conv_Cons)
  let ?ns = "matrix_row column_count cell_lengths start"
  have rows: "matrix_rows column_count cell_lengths start (Suc n)
      = ?ns # matrix_rows column_count cell_lengths (Suc start) n"
    by (simp add: matrix_rows_def upt_conv_Cons del: upt_Suc)
  have "(start + 1) * column_count \<le> (start + Suc n) * column_count" by (rule mult_right_mono) simp_all
  with Suc.prems(1) have ns: "?ns = map (\<lambda>c. cell_lengths ! (start * column_count + c)) [0..<column_count]"
    by (intro matrix_row_nth) linarith
  have step: "layout_row start_row column_count cell_lengths start (tokens, lengths, cells, offset) =
      (if offset + 1 + sum_list ?ns < 2 ^ 64
       then Ok (tokens @ [offset], lengths @ [row_size ?ns],
                cells @ place_cells (start - start_row) 0 (offset + 1) ?ns, offset + 1 + sum_list ?ns)
       else Err invalid_payload)"
  proof (cases "offset + 1 < 2 ^ 64")
    case True
    from layout_cells [OF this, of start_row column_count cell_lengths start 0 column_count cells]
    show ?thesis
      using True by (simp add: layout_row_def ROW_TOKEN_LEN_def layout_checked_add_eq ns [symmetric]
          Let_def row_size_def)
  qed (simp add: layout_row_def ROW_TOKEN_LEN_def layout_checked_add_eq)
  show ?case
  proof (cases "offset + 1 + sum_list ?ns < 2 ^ 64")
    case True
    have "(Suc start + n) * column_count \<le> length cell_lengths" using Suc.prems(1) by simp
    from Suc.IH [OF this True, of "tokens @ [offset]" "lengths @ [row_size ?ns]"
        "cells @ place_cells (start - start_row) 0 (offset + 1) ?ns"] Suc.prems(3) True
    show ?thesis
      unfolding upt for_each.simps step rows
      by (simp add: Let_def Suc_diff_le add.assoc del: upt_Suc)
  qed (unfold upt for_each.simps step rows, simp add: Let_def)
qed (simp add: matrix_rows_def)

subsection \<open>Layouts the builder makes are valid\<close>

lemma for_each_unit: "(\<And>x. x \<in> set xs \<Longrightarrow> body x () = Ok ()) \<Longrightarrow> for_each body xs () = Ok ()"
  by (induction xs) simp_all

lemma rows_size_take_Suc:
  "i < length rows \<Longrightarrow> rows_size (take (Suc i) rows) = rows_size (take i rows) + row_size (rows ! i)"
  by (simp add: rows_size_def take_Suc_conv_app_nth)

lemma rows_size_take_le: "rows_size (take i rows) \<le> rows_size rows"
  unfolding rows_size_def by (metis append_take_drop_id le_add1 map_append sum_list_append)

lemma validate_row_spans:
  assumes "rows_size rows < 2 ^ 64" "i < length rows"
  shows "validate_row_span (row_starts 0 rows) (map row_size rows) (rows_size rows) i () = Ok ()"
  using assms rows_size_take_Suc [OF assms(2)] rows_size_take_le [of "Suc i" rows]
  by (simp add: validate_row_span_def nth_row_starts checked_usize_def)

lemma row_starts_snoc: "row_starts offset (rows @ [ns]) = row_starts offset rows @ [offset + rows_size rows]"
  by (induction rows arbitrary: offset) simp_all

lemma validate_rows_layout:
  assumes "rows_size rows < 2 ^ 64"
  shows "validate_rows (row_starts 0 rows) (map row_size rows) (rows_size rows) = Ok ()"
proof (cases rows rule: rev_cases)
  case (snoc rows' ns)
  have "row_starts 0 rows ! 0 = 0" using nth_row_starts [of 0 rows 0] snoc by simp
  moreover have "last (row_starts 0 rows) + last (map row_size rows) = rows_size rows"
    by (simp add: snoc row_starts_snoc rows_size_def)
  moreover have "row_starts 0 rows \<noteq> []" by (simp add: snoc row_starts_snoc)
  moreover have "for_each (validate_row_span (row_starts 0 rows) (map row_size rows) (rows_size rows))
      [0..<length rows] () = Ok ()"
    by (rule for_each_unit) (simp add: validate_row_spans [OF assms])
  ultimately show ?thesis
    using assms by (simp add: validate_rows_def checked_usize_def)
qed (simp add: validate_rows_def)

lemma place_cells_bounds:
  "p \<in> set (place_cells row column offset ns) \<Longrightarrow>
     pos_row p = row \<and> offset \<le> pos_offset p \<and> pos_offset p + pos_len p \<le> offset + sum_list ns"
  by (induction ns arbitrary: column offset) force+

lemma place_rows_bounds:
  "p \<in> set (place_rows row offset rows) \<Longrightarrow>
     pos_row p < row + length rows \<and> offset < pos_offset p
     \<and> pos_offset p + pos_len p \<le> offset + rows_size rows"
proof (induction rows arbitrary: row offset)
  case (Cons ns rows)
  then consider "p \<in> set (place_cells row 0 (offset + 1) ns)"
    | "p \<in> set (place_rows (row + 1) (offset + 1 + sum_list ns) rows)" by auto
  then show ?case
  proof cases
    case 1
    from place_cells_bounds [OF this] show ?thesis by auto
  next
    case 2
    from Cons.IH [OF this] show ?thesis by auto
  qed
qed simp

lemma layout_of_valid:
  assumes "rows_size rows < 2 ^ 64"
  shows "row_layout_new (row_starts 0 rows) (map row_size rows) (place_rows 0 0 rows) (rows_size rows)
    = Ok (layout_of rows)"
proof -
  have "validate_cells (place_rows 0 0 rows) (length rows) (rows_size rows) = Ok ()"
    unfolding validate_cells_def
  proof (rule for_each_unit)
    fix p assume "p \<in> set (place_rows 0 0 rows)"
    from place_rows_bounds [OF this] assms show "validate_cell (length rows) (rows_size rows) p () = Ok ()"
      by (auto simp: validate_cell_def checked_usize_def)
  qed
  with validate_rows_layout [OF assms] show ?thesis by (simp add: row_layout_new_def layout_of_def)
qed

text \<open>The builder: the abstract layout of the matrix rows, or an error when a sum leaves 64 bits.\<close>

lemma build_layout:
  assumes "(start_row + row_count) * column_count \<le> length cell_lengths"
  shows "build_fixed_width_row_range_layout start_row row_count column_count cell_lengths =
    (let rows = matrix_rows column_count cell_lengths start_row row_count in
     if start_row + row_count < 2 ^ 64 \<and> rows_size rows < 2 ^ 64 then Ok (layout_of rows)
     else Err invalid_payload)"
  using layout_rows [OF assms, of 0 start_row "[]" "[]" "[]"]
    layout_of_valid [of "matrix_rows column_count cell_lengths start_row row_count"]
  by (simp add: build_fixed_width_row_range_layout_def checked_usize_def Let_def)

lemma length_place_cells [simp]: "length (place_cells row column offset ns) = length ns"
  by (induction ns arbitrary: column offset) simp_all

lemma place_cells_nth:
  "c < length ns \<Longrightarrow> place_cells row column offset ns ! c =
     \<lparr>pos_row = row, pos_column = column + c, pos_offset = offset + sum_list (take c ns),
      pos_len = ns ! c\<rparr>"
  by (induction ns arbitrary: column offset c) (auto simp: nth_Cons split: nat.split)

lemma length_place_rows: "length (place_rows row offset rows) = sum_list (map length rows)"
  by (induction rows arbitrary: row offset) simp_all

lemma place_rows_nth:
  assumes "\<forall>ns \<in> set rows. length ns = column_count" "r < length rows" "c < column_count"
  shows "place_rows row offset rows ! (r * column_count + c) =
    \<lparr>pos_row = row + r, pos_column = c,
     pos_offset = offset + rows_size (take r rows) + 1 + sum_list (take c (rows ! r)),
     pos_len = rows ! r ! c\<rparr>"
  using assms
proof (induction rows arbitrary: row offset r)
  case (Cons ns rows)
  show ?case
  proof (cases r)
    case 0
    with Cons.prems show ?thesis by (simp add: nth_append place_cells_nth)
  next
    case (Suc r')
    have "Suc r' * column_count + c = length ns + (r' * column_count + c)" using Cons.prems by simp
    with Suc Cons show ?thesis by (simp add: nth_append)
  qed
qed simp

text \<open>The rows of a complete matrix, and where each of its cells is placed.\<close>

lemma matrix_rows_nth:
  assumes "(start_row + row_count) * column_count \<le> length cell_lengths" "r < row_count"
  shows "matrix_rows column_count cell_lengths start_row row_count ! r
    = map (\<lambda>c. cell_lengths ! ((start_row + r) * column_count + c)) [0..<column_count]"
proof -
  have "(start_row + r + 1) * column_count \<le> (start_row + row_count) * column_count"
    using assms(2) by (intro mult_right_mono) simp_all
  with assms show ?thesis by (simp add: matrix_rows_def matrix_row_nth)
qed

lemma matrix_rows_shape:
  assumes "(start_row + row_count) * column_count \<le> length cell_lengths"
  shows "length (matrix_rows column_count cell_lengths start_row row_count) = row_count"
    and "\<forall>ns \<in> set (matrix_rows column_count cell_lengths start_row row_count). length ns = column_count"
proof -
  show len: "length (matrix_rows column_count cell_lengths start_row row_count) = row_count"
    by (simp add: matrix_rows_def)
  show "\<forall>ns \<in> set (matrix_rows column_count cell_lengths start_row row_count). length ns = column_count"
    using matrix_rows_nth [OF assms] len by (auto simp: in_set_conv_nth)
qed

lemma take_drop_concat:
  "\<forall>ns \<in> set rows. length ns = k \<Longrightarrow> r < length rows \<Longrightarrow> take k (drop (r * k) (concat rows)) = rows ! r"
proof (induction rows arbitrary: r)
  case (Cons ns rows)
  then show ?case by (cases r) simp_all
qed simp

lemma matrix_rows_concat:
  assumes "\<forall>ns \<in> set rows. length ns = column_count"
  shows "matrix_rows column_count (concat rows) 0 (length rows) = rows"
  using take_drop_concat [OF assms]
  by (intro nth_equalityI) (simp_all add: matrix_rows_def matrix_row_def)

text \<open>layout_places_cells: building the layout of a range of rows succeeds exactly when the
  range and the payload fit in 64 bits, and places every cell where the row-major wire format
  wants it. Row \<^verbatim>\<open>r\<close> then starts where the rows before it end; cell \<^verbatim>\<open>(r, c)\<close> is entry
  \<^verbatim>\<open>r * columns + c\<close> of the positions, has the measured length, and starts after the row token
  and the row's earlier cells. The layout's own validation never rejects it.\<close>

theorem layout_places_cells:
  assumes "(start_row + row_count) * column_count \<le> length cell_lengths"
  defines "len \<equiv> \<lambda>r c. cell_lengths ! ((start_row + r) * column_count + c)"
  defines "start \<equiv> \<lambda>r. \<Sum>r' < r. 1 + (\<Sum>c < column_count. len r' c)"
  shows "if start_row + row_count < 2 ^ 64 \<and> start row_count < 2 ^ 64
    then \<exists>layout. build_fixed_width_row_range_layout start_row row_count column_count cell_lengths = Ok layout
      \<and> layout_payload_len layout = start row_count
      \<and> layout_row_token_offsets layout = map start [0..<row_count]
      \<and> length (layout_cell_positions layout) = row_count * column_count
      \<and> (\<forall>r < row_count. \<forall>c < column_count.
          layout_cell_positions layout ! (r * column_count + c) =
            \<lparr>pos_row = r, pos_column = c, pos_offset = start r + 1 + (\<Sum>c' < c. len r c'),
             pos_len = len r c\<rparr>)
    else build_fixed_width_row_range_layout start_row row_count column_count cell_lengths
      = Err invalid_payload"
proof -
  let ?rows = "matrix_rows column_count cell_lengths start_row row_count"
  note shape = matrix_rows_shape [OF assms(1)] and nth = matrix_rows_nth [OF assms(1)]
  have sums: "sum_list (take c (?rows ! r)) = (\<Sum>c' < c. len r c')" if "r < row_count" "c \<le> column_count" for r c
    using that by (simp add: nth take_map len_def interv_sum_list_conv_sum_set_nat
        lessThan_atLeast0 del: upt_Suc)
  have sizes: "rows_size (take r ?rows) = start r" if "r \<le> row_count" for r
    using that
  proof (induction r)
    case (Suc r)
    then have "sum_list (?rows ! r) = (\<Sum>c < column_count. len r c)"
      using sums [of r column_count] shape by simp
    with Suc show ?case using shape rows_size_take_Suc [of r ?rows]
      by (simp add: start_def row_size_def)
  qed (simp add: start_def)
  have total: "rows_size ?rows = start row_count" using sizes [of row_count] shape by simp
  have "row_starts 0 ?rows = map start [0..<row_count]"
    using shape by (intro nth_equalityI) (simp_all add: nth_row_starts sizes)
  moreover have "length (place_rows 0 0 ?rows) = row_count * column_count"
    using shape by (simp add: length_place_rows cong: map_cong) (simp add: sum_list_triv)
  moreover have "place_rows 0 0 ?rows ! (r * column_count + c) =
      \<lparr>pos_row = r, pos_column = c, pos_offset = start r + 1 + (\<Sum>c' < c. len r c'), pos_len = len r c\<rparr>"
    if "r < row_count" "c < column_count" for r c
    using place_rows_nth [OF shape(2), of r c 0 0] that shape(1) sizes [of r] sums [of r c] nth [of r]
    by (simp add: len_def)
  ultimately show ?thesis
    unfolding build_layout [OF assms(1)] Let_def total by (auto simp: layout_of_def total)
qed

theorem layout_places_cells_witness:
  "\<exists>layout. build_fixed_width_row_range_layout 1 2 2 [9, 9, 3, 1, 5, 2] = Ok layout
     \<and> layout_row_token_offsets layout = [0, 5] \<and> layout_payload_len layout = 13
     \<and> pos_offset (layout_cell_positions layout ! 3) = 11"
proof -
  have sums: "(\<Sum>c < 2. f c) = f 0 + f 1" for f :: "nat \<Rightarrow> nat"
    by (simp add: numeral_2_eq_2)
  have one: "(\<Sum>c < 1. f c) = f 0" for f :: "nat \<Rightarrow> nat" by simp
  have two: "[0..<2] = [0, 1 :: nat]" by (simp add: numeral_2_eq_2)
  let ?ns = "[9, 9, 3, 1, 5, 2] :: nat list"
  from layout_places_cells [of 1 2 2 ?ns] obtain layout where
    "build_fixed_width_row_range_layout 1 2 2 ?ns = Ok layout"
    "layout_payload_len layout = 13" "layout_row_token_offsets layout = [0, 5]"
    and cells: "\<forall>r < 2. \<forall>c < 2. layout_cell_positions layout ! (r * 2 + c) =
      \<lparr>pos_row = r, pos_column = c,
       pos_offset = (\<Sum>r' < r. 1 + (\<Sum>c < 2. ?ns ! ((1 + r') * 2 + c))) + 1 + (\<Sum>c' < c. ?ns ! ((1 + r) * 2 + c')),
       pos_len = ?ns ! ((1 + r) * 2 + c)\<rparr>"
    by (auto simp: sums two)
  moreover from cells have "pos_offset (layout_cell_positions layout ! (1 * 2 + 1)) = 11"
    by (simp only: sums one) simp
  ultimately show ?thesis by (intro exI [of _ layout]) simp
qed

subsection \<open>Filling an allocated payload\<close>

text \<open>The payload a layout stands for: every row is its token and the bytes of its cells. The
  code fills the cells column by column; the result does not depend on the order.\<close>

definition rows_bytes :: "bytes list list \<Rightarrow> bytes" where
  "rows_bytes rows = concat (map (\<lambda>cells. TDS_ROW_TOKEN # concat cells) rows)"

abbreviation cell_sizes :: "bytes list list \<Rightarrow> usize list list" where
  "cell_sizes rows \<equiv> map (map length) rows"

definition fill_cells :: "(cell_position \<times> bytes) list \<Rightarrow> bytes \<Rightarrow> bytes" where
  "fill_cells writes bs = foldl (\<lambda>bs (p, content). splice bs (pos_offset p) content) bs writes"

text \<open>\<^term>\<open>bs\<close> agrees with \<^term>\<open>target\<close> on the positions \<^term>\<open>S\<close>.\<close>

definition agrees :: "bytes \<Rightarrow> nat set \<Rightarrow> bytes \<Rightarrow> bool" where
  "agrees target S bs \<longleftrightarrow> length bs = length target \<and> (\<forall>i \<in> S. i < length target \<longrightarrow> bs ! i = target ! i)"

text \<open>\<^term>\<open>content\<close> is what \<^term>\<open>target\<close> holds at the place of \<^term>\<open>p\<close>.\<close>

definition holds_at :: "bytes \<Rightarrow> cell_position \<Rightarrow> bytes \<Rightarrow> bool" where
  "holds_at target p content \<longleftrightarrow> pos_len p = length content
     \<and> pos_offset p + length content \<le> length target
     \<and> take (length content) (drop (pos_offset p) target) = content"

definition covered :: "cell_position \<Rightarrow> nat set" where
  "covered p = {pos_offset p..<pos_offset p + pos_len p}"

lemma agrees_splice:
  assumes "agrees target S bs" "holds_at target p content"
  shows "agrees target (S \<union> covered p) (splice bs (pos_offset p) content)"
proof -
  have "target ! i = content ! (i - pos_offset p)"
    if "pos_offset p \<le> i" "i < pos_offset p + length content" for i
  proof -
    have "take (length content) (drop (pos_offset p) target) = content"
      and "pos_offset p + length content \<le> length target"
      using assms(2) by (simp_all only: holds_at_def)
    moreover from this(2) that have
      "take (length content) (drop (pos_offset p) target) ! (i - pos_offset p) = target ! i" by simp
    ultimately show ?thesis by simp
  qed
  with assms show ?thesis
    by (auto simp: agrees_def holds_at_def covered_def nth_splice)
qed

lemma agrees_fill:
  assumes "agrees target S bs" "\<forall>(p, content) \<in> set writes. holds_at target p content"
  shows "agrees target (S \<union> (\<Union>w \<in> set writes. covered (fst w))) (fill_cells writes bs)"
  using assms
proof (induction writes arbitrary: S bs)
  case (Cons w writes)
  obtain p content where w: "w = (p, content)" by force
  with Cons.prems have "agrees target (S \<union> covered p) (splice bs (pos_offset p) content)"
    by (intro agrees_splice) simp_all
  from Cons.IH [OF this] Cons.prems w show ?case by (simp add: fill_cells_def Un_assoc)
qed (simp add: fill_cells_def)

lemma agrees_all: "agrees target S bs \<Longrightarrow> {..<length target} \<subseteq> S \<Longrightarrow> bs = target"
  by (intro nth_equalityI) (auto simp: agrees_def)

lemma agrees_tokens:
  assumes "agrees target S bs" "\<forall>t \<in> set tokens. t < length target \<and> target ! t = TDS_ROW_TOKEN"
  shows "agrees target (S \<union> set tokens) (foldl (\<lambda>bs t. bs[t := TDS_ROW_TOKEN]) bs tokens)"
  using assms
proof (induction tokens arbitrary: S bs)
  case (Cons t tokens)
  then have "agrees target (insert t S) (bs[t := TDS_ROW_TOKEN])"
    by (auto simp: agrees_def nth_list_update)
  from Cons.IH [OF this] Cons.prems show ?case by simp
qed simp

lemma rows_bytes_Cons: "rows_bytes (cells # rows) = TDS_ROW_TOKEN # concat cells @ rows_bytes rows"
  by (simp add: rows_bytes_def)

lemma length_rows_bytes: "length (rows_bytes rows) = rows_size (cell_sizes rows)"
  by (induction rows) (simp_all add: rows_bytes_def length_concat)

lemma holds_at_place_cells:
  "length pre = offset \<Longrightarrow>
   list_all2 (holds_at (pre @ concat cells @ post)) (place_cells row column offset (map length cells)) cells"
proof (induction cells arbitrary: pre offset column)
  case (Cons c cells)
  from Cons.IH [of "pre @ c" "offset + length c"] Cons.prems show ?case
    by (simp add: holds_at_def)
qed simp

lemma holds_at_place_rows:
  "length pre = offset \<Longrightarrow>
   list_all2 (holds_at (pre @ rows_bytes rows)) (place_rows row offset (cell_sizes rows)) (concat rows)"
proof (induction rows arbitrary: pre offset row)
  case (Cons cells rows)
  have "list_all2 (holds_at (pre @ rows_bytes (cells # rows)))
      (place_cells row 0 (offset + 1) (map length cells)) cells"
    using holds_at_place_cells [of "pre @ [TDS_ROW_TOKEN]" "offset + 1" cells "rows_bytes rows"] Cons.prems
    by (simp add: rows_bytes_Cons)
  moreover have "list_all2 (holds_at (pre @ rows_bytes (cells # rows)))
      (place_rows (row + 1) (offset + 1 + sum_list (map length cells)) (cell_sizes rows)) (concat rows)"
    using Cons.IH [of "pre @ TDS_ROW_TOKEN # concat cells"] Cons.prems
    by (simp add: rows_bytes_Cons length_concat)
  ultimately show ?case by (simp add: list_all2_appendI)
qed simp

lemma row_starts_tokens:
  "length pre = offset \<Longrightarrow> t \<in> set (row_starts offset (cell_sizes rows)) \<Longrightarrow>
     offset \<le> t \<and> t < length (pre @ rows_bytes rows) \<and> (pre @ rows_bytes rows) ! t = TDS_ROW_TOKEN"
proof (induction rows arbitrary: pre offset)
  case (Cons cells rows)
  have shift: "pre @ rows_bytes (cells # rows) = (pre @ TDS_ROW_TOKEN # concat cells) @ rows_bytes rows"
    by (simp add: rows_bytes_Cons)
  from Cons.prems(2) consider "t = offset"
    | "t \<in> set (row_starts (offset + 1 + sum_list (map length cells)) (cell_sizes rows))" by auto
  then show ?case
  proof cases
    case 1
    with Cons.prems show ?thesis by (simp add: rows_bytes_Cons nth_append)
  next
    case 2
    have "length (pre @ TDS_ROW_TOKEN # concat cells) = offset + 1 + sum_list (map length cells)"
      using Cons.prems(1) by (simp add: length_concat)
    from Cons.IH [OF this 2] show ?thesis unfolding shift by simp
  qed
qed simp

lemma place_cells_cover: "{offset..<offset + sum_list ns} \<subseteq> (\<Union>p \<in> set (place_cells row column offset ns). covered p)"
proof (induction ns arbitrary: column offset)
  case (Cons n ns)
  have "{offset..<offset + sum_list (n # ns)} \<subseteq> {offset..<offset + n} \<union> {offset + n..<offset + n + sum_list ns}"
    by auto
  with Cons [of "offset + n" "column + 1"] show ?case by (auto simp: covered_def)
qed simp

lemma place_rows_cover:
  "{offset..<offset + rows_size rows}
     \<subseteq> set (row_starts offset rows) \<union> (\<Union>p \<in> set (place_rows row offset rows). covered p)"
proof (induction rows arbitrary: row offset)
  case (Cons ns rows)
  have "{offset..<offset + rows_size (ns # rows)} \<subseteq> {offset} \<union> {offset + 1..<offset + 1 + sum_list ns}
      \<union> {offset + 1 + sum_list ns..<offset + 1 + sum_list ns + rows_size rows}"
    by auto
  with Cons [of "offset + 1 + sum_list ns" "row + 1"] place_cells_cover [of "offset + 1" ns row 0]
  show ?case by auto
qed simp

lemma filled_payload:
  assumes "set writes = set (zip (place_rows 0 0 (cell_sizes rows)) (concat rows))"
  shows "fill_cells writes (allocate_rows_payload_with_tokens (layout_of (cell_sizes rows))) = rows_bytes rows"
proof -
  let ?target = "rows_bytes rows" and ?cells = "place_rows 0 0 (cell_sizes rows)"
  have holds: "list_all2 (holds_at ?target) ?cells (concat rows)"
    using holds_at_place_rows [of "[]" 0 rows 0] by simp
  then have len: "length ?cells = length (concat rows)" by (rule list_all2_lengthD)
  have "agrees ?target {} (replicate (rows_size (cell_sizes rows)) 0)"
    by (simp add: agrees_def length_rows_bytes)
  from agrees_tokens [OF this, of "row_starts 0 (cell_sizes rows)"]
  have "agrees ?target (set (row_starts 0 (cell_sizes rows)))
      (allocate_rows_payload_with_tokens (layout_of (cell_sizes rows)))"
    using row_starts_tokens [of "[]" 0 _ rows]
    by (simp add: allocate_rows_payload_with_tokens_def layout_of_def)
  from agrees_fill [OF this, of writes] holds
  have "agrees ?target (set (row_starts 0 (cell_sizes rows)) \<union> (\<Union>w \<in> set writes. covered (fst w)))
      (fill_cells writes (allocate_rows_payload_with_tokens (layout_of (cell_sizes rows))))"
    unfolding assms by (auto simp: list_all2_iff)
  moreover have "(\<Union>w \<in> set writes. covered (fst w)) = (\<Union>p \<in> set ?cells. covered p)"
  proof -
    have "fst ` set writes = set ?cells"
      unfolding assms using len by (metis list.set_map map_fst_zip)
    then show ?thesis by (metis image_image)
  qed
  ultimately show ?thesis
    using place_rows_cover [of 0 "cell_sizes rows" 0]
    by (intro agrees_all) (auto simp: length_rows_bytes atLeast0LessThan)
qed

lemma row_starts_increasing:
  "t \<in> set (row_starts offset rows) \<Longrightarrow> offset \<le> t"
proof (induction rows arbitrary: offset)
  case (Cons ns rows)
  then show ?case by (auto dest: Cons.IH)
qed simp

lemma validate_tokens:
  assumes "\<forall>t \<in> set (row_starts offset sizes). t < length bs \<and> bs ! t = TDS_ROW_TOKEN"
    and "case previous of Some p \<Rightarrow> p < offset | None \<Rightarrow> True"
  shows "\<exists>r. for_each (validate_row_token bs) (row_starts offset sizes) previous = Ok r"
  using assms
proof (induction sizes arbitrary: offset previous)
  case (Cons ns sizes)
  then have "validate_row_token bs offset previous = Ok (Some offset)"
    by (auto simp: validate_row_token_def split: option.splits)
  with Cons.IH [of "offset + 1 + sum_list ns" "Some offset"] Cons.prems show ?case by simp
qed simp

lemma rows_payload_valid:
  "encoded_rows_payload_new (rows_bytes rows) (row_starts 0 (cell_sizes rows))
    = Ok \<lparr>payload_bytes = rows_bytes rows, payload_row_token_offsets = row_starts 0 (cell_sizes rows)\<rparr>"
proof -
  have "\<forall>t \<in> set (row_starts 0 (cell_sizes rows)). t < length (rows_bytes rows)
      \<and> rows_bytes rows ! t = TDS_ROW_TOKEN"
    using row_starts_tokens [of "[]" 0 _ rows] by simp
  from validate_tokens [OF this, of None] obtain r where
    "for_each (validate_row_token (rows_bytes rows)) (row_starts 0 (cell_sizes rows)) None = Ok r" by auto
  then show ?thesis
    by (cases rows) (simp_all add: encoded_rows_payload_new_def validate_row_token_offsets_def rows_bytes_def)
qed

text \<open>C14: filling the allocated payload gives the rows in wire order,
  whatever the order of the writes. For cells whose bytes have the measured lengths, the layout
  of those lengths, allocated with its row tokens and then written cell by cell in any order
  (the code goes column by column), holds exactly row after row, each the token 0xD1 and its
  cells in order; and the payload's validation of its row tokens accepts it.\<close>

theorem filled_layout_is_rows:
  assumes "rows_size (cell_sizes rows) < 2 ^ 64" "length rows < 2 ^ 64"
    and "\<forall>cells \<in> set rows. length cells = column_count"
    and "set writes = set (zip (place_rows 0 0 (cell_sizes rows)) (concat rows))"
  shows "\<exists>layout. build_fixed_width_row_layout (length rows) column_count (concat (cell_sizes rows)) = Ok layout
    \<and> layout_cell_positions layout = place_rows 0 0 (cell_sizes rows)
    \<and> fill_cells writes (allocate_rows_payload_with_tokens layout) = rows_bytes rows
    \<and> is_ok (encoded_rows_payload_new (rows_bytes rows) (layout_row_token_offsets layout))"
proof -
  have len: "length (concat (cell_sizes rows)) = length rows * column_count"
    using assms(3) by (induction rows) simp_all
  have "matrix_rows column_count (concat (cell_sizes rows)) 0 (length rows) = cell_sizes rows"
    using assms(3) matrix_rows_concat [of "cell_sizes rows" column_count] by simp
  with build_layout [of 0 "length rows" column_count "concat (cell_sizes rows)"] len assms(1,2)
  have "build_fixed_width_row_layout (length rows) column_count (concat (cell_sizes rows))
      = Ok (layout_of (cell_sizes rows))"
    by (simp add: build_fixed_width_row_layout_def Let_def)
  with filled_payload [OF assms(4)] rows_payload_valid [of rows] show ?thesis
    by (simp add: layout_of_def)
qed

theorem filled_layout_is_rows_witness:
  "let rows = [[[1], [2, 3]], [[0], [4]]];
       writes = [(\<lparr>pos_row = 0, pos_column = 0, pos_offset = 1, pos_len = 1\<rparr>, [1]),
                 (\<lparr>pos_row = 1, pos_column = 0, pos_offset = 5, pos_len = 1\<rparr>, [0]),
                 (\<lparr>pos_row = 0, pos_column = 1, pos_offset = 2, pos_len = 2\<rparr>, [2, 3]),
                 (\<lparr>pos_row = 1, pos_column = 1, pos_offset = 6, pos_len = 1\<rparr>, [4])] in
   \<exists>layout. build_fixed_width_row_layout 2 2 [1, 2, 1, 1] = Ok layout
     \<and> fill_cells writes (allocate_rows_payload_with_tokens layout) = [0xD1, 1, 2, 3, 0xD1, 0, 4]"
proof -
  let ?rows = "[[[1], [2, 3]], [[0], [4]]] :: bytes list list"
  let ?writes = "[(\<lparr>pos_row = 0, pos_column = 0, pos_offset = 1, pos_len = 1\<rparr>, [1]),
                 (\<lparr>pos_row = 1, pos_column = 0, pos_offset = 5, pos_len = 1\<rparr>, [0]),
                 (\<lparr>pos_row = 0, pos_column = 1, pos_offset = 2, pos_len = 2\<rparr>, [2, 3]),
                 (\<lparr>pos_row = 1, pos_column = 1, pos_offset = 6, pos_len = 1\<rparr>, [4])] :: (cell_position \<times> bytes) list"
  have swap: "set [a, b, c, d] = set [a, c, b, d]" for a b c d :: "cell_position \<times> bytes" by auto
  have "zip (place_rows 0 0 (cell_sizes ?rows)) (concat ?rows) =
     [(\<lparr>pos_row = 0, pos_column = 0, pos_offset = 1, pos_len = 1\<rparr>, [1]),
      (\<lparr>pos_row = 0, pos_column = 1, pos_offset = 2, pos_len = 2\<rparr>, [2, 3]),
      (\<lparr>pos_row = 1, pos_column = 0, pos_offset = 5, pos_len = 1\<rparr>, [0]),
      (\<lparr>pos_row = 1, pos_column = 1, pos_offset = 6, pos_len = 1\<rparr>, [4])]" by simp
  then have "set ?writes = set (zip (place_rows 0 0 (cell_sizes ?rows)) (concat ?rows))"
    by (simp only: swap)
  moreover have "rows_size (cell_sizes ?rows) < 2 ^ 64" "length ?rows < 2 ^ 64"
    "\<forall>cells \<in> set ?rows. length cells = 2" by simp_all
  ultimately obtain layout where
    layout: "build_fixed_width_row_layout (length ?rows) 2 (concat (cell_sizes ?rows)) = Ok layout"
    and filled: "fill_cells ?writes (allocate_rows_payload_with_tokens layout) = rows_bytes ?rows"
    using filled_layout_is_rows by blast
  have "length ?rows = 2" "concat (cell_sizes ?rows) = [1, 2, 1, 1]" by simp_all
  moreover have "rows_bytes ?rows = [0xD1, 1, 2, 3, 0xD1, 0, 4]"
    by (simp add: rows_bytes_def TDS_ROW_TOKEN_def)
  ultimately show ?thesis
    unfolding Let_def using layout filled by (intro exI [of _ layout] conjI) (simp_all only:)
qed

end
