(* ===== verification/Measure.thy ===== *)
theory Measure
  imports RowLayout
begin

text \<open>
  Measured batches, \<^verbatim>\<open>src/write/direct/measure.rs\<close>: the cell lengths of a batch, the lengths of
  its rows and of the whole payload, and the split of the rows into ranges capped by a byte
  limit. Every sum is a checked addition of the code.
\<close>

record measured_direct_batch =
  measured_row_count :: usize
  measured_column_count :: usize
  measured_cell_lengths :: "usize list"
  measured_row_lengths :: "usize list"
  measured_payload_len :: usize

record measured_row_range =
  range_start :: usize
  range_len :: usize

definition measured_empty :: "usize \<Rightarrow> measured_direct_batch" where
  "measured_empty column_count =
     \<lparr>measured_row_count = 0, measured_column_count = column_count, measured_cell_lengths = [],
      measured_row_lengths = [], measured_payload_len = 0\<rparr>"

text \<open>The inner loop of \<^verbatim>\<open>measure_row_lengths\<close>, over the cells of a row.\<close>

definition measure_row_length :: "usize \<Rightarrow> usize list \<Rightarrow> usize \<Rightarrow> error + usize" where
  "measure_row_length column_count cell_lengths row_index =
     for_each (\<lambda>column_index row_len.
         ok_or invalid_payload
           (checked_usize (row_len + cell_lengths ! (row_index * column_count + column_index))))
       [0..<column_count] 1"

definition measure_row_lengths :: "usize \<Rightarrow> usize \<Rightarrow> usize list \<Rightarrow> error + (usize list \<times> usize)" where
  "measure_row_lengths row_count column_count cell_lengths =
     for_each (\<lambda>row_index (row_lengths, payload_len).
         and_then (measure_row_length column_count cell_lengths row_index) (\<lambda>row_len.
         and_then (ok_or invalid_payload (checked_usize (payload_len + row_len))) (\<lambda>payload_len.
           Ok (row_lengths @ [row_len], payload_len))))
       [0..<row_count] ([], 0)"

definition measured_new :: "usize \<Rightarrow> usize \<Rightarrow> usize list \<Rightarrow> error + measured_direct_batch" where
  "measured_new row_count column_count cell_lengths =
     and_then (ok_or invalid_payload (checked_usize (row_count * column_count))) (\<lambda>expected.
       if length cell_lengths \<noteq> expected then Err invalid_payload
       else
         and_then (measure_row_lengths row_count column_count cell_lengths)
           (\<lambda>(row_lengths, payload_len).
             Ok \<lparr>measured_row_count = row_count, measured_column_count = column_count,
                 measured_cell_lengths = cell_lengths, measured_row_lengths = row_lengths,
                 measured_payload_len = payload_len\<rparr>))"

subsection \<open>Ranges of rows\<close>

definition row_range_step ::
    "usize \<Rightarrow> usize \<times> usize \<Rightarrow> measured_row_range list \<times> usize \<times> usize \<times> usize
      \<Rightarrow> error + (measured_row_range list \<times> usize \<times> usize \<times> usize)" where
  "row_range_step max_payload_bytes = (\<lambda>(row_index, row_len) (ranges, start, len, bytes).
     and_then (ok_or invalid_payload (checked_usize (bytes + row_len))) (\<lambda>next_bytes.
       if len > 0 \<and> next_bytes > max_payload_bytes
       then Ok (ranges @ [\<lparr>range_start = start, range_len = len\<rparr>], row_index, 0 + 1, row_len)
       else Ok (ranges, start, len + 1, next_bytes)))"

definition row_ranges :: "measured_direct_batch \<Rightarrow> usize \<Rightarrow> error + measured_row_range list" where
  "row_ranges m max_payload_bytes =
     (if max_payload_bytes = 0 then Err invalid_payload
      else
        and_then (for_each (row_range_step max_payload_bytes)
                   (List.enumerate 0 (measured_row_lengths m)) ([], 0, 0, 0))
          (\<lambda>(ranges, start, len, bytes).
            Ok (if len > 0 then ranges @ [\<lparr>range_start = start, range_len = len\<rparr>] else ranges)))"

definition check_range :: "measured_direct_batch \<Rightarrow> usize \<Rightarrow> usize \<Rightarrow> error + unit" where
  "check_range m start_row row_count =
     and_then (ok_or invalid_payload (checked_usize (start_row + row_count))) (\<lambda>end_row.
       if end_row > measured_row_count m then Err invalid_payload else Ok ())"

definition range_payload_len :: "measured_direct_batch \<Rightarrow> usize \<Rightarrow> usize \<Rightarrow> error + usize" where
  "range_payload_len m start_row row_count =
     and_then (check_range m start_row row_count) (\<lambda>_.
     and_then (ok_or invalid_payload (checked_usize (start_row + row_count))) (\<lambda>end_row.
       for_each (\<lambda>row_len total. ok_or invalid_payload (checked_usize (total + row_len)))
         (take (end_row - start_row) (drop start_row (measured_row_lengths m))) 0))"

definition measured_cell_len :: "measured_direct_batch \<Rightarrow> usize \<Rightarrow> usize \<Rightarrow> error + usize" where
  "measured_cell_len m row_index column_index =
     and_then (check_range m row_index 1) (\<lambda>_.
       if column_index \<ge> measured_column_count m then Err invalid_payload
       else
         and_then (ok_or invalid_payload
             (Option.bind (checked_usize (row_index * measured_column_count m))
                (\<lambda>base. checked_usize (base + column_index)))) (\<lambda>index.
           ok_or invalid_payload
             (if index < length (measured_cell_lengths m)
              then Some (measured_cell_lengths m ! index) else None)))"

definition range_layout :: "measured_direct_batch \<Rightarrow> usize \<Rightarrow> usize \<Rightarrow> error + row_layout" where
  "range_layout m start_row row_count =
     and_then (check_range m start_row row_count) (\<lambda>_.
       build_fixed_width_row_range_layout start_row row_count (measured_column_count m)
         (measured_cell_lengths m))"

subsection \<open>Checked sums\<close>

lemma for_each_checked_sum:
  "s < 2 ^ 64 \<Longrightarrow>
   for_each (\<lambda>x total. ok_or invalid_payload (checked_usize (total + f x))) xs s =
     (if s + sum_list (map f xs) < 2 ^ 64 then Ok (s + sum_list (map f xs)) else Err invalid_payload)"
proof (induction xs arbitrary: s)
  case (Cons x xs)
  then show ?case
    by (cases "s + f x < 2 ^ 64") (simp_all add: checked_usize_def add.assoc)
qed simp

lemma measure_row_length_eq:
  assumes "(row + 1) * column_count \<le> length cell_lengths"
  shows "measure_row_length column_count cell_lengths row =
    (let n = row_size (matrix_row column_count cell_lengths row) in
     if n < 2 ^ 64 then Ok n else Err invalid_payload)"
  unfolding measure_row_length_def
  by (subst for_each_checked_sum) (simp_all add: matrix_row_nth [OF assms] row_size_def Let_def)

lemma measure_rows_loop:
  assumes "(start + n) * column_count \<le> length cell_lengths" "payload < 2 ^ 64"
  shows "for_each (\<lambda>row_index (row_lengths, payload_len).
         and_then (measure_row_length column_count cell_lengths row_index) (\<lambda>row_len.
         and_then (ok_or invalid_payload (checked_usize (payload_len + row_len))) (\<lambda>payload_len.
           Ok (row_lengths @ [row_len], payload_len))))
       [start..<start + n] (lengths, payload) =
    (let rows = matrix_rows column_count cell_lengths start n in
     if payload + rows_size rows < 2 ^ 64
     then Ok (lengths @ map row_size rows, payload + rows_size rows) else Err invalid_payload)"
  using assms
proof (induction n arbitrary: start lengths payload)
  case (Suc n)
  have upt: "[start..<start + Suc n] = start # [Suc start..<Suc start + n]"
    by (simp add: upt_conv_Cons)
  let ?ns = "matrix_row column_count cell_lengths start"
  have rows: "matrix_rows column_count cell_lengths start (Suc n)
      = ?ns # matrix_rows column_count cell_lengths (Suc start) n"
    by (simp add: matrix_rows_def upt_conv_Cons del: upt_Suc)
  have "(start + 1) * column_count \<le> (start + Suc n) * column_count" by (rule mult_right_mono) simp_all
  with Suc.prems(1) have ns: "(start + 1) * column_count \<le> length cell_lengths" by linarith
  have rest: "(Suc start + n) * column_count \<le> length cell_lengths" using Suc.prems(1) by simp
  note step = measure_row_length_eq [OF ns, unfolded Let_def]
  show ?case
  proof (cases "payload + row_size ?ns < 2 ^ 64")
    case True
    from Suc.IH [OF rest this, of "lengths @ [row_size ?ns]"] True
    show ?thesis
      unfolding upt for_each.simps step rows
      by (simp add: Let_def checked_usize_def row_size_def add.assoc del: upt_Suc)
  next
    case False
    then show ?thesis
      unfolding upt for_each.simps step rows
      by (simp add: Let_def checked_usize_def row_size_def del: upt_Suc)
  qed
qed (simp add: matrix_rows_def)

lemma concat_matrix_rows:
  "concat (matrix_rows column_count cell_lengths start n)
     = take (n * column_count) (drop (start * column_count) cell_lengths)"
proof (induction n arbitrary: start)
  case (Suc n)
  have "matrix_rows column_count cell_lengths start (Suc n)
      = matrix_row column_count cell_lengths start # matrix_rows column_count cell_lengths (Suc start) n"
    by (simp add: matrix_rows_def upt_conv_Cons del: upt_Suc)
  with Suc [of "Suc start"] show ?case
    by (simp add: matrix_row_def take_add add.commute drop_drop)
qed (simp add: matrix_rows_def)

text \<open>What measuring yields: the sizes of the matrix rows, when the matrix is complete and the
  payload fits in 64 bits.\<close>

lemma measured_new_eq:
  "measured_new row_count column_count cell_lengths =
    (let rows = matrix_rows column_count cell_lengths 0 row_count in
     if row_count * column_count < 2 ^ 64 \<and> length cell_lengths = row_count * column_count
       \<and> rows_size rows < 2 ^ 64
     then Ok \<lparr>measured_row_count = row_count, measured_column_count = column_count,
              measured_cell_lengths = cell_lengths, measured_row_lengths = map row_size rows,
              measured_payload_len = rows_size rows\<rparr>
     else Err invalid_payload)"
proof (cases "row_count * column_count < 2 ^ 64 \<and> length cell_lengths = row_count * column_count")
  case True
  then have "(0 + row_count) * column_count \<le> length cell_lengths" by simp
  from measure_rows_loop [OF this, of 0 "[]"] True show ?thesis
    by (simp add: measured_new_def measure_row_lengths_def checked_usize_def Let_def)
qed (auto simp: measured_new_def checked_usize_def Let_def)

definition valid_measured :: "measured_direct_batch \<Rightarrow> bool" where
  "valid_measured m \<longleftrightarrow>
     measured_new (measured_row_count m) (measured_column_count m) (measured_cell_lengths m) = Ok m"

abbreviation measured_rows :: "measured_direct_batch \<Rightarrow> usize list list" where
  "measured_rows m \<equiv>
     matrix_rows (measured_column_count m) (measured_cell_lengths m) 0 (measured_row_count m)"

lemma measured_new_valid: "measured_new r c ls = Ok m \<Longrightarrow> valid_measured m
    \<and> measured_row_count m = r \<and> measured_column_count m = c \<and> measured_cell_lengths m = ls"
  unfolding valid_measured_def by (auto simp: measured_new_eq Let_def split: if_splits)

lemma measured_empty_valid: "valid_measured (measured_empty c)"
  by (simp add: valid_measured_def measured_empty_def measured_new_eq matrix_rows_def)

lemma valid_measuredD:
  assumes "valid_measured m"
  shows "length (measured_cell_lengths m) = measured_row_count m * measured_column_count m"
    and "measured_row_count m * measured_column_count m < 2 ^ 64"
    and "measured_row_lengths m = map row_size (measured_rows m)"
    and "measured_payload_len m = rows_size (measured_rows m)" "measured_payload_len m < 2 ^ 64"
    and "length (measured_row_lengths m) = measured_row_count m"
    and "measured_row_count m < 2 ^ 64"
proof -
  let ?n = "\<lparr>measured_row_count = measured_row_count m, measured_column_count = measured_column_count m,
      measured_cell_lengths = measured_cell_lengths m,
      measured_row_lengths = map row_size (measured_rows m),
      measured_payload_len = rows_size (measured_rows m)\<rparr>"
  have bounds: "length (measured_cell_lengths m) = measured_row_count m * measured_column_count m
      \<and> measured_row_count m * measured_column_count m < 2 ^ 64 \<and> rows_size (measured_rows m) < 2 ^ 64"
    and m: "?n = m"
    using assms unfolding valid_measured_def measured_new_eq Let_def by (auto split: if_splits)
  from bounds show "length (measured_cell_lengths m) = measured_row_count m * measured_column_count m"
    "measured_row_count m * measured_column_count m < 2 ^ 64" by simp_all
  from arg_cong [OF m, of measured_row_lengths]
  show shape: "measured_row_lengths m = map row_size (measured_rows m)" by simp
  from arg_cong [OF m, of measured_payload_len]
  show len: "measured_payload_len m = rows_size (measured_rows m)" by simp
  with bounds show small: "measured_payload_len m < 2 ^ 64" by simp
  have n: "length (measured_rows m) = measured_row_count m" by (simp add: matrix_rows_def)
  with shape show "length (measured_row_lengths m) = measured_row_count m" by simp
  have "length rows \<le> rows_size rows" for rows by (induction rows) simp_all
  from this [of "measured_rows m"] len small n show "measured_row_count m < 2 ^ 64" by linarith
qed

subsection \<open>The ranges a limit gives\<close>

text \<open>The rows of a range, and what holds of the ranges collected so far.\<close>

definition range_rows :: "measured_row_range \<Rightarrow> usize list" where
  "range_rows r = [range_start r..<range_start r + range_len r]"

definition range_bytes :: "usize list \<Rightarrow> measured_row_range \<Rightarrow> usize" where
  "range_bytes ls r = sum_list (take (range_len r) (drop (range_start r) ls))"

definition capped :: "usize \<Rightarrow> usize list \<Rightarrow> measured_row_range \<Rightarrow> bool" where
  "capped cap ls r \<longleftrightarrow> 0 < range_len r \<and> (range_bytes ls r \<le> cap \<or> range_len r = 1)"

definition full :: "usize \<Rightarrow> usize list \<Rightarrow> measured_row_range \<Rightarrow> bool" where
  "full cap ls r \<longleftrightarrow> cap < range_bytes ls r + ls ! (range_start r + range_len r)"

text \<open>After \<^verbatim>\<open>k\<close> rows: the open range ends at \<^verbatim>\<open>k\<close>, its bytes are counted, the closed ranges
  cover the rows before it, and each of them could not have taken its next row.\<close>

definition ranges_invariant ::
    "usize \<Rightarrow> usize list \<Rightarrow> nat \<Rightarrow> measured_row_range list \<times> usize \<times> usize \<times> usize \<Rightarrow> bool" where
  "ranges_invariant cap ls k = (\<lambda>(ranges, start, len, bytes).
     k = start + len \<and> (k = 0 \<longleftrightarrow> len = 0)
     \<and> bytes = range_bytes ls \<lparr>range_start = start, range_len = len\<rparr>
     \<and> (0 < len \<longrightarrow> capped cap ls \<lparr>range_start = start, range_len = len\<rparr>)
     \<and> concat (map range_rows ranges) = [0..<start]
     \<and> (\<forall>r \<in> set ranges. capped cap ls r \<and> full cap ls r))"

lemma range_bytes_Suc:
  "s + n < length ls \<Longrightarrow> range_bytes ls \<lparr>range_start = s, range_len = Suc n\<rparr>
     = range_bytes ls \<lparr>range_start = s, range_len = n\<rparr> + ls ! (s + n)"
  by (simp add: range_bytes_def take_Suc_conv_app_nth)

lemma range_bytes_le: "range_bytes ls r \<le> sum_list ls"
proof -
  have "sum_list ls = sum_list (take (range_start r) ls) + (range_bytes ls r
      + sum_list (drop (range_len r) (drop (range_start r) ls)))"
    unfolding range_bytes_def by (metis append_take_drop_id sum_list_append)
  then show ?thesis by simp
qed

lemma range_rows_snoc: "[0..<s] @ [s..<s + n] = [0..<s + n]"
  by (metis le_add1 upt_add_eq_append zero_le)

lemma row_range_step_invariant:
  assumes inv: "ranges_invariant cap ls k st" and k: "k < length ls" and total: "sum_list ls < 2 ^ 64"
  shows "\<exists>st'. row_range_step cap (k, ls ! k) st = Ok st' \<and> ranges_invariant cap ls (Suc k) st'"
proof -
  obtain ranges start len bytes where st: "st = (ranges, start, len, bytes)" by (cases st)
  from inv st have k_eq: "k = start + len" and zero: "k = 0 \<longleftrightarrow> len = 0"
    and bytes: "bytes = range_bytes ls \<lparr>range_start = start, range_len = len\<rparr>"
    and cap: "0 < len \<longrightarrow> capped cap ls \<lparr>range_start = start, range_len = len\<rparr>"
    and rows: "concat (map range_rows ranges) = [0..<start]"
    and old: "\<forall>r \<in> set ranges. capped cap ls r \<and> full cap ls r"
    by (auto simp: ranges_invariant_def)
  from k have next_bytes: "bytes + ls ! k = range_bytes ls \<lparr>range_start = start, range_len = Suc len\<rparr>"
    by (simp add: bytes k_eq range_bytes_Suc)
  with range_bytes_le [of ls "\<lparr>range_start = start, range_len = Suc len\<rparr>"] total
  have fits: "bytes + ls ! k < 2 ^ 64" by simp
  show ?thesis
  proof (cases "len > 0 \<and> bytes + ls ! k > cap")
    case True
    then have "full cap ls \<lparr>range_start = start, range_len = len\<rparr>"
      by (simp add: full_def bytes k_eq)
    moreover have "range_bytes ls \<lparr>range_start = k, range_len = Suc 0\<rparr> = ls ! k"
      using range_bytes_Suc [of k 0 ls] k by (simp add: range_bytes_def)
    ultimately show ?thesis
      using True cap rows old fits k_eq
      by (simp add: row_range_step_def st checked_usize_def ranges_invariant_def capped_def
          range_rows_snoc) (simp add: range_rows_def range_rows_snoc)
  next
    case False
    with fits next_bytes cap rows old k_eq zero show ?thesis
      by (auto simp: row_range_step_def st checked_usize_def ranges_invariant_def capped_def)
  qed
qed

lemma row_ranges_loop:
  assumes "ranges_invariant cap ls k st" "k + length rest = length ls" "drop k ls = rest"
    and "sum_list ls < 2 ^ 64"
  shows "\<exists>st'. for_each (row_range_step cap) (List.enumerate k rest) st = Ok st'
    \<and> ranges_invariant cap ls (length ls) st'"
  using assms
proof (induction rest arbitrary: k st)
  case (Cons x rest)
  from Cons.prems have "k < length ls" "ls ! k = x" "drop (Suc k) ls = rest"
    by (simp_all add: nth_via_drop) (metis drop_Suc list.sel(3) tl_drop)
  with row_range_step_invariant [OF Cons.prems(1)] Cons.prems(4) obtain st' where
    "row_range_step cap (k, x) st = Ok st'" "ranges_invariant cap ls (Suc k) st'" by auto
  with Cons.IH [of "Suc k" st'] Cons.prems(2,4) \<open>drop (Suc k) ls = rest\<close> show ?case by simp
qed auto

lemma full_before_last:
  assumes "\<forall>r \<in> set rs. full cap ls r" "Suc i < length (rs @ [r])"
  shows "full cap ls ((rs @ [r]) ! i)"
  using assms by (simp add: nth_append)

lemma upt_parts:
  assumes "xs @ ys @ zs @ ws = [0..<n]" "a \<in> set ys" "b \<in> set zs"
  shows "a < b \<and> b < n"
proof -
  have "sorted (xs @ ys @ zs @ ws)" "distinct (xs @ ys @ zs @ ws)" unfolding assms(1) by simp_all
  with assms(2,3) have "a \<le> b" "a \<noteq> b" by (auto simp: sorted_append)
  moreover have "b \<in> set [0..<n]" using assms(3) unfolding assms(1) [symmetric] by simp
  ultimately show ?thesis by simp
qed

lemma row_ranges_spec:
  assumes "valid_measured m" "0 < cap"
  shows "\<exists>ranges. row_ranges m cap = Ok ranges
    \<and> concat (map range_rows ranges) = [0..<measured_row_count m]
    \<and> (\<forall>r \<in> set ranges. capped cap (measured_row_lengths m) r)
    \<and> (\<forall>i. Suc i < length ranges \<longrightarrow> full cap (measured_row_lengths m) (ranges ! i))"
proof -
  let ?ls = "measured_row_lengths m"
  note m = valid_measuredD [OF assms(1)]
  have "sum_list ?ls < 2 ^ 64" using m(3,4,5) by (simp add: rows_size_def)
  moreover have "ranges_invariant cap ?ls 0 ([], 0, 0, 0)"
    by (simp add: ranges_invariant_def range_bytes_def)
  ultimately obtain ranges start len bytes where
    loop: "for_each (row_range_step cap) (List.enumerate 0 ?ls) ([], 0, 0, 0) = Ok (ranges, start, len, bytes)"
    and inv: "ranges_invariant cap ?ls (length ?ls) (ranges, start, len, bytes)"
    using row_ranges_loop [of cap ?ls 0 "([], 0, 0, 0)" ?ls] by auto
  let ?last = "\<lparr>range_start = start, range_len = len\<rparr>"
  from inv have k: "length ?ls = start + len" "length ?ls = 0 \<longleftrightarrow> len = 0"
    and last: "0 < len \<longrightarrow> capped cap ?ls ?last"
    and rows: "concat (map range_rows ranges) = [0..<start]"
    and old: "\<forall>r \<in> set ranges. capped cap ?ls r \<and> full cap ?ls r"
    by (auto simp: ranges_invariant_def)
  show ?thesis
  proof (cases "0 < len")
    case True
    moreover have "full cap ?ls ((ranges @ [?last]) ! i)" if "Suc i < length (ranges @ [?last])" for i
      using old that by (intro full_before_last) auto
    moreover have "concat (map range_rows (ranges @ [?last])) = [0..<measured_row_count m]"
      using rows k(1) m(6) by (simp add: range_rows_def range_rows_snoc)
    ultimately show ?thesis
      using assms(2) last old by (intro exI [of _ "ranges @ [?last]"]) (auto simp: row_ranges_def loop)
  next
    case False
    with k rows have none: "concat (map range_rows ranges) = []" by simp
    have "ranges = []"
    proof (rule ccontr)
      assume "ranges \<noteq> []"
      then obtain r where "r \<in> set ranges" by (cases ranges) auto
      with old none have "0 < range_len r" "range_rows r = []" by (auto simp: capped_def)
      then show False by (simp add: range_rows_def)
    qed
    with False show ?thesis
      using assms(2) k m(6) by (intro exI [of _ ranges]) (simp add: row_ranges_def loop)
  qed
qed

lemma check_range_eq:
  "measured_row_count m < 2 ^ 64 \<Longrightarrow>
   check_range m s n = (if s + n \<le> measured_row_count m then Ok () else Err invalid_payload)"
  by (simp add: check_range_def checked_usize_def)

lemma range_payload_len_eq:
  assumes "valid_measured m"
  shows "range_payload_len m s n =
    (if s + n \<le> measured_row_count m
     then Ok (range_bytes (measured_row_lengths m) \<lparr>range_start = s, range_len = n\<rparr>)
     else Err invalid_payload)"
proof -
  note m = valid_measuredD [OF assms]
  have small: "sum_list (take n (drop s (measured_row_lengths m))) < 2 ^ 64"
    using range_bytes_le [of "measured_row_lengths m" "\<lparr>range_start = s, range_len = n\<rparr>"] m(3,4,5)
    by (simp add: range_bytes_def rows_size_def)
  show ?thesis
    using small m(7) for_each_checked_sum [of 0 "\<lambda>x. x" "take n (drop s (measured_row_lengths m))"]
    by (simp add: range_payload_len_def check_range_eq checked_usize_def range_bytes_def)
qed

lemma measured_matrix_rows:
  assumes "valid_measured m" "s + n \<le> measured_row_count m"
  shows "matrix_rows (measured_column_count m) (measured_cell_lengths m) s n
    = take n (drop s (measured_rows m))"
  using assms(2) by (simp add: matrix_rows_def drop_map take_map take_upt)

lemma range_layout_eq:
  assumes "valid_measured m"
  shows "range_layout m s n =
    (if s + n \<le> measured_row_count m then Ok (layout_of (take n (drop s (measured_rows m))))
     else Err invalid_payload)"
proof (cases "s + n \<le> measured_row_count m")
  case True
  note m = valid_measuredD [OF assms] and rows = measured_matrix_rows [OF assms True]
  have "(s + n) * measured_column_count m \<le> length (measured_cell_lengths m)"
    using True m(1) by (simp add: mult_right_mono)
  note build = build_layout [OF this, unfolded rows]
  have "rows_size (take n (drop s (measured_rows m))) < 2 ^ 64"
    using range_bytes_le [of "measured_row_lengths m" "\<lparr>range_start = s, range_len = n\<rparr>"] m(3,4,5)
    by (simp add: range_bytes_def rows_size_def take_map drop_map)
  with build True m(7) show ?thesis
    by (simp add: range_layout_def check_range_eq Let_def)
next
  case False
  with valid_measuredD(7) [OF assms] show ?thesis by (simp add: range_layout_def check_range_eq)
qed

lemma measured_cell_len_eq:
  assumes "valid_measured m" "r < measured_row_count m" "c < measured_column_count m"
  shows "measured_cell_len m r c = Ok (measured_rows m ! r ! c)"
proof -
  note m = valid_measuredD [OF assms(1)]
  let ?cc = "measured_column_count m"
  have "r * ?cc + c < (r + 1) * ?cc" using assms(3) by simp
  also have "\<dots> \<le> measured_row_count m * ?cc" using assms(2) by (intro mult_right_mono) simp_all
  finally have i: "r * ?cc + c < measured_row_count m * ?cc" .
  have "measured_rows m ! r = map (\<lambda>c. measured_cell_lengths m ! (r * ?cc + c)) [0..<?cc]"
    using matrix_rows_nth [of 0 "measured_row_count m" ?cc "measured_cell_lengths m" r] m(1) assms(2)
    by simp
  with i m(1,2,7) assms show ?thesis
    by (simp add: measured_cell_len_def check_range_eq checked_usize_def)
qed

text \<open>C32: the chunks of a batch are its rows, in order, as few as the cap
  lets a greedy split be. For every measured batch and positive limit the split succeeds; the
  ranges, one after the other, list every row exactly once; each has at least one row and stays
  within the limit unless it is a single row; and no range but the last could have taken the
  next row.\<close>

theorem row_ranges_partition:
  assumes "measured_new row_count column_count cell_lengths = Ok m" "0 < cap"
  shows "\<exists>ranges. row_ranges m cap = Ok ranges
    \<and> concat (map (\<lambda>r. [range_start r..<range_start r + range_len r]) ranges) = [0..<row_count]
    \<and> (\<forall>r \<in> set ranges. 0 < range_len r
        \<and> (\<exists>n. range_payload_len m (range_start r) (range_len r) = Ok n \<and> (n \<le> cap \<or> range_len r = 1)))
    \<and> (\<forall>i. Suc i < length ranges \<longrightarrow>
        (\<exists>n. range_payload_len m (range_start (ranges ! i)) (range_len (ranges ! i) + 1) = Ok n \<and> cap < n))"
proof -
  from measured_new_valid [OF assms(1)] have m: "valid_measured m" "measured_row_count m = row_count" by auto
  from row_ranges_spec [OF m(1) assms(2)] obtain ranges where
    ranges: "row_ranges m cap = Ok ranges"
    and rows: "concat (map range_rows ranges) = [0..<row_count]"
    and cap: "\<forall>r \<in> set ranges. capped cap (measured_row_lengths m) r"
    and full: "\<forall>i. Suc i < length ranges \<longrightarrow> full cap (measured_row_lengths m) (ranges ! i)"
    using m(2) by auto
  have inside: "range_start r + range_len r \<le> row_count" if "r \<in> set ranges" for r
  proof -
    from cap that have "range_start r + range_len r - 1 \<in> set (range_rows r)"
      by (auto simp: range_rows_def capped_def)
    with that have "range_start r + range_len r - 1 \<in> set (concat (map range_rows ranges))" by auto
    then have "range_start r + range_len r - 1 < row_count" unfolding rows by simp
    with cap that show ?thesis by (auto simp: capped_def)
  qed
  have next_inside: "range_start (ranges ! i) + (range_len (ranges ! i) + 1) \<le> row_count"
    if i: "Suc i < length ranges" for i
  proof -
    let ?r = "ranges ! i" and ?r' = "ranges ! Suc i"
    from i have split: "ranges = take i ranges @ ?r # ?r' # drop (Suc (Suc i)) ranges"
      by (metis Cons_nth_drop_Suc Suc_lessD append_take_drop_id)
    have all: "concat (map range_rows (take i ranges)) @ range_rows ?r @ range_rows ?r'
        @ concat (map range_rows (drop (Suc (Suc i)) ranges)) = [0..<row_count]"
      using rows arg_cong [OF split, of "\<lambda>rs. concat (map range_rows rs)"] by simp
    from cap i have pos: "0 < range_len ?r" "0 < range_len ?r'" by (auto simp: capped_def)
    let ?last = "range_start ?r + range_len ?r - 1"
    have "?last \<in> set (range_rows ?r)" "range_start ?r' \<in> set (range_rows ?r')"
      using pos by (auto simp: range_rows_def)
    with upt_parts [OF all] have "?last < range_start ?r'" "range_start ?r' < row_count" by auto
    with pos show ?thesis by linarith
  qed
  note len = range_payload_len_eq [OF m(1), unfolded m(2)]
  have "0 < range_len r \<and> (\<exists>n. range_payload_len m (range_start r) (range_len r) = Ok n
      \<and> (n \<le> cap \<or> range_len r = 1))" if "r \<in> set ranges" for r
    using cap inside [OF that] that by (auto simp: len capped_def range_bytes_def)
  moreover have "\<exists>n. range_payload_len m (range_start (ranges ! i)) (range_len (ranges ! i) + 1) = Ok n
      \<and> cap < n" if i: "Suc i < length ranges" for i
    using full i next_inside [OF i] valid_measuredD(6) [OF m(1)] m(2)
    by (auto simp: len full_def range_bytes_Suc) (simp add: range_bytes_def)
  ultimately show ?thesis
    using ranges rows by (auto simp: range_rows_def [abs_def])
qed

theorem row_ranges_partition_witness:
  "\<exists>m ranges. measured_new 3 1 [4, 4, 20] = Ok m \<and> row_ranges m 10 = Ok ranges
     \<and> concat (map (\<lambda>r. [range_start r..<range_start r + range_len r]) ranges) = [0, 1, 2]"
proof -
  obtain m where m: "measured_new 3 1 [4, 4, 20] = Ok m"
    by (simp add: measured_new_def measure_row_lengths_def measure_row_length_def checked_usize_def
        numeral_3_eq_3)
  from row_ranges_partition [OF this, of 10] obtain ranges where
    "row_ranges m 10 = Ok ranges"
    "concat (map (\<lambda>r. [range_start r..<range_start r + range_len r]) ranges) = [0..<3]" by auto
  with m show ?thesis by (simp add: numeral_3_eq_3)
qed

text \<open>measured_range_layout: a range of a measured batch is laid out as it was measured. For
  any range inside the batch the layout is built, its payload has the length the measurement
  states for the range, and its rows and cells carry the measured lengths of exactly those rows;
  a range reaching past the batch is refused by both.\<close>

theorem measured_range_layout:
  assumes "measured_new row_count column_count cell_lengths = Ok m"
  shows "if start + n \<le> row_count
    then \<exists>layout. range_layout m start n = Ok layout
      \<and> range_payload_len m start n = Ok (layout_payload_len layout)
      \<and> layout_row_lengths layout = take n (drop start (measured_row_lengths m))
      \<and> map pos_len (layout_cell_positions layout)
          = take (n * column_count) (drop (start * column_count) cell_lengths)
    else range_layout m start n = Err invalid_payload \<and> range_payload_len m start n = Err invalid_payload"
proof -
  from measured_new_valid [OF assms] have m: "valid_measured m" "measured_row_count m = row_count"
    "measured_column_count m = column_count" "measured_cell_lengths m = cell_lengths" by auto
  note v = valid_measuredD [OF m(1), unfolded m(2-4)]
  show ?thesis
  proof (cases "start + n \<le> row_count")
    case True
    have lens: "map pos_len (place_cells row column offset ns) = ns" for row column offset ns
      by (induction ns arbitrary: column offset) simp_all
    have "map pos_len (place_rows row offset rows) = concat rows" for row offset rows
      by (induction rows arbitrary: row offset) (simp_all add: lens)
    moreover have "concat (matrix_rows column_count cell_lengths start n)
        = take (n * column_count) (drop (start * column_count) cell_lengths)"
      by (rule concat_matrix_rows)
    ultimately show ?thesis
      using True measured_matrix_rows [OF m(1), of start n]
      by (simp add: range_layout_eq [OF m(1)] range_payload_len_eq [OF m(1)] m v layout_of_def
          range_bytes_def rows_size_def take_map drop_map)
  qed (simp add: range_layout_eq [OF m(1)] range_payload_len_eq [OF m(1)] m)
qed

theorem measured_range_layout_witness:
  "\<exists>m layout. measured_new 3 2 [4, 1, 4, 5, 20, 1] = Ok m \<and> range_layout m 1 2 = Ok layout
     \<and> range_payload_len m 1 2 = Ok (layout_payload_len layout)
     \<and> map pos_len (layout_cell_positions layout) = [4, 5, 20, 1]"
proof -
  have upt: "[0..<2] = [0, 1 :: nat]" "[0..<3] = [0, 1, 2 :: nat]"
    by (simp_all add: upt_rec)
  obtain m where m: "measured_new 3 2 [4, 1, 4, 5, 20, 1] = Ok m"
    by (simp add: measured_new_def measure_row_lengths_def measure_row_length_def checked_usize_def upt)
  from measured_range_layout [OF this, of 1 2] m show ?thesis by (intro exI [of _ m]) auto
qed

end
