(* ===== verification/DirectColumns.thy ===== *)
theory DirectColumns
  imports Measure
begin

text \<open>
  What the column encoders under \<^verbatim>\<open>src/write/direct/types/\<close> share: the lookup of a cell's
  position, the access to its bytes, the row loops, and the contract they keep. The private
  helpers \<^verbatim>\<open>cell_position\<close>, \<^verbatim>\<open>cell_bytes_mut\<close>, \<^verbatim>\<open>checked_add\<close> and the
  error constructors are repeated in each file with other message texts; one definition stands
  for the copies.

  An Arrow array is the list of its values, \<^term>\<open>None\<close> for a null. A row index outside the array
  makes arrow-rs panic; the callers stay inside. The cell length matrix is indexed without a
  check too.

  The locale \<^verbatim>\<open>column_codec\<close> is the contract of one cell: measuring, filling and appending
  agree on its bytes. \<^verbatim>\<open>direct_columns\<close> is the contract of bound columns, and proves
  what a batch of such columns does.
\<close>

definition unsupported_batch :: error where
  "unsupported_batch = DirectEncoding [diagnostic_error DirectEncodingUnsupportedBatch]"

definition direct_checked_add :: "usize \<Rightarrow> usize \<Rightarrow> error + usize" where
  "direct_checked_add lhs rhs = ok_or invalid_payload (checked_usize (lhs + rhs))"

definition find_cell_position :: "row_layout \<Rightarrow> usize \<Rightarrow> usize \<Rightarrow> usize \<Rightarrow> error + cell_position" where
  "find_cell_position layout row_index column_index column_count =
     and_then (ok_or invalid_payload
         (Option.bind (checked_usize (row_index * column_count))
            (\<lambda>base. checked_usize (base + column_index)))) (\<lambda>index.
       ok_or invalid_payload
         (if index < length (layout_cell_positions layout)
          then Some (layout_cell_positions layout ! index) else None))"

text \<open>\<^verbatim>\<open>cell_bytes_mut\<close> borrows the bytes of a cell; what is written to them lands in the
  payload.\<close>

definition cell_bytes_mut ::
    "bytes \<Rightarrow> cell_position \<Rightarrow> (bytes \<Rightarrow> error + bytes) \<Rightarrow> error + bytes" where
  "cell_bytes_mut bs cell write =
     and_then (ok_or invalid_payload (checked_usize (pos_offset cell + pos_len cell))) (\<lambda>end.
       if end > length bs then Err invalid_payload
       else map_ok (splice bs (pos_offset cell)) (write (take (pos_len cell) (drop (pos_offset cell) bs))))"

definition add_direct_field :: "error \<Rightarrow> direct_column_plan \<Rightarrow> error" where
  "add_direct_field err col =
     (case err of
        DirectEncoding diagnostics \<Rightarrow>
          DirectEncoding (map (\<lambda>d. with_field d
            \<lparr>ref_index = plan_source_index col, ref_name = plan_source_name col\<rparr>) diagnostics)
      | _ \<Rightarrow> err)"

text \<open>The row loops: \<^verbatim>\<open>for row_index in 0..array.len()\<close>.\<close>

definition measure_rows ::
    "(usize \<Rightarrow> 'a option \<Rightarrow> error + usize) \<Rightarrow> 'a option list \<Rightarrow> usize \<Rightarrow> usize \<Rightarrow> usize list
      \<Rightarrow> error + usize list" where
  "measure_rows cell_len array column_index column_count cell_lengths =
     for_each (\<lambda>row_index cell_lengths.
         map_ok (\<lambda>n. cell_lengths[row_index * column_count + column_index := n])
           (cell_len row_index (array ! row_index)))
       [0..<length array] cell_lengths"

definition fill_rows ::
    "(usize \<Rightarrow> 'a option \<Rightarrow> cell_position \<Rightarrow> bytes \<Rightarrow> error + bytes) \<Rightarrow> 'a option list \<Rightarrow> usize \<Rightarrow> usize
      \<Rightarrow> row_layout \<Rightarrow> bytes \<Rightarrow> error + bytes" where
  "fill_rows fill_cell array column_index column_count layout bs =
     for_each (\<lambda>row_index bs.
         and_then (find_cell_position layout row_index column_index column_count) (\<lambda>cell.
           fill_cell row_index (array ! row_index) cell bs))
       [0..<length array] bs"

subsection \<open>Writing one cell\<close>

lemma find_cell_position_Ok:
  assumes "row * column_count + column < length (layout_cell_positions layout)"
    and "row * column_count + column < 2 ^ 64"
  shows "find_cell_position layout row column column_count
    = Ok (layout_cell_positions layout ! (row * column_count + column))"
  using assms by (simp add: find_cell_position_def checked_usize_def)

text \<open>The place of a cell is inside the payload and has the length of its bytes.\<close>

definition fits_at :: "bytes \<Rightarrow> cell_position \<Rightarrow> bytes \<Rightarrow> bool" where
  "fits_at c cell bs \<longleftrightarrow>
     pos_len cell = length c \<and> pos_offset cell + length c \<le> length bs \<and> length bs < 2 ^ 64"

lemma cell_bytes_mut_fits:
  assumes "fits_at c cell bs" "\<And>dst. length dst = length c \<Longrightarrow> write dst = Ok c"
  shows "cell_bytes_mut bs cell write = Ok (splice bs (pos_offset cell) c)"
  using assms by (auto simp: cell_bytes_mut_def fits_at_def checked_usize_def)

lemma add_direct_field_Ok [simp]: "map_err f (Inr x) = Inr x"
  by simp

subsection \<open>The contract of a cell\<close>

text \<open>A column of a table, written into a row-major matrix.\<close>

definition put_column :: "usize \<Rightarrow> usize \<Rightarrow> 'a list \<Rightarrow> 'a list \<Rightarrow> 'a list" where
  "put_column column column_count xs m =
     fold (\<lambda>row m. m[row * column_count + column := xs ! row]) [0..<length xs] m"

definition column_cells ::
    "(usize \<Rightarrow> 'a option \<Rightarrow> error + bytes) \<Rightarrow> 'a option list \<Rightarrow> error + bytes list" where
  "column_cells cell_at array = try_map (\<lambda>row. cell_at row (array ! row)) [0..<length array]"

definition column_positions :: "row_layout \<Rightarrow> usize \<Rightarrow> usize \<Rightarrow> usize \<Rightarrow> cell_position list" where
  "column_positions layout column column_count n =
     map (\<lambda>row. layout_cell_positions layout ! (row * column_count + column)) [0..<n]"

text \<open>The layout has room for the cells of a column.\<close>

definition column_fits :: "row_layout \<Rightarrow> usize \<Rightarrow> usize \<Rightarrow> bytes list \<Rightarrow> bytes \<Rightarrow> bool" where
  "column_fits layout column column_count cells bs \<longleftrightarrow>
     (\<forall>row < length cells.
        row * column_count + column < length (layout_cell_positions layout)
        \<and> row * column_count + column < 2 ^ 64
        \<and> fits_at (cells ! row) (layout_cell_positions layout ! (row * column_count + column)) bs)"

lemma measure_loop:
  assumes "\<And>row. row \<in> set rows \<Longrightarrow> cell_len row = map_ok length (cell row)" "distinct rows"
  shows "for_each (\<lambda>row ls. map_ok (\<lambda>n. ls[at row := n]) (cell_len row)) rows ls
    = map_ok (\<lambda>cells. fold (\<lambda>(row, c) ls. ls[at row := length c]) (zip rows cells) ls) (try_map cell rows)"
  using assms
proof (induction rows arbitrary: ls)
  case (Cons row rows)
  then show ?case by (cases "cell row"; cases "try_map cell rows") simp_all
qed simp

lemma length_fold_update [simp]:
  "length (fold (\<lambda>(row, c) ls. ls[at row := f c]) xs ls) = length ls"
  by (induction xs arbitrary: ls) auto

lemma fold_put_column:
  assumes "length xs = n"
  shows "fold (\<lambda>(row, x) m. m[row * cc + col := f x]) (zip [0..<n] xs) m = put_column col cc (map f xs) m"
proof -
  have "fold (\<lambda>(row, x) m. m[row * cc + col := f x]) (zip [k..<k + length xs] xs) m
      = fold (\<lambda>row m. m[row * cc + col := f (xs ! (row - k))]) [k..<k + length xs] m" for k
  proof (induction xs arbitrary: k m)
    case (Cons x xs)
    have upt: "[k..<k + length (x # xs)] = k # [Suc k..<Suc k + length xs]"
      by (simp add: upt_conv_Cons del: upt_Suc)
    have shift: "fold (\<lambda>row m. m[row * cc + col := f ((x # xs) ! (row - k))]) [Suc k..<Suc k + length xs] m
        = fold (\<lambda>row m. m[row * cc + col := f (xs ! (row - Suc k))]) [Suc k..<Suc k + length xs] m" for m
      by (rule fold_cong) (auto simp: nth_Cons')
    show ?case unfolding upt using Cons [of "Suc k"] shift by (simp del: upt_Suc)
  qed simp
  from this [of 0] assms have
    "fold (\<lambda>(row, x) m. m[row * cc + col := f x]) (zip [0..<n] xs) m
      = fold (\<lambda>row m. m[row * cc + col := f (xs ! row)]) [0..<n] m"
    by simp
  also have "\<dots> = put_column col cc (map f xs) m"
    unfolding put_column_def using assms by (intro fold_cong) simp_all
  finally show ?thesis .
qed

locale column_codec =
  fixes cell_len :: "usize \<Rightarrow> 'a option \<Rightarrow> error + usize"
    and fill_cell :: "usize \<Rightarrow> 'a option \<Rightarrow> cell_position \<Rightarrow> bytes \<Rightarrow> error + bytes"
    and append_cell :: "usize \<Rightarrow> 'a option \<Rightarrow> usize \<Rightarrow> bytes \<Rightarrow> error + bytes"
    and cell_at :: "usize \<Rightarrow> 'a option \<Rightarrow> error + bytes"
  assumes cell_len: "cell_len row v = map_ok length (cell_at row v)"
    and fill_cell: "cell_at row v = Ok c \<Longrightarrow> fits_at c cell bs \<Longrightarrow>
      fill_cell row v cell bs = Ok (splice bs (pos_offset cell) c)"
    and append_cell: "cell_at row v = Ok c \<Longrightarrow> append_cell row v (length c) buf = Ok (buf @ c)"
    and any_row: "cell_at row v = Ok c \<Longrightarrow> cell_at row' v = Ok c"
begin

lemma measure_column:
  "measure_rows cell_len array column column_count ls
    = map_ok (\<lambda>cells. put_column column column_count (map length cells) ls) (column_cells cell_at array)"
proof -
  have "measure_rows cell_len array column column_count ls
      = map_ok (\<lambda>cells. fold (\<lambda>(row, c) ls. ls[row * column_count + column := length c])
          (zip [0..<length array] cells) ls) (column_cells cell_at array)"
    unfolding measure_rows_def column_cells_def by (rule measure_loop) (simp_all add: cell_len)
  also have "\<dots> = map_ok (\<lambda>cells. put_column column column_count (map length cells) ls)
      (column_cells cell_at array)"
  proof (cases "column_cells cell_at array")
    case (Inr cells)
    then have "length cells = length array" by (simp add: column_cells_def try_map_Inr)
    with Inr show ?thesis by (simp add: fold_put_column)
  qed simp
  finally show ?thesis .
qed

lemma column_cells_nth:
  assumes "column_cells cell_at array = Ok cells"
  shows "length cells = length array" "row < length array \<Longrightarrow> cell_at row (array ! row) = Ok (cells ! row)"
  using assms by (auto simp: column_cells_def try_map_Inr)

lemma append_column_cell:
  assumes "column_cells cell_at array = Ok cells" "row < length array"
  shows "append_cell row (array ! row) (length (cells ! row)) buf = Ok (buf @ cells ! row)"
  using column_cells_nth [OF assms(1)] assms(2) by (simp add: append_cell)

lemma column_slice:
  assumes "column_cells cell_at array = Ok cells" "start + n \<le> length array"
  shows "column_cells cell_at (take n (drop start array)) = Ok (take n (drop start cells))"
proof -
  note nth = column_cells_nth [OF assms(1)]
  have "cell_at row (array ! (start + row)) = Ok (cells ! (start + row))" if "row < n" for row
    using any_row [of "start + row" "array ! (start + row)" "cells ! (start + row)" row] nth assms(2) that
    by simp
  with assms(2) nth(1) show ?thesis by (auto simp: column_cells_def try_map_Inr)
qed

lemma fill_loop:
  assumes "\<forall>row \<in> set rows. row * cc + column < length (layout_cell_positions layout)
      \<and> row * cc + column < 2 ^ 64 \<and> cell_at row (array ! row) = Ok (cell row)
      \<and> fits_at (cell row) (layout_cell_positions layout ! (row * cc + column)) bs"
  shows "for_each (\<lambda>row bs. and_then (find_cell_position layout row column cc)
      (\<lambda>p. fill_cell row (array ! row) p bs)) rows bs
    = Ok (fill_cells (map (\<lambda>row. (layout_cell_positions layout ! (row * cc + column), cell row)) rows) bs)"
  using assms
proof (induction rows arbitrary: bs)
  case (Cons row rows)
  let ?p = "layout_cell_positions layout ! (row * cc + column)"
  from Cons.prems have fits: "fits_at (cell row) ?p bs" by simp
  with Cons.prems have step: "fill_cell row (array ! row) ?p bs = Ok (splice bs (pos_offset ?p) (cell row))"
    by (intro fill_cell) simp_all
  define bs' where "bs' = splice bs (pos_offset ?p) (cell row)"
  have "length bs' = length bs" using fits by (simp add: fits_at_def bs'_def)
  with Cons.prems have "\<forall>row \<in> set rows. row * cc + column < length (layout_cell_positions layout)
      \<and> row * cc + column < 2 ^ 64 \<and> cell_at row (array ! row) = Ok (cell row)
      \<and> fits_at (cell row) (layout_cell_positions layout ! (row * cc + column)) bs'"
    by (simp add: fits_at_def)
  from Cons.IH [OF this] Cons.prems step show ?case
    by (simp add: find_cell_position_Ok fill_cells_def bs'_def)
qed (simp add: fill_cells_def)

lemma fill_column:
  assumes "column_cells cell_at array = Ok cells" "column_fits layout column column_count cells bs"
  shows "fill_rows fill_cell array column column_count layout bs
    = Ok (fill_cells (zip (column_positions layout column column_count (length cells)) cells) bs)"
proof -
  note nth = column_cells_nth [OF assms(1)]
  have "fill_rows fill_cell array column column_count layout bs
    = Ok (fill_cells (map (\<lambda>row. (layout_cell_positions layout ! (row * column_count + column), cells ! row))
        [0..<length array]) bs)"
    unfolding fill_rows_def using assms(2) nth by (intro fill_loop) (simp add: column_fits_def)
  moreover have "map (\<lambda>row. (layout_cell_positions layout ! (row * column_count + column), cells ! row))
      [0..<length array] = zip (column_positions layout column column_count (length cells)) cells"
    using nth(1) by (intro nth_equalityI) (simp_all add: column_positions_def)
  ultimately show ?thesis by simp
qed

end

subsection \<open>Batches of columns\<close>

text \<open>The rows of a table of columns, and the matrix of the lengths of its cells.\<close>

definition table_rows :: "nat \<Rightarrow> bytes list list \<Rightarrow> bytes list list" where
  "table_rows n columns = map (\<lambda>row. map (\<lambda>cells. cells ! row) columns) [0..<n]"

lemma table_rows_shape:
  "length (table_rows n columns) = n" "\<forall>cells \<in> set (table_rows n columns). length cells = length columns"
  by (auto simp: table_rows_def)

lemma length_put_column [simp]: "length (put_column col cc xs m) = length m"
proof -
  have "length (fold (\<lambda>row m. m[row * cc + col := xs ! row]) rows m) = length m" for rows
    by (induction rows arbitrary: m) simp_all
  then show ?thesis by (simp add: put_column_def)
qed

lemma matrix_index: "c < cc \<Longrightarrow> r < n \<Longrightarrow> r * cc + c < n * (cc :: nat)"
proof -
  assume "c < cc" "r < n"
  then have "r * cc + c < (r + 1) * cc" by simp
  also have "\<dots> \<le> n * cc" using \<open>r < n\<close> by (intro mult_right_mono) simp_all
  finally show ?thesis .
qed

lemma matrix_index_inject: "c < cc \<Longrightarrow> c' < cc \<Longrightarrow> r * cc + c = r' * cc + (c' :: nat) \<longleftrightarrow> r = r' \<and> c = c'"
proof
  assume *: "c < cc" "c' < cc" and "r * cc + c = r' * cc + c'"
  then have "(r * cc + c) div cc = (r' * cc + c') div cc" "(r * cc + c) mod cc = (r' * cc + c') mod cc"
    by simp_all
  with * show "r = r' \<and> c = c'" by simp
qed simp

lemma put_column_nth:
  assumes "length xs * cc \<le> length m" "col < cc" "c < cc" "r * cc + c < length m"
  shows "put_column col cc xs m ! (r * cc + c)
    = (if c = col \<and> r < length xs then xs ! r else m ! (r * cc + c))"
proof -
  have "fold (\<lambda>row m. m[row * cc + col := xs ! row]) [0..<k] m ! (r * cc + c)
      = (if c = col \<and> r < k then xs ! r else m ! (r * cc + c))" if "k \<le> length xs" for k
    using that
  proof (induction k)
    case (Suc k)
    have "length (fold (\<lambda>row m. m[row * cc + col := xs ! row]) [0..<k] m) = length m" for k
      by (induction k) simp_all
    moreover have "k * cc + col < length m"
      using matrix_index [of col cc k "length xs"] assms(1,2) Suc.prems by simp
    ultimately show ?case
      using Suc assms by (auto simp: nth_list_update matrix_index_inject)
  qed simp
  then show ?thesis by (simp add: put_column_def)
qed

text \<open>All columns, put one after the other, make the matrix.\<close>

definition put_columns :: "usize list list \<Rightarrow> usize list \<Rightarrow> usize list" where
  "put_columns columns m = fold (\<lambda>(col, xs) m. put_column col (length columns) xs m)
     (List.enumerate 0 columns) m"

lemma put_columns_prefix:
  assumes "\<forall>xs \<in> set columns. length xs = n" "k + length columns \<le> cc" "length m = n * cc"
    and "c < cc" "r < n"
  shows "fold (\<lambda>(col, xs) m. put_column col cc xs m) (List.enumerate k columns) m ! (r * cc + c)
    = (if k \<le> c \<and> c < k + length columns then columns ! (c - k) ! r else m ! (r * cc + c))"
  using assms
proof (induction columns arbitrary: k m)
  case (Cons xs columns)
  have "length (put_column k cc xs m) = n * cc" using Cons.prems by simp
  with Cons.IH [of "Suc k" "put_column k cc xs m"] Cons.prems matrix_index [of c cc r n]
  show ?case
    by (auto simp: put_column_nth nth_Cons')
qed auto

lemma length_put_columns:
  "length (fold (\<lambda>(col, xs) m. put_column col cc xs m) xss m) = length m"
  by (induction xss arbitrary: m) auto

lemma put_columns_matrix:
  assumes "\<forall>cells \<in> set columns. length cells = n" "length m = n * length columns"
  shows "put_columns (map (map length) columns) m = concat (cell_sizes (table_rows n columns))"
proof (cases "columns = []")
  case True
  then show ?thesis
    using assms by (simp add: put_columns_def table_rows_def)
next
  case False
  let ?cc = "length columns" and ?rows = "cell_sizes (table_rows n columns)"
  have len: "length (put_columns (map (map length) columns) m) = n * ?cc"
    using assms by (simp add: put_columns_def length_put_columns)
  have rows: "\<forall>ns \<in> set ?rows. length ns = ?cc" "length ?rows = n" by (auto simp: table_rows_def)
  have len': "length (concat ?rows) = n * ?cc"
  proof -
    have "sum_list (map length xss) = length xss * k" if "\<forall>xs \<in> set xss. length xs = k"
      for xss :: "nat list list" and k
      using that by (induction xss) simp_all
    from this [of ?rows ?cc] rows show ?thesis by (simp add: length_concat)
  qed
  show ?thesis
  proof (intro nth_equalityI)
    fix i assume "i < length (put_columns (map (map length) columns) m)"
    then have i: "i < n * ?cc" by (simp add: len)
    then have rc: "i div ?cc < n" "i mod ?cc < ?cc" "i div ?cc * ?cc + i mod ?cc = i"
      using False by (simp_all add: less_mult_imp_div_less)
    have "take ?cc (drop (i div ?cc * ?cc) (concat ?rows)) ! (i mod ?cc) = ?rows ! (i div ?cc) ! (i mod ?cc)"
      using take_drop_concat [OF rows(1), of "i div ?cc"] rows rc by simp
    moreover have "take ?cc (drop (i div ?cc * ?cc) (concat ?rows)) ! (i mod ?cc)
        = concat ?rows ! (i div ?cc * ?cc + i mod ?cc)"
      using rc i len' by (subst nth_take, simp) (subst nth_drop, linarith, simp)
    ultimately have "concat ?rows ! i = ?rows ! (i div ?cc) ! (i mod ?cc)" using rc by simp
    moreover have "put_columns (map (map length) columns) m ! i = length (columns ! (i mod ?cc) ! (i div ?cc))"
      using put_columns_prefix [of "map (map length) columns" n 0 ?cc m "i mod ?cc" "i div ?cc"] assms rc
      by (simp add: put_columns_def)
    ultimately show "put_columns (map (map length) columns) m ! i = concat ?rows ! i"
      using rc by (simp add: table_rows_def)
  qed (simp add: len len')
qed

text \<open>The layout of a table has room for its columns, and their positions are the cells of the
  rows.\<close>

lemma nth_concat_uniform:
  assumes "\<forall>xs \<in> set xss. length xs = k" "r < length xss" "c < k"
  shows "concat xss ! (r * k + c) = xss ! r ! c"
  using assms
proof (induction xss arbitrary: r)
  case (Cons xs xss)
  then show ?case
    by (cases r) (simp_all add: nth_append add.assoc)
qed simp

lemma length_concat_uniform: "\<forall>xs \<in> set xss. length xs = k \<Longrightarrow> length (concat xss) = length xss * k"
  by (induction xss) simp_all

lemma table_layout_position:
  assumes "r < n" "c < length columns"
  defines "rows \<equiv> table_rows n columns"
  shows "r * length columns + c < length (layout_cell_positions (layout_of (cell_sizes rows)))"
    and "(layout_cell_positions (layout_of (cell_sizes rows)) ! (r * length columns + c),
           columns ! c ! r) \<in> set (zip (place_rows 0 0 (cell_sizes rows)) (concat rows))"
    and "length bs = rows_size (cell_sizes rows) \<Longrightarrow> length bs < 2 ^ 64 \<Longrightarrow>
      fits_at (columns ! c ! r) (layout_cell_positions (layout_of (cell_sizes rows)) ! (r * length columns + c)) bs"
proof -
  let ?i = "r * length columns + c" and ?places = "place_rows 0 0 (cell_sizes rows)"
  have rows: "length rows = n" "\<forall>cells \<in> set rows. length cells = length columns"
    unfolding rows_def by (fact table_rows_shape)+
  have len: "length ?places = n * length columns"
    using rows length_concat_uniform [OF rows(2)]
    by (simp add: length_place_rows length_concat comp_def)
  with matrix_index [OF assms(2,1)] show i: "?i < length (layout_cell_positions (layout_of (cell_sizes rows)))"
    by (simp add: layout_of_def)
  have cell: "concat rows ! ?i = columns ! c ! r"
    using nth_concat_uniform [OF rows(2), of r c] rows assms(1,2) by (simp add: rows_def table_rows_def)
  have "length (concat rows) = n * length columns"
    using length_concat_uniform [OF rows(2)] rows by simp
  with i len cell show "(layout_cell_positions (layout_of (cell_sizes rows)) ! ?i, columns ! c ! r)
      \<in> set (zip ?places (concat rows))"
    by (auto simp: layout_of_def set_zip intro!: exI [of _ ?i])
  have holds: "list_all2 (holds_at (rows_bytes rows)) ?places (concat rows)"
    using holds_at_place_rows [of "[]" 0 rows 0] by simp
  assume "length bs = rows_size (cell_sizes rows)" "length bs < 2 ^ 64"
  with list_all2_nthD [OF holds, of ?i] i len cell
  show "fits_at (columns ! c ! r) (layout_cell_positions (layout_of (cell_sizes rows)) ! ?i) bs"
    by (simp add: holds_at_def fits_at_def layout_of_def length_rows_bytes)
qed

lemma fits_columns:
  assumes "\<forall>cells \<in> set columns. length cells = n" "c < length columns"
    and "length bs = rows_size (cell_sizes (table_rows n columns))" "length bs < 2 ^ 64"
    and "n * length columns < 2 ^ 64"
  shows "column_fits (layout_of (cell_sizes (table_rows n columns))) c (length columns) (columns ! c) bs"
  unfolding column_fits_def
proof (intro allI impI)
  fix r assume "r < length (columns ! c)"
  with assms(1,2) have r: "r < n" by (metis nth_mem)
  then have "r * length columns + c < 2 ^ 64"
    using matrix_index [OF assms(2) r] assms(5) by linarith
  with table_layout_position [OF r assms(2)] assms(3,4)
  show "r * length columns + c < length (layout_cell_positions (layout_of (cell_sizes (table_rows n columns))))
      \<and> r * length columns + c < 2 ^ 64
      \<and> fits_at (columns ! c ! r)
         (layout_cell_positions (layout_of (cell_sizes (table_rows n columns))) ! (r * length columns + c)) bs"
    by blast
qed

text \<open>The writes of all columns, column by column.\<close>

definition table_writes :: "row_layout \<Rightarrow> nat \<Rightarrow> bytes list list \<Rightarrow> (cell_position \<times> bytes) list" where
  "table_writes layout n columns =
     concat (map (\<lambda>(c, cells). zip (column_positions layout c (length columns) n) cells)
       (List.enumerate 0 columns))"

lemma table_writes_set:
  assumes "\<forall>cells \<in> set columns. length cells = n"
  defines "rows \<equiv> table_rows n columns"
  shows "set (table_writes (layout_of (cell_sizes rows)) n columns)
    = set (zip (place_rows 0 0 (cell_sizes rows)) (concat rows))"
proof
  have cols: "length (columns ! c) = n" if "c < length columns" for c using assms(1) that by simp
  show "set (table_writes (layout_of (cell_sizes rows)) n columns)
      \<subseteq> set (zip (place_rows 0 0 (cell_sizes rows)) (concat rows))"
  proof
    fix w assume "w \<in> set (table_writes (layout_of (cell_sizes rows)) n columns)"
    then obtain c r where "c < length columns" "r < n"
      "w = (layout_cell_positions (layout_of (cell_sizes rows)) ! (r * length columns + c), columns ! c ! r)"
      using cols
      by (auto simp: table_writes_def in_set_enumerate_eq in_set_zip column_positions_def)
    with table_layout_position(2) show "w \<in> set (zip (place_rows 0 0 (cell_sizes rows)) (concat rows))"
      by (simp add: rows_def)
  qed
  show "set (zip (place_rows 0 0 (cell_sizes rows)) (concat rows))
      \<subseteq> set (table_writes (layout_of (cell_sizes rows)) n columns)"
  proof
    fix w assume "w \<in> set (zip (place_rows 0 0 (cell_sizes rows)) (concat rows))"
    then obtain i where i: "i < length (concat rows)"
      "w = (place_rows 0 0 (cell_sizes rows) ! i, concat rows ! i)" by (auto simp: in_set_zip prod_eq_iff)
    let ?k = "length columns"
    have rows: "length rows = n" "\<forall>cells \<in> set rows. length cells = ?k"
      unfolding rows_def by (fact table_rows_shape)+
    from i(1) length_concat_uniform [OF rows(2)] rows(1) have "i < n * ?k" by simp
    then have rc: "i div ?k < n" "i mod ?k < ?k" "i div ?k * ?k + i mod ?k = i"
      by (auto simp: less_mult_imp_div_less intro!: mod_less_divisor)
    with nth_concat_uniform [OF rows(2), of "i div ?k" "i mod ?k"] rows(1)
    have "concat rows ! i = columns ! (i mod ?k) ! (i div ?k)"
      by (simp add: rows_def table_rows_def)
    with i(2) rc cols have "w \<in> set (zip (column_positions (layout_of (cell_sizes rows)) (i mod ?k) ?k n)
        (columns ! (i mod ?k)))"
      by (auto simp: in_set_zip column_positions_def layout_of_def intro!: exI [of _ "i div ?k"])
    with rc(2) show "w \<in> set (table_writes (layout_of (cell_sizes rows)) n columns)"
      by (auto simp: table_writes_def in_set_enumerate_eq intro!: bexI [of _ "(i mod ?k, columns ! (i mod ?k))"])
  qed
qed

text \<open>The contract of bound columns: \<^verbatim>\<open>cells_of\<close> is what a column encodes. Measuring puts
  the lengths of the cells into the matrix and fails when a cell does; filling writes the cells
  at the positions of a layout with room for them; appending a row's cell appends its bytes.\<close>

locale direct_columns =
  fixes well_bound :: "'c \<Rightarrow> bool"
    and cells_of :: "'c \<Rightarrow> error + bytes list"
    and measure_col :: "'c \<Rightarrow> usize \<Rightarrow> usize \<Rightarrow> usize list \<Rightarrow> error + usize list"
    and fill_col :: "'c \<Rightarrow> usize \<Rightarrow> usize \<Rightarrow> row_layout \<Rightarrow> bytes \<Rightarrow> error + bytes"
    and append_col :: "'c \<Rightarrow> usize \<Rightarrow> usize \<Rightarrow> bytes \<Rightarrow> error + bytes"
  assumes measure_col: "well_bound c \<Longrightarrow> measure_col c column column_count ls
      = map_ok (\<lambda>cells. put_column column column_count (map length cells) ls) (cells_of c)"
    and fill_col: "well_bound c \<Longrightarrow> cells_of c = Ok cells \<Longrightarrow> column_fits layout column column_count cells bs \<Longrightarrow>
      fill_col c column column_count layout bs
        = Ok (fill_cells (zip (column_positions layout column column_count (length cells)) cells) bs)"
    and append_col: "well_bound c \<Longrightarrow> cells_of c = Ok cells \<Longrightarrow> row < length cells \<Longrightarrow>
      append_col c row (length (cells ! row)) buf = Ok (buf @ cells ! row)"
begin

lemma measure_from:
  "\<forall>c \<in> set cols. well_bound c \<Longrightarrow> for_each (\<lambda>(column, c) ls. measure_col c column column_count ls) (List.enumerate k cols) ls
    = map_ok (\<lambda>columns. fold (\<lambda>(column, xs) m. put_column column column_count xs m)
        (List.enumerate k (map (map length) columns)) ls) (try_map cells_of cols)"
proof (induction cols arbitrary: k ls)
  case (Cons c cols)
  then show ?case by (cases "cells_of c"; cases "try_map cells_of cols") (simp_all add: measure_col)
qed simp

lemma measure_all:
  assumes wb: "\<forall>c \<in> set cols. well_bound c"
  assumes "\<And>columns. try_map cells_of cols = Ok columns \<Longrightarrow> \<forall>cells \<in> set columns. length cells = n"
  shows "for_each (\<lambda>(column, c) ls. measure_col c column (length cols) ls) (List.enumerate 0 cols)
      (replicate (n * length cols) 0)
    = map_ok (\<lambda>columns. concat (cell_sizes (table_rows n columns))) (try_map cells_of cols)"
proof (cases "try_map cells_of cols")
  case (Inr columns)
  then have "length columns = length cols" by (simp add: try_map_Inr)
  with put_columns_matrix [OF assms(2) [OF Inr], of "replicate (n * length cols) 0"] Inr
  show ?thesis by (simp add: measure_from [OF wb] put_columns_def)
qed (simp add: measure_from [OF wb])

lemma fill_from:
  assumes "list_all2 (\<lambda>c cells. well_bound c \<and> cells_of c = Ok cells) cols columns"
    and "\<forall>cells \<in> set columns. length cells = n"
    and "\<And>i bs'. i < length columns \<Longrightarrow> length bs' = length bs \<Longrightarrow>
      column_fits layout (k + i) column_count (columns ! i) bs'"
  shows "for_each (\<lambda>(column, c) bs. fill_col c column column_count layout bs) (List.enumerate k cols) bs
    = Ok (fill_cells (concat (map (\<lambda>(c, cells). zip (column_positions layout c column_count n) cells)
        (List.enumerate k columns))) bs)"
  using assms
proof (induction cols columns arbitrary: k bs rule: list_all2_induct)
  case (Cons c cols cells columns)
  let ?writes = "zip (column_positions layout k column_count n) cells"
  from Cons.prems(2) [of 0 bs] have fits: "column_fits layout k column_count cells bs" by simp
  have "length cells = n" using Cons.prems(1) by simp
  with fill_col [OF _ _ fits] Cons.hyps(1) have step:
    "fill_col c k column_count layout bs = Ok (fill_cells ?writes bs)" by simp
  have "length (fill_cells ws bs) = length bs"
    if "\<forall>(p, c) \<in> set ws. pos_offset p + length c \<le> length bs" for ws bs
    using that by (induction ws arbitrary: bs) (auto simp: fill_cells_def)
  moreover have "\<forall>(p, c) \<in> set ?writes. pos_offset p + length c \<le> length bs"
    using fits \<open>length cells = n\<close>
    by (auto simp: in_set_zip column_positions_def column_fits_def fits_at_def)
  ultimately have "length (fill_cells ?writes bs) = length bs" by blast
  with Cons.prems(2) have "column_fits layout (Suc k + i) column_count (columns ! i) bs'"
    if "i < length columns" "length bs' = length (fill_cells ?writes bs)" for i bs'
    using that Cons.prems(2) [of "Suc i" bs'] by simp
  from Cons.IH [OF _ this] Cons.prems(1) step show ?case
    by (simp add: fill_cells_def)
qed (simp add: fill_cells_def)

text \<open>Filling the allocated layout of the measured cells gives the rows.\<close>

lemma fill_all:
  assumes wb: "\<forall>c \<in> set cols. well_bound c"
  assumes "try_map cells_of cols = Ok columns" "\<forall>cells \<in> set columns. length cells = n"
  defines "rows \<equiv> table_rows n columns"
  assumes "rows_size (cell_sizes rows) < 2 ^ 64" "n * length cols < 2 ^ 64"
  shows "for_each (\<lambda>(column, c) bs. fill_col c column (length cols) (layout_of (cell_sizes rows)) bs)
      (List.enumerate 0 cols) (allocate_rows_payload_with_tokens (layout_of (cell_sizes rows)))
    = Ok (rows_bytes rows)"
proof -
  let ?bs = "allocate_rows_payload_with_tokens (layout_of (cell_sizes rows))"
  have len: "length columns = length cols" and all: "list_all2 (\<lambda>c cells. well_bound c \<and> cells_of c = Ok cells) cols columns"
    using assms(2) wb by (auto simp: try_map_Inr list_all2_conv_all_nth)
  have "length (foldl (\<lambda>bs i. bs[i := b]) bs offsets) = length bs" for bs offsets and b :: u8
    by (induction offsets arbitrary: bs) simp_all
  then have bs: "length ?bs = rows_size (cell_sizes rows)"
    by (simp add: allocate_rows_payload_with_tokens_def layout_of_def)
  have "column_fits (layout_of (cell_sizes rows)) (0 + i) (length cols) (columns ! i) bs'"
    if "i < length columns" "length bs' = length ?bs" for i bs'
    using fits_columns [OF assms(3) that(1), of bs'] that bs assms(5,6) len by (simp add: rows_def)
  from fill_from [OF all assms(3) this]
  have "for_each (\<lambda>(column, c) bs. fill_col c column (length cols) (layout_of (cell_sizes rows)) bs)
      (List.enumerate 0 cols) ?bs
    = Ok (fill_cells (table_writes (layout_of (cell_sizes rows)) n columns) ?bs)"
    by (simp add: table_writes_def len)
  also have "fill_cells (table_writes (layout_of (cell_sizes rows)) n columns) ?bs = rows_bytes rows"
    using table_writes_set [OF assms(3)] by (intro filled_payload) (simp add: rows_def)
  finally show ?thesis .
qed

lemma append_row_from:
  assumes "list_all2 (\<lambda>c cells. well_bound c \<and> cells_of c = Ok cells) cols columns"
    and "\<forall>cells \<in> set columns. row < length cells"
    and "\<And>i. i < length columns \<Longrightarrow> cell_len (k + i) = Ok (length (columns ! i ! row))"
    and "written + sum_list (map (\<lambda>cells. length (cells ! row)) columns) < 2 ^ 64"
  shows "for_each (\<lambda>(column, c) (buf, written).
        and_then (cell_len column) (\<lambda>n.
        and_then (append_col c row n buf) (\<lambda>buf.
        and_then (direct_checked_add written n) (\<lambda>written. Ok (buf, written)))))
      (List.enumerate k cols) (buf, written)
    = Ok (buf @ concat (map (\<lambda>cells. cells ! row) columns),
          written + sum_list (map (\<lambda>cells. length (cells ! row)) columns))"
  using assms
proof (induction cols columns arbitrary: k buf written rule: list_all2_induct)
  case (Cons c cols cells columns)
  from Cons.prems(2) [of 0] have len: "cell_len k = Ok (length (cells ! row))" by simp
  have step: "append_col c row (length (cells ! row)) buf = Ok (buf @ cells ! row)"
    using Cons.prems(1) Cons.hyps(1) by (intro append_col) simp_all
  from Cons.prems(3) have add: "direct_checked_add written (length (cells ! row))
      = Ok (written + length (cells ! row))"
    by (simp add: direct_checked_add_def checked_usize_def)
  have "cell_len (Suc k + i) = Ok (length (columns ! i ! row))" if "i < length columns" for i
    using Cons.prems(2) [of "Suc i"] that by simp
  from Cons.IH [OF _ this, of "written + length (cells ! row)" "buf @ cells ! row"] Cons.prems(1,3) len step add
  show ?case by simp
qed simp

end

end
