(* ===== verification/PrimitiveColumns.thy ===== *)
theory PrimitiveColumns
  imports DirectColumns ScalarConversion
begin

text \<open>
  Primitive columns of the direct writer: \<^verbatim>\<open>src/write/direct/types/primitive.rs\<close>. A nullable
  column writes a length byte and the little-endian value, or the single byte 0 for a null; a
  non-nullable column writes the bare value.

  Several functions of the file write the row loop out and others call
  \<^verbatim>\<open>fill_primitive_column\<close> with the bytes of a value; the loop is the same text, and
  \<^verbatim>\<open>fill_primitive_cell\<close> is its body in both. A \<^verbatim>\<open>Float16Array\<close> holds the widened values
  (\<^verbatim>\<open>to_f32\<close> belongs to the half crate).
\<close>

definition CELL_LEN_PREFIX_LEN :: usize where "CELL_LEN_PREFIX_LEN = 1"

definition primitive_value_len :: "direct_column_encoding \<Rightarrow> error + usize" where
  "primitive_value_len encoding =
     (case encoding of
        EncPrimitive c \<Rightarrow>
          (case c of
             BooleanToBit \<Rightarrow> Ok 1
           | UInt8ToTinyInt \<Rightarrow> Ok 1
           | Int8ToSmallInt \<Rightarrow> Ok 2
           | Int16ToSmallInt \<Rightarrow> Ok 2
           | Int32ToInt \<Rightarrow> Ok 4
           | UInt16ToInt \<Rightarrow> Ok 4
           | Int64ToBigInt \<Rightarrow> Ok 8
           | UInt32ToBigInt \<Rightarrow> Ok 8
           | UInt64ToCheckedBigInt \<Rightarrow> Ok 8
           | Float16ToReal \<Rightarrow> Ok 4
           | Float32ToReal \<Rightarrow> Ok 4
           | Float64ToFloat \<Rightarrow> Ok 8)
      | _ \<Rightarrow> Err unsupported_batch)"

subsection \<open>Measuring\<close>

definition primitive_cell_len ::
    "direct_column_plan \<Rightarrow> usize \<Rightarrow> usize \<Rightarrow> 'a option \<Rightarrow> error + usize" where
  "primitive_cell_len col value_len row v =
     (if v = None
      then (if \<not> plan_nullable col then Err (direct_conversion_error col row NullInNonNullableColumn)
            else Ok CELL_LEN_PREFIX_LEN)
      else if plan_nullable col then Ok (CELL_LEN_PREFIX_LEN + value_len)
      else Ok value_len)"

definition measure_primitive_cell_lengths ::
    "'a option list \<Rightarrow> direct_column_plan \<Rightarrow> usize \<Rightarrow> usize \<Rightarrow> usize \<Rightarrow> usize list \<Rightarrow> error + usize list" where
  "measure_primitive_cell_lengths array col value_len =
     measure_rows (primitive_cell_len col value_len) array"

definition measure_fixed_primitive_column_cell_lengths ::
    "'a option list \<Rightarrow> direct_column_plan \<Rightarrow> usize \<Rightarrow> usize \<Rightarrow> usize list \<Rightarrow> error + usize list" where
  "measure_fixed_primitive_column_cell_lengths array col column_index column_count cell_lengths =
     and_then (primitive_value_len (plan_encoding col)) (\<lambda>value_len.
       measure_primitive_cell_lengths array col value_len column_index column_count cell_lengths)"

definition checked_primitive_cell_len ::
    "direct_column_plan \<Rightarrow> usize \<Rightarrow> (usize \<Rightarrow> 'a \<Rightarrow> error + unit) \<Rightarrow> usize \<Rightarrow> 'a option \<Rightarrow> error + usize" where
  "checked_primitive_cell_len col value_len validate_value row v =
     (case v of
        None \<Rightarrow>
          if \<not> plan_nullable col then Err (direct_conversion_error col row NullInNonNullableColumn)
          else Ok CELL_LEN_PREFIX_LEN
      | Some x \<Rightarrow>
          and_then (validate_value row x) (\<lambda>_.
            if plan_nullable col then Ok (CELL_LEN_PREFIX_LEN + value_len) else Ok value_len))"

definition measure_checked_primitive_column_cell_lengths ::
    "'a option list \<Rightarrow> direct_column_plan \<Rightarrow> usize \<Rightarrow> (usize \<Rightarrow> 'a \<Rightarrow> error + unit)
      \<Rightarrow> usize \<Rightarrow> usize \<Rightarrow> usize list \<Rightarrow> error + usize list" where
  "measure_checked_primitive_column_cell_lengths array col value_len validate_value =
     measure_rows (checked_primitive_cell_len col value_len validate_value) array"

definition uint64_checked_bigint_bytes :: "u64 \<Rightarrow> direct_column_plan \<Rightarrow> usize \<Rightarrow> error + bytes" where
  "uint64_checked_bigint_bytes v col row =
     (case (try_signed (uint v) :: i64 option) of
        Some x \<Rightarrow> Ok (le_bytes 8 (unat x))
      | None \<Rightarrow> Err (direct_conversion_error col row IntegerOutOfRange))"

text \<open>Both float widths go through \<^verbatim>\<open>Into<f64>\<close>; widening an \<^verbatim>\<open>f32\<close> keeps whether it is
  finite, so that the test is taken on the value itself.\<close>

definition validate_finite_float :: "direct_column_plan \<Rightarrow> usize \<Rightarrow> bool \<Rightarrow> error + unit" where
  "validate_finite_float col row value_is_finite =
     (if \<not> value_is_finite then Err (direct_conversion_error col row NonFiniteFloat) else Ok ())"

definition measure_uint64_checked_bigint_column_cell_lengths ::
    "u64 option list \<Rightarrow> direct_column_plan \<Rightarrow> usize \<Rightarrow> usize \<Rightarrow> usize list \<Rightarrow> error + usize list" where
  "measure_uint64_checked_bigint_column_cell_lengths array col column_index column_count cell_lengths =
     (case plan_encoding col of
        EncPrimitive UInt64ToCheckedBigInt \<Rightarrow>
          measure_checked_primitive_column_cell_lengths array col 8
            (\<lambda>row v. map_ok (\<lambda>_. ()) (uint64_checked_bigint_bytes v col row))
            column_index column_count cell_lengths
      | _ \<Rightarrow> Err unsupported_batch)"

definition measure_float32_column_cell_lengths ::
    "f32 option list \<Rightarrow> direct_column_plan \<Rightarrow> usize \<Rightarrow> usize \<Rightarrow> usize list \<Rightarrow> error + usize list" where
  "measure_float32_column_cell_lengths array col column_index column_count cell_lengths =
     (case plan_encoding col of
        EncPrimitive Float32ToReal \<Rightarrow>
          measure_checked_primitive_column_cell_lengths array col 4
            (\<lambda>row v. validate_finite_float col row (f32_is_finite v))
            column_index column_count cell_lengths
      | _ \<Rightarrow> Err unsupported_batch)"

definition measure_float16_column_cell_lengths ::
    "f32 option list \<Rightarrow> direct_column_plan \<Rightarrow> usize \<Rightarrow> usize \<Rightarrow> usize list \<Rightarrow> error + usize list" where
  "measure_float16_column_cell_lengths array col column_index column_count cell_lengths =
     (case plan_encoding col of
        EncPrimitive Float16ToReal \<Rightarrow>
          measure_checked_primitive_column_cell_lengths array col 4
            (\<lambda>row v. validate_finite_float col row (f32_is_finite v))
            column_index column_count cell_lengths
      | _ \<Rightarrow> Err unsupported_batch)"

definition measure_float64_column_cell_lengths ::
    "f64 option list \<Rightarrow> direct_column_plan \<Rightarrow> usize \<Rightarrow> usize \<Rightarrow> usize list \<Rightarrow> error + usize list" where
  "measure_float64_column_cell_lengths array col column_index column_count cell_lengths =
     (case plan_encoding col of
        EncPrimitive Float64ToFloat \<Rightarrow>
          measure_checked_primitive_column_cell_lengths array col 8
            (\<lambda>row v. validate_finite_float col row (f64_is_finite v))
            column_index column_count cell_lengths
      | _ \<Rightarrow> Err unsupported_batch)"

subsection \<open>Writing cells\<close>

definition write_null_primitive_cell :: "bytes \<Rightarrow> cell_position \<Rightarrow> error + bytes" where
  "write_null_primitive_cell bs cell =
     (if pos_len cell \<noteq> CELL_LEN_PREFIX_LEN then Err invalid_payload
      else if pos_offset cell < length bs then Ok (bs[pos_offset cell := 0])
      else Err invalid_payload)"

text \<open>\<^verbatim>\<open>cell_bytes[0] = len; cell_bytes[1..].copy_from_slice(value)\<close>.\<close>

definition write_nullable_primitive_cell :: "bytes \<Rightarrow> cell_position \<Rightarrow> bytes \<Rightarrow> error + bytes" where
  "write_nullable_primitive_cell bs cell v =
     and_then (ok_or invalid_payload (checked_usize (CELL_LEN_PREFIX_LEN + length v))) (\<lambda>expected_len.
       if pos_len cell \<noteq> expected_len then Err invalid_payload
       else
         cell_bytes_mut bs cell (\<lambda>dst.
           and_then (ok_or invalid_payload (try_unsigned (int (length v)))) (\<lambda>n.
             Ok (splice (dst[0 := n]) 1 v))))"

definition write_fixed_width_cell :: "bytes \<Rightarrow> cell_position \<Rightarrow> bytes \<Rightarrow> error + bytes" where
  "write_fixed_width_cell bs cell v =
     (if pos_len cell \<noteq> length v then Err invalid_payload
      else cell_bytes_mut bs cell (\<lambda>dst. Ok (splice dst 0 v)))"

definition write_primitive_cell ::
    "bytes \<Rightarrow> cell_position \<Rightarrow> direct_column_plan \<Rightarrow> bytes \<Rightarrow> error + bytes" where
  "write_primitive_cell bs cell col v =
     (if plan_nullable col then write_nullable_primitive_cell bs cell v
      else write_fixed_width_cell bs cell v)"

definition fill_primitive_cell ::
    "direct_column_plan \<Rightarrow> (usize \<Rightarrow> 'a \<Rightarrow> error + bytes)
      \<Rightarrow> usize \<Rightarrow> 'a option \<Rightarrow> cell_position \<Rightarrow> bytes \<Rightarrow> error + bytes" where
  "fill_primitive_cell col value_bytes row v cell bs =
     (case v of
        None \<Rightarrow>
          if \<not> plan_nullable col then Err (direct_conversion_error col row NullInNonNullableColumn)
          else write_null_primitive_cell bs cell
      | Some x \<Rightarrow> and_then (value_bytes row x) (write_primitive_cell bs cell col))"

definition fill_primitive_column ::
    "'a option list \<Rightarrow> direct_column_plan \<Rightarrow> (usize \<Rightarrow> 'a \<Rightarrow> error + bytes)
      \<Rightarrow> usize \<Rightarrow> usize \<Rightarrow> row_layout \<Rightarrow> bytes \<Rightarrow> error + bytes" where
  "fill_primitive_column array col value_bytes = fill_rows (fill_primitive_cell col value_bytes) array"

text \<open>The bytes of a value: \<^verbatim>\<open>to_le_bytes\<close> after widening to the target's width.\<close>

definition boolean_bytes :: "usize \<Rightarrow> bool \<Rightarrow> error + bytes" where
  "boolean_bytes row v = Ok [if v then 1 else 0]"

definition uint8_bytes :: "usize \<Rightarrow> u8 \<Rightarrow> error + bytes" where
  "uint8_bytes row v = Ok [v]"

definition int8_bytes :: "usize \<Rightarrow> i8 \<Rightarrow> error + bytes" where
  "int8_bytes row v = Ok (le_bytes 2 (unat (scast v :: i16)))"

definition int16_bytes :: "usize \<Rightarrow> i16 \<Rightarrow> error + bytes" where
  "int16_bytes row v = Ok (le_bytes 2 (unat v))"

definition int32_bytes :: "usize \<Rightarrow> i32 \<Rightarrow> error + bytes" where
  "int32_bytes row v = Ok (le_bytes 4 (unat v))"

definition uint16_bytes :: "usize \<Rightarrow> u16 \<Rightarrow> error + bytes" where
  "uint16_bytes row v = Ok (le_bytes 4 (unat (ucast v :: i32)))"

definition int64_bytes :: "usize \<Rightarrow> i64 \<Rightarrow> error + bytes" where
  "int64_bytes row v = Ok (le_bytes 8 (unat v))"

definition uint32_bytes :: "usize \<Rightarrow> u32 \<Rightarrow> error + bytes" where
  "uint32_bytes row v = Ok (le_bytes 8 (unat (ucast v :: i64)))"

definition float32_bytes :: "direct_column_plan \<Rightarrow> usize \<Rightarrow> f32 \<Rightarrow> error + bytes" where
  "float32_bytes col row v =
     (if \<not> f32_is_finite v then Err (direct_conversion_error col row NonFiniteFloat)
      else Ok (le_bytes 4 (unat v)))"

definition float64_bytes :: "direct_column_plan \<Rightarrow> usize \<Rightarrow> f64 \<Rightarrow> error + bytes" where
  "float64_bytes col row v =
     (if \<not> f64_is_finite v then Err (direct_conversion_error col row NonFiniteFloat)
      else Ok (le_bytes 8 (unat v)))"

lemmas plain_value_bytes = boolean_bytes_def uint8_bytes_def int8_bytes_def int16_bytes_def
  int32_bytes_def uint16_bytes_def int64_bytes_def uint32_bytes_def

definition fill_boolean_column where
  "fill_boolean_column array col = fill_primitive_column array col boolean_bytes"
definition fill_uint8_column where
  "fill_uint8_column array col = fill_primitive_column array col uint8_bytes"
definition fill_int8_column where
  "fill_int8_column array col = fill_primitive_column array col int8_bytes"
definition fill_int16_column where
  "fill_int16_column array col = fill_primitive_column array col int16_bytes"
definition fill_int32_column where
  "fill_int32_column array col = fill_primitive_column array col int32_bytes"
definition fill_uint16_column where
  "fill_uint16_column array col = fill_primitive_column array col uint16_bytes"
definition fill_int64_column where
  "fill_int64_column array col = fill_primitive_column array col int64_bytes"
definition fill_uint32_column where
  "fill_uint32_column array col = fill_primitive_column array col uint32_bytes"
definition fill_uint64_checked_bigint_column where
  "fill_uint64_checked_bigint_column array col =
     fill_primitive_column array col (\<lambda>row v. uint64_checked_bigint_bytes v col row)"
definition fill_float32_column where
  "fill_float32_column array col = fill_primitive_column array col (float32_bytes col)"
definition fill_float16_column where
  "fill_float16_column array col = fill_primitive_column array col (float32_bytes col)"
definition fill_float64_column where
  "fill_float64_column array col = fill_primitive_column array col (float64_bytes col)"

subsection \<open>Appending cells\<close>

definition append_null_primitive_cell ::
    "bytes \<Rightarrow> direct_column_plan \<Rightarrow> usize \<Rightarrow> usize \<Rightarrow> error + bytes" where
  "append_null_primitive_cell buf col row measured_len =
     (if \<not> plan_nullable col then Err (direct_conversion_error col row NullInNonNullableColumn)
      else if measured_len \<noteq> CELL_LEN_PREFIX_LEN then Err invalid_payload
      else Ok (buf @ [0]))"

definition append_primitive_cell ::
    "bytes \<Rightarrow> direct_column_plan \<Rightarrow> usize \<Rightarrow> bytes \<Rightarrow> error + bytes" where
  "append_primitive_cell buf col measured_len v =
     (if plan_nullable col then
        and_then (ok_or invalid_payload (checked_usize (CELL_LEN_PREFIX_LEN + length v))) (\<lambda>expected_len.
          if measured_len \<noteq> expected_len then Err invalid_payload
          else
            and_then (ok_or invalid_payload (try_unsigned (int (length v)))) (\<lambda>n.
              Ok ((buf @ [n]) @ v)))
      else if measured_len \<noteq> length v then Err invalid_payload
      else Ok (buf @ v))"

definition append_primitive_value ::
    "direct_column_plan \<Rightarrow> (usize \<Rightarrow> 'a \<Rightarrow> error + bytes) \<Rightarrow> usize \<Rightarrow> 'a option \<Rightarrow> usize \<Rightarrow> bytes
      \<Rightarrow> error + bytes" where
  "append_primitive_value col value_bytes row v measured_len buf =
     (case v of
        None \<Rightarrow> append_null_primitive_cell buf col row measured_len
      | Some x \<Rightarrow> and_then (value_bytes row x) (append_primitive_cell buf col measured_len))"

definition append_primitive_array_cell ::
    "bytes \<Rightarrow> 'a option list \<Rightarrow> direct_column_plan \<Rightarrow> (usize \<Rightarrow> 'a \<Rightarrow> error + bytes)
      \<Rightarrow> usize \<Rightarrow> usize \<Rightarrow> error + bytes" where
  "append_primitive_array_cell buf array col value_bytes row measured_len =
     append_primitive_value col value_bytes row (array ! row) measured_len buf"

definition append_boolean_cell where
  "append_boolean_cell buf array col = append_primitive_array_cell buf array col boolean_bytes"
definition append_uint8_cell where
  "append_uint8_cell buf array col = append_primitive_array_cell buf array col uint8_bytes"
definition append_int8_cell where
  "append_int8_cell buf array col = append_primitive_array_cell buf array col int8_bytes"
definition append_int16_cell where
  "append_int16_cell buf array col = append_primitive_array_cell buf array col int16_bytes"
definition append_int32_cell where
  "append_int32_cell buf array col = append_primitive_array_cell buf array col int32_bytes"
definition append_uint16_cell where
  "append_uint16_cell buf array col = append_primitive_array_cell buf array col uint16_bytes"
definition append_int64_cell where
  "append_int64_cell buf array col = append_primitive_array_cell buf array col int64_bytes"
definition append_uint32_cell where
  "append_uint32_cell buf array col = append_primitive_array_cell buf array col uint32_bytes"
definition append_uint64_checked_bigint_cell where
  "append_uint64_checked_bigint_cell buf array col =
     append_primitive_array_cell buf array col (\<lambda>row v. uint64_checked_bigint_bytes v col row)"
definition append_float32_cell where
  "append_float32_cell buf array col = append_primitive_array_cell buf array col (float32_bytes col)"
definition append_float16_cell where
  "append_float16_cell buf array col = append_primitive_array_cell buf array col (float32_bytes col)"
definition append_float64_cell where
  "append_float64_cell buf array col = append_primitive_array_cell buf array col (float64_bytes col)"

subsection \<open>What a primitive cell is\<close>

definition primitive_cell_at ::
    "direct_column_plan \<Rightarrow> (usize \<Rightarrow> 'a \<Rightarrow> error + bytes) \<Rightarrow> usize \<Rightarrow> 'a option \<Rightarrow> error + bytes" where
  "primitive_cell_at col value_bytes row v =
     (case v of
        None \<Rightarrow>
          if plan_nullable col then Ok [0]
          else Err (direct_conversion_error col row NullInNonNullableColumn)
      | Some x \<Rightarrow>
          map_ok (\<lambda>b. if plan_nullable col then of_nat (length b) # b else b) (value_bytes row x))"

lemma write_null_primitive_fits:
  "fits_at [0] cell bs \<Longrightarrow> write_null_primitive_cell bs cell = Ok (splice bs (pos_offset cell) [0])"
  by (simp add: write_null_primitive_cell_def fits_at_def CELL_LEN_PREFIX_LEN_def splice_def
      upd_conv_take_nth_drop)

lemma write_primitive_fits:
  assumes "length v < 256"
    and "fits_at (if plan_nullable col then of_nat (length v) # v else v) cell bs"
  shows "write_primitive_cell bs cell col v
    = Ok (splice bs (pos_offset cell) (if plan_nullable col then of_nat (length v) # v else v))"
proof (cases "plan_nullable col")
  case True
  with assms have fits: "fits_at (of_nat (length v) # v) cell bs" by simp
  have n: "(try_unsigned (int (length v)) :: u8 option) = Some (of_nat (length v))"
    using assms(1) by (simp add: try_unsigned_def in_unsigned_def)
  have "cell_bytes_mut bs cell (\<lambda>dst. and_then (ok_or invalid_payload (try_unsigned (int (length v))))
      (\<lambda>n. Ok (splice (dst[0 := n]) 1 v))) = Ok (splice bs (pos_offset cell) (of_nat (length v) # v))"
    using fits by (rule cell_bytes_mut_fits) (simp add: n write_one_part)
  with True fits assms(1) show ?thesis
    by (simp add: write_primitive_cell_def write_nullable_primitive_cell_def CELL_LEN_PREFIX_LEN_def
        checked_usize_def fits_at_def)
next
  case False
  with assms have fits: "fits_at v cell bs" by simp
  then have "cell_bytes_mut bs cell (\<lambda>dst. Ok (splice dst 0 v)) = Ok (splice bs (pos_offset cell) v)"
    by (rule cell_bytes_mut_fits) (simp add: splice_all)
  with False fits show ?thesis
    by (simp add: write_primitive_cell_def write_fixed_width_cell_def fits_at_def)
qed

lemma append_primitive_Ok:
  assumes "length v < 256"
  shows "append_primitive_cell buf col (length (if plan_nullable col then of_nat (length v) # v else v)) v
    = Ok (buf @ (if plan_nullable col then of_nat (length v) # v else v))"
  using assms by (simp add: append_primitive_cell_def CELL_LEN_PREFIX_LEN_def checked_usize_def
      try_unsigned_def in_unsigned_def)

text \<open>Values of one width make cells that measuring, filling and appending agree on.\<close>

locale primitive_values =
  fixes value_len :: usize
    and value_bytes :: "direct_column_plan \<Rightarrow> usize \<Rightarrow> 'a \<Rightarrow> error + bytes"
  assumes value_len: "value_bytes col row x = Ok b \<Longrightarrow> length b = value_len"
    and short: "value_len < 256"
    and any_row: "value_bytes col row x = Ok b \<Longrightarrow> value_bytes col row' x = Ok b"
begin

sublocale codec: column_codec
  "checked_primitive_cell_len col value_len (\<lambda>row x. map_ok (\<lambda>_. ()) (value_bytes col row x))"
  "fill_primitive_cell col (value_bytes col)"
  "append_primitive_value col (value_bytes col)"
  "primitive_cell_at col (value_bytes col)" for col
proof unfold_locales
  fix row row' and v :: "'a option" and c cell bs buf
  show "checked_primitive_cell_len col value_len (\<lambda>row x. map_ok (\<lambda>_. ()) (value_bytes col row x)) row v
      = map_ok length (primitive_cell_at col (value_bytes col) row v)"
  proof (cases v)
    case (Some x)
    with value_len [of col row x] show ?thesis
      by (cases "value_bytes col row x")
        (simp_all add: checked_primitive_cell_len_def primitive_cell_at_def CELL_LEN_PREFIX_LEN_def)
  qed (simp add: checked_primitive_cell_len_def primitive_cell_at_def CELL_LEN_PREFIX_LEN_def)
  assume c: "primitive_cell_at col (value_bytes col) row v = Ok c"
  then consider (null) "v = None" "plan_nullable col" "c = [0]"
    | (bytes) x b where "v = Some x" "value_bytes col row x = Ok b" "length b < 256"
        "c = (if plan_nullable col then of_nat (length b) # b else b)"
    using value_len [of col row] short
    by (cases v) (auto simp: primitive_cell_at_def result_simps split: if_splits)
  then show "append_primitive_value col (value_bytes col) row v (length c) buf = Ok (buf @ c)"
  proof cases
    case null
    then show ?thesis
      by (simp add: append_primitive_value_def append_null_primitive_cell_def CELL_LEN_PREFIX_LEN_def)
  next
    case bytes
    then show ?thesis using append_primitive_Ok [of b buf col] by (simp add: append_primitive_value_def)
  qed
  show "primitive_cell_at col (value_bytes col) row' v = Ok c"
    using c any_row [of col row _ _ row']
    by (cases v) (auto simp: primitive_cell_at_def result_simps split: if_splits)
  assume fits: "fits_at c cell bs"
  from c consider (null) "v = None" "plan_nullable col" "c = [0]"
    | (bytes) x b where "v = Some x" "value_bytes col row x = Ok b" "length b < 256"
        "c = (if plan_nullable col then of_nat (length b) # b else b)"
    using value_len [of col row] short
    by (cases v) (auto simp: primitive_cell_at_def result_simps split: if_splits)
  then show "fill_primitive_cell col (value_bytes col) row v cell bs = Ok (splice bs (pos_offset cell) c)"
  proof cases
    case null
    with fits show ?thesis by (simp add: fill_primitive_cell_def write_null_primitive_fits)
  next
    case bytes
    with fits show ?thesis using write_primitive_fits [of b col cell bs] by (simp add: fill_primitive_cell_def)
  qed
qed

end

interpretation boolean_values: primitive_values 1 "\<lambda>_. boolean_bytes"
  by unfold_locales (auto simp: boolean_bytes_def)
interpretation uint8_values: primitive_values 1 "\<lambda>_. uint8_bytes"
  by unfold_locales (auto simp: uint8_bytes_def)
interpretation int8_values: primitive_values 2 "\<lambda>_. int8_bytes"
  by unfold_locales (auto simp: int8_bytes_def)
interpretation int16_values: primitive_values 2 "\<lambda>_. int16_bytes"
  by unfold_locales (auto simp: int16_bytes_def)
interpretation int32_values: primitive_values 4 "\<lambda>_. int32_bytes"
  by unfold_locales (auto simp: int32_bytes_def)
interpretation uint16_values: primitive_values 4 "\<lambda>_. uint16_bytes"
  by unfold_locales (auto simp: uint16_bytes_def)
interpretation int64_values: primitive_values 8 "\<lambda>_. int64_bytes"
  by unfold_locales (auto simp: int64_bytes_def)
interpretation uint32_values: primitive_values 8 "\<lambda>_. uint32_bytes"
  by unfold_locales (auto simp: uint32_bytes_def)
interpretation uint64_values: primitive_values 8 "\<lambda>col row v. uint64_checked_bigint_bytes v col row"
  by unfold_locales (auto simp: uint64_checked_bigint_bytes_def split: option.splits)
interpretation float32_values: primitive_values 4 float32_bytes
  by unfold_locales (auto simp: float32_bytes_def split: if_splits)
interpretation float64_values: primitive_values 8 float64_bytes
  by unfold_locales (auto simp: float64_bytes_def split: if_splits)

text \<open>The unchecked measure is the checked one with nothing to check.\<close>

lemma primitive_cell_len_checked:
  "primitive_cell_len col value_len = checked_primitive_cell_len col value_len (\<lambda>_ _. Ok ())"
  by (intro ext) (simp add: primitive_cell_len_def checked_primitive_cell_len_def split: option.split)

lemma value_checks:
  "(\<lambda>row v. validate_finite_float col row (f32_is_finite v)) = (\<lambda>row v. map_ok (\<lambda>_. ()) (float32_bytes col row v))"
  "(\<lambda>row v. validate_finite_float col row (f64_is_finite v)) = (\<lambda>row v. map_ok (\<lambda>_. ()) (float64_bytes col row v))"
  "(\<lambda>row x. map_ok (\<lambda>_. ()) (boolean_bytes row x)) = (\<lambda>_ _. Ok ())"
  "(\<lambda>row x. map_ok (\<lambda>_. ()) (uint8_bytes row x)) = (\<lambda>_ _. Ok ())"
  "(\<lambda>row x. map_ok (\<lambda>_. ()) (int8_bytes row x)) = (\<lambda>_ _. Ok ())"
  "(\<lambda>row x. map_ok (\<lambda>_. ()) (int16_bytes row x)) = (\<lambda>_ _. Ok ())"
  "(\<lambda>row x. map_ok (\<lambda>_. ()) (int32_bytes row x)) = (\<lambda>_ _. Ok ())"
  "(\<lambda>row x. map_ok (\<lambda>_. ()) (uint16_bytes row x)) = (\<lambda>_ _. Ok ())"
  "(\<lambda>row x. map_ok (\<lambda>_. ()) (int64_bytes row x)) = (\<lambda>_ _. Ok ())"
  "(\<lambda>row x. map_ok (\<lambda>_. ()) (uint32_bytes row x)) = (\<lambda>_ _. Ok ())"
  by (simp_all add: fun_eq_iff validate_finite_float_def float32_bytes_def float64_bytes_def plain_value_bytes)

end
