(* ===== verification/DecimalColumns.thy ===== *)
theory DecimalColumns
  imports DirectColumns TdsDecimal
begin

text \<open>
  Decimal columns of the direct writer: the column functions of
  \<^verbatim>\<open>src/write/direct/types/decimal.rs\<close> and \<^verbatim>\<open>src/write/direct/types/uint64.rs\<close>. A decimal
  cell carries its own length in both nullable and non-nullable columns.
\<close>

subsection \<open>Decimal arrays\<close>

definition decimal_value_cell_len ::
    "direct_column_plan \<Rightarrow> decimal_conversion \<Rightarrow> (usize \<Rightarrow> 'a \<Rightarrow> error + i128) \<Rightarrow> usize \<Rightarrow> 'a option
      \<Rightarrow> error + usize" where
  "decimal_value_cell_len col c read row v =
     (case v of
        None \<Rightarrow> null_decimal_cell_len col row
      | Some x \<Rightarrow>
          and_then (read row x) (\<lambda>x.
          and_then (normalized_decimal_value col c row x) (\<lambda>unscaled.
            Ok (decimal_cell_len unscaled))))"

definition measure_decimal_values ::
    "'a option list \<Rightarrow> direct_column_plan \<Rightarrow> decimal_conversion \<Rightarrow> (usize \<Rightarrow> 'a \<Rightarrow> error + i128)
      \<Rightarrow> usize \<Rightarrow> usize \<Rightarrow> usize list \<Rightarrow> error + usize list" where
  "measure_decimal_values array col c read = measure_rows (decimal_value_cell_len col c read) array"

definition write_null_direct_decimal_cell ::
    "bytes \<Rightarrow> cell_position \<Rightarrow> direct_column_plan \<Rightarrow> usize \<Rightarrow> error + bytes" where
  "write_null_direct_decimal_cell bs cell col row =
     and_then (null_decimal_cell_len col row) (\<lambda>expected_len.
       if pos_len cell \<noteq> expected_len then Err invalid_payload
       else cell_bytes_mut bs cell write_null_decimal_cell)"

definition write_direct_decimal_cell ::
    "bytes \<Rightarrow> cell_position \<Rightarrow> direct_column_plan \<Rightarrow> i128 \<Rightarrow> error + bytes" where
  "write_direct_decimal_cell bs cell col unscaled =
     (if pos_len cell \<noteq> decimal_cell_len unscaled then Err invalid_payload
      else
        cell_bytes_mut bs cell (\<lambda>dst.
          map_err (\<lambda>err. add_direct_field err col) (write_decimal_cell dst unscaled)))"

definition fill_decimal_value ::
    "direct_column_plan \<Rightarrow> decimal_conversion \<Rightarrow> (usize \<Rightarrow> 'a \<Rightarrow> error + i128)
      \<Rightarrow> usize \<Rightarrow> 'a option \<Rightarrow> cell_position \<Rightarrow> bytes \<Rightarrow> error + bytes" where
  "fill_decimal_value col c read row v cell bs =
     (case v of
        None \<Rightarrow> write_null_direct_decimal_cell bs cell col row
      | Some x \<Rightarrow>
          and_then (read row x) (\<lambda>x.
          and_then (normalized_decimal_value col c row x) (\<lambda>unscaled.
            write_direct_decimal_cell bs cell col unscaled)))"

definition fill_decimal_values ::
    "'a option list \<Rightarrow> direct_column_plan \<Rightarrow> decimal_conversion \<Rightarrow> (usize \<Rightarrow> 'a \<Rightarrow> error + i128)
      \<Rightarrow> usize \<Rightarrow> usize \<Rightarrow> row_layout \<Rightarrow> bytes \<Rightarrow> error + bytes" where
  "fill_decimal_values array col c read = fill_rows (fill_decimal_value col c read) array"

definition append_decimal_value ::
    "direct_column_plan \<Rightarrow> decimal_conversion \<Rightarrow> (usize \<Rightarrow> 'a \<Rightarrow> error + i128)
      \<Rightarrow> usize \<Rightarrow> 'a option \<Rightarrow> usize \<Rightarrow> bytes \<Rightarrow> error + bytes" where
  "append_decimal_value col c read row v measured_len buf =
     (case v of
        None \<Rightarrow>
          and_then (null_decimal_cell_len col row) (\<lambda>expected_len.
            if measured_len \<noteq> expected_len then Err invalid_payload
            else Ok (append_null_decimal_cell buf))
      | Some x \<Rightarrow>
          and_then (read row x) (\<lambda>x.
          and_then (normalized_decimal_value col c row x) (\<lambda>unscaled.
            if measured_len \<noteq> decimal_cell_len unscaled then Err invalid_payload
            else append_decimal_cell buf unscaled)))"

text \<open>How the value of each array is read: widened to \<^verbatim>\<open>i128\<close>, or narrowed with a check.\<close>

definition read_decimal32 :: "usize \<Rightarrow> i32 \<Rightarrow> error + i128" where
  "read_decimal32 row v = Ok (scast v)"
definition read_decimal64 :: "usize \<Rightarrow> i64 \<Rightarrow> error + i128" where
  "read_decimal64 row v = Ok (scast v)"
definition read_decimal128 :: "usize \<Rightarrow> i128 \<Rightarrow> error + i128" where
  "read_decimal128 row v = Ok v"
definition read_decimal256 :: "direct_column_plan \<Rightarrow> usize \<Rightarrow> i256 \<Rightarrow> error + i128" where
  "read_decimal256 col row v = decimal256_to_i128 v col row"

lemmas read_decimal_defs = read_decimal32_def read_decimal64_def read_decimal128_def read_decimal256_def

definition measure_decimal32_column_cell_lengths where
  "measure_decimal32_column_cell_lengths array col c = measure_decimal_values array col c read_decimal32"
definition measure_decimal64_column_cell_lengths where
  "measure_decimal64_column_cell_lengths array col c = measure_decimal_values array col c read_decimal64"
definition measure_decimal128_column_cell_lengths where
  "measure_decimal128_column_cell_lengths array col c = measure_decimal_values array col c read_decimal128"
definition measure_decimal256_column_cell_lengths where
  "measure_decimal256_column_cell_lengths array col c =
     measure_decimal_values array col c (read_decimal256 col)"

definition fill_decimal32_column where
  "fill_decimal32_column array col c = fill_decimal_values array col c read_decimal32"
definition fill_decimal64_column where
  "fill_decimal64_column array col c = fill_decimal_values array col c read_decimal64"
definition fill_decimal128_column where
  "fill_decimal128_column array col c = fill_decimal_values array col c read_decimal128"
definition fill_decimal256_column where
  "fill_decimal256_column array col c = fill_decimal_values array col c (read_decimal256 col)"

definition append_decimal32_cell where
  "append_decimal32_cell buf array col c row n = append_decimal_value col c read_decimal32 row (array ! row) n buf"
definition append_decimal64_cell where
  "append_decimal64_cell buf array col c row n = append_decimal_value col c read_decimal64 row (array ! row) n buf"
definition append_decimal128_cell where
  "append_decimal128_cell buf array col c row n = append_decimal_value col c read_decimal128 row (array ! row) n buf"
definition append_decimal256_cell where
  "append_decimal256_cell buf array col c row n =
     append_decimal_value col c (read_decimal256 col) row (array ! row) n buf"

subsection \<open>Unsigned 64-bit arrays as decimal(20, 0)\<close>

definition null_decimal20_cell_len :: "direct_column_plan \<Rightarrow> usize \<Rightarrow> error + usize" where
  "null_decimal20_cell_len col row =
     (if \<not> plan_nullable col then Err (direct_conversion_error col row NullInNonNullableColumn)
      else Ok NULL_DECIMAL_CELL_LEN)"

definition uint64_decimal20_cell_len :: "direct_column_plan \<Rightarrow> usize \<Rightarrow> u64 option \<Rightarrow> error + usize" where
  "uint64_decimal20_cell_len col row v =
     (case v of
        None \<Rightarrow> null_decimal20_cell_len col row
      | Some x \<Rightarrow> Ok (decimal_cell_len (ucast x)))"

definition measure_uint64_decimal20_cell_lengths ::
    "u64 option list \<Rightarrow> direct_column_plan \<Rightarrow> usize \<Rightarrow> usize \<Rightarrow> usize list \<Rightarrow> error + usize list" where
  "measure_uint64_decimal20_cell_lengths array col = measure_rows (uint64_decimal20_cell_len col) array"

definition write_null_decimal20_cell ::
    "bytes \<Rightarrow> cell_position \<Rightarrow> direct_column_plan \<Rightarrow> usize \<Rightarrow> error + bytes" where
  "write_null_decimal20_cell bs cell col row =
     and_then (null_decimal20_cell_len col row) (\<lambda>expected_len.
       if pos_len cell \<noteq> expected_len then Err invalid_payload
       else cell_bytes_mut bs cell write_null_decimal_cell)"

definition write_uint64_decimal20_cell :: "bytes \<Rightarrow> cell_position \<Rightarrow> u64 \<Rightarrow> error + bytes" where
  "write_uint64_decimal20_cell bs cell v =
     (if pos_len cell \<noteq> decimal_cell_len (ucast v) then Err invalid_payload
      else cell_bytes_mut bs cell (\<lambda>dst. write_decimal_cell dst (ucast v)))"

definition fill_uint64_decimal20_value ::
    "direct_column_plan \<Rightarrow> usize \<Rightarrow> u64 option \<Rightarrow> cell_position \<Rightarrow> bytes \<Rightarrow> error + bytes" where
  "fill_uint64_decimal20_value col row v cell bs =
     (case v of
        None \<Rightarrow> write_null_decimal20_cell bs cell col row
      | Some x \<Rightarrow> write_uint64_decimal20_cell bs cell x)"

definition fill_uint64_decimal20_column ::
    "u64 option list \<Rightarrow> direct_column_plan \<Rightarrow> usize \<Rightarrow> usize \<Rightarrow> row_layout \<Rightarrow> bytes \<Rightarrow> error + bytes" where
  "fill_uint64_decimal20_column array col = fill_rows (fill_uint64_decimal20_value col) array"

definition append_uint64_decimal20_value ::
    "direct_column_plan \<Rightarrow> usize \<Rightarrow> u64 option \<Rightarrow> usize \<Rightarrow> bytes \<Rightarrow> error + bytes" where
  "append_uint64_decimal20_value col row v measured_len buf =
     (case v of
        None \<Rightarrow>
          and_then (null_decimal20_cell_len col row) (\<lambda>expected_len.
            if measured_len \<noteq> expected_len then Err invalid_payload
            else Ok (append_null_decimal_cell buf))
      | Some x \<Rightarrow>
          if measured_len \<noteq> decimal_cell_len (ucast x) then Err invalid_payload
          else append_decimal_cell buf (ucast x))"

definition append_uint64_decimal20_cell ::
    "bytes \<Rightarrow> u64 option list \<Rightarrow> direct_column_plan \<Rightarrow> usize \<Rightarrow> usize \<Rightarrow> error + bytes" where
  "append_uint64_decimal20_cell buf array col row measured_len =
     append_uint64_decimal20_value col row (array ! row) measured_len buf"

subsection \<open>What a decimal cell is\<close>

definition decimal_wire :: "i128 \<Rightarrow> bytes" where
  "decimal_wire v = of_nat (length (decimal_cell_payload v)) # decimal_cell_payload v"

definition decimal_cell_at ::
    "direct_column_plan \<Rightarrow> decimal_conversion \<Rightarrow> (usize \<Rightarrow> 'a \<Rightarrow> error + i128) \<Rightarrow> usize \<Rightarrow> 'a option
      \<Rightarrow> error + bytes" where
  "decimal_cell_at col c read row v =
     (case v of
        None \<Rightarrow>
          if plan_nullable col then Ok [0]
          else Err (direct_conversion_error col row NullInNonNullableColumn)
      | Some x \<Rightarrow> map_ok decimal_wire (and_then (read row x) (normalized_decimal_value col c row)))"

definition uint64_decimal20_cell_at ::
    "direct_column_plan \<Rightarrow> usize \<Rightarrow> u64 option \<Rightarrow> error + bytes" where
  "uint64_decimal20_cell_at col row v =
     (case v of
        None \<Rightarrow>
          if plan_nullable col then Ok [0]
          else Err (direct_conversion_error col row NullInNonNullableColumn)
      | Some x \<Rightarrow> Ok (decimal_wire (ucast x)))"

lemma length_decimal_wire: "length (decimal_wire v) = decimal_cell_len v"
  by (simp add: decimal_wire_def decimal_cell_len_def length_decimal_payload(1) NULL_DECIMAL_CELL_LEN_def)

lemma write_decimal_wire: "length dst = length (decimal_wire v) \<Longrightarrow> write_decimal_cell dst v = Ok (decimal_wire v)"
  by (simp add: decimal_codec.write_cell decimal_wire_def)

lemma append_decimal_wire: "append_decimal_cell buf v = Ok (buf @ decimal_wire v)"
  by (simp add: decimal_codec.append_cell decimal_wire_def)

lemma null_decimal_fits:
  "fits_at [0] cell bs \<Longrightarrow>
   cell_bytes_mut bs cell write_null_decimal_cell = Ok (splice bs (pos_offset cell) [0])"
  by (rule cell_bytes_mut_fits)
    (auto simp: write_null_decimal_cell_def NULL_DECIMAL_CELL_LEN_def length_Suc_conv)

lemma write_direct_decimal_fits:
  assumes "fits_at (decimal_wire v) cell bs"
  shows "write_direct_decimal_cell bs cell col v = Ok (splice bs (pos_offset cell) (decimal_wire v))"
proof -
  have "cell_bytes_mut bs cell (\<lambda>dst. map_err (\<lambda>err. add_direct_field err col) (write_decimal_cell dst v))
      = Ok (splice bs (pos_offset cell) (decimal_wire v))"
    using assms by (rule cell_bytes_mut_fits) (simp add: write_decimal_wire)
  with assms show ?thesis
    by (simp add: write_direct_decimal_cell_def fits_at_def length_decimal_wire)
qed

lemma write_uint64_decimal20_fits:
  assumes "fits_at (decimal_wire (ucast v)) cell bs"
  shows "write_uint64_decimal20_cell bs cell v = Ok (splice bs (pos_offset cell) (decimal_wire (ucast v)))"
proof -
  have "cell_bytes_mut bs cell (\<lambda>dst. write_decimal_cell dst (ucast v))
      = Ok (splice bs (pos_offset cell) (decimal_wire (ucast v)))"
    using assms by (rule cell_bytes_mut_fits) (simp add: write_decimal_wire)
  with assms show ?thesis
    by (simp add: write_uint64_decimal20_cell_def fits_at_def length_decimal_wire)
qed

lemma normalized_decimal_any_row:
  "normalized_decimal_value col c row v = Ok u \<Longrightarrow> normalized_decimal_value col c row' v = Ok u"
  by (auto simp: normalized_decimal_value_def direct_normalize_negative_scale_def result_simps
      split: if_splits)

locale decimal_reader =
  fixes read :: "direct_column_plan \<Rightarrow> usize \<Rightarrow> 'a \<Rightarrow> error + i128"
  assumes any_row: "read col row x = Ok u \<Longrightarrow> read col row' x = Ok u"
begin

sublocale codec: column_codec "decimal_value_cell_len col c (read col)"
  "fill_decimal_value col c (read col)" "append_decimal_value col c (read col)"
  "decimal_cell_at col c (read col)" for col c
proof unfold_locales
  fix row row' and v :: "'a option" and d cell bs buf
  show "decimal_value_cell_len col c (read col) row v = map_ok length (decimal_cell_at col c (read col) row v)"
  proof (cases v)
    case (Some x)
    show ?thesis
    proof (cases "read col row x")
      case (Inr y)
      with Some show ?thesis
        by (cases "normalized_decimal_value col c row y")
          (simp_all add: decimal_value_cell_len_def decimal_cell_at_def length_decimal_wire)
    qed (simp add: Some decimal_value_cell_len_def decimal_cell_at_def)
  qed (simp add: decimal_value_cell_len_def decimal_cell_at_def null_decimal_cell_len_def
      NULL_DECIMAL_CELL_LEN_def)
  assume "decimal_cell_at col c (read col) row v = Ok d"
  then consider (null) "v = None" "plan_nullable col" "d = [0]"
    | (val) x y u where "v = Some x" "read col row x = Ok y" "normalized_decimal_value col c row y = Ok u"
        "d = decimal_wire u"
    by (cases v) (auto simp: decimal_cell_at_def result_simps split: if_splits)
  note cases = this
  from cases show "append_decimal_value col c (read col) row v (length d) buf = Ok (buf @ d)"
    by cases (simp_all add: append_decimal_value_def null_decimal_cell_len_def NULL_DECIMAL_CELL_LEN_def
        append_null_decimal_cell_def length_decimal_wire append_decimal_wire)
  from cases show "decimal_cell_at col c (read col) row' v = Ok d"
  proof cases
    case val
    with any_row [OF val(2), of row'] normalized_decimal_any_row [OF val(3), of row'] show ?thesis
      by (simp add: decimal_cell_at_def)
  qed (simp add: decimal_cell_at_def)
  assume fits: "fits_at d cell bs"
  from cases show "fill_decimal_value col c (read col) row v cell bs = Ok (splice bs (pos_offset cell) d)"
  proof cases
    case null
    with fits show ?thesis
      using null_decimal_fits [of cell bs]
      by (simp add: fill_decimal_value_def write_null_direct_decimal_cell_def null_decimal_cell_len_def
          NULL_DECIMAL_CELL_LEN_def) (simp add: fits_at_def)
  next
    case val
    with fits show ?thesis by (simp add: fill_decimal_value_def write_direct_decimal_fits)
  qed
qed

end

interpretation decimal32_reader: decimal_reader "\<lambda>_. read_decimal32"
  by unfold_locales (simp add: read_decimal_defs)
interpretation decimal64_reader: decimal_reader "\<lambda>_. read_decimal64"
  by unfold_locales (simp add: read_decimal_defs)
interpretation decimal128_reader: decimal_reader "\<lambda>_. read_decimal128"
  by unfold_locales (simp add: read_decimal_defs)
interpretation decimal256_reader: decimal_reader read_decimal256
  by unfold_locales (auto simp: read_decimal_defs decimal256_to_i128_def result_simps)

interpretation uint64_decimal20: column_codec "uint64_decimal20_cell_len col"
  "fill_uint64_decimal20_value col" "append_uint64_decimal20_value col"
  "uint64_decimal20_cell_at col" for col
proof unfold_locales
  fix row row' v d cell bs buf
  show "uint64_decimal20_cell_len col row v = map_ok length (uint64_decimal20_cell_at col row v)"
    by (cases v) (simp_all add: uint64_decimal20_cell_len_def uint64_decimal20_cell_at_def
        length_decimal_wire null_decimal20_cell_len_def NULL_DECIMAL_CELL_LEN_def)
  assume cell: "uint64_decimal20_cell_at col row v = Ok d"
  then show "append_uint64_decimal20_value col row v (length d) buf = Ok (buf @ d)"
    by (cases v) (auto simp: append_uint64_decimal20_value_def uint64_decimal20_cell_at_def
        length_decimal_wire null_decimal20_cell_len_def NULL_DECIMAL_CELL_LEN_def
        append_null_decimal_cell_def append_decimal_wire split: if_splits)
  from cell show "uint64_decimal20_cell_at col row' v = Ok d"
    by (cases v) (auto simp: uint64_decimal20_cell_at_def split: if_splits)
  assume fits: "fits_at d cell bs"
  with cell show "fill_uint64_decimal20_value col row v cell bs = Ok (splice bs (pos_offset cell) d)"
    using null_decimal_fits [of cell bs]
    by (cases v) (auto simp: fill_uint64_decimal20_value_def uint64_decimal20_cell_at_def
        write_uint64_decimal20_fits write_null_decimal20_cell_def null_decimal20_cell_len_def
        NULL_DECIMAL_CELL_LEN_def fits_at_def split: if_splits)
qed

end
