(* ===== verification/BinaryColumns.thy ===== *)
theory BinaryColumns
  imports DirectColumns ScalarConversion
begin

text \<open>
  Columns whose cells carry a two-byte or a partially length-prefixed (PLP) header:
  \<^verbatim>\<open>src/write/direct/types/fixed_size_binary.rs\<close> and
  \<^verbatim>\<open>src/write/direct/types/variable_width.rs\<close>. Both trait targets of the append functions
  (\<^verbatim>\<open>RawRowsAppendTarget\<close>) are byte lists.
\<close>

subsection \<open>Fixed-size binary\<close>

definition LEN_PREFIX_LEN :: usize where "LEN_PREFIX_LEN = 2"

definition binary_length :: "fixed_size_binary_conversion \<Rightarrow> usize" where
  "binary_length c = (case c of FixedSizeBinaryToBinary n \<Rightarrow> n)"

definition fixed_null_cell_len :: "direct_column_plan \<Rightarrow> usize \<Rightarrow> error + usize" where
  "fixed_null_cell_len col row =
     (if plan_nullable col then Ok LEN_PREFIX_LEN
      else Err (direct_conversion_error col row NullInNonNullableColumn))"

definition non_null_cell_len :: "usize \<Rightarrow> error + usize" where
  "non_null_cell_len n = direct_checked_add LEN_PREFIX_LEN n"

definition validate_binary_value_len ::
    "bytes \<Rightarrow> direct_column_plan \<Rightarrow> usize \<Rightarrow> usize \<Rightarrow> error + unit" where
  "validate_binary_value_len v col row expected_len =
     (if length v = expected_len then Ok ()
      else Err (direct_conversion_error col row ValueTypeMismatch))"

definition fixed_binary_cell_len ::
    "direct_column_plan \<Rightarrow> usize \<Rightarrow> usize \<Rightarrow> bytes option \<Rightarrow> error + usize" where
  "fixed_binary_cell_len col n row v =
     (case v of
        None \<Rightarrow> fixed_null_cell_len col row
      | Some x \<Rightarrow> and_then (validate_binary_value_len x col row n) (\<lambda>_. non_null_cell_len n))"

definition measure_fixed_size_binary_column_cell_lengths ::
    "bytes option list \<Rightarrow> direct_column_plan \<Rightarrow> fixed_size_binary_conversion \<Rightarrow> usize \<Rightarrow> usize
      \<Rightarrow> usize list \<Rightarrow> error + usize list" where
  "measure_fixed_size_binary_column_cell_lengths array col c =
     measure_rows (fixed_binary_cell_len col (binary_length c)) array"

definition write_fixed_null_cell ::
    "bytes \<Rightarrow> cell_position \<Rightarrow> direct_column_plan \<Rightarrow> usize \<Rightarrow> error + bytes" where
  "write_fixed_null_cell bs cell col row =
     and_then (fixed_null_cell_len col row) (\<lambda>expected_len.
       if pos_len cell \<noteq> expected_len then Err invalid_payload
       else cell_bytes_mut bs cell (\<lambda>dst. Ok (splice dst 0 (le_bytes 2 0xFFFF))))"

definition write_len_prefix :: "bytes \<Rightarrow> usize \<Rightarrow> error + bytes" where
  "write_len_prefix dst n =
     and_then (ok_or invalid_payload (try_unsigned (int n))) (\<lambda>n :: u16.
       Ok (splice dst 0 (le_bytes 2 (unat n))))"

definition write_binary_cell ::
    "bytes \<Rightarrow> cell_position \<Rightarrow> direct_column_plan \<Rightarrow> usize \<Rightarrow> usize \<Rightarrow> bytes \<Rightarrow> error + bytes" where
  "write_binary_cell bs cell col row expected_value_len v =
     and_then (validate_binary_value_len v col row expected_value_len) (\<lambda>_.
     and_then (non_null_cell_len expected_value_len) (\<lambda>expected_cell_len.
       if pos_len cell \<noteq> expected_cell_len then Err invalid_payload
       else
         cell_bytes_mut bs cell (\<lambda>dst.
           and_then (write_len_prefix dst expected_value_len) (\<lambda>dst.
             Ok (splice dst LEN_PREFIX_LEN v)))))"

definition fill_fixed_binary_value ::
    "direct_column_plan \<Rightarrow> usize \<Rightarrow> usize \<Rightarrow> bytes option \<Rightarrow> cell_position \<Rightarrow> bytes \<Rightarrow> error + bytes" where
  "fill_fixed_binary_value col n row v cell bs =
     (case v of
        None \<Rightarrow> write_fixed_null_cell bs cell col row
      | Some x \<Rightarrow> write_binary_cell bs cell col row n x)"

definition fill_fixed_size_binary_column ::
    "bytes option list \<Rightarrow> direct_column_plan \<Rightarrow> fixed_size_binary_conversion \<Rightarrow> usize \<Rightarrow> usize
      \<Rightarrow> row_layout \<Rightarrow> bytes \<Rightarrow> error + bytes" where
  "fill_fixed_size_binary_column array col c =
     fill_rows (fill_fixed_binary_value col (binary_length c)) array"

definition write_len_prefix_to_buffer :: "bytes \<Rightarrow> usize \<Rightarrow> error + bytes" where
  "write_len_prefix_to_buffer buf n =
     and_then (ok_or invalid_payload (try_unsigned (int n))) (\<lambda>n :: u16.
       Ok (buf @ le_bytes 2 (unat n)))"

definition append_fixed_binary_value ::
    "direct_column_plan \<Rightarrow> usize \<Rightarrow> usize \<Rightarrow> bytes option \<Rightarrow> usize \<Rightarrow> bytes \<Rightarrow> error + bytes" where
  "append_fixed_binary_value col n row v measured_len buf =
     (case v of
        None \<Rightarrow>
          and_then (fixed_null_cell_len col row) (\<lambda>expected_len.
            if measured_len \<noteq> expected_len then Err invalid_payload
            else Ok (buf @ le_bytes 2 0xFFFF))
      | Some x \<Rightarrow>
          and_then (validate_binary_value_len x col row n) (\<lambda>_.
          and_then (non_null_cell_len n) (\<lambda>expected_len.
            if measured_len \<noteq> expected_len then Err invalid_payload
            else and_then (write_len_prefix_to_buffer buf n) (\<lambda>buf. Ok (buf @ x)))))"

definition append_fixed_size_binary_cell ::
    "bytes \<Rightarrow> bytes option list \<Rightarrow> direct_column_plan \<Rightarrow> fixed_size_binary_conversion \<Rightarrow> usize \<Rightarrow> usize
      \<Rightarrow> error + bytes" where
  "append_fixed_size_binary_cell buf array col c row measured_len =
     append_fixed_binary_value col (binary_length c) row (array ! row) measured_len buf"

subsection \<open>Variable width: lengths\<close>

definition BOUNDED_LEN_PREFIX_LEN :: usize where "BOUNDED_LEN_PREFIX_LEN = 2"
definition PLP_LEN_PREFIX_LEN :: usize where "PLP_LEN_PREFIX_LEN = 8"
definition PLP_CHUNK_LEN_PREFIX_LEN :: usize where "PLP_CHUNK_LEN_PREFIX_LEN = 4"
definition PLP_TERMINATOR_LEN :: usize where "PLP_TERMINATOR_LEN = 4"
definition MAX_BOUNDED_TDS_VALUE_LEN :: usize where "MAX_BOUNDED_TDS_VALUE_LEN = 0xFFFE"
definition MAX_PLP_CHUNK_LEN :: usize where "MAX_PLP_CHUNK_LEN = 0xFFFFFFFF"

lemmas variable_constants = BOUNDED_LEN_PREFIX_LEN_def PLP_LEN_PREFIX_LEN_def
  PLP_CHUNK_LEN_PREFIX_LEN_def PLP_TERMINATOR_LEN_def MAX_BOUNDED_TDS_VALUE_LEN_def MAX_PLP_CHUNK_LEN_def

definition variable_null_cell_len :: "direct_column_plan \<Rightarrow> usize \<Rightarrow> mssql_type_length \<Rightarrow> error + usize" where
  "variable_null_cell_len col row len =
     (if \<not> plan_nullable col then Err (direct_conversion_error col row NullInNonNullableColumn)
      else Ok (case len of Bounded _ \<Rightarrow> BOUNDED_LEN_PREFIX_LEN | MaxLength \<Rightarrow> PLP_LEN_PREFIX_LEN))"

definition bounded_cell_len :: "usize \<Rightarrow> error + usize" where
  "bounded_cell_len encoded_bytes =
     (if encoded_bytes > MAX_BOUNDED_TDS_VALUE_LEN then Err invalid_payload
      else direct_checked_add BOUNDED_LEN_PREFIX_LEN encoded_bytes)"

definition plp_cell_len :: "usize \<Rightarrow> error + usize" where
  "plp_cell_len encoded_bytes =
     (if encoded_bytes > MAX_PLP_CHUNK_LEN then Err invalid_payload
      else
        and_then (direct_checked_add PLP_LEN_PREFIX_LEN PLP_CHUNK_LEN_PREFIX_LEN) (\<lambda>n.
        and_then (direct_checked_add n encoded_bytes) (\<lambda>n.
          if encoded_bytes \<noteq> 0 then direct_checked_add n PLP_TERMINATOR_LEN else Ok n)))"

definition value_too_long_error :: "direct_column_plan \<Rightarrow> usize \<Rightarrow> error" where
  "value_too_long_error col row = direct_conversion_error col row ValueTooLong"

definition nvarchar_cell_len ::
    "direct_column_plan \<Rightarrow> mssql_type_length \<Rightarrow> usize \<Rightarrow> rstr option \<Rightarrow> error + usize" where
  "nvarchar_cell_len col len row v =
     (case v of
        None \<Rightarrow> variable_null_cell_len col row len
      | Some x \<Rightarrow>
          let code_units = length (encode_utf16 x) in
          and_then (ok_or invalid_payload (checked_usize (code_units * 2))) (\<lambda>encoded_bytes.
            case len of
              Bounded limit \<Rightarrow>
                if code_units > limit then Err (value_too_long_error col row)
                else bounded_cell_len encoded_bytes
            | MaxLength \<Rightarrow> plp_cell_len encoded_bytes))"

definition varbinary_cell_len ::
    "direct_column_plan \<Rightarrow> mssql_type_length \<Rightarrow> usize \<Rightarrow> bytes option \<Rightarrow> error + usize" where
  "varbinary_cell_len col len row v =
     (case v of
        None \<Rightarrow> variable_null_cell_len col row len
      | Some x \<Rightarrow>
          (case len of
             Bounded limit \<Rightarrow>
               if length x > limit then Err (value_too_long_error col row)
               else bounded_cell_len (length x)
           | MaxLength \<Rightarrow> plp_cell_len (length x)))"

definition measure_nvarchar_cell_lengths ::
    "rstr option list \<Rightarrow> direct_column_plan \<Rightarrow> mssql_type_length \<Rightarrow> usize \<Rightarrow> usize \<Rightarrow> usize list
      \<Rightarrow> error + usize list" where
  "measure_nvarchar_cell_lengths array col len = measure_rows (nvarchar_cell_len col len) array"

definition measure_varbinary_cell_lengths ::
    "bytes option list \<Rightarrow> direct_column_plan \<Rightarrow> mssql_type_length \<Rightarrow> usize \<Rightarrow> usize \<Rightarrow> usize list
      \<Rightarrow> error + usize list" where
  "measure_varbinary_cell_lengths array col len = measure_rows (varbinary_cell_len col len) array"

definition measure_nvarchar_column_cell_lengths ::
    "rstr option list \<Rightarrow> direct_column_plan \<Rightarrow> usize \<Rightarrow> usize \<Rightarrow> usize list \<Rightarrow> error + usize list" where
  "measure_nvarchar_column_cell_lengths array col column_index column_count cell_lengths =
     (case plan_encoding col of
        EncVariableWidth (StringToNVarChar len) \<Rightarrow>
          measure_nvarchar_cell_lengths array col len column_index column_count cell_lengths
      | _ \<Rightarrow> Err unsupported_batch)"

definition measure_varbinary_column_cell_lengths ::
    "bytes option list \<Rightarrow> direct_column_plan \<Rightarrow> usize \<Rightarrow> usize \<Rightarrow> usize list \<Rightarrow> error + usize list" where
  "measure_varbinary_column_cell_lengths array col column_index column_count cell_lengths =
     (case plan_encoding col of
        EncVariableWidth (BytesToVarBinary len) \<Rightarrow>
          measure_varbinary_cell_lengths array col len column_index column_count cell_lengths
      | _ \<Rightarrow> Err unsupported_batch)"

subsection \<open>Variable width: filling\<close>

definition utf16le :: "rstr \<Rightarrow> bytes" where
  "utf16le s = concat (map (\<lambda>u. le_bytes 2 (unat u)) (encode_utf16 s))"

text \<open>\<^verbatim>\<open>chunks_exact_mut(2).zip(encode_utf16())\<close> stops at the shorter of the two.\<close>

definition write_utf16le :: "bytes \<Rightarrow> rstr \<Rightarrow> bytes" where
  "write_utf16le dst s = splice dst 0
     (concat (map (\<lambda>u. le_bytes 2 (unat u)) (take (length dst div 2) (encode_utf16 s))))"

definition write_u16_prefix :: "bytes \<Rightarrow> usize \<Rightarrow> error + bytes" where
  "write_u16_prefix dst n =
     and_then (ok_or invalid_payload (try_unsigned (int n))) (\<lambda>n :: u16.
       Ok (splice dst 0 (le_bytes 2 (unat n))))"

definition write_plp_header :: "bytes \<Rightarrow> usize \<Rightarrow> error + bytes" where
  "write_plp_header dst n =
     (if n > MAX_PLP_CHUNK_LEN then Err invalid_payload
      else Ok (splice (splice dst 0 (le_bytes 8 0xFFFFFFFFFFFFFFFE)) PLP_LEN_PREFIX_LEN (le_bytes 4 n)))"

definition write_plp_terminator :: "bytes \<Rightarrow> usize \<Rightarrow> bytes" where
  "write_plp_terminator dst offset = (if offset < length dst then splice dst offset (le_bytes 4 0) else dst)"

definition write_variable_null_cell ::
    "bytes \<Rightarrow> cell_position \<Rightarrow> direct_column_plan \<Rightarrow> usize \<Rightarrow> mssql_type_length \<Rightarrow> error + bytes" where
  "write_variable_null_cell bs cell col row len =
     and_then (variable_null_cell_len col row len) (\<lambda>expected_len.
       if pos_len cell \<noteq> expected_len then Err invalid_payload
       else
         cell_bytes_mut bs cell (\<lambda>dst.
           case len of
             Bounded _ \<Rightarrow> Ok (splice dst 0 (le_bytes 2 0xFFFF))
           | MaxLength \<Rightarrow> Ok (splice dst 0 (le_bytes 8 0xFFFFFFFFFFFFFFFF))))"

definition validate_utf16_byte_len :: "usize \<Rightarrow> error + unit" where
  "validate_utf16_byte_len encoded_bytes =
     (if encoded_bytes mod 2 = 0 then Ok () else Err invalid_payload)"

definition bounded_nvarchar_encoded_bytes :: "usize \<Rightarrow> error + usize" where
  "bounded_nvarchar_encoded_bytes cell_len =
     (if cell_len < BOUNDED_LEN_PREFIX_LEN then Err invalid_payload
      else
        let encoded_bytes = cell_len - BOUNDED_LEN_PREFIX_LEN in
        and_then (validate_utf16_byte_len encoded_bytes) (\<lambda>_. Ok encoded_bytes))"

definition plp_nvarchar_encoded_bytes :: "usize \<Rightarrow> error + usize" where
  "plp_nvarchar_encoded_bytes cell_len =
     (let minimum_non_null_len = PLP_LEN_PREFIX_LEN + PLP_CHUNK_LEN_PREFIX_LEN in
      if cell_len = minimum_non_null_len then Ok 0
      else
        let non_empty_overhead = minimum_non_null_len + PLP_TERMINATOR_LEN in
        if cell_len < non_empty_overhead then Err invalid_payload
        else
          let encoded_bytes = cell_len - non_empty_overhead in
          and_then (validate_utf16_byte_len encoded_bytes) (\<lambda>_. Ok encoded_bytes))"

definition write_bounded_nvarchar_cell ::
    "bytes \<Rightarrow> cell_position \<Rightarrow> rstr \<Rightarrow> usize \<Rightarrow> error + bytes" where
  "write_bounded_nvarchar_cell bs cell v encoded_bytes =
     and_then (bounded_cell_len encoded_bytes) (\<lambda>expected_len.
       if pos_len cell \<noteq> expected_len then Err invalid_payload
       else
         cell_bytes_mut bs cell (\<lambda>dst.
           and_then (write_u16_prefix dst encoded_bytes) (\<lambda>dst.
             Ok (splice dst BOUNDED_LEN_PREFIX_LEN (write_utf16le (drop BOUNDED_LEN_PREFIX_LEN dst) v)))))"

definition write_plp_nvarchar_cell ::
    "bytes \<Rightarrow> cell_position \<Rightarrow> rstr \<Rightarrow> usize \<Rightarrow> error + bytes" where
  "write_plp_nvarchar_cell bs cell v encoded_bytes =
     and_then (plp_cell_len encoded_bytes) (\<lambda>expected_len.
       if pos_len cell \<noteq> expected_len then Err invalid_payload
       else
         cell_bytes_mut bs cell (\<lambda>dst.
           and_then (write_plp_header dst encoded_bytes) (\<lambda>dst.
             let payload_start = PLP_LEN_PREFIX_LEN + PLP_CHUNK_LEN_PREFIX_LEN;
                 payload_end = payload_start + encoded_bytes in
             Ok (write_plp_terminator
                  (splice dst payload_start
                    (write_utf16le (take (payload_end - payload_start) (drop payload_start dst)) v))
                  payload_end))))"

definition write_nvarchar_cell ::
    "bytes \<Rightarrow> cell_position \<Rightarrow> direct_column_plan \<Rightarrow> usize \<Rightarrow> mssql_type_length \<Rightarrow> rstr \<Rightarrow> error + bytes" where
  "write_nvarchar_cell bs cell col row len v =
     (case len of
        Bounded limit \<Rightarrow>
          and_then (bounded_nvarchar_encoded_bytes (pos_len cell)) (\<lambda>encoded_bytes.
            if encoded_bytes div 2 > limit then Err (value_too_long_error col row)
            else write_bounded_nvarchar_cell bs cell v encoded_bytes)
      | MaxLength \<Rightarrow>
          and_then (plp_nvarchar_encoded_bytes (pos_len cell)) (write_plp_nvarchar_cell bs cell v))"

definition write_bounded_payload_cell :: "bytes \<Rightarrow> cell_position \<Rightarrow> bytes \<Rightarrow> error + bytes" where
  "write_bounded_payload_cell bs cell v =
     and_then (bounded_cell_len (length v)) (\<lambda>expected_len.
       if pos_len cell \<noteq> expected_len then Err invalid_payload
       else
         cell_bytes_mut bs cell (\<lambda>dst.
           and_then (write_u16_prefix dst (length v)) (\<lambda>dst.
             Ok (splice dst BOUNDED_LEN_PREFIX_LEN v))))"

definition write_plp_payload_cell :: "bytes \<Rightarrow> cell_position \<Rightarrow> bytes \<Rightarrow> error + bytes" where
  "write_plp_payload_cell bs cell v =
     and_then (plp_cell_len (length v)) (\<lambda>expected_len.
       if pos_len cell \<noteq> expected_len then Err invalid_payload
       else
         cell_bytes_mut bs cell (\<lambda>dst.
           and_then (write_plp_header dst (length v)) (\<lambda>dst.
             let payload_start = PLP_LEN_PREFIX_LEN + PLP_CHUNK_LEN_PREFIX_LEN;
                 payload_end = payload_start + length v in
             Ok (write_plp_terminator (splice dst payload_start v) payload_end))))"

definition write_varbinary_cell ::
    "bytes \<Rightarrow> cell_position \<Rightarrow> direct_column_plan \<Rightarrow> usize \<Rightarrow> mssql_type_length \<Rightarrow> bytes \<Rightarrow> error + bytes" where
  "write_varbinary_cell bs cell col row len v =
     (case len of
        Bounded limit \<Rightarrow>
          if length v > limit then Err (value_too_long_error col row)
          else write_bounded_payload_cell bs cell v
      | MaxLength \<Rightarrow> write_plp_payload_cell bs cell v)"

definition fill_nvarchar_value ::
    "direct_column_plan \<Rightarrow> mssql_type_length \<Rightarrow> usize \<Rightarrow> rstr option \<Rightarrow> cell_position \<Rightarrow> bytes
      \<Rightarrow> error + bytes" where
  "fill_nvarchar_value col len row v cell bs =
     (case v of
        None \<Rightarrow> write_variable_null_cell bs cell col row len
      | Some x \<Rightarrow> write_nvarchar_cell bs cell col row len x)"

definition fill_varbinary_value ::
    "direct_column_plan \<Rightarrow> mssql_type_length \<Rightarrow> usize \<Rightarrow> bytes option \<Rightarrow> cell_position \<Rightarrow> bytes
      \<Rightarrow> error + bytes" where
  "fill_varbinary_value col len row v cell bs =
     (case v of
        None \<Rightarrow> write_variable_null_cell bs cell col row len
      | Some x \<Rightarrow> write_varbinary_cell bs cell col row len x)"

definition fill_nvarchar_column ::
    "rstr option list \<Rightarrow> direct_column_plan \<Rightarrow> usize \<Rightarrow> usize \<Rightarrow> row_layout \<Rightarrow> bytes \<Rightarrow> error + bytes" where
  "fill_nvarchar_column array col column_index column_count layout bs =
     (case plan_encoding col of
        EncVariableWidth (StringToNVarChar len) \<Rightarrow>
          fill_rows (fill_nvarchar_value col len) array column_index column_count layout bs
      | _ \<Rightarrow> Err unsupported_batch)"

definition fill_varbinary_column ::
    "bytes option list \<Rightarrow> direct_column_plan \<Rightarrow> usize \<Rightarrow> usize \<Rightarrow> row_layout \<Rightarrow> bytes \<Rightarrow> error + bytes" where
  "fill_varbinary_column array col column_index column_count layout bs =
     (case plan_encoding col of
        EncVariableWidth (BytesToVarBinary len) \<Rightarrow>
          fill_rows (fill_varbinary_value col len) array column_index column_count layout bs
      | _ \<Rightarrow> Err unsupported_batch)"

subsection \<open>Variable width: appending\<close>

definition append_variable_null_cell ::
    "bytes \<Rightarrow> direct_column_plan \<Rightarrow> usize \<Rightarrow> usize \<Rightarrow> mssql_type_length \<Rightarrow> error + bytes" where
  "append_variable_null_cell buf col row measured_len len =
     and_then (variable_null_cell_len col row len) (\<lambda>expected_len.
       if measured_len \<noteq> expected_len then Err invalid_payload
       else
         (case len of
            Bounded _ \<Rightarrow> Ok (buf @ le_bytes 2 0xFFFF)
          | MaxLength \<Rightarrow> Ok (buf @ le_bytes 8 0xFFFFFFFFFFFFFFFF)))"

definition append_utf16le :: "bytes \<Rightarrow> rstr \<Rightarrow> bytes" where
  "append_utf16le buf s = foldl (\<lambda>buf u. buf @ le_bytes 2 (unat u)) buf (encode_utf16 s)"

definition append_plp_header :: "bytes \<Rightarrow> usize \<Rightarrow> error + bytes" where
  "append_plp_header buf n =
     (if n > MAX_PLP_CHUNK_LEN then Err invalid_payload
      else Ok ((buf @ le_bytes 8 0xFFFFFFFFFFFFFFFE) @ le_bytes 4 n))"

definition append_plp_terminator :: "bytes \<Rightarrow> usize \<Rightarrow> bytes" where
  "append_plp_terminator buf n = (if n \<noteq> 0 then buf @ le_bytes 4 0 else buf)"

definition append_bounded_nvarchar_cell :: "bytes \<Rightarrow> rstr \<Rightarrow> usize \<Rightarrow> error + bytes" where
  "append_bounded_nvarchar_cell buf v encoded_bytes =
     and_then (ok_or invalid_payload (try_unsigned (int encoded_bytes))) (\<lambda>n :: u16.
       Ok (append_utf16le (buf @ le_bytes 2 (unat n)) v))"

definition append_plp_nvarchar_cell :: "bytes \<Rightarrow> rstr \<Rightarrow> usize \<Rightarrow> error + bytes" where
  "append_plp_nvarchar_cell buf v encoded_bytes =
     and_then (append_plp_header buf encoded_bytes) (\<lambda>buf.
       Ok (append_plp_terminator (append_utf16le buf v) encoded_bytes))"

definition append_bounded_payload_cell :: "bytes \<Rightarrow> usize \<Rightarrow> bytes \<Rightarrow> error + bytes" where
  "append_bounded_payload_cell buf measured_len v =
     and_then (bounded_cell_len (length v)) (\<lambda>expected_len.
       if measured_len \<noteq> expected_len then Err invalid_payload
       else
         and_then (ok_or invalid_payload (try_unsigned (int (length v)))) (\<lambda>n :: u16.
           Ok ((buf @ le_bytes 2 (unat n)) @ v)))"

definition append_plp_payload_cell :: "bytes \<Rightarrow> usize \<Rightarrow> bytes \<Rightarrow> error + bytes" where
  "append_plp_payload_cell buf measured_len v =
     and_then (plp_cell_len (length v)) (\<lambda>expected_len.
       if measured_len \<noteq> expected_len then Err invalid_payload
       else
         and_then (append_plp_header buf (length v)) (\<lambda>buf.
           Ok (append_plp_terminator (buf @ v) (length v))))"

definition append_nvarchar_value ::
    "direct_column_plan \<Rightarrow> mssql_type_length \<Rightarrow> usize \<Rightarrow> rstr option \<Rightarrow> usize \<Rightarrow> bytes \<Rightarrow> error + bytes" where
  "append_nvarchar_value col len row v measured_len buf =
     (case v of
        None \<Rightarrow> append_variable_null_cell buf col row measured_len len
      | Some x \<Rightarrow>
          (case len of
             Bounded limit \<Rightarrow>
               and_then (bounded_nvarchar_encoded_bytes measured_len) (\<lambda>encoded_bytes.
                 if encoded_bytes div 2 > limit then Err (value_too_long_error col row)
                 else append_bounded_nvarchar_cell buf x encoded_bytes)
           | MaxLength \<Rightarrow>
               and_then (plp_nvarchar_encoded_bytes measured_len) (append_plp_nvarchar_cell buf x)))"

definition append_varbinary_value ::
    "direct_column_plan \<Rightarrow> mssql_type_length \<Rightarrow> usize \<Rightarrow> bytes option \<Rightarrow> usize \<Rightarrow> bytes \<Rightarrow> error + bytes" where
  "append_varbinary_value col len row v measured_len buf =
     (case v of
        None \<Rightarrow> append_variable_null_cell buf col row measured_len len
      | Some x \<Rightarrow>
          (case len of
             Bounded limit \<Rightarrow>
               if length x > limit then Err (value_too_long_error col row)
               else append_bounded_payload_cell buf measured_len x
           | MaxLength \<Rightarrow> append_plp_payload_cell buf measured_len x))"

definition append_nvarchar_cell ::
    "bytes \<Rightarrow> rstr option list \<Rightarrow> direct_column_plan \<Rightarrow> usize \<Rightarrow> usize \<Rightarrow> error + bytes" where
  "append_nvarchar_cell buf array col row measured_len =
     (case plan_encoding col of
        EncVariableWidth (StringToNVarChar len) \<Rightarrow>
          append_nvarchar_value col len row (array ! row) measured_len buf
      | _ \<Rightarrow> Err unsupported_batch)"

definition append_varbinary_cell ::
    "bytes \<Rightarrow> bytes option list \<Rightarrow> direct_column_plan \<Rightarrow> usize \<Rightarrow> usize \<Rightarrow> error + bytes" where
  "append_varbinary_cell buf array col row measured_len =
     (case plan_encoding col of
        EncVariableWidth (BytesToVarBinary len) \<Rightarrow>
          append_varbinary_value col len row (array ! row) measured_len buf
      | _ \<Rightarrow> Err unsupported_batch)"

subsection \<open>What the cells are\<close>

definition null_in_non_nullable :: "direct_column_plan \<Rightarrow> usize \<Rightarrow> bytes \<Rightarrow> error + bytes" where
  "null_in_non_nullable col row null =
     (if plan_nullable col then Ok null
      else Err (direct_conversion_error col row NullInNonNullableColumn))"

definition fixed_binary_cell_at ::
    "direct_column_plan \<Rightarrow> usize \<Rightarrow> usize \<Rightarrow> bytes option \<Rightarrow> error + bytes" where
  "fixed_binary_cell_at col n row v =
     (case v of
        None \<Rightarrow> null_in_non_nullable col row (le_bytes 2 0xFFFF)
      | Some x \<Rightarrow>
          if length x = n then Ok (le_bytes 2 n @ x)
          else Err (direct_conversion_error col row ValueTypeMismatch))"

definition variable_null :: "mssql_type_length \<Rightarrow> bytes" where
  "variable_null len =
     (case len of Bounded _ \<Rightarrow> le_bytes 2 0xFFFF | MaxLength \<Rightarrow> le_bytes 8 0xFFFFFFFFFFFFFFFF)"

definition variable_wire :: "mssql_type_length \<Rightarrow> bytes \<Rightarrow> error + bytes" where
  "variable_wire len x =
     (case len of
        Bounded _ \<Rightarrow>
          if length x > MAX_BOUNDED_TDS_VALUE_LEN then Err invalid_payload
          else Ok (le_bytes 2 (length x) @ x)
      | MaxLength \<Rightarrow>
          if length x > MAX_PLP_CHUNK_LEN then Err invalid_payload
          else Ok (le_bytes 8 0xFFFFFFFFFFFFFFFE @ le_bytes 4 (length x) @ x
                   @ (if x = [] then [] else le_bytes 4 0)))"

definition nvarchar_cell_at ::
    "direct_column_plan \<Rightarrow> mssql_type_length \<Rightarrow> usize \<Rightarrow> rstr option \<Rightarrow> error + bytes" where
  "nvarchar_cell_at col len row v =
     (case v of
        None \<Rightarrow> null_in_non_nullable col row (variable_null len)
      | Some x \<Rightarrow>
          if length (utf16le x) \<ge> 2 ^ 64 then Err invalid_payload
          else if exceeds_length len (length (encode_utf16 x)) then Err (value_too_long_error col row)
          else variable_wire len (utf16le x))"

definition varbinary_cell_at ::
    "direct_column_plan \<Rightarrow> mssql_type_length \<Rightarrow> usize \<Rightarrow> bytes option \<Rightarrow> error + bytes" where
  "varbinary_cell_at col len row v =
     (case v of
        None \<Rightarrow> null_in_non_nullable col row (variable_null len)
      | Some x \<Rightarrow>
          if exceeds_length len (length x) then Err (value_too_long_error col row)
          else variable_wire len x)"

lemma length_utf16le [simp]: "length (utf16le s) = length (encode_utf16 s) * 2"
proof -
  have "length (concat (map (\<lambda>u. le_bytes 2 (unat u)) us)) = length us * 2" for us :: "u16 list"
    by (induction us) simp_all
  then show ?thesis by (simp add: utf16le_def)
qed

lemma write_utf16le_eq: "length dst = length (utf16le s) \<Longrightarrow> write_utf16le dst s = utf16le s"
proof -
  assume len: "length dst = length (utf16le s)"
  then have "take (length dst div 2) (encode_utf16 s) = encode_utf16 s" by simp
  then have "write_utf16le dst s = splice dst 0 (utf16le s)" by (simp only: write_utf16le_def utf16le_def)
  with len show ?thesis by (simp add: splice_all)
qed

lemma append_utf16le_eq: "append_utf16le buf s = buf @ utf16le s"
proof -
  have "foldl (\<lambda>buf u. buf @ le_bytes 2 (unat u)) buf us
      = buf @ concat (map (\<lambda>u. le_bytes 2 (unat u)) us)" for us :: "u16 list" and buf
    by (induction us arbitrary: buf) simp_all
  then show ?thesis by (simp add: append_utf16le_def utf16le_def)
qed

lemma u16_fits: "n < 65536 \<Longrightarrow> (try_unsigned (int n) :: u16 option) = Some (of_nat n)"
  by (simp add: try_unsigned_def in_unsigned_def)

lemma unat_u16: "n < 65536 \<Longrightarrow> unat (of_nat n :: u16) = n"
  by (simp add: unat_of_nat)

lemma write_prefixed:
  "length dst = length xs + length ys \<Longrightarrow> splice (splice dst 0 xs) (length xs) ys = xs @ ys"
  by (simp add: splice_def)

lemma write_prefixed_tail:
  assumes "length dst = length xs + length ys + length zs"
  shows "splice (splice dst 0 xs) (length xs) ys = xs @ ys @ drop (length xs + length ys) dst"
  using assms by (simp add: splice_def add.commute)

lemma bounded_cell_len_eq:
  "bounded_cell_len n = (if n > 0xFFFE then Err invalid_payload else Ok (n + 2))"
  by (simp add: bounded_cell_len_def variable_constants direct_checked_add_def checked_usize_def)

lemma plp_cell_len_eq:
  "plp_cell_len n = (if n > 0xFFFFFFFF then Err invalid_payload
     else Ok (if n = 0 then 12 else n + 16))"
  by (simp add: plp_cell_len_def variable_constants direct_checked_add_def checked_usize_def)

lemma variable_wire_length:
  "map_ok length (variable_wire len x)
     = (case len of Bounded _ \<Rightarrow> bounded_cell_len (length x) | MaxLength \<Rightarrow> plp_cell_len (length x))"
  by (cases len) (simp_all add: variable_wire_def bounded_cell_len_eq plp_cell_len_eq variable_constants)

lemma variable_null_length:
  "length (variable_null len) = (case len of Bounded _ \<Rightarrow> 2 | MaxLength \<Rightarrow> 8)"
  by (cases len) (simp_all add: variable_null_def)

lemma fixed_binary_codec:
  assumes n: "n < 65536"
  shows "column_codec (fixed_binary_cell_len col n) (fill_fixed_binary_value col n)
    (append_fixed_binary_value col n) (fixed_binary_cell_at col n)"
proof unfold_locales
  fix row row' v c cell bs buf
  show "fixed_binary_cell_len col n row v = map_ok length (fixed_binary_cell_at col n row v)"
    using n by (cases v) (simp_all add: fixed_binary_cell_len_def fixed_binary_cell_at_def
        fixed_null_cell_len_def null_in_non_nullable_def validate_binary_value_len_def
        non_null_cell_len_def direct_checked_add_def checked_usize_def LEN_PREFIX_LEN_def)
  assume cell: "fixed_binary_cell_at col n row v = Ok c"
  then show "append_fixed_binary_value col n row v (length c) buf = Ok (buf @ c)"
    using n u16_fits [OF n] by (cases v) (auto simp: append_fixed_binary_value_def fixed_binary_cell_at_def
        fixed_null_cell_len_def null_in_non_nullable_def validate_binary_value_len_def unat_u16
        non_null_cell_len_def direct_checked_add_def checked_usize_def LEN_PREFIX_LEN_def
        write_len_prefix_to_buffer_def split: if_splits)
  from cell show "fixed_binary_cell_at col n row' v = Ok c"
    by (cases v) (auto simp: fixed_binary_cell_at_def null_in_non_nullable_def split: if_splits)
  assume fits: "fits_at c cell bs"
  show "fill_fixed_binary_value col n row v cell bs = Ok (splice bs (pos_offset cell) c)"
  proof (cases v)
    case None
    with cell have c: "c = le_bytes 2 0xFFFF" "plan_nullable col"
      by (auto simp: fixed_binary_cell_at_def null_in_non_nullable_def split: if_splits)
    have "cell_bytes_mut bs cell (\<lambda>dst. Ok (splice dst 0 (le_bytes 2 0xFFFF))) = Ok (splice bs (pos_offset cell) c)"
      using fits by (rule cell_bytes_mut_fits) (simp add: c splice_all)
    with None c fits show ?thesis
      by (simp add: fill_fixed_binary_value_def write_fixed_null_cell_def fixed_null_cell_len_def
          LEN_PREFIX_LEN_def fits_at_def)
  next
    case (Some x)
    with cell have c: "c = le_bytes 2 n @ x" "length x = n"
      by (auto simp: fixed_binary_cell_at_def split: if_splits)
    have "cell_bytes_mut bs cell (\<lambda>dst. and_then (write_len_prefix dst n)
        (\<lambda>dst. Ok (splice dst LEN_PREFIX_LEN x))) = Ok (splice bs (pos_offset cell) c)"
      using fits
    proof (rule cell_bytes_mut_fits)
      fix dst :: bytes assume "length dst = length c"
      with write_prefixed [of dst "le_bytes 2 n" x] c
      show "and_then (write_len_prefix dst n) (\<lambda>dst. Ok (splice dst LEN_PREFIX_LEN x)) = Ok c"
        by (simp add: write_len_prefix_def u16_fits [OF n] unat_u16 [OF n] LEN_PREFIX_LEN_def)
    qed
    with Some c n fits show ?thesis
      by (simp add: fill_fixed_binary_value_def write_binary_cell_def validate_binary_value_len_def
          non_null_cell_len_def direct_checked_add_def checked_usize_def LEN_PREFIX_LEN_def fits_at_def)
  qed
qed

subsection \<open>Variable width cells agree\<close>

lemma write_variable_null_fits:
  assumes "plan_nullable col" "fits_at (variable_null len) cell bs"
  shows "write_variable_null_cell bs cell col row len = Ok (splice bs (pos_offset cell) (variable_null len))"
proof (cases len)
  case (Bounded limit)
  with assms have fits: "fits_at (le_bytes 2 0xFFFF) cell bs" by (simp add: variable_null_def)
  then have "cell_bytes_mut bs cell (\<lambda>dst. Ok (splice dst 0 (le_bytes 2 0xFFFF)))
      = Ok (splice bs (pos_offset cell) (le_bytes 2 0xFFFF))"
    by (rule cell_bytes_mut_fits) (simp add: splice_all)
  with Bounded assms(1) fits show ?thesis
    by (simp add: write_variable_null_cell_def variable_null_cell_len_def variable_constants
        variable_null_def fits_at_def)
next
  case MaxLength
  with assms have fits: "fits_at (le_bytes 8 0xFFFFFFFFFFFFFFFF) cell bs" by (simp add: variable_null_def)
  then have "cell_bytes_mut bs cell (\<lambda>dst. Ok (splice dst 0 (le_bytes 8 0xFFFFFFFFFFFFFFFF)))
      = Ok (splice bs (pos_offset cell) (le_bytes 8 0xFFFFFFFFFFFFFFFF))"
    by (rule cell_bytes_mut_fits) (simp add: splice_all)
  with MaxLength assms(1) fits show ?thesis
    by (simp add: write_variable_null_cell_def variable_null_cell_len_def variable_constants
        variable_null_def fits_at_def)
qed

lemma append_variable_null_Ok:
  "plan_nullable col \<Longrightarrow>
   append_variable_null_cell buf col row (length (variable_null len)) len = Ok (buf @ variable_null len)"
  by (cases len) (simp_all add: append_variable_null_cell_def variable_null_cell_len_def
      variable_constants variable_null_def)

text \<open>Into its cell, a string is written as its UTF-16 bytes are.\<close>

lemma cell_bytes_mut_cong:
  assumes "\<And>dst. length dst = pos_len cell \<Longrightarrow> f dst = g dst"
  shows "cell_bytes_mut bs cell f = cell_bytes_mut bs cell g"
proof (cases "pos_offset cell + pos_len cell \<le> length bs")
  case True
  then have "f (take (pos_len cell) (drop (pos_offset cell) bs)) = g (take (pos_len cell) (drop (pos_offset cell) bs))"
    by (intro assms) simp
  with True show ?thesis
    by (cases "pos_offset cell + pos_len cell < 2 ^ 64")
      (simp_all add: cell_bytes_mut_def checked_usize_def)
next
  case False
  then show ?thesis
    by (cases "pos_offset cell + pos_len cell < 2 ^ 64")
      (simp_all add: cell_bytes_mut_def checked_usize_def)
qed

lemma write_u16_prefix_Ok: "write_u16_prefix dst n = Ok dst' \<Longrightarrow> 2 \<le> length dst \<Longrightarrow> length dst' = length dst"
  by (auto simp: write_u16_prefix_def result_simps)

lemma write_plp_header_Ok: "write_plp_header dst n = Ok dst' \<Longrightarrow> 12 \<le> length dst \<Longrightarrow> length dst' = length dst"
  by (auto simp: write_plp_header_def PLP_LEN_PREFIX_LEN_def split: if_splits)

lemma write_bounded_nvarchar_eq:
  "write_bounded_nvarchar_cell bs cell s (length (utf16le s)) = write_bounded_payload_cell bs cell (utf16le s)"
proof (cases "bounded_cell_len (length (utf16le s)) = Ok (pos_len cell)")
  case True
  have "and_then (write_u16_prefix dst (length (utf16le s)))
        (\<lambda>dst. Ok (splice dst BOUNDED_LEN_PREFIX_LEN (write_utf16le (drop BOUNDED_LEN_PREFIX_LEN dst) s)))
      = and_then (write_u16_prefix dst (length (utf16le s)))
        (\<lambda>dst. Ok (splice dst BOUNDED_LEN_PREFIX_LEN (utf16le s)))"
    if "length dst = pos_len cell" for dst
  proof (cases "write_u16_prefix dst (length (utf16le s))")
    case (Inr dst')
    from True that have "length dst = 2 + length (utf16le s)"
      by (simp add: bounded_cell_len_eq split: if_splits)
    with write_u16_prefix_Ok [OF Inr] have "write_utf16le (drop 2 dst') s = utf16le s"
      by (intro write_utf16le_eq) simp
    with Inr show ?thesis by (simp add: BOUNDED_LEN_PREFIX_LEN_def)
  qed simp
  with True show ?thesis
    by (simp add: write_bounded_nvarchar_cell_def write_bounded_payload_cell_def cong: cell_bytes_mut_cong)
next
  case False
  then show ?thesis
    by (cases "bounded_cell_len (length (utf16le s))")
      (auto simp: write_bounded_nvarchar_cell_def write_bounded_payload_cell_def)
qed

lemma write_plp_nvarchar_eq:
  "write_plp_nvarchar_cell bs cell s (length (utf16le s)) = write_plp_payload_cell bs cell (utf16le s)"
proof (cases "plp_cell_len (length (utf16le s)) = Ok (pos_len cell)")
  case True
  let ?n = "length (utf16le s)"
  have "and_then (write_plp_header dst ?n) (\<lambda>dst. Ok (write_plp_terminator
          (splice dst 12 (write_utf16le (take ?n (drop 12 dst)) s)) (12 + ?n)))
      = and_then (write_plp_header dst ?n) (\<lambda>dst. Ok (write_plp_terminator (splice dst 12 (utf16le s)) (12 + ?n)))"
    if "length dst = pos_len cell" for dst
  proof (cases "write_plp_header dst ?n")
    case (Inr dst')
    from True that have "12 + ?n \<le> length dst"
      by (auto simp: plp_cell_len_eq split: if_splits)
    with write_plp_header_Ok [OF Inr] have "write_utf16le (take ?n (drop 12 dst')) s = utf16le s"
      by (intro write_utf16le_eq) simp
    with Inr show ?thesis by simp
  qed simp
  with True show ?thesis
    by (simp add: write_plp_nvarchar_cell_def write_plp_payload_cell_def Let_def variable_constants
        cong: cell_bytes_mut_cong)
next
  case False
  then show ?thesis
    by (cases "plp_cell_len (length (utf16le s))")
      (auto simp: write_plp_nvarchar_cell_def write_plp_payload_cell_def)
qed

lemma write_bounded_payload_fits:
  assumes "length v \<le> 0xFFFE" "fits_at (le_bytes 2 (length v) @ v) cell bs"
  shows "write_bounded_payload_cell bs cell v = Ok (splice bs (pos_offset cell) (le_bytes 2 (length v) @ v))"
proof -
  have "cell_bytes_mut bs cell (\<lambda>dst. and_then (write_u16_prefix dst (length v))
      (\<lambda>dst. Ok (splice dst BOUNDED_LEN_PREFIX_LEN v)))
    = Ok (splice bs (pos_offset cell) (le_bytes 2 (length v) @ v))"
    using assms(2)
  proof (rule cell_bytes_mut_fits)
    fix dst :: bytes assume "length dst = length (le_bytes 2 (length v) @ v)"
    with write_prefixed [of dst "le_bytes 2 (length v)" v] assms(1)
    show "and_then (write_u16_prefix dst (length v)) (\<lambda>dst. Ok (splice dst BOUNDED_LEN_PREFIX_LEN v))
        = Ok (le_bytes 2 (length v) @ v)"
      by (simp add: write_u16_prefix_def u16_fits unat_u16 BOUNDED_LEN_PREFIX_LEN_def)
  qed
  with assms show ?thesis by (simp add: write_bounded_payload_cell_def bounded_cell_len_eq fits_at_def)
qed

text \<open>The PLP form of a value: the unknown-length header, one chunk, and a terminator unless the
  value is empty.\<close>

definition plp_bytes :: "bytes \<Rightarrow> bytes" where
  "plp_bytes v = le_bytes 8 0xFFFFFFFFFFFFFFFE @ le_bytes 4 (length v) @ v
     @ (if v = [] then [] else le_bytes 4 0)"

lemma write_plp_body:
  assumes "length dst = length (plp_bytes v)"
  shows "write_plp_terminator (splice (splice (splice dst 0 (le_bytes 8 0xFFFFFFFFFFFFFFFE)) 8
      (le_bytes 4 (length v))) 12 v) (12 + length v) = plp_bytes v"
proof -
  let ?h = "le_bytes 8 0xFFFFFFFFFFFFFFFE :: bytes" and ?n = "le_bytes 4 (length v)"
  have len: "12 + length v \<le> length dst" using assms by (simp add: plp_bytes_def)
  have "splice dst 0 ?h = ?h @ drop 8 dst" by (simp add: splice_def)
  moreover have "splice (?h @ drop 8 dst) 8 ?n = ?h @ ?n @ drop 12 dst"
    by (simp add: splice_def)
  moreover have "splice (?h @ ?n @ drop 12 dst) 12 v = ?h @ ?n @ v @ drop (12 + length v) dst"
    by (simp add: splice_def add.commute)
  moreover have "write_plp_terminator (?h @ ?n @ v @ drop (12 + length v) dst) (12 + length v) = plp_bytes v"
  proof (cases "v = []")
    case False
    with assms have "length (drop (12 + length v) dst) = 4" by (simp add: plp_bytes_def)
    with False show ?thesis by (simp add: write_plp_terminator_def splice_def plp_bytes_def)
  qed (use assms in \<open>simp add: write_plp_terminator_def plp_bytes_def\<close>)
  ultimately show ?thesis by simp
qed

lemma write_plp_payload_fits:
  assumes "length v \<le> 0xFFFFFFFF" "fits_at (plp_bytes v) cell bs"
  shows "write_plp_payload_cell bs cell v = Ok (splice bs (pos_offset cell) (plp_bytes v))"
proof -
  have "cell_bytes_mut bs cell (\<lambda>dst. and_then (write_plp_header dst (length v)) (\<lambda>dst.
      Ok (write_plp_terminator (splice dst 12 v) (12 + length v))))
    = Ok (splice bs (pos_offset cell) (plp_bytes v))"
    using assms(2)
  proof (rule cell_bytes_mut_fits)
    fix dst :: bytes assume "length dst = length (plp_bytes v)"
    from write_plp_body [OF this] assms(1)
    show "and_then (write_plp_header dst (length v)) (\<lambda>dst.
        Ok (write_plp_terminator (splice dst 12 v) (12 + length v))) = Ok (plp_bytes v)"
      by (simp add: write_plp_header_def variable_constants)
  qed
  with assms show ?thesis
    by (simp add: write_plp_payload_cell_def plp_cell_len_eq fits_at_def Let_def variable_constants
        plp_bytes_def)
qed

lemma variable_wire_eq:
  "variable_wire len x =
    (case len of
       Bounded _ \<Rightarrow> if length x > 0xFFFE then Err invalid_payload else Ok (le_bytes 2 (length x) @ x)
     | MaxLength \<Rightarrow> if length x > 0xFFFFFFFF then Err invalid_payload else Ok (plp_bytes x))"
  by (cases len) (simp_all add: variable_wire_def variable_constants plp_bytes_def)

lemma append_plp_Ok:
  "length v \<le> 0xFFFFFFFF \<Longrightarrow>
   and_then (append_plp_header buf (length v)) (\<lambda>buf. Ok (append_plp_terminator (buf @ v) (length v)))
     = Ok (buf @ plp_bytes v)"
  by (simp add: append_plp_header_def append_plp_terminator_def plp_bytes_def variable_constants)

interpretation varbinary_codec: column_codec "varbinary_cell_len col len" "fill_varbinary_value col len"
  "append_varbinary_value col len" "varbinary_cell_at col len" for col len
proof unfold_locales
  fix row row' v c cell bs buf
  show "varbinary_cell_len col len row v = map_ok length (varbinary_cell_at col len row v)"
  proof (cases v)
    case (Some x)
    then show ?thesis
      using variable_wire_length [of len x]
      by (cases len) (simp_all add: varbinary_cell_len_def varbinary_cell_at_def exceeds_length_def)
  qed (simp add: varbinary_cell_len_def varbinary_cell_at_def variable_null_cell_len_def
      null_in_non_nullable_def variable_null_length variable_constants split: mssql_type_length.split)
  assume cell: "varbinary_cell_at col len row v = Ok c"
  then consider (null) "v = None" "plan_nullable col" "c = variable_null len"
    | (bounded) limit x where "len = Bounded limit" "v = Some x" "length x \<le> limit" "length x \<le> 0xFFFE"
        "c = le_bytes 2 (length x) @ x"
    | (plp) x where "len = MaxLength" "v = Some x" "length x \<le> 0xFFFFFFFF" "c = plp_bytes x"
    by (cases v; cases len) (auto simp: varbinary_cell_at_def null_in_non_nullable_def exceeds_length_def
        variable_wire_eq split: if_splits)
  note cases = this
  from cases show "append_varbinary_value col len row v (length c) buf = Ok (buf @ c)"
  proof cases
    case null
    then show ?thesis by (simp add: append_varbinary_value_def append_variable_null_Ok)
  next
    case bounded
    then show ?thesis
      by (simp add: append_varbinary_value_def append_bounded_payload_cell_def bounded_cell_len_eq
          u16_fits unat_u16)
  next
    case plp
    then show ?thesis
      using append_plp_Ok [of x buf]
      by (auto simp: append_varbinary_value_def append_plp_payload_cell_def plp_cell_len_eq) (auto simp: plp_bytes_def)
  qed
  from cell show "varbinary_cell_at col len row' v = Ok c"
    by (cases v) (auto simp: varbinary_cell_at_def null_in_non_nullable_def split: if_splits)
  assume fits: "fits_at c cell bs"
  from cases show "fill_varbinary_value col len row v cell bs = Ok (splice bs (pos_offset cell) c)"
  proof cases
    case null
    with fits show ?thesis by (simp add: fill_varbinary_value_def write_variable_null_fits)
  next
    case bounded
    with fits show ?thesis
      by (simp add: fill_varbinary_value_def write_varbinary_cell_def write_bounded_payload_fits)
  next
    case plp
    with fits show ?thesis
      by (simp add: fill_varbinary_value_def write_varbinary_cell_def write_plp_payload_fits)
  qed
qed

text \<open>A string's cell length determines the length of its UTF-16 bytes.\<close>

lemma bounded_encoded_bytes:
  "bounded_nvarchar_encoded_bytes (length (utf16le s) + 2) = Ok (length (utf16le s))"
  by (simp add: bounded_nvarchar_encoded_bytes_def validate_utf16_byte_len_def variable_constants)

lemma plp_encoded_bytes:
  "plp_nvarchar_encoded_bytes (length (plp_bytes (utf16le s))) = Ok (length (utf16le s))"
proof (cases "utf16le s = []")
  case True
  then show ?thesis by (simp add: plp_nvarchar_encoded_bytes_def plp_bytes_def variable_constants)
next
  case False
  then have "0 < length (utf16le s)" "length (plp_bytes (utf16le s)) = length (utf16le s) + 16"
    by (simp_all add: plp_bytes_def del: length_utf16le)
  moreover have "length (utf16le s) mod 2 = 0" by simp
  ultimately show ?thesis
    by (simp add: plp_nvarchar_encoded_bytes_def validate_utf16_byte_len_def variable_constants Let_def
        del: length_utf16le)
qed

interpretation nvarchar_codec: column_codec "nvarchar_cell_len col len" "fill_nvarchar_value col len"
  "append_nvarchar_value col len" "nvarchar_cell_at col len" for col len
proof unfold_locales
  fix row row' v c cell bs buf
  show "nvarchar_cell_len col len row v = map_ok length (nvarchar_cell_at col len row v)"
  proof (cases v)
    case (Some x)
    then show ?thesis
      using variable_wire_length [of len "utf16le x"]
      by (cases len) (simp_all add: nvarchar_cell_len_def nvarchar_cell_at_def exceeds_length_def
          checked_usize_def Let_def)
  qed (simp add: nvarchar_cell_len_def nvarchar_cell_at_def variable_null_cell_len_def
      null_in_non_nullable_def variable_null_length variable_constants split: mssql_type_length.split)
  assume cell: "nvarchar_cell_at col len row v = Ok c"
  then consider (null) "v = None" "plan_nullable col" "c = variable_null len"
    | (bounded) limit x where "len = Bounded limit" "v = Some x" "length (encode_utf16 x) \<le> limit"
        "length (utf16le x) \<le> 0xFFFE" "c = le_bytes 2 (length (utf16le x)) @ utf16le x"
    | (plp) x where "len = MaxLength" "v = Some x" "length (utf16le x) \<le> 0xFFFFFFFF"
        "c = plp_bytes (utf16le x)"
    by (cases v; cases len) (auto simp: nvarchar_cell_at_def null_in_non_nullable_def exceeds_length_def
        variable_wire_eq simp del: length_utf16le split: if_splits)
  note cases = this
  from cases show "append_nvarchar_value col len row v (length c) buf = Ok (buf @ c)"
  proof cases
    case null
    then show ?thesis by (simp add: append_nvarchar_value_def append_variable_null_Ok)
  next
    case bounded
    then have "length c = length (utf16le x) + 2" by simp
    with bounded bounded_encoded_bytes [of x] show ?thesis
      by (simp add: append_nvarchar_value_def append_bounded_nvarchar_cell_def u16_fits unat_u16
          append_utf16le_eq del: of_nat_mult)
  next
    case plp
    with append_plp_Ok [of "utf16le x" buf] plp_encoded_bytes [of x] show ?thesis
      by (simp add: append_nvarchar_value_def append_plp_nvarchar_cell_def append_utf16le_eq)
  qed
  from cell show "nvarchar_cell_at col len row' v = Ok c"
    by (cases v) (auto simp: nvarchar_cell_at_def null_in_non_nullable_def split: if_splits)
  assume fits: "fits_at c cell bs"
  from cases show "fill_nvarchar_value col len row v cell bs = Ok (splice bs (pos_offset cell) c)"
  proof cases
    case null
    with fits show ?thesis by (simp add: fill_nvarchar_value_def write_variable_null_fits)
  next
    case bounded
    with fits have "pos_len cell = length (utf16le x) + 2" by (simp add: fits_at_def)
    with bounded fits bounded_encoded_bytes [of x] write_bounded_nvarchar_eq [of bs cell x]
      write_bounded_payload_fits [of "utf16le x" cell bs]
    show ?thesis by (simp add: fill_nvarchar_value_def write_nvarchar_cell_def)
  next
    case plp
    with fits have "pos_len cell = length (plp_bytes (utf16le x))" by (simp add: fits_at_def)
    with plp fits plp_encoded_bytes [of x] write_plp_nvarchar_eq [of bs cell x]
      write_plp_payload_fits [of "utf16le x" cell bs]
    show ?thesis by (simp add: fill_nvarchar_value_def write_nvarchar_cell_def)
  qed
qed

end
