(* ===== verification/TemporalColumns.thy ===== *)
theory TemporalColumns
  imports DirectColumns WireCells
begin

text \<open>
  Temporal columns of the direct writer: the column functions of
  \<^verbatim>\<open>src/write/direct/types/temporal.rs\<close>. Values go through the conversions of the baseline
  (dates through their copies in \<^verbatim>\<open>value.rs\<close>) and then through the cell encoders of
  \<^verbatim>\<open>TdsValues\<close>. The database of named timezones is the parameter \<^term>\<open>db\<close>, as in the baseline.
\<close>

datatype temporal_value =
    TvDate mssql_date
  | TvTime mssql_time
  | TvDateTime2 mssql_datetime2
  | TvDateTime mssql_datetime
  | TvDateTimeOffset mssql_datetimeoffset

record temporal_context =
  tc_mapping :: schema_mapping
  tc_runtime :: runtime_context
  tc_column :: direct_column_plan
  tc_column_index :: usize
  tc_column_count :: usize

subsection \<open>Lengths\<close>

definition datetime2_cell_len_for_value :: "mssql_datetime2 \<Rightarrow> error + usize" where
  "datetime2_cell_len_for_value v = datetime2_cell_len (time_scale (datetime2_time v))"

definition datetime_cell_len_for_column :: "direct_column_plan \<Rightarrow> mssql_datetime \<Rightarrow> usize" where
  "datetime_cell_len_for_column col v =
     (if plan_nullable col then datetime_cell_len else datetime_payload_len)"

definition time_cell_len_for_value :: "mssql_time \<Rightarrow> error + usize" where
  "time_cell_len_for_value v = time_cell_len (time_scale v)"

definition datetimeoffset_cell_len_for_value :: "mssql_datetimeoffset \<Rightarrow> error + usize" where
  "datetimeoffset_cell_len_for_value v =
     datetimeoffset_cell_len (time_scale (datetime2_time (dto_datetime2 v)))"

definition temporal_value_cell_len :: "direct_column_plan \<Rightarrow> temporal_value \<Rightarrow> error + usize" where
  "temporal_value_cell_len col v =
     (case v of
        TvDate _ \<Rightarrow> Ok date_cell_len
      | TvTime v \<Rightarrow> time_cell_len_for_value v
      | TvDateTime2 v \<Rightarrow> datetime2_cell_len_for_value v
      | TvDateTime v \<Rightarrow> Ok (datetime_cell_len_for_column col v)
      | TvDateTimeOffset v \<Rightarrow> datetimeoffset_cell_len_for_value v)"

definition null_temporal_cell_len_for_column :: "direct_column_plan \<Rightarrow> usize \<Rightarrow> error + usize" where
  "null_temporal_cell_len_for_column col row =
     (if \<not> plan_nullable col then Err (direct_conversion_error col row NullInNonNullableColumn)
      else Ok NULL_TEMPORAL_CELL_LEN)"

subsection \<open>Reading values\<close>

definition unsupported_timestamp_target :: "direct_column_plan \<Rightarrow> usize \<Rightarrow> error" where
  "unsupported_timestamp_target col row = direct_conversion_error col row ValueTypeMismatch"

definition timestamp_second_value ::
    "i64 \<Rightarrow> schema_mapping \<Rightarrow> direct_column_plan \<Rightarrow> usize \<Rightarrow> datetime_rounding \<Rightarrow> error + temporal_value" where
  "timestamp_second_value v m col row rounding =
     (case plan_target_type col of
        MsDateTime \<Rightarrow> map_ok TvDateTime (mssql_datetime_from_arrow_timestamp_second m row v rounding)
      | MsDateTime2 _ \<Rightarrow> map_ok TvDateTime2 (mssql_datetime2_from_arrow_timestamp_second m row v)
      | _ \<Rightarrow> Err (unsupported_timestamp_target col row))"

definition timestamp_millisecond_value ::
    "i64 \<Rightarrow> schema_mapping \<Rightarrow> direct_column_plan \<Rightarrow> usize \<Rightarrow> datetime_rounding \<Rightarrow> error + temporal_value" where
  "timestamp_millisecond_value v m col row rounding =
     (case plan_target_type col of
        MsDateTime \<Rightarrow> map_ok TvDateTime (mssql_datetime_from_arrow_timestamp_millisecond m row v rounding)
      | MsDateTime2 _ \<Rightarrow> map_ok TvDateTime2 (mssql_datetime2_from_arrow_timestamp_millisecond m row v)
      | _ \<Rightarrow> Err (unsupported_timestamp_target col row))"

definition timestamp_microsecond_value ::
    "i64 \<Rightarrow> schema_mapping \<Rightarrow> direct_column_plan \<Rightarrow> usize \<Rightarrow> datetime_rounding \<Rightarrow> error + temporal_value" where
  "timestamp_microsecond_value v m col row rounding =
     (case plan_target_type col of
        MsDateTime \<Rightarrow> map_ok TvDateTime (mssql_datetime_from_arrow_timestamp_microsecond m row v rounding)
      | MsDateTime2 _ \<Rightarrow> map_ok TvDateTime2 (mssql_datetime2_from_arrow_timestamp_microsecond m row v)
      | _ \<Rightarrow> Err (unsupported_timestamp_target col row))"

definition timestamp_nanosecond_value ::
    "i64 \<Rightarrow> schema_mapping \<Rightarrow> direct_column_plan \<Rightarrow> usize \<Rightarrow> nanosecond_policy \<Rightarrow> datetime_rounding
      \<Rightarrow> error + temporal_value" where
  "timestamp_nanosecond_value v m col row policy rounding =
     (case plan_target_type col of
        MsDateTime \<Rightarrow>
          map_ok TvDateTime (mssql_datetime_from_arrow_timestamp_nanosecond m row v policy rounding)
      | MsDateTime2 _ \<Rightarrow>
          map_ok TvDateTime2 (mssql_datetime2_from_arrow_timestamp_nanosecond m row v policy)
      | _ \<Rightarrow> Err (unsupported_timestamp_target col row))"

definition timestamp_timezone_for_datetimeoffset :: "schema_mapping \<Rightarrow> usize \<Rightarrow> error + rstr" where
  "timestamp_timezone_for_datetimeoffset m row =
     (case timestamp_timezone m of
        None \<Rightarrow> Err (conversion_error m row ValueTypeMismatch)
      | Some timezone \<Rightarrow>
          if timezone = [] then Err (conversion_error m row ValueTypeMismatch) else Ok timezone)"

text \<open>The datetimeoffset closures all look the timezone up and convert.\<close>

definition datetimeoffset_second_value ::
    "'tz timezone_db \<Rightarrow> schema_mapping \<Rightarrow> usize \<Rightarrow> i64 \<Rightarrow> error + mssql_datetimeoffset" where
  "datetimeoffset_second_value db m row v =
     and_then (timestamp_timezone_for_datetimeoffset m row) (\<lambda>timezone.
       mssql_datetimeoffset_from_arrow_timestamp_second db m row v timezone)"

definition datetimeoffset_millisecond_value ::
    "'tz timezone_db \<Rightarrow> schema_mapping \<Rightarrow> usize \<Rightarrow> i64 \<Rightarrow> error + mssql_datetimeoffset" where
  "datetimeoffset_millisecond_value db m row v =
     and_then (timestamp_timezone_for_datetimeoffset m row) (\<lambda>timezone.
       mssql_datetimeoffset_from_arrow_timestamp_millisecond db m row v timezone)"

definition datetimeoffset_microsecond_value ::
    "'tz timezone_db \<Rightarrow> schema_mapping \<Rightarrow> usize \<Rightarrow> i64 \<Rightarrow> error + mssql_datetimeoffset" where
  "datetimeoffset_microsecond_value db m row v =
     and_then (timestamp_timezone_for_datetimeoffset m row) (\<lambda>timezone.
       mssql_datetimeoffset_from_arrow_timestamp_microsecond db m row v timezone)"

definition datetimeoffset_nanosecond_value ::
    "'tz timezone_db \<Rightarrow> schema_mapping \<Rightarrow> usize \<Rightarrow> i64 \<Rightarrow> nanosecond_policy
      \<Rightarrow> error + mssql_datetimeoffset" where
  "datetimeoffset_nanosecond_value db m row v policy =
     and_then (timestamp_timezone_for_datetimeoffset m row) (\<lambda>timezone.
       mssql_datetimeoffset_from_arrow_timestamp_nanosecond db m row v timezone policy)"

lemmas datetimeoffset_values = datetimeoffset_second_value_def datetimeoffset_millisecond_value_def
  datetimeoffset_microsecond_value_def datetimeoffset_nanosecond_value_def

subsection \<open>Measuring\<close>

definition temporal_cell_len ::
    "'tz timezone_db \<Rightarrow> schema_mapping \<Rightarrow> direct_column_plan \<Rightarrow> (usize \<Rightarrow> 'a \<Rightarrow> error + usize)
      \<Rightarrow> usize \<Rightarrow> 'a option \<Rightarrow> error + usize" where
  "temporal_cell_len db m col value_len row v =
     (case v of
        None \<Rightarrow>
          and_then (validate_null_timestamp_timezone_metadata db m row) (\<lambda>_.
            null_temporal_cell_len_for_column col row)
      | Some x \<Rightarrow>
          and_then (validate_mapping_timestamp_timezone_metadata db m row) (\<lambda>_. value_len row x))"

definition measure_temporal_values ::
    "'tz timezone_db \<Rightarrow> 'a option list \<Rightarrow> temporal_context \<Rightarrow> usize list
      \<Rightarrow> (usize \<Rightarrow> 'a \<Rightarrow> error + usize) \<Rightarrow> error + usize list" where
  "measure_temporal_values db array ctx cell_lengths value_len =
     measure_rows (temporal_cell_len db (tc_mapping ctx) (tc_column ctx) value_len) array
       (tc_column_index ctx) (tc_column_count ctx) cell_lengths"

definition measure_date32_column_cell_lengths where
  "measure_date32_column_cell_lengths db array ctx cell_lengths =
     measure_temporal_values db array ctx cell_lengths (\<lambda>row v.
       map_ok (\<lambda>_. date_cell_len) (direct_date_from_arrow_date32 (tc_column ctx) row v))"

definition measure_date64_column_cell_lengths where
  "measure_date64_column_cell_lengths db array ctx cell_lengths =
     measure_temporal_values db array ctx cell_lengths (\<lambda>row v.
       and_then (direct_datetime2_from_arrow_date64 (tc_column ctx) row v) datetime2_cell_len_for_value)"

definition measure_timestamp_second_column_cell_lengths where
  "measure_timestamp_second_column_cell_lengths db array ctx cell_lengths =
     measure_temporal_values db array ctx cell_lengths (\<lambda>row v.
       and_then (timestamp_second_value v (tc_mapping ctx) (tc_column ctx) row
           (context_datetime_rounding (tc_runtime ctx)))
         (temporal_value_cell_len (tc_column ctx)))"

definition measure_timestamp_millisecond_column_cell_lengths where
  "measure_timestamp_millisecond_column_cell_lengths db array ctx cell_lengths =
     measure_temporal_values db array ctx cell_lengths (\<lambda>row v.
       and_then (timestamp_millisecond_value v (tc_mapping ctx) (tc_column ctx) row
           (context_datetime_rounding (tc_runtime ctx)))
         (temporal_value_cell_len (tc_column ctx)))"

definition measure_timestamp_microsecond_column_cell_lengths where
  "measure_timestamp_microsecond_column_cell_lengths db array ctx cell_lengths =
     measure_temporal_values db array ctx cell_lengths (\<lambda>row v.
       and_then (timestamp_microsecond_value v (tc_mapping ctx) (tc_column ctx) row
           (context_datetime_rounding (tc_runtime ctx)))
         (temporal_value_cell_len (tc_column ctx)))"

definition measure_timestamp_nanosecond_column_cell_lengths where
  "measure_timestamp_nanosecond_column_cell_lengths db array ctx cell_lengths =
     measure_temporal_values db array ctx cell_lengths (\<lambda>row v.
       and_then (timestamp_nanosecond_value v (tc_mapping ctx) (tc_column ctx) row
           (context_nanosecond_policy (tc_runtime ctx)) (context_datetime_rounding (tc_runtime ctx)))
         (temporal_value_cell_len (tc_column ctx)))"

definition measure_datetimeoffset_second_column_cell_lengths where
  "measure_datetimeoffset_second_column_cell_lengths db array ctx cell_lengths =
     measure_temporal_values db array ctx cell_lengths (\<lambda>row v.
       and_then (datetimeoffset_second_value db (tc_mapping ctx) row v)
         datetimeoffset_cell_len_for_value)"

definition measure_datetimeoffset_millisecond_column_cell_lengths where
  "measure_datetimeoffset_millisecond_column_cell_lengths db array ctx cell_lengths =
     measure_temporal_values db array ctx cell_lengths (\<lambda>row v.
       and_then (datetimeoffset_millisecond_value db (tc_mapping ctx) row v)
         datetimeoffset_cell_len_for_value)"

definition measure_datetimeoffset_microsecond_column_cell_lengths where
  "measure_datetimeoffset_microsecond_column_cell_lengths db array ctx cell_lengths =
     measure_temporal_values db array ctx cell_lengths (\<lambda>row v.
       and_then (datetimeoffset_microsecond_value db (tc_mapping ctx) row v)
         datetimeoffset_cell_len_for_value)"

definition measure_datetimeoffset_nanosecond_column_cell_lengths where
  "measure_datetimeoffset_nanosecond_column_cell_lengths db array ctx cell_lengths =
     measure_temporal_values db array ctx cell_lengths (\<lambda>row v.
       and_then (datetimeoffset_nanosecond_value db (tc_mapping ctx) row v
           (context_nanosecond_policy (tc_runtime ctx)))
         datetimeoffset_cell_len_for_value)"

definition measure_time32_second_column_cell_lengths where
  "measure_time32_second_column_cell_lengths db array ctx cell_lengths =
     measure_temporal_values db array ctx cell_lengths (\<lambda>row v.
       and_then (mssql_time_from_arrow_time32_second (tc_mapping ctx) row v) time_cell_len_for_value)"

definition measure_time32_millisecond_column_cell_lengths where
  "measure_time32_millisecond_column_cell_lengths db array ctx cell_lengths =
     measure_temporal_values db array ctx cell_lengths (\<lambda>row v.
       and_then (mssql_time_from_arrow_time32_millisecond (tc_mapping ctx) row v) time_cell_len_for_value)"

definition measure_time64_microsecond_column_cell_lengths where
  "measure_time64_microsecond_column_cell_lengths db array ctx cell_lengths =
     measure_temporal_values db array ctx cell_lengths (\<lambda>row v.
       and_then (mssql_time_from_arrow_time64_microsecond (tc_mapping ctx) row v) time_cell_len_for_value)"

definition measure_time64_nanosecond_column_cell_lengths where
  "measure_time64_nanosecond_column_cell_lengths db array ctx cell_lengths =
     measure_temporal_values db array ctx cell_lengths (\<lambda>row v.
       and_then (mssql_time_from_arrow_time64_nanosecond (tc_mapping ctx) row v
           (context_nanosecond_policy (tc_runtime ctx)))
         time_cell_len_for_value)"

subsection \<open>Filling\<close>

definition write_null_direct_temporal_cell ::
    "bytes \<Rightarrow> cell_position \<Rightarrow> direct_column_plan \<Rightarrow> usize \<Rightarrow> error + bytes" where
  "write_null_direct_temporal_cell bs cell col row =
     and_then (null_temporal_cell_len_for_column col row) (\<lambda>expected_len.
       if pos_len cell \<noteq> expected_len then Err invalid_payload
       else cell_bytes_mut bs cell write_null_temporal_cell)"

definition write_direct_date_cell ::
    "bytes \<Rightarrow> cell_position \<Rightarrow> direct_column_plan \<Rightarrow> mssql_date \<Rightarrow> error + bytes" where
  "write_direct_date_cell bs cell col v =
     (if pos_len cell \<noteq> date_cell_len then Err invalid_payload
      else cell_bytes_mut bs cell (\<lambda>dst.
        map_err (\<lambda>err. add_direct_field err col) (write_date_cell dst v)))"

definition write_direct_time_cell ::
    "bytes \<Rightarrow> cell_position \<Rightarrow> direct_column_plan \<Rightarrow> mssql_time \<Rightarrow> error + bytes" where
  "write_direct_time_cell bs cell col v =
     and_then (time_cell_len_for_value v) (\<lambda>expected_len.
       if pos_len cell \<noteq> expected_len then Err invalid_payload
       else cell_bytes_mut bs cell (\<lambda>dst.
         map_err (\<lambda>err. add_direct_field err col) (write_time_cell dst v)))"

definition write_direct_datetime_cell ::
    "bytes \<Rightarrow> cell_position \<Rightarrow> direct_column_plan \<Rightarrow> mssql_datetime \<Rightarrow> error + bytes" where
  "write_direct_datetime_cell bs cell col v =
     (if pos_len cell \<noteq> datetime_cell_len_for_column col v then Err invalid_payload
      else cell_bytes_mut bs cell (\<lambda>dst.
        if plan_nullable col
        then map_err (\<lambda>err. add_direct_field err col) (write_datetime_cell dst v)
        else map_err (\<lambda>err. add_direct_field err col) (write_datetime_payload dst 0 v)))"

definition write_direct_datetime2_cell ::
    "bytes \<Rightarrow> cell_position \<Rightarrow> direct_column_plan \<Rightarrow> mssql_datetime2 \<Rightarrow> error + bytes" where
  "write_direct_datetime2_cell bs cell col v =
     and_then (datetime2_cell_len_for_value v) (\<lambda>expected_len.
       if pos_len cell \<noteq> expected_len then Err invalid_payload
       else cell_bytes_mut bs cell (\<lambda>dst.
         map_err (\<lambda>err. add_direct_field err col) (write_datetime2_cell dst v)))"

definition write_direct_datetimeoffset_cell ::
    "bytes \<Rightarrow> cell_position \<Rightarrow> direct_column_plan \<Rightarrow> mssql_datetimeoffset \<Rightarrow> error + bytes" where
  "write_direct_datetimeoffset_cell bs cell col v =
     and_then (datetimeoffset_cell_len_for_value v) (\<lambda>expected_len.
       if pos_len cell \<noteq> expected_len then Err invalid_payload
       else cell_bytes_mut bs cell (\<lambda>dst.
         map_err (\<lambda>err. add_direct_field err col) (write_datetimeoffset_cell dst v)))"

definition write_direct_temporal_value_cell ::
    "bytes \<Rightarrow> cell_position \<Rightarrow> direct_column_plan \<Rightarrow> temporal_value \<Rightarrow> error + bytes" where
  "write_direct_temporal_value_cell bs cell col v =
     (case v of
        TvDate v \<Rightarrow> write_direct_date_cell bs cell col v
      | TvTime v \<Rightarrow> write_direct_time_cell bs cell col v
      | TvDateTime2 v \<Rightarrow> write_direct_datetime2_cell bs cell col v
      | TvDateTime v \<Rightarrow> write_direct_datetime_cell bs cell col v
      | TvDateTimeOffset v \<Rightarrow> write_direct_datetimeoffset_cell bs cell col v)"

definition fill_timestamp_column ::
    "'tz timezone_db \<Rightarrow> 'a option list \<Rightarrow> temporal_context \<Rightarrow> row_layout \<Rightarrow> bytes
      \<Rightarrow> ('a \<Rightarrow> schema_mapping \<Rightarrow> direct_column_plan \<Rightarrow> usize \<Rightarrow> datetime_rounding \<Rightarrow> error + temporal_value)
      \<Rightarrow> error + bytes" where
  "fill_timestamp_column db array ctx layout bs convert =
     fill_rows (\<lambda>row v cell bs.
         case v of
           None \<Rightarrow>
             and_then (validate_null_timestamp_timezone_metadata db (tc_mapping ctx) row) (\<lambda>_.
               write_null_direct_temporal_cell bs cell (tc_column ctx) row)
         | Some x \<Rightarrow>
             and_then (validate_mapping_timestamp_timezone_metadata db (tc_mapping ctx) row) (\<lambda>_.
             and_then (convert x (tc_mapping ctx) (tc_column ctx) row
                 (context_datetime_rounding (tc_runtime ctx)))
               (write_direct_temporal_value_cell bs cell (tc_column ctx))))
       array (tc_column_index ctx) (tc_column_count ctx) layout bs"

definition fill_time_column ::
    "'a option list \<Rightarrow> temporal_context \<Rightarrow> row_layout \<Rightarrow> bytes
      \<Rightarrow> ('a \<Rightarrow> schema_mapping \<Rightarrow> usize \<Rightarrow> error + mssql_time) \<Rightarrow> error + bytes" where
  "fill_time_column array ctx layout bs convert =
     fill_rows (\<lambda>row v cell bs.
         case v of
           None \<Rightarrow> write_null_direct_temporal_cell bs cell (tc_column ctx) row
         | Some x \<Rightarrow>
             and_then (convert x (tc_mapping ctx) row) (write_direct_time_cell bs cell (tc_column ctx)))
       array (tc_column_index ctx) (tc_column_count ctx) layout bs"

definition fill_datetimeoffset_column ::
    "'tz timezone_db \<Rightarrow> 'a option list \<Rightarrow> temporal_context \<Rightarrow> row_layout \<Rightarrow> bytes
      \<Rightarrow> ('a \<Rightarrow> schema_mapping \<Rightarrow> usize \<Rightarrow> error + mssql_datetimeoffset) \<Rightarrow> error + bytes" where
  "fill_datetimeoffset_column db array ctx layout bs convert =
     fill_rows (\<lambda>row v cell bs.
         case v of
           None \<Rightarrow>
             and_then (validate_null_timestamp_timezone_metadata db (tc_mapping ctx) row) (\<lambda>_.
               write_null_direct_temporal_cell bs cell (tc_column ctx) row)
         | Some x \<Rightarrow>
             and_then (validate_mapping_timestamp_timezone_metadata db (tc_mapping ctx) row) (\<lambda>_.
             and_then (convert x (tc_mapping ctx) row)
               (write_direct_datetimeoffset_cell bs cell (tc_column ctx))))
       array (tc_column_index ctx) (tc_column_count ctx) layout bs"

definition fill_date32_column ::
    "i32 option list \<Rightarrow> direct_column_plan \<Rightarrow> usize \<Rightarrow> usize \<Rightarrow> row_layout \<Rightarrow> bytes \<Rightarrow> error + bytes" where
  "fill_date32_column array col =
     fill_rows (\<lambda>row v cell bs.
         case v of
           None \<Rightarrow> write_null_direct_temporal_cell bs cell col row
         | Some x \<Rightarrow>
             and_then (direct_date_from_arrow_date32 col row x) (write_direct_date_cell bs cell col))
       array"

definition fill_date64_column ::
    "i64 option list \<Rightarrow> direct_column_plan \<Rightarrow> usize \<Rightarrow> usize \<Rightarrow> row_layout \<Rightarrow> bytes \<Rightarrow> error + bytes" where
  "fill_date64_column array col =
     fill_rows (\<lambda>row v cell bs.
         case v of
           None \<Rightarrow> write_null_direct_temporal_cell bs cell col row
         | Some x \<Rightarrow>
             and_then (direct_datetime2_from_arrow_date64 col row x)
               (write_direct_datetime2_cell bs cell col))
       array"

definition fill_date32_direct_column where
  "fill_date32_direct_column array ctx layout bs =
     fill_date32_column array (tc_column ctx) (tc_column_index ctx) (tc_column_count ctx) layout bs"

definition fill_date64_direct_column where
  "fill_date64_direct_column array ctx layout bs =
     fill_date64_column array (tc_column ctx) (tc_column_index ctx) (tc_column_count ctx) layout bs"

definition fill_timestamp_second_direct_column where
  "fill_timestamp_second_direct_column db array ctx layout bs =
     fill_timestamp_column db array ctx layout bs timestamp_second_value"

definition fill_timestamp_millisecond_direct_column where
  "fill_timestamp_millisecond_direct_column db array ctx layout bs =
     fill_timestamp_column db array ctx layout bs timestamp_millisecond_value"

definition fill_timestamp_microsecond_direct_column where
  "fill_timestamp_microsecond_direct_column db array ctx layout bs =
     fill_timestamp_column db array ctx layout bs timestamp_microsecond_value"

definition fill_timestamp_nanosecond_direct_column where
  "fill_timestamp_nanosecond_direct_column db array ctx layout bs =
     fill_timestamp_column db array ctx layout bs (\<lambda>v m col row rounding.
       timestamp_nanosecond_value v m col row (context_nanosecond_policy (tc_runtime ctx)) rounding)"

definition fill_datetimeoffset_second_direct_column where
  "fill_datetimeoffset_second_direct_column db array ctx layout bs =
     fill_datetimeoffset_column db array ctx layout bs (\<lambda>v m row. datetimeoffset_second_value db m row v)"

definition fill_datetimeoffset_millisecond_direct_column where
  "fill_datetimeoffset_millisecond_direct_column db array ctx layout bs =
     fill_datetimeoffset_column db array ctx layout bs (\<lambda>v m row. datetimeoffset_millisecond_value db m row v)"

definition fill_datetimeoffset_microsecond_direct_column where
  "fill_datetimeoffset_microsecond_direct_column db array ctx layout bs =
     fill_datetimeoffset_column db array ctx layout bs (\<lambda>v m row. datetimeoffset_microsecond_value db m row v)"

definition fill_datetimeoffset_nanosecond_direct_column where
  "fill_datetimeoffset_nanosecond_direct_column db array ctx layout bs =
     fill_datetimeoffset_column db array ctx layout bs (\<lambda>v m row.
       datetimeoffset_nanosecond_value db m row v (context_nanosecond_policy (tc_runtime ctx)))"

definition fill_time32_second_direct_column where
  "fill_time32_second_direct_column array ctx layout bs =
     fill_time_column array ctx layout bs (\<lambda>v m row. mssql_time_from_arrow_time32_second m row v)"

definition fill_time32_millisecond_direct_column where
  "fill_time32_millisecond_direct_column array ctx layout bs =
     fill_time_column array ctx layout bs (\<lambda>v m row. mssql_time_from_arrow_time32_millisecond m row v)"

definition fill_time64_microsecond_direct_column where
  "fill_time64_microsecond_direct_column array ctx layout bs =
     fill_time_column array ctx layout bs (\<lambda>v m row. mssql_time_from_arrow_time64_microsecond m row v)"

definition fill_time64_nanosecond_direct_column where
  "fill_time64_nanosecond_direct_column array ctx layout bs =
     fill_time_column array ctx layout bs (\<lambda>v m row.
       mssql_time_from_arrow_time64_nanosecond m row v (context_nanosecond_policy (tc_runtime ctx)))"

subsection \<open>Appending\<close>

definition append_direct_datetime_cell ::
    "bytes \<Rightarrow> direct_column_plan \<Rightarrow> mssql_datetime \<Rightarrow> error + bytes" where
  "append_direct_datetime_cell buf col v =
     (if plan_nullable col
      then map_err (\<lambda>err. add_direct_field err col) (append_datetime_cell buf v)
      else
        and_then (map_err (\<lambda>err. add_direct_field err col)
                   (write_datetime_payload (replicate datetime_payload_len 0) 0 v))
          (\<lambda>bs. Ok (buf @ bs)))"

definition append_temporal_value ::
    "'tz timezone_db \<Rightarrow> schema_mapping \<Rightarrow> direct_column_plan
      \<Rightarrow> (usize \<Rightarrow> 'a \<Rightarrow> error + (usize \<times> temporal_value)) \<Rightarrow> usize \<Rightarrow> 'a option \<Rightarrow> usize \<Rightarrow> bytes
      \<Rightarrow> error + bytes" where
  "append_temporal_value db m col convert row v measured_len buf =
     (case v of
        None \<Rightarrow>
          and_then (validate_null_timestamp_timezone_metadata db m row) (\<lambda>_.
          and_then (null_temporal_cell_len_for_column col row) (\<lambda>expected_len.
            if measured_len \<noteq> expected_len then Err invalid_payload
            else Ok (append_null_temporal_cell buf)))
      | Some x \<Rightarrow>
          and_then (validate_mapping_timestamp_timezone_metadata db m row) (\<lambda>_.
          and_then (convert row x) (\<lambda>(expected_len, value).
            if measured_len \<noteq> expected_len then Err invalid_payload
            else
              (case value of
                 TvDate v \<Rightarrow> map_err (\<lambda>err. add_direct_field err col) (append_date_cell buf v)
               | TvTime v \<Rightarrow> map_err (\<lambda>err. add_direct_field err col) (append_time_cell buf v)
               | TvDateTime2 v \<Rightarrow> map_err (\<lambda>err. add_direct_field err col) (append_datetime2_cell buf v)
               | TvDateTime v \<Rightarrow> append_direct_datetime_cell buf col v
               | TvDateTimeOffset v \<Rightarrow>
                   map_err (\<lambda>err. add_direct_field err col) (append_datetimeoffset_cell buf v)))))"

definition append_date32_cell where
  "append_date32_cell db buf array m col row n =
     append_temporal_value db m col (\<lambda>row v.
         and_then (direct_date_from_arrow_date32 col row v) (\<lambda>v. Ok (date_cell_len, TvDate v)))
       row (array ! row) n buf"

definition append_date64_cell where
  "append_date64_cell db buf array m col row n =
     append_temporal_value db m col (\<lambda>row v.
         and_then (direct_datetime2_from_arrow_date64 col row v) (\<lambda>v.
         and_then (datetime2_cell_len_for_value v) (\<lambda>n. Ok (n, TvDateTime2 v))))
       row (array ! row) n buf"

definition append_timestamp_second_cell where
  "append_timestamp_second_cell db buf array m col rounding row n =
     append_temporal_value db m col (\<lambda>row v.
         and_then (timestamp_second_value v m col row rounding) (\<lambda>v.
         and_then (temporal_value_cell_len col v) (\<lambda>n. Ok (n, v))))
       row (array ! row) n buf"

definition append_timestamp_millisecond_cell where
  "append_timestamp_millisecond_cell db buf array m col rounding row n =
     append_temporal_value db m col (\<lambda>row v.
         and_then (timestamp_millisecond_value v m col row rounding) (\<lambda>v.
         and_then (temporal_value_cell_len col v) (\<lambda>n. Ok (n, v))))
       row (array ! row) n buf"

definition append_timestamp_microsecond_cell where
  "append_timestamp_microsecond_cell db buf array m col rounding row n =
     append_temporal_value db m col (\<lambda>row v.
         and_then (timestamp_microsecond_value v m col row rounding) (\<lambda>v.
         and_then (temporal_value_cell_len col v) (\<lambda>n. Ok (n, v))))
       row (array ! row) n buf"

definition append_timestamp_nanosecond_cell where
  "append_timestamp_nanosecond_cell db buf array m col runtime row n =
     append_temporal_value db m col (\<lambda>row v.
         and_then (timestamp_nanosecond_value v m col row (context_nanosecond_policy runtime)
             (context_datetime_rounding runtime)) (\<lambda>v.
         and_then (temporal_value_cell_len col v) (\<lambda>n. Ok (n, v))))
       row (array ! row) n buf"

definition append_datetimeoffset_second_cell where
  "append_datetimeoffset_second_cell db buf array m col row n =
     append_temporal_value db m col (\<lambda>row v.
         and_then (datetimeoffset_second_value db m row v) (\<lambda>v.
         and_then (datetimeoffset_cell_len_for_value v) (\<lambda>n. Ok (n, TvDateTimeOffset v))))
       row (array ! row) n buf"

definition append_datetimeoffset_millisecond_cell where
  "append_datetimeoffset_millisecond_cell db buf array m col row n =
     append_temporal_value db m col (\<lambda>row v.
         and_then (datetimeoffset_millisecond_value db m row v) (\<lambda>v.
         and_then (datetimeoffset_cell_len_for_value v) (\<lambda>n. Ok (n, TvDateTimeOffset v))))
       row (array ! row) n buf"

definition append_datetimeoffset_microsecond_cell where
  "append_datetimeoffset_microsecond_cell db buf array m col row n =
     append_temporal_value db m col (\<lambda>row v.
         and_then (datetimeoffset_microsecond_value db m row v) (\<lambda>v.
         and_then (datetimeoffset_cell_len_for_value v) (\<lambda>n. Ok (n, TvDateTimeOffset v))))
       row (array ! row) n buf"

definition append_datetimeoffset_nanosecond_cell where
  "append_datetimeoffset_nanosecond_cell db buf array m col policy row n =
     append_temporal_value db m col (\<lambda>row v.
         and_then (datetimeoffset_nanosecond_value db m row v policy) (\<lambda>v.
         and_then (datetimeoffset_cell_len_for_value v) (\<lambda>n. Ok (n, TvDateTimeOffset v))))
       row (array ! row) n buf"

definition append_time32_second_cell where
  "append_time32_second_cell db buf array m col row n =
     append_temporal_value db m col (\<lambda>row v.
         and_then (mssql_time_from_arrow_time32_second m row v) (\<lambda>v.
         and_then (time_cell_len_for_value v) (\<lambda>n. Ok (n, TvTime v))))
       row (array ! row) n buf"

definition append_time32_millisecond_cell where
  "append_time32_millisecond_cell db buf array m col row n =
     append_temporal_value db m col (\<lambda>row v.
         and_then (mssql_time_from_arrow_time32_millisecond m row v) (\<lambda>v.
         and_then (time_cell_len_for_value v) (\<lambda>n. Ok (n, TvTime v))))
       row (array ! row) n buf"

definition append_time64_microsecond_cell where
  "append_time64_microsecond_cell db buf array m col row n =
     append_temporal_value db m col (\<lambda>row v.
         and_then (mssql_time_from_arrow_time64_microsecond m row v) (\<lambda>v.
         and_then (time_cell_len_for_value v) (\<lambda>n. Ok (n, TvTime v))))
       row (array ! row) n buf"

definition append_time64_nanosecond_cell where
  "append_time64_nanosecond_cell db buf array m col policy row n =
     append_temporal_value db m col (\<lambda>row v.
         and_then (mssql_time_from_arrow_time64_nanosecond m row v policy) (\<lambda>v.
         and_then (time_cell_len_for_value v) (\<lambda>n. Ok (n, TvTime v))))
       row (array ! row) n buf"

subsection \<open>What a temporal cell is\<close>

definition valid_temporal :: "temporal_value \<Rightarrow> bool" where
  "valid_temporal v \<longleftrightarrow>
     (case v of
        TvDate v \<Rightarrow> valid_date v | TvTime v \<Rightarrow> valid_time v | TvDateTime2 v \<Rightarrow> valid_datetime2 v
      | TvDateTime v \<Rightarrow> valid_datetime v | TvDateTimeOffset v \<Rightarrow> valid_datetimeoffset v)"

definition temporal_payload :: "temporal_value \<Rightarrow> bytes" where
  "temporal_payload v =
     (case v of
        TvDate v \<Rightarrow> date_payload v | TvTime v \<Rightarrow> time_payload v | TvDateTime2 v \<Rightarrow> datetime2_payload v
      | TvDateTime v \<Rightarrow> datetime_payload v | TvDateTimeOffset v \<Rightarrow> datetimeoffset_payload v)"

text \<open>Only a datetime in a non-nullable column goes without its length byte.\<close>

definition bare_temporal :: "direct_column_plan \<Rightarrow> temporal_value \<Rightarrow> bool" where
  "bare_temporal col v \<longleftrightarrow> \<not> plan_nullable col \<and> (case v of TvDateTime _ \<Rightarrow> True | _ \<Rightarrow> False)"

definition temporal_wire :: "direct_column_plan \<Rightarrow> temporal_value \<Rightarrow> bytes" where
  "temporal_wire col v =
     (if bare_temporal col v then temporal_payload v
      else of_nat (length (temporal_payload v)) # temporal_payload v)"

lemma temporal_wire_len:
  "valid_temporal v \<Longrightarrow> temporal_value_cell_len col v = Ok (length (temporal_wire col v))"
  using date_codec.cell_len time_codec.cell_len datetime2_codec.cell_len datetimeoffset_codec.cell_len
  by (cases v)
    (auto simp: valid_temporal_def temporal_wire_def temporal_payload_def bare_temporal_def
      temporal_value_cell_len_def time_cell_len_for_value_def datetime2_cell_len_for_value_def
      datetimeoffset_cell_len_for_value_def datetime_cell_len_for_column_def datetime_cell_len_def
      datetime_payload_len_def payload_lengths datetime_payload_def date_cell_len_def date_payload_def)

lemma write_datetime_payload_eq:
  assumes "valid_datetime v" "length dst = 8"
  shows "write_datetime_payload dst 0 v = Ok (datetime_payload v)"
proof -
  have "validate_datetime v = Ok ()"
    using datetime_codec.write_cell [of "0 # dst" v] assms
    by (auto simp: write_datetime_cell_def write_datetime_payload_def result_simps datetime_payload_def
        datetime_cell_len_def datetime_payload_len_def payload_lengths)
  then show ?thesis
    using assms by (simp add: write_datetime_payload_def
        datetime_payload_len_def payload_lengths datetime_payload_def splice_def)
qed

lemma write_direct_temporal_value_fits:
  assumes "valid_temporal v" "fits_at (temporal_wire col v) cell bs"
  shows "write_direct_temporal_value_cell bs cell col v
    = Ok (splice bs (pos_offset cell) (temporal_wire col v))"
proof -
  let ?c = "temporal_wire col v"
  have len: "temporal_value_cell_len col v = Ok (pos_len cell)"
    using temporal_wire_len [OF assms(1)] assms(2) by (simp add: fits_at_def)
  note put = cell_bytes_mut_fits [OF assms(2)]
  show ?thesis
  proof (cases v)
    case (TvDate d)
    have "cell_bytes_mut bs cell (\<lambda>dst. map_err (\<lambda>err. add_direct_field err col) (write_date_cell dst d))
        = Ok (splice bs (pos_offset cell) ?c)"
      by (rule put) (use TvDate assms(1) in \<open>simp add: date_codec.write_cell valid_temporal_def
          temporal_wire_def temporal_payload_def bare_temporal_def\<close>)
    with len TvDate show ?thesis
      by (simp add: write_direct_temporal_value_cell_def write_direct_date_cell_def temporal_value_cell_len_def)
  next
    case (TvTime d)
    have "cell_bytes_mut bs cell (\<lambda>dst. map_err (\<lambda>err. add_direct_field err col) (write_time_cell dst d))
        = Ok (splice bs (pos_offset cell) ?c)"
      by (rule put) (use TvTime assms(1) in \<open>simp add: time_codec.write_cell valid_temporal_def
          temporal_wire_def temporal_payload_def bare_temporal_def\<close>)
    with len TvTime show ?thesis
      by (simp add: write_direct_temporal_value_cell_def write_direct_time_cell_def temporal_value_cell_len_def)
  next
    case (TvDateTime2 d)
    have "cell_bytes_mut bs cell (\<lambda>dst. map_err (\<lambda>err. add_direct_field err col) (write_datetime2_cell dst d))
        = Ok (splice bs (pos_offset cell) ?c)"
      by (rule put) (use TvDateTime2 assms(1) in \<open>simp add: datetime2_codec.write_cell valid_temporal_def
          temporal_wire_def temporal_payload_def bare_temporal_def\<close>)
    with len TvDateTime2 show ?thesis
      by (simp add: write_direct_temporal_value_cell_def write_direct_datetime2_cell_def
          temporal_value_cell_len_def)
  next
    case (TvDateTimeOffset d)
    have "cell_bytes_mut bs cell
        (\<lambda>dst. map_err (\<lambda>err. add_direct_field err col) (write_datetimeoffset_cell dst d))
        = Ok (splice bs (pos_offset cell) ?c)"
      by (rule put) (use TvDateTimeOffset assms(1) in \<open>simp add: datetimeoffset_codec.write_cell
          valid_temporal_def temporal_wire_def temporal_payload_def bare_temporal_def\<close>)
    with len TvDateTimeOffset show ?thesis
      by (simp add: write_direct_temporal_value_cell_def write_direct_datetimeoffset_cell_def
          temporal_value_cell_len_def)
  next
    case (TvDateTime d)
    have "cell_bytes_mut bs cell (\<lambda>dst. if plan_nullable col
          then map_err (\<lambda>err. add_direct_field err col) (write_datetime_cell dst d)
          else map_err (\<lambda>err. add_direct_field err col) (write_datetime_payload dst 0 d))
        = Ok (splice bs (pos_offset cell) ?c)"
      by (rule put) (use TvDateTime assms(1) in \<open>simp add: datetime_codec.write_cell valid_temporal_def
          temporal_wire_def temporal_payload_def bare_temporal_def write_datetime_payload_eq
          datetime_payload_def\<close>)
    with len TvDateTime show ?thesis
      by (simp add: write_direct_temporal_value_cell_def write_direct_datetime_cell_def
          temporal_value_cell_len_def)
  qed
qed

text \<open>\<^verbatim>\<open>append_temporal_value\<close> on a value that was read: the last match of the function.\<close>

lemma append_valid_temporal:
  assumes "valid_temporal v"
  shows "(case v of
      TvDate v \<Rightarrow> map_err (\<lambda>err. add_direct_field err col) (append_date_cell buf v)
    | TvTime v \<Rightarrow> map_err (\<lambda>err. add_direct_field err col) (append_time_cell buf v)
    | TvDateTime2 v \<Rightarrow> map_err (\<lambda>err. add_direct_field err col) (append_datetime2_cell buf v)
    | TvDateTime v \<Rightarrow> append_direct_datetime_cell buf col v
    | TvDateTimeOffset v \<Rightarrow> map_err (\<lambda>err. add_direct_field err col) (append_datetimeoffset_cell buf v))
    = Ok (buf @ temporal_wire col v)"
  using assms
  by (cases v)
    (simp_all add: valid_temporal_def temporal_wire_def temporal_payload_def bare_temporal_def
      date_codec.append_cell time_codec.append_cell datetime2_codec.append_cell
      datetimeoffset_codec.append_cell datetime_codec.append_cell append_direct_datetime_cell_def
      write_datetime_payload_eq datetime_payload_len_def payload_lengths)

subsection \<open>The contract of temporal columns\<close>

text \<open>The fill loops differ in what they look at again: a time or date column does not check the
  timezone of its mapping. The measurement always did.\<close>

definition fill_temporal_cell ::
    "bool \<Rightarrow> 'tz timezone_db \<Rightarrow> schema_mapping \<Rightarrow> direct_column_plan
      \<Rightarrow> (usize \<Rightarrow> 'a \<Rightarrow> error + temporal_value) \<Rightarrow> usize \<Rightarrow> 'a option \<Rightarrow> cell_position \<Rightarrow> bytes
      \<Rightarrow> error + bytes" where
  "fill_temporal_cell checked db m col read row v cell bs =
     (case v of
        None \<Rightarrow>
          and_then (if checked then validate_null_timestamp_timezone_metadata db m row else Ok ()) (\<lambda>_.
            write_null_direct_temporal_cell bs cell col row)
      | Some x \<Rightarrow>
          and_then (if checked then validate_mapping_timestamp_timezone_metadata db m row else Ok ()) (\<lambda>_.
          and_then (read row x) (write_direct_temporal_value_cell bs cell col)))"

definition temporal_cell_at ::
    "'tz timezone_db \<Rightarrow> schema_mapping \<Rightarrow> direct_column_plan
      \<Rightarrow> (usize \<Rightarrow> 'a \<Rightarrow> error + temporal_value) \<Rightarrow> usize \<Rightarrow> 'a option \<Rightarrow> error + bytes" where
  "temporal_cell_at db m col read row v =
     (case v of
        None \<Rightarrow>
          and_then (validate_null_timestamp_timezone_metadata db m row) (\<lambda>_.
            if plan_nullable col then Ok [0]
            else Err (direct_conversion_error col row NullInNonNullableColumn))
      | Some x \<Rightarrow>
          and_then (validate_mapping_timestamp_timezone_metadata db m row) (\<lambda>_.
            map_ok (temporal_wire col) (read row x)))"

lemma parse_offset_any_row:
  "parse_sql_server_fixed_timezone_offset m row tz = Some (Ok n) \<Longrightarrow>
   parse_sql_server_fixed_timezone_offset m row' tz = Some (Ok n)"
  "parse_sql_server_fixed_timezone_offset m row tz = None \<Longrightarrow>
   parse_sql_server_fixed_timezone_offset m row' tz = None"
proof -
  assume ok: "parse_sql_server_fixed_timezone_offset m row tz = Some (Ok n)"
  then have "starts_with_sign tz" using parse_fixed_offset_None [of m row tz] by auto
  from parse_fixed_offset_sound [OF this, of m row] ok have "offset_spelling tz n" by auto
  then show "parse_sql_server_fixed_timezone_offset m row' tz = Some (Ok n)"
    by (rule parse_fixed_offset_complete)
qed (simp add: parse_fixed_offset_None)

lemma timezone_resolution_any_row:
  "timezone_resolution_from_metadata db m row tz = Ok r \<Longrightarrow>
   timezone_resolution_from_metadata db m row' tz = Ok r"
  by (cases "parse_sql_server_fixed_timezone_offset m row tz")
    (auto simp: timezone_resolution_from_metadata_def result_simps split: if_splits
      dest: parse_offset_any_row [where row' = row'])

lemma timezone_metadata_any_row:
  "validate_null_timestamp_timezone_metadata db m row = Ok () \<Longrightarrow>
   validate_null_timestamp_timezone_metadata db m row' = Ok ()"
  "validate_mapping_timestamp_timezone_metadata db m row = Ok () \<Longrightarrow>
   validate_mapping_timestamp_timezone_metadata db m row' = Ok ()"
  using timezone_resolution_any_row [of db m row _ _ row']
  by (fastforce simp: validate_null_timestamp_timezone_metadata_def
      validate_mapping_timestamp_timezone_metadata_def validate_timestamp_timezone_metadata_def
      result_simps split: data_type.splits option.splits if_splits)+

lemma null_temporal_fits:
  "fits_at [0] cell bs \<Longrightarrow> plan_nullable col \<Longrightarrow>
   write_null_direct_temporal_cell bs cell col row = Ok (splice bs (pos_offset cell) [0])"
proof -
  assume fits: "fits_at [0] cell bs" and nullable: "plan_nullable col"
  have "cell_bytes_mut bs cell write_null_temporal_cell = Ok (splice bs (pos_offset cell) [0])"
    using fits by (rule cell_bytes_mut_fits)
      (auto simp: write_null_temporal_cell_def NULL_TEMPORAL_CELL_LEN_def length_Suc_conv)
  with fits nullable show ?thesis
    by (simp add: write_null_direct_temporal_cell_def null_temporal_cell_len_for_column_def
        NULL_TEMPORAL_CELL_LEN_def fits_at_def)
qed

locale temporal_reader =
  fixes read :: "usize \<Rightarrow> 'a \<Rightarrow> error + temporal_value"
  assumes valid: "read row x = Ok v \<Longrightarrow> valid_temporal v"
    and any_row: "read row x = Ok v \<Longrightarrow> read row' x = Ok v"
begin

sublocale codec: column_codec
  "temporal_cell_len db m col (\<lambda>row x. and_then (read row x) (temporal_value_cell_len col))"
  "fill_temporal_cell checked db m col read"
  "\<lambda>row v n buf. append_temporal_value db m col
     (\<lambda>row x. and_then (read row x) (\<lambda>v. and_then (temporal_value_cell_len col v) (\<lambda>n. Ok (n, v)))) row v n buf"
  "temporal_cell_at db m col read" for db m col checked
proof unfold_locales
  fix row row' n and v :: "'a option" and c cell bs buf
  show "temporal_cell_len db m col (\<lambda>row x. and_then (read row x) (temporal_value_cell_len col)) row v
      = map_ok length (temporal_cell_at db m col read row v)"
  proof (cases v)
    case None
    then show ?thesis
      by (cases "validate_null_timestamp_timezone_metadata db m row")
        (simp_all add: temporal_cell_len_def temporal_cell_at_def null_temporal_cell_len_for_column_def
          NULL_TEMPORAL_CELL_LEN_def)
  next
    case (Some x)
    then show ?thesis
      by (cases "validate_mapping_timestamp_timezone_metadata db m row"; cases "read row x")
        (simp_all add: temporal_cell_len_def temporal_cell_at_def temporal_wire_len [OF valid])
  qed
  assume "temporal_cell_at db m col read row v = Ok c"
  then consider (null) "v = None" "validate_null_timestamp_timezone_metadata db m row = Ok ()"
      "plan_nullable col" "c = [0]"
    | (val) x u where "v = Some x" "validate_mapping_timestamp_timezone_metadata db m row = Ok ()"
      "read row x = Ok u" "valid_temporal u" "c = temporal_wire col u"
    using valid by (cases v) (auto simp: temporal_cell_at_def result_simps split: if_splits)
  note cases = this
  from cases show "append_temporal_value db m col
      (\<lambda>row x. and_then (read row x) (\<lambda>v. and_then (temporal_value_cell_len col v) (\<lambda>n. Ok (n, v))))
      row v (length c) buf = Ok (buf @ c)"
    by cases (simp_all add: append_temporal_value_def null_temporal_cell_len_for_column_def
        NULL_TEMPORAL_CELL_LEN_def append_null_temporal_cell_def temporal_wire_len append_valid_temporal)
  from cases show "temporal_cell_at db m col read row' v = Ok c"
  proof cases
    case null
    with timezone_metadata_any_row(1) [OF null(2), of row'] show ?thesis by (simp add: temporal_cell_at_def)
  next
    case val
    with timezone_metadata_any_row(2) [OF val(2), of row'] any_row [OF val(3), of row'] show ?thesis
      by (simp add: temporal_cell_at_def)
  qed
  assume fits: "fits_at c cell bs"
  from cases show "fill_temporal_cell checked db m col read row v cell bs
      = Ok (splice bs (pos_offset cell) c)"
    by cases (use fits in \<open>simp_all add: fill_temporal_cell_def null_temporal_fits
        write_direct_temporal_value_fits\<close>)
qed

end

subsection \<open>Readers\<close>

definition read_date32 :: "direct_column_plan \<Rightarrow> usize \<Rightarrow> i32 \<Rightarrow> error + temporal_value" where
  "read_date32 col row v = map_ok TvDate (direct_date_from_arrow_date32 col row v)"

definition read_date64 :: "direct_column_plan \<Rightarrow> usize \<Rightarrow> i64 \<Rightarrow> error + temporal_value" where
  "read_date64 col row v = map_ok TvDateTime2 (direct_datetime2_from_arrow_date64 col row v)"

definition read_timestamp_second where
  "read_timestamp_second m rt col row v =
     timestamp_second_value v m col row (context_datetime_rounding rt)"

definition read_timestamp_millisecond where
  "read_timestamp_millisecond m rt col row v =
     timestamp_millisecond_value v m col row (context_datetime_rounding rt)"

definition read_timestamp_microsecond where
  "read_timestamp_microsecond m rt col row v =
     timestamp_microsecond_value v m col row (context_datetime_rounding rt)"

definition read_timestamp_nanosecond where
  "read_timestamp_nanosecond m rt col row v =
     timestamp_nanosecond_value v m col row (context_nanosecond_policy rt) (context_datetime_rounding rt)"

definition read_datetimeoffset_second where
  "read_datetimeoffset_second db m row v =
     map_ok TvDateTimeOffset (datetimeoffset_second_value db m row v)"

definition read_datetimeoffset_millisecond where
  "read_datetimeoffset_millisecond db m row v =
     map_ok TvDateTimeOffset (datetimeoffset_millisecond_value db m row v)"

definition read_datetimeoffset_microsecond where
  "read_datetimeoffset_microsecond db m row v =
     map_ok TvDateTimeOffset (datetimeoffset_microsecond_value db m row v)"

definition read_datetimeoffset_nanosecond where
  "read_datetimeoffset_nanosecond db m rt row v =
     map_ok TvDateTimeOffset (datetimeoffset_nanosecond_value db m row v (context_nanosecond_policy rt))"

definition read_time32_second where
  "read_time32_second m row v = map_ok TvTime (mssql_time_from_arrow_time32_second m row v)"

definition read_time32_millisecond where
  "read_time32_millisecond m row v = map_ok TvTime (mssql_time_from_arrow_time32_millisecond m row v)"

definition read_time64_microsecond where
  "read_time64_microsecond m row v = map_ok TvTime (mssql_time_from_arrow_time64_microsecond m row v)"

definition read_time64_nanosecond where
  "read_time64_nanosecond m rt row v =
     map_ok TvTime (mssql_time_from_arrow_time64_nanosecond m row v (context_nanosecond_policy rt))"

text \<open>A conversion that succeeds gives the same value at every row.\<close>

definition row_free :: "(usize \<Rightarrow> error + 'v) \<Rightarrow> bool" where
  "row_free f \<longleftrightarrow> (\<forall>row row' v. f row = Ok v \<longrightarrow> f row' = Ok v)"

lemma row_free_basic [intro!]:
  "row_free (\<lambda>_. Inr x)" "row_free (\<lambda>row. Inl (err row))" "row_free (\<lambda>row. ok_or (err row) opt)"
  by (simp_all add: row_free_def) (cases opt; simp)

lemma row_free_if [intro!]: "row_free f \<Longrightarrow> row_free g \<Longrightarrow> row_free (\<lambda>row. if b then f row else g row)"
  by (cases b) (simp_all only: if_True if_False)

lemma row_free_map_ok [intro!]: "row_free f \<Longrightarrow> row_free (\<lambda>row. map_ok h (f row))"
  unfolding row_free_def map_ok_Inr by blast

lemma row_free_and_then [intro!]:
  "row_free f \<Longrightarrow> (\<And>x. row_free (\<lambda>row. g row x)) \<Longrightarrow> row_free (\<lambda>row. and_then (f row) (g row))"
  unfolding row_free_def and_then_Inr by blast

lemma row_free_time:
  "row_free (\<lambda>row. mssql_time_from_i64 m row n day scale)"
  "row_free (\<lambda>row. mssql_time_from_nanoseconds m row ns policy)"
  by (cases policy; auto simp: mssql_time_from_i64_def mssql_time_from_nanoseconds_def
      time_nanoseconds_to_100ns_ticks_def Let_def)+

lemma row_free_nearest:
  "row_free (\<lambda>row. round_100ns_ticks_to_nearest_millisecond m row ticks)"
  "row_free (\<lambda>row. round_100ns_ticks_to_nearest_datetime_fragment m row ticks)"
  by (auto simp: round_100ns_ticks_to_nearest_millisecond_def
      round_100ns_ticks_to_nearest_datetime_fragment_def Let_def)

lemma row_free_rounding:
  "row_free (\<lambda>row. nanoseconds_to_100ns_ticks m row v policy)"
  "row_free (\<lambda>row. round_100ns_ticks_to_datetime_fragments m row ticks rounding)"
  "row_free (\<lambda>row. round_100ns_ticks_to_datetime2_scale m row ticks scale)"
  "row_free (\<lambda>row. target_datetime2_timestamp_scale m row)"
     apply (cases policy; auto simp: nanoseconds_to_100ns_ticks_def Let_def)
    apply (cases rounding; auto simp: round_100ns_ticks_to_datetime_fragments_def intro!: row_free_nearest)
   apply (auto simp: round_100ns_ticks_to_datetime2_scale_def Let_def)[1]
  apply (cases "target_type m"; auto simp: target_datetime2_timestamp_scale_def)
  done

lemma row_free_ticks:
  "row_free (\<lambda>row. mssql_datetime_from_unix_epoch_100ns_ticks m row ticks rounding)"
  "row_free (\<lambda>row. mssql_datetime2_from_unix_epoch_100ns_ticks_at_scale m row ticks scale)"
  by (auto simp: mssql_datetime_from_unix_epoch_100ns_ticks_def
      mssql_datetime2_from_unix_epoch_100ns_ticks_at_scale_def Let_def intro!: row_free_rounding)

lemma row_free_datetimeoffset_parts:
  "row_free (\<lambda>row. epoch_parts m row seconds nanoseconds)"
  "row_free (\<lambda>row. timezone_resolution_from_metadata db m row tz)"
  "row_free (\<lambda>row. offset_for_instant db resolution m row seconds subseconds)"
  "row_free (\<lambda>row. mssql_datetimeoffset_from_utc_100ns_ticks m row utc off)"
     apply (auto simp: epoch_parts_def)[1]
    apply (simp only: row_free_def) apply (blast intro: timezone_resolution_any_row)
   apply (cases resolution; auto simp: offset_for_instant_def sql_server_offset_minutes_def)
  apply (auto simp: mssql_datetimeoffset_from_utc_100ns_ticks_def mssql_datetime2_from_unix_epoch_100ns_ticks_def
      validate_datetimeoffset_local_range_def Let_def intro!: row_free_ticks)
  done

lemmas datetime2_conversions = mssql_datetime2_from_arrow_timestamp_second_def
  mssql_datetime2_from_arrow_timestamp_millisecond_def
  mssql_datetime2_from_arrow_timestamp_microsecond_def
  mssql_datetime2_from_arrow_timestamp_nanosecond_def

lemmas datetime_conversions = mssql_datetime_from_arrow_timestamp_second_def
  mssql_datetime_from_arrow_timestamp_millisecond_def
  mssql_datetime_from_arrow_timestamp_microsecond_def
  mssql_datetime_from_arrow_timestamp_nanosecond_def

lemmas datetimeoffset_conversions = mssql_datetimeoffset_from_arrow_timestamp_second_def
  mssql_datetimeoffset_from_arrow_timestamp_millisecond_def
  mssql_datetimeoffset_from_arrow_timestamp_microsecond_def
  mssql_datetimeoffset_from_arrow_timestamp_nanosecond_def

lemmas time_conversions = mssql_time_from_arrow_time32_second_def mssql_time_from_arrow_time32_millisecond_def
  mssql_time_from_arrow_time64_microsecond_def mssql_time_from_arrow_time64_nanosecond_def

lemma row_free_datetimeoffset_values:
  "row_free (\<lambda>row. datetimeoffset_second_value db m row v)"
  "row_free (\<lambda>row. datetimeoffset_millisecond_value db m row v)"
  "row_free (\<lambda>row. datetimeoffset_microsecond_value db m row v)"
  "row_free (\<lambda>row. datetimeoffset_nanosecond_value db m row v policy)"
  by (cases "timestamp_timezone m";
      auto simp: datetimeoffset_values timestamp_timezone_for_datetimeoffset_def datetimeoffset_conversions
        epoch_parts_from_milliseconds_def epoch_parts_from_microseconds_def epoch_parts_from_nanoseconds_def
        intro!: row_free_datetimeoffset_parts row_free_rounding)+

lemma row_free_timestamp_values:
  "row_free (\<lambda>row. timestamp_second_value v m col row rounding)"
  "row_free (\<lambda>row. timestamp_millisecond_value v m col row rounding)"
  "row_free (\<lambda>row. timestamp_microsecond_value v m col row rounding)"
  "row_free (\<lambda>row. timestamp_nanosecond_value v m col row policy rounding)"
  by (cases "plan_target_type col";
      auto simp: timestamp_second_value_def timestamp_millisecond_value_def timestamp_microsecond_value_def
        timestamp_nanosecond_value_def unsupported_timestamp_target_def direct_conversion_error_def
        datetime_conversions datetime2_conversions mssql_datetime2_from_arrow_timestamp_ticks_def
        intro!: row_free_ticks row_free_rounding)+

lemma row_free_dates:
  "row_free (\<lambda>row. direct_date_from_arrow_date32 col row v)"
  "row_free (\<lambda>row. direct_datetime2_from_arrow_date64 col row w)"
  by (auto simp: direct_date_from_arrow_date32_def direct_datetime2_from_arrow_date64_def Let_def)

lemma plan_of_some_mapping: "\<exists>m. col = column_plan_from_mapping m (plan_encoding col)"
  by (rule exI [of _ "\<lparr>mapping_arrow =
        undefined\<lparr>arrow_index := plan_source_index col, arrow_name := plan_source_name col\<rparr>,
      mapping_mssql = undefined\<lparr>column_ty := plan_target_type col, column_nullable := plan_nullable col\<rparr>\<rparr>"])
    (simp add: column_plan_from_mapping_def)

lemma valid_dates:
  "direct_date_from_arrow_date32 col row v = Ok d \<Longrightarrow> valid_date d"
  "direct_datetime2_from_arrow_date64 col row w = Ok c \<Longrightarrow> valid_datetime2 c"
proof -
  from plan_of_some_mapping obtain m where col: "col = column_plan_from_mapping m (plan_encoding col)" ..
  show "direct_date_from_arrow_date32 col row v = Ok d \<Longrightarrow> valid_date d"
    by (auto simp: direct_date_from_arrow_date32_def Let_def time_constants mssql_date_new_def
        valid_date_def days_of_word simp del: of_int_add split: if_splits)
  show "direct_datetime2_from_arrow_date64 col row w = Ok c \<Longrightarrow> valid_datetime2 c"
    by (subst (asm) col) (simp add: direct_dates_agree date64_valid)
qed

lemma valid_timestamps:
  "timestamp_second_value v m col row rounding = Ok u \<Longrightarrow> valid_temporal u"
  "timestamp_millisecond_value v m col row rounding = Ok u \<Longrightarrow> valid_temporal u"
  "timestamp_microsecond_value v m col row rounding = Ok u \<Longrightarrow> valid_temporal u"
  "timestamp_nanosecond_value v m col row policy rounding = Ok u \<Longrightarrow> valid_temporal u"
  by (auto simp: timestamp_second_value_def timestamp_millisecond_value_def timestamp_microsecond_value_def
      timestamp_nanosecond_value_def datetime_conversions datetime2_conversions result_simps
      valid_temporal_def time_constants split: mssql_type.splits
      dest: datetime_ticks_valid datetime2_ticks_valid [OF _ timestamp_ticks_range]
        datetime2_ticks_valid [OF _ nanosecond_ticks_Ok(2)])

lemma valid_datetimeoffsets:
  "datetimeoffset_second_value db m row v = Ok c \<Longrightarrow> valid_datetimeoffset c"
  "datetimeoffset_millisecond_value db m row v = Ok c \<Longrightarrow> valid_datetimeoffset c"
  "datetimeoffset_microsecond_value db m row v = Ok c \<Longrightarrow> valid_datetimeoffset c"
  "datetimeoffset_nanosecond_value db m row v policy = Ok c \<Longrightarrow> valid_datetimeoffset c"
  by (auto simp: datetimeoffset_values datetimeoffset_conversions result_simps time_constants
      dest: resolved_offset_valid [OF _ _ _ timestamp_ticks_range]
        resolved_offset_valid [OF _ _ _ nanosecond_ticks_Ok(2)])

lemma valid_times:
  "mssql_time_from_arrow_time32_second m row v = Ok t \<Longrightarrow> valid_time t"
  "mssql_time_from_arrow_time32_millisecond m row v = Ok t \<Longrightarrow> valid_time t"
  "mssql_time_from_arrow_time64_microsecond m row w = Ok t \<Longrightarrow> valid_time t"
  "mssql_time_from_arrow_time64_nanosecond m row w policy = Ok t \<Longrightarrow> valid_time t"
  by (auto simp: time_conversions time_constants intro: time_from_i64_valid time_from_nanoseconds_valid)

lemmas reader_defs = read_date32_def read_date64_def read_timestamp_second_def
  read_timestamp_millisecond_def read_timestamp_microsecond_def read_timestamp_nanosecond_def
  read_datetimeoffset_second_def read_datetimeoffset_millisecond_def
  read_datetimeoffset_microsecond_def read_datetimeoffset_nanosecond_def
  read_time32_second_def read_time32_millisecond_def read_time64_microsecond_def
  read_time64_nanosecond_def

lemma temporal_readerI:
  assumes "\<And>row x v. read row x = Ok v \<Longrightarrow> valid_temporal v" "\<And>x. row_free (\<lambda>row. read row x)"
  shows "temporal_reader read"
proof
  show "read row x = Ok v \<Longrightarrow> valid_temporal v" for row x v by (rule assms(1))
  show "read row x = Ok v \<Longrightarrow> read row' x = Ok v" for row x v row'
    using assms(2) [of x] unfolding row_free_def by blast
qed

interpretation date32_reader: temporal_reader "read_date32 col" for col
  by (rule temporal_readerI)
    (auto simp: reader_defs result_simps valid_temporal_def valid_dates intro!: row_free_dates)

interpretation date64_reader: temporal_reader "read_date64 col" for col
  by (rule temporal_readerI)
    (auto simp: reader_defs result_simps valid_temporal_def valid_dates intro!: row_free_dates)

interpretation timestamp_second_reader: temporal_reader "read_timestamp_second m rt col" for m rt col
  by (rule temporal_readerI) (auto simp: reader_defs valid_timestamps intro!: row_free_timestamp_values)

interpretation timestamp_millisecond_reader: temporal_reader "read_timestamp_millisecond m rt col" for m rt col
  by (rule temporal_readerI) (auto simp: reader_defs valid_timestamps intro!: row_free_timestamp_values)

interpretation timestamp_microsecond_reader: temporal_reader "read_timestamp_microsecond m rt col" for m rt col
  by (rule temporal_readerI) (auto simp: reader_defs valid_timestamps intro!: row_free_timestamp_values)

interpretation timestamp_nanosecond_reader: temporal_reader "read_timestamp_nanosecond m rt col" for m rt col
  by (rule temporal_readerI) (auto simp: reader_defs valid_timestamps intro!: row_free_timestamp_values)

interpretation datetimeoffset_second_reader: temporal_reader "read_datetimeoffset_second db m" for db m
  by (rule temporal_readerI) (auto simp: reader_defs result_simps valid_temporal_def
      valid_datetimeoffsets intro!: row_free_datetimeoffset_values)

interpretation datetimeoffset_millisecond_reader: temporal_reader "read_datetimeoffset_millisecond db m" for db m
  by (rule temporal_readerI) (auto simp: reader_defs result_simps valid_temporal_def
      valid_datetimeoffsets intro!: row_free_datetimeoffset_values)

interpretation datetimeoffset_microsecond_reader: temporal_reader "read_datetimeoffset_microsecond db m" for db m
  by (rule temporal_readerI) (auto simp: reader_defs result_simps valid_temporal_def
      valid_datetimeoffsets intro!: row_free_datetimeoffset_values)

interpretation datetimeoffset_nanosecond_reader: temporal_reader "read_datetimeoffset_nanosecond db m rt"
  for db m rt
  by (rule temporal_readerI) (auto simp: reader_defs result_simps valid_temporal_def
      valid_datetimeoffsets intro!: row_free_datetimeoffset_values)

interpretation time32_second_reader: temporal_reader "read_time32_second m" for m
  by (rule temporal_readerI) (auto simp: reader_defs result_simps valid_temporal_def valid_times
      time_conversions [abs_def] intro!: row_free_time)

interpretation time32_millisecond_reader: temporal_reader "read_time32_millisecond m" for m
  by (rule temporal_readerI) (auto simp: reader_defs result_simps valid_temporal_def valid_times
      time_conversions [abs_def] intro!: row_free_time)

interpretation time64_microsecond_reader: temporal_reader "read_time64_microsecond m" for m
  by (rule temporal_readerI) (auto simp: reader_defs result_simps valid_temporal_def valid_times
      time_conversions [abs_def] intro!: row_free_time)

interpretation time64_nanosecond_reader: temporal_reader "read_time64_nanosecond m rt" for m rt
  by (rule temporal_readerI) (auto simp: reader_defs result_simps valid_temporal_def valid_times
      time_conversions [abs_def] intro!: row_free_time)

end
