(* ===== verification/RecordBatches.thy ===== *)
theory RecordBatches
  imports CellConversion
begin

text \<open>
  Runtime batches: the Arrow arrays the writer reads, the extraction of one cell
  (\<^verbatim>\<open>src/arrow/cell.rs\<close>), the validation of a batch against the plan
  (\<^verbatim>\<open>src/write/record_batch/validate.rs\<close>) and the row view of the baseline writer
  (\<^verbatim>\<open>src/write/record_batch.rs\<close>).

  Arrays and batches are arrow-rs types. An array is its class, the part of its data type the class
  leaves open, and the list of its values with \<^term>\<open>None\<close> for a null; the classes the writer does
  not know are \<^verbatim>\<open>OtherArray\<close>, of which only the nulls matter. A \<^verbatim>\<open>Float16Array\<close> holds the
  widened values, since the sources only read it through \<^verbatim>\<open>to_f32\<close>. What arrow-rs promises of a
  batch made by \<^verbatim>\<open>RecordBatch::try_new\<close> is \<^verbatim>\<open>valid_batch\<close>.
\<close>

datatype arrow_array =
    is_BooleanArray: BooleanArray (as_boolean: "bool option list")
  | is_Int8Array: Int8Array (as_int8: "i8 option list")
  | is_Int16Array: Int16Array (as_int16: "i16 option list")
  | is_Int32Array: Int32Array (as_int32: "i32 option list")
  | is_Int64Array: Int64Array (as_int64: "i64 option list")
  | is_UInt8Array: UInt8Array (as_uint8: "u8 option list")
  | is_UInt16Array: UInt16Array (as_uint16: "u16 option list")
  | is_UInt32Array: UInt32Array (as_uint32: "u32 option list")
  | is_UInt64Array: UInt64Array (as_uint64: "u64 option list")
  | is_Float16Array: Float16Array (as_float16: "f32 option list")
  | is_Float32Array: Float32Array (as_float32: "f32 option list")
  | is_Float64Array: Float64Array (as_float64: "f64 option list")
  | is_Decimal32Array: Decimal32Array u8 i8 (as_decimal32: "i32 option list")
  | is_Decimal64Array: Decimal64Array u8 i8 (as_decimal64: "i64 option list")
  | is_Decimal128Array: Decimal128Array u8 i8 (as_decimal128: "i128 option list")
  | is_Decimal256Array: Decimal256Array u8 i8 (as_decimal256: "i256 option list")
  | is_StringArray: StringArray (as_string: "rstr option list")
  | is_LargeStringArray: LargeStringArray (as_large_string: "rstr option list")
  | is_StringViewArray: StringViewArray (as_string_view: "rstr option list")
  | is_BinaryArray: BinaryArray (as_binary: "bytes option list")
  | is_LargeBinaryArray: LargeBinaryArray (as_large_binary: "bytes option list")
  | is_BinaryViewArray: BinaryViewArray (as_binary_view: "bytes option list")
  | is_FixedSizeBinaryArray: FixedSizeBinaryArray i32 (as_fixed_size_binary: "bytes option list")
  | is_Date32Array: Date32Array (as_date32: "i32 option list")
  | is_Date64Array: Date64Array (as_date64: "i64 option list")
  | is_Time32SecondArray: Time32SecondArray (as_time32_second: "i32 option list")
  | is_Time32MillisecondArray: Time32MillisecondArray (as_time32_millisecond: "i32 option list")
  | is_Time64MicrosecondArray: Time64MicrosecondArray (as_time64_microsecond: "i64 option list")
  | is_Time64NanosecondArray: Time64NanosecondArray (as_time64_nanosecond: "i64 option list")
  | is_TimestampSecondArray: TimestampSecondArray "rstr option" (as_timestamp_second: "i64 option list")
  | is_TimestampMillisecondArray:
      TimestampMillisecondArray "rstr option" (as_timestamp_millisecond: "i64 option list")
  | is_TimestampMicrosecondArray:
      TimestampMicrosecondArray "rstr option" (as_timestamp_microsecond: "i64 option list")
  | is_TimestampNanosecondArray:
      TimestampNanosecondArray "rstr option" (as_timestamp_nanosecond: "i64 option list")
  | OtherArray data_type "bool list"

record record_batch =
  batch_fields :: "arrow_field list"
  batch_columns :: "arrow_array list"
  batch_num_rows :: usize

subsection \<open>What arrow-rs provides\<close>

text \<open>\<^verbatim>\<open>array.data_type()\<close>.\<close>

primrec array_data_type :: "arrow_array \<Rightarrow> data_type" where
  "array_data_type (BooleanArray _) = DtBoolean"
| "array_data_type (Int8Array _) = DtInt8"
| "array_data_type (Int16Array _) = DtInt16"
| "array_data_type (Int32Array _) = DtInt32"
| "array_data_type (Int64Array _) = DtInt64"
| "array_data_type (UInt8Array _) = DtUInt8"
| "array_data_type (UInt16Array _) = DtUInt16"
| "array_data_type (UInt32Array _) = DtUInt32"
| "array_data_type (UInt64Array _) = DtUInt64"
| "array_data_type (Float16Array _) = DtFloat16"
| "array_data_type (Float32Array _) = DtFloat32"
| "array_data_type (Float64Array _) = DtFloat64"
| "array_data_type (Decimal32Array p s _) = DtDecimal32 p s"
| "array_data_type (Decimal64Array p s _) = DtDecimal64 p s"
| "array_data_type (Decimal128Array p s _) = DtDecimal128 p s"
| "array_data_type (Decimal256Array p s _) = DtDecimal256 p s"
| "array_data_type (StringArray _) = DtUtf8"
| "array_data_type (LargeStringArray _) = DtLargeUtf8"
| "array_data_type (StringViewArray _) = DtUtf8View"
| "array_data_type (BinaryArray _) = DtBinary"
| "array_data_type (LargeBinaryArray _) = DtLargeBinary"
| "array_data_type (BinaryViewArray _) = DtBinaryView"
| "array_data_type (FixedSizeBinaryArray n _) = DtFixedSizeBinary n"
| "array_data_type (Date32Array _) = DtDate32"
| "array_data_type (Date64Array _) = DtDate64"
| "array_data_type (Time32SecondArray _) = DtTime32 Second"
| "array_data_type (Time32MillisecondArray _) = DtTime32 Millisecond"
| "array_data_type (Time64MicrosecondArray _) = DtTime64 Microsecond"
| "array_data_type (Time64NanosecondArray _) = DtTime64 Nanosecond"
| "array_data_type (TimestampSecondArray tz _) = DtTimestamp Second tz"
| "array_data_type (TimestampMillisecondArray tz _) = DtTimestamp Millisecond tz"
| "array_data_type (TimestampMicrosecondArray tz _) = DtTimestamp Microsecond tz"
| "array_data_type (TimestampNanosecondArray tz _) = DtTimestamp Nanosecond tz"
| "array_data_type (OtherArray t _) = t"

text \<open>The nulls of an array, and the array with other rows: both only look at the list of values.\<close>

definition values_null :: "'a option list \<Rightarrow> bool list" where
  "values_null = map Option.is_none"

primrec array_nulls :: "arrow_array \<Rightarrow> bool list" where
  "array_nulls (BooleanArray vs) = values_null vs"
| "array_nulls (Int8Array vs) = values_null vs"
| "array_nulls (Int16Array vs) = values_null vs"
| "array_nulls (Int32Array vs) = values_null vs"
| "array_nulls (Int64Array vs) = values_null vs"
| "array_nulls (UInt8Array vs) = values_null vs"
| "array_nulls (UInt16Array vs) = values_null vs"
| "array_nulls (UInt32Array vs) = values_null vs"
| "array_nulls (UInt64Array vs) = values_null vs"
| "array_nulls (Float16Array vs) = values_null vs"
| "array_nulls (Float32Array vs) = values_null vs"
| "array_nulls (Float64Array vs) = values_null vs"
| "array_nulls (Decimal32Array _ _ vs) = values_null vs"
| "array_nulls (Decimal64Array _ _ vs) = values_null vs"
| "array_nulls (Decimal128Array _ _ vs) = values_null vs"
| "array_nulls (Decimal256Array _ _ vs) = values_null vs"
| "array_nulls (StringArray vs) = values_null vs"
| "array_nulls (LargeStringArray vs) = values_null vs"
| "array_nulls (StringViewArray vs) = values_null vs"
| "array_nulls (BinaryArray vs) = values_null vs"
| "array_nulls (LargeBinaryArray vs) = values_null vs"
| "array_nulls (BinaryViewArray vs) = values_null vs"
| "array_nulls (FixedSizeBinaryArray _ vs) = values_null vs"
| "array_nulls (Date32Array vs) = values_null vs"
| "array_nulls (Date64Array vs) = values_null vs"
| "array_nulls (Time32SecondArray vs) = values_null vs"
| "array_nulls (Time32MillisecondArray vs) = values_null vs"
| "array_nulls (Time64MicrosecondArray vs) = values_null vs"
| "array_nulls (Time64NanosecondArray vs) = values_null vs"
| "array_nulls (TimestampSecondArray _ vs) = values_null vs"
| "array_nulls (TimestampMillisecondArray _ vs) = values_null vs"
| "array_nulls (TimestampMicrosecondArray _ vs) = values_null vs"
| "array_nulls (TimestampNanosecondArray _ vs) = values_null vs"
| "array_nulls (OtherArray _ nulls) = nulls"

definition array_len :: "arrow_array \<Rightarrow> usize" where
  "array_len array = length (array_nulls array)"

definition array_is_null :: "arrow_array \<Rightarrow> usize \<Rightarrow> bool" where
  "array_is_null array row = array_nulls array ! row"

text \<open>\<^verbatim>\<open>array.slice(start, n)\<close>: rows \<^verbatim>\<open>start..start + n\<close>.\<close>

definition slice_rows :: "usize \<Rightarrow> usize \<Rightarrow> 'a list \<Rightarrow> 'a list" where
  "slice_rows start n vs = take n (drop start vs)"

primrec array_slice :: "usize \<Rightarrow> usize \<Rightarrow> arrow_array \<Rightarrow> arrow_array" where
  "array_slice start n (BooleanArray vs) = BooleanArray (slice_rows start n vs)"
| "array_slice start n (Int8Array vs) = Int8Array (slice_rows start n vs)"
| "array_slice start n (Int16Array vs) = Int16Array (slice_rows start n vs)"
| "array_slice start n (Int32Array vs) = Int32Array (slice_rows start n vs)"
| "array_slice start n (Int64Array vs) = Int64Array (slice_rows start n vs)"
| "array_slice start n (UInt8Array vs) = UInt8Array (slice_rows start n vs)"
| "array_slice start n (UInt16Array vs) = UInt16Array (slice_rows start n vs)"
| "array_slice start n (UInt32Array vs) = UInt32Array (slice_rows start n vs)"
| "array_slice start n (UInt64Array vs) = UInt64Array (slice_rows start n vs)"
| "array_slice start n (Float16Array vs) = Float16Array (slice_rows start n vs)"
| "array_slice start n (Float32Array vs) = Float32Array (slice_rows start n vs)"
| "array_slice start n (Float64Array vs) = Float64Array (slice_rows start n vs)"
| "array_slice start n (Decimal32Array p s vs) = Decimal32Array p s (slice_rows start n vs)"
| "array_slice start n (Decimal64Array p s vs) = Decimal64Array p s (slice_rows start n vs)"
| "array_slice start n (Decimal128Array p s vs) = Decimal128Array p s (slice_rows start n vs)"
| "array_slice start n (Decimal256Array p s vs) = Decimal256Array p s (slice_rows start n vs)"
| "array_slice start n (StringArray vs) = StringArray (slice_rows start n vs)"
| "array_slice start n (LargeStringArray vs) = LargeStringArray (slice_rows start n vs)"
| "array_slice start n (StringViewArray vs) = StringViewArray (slice_rows start n vs)"
| "array_slice start n (BinaryArray vs) = BinaryArray (slice_rows start n vs)"
| "array_slice start n (LargeBinaryArray vs) = LargeBinaryArray (slice_rows start n vs)"
| "array_slice start n (BinaryViewArray vs) = BinaryViewArray (slice_rows start n vs)"
| "array_slice start n (FixedSizeBinaryArray k vs) = FixedSizeBinaryArray k (slice_rows start n vs)"
| "array_slice start n (Date32Array vs) = Date32Array (slice_rows start n vs)"
| "array_slice start n (Date64Array vs) = Date64Array (slice_rows start n vs)"
| "array_slice start n (Time32SecondArray vs) = Time32SecondArray (slice_rows start n vs)"
| "array_slice start n (Time32MillisecondArray vs) = Time32MillisecondArray (slice_rows start n vs)"
| "array_slice start n (Time64MicrosecondArray vs) = Time64MicrosecondArray (slice_rows start n vs)"
| "array_slice start n (Time64NanosecondArray vs) = Time64NanosecondArray (slice_rows start n vs)"
| "array_slice start n (TimestampSecondArray tz vs) = TimestampSecondArray tz (slice_rows start n vs)"
| "array_slice start n (TimestampMillisecondArray tz vs) =
     TimestampMillisecondArray tz (slice_rows start n vs)"
| "array_slice start n (TimestampMicrosecondArray tz vs) =
     TimestampMicrosecondArray tz (slice_rows start n vs)"
| "array_slice start n (TimestampNanosecondArray tz vs) =
     TimestampNanosecondArray tz (slice_rows start n vs)"
| "array_slice start n (OtherArray t nulls) = OtherArray t (slice_rows start n nulls)"

definition batch_slice :: "usize \<Rightarrow> usize \<Rightarrow> record_batch \<Rightarrow> record_batch" where
  "batch_slice start n batch =
     batch\<lparr>batch_columns := map (array_slice start n) (batch_columns batch), batch_num_rows := n\<rparr>"

text \<open>The data types whose arrays are one of the named classes.\<close>

definition known_class :: "data_type \<Rightarrow> bool" where
  "known_class t \<longleftrightarrow>
     (case t of
        DtNull \<Rightarrow> False | DtDuration _ \<Rightarrow> False | DtInterval _ \<Rightarrow> False
      | DtList _ \<Rightarrow> False | DtListView _ \<Rightarrow> False | DtFixedSizeList _ _ \<Rightarrow> False
      | DtLargeList _ \<Rightarrow> False | DtLargeListView _ \<Rightarrow> False
      | DtStruct _ \<Rightarrow> False | DtUnion _ \<Rightarrow> False | DtMap _ _ \<Rightarrow> False
      | DtDictionary _ \<Rightarrow> False | DtRunEndEncoded _ \<Rightarrow> False
      | DtTime32 unit \<Rightarrow> unit = Second \<or> unit = Millisecond
      | DtTime64 unit \<Rightarrow> unit = Microsecond \<or> unit = Nanosecond
      | _ \<Rightarrow> True)"

definition valid_array :: "arrow_array \<Rightarrow> bool" where
  "valid_array array \<longleftrightarrow>
     (case array of
        FixedSizeBinaryArray n vs \<Rightarrow> 0 \<le> sint n \<and> (\<forall>v. Some v \<in> set vs \<longrightarrow> int (length v) = sint n)
      | OtherArray t _ \<Rightarrow> \<not> known_class t
      | _ \<Rightarrow> True)"

definition valid_batch :: "record_batch \<Rightarrow> bool" where
  "valid_batch batch \<longleftrightarrow>
     map field_data_type (batch_fields batch) = map array_data_type (batch_columns batch)
     \<and> (\<forall>array \<in> set (batch_columns batch). valid_array array \<and> array_len array = batch_num_rows batch)"

subsection \<open>Extraction of a cell\<close>

text \<open>\<^verbatim>\<open>downcast_ref\<close> to a class, and \<^verbatim>\<open>array.value(row)\<close> of an entry that is not null.\<close>

definition downcast_array ::
    "(arrow_array \<Rightarrow> bool) \<Rightarrow> (arrow_array \<Rightarrow> 'a) \<Rightarrow> arrow_array \<Rightarrow> schema_mapping \<Rightarrow> usize \<Rightarrow> error + 'a" where
  "downcast_array is_class as_class array m row =
     (if is_class array then Ok (as_class array) else Err (conversion_error m row ValueTypeMismatch))"

definition extract_value ::
    "(arrow_array \<Rightarrow> bool) \<Rightarrow> (arrow_array \<Rightarrow> 'a option list) \<Rightarrow> ('a \<Rightarrow> arrow_cell) \<Rightarrow> arrow_array
      \<Rightarrow> schema_mapping \<Rightarrow> usize \<Rightarrow> error + arrow_cell" where
  "extract_value is_class as_class cell array m row =
     and_then (downcast_array is_class as_class array m row) (\<lambda>vs. Ok (cell (the (vs ! row))))"

definition extract_binary_cell :: "arrow_array \<Rightarrow> schema_mapping \<Rightarrow> usize \<Rightarrow> error + arrow_cell" where
  "extract_binary_cell array m row =
     (case array_data_type array of
        DtBinary \<Rightarrow> extract_value is_BinaryArray as_binary CellBinary array m row
      | DtLargeBinary \<Rightarrow> extract_value is_LargeBinaryArray as_large_binary CellBinary array m row
      | DtBinaryView \<Rightarrow> extract_value is_BinaryViewArray as_binary_view CellBinary array m row
      | _ \<Rightarrow> Err (conversion_error m row ValueTypeMismatch))"

definition extract_utf8_cell :: "arrow_array \<Rightarrow> schema_mapping \<Rightarrow> usize \<Rightarrow> error + arrow_cell" where
  "extract_utf8_cell array m row =
     (case array_data_type array of
        DtUtf8 \<Rightarrow> extract_value is_StringArray as_string CellUtf8 array m row
      | DtLargeUtf8 \<Rightarrow> extract_value is_LargeStringArray as_large_string CellUtf8 array m row
      | DtUtf8View \<Rightarrow> extract_value is_StringViewArray as_string_view CellUtf8 array m row
      | _ \<Rightarrow> Err (conversion_error m row ValueTypeMismatch))"

definition extract_arrow_cell :: "arrow_array \<Rightarrow> schema_mapping \<Rightarrow> usize \<Rightarrow> error + arrow_cell" where
  "extract_arrow_cell array m row =
     (let unsupported = Err (conversion_error m row ValueConversionUnsupported) in
      if array_is_null array row then Ok CellNull
      else
        (case source_type m of
           DtBoolean \<Rightarrow> extract_value is_BooleanArray as_boolean CellBoolean array m row
         | DtInt8 \<Rightarrow> extract_value is_Int8Array as_int8 CellInt8 array m row
         | DtInt16 \<Rightarrow> extract_value is_Int16Array as_int16 CellInt16 array m row
         | DtInt32 \<Rightarrow> extract_value is_Int32Array as_int32 CellInt32 array m row
         | DtInt64 \<Rightarrow> extract_value is_Int64Array as_int64 CellInt64 array m row
         | DtUInt8 \<Rightarrow> extract_value is_UInt8Array as_uint8 CellUInt8 array m row
         | DtUInt16 \<Rightarrow> extract_value is_UInt16Array as_uint16 CellUInt16 array m row
         | DtUInt32 \<Rightarrow> extract_value is_UInt32Array as_uint32 CellUInt32 array m row
         | DtUInt64 \<Rightarrow> extract_value is_UInt64Array as_uint64 CellUInt64 array m row
         | DtDecimal32 _ _ \<Rightarrow> extract_value is_Decimal32Array as_decimal32 CellDecimal32 array m row
         | DtDecimal64 _ _ \<Rightarrow> extract_value is_Decimal64Array as_decimal64 CellDecimal64 array m row
         | DtDecimal128 _ _ \<Rightarrow> extract_value is_Decimal128Array as_decimal128 CellDecimal128 array m row
         | DtDecimal256 _ _ \<Rightarrow> extract_value is_Decimal256Array as_decimal256 CellDecimal256 array m row
         | DtDate32 \<Rightarrow> extract_value is_Date32Array as_date32 CellDate32 array m row
         | DtDate64 \<Rightarrow> extract_value is_Date64Array as_date64 CellDate64 array m row
         | DtTime32 unit \<Rightarrow>
             (case unit of
                Second \<Rightarrow> extract_value is_Time32SecondArray as_time32_second CellTime32Second array m row
              | Millisecond \<Rightarrow>
                  extract_value is_Time32MillisecondArray as_time32_millisecond CellTime32Millisecond
                    array m row
              | _ \<Rightarrow> unsupported)
         | DtTime64 unit \<Rightarrow>
             (case unit of
                Microsecond \<Rightarrow>
                  extract_value is_Time64MicrosecondArray as_time64_microsecond CellTime64Microsecond
                    array m row
              | Nanosecond \<Rightarrow>
                  extract_value is_Time64NanosecondArray as_time64_nanosecond CellTime64Nanosecond
                    array m row
              | _ \<Rightarrow> unsupported)
         | DtTimestamp unit _ \<Rightarrow>
             (case unit of
                Second \<Rightarrow>
                  extract_value is_TimestampSecondArray as_timestamp_second CellTimestampSecond array m row
              | Millisecond \<Rightarrow>
                  extract_value is_TimestampMillisecondArray as_timestamp_millisecond
                    CellTimestampMillisecond array m row
              | Microsecond \<Rightarrow>
                  extract_value is_TimestampMicrosecondArray as_timestamp_microsecond
                    CellTimestampMicrosecond array m row
              | Nanosecond \<Rightarrow>
                  extract_value is_TimestampNanosecondArray as_timestamp_nanosecond
                    CellTimestampNanosecond array m row)
         | DtFloat16 \<Rightarrow> extract_value is_Float16Array as_float16 CellFloat16 array m row
         | DtFloat32 \<Rightarrow> extract_value is_Float32Array as_float32 CellFloat32 array m row
         | DtFloat64 \<Rightarrow> extract_value is_Float64Array as_float64 CellFloat64 array m row
         | DtFixedSizeBinary _ \<Rightarrow>
             extract_value is_FixedSizeBinaryArray as_fixed_size_binary CellBinary array m row
         | planned \<Rightarrow>
             if is_arrow_string_family planned then extract_utf8_cell array m row
             else if is_arrow_binary_family planned then extract_binary_cell array m row
             else unsupported))"

subsection \<open>Validation of a batch\<close>

text \<open>\<^verbatim>\<open>mappings[schema.fields().len()]\<close> cannot go out of bounds: it is reached when there are
  fewer fields than mappings.\<close>

definition validate_schema_field_count_against_mappings ::
    "arrow_field list \<Rightarrow> schema_mapping list \<Rightarrow> error + unit" where
  "validate_schema_field_count_against_mappings schema mappings =
     (if length schema < length mappings
      then Err (value_conversion_error (mapping_diagnostic (mappings ! length schema) SchemaMismatch))
      else if length schema > length mappings
      then Err (value_conversion_error (diagnostic_error SchemaMismatch))
      else Ok ())"

definition validate_schema_field_shape_against_mapping ::
    "usize \<Rightarrow> arrow_field \<Rightarrow> schema_mapping \<Rightarrow> error + unit" where
  "validate_schema_field_shape_against_mapping position field m =
     (let mismatch = Err (value_conversion_error (mapping_diagnostic m SchemaMismatch)) in
      if arrow_index (mapping_arrow m) \<noteq> position then mismatch
      else if field_name field \<noteq> arrow_name (mapping_arrow m) then mismatch
      else if \<not> arrow_type_compatible_with_mapping (field_data_type field) m then mismatch
      else Ok ())"

definition validate_schema_field_nullability_against_mapping ::
    "arrow_field \<Rightarrow> schema_mapping \<Rightarrow> error + unit" where
  "validate_schema_field_nullability_against_mapping field m =
     (if field_nullable field \<noteq> arrow_nullable (mapping_arrow m)
      then Err (value_conversion_error (mapping_diagnostic m SchemaMismatch)) else Ok ())"

definition validate_arrow_schema_against_mappings ::
    "arrow_field list \<Rightarrow> schema_mapping list \<Rightarrow> error + unit" where
  "validate_arrow_schema_against_mappings schema mappings =
     and_then (validate_schema_field_count_against_mappings schema mappings) (\<lambda>_.
       for_each (\<lambda>(position, field, m) _.
           and_then (validate_schema_field_shape_against_mapping position field m) (\<lambda>_.
             validate_schema_field_nullability_against_mapping field m))
         (List.enumerate 0 (zip schema mappings)) ())"

definition validate_schema_shape_for_record_batch_encoding ::
    "arrow_field list \<Rightarrow> schema_mapping list \<Rightarrow> error + unit" where
  "validate_schema_shape_for_record_batch_encoding schema mappings =
     and_then (validate_schema_field_count_against_mappings schema mappings) (\<lambda>_.
       for_each (\<lambda>(position, field, m) _. validate_schema_field_shape_against_mapping position field m)
         (List.enumerate 0 (zip schema mappings)) ())"

definition validate_unchecked_column_array_against_mapping ::
    "arrow_array \<Rightarrow> schema_mapping \<Rightarrow> error + unit" where
  "validate_unchecked_column_array_against_mapping array m =
     (if \<not> arrow_type_compatible_with_mapping (array_data_type array) m
      then Err (value_conversion_error (mapping_diagnostic m SchemaMismatch)) else Ok ())"

definition validate_record_batch_schema_against_mappings ::
    "record_batch \<Rightarrow> schema_mapping list \<Rightarrow> error + unit" where
  "validate_record_batch_schema_against_mappings batch mappings =
     validate_arrow_schema_against_mappings (batch_fields batch) mappings"

definition validate_record_batch_encoding_shape ::
    "record_batch \<Rightarrow> schema_mapping list \<Rightarrow> error + unit" where
  "validate_record_batch_encoding_shape batch mappings =
     and_then (validate_schema_shape_for_record_batch_encoding (batch_fields batch) mappings) (\<lambda>_.
       for_each (\<lambda>(array, m) _. validate_unchecked_column_array_against_mapping array m)
         (zip (batch_columns batch) mappings) ())"

subsection \<open>The row view\<close>

record record_batch_view =
  view_batch :: record_batch
  view_mappings :: "schema_mapping list"
  view_context :: runtime_context

definition view_new_with_context ::
    "record_batch \<Rightarrow> schema_mapping list \<Rightarrow> runtime_context \<Rightarrow> error + record_batch_view" where
  "view_new_with_context batch mappings rt =
     and_then (validate_record_batch_encoding_shape batch mappings) (\<lambda>_.
       Ok \<lparr>view_batch = batch, view_mappings = mappings, view_context = rt\<rparr>)"

definition view_row_count :: "record_batch_view \<Rightarrow> usize" where
  "view_row_count view = batch_num_rows (view_batch view)"

definition check_row_index :: "record_batch_view \<Rightarrow> usize \<Rightarrow> error + unit" where
  "check_row_index view row =
     (if row < view_row_count view then Ok ()
      else Err (value_conversion_error (with_row (diagnostic_error RowIndexOutOfBounds) row)))"

definition view_arrow_cell :: "record_batch_view \<Rightarrow> schema_mapping \<Rightarrow> usize \<Rightarrow> error + arrow_cell" where
  "view_arrow_cell view m row =
     and_then (check_row_index view row) (\<lambda>_.
       if \<not> arrow_index (mapping_arrow m) < length (batch_columns (view_batch view))
       then Err (conversion_error m row ValueTypeMismatch)
       else extract_arrow_cell (batch_columns (view_batch view) ! arrow_index (mapping_arrow m)) m row)"

definition view_mssql_cell ::
    "'tz timezone_db \<Rightarrow> record_batch_view \<Rightarrow> schema_mapping \<Rightarrow> usize \<Rightarrow> error + mssql_cell" where
  "view_mssql_cell db view m row =
     and_then (view_arrow_cell view m row) (\<lambda>cell.
       mssql_cell_from_arrow_cell db \<lparr>rm_mapping = m, rm_context = view_context view\<rparr> cell row)"

definition mssql_row ::
    "'tz timezone_db \<Rightarrow> record_batch_view \<Rightarrow> usize \<Rightarrow> error + mssql_cell list" where
  "mssql_row db view row =
     and_then (check_row_index view row) (\<lambda>_.
       for_each (\<lambda>m cells. map_ok (\<lambda>cell. cells @ [cell]) (view_mssql_cell db view m row))
         (view_mappings view) [])"

subsection \<open>What validation and extraction mean\<close>

text \<open>The cell an array holds at a row.\<close>

definition value_cell :: "('a \<Rightarrow> arrow_cell) \<Rightarrow> 'a option \<Rightarrow> arrow_cell" where
  "value_cell cell v = (case v of None \<Rightarrow> CellNull | Some x \<Rightarrow> cell x)"

primrec array_cell :: "arrow_array \<Rightarrow> usize \<Rightarrow> arrow_cell" where
  "array_cell (BooleanArray vs) row = value_cell CellBoolean (vs ! row)"
| "array_cell (Int8Array vs) row = value_cell CellInt8 (vs ! row)"
| "array_cell (Int16Array vs) row = value_cell CellInt16 (vs ! row)"
| "array_cell (Int32Array vs) row = value_cell CellInt32 (vs ! row)"
| "array_cell (Int64Array vs) row = value_cell CellInt64 (vs ! row)"
| "array_cell (UInt8Array vs) row = value_cell CellUInt8 (vs ! row)"
| "array_cell (UInt16Array vs) row = value_cell CellUInt16 (vs ! row)"
| "array_cell (UInt32Array vs) row = value_cell CellUInt32 (vs ! row)"
| "array_cell (UInt64Array vs) row = value_cell CellUInt64 (vs ! row)"
| "array_cell (Float16Array vs) row = value_cell CellFloat16 (vs ! row)"
| "array_cell (Float32Array vs) row = value_cell CellFloat32 (vs ! row)"
| "array_cell (Float64Array vs) row = value_cell CellFloat64 (vs ! row)"
| "array_cell (Decimal32Array _ _ vs) row = value_cell CellDecimal32 (vs ! row)"
| "array_cell (Decimal64Array _ _ vs) row = value_cell CellDecimal64 (vs ! row)"
| "array_cell (Decimal128Array _ _ vs) row = value_cell CellDecimal128 (vs ! row)"
| "array_cell (Decimal256Array _ _ vs) row = value_cell CellDecimal256 (vs ! row)"
| "array_cell (StringArray vs) row = value_cell CellUtf8 (vs ! row)"
| "array_cell (LargeStringArray vs) row = value_cell CellUtf8 (vs ! row)"
| "array_cell (StringViewArray vs) row = value_cell CellUtf8 (vs ! row)"
| "array_cell (BinaryArray vs) row = value_cell CellBinary (vs ! row)"
| "array_cell (LargeBinaryArray vs) row = value_cell CellBinary (vs ! row)"
| "array_cell (BinaryViewArray vs) row = value_cell CellBinary (vs ! row)"
| "array_cell (FixedSizeBinaryArray _ vs) row = value_cell CellBinary (vs ! row)"
| "array_cell (Date32Array vs) row = value_cell CellDate32 (vs ! row)"
| "array_cell (Date64Array vs) row = value_cell CellDate64 (vs ! row)"
| "array_cell (Time32SecondArray vs) row = value_cell CellTime32Second (vs ! row)"
| "array_cell (Time32MillisecondArray vs) row = value_cell CellTime32Millisecond (vs ! row)"
| "array_cell (Time64MicrosecondArray vs) row = value_cell CellTime64Microsecond (vs ! row)"
| "array_cell (Time64NanosecondArray vs) row = value_cell CellTime64Nanosecond (vs ! row)"
| "array_cell (TimestampSecondArray _ vs) row = value_cell CellTimestampSecond (vs ! row)"
| "array_cell (TimestampMillisecondArray _ vs) row = value_cell CellTimestampMillisecond (vs ! row)"
| "array_cell (TimestampMicrosecondArray _ vs) row = value_cell CellTimestampMicrosecond (vs ! row)"
| "array_cell (TimestampNanosecondArray _ vs) row = value_cell CellTimestampNanosecond (vs ! row)"
| "array_cell (OtherArray _ nulls) row = CellNull"

lemma nth_values_null: "i < length vs \<Longrightarrow> values_null vs ! i \<longleftrightarrow> vs ! i = None"
  by (simp add: values_null_def Option.is_none_def)

lemma length_values_null [simp]: "length (values_null vs) = length vs"
  by (simp add: values_null_def)

lemmas array_defs = array_len_def array_is_null_def valid_array_def known_class_def

text \<open>Extraction reads the cell, when the array has the class of the mapping.\<close>

lemma extract_value_Ok:
  "is_class array \<Longrightarrow> \<not> as_class array ! row = None \<Longrightarrow>
   extract_value is_class as_class cell array m row = Ok (value_cell cell (as_class array ! row))"
  by (auto simp: extract_value_def downcast_array_def value_cell_def)

lemma known_compatible:
  assumes "arrow_type_compatible_with_mapping t m" "known_class (source_type m)"
  shows "known_class t"
  using assms
  by (cases t) (auto simp: arrow_type_compatible_with_mapping_def known_class_def
      is_arrow_string_family_def is_arrow_binary_family_def)

lemma extract_known:
  assumes "valid_array array" "row < array_len array" "known_class (source_type m)"
    and "arrow_type_compatible_with_mapping (array_data_type array) m"
  shows "extract_arrow_cell array m row = Ok (array_cell array row)"
proof (cases "array_is_null array row")
  case True
  with assms(2) show ?thesis
    by (cases array) (auto simp: extract_arrow_cell_def array_defs nth_values_null value_cell_def)
next
  case False
  from known_compatible [OF assms(4,3)] assms(1) have "array \<noteq> OtherArray t nulls" for t nulls
    by (auto simp: valid_array_def)
  with False show ?thesis
    using assms
    by (cases array; cases "source_type m")
      (auto simp: extract_arrow_cell_def array_defs nth_values_null extract_value_Ok extract_utf8_cell_def
        extract_binary_cell_def arrow_type_compatible_with_mapping_def is_arrow_string_family_def
        is_arrow_binary_family_def is_string_family_to_nvarchar_def is_binary_family_to_varbinary_def)
qed

text \<open>A planned field matches its mapping by position, name and type.\<close>

definition field_matches :: "usize \<Rightarrow> arrow_field \<Rightarrow> schema_mapping \<Rightarrow> bool" where
  "field_matches i field m \<longleftrightarrow>
     arrow_index (mapping_arrow m) = i \<and> field_name field = arrow_name (mapping_arrow m)
     \<and> arrow_type_compatible_with_mapping (field_data_type field) m"

definition schema_mismatch :: "error + unit \<Rightarrow> bool" where
  "schema_mismatch r \<longleftrightarrow> (\<forall>e. r = Inl e \<longrightarrow> (\<exists>d. e = ValueConversion [d] \<and> diag_code d = SchemaMismatch))"

lemma for_each_check:
  "for_each (\<lambda>x _. check x) xs () = Ok () \<longleftrightarrow> (\<forall>x \<in> set xs. check x = Ok ())"
  by (induction xs) (auto simp: result_simps)

lemma schema_mismatch_for_each:
  "(\<And>x. schema_mismatch (check x)) \<Longrightarrow> schema_mismatch (for_each (\<lambda>x _. check x) xs ())"
  by (induction xs) (auto simp: schema_mismatch_def and_then_Inl)

lemma schema_mismatch_and_then:
  "schema_mismatch r \<Longrightarrow> schema_mismatch (f ()) \<Longrightarrow> schema_mismatch (and_then r f)"
  by (cases r) (auto simp: schema_mismatch_def)

lemma schema_mismatch_checks:
  "schema_mismatch (validate_schema_field_count_against_mappings schema mappings)"
  "schema_mismatch (validate_schema_field_shape_against_mapping i field m)"
  "schema_mismatch (validate_schema_field_nullability_against_mapping field m)"
  "schema_mismatch (validate_unchecked_column_array_against_mapping array m)"
  by (auto simp: schema_mismatch_def validate_schema_field_count_against_mappings_def
      validate_schema_field_shape_against_mapping_def validate_schema_field_nullability_against_mapping_def
      validate_unchecked_column_array_against_mapping_def value_conversion_error_def mapping_diagnostic_def Let_def
      split: if_splits)

lemma in_enumerated_zip:
  "(\<forall>p \<in> set (List.enumerate 0 (zip xs ys)). case p of (i, x, y) \<Rightarrow> P i x y)
    \<longleftrightarrow> (\<forall>i < min (length xs) (length ys). P i (xs ! i) (ys ! i))"
  (is "?all \<longleftrightarrow> ?nth")
proof
  assume ?all
  show ?nth
  proof (intro allI impI)
    fix i assume "i < min (length xs) (length ys)"
    then have "(i, xs ! i, ys ! i) \<in> set (List.enumerate 0 (zip xs ys))"
      by (simp add: in_set_enumerate_eq)
    with \<open>?all\<close> show "P i (xs ! i) (ys ! i)" by fastforce
  qed
qed (auto simp: in_set_enumerate_eq)

lemma validate_checks:
  "validate_schema_field_count_against_mappings schema mappings = Ok () \<longleftrightarrow> length schema = length mappings"
  "validate_schema_field_shape_against_mapping i field m = Ok () \<longleftrightarrow> field_matches i field m"
  "validate_schema_field_nullability_against_mapping field m = Ok ()
    \<longleftrightarrow> field_nullable field = arrow_nullable (mapping_arrow m)"
  "validate_unchecked_column_array_against_mapping array m = Ok ()
    \<longleftrightarrow> arrow_type_compatible_with_mapping (array_data_type array) m"
  by (auto simp: validate_schema_field_count_against_mappings_def Let_def
      validate_schema_field_shape_against_mapping_def validate_schema_field_nullability_against_mapping_def
      validate_unchecked_column_array_against_mapping_def field_matches_def)

lemma shape_validation:
  "validate_schema_shape_for_record_batch_encoding schema mappings = Ok () \<longleftrightarrow>
     length schema = length mappings \<and> (\<forall>i < length mappings. field_matches i (schema ! i) (mappings ! i))"
proof -
  let ?check = "\<lambda>(position, field, m). validate_schema_field_shape_against_mapping position field m"
  have "validate_schema_shape_for_record_batch_encoding schema mappings
      = and_then (validate_schema_field_count_against_mappings schema mappings) (\<lambda>_.
          for_each (\<lambda>x _. ?check x) (List.enumerate 0 (zip schema mappings)) ())"
    by (simp add: validate_schema_shape_for_record_batch_encoding_def case_prod_unfold)
  then show ?thesis
    using in_enumerated_zip [of schema mappings field_matches]
    by (auto simp: and_then_Inr for_each_check validate_checks case_prod_unfold)
qed

lemma strict_validation:
  "validate_arrow_schema_against_mappings schema mappings = Ok () \<longleftrightarrow>
     length schema = length mappings
     \<and> (\<forall>i < length mappings. field_matches i (schema ! i) (mappings ! i)
          \<and> field_nullable (schema ! i) = arrow_nullable (mapping_arrow (mappings ! i)))"
proof -
  let ?check = "\<lambda>(position, field, m).
      and_then (validate_schema_field_shape_against_mapping position field m) (\<lambda>_.
        validate_schema_field_nullability_against_mapping field m)"
  have "validate_arrow_schema_against_mappings schema mappings
      = and_then (validate_schema_field_count_against_mappings schema mappings) (\<lambda>_.
          for_each (\<lambda>x _. ?check x) (List.enumerate 0 (zip schema mappings)) ())"
    by (simp add: validate_arrow_schema_against_mappings_def case_prod_unfold)
  then show ?thesis
    using in_enumerated_zip [of schema mappings "\<lambda>i field m. field_matches i field m
        \<and> field_nullable field = arrow_nullable (mapping_arrow m)"]
    by (auto simp: and_then_Inr for_each_check validate_checks case_prod_unfold)
qed

lemma encoding_validation:
  "validate_record_batch_encoding_shape batch mappings = Ok () \<longleftrightarrow>
     length (batch_fields batch) = length mappings
     \<and> (\<forall>i < length mappings. field_matches i (batch_fields batch ! i) (mappings ! i))
     \<and> (\<forall>(array, m) \<in> set (zip (batch_columns batch) mappings).
          arrow_type_compatible_with_mapping (array_data_type array) m)"
proof -
  let ?check = "\<lambda>(array, m). validate_unchecked_column_array_against_mapping array m"
  have "validate_record_batch_encoding_shape batch mappings
      = and_then (validate_schema_shape_for_record_batch_encoding (batch_fields batch) mappings) (\<lambda>_.
          for_each (\<lambda>x _. ?check x) (zip (batch_columns batch) mappings) ())"
    by (simp add: validate_record_batch_encoding_shape_def case_prod_unfold)
  then show ?thesis
    by (auto simp: and_then_Inr for_each_check validate_checks shape_validation)
qed

text \<open>C33: validation accepts exactly the batches the plan fits. A batch is
  accepted for encoding if and only if it has one field per mapping and each field has the planned
  position, the planned name and a type the mapping can write, and no column array has another
  type; the strict schema check asks for the planned nullability as well; every refusal is a
  single schema-mismatch diagnostic.\<close>

theorem schema_validation_exact:
  "(validate_record_batch_encoding_shape batch mappings = Ok () \<longleftrightarrow>
     length (batch_fields batch) = length mappings
     \<and> (\<forall>i < length mappings.
          arrow_index (mapping_arrow (mappings ! i)) = i
          \<and> field_name (batch_fields batch ! i) = arrow_name (mapping_arrow (mappings ! i))
          \<and> arrow_type_compatible_with_mapping (field_data_type (batch_fields batch ! i)) (mappings ! i))
     \<and> (\<forall>(array, m) \<in> set (zip (batch_columns batch) mappings).
          arrow_type_compatible_with_mapping (array_data_type array) m))
   \<and> (validate_arrow_schema_against_mappings schema mappings = Ok () \<longleftrightarrow>
     length schema = length mappings
     \<and> (\<forall>i < length mappings.
          arrow_index (mapping_arrow (mappings ! i)) = i
          \<and> field_name (schema ! i) = arrow_name (mapping_arrow (mappings ! i))
          \<and> arrow_type_compatible_with_mapping (field_data_type (schema ! i)) (mappings ! i)
          \<and> field_nullable (schema ! i) = arrow_nullable (mapping_arrow (mappings ! i))))
   \<and> schema_mismatch (validate_record_batch_encoding_shape batch mappings)
   \<and> schema_mismatch (validate_arrow_schema_against_mappings schema mappings)"
  (is "?encoding \<and> ?strict \<and> ?errors")
proof (intro conjI)
  show ?encoding by (simp add: encoding_validation field_matches_def)
  show ?strict by (auto simp: strict_validation field_matches_def)
qed (auto simp: validate_record_batch_encoding_shape_def validate_arrow_schema_against_mappings_def
    validate_schema_shape_for_record_batch_encoding_def case_prod_unfold
    intro!: schema_mismatch_and_then schema_mismatch_for_each schema_mismatch_checks)

definition example_batch :: record_batch where
  "example_batch =
     \<lparr>batch_fields = [\<lparr>field_name = lit ''c'', field_data_type = DtInt32, field_nullable = False\<rparr>],
      batch_columns = [Int32Array [Some 7, Some 8]], batch_num_rows = 2\<rparr>"

theorem schema_validation_exact_witness:
  "validate_record_batch_encoding_shape example_batch [example_mapping DtInt32 MsInt] = Ok ()
   \<and> validate_arrow_schema_against_mappings (batch_fields example_batch) [example_mapping DtInt32 MsInt] \<noteq> Ok ()"
  using schema_validation_exact [of example_batch "[example_mapping DtInt32 MsInt]" "batch_fields example_batch"]
  by (simp add: example_batch_def example_mapping_def arrow_type_compatible_with_mapping_def)

lemma map_ok_id [simp]: "map_ok (\<lambda>x. x) r = r"
  by (cases r) simp_all

lemma for_each_collect:
  "for_each (\<lambda>x ys. map_ok (\<lambda>y. ys @ [y]) (f x)) xs acc = map_ok (\<lambda>ys. acc @ ys) (try_map f xs)"
proof (induction xs arbitrary: acc)
  case (Cons x xs)
  then show ?case by (cases "f x"; cases "try_map f xs") simp_all
qed simp

lemma try_map_zip_snd:
  assumes "length xs = length ys" "\<And>i. i < length ys \<Longrightarrow> f (ys ! i) = g (xs ! i) (ys ! i)"
  shows "try_map f ys = try_map (\<lambda>(x, y). g x y) (zip xs ys)"
  using assms
proof (induction xs ys rule: list_induct2)
  case (Cons x xs y ys)
  from Cons.prems [of 0] have "f y = g x y" by simp
  moreover have "try_map f ys = try_map (\<lambda>(x, y). g x y) (zip xs ys)"
    using Cons.prems [of "Suc _"] by (intro Cons.IH) simp
  ultimately show ?case by simp
qed simp

lemma mssql_row_converts:
  assumes "valid_batch batch" "view_new_with_context batch mappings rt = Ok view"
    and "\<forall>m \<in> set mappings. known_class (source_type m)"
  shows "mssql_row db view row =
    (if row < batch_num_rows batch
     then try_map (\<lambda>(array, m). mssql_cell_from_arrow_cell db \<lparr>rm_mapping = m, rm_context = rt\<rparr>
            (array_cell array row) row) (zip (batch_columns batch) mappings)
     else Err (value_conversion_error (with_row (diagnostic_error RowIndexOutOfBounds) row)))"
proof -
  from assms(2) have view: "view = \<lparr>view_batch = batch, view_mappings = mappings, view_context = rt\<rparr>"
    and shape: "validate_record_batch_encoding_shape batch mappings = Ok ()"
    by (auto simp: view_new_with_context_def result_simps)
  note fit = shape [unfolded encoding_validation]
  from assms(1) have cols: "length (batch_columns batch) = length (batch_fields batch)"
    by (auto simp: valid_batch_def dest: map_eq_imp_length_eq)
  show ?thesis
  proof (cases "row < batch_num_rows batch")
    case True
    have "view_mssql_cell db view (mappings ! i) row
        = mssql_cell_from_arrow_cell db \<lparr>rm_mapping = mappings ! i, rm_context = rt\<rparr>
            (array_cell (batch_columns batch ! i) row) row" if i: "i < length mappings" for i
    proof -
      let ?array = "batch_columns batch ! i" and ?m = "mappings ! i"
      from i fit cols have in_zip: "(?array, ?m) \<in> set (zip (batch_columns batch) mappings)"
        by (auto simp: set_zip)
      with fit have compatible: "arrow_type_compatible_with_mapping (array_data_type ?array) ?m" by blast
      have array: "valid_array ?array" "row < array_len ?array"
        using assms(1) in_zip True by (auto simp: valid_batch_def dest: set_zip_leftD)
      have "extract_arrow_cell ?array ?m row = Ok (array_cell ?array row)"
        using assms(3) i by (intro extract_known [OF array _ compatible]) simp
      with True i fit cols show ?thesis
        by (simp add: view_mssql_cell_def view_arrow_cell_def check_row_index_def view_row_count_def view
            field_matches_def)
    qed
    with fit cols have "try_map (\<lambda>m. view_mssql_cell db view m row) mappings
        = try_map (\<lambda>(array, m). mssql_cell_from_arrow_cell db \<lparr>rm_mapping = m, rm_context = rt\<rparr>
            (array_cell array row) row) (zip (batch_columns batch) mappings)"
      by (intro try_map_zip_snd) simp_all
    with True show ?thesis
      by (simp add: mssql_row_def for_each_collect check_row_index_def view_row_count_def view)
  qed (simp add: mssql_row_def check_row_index_def view_row_count_def view)
qed

text \<open>C34: the baseline writer converts each cell of a row with the mapping
  planned for its column. For a batch as arrow-rs makes them and a view that was accepted, the
  row at an index inside the batch is the conversion of the cell each column holds there, in
  mapping order, so that reading the arrays never fails by itself; an index outside the batch is
  refused with its own diagnostic.\<close>

theorem row_view_converts:
  assumes "valid_batch batch" "view_new_with_context batch mappings rt = Ok view"
    and "\<forall>m \<in> set mappings. known_class (source_type m)"
  shows "mssql_row db view row =
    (if row < batch_num_rows batch
     then try_map (\<lambda>(array, m). mssql_cell_from_arrow_cell db \<lparr>rm_mapping = m, rm_context = rt\<rparr>
            (array_cell array row) row) (zip (batch_columns batch) mappings)
     else Err (value_conversion_error (with_row (diagnostic_error RowIndexOutOfBounds) row)))"
  by (rule mssql_row_converts [OF assms])

theorem row_view_converts_witness:
  "\<exists>view. view_new_with_context example_batch [example_mapping DtInt32 MsInt]
       (rm_context (example_runtime DtInt32 MsInt RejectNon100ns)) = Ok view
     \<and> mssql_row example_timezone_db view 1 = Ok [CInt (Some 8)]
     \<and> mssql_row example_timezone_db view 2
         = Err (value_conversion_error (with_row (diagnostic_error RowIndexOutOfBounds) 2))"
  (is "\<exists>view. view_new_with_context _ _ ?rt = _ \<and> _")
proof -
  have valid: "valid_batch example_batch"
    by (simp add: example_batch_def valid_batch_def valid_array_def array_len_def)
  have "validate_record_batch_encoding_shape example_batch [example_mapping DtInt32 MsInt] = Ok ()"
    by (simp add: encoding_validation field_matches_def example_batch_def example_mapping_def
        arrow_type_compatible_with_mapping_def)
  then obtain view where view: "view_new_with_context example_batch [example_mapping DtInt32 MsInt] ?rt = Ok view"
    by (simp add: view_new_with_context_def)
  note rows = row_view_converts [OF valid view, of example_timezone_db]
  show ?thesis
    using rows [of 1] rows [of 2] view
    by (intro exI [of _ view]) (simp add: known_class_def example_batch_def mssql_cell_from_arrow_cell_def
      value_cell_def primitive_mssql_cell_def primitive_classify_def)
qed

end
