(* ===== verification/Binding.thy ===== *)
theory Binding
  imports PrimitiveColumns DecimalColumns BinaryColumns TemporalColumns RecordBatches DirectPlan
begin

text \<open>
  The direct encoder (\<^verbatim>\<open>DirectEncoder\<close> of \<^verbatim>\<open>src/write/direct/encoder.rs\<close>) and the binding of
  its planned columns to the arrays of a batch (\<^verbatim>\<open>src/write/direct/binding.rs\<close> with
  \<^verbatim>\<open>binding/measure.rs\<close>, \<^verbatim>\<open>binding/fill.rs\<close> and \<^verbatim>\<open>binding/append.rs\<close>): one constructor per
  typed column, and the dispatch of measuring, filling and appending to the column loops of its
  family. The second half interprets \<^verbatim>\<open>direct_columns\<close> on the bound columns, so that the batch
  lemmas of \<^verbatim>\<open>DirectColumns\<close> hold for them.
\<close>

record direct_encoder =
  encoder_mappings :: "schema_mapping list"
  encoder_context :: runtime_context
  encoder_plan :: direct_encoder_plan

definition encoder_new_with_context ::
    "schema_mapping list \<Rightarrow> runtime_context \<Rightarrow> error + direct_encoder" where
  "encoder_new_with_context mappings rt =
     map_ok (\<lambda>plan. \<lparr>encoder_mappings = mappings, encoder_context = rt, encoder_plan = plan\<rparr>)
       (direct_encoder_plan_new mappings current_direct_support)"

definition has_variable_width_column :: "direct_encoder \<Rightarrow> bool" where
  "has_variable_width_column encoder \<longleftrightarrow>
     list_ex (\<lambda>col. case plan_encoding col of EncVariableWidth _ \<Rightarrow> True | _ \<Rightarrow> False) (encoder_plan encoder)"

definition mapping_for_column_index :: "direct_encoder \<Rightarrow> usize \<Rightarrow> error + schema_mapping" where
  "mapping_for_column_index encoder column_index =
     ok_or invalid_payload
       (if column_index < length (encoder_mappings encoder)
        then Some (encoder_mappings encoder ! column_index) else None)"

datatype bound_direct_column =
    BoundBoolean direct_column_plan "bool option list"
  | BoundUInt8 direct_column_plan "u8 option list"
  | BoundInt8 direct_column_plan "i8 option list"
  | BoundInt16 direct_column_plan "i16 option list"
  | BoundInt32 direct_column_plan "i32 option list"
  | BoundUInt16 direct_column_plan "u16 option list"
  | BoundInt64 direct_column_plan "i64 option list"
  | BoundUInt32 direct_column_plan "u32 option list"
  | BoundUInt64 direct_column_plan "u64 option list"
  | BoundUInt64Decimal20_0 direct_column_plan "u64 option list"
  | BoundDecimal32 direct_column_plan decimal_conversion "i32 option list"
  | BoundDecimal64 direct_column_plan decimal_conversion "i64 option list"
  | BoundDecimal128 direct_column_plan decimal_conversion "i128 option list"
  | BoundDecimal256 direct_column_plan decimal_conversion "i256 option list"
  | BoundFloat16 direct_column_plan "f32 option list"
  | BoundFloat32 direct_column_plan "f32 option list"
  | BoundFloat64 direct_column_plan "f64 option list"
  | BoundUtf8 direct_column_plan "rstr option list"
  | BoundLargeUtf8 direct_column_plan "rstr option list"
  | BoundUtf8View direct_column_plan "rstr option list"
  | BoundBinary direct_column_plan "bytes option list"
  | BoundLargeBinary direct_column_plan "bytes option list"
  | BoundBinaryView direct_column_plan "bytes option list"
  | BoundFixedSizeBinary direct_column_plan fixed_size_binary_conversion "bytes option list"
  | BoundDate32 direct_column_plan schema_mapping "i32 option list"
  | BoundDate64 direct_column_plan schema_mapping "i64 option list"
  | BoundTimestampSecond direct_column_plan schema_mapping "i64 option list"
  | BoundTimestampMillisecond direct_column_plan schema_mapping "i64 option list"
  | BoundTimestampMicrosecond direct_column_plan schema_mapping "i64 option list"
  | BoundTimestampNanosecond direct_column_plan schema_mapping "i64 option list"
  | BoundTime32Second direct_column_plan schema_mapping "i32 option list"
  | BoundTime32Millisecond direct_column_plan schema_mapping "i32 option list"
  | BoundTime64Microsecond direct_column_plan schema_mapping "i64 option list"
  | BoundTime64Nanosecond direct_column_plan schema_mapping "i64 option list"
  | BoundDateTimeOffsetSecond direct_column_plan schema_mapping "i64 option list"
  | BoundDateTimeOffsetMillisecond direct_column_plan schema_mapping "i64 option list"
  | BoundDateTimeOffsetMicrosecond direct_column_plan schema_mapping "i64 option list"
  | BoundDateTimeOffsetNanosecond direct_column_plan schema_mapping "i64 option list"

subsection \<open>Binding\<close>

definition downcast_direct_array ::
    "(arrow_array \<Rightarrow> bool) \<Rightarrow> (arrow_array \<Rightarrow> 'a) \<Rightarrow> arrow_array \<Rightarrow> direct_column_plan \<Rightarrow> error + 'a" where
  "downcast_direct_array is_class as_class array col =
     (if is_class array then Ok (as_class array)
      else Err (direct_conversion_error col 0 ValueTypeMismatch))"

definition unsupported_planned_direct_type :: "direct_column_plan \<Rightarrow> error" where
  "unsupported_planned_direct_type col = direct_conversion_error col 0 ValueConversionUnsupported"

definition bind_direct_nvarchar_array ::
    "arrow_array \<Rightarrow> direct_column_plan \<Rightarrow> schema_mapping \<Rightarrow> error + bound_direct_column" where
  "bind_direct_nvarchar_array array col m =
     (if \<not> is_string_family_to_nvarchar m then Err (unsupported_planned_direct_type col)
      else
        (case array_data_type array of
           DtUtf8 \<Rightarrow>
             map_ok (BoundUtf8 col) (downcast_direct_array is_StringArray as_string array col)
         | DtLargeUtf8 \<Rightarrow>
             map_ok (BoundLargeUtf8 col) (downcast_direct_array is_LargeStringArray as_large_string array col)
         | DtUtf8View \<Rightarrow>
             map_ok (BoundUtf8View col) (downcast_direct_array is_StringViewArray as_string_view array col)
         | _ \<Rightarrow> Err (unsupported_planned_direct_type col)))"

definition bind_direct_varbinary_array ::
    "arrow_array \<Rightarrow> direct_column_plan \<Rightarrow> schema_mapping \<Rightarrow> error + bound_direct_column" where
  "bind_direct_varbinary_array array col m =
     (if \<not> is_binary_family_to_varbinary m then Err (unsupported_planned_direct_type col)
      else
        (case array_data_type array of
           DtBinary \<Rightarrow>
             map_ok (BoundBinary col) (downcast_direct_array is_BinaryArray as_binary array col)
         | DtLargeBinary \<Rightarrow>
             map_ok (BoundLargeBinary col) (downcast_direct_array is_LargeBinaryArray as_large_binary array col)
         | DtBinaryView \<Rightarrow>
             map_ok (BoundBinaryView col) (downcast_direct_array is_BinaryViewArray as_binary_view array col)
         | _ \<Rightarrow> Err (unsupported_planned_direct_type col)))"

text \<open>The temporal encodings: the datetime and datetime2 targets of a unit share a column, with and
  without a timezone.\<close>

definition bind_temporal_array ::
    "temporal_conversion \<Rightarrow> arrow_array \<Rightarrow> direct_column_plan \<Rightarrow> schema_mapping
      \<Rightarrow> error + bound_direct_column" where
  "bind_temporal_array c array col m =
     (case c of
        Date32ToDate \<Rightarrow>
          map_ok (BoundDate32 col m) (downcast_direct_array is_Date32Array as_date32 array col)
      | Date64ToDateTime2 \<Rightarrow>
          map_ok (BoundDate64 col m) (downcast_direct_array is_Date64Array as_date64 array col)
      | TimestampSecondToDateTime2 \<Rightarrow>
          map_ok (BoundTimestampSecond col m) (downcast_direct_array is_TimestampSecondArray as_timestamp_second array col)
      | TimestampSecondTzToDateTime2 \<Rightarrow>
          map_ok (BoundTimestampSecond col m) (downcast_direct_array is_TimestampSecondArray as_timestamp_second array col)
      | TimestampSecondToDateTime \<Rightarrow>
          map_ok (BoundTimestampSecond col m) (downcast_direct_array is_TimestampSecondArray as_timestamp_second array col)
      | TimestampSecondTzToDateTime \<Rightarrow>
          map_ok (BoundTimestampSecond col m) (downcast_direct_array is_TimestampSecondArray as_timestamp_second array col)
      | TimestampMillisecondToDateTime2 \<Rightarrow>
          map_ok (BoundTimestampMillisecond col m) (downcast_direct_array is_TimestampMillisecondArray as_timestamp_millisecond array col)
      | TimestampMillisecondTzToDateTime2 \<Rightarrow>
          map_ok (BoundTimestampMillisecond col m) (downcast_direct_array is_TimestampMillisecondArray as_timestamp_millisecond array col)
      | TimestampMillisecondToDateTime \<Rightarrow>
          map_ok (BoundTimestampMillisecond col m) (downcast_direct_array is_TimestampMillisecondArray as_timestamp_millisecond array col)
      | TimestampMillisecondTzToDateTime \<Rightarrow>
          map_ok (BoundTimestampMillisecond col m) (downcast_direct_array is_TimestampMillisecondArray as_timestamp_millisecond array col)
      | TimestampMicrosecondToDateTime2 \<Rightarrow>
          map_ok (BoundTimestampMicrosecond col m) (downcast_direct_array is_TimestampMicrosecondArray as_timestamp_microsecond array col)
      | TimestampMicrosecondTzToDateTime2 \<Rightarrow>
          map_ok (BoundTimestampMicrosecond col m) (downcast_direct_array is_TimestampMicrosecondArray as_timestamp_microsecond array col)
      | TimestampMicrosecondToDateTime \<Rightarrow>
          map_ok (BoundTimestampMicrosecond col m) (downcast_direct_array is_TimestampMicrosecondArray as_timestamp_microsecond array col)
      | TimestampMicrosecondTzToDateTime \<Rightarrow>
          map_ok (BoundTimestampMicrosecond col m) (downcast_direct_array is_TimestampMicrosecondArray as_timestamp_microsecond array col)
      | TimestampNanosecondToDateTime2 \<Rightarrow>
          map_ok (BoundTimestampNanosecond col m) (downcast_direct_array is_TimestampNanosecondArray as_timestamp_nanosecond array col)
      | TimestampNanosecondTzToDateTime2 \<Rightarrow>
          map_ok (BoundTimestampNanosecond col m) (downcast_direct_array is_TimestampNanosecondArray as_timestamp_nanosecond array col)
      | TimestampNanosecondToDateTime \<Rightarrow>
          map_ok (BoundTimestampNanosecond col m) (downcast_direct_array is_TimestampNanosecondArray as_timestamp_nanosecond array col)
      | TimestampNanosecondTzToDateTime \<Rightarrow>
          map_ok (BoundTimestampNanosecond col m) (downcast_direct_array is_TimestampNanosecondArray as_timestamp_nanosecond array col)
      | Time32SecondToTime \<Rightarrow>
          map_ok (BoundTime32Second col m) (downcast_direct_array is_Time32SecondArray as_time32_second array col)
      | Time32MillisecondToTime \<Rightarrow>
          map_ok (BoundTime32Millisecond col m) (downcast_direct_array is_Time32MillisecondArray as_time32_millisecond array col)
      | Time64MicrosecondToTime \<Rightarrow>
          map_ok (BoundTime64Microsecond col m) (downcast_direct_array is_Time64MicrosecondArray as_time64_microsecond array col)
      | Time64NanosecondToTime \<Rightarrow>
          map_ok (BoundTime64Nanosecond col m) (downcast_direct_array is_Time64NanosecondArray as_time64_nanosecond array col)
      | TimestampSecondTzToDateTimeOffset \<Rightarrow>
          map_ok (BoundDateTimeOffsetSecond col m) (downcast_direct_array is_TimestampSecondArray as_timestamp_second array col)
      | TimestampMillisecondTzToDateTimeOffset \<Rightarrow>
          map_ok (BoundDateTimeOffsetMillisecond col m) (downcast_direct_array is_TimestampMillisecondArray as_timestamp_millisecond array col)
      | TimestampMicrosecondTzToDateTimeOffset \<Rightarrow>
          map_ok (BoundDateTimeOffsetMicrosecond col m) (downcast_direct_array is_TimestampMicrosecondArray as_timestamp_microsecond array col)
      | TimestampNanosecondTzToDateTimeOffset \<Rightarrow>
          map_ok (BoundDateTimeOffsetNanosecond col m) (downcast_direct_array is_TimestampNanosecondArray as_timestamp_nanosecond array col))"

definition bind_direct_column ::
    "direct_encoder \<Rightarrow> record_batch \<Rightarrow> usize \<Rightarrow> direct_column_plan \<Rightarrow> error + bound_direct_column" where
  "bind_direct_column encoder batch column_index col =
     (if \<not> plan_source_index col < length (batch_columns batch)
      then Err (direct_conversion_error col 0 ValueTypeMismatch)
      else
        let array = batch_columns batch ! plan_source_index col;
            with_mapping = and_then (mapping_for_column_index encoder column_index) in
        (case plan_encoding col of
           EncPrimitive BooleanToBit \<Rightarrow>
             map_ok (BoundBoolean col) (downcast_direct_array is_BooleanArray as_boolean array col)
         | EncPrimitive UInt8ToTinyInt \<Rightarrow>
             map_ok (BoundUInt8 col) (downcast_direct_array is_UInt8Array as_uint8 array col)
         | EncPrimitive Int8ToSmallInt \<Rightarrow>
             map_ok (BoundInt8 col) (downcast_direct_array is_Int8Array as_int8 array col)
         | EncPrimitive Int16ToSmallInt \<Rightarrow>
             map_ok (BoundInt16 col) (downcast_direct_array is_Int16Array as_int16 array col)
         | EncPrimitive Int32ToInt \<Rightarrow>
             map_ok (BoundInt32 col) (downcast_direct_array is_Int32Array as_int32 array col)
         | EncPrimitive UInt16ToInt \<Rightarrow>
             map_ok (BoundUInt16 col) (downcast_direct_array is_UInt16Array as_uint16 array col)
         | EncPrimitive Int64ToBigInt \<Rightarrow>
             map_ok (BoundInt64 col) (downcast_direct_array is_Int64Array as_int64 array col)
         | EncPrimitive UInt32ToBigInt \<Rightarrow>
             map_ok (BoundUInt32 col) (downcast_direct_array is_UInt32Array as_uint32 array col)
         | EncPrimitive UInt64ToCheckedBigInt \<Rightarrow>
             map_ok (BoundUInt64 col) (downcast_direct_array is_UInt64Array as_uint64 array col)
         | EncPrimitive Float16ToReal \<Rightarrow>
             map_ok (BoundFloat16 col) (downcast_direct_array is_Float16Array as_float16 array col)
         | EncPrimitive Float32ToReal \<Rightarrow>
             map_ok (BoundFloat32 col) (downcast_direct_array is_Float32Array as_float32 array col)
         | EncPrimitive Float64ToFloat \<Rightarrow>
             map_ok (BoundFloat64 col) (downcast_direct_array is_Float64Array as_float64 array col)
         | EncUInt64Decimal20_0 \<Rightarrow>
             map_ok (BoundUInt64Decimal20_0 col) (downcast_direct_array is_UInt64Array as_uint64 array col)
         | EncDecimal c \<Rightarrow>
             (case c of
                FromDecimal32 _ _ _ \<Rightarrow>
                  map_ok (BoundDecimal32 col c) (downcast_direct_array is_Decimal32Array as_decimal32 array col)
              | FromDecimal64 _ _ _ \<Rightarrow>
                  map_ok (BoundDecimal64 col c) (downcast_direct_array is_Decimal64Array as_decimal64 array col)
              | FromDecimal128 _ _ _ \<Rightarrow>
                  map_ok (BoundDecimal128 col c) (downcast_direct_array is_Decimal128Array as_decimal128 array col)
              | FromDecimal256 _ _ _ \<Rightarrow>
                  map_ok (BoundDecimal256 col c) (downcast_direct_array is_Decimal256Array as_decimal256 array col))
         | EncVariableWidth (StringToNVarChar _) \<Rightarrow> with_mapping (bind_direct_nvarchar_array array col)
         | EncVariableWidth (BytesToVarBinary _) \<Rightarrow> with_mapping (bind_direct_varbinary_array array col)
         | EncFixedSizeBinary c \<Rightarrow>
             map_ok (BoundFixedSizeBinary col c)
               (downcast_direct_array is_FixedSizeBinaryArray as_fixed_size_binary array col)
         | EncTemporal c \<Rightarrow> with_mapping (\<lambda>m. bind_temporal_array c array col m)))"

definition bind_direct_columns ::
    "direct_encoder \<Rightarrow> record_batch \<Rightarrow> error + bound_direct_column list" where
  "bind_direct_columns encoder batch =
     for_each (\<lambda>(column_index, col) columns.
         map_ok (\<lambda>c. columns @ [c]) (bind_direct_column encoder batch column_index col))
       (List.enumerate 0 (encoder_plan encoder)) []"

subsection \<open>Dispatch\<close>

definition measure_bound_column ::
    "'tz timezone_db \<Rightarrow> runtime_context \<Rightarrow> bound_direct_column \<Rightarrow> usize \<Rightarrow> usize \<Rightarrow> usize list
      \<Rightarrow> error + usize list" where
  "measure_bound_column db rt c column_index column_count cell_lengths =
     (let ctx = (\<lambda>col m. \<lparr>tc_mapping = m, tc_runtime = rt, tc_column = col,
            tc_column_index = column_index, tc_column_count = column_count\<rparr>) in
      case c of
        BoundBoolean col array \<Rightarrow>
          measure_fixed_primitive_column_cell_lengths array col column_index column_count cell_lengths
      | BoundUInt8 col array \<Rightarrow>
          measure_fixed_primitive_column_cell_lengths array col column_index column_count cell_lengths
      | BoundInt8 col array \<Rightarrow>
          measure_fixed_primitive_column_cell_lengths array col column_index column_count cell_lengths
      | BoundInt16 col array \<Rightarrow>
          measure_fixed_primitive_column_cell_lengths array col column_index column_count cell_lengths
      | BoundInt32 col array \<Rightarrow>
          measure_fixed_primitive_column_cell_lengths array col column_index column_count cell_lengths
      | BoundUInt16 col array \<Rightarrow>
          measure_fixed_primitive_column_cell_lengths array col column_index column_count cell_lengths
      | BoundInt64 col array \<Rightarrow>
          measure_fixed_primitive_column_cell_lengths array col column_index column_count cell_lengths
      | BoundUInt32 col array \<Rightarrow>
          measure_fixed_primitive_column_cell_lengths array col column_index column_count cell_lengths
      | BoundUInt64 col array \<Rightarrow>
          measure_uint64_checked_bigint_column_cell_lengths array col column_index column_count cell_lengths
      | BoundFloat16 col array \<Rightarrow>
          measure_float16_column_cell_lengths array col column_index column_count cell_lengths
      | BoundFloat32 col array \<Rightarrow>
          measure_float32_column_cell_lengths array col column_index column_count cell_lengths
      | BoundFloat64 col array \<Rightarrow>
          measure_float64_column_cell_lengths array col column_index column_count cell_lengths
      | BoundUInt64Decimal20_0 col array \<Rightarrow>
          measure_uint64_decimal20_cell_lengths array col column_index column_count cell_lengths
      | BoundDecimal32 col c array \<Rightarrow>
          measure_decimal32_column_cell_lengths array col c column_index column_count cell_lengths
      | BoundDecimal64 col c array \<Rightarrow>
          measure_decimal64_column_cell_lengths array col c column_index column_count cell_lengths
      | BoundDecimal128 col c array \<Rightarrow>
          measure_decimal128_column_cell_lengths array col c column_index column_count cell_lengths
      | BoundDecimal256 col c array \<Rightarrow>
          measure_decimal256_column_cell_lengths array col c column_index column_count cell_lengths
      | BoundUtf8 col array \<Rightarrow>
          measure_nvarchar_column_cell_lengths array col column_index column_count cell_lengths
      | BoundLargeUtf8 col array \<Rightarrow>
          measure_nvarchar_column_cell_lengths array col column_index column_count cell_lengths
      | BoundUtf8View col array \<Rightarrow>
          measure_nvarchar_column_cell_lengths array col column_index column_count cell_lengths
      | BoundBinary col array \<Rightarrow>
          measure_varbinary_column_cell_lengths array col column_index column_count cell_lengths
      | BoundLargeBinary col array \<Rightarrow>
          measure_varbinary_column_cell_lengths array col column_index column_count cell_lengths
      | BoundBinaryView col array \<Rightarrow>
          measure_varbinary_column_cell_lengths array col column_index column_count cell_lengths
      | BoundFixedSizeBinary col c array \<Rightarrow>
          measure_fixed_size_binary_column_cell_lengths array col c column_index column_count cell_lengths
      | BoundDate32 col m array \<Rightarrow>
          measure_date32_column_cell_lengths db array (ctx col m) cell_lengths
      | BoundDate64 col m array \<Rightarrow>
          measure_date64_column_cell_lengths db array (ctx col m) cell_lengths
      | BoundTimestampSecond col m array \<Rightarrow>
          measure_timestamp_second_column_cell_lengths db array (ctx col m) cell_lengths
      | BoundTimestampMillisecond col m array \<Rightarrow>
          measure_timestamp_millisecond_column_cell_lengths db array (ctx col m) cell_lengths
      | BoundTimestampMicrosecond col m array \<Rightarrow>
          measure_timestamp_microsecond_column_cell_lengths db array (ctx col m) cell_lengths
      | BoundTimestampNanosecond col m array \<Rightarrow>
          measure_timestamp_nanosecond_column_cell_lengths db array (ctx col m) cell_lengths
      | BoundTime32Second col m array \<Rightarrow>
          measure_time32_second_column_cell_lengths db array (ctx col m) cell_lengths
      | BoundTime32Millisecond col m array \<Rightarrow>
          measure_time32_millisecond_column_cell_lengths db array (ctx col m) cell_lengths
      | BoundTime64Microsecond col m array \<Rightarrow>
          measure_time64_microsecond_column_cell_lengths db array (ctx col m) cell_lengths
      | BoundTime64Nanosecond col m array \<Rightarrow>
          measure_time64_nanosecond_column_cell_lengths db array (ctx col m) cell_lengths
      | BoundDateTimeOffsetSecond col m array \<Rightarrow>
          measure_datetimeoffset_second_column_cell_lengths db array (ctx col m) cell_lengths
      | BoundDateTimeOffsetMillisecond col m array \<Rightarrow>
          measure_datetimeoffset_millisecond_column_cell_lengths db array (ctx col m) cell_lengths
      | BoundDateTimeOffsetMicrosecond col m array \<Rightarrow>
          measure_datetimeoffset_microsecond_column_cell_lengths db array (ctx col m) cell_lengths
      | BoundDateTimeOffsetNanosecond col m array \<Rightarrow>
          measure_datetimeoffset_nanosecond_column_cell_lengths db array (ctx col m) cell_lengths)"

definition fill_bound_column ::
    "'tz timezone_db \<Rightarrow> runtime_context \<Rightarrow> bound_direct_column \<Rightarrow> usize \<Rightarrow> usize \<Rightarrow> row_layout \<Rightarrow> bytes
      \<Rightarrow> error + bytes" where
  "fill_bound_column db rt c column_index column_count layout bs =
     (let ctx = (\<lambda>col m. \<lparr>tc_mapping = m, tc_runtime = rt, tc_column = col,
            tc_column_index = column_index, tc_column_count = column_count\<rparr>) in
      case c of
        BoundBoolean col array \<Rightarrow> fill_boolean_column array col column_index column_count layout bs
      | BoundUInt8 col array \<Rightarrow> fill_uint8_column array col column_index column_count layout bs
      | BoundInt8 col array \<Rightarrow> fill_int8_column array col column_index column_count layout bs
      | BoundInt16 col array \<Rightarrow> fill_int16_column array col column_index column_count layout bs
      | BoundInt32 col array \<Rightarrow> fill_int32_column array col column_index column_count layout bs
      | BoundUInt16 col array \<Rightarrow> fill_uint16_column array col column_index column_count layout bs
      | BoundInt64 col array \<Rightarrow> fill_int64_column array col column_index column_count layout bs
      | BoundUInt32 col array \<Rightarrow> fill_uint32_column array col column_index column_count layout bs
      | BoundUInt64 col array \<Rightarrow> fill_uint64_checked_bigint_column array col column_index column_count layout bs
      | BoundFloat16 col array \<Rightarrow> fill_float16_column array col column_index column_count layout bs
      | BoundFloat32 col array \<Rightarrow> fill_float32_column array col column_index column_count layout bs
      | BoundFloat64 col array \<Rightarrow> fill_float64_column array col column_index column_count layout bs
      | BoundUInt64Decimal20_0 col array \<Rightarrow> fill_uint64_decimal20_column array col column_index column_count layout bs
      | BoundDecimal32 col c array \<Rightarrow> fill_decimal32_column array col c column_index column_count layout bs
      | BoundDecimal64 col c array \<Rightarrow> fill_decimal64_column array col c column_index column_count layout bs
      | BoundDecimal128 col c array \<Rightarrow> fill_decimal128_column array col c column_index column_count layout bs
      | BoundDecimal256 col c array \<Rightarrow> fill_decimal256_column array col c column_index column_count layout bs
      | BoundUtf8 col array \<Rightarrow> fill_nvarchar_column array col column_index column_count layout bs
      | BoundLargeUtf8 col array \<Rightarrow> fill_nvarchar_column array col column_index column_count layout bs
      | BoundUtf8View col array \<Rightarrow> fill_nvarchar_column array col column_index column_count layout bs
      | BoundBinary col array \<Rightarrow> fill_varbinary_column array col column_index column_count layout bs
      | BoundLargeBinary col array \<Rightarrow> fill_varbinary_column array col column_index column_count layout bs
      | BoundBinaryView col array \<Rightarrow> fill_varbinary_column array col column_index column_count layout bs
      | BoundFixedSizeBinary col c array \<Rightarrow>
          fill_fixed_size_binary_column array col c column_index column_count layout bs
      | BoundDate32 col m array \<Rightarrow> fill_date32_direct_column array (ctx col m) layout bs
      | BoundDate64 col m array \<Rightarrow> fill_date64_direct_column array (ctx col m) layout bs
      | BoundTimestampSecond col m array \<Rightarrow>
          fill_timestamp_second_direct_column db array (ctx col m) layout bs
      | BoundTimestampMillisecond col m array \<Rightarrow>
          fill_timestamp_millisecond_direct_column db array (ctx col m) layout bs
      | BoundTimestampMicrosecond col m array \<Rightarrow>
          fill_timestamp_microsecond_direct_column db array (ctx col m) layout bs
      | BoundTimestampNanosecond col m array \<Rightarrow>
          fill_timestamp_nanosecond_direct_column db array (ctx col m) layout bs
      | BoundTime32Second col m array \<Rightarrow> fill_time32_second_direct_column array (ctx col m) layout bs
      | BoundTime32Millisecond col m array \<Rightarrow> fill_time32_millisecond_direct_column array (ctx col m) layout bs
      | BoundTime64Microsecond col m array \<Rightarrow> fill_time64_microsecond_direct_column array (ctx col m) layout bs
      | BoundTime64Nanosecond col m array \<Rightarrow> fill_time64_nanosecond_direct_column array (ctx col m) layout bs
      | BoundDateTimeOffsetSecond col m array \<Rightarrow>
          fill_datetimeoffset_second_direct_column db array (ctx col m) layout bs
      | BoundDateTimeOffsetMillisecond col m array \<Rightarrow>
          fill_datetimeoffset_millisecond_direct_column db array (ctx col m) layout bs
      | BoundDateTimeOffsetMicrosecond col m array \<Rightarrow>
          fill_datetimeoffset_microsecond_direct_column db array (ctx col m) layout bs
      | BoundDateTimeOffsetNanosecond col m array \<Rightarrow>
          fill_datetimeoffset_nanosecond_direct_column db array (ctx col m) layout bs)"

definition append_bound_cell ::
    "'tz timezone_db \<Rightarrow> runtime_context \<Rightarrow> bound_direct_column \<Rightarrow> usize \<Rightarrow> usize \<Rightarrow> bytes
      \<Rightarrow> error + bytes" where
  "append_bound_cell db rt c row n buf =
     (case c of
        BoundBoolean col array \<Rightarrow> append_boolean_cell buf array col row n
      | BoundUInt8 col array \<Rightarrow> append_uint8_cell buf array col row n
      | BoundInt8 col array \<Rightarrow> append_int8_cell buf array col row n
      | BoundInt16 col array \<Rightarrow> append_int16_cell buf array col row n
      | BoundInt32 col array \<Rightarrow> append_int32_cell buf array col row n
      | BoundUInt16 col array \<Rightarrow> append_uint16_cell buf array col row n
      | BoundInt64 col array \<Rightarrow> append_int64_cell buf array col row n
      | BoundUInt32 col array \<Rightarrow> append_uint32_cell buf array col row n
      | BoundUInt64 col array \<Rightarrow> append_uint64_checked_bigint_cell buf array col row n
      | BoundFloat16 col array \<Rightarrow> append_float16_cell buf array col row n
      | BoundFloat32 col array \<Rightarrow> append_float32_cell buf array col row n
      | BoundFloat64 col array \<Rightarrow> append_float64_cell buf array col row n
      | BoundUInt64Decimal20_0 col array \<Rightarrow> append_uint64_decimal20_cell buf array col row n
      | BoundDecimal32 col c array \<Rightarrow> append_decimal32_cell buf array col c row n
      | BoundDecimal64 col c array \<Rightarrow> append_decimal64_cell buf array col c row n
      | BoundDecimal128 col c array \<Rightarrow> append_decimal128_cell buf array col c row n
      | BoundDecimal256 col c array \<Rightarrow> append_decimal256_cell buf array col c row n
      | BoundUtf8 col array \<Rightarrow> append_nvarchar_cell buf array col row n
      | BoundLargeUtf8 col array \<Rightarrow> append_nvarchar_cell buf array col row n
      | BoundUtf8View col array \<Rightarrow> append_nvarchar_cell buf array col row n
      | BoundBinary col array \<Rightarrow> append_varbinary_cell buf array col row n
      | BoundLargeBinary col array \<Rightarrow> append_varbinary_cell buf array col row n
      | BoundBinaryView col array \<Rightarrow> append_varbinary_cell buf array col row n
      | BoundFixedSizeBinary col c array \<Rightarrow> append_fixed_size_binary_cell buf array col c row n
      | BoundDate32 col m array \<Rightarrow> append_date32_cell db buf array m col row n
      | BoundDate64 col m array \<Rightarrow> append_date64_cell db buf array m col row n
      | BoundTimestampSecond col m array \<Rightarrow>
          append_timestamp_second_cell db buf array m col (context_datetime_rounding rt) row n
      | BoundTimestampMillisecond col m array \<Rightarrow>
          append_timestamp_millisecond_cell db buf array m col (context_datetime_rounding rt) row n
      | BoundTimestampMicrosecond col m array \<Rightarrow>
          append_timestamp_microsecond_cell db buf array m col (context_datetime_rounding rt) row n
      | BoundTimestampNanosecond col m array \<Rightarrow>
          append_timestamp_nanosecond_cell db buf array m col rt row n
      | BoundTime32Second col m array \<Rightarrow> append_time32_second_cell db buf array m col row n
      | BoundTime32Millisecond col m array \<Rightarrow> append_time32_millisecond_cell db buf array m col row n
      | BoundTime64Microsecond col m array \<Rightarrow> append_time64_microsecond_cell db buf array m col row n
      | BoundTime64Nanosecond col m array \<Rightarrow> append_time64_nanosecond_cell db buf array m col (context_nanosecond_policy rt) row n
      | BoundDateTimeOffsetSecond col m array \<Rightarrow>
          append_datetimeoffset_second_cell db buf array m col row n
      | BoundDateTimeOffsetMillisecond col m array \<Rightarrow>
          append_datetimeoffset_millisecond_cell db buf array m col row n
      | BoundDateTimeOffsetMicrosecond col m array \<Rightarrow>
          append_datetimeoffset_microsecond_cell db buf array m col row n
      | BoundDateTimeOffsetNanosecond col m array \<Rightarrow>
          append_datetimeoffset_nanosecond_cell db buf array m col (context_nanosecond_policy rt) row n)"

record bound_direct_batch =
  bound_columns :: "bound_direct_column list"
  bound_context :: runtime_context
  bound_row_count :: usize

definition bound_batch_new :: "direct_encoder \<Rightarrow> record_batch \<Rightarrow> error + bound_direct_batch" where
  "bound_batch_new encoder batch =
     map_ok (\<lambda>columns. \<lparr>bound_columns = columns, bound_context = encoder_context encoder,
         bound_row_count = batch_num_rows batch\<rparr>)
       (bind_direct_columns encoder batch)"

text \<open>\<^verbatim>\<open>vec![0; row_count * column_count]\<close> would panic only beyond the address space.\<close>

definition measure_bound_cell_lengths ::
    "'tz timezone_db \<Rightarrow> bound_direct_batch \<Rightarrow> error + usize list" where
  "measure_bound_cell_lengths db b =
     (if bound_row_count b = 0 then Ok []
      else
        let column_count = length (bound_columns b) in
        for_each (\<lambda>(column_index, c) cell_lengths.
            measure_bound_column db (bound_context b) c column_index column_count cell_lengths)
          (List.enumerate 0 (bound_columns b)) (replicate (bound_row_count b * column_count) 0))"

definition measure_bound_layout :: "'tz timezone_db \<Rightarrow> bound_direct_batch \<Rightarrow> error + row_layout" where
  "measure_bound_layout db b =
     (if bound_row_count b = 0 then row_layout_new [] [] [] 0
      else
        and_then (measure_bound_cell_lengths db b) (\<lambda>cell_lengths.
          build_fixed_width_row_layout (bound_row_count b) (length (bound_columns b)) cell_lengths))"

definition fill_bound_columns ::
    "'tz timezone_db \<Rightarrow> bound_direct_batch \<Rightarrow> row_layout \<Rightarrow> bytes \<Rightarrow> error + bytes" where
  "fill_bound_columns db b layout bs =
     (let column_count = length (bound_columns b) in
      for_each (\<lambda>(column_index, c) bs.
          fill_bound_column db (bound_context b) c column_index column_count layout bs)
        (List.enumerate 0 (bound_columns b)) bs)"

subsection \<open>What a bound column encodes\<close>

definition encoded_length :: "direct_column_plan \<Rightarrow> mssql_type_length" where
  "encoded_length col =
     (case plan_encoding col of
        EncVariableWidth (StringToNVarChar len) \<Rightarrow> len
      | EncVariableWidth (BytesToVarBinary len) \<Rightarrow> len
      | _ \<Rightarrow> MaxLength)"

definition bound_cells ::
    "'tz timezone_db \<Rightarrow> runtime_context \<Rightarrow> bound_direct_column \<Rightarrow> error + bytes list" where
  "bound_cells db rt c =
     (case c of
        BoundBoolean col array \<Rightarrow> column_cells (primitive_cell_at col boolean_bytes) array
      | BoundUInt8 col array \<Rightarrow> column_cells (primitive_cell_at col uint8_bytes) array
      | BoundInt8 col array \<Rightarrow> column_cells (primitive_cell_at col int8_bytes) array
      | BoundInt16 col array \<Rightarrow> column_cells (primitive_cell_at col int16_bytes) array
      | BoundInt32 col array \<Rightarrow> column_cells (primitive_cell_at col int32_bytes) array
      | BoundUInt16 col array \<Rightarrow> column_cells (primitive_cell_at col uint16_bytes) array
      | BoundInt64 col array \<Rightarrow> column_cells (primitive_cell_at col int64_bytes) array
      | BoundUInt32 col array \<Rightarrow> column_cells (primitive_cell_at col uint32_bytes) array
      | BoundUInt64 col array \<Rightarrow> column_cells (primitive_cell_at col (\<lambda>row v. uint64_checked_bigint_bytes v col row)) array
      | BoundFloat16 col array \<Rightarrow> column_cells (primitive_cell_at col (float32_bytes col)) array
      | BoundFloat32 col array \<Rightarrow> column_cells (primitive_cell_at col (float32_bytes col)) array
      | BoundFloat64 col array \<Rightarrow> column_cells (primitive_cell_at col (float64_bytes col)) array
      | BoundUInt64Decimal20_0 col array \<Rightarrow> column_cells (uint64_decimal20_cell_at col) array
      | BoundDecimal32 col c array \<Rightarrow> column_cells (decimal_cell_at col c read_decimal32) array
      | BoundDecimal64 col c array \<Rightarrow> column_cells (decimal_cell_at col c read_decimal64) array
      | BoundDecimal128 col c array \<Rightarrow> column_cells (decimal_cell_at col c read_decimal128) array
      | BoundDecimal256 col c array \<Rightarrow> column_cells (decimal_cell_at col c (read_decimal256 col)) array
      | BoundUtf8 col array \<Rightarrow> column_cells (nvarchar_cell_at col (encoded_length col)) array
      | BoundLargeUtf8 col array \<Rightarrow> column_cells (nvarchar_cell_at col (encoded_length col)) array
      | BoundUtf8View col array \<Rightarrow> column_cells (nvarchar_cell_at col (encoded_length col)) array
      | BoundBinary col array \<Rightarrow> column_cells (varbinary_cell_at col (encoded_length col)) array
      | BoundLargeBinary col array \<Rightarrow> column_cells (varbinary_cell_at col (encoded_length col)) array
      | BoundBinaryView col array \<Rightarrow> column_cells (varbinary_cell_at col (encoded_length col)) array
      | BoundFixedSizeBinary col c array \<Rightarrow> column_cells (fixed_binary_cell_at col (binary_length c)) array
      | BoundDate32 col m array \<Rightarrow> column_cells (temporal_cell_at db m col (read_date32 col)) array
      | BoundDate64 col m array \<Rightarrow> column_cells (temporal_cell_at db m col (read_date64 col)) array
      | BoundTimestampSecond col m array \<Rightarrow> column_cells (temporal_cell_at db m col (read_timestamp_second m rt col)) array
      | BoundTimestampMillisecond col m array \<Rightarrow> column_cells (temporal_cell_at db m col (read_timestamp_millisecond m rt col)) array
      | BoundTimestampMicrosecond col m array \<Rightarrow> column_cells (temporal_cell_at db m col (read_timestamp_microsecond m rt col)) array
      | BoundTimestampNanosecond col m array \<Rightarrow> column_cells (temporal_cell_at db m col (read_timestamp_nanosecond m rt col)) array
      | BoundTime32Second col m array \<Rightarrow> column_cells (temporal_cell_at db m col (read_time32_second m)) array
      | BoundTime32Millisecond col m array \<Rightarrow> column_cells (temporal_cell_at db m col (read_time32_millisecond m)) array
      | BoundTime64Microsecond col m array \<Rightarrow> column_cells (temporal_cell_at db m col (read_time64_microsecond m)) array
      | BoundTime64Nanosecond col m array \<Rightarrow> column_cells (temporal_cell_at db m col (read_time64_nanosecond m rt)) array
      | BoundDateTimeOffsetSecond col m array \<Rightarrow> column_cells (temporal_cell_at db m col (read_datetimeoffset_second db m)) array
      | BoundDateTimeOffsetMillisecond col m array \<Rightarrow> column_cells (temporal_cell_at db m col (read_datetimeoffset_millisecond db m)) array
      | BoundDateTimeOffsetMicrosecond col m array \<Rightarrow> column_cells (temporal_cell_at db m col (read_datetimeoffset_microsecond db m)) array
      | BoundDateTimeOffsetNanosecond col m array \<Rightarrow> column_cells (temporal_cell_at db m col (read_datetimeoffset_nanosecond db m rt)) array)"

text \<open>A column is well bound when its constructor is the one of its encoding; the length of a
  binary column fits the two byte prefix.\<close>

definition well_bound :: "bound_direct_column \<Rightarrow> bool" where
  "well_bound c \<longleftrightarrow>
     (case c of
        BoundBoolean col _ \<Rightarrow> plan_encoding col = EncPrimitive BooleanToBit
      | BoundUInt8 col _ \<Rightarrow> plan_encoding col = EncPrimitive UInt8ToTinyInt
      | BoundInt8 col _ \<Rightarrow> plan_encoding col = EncPrimitive Int8ToSmallInt
      | BoundInt16 col _ \<Rightarrow> plan_encoding col = EncPrimitive Int16ToSmallInt
      | BoundInt32 col _ \<Rightarrow> plan_encoding col = EncPrimitive Int32ToInt
      | BoundUInt16 col _ \<Rightarrow> plan_encoding col = EncPrimitive UInt16ToInt
      | BoundInt64 col _ \<Rightarrow> plan_encoding col = EncPrimitive Int64ToBigInt
      | BoundUInt32 col _ \<Rightarrow> plan_encoding col = EncPrimitive UInt32ToBigInt
      | BoundUInt64 col _ \<Rightarrow> plan_encoding col = EncPrimitive UInt64ToCheckedBigInt
      | BoundFloat16 col _ \<Rightarrow> plan_encoding col = EncPrimitive Float16ToReal
      | BoundFloat32 col _ \<Rightarrow> plan_encoding col = EncPrimitive Float32ToReal
      | BoundFloat64 col _ \<Rightarrow> plan_encoding col = EncPrimitive Float64ToFloat
      | BoundUtf8 col _ \<Rightarrow> plan_encoding col = EncVariableWidth (StringToNVarChar (encoded_length col))
      | BoundLargeUtf8 col _ \<Rightarrow> plan_encoding col = EncVariableWidth (StringToNVarChar (encoded_length col))
      | BoundUtf8View col _ \<Rightarrow> plan_encoding col = EncVariableWidth (StringToNVarChar (encoded_length col))
      | BoundBinary col _ \<Rightarrow> plan_encoding col = EncVariableWidth (BytesToVarBinary (encoded_length col))
      | BoundLargeBinary col _ \<Rightarrow> plan_encoding col = EncVariableWidth (BytesToVarBinary (encoded_length col))
      | BoundBinaryView col _ \<Rightarrow> plan_encoding col = EncVariableWidth (BytesToVarBinary (encoded_length col))
      | BoundFixedSizeBinary _ c _ \<Rightarrow> binary_length c < 65536
      | _ \<Rightarrow> True)"

text \<open>The three laws of \<^verbatim>\<open>direct_columns\<close>, of one column.\<close>

definition column_laws ::
    "error + bytes list \<Rightarrow> (usize \<Rightarrow> usize \<Rightarrow> usize list \<Rightarrow> error + usize list)
      \<Rightarrow> (usize \<Rightarrow> usize \<Rightarrow> row_layout \<Rightarrow> bytes \<Rightarrow> error + bytes)
      \<Rightarrow> (usize \<Rightarrow> usize \<Rightarrow> bytes \<Rightarrow> error + bytes) \<Rightarrow> bool" where
  "column_laws cells measure_col fill_col append_col \<longleftrightarrow>
     (\<forall>column column_count ls. measure_col column column_count ls
        = map_ok (\<lambda>cells. put_column column column_count (map length cells) ls) cells)
     \<and> (\<forall>cs column column_count layout bs. cells = Ok cs \<and> column_fits layout column column_count cs bs \<longrightarrow>
          fill_col column column_count layout bs
            = Ok (fill_cells (zip (column_positions layout column column_count (length cs)) cs) bs))
     \<and> (\<forall>cs row buf. cells = Ok cs \<and> row < length cs \<longrightarrow>
          append_col row (length (cs ! row)) buf = Ok (buf @ cs ! row))"

context column_codec
begin

lemma laws:
  "column_laws (column_cells cell_at array) (measure_rows cell_len array) (fill_rows fill_cell array)
     (\<lambda>row n buf. append_cell row (array ! row) n buf)"
  using measure_column fill_column append_column_cell
  by (auto simp: column_laws_def column_cells_def try_map_Inr append_cell)

end

lemmas bound_defs = measure_bound_column_def [abs_def] fill_bound_column_def [abs_def]
  append_bound_cell_def [abs_def] bound_cells_def well_bound_def Let_def

lemmas primitive_dispatch = measure_fixed_primitive_column_cell_lengths_def [abs_def]
  measure_primitive_cell_lengths_def measure_checked_primitive_column_cell_lengths_def
  measure_uint64_checked_bigint_column_cell_lengths_def [abs_def]
  measure_float16_column_cell_lengths_def [abs_def] measure_float32_column_cell_lengths_def [abs_def]
  measure_float64_column_cell_lengths_def [abs_def] primitive_value_len_def primitive_cell_len_checked
  value_checks fill_primitive_column_def append_primitive_array_cell_def
  fill_boolean_column_def fill_uint8_column_def fill_int8_column_def fill_int16_column_def
  fill_int32_column_def fill_uint16_column_def fill_int64_column_def fill_uint32_column_def
  fill_uint64_checked_bigint_column_def fill_float16_column_def fill_float32_column_def
  fill_float64_column_def append_boolean_cell_def append_uint8_cell_def append_int8_cell_def
  append_int16_cell_def append_int32_cell_def append_uint16_cell_def append_int64_cell_def
  append_uint32_cell_def append_uint64_checked_bigint_cell_def append_float16_cell_def
  append_float32_cell_def append_float64_cell_def

lemmas decimal_dispatch = measure_decimal32_column_cell_lengths_def measure_decimal64_column_cell_lengths_def
  measure_decimal128_column_cell_lengths_def measure_decimal256_column_cell_lengths_def
  measure_decimal_values_def fill_decimal32_column_def fill_decimal64_column_def
  fill_decimal128_column_def fill_decimal256_column_def fill_decimal_values_def
  append_decimal32_cell_def append_decimal64_cell_def append_decimal128_cell_def
  append_decimal256_cell_def measure_uint64_decimal20_cell_lengths_def
  fill_uint64_decimal20_column_def append_uint64_decimal20_cell_def

lemmas binary_dispatch = measure_nvarchar_column_cell_lengths_def [abs_def]
  measure_varbinary_column_cell_lengths_def [abs_def] measure_nvarchar_cell_lengths_def
  measure_varbinary_cell_lengths_def fill_nvarchar_column_def [abs_def] fill_varbinary_column_def [abs_def]
  append_nvarchar_cell_def append_varbinary_cell_def measure_fixed_size_binary_column_cell_lengths_def
  fill_fixed_size_binary_column_def append_fixed_size_binary_cell_def

text \<open>The closures of the temporal columns, in the form of the contract.\<close>

lemma and_then_map_ok: "and_then (map_ok f r) g = and_then r (\<lambda>x. g (f x))"
  by (cases r) simp_all

lemma map_ok_const: "map_ok (\<lambda>_. k) r = and_then r (\<lambda>_. Ok k)"
  by (cases r) simp_all

lemma and_then_map_ok_inside: "and_then r (\<lambda>x. and_then (map_ok f (s x)) g) = and_then r (\<lambda>x. and_then (s x) (\<lambda>y. g (f y)))"
  by (simp add: and_then_map_ok)

lemma temporal_value_cases [simp]:
  "temporal_value_cell_len col (TvDate d) = Ok date_cell_len"
  "temporal_value_cell_len col (TvTime t) = time_cell_len_for_value t"
  "temporal_value_cell_len col (TvDateTime2 c) = datetime2_cell_len_for_value c"
  "temporal_value_cell_len col (TvDateTimeOffset z) = datetimeoffset_cell_len_for_value z"
  by (simp_all add: temporal_value_cell_len_def)

lemma write_temporal_cases [simp]:
  "write_direct_temporal_value_cell bs cell col (TvDate d) = write_direct_date_cell bs cell col d"
  "write_direct_temporal_value_cell bs cell col (TvTime t) = write_direct_time_cell bs cell col t"
  "write_direct_temporal_value_cell bs cell col (TvDateTime2 c) = write_direct_datetime2_cell bs cell col c"
  "write_direct_temporal_value_cell bs cell col (TvDateTimeOffset z) = write_direct_datetimeoffset_cell bs cell col z"
  by (simp_all add: write_direct_temporal_value_cell_def)

lemmas temporal_dispatch = measure_date32_column_cell_lengths_def [abs_def]
  fill_date32_direct_column_def [abs_def] append_date32_cell_def [abs_def]
  measure_date64_column_cell_lengths_def [abs_def] fill_date64_direct_column_def [abs_def]
  append_date64_cell_def [abs_def] measure_timestamp_second_column_cell_lengths_def [abs_def]
  fill_timestamp_second_direct_column_def [abs_def] append_timestamp_second_cell_def [abs_def]
  measure_timestamp_millisecond_column_cell_lengths_def [abs_def]
  fill_timestamp_millisecond_direct_column_def [abs_def] append_timestamp_millisecond_cell_def
  [abs_def] measure_timestamp_microsecond_column_cell_lengths_def [abs_def]
  fill_timestamp_microsecond_direct_column_def [abs_def] append_timestamp_microsecond_cell_def
  [abs_def] measure_timestamp_nanosecond_column_cell_lengths_def [abs_def]
  fill_timestamp_nanosecond_direct_column_def [abs_def] append_timestamp_nanosecond_cell_def
  [abs_def] measure_time32_second_column_cell_lengths_def [abs_def]
  fill_time32_second_direct_column_def [abs_def] append_time32_second_cell_def [abs_def]
  measure_time32_millisecond_column_cell_lengths_def [abs_def]
  fill_time32_millisecond_direct_column_def [abs_def] append_time32_millisecond_cell_def [abs_def]
  measure_time64_microsecond_column_cell_lengths_def [abs_def]
  fill_time64_microsecond_direct_column_def [abs_def] append_time64_microsecond_cell_def [abs_def]
  measure_time64_nanosecond_column_cell_lengths_def [abs_def]
  fill_time64_nanosecond_direct_column_def [abs_def] append_time64_nanosecond_cell_def [abs_def]
  measure_datetimeoffset_second_column_cell_lengths_def [abs_def]
  fill_datetimeoffset_second_direct_column_def [abs_def] append_datetimeoffset_second_cell_def
  [abs_def] measure_datetimeoffset_millisecond_column_cell_lengths_def [abs_def]
  fill_datetimeoffset_millisecond_direct_column_def [abs_def]
  append_datetimeoffset_millisecond_cell_def [abs_def]
  measure_datetimeoffset_microsecond_column_cell_lengths_def [abs_def]
  fill_datetimeoffset_microsecond_direct_column_def [abs_def]
  append_datetimeoffset_microsecond_cell_def [abs_def]
  measure_datetimeoffset_nanosecond_column_cell_lengths_def [abs_def]
  fill_datetimeoffset_nanosecond_direct_column_def [abs_def]
  append_datetimeoffset_nanosecond_cell_def [abs_def] measure_temporal_values_def [abs_def]
  fill_date32_column_def [abs_def] fill_date64_column_def [abs_def] fill_timestamp_column_def
  [abs_def] fill_time_column_def [abs_def] fill_datetimeoffset_column_def [abs_def] reader_defs
  [abs_def] fill_temporal_cell_def [abs_def] and_then_map_ok map_ok_const

text \<open>Every constructor keeps the laws.\<close>

lemma bound_laws:
  assumes "well_bound c"
  shows "column_laws (bound_cells db rt c) (measure_bound_column db rt c) (fill_bound_column db rt c)
    (append_bound_cell db rt c)"
proof (cases c)
  case (BoundBoolean col array)
  with assms boolean_values.codec.laws [of col array] show ?thesis
    by (simp add: bound_defs primitive_dispatch)
next
  case (BoundUInt8 col array)
  with assms uint8_values.codec.laws [of col array] show ?thesis
    by (simp add: bound_defs primitive_dispatch)
next
  case (BoundInt8 col array)
  with assms int8_values.codec.laws [of col array] show ?thesis
    by (simp add: bound_defs primitive_dispatch)
next
  case (BoundInt16 col array)
  with assms int16_values.codec.laws [of col array] show ?thesis
    by (simp add: bound_defs primitive_dispatch)
next
  case (BoundInt32 col array)
  with assms int32_values.codec.laws [of col array] show ?thesis
    by (simp add: bound_defs primitive_dispatch)
next
  case (BoundUInt16 col array)
  with assms uint16_values.codec.laws [of col array] show ?thesis
    by (simp add: bound_defs primitive_dispatch)
next
  case (BoundInt64 col array)
  with assms int64_values.codec.laws [of col array] show ?thesis
    by (simp add: bound_defs primitive_dispatch)
next
  case (BoundUInt32 col array)
  with assms uint32_values.codec.laws [of col array] show ?thesis
    by (simp add: bound_defs primitive_dispatch)
next
  case (BoundUInt64 col array)
  with assms uint64_values.codec.laws [of col array] show ?thesis
    by (simp add: bound_defs primitive_dispatch)
next
  case (BoundFloat16 col array)
  with assms float32_values.codec.laws [of col array] show ?thesis
    by (simp add: bound_defs primitive_dispatch)
next
  case (BoundFloat32 col array)
  with assms float32_values.codec.laws [of col array] show ?thesis
    by (simp add: bound_defs primitive_dispatch)
next
  case (BoundFloat64 col array)
  with assms float64_values.codec.laws [of col array] show ?thesis
    by (simp add: bound_defs primitive_dispatch)
next
  case (BoundUInt64Decimal20_0 col array)
  with assms uint64_decimal20.laws [of col array] show ?thesis
    by (simp add: bound_defs decimal_dispatch)
next
  case (BoundDecimal32 col c array)
  with assms decimal32_reader.codec.laws [of col c array] show ?thesis
    by (simp add: bound_defs decimal_dispatch)
next
  case (BoundDecimal64 col c array)
  with assms decimal64_reader.codec.laws [of col c array] show ?thesis
    by (simp add: bound_defs decimal_dispatch)
next
  case (BoundDecimal128 col c array)
  with assms decimal128_reader.codec.laws [of col c array] show ?thesis
    by (simp add: bound_defs decimal_dispatch)
next
  case (BoundDecimal256 col c array)
  with assms decimal256_reader.codec.laws [of col c array] show ?thesis
    by (simp add: bound_defs decimal_dispatch)
next
  case (BoundUtf8 col array)
  with assms nvarchar_codec.laws [of col "encoded_length col" array] show ?thesis
    by (simp add: bound_defs binary_dispatch)
next
  case (BoundLargeUtf8 col array)
  with assms nvarchar_codec.laws [of col "encoded_length col" array] show ?thesis
    by (simp add: bound_defs binary_dispatch)
next
  case (BoundUtf8View col array)
  with assms nvarchar_codec.laws [of col "encoded_length col" array] show ?thesis
    by (simp add: bound_defs binary_dispatch)
next
  case (BoundBinary col array)
  with assms varbinary_codec.laws [of col "encoded_length col" array] show ?thesis
    by (simp add: bound_defs binary_dispatch)
next
  case (BoundLargeBinary col array)
  with assms varbinary_codec.laws [of col "encoded_length col" array] show ?thesis
    by (simp add: bound_defs binary_dispatch)
next
  case (BoundBinaryView col array)
  with assms varbinary_codec.laws [of col "encoded_length col" array] show ?thesis
    by (simp add: bound_defs binary_dispatch)
next
  case (BoundFixedSizeBinary col c array)
  with assms have "binary_length c < 65536" by (simp add: well_bound_def)
  from column_codec.laws [OF fixed_binary_codec [OF this], of col array] BoundFixedSizeBinary show ?thesis
    by (simp add: bound_defs binary_dispatch)
next
  case (BoundDate32 col m array)
  with assms date32_reader.codec.laws [where db = db and m = m and col = col and checked = False and array = array
      and cola = col] show ?thesis
    by (simp add: bound_defs temporal_dispatch cong: option.case_cong)
next
  case (BoundDate64 col m array)
  with assms date64_reader.codec.laws [where db = db and m = m and col = col and checked = False and array = array
      and cola = col] show ?thesis
    by (simp add: bound_defs temporal_dispatch cong: option.case_cong)
next
  case (BoundTimestampSecond col m array)
  with assms timestamp_second_reader.codec.laws [where db = db and m = m and col = col and checked = True and array = array
      and ma = m and rt = rt and cola = col] show ?thesis
    by (simp add: bound_defs temporal_dispatch cong: option.case_cong)
next
  case (BoundTimestampMillisecond col m array)
  with assms timestamp_millisecond_reader.codec.laws [where db = db and m = m and col = col and checked = True and array = array
      and ma = m and rt = rt and cola = col] show ?thesis
    by (simp add: bound_defs temporal_dispatch cong: option.case_cong)
next
  case (BoundTimestampMicrosecond col m array)
  with assms timestamp_microsecond_reader.codec.laws [where db = db and m = m and col = col and checked = True and array = array
      and ma = m and rt = rt and cola = col] show ?thesis
    by (simp add: bound_defs temporal_dispatch cong: option.case_cong)
next
  case (BoundTimestampNanosecond col m array)
  with assms timestamp_nanosecond_reader.codec.laws [where db = db and m = m and col = col and checked = True and array = array
      and ma = m and rt = rt and cola = col] show ?thesis
    by (simp add: bound_defs temporal_dispatch cong: option.case_cong)
next
  case (BoundTime32Second col m array)
  with assms time32_second_reader.codec.laws [where db = db and m = m and col = col and checked = False and array = array
      and ma = m] show ?thesis
    by (simp add: bound_defs temporal_dispatch cong: option.case_cong)
next
  case (BoundTime32Millisecond col m array)
  with assms time32_millisecond_reader.codec.laws [where db = db and m = m and col = col and checked = False and array = array
      and ma = m] show ?thesis
    by (simp add: bound_defs temporal_dispatch cong: option.case_cong)
next
  case (BoundTime64Microsecond col m array)
  with assms time64_microsecond_reader.codec.laws [where db = db and m = m and col = col and checked = False and array = array
      and ma = m] show ?thesis
    by (simp add: bound_defs temporal_dispatch cong: option.case_cong)
next
  case (BoundTime64Nanosecond col m array)
  with assms time64_nanosecond_reader.codec.laws [where db = db and m = m and col = col and checked = False and array = array
      and ma = m and rt = rt] show ?thesis
    by (simp add: bound_defs temporal_dispatch cong: option.case_cong)
next
  case (BoundDateTimeOffsetSecond col m array)
  with assms datetimeoffset_second_reader.codec.laws [where db = db and m = m and col = col and checked = True and array = array
      and dba = db and ma = m] show ?thesis
    by (simp add: bound_defs temporal_dispatch cong: option.case_cong)
next
  case (BoundDateTimeOffsetMillisecond col m array)
  with assms datetimeoffset_millisecond_reader.codec.laws [where db = db and m = m and col = col and checked = True and array = array
      and dba = db and ma = m] show ?thesis
    by (simp add: bound_defs temporal_dispatch cong: option.case_cong)
next
  case (BoundDateTimeOffsetMicrosecond col m array)
  with assms datetimeoffset_microsecond_reader.codec.laws [where db = db and m = m and col = col and checked = True and array = array
      and dba = db and ma = m] show ?thesis
    by (simp add: bound_defs temporal_dispatch cong: option.case_cong)
next
  case (BoundDateTimeOffsetNanosecond col m array)
  with assms datetimeoffset_nanosecond_reader.codec.laws [where db = db and m = m and col = col and checked = True and array = array
      and dba = db and ma = m and rt = rt] show ?thesis
    by (simp add: bound_defs temporal_dispatch cong: option.case_cong)
qed

interpretation bound: direct_columns well_bound "bound_cells db rt" "measure_bound_column db rt"
  "fill_bound_column db rt" "append_bound_cell db rt" for db rt
proof unfold_locales
  fix c cells column column_count ls layout bs row buf
  assume "well_bound c"
  note laws = bound_laws [OF this, of db rt, unfolded column_laws_def]
  show "measure_bound_column db rt c column column_count ls
      = map_ok (\<lambda>cells. put_column column column_count (map length cells) ls) (bound_cells db rt c)"
    using laws by blast
  show "fill_bound_column db rt c column column_count layout bs
      = Ok (fill_cells (zip (column_positions layout column column_count (length cells)) cells) bs)"
    if "bound_cells db rt c = Ok cells" "column_fits layout column column_count cells bs"
    using laws that by blast
  show "append_bound_cell db rt c row (length (cells ! row)) buf = Ok (buf @ cells ! row)"
    if "bound_cells db rt c = Ok cells" "row < length cells"
    using laws that by blast
qed

subsection \<open>Binding a validated batch\<close>

lemma downcast_direct_Ok [simp]:
  "downcast_direct_array is_class as_class array col = Ok vs \<longleftrightarrow> is_class array \<and> vs = as_class array"
  by (auto simp: downcast_direct_array_def)

lemma length_column_cells: "column_cells cell_at array = Ok cells \<Longrightarrow> length cells = length array"
  by (simp add: column_cells_def try_map_Inr)

lemmas bind_defs = bind_direct_column_def bind_direct_nvarchar_array_def bind_direct_varbinary_array_def
  bind_temporal_array_def Let_def

lemma array_len_class:
  "is_BooleanArray a \<Longrightarrow> array_len a = length (as_boolean a)"
  "is_Int8Array a \<Longrightarrow> array_len a = length (as_int8 a)"
  "is_Int16Array a \<Longrightarrow> array_len a = length (as_int16 a)"
  "is_Int32Array a \<Longrightarrow> array_len a = length (as_int32 a)"
  "is_Int64Array a \<Longrightarrow> array_len a = length (as_int64 a)"
  "is_UInt8Array a \<Longrightarrow> array_len a = length (as_uint8 a)"
  "is_UInt16Array a \<Longrightarrow> array_len a = length (as_uint16 a)"
  "is_UInt32Array a \<Longrightarrow> array_len a = length (as_uint32 a)"
  "is_UInt64Array a \<Longrightarrow> array_len a = length (as_uint64 a)"
  "is_Float16Array a \<Longrightarrow> array_len a = length (as_float16 a)"
  "is_Float32Array a \<Longrightarrow> array_len a = length (as_float32 a)"
  "is_Float64Array a \<Longrightarrow> array_len a = length (as_float64 a)"
  "is_Decimal32Array a \<Longrightarrow> array_len a = length (as_decimal32 a)"
  "is_Decimal64Array a \<Longrightarrow> array_len a = length (as_decimal64 a)"
  "is_Decimal128Array a \<Longrightarrow> array_len a = length (as_decimal128 a)"
  "is_Decimal256Array a \<Longrightarrow> array_len a = length (as_decimal256 a)"
  "is_StringArray a \<Longrightarrow> array_len a = length (as_string a)"
  "is_LargeStringArray a \<Longrightarrow> array_len a = length (as_large_string a)"
  "is_StringViewArray a \<Longrightarrow> array_len a = length (as_string_view a)"
  "is_BinaryArray a \<Longrightarrow> array_len a = length (as_binary a)"
  "is_LargeBinaryArray a \<Longrightarrow> array_len a = length (as_large_binary a)"
  "is_BinaryViewArray a \<Longrightarrow> array_len a = length (as_binary_view a)"
  "is_FixedSizeBinaryArray a \<Longrightarrow> array_len a = length (as_fixed_size_binary a)"
  "is_Date32Array a \<Longrightarrow> array_len a = length (as_date32 a)"
  "is_Date64Array a \<Longrightarrow> array_len a = length (as_date64 a)"
  "is_Time32SecondArray a \<Longrightarrow> array_len a = length (as_time32_second a)"
  "is_Time32MillisecondArray a \<Longrightarrow> array_len a = length (as_time32_millisecond a)"
  "is_Time64MicrosecondArray a \<Longrightarrow> array_len a = length (as_time64_microsecond a)"
  "is_Time64NanosecondArray a \<Longrightarrow> array_len a = length (as_time64_nanosecond a)"
  "is_TimestampSecondArray a \<Longrightarrow> array_len a = length (as_timestamp_second a)"
  "is_TimestampMillisecondArray a \<Longrightarrow> array_len a = length (as_timestamp_millisecond a)"
  "is_TimestampMicrosecondArray a \<Longrightarrow> array_len a = length (as_timestamp_microsecond a)"
  "is_TimestampNanosecondArray a \<Longrightarrow> array_len a = length (as_timestamp_nanosecond a)"
  by (cases a; simp add: array_len_def)+

lemma bind_temporal_column:
  assumes "bind_direct_column encoder batch i col = Ok b" "plan_encoding col = EncTemporal c"
  obtains m where "bind_temporal_array c (batch_columns batch ! plan_source_index col) col m = Ok b"
  using assms by (auto simp: bind_direct_column_def Let_def and_then_Inr split: if_splits)

text \<open>A bound column encodes one cell per entry of its array.\<close>

lemma bind_column_length:
  assumes "bind_direct_column encoder batch i col = Ok c" "bound_cells db rt c = Ok cells"
  shows "length cells = array_len (batch_columns batch ! plan_source_index col)"
proof -
  note bind = bind_defs map_ok_Inr and_then_Inr bound_cells_def array_len_class
  show ?thesis
  proof (cases "plan_encoding col")
    case (EncPrimitive x1)
    then show ?thesis using assms
      by (cases x1) (auto simp: bind dest!: length_column_cells split: if_splits)
  next
    case (EncDecimal x3)
    then show ?thesis using assms
      by (cases x3) (auto simp: bind dest!: length_column_cells split: if_splits)
  next
    case (EncVariableWidth x4)
    then show ?thesis using assms
      by (cases x4) (auto simp: bind dest!: length_column_cells split: if_splits data_type.splits)
  next
    case (EncTemporal x6)
    with bind_temporal_column [OF assms(1)] obtain m where
      "bind_temporal_array x6 (batch_columns batch ! plan_source_index col) col m = Ok c" by blast
    with assms(2) show ?thesis
      by (cases x6) (auto simp: bind_temporal_array_def map_ok_Inr bound_cells_def array_len_class
          dest!: length_column_cells)
  qed (use assms in \<open>auto simp: bind dest!: length_column_cells split: if_splits\<close>)
qed

lemma bind_column_well_bound:
  assumes "bind_direct_column encoder batch i col = Ok c"
    and "\<And>k. plan_encoding col = EncFixedSizeBinary k \<Longrightarrow> binary_length k < 65536"
  shows "well_bound c"
proof (cases "plan_encoding col")
  case (EncPrimitive x1)
  then show ?thesis using assms
    by (cases x1) (auto simp: bind_defs map_ok_Inr well_bound_def split: if_splits)
next
  case (EncDecimal x3)
  then show ?thesis using assms
    by (cases x3) (auto simp: bind_defs map_ok_Inr well_bound_def split: if_splits)
next
  case (EncVariableWidth x4)
  then show ?thesis using assms
    by (cases x4) (auto simp: bind_defs map_ok_Inr and_then_Inr well_bound_def encoded_length_def
        split: if_splits data_type.splits)
next
  case (EncTemporal x6)
  with bind_temporal_column [OF assms(1)] obtain m where
    "bind_temporal_array x6 (batch_columns batch ! plan_source_index col) col m = Ok c" by blast
  then show ?thesis
    by (cases x6) (auto simp: bind_temporal_array_def map_ok_Inr well_bound_def)
qed (use assms in \<open>auto simp: bind_defs map_ok_Inr well_bound_def split: if_splits\<close>)

lemma fits_known_class: "encoding_fits enc t ty \<Longrightarrow> known_class t"
proof (cases enc)
  case (EncPrimitive c)
  then show "encoding_fits enc t ty \<Longrightarrow> ?thesis" by (cases c) (auto simp: known_class_def)
next
  case (EncDecimal c)
  then show "encoding_fits enc t ty \<Longrightarrow> ?thesis"
    by (cases c; cases t) (auto simp: known_class_def decimal_fits_def)
next
  case (EncVariableWidth c)
  then show "encoding_fits enc t ty \<Longrightarrow> ?thesis"
    by (cases c; cases t) (auto simp: known_class_def is_arrow_string_family_def is_arrow_binary_family_def)
next
  case (EncFixedSizeBinary c)
  then show "encoding_fits enc t ty \<Longrightarrow> ?thesis" by (cases c; cases t) (auto simp: known_class_def)
next
  case (EncTemporal c)
  then show "encoding_fits enc t ty \<Longrightarrow> ?thesis"
    by (cases c; cases t) (auto simp: known_class_def timestamp_of_def)
qed (simp add: known_class_def)

lemmas compatible_defs = arrow_type_compatible_with_mapping_def is_string_family_to_nvarchar_def
  is_binary_family_to_varbinary_def is_arrow_string_family_def is_arrow_binary_family_def

lemma class_of_type:
  assumes "\<And>t nulls. a \<noteq> OtherArray t nulls"
  shows
  "array_data_type a = DtBoolean \<Longrightarrow> is_BooleanArray a"
  "array_data_type a = DtInt8 \<Longrightarrow> is_Int8Array a"
  "array_data_type a = DtInt16 \<Longrightarrow> is_Int16Array a"
  "array_data_type a = DtInt32 \<Longrightarrow> is_Int32Array a"
  "array_data_type a = DtInt64 \<Longrightarrow> is_Int64Array a"
  "array_data_type a = DtUInt8 \<Longrightarrow> is_UInt8Array a"
  "array_data_type a = DtUInt16 \<Longrightarrow> is_UInt16Array a"
  "array_data_type a = DtUInt32 \<Longrightarrow> is_UInt32Array a"
  "array_data_type a = DtUInt64 \<Longrightarrow> is_UInt64Array a"
  "array_data_type a = DtFloat16 \<Longrightarrow> is_Float16Array a"
  "array_data_type a = DtFloat32 \<Longrightarrow> is_Float32Array a"
  "array_data_type a = DtFloat64 \<Longrightarrow> is_Float64Array a"
  "array_data_type a = (DtDecimal32 p s) \<Longrightarrow> is_Decimal32Array a"
  "array_data_type a = (DtDecimal64 p s) \<Longrightarrow> is_Decimal64Array a"
  "array_data_type a = (DtDecimal128 p s) \<Longrightarrow> is_Decimal128Array a"
  "array_data_type a = (DtDecimal256 p s) \<Longrightarrow> is_Decimal256Array a"
  "array_data_type a = DtUtf8 \<Longrightarrow> is_StringArray a"
  "array_data_type a = DtLargeUtf8 \<Longrightarrow> is_LargeStringArray a"
  "array_data_type a = DtUtf8View \<Longrightarrow> is_StringViewArray a"
  "array_data_type a = DtBinary \<Longrightarrow> is_BinaryArray a"
  "array_data_type a = DtLargeBinary \<Longrightarrow> is_LargeBinaryArray a"
  "array_data_type a = DtBinaryView \<Longrightarrow> is_BinaryViewArray a"
  "array_data_type a = (DtFixedSizeBinary k) \<Longrightarrow> is_FixedSizeBinaryArray a"
  "array_data_type a = DtDate32 \<Longrightarrow> is_Date32Array a"
  "array_data_type a = DtDate64 \<Longrightarrow> is_Date64Array a"
  "array_data_type a = (DtTime32 Second) \<Longrightarrow> is_Time32SecondArray a"
  "array_data_type a = (DtTime32 Millisecond) \<Longrightarrow> is_Time32MillisecondArray a"
  "array_data_type a = (DtTime64 Microsecond) \<Longrightarrow> is_Time64MicrosecondArray a"
  "array_data_type a = (DtTime64 Nanosecond) \<Longrightarrow> is_Time64NanosecondArray a"
  "array_data_type a = (DtTimestamp Second tz) \<Longrightarrow> is_TimestampSecondArray a"
  "array_data_type a = (DtTimestamp Millisecond tz) \<Longrightarrow> is_TimestampMillisecondArray a"
  "array_data_type a = (DtTimestamp Microsecond tz) \<Longrightarrow> is_TimestampMicrosecondArray a"
  "array_data_type a = (DtTimestamp Nanosecond tz) \<Longrightarrow> is_TimestampNanosecondArray a"
  using assms by (cases a; simp)+

lemma bind_column_total:
  assumes fits: "encoding_fits (plan_encoding col) (source_type m) (target_type m)"
    and bounds: "plan_source_index col < length (batch_columns batch)"
      "mapping_for_column_index encoder i = Ok m"
    and array: "valid_array (batch_columns batch ! plan_source_index col)"
      "arrow_type_compatible_with_mapping (array_data_type (batch_columns batch ! plan_source_index col)) m"
  shows "\<exists>c. bind_direct_column encoder batch i col = Ok c"
proof -
  define a where "a = batch_columns batch ! plan_source_index col"
  from known_compatible [OF array(2) fits_known_class [OF fits]] array(1)
  have "a \<noteq> OtherArray t nulls" for t nulls
    by (cases a) (auto simp: valid_array_def a_def)
  note cls = class_of_type [OF this]
  have compatible: "arrow_type_compatible_with_mapping (array_data_type a) m" using array(2) by (simp add: a_def)
  note bind = bind_defs map_ok_Inr and_then_Inr bounds a_def [symmetric]
  show ?thesis
  proof (cases "plan_encoding col")
    case (EncPrimitive c)
    then show ?thesis using fits compatible
      by (cases c) (auto simp: bind compatible_defs cls)
  next
    case EncUInt64Decimal20_0
    then show ?thesis using fits compatible
      by (auto simp: bind compatible_defs cls)
  next
    case (EncDecimal c)
    then show ?thesis using fits compatible
      by (cases c) (auto simp: bind compatible_defs decimal_fits_def cls split: data_type.splits)
  next
    case (EncVariableWidth c)
    then show ?thesis using fits compatible
      by (cases c) (auto simp: bind compatible_defs cls split: data_type.splits)
  next
    case (EncFixedSizeBinary c)
    then show ?thesis using fits compatible
      by (cases c) (auto simp: bind compatible_defs cls split: data_type.splits)
  next
    case (EncTemporal c)
    then show ?thesis using fits compatible
      by (cases c) (auto simp: bind compatible_defs timestamp_of_def cls split: data_type.splits)
  qed
qed

lemma encoder_new_Ok:
  assumes "encoder_new_with_context mappings rt = Ok encoder"
  shows "encoder_mappings encoder = mappings" "encoder_context encoder = rt"
    "length (encoder_plan encoder) = length mappings"
    "i < length mappings \<Longrightarrow> \<exists>enc. encoder_plan encoder ! i = column_plan_from_mapping (mappings ! i) enc
       \<and> encoding_fits enc (source_type (mappings ! i)) (target_type (mappings ! i))"
proof -
  from assms obtain plan where "direct_encoder_plan_new mappings current_direct_support = Ok plan"
    and encoder: "encoder = \<lparr>encoder_mappings = mappings, encoder_context = rt, encoder_plan = plan\<rparr>"
    by (auto simp: encoder_new_with_context_def map_ok_Inr)
  note plan = current_support.plan_new_Ok [OF this(1)]
  show "encoder_mappings encoder = mappings" "encoder_context encoder = rt"
    "length (encoder_plan encoder) = length mappings"
    using plan(1) by (simp_all add: encoder)
  show "i < length mappings \<Longrightarrow> \<exists>enc. encoder_plan encoder ! i = column_plan_from_mapping (mappings ! i) enc
       \<and> encoding_fits enc (source_type (mappings ! i)) (target_type (mappings ! i))"
    using plan(2) [of i] by (auto simp: encoder)
qed

lemma bind_columns_map:
  "bind_direct_columns encoder batch
    = try_map (\<lambda>(i, col). bind_direct_column encoder batch i col) (List.enumerate 0 (encoder_plan encoder))"
  by (simp add: bind_direct_columns_def case_prod_unfold for_each_collect)

lemma bind_column_planned:
  assumes encoder: "encoder_new_with_context mappings rt = Ok encoder"
    and valid: "\<forall>m \<in> set mappings. valid_mssql_type (target_type m)" "valid_batch batch"
    and shape: "validate_record_batch_encoding_shape batch mappings = Ok ()"
    and i: "i < length mappings"
  shows "\<exists>c. bind_direct_column encoder batch i (encoder_plan encoder ! i) = Ok c \<and> well_bound c
      \<and> (\<forall>cells. bound_cells db rt' c = Ok cells \<longrightarrow> length cells = batch_num_rows batch)"
proof -
  let ?col = "encoder_plan encoder ! i" and ?m = "mappings ! i" and ?array = "batch_columns batch ! i"
  note enc = encoder_new_Ok [OF encoder]
  from enc(4) [OF i] obtain e where col: "?col = column_plan_from_mapping ?m e"
    and fits: "encoding_fits e (source_type ?m) (target_type ?m)" by blast
  note fit = shape [unfolded encoding_validation]
  from valid(2) have cols: "length (batch_columns batch) = length (batch_fields batch)"
    by (auto simp: valid_batch_def dest: map_eq_imp_length_eq)
  have index: "plan_source_index ?col = i" "plan_encoding ?col = e"
    using fit i by (simp_all add: col column_plan_from_mapping_def field_matches_def)
  from i fit cols have in_zip: "(?array, ?m) \<in> set (zip (batch_columns batch) mappings)"
    by (auto simp: set_zip)
  with fit have compatible: "arrow_type_compatible_with_mapping (array_data_type ?array) ?m" by blast
  have array: "valid_array ?array" "array_len ?array = batch_num_rows batch"
    using valid(2) in_zip by (auto simp: valid_batch_def dest: set_zip_leftD)
  have "mapping_for_column_index encoder i = Ok ?m"
    using i by (simp add: mapping_for_column_index_def enc(1))
  from bind_column_total [of ?col ?m batch encoder i] this obtain c where
    c: "bind_direct_column encoder batch i ?col = Ok c"
    using fits index array(1) compatible i fit cols by auto
  have "binary_length k < 65536" if "e = EncFixedSizeBinary k" for k
  proof -
    have "valid_mssql_type (target_type ?m)" using valid(1) i by simp
    with fits that show ?thesis by (cases k) (auto simp: binary_length_def)
  qed
  with bind_column_well_bound [OF c] index have "well_bound c" by simp
  with bind_column_length [OF c, of db rt'] c array(2) index show ?thesis by auto
qed

lemma bind_validated:
  assumes "encoder_new_with_context mappings rt = Ok encoder"
    and "\<forall>m \<in> set mappings. valid_mssql_type (target_type m)" "valid_batch batch"
    and "validate_record_batch_encoding_shape batch mappings = Ok ()"
  obtains cols where "bind_direct_columns encoder batch = Ok cols" "length cols = length mappings"
    "\<And>i. i < length mappings \<Longrightarrow> bind_direct_column encoder batch i (encoder_plan encoder ! i) = Ok (cols ! i)"
    "\<forall>c \<in> set cols. well_bound c"
    "\<And>c cells. c \<in> set cols \<Longrightarrow> bound_cells db rt' c = Ok cells \<Longrightarrow> length cells = batch_num_rows batch"
proof -
  note planned = bind_column_planned [OF assms, of _ db rt']
  define cols where "cols = map (\<lambda>i. SOME c. bind_direct_column encoder batch i (encoder_plan encoder ! i) = Ok c)
    [0..<length mappings]"
  have nth: "bind_direct_column encoder batch i (encoder_plan encoder ! i) = Ok (cols ! i)"
    if "i < length mappings" for i
    using planned [OF that] that by (auto simp: cols_def)
  have len: "length cols = length mappings" by (simp add: cols_def)
  have each: "well_bound c \<and> (\<forall>cells. bound_cells db rt' c = Ok cells \<longrightarrow> length cells = batch_num_rows batch)"
    if "c \<in> set cols" for c
  proof -
    from that obtain i where "i < length mappings" "c = cols ! i" using len by (auto simp: in_set_conv_nth)
    with planned nth show ?thesis by force
  qed
  have "bind_direct_columns encoder batch = Ok cols"
    using nth len encoder_new_Ok(3) [OF assms(1)]
    by (simp add: bind_columns_map try_map_Inr nth_enumerate_eq)
  with len nth each show thesis by (intro that) auto
qed

end
