(* ===== verification/FixedWidth.thy ===== *)
theory FixedWidth
  imports Binding
begin

text \<open>
  The fast path for batches of fixed-width columns (\<^verbatim>\<open>src/write/direct/rows/fixed_width.rs\<close>):
  instead of a position per cell it keeps one running offset per row, and each column writes its
  cell there and moves the offset on.

  This path indexes the payload without a check, and an index outside it panics. A run is therefore
  an optional result: \<^term>\<open>None\<close> is a panic. The two switches of
  \<^verbatim>\<open>src/write/profile.rs\<close> that turn the path off are a parameter.

  \<^verbatim>\<open>array.value\<close> of a null entry is whatever the value buffer holds; it is read only in
  columns planned without nulls, and is unspecified here as well. The additions to a row's offset
  stay inside the payload and cannot overflow.
\<close>

type_synonym 'a run = "(error + 'a) option"

definition run_then :: "'a run \<Rightarrow> ('a \<Rightarrow> 'b run) \<Rightarrow> 'b run" where
  "run_then r f =
     (case r of None \<Rightarrow> None | Some r \<Rightarrow> (case r of Inl e \<Rightarrow> Some (Err e) | Inr x \<Rightarrow> f x))"

primrec run_each :: "('a \<Rightarrow> 's \<Rightarrow> 's run) \<Rightarrow> 'a list \<Rightarrow> 's \<Rightarrow> 's run" where
  "run_each body [] s = Some (Ok s)"
| "run_each body (x # xs) s = run_then (body x s) (run_each body xs)"

text \<open>\<^verbatim>\<open>bytes[offset..offset + n].copy_from_slice(..)\<close>.\<close>

definition write_at :: "bytes \<Rightarrow> usize \<Rightarrow> bytes \<Rightarrow> bytes run" where
  "write_at bs offset xs =
     (if offset + length xs \<le> length bs then Some (Ok (splice bs offset xs)) else None)"

record fast_path_flags =
  fixed_width_fast_path_disabled :: bool
  date_fast_path_disabled :: bool

definition FIXED_SIZE_BINARY_LEN_PREFIX_LEN :: usize where "FIXED_SIZE_BINARY_LEN_PREFIX_LEN = 2"

subsection \<open>The columns\<close>

record fixed_width_column =
  fw_column :: bound_direct_column
  fw_plan :: direct_column_plan
  fw_mapping :: "schema_mapping option"
  fw_non_null_cell_len :: usize
  fw_null_cell_len :: usize

definition fixed_width_value_len :: "direct_column_encoding \<Rightarrow> usize option" where
  "fixed_width_value_len enc =
     (case enc of
        EncPrimitive c \<Rightarrow>
          (case c of
             BooleanToBit \<Rightarrow> Some 1
           | UInt8ToTinyInt \<Rightarrow> Some 1
           | Int8ToSmallInt \<Rightarrow> Some 2
           | Int16ToSmallInt \<Rightarrow> Some 2
           | Int32ToInt \<Rightarrow> Some 4
           | UInt16ToInt \<Rightarrow> Some 4
           | Int64ToBigInt \<Rightarrow> Some 8
           | UInt32ToBigInt \<Rightarrow> Some 8
           | UInt64ToCheckedBigInt \<Rightarrow> Some 8
           | Float16ToReal \<Rightarrow> Some 4
           | Float32ToReal \<Rightarrow> Some 4
           | Float64ToFloat \<Rightarrow> Some 8)
      | _ \<Rightarrow> None)"

text \<open>\<^verbatim>\<open>.ok()\<close>.\<close>

definition ok_option :: "'e + 'a \<Rightarrow> 'a option" where
  "ok_option r = (case r of Inl _ \<Rightarrow> None | Inr x \<Rightarrow> Some x)"

definition timestamp_non_null_cell_len :: "direct_column_plan \<Rightarrow> usize option" where
  "timestamp_non_null_cell_len col =
     (case plan_target_type col of
        MsDateTime \<Rightarrow> if plan_nullable col then Some datetime_cell_len else Some datetime_payload_len
      | MsDateTime2 precision \<Rightarrow> ok_option (datetime2_cell_len precision)
      | _ \<Rightarrow> None)"

definition fixed_width_non_null_cell_len :: "fast_path_flags \<Rightarrow> direct_column_plan \<Rightarrow> usize option" where
  "fixed_width_non_null_cell_len flags col =
     (case plan_encoding col of
        EncFixedSizeBinary c \<Rightarrow> checked_usize (binary_length c + FIXED_SIZE_BINARY_LEN_PREFIX_LEN)
      | EncTemporal c \<Rightarrow>
          (case c of
             Date32ToDate \<Rightarrow> if date_fast_path_disabled flags then None else Some date_cell_len
           | Date64ToDateTime2 \<Rightarrow>
               if date_fast_path_disabled flags then None else ok_option (datetime2_cell_len 3)
           | Time32SecondToTime \<Rightarrow> ok_option (time_cell_len 0)
           | Time32MillisecondToTime \<Rightarrow> ok_option (time_cell_len 3)
           | Time64MicrosecondToTime \<Rightarrow> ok_option (time_cell_len 6)
           | Time64NanosecondToTime \<Rightarrow> ok_option (time_cell_len 7)
           | TimestampSecondTzToDateTimeOffset \<Rightarrow> ok_option (datetimeoffset_cell_len 7)
           | TimestampMillisecondTzToDateTimeOffset \<Rightarrow> ok_option (datetimeoffset_cell_len 7)
           | TimestampMicrosecondTzToDateTimeOffset \<Rightarrow> ok_option (datetimeoffset_cell_len 7)
           | TimestampNanosecondTzToDateTimeOffset \<Rightarrow> ok_option (datetimeoffset_cell_len 7)
           | _ \<Rightarrow> timestamp_non_null_cell_len col)
      | enc \<Rightarrow>
          Option.bind (fixed_width_value_len enc) (\<lambda>value_len.
            if plan_nullable col then checked_usize (value_len + CELL_LEN_PREFIX_LEN)
            else Some value_len))"

definition fixed_width_null_cell_len :: "direct_column_plan \<Rightarrow> usize option" where
  "fixed_width_null_cell_len col =
     (case plan_encoding col of
        EncFixedSizeBinary _ \<Rightarrow> Some FIXED_SIZE_BINARY_LEN_PREFIX_LEN
      | _ \<Rightarrow> Some CELL_LEN_PREFIX_LEN)"

definition fixed_width_column_parts ::
    "bound_direct_column \<Rightarrow> (direct_column_plan \<times> schema_mapping option) option" where
  "fixed_width_column_parts c =
     (case c of
        BoundBoolean col _ \<Rightarrow> Some (col, None)
      | BoundUInt8 col _ \<Rightarrow> Some (col, None)
      | BoundInt8 col _ \<Rightarrow> Some (col, None)
      | BoundInt16 col _ \<Rightarrow> Some (col, None)
      | BoundInt32 col _ \<Rightarrow> Some (col, None)
      | BoundUInt16 col _ \<Rightarrow> Some (col, None)
      | BoundInt64 col _ \<Rightarrow> Some (col, None)
      | BoundUInt32 col _ \<Rightarrow> Some (col, None)
      | BoundUInt64 col _ \<Rightarrow> Some (col, None)
      | BoundFloat16 col _ \<Rightarrow> Some (col, None)
      | BoundFloat32 col _ \<Rightarrow> Some (col, None)
      | BoundFloat64 col _ \<Rightarrow> Some (col, None)
      | BoundFixedSizeBinary col _ _ \<Rightarrow> Some (col, None)
      | BoundDate32 col m _ \<Rightarrow> Some (col, Some m)
      | BoundDate64 col m _ \<Rightarrow> Some (col, Some m)
      | BoundTimestampSecond col m _ \<Rightarrow> Some (col, Some m)
      | BoundTimestampMillisecond col m _ \<Rightarrow> Some (col, Some m)
      | BoundTimestampMicrosecond col m _ \<Rightarrow> Some (col, Some m)
      | BoundTimestampNanosecond col m _ \<Rightarrow> Some (col, Some m)
      | BoundTime32Second col m _ \<Rightarrow> Some (col, Some m)
      | BoundTime32Millisecond col m _ \<Rightarrow> Some (col, Some m)
      | BoundTime64Microsecond col m _ \<Rightarrow> Some (col, Some m)
      | BoundTime64Nanosecond col m _ \<Rightarrow> Some (col, Some m)
      | BoundDateTimeOffsetSecond col m _ \<Rightarrow> Some (col, Some m)
      | BoundDateTimeOffsetMillisecond col m _ \<Rightarrow> Some (col, Some m)
      | BoundDateTimeOffsetMicrosecond col m _ \<Rightarrow> Some (col, Some m)
      | BoundDateTimeOffsetNanosecond col m _ \<Rightarrow> Some (col, Some m)
      | _ \<Rightarrow> None)"

text \<open>Of \<^verbatim>\<open>fixed_width_column_array\<close> only the nulls are looked at. Other columns are unreachable.\<close>

definition fixed_width_column_nulls :: "bound_direct_column \<Rightarrow> bool list" where
  "fixed_width_column_nulls c =
     (case c of
        BoundBoolean _ array \<Rightarrow> values_null array
      | BoundUInt8 _ array \<Rightarrow> values_null array
      | BoundInt8 _ array \<Rightarrow> values_null array
      | BoundInt16 _ array \<Rightarrow> values_null array
      | BoundInt32 _ array \<Rightarrow> values_null array
      | BoundUInt16 _ array \<Rightarrow> values_null array
      | BoundInt64 _ array \<Rightarrow> values_null array
      | BoundUInt32 _ array \<Rightarrow> values_null array
      | BoundUInt64 _ array \<Rightarrow> values_null array
      | BoundFloat16 _ array \<Rightarrow> values_null array
      | BoundFloat32 _ array \<Rightarrow> values_null array
      | BoundFloat64 _ array \<Rightarrow> values_null array
      | BoundFixedSizeBinary _ _ array \<Rightarrow> values_null array
      | BoundDate32 _ _ array \<Rightarrow> values_null array
      | BoundDate64 _ _ array \<Rightarrow> values_null array
      | BoundTimestampSecond _ _ array \<Rightarrow> values_null array
      | BoundTimestampMillisecond _ _ array \<Rightarrow> values_null array
      | BoundTimestampMicrosecond _ _ array \<Rightarrow> values_null array
      | BoundTimestampNanosecond _ _ array \<Rightarrow> values_null array
      | BoundTime32Second _ _ array \<Rightarrow> values_null array
      | BoundTime32Millisecond _ _ array \<Rightarrow> values_null array
      | BoundTime64Microsecond _ _ array \<Rightarrow> values_null array
      | BoundTime64Nanosecond _ _ array \<Rightarrow> values_null array
      | BoundDateTimeOffsetSecond _ _ array \<Rightarrow> values_null array
      | BoundDateTimeOffsetMillisecond _ _ array \<Rightarrow> values_null array
      | BoundDateTimeOffsetMicrosecond _ _ array \<Rightarrow> values_null array
      | BoundDateTimeOffsetNanosecond _ _ array \<Rightarrow> values_null array
      | _ \<Rightarrow> [])"

primrec fixed_width_columns_from ::
    "fast_path_flags \<Rightarrow> bound_direct_column list \<Rightarrow> fixed_width_column list option" where
  "fixed_width_columns_from flags [] = Some []"
| "fixed_width_columns_from flags (c # cs) =
     Option.bind (fixed_width_column_parts c) (\<lambda>(plan, mapping).
     Option.bind (fixed_width_non_null_cell_len flags plan) (\<lambda>value_cell_len.
     Option.bind (fixed_width_null_cell_len plan) (\<lambda>null_cell_len.
       map_option ((#) \<lparr>fw_column = c, fw_plan = plan, fw_mapping = mapping,
           fw_non_null_cell_len = value_cell_len, fw_null_cell_len = null_cell_len\<rparr>)
         (fixed_width_columns_from flags cs))))"

definition fixed_width_columns ::
    "fast_path_flags \<Rightarrow> bound_direct_column list \<Rightarrow> fixed_width_column list option" where
  "fixed_width_columns flags cs =
     (if fixed_width_fast_path_disabled flags then None else fixed_width_columns_from flags cs)"

subsection \<open>The row offsets\<close>

record fixed_width_rows_layout =
  fwl_row_token_offsets :: "usize list"
  fwl_current_offsets :: "usize list"
  fwl_payload_len :: usize

definition validate_row_layout_cells :: "row_layout \<Rightarrow> usize \<Rightarrow> error + unit" where
  "validate_row_layout_cells layout column_count =
     and_then (ok_or invalid_payload
         (checked_usize (length (layout_row_token_offsets layout) * column_count))) (\<lambda>expected_cell_count.
       if length (layout_cell_positions layout) \<noteq> expected_cell_count then Err invalid_payload
       else if column_count = 0 then Ok ()
       else
         for_each (\<lambda>(index, cell) _.
             if pos_row cell \<noteq> index div column_count \<or> pos_column cell \<noteq> index mod column_count
             then Err invalid_payload else Ok ())
           (List.enumerate 0 (layout_cell_positions layout)) ())"

definition first_cell_position :: "row_layout \<Rightarrow> usize \<Rightarrow> usize \<Rightarrow> error + cell_position" where
  "first_cell_position layout row_index column_count =
     and_then (ok_or invalid_payload (checked_usize (row_index * column_count))) (\<lambda>cell_index.
       ok_or invalid_payload
         (if cell_index < length (layout_cell_positions layout)
          then Some (layout_cell_positions layout ! cell_index) else None))"

definition rows_layout_from_row_layout :: "row_layout \<Rightarrow> usize \<Rightarrow> error + fixed_width_rows_layout" where
  "rows_layout_from_row_layout layout column_count =
     and_then (validate_row_layout_cells layout column_count) (\<lambda>_.
     and_then
       (if column_count = 0
        then for_each (\<lambda>row_offset offsets.
               map_ok (\<lambda>offset. offsets @ [offset]) (direct_checked_add row_offset ROW_TOKEN_LEN))
             (layout_row_token_offsets layout) []
        else for_each (\<lambda>row_index offsets.
               map_ok (\<lambda>cell. offsets @ [pos_offset cell])
                 (first_cell_position layout row_index column_count))
             [0..<length (layout_row_token_offsets layout)] [])
       (\<lambda>current_offsets.
         Ok \<lparr>fwl_row_token_offsets = layout_row_token_offsets layout,
            fwl_current_offsets = current_offsets, fwl_payload_len = layout_payload_len layout\<rparr>))"

definition first_null_error :: "bool list \<Rightarrow> direct_column_plan \<Rightarrow> error" where
  "first_null_error nulls col =
     direct_conversion_error col
       (case List.find (\<lambda>row. nulls ! row) [0..<length nulls] of None \<Rightarrow> 0 | Some row \<Rightarrow> row)
       NullInNonNullableColumn"

definition is_timestamp_encoding :: "direct_column_encoding \<Rightarrow> bool" where
  "is_timestamp_encoding enc \<longleftrightarrow>
     (case enc of
        EncTemporal c \<Rightarrow>
          c \<notin> {Date32ToDate, Date64ToDateTime2, Time32SecondToTime, Time32MillisecondToTime,
            Time64MicrosecondToTime, Time64NanosecondToTime}
      | _ \<Rightarrow> False)"

definition validate_fixed_width_timestamp_timezone_metadata ::
    "'tz timezone_db \<Rightarrow> bool list \<Rightarrow> schema_mapping \<Rightarrow> direct_column_plan \<Rightarrow> error + unit" where
  "validate_fixed_width_timestamp_timezone_metadata db nulls m col =
     (if \<not> is_timestamp_encoding (plan_encoding col) then Ok ()
      else
        for_each (\<lambda>row_index _.
            if nulls ! row_index then validate_null_timestamp_timezone_metadata db m row_index
            else validate_mapping_timestamp_timezone_metadata db m row_index)
          [0..<length nulls] ())"

definition add_non_nullable_fixed_width_column_lengths ::
    "usize \<Rightarrow> usize list \<Rightarrow> error + usize list" where
  "add_non_nullable_fixed_width_column_lengths value_cell_len row_lengths =
     try_map (\<lambda>row_length. direct_checked_add row_length value_cell_len) row_lengths"

text \<open>\<^verbatim>\<open>array.is_null(row)\<close> panics outside the array; all columns of a batch have its rows.\<close>

definition add_nullable_fixed_width_column_lengths ::
    "bool list \<Rightarrow> usize \<Rightarrow> usize \<Rightarrow> usize list \<Rightarrow> error + usize list" where
  "add_nullable_fixed_width_column_lengths nulls value_cell_len null_cell_len row_lengths =
     try_map (\<lambda>(row_index, row_length).
         direct_checked_add row_length (if nulls ! row_index then null_cell_len else value_cell_len))
       (List.enumerate 0 row_lengths)"

definition measure_fixed_width_column ::
    "'tz timezone_db \<Rightarrow> fixed_width_column \<Rightarrow> usize list \<Rightarrow> error + usize list" where
  "measure_fixed_width_column db c row_lengths =
     (let nulls = fixed_width_column_nulls (fw_column c) in
      and_then
        (case fw_mapping c of
           Some m \<Rightarrow> validate_fixed_width_timestamp_timezone_metadata db nulls m (fw_plan c)
         | None \<Rightarrow> Ok ()) (\<lambda>_.
        if plan_nullable (fw_plan c)
        then add_nullable_fixed_width_column_lengths nulls (fw_non_null_cell_len c)
               (fw_null_cell_len c) row_lengths
        else if list_ex (\<lambda>null. null) nulls then Err (first_null_error nulls (fw_plan c))
        else add_non_nullable_fixed_width_column_lengths (fw_non_null_cell_len c) row_lengths))"

definition measure_fixed_width_rows ::
    "'tz timezone_db \<Rightarrow> usize \<Rightarrow> fixed_width_column list \<Rightarrow> error + fixed_width_rows_layout" where
  "measure_fixed_width_rows db row_count columns =
     and_then (for_each (measure_fixed_width_column db) columns (replicate row_count ROW_TOKEN_LEN))
       (\<lambda>row_lengths.
     and_then
       (for_each (\<lambda>row_length (row_token_offsets, current_offsets, payload_len).
            and_then (direct_checked_add payload_len ROW_TOKEN_LEN) (\<lambda>offset.
            and_then (direct_checked_add payload_len row_length) (\<lambda>next_len.
              Ok (row_token_offsets @ [payload_len], current_offsets @ [offset], next_len))))
          row_lengths ([], [], 0))
       (\<lambda>(row_token_offsets, current_offsets, payload_len).
         Ok \<lparr>fwl_row_token_offsets = row_token_offsets, fwl_current_offsets = current_offsets,
            fwl_payload_len = payload_len\<rparr>))"

subsection \<open>Writing cells at the offsets\<close>

text \<open>One step of a column's row loop: the new bytes and how far the row's offset moves. The loops
  that index \<^verbatim>\<open>current_offsets\<close> run over the array, the ones that iterate over it stop at
  the shorter of the two.\<close>

type_synonym 'a fixed_width_writer = "usize \<Rightarrow> 'a option \<Rightarrow> usize \<Rightarrow> bytes \<Rightarrow> (usize \<times> bytes) run"

definition fill_row :: "'a fixed_width_writer \<Rightarrow> 'a option list \<Rightarrow> usize
    \<Rightarrow> usize list \<times> bytes \<Rightarrow> (usize list \<times> bytes) run" where
  "fill_row write_cell array row_index =
     (\<lambda>(current_offsets, bs).
        run_then (write_cell row_index (array ! row_index) (current_offsets ! row_index) bs)
          (\<lambda>(n, bs). Some (Ok (current_offsets[row_index := current_offsets ! row_index + n], bs))))"

definition fill_offset_rows ::
    "'a fixed_width_writer \<Rightarrow> 'a option list \<Rightarrow> usize list \<Rightarrow> bytes \<Rightarrow> (usize list \<times> bytes) run" where
  "fill_offset_rows write_cell array current_offsets bs =
     run_each (fill_row write_cell array) [0..<min (length current_offsets) (length array)]
       (current_offsets, bs)"

definition fill_indexed_rows ::
    "'a fixed_width_writer \<Rightarrow> 'a option list \<Rightarrow> usize list \<Rightarrow> bytes \<Rightarrow> (usize list \<times> bytes) run" where
  "fill_indexed_rows write_cell array current_offsets bs =
     run_each (\<lambda>row_index (current_offsets, bs).
         if row_index < length current_offsets
         then fill_row write_cell array row_index (current_offsets, bs) else None)
       [0..<length array] (current_offsets, bs)"

text \<open>\<^verbatim>\<open>write_fixed_width_value\<close>; \<^verbatim>\<open>value_len\<close> is the length of the value's array.\<close>

definition write_fixed_width_value ::
    "direct_column_plan \<Rightarrow> u8 \<Rightarrow> ('a \<Rightarrow> bytes) \<Rightarrow> 'a fixed_width_writer" where
  "write_fixed_width_value col value_len value_bytes row v offset bs =
     (if plan_nullable col
      then
        (case v of
           None \<Rightarrow>
             run_then (write_at bs offset [0]) (\<lambda>bs. Some (Ok (CELL_LEN_PREFIX_LEN, bs)))
         | Some x \<Rightarrow>
             run_then (write_at bs offset [value_len]) (\<lambda>bs.
             run_then (write_at bs (offset + CELL_LEN_PREFIX_LEN) (value_bytes x)) (\<lambda>bs.
               Some (Ok (CELL_LEN_PREFIX_LEN + unat value_len, bs)))))
      else
        run_then (write_at bs offset (value_bytes (the v))) (\<lambda>bs. Some (Ok (unat value_len, bs))))"

text \<open>\<^verbatim>\<open>fill_boolean_fixed_width_column\<close> has the same body spelled out.\<close>

definition fill_boolean_fixed_width_column where
  "fill_boolean_fixed_width_column array col =
     fill_offset_rows (write_fixed_width_value col 1 (\<lambda>v. [if v then 1 else 0])) array"

definition fill_uint8_fixed_width_column where
  "fill_uint8_fixed_width_column array col =
     fill_indexed_rows (write_fixed_width_value col 1 (\<lambda>v :: u8. [v])) array"

definition fill_int8_fixed_width_column where
  "fill_int8_fixed_width_column array col =
     fill_indexed_rows (write_fixed_width_value col 2 (\<lambda>v :: i8. le_bytes 2 (unat (scast v :: i16)))) array"

definition fill_int16_fixed_width_column where
  "fill_int16_fixed_width_column array col =
     fill_indexed_rows (write_fixed_width_value col 2 (\<lambda>v :: i16. le_bytes 2 (unat v))) array"

definition fill_int32_fixed_width_column where
  "fill_int32_fixed_width_column array col =
     fill_indexed_rows (write_fixed_width_value col 4 (\<lambda>v :: i32. le_bytes 4 (unat v))) array"

definition fill_uint16_fixed_width_column where
  "fill_uint16_fixed_width_column array col =
     fill_indexed_rows (write_fixed_width_value col 4 (\<lambda>v :: u16. le_bytes 4 (unat (ucast v :: i32)))) array"

definition fill_int64_fixed_width_column where
  "fill_int64_fixed_width_column array col =
     fill_indexed_rows (write_fixed_width_value col 8 (\<lambda>v :: i64. le_bytes 8 (unat v))) array"

definition fill_uint32_fixed_width_column where
  "fill_uint32_fixed_width_column array col =
     fill_indexed_rows (write_fixed_width_value col 8 (\<lambda>v :: u32. le_bytes 8 (unat (ucast v :: i64)))) array"

text \<open>The checked values: a null is written in a nullable column, everything else is converted
  first and written with its length byte when the column has one.\<close>

definition write_checked_value ::
    "direct_column_plan \<Rightarrow> usize \<Rightarrow> (usize \<Rightarrow> 'a \<Rightarrow> error + bytes) \<Rightarrow> 'a fixed_width_writer" where
  "write_checked_value col value_len value_bytes row v offset bs =
     (if plan_nullable col \<and> v = None
      then run_then (write_at bs offset [0]) (\<lambda>bs. Some (Ok (CELL_LEN_PREFIX_LEN, bs)))
      else
        run_then (Some (value_bytes row (the v))) (\<lambda>value.
        if plan_nullable col
        then
          run_then (write_at bs offset [of_nat value_len]) (\<lambda>bs.
          run_then (write_at bs (offset + CELL_LEN_PREFIX_LEN) value) (\<lambda>bs.
            Some (Ok (CELL_LEN_PREFIX_LEN + value_len, bs))))
        else run_then (write_at bs offset value) (\<lambda>bs. Some (Ok (value_len, bs)))))"

definition fill_uint64_checked_bigint_fixed_width_column where
  "fill_uint64_checked_bigint_fixed_width_column array col =
     fill_offset_rows (write_checked_value col 8 (\<lambda>row v. uint64_checked_bigint_bytes v col row)) array"

definition fill_float32_fixed_width_column where
  "fill_float32_fixed_width_column array col =
     fill_offset_rows (write_checked_value col 4 (float32_bytes col)) array"

definition fill_float16_fixed_width_column where
  "fill_float16_fixed_width_column array col =
     fill_offset_rows (write_checked_value col 4 (float32_bytes col)) array"

definition fill_float64_fixed_width_column where
  "fill_float64_fixed_width_column array col =
     fill_offset_rows (write_checked_value col 8 (float64_bytes col)) array"

definition write_fixed_size_binary ::
    "direct_column_plan \<Rightarrow> bool list \<Rightarrow> usize \<Rightarrow> u16 \<Rightarrow> bytes fixed_width_writer" where
  "write_fixed_size_binary col nulls n prefix row v offset bs =
     (case v of
        None \<Rightarrow>
          if \<not> plan_nullable col then Some (Err (first_null_error nulls col))
          else run_then (write_at bs offset (le_bytes 2 0xFFFF)) (\<lambda>bs.
                 Some (Ok (FIXED_SIZE_BINARY_LEN_PREFIX_LEN, bs)))
      | Some x \<Rightarrow>
          if length x \<noteq> n then Some (Err (direct_conversion_error col row ValueTypeMismatch))
          else
            run_then (write_at bs offset (le_bytes 2 (unat prefix))) (\<lambda>bs.
            run_then (write_at bs (offset + FIXED_SIZE_BINARY_LEN_PREFIX_LEN) x) (\<lambda>bs.
              Some (Ok (FIXED_SIZE_BINARY_LEN_PREFIX_LEN + n, bs)))))"

definition fill_fixed_size_binary_fixed_width_column ::
    "bytes option list \<Rightarrow> direct_column_plan \<Rightarrow> fixed_size_binary_conversion \<Rightarrow> usize list \<Rightarrow> bytes
      \<Rightarrow> (usize list \<times> bytes) run" where
  "fill_fixed_size_binary_fixed_width_column array col c current_offsets bs =
     run_then (Some (ok_or invalid_payload (try_unsigned (int (binary_length c))))) (\<lambda>prefix.
       fill_offset_rows (write_fixed_size_binary col (values_null array) (binary_length c) prefix)
         array current_offsets bs)"

text \<open>The temporal loops take the cell's range with \<^verbatim>\<open>get_mut\<close>, which is checked.\<close>

definition write_cell_range ::
    "bytes \<Rightarrow> usize \<Rightarrow> usize \<Rightarrow> (bytes \<Rightarrow> error + bytes) \<Rightarrow> (usize \<times> bytes) run" where
  "write_cell_range bs offset cell_len write =
     (if offset + cell_len > length bs then Some (Err invalid_payload)
      else Some (map_ok (\<lambda>cell. (cell_len, splice bs offset cell))
             (write (take cell_len (drop offset bs)))))"

definition write_temporal_null :: "bytes \<Rightarrow> usize \<Rightarrow> (usize \<times> bytes) run" where
  "write_temporal_null bs offset =
     run_then (write_at bs offset [0]) (\<lambda>bs. Some (Ok (CELL_LEN_PREFIX_LEN, bs)))"

definition write_fixed_width_date32 :: "direct_column_plan \<Rightarrow> i32 fixed_width_writer" where
  "write_fixed_width_date32 col row v offset bs =
     (case v of
        None \<Rightarrow> write_temporal_null bs offset
      | Some x \<Rightarrow>
          run_then (Some (direct_date_from_arrow_date32 col row x)) (\<lambda>value.
            write_cell_range bs offset date_cell_len (\<lambda>cell. write_date_cell cell value)))"

definition write_fixed_width_date64 :: "direct_column_plan \<Rightarrow> i64 fixed_width_writer" where
  "write_fixed_width_date64 col row v offset bs =
     (case v of
        None \<Rightarrow> write_temporal_null bs offset
      | Some x \<Rightarrow>
          run_then (Some (direct_datetime2_from_arrow_date64 col row x)) (\<lambda>value.
          run_then (Some (datetime2_cell_len (time_scale (datetime2_time value)))) (\<lambda>cell_len.
            write_cell_range bs offset cell_len (\<lambda>cell. write_datetime2_cell cell value))))"

definition fill_date32_fixed_width_column where
  "fill_date32_fixed_width_column array col = fill_offset_rows (write_fixed_width_date32 col) array"

definition fill_date64_fixed_width_column where
  "fill_date64_fixed_width_column array col = fill_offset_rows (write_fixed_width_date64 col) array"

datatype fixed_width_timestamp =
    FwDateTime mssql_datetime
  | FwDateTime2 mssql_datetime2

definition timestamp_fixed_width_value ::
    "schema_mapping \<Rightarrow> direct_column_plan \<Rightarrow> usize \<Rightarrow> i64 \<Rightarrow> time_unit \<Rightarrow> nanosecond_policy
      \<Rightarrow> datetime_rounding \<Rightarrow> error + fixed_width_timestamp" where
  "timestamp_fixed_width_value m col row v unit policy rounding =
     (case plan_target_type col of
        MsDateTime \<Rightarrow>
          map_ok FwDateTime
            (case unit of
               Second \<Rightarrow> mssql_datetime_from_arrow_timestamp_second m row v rounding
             | Millisecond \<Rightarrow> mssql_datetime_from_arrow_timestamp_millisecond m row v rounding
             | Microsecond \<Rightarrow> mssql_datetime_from_arrow_timestamp_microsecond m row v rounding
             | Nanosecond \<Rightarrow> mssql_datetime_from_arrow_timestamp_nanosecond m row v policy rounding)
      | MsDateTime2 _ \<Rightarrow>
          map_ok FwDateTime2
            (case unit of
               Second \<Rightarrow> mssql_datetime2_from_arrow_timestamp_second m row v
             | Millisecond \<Rightarrow> mssql_datetime2_from_arrow_timestamp_millisecond m row v
             | Microsecond \<Rightarrow> mssql_datetime2_from_arrow_timestamp_microsecond m row v
             | Nanosecond \<Rightarrow> mssql_datetime2_from_arrow_timestamp_nanosecond m row v policy)
      | _ \<Rightarrow> Err (unsupported_timestamp_target col row))"

definition timestamp_fixed_width_value_len ::
    "direct_column_plan \<Rightarrow> fixed_width_timestamp \<Rightarrow> error + usize" where
  "timestamp_fixed_width_value_len col v =
     (case v of
        FwDateTime _ \<Rightarrow> if plan_nullable col then Ok datetime_cell_len else Ok datetime_payload_len
      | FwDateTime2 v \<Rightarrow> datetime2_cell_len (time_scale (datetime2_time v)))"

definition write_timestamp_fixed_width_value ::
    "bytes \<Rightarrow> direct_column_plan \<Rightarrow> fixed_width_timestamp \<Rightarrow> error + bytes" where
  "write_timestamp_fixed_width_value cell col v =
     (case v of
        FwDateTime v \<Rightarrow>
          if plan_nullable col then write_datetime_cell cell v else write_datetime_payload cell 0 v
      | FwDateTime2 v \<Rightarrow> write_datetime2_cell cell v)"

definition write_fixed_width_timestamp ::
    "'tz timezone_db \<Rightarrow> schema_mapping \<Rightarrow> direct_column_plan
      \<Rightarrow> (usize \<Rightarrow> i64 \<Rightarrow> error + fixed_width_timestamp) \<Rightarrow> i64 fixed_width_writer" where
  "write_fixed_width_timestamp db m col convert row v offset bs =
     (case v of
        None \<Rightarrow>
          run_then (Some (validate_null_timestamp_timezone_metadata db m row)) (\<lambda>_.
            write_temporal_null bs offset)
      | Some x \<Rightarrow>
          run_then (Some (validate_mapping_timestamp_timezone_metadata db m row)) (\<lambda>_.
          run_then (Some (convert row x)) (\<lambda>value.
          run_then (Some (timestamp_fixed_width_value_len col value)) (\<lambda>cell_len.
            write_cell_range bs offset cell_len (\<lambda>cell. write_timestamp_fixed_width_value cell col value)))))"

definition fill_timestamp_fixed_width_column ::
    "'tz timezone_db \<Rightarrow> i64 option list \<Rightarrow> schema_mapping \<Rightarrow> direct_column_plan
      \<Rightarrow> time_unit \<Rightarrow> runtime_context \<Rightarrow> usize list \<Rightarrow> bytes \<Rightarrow> (usize list \<times> bytes) run" where
  "fill_timestamp_fixed_width_column db array m col unit rt =
     fill_offset_rows (write_fixed_width_timestamp db m col (\<lambda>row v.
         timestamp_fixed_width_value m col row v unit (context_nanosecond_policy rt)
           (context_datetime_rounding rt)))
       array"

definition write_fixed_width_time ::
    "(usize \<Rightarrow> 'a \<Rightarrow> error + mssql_time) \<Rightarrow> 'a fixed_width_writer" where
  "write_fixed_width_time convert row v offset bs =
     (case v of
        None \<Rightarrow> write_temporal_null bs offset
      | Some x \<Rightarrow>
          run_then (Some (convert row x)) (\<lambda>value.
          run_then (Some (time_cell_len (time_scale value))) (\<lambda>cell_len.
            write_cell_range bs offset cell_len (\<lambda>cell. write_time_cell cell value))))"

definition fill_time_fixed_width_column ::
    "'a option list \<Rightarrow> (usize \<Rightarrow> 'a \<Rightarrow> error + mssql_time) \<Rightarrow> usize list \<Rightarrow> bytes
      \<Rightarrow> (usize list \<times> bytes) run" where
  "fill_time_fixed_width_column array convert = fill_offset_rows (write_fixed_width_time convert) array"

definition write_fixed_width_datetimeoffset ::
    "'tz timezone_db \<Rightarrow> schema_mapping \<Rightarrow> (usize \<Rightarrow> 'a \<Rightarrow> error + mssql_datetimeoffset)
      \<Rightarrow> 'a fixed_width_writer" where
  "write_fixed_width_datetimeoffset db m convert row v offset bs =
     (case v of
        None \<Rightarrow>
          run_then (Some (validate_null_timestamp_timezone_metadata db m row)) (\<lambda>_.
            write_temporal_null bs offset)
      | Some x \<Rightarrow>
          run_then (Some (validate_mapping_timestamp_timezone_metadata db m row)) (\<lambda>_.
          run_then (Some (convert row x)) (\<lambda>value.
          run_then (Some (datetimeoffset_cell_len (time_scale (datetime2_time (dto_datetime2 value)))))
            (\<lambda>cell_len.
            write_cell_range bs offset cell_len (\<lambda>cell. write_datetimeoffset_cell cell value)))))"

definition fill_datetimeoffset_fixed_width_column ::
    "'tz timezone_db \<Rightarrow> 'a option list \<Rightarrow> schema_mapping
      \<Rightarrow> (usize \<Rightarrow> 'a \<Rightarrow> error + mssql_datetimeoffset) \<Rightarrow> usize list \<Rightarrow> bytes
      \<Rightarrow> (usize list \<times> bytes) run" where
  "fill_datetimeoffset_fixed_width_column db array m convert =
     fill_offset_rows (write_fixed_width_datetimeoffset db m convert) array"

subsection \<open>Encoding\<close>

text \<open>\<^verbatim>\<open>Ok(None)\<close> of a column that is not fixed-width: the loop's result is an option.\<close>

definition fill_fixed_width_column ::
    "'tz timezone_db \<Rightarrow> runtime_context \<Rightarrow> bound_direct_column \<Rightarrow> usize list \<Rightarrow> bytes
      \<Rightarrow> (usize list \<times> bytes) run option" where
  "fill_fixed_width_column db rt c current_offsets bs =
     (case c of
        BoundBoolean col array \<Rightarrow>
          Some (fill_boolean_fixed_width_column array col current_offsets bs)
      | BoundUInt8 col array \<Rightarrow>
          Some (fill_uint8_fixed_width_column array col current_offsets bs)
      | BoundInt8 col array \<Rightarrow>
          Some (fill_int8_fixed_width_column array col current_offsets bs)
      | BoundInt16 col array \<Rightarrow>
          Some (fill_int16_fixed_width_column array col current_offsets bs)
      | BoundInt32 col array \<Rightarrow>
          Some (fill_int32_fixed_width_column array col current_offsets bs)
      | BoundUInt16 col array \<Rightarrow>
          Some (fill_uint16_fixed_width_column array col current_offsets bs)
      | BoundInt64 col array \<Rightarrow>
          Some (fill_int64_fixed_width_column array col current_offsets bs)
      | BoundUInt32 col array \<Rightarrow>
          Some (fill_uint32_fixed_width_column array col current_offsets bs)
      | BoundUInt64 col array \<Rightarrow>
          Some (fill_uint64_checked_bigint_fixed_width_column array col current_offsets bs)
      | BoundFloat16 col array \<Rightarrow>
          Some (fill_float16_fixed_width_column array col current_offsets bs)
      | BoundFloat32 col array \<Rightarrow>
          Some (fill_float32_fixed_width_column array col current_offsets bs)
      | BoundFloat64 col array \<Rightarrow>
          Some (fill_float64_fixed_width_column array col current_offsets bs)
      | BoundFixedSizeBinary col c array \<Rightarrow>
          Some (fill_fixed_size_binary_fixed_width_column array col c current_offsets bs)
      | BoundDate32 col _ array \<Rightarrow>
          Some (fill_date32_fixed_width_column array col current_offsets bs)
      | BoundDate64 col _ array \<Rightarrow>
          Some (fill_date64_fixed_width_column array col current_offsets bs)
      | BoundTimestampSecond col m array \<Rightarrow>
          Some (fill_timestamp_fixed_width_column db array m col Second rt current_offsets bs)
      | BoundTimestampMillisecond col m array \<Rightarrow>
          Some (fill_timestamp_fixed_width_column db array m col Millisecond rt current_offsets bs)
      | BoundTimestampMicrosecond col m array \<Rightarrow>
          Some (fill_timestamp_fixed_width_column db array m col Microsecond rt current_offsets bs)
      | BoundTimestampNanosecond col m array \<Rightarrow>
          Some (fill_timestamp_fixed_width_column db array m col Nanosecond rt current_offsets bs)
      | BoundTime32Second _ m array \<Rightarrow>
          Some (fill_time_fixed_width_column array (\<lambda>row v.
            mssql_time_from_arrow_time32_second m row v) current_offsets bs)
      | BoundTime32Millisecond _ m array \<Rightarrow>
          Some (fill_time_fixed_width_column array (\<lambda>row v.
            mssql_time_from_arrow_time32_millisecond m row v) current_offsets bs)
      | BoundTime64Microsecond _ m array \<Rightarrow>
          Some (fill_time_fixed_width_column array (\<lambda>row v.
            mssql_time_from_arrow_time64_microsecond m row v) current_offsets bs)
      | BoundTime64Nanosecond _ m array \<Rightarrow>
          Some (fill_time_fixed_width_column array (\<lambda>row v.
            mssql_time_from_arrow_time64_nanosecond m row v (context_nanosecond_policy rt)) current_offsets bs)
      | BoundDateTimeOffsetSecond _ m array \<Rightarrow>
          Some (fill_datetimeoffset_fixed_width_column db array m (\<lambda>row v.
            datetimeoffset_second_value db m row v) current_offsets bs)
      | BoundDateTimeOffsetMillisecond _ m array \<Rightarrow>
          Some (fill_datetimeoffset_fixed_width_column db array m (\<lambda>row v.
            datetimeoffset_millisecond_value db m row v) current_offsets bs)
      | BoundDateTimeOffsetMicrosecond _ m array \<Rightarrow>
          Some (fill_datetimeoffset_fixed_width_column db array m (\<lambda>row v.
            datetimeoffset_microsecond_value db m row v) current_offsets bs)
      | BoundDateTimeOffsetNanosecond _ m array \<Rightarrow>
          Some (fill_datetimeoffset_fixed_width_column db array m (\<lambda>row v.
            datetimeoffset_nanosecond_value db m row v (context_nanosecond_policy rt)) current_offsets bs)
      | _ \<Rightarrow> None)"

primrec fill_fixed_width_columns ::
    "'tz timezone_db \<Rightarrow> runtime_context \<Rightarrow> fixed_width_column list \<Rightarrow> usize list \<times> bytes
      \<Rightarrow> bytes option run" where
  "fill_fixed_width_columns db rt [] s = Some (Ok (Some (snd s)))"
| "fill_fixed_width_columns db rt (c # cs) s =
     (case fill_fixed_width_column db rt (fw_column c) (fst s) (snd s) of
        None \<Rightarrow> Some (Ok None)
      | Some r \<Rightarrow> run_then r (fill_fixed_width_columns db rt cs))"

definition encode_fixed_width_rows ::
    "'tz timezone_db \<Rightarrow> fixed_width_column list \<Rightarrow> fixed_width_rows_layout \<Rightarrow> runtime_context
      \<Rightarrow> encoded_rows_payload option run" where
  "encode_fixed_width_rows db columns layout rt =
     run_then
       (run_each (\<lambda>row_offset bs. write_at bs row_offset [TDS_ROW_TOKEN]) (fwl_row_token_offsets layout)
         (replicate (fwl_payload_len layout) 0)) (\<lambda>bs.
     run_then (fill_fixed_width_columns db rt columns (fwl_current_offsets layout, bs)) (\<lambda>filled.
       case filled of
         None \<Rightarrow> Some (Ok None)
       | Some bs \<Rightarrow>
           Some (map_ok Some (encoded_rows_payload_new bs (fwl_row_token_offsets layout)))))"

definition try_encode_fixed_width_rows ::
    "fast_path_flags \<Rightarrow> 'tz timezone_db \<Rightarrow> bound_direct_batch \<Rightarrow> encoded_rows_payload option run" where
  "try_encode_fixed_width_rows flags db b =
     (if bound_row_count b = 0 then Some (map_ok Some (encoded_rows_payload_new [] []))
      else
        (case fixed_width_columns flags (bound_columns b) of
           None \<Rightarrow> Some (Ok None)
         | Some columns \<Rightarrow>
             run_then (Some (measure_fixed_width_rows db (bound_row_count b) columns)) (\<lambda>layout.
               encode_fixed_width_rows db columns layout (bound_context b))))"

definition try_encode_fixed_width_rows_with_layout ::
    "fast_path_flags \<Rightarrow> 'tz timezone_db \<Rightarrow> bound_direct_batch \<Rightarrow> row_layout
      \<Rightarrow> encoded_rows_payload option run" where
  "try_encode_fixed_width_rows_with_layout flags db b layout =
     (if bound_row_count b = 0 then Some (map_ok Some (encoded_rows_payload_new [] []))
      else if length (layout_row_token_offsets layout) \<noteq> bound_row_count b then Some (Err invalid_payload)
      else
        (case fixed_width_columns flags (bound_columns b) of
           None \<Rightarrow> Some (Ok None)
         | Some columns \<Rightarrow>
             run_then (Some (rows_layout_from_row_layout layout (length (bound_columns b)))) (\<lambda>layout.
               encode_fixed_width_rows db columns layout (bound_context b))))"

end
