(* ===== verification/FastPath.thy ===== *)
theory FastPath
  imports FixedWidth
begin

text \<open>
  The fast path of \<^verbatim>\<open>src/write/direct/rows/fixed_width.rs\<close> computes what the general path
  computes. Each writer keeps the contract \<^verbatim>\<open>fixed_width_codec\<close>: it writes the cell of the
  column types at the row's offset and advances by its length, which depends on the column and on
  whether the value is null only. From it follow the row loops, the measured offsets and the
  filled payload.
\<close>

subsection \<open>Runs\<close>

lemma run_then_simps [simp]:
  "run_then (Some (Inr x)) f = f x" "run_then (Some (Inl e)) f = Some (Inl e)" "run_then None f = None"
  by (simp_all add: run_then_def)

lemma run_then_end [simp]: "run_then r (run_each body []) = r" "run_then r (\<lambda>s. Some (Inr s)) = r"
  by (auto simp: run_then_def split: option.splits sum.splits)

lemma run_each_append [simp]:
  "run_each body (xs @ ys) s = run_then (run_each body xs s) (run_each body ys)"
proof (induction xs arbitrary: s)
  case (Cons x xs)
  show ?case
  proof (cases "body x s")
    case (Some r)
    then show ?thesis by (cases r) (simp_all add: Cons.IH)
  qed simp
qed simp

definition fill_at :: "(usize \<times> bytes) list \<Rightarrow> bytes \<Rightarrow> bytes" where
  "fill_at ws bs = fold (\<lambda>(offset, c) bs. splice bs offset c) ws bs"

lemma length_fill_at:
  "\<forall>(offset, c) \<in> set ws. offset + length c \<le> length bs \<Longrightarrow> length (fill_at ws bs) = length bs"
  by (induction ws arbitrary: bs) (auto simp: fill_at_def)

lemma fill_at_cells:
  "length ps = length cells \<Longrightarrow> fill_at (zip (map pos_offset ps) cells) bs = fill_cells (zip ps cells) bs"
  by (induction ps cells arbitrary: bs rule: list_induct2) (simp_all add: fill_at_def fill_cells_def)

text \<open>The offsets after a column: each row has moved on by its cell.\<close>

definition advance :: "usize list \<Rightarrow> bytes list \<Rightarrow> usize list" where
  "advance offsets cells = map2 (\<lambda>offset c. offset + length c) offsets cells"

lemma advance_simps [simp]:
  "length (advance offsets cells) = min (length offsets) (length cells)"
  "row < length offsets \<Longrightarrow> row < length cells \<Longrightarrow> advance offsets cells ! row = offsets ! row + length (cells ! row)"
  by (simp_all add: advance_def)

subsection \<open>The contract of a writer\<close>

locale fixed_width_codec =
  fixes write_cell :: "'a fixed_width_writer"
    and cell_at :: "usize \<Rightarrow> 'a option \<Rightarrow> error + bytes"
    and nullable :: bool and value_cell_len null_cell_len :: usize
  assumes write_cell: "cell_at row v = Ok c \<Longrightarrow> offset + length c \<le> length bs \<Longrightarrow>
      write_cell row v offset bs = Some (Ok (length c, splice bs offset c))"
    and cell_len: "cell_at row v = Ok c \<Longrightarrow> length c = (if v = None then null_cell_len else value_cell_len)"
    and null_cell: "cell_at row None = Ok c \<Longrightarrow> nullable"
begin

lemma fill_prefix:
  assumes cells: "column_cells cell_at array = Ok cells" and len: "length offsets = length array"
    and fits: "\<forall>row < length cells. offsets ! row + length (cells ! row) \<le> length bs"
    and k: "k \<le> length array"
  shows "run_each (fill_row write_cell array) [0..<k] (offsets, bs)
    = Some (Ok (take k (advance offsets cells) @ drop k offsets, fill_at (take k (zip offsets cells)) bs))"
  using k
proof (induction k)
  case (Suc k)
  from cells have nth: "length cells = length array" "cell_at k (array ! k) = Ok (cells ! k)"
    using Suc.prems by (auto simp: column_cells_def try_map_Inr)
  let ?bs = "fill_at (take k (zip offsets cells)) bs" and ?os = "take k (advance offsets cells) @ drop k offsets"
  have "\<forall>(offset, c) \<in> set (take k (zip offsets cells)). offset + length c \<le> length bs"
    using fits len nth(1) by (auto simp: in_set_conv_nth)
  then have "length ?bs = length bs" by (rule length_fill_at)
  with nth(2) fits Suc.prems nth(1)
  have step: "write_cell k (array ! k) (offsets ! k) ?bs
      = Some (Ok (length (cells ! k), splice ?bs (offsets ! k) (cells ! k)))"
    by (intro write_cell) simp_all
  have os: "?os ! k = offsets ! k" "?os[k := offsets ! k + length (cells ! k)]
      = take (Suc k) (advance offsets cells) @ drop (Suc k) offsets"
    using Suc.prems len nth(1)
    by (simp_all add: nth_append take_Suc_conv_app_nth list_update_append upd_conv_take_nth_drop
        flip: Cons_nth_drop_Suc)
  have "fill_row write_cell array k (?os, ?bs)
      = Some (Ok (take (Suc k) (advance offsets cells) @ drop (Suc k) offsets,
          fill_at (take (Suc k) (zip offsets cells)) bs))"
    using step os Suc.prems len nth(1)
    by (simp add: fill_row_def fill_at_def take_Suc_conv_app_nth)
  with Suc show ?case by simp
qed (simp add: fill_at_def)

lemma fill_offset_rows:
  assumes "column_cells cell_at array = Ok cells" "length offsets = length array"
    and "\<forall>row < length cells. offsets ! row + length (cells ! row) \<le> length bs"
  shows "fill_offset_rows write_cell array offsets bs
    = Some (Ok (advance offsets cells, fill_at (zip offsets cells) bs))"
proof -
  have "length cells = length array" using assms(1) by (simp add: column_cells_def try_map_Inr)
  with fill_prefix [OF assms, of "length array"] assms(2) show ?thesis
    by (simp add: fill_offset_rows_def)
qed

lemma fill_indexed_rows:
  assumes "column_cells cell_at array = Ok cells" "length offsets = length array"
    and "\<forall>row < length cells. offsets ! row + length (cells ! row) \<le> length bs"
  shows "fill_indexed_rows write_cell array offsets bs
    = Some (Ok (advance offsets cells, fill_at (zip offsets cells) bs))"
proof -
  have len: "length cells = length array" using assms(1) by (simp add: column_cells_def try_map_Inr)
  let ?body = "\<lambda>row (offsets, bs). if row < length offsets
      then fill_row write_cell array row (offsets, bs) else None"
  have "run_each ?body [0..<k] (offsets, bs) = run_each (fill_row write_cell array) [0..<k] (offsets, bs)"
    if "k \<le> length array" for k
    using that
  proof (induction k)
    case (Suc k)
    with fill_prefix [OF assms, of k] assms(2) len show ?case by simp
  qed simp
  from this [of "length array"] fill_prefix [OF assms, of "length array"] assms(2) len show ?thesis
    by (simp add: fill_indexed_rows_def)
qed

lemma uniform_lengths:
  assumes "column_cells cell_at array = Ok cells" "row < length cells"
  shows "length (cells ! row) = (if values_null array ! row then null_cell_len else value_cell_len)"
    and "values_null array ! row \<Longrightarrow> nullable"
proof -
  from assms have row: "row < length array" "cell_at row (array ! row) = Ok (cells ! row)"
    by (auto simp: column_cells_def try_map_Inr)
  with cell_len [OF row(2)] show "length (cells ! row)
      = (if values_null array ! row then null_cell_len else value_cell_len)"
    by (simp add: nth_values_null)
  show "values_null array ! row \<Longrightarrow> nullable"
    using row null_cell [of row "cells ! row"] by (simp add: nth_values_null)
qed

end

text \<open>The checked write, and the two plain writers of the numbers.\<close>

lemma write_at_fits [simp]: "offset + length xs \<le> length bs \<Longrightarrow> write_at bs offset xs = Some (Ok (splice bs offset xs))"
  by (simp add: write_at_def)

lemma splice_prefixed:
  "offset + length xs < length bs \<Longrightarrow> splice (splice bs offset [p]) (Suc offset) xs = splice bs offset (p # xs)"
  by (rule nth_equalityI) (auto simp: nth_splice nth_Cons')

lemma plain_codec:
  assumes "\<And>row x. value_bytes row x = Ok (bytes_of x)" "\<And>x. length (bytes_of x) = k" "unat n = k"
  shows "fixed_width_codec (write_fixed_width_value col n bytes_of) (primitive_cell_at col value_bytes)
    (plan_nullable col) (if plan_nullable col then Suc k else k) 1"
proof
  have n: "word_of_nat k = n" using assms(3) by auto
  fix row v c offset and bs :: bytes
  assume c: "primitive_cell_at col value_bytes row v = Ok c"
  then consider (null) "v = None" "plan_nullable col" "c = [0]"
    | (bytes) x where "v = Some x" "c = (if plan_nullable col then n # bytes_of x else bytes_of x)"
    using assms(1,2) n by (cases v) (auto simp: primitive_cell_at_def split: if_splits)
  note c_cases = this
  from c_cases show "length c = (if v = None then 1 else if plan_nullable col then Suc k else k)"
    by cases (simp_all add: assms(2))
  assume fits: "offset + length c \<le> length bs"
  from c_cases show "write_fixed_width_value col n bytes_of row v offset bs
      = Some (Ok (length c, splice bs offset c))"
  proof cases
    case null
    with fits show ?thesis by (simp add: write_fixed_width_value_def CELL_LEN_PREFIX_LEN_def)
  next
    case bytes
    with fits show ?thesis
      by (cases "plan_nullable col")
        (simp_all add: write_fixed_width_value_def CELL_LEN_PREFIX_LEN_def assms(2,3) splice_prefixed)
  qed
next
  fix row c
  assume "primitive_cell_at col value_bytes row None = Ok c"
  then show "plan_nullable col" by (simp add: primitive_cell_at_def split: if_splits)
qed

lemma checked_codec:
  assumes "\<And>row x b. value_bytes row x = Ok b \<Longrightarrow> length b = n" "n < 256"
  shows "fixed_width_codec (write_checked_value col n value_bytes) (primitive_cell_at col value_bytes)
    (plan_nullable col) (if plan_nullable col then Suc n else n) 1"
proof
  fix row v c offset and bs :: bytes
  assume c: "primitive_cell_at col value_bytes row v = Ok c"
  then consider (null) "v = None" "plan_nullable col" "c = [0]"
    | (bytes) x b where "v = Some x" "value_bytes row x = Ok b" "length b = n"
        "c = (if plan_nullable col then of_nat n # b else b)"
    using assms(1) by (cases v) (auto simp: primitive_cell_at_def map_ok_Inr split: if_splits)
  note c_cases = this
  from c_cases show "length c = (if v = None then 1 else if plan_nullable col then Suc n else n)"
    by cases simp_all
  assume fits: "offset + length c \<le> length bs"
  from c_cases show "write_checked_value col n value_bytes row v offset bs
      = Some (Ok (length c, splice bs offset c))"
  proof cases
    case null
    with fits show ?thesis by (simp add: write_checked_value_def CELL_LEN_PREFIX_LEN_def)
  next
    case bytes
    with fits show ?thesis
      by (cases "plan_nullable col")
        (simp_all add: write_checked_value_def CELL_LEN_PREFIX_LEN_def splice_prefixed)
  qed
next
  fix row c
  assume "primitive_cell_at col value_bytes row None = Ok c"
  then show "plan_nullable col" by (simp add: primitive_cell_at_def split: if_splits)
qed

interpretation boolean_writer: fixed_width_codec "write_fixed_width_value col 1 (\<lambda>v. [if v then 1 else 0])"
  "primitive_cell_at col boolean_bytes" "plan_nullable col" "if plan_nullable col then Suc 1 else 1" 1 for col
  by (rule plain_codec) (simp_all add: boolean_bytes_def)

interpretation int32_writer: fixed_width_codec "write_fixed_width_value col 4 (\<lambda>v. le_bytes 4 (unat v))"
  "primitive_cell_at col int32_bytes" "plan_nullable col" "if plan_nullable col then Suc 4 else 4" 1 for col
  by (rule plain_codec) (simp_all add: int32_bytes_def)

interpretation uint64_writer: fixed_width_codec
  "write_checked_value col 8 (\<lambda>row v. uint64_checked_bigint_bytes v col row)"
  "primitive_cell_at col (\<lambda>row v. uint64_checked_bigint_bytes v col row)" "plan_nullable col"
  "if plan_nullable col then Suc 8 else 8" 1 for col
  by (rule checked_codec) (auto simp: uint64_checked_bigint_bytes_def split: option.splits)

lemma fixed_size_binary_codec:
  assumes "n < 65536"
  shows "fixed_width_codec (write_fixed_size_binary col nulls n (of_nat n)) (fixed_binary_cell_at col n)
    (plan_nullable col) (n + 2) 2"
proof
  fix row v c offset and bs :: bytes
  assume c: "fixed_binary_cell_at col n row v = Ok c"
  then consider (null) "v = None" "plan_nullable col" "c = le_bytes 2 0xFFFF"
    | (bytes) x where "v = Some x" "length x = n" "c = le_bytes 2 n @ x"
    by (cases v) (auto simp: fixed_binary_cell_at_def null_in_non_nullable_def split: if_splits)
  note c_cases = this
  from c_cases show "length c = (if v = None then 2 else n + 2)" by cases simp_all
  assume fits: "offset + length c \<le> length bs"
  from c_cases show "write_fixed_size_binary col nulls n (of_nat n) row v offset bs
      = Some (Ok (length c, splice bs offset c))"
  proof cases
    case null
    with fits show ?thesis
      by (simp add: write_fixed_size_binary_def FIXED_SIZE_BINARY_LEN_PREFIX_LEN_def)
  next
    case bytes
    have "splice (splice bs offset (le_bytes 2 n)) (offset + 2) x = splice bs offset (le_bytes 2 n @ x)"
      using fits bytes by (intro nth_equalityI) (auto simp: nth_splice nth_append)
    moreover have "unat (word_of_nat n :: u16) = n"
      using assms by (simp add: unat_of_nat)
    ultimately show ?thesis using fits bytes
      by (simp add: write_fixed_size_binary_def FIXED_SIZE_BINARY_LEN_PREFIX_LEN_def)
  qed
next
  fix row c
  assume "fixed_binary_cell_at col n row None = Ok c"
  then show "plan_nullable col"
    by (simp add: fixed_binary_cell_at_def null_in_non_nullable_def split: if_splits)
qed

text \<open>The temporal writers.\<close>

lemma write_cell_range_fits:
  assumes "\<And>dst. length dst = length c \<Longrightarrow> write dst = Ok c" "offset + length c \<le> length bs"
  shows "write_cell_range bs offset (length c) write = Some (Ok (length c, splice bs offset c))"
  using assms by (simp add: write_cell_range_def)

lemma temporal_codec:
  assumes reader: "temporal_reader read"
    and null: "\<And>row offset bs. validate_null_timestamp_timezone_metadata db m row = Ok () \<Longrightarrow>
      offset < length bs \<Longrightarrow> write_cell row None offset bs = Some (Ok (1, splice bs offset [0]))"
    and val: "\<And>row x v offset bs. validate_mapping_timestamp_timezone_metadata db m row = Ok () \<Longrightarrow>
      read row x = Ok v \<Longrightarrow> valid_temporal v \<Longrightarrow>
      temporal_value_cell_len col v = Ok (length (temporal_wire col v)) \<Longrightarrow>
      offset + length (temporal_wire col v) \<le> length bs \<Longrightarrow>
      write_cell row (Some x) offset bs
        = Some (Ok (length (temporal_wire col v), splice bs offset (temporal_wire col v)))"
    and len: "\<And>row x v. read row x = Ok v \<Longrightarrow> temporal_value_cell_len col v = Ok n"
  shows "fixed_width_codec write_cell (temporal_cell_at db m col read) (plan_nullable col) n 1"
proof
  fix row v c offset and bs :: bytes
  assume "temporal_cell_at db m col read row v = Ok c"
  then consider (null) "v = None" "validate_null_timestamp_timezone_metadata db m row = Ok ()"
      "plan_nullable col" "c = [0]"
    | (val) x u where "v = Some x" "validate_mapping_timestamp_timezone_metadata db m row = Ok ()"
      "read row x = Ok u" "valid_temporal u" "c = temporal_wire col u"
    using temporal_reader.valid [OF reader]
    by (cases v) (auto simp: temporal_cell_at_def result_simps split: if_splits)
  note c_cases = this
  from c_cases show "length c = (if v = None then 1 else n)"
  proof cases
    case val
    with len [of row x u] temporal_wire_len [of u col] show ?thesis by simp
  qed simp
  assume "offset + length c \<le> length bs"
  with c_cases show "write_cell row v offset bs = Some (Ok (length c, splice bs offset c))"
    by cases (simp_all add: null assms(3) temporal_wire_len)
next
  fix row c
  assume "temporal_cell_at db m col read row None = Ok c"
  then show "plan_nullable col" by (auto simp: temporal_cell_at_def result_simps split: if_splits)
qed

lemma temporal_null_fits: "offset < length bs \<Longrightarrow> write_temporal_null bs offset = Some (Ok (1, splice bs offset [0]))"
  by (simp add: write_temporal_null_def CELL_LEN_PREFIX_LEN_def)

text \<open>The writes of the five kinds of values.\<close>

lemma write_value_fits:
  assumes "valid_temporal v" "offset + length (temporal_wire col v) \<le> length bs"
  shows "v = TvDate d \<Longrightarrow> write_cell_range bs offset date_cell_len (\<lambda>cell. write_date_cell cell d)
      = Some (Ok (length (temporal_wire col v), splice bs offset (temporal_wire col v)))"
    and "v = TvTime t \<Longrightarrow> time_cell_len (time_scale t) = Ok n \<Longrightarrow>
      write_cell_range bs offset n (\<lambda>cell. write_time_cell cell t)
        = Some (Ok (length (temporal_wire col v), splice bs offset (temporal_wire col v)))"
    and "v = TvDateTime2 c \<Longrightarrow> datetime2_cell_len (time_scale (datetime2_time c)) = Ok n \<Longrightarrow>
      write_cell_range bs offset n (\<lambda>cell. write_datetime2_cell cell c)
        = Some (Ok (length (temporal_wire col v), splice bs offset (temporal_wire col v)))"
    and "v = TvDateTime e \<Longrightarrow> temporal_value_cell_len col v = Ok n \<Longrightarrow>
      write_cell_range bs offset n (\<lambda>cell. write_timestamp_fixed_width_value cell col (FwDateTime e))
        = Some (Ok (length (temporal_wire col v), splice bs offset (temporal_wire col v)))"
    and "v = TvDateTimeOffset z \<Longrightarrow>
      datetimeoffset_cell_len (time_scale (datetime2_time (dto_datetime2 z))) = Ok n \<Longrightarrow>
      write_cell_range bs offset n (\<lambda>cell. write_datetimeoffset_cell cell z)
        = Some (Ok (length (temporal_wire col v), splice bs offset (temporal_wire col v)))"
proof -
  note put = write_cell_range_fits [OF _ assms(2)]
  note len = temporal_wire_len [OF assms(1), of col]
  note defs = valid_temporal_def temporal_wire_def temporal_payload_def bare_temporal_def
  show "v = TvDate d \<Longrightarrow> write_cell_range bs offset date_cell_len (\<lambda>cell. write_date_cell cell d)
      = Some (Ok (length (temporal_wire col v), splice bs offset (temporal_wire col v)))"
    using put [of "\<lambda>cell. write_date_cell cell d"] len assms(1)
    by (simp add: date_codec.write_cell defs temporal_value_cell_len_def)
  show "v = TvTime t \<Longrightarrow> time_cell_len (time_scale t) = Ok n \<Longrightarrow>
      write_cell_range bs offset n (\<lambda>cell. write_time_cell cell t)
        = Some (Ok (length (temporal_wire col v), splice bs offset (temporal_wire col v)))"
    using put [of "\<lambda>cell. write_time_cell cell t"] len assms(1)
    by (simp add: time_codec.write_cell defs temporal_value_cell_len_def time_cell_len_for_value_def)
  show "v = TvDateTime2 c \<Longrightarrow> datetime2_cell_len (time_scale (datetime2_time c)) = Ok n \<Longrightarrow>
      write_cell_range bs offset n (\<lambda>cell. write_datetime2_cell cell c)
        = Some (Ok (length (temporal_wire col v), splice bs offset (temporal_wire col v)))"
    using put [of "\<lambda>cell. write_datetime2_cell cell c"] len assms(1)
    by (simp add: datetime2_codec.write_cell defs temporal_value_cell_len_def datetime2_cell_len_for_value_def)
  show "v = TvDateTime e \<Longrightarrow> temporal_value_cell_len col v = Ok n \<Longrightarrow>
      write_cell_range bs offset n (\<lambda>cell. write_timestamp_fixed_width_value cell col (FwDateTime e))
        = Some (Ok (length (temporal_wire col v), splice bs offset (temporal_wire col v)))"
    using put [of "\<lambda>cell. write_timestamp_fixed_width_value cell col (FwDateTime e)"] len assms(1)
    by (simp add: datetime_codec.write_cell defs temporal_value_cell_len_def
        write_timestamp_fixed_width_value_def write_datetime_payload_eq)
  show "v = TvDateTimeOffset z \<Longrightarrow>
      datetimeoffset_cell_len (time_scale (datetime2_time (dto_datetime2 z))) = Ok n \<Longrightarrow>
      write_cell_range bs offset n (\<lambda>cell. write_datetimeoffset_cell cell z)
        = Some (Ok (length (temporal_wire col v), splice bs offset (temporal_wire col v)))"
    using put [of "\<lambda>cell. write_datetimeoffset_cell cell z"] len assms(1)
    by (simp add: datetimeoffset_codec.write_cell defs temporal_value_cell_len_def
        datetimeoffset_cell_len_for_value_def)
qed

text \<open>The values of a temporal column have the scale of its target.\<close>

lemma time_scales:
  "mssql_time_from_arrow_time32_second m row v = Ok t \<Longrightarrow> time_scale t = 0"
  "mssql_time_from_arrow_time32_millisecond m row v = Ok t \<Longrightarrow> time_scale t = 3"
  "mssql_time_from_arrow_time64_microsecond m row w = Ok t \<Longrightarrow> time_scale t = 6"
  "mssql_time_from_arrow_time64_nanosecond m row w policy = Ok t \<Longrightarrow> time_scale t = 7"
  by (auto simp: time_conversions mssql_time_from_i64_def mssql_time_from_nanoseconds_def mssql_time_new_def
      result_simps time_constants split: if_splits)

lemma date64_scale:
  "direct_datetime2_from_arrow_date64 col row w = Ok c \<Longrightarrow> time_scale (datetime2_time c) = 3"
  by (auto simp: direct_datetime2_from_arrow_date64_def Let_def cell_new_defs time_constants split: if_splits)

lemma datetime2_scale_at:
  "mssql_datetime2_from_unix_epoch_100ns_ticks_at_scale m row ticks p = Ok c
    \<Longrightarrow> time_scale (datetime2_time c) = p"
  by (auto simp: mssql_datetime2_from_unix_epoch_100ns_ticks_at_scale_def Let_def cell_new_defs
      result_simps split: if_splits)

lemma datetime2_scales:
  assumes "target_type m = MsDateTime2 p"
  shows "mssql_datetime2_from_arrow_timestamp_second m row w = Ok c \<Longrightarrow> time_scale (datetime2_time c) = p"
    and "mssql_datetime2_from_arrow_timestamp_millisecond m row w = Ok c \<Longrightarrow> time_scale (datetime2_time c) = p"
    and "mssql_datetime2_from_arrow_timestamp_microsecond m row w = Ok c \<Longrightarrow> time_scale (datetime2_time c) = p"
    and "mssql_datetime2_from_arrow_timestamp_nanosecond m row w policy = Ok c \<Longrightarrow> time_scale (datetime2_time c) = p"
  using assms
  by (auto simp: datetime2_conversions mssql_datetime2_from_arrow_timestamp_ticks_def result_simps
      target_datetime2_timestamp_scale_def split: if_splits dest: datetime2_scale_at)

lemma datetimeoffset_scales:
  "datetimeoffset_second_value db m row v = Ok z \<Longrightarrow> time_scale (datetime2_time (dto_datetime2 z)) = 7"
  "datetimeoffset_millisecond_value db m row v = Ok z \<Longrightarrow> time_scale (datetime2_time (dto_datetime2 z)) = 7"
  "datetimeoffset_microsecond_value db m row v = Ok z \<Longrightarrow> time_scale (datetime2_time (dto_datetime2 z)) = 7"
  "datetimeoffset_nanosecond_value db m row v policy = Ok z \<Longrightarrow> time_scale (datetime2_time (dto_datetime2 z)) = 7"
  by (auto simp: datetimeoffset_values datetimeoffset_conversions result_simps
      mssql_datetimeoffset_from_utc_100ns_ticks_def mssql_datetime2_from_unix_epoch_100ns_ticks_def Let_def
      mssql_datetimeoffset_new_def SQL_SERVER_DATETIME2_TIMESTAMP_SCALE_def
      split: if_splits dest!: datetime2_scale_at)

lemma date32_codec:
  "fixed_width_codec (write_fixed_width_date32 col) (temporal_cell_at db m col (read_date32 col))
    (plan_nullable col) date_cell_len 1"
proof (rule temporal_codec [OF date32_reader.temporal_reader_axioms])
  fix row x v offset and bs :: bytes
  assume *: "read_date32 col row x = Ok v" "valid_temporal v"
    "offset + length (temporal_wire col v) \<le> length bs"
  then obtain d where "direct_date_from_arrow_date32 col row x = Ok d" "v = TvDate d"
    by (auto simp: read_date32_def map_ok_Inr)
  with write_value_fits(1) [OF *(2,3)] show "write_fixed_width_date32 col row (Some x) offset bs
      = Some (Ok (length (temporal_wire col v), splice bs offset (temporal_wire col v)))"
    by (simp add: write_fixed_width_date32_def)
qed (auto simp: write_fixed_width_date32_def temporal_null_fits read_date32_def map_ok_Inr
    temporal_value_cell_len_def)

interpretation date32_writer: fixed_width_codec "write_fixed_width_date32 col"
  "temporal_cell_at db m col (read_date32 col)" "plan_nullable col" date_cell_len 1
  for db :: "'tz timezone_db" and m col
  by (rule date32_codec)

lemma date64_codec:
  assumes "datetime2_cell_len 3 = Ok n"
  shows "fixed_width_codec (write_fixed_width_date64 col) (temporal_cell_at db m col (read_date64 col))
    (plan_nullable col) n 1"
  by (rule temporal_codec [OF date64_reader.temporal_reader_axioms])
    (use assms in \<open>auto simp: write_fixed_width_date64_def temporal_null_fits read_date64_def result_simps
      date64_scale write_value_fits(3) temporal_value_cell_len_def datetime2_cell_len_for_value_def\<close>)

lemma time_writer_codec:
  assumes "temporal_reader (\<lambda>row x. map_ok TvTime (convert row x))"
    and "\<And>row x t. convert row x = Ok t \<Longrightarrow> time_cell_len (time_scale t) = Ok n"
  shows "fixed_width_codec (write_fixed_width_time convert)
    (temporal_cell_at db m col (\<lambda>row x. map_ok TvTime (convert row x))) (plan_nullable col) n 1"
  by (rule temporal_codec [OF assms(1)])
    (auto simp: write_fixed_width_time_def temporal_null_fits result_simps assms(2)
      write_value_fits(2) temporal_value_cell_len_def time_cell_len_for_value_def)

lemma datetimeoffset_writer_codec:
  assumes "temporal_reader (\<lambda>row x. map_ok TvDateTimeOffset (convert row x))"
    and "\<And>row x z. convert row x = Ok z \<Longrightarrow>
      datetimeoffset_cell_len (time_scale (datetime2_time (dto_datetime2 z))) = Ok n"
  shows "fixed_width_codec (write_fixed_width_datetimeoffset db m convert)
    (temporal_cell_at db m col (\<lambda>row x. map_ok TvDateTimeOffset (convert row x))) (plan_nullable col) n 1"
  by (rule temporal_codec [OF assms(1)])
    (auto simp: write_fixed_width_datetimeoffset_def temporal_null_fits result_simps assms(2)
      write_value_fits(5) temporal_value_cell_len_def datetimeoffset_cell_len_for_value_def)

abbreviation timestamp_wire :: "fixed_width_timestamp \<Rightarrow> temporal_value" where
  "timestamp_wire \<equiv> case_fixed_width_timestamp TvDateTime TvDateTime2"

lemma timestamp_wire_len:
  "temporal_value_cell_len col (timestamp_wire v) = timestamp_fixed_width_value_len col v"
  by (cases v) (simp_all add: temporal_value_cell_len_def timestamp_fixed_width_value_len_def
      datetime_cell_len_for_column_def datetime2_cell_len_for_value_def)

lemma timestamp_writer_codec:
  assumes "temporal_reader (\<lambda>row x. map_ok timestamp_wire (convert row x))"
    and "\<And>row x v. convert row x = Ok v \<Longrightarrow> timestamp_fixed_width_value_len col v = Ok n"
  shows "fixed_width_codec (write_fixed_width_timestamp db m col convert)
    (temporal_cell_at db m col (\<lambda>row x. map_ok timestamp_wire (convert row x))) (plan_nullable col) n 1"
proof (rule temporal_codec [OF assms(1)])
  fix row x v offset and bs :: bytes
  assume tz: "validate_mapping_timestamp_timezone_metadata db m row = Ok ()"
    and read: "map_ok timestamp_wire (convert row x) = Ok v" and valid: "valid_temporal v"
    and len: "temporal_value_cell_len col v = Ok (length (temporal_wire col v))"
    and fits: "offset + length (temporal_wire col v) \<le> length bs"
  from read obtain u where u: "convert row x = Ok u" "v = timestamp_wire u" by (auto simp: map_ok_Inr)
  have "write_cell_range bs offset (length (temporal_wire col v))
      (\<lambda>cell. write_timestamp_fixed_width_value cell col u)
    = Some (Ok (length (temporal_wire col v), splice bs offset (temporal_wire col v)))"
  proof (cases u)
    case (FwDateTime e)
    with u write_value_fits(4) [OF valid fits _ len] show ?thesis by simp
  next
    case (FwDateTime2 c)
    with u len have "datetime2_cell_len (time_scale (datetime2_time c)) = Ok (length (temporal_wire col v))"
      by (simp add: temporal_value_cell_len_def datetime2_cell_len_for_value_def)
    from write_value_fits(3) [OF valid fits _ this] u FwDateTime2 show ?thesis
      by (simp add: write_timestamp_fixed_width_value_def)
  qed
  with tz u len timestamp_wire_len [of col u] show "write_fixed_width_timestamp db m col convert row (Some x) offset bs
      = Some (Ok (length (temporal_wire col v), splice bs offset (temporal_wire col v)))"
    by (simp add: write_fixed_width_timestamp_def)
qed (auto simp: write_fixed_width_timestamp_def temporal_null_fits map_ok_Inr timestamp_wire_len assms(2))

text \<open>The timestamp readers, over \<^verbatim>\<open>timestamp_fixed_width_value\<close>.\<close>

lemma read_timestamps:
  "read_timestamp_second m rt col = (\<lambda>row x. map_ok timestamp_wire (timestamp_fixed_width_value m col row x
      Second (context_nanosecond_policy rt) (context_datetime_rounding rt)))"
  "read_timestamp_millisecond m rt col = (\<lambda>row x. map_ok timestamp_wire (timestamp_fixed_width_value m col row x
      Millisecond (context_nanosecond_policy rt) (context_datetime_rounding rt)))"
  "read_timestamp_microsecond m rt col = (\<lambda>row x. map_ok timestamp_wire (timestamp_fixed_width_value m col row x
      Microsecond (context_nanosecond_policy rt) (context_datetime_rounding rt)))"
  "read_timestamp_nanosecond m rt col = (\<lambda>row x. map_ok timestamp_wire (timestamp_fixed_width_value m col row x
      Nanosecond (context_nanosecond_policy rt) (context_datetime_rounding rt)))"
  by (simp_all add: fun_eq_iff reader_defs timestamp_second_value_def timestamp_millisecond_value_def
      timestamp_microsecond_value_def timestamp_nanosecond_value_def timestamp_fixed_width_value_def
      map_ok_def split: mssql_type.split sum.split)

lemma timestamp_len:
  assumes "plan_target_type col = target_type m" "timestamp_non_null_cell_len col = Some n"
    and "timestamp_fixed_width_value m col row x unit policy rounding = Ok v"
  shows "timestamp_fixed_width_value_len col v = Ok n"
  using assms datetime2_scales [of m]
  by (cases unit) (auto simp: timestamp_fixed_width_value_def timestamp_non_null_cell_len_def
      timestamp_fixed_width_value_len_def ok_option_def result_simps split: mssql_type.splits sum.splits if_splits)

subsection \<open>The columns\<close>

text \<open>What the fast path relies on: the constructor of a column is the one of its encoding and of
  its target.\<close>

definition plain_timestamp :: "direct_column_plan \<Rightarrow> schema_mapping \<Rightarrow> bool" where
  "plain_timestamp col m \<longleftrightarrow>
     plan_target_type col = target_type m
     \<and> (\<exists>c. plan_encoding col = EncTemporal c
          \<and> c \<notin> {Date32ToDate, Date64ToDateTime2, Time32SecondToTime, Time32MillisecondToTime,
               Time64MicrosecondToTime, Time64NanosecondToTime, TimestampSecondTzToDateTimeOffset,
               TimestampMillisecondTzToDateTimeOffset, TimestampMicrosecondTzToDateTimeOffset,
               TimestampNanosecondTzToDateTimeOffset})"

definition fast_bound :: "bound_direct_column \<Rightarrow> bool" where
  "fast_bound c \<longleftrightarrow> well_bound c \<and>
     (case c of
        BoundFixedSizeBinary col k _ \<Rightarrow> plan_encoding col = EncFixedSizeBinary k
      | BoundDate32 col m _ \<Rightarrow> plan_encoding col = EncTemporal Date32ToDate
      | BoundDate64 col m _ \<Rightarrow> plan_encoding col = EncTemporal Date64ToDateTime2
      | BoundTimestampSecond col m _ \<Rightarrow> plain_timestamp col m
      | BoundTimestampMillisecond col m _ \<Rightarrow> plain_timestamp col m
      | BoundTimestampMicrosecond col m _ \<Rightarrow> plain_timestamp col m
      | BoundTimestampNanosecond col m _ \<Rightarrow> plain_timestamp col m
      | BoundTime32Second col m _ \<Rightarrow> plan_encoding col = EncTemporal Time32SecondToTime
      | BoundTime32Millisecond col m _ \<Rightarrow> plan_encoding col = EncTemporal Time32MillisecondToTime
      | BoundTime64Microsecond col m _ \<Rightarrow> plan_encoding col = EncTemporal Time64MicrosecondToTime
      | BoundTime64Nanosecond col m _ \<Rightarrow> plan_encoding col = EncTemporal Time64NanosecondToTime
      | BoundDateTimeOffsetSecond col m _ \<Rightarrow>
          plan_encoding col = EncTemporal TimestampSecondTzToDateTimeOffset
      | BoundDateTimeOffsetMillisecond col m _ \<Rightarrow>
          plan_encoding col = EncTemporal TimestampMillisecondTzToDateTimeOffset
      | BoundDateTimeOffsetMicrosecond col m _ \<Rightarrow>
          plan_encoding col = EncTemporal TimestampMicrosecondTzToDateTimeOffset
      | BoundDateTimeOffsetNanosecond col m _ \<Rightarrow>
          plan_encoding col = EncTemporal TimestampNanosecondTzToDateTimeOffset
      | _ \<Rightarrow> True)"

text \<open>What a column's loop does with the offsets and the payload.\<close>

definition writes_cells ::
    "bytes list \<Rightarrow> bool list \<Rightarrow> bool \<Rightarrow> usize \<Rightarrow> usize
      \<Rightarrow> (usize list \<Rightarrow> bytes \<Rightarrow> (usize list \<times> bytes) run option) \<Rightarrow> bool" where
  "writes_cells cells nulls nullable value_cell_len null_cell_len fill \<longleftrightarrow>
     length nulls = length cells
     \<and> (\<forall>row < length cells.
          length (cells ! row) = (if nulls ! row then null_cell_len else value_cell_len)
          \<and> (nulls ! row \<longrightarrow> nullable))
     \<and> (\<forall>offsets bs. length offsets = length cells
          \<and> (\<forall>row < length cells. offsets ! row + length (cells ! row) \<le> length bs) \<longrightarrow>
          fill offsets bs = Some (Some (Ok (advance offsets cells, fill_at (zip offsets cells) bs))))"

context fixed_width_codec
begin

lemma writes_offset:
  "column_cells cell_at array = Ok cells \<Longrightarrow>
   writes_cells cells (values_null array) nullable value_cell_len null_cell_len
     (\<lambda>offsets bs. Some (fill_offset_rows write_cell array offsets bs))"
  using uniform_lengths [of array cells] fill_offset_rows [of array cells]
  by (simp add: writes_cells_def length_column_cells)

lemma writes_indexed:
  "column_cells cell_at array = Ok cells \<Longrightarrow>
   writes_cells cells (values_null array) nullable value_cell_len null_cell_len
     (\<lambda>offsets bs. Some (fill_indexed_rows write_cell array offsets bs))"
  using uniform_lengths [of array cells] fill_indexed_rows [of array cells]
  by (simp add: writes_cells_def length_column_cells)

end

lemmas writes_plain_indexed = fixed_width_codec.writes_indexed [OF plain_codec]
lemmas writes_plain_offset = fixed_width_codec.writes_offset [OF plain_codec]

lemma writes_checked:
  assumes "primitive_values n value_bytes" "column_cells (primitive_cell_at col (value_bytes col)) array = Ok cells"
  shows "writes_cells cells (values_null array) (plan_nullable col) (if plan_nullable col then Suc n else n) 1
    (\<lambda>offsets bs. Some (fill_offset_rows (write_checked_value col n (value_bytes col)) array offsets bs))"
proof -
  from primitive_values.value_len [OF assms(1)] primitive_values.short [OF assms(1)]
  have "fixed_width_codec (write_checked_value col n (value_bytes col)) (primitive_cell_at col (value_bytes col))
      (plan_nullable col) (if plan_nullable col then Suc n else n) 1"
    by (rule checked_codec)
  from fixed_width_codec.writes_offset [OF this assms(2)] show ?thesis .
qed

lemma ok_option_Some [simp]: "ok_option r = Some x \<longleftrightarrow> r = Ok x"
  by (cases r) (simp_all add: ok_option_def)

text \<open>The value length of a primitive column, and the dispatch of one column.\<close>

lemma primitive_lens:
  assumes "plan_encoding col = EncPrimitive c" "fixed_width_non_null_cell_len flags col = Some n"
  shows "\<exists>k. fixed_width_value_len (EncPrimitive c) = Some k \<and> n = (if plan_nullable col then Suc k else k)"
  using assms by (auto simp: fixed_width_non_null_cell_len_def CELL_LEN_PREFIX_LEN_def checked_usize_def
      bind_eq_Some_conv split: if_splits)

lemma null_lens [simp]:
  "plan_encoding col = EncPrimitive c \<Longrightarrow> fixed_width_null_cell_len col = Some k \<longleftrightarrow> k = 1"
  "plan_encoding col = EncTemporal t \<Longrightarrow> fixed_width_null_cell_len col = Some k \<longleftrightarrow> k = 1"
  "plan_encoding col = EncFixedSizeBinary f \<Longrightarrow> fixed_width_null_cell_len col = Some k \<longleftrightarrow> k = 2"
  by (auto simp: fixed_width_null_cell_len_def CELL_LEN_PREFIX_LEN_def FIXED_SIZE_BINARY_LEN_PREFIX_LEN_def)

lemmas primitive_loops = fill_boolean_fixed_width_column_def fill_uint8_fixed_width_column_def
  fill_int8_fixed_width_column_def fill_int16_fixed_width_column_def fill_int32_fixed_width_column_def
  fill_uint16_fixed_width_column_def fill_int64_fixed_width_column_def fill_uint32_fixed_width_column_def
  fill_uint64_checked_bigint_fixed_width_column_def fill_float32_fixed_width_column_def
  fill_float16_fixed_width_column_def fill_float64_fixed_width_column_def

lemma fast_primitive_column:
  assumes bound: "fast_bound c" and cells: "bound_cells db rt c = Ok cells"
    and parts: "fixed_width_column_parts c = Some (col, None)"
    and enc: "plan_encoding col = EncPrimitive p"
    and lens: "fixed_width_non_null_cell_len flags col = Some n"
  shows "writes_cells cells (fixed_width_column_nulls c) (plan_nullable col) n 1
    (fill_fixed_width_column db rt c)"
proof -
  from primitive_lens [OF enc lens] obtain k where k: "fixed_width_value_len (EncPrimitive p) = Some k"
    "n = (if plan_nullable col then Suc k else k)" by blast
  note dispatch = fast_bound_def well_bound_def bound_cells_def fixed_width_column_parts_def fixed_width_column_nulls_def
    fill_fixed_width_column_def [abs_def] primitive_loops fixed_width_value_len_def
  show ?thesis
  proof (cases c)
    case (BoundBoolean col' array)
    with bound cells parts enc k writes_plain_offset
      [of boolean_bytes "\<lambda>v. [if v then 1 else 0]" 1 1 col array cells]
    show ?thesis by (cases "plan_nullable col") (simp_all add: dispatch boolean_bytes_def)
  next
    case (BoundUInt8 col' array)
    with bound cells parts enc k writes_plain_indexed [of uint8_bytes "\<lambda>v. [v]" 1 1 col array cells]
    show ?thesis by (cases "plan_nullable col") (simp_all add: dispatch uint8_bytes_def)
  next
    case (BoundInt8 col' array)
    with bound cells parts enc k writes_plain_indexed
      [of int8_bytes "\<lambda>v. le_bytes 2 (unat (scast v :: i16))" 2 2 col array cells]
    show ?thesis by (cases "plan_nullable col") (simp_all add: dispatch int8_bytes_def)
  next
    case (BoundInt16 col' array)
    with bound cells parts enc k writes_plain_indexed
      [of int16_bytes "\<lambda>v. le_bytes 2 (unat v)" 2 2 col array cells]
    show ?thesis by (cases "plan_nullable col") (simp_all add: dispatch int16_bytes_def)
  next
    case (BoundInt32 col' array)
    with bound cells parts enc k writes_plain_indexed
      [of int32_bytes "\<lambda>v. le_bytes 4 (unat v)" 4 4 col array cells]
    show ?thesis by (cases "plan_nullable col") (simp_all add: dispatch int32_bytes_def)
  next
    case (BoundUInt16 col' array)
    with bound cells parts enc k writes_plain_indexed
      [of uint16_bytes "\<lambda>v. le_bytes 4 (unat (ucast v :: i32))" 4 4 col array cells]
    show ?thesis by (cases "plan_nullable col") (simp_all add: dispatch uint16_bytes_def)
  next
    case (BoundInt64 col' array)
    with bound cells parts enc k writes_plain_indexed
      [of int64_bytes "\<lambda>v. le_bytes 8 (unat v)" 8 8 col array cells]
    show ?thesis by (cases "plan_nullable col") (simp_all add: dispatch int64_bytes_def)
  next
    case (BoundUInt32 col' array)
    with bound cells parts enc k writes_plain_indexed
      [of uint32_bytes "\<lambda>v. le_bytes 8 (unat (ucast v :: i64))" 8 8 col array cells]
    show ?thesis by (cases "plan_nullable col") (simp_all add: dispatch uint32_bytes_def)
  next
    case (BoundUInt64 col' array)
    with bound cells parts enc k writes_checked [OF uint64_values.primitive_values_axioms, of col array cells]
    show ?thesis by (cases "plan_nullable col") (simp_all add: dispatch)
  next
    case (BoundFloat16 col' array)
    with bound cells parts enc k writes_checked [OF float32_values.primitive_values_axioms, of col array cells]
    show ?thesis by (cases "plan_nullable col") (simp_all add: dispatch)
  next
    case (BoundFloat32 col' array)
    with bound cells parts enc k writes_checked [OF float32_values.primitive_values_axioms, of col array cells]
    show ?thesis by (cases "plan_nullable col") (simp_all add: dispatch)
  next
    case (BoundFloat64 col' array)
    with bound cells parts enc k writes_checked [OF float64_values.primitive_values_axioms, of col array cells]
    show ?thesis by (cases "plan_nullable col") (simp_all add: dispatch)
  qed (use parts bound enc in \<open>simp_all add: fixed_width_column_parts_def fast_bound_def well_bound_def\<close>)
qed

lemma fast_binary_column:
  assumes bound: "fast_bound (BoundFixedSizeBinary col k array)"
    and cells: "bound_cells db rt (BoundFixedSizeBinary col k array) = Ok cells"
    and len: "fixed_width_non_null_cell_len flags col = Some n"
  shows "writes_cells cells (values_null array) (plan_nullable col) n 2
    (fill_fixed_width_column db rt (BoundFixedSizeBinary col k array))"
proof -
  from bound have k: "binary_length k < 65536" "plan_encoding col = EncFixedSizeBinary k"
    by (simp_all add: fast_bound_def well_bound_def)
  with len have n: "n = binary_length k + 2"
    by (auto simp: fixed_width_non_null_cell_len_def checked_usize_def FIXED_SIZE_BINARY_LEN_PREFIX_LEN_def)
  have "(try_unsigned (int (binary_length k)) :: u16 option) = Some (of_nat (binary_length k))"
    using k(1) by (simp add: try_unsigned_def in_unsigned_def)
  with fixed_width_codec.writes_offset [OF fixed_size_binary_codec [OF k(1)], of col array cells "values_null array"]
    cells n
  show ?thesis
    by (simp add: bound_cells_def fill_fixed_width_column_def [abs_def]
        fill_fixed_size_binary_fixed_width_column_def)
qed

text \<open>Temporal columns; their timezones were resolved for every row.\<close>

lemma timezone_valid:
  assumes "column_cells (temporal_cell_at db m col read) array = Ok cells"
  shows "validate_fixed_width_timestamp_timezone_metadata db (values_null array) m col = Ok ()"
proof -
  have "(if values_null array ! row then validate_null_timestamp_timezone_metadata db m row
      else validate_mapping_timestamp_timezone_metadata db m row) = Ok ()" if "row < length array" for row
  proof -
    from assms that have "temporal_cell_at db m col read row (array ! row) = Ok (cells ! row)"
      by (auto simp: column_cells_def try_map_Inr)
    with that show ?thesis
      by (cases "array ! row") (auto simp: temporal_cell_at_def nth_values_null result_simps)
  qed
  then show ?thesis
    by (auto simp: validate_fixed_width_timestamp_timezone_metadata_def intro!: for_each_unit)
qed

lemma timestamp_enc:
  assumes "plain_timestamp col m" "fixed_width_non_null_cell_len flags col = Some n"
  shows "plan_target_type col = target_type m" "timestamp_non_null_cell_len col = Some n"
proof -
  show "plan_target_type col = target_type m" using assms(1) by (simp add: plain_timestamp_def)
  from assms(1) obtain c where enc: "plan_encoding col = EncTemporal c" and
    "c \<notin> {Date32ToDate, Date64ToDateTime2, Time32SecondToTime, Time32MillisecondToTime,
       Time64MicrosecondToTime, Time64NanosecondToTime, TimestampSecondTzToDateTimeOffset,
       TimestampMillisecondTzToDateTimeOffset, TimestampMicrosecondTzToDateTimeOffset,
       TimestampNanosecondTzToDateTimeOffset}"
    by (auto simp: plain_timestamp_def)
  then have "fixed_width_non_null_cell_len flags col = timestamp_non_null_cell_len col"
    by (cases c) (simp_all add: fixed_width_non_null_cell_len_def)
  with assms(2) show "timestamp_non_null_cell_len col = Some n" by simp
qed

lemma writes_timestamp:
  assumes "plain_timestamp col m" "fixed_width_non_null_cell_len flags col = Some n"
    and read: "temporal_reader read" "read = (\<lambda>row x. map_ok timestamp_wire
      (timestamp_fixed_width_value m col row x unit (context_nanosecond_policy rt) (context_datetime_rounding rt)))"
    and "column_cells (temporal_cell_at db m col read) array = Ok cells"
  shows "writes_cells cells (values_null array) (plan_nullable col) n 1
    (\<lambda>offsets bs. Some (fill_timestamp_fixed_width_column db array m col unit rt offsets bs))"
proof -
  have "fixed_width_codec (write_fixed_width_timestamp db m col (\<lambda>row x. timestamp_fixed_width_value m col row x
        unit (context_nanosecond_policy rt) (context_datetime_rounding rt)))
      (temporal_cell_at db m col read) (plan_nullable col) n 1"
    unfolding read(2) using read timestamp_len [OF timestamp_enc [OF assms(1,2)]]
    by (intro timestamp_writer_codec) simp_all
  from fixed_width_codec.writes_offset [OF this assms(5)] show ?thesis
    by (simp add: fill_timestamp_fixed_width_column_def)
qed

lemma writes_time:
  assumes "temporal_reader (\<lambda>row x. map_ok TvTime (convert row x))"
    and "\<And>row x t. convert row x = Ok t \<Longrightarrow> time_scale t = p" "time_cell_len p = Ok n"
    and "column_cells (temporal_cell_at db m col (\<lambda>row x. map_ok TvTime (convert row x))) array = Ok cells"
  shows "writes_cells cells (values_null array) (plan_nullable col) n 1
    (\<lambda>offsets bs. Some (fill_time_fixed_width_column array convert offsets bs))"
  using fixed_width_codec.writes_offset [OF time_writer_codec [OF assms(1)] assms(4), of n] assms(2,3)
  by (simp add: fill_time_fixed_width_column_def)

lemma writes_datetimeoffset:
  assumes "temporal_reader (\<lambda>row x. map_ok TvDateTimeOffset (convert row x))"
    and "\<And>row x z. convert row x = Ok z \<Longrightarrow> time_scale (datetime2_time (dto_datetime2 z)) = p"
    and "datetimeoffset_cell_len p = Ok n"
    and "column_cells (temporal_cell_at db m col (\<lambda>row x. map_ok TvDateTimeOffset (convert row x))) array = Ok cells"
  shows "writes_cells cells (values_null array) (plan_nullable col) n 1
    (\<lambda>offsets bs. Some (fill_datetimeoffset_fixed_width_column db array m convert offsets bs))"
  using fixed_width_codec.writes_offset [OF datetimeoffset_writer_codec [OF assms(1)] assms(4), of n] assms(2,3)
  by (simp add: fill_datetimeoffset_fixed_width_column_def)

text \<open>Every column of the fast path.\<close>

lemma fast_temporal_column:
  assumes bound: "fast_bound c" and cells: "bound_cells db rt c = Ok cells"
    and parts: "fixed_width_column_parts c = Some (col, Some m)"
    and len: "fixed_width_non_null_cell_len flags col = Some n"
  shows "writes_cells cells (fixed_width_column_nulls c) (plan_nullable col) n 1 (fill_fixed_width_column db rt c)
    \<and> validate_fixed_width_timestamp_timezone_metadata db (fixed_width_column_nulls c) m col = Ok ()"
proof -
  note dispatch = fast_bound_def bound_cells_def fixed_width_column_parts_def fixed_width_column_nulls_def
    fill_fixed_width_column_def [abs_def]
  note len_of = fixed_width_non_null_cell_len_def
  show ?thesis
  proof (cases c)
    case (BoundDate32 col' m' array)
    with bound len parts have "n = date_cell_len" by (auto simp: dispatch len_of split: if_splits)
    with BoundDate32 bound cells parts date32_writer.writes_offset [of db m col array cells]
      timezone_valid [of db m col _ array cells]
    show ?thesis by (simp add: dispatch fill_date32_fixed_width_column_def)
  next
    case (BoundDate64 col' m' array)
    with bound len parts have "datetime2_cell_len 3 = Ok n" by (auto simp: dispatch len_of split: if_splits)
    from fixed_width_codec.writes_offset [OF date64_codec [OF this], of db m col array cells]
    show ?thesis using BoundDate64 bound cells parts timezone_valid [of db m col _ array cells]
      by (simp add: dispatch fill_date64_fixed_width_column_def)
  next
    case (BoundTimestampSecond col' m' array)
    with bound len cells parts timezone_valid [of db m col _ array cells]
      writes_timestamp [OF _ _ timestamp_second_reader.temporal_reader_axioms read_timestamps(1),
        of col m flags n db rt array cells]
    show ?thesis by (simp add: dispatch)
  next
    case (BoundTimestampMillisecond col' m' array)
    with bound len cells parts timezone_valid [of db m col _ array cells]
      writes_timestamp [OF _ _ timestamp_millisecond_reader.temporal_reader_axioms read_timestamps(2),
        of col m flags n db rt array cells]
    show ?thesis by (simp add: dispatch)
  next
    case (BoundTimestampMicrosecond col' m' array)
    with bound len cells parts timezone_valid [of db m col _ array cells]
      writes_timestamp [OF _ _ timestamp_microsecond_reader.temporal_reader_axioms read_timestamps(3),
        of col m flags n db rt array cells]
    show ?thesis by (simp add: dispatch)
  next
    case (BoundTimestampNanosecond col' m' array)
    with bound len cells parts timezone_valid [of db m col _ array cells]
      writes_timestamp [OF _ _ timestamp_nanosecond_reader.temporal_reader_axioms read_timestamps(4),
        of col m flags n db rt array cells]
    show ?thesis by (simp add: dispatch)
  next
    case (BoundTime32Second col' m' array)
    with bound len parts have "time_cell_len 0 = Ok n" by (auto simp: dispatch len_of)
    from writes_time [of "\<lambda>row v. mssql_time_from_arrow_time32_second m row v" _ n db m col array cells,
        OF time32_second_reader.temporal_reader_axioms [unfolded read_time32_second_def [abs_def]] time_scales(1) this]
    show ?thesis using BoundTime32Second bound cells parts timezone_valid [of db m col _ array cells]
      by (simp add: dispatch read_time32_second_def [abs_def])
  next
    case (BoundTime32Millisecond col' m' array)
    with bound len parts have "time_cell_len 3 = Ok n" by (auto simp: dispatch len_of)
    from writes_time [of "\<lambda>row v. mssql_time_from_arrow_time32_millisecond m row v" _ n db m col array cells,
        OF time32_millisecond_reader.temporal_reader_axioms [unfolded read_time32_millisecond_def [abs_def]] time_scales(2) this]
    show ?thesis using BoundTime32Millisecond bound cells parts timezone_valid [of db m col _ array cells]
      by (simp add: dispatch read_time32_millisecond_def [abs_def])
  next
    case (BoundTime64Microsecond col' m' array)
    with bound len parts have "time_cell_len 6 = Ok n" by (auto simp: dispatch len_of)
    from writes_time [of "\<lambda>row v. mssql_time_from_arrow_time64_microsecond m row v" _ n db m col array cells,
        OF time64_microsecond_reader.temporal_reader_axioms [unfolded read_time64_microsecond_def [abs_def]] time_scales(3) this]
    show ?thesis using BoundTime64Microsecond bound cells parts timezone_valid [of db m col _ array cells]
      by (simp add: dispatch read_time64_microsecond_def [abs_def])
  next
    case (BoundTime64Nanosecond col' m' array)
    with bound len parts have "time_cell_len 7 = Ok n" by (auto simp: dispatch len_of)
    from writes_time [of "\<lambda>row v. mssql_time_from_arrow_time64_nanosecond m row v (context_nanosecond_policy rt)" _ n db m col array cells,
        OF time64_nanosecond_reader.temporal_reader_axioms [unfolded read_time64_nanosecond_def [abs_def]] time_scales(4) this]
    show ?thesis using BoundTime64Nanosecond bound cells parts timezone_valid [of db m col _ array cells]
      by (simp add: dispatch read_time64_nanosecond_def [abs_def])
  next
    case (BoundDateTimeOffsetSecond col' m' array)
    with bound len parts have "datetimeoffset_cell_len 7 = Ok n" by (auto simp: dispatch len_of)
    from writes_datetimeoffset [of "\<lambda>row v. datetimeoffset_second_value db m row v" _ n db m col array cells,
        OF datetimeoffset_second_reader.temporal_reader_axioms [unfolded read_datetimeoffset_second_def [abs_def]] datetimeoffset_scales(1) this]
    show ?thesis using BoundDateTimeOffsetSecond bound cells parts timezone_valid [of db m col _ array cells]
      by (simp add: dispatch read_datetimeoffset_second_def [abs_def])
  next
    case (BoundDateTimeOffsetMillisecond col' m' array)
    with bound len parts have "datetimeoffset_cell_len 7 = Ok n" by (auto simp: dispatch len_of)
    from writes_datetimeoffset [of "\<lambda>row v. datetimeoffset_millisecond_value db m row v" _ n db m col array cells,
        OF datetimeoffset_millisecond_reader.temporal_reader_axioms [unfolded read_datetimeoffset_millisecond_def [abs_def]] datetimeoffset_scales(2) this]
    show ?thesis using BoundDateTimeOffsetMillisecond bound cells parts timezone_valid [of db m col _ array cells]
      by (simp add: dispatch read_datetimeoffset_millisecond_def [abs_def])
  next
    case (BoundDateTimeOffsetMicrosecond col' m' array)
    with bound len parts have "datetimeoffset_cell_len 7 = Ok n" by (auto simp: dispatch len_of)
    from writes_datetimeoffset [of "\<lambda>row v. datetimeoffset_microsecond_value db m row v" _ n db m col array cells,
        OF datetimeoffset_microsecond_reader.temporal_reader_axioms [unfolded read_datetimeoffset_microsecond_def [abs_def]] datetimeoffset_scales(3) this]
    show ?thesis using BoundDateTimeOffsetMicrosecond bound cells parts timezone_valid [of db m col _ array cells]
      by (simp add: dispatch read_datetimeoffset_microsecond_def [abs_def])
  next
    case (BoundDateTimeOffsetNanosecond col' m' array)
    with bound len parts have "datetimeoffset_cell_len 7 = Ok n" by (auto simp: dispatch len_of)
    from writes_datetimeoffset [of "\<lambda>row v. datetimeoffset_nanosecond_value db m row v (context_nanosecond_policy rt)" _ n db m col array cells,
        OF datetimeoffset_nanosecond_reader.temporal_reader_axioms [unfolded read_datetimeoffset_nanosecond_def [abs_def]] datetimeoffset_scales(4) this]
    show ?thesis using BoundDateTimeOffsetNanosecond bound cells parts timezone_valid [of db m col _ array cells]
      by (simp add: dispatch read_datetimeoffset_nanosecond_def [abs_def])
  qed (use parts in \<open>simp_all add: fixed_width_column_parts_def\<close>)
qed

lemma fast_column:
  assumes bound: "fast_bound c" and cells: "bound_cells db rt c = Ok cells"
    and parts: "fixed_width_column_parts c = Some (col, mapping)"
    and lens: "fixed_width_non_null_cell_len flags col = Some n" "fixed_width_null_cell_len col = Some k"
  shows "writes_cells cells (fixed_width_column_nulls c) (plan_nullable col) n k (fill_fixed_width_column db rt c)
    \<and> (case mapping of
         Some m \<Rightarrow> validate_fixed_width_timestamp_timezone_metadata db (fixed_width_column_nulls c) m col
       | None \<Rightarrow> Ok ()) = Ok ()"
proof (cases mapping)
  case (Some m)
  from bound parts Some obtain t where "plan_encoding col = EncTemporal t"
    by (cases c) (auto simp: fixed_width_column_parts_def fast_bound_def plain_timestamp_def)
  with fast_temporal_column [OF bound cells _ lens(1)] parts lens(2) Some show ?thesis by simp
next
  case None
  show ?thesis
  proof (cases "\<exists>k array. c = BoundFixedSizeBinary col k array")
    case True
    then obtain j array where c: "c = BoundFixedSizeBinary col j array" by blast
    with bound have "plan_encoding col = EncFixedSizeBinary j" by (simp add: fast_bound_def)
    with fast_binary_column [of col j array] bound cells lens c None show ?thesis
      by (simp add: fixed_width_column_nulls_def)
  next
    case False
    with bound parts None obtain p where "plan_encoding col = EncPrimitive p"
      by (cases c) (auto simp: fixed_width_column_parts_def fast_bound_def well_bound_def)
    with fast_primitive_column [OF bound cells _ _ lens(1)] parts lens(2) None show ?thesis by simp
  qed
qed

end
