(* ===== verification/FastRows.thy ===== *)
theory FastRows
  imports FastPath
begin

text \<open>
  Whole batches on the fast path (\<^verbatim>\<open>src/write/direct/rows/fixed_width.rs\<close>): the offsets it
  measures, or takes from a layout, are those of the general layout, and the payload it fills is
  the rows of the batch.
\<close>

subsection \<open>The offsets of a column\<close>

text \<open>Where the cells of column \<^term>\<open>k\<close> start, row by row; for the last column and beyond, where
  the rows end.\<close>

definition stage_offsets :: "usize list list \<Rightarrow> nat \<Rightarrow> usize list" where
  "stage_offsets sizes k =
     map (\<lambda>r. rows_size (take r sizes) + 1 + sum_list (take k (sizes ! r))) [0..<length sizes]"

lemma stage_offsets_0: "stage_offsets sizes 0 = map Suc (row_starts 0 sizes)"
  by (rule nth_equalityI) (simp_all add: stage_offsets_def nth_row_starts)

lemma table_rows_nth: "r < n \<Longrightarrow> table_rows n columns ! r = map (\<lambda>cells. cells ! r) columns"
  by (simp add: table_rows_def)

lemma stage_offsets_advance:
  assumes "length (columns ! k) = n" "k < length columns"
  shows "advance (stage_offsets (cell_sizes (table_rows n columns)) k) (columns ! k)
    = stage_offsets (cell_sizes (table_rows n columns)) (Suc k)"
  using assms
  by (intro nth_equalityI)
    (simp_all add: stage_offsets_def table_rows_shape(1) table_rows_nth take_Suc_conv_app_nth)

lemma stage_offsets_positions:
  assumes "k < length columns"
  shows "stage_offsets (cell_sizes (table_rows n columns)) k
    = map pos_offset (column_positions (layout_of (cell_sizes (table_rows n columns))) k (length columns) n)"
proof (rule nth_equalityI)
  fix r assume "r < length (stage_offsets (cell_sizes (table_rows n columns)) k)"
  then have r: "r < n" by (simp add: stage_offsets_def table_rows_shape(1))
  have "\<forall>ns \<in> set (cell_sizes (table_rows n columns)). length ns = length columns"
    by (auto simp: table_rows_def)
  from place_rows_nth [OF this _ assms, of r 0 0] r
  show "stage_offsets (cell_sizes (table_rows n columns)) k ! r
      = map pos_offset (column_positions (layout_of (cell_sizes (table_rows n columns))) k (length columns) n) ! r"
    by (simp add: stage_offsets_def column_positions_def layout_of_def table_rows_shape(1))
qed (simp add: stage_offsets_def column_positions_def table_rows_shape(1))

subsection \<open>Filling\<close>

text \<open>The columns of a batch on the fast path, beside what they encode.\<close>

definition fast_columns ::
    "fast_path_flags \<Rightarrow> 'tz timezone_db \<Rightarrow> runtime_context \<Rightarrow> fixed_width_column list
      \<Rightarrow> bytes list list \<Rightarrow> bool" where
  "fast_columns flags db rt columns cells \<longleftrightarrow>
     list_all2 (\<lambda>c cells.
         writes_cells cells (fixed_width_column_nulls (fw_column c)) (plan_nullable (fw_plan c))
           (fw_non_null_cell_len c) (fw_null_cell_len c) (fill_fixed_width_column db rt (fw_column c))
         \<and> (case fw_mapping c of
              Some m \<Rightarrow> validate_fixed_width_timestamp_timezone_metadata db
                (fixed_width_column_nulls (fw_column c)) m (fw_plan c)
            | None \<Rightarrow> Ok ()) = Ok ())
       columns cells"

lemma fast_columns_from:
  assumes "fixed_width_columns_from flags cols = Some columns" "\<forall>c \<in> set cols. fast_bound c"
    and "try_map (bound_cells db rt) cols = Ok cells"
  shows "fast_columns flags db rt columns cells"
  using assms
proof (induction cols arbitrary: columns cells)
  case (Cons c cols)
  from Cons.prems obtain col mapping n k columns' cs cells' where
    parts: "fixed_width_column_parts c = Some (col, mapping)"
    and n: "fixed_width_non_null_cell_len flags col = Some n" and k: "fixed_width_null_cell_len col = Some k"
    and columns: "fixed_width_columns_from flags cols = Some columns'"
      "columns = \<lparr>fw_column = c, fw_plan = col, fw_mapping = mapping, fw_non_null_cell_len = n,
         fw_null_cell_len = k\<rparr> # columns'"
    and cs: "bound_cells db rt c = Ok cs" "try_map (bound_cells db rt) cols = Ok cells'" "cells = cs # cells'"
    by (auto simp: bind_eq_Some_conv result_simps)
  have "writes_cells cs (fixed_width_column_nulls c) (plan_nullable col) n k (fill_fixed_width_column db rt c)
      \<and> (case mapping of Some m \<Rightarrow> validate_fixed_width_timestamp_timezone_metadata db
           (fixed_width_column_nulls c) m col | None \<Rightarrow> Ok ()) = Ok ()"
    using fast_column [OF _ cs(1) parts n k] Cons.prems(2) by simp
  with Cons.IH [OF columns(1) _ cs(2)] Cons.prems(2) show ?case
    by (simp add: fast_columns_def columns(2) cs(3) cong: option.case_cong)
qed (simp add: fast_columns_def)

lemma fill_fast_columns:
  assumes "fast_columns flags db rt columns (drop k cells)" "k \<le> length cells"
    and cells: "\<forall>cs \<in> set cells. length cs = n"
    and bs: "length bs = rows_size (cell_sizes (table_rows n cells))" "length bs < 2 ^ 64"
      "n * length cells < 2 ^ 64"
  defines "layout \<equiv> layout_of (cell_sizes (table_rows n cells))"
  shows "fill_fixed_width_columns db rt columns (stage_offsets (cell_sizes (table_rows n cells)) k, bs)
    = Some (Ok (Some (fill_cells (concat (map (\<lambda>(c, cs). zip (column_positions layout c (length cells) n) cs)
        (List.enumerate k (drop k cells)))) bs)))"
  using assms(1,2) bs
proof (induction columns arbitrary: k bs)
  case Nil
  then show ?case by (simp add: fast_columns_def fill_cells_def)
next
  case (Cons c columns)
  from Cons.prems(1) have k: "k < length cells" by (cases "k < length cells") (simp_all add: fast_columns_def)
  then have drop: "drop k cells = cells ! k # drop (Suc k) cells" by (simp add: Cons_nth_drop_Suc)
  let ?offsets = "stage_offsets (cell_sizes (table_rows n cells)) k"
  let ?writes = "zip (column_positions layout k (length cells) n) (cells ! k)"
  have len: "length (cells ! k) = n" "length ?offsets = n"
    using cells k by (simp_all add: stage_offsets_def table_rows_shape(1))
  from fits_columns [OF cells k Cons.prems(3,4,5)] have fits: "column_fits layout k (length cells) (cells ! k) bs"
    by (simp add: layout_def)
  then have "\<forall>row < length (cells ! k). ?offsets ! row + length (cells ! k ! row) \<le> length bs"
    using len(1) stage_offsets_positions [OF k, of n]
    by (auto simp: column_fits_def fits_at_def column_positions_def layout_def)
  moreover have "writes_cells (cells ! k) (fixed_width_column_nulls (fw_column c)) (plan_nullable (fw_plan c))
      (fw_non_null_cell_len c) (fw_null_cell_len c) (fill_fixed_width_column db rt (fw_column c))"
    using Cons.prems(1) by (simp add: fast_columns_def drop)
  ultimately have "fill_fixed_width_column db rt (fw_column c) ?offsets bs
      = Some (Some (Ok (advance ?offsets (cells ! k), fill_at (zip ?offsets (cells ! k)) bs)))"
    using len by (simp add: writes_cells_def)
  moreover have "fill_at (zip ?offsets (cells ! k)) bs = fill_cells ?writes bs"
    unfolding stage_offsets_positions [OF k] layout_def using len(1)
    by (intro fill_at_cells) (simp add: column_positions_def)
  moreover have "length (fill_cells ?writes bs) = length bs"
  proof -
    have "\<forall>(offset, c) \<in> set (zip ?offsets (cells ! k)). offset + length c \<le> length bs"
      using \<open>\<forall>row < length (cells ! k). _\<close> len by (auto simp: in_set_zip)
    from length_fill_at [OF this] show ?thesis
      using \<open>fill_at (zip ?offsets (cells ! k)) bs = fill_cells ?writes bs\<close> by simp
  qed
  ultimately show ?case
    using Cons.IH [of "Suc k" "fill_cells ?writes bs"] Cons.prems k len(1)
      stage_offsets_advance [OF len(1) k]
    by (simp add: drop fast_columns_def fill_cells_def)
qed

subsection \<open>Measuring\<close>

definition stage_lengths :: "usize list list \<Rightarrow> nat \<Rightarrow> usize list" where
  "stage_lengths sizes k = map (\<lambda>ns. 1 + sum_list (take k ns)) sizes"

lemma stage_lengths_advance:
  assumes "length (columns ! k) = n" "k < length columns"
  shows "advance (stage_lengths (cell_sizes (table_rows n columns)) k) (columns ! k)
    = stage_lengths (cell_sizes (table_rows n columns)) (Suc k)"
  using assms
  by (intro nth_equalityI)
    (simp_all add: stage_lengths_def table_rows_shape(1) table_rows_nth take_Suc_conv_app_nth)

lemma sum_list_take_le: "sum_list (take k (ns :: nat list)) \<le> sum_list ns"
  by (metis append_take_drop_id le_add1 sum_list.append)

lemma row_size_le: "ns \<in> set rows \<Longrightarrow> row_size ns \<le> rows_size rows"
  unfolding rows_size_def by (intro member_le_sum_list) auto

lemma stage_lengths_bound:
  assumes "rows_size sizes < 2 ^ 64" "r < length sizes"
  shows "stage_lengths sizes k ! r < 2 ^ 64"
proof -
  have "sizes ! r \<in> set sizes" using assms(2) by simp
  then have "row_size (sizes ! r) \<le> rows_size sizes" by (rule row_size_le)
  then have "1 + sum_list (take k (sizes ! r)) \<le> rows_size sizes"
    using sum_list_take_le [of k "sizes ! r"] by (simp add: row_size_def)
  with assms show ?thesis by (simp add: stage_lengths_def)
qed

lemma measure_fast_column:
  assumes "writes_cells cells (fixed_width_column_nulls (fw_column c)) (plan_nullable (fw_plan c))
      (fw_non_null_cell_len c) (fw_null_cell_len c) fill"
    and "(case fw_mapping c of Some m \<Rightarrow> validate_fixed_width_timestamp_timezone_metadata db
        (fixed_width_column_nulls (fw_column c)) m (fw_plan c) | None \<Rightarrow> Ok ()) = Ok ()"
    and len: "length ls = length cells" and bound: "\<forall>r < length cells. ls ! r + length (cells ! r) < 2 ^ 64"
  shows "measure_fixed_width_column db c ls = Ok (advance ls cells)"
proof -
  let ?nulls = "fixed_width_column_nulls (fw_column c)"
  from assms(1) have cells: "length ?nulls = length cells"
    "\<And>r. r < length cells \<Longrightarrow> length (cells ! r) = (if ?nulls ! r then fw_null_cell_len c else fw_non_null_cell_len c)"
    "\<And>r. r < length cells \<Longrightarrow> ?nulls ! r \<Longrightarrow> plan_nullable (fw_plan c)"
    by (simp_all add: writes_cells_def)
  have add: "direct_checked_add (ls ! r) (length (cells ! r)) = Ok (ls ! r + length (cells ! r))"
    if "r < length cells" for r
    using bound that by (simp add: direct_checked_add_def checked_usize_def)
  show ?thesis
  proof (cases "plan_nullable (fw_plan c)")
    case True
    have "add_nullable_fixed_width_column_lengths ?nulls (fw_non_null_cell_len c) (fw_null_cell_len c) ls
        = Ok (advance ls cells)"
      using add cells len
      by (simp add: add_nullable_fixed_width_column_lengths_def try_map_Inr nth_enumerate_eq)
    with assms(2) True show ?thesis by (simp add: measure_fixed_width_column_def Let_def)
  next
    case False
    with cells(1,3) have none: "\<not> list_ex (\<lambda>null. null) ?nulls" "\<And>r. r < length cells \<Longrightarrow> \<not> ?nulls ! r"
      by (auto simp: list_ex_iff in_set_conv_nth)
    have "add_non_nullable_fixed_width_column_lengths (fw_non_null_cell_len c) ls = Ok (advance ls cells)"
      using add cells(2) none(2) len
      by (simp add: add_non_nullable_fixed_width_column_lengths_def try_map_Inr)
    with assms(2) False none(1) show ?thesis by (simp add: measure_fixed_width_column_def Let_def)
  qed
qed

lemma measure_fast_columns:
  assumes "fast_columns flags db rt columns (drop k cells)" "k \<le> length cells"
    and cells: "\<forall>cs \<in> set cells. length cs = n"
    and size: "rows_size (cell_sizes (table_rows n cells)) < 2 ^ 64"
  shows "for_each (measure_fixed_width_column db) columns (stage_lengths (cell_sizes (table_rows n cells)) k)
    = Ok (map row_size (cell_sizes (table_rows n cells)))"
  using assms(1,2)
proof (induction columns arbitrary: k)
  case Nil
  then have "k = length cells" by (simp add: fast_columns_def)
  moreover have "\<forall>ns \<in> set (cell_sizes (table_rows n cells)). length ns = length cells"
    by (auto simp: table_rows_def)
  ultimately show ?case by (auto simp: stage_lengths_def row_size_def)
next
  case (Cons c columns)
  from Cons.prems(1) have k: "k < length cells" by (cases "k < length cells") (simp_all add: fast_columns_def)
  then have drop: "drop k cells = cells ! k # drop (Suc k) cells" by (simp add: Cons_nth_drop_Suc)
  let ?lengths = "stage_lengths (cell_sizes (table_rows n cells))"
  have len: "length (cells ! k) = n" "length (?lengths k) = n"
    using cells k by (simp_all add: stage_lengths_def table_rows_shape(1))
  note step = stage_lengths_advance [OF len(1) k]
  have "?lengths k ! r + length (cells ! k ! r) < 2 ^ 64" if "r < n" for r
  proof -
    have "?lengths k ! r + length (cells ! k ! r) = ?lengths (Suc k) ! r"
      using that len by (simp flip: step)
    with stage_lengths_bound [OF size] that show ?thesis by (simp add: table_rows_shape(1))
  qed
  then have "measure_fixed_width_column db c (?lengths k) = Ok (?lengths (Suc k))"
    using Cons.prems(1) len step
    by (subst measure_fast_column [where cells = "cells ! k"]) (auto simp: fast_columns_def drop)
  with Cons.IH [of "Suc k"] Cons.prems k show ?case by (simp add: drop fast_columns_def)
qed

lemma row_token_loop:
  assumes "offset + rows_size sizes < 2 ^ 64"
  shows "for_each (\<lambda>row_length (tokens, offsets, payload_len).
       and_then (direct_checked_add payload_len ROW_TOKEN_LEN) (\<lambda>offset.
       and_then (direct_checked_add payload_len row_length) (\<lambda>next_len.
         Ok (tokens @ [payload_len], offsets @ [offset], next_len))))
     (map row_size sizes) (tokens, offsets, offset)
    = Ok (tokens @ row_starts offset sizes, offsets @ map Suc (row_starts offset sizes), offset + rows_size sizes)"
  using assms
proof (induction sizes arbitrary: tokens offsets offset)
  case (Cons ns sizes)
  then have "direct_checked_add offset ROW_TOKEN_LEN = Ok (Suc offset)"
    "direct_checked_add offset (row_size ns) = Ok (offset + 1 + sum_list ns)"
    by (simp_all add: direct_checked_add_def checked_usize_def ROW_TOKEN_LEN_def row_size_def)
  with Cons.IH [of "offset + 1 + sum_list ns"] Cons.prems show ?case by simp
qed simp

text \<open>The offsets of the fast path.\<close>

definition fast_layout :: "usize list list \<Rightarrow> fixed_width_rows_layout" where
  "fast_layout sizes =
     \<lparr>fwl_row_token_offsets = row_starts 0 sizes, fwl_current_offsets = stage_offsets sizes 0,
      fwl_payload_len = rows_size sizes\<rparr>"

lemma measure_fast_rows:
  assumes "fast_columns flags db rt columns cells" "\<forall>cs \<in> set cells. length cs = n"
    and "rows_size (cell_sizes (table_rows n cells)) < 2 ^ 64"
  shows "measure_fixed_width_rows db n columns = Ok (fast_layout (cell_sizes (table_rows n cells)))"
proof -
  have "stage_lengths (cell_sizes (table_rows n cells)) 0 = replicate n ROW_TOKEN_LEN"
    by (rule nth_equalityI) (simp_all add: stage_lengths_def table_rows_shape(1) ROW_TOKEN_LEN_def)
  with measure_fast_columns [of flags db rt columns 0 cells n] assms
    row_token_loop [of 0 "cell_sizes (table_rows n cells)" "[]" "[]"]
  show ?thesis
    by (simp add: measure_fixed_width_rows_def fast_layout_def stage_offsets_0)
qed

text \<open>Taken from the general layout, they are the same.\<close>

lemma row_start_less:
  assumes "r < length sizes"
  shows "row_starts 0 sizes ! r < rows_size sizes"
proof -
  have "rows_size sizes = rows_size (take r sizes) + rows_size (drop r sizes)"
    unfolding rows_size_def by (simp flip: sum_list.append map_append)
  moreover have "rows_size (drop r sizes) = row_size (sizes ! r) + rows_size (drop (Suc r) sizes)"
    using assms by (simp add: rows_size_def flip: Cons_nth_drop_Suc)
  ultimately show ?thesis using assms by (simp add: nth_row_starts row_size_def)
qed

lemma place_rows_index:
  assumes "\<forall>ns \<in> set sizes. length ns = cc" "i < length sizes * cc"
  shows "pos_row (place_rows 0 0 sizes ! i) = i div cc" "pos_column (place_rows 0 0 sizes ! i) = i mod cc"
proof -
  from assms(2) have "0 < cc" by (cases cc) simp_all
  with assms(2) have rc: "i div cc < length sizes" "i mod cc < cc" "i div cc * cc + i mod cc = i"
    by (simp_all add: less_mult_imp_div_less)
  from place_rows_nth [OF assms(1) rc(1,2), of 0 0]
  show "pos_row (place_rows 0 0 sizes ! i) = i div cc" "pos_column (place_rows 0 0 sizes ! i) = i mod cc"
    unfolding rc(3) by simp_all
qed

lemma length_place_uniform:
  "\<forall>ns \<in> set sizes. length ns = cc \<Longrightarrow> length (place_rows 0 0 sizes) = length sizes * cc"
proof -
  have "\<forall>ns \<in> set sizes. length ns = cc \<Longrightarrow> sum_list (map length sizes) = length sizes * cc"
    by (induction sizes) simp_all
  then show "\<forall>ns \<in> set sizes. length ns = cc \<Longrightarrow> ?thesis" by (simp add: length_place_rows)
qed

lemma layout_rows_layout:
  assumes cc: "\<forall>ns \<in> set sizes. length ns = cc" and size: "rows_size sizes < 2 ^ 64" "length sizes * cc < 2 ^ 64"
  shows "rows_layout_from_row_layout (layout_of sizes) cc = Ok (fast_layout sizes)"
proof -
  let ?layout = "layout_of sizes"
  have fields: "length (layout_row_token_offsets ?layout) = length sizes"
    "layout_cell_positions ?layout = place_rows 0 0 sizes" "layout_row_token_offsets ?layout = row_starts 0 sizes"
    "layout_payload_len ?layout = rows_size sizes"
    by (simp_all add: layout_of_def)
  have "for_each (\<lambda>(index, cell) _. if pos_row cell \<noteq> index div cc \<or> pos_column cell \<noteq> index mod cc
        then Err invalid_payload else Ok ()) (List.enumerate 0 (place_rows 0 0 sizes)) () = Ok ()"
    by (rule for_each_unit)
      (auto simp: in_set_enumerate_eq place_rows_index [OF cc] length_place_uniform [OF cc])
  then have valid: "validate_row_layout_cells ?layout cc = Ok ()"
    using size(2) by (simp add: validate_row_layout_cells_def fields checked_usize_def length_place_uniform [OF cc])
  have "try_map (\<lambda>row_offset. direct_checked_add row_offset ROW_TOKEN_LEN) (row_starts 0 sizes)
      = Ok (stage_offsets sizes 0)"
  proof -
    have "row_starts 0 sizes ! r + 1 < 2 ^ 64" if "r < length sizes" for r
      using row_start_less [OF that] size(1) by simp
    then show ?thesis
      by (simp add: try_map_Inr stage_offsets_0 direct_checked_add_def checked_usize_def ROW_TOKEN_LEN_def)
  qed
  moreover have "try_map (\<lambda>row. map_ok pos_offset (first_cell_position ?layout row cc)) [0..<length sizes]
      = Ok (stage_offsets sizes 0)" if "0 < cc"
  proof -
    have "first_cell_position ?layout r cc = Ok (place_rows 0 0 sizes ! (r * cc + 0))"
      if r: "r < length sizes" for r
    proof -
      have "r * cc < length sizes * cc" using r \<open>0 < cc\<close> by simp
      from less_trans [OF this size(2)] r \<open>0 < cc\<close> show ?thesis
        by (simp add: first_cell_position_def fields checked_usize_def length_place_uniform [OF cc])
    qed
    with place_rows_nth [OF cc _ \<open>0 < cc\<close>, of _ 0 0] show ?thesis
      by (simp add: try_map_Inr stage_offsets_def)
  qed
  moreover have "map_ok (\<lambda>cell. offsets @ [pos_offset cell]) r = map_ok (\<lambda>y. offsets @ [y]) (map_ok pos_offset r)"
    for offsets and r :: "error + cell_position"
    by (cases r) simp_all
  ultimately show ?thesis
    using valid by (cases "cc = 0")
      (simp_all add: rows_layout_from_row_layout_def fields fast_layout_def for_each_collect)
qed

subsection \<open>Encoding\<close>

lemma run_tokens:
  "\<forall>t \<in> set tokens. t < length bs \<Longrightarrow>
    run_each (\<lambda>row_offset bs. write_at bs row_offset [TDS_ROW_TOKEN]) tokens bs
      = Some (Ok (foldl (\<lambda>bs t. bs[t := TDS_ROW_TOKEN]) bs tokens))"
proof (induction tokens arbitrary: bs)
  case (Cons t tokens)
  then have "write_at bs t [TDS_ROW_TOKEN] = Some (Ok (bs[t := TDS_ROW_TOKEN]))"
    by (simp add: write_at_def splice_def upd_conv_take_nth_drop)
  with Cons show ?case by simp
qed simp

text \<open>The payload of the rows of a batch.\<close>

definition rows_payload :: "bytes list list \<Rightarrow> encoded_rows_payload" where
  "rows_payload rows =
     \<lparr>payload_bytes = rows_bytes rows, payload_row_token_offsets = row_starts 0 (cell_sizes rows)\<rparr>"

lemma encode_fast_rows:
  assumes columns: "fast_columns flags db rt columns cells" and cells: "\<forall>cs \<in> set cells. length cs = n"
    and size: "rows_size (cell_sizes (table_rows n cells)) < 2 ^ 64" "n * length cells < 2 ^ 64"
  shows "encode_fixed_width_rows db columns (fast_layout (cell_sizes (table_rows n cells))) rt
    = Some (Ok (Some (rows_payload (table_rows n cells))))"
proof -
  let ?sizes = "cell_sizes (table_rows n cells)" and ?rows = "table_rows n cells"
  let ?bs = "allocate_rows_payload_with_tokens (layout_of ?sizes)"
  have "\<forall>t \<in> set (row_starts 0 ?sizes). t < length (replicate (rows_size ?sizes) (0 :: u8))"
    using row_start_less [of _ ?sizes] by (auto simp: in_set_conv_nth)
  from run_tokens [OF this] have tokens:
    "run_each (\<lambda>row_offset bs. write_at bs row_offset [TDS_ROW_TOKEN]) (row_starts 0 ?sizes)
      (replicate (rows_size ?sizes) 0) = Some (Ok ?bs)"
    by (simp add: allocate_rows_payload_with_tokens_def layout_of_def)
  have "length (foldl (\<lambda>bs i. bs[i := b]) bs offsets) = length bs" for bs offsets and b :: u8
    by (induction offsets arbitrary: bs) simp_all
  then have "length ?bs = rows_size ?sizes"
    by (simp add: allocate_rows_payload_with_tokens_def layout_of_def)
  with fill_fast_columns [of flags db rt columns 0 cells n ?bs] columns cells size
  have "fill_fixed_width_columns db rt columns (stage_offsets ?sizes 0, ?bs)
      = Some (Ok (Some (fill_cells (table_writes (layout_of ?sizes) n cells) ?bs)))"
    by (simp add: table_writes_def)
  also have "fill_cells (table_writes (layout_of ?sizes) n cells) ?bs = rows_bytes ?rows"
    using table_writes_set [OF cells] by (intro filled_payload) simp
  finally show ?thesis
    using tokens
    by (simp add: encode_fixed_width_rows_def fast_layout_def rows_payload_valid rows_payload_def)
qed

text \<open>The entry points. A batch with a column the path does not take, or with the path switched
  off, is left to the caller; any other batch whose cells encode is encoded to its rows.\<close>

lemma bound_cells_lengths:
  assumes "try_map (bound_cells db rt) cols = Ok cells"
    and "\<And>c cs. c \<in> set cols \<Longrightarrow> bound_cells db rt c = Ok cs \<Longrightarrow> length cs = n"
  shows "\<forall>cs \<in> set cells. length cs = n" "length cells = length cols"
proof -
  from assms(1) have *: "length cells = length cols" "\<And>i. i < length cols \<Longrightarrow> bound_cells db rt (cols ! i) = Ok (cells ! i)"
    by (auto simp: try_map_Inr)
  from * show "length cells = length cols" by simp
  show "\<forall>cs \<in> set cells. length cs = n"
  proof
    fix cs assume "cs \<in> set cells"
    then obtain i where "i < length cols" "cs = cells ! i" using *(1) by (auto simp: in_set_conv_nth)
    with *(2) assms(2) [of "cols ! i"] show "length cs = n" by simp
  qed
qed

lemma try_encode_rows:
  assumes "\<forall>c \<in> set (bound_columns b). fast_bound c"
    and "try_map (bound_cells db (bound_context b)) (bound_columns b) = Ok cells"
    and "\<forall>cs \<in> set cells. length cs = bound_row_count b"
    and "rows_size (cell_sizes (table_rows (bound_row_count b) cells)) < 2 ^ 64"
      "bound_row_count b * length cells < 2 ^ 64"
  shows "try_encode_fixed_width_rows flags db b
    = Some (Ok (if bound_row_count b = 0 \<or> fixed_width_columns flags (bound_columns b) \<noteq> None
        then Some (rows_payload (table_rows (bound_row_count b) cells)) else None))"
proof (cases "bound_row_count b = 0")
  case True
  have "encoded_rows_payload_new [] [] = Ok (rows_payload (table_rows 0 cells))"
    using rows_payload_valid [of "[]"] by (simp add: rows_payload_def table_rows_def rows_bytes_def)
  with True show ?thesis by (simp add: try_encode_fixed_width_rows_def)
next
  case False
  show ?thesis
  proof (cases "fixed_width_columns flags (bound_columns b)")
    case (Some columns)
    then have "fixed_width_columns_from flags (bound_columns b) = Some columns"
      by (simp add: fixed_width_columns_def split: if_splits)
    from fast_columns_from [OF this assms(1,2)]
    have columns: "fast_columns flags db (bound_context b) columns cells" .
    from measure_fast_rows [OF columns assms(3,4)] encode_fast_rows [OF columns assms(3-5)] False Some
    show ?thesis by (simp add: try_encode_fixed_width_rows_def)
  qed (use False in \<open>simp add: try_encode_fixed_width_rows_def\<close>)
qed

lemma try_encode_rows_with_layout:
  assumes "\<forall>c \<in> set (bound_columns b). fast_bound c"
    and "try_map (bound_cells db (bound_context b)) (bound_columns b) = Ok cells"
    and "\<forall>cs \<in> set cells. length cs = bound_row_count b"
    and "rows_size (cell_sizes (table_rows (bound_row_count b) cells)) < 2 ^ 64"
      "bound_row_count b * length cells < 2 ^ 64"
  shows "try_encode_fixed_width_rows_with_layout flags db b
      (layout_of (cell_sizes (table_rows (bound_row_count b) cells)))
    = Some (Ok (if bound_row_count b = 0 \<or> fixed_width_columns flags (bound_columns b) \<noteq> None
        then Some (rows_payload (table_rows (bound_row_count b) cells)) else None))"
proof (cases "bound_row_count b = 0")
  case True
  have "encoded_rows_payload_new [] [] = Ok (rows_payload (table_rows 0 cells))"
    using rows_payload_valid [of "[]"] by (simp add: rows_payload_def table_rows_def rows_bytes_def)
  with True show ?thesis by (simp add: try_encode_fixed_width_rows_with_layout_def)
next
  case False
  let ?sizes = "cell_sizes (table_rows (bound_row_count b) cells)"
  have tokens: "length (layout_row_token_offsets (layout_of ?sizes)) = bound_row_count b"
    by (simp add: layout_of_def table_rows_shape(1))
  show ?thesis
  proof (cases "fixed_width_columns flags (bound_columns b)")
    case (Some columns)
    then have "fixed_width_columns_from flags (bound_columns b) = Some columns"
      by (simp add: fixed_width_columns_def split: if_splits)
    from fast_columns_from [OF this assms(1,2)]
    have columns: "fast_columns flags db (bound_context b) columns cells" .
    have "\<forall>ns \<in> set ?sizes. length ns = length cells" by (auto simp: table_rows_def)
    from layout_rows_layout [OF this assms(4)] assms(2,5)
    have "rows_layout_from_row_layout (layout_of ?sizes) (length (bound_columns b)) = Ok (fast_layout ?sizes)"
      by (simp add: table_rows_shape(1) try_map_Inr)
    with encode_fast_rows [OF columns assms(3-5)] False Some tokens
    show ?thesis by (simp add: try_encode_fixed_width_rows_with_layout_def)
  qed (use False tokens in \<open>simp add: try_encode_fixed_width_rows_with_layout_def\<close>)
qed

end
