(* ===== verification/Slices.thy ===== *)
theory Slices
  imports FastRows
begin

text \<open>
  Slices of batches. \<^verbatim>\<open>RecordBatch::slice\<close> shares the buffers; binding a slice gives the
  slices of the bound columns, and these encode the cells of the slice's rows.
\<close>

primrec bound_slice :: "usize \<Rightarrow> usize \<Rightarrow> bound_direct_column \<Rightarrow> bound_direct_column" where
  "bound_slice start n (BoundBoolean col array) = BoundBoolean col (slice_rows start n array)"
| "bound_slice start n (BoundUInt8 col array) = BoundUInt8 col (slice_rows start n array)"
| "bound_slice start n (BoundInt8 col array) = BoundInt8 col (slice_rows start n array)"
| "bound_slice start n (BoundInt16 col array) = BoundInt16 col (slice_rows start n array)"
| "bound_slice start n (BoundInt32 col array) = BoundInt32 col (slice_rows start n array)"
| "bound_slice start n (BoundUInt16 col array) = BoundUInt16 col (slice_rows start n array)"
| "bound_slice start n (BoundInt64 col array) = BoundInt64 col (slice_rows start n array)"
| "bound_slice start n (BoundUInt32 col array) = BoundUInt32 col (slice_rows start n array)"
| "bound_slice start n (BoundUInt64 col array) = BoundUInt64 col (slice_rows start n array)"
| "bound_slice start n (BoundUInt64Decimal20_0 col array) = BoundUInt64Decimal20_0 col (slice_rows start n array)"
| "bound_slice start n (BoundDecimal32 col x array) = BoundDecimal32 col x (slice_rows start n array)"
| "bound_slice start n (BoundDecimal64 col x array) = BoundDecimal64 col x (slice_rows start n array)"
| "bound_slice start n (BoundDecimal128 col x array) = BoundDecimal128 col x (slice_rows start n array)"
| "bound_slice start n (BoundDecimal256 col x array) = BoundDecimal256 col x (slice_rows start n array)"
| "bound_slice start n (BoundFloat16 col array) = BoundFloat16 col (slice_rows start n array)"
| "bound_slice start n (BoundFloat32 col array) = BoundFloat32 col (slice_rows start n array)"
| "bound_slice start n (BoundFloat64 col array) = BoundFloat64 col (slice_rows start n array)"
| "bound_slice start n (BoundUtf8 col array) = BoundUtf8 col (slice_rows start n array)"
| "bound_slice start n (BoundLargeUtf8 col array) = BoundLargeUtf8 col (slice_rows start n array)"
| "bound_slice start n (BoundUtf8View col array) = BoundUtf8View col (slice_rows start n array)"
| "bound_slice start n (BoundBinary col array) = BoundBinary col (slice_rows start n array)"
| "bound_slice start n (BoundLargeBinary col array) = BoundLargeBinary col (slice_rows start n array)"
| "bound_slice start n (BoundBinaryView col array) = BoundBinaryView col (slice_rows start n array)"
| "bound_slice start n (BoundFixedSizeBinary col x array) = BoundFixedSizeBinary col x (slice_rows start n array)"
| "bound_slice start n (BoundDate32 col x array) = BoundDate32 col x (slice_rows start n array)"
| "bound_slice start n (BoundDate64 col x array) = BoundDate64 col x (slice_rows start n array)"
| "bound_slice start n (BoundTimestampSecond col x array) = BoundTimestampSecond col x (slice_rows start n array)"
| "bound_slice start n (BoundTimestampMillisecond col x array) = BoundTimestampMillisecond col x (slice_rows start n array)"
| "bound_slice start n (BoundTimestampMicrosecond col x array) = BoundTimestampMicrosecond col x (slice_rows start n array)"
| "bound_slice start n (BoundTimestampNanosecond col x array) = BoundTimestampNanosecond col x (slice_rows start n array)"
| "bound_slice start n (BoundTime32Second col x array) = BoundTime32Second col x (slice_rows start n array)"
| "bound_slice start n (BoundTime32Millisecond col x array) = BoundTime32Millisecond col x (slice_rows start n array)"
| "bound_slice start n (BoundTime64Microsecond col x array) = BoundTime64Microsecond col x (slice_rows start n array)"
| "bound_slice start n (BoundTime64Nanosecond col x array) = BoundTime64Nanosecond col x (slice_rows start n array)"
| "bound_slice start n (BoundDateTimeOffsetSecond col x array) = BoundDateTimeOffsetSecond col x (slice_rows start n array)"
| "bound_slice start n (BoundDateTimeOffsetMillisecond col x array) = BoundDateTimeOffsetMillisecond col x (slice_rows start n array)"
| "bound_slice start n (BoundDateTimeOffsetMicrosecond col x array) = BoundDateTimeOffsetMicrosecond col x (slice_rows start n array)"
| "bound_slice start n (BoundDateTimeOffsetNanosecond col x array) = BoundDateTimeOffsetNanosecond col x (slice_rows start n array)"

lemma downcast_slice:
  "downcast_direct_array is_BooleanArray as_boolean (array_slice start n array) col
    = map_ok (slice_rows start n) (downcast_direct_array is_BooleanArray as_boolean array col)"
  "downcast_direct_array is_Int8Array as_int8 (array_slice start n array) col
    = map_ok (slice_rows start n) (downcast_direct_array is_Int8Array as_int8 array col)"
  "downcast_direct_array is_Int16Array as_int16 (array_slice start n array) col
    = map_ok (slice_rows start n) (downcast_direct_array is_Int16Array as_int16 array col)"
  "downcast_direct_array is_Int32Array as_int32 (array_slice start n array) col
    = map_ok (slice_rows start n) (downcast_direct_array is_Int32Array as_int32 array col)"
  "downcast_direct_array is_Int64Array as_int64 (array_slice start n array) col
    = map_ok (slice_rows start n) (downcast_direct_array is_Int64Array as_int64 array col)"
  "downcast_direct_array is_UInt8Array as_uint8 (array_slice start n array) col
    = map_ok (slice_rows start n) (downcast_direct_array is_UInt8Array as_uint8 array col)"
  "downcast_direct_array is_UInt16Array as_uint16 (array_slice start n array) col
    = map_ok (slice_rows start n) (downcast_direct_array is_UInt16Array as_uint16 array col)"
  "downcast_direct_array is_UInt32Array as_uint32 (array_slice start n array) col
    = map_ok (slice_rows start n) (downcast_direct_array is_UInt32Array as_uint32 array col)"
  "downcast_direct_array is_UInt64Array as_uint64 (array_slice start n array) col
    = map_ok (slice_rows start n) (downcast_direct_array is_UInt64Array as_uint64 array col)"
  "downcast_direct_array is_Float16Array as_float16 (array_slice start n array) col
    = map_ok (slice_rows start n) (downcast_direct_array is_Float16Array as_float16 array col)"
  "downcast_direct_array is_Float32Array as_float32 (array_slice start n array) col
    = map_ok (slice_rows start n) (downcast_direct_array is_Float32Array as_float32 array col)"
  "downcast_direct_array is_Float64Array as_float64 (array_slice start n array) col
    = map_ok (slice_rows start n) (downcast_direct_array is_Float64Array as_float64 array col)"
  "downcast_direct_array is_Decimal32Array as_decimal32 (array_slice start n array) col
    = map_ok (slice_rows start n) (downcast_direct_array is_Decimal32Array as_decimal32 array col)"
  "downcast_direct_array is_Decimal64Array as_decimal64 (array_slice start n array) col
    = map_ok (slice_rows start n) (downcast_direct_array is_Decimal64Array as_decimal64 array col)"
  "downcast_direct_array is_Decimal128Array as_decimal128 (array_slice start n array) col
    = map_ok (slice_rows start n) (downcast_direct_array is_Decimal128Array as_decimal128 array col)"
  "downcast_direct_array is_Decimal256Array as_decimal256 (array_slice start n array) col
    = map_ok (slice_rows start n) (downcast_direct_array is_Decimal256Array as_decimal256 array col)"
  "downcast_direct_array is_StringArray as_string (array_slice start n array) col
    = map_ok (slice_rows start n) (downcast_direct_array is_StringArray as_string array col)"
  "downcast_direct_array is_LargeStringArray as_large_string (array_slice start n array) col
    = map_ok (slice_rows start n) (downcast_direct_array is_LargeStringArray as_large_string array col)"
  "downcast_direct_array is_StringViewArray as_string_view (array_slice start n array) col
    = map_ok (slice_rows start n) (downcast_direct_array is_StringViewArray as_string_view array col)"
  "downcast_direct_array is_BinaryArray as_binary (array_slice start n array) col
    = map_ok (slice_rows start n) (downcast_direct_array is_BinaryArray as_binary array col)"
  "downcast_direct_array is_LargeBinaryArray as_large_binary (array_slice start n array) col
    = map_ok (slice_rows start n) (downcast_direct_array is_LargeBinaryArray as_large_binary array col)"
  "downcast_direct_array is_BinaryViewArray as_binary_view (array_slice start n array) col
    = map_ok (slice_rows start n) (downcast_direct_array is_BinaryViewArray as_binary_view array col)"
  "downcast_direct_array is_FixedSizeBinaryArray as_fixed_size_binary (array_slice start n array) col
    = map_ok (slice_rows start n) (downcast_direct_array is_FixedSizeBinaryArray as_fixed_size_binary array col)"
  "downcast_direct_array is_Date32Array as_date32 (array_slice start n array) col
    = map_ok (slice_rows start n) (downcast_direct_array is_Date32Array as_date32 array col)"
  "downcast_direct_array is_Date64Array as_date64 (array_slice start n array) col
    = map_ok (slice_rows start n) (downcast_direct_array is_Date64Array as_date64 array col)"
  "downcast_direct_array is_Time32SecondArray as_time32_second (array_slice start n array) col
    = map_ok (slice_rows start n) (downcast_direct_array is_Time32SecondArray as_time32_second array col)"
  "downcast_direct_array is_Time32MillisecondArray as_time32_millisecond (array_slice start n array) col
    = map_ok (slice_rows start n) (downcast_direct_array is_Time32MillisecondArray as_time32_millisecond array col)"
  "downcast_direct_array is_Time64MicrosecondArray as_time64_microsecond (array_slice start n array) col
    = map_ok (slice_rows start n) (downcast_direct_array is_Time64MicrosecondArray as_time64_microsecond array col)"
  "downcast_direct_array is_Time64NanosecondArray as_time64_nanosecond (array_slice start n array) col
    = map_ok (slice_rows start n) (downcast_direct_array is_Time64NanosecondArray as_time64_nanosecond array col)"
  "downcast_direct_array is_TimestampSecondArray as_timestamp_second (array_slice start n array) col
    = map_ok (slice_rows start n) (downcast_direct_array is_TimestampSecondArray as_timestamp_second array col)"
  "downcast_direct_array is_TimestampMillisecondArray as_timestamp_millisecond (array_slice start n array) col
    = map_ok (slice_rows start n) (downcast_direct_array is_TimestampMillisecondArray as_timestamp_millisecond array col)"
  "downcast_direct_array is_TimestampMicrosecondArray as_timestamp_microsecond (array_slice start n array) col
    = map_ok (slice_rows start n) (downcast_direct_array is_TimestampMicrosecondArray as_timestamp_microsecond array col)"
  "downcast_direct_array is_TimestampNanosecondArray as_timestamp_nanosecond (array_slice start n array) col
    = map_ok (slice_rows start n) (downcast_direct_array is_TimestampNanosecondArray as_timestamp_nanosecond array col)"
  by (cases array; simp add: downcast_direct_array_def)+

lemma array_slice_data_type [simp]: "array_data_type (array_slice start n array) = array_data_type array"
  by (cases array) simp_all

lemma array_slice_len: "start + n \<le> array_len array \<Longrightarrow> array_len (array_slice start n array) = n"
  by (cases array) (simp_all add: array_len_def values_null_def slice_rows_def)

lemma array_slice_valid: "valid_array array \<Longrightarrow> valid_array (array_slice start n array)"
  by (cases array) (auto simp: valid_array_def slice_rows_def dest: in_set_takeD in_set_dropD)

lemma batch_slice_valid:
  assumes "valid_batch batch" "start + n \<le> batch_num_rows batch"
  shows "valid_batch (batch_slice start n batch)"
  using assms by (auto simp: valid_batch_def batch_slice_def comp_def array_slice_valid array_slice_len)

text \<open>A slice has the schema of the batch, and so passes or fails the shape check like it.\<close>

lemma slice_encoding_shape:
  "validate_record_batch_encoding_shape (batch_slice start n batch) mappings
    = validate_record_batch_encoding_shape batch mappings"
proof -
  have "for_each (\<lambda>(array, m) _. validate_unchecked_column_array_against_mapping array m)
      (zip (map (array_slice start n) columns) mappings) ()
    = for_each (\<lambda>(array, m) _. validate_unchecked_column_array_against_mapping array m)
      (zip columns mappings) ()" for columns
  proof (induction columns arbitrary: mappings)
    case (Cons array columns)
    then show ?case
      by (cases mappings) (simp_all add: validate_unchecked_column_array_against_mapping_def)
  qed simp
  then show ?thesis by (simp add: validate_record_batch_encoding_shape_def batch_slice_def)
qed

lemma map_ok_slices:
  "map_ok f (map_ok g r) = map_ok (\<lambda>x. f (g x)) r"
  "map_ok f (and_then r h) = and_then r (\<lambda>x. map_ok f (h x))"
  by (cases r; simp)+

lemma bind_temporal_slice:
  "bind_temporal_array c (array_slice start n array) col
    = (\<lambda>m. map_ok (bound_slice start n) (bind_temporal_array c array col m))"
  by (cases c) (simp_all add: fun_eq_iff bind_temporal_array_def downcast_slice map_ok_slices)

lemma bind_string_slices:
  "bind_direct_nvarchar_array (array_slice start n array) col
    = (\<lambda>m. map_ok (bound_slice start n) (bind_direct_nvarchar_array array col m))"
  "bind_direct_varbinary_array (array_slice start n array) col
    = (\<lambda>m. map_ok (bound_slice start n) (bind_direct_varbinary_array array col m))"
  by (simp_all add: fun_eq_iff bind_direct_nvarchar_array_def bind_direct_varbinary_array_def downcast_slice map_ok_slices
      split: data_type.split)

lemma bind_column_slice:
  "bind_direct_column encoder (batch_slice start n batch) i col
    = map_ok (bound_slice start n) (bind_direct_column encoder batch i col)"
proof (cases "plan_source_index col < length (batch_columns batch)")
  case True
  define array where "array = batch_columns batch ! plan_source_index col"
  have "batch_columns (batch_slice start n batch) ! plan_source_index col = array_slice start n array"
    using True by (simp add: batch_slice_def array_def)
  moreover have "length (batch_columns (batch_slice start n batch)) = length (batch_columns batch)"
    by (simp add: batch_slice_def)
  moreover note array_def [symmetric, simp]
  ultimately show ?thesis
    using True
    by (simp add: bind_direct_column_def Let_def downcast_slice map_ok_slices bind_temporal_slice bind_string_slices
        split: direct_column_encoding.split primitive_conversion.split decimal_conversion.split
          variable_width_conversion.split)
qed (simp add: bind_direct_column_def batch_slice_def)

lemma bind_columns_slice:
  "bind_direct_columns encoder (batch_slice start n batch)
    = map_ok (map (bound_slice start n)) (bind_direct_columns encoder batch)"
proof -
  have "try_map (\<lambda>x. map_ok f (g x)) xs = map_ok (map f) (try_map g xs)" for f :: "'b \<Rightarrow> 'c" and g and xs :: "'a list"
  proof (induction xs)
    case (Cons x xs)
    then show ?case by (cases "g x"; cases "try_map g xs") simp_all
  qed simp
  then show ?thesis by (simp add: bind_columns_map bind_column_slice case_prod_unfold)
qed

lemma bound_cells_slice:
  assumes "well_bound c" "bound_cells db rt c = Ok cells" "start + n \<le> length cells"
  shows "bound_cells db rt (bound_slice start n c) = Ok (take n (drop start cells))"
proof (cases c)
  case (BoundBoolean col array)
  with assms(2,3) boolean_values.codec.column_slice show ?thesis
    by (simp add: bound_cells_def slice_rows_def length_column_cells)
next
  case (BoundUInt8 col array)
  with assms(2,3) uint8_values.codec.column_slice show ?thesis
    by (simp add: bound_cells_def slice_rows_def length_column_cells)
next
  case (BoundInt8 col array)
  with assms(2,3) int8_values.codec.column_slice show ?thesis
    by (simp add: bound_cells_def slice_rows_def length_column_cells)
next
  case (BoundInt16 col array)
  with assms(2,3) int16_values.codec.column_slice show ?thesis
    by (simp add: bound_cells_def slice_rows_def length_column_cells)
next
  case (BoundInt32 col array)
  with assms(2,3) int32_values.codec.column_slice show ?thesis
    by (simp add: bound_cells_def slice_rows_def length_column_cells)
next
  case (BoundUInt16 col array)
  with assms(2,3) uint16_values.codec.column_slice show ?thesis
    by (simp add: bound_cells_def slice_rows_def length_column_cells)
next
  case (BoundInt64 col array)
  with assms(2,3) int64_values.codec.column_slice show ?thesis
    by (simp add: bound_cells_def slice_rows_def length_column_cells)
next
  case (BoundUInt32 col array)
  with assms(2,3) uint32_values.codec.column_slice show ?thesis
    by (simp add: bound_cells_def slice_rows_def length_column_cells)
next
  case (BoundUInt64 col array)
  with assms(2,3) uint64_values.codec.column_slice show ?thesis
    by (simp add: bound_cells_def slice_rows_def length_column_cells)
next
  case (BoundUInt64Decimal20_0 col array)
  with assms(2,3) uint64_decimal20.column_slice show ?thesis
    by (simp add: bound_cells_def slice_rows_def length_column_cells)
next
  case (BoundDecimal32 col x array)
  with assms(2,3) decimal32_reader.codec.column_slice show ?thesis
    by (simp add: bound_cells_def slice_rows_def length_column_cells)
next
  case (BoundDecimal64 col x array)
  with assms(2,3) decimal64_reader.codec.column_slice show ?thesis
    by (simp add: bound_cells_def slice_rows_def length_column_cells)
next
  case (BoundDecimal128 col x array)
  with assms(2,3) decimal128_reader.codec.column_slice show ?thesis
    by (simp add: bound_cells_def slice_rows_def length_column_cells)
next
  case (BoundDecimal256 col x array)
  with assms(2,3) decimal256_reader.codec.column_slice show ?thesis
    by (simp add: bound_cells_def slice_rows_def length_column_cells)
next
  case (BoundFloat16 col array)
  with assms(2,3) float32_values.codec.column_slice show ?thesis
    by (simp add: bound_cells_def slice_rows_def length_column_cells)
next
  case (BoundFloat32 col array)
  with assms(2,3) float32_values.codec.column_slice show ?thesis
    by (simp add: bound_cells_def slice_rows_def length_column_cells)
next
  case (BoundFloat64 col array)
  with assms(2,3) float64_values.codec.column_slice show ?thesis
    by (simp add: bound_cells_def slice_rows_def length_column_cells)
next
  case (BoundUtf8 col array)
  with assms(2,3) nvarchar_codec.column_slice show ?thesis
    by (simp add: bound_cells_def slice_rows_def length_column_cells)
next
  case (BoundLargeUtf8 col array)
  with assms(2,3) nvarchar_codec.column_slice show ?thesis
    by (simp add: bound_cells_def slice_rows_def length_column_cells)
next
  case (BoundUtf8View col array)
  with assms(2,3) nvarchar_codec.column_slice show ?thesis
    by (simp add: bound_cells_def slice_rows_def length_column_cells)
next
  case (BoundBinary col array)
  with assms(2,3) varbinary_codec.column_slice show ?thesis
    by (simp add: bound_cells_def slice_rows_def length_column_cells)
next
  case (BoundLargeBinary col array)
  with assms(2,3) varbinary_codec.column_slice show ?thesis
    by (simp add: bound_cells_def slice_rows_def length_column_cells)
next
  case (BoundBinaryView col array)
  with assms(2,3) varbinary_codec.column_slice show ?thesis
    by (simp add: bound_cells_def slice_rows_def length_column_cells)
next
  case (BoundFixedSizeBinary col x array)
  with assms(1) have "binary_length x < 65536" by (simp add: well_bound_def)
  from column_codec.column_slice [OF fixed_binary_codec [OF this]] BoundFixedSizeBinary assms(2,3) show ?thesis
    by (simp add: bound_cells_def slice_rows_def length_column_cells)
next
  case (BoundDate32 col x array)
  with assms(2,3) date32_reader.codec.column_slice show ?thesis
    by (simp add: bound_cells_def slice_rows_def length_column_cells)
next
  case (BoundDate64 col x array)
  with assms(2,3) date64_reader.codec.column_slice show ?thesis
    by (simp add: bound_cells_def slice_rows_def length_column_cells)
next
  case (BoundTimestampSecond col x array)
  with assms(2,3) timestamp_second_reader.codec.column_slice show ?thesis
    by (simp add: bound_cells_def slice_rows_def length_column_cells)
next
  case (BoundTimestampMillisecond col x array)
  with assms(2,3) timestamp_millisecond_reader.codec.column_slice show ?thesis
    by (simp add: bound_cells_def slice_rows_def length_column_cells)
next
  case (BoundTimestampMicrosecond col x array)
  with assms(2,3) timestamp_microsecond_reader.codec.column_slice show ?thesis
    by (simp add: bound_cells_def slice_rows_def length_column_cells)
next
  case (BoundTimestampNanosecond col x array)
  with assms(2,3) timestamp_nanosecond_reader.codec.column_slice show ?thesis
    by (simp add: bound_cells_def slice_rows_def length_column_cells)
next
  case (BoundTime32Second col x array)
  with assms(2,3) time32_second_reader.codec.column_slice show ?thesis
    by (simp add: bound_cells_def slice_rows_def length_column_cells)
next
  case (BoundTime32Millisecond col x array)
  with assms(2,3) time32_millisecond_reader.codec.column_slice show ?thesis
    by (simp add: bound_cells_def slice_rows_def length_column_cells)
next
  case (BoundTime64Microsecond col x array)
  with assms(2,3) time64_microsecond_reader.codec.column_slice show ?thesis
    by (simp add: bound_cells_def slice_rows_def length_column_cells)
next
  case (BoundTime64Nanosecond col x array)
  with assms(2,3) time64_nanosecond_reader.codec.column_slice show ?thesis
    by (simp add: bound_cells_def slice_rows_def length_column_cells)
next
  case (BoundDateTimeOffsetSecond col x array)
  with assms(2,3) datetimeoffset_second_reader.codec.column_slice show ?thesis
    by (simp add: bound_cells_def slice_rows_def length_column_cells)
next
  case (BoundDateTimeOffsetMillisecond col x array)
  with assms(2,3) datetimeoffset_millisecond_reader.codec.column_slice show ?thesis
    by (simp add: bound_cells_def slice_rows_def length_column_cells)
next
  case (BoundDateTimeOffsetMicrosecond col x array)
  with assms(2,3) datetimeoffset_microsecond_reader.codec.column_slice show ?thesis
    by (simp add: bound_cells_def slice_rows_def length_column_cells)
next
  case (BoundDateTimeOffsetNanosecond col x array)
  with assms(2,3) datetimeoffset_nanosecond_reader.codec.column_slice show ?thesis
    by (simp add: bound_cells_def slice_rows_def length_column_cells)
qed

lemma bound_slice_keeps [simp]:
  "well_bound (bound_slice start n c) = well_bound c" "fast_bound (bound_slice start n c) = fast_bound c"
proof -
  show wb: "well_bound (bound_slice start n c) = well_bound c"
    by (cases c) (simp_all add: well_bound_def)
  show "fast_bound (bound_slice start n c) = fast_bound c"
    by (cases c) (simp_all add: fast_bound_def well_bound_def)
qed

text \<open>A planned column is bound to the constructor of its encoding.\<close>

lemma bind_column_fast_bound:
  assumes bind: "bind_direct_column encoder batch i col = Ok c" and bound: "well_bound c"
    and m: "mapping_for_column_index encoder i = Ok m" "plan_target_type col = target_type m"
  shows "fast_bound c"
proof (cases "plan_encoding col")
  case (EncPrimitive p)
  then show ?thesis using bind bound
    by (cases p) (auto simp: bind_defs map_ok_Inr fast_bound_def split: if_splits)
next
  case (EncDecimal d)
  then show ?thesis using bind bound
    by (cases d) (auto simp: bind_defs map_ok_Inr fast_bound_def split: if_splits)
next
  case (EncVariableWidth v)
  then show ?thesis using bind bound
    by (cases v) (auto simp: bind_defs map_ok_Inr and_then_Inr fast_bound_def split: if_splits data_type.splits)
next
  case (EncTemporal t)
  with bind m(1) have "bind_temporal_array t (batch_columns batch ! plan_source_index col) col m = Ok c"
    by (simp add: bind_direct_column_def Let_def split: if_splits)
  with bound EncTemporal m(2) show ?thesis
    by (cases t) (auto simp: bind_temporal_array_def map_ok_Inr fast_bound_def plain_timestamp_def)
qed (use bind bound in \<open>auto simp: bind_defs map_ok_Inr fast_bound_def split: if_splits\<close>)

end
