(* ===== verification/DirectRows.thy ===== *)
theory DirectRows
  imports Slices
begin

text \<open>
  The direct encoder over whole batches (\<^verbatim>\<open>src/write/direct/encoder.rs\<close>,
  \<^verbatim>\<open>src/write/direct/measure.rs\<close>, \<^verbatim>\<open>src/write/direct/rows/payload.rs\<close> and
  \<^verbatim>\<open>src/write/direct/rows/append.rs\<close>): measuring a batch, and the ways of encoding it, at once,
  range by range into a payload of its own, or appended to the driver's buffer.

  The encoders that try the fast path can panic and give a run. The append buffer of the driver is
  the list of the bytes put into it; what an append that fails has already put there is not part
  of the result.
\<close>

subsection \<open>Measuring\<close>

definition measure_cell_lengths :: "'tz timezone_db \<Rightarrow> direct_encoder \<Rightarrow> record_batch \<Rightarrow> error + usize list" where
  "measure_cell_lengths db encoder batch =
     (if batch_num_rows batch = 0 then Ok []
      else and_then (bound_batch_new encoder batch) (measure_bound_cell_lengths db))"

definition measure_batch :: "'tz timezone_db \<Rightarrow> direct_encoder \<Rightarrow> record_batch \<Rightarrow> error + measured_direct_batch" where
  "measure_batch db encoder batch =
     and_then (validate_record_batch_encoding_shape batch (encoder_mappings encoder)) (\<lambda>_.
       let row_count = batch_num_rows batch; column_count = length (encoder_plan encoder) in
       if row_count = 0 then Ok (measured_empty column_count)
       else and_then (measure_cell_lengths db encoder batch) (measured_new row_count column_count))"

subsection \<open>Payloads\<close>

definition encode_checked_batch ::
    "fast_path_flags \<Rightarrow> 'tz timezone_db \<Rightarrow> direct_encoder \<Rightarrow> record_batch \<Rightarrow> encoded_rows_payload run" where
  "encode_checked_batch flags db encoder batch =
     run_then (Some (validate_record_batch_encoding_shape batch (encoder_mappings encoder))) (\<lambda>_.
       if encoder_plan encoder = [] \<and> batch_num_rows batch = 0 then Some (encoded_rows_payload_new [] [])
       else
         run_then (Some (bound_batch_new encoder batch)) (\<lambda>bound.
         run_then (try_encode_fixed_width_rows flags db bound) (\<lambda>payload.
           case payload of
             Some payload \<Rightarrow> Some (Ok payload)
           | None \<Rightarrow>
               Some
                 (and_then (measure_bound_layout db bound) (\<lambda>layout.
                  and_then (fill_bound_columns db bound layout (allocate_rows_payload_with_tokens layout)) (\<lambda>bs.
                    encoded_rows_payload_new bs (layout_row_token_offsets layout)))))))"

definition encode_batch ::
    "fast_path_flags \<Rightarrow> 'tz timezone_db \<Rightarrow> direct_encoder \<Rightarrow> record_batch \<Rightarrow> encoded_rows_payload run" where
  "encode_batch flags db encoder batch = encode_checked_batch flags db encoder batch"

definition encode_batch_range ::
    "fast_path_flags \<Rightarrow> 'tz timezone_db \<Rightarrow> direct_encoder \<Rightarrow> record_batch \<Rightarrow> usize \<Rightarrow> usize
      \<Rightarrow> encoded_rows_payload run" where
  "encode_batch_range flags db encoder batch start_row row_count =
     run_then (Some (ok_or invalid_payload (checked_usize (start_row + row_count)))) (\<lambda>end_row.
       if end_row > batch_num_rows batch then Some (Err invalid_payload)
       else encode_checked_batch flags db encoder (batch_slice start_row row_count batch))"

definition encode_measured_batch_range ::
    "fast_path_flags \<Rightarrow> 'tz timezone_db \<Rightarrow> direct_encoder \<Rightarrow> record_batch \<Rightarrow> measured_direct_batch
      \<Rightarrow> usize \<Rightarrow> usize \<Rightarrow> encoded_rows_payload run" where
  "encode_measured_batch_range flags db encoder batch measured start_row row_count =
     run_then (Some (check_range measured start_row row_count)) (\<lambda>_.
       if row_count = 0 then Some (encoded_rows_payload_new [] [])
       else if measured_row_count measured \<noteq> batch_num_rows batch then Some (Err invalid_payload)
       else if measured_column_count measured \<noteq> length (encoder_plan encoder) then Some (Err invalid_payload)
       else
         run_then (Some (bound_batch_new encoder (batch_slice start_row row_count batch))) (\<lambda>bound.
         run_then (Some (range_layout measured start_row row_count)) (\<lambda>layout.
         run_then (try_encode_fixed_width_rows_with_layout flags db bound layout) (\<lambda>payload.
           case payload of
             Some payload \<Rightarrow> Some (Ok payload)
           | None \<Rightarrow>
               Some
                 (and_then (fill_bound_columns db bound layout (allocate_rows_payload_with_tokens layout)) (\<lambda>bs.
                    encoded_rows_payload_new bs (layout_row_token_offsets layout)))))))"

subsection \<open>Appending\<close>

definition append_measured_cell ::
    "'tz timezone_db \<Rightarrow> bound_direct_batch \<Rightarrow> measured_direct_batch \<Rightarrow> usize
      \<Rightarrow> usize \<times> bound_direct_column \<Rightarrow> bytes \<times> usize \<Rightarrow> error + (bytes \<times> usize)" where
  "append_measured_cell db bound measured row_index =
     (\<lambda>(column_index, c) (buf, written).
        and_then (measured_cell_len measured row_index column_index) (\<lambda>measured_len.
        and_then (append_bound_cell db (bound_context bound) c row_index measured_len buf) (\<lambda>buf.
        and_then (direct_checked_add written measured_len) (\<lambda>written. Ok (buf, written)))))"

definition append_measured_row ::
    "'tz timezone_db \<Rightarrow> bound_direct_batch \<Rightarrow> measured_direct_batch \<Rightarrow> usize
      \<Rightarrow> bytes \<times> usize list \<times> usize \<Rightarrow> error + (bytes \<times> usize list \<times> usize)" where
  "append_measured_row db bound measured row_index =
     (\<lambda>(buf, row_token_offsets, written).
        and_then (direct_checked_add written 1) (\<lambda>written'.
        and_then
          (for_each (append_measured_cell db bound measured row_index)
             (List.enumerate 0 (bound_columns bound)) (buf @ [TDS_ROW_TOKEN], written'))
          (\<lambda>(buf, written'). Ok (buf, row_token_offsets @ [written], written'))))"

text \<open>The buffer, and the row token offsets of the \<^verbatim>\<open>RawRowsAppend\<close>.\<close>

definition encode_measured_batch_range_into ::
    "'tz timezone_db \<Rightarrow> direct_encoder \<Rightarrow> record_batch \<Rightarrow> measured_direct_batch \<Rightarrow> usize \<Rightarrow> usize \<Rightarrow> bytes
      \<Rightarrow> error + (bytes \<times> usize list)" where
  "encode_measured_batch_range_into db encoder batch measured start_row row_count buf =
     and_then (check_range measured start_row row_count) (\<lambda>_.
       if measured_row_count measured \<noteq> batch_num_rows batch then Err invalid_payload
       else if measured_column_count measured \<noteq> length (encoder_plan encoder) then Err invalid_payload
       else
         and_then (bound_batch_new encoder batch) (\<lambda>bound.
         and_then (ok_or invalid_payload (checked_usize (start_row + row_count))) (\<lambda>end_row.
         and_then
           (for_each (append_measured_row db bound measured) [start_row..<end_row] (buf, [], 0))
           (\<lambda>(buf, row_token_offsets, _). Ok (buf, row_token_offsets)))))"

subsection \<open>Batches that encode\<close>

text \<open>A batch of bound columns whose cells encode, to rows of a size the machine can count.\<close>

definition encodes ::
    "'tz timezone_db \<Rightarrow> runtime_context \<Rightarrow> bound_direct_column list \<Rightarrow> usize \<Rightarrow> bytes list list \<Rightarrow> bool" where
  "encodes db rt cols n cells \<longleftrightarrow>
     (\<forall>c \<in> set cols. fast_bound c) \<and> try_map (bound_cells db rt) cols = Ok cells
     \<and> (\<forall>cs \<in> set cells. length cs = n) \<and> rows_size (cell_sizes (table_rows n cells)) < 2 ^ 64
     \<and> n * length cells < 2 ^ 64"

lemma fast_well_bound: "fast_bound c \<Longrightarrow> well_bound c"
  by (simp add: fast_bound_def)

lemma row_count_le: "length sizes \<le> rows_size sizes"
  by (induction sizes) simp_all

lemma encodesD:
  assumes "encodes db rt cols n cells"
  shows "length cells = length cols" "n < 2 ^ 64" "\<forall>c \<in> set cols. well_bound c"
  using assms row_count_le [of "cell_sizes (table_rows n cells)"]
  by (auto simp: encodes_def try_map_Inr table_rows_shape(1) fast_well_bound)

lemma encoded_payload_empty: "encoded_rows_payload_new [] [] = Ok (rows_payload [])"
  using rows_payload_valid [of "[]"] by (simp add: rows_payload_def rows_bytes_def)

lemma table_rows_0 [simp]: "table_rows 0 cells = []"
  by (simp add: table_rows_def)

lemma fill_encoded:
  assumes e: "encodes db (bound_context b) (bound_columns b) (bound_row_count b) cells"
  defines "rows \<equiv> table_rows (bound_row_count b) cells"
  shows "and_then (fill_bound_columns db b (layout_of (cell_sizes rows))
        (allocate_rows_payload_with_tokens (layout_of (cell_sizes rows))))
      (\<lambda>bs. encoded_rows_payload_new bs (layout_row_token_offsets (layout_of (cell_sizes rows))))
    = Ok (rows_payload rows)"
  using bound.fill_all [OF encodesD(3) [OF e], of db "bound_context b" cells "bound_row_count b"] e
    encodesD(1) [OF e] rows_payload_valid [of rows]
  by (simp add: fill_bound_columns_def encodes_def rows_def Let_def rows_payload_def layout_of_def)

lemma measure_encoded:
  assumes e: "encodes db (bound_context b) (bound_columns b) (bound_row_count b) cells" and "0 < bound_row_count b"
  shows "measure_bound_layout db b = Ok (layout_of (cell_sizes (table_rows (bound_row_count b) cells)))"
proof -
  let ?rows = "table_rows (bound_row_count b) cells" and ?cc = "length cells"
  note shape = table_rows_shape [of "bound_row_count b" cells]
  have uniform: "\<forall>ns \<in> set (cell_sizes ?rows). length ns = ?cc" using shape(2) by simp
  have "measure_bound_cell_lengths db b = Ok (concat (cell_sizes ?rows))"
    using bound.measure_all [OF encodesD(3) [OF e], of db "bound_context b" "bound_row_count b"] e
      encodesD(1) [OF e] assms(2)
    by (simp add: measure_bound_cell_lengths_def encodes_def)
  moreover have "build_fixed_width_row_layout (bound_row_count b) ?cc (concat (cell_sizes ?rows))
      = Ok (layout_of (cell_sizes ?rows))"
    using build_layout [of 0 "bound_row_count b" ?cc "concat (cell_sizes ?rows)"]
      matrix_rows_concat [OF uniform] length_concat_uniform [OF uniform] shape(1) e encodesD(2) [OF e]
    by (simp add: build_fixed_width_row_layout_def encodes_def)
  ultimately show ?thesis
    using assms(2) encodesD(1) [OF e] by (simp add: measure_bound_layout_def)
qed

lemma encode_checked_rows:
  assumes shape: "validate_record_batch_encoding_shape batch (encoder_mappings encoder) = Ok ()"
    and bind: "bind_direct_columns encoder batch = Ok cols"
    and e: "encodes db (encoder_context encoder) cols (batch_num_rows batch) cells"
  shows "encode_checked_batch flags db encoder batch
    = Some (Ok (rows_payload (table_rows (batch_num_rows batch) cells)))"
proof -
  let ?b = "\<lparr>bound_columns = cols, bound_context = encoder_context encoder,
      bound_row_count = batch_num_rows batch\<rparr>"
  have b: "bound_batch_new encoder batch = Ok ?b" using bind by (simp add: bound_batch_new_def)
  have "try_encode_fixed_width_rows flags db ?b
    = Some (Ok (if batch_num_rows batch = 0 \<or> fixed_width_columns flags cols \<noteq> None
        then Some (rows_payload (table_rows (batch_num_rows batch) cells)) else None))"
    using try_encode_rows [of ?b db cells flags] e by (simp add: encodes_def)
  with shape b measure_encoded [of db ?b cells] fill_encoded [of db ?b cells] e show ?thesis
    by (simp add: encode_checked_batch_def encoded_payload_empty)
qed

lemma encode_measured_rows:
  assumes bind: "bind_direct_columns encoder (batch_slice start n batch) = Ok cols"
    and e: "encodes db (encoder_context encoder) cols n cells"
    and layout: "range_layout measured start n = Ok (layout_of (cell_sizes (table_rows n cells)))"
    and m: "check_range measured start n = Ok ()" "measured_row_count measured = batch_num_rows batch"
      "measured_column_count measured = length (encoder_plan encoder)"
  shows "encode_measured_batch_range flags db encoder batch measured start n
    = Some (Ok (rows_payload (table_rows n cells)))"
proof -
  let ?b = "\<lparr>bound_columns = cols, bound_context = encoder_context encoder, bound_row_count = n\<rparr>"
  have b: "bound_batch_new encoder (batch_slice start n batch) = Ok ?b"
    using bind by (simp add: bound_batch_new_def batch_slice_def)
  have "try_encode_fixed_width_rows_with_layout flags db ?b (layout_of (cell_sizes (table_rows n cells)))
    = Some (Ok (if n = 0 \<or> fixed_width_columns flags cols \<noteq> None
        then Some (rows_payload (table_rows n cells)) else None))"
    using try_encode_rows_with_layout [of ?b db cells flags] e by (simp add: encodes_def)
  with b layout m fill_encoded [of db ?b cells] e show ?thesis
    by (simp add: encode_measured_batch_range_def encoded_payload_empty)
qed

text \<open>The rows of a slice.\<close>

lemma table_rows_slice:
  assumes "\<forall>cs \<in> set cells. length cs = N" "start + n \<le> N"
  shows "table_rows n (map (\<lambda>cs. take n (drop start cs)) cells) = take n (drop start (table_rows N cells))"
  using assms by (intro nth_equalityI) (auto simp: table_rows_def)

lemma rows_size_split: "rows_size sizes = rows_size (take k sizes) + rows_size (drop k sizes)"
  unfolding rows_size_def by (metis append_take_drop_id map_append sum_list.append)

lemma rows_size_slice: "rows_size (take n (drop start sizes)) \<le> rows_size sizes"
  using rows_size_split [of sizes start] rows_size_split [of "drop start sizes" n] by simp

lemma encodes_slice:
  assumes e: "encodes db rt cols N cells" and range: "start + n \<le> N"
  shows "encodes db rt (map (bound_slice start n) cols) n (map (\<lambda>cs. take n (drop start cs)) cells)"
proof -
  have "try_map (bound_cells db rt) (map (bound_slice start n) cols) = Ok (map (\<lambda>cs. take n (drop start cs)) cells)"
  proof -
    have "bound_cells db rt (bound_slice start n (cols ! i)) = Ok (take n (drop start (cells ! i)))"
      if "i < length cols" for i
      using that e range encodesD(1,3) [OF e]
      by (intro bound_cells_slice) (auto simp: encodes_def try_map_Inr)
    then show ?thesis using encodesD(1) [OF e] by (simp add: try_map_Inr)
  qed
  moreover have "n * length cells < 2 ^ 64"
  proof -
    have "n * length cells \<le> N * length cells" using range by (intro mult_right_mono) simp_all
    also have "\<dots> < 2 ^ 64" using e by (simp add: encodes_def)
    finally show ?thesis .
  qed
  moreover have "rows_size (cell_sizes (take n (drop start (table_rows N cells))))
      \<le> rows_size (cell_sizes (table_rows N cells))"
    using rows_size_slice [of n start "cell_sizes (table_rows N cells)"] by (simp add: take_map drop_map)
  ultimately show ?thesis
    using e range table_rows_slice [of cells N start n] by (auto simp: encodes_def)
qed

text \<open>The rows a measured batch stands for.\<close>

lemma measured_batch_encodes:
  assumes encoder: "encoder_new_with_context mappings rt = Ok encoder"
    and valid: "\<forall>m \<in> set mappings. valid_mssql_type (target_type m)" "valid_batch batch"
    and measured: "measure_batch db encoder batch = Ok measured"
  obtains cols cells where "bind_direct_columns encoder batch = Ok cols"
    "encodes db rt cols (batch_num_rows batch) cells"
    "valid_measured measured" "measured_row_count measured = batch_num_rows batch"
    "measured_column_count measured = length (encoder_plan encoder)"
    "measured_rows measured = cell_sizes (table_rows (batch_num_rows batch) cells)"
    "length cols = length (encoder_plan encoder)"
    "validate_record_batch_encoding_shape batch mappings = Ok ()"
proof -
  note enc = encoder_new_Ok [OF encoder]
  let ?n = "batch_num_rows batch"
  from measured have shape: "validate_record_batch_encoding_shape batch mappings = Ok ()"
    by (auto simp: measure_batch_def enc(1) result_simps)
  obtain cols where
    bind: "bind_direct_columns encoder batch = Ok cols" and len: "length cols = length mappings"
    and nth: "\<And>i. i < length mappings \<Longrightarrow> bind_direct_column encoder batch i (encoder_plan encoder ! i) = Ok (cols ! i)"
    and wb: "\<forall>c \<in> set cols. well_bound c"
    and lens: "\<And>c cells. c \<in> set cols \<Longrightarrow> bound_cells db rt c = Ok cells \<Longrightarrow> length cells = ?n"
    by (rule bind_validated [OF encoder valid shape, where db = db and rt' = rt]) blast
  have fast: "\<forall>c \<in> set cols. fast_bound c"
  proof
    fix c assume "c \<in> set cols"
    then obtain i where i: "i < length mappings" "c = cols ! i" using len by (auto simp: in_set_conv_nth)
    from enc(4) [OF i(1)] obtain e where "encoder_plan encoder ! i = column_plan_from_mapping (mappings ! i) e"
      by blast
    moreover have "mapping_for_column_index encoder i = Ok (mappings ! i)"
      using i(1) by (simp add: mapping_for_column_index_def enc(1))
    ultimately show "fast_bound c"
      using bind_column_fast_bound [OF nth [OF i(1)]] wb \<open>c \<in> set cols\<close> i
      by (simp add: column_plan_from_mapping_def)
  qed
  show thesis
  proof (cases "?n = 0")
    case True
    have "batch_slice 0 0 batch = batch"
    proof -
      have "array_slice 0 0 array = array" if "array_len array = 0" for array
        using that by (cases array) (auto simp: array_len_def values_null_def slice_rows_def)
      then have "map (array_slice 0 0) (batch_columns batch) = batch_columns batch"
        using valid(2) True by (intro map_idI) (auto simp: valid_batch_def)
      with True show ?thesis by (simp add: batch_slice_def)
    qed
    with bind_columns_slice [of encoder 0 0 batch] bind have same: "map (bound_slice 0 0) cols = cols" by simp
    have "bound_cells db rt (bound_slice 0 0 c) = Ok []" for c
      by (cases c) (simp_all add: bound_cells_def column_cells_def slice_rows_def)
    then have "try_map (bound_cells db rt) (map (bound_slice 0 0) cols) = Ok (replicate (length cols) [])"
      by (simp add: try_map_Inr)
    then have "try_map (bound_cells db rt) cols = Ok (replicate (length cols) [])"
      by (simp only: same)
    then have "encodes db rt cols 0 (replicate (length cols) [])"
      using fast by (simp add: encodes_def)
    moreover have "measured = measured_empty (length (encoder_plan encoder))"
      using measured True by (auto simp: measure_batch_def Let_def result_simps)
    ultimately show thesis
      using bind True shape len enc(3)
      by (intro that [of cols "replicate (length cols) []"])
        (simp_all add: measured_empty_valid, simp_all add: measured_empty_def matrix_rows_def)
  next
    case False
    let ?b = "\<lparr>bound_columns = cols, bound_context = rt, bound_row_count = ?n\<rparr>"
    from measured False bind obtain lengths where
      lengths: "measure_bound_cell_lengths db ?b = Ok lengths"
      and new: "measured_new ?n (length (encoder_plan encoder)) lengths = Ok measured"
      by (auto simp: measure_batch_def measure_cell_lengths_def bound_batch_new_def enc(2) Let_def result_simps)
    have "try_map (bound_cells db rt) cols = Ok cells \<Longrightarrow> \<forall>cs \<in> set cells. length cs = ?n" for cells
      using bound_cells_lengths(1) lens by blast
    from bound.measure_all [OF wb this, of db rt] lengths False obtain cells where
      cells: "try_map (bound_cells db rt) cols = Ok cells" "lengths = concat (cell_sizes (table_rows ?n cells))"
      by (auto simp: measure_bound_cell_lengths_def Let_def result_simps)
    have all: "\<forall>cs \<in> set cells. length cs = ?n" using bound_cells_lengths(1) [OF cells(1)] lens by blast
    have cc: "length cells = length (encoder_plan encoder)" "length cols = length (encoder_plan encoder)"
      using cells(1) len enc(3) by (simp_all add: try_map_Inr)
    note m = measured_new_valid [OF new]
    have "\<forall>ns \<in> set (cell_sizes (table_rows ?n cells)). length ns = length (encoder_plan encoder)"
      using cc by (auto simp: table_rows_def)
    from matrix_rows_concat [OF this] m cells(2)
    have rows: "measured_rows measured = cell_sizes (table_rows ?n cells)"
      by (simp add: table_rows_shape(1))
    have "encodes db rt cols ?n cells"
      using fast cells(1) all rows m cc valid_measuredD(2,4,5) [of measured] by (simp add: encodes_def)
    with bind m rows cc shape show thesis by (intro that) auto
  qed
qed

subsection \<open>Appending\<close>

lemma append_rows_loop:
  assumes e: "encodes db (bound_context b) (bound_columns b) (bound_row_count b) cells"
    and m: "valid_measured measured" "measured_row_count measured = bound_row_count b"
      "measured_column_count measured = length (bound_columns b)"
      "measured_rows measured = cell_sizes (table_rows (bound_row_count b) cells)"
    and range: "start + n \<le> bound_row_count b"
  defines "rows \<equiv> take n (drop start (table_rows (bound_row_count b) cells))"
  shows "k \<le> n \<Longrightarrow> for_each (append_measured_row db b measured) [start..<start + k] (buf, [], 0)
    = Ok (buf @ rows_bytes (take k rows), row_starts 0 (cell_sizes (take k rows)),
          rows_size (cell_sizes (take k rows)))"
proof (induction k)
  case 0
  then show ?case by (simp add: rows_bytes_def)
next
  case (Suc k)
  let ?r = "start + k" and ?N = "bound_row_count b"
  have r: "?r < ?N" using Suc.prems range by simp
  have row: "rows ! k = map (\<lambda>cs. cs ! ?r) cells" "k < length rows"
    using Suc.prems range r by (simp_all add: rows_def table_rows_nth table_rows_shape(1))
  let ?row = "rows ! k" and ?written = "rows_size (cell_sizes (take k rows))"
  have bound_rows: "rows_size (cell_sizes rows) < 2 ^ 64"
    using e rows_size_slice [of n start "cell_sizes (table_rows ?N cells)"]
    by (simp add: encodes_def rows_def take_map drop_map)
  have size: "rows_size (cell_sizes (take (Suc k) rows)) = ?written + row_size (map length ?row)"
    using row(2) by (simp add: take_Suc_conv_app_nth rows_size_def)
  have "rows_size (cell_sizes (take (Suc k) rows)) \<le> rows_size (cell_sizes rows)"
    using rows_size_slice [of "Suc k" 0 "cell_sizes rows"] by (simp add: take_map)
  with size bound_rows have small: "?written + 1 + sum_list (map length ?row) < 2 ^ 64"
    by (simp add: row_size_def)
  have all: "list_all2 (\<lambda>c cs. well_bound c \<and> bound_cells db (bound_context b) c = Ok cs) (bound_columns b) cells"
    using e encodesD(1,3) [OF e] by (auto simp: encodes_def try_map_Inr list_all2_conv_all_nth)
  have "measured_cell_len measured ?r (0 + i) = Ok (length (cells ! i ! ?r))" if "i < length cells" for i
    using measured_cell_len_eq [OF m(1), of ?r i] m(2-4) r that encodesD(1) [OF e]
    by (simp add: table_rows_nth table_rows_shape(1))
  from bound.append_row_from [OF all _ this, of "?written + 1" "buf @ rows_bytes (take k rows) @ [TDS_ROW_TOKEN]"]
  have "for_each (append_measured_cell db b measured ?r) (List.enumerate 0 (bound_columns b))
      (buf @ rows_bytes (take k rows) @ [TDS_ROW_TOKEN], ?written + 1)
    = Ok (buf @ rows_bytes (take k rows) @ TDS_ROW_TOKEN # concat ?row,
        ?written + 1 + sum_list (map length ?row))"
    using small row(1) r e
    by (simp add: append_measured_cell_def [abs_def] encodes_def comp_def)
  moreover have "direct_checked_add ?written 1 = Ok (?written + 1)"
    using small by (simp add: direct_checked_add_def checked_usize_def)
  ultimately have step: "append_measured_row db b measured ?r
      (buf @ rows_bytes (take k rows), row_starts 0 (cell_sizes (take k rows)), ?written)
    = Ok (buf @ rows_bytes (take (Suc k) rows), row_starts 0 (cell_sizes (take (Suc k) rows)),
        rows_size (cell_sizes (take (Suc k) rows)))"
    using row(2) size
    by (simp add: append_measured_row_def take_Suc_conv_app_nth row_starts_snoc rows_bytes_def row_size_def)
  have "[start..<start + Suc k] = [start..<start + k] @ [?r]" by simp
  with Suc step show ?case by (simp add: for_each_append del: upt_Suc)
qed

subsection \<open>The paths agree\<close>

lemma measured_paths:
  assumes encoder: "encoder_new_with_context mappings rt = Ok encoder"
    and valid: "\<forall>m \<in> set mappings. valid_mssql_type (target_type m)" "valid_batch batch"
    and measured: "measure_batch db encoder batch = Ok measured"
  shows "\<exists>rows. length rows = batch_num_rows batch \<and> measured_payload_len measured = length (rows_bytes rows)
    \<and> measured_row_lengths measured = map (\<lambda>cells. length (rows_bytes [cells])) rows
    \<and> (\<forall>flags. encode_batch flags db encoder batch = Some (Ok (rows_payload rows)))
    \<and> (\<forall>flags start n buf.
         if start + n \<le> length rows
         then let chunk = rows_payload (take n (drop start rows)) in
           encode_batch_range flags db encoder batch start n = Some (Ok chunk)
           \<and> encode_measured_batch_range flags db encoder batch measured start n = Some (Ok chunk)
           \<and> encode_measured_batch_range_into db encoder batch measured start n buf
               = Ok (buf @ payload_bytes chunk, payload_row_token_offsets chunk)
         else encode_batch_range flags db encoder batch start n = Some (Err invalid_payload)
           \<and> encode_measured_batch_range flags db encoder batch measured start n = Some (Err invalid_payload)
           \<and> encode_measured_batch_range_into db encoder batch measured start n buf = Err invalid_payload)"
proof -
  note enc = encoder_new_Ok [OF encoder]
  let ?N = "batch_num_rows batch"
  obtain cols cells where bind: "bind_direct_columns encoder batch = Ok cols" and e: "encodes db rt cols ?N cells"
    and m: "valid_measured measured" "measured_row_count measured = ?N"
      "measured_column_count measured = length (encoder_plan encoder)"
      "measured_rows measured = cell_sizes (table_rows ?N cells)"
    and cc: "length cols = length (encoder_plan encoder)"
    and shape: "validate_record_batch_encoding_shape batch mappings = Ok ()"
    by (rule measured_batch_encodes [OF assms])
  let ?rows = "table_rows ?N cells"
  note N = encodesD(2) [OF e]
  have whole: "encode_batch flags db encoder batch = Some (Ok (rows_payload ?rows))" for flags
    using encode_checked_rows [OF _ bind] shape e by (simp add: encode_batch_def enc(1,2))
  have inside: "encode_batch_range flags db encoder batch start n = Some (Ok (rows_payload (take n (drop start ?rows))))
      \<and> encode_measured_batch_range flags db encoder batch measured start n
          = Some (Ok (rows_payload (take n (drop start ?rows))))
      \<and> encode_measured_batch_range_into db encoder batch measured start n buf
          = Ok (buf @ rows_bytes (take n (drop start ?rows)), row_starts 0 (cell_sizes (take n (drop start ?rows))))"
    if range: "start + n \<le> ?N" for flags start n buf
  proof (intro conjI)
    let ?cols = "map (bound_slice start n) cols" and ?cells = "map (\<lambda>cs. take n (drop start cs)) cells"
    note slice = encodes_slice [OF e range]
    have bind': "bind_direct_columns encoder (batch_slice start n batch) = Ok ?cols"
      by (simp add: bind_columns_slice bind)
    have rows: "table_rows n ?cells = take n (drop start ?rows)"
      using e range by (intro table_rows_slice) (simp_all add: encodes_def)
    have sn: "start + n < 2 ^ 64" using range N by simp
    have "batch_num_rows (batch_slice start n batch) = n" by (simp add: batch_slice_def)
    with encode_checked_rows [OF _ bind', of db ?cells flags] shape slice
    have "encode_checked_batch flags db encoder (batch_slice start n batch) = Some (Ok (rows_payload (table_rows n ?cells)))"
      by (simp add: slice_encoding_shape enc(1,2))
    with rows range sn
    show "encode_batch_range flags db encoder batch start n = Some (Ok (rows_payload (take n (drop start ?rows))))"
      by (simp add: encode_batch_range_def checked_usize_def slice_encoding_shape enc(1,2))
    have check: "check_range measured start n = Ok ()" using m(2) N range by (simp add: check_range_eq)
    have "range_layout measured start n = Ok (layout_of (cell_sizes (table_rows n ?cells)))"
      using range_layout_eq [OF m(1)] m(2,4) range by (simp add: rows take_map drop_map)
    from encode_measured_rows [OF bind' _ this check m(2,3)] slice
    show "encode_measured_batch_range flags db encoder batch measured start n
        = Some (Ok (rows_payload (take n (drop start ?rows))))"
      by (simp add: rows enc(2))
    let ?b = "\<lparr>bound_columns = cols, bound_context = rt, bound_row_count = ?N\<rparr>"
    have "take n (take n (drop start ?rows)) = take n (drop start ?rows)" by simp
    with append_rows_loop [of db ?b cells measured start n n buf] e m cc range bind check sn
    show "encode_measured_batch_range_into db encoder batch measured start n buf
        = Ok (buf @ rows_bytes (take n (drop start ?rows)), row_starts 0 (cell_sizes (take n (drop start ?rows))))"
      by (simp add: encode_measured_batch_range_into_def bound_batch_new_def checked_usize_def enc(2))
  qed
  have outside: "encode_batch_range flags db encoder batch start n = Some (Err invalid_payload)
      \<and> encode_measured_batch_range flags db encoder batch measured start n = Some (Err invalid_payload)
      \<and> encode_measured_batch_range_into db encoder batch measured start n buf = Err invalid_payload"
    if "\<not> start + n \<le> ?N" for flags start n buf
    using that m(2) N check_range_eq [of measured start n]
    by (simp add: encode_batch_range_def encode_measured_batch_range_def encode_measured_batch_range_into_def
        checked_usize_def)
  have "measured_payload_len measured = length (rows_bytes ?rows)"
    using valid_measuredD(4) [OF m(1)] m(4) by (simp add: length_rows_bytes)
  moreover have "measured_row_lengths measured = map (\<lambda>cells. length (rows_bytes [cells])) ?rows"
    using valid_measuredD(3) [OF m(1)] m(4) by (simp add: length_rows_bytes row_size_def)
  ultimately show ?thesis
    using whole inside outside
    by (intro exI [of _ ?rows]) (auto simp: Let_def rows_payload_def table_rows_shape(1))
qed

text \<open>C6: a batch that measures without an error encodes, on every path and to
  the same bytes. There is one row of cells per row of the batch such that the whole batch encodes
  to the payload of the rows, whatever the fast path switches say; a range of rows inside the batch
  encodes to the payload of those rows, on its own, from the measurement and appended to a buffer;
  and a range reaching past the batch is refused by all three. The payload and its
  rows have the measured lengths. No path panics, and none rejects a cell that was measured.\<close>

theorem direct_paths_agree:
  assumes encoder: "encoder_new_with_context mappings rt = Ok encoder"
    and valid: "\<forall>m \<in> set mappings. valid_mssql_type (target_type m)" "valid_batch batch"
    and measured: "measure_batch db encoder batch = Ok measured"
  shows "\<exists>rows. length rows = batch_num_rows batch \<and> measured_payload_len measured = length (rows_bytes rows)
    \<and> measured_row_lengths measured = map (\<lambda>cells. length (rows_bytes [cells])) rows
    \<and> (\<forall>flags. encode_batch flags db encoder batch = Some (Ok (rows_payload rows)))
    \<and> (\<forall>flags start n buf.
         if start + n \<le> length rows
         then let chunk = rows_payload (take n (drop start rows)) in
           encode_batch_range flags db encoder batch start n = Some (Ok chunk)
           \<and> encode_measured_batch_range flags db encoder batch measured start n = Some (Ok chunk)
           \<and> encode_measured_batch_range_into db encoder batch measured start n buf
               = Ok (buf @ payload_bytes chunk, payload_row_token_offsets chunk)
         else encode_batch_range flags db encoder batch start n = Some (Err invalid_payload)
           \<and> encode_measured_batch_range flags db encoder batch measured start n = Some (Err invalid_payload)
           \<and> encode_measured_batch_range_into db encoder batch measured start n buf = Err invalid_payload)"
  by (rule measured_paths [OF assms])

definition example_encoder :: direct_encoder where
  "example_encoder =
     \<lparr>encoder_mappings = [example_mapping DtInt32 MsInt],
      encoder_context = rm_context (example_runtime DtInt32 MsInt RejectNon100ns),
      encoder_plan = [column_plan_from_mapping (example_mapping DtInt32 MsInt) (EncPrimitive Int32ToInt)]\<rparr>"

lemma example_encoder_new:
  "encoder_new_with_context [example_mapping DtInt32 MsInt] (rm_context (example_runtime DtInt32 MsInt RejectNon100ns))
    = Ok example_encoder"
  by (simp add: example_encoder_def encoder_new_with_context_def direct_encoder_plan_new_def
      current_direct_support_def primitive_classify_def has_errors_def)

lemma example_batch_valid: "valid_batch example_batch"
  by (simp add: example_batch_def valid_batch_def valid_array_def array_len_def)

lemma example_measure:
  "measure_batch example_timezone_db example_encoder example_batch
    = Ok \<lparr>measured_row_count = 2, measured_column_count = 1, measured_cell_lengths = [5, 5],
        measured_row_lengths = [6, 6], measured_payload_len = 12\<rparr>"
proof -
  have shape: "validate_record_batch_encoding_shape example_batch [example_mapping DtInt32 MsInt] = Ok ()"
    by (simp add: encoding_validation field_matches_def example_batch_def example_mapping_def
        arrow_type_compatible_with_mapping_def)
  have upt: "[0..<2] = [0, 1 :: nat]" by (simp add: upt_rec)
  have replicate_2: "replicate 2 x = [x, x]" for x :: nat by (simp add: numeral_2_eq_2)
  have "measure_cell_lengths example_timezone_db example_encoder example_batch = Ok [5, 5]"
    by (simp add: measure_cell_lengths_def bound_batch_new_def bind_columns_map bind_direct_column_def
        downcast_direct_array_def example_encoder_def example_batch_def column_plan_from_mapping_def
        measure_bound_cell_lengths_def measure_bound_column_def measure_fixed_primitive_column_cell_lengths_def
        primitive_value_len_def measure_primitive_cell_lengths_def primitive_cell_len_def measure_rows_def
        CELL_LEN_PREFIX_LEN_def example_mapping_def upt replicate_2)
  moreover have "measured_new 2 1 [5, 5] = Ok \<lparr>measured_row_count = 2, measured_column_count = 1,
      measured_cell_lengths = [5, 5], measured_row_lengths = [6, 6], measured_payload_len = 12\<rparr>"
    by (simp add: measured_new_eq matrix_rows_def matrix_row_def row_size_def upt)
  ultimately show ?thesis
    using shape by (simp add: measure_batch_def example_encoder_def example_batch_def)
qed

theorem direct_paths_agree_witness:
  "\<exists>measured row0 row1.
     measure_batch example_timezone_db example_encoder example_batch = Ok measured
     \<and> (\<forall>flags. encode_batch flags example_timezone_db example_encoder example_batch
          = Some (Ok (rows_payload [row0, row1])))
     \<and> encode_measured_batch_range_into example_timezone_db example_encoder example_batch measured 1 1 [0xAB]
          = Ok (0xAB # rows_bytes [row1], [0])
     \<and> encode_measured_batch_range_into example_timezone_db example_encoder example_batch measured 1 2 [0xAB]
          = Err invalid_payload"
proof -
  obtain measured where m: "measure_batch example_timezone_db example_encoder example_batch = Ok measured"
    using example_measure by blast
  have "\<forall>m \<in> set [example_mapping DtInt32 MsInt]. valid_mssql_type (target_type m)"
    by simp
  from direct_paths_agree [OF example_encoder_new this example_batch_valid m] obtain rows where
    len: "length rows = 2"
    and whole: "\<forall>flags. encode_batch flags example_timezone_db example_encoder example_batch
      = Some (Ok (rows_payload rows))"
    and ranges: "\<forall>flags start n buf.
       if start + n \<le> length rows
       then let chunk = rows_payload (take n (drop start rows)) in
         encode_batch_range flags example_timezone_db example_encoder example_batch start n = Some (Ok chunk)
         \<and> encode_measured_batch_range flags example_timezone_db example_encoder example_batch measured start n
             = Some (Ok chunk)
         \<and> encode_measured_batch_range_into example_timezone_db example_encoder example_batch measured start n buf
             = Ok (buf @ payload_bytes chunk, payload_row_token_offsets chunk)
       else encode_batch_range flags example_timezone_db example_encoder example_batch start n
             = Some (Err invalid_payload)
         \<and> encode_measured_batch_range flags example_timezone_db example_encoder example_batch measured start n
             = Some (Err invalid_payload)
         \<and> encode_measured_batch_range_into example_timezone_db example_encoder example_batch measured start n buf
             = Err invalid_payload"
    by (auto simp: example_batch_def)
  from len obtain row0 row1 where rows: "rows = [row0, row1]"
    by (auto simp: numeral_2_eq_2 length_Suc_conv)
  have "encode_measured_batch_range_into example_timezone_db example_encoder example_batch measured 1 1 [0xAB]
      = Ok (0xAB # rows_bytes [row1], [0])"
    using ranges [rule_format, where start = 1 and n = 1 and buf = "[0xAB]"] rows
    by (simp add: rows_payload_def Let_def)
  moreover have "encode_measured_batch_range_into example_timezone_db example_encoder example_batch measured 1 2
      [0xAB] = Err invalid_payload"
    using ranges [rule_format, where start = 1 and n = 2 and buf = "[0xAB]"] rows by simp
  ultimately show ?thesis using m whole rows by blast
qed

text \<open>The chunks of a batch, put together.\<close>

lemma concat_ranges:
  assumes "\<forall>r \<in> set ranges. range_start r + range_len r \<le> length rows"
  shows "concat (map (\<lambda>r. take (range_len r) (drop (range_start r) rows)) ranges)
    = map ((!) rows) (concat (map range_rows ranges))"
  using assms
proof (induction ranges)
  case (Cons r ranges)
  have "range_start r + range_len r \<le> length rows" using Cons.prems by simp
  then have "take (range_len r) (drop (range_start r) rows) = map ((!) rows) (range_rows r)"
    by (intro nth_equalityI) (simp_all add: range_rows_def)
  with Cons show ?case by simp
qed simp

lemma rows_bytes_concat: "rows_bytes (concat rowss) = concat (map rows_bytes rowss)"
  by (induction rowss) (simp_all add: rows_bytes_def)

lemma measured_chunks:
  assumes valid: "valid_measured measured" "0 < cap"
    and rows: "measured_row_lengths measured = map (\<lambda>cells. length (rows_bytes [cells])) rows"
      "measured_row_count measured = length rows"
  obtains ranges where "row_ranges measured cap = Ok ranges"
    "\<forall>r \<in> set ranges. range_start r + range_len r \<le> length rows"
    "concat (map (\<lambda>r. take (range_len r) (drop (range_start r) rows)) ranges) = rows"
    "\<forall>r \<in> set ranges. length (rows_bytes (take (range_len r) (drop (range_start r) rows))) \<le> cap \<or> range_len r = 1"
proof -
  from row_ranges_spec [OF valid] obtain ranges where ranges: "row_ranges measured cap = Ok ranges"
    and cover: "concat (map range_rows ranges) = [0..<length rows]"
    and cap: "\<forall>r \<in> set ranges. capped cap (measured_row_lengths measured) r"
    using rows(2) by auto
  have bounds: "\<forall>r \<in> set ranges. range_start r + range_len r \<le> length rows"
  proof
    fix r assume r: "r \<in> set ranges"
    then have "0 < range_len r" using cap by (simp add: capped_def)
    then have "range_start r + range_len r - 1 \<in> set (range_rows r)" by (auto simp: range_rows_def)
    with r have "range_start r + range_len r - 1 \<in> set (concat (map range_rows ranges))" by auto
    then show "range_start r + range_len r \<le> length rows" using cover by auto
  qed
  have total: "length (rows_bytes rs) = sum_list (map (\<lambda>cells. length (rows_bytes [cells])) rs)" for rs
    by (induction rs) (simp_all add: rows_bytes_def)
  have "range_bytes (measured_row_lengths measured) r
      = length (rows_bytes (take (range_len r) (drop (range_start r) rows)))" for r
    unfolding range_bytes_def rows(1) take_map drop_map by (rule total [symmetric])
  with cap have "\<forall>r \<in> set ranges. length (rows_bytes (take (range_len r) (drop (range_start r) rows))) \<le> cap
      \<or> range_len r = 1"
    by (auto simp: capped_def)
  moreover have "concat (map (\<lambda>r. take (range_len r) (drop (range_start r) rows)) ranges) = rows"
    using concat_ranges [OF bounds] cover by (simp add: map_nth)
  ultimately show thesis using ranges bounds that by blast
qed

text \<open>C7: sending a batch in chunks sends the batch. For any positive cap the
  measured batch splits into ranges, each range encodes to a chunk, and the chunks put together
  are the payload of the whole batch: its bytes, and as many row tokens as it has rows. A chunk
  exceeds the cap only when it is a single row.\<close>

theorem direct_chunks_compose:
  assumes "encoder_new_with_context mappings rt = Ok encoder"
    and "\<forall>m \<in> set mappings. valid_mssql_type (target_type m)" "valid_batch batch"
    and "measure_batch db encoder batch = Ok measured" "0 < cap"
  shows "\<exists>ranges chunks whole. row_ranges measured cap = Ok ranges
    \<and> list_all2 (\<lambda>r chunk. encode_measured_batch_range flags db encoder batch measured
          (range_start r) (range_len r) = Some (Ok chunk)) ranges chunks
    \<and> encode_batch flags' db encoder batch = Some (Ok whole)
    \<and> payload_bytes whole = concat (map payload_bytes chunks)
    \<and> sum_list (map (\<lambda>chunk. length (payload_row_token_offsets chunk)) chunks) = batch_num_rows batch
    \<and> (\<forall>chunk \<in> set chunks. length (payload_bytes chunk) \<le> cap \<or> length (payload_row_token_offsets chunk) = 1)"
proof -
  from measured_paths [OF assms(1-4)] obtain rows where len: "length rows = batch_num_rows batch"
    and lens: "measured_row_lengths measured = map (\<lambda>cells. length (rows_bytes [cells])) rows"
    and whole: "encode_batch flags' db encoder batch = Some (Ok (rows_payload rows))"
    and inside: "\<And>start n. start + n \<le> length rows \<Longrightarrow>
      encode_measured_batch_range flags db encoder batch measured start n
        = Some (Ok (rows_payload (take n (drop start rows))))"
    by (auto simp: Let_def split: if_splits)
  obtain cols cells where m: "valid_measured measured" "measured_row_count measured = batch_num_rows batch"
    by (rule measured_batch_encodes [OF assms(1-4)])
  have "measured_row_count measured = length rows" using m(2) len by simp
  from measured_chunks [OF m(1) assms(5) lens this] obtain ranges where ranges: "row_ranges measured cap = Ok ranges"
    and bounds: "\<forall>r \<in> set ranges. range_start r + range_len r \<le> length rows"
    and parts: "concat (map (\<lambda>r. take (range_len r) (drop (range_start r) rows)) ranges) = rows"
    and cap: "\<forall>r \<in> set ranges. length (rows_bytes (take (range_len r) (drop (range_start r) rows))) \<le> cap
      \<or> range_len r = 1"
    by blast
  define part where "part r = take (range_len r) (drop (range_start r) rows)" for r :: measured_row_range
  have parts: "concat (map part ranges) = rows" using parts by (simp add: part_def [abs_def])
  have len_part: "length (part r) = range_len r" if "r \<in> set ranges" for r
    using bounds that by (auto simp: part_def)
  have "sum_list (map (\<lambda>r. length (part r)) ranges) = length rows"
    using parts by (metis length_concat map_map comp_apply map_eq_conv)
  then have tokens: "sum_list (map (\<lambda>chunk. length (payload_row_token_offsets chunk))
      (map (\<lambda>r. rows_payload (part r)) ranges)) = batch_num_rows batch"
    by (simp add: rows_payload_def comp_def len)
  have encoded: "encode_measured_batch_range flags db encoder batch measured (range_start r) (range_len r)
      = Some (Ok (rows_payload (part r)))" if "r \<in> set ranges" for r
    using inside bounds that by (simp add: part_def)
  have bytes: "payload_bytes (rows_payload rows) = concat (map payload_bytes (map (\<lambda>r. rows_payload (part r)) ranges))"
    using rows_bytes_concat [of "map part ranges"] parts by (simp add: rows_payload_def comp_def)
  have small: "length (payload_bytes (rows_payload (part r))) \<le> cap
      \<or> length (payload_row_token_offsets (rows_payload (part r))) = 1" if "r \<in> set ranges" for r
    using cap len_part that by (auto simp: rows_payload_def part_def)
  show ?thesis
    using ranges encoded whole bytes tokens small
    by (intro exI [of _ ranges] exI [of _ "map (\<lambda>r. rows_payload (part r)) ranges"] exI [of _ "rows_payload rows"] conjI)
      (simp_all add: list_all2_conv_all_nth)
qed

theorem direct_chunks_compose_witness:
  "\<exists>measured ranges chunks whole.
     measure_batch example_timezone_db example_encoder example_batch = Ok measured
     \<and> row_ranges measured 8 = Ok ranges
     \<and> list_all2 (\<lambda>r chunk. encode_measured_batch_range
           \<lparr>fixed_width_fast_path_disabled = False, date_fast_path_disabled = False\<rparr>
           example_timezone_db example_encoder example_batch measured (range_start r) (range_len r)
         = Some (Ok chunk)) ranges chunks
     \<and> encode_batch \<lparr>fixed_width_fast_path_disabled = True, date_fast_path_disabled = False\<rparr>
         example_timezone_db example_encoder example_batch = Some (Ok whole)
     \<and> payload_bytes whole = concat (map payload_bytes chunks)"
proof -
  have "\<forall>m \<in> set [example_mapping DtInt32 MsInt]. valid_mssql_type (target_type m)" by simp
  from direct_chunks_compose [OF example_encoder_new this example_batch_valid example_measure, of 8]
  show ?thesis using example_measure by (simp only: zero_less_numeral simp_thms) blast
qed

end
