(* ===== verification/Agreement.thy ===== *)
theory Agreement
  imports DirectRows
begin

text \<open>
  The two write paths side by side. A row goes to SQL Server either as the cells of
  \<^verbatim>\<open>src/mssql/cell/from_arrow.rs\<close>, which the driver encodes, or as the bytes of
  \<^verbatim>\<open>src/write/direct\<close>. Here every typed column of the direct path is compared with the baseline
  conversion of the cells its array holds: they accept the same values, and the bytes are the wire
  form of the cell. The errors they report may differ when more than one applies.
\<close>

subsection \<open>The wire form of a cell\<close>

definition prefixed :: "direct_column_plan \<Rightarrow> bytes \<Rightarrow> bytes" where
  "prefixed col b = (if plan_nullable col then of_nat (length b) # b else b)"

definition wire_null :: "direct_column_plan \<Rightarrow> bytes" where
  "wire_null col =
     (case plan_encoding col of
        EncVariableWidth _ \<Rightarrow> variable_null (encoded_length col)
      | EncFixedSizeBinary _ \<Rightarrow> le_bytes 2 0xFFFF
      | _ \<Rightarrow> [0])"

definition wire_option :: "direct_column_plan \<Rightarrow> ('a \<Rightarrow> error + bytes) \<Rightarrow> 'a option \<Rightarrow> error + bytes" where
  "wire_option col wire v = (case v of None \<Rightarrow> Ok (wire_null col) | Some x \<Rightarrow> wire x)"

text \<open>A primitive cell has its length in front of it when the column is nullable; a string or binary
  cell as its target length says; every other cell always, save a non-nullable datetime.\<close>

primrec wire_cell :: "direct_column_plan \<Rightarrow> mssql_cell \<Rightarrow> error + bytes" where
  "wire_cell col (CBit v) = wire_option col (\<lambda>x. Ok (prefixed col [if x then 1 else 0])) v"
| "wire_cell col (CTinyInt v) = wire_option col (\<lambda>x. Ok (prefixed col [x])) v"
| "wire_cell col (CSmallInt v) = wire_option col (\<lambda>x. Ok (prefixed col (le_bytes 2 (unat x)))) v"
| "wire_cell col (CInt v) = wire_option col (\<lambda>x. Ok (prefixed col (le_bytes 4 (unat x)))) v"
| "wire_cell col (CBigInt v) = wire_option col (\<lambda>x. Ok (prefixed col (le_bytes 8 (unat x)))) v"
| "wire_cell col (CReal v) = wire_option col (\<lambda>x. Ok (prefixed col (le_bytes 4 (unat x)))) v"
| "wire_cell col (CFloat v) = wire_option col (\<lambda>x. Ok (prefixed col (le_bytes 8 (unat x)))) v"
| "wire_cell col (CDecimal v) = wire_option col (\<lambda>x. Ok (decimal_wire (dec_unscaled x))) v"
| "wire_cell col (CDate v) = wire_option col (\<lambda>x. Ok (temporal_wire col (TvDate x))) v"
| "wire_cell col (CTime v) = wire_option col (\<lambda>x. Ok (temporal_wire col (TvTime x))) v"
| "wire_cell col (CDateTime v) = wire_option col (\<lambda>x. Ok (temporal_wire col (TvDateTime x))) v"
| "wire_cell col (CDateTime2 v) = wire_option col (\<lambda>x. Ok (temporal_wire col (TvDateTime2 x))) v"
| "wire_cell col (CDateTimeOffset v) = wire_option col (\<lambda>x. Ok (temporal_wire col (TvDateTimeOffset x))) v"
| "wire_cell col (CNVarChar v) = wire_option col
     (\<lambda>x. if length (utf16le x) \<ge> 2 ^ 64 then Err invalid_payload else variable_wire (encoded_length col) (utf16le x)) v"
| "wire_cell col (CVarBinary v) = wire_option col
     (\<lambda>x. case plan_encoding col of
            EncFixedSizeBinary _ \<Rightarrow> Ok (le_bytes 2 (length x) @ x)
          | _ \<Rightarrow> variable_wire (encoded_length col) x) v"

subsection \<open>Agreement of one cell\<close>

text \<open>Two results agree when they succeed together and then are the same.\<close>

definition agrees :: "error + 'a \<Rightarrow> error + 'a \<Rightarrow> bool" where
  "agrees r s \<longleftrightarrow> (\<forall>w. r = Ok w \<longleftrightarrow> s = Ok w)"

lemma agrees_refl [simp]: "agrees r r"
  by (simp add: agrees_def)

lemma agrees_Err [simp]: "agrees (Err e) s \<longleftrightarrow> \<not> is_ok s" "agrees r (Err e) \<longleftrightarrow> \<not> is_ok r"
  by (auto simp: agrees_def is_ok_iff)

lemma agrees_Ok [simp]: "agrees (Ok x) s \<longleftrightarrow> s = Ok x" "agrees r (Ok x) \<longleftrightarrow> r = Ok x"
  by (auto simp: agrees_def)

lemma agrees_if:
  "(b \<Longrightarrow> agrees r r') \<Longrightarrow> (\<not> b \<Longrightarrow> agrees s s') \<Longrightarrow> agrees (if b then r else s) (if b then r' else s')"
  by simp

lemma agrees_cases:
  assumes "agrees r s"
  obtains x where "r = Ok x" "s = Ok x" | e e' where "r = Err e" "s = Err e'"
  using assms by (cases r; cases s) auto

lemma agrees_and_then: "agrees r s \<Longrightarrow> (\<And>x. r = Ok x \<Longrightarrow> agrees (f x) (g x)) \<Longrightarrow> agrees (and_then r f) (and_then s g)"
  by (erule agrees_cases) auto

lemma agrees_map_ok: "agrees r s \<Longrightarrow> agrees (map_ok f r) (map_ok f s)"
  by (erule agrees_cases) auto

text \<open>The baseline conversion of the cell an array entry stands for, followed by its wire form.\<close>

definition baseline_wire ::
    "'tz timezone_db \<Rightarrow> schema_mapping \<Rightarrow> runtime_context \<Rightarrow> direct_column_plan \<Rightarrow> arrow_cell \<Rightarrow> usize \<Rightarrow> error + bytes" where
  "baseline_wire db m rt col cell row =
     and_then (mssql_cell_from_arrow_cell db \<lparr>rm_mapping = m, rm_context = rt\<rparr> cell row) (wire_cell col)"

lemmas baseline_defs = baseline_wire_def mssql_cell_from_arrow_cell_def value_cell_def wire_option_def wire_null_def
  prefixed_def Let_def

lemma plan_fields_simps [simp]:
  "plan_nullable (column_plan_from_mapping m enc) = column_nullable (mapping_mssql m)"
  "plan_encoding (column_plan_from_mapping m enc) = enc"
  "plan_target_type (column_plan_from_mapping m enc) = target_type m"
  by (simp_all add: column_plan_from_mapping_def)

lemmas primitive_agreement = baseline_defs primitive_cell_at_def primitive_mssql_cell_def null_mssql_cell_def
  plain_value_bytes float32_bytes_def float64_bytes_def uint64_checked_bigint_bytes_def

lemma primitive_classified: "primitive_fits c (source_type m) (target_type m) \<Longrightarrow> primitive_classify m row = Ok c"
  by (simp add: primitive_cls.classify_Ok)

lemma primitive_agree:
  assumes fits: "primitive_fits c (source_type m) (target_type m)"
  defines "col \<equiv> column_plan_from_mapping m (EncPrimitive c)"
  shows
    "c = BooleanToBit \<Longrightarrow> agrees (primitive_cell_at col boolean_bytes row v0)
      (baseline_wire db m rt col (value_cell CellBoolean v0) row)"
    and "c = UInt8ToTinyInt \<Longrightarrow> agrees (primitive_cell_at col uint8_bytes row v1)
      (baseline_wire db m rt col (value_cell CellUInt8 v1) row)"
    and "c = Int8ToSmallInt \<Longrightarrow> agrees (primitive_cell_at col int8_bytes row v2)
      (baseline_wire db m rt col (value_cell CellInt8 v2) row)"
    and "c = Int16ToSmallInt \<Longrightarrow> agrees (primitive_cell_at col int16_bytes row v3)
      (baseline_wire db m rt col (value_cell CellInt16 v3) row)"
    and "c = Int32ToInt \<Longrightarrow> agrees (primitive_cell_at col int32_bytes row v4)
      (baseline_wire db m rt col (value_cell CellInt32 v4) row)"
    and "c = UInt16ToInt \<Longrightarrow> agrees (primitive_cell_at col uint16_bytes row v5)
      (baseline_wire db m rt col (value_cell CellUInt16 v5) row)"
    and "c = Int64ToBigInt \<Longrightarrow> agrees (primitive_cell_at col int64_bytes row v6)
      (baseline_wire db m rt col (value_cell CellInt64 v6) row)"
    and "c = UInt32ToBigInt \<Longrightarrow> agrees (primitive_cell_at col uint32_bytes row v7)
      (baseline_wire db m rt col (value_cell CellUInt32 v7) row)"
    and "c = UInt64ToCheckedBigInt \<Longrightarrow> agrees (primitive_cell_at col (\<lambda>row v. uint64_checked_bigint_bytes v col row) row v8)
      (baseline_wire db m rt col (value_cell CellUInt64 v8) row)"
    and "c = Float16ToReal \<Longrightarrow> agrees (primitive_cell_at col (float32_bytes col) row v9)
      (baseline_wire db m rt col (value_cell CellFloat16 v9) row)"
    and "c = Float32ToReal \<Longrightarrow> agrees (primitive_cell_at col (float32_bytes col) row v10)
      (baseline_wire db m rt col (value_cell CellFloat32 v10) row)"
    and "c = Float64ToFloat \<Longrightarrow> agrees (primitive_cell_at col (float64_bytes col) row v11)
      (baseline_wire db m rt col (value_cell CellFloat64 v11) row)"
proof -
  note classified = primitive_classified [OF fits, of row]
  show "c = BooleanToBit \<Longrightarrow> agrees (primitive_cell_at col boolean_bytes row v0)
      (baseline_wire db m rt col (value_cell CellBoolean v0) row)"
    using fits classified by (cases v0) (simp_all add: primitive_agreement col_def)
  show "c = UInt8ToTinyInt \<Longrightarrow> agrees (primitive_cell_at col uint8_bytes row v1)
      (baseline_wire db m rt col (value_cell CellUInt8 v1) row)"
    using fits classified by (cases v1) (simp_all add: primitive_agreement col_def)
  show "c = Int8ToSmallInt \<Longrightarrow> agrees (primitive_cell_at col int8_bytes row v2)
      (baseline_wire db m rt col (value_cell CellInt8 v2) row)"
    using fits classified by (cases v2) (simp_all add: primitive_agreement col_def)
  show "c = Int16ToSmallInt \<Longrightarrow> agrees (primitive_cell_at col int16_bytes row v3)
      (baseline_wire db m rt col (value_cell CellInt16 v3) row)"
    using fits classified by (cases v3) (simp_all add: primitive_agreement col_def)
  show "c = Int32ToInt \<Longrightarrow> agrees (primitive_cell_at col int32_bytes row v4)
      (baseline_wire db m rt col (value_cell CellInt32 v4) row)"
    using fits classified by (cases v4) (simp_all add: primitive_agreement col_def)
  show "c = UInt16ToInt \<Longrightarrow> agrees (primitive_cell_at col uint16_bytes row v5)
      (baseline_wire db m rt col (value_cell CellUInt16 v5) row)"
    using fits classified by (cases v5) (simp_all add: primitive_agreement col_def)
  show "c = Int64ToBigInt \<Longrightarrow> agrees (primitive_cell_at col int64_bytes row v6)
      (baseline_wire db m rt col (value_cell CellInt64 v6) row)"
    using fits classified by (cases v6) (simp_all add: primitive_agreement col_def)
  show "c = UInt32ToBigInt \<Longrightarrow> agrees (primitive_cell_at col uint32_bytes row v7)
      (baseline_wire db m rt col (value_cell CellUInt32 v7) row)"
    using fits classified by (cases v7) (simp_all add: primitive_agreement col_def)
  show "c = UInt64ToCheckedBigInt \<Longrightarrow> agrees (primitive_cell_at col (\<lambda>row v. uint64_checked_bigint_bytes v col row) row v8)
      (baseline_wire db m rt col (value_cell CellUInt64 v8) row)"
    using fits classified by (cases v8) (simp_all add: primitive_agreement col_def split: option.split)
  show "c = Float16ToReal \<Longrightarrow> agrees (primitive_cell_at col (float32_bytes col) row v9)
      (baseline_wire db m rt col (value_cell CellFloat16 v9) row)"
    using fits classified by (cases v9) (simp_all add: primitive_agreement col_def)
  show "c = Float32ToReal \<Longrightarrow> agrees (primitive_cell_at col (float32_bytes col) row v10)
      (baseline_wire db m rt col (value_cell CellFloat32 v10) row)"
    using fits classified by (cases v10) (simp_all add: primitive_agreement col_def)
  show "c = Float64ToFloat \<Longrightarrow> agrees (primitive_cell_at col (float64_bytes col) row v11)
      (baseline_wire db m rt col (value_cell CellFloat64 v11) row)"
    using fits classified by (cases v11) (simp_all add: primitive_agreement col_def)
qed

subsection \<open>Decimal columns\<close>

lemma decimal_non_uint64: "decimal_fits c (source_type m) (target_type m) \<Longrightarrow> source_type m \<noteq> DtUInt64"
  by (cases c) (auto simp: decimal_fits_def)

lemma decimal_null:
  assumes "decimal_fits c (source_type m) (target_type m)"
  shows "null_mssql_cell db m row = Ok (CDecimal None)"
  using assms
  by (cases c) (auto simp: decimal_fits_def null_mssql_cell_def supports_null_decimal_cell_def Let_def
      split: data_type.splits mssql_type.splits)

text \<open>The direct value is the unscaled value of the baseline cell.\<close>

lemma agrees_decimal:
  assumes "map_ok (\<lambda>v. mssql_decimal_new v k) r = s"
  shows "agrees (map_ok decimal_wire r) (and_then (map_ok (\<lambda>v. CDecimal (Some v)) s) (wire_cell col))"
  using assms by (cases r) (auto simp: wire_option_def mssql_decimal_new_def)

lemma decimal_agree:
  assumes fits: "decimal_fits c (source_type m) (target_type m)"
  defines "col \<equiv> column_plan_from_mapping m (EncDecimal c)"
  shows "c = FromDecimal32 p k s \<Longrightarrow> agrees (decimal_cell_at col c read_decimal32 row v32)
      (baseline_wire db m rt col (value_cell CellDecimal32 v32) row)"
    and "c = FromDecimal64 p k s \<Longrightarrow> agrees (decimal_cell_at col c read_decimal64 row v64)
      (baseline_wire db m rt col (value_cell CellDecimal64 v64) row)"
    and "c = FromDecimal128 p k s \<Longrightarrow> agrees (decimal_cell_at col c read_decimal128 row v128)
      (baseline_wire db m rt col (value_cell CellDecimal128 v128) row)"
    and "c = FromDecimal256 p k s \<Longrightarrow> agrees (decimal_cell_at col c (read_decimal256 col) row v256)
      (baseline_wire db m rt col (value_cell CellDecimal256 v256) row)"
proof -
  obtain p' s' where ty: "target_type m = MsDecimal p' s'"
    using fits by (auto simp: decimal_fits_def split: mssql_type.splits)
  have classified: "decimal_classify m row = Ok c" using fits by (simp add: decimal_cls.classify_Ok)
  note common = decimal_cell_at_def baseline_wire_def mssql_cell_from_arrow_cell_def value_cell_def Let_def ty
    decimal_null [OF fits] col_def mssql_decimal_value_def decimal_non_uint64 [OF fits] classified read_decimal_defs
  note agree = agrees_decimal [OF normalized_decimal_agrees [of c m "EncDecimal c" row]]
    agrees_decimal [OF decimal256_normalized [of c _ m "EncDecimal c" row]]
  show "c = FromDecimal32 p k s \<Longrightarrow> agrees (decimal_cell_at col c read_decimal32 row v32)
      (baseline_wire db m rt col (value_cell CellDecimal32 v32) row)"
    using agree(1) [of "scast (the v32)"]
    by (cases v32) (simp_all add: sint_scast_up common wire_option_def wire_null_def)
  show "c = FromDecimal64 p k s \<Longrightarrow> agrees (decimal_cell_at col c read_decimal64 row v64)
      (baseline_wire db m rt col (value_cell CellDecimal64 v64) row)"
    using agree(1) [of "scast (the v64)"]
    by (cases v64) (simp_all add: sint_scast_up common wire_option_def wire_null_def)
  show "c = FromDecimal128 p k s \<Longrightarrow> agrees (decimal_cell_at col c read_decimal128 row v128)
      (baseline_wire db m rt col (value_cell CellDecimal128 v128) row)"
    using agree(1) [of "the v128"]
    by (cases v128) (simp_all add: common wire_option_def wire_null_def)
  show "c = FromDecimal256 p k s \<Longrightarrow> agrees (decimal_cell_at col c (read_decimal256 col) row v256)
      (baseline_wire db m rt col (value_cell CellDecimal256 v256) row)"
    using agree(2) [of "the v256"]
    by (cases v256) (simp_all add: common wire_option_def wire_null_def)
qed

lemma uint64_decimal_agree:
  assumes fits: "uint64_fits U64Decimal20_0 (source_type m) (target_type m)"
  defines "col \<equiv> column_plan_from_mapping m EncUInt64Decimal20_0"
  shows "agrees (uint64_decimal20_cell_at col row v) (baseline_wire db m rt col (value_cell CellUInt64 v) row)"
proof -
  have ty: "source_type m = DtUInt64" "target_type m = MsDecimal 20 0" using fits by auto
  have classified: "uint64_classify m r = Ok U64Decimal20_0" for r using fits by (simp add: uint64_cls.classify_Ok)
  have scale: "decimal_scale m row = Ok 0"
  proof -
    have "(try_unsigned 0 :: u8 option) = Some 0" by (simp add: try_unsigned_Some in_unsigned_def)
    then show ?thesis by (simp add: decimal_scale_def ty)
  qed
  have fit: "decimal_unscaled_fits_precision (uint x) 20" for x :: u64
  proof -
    have "- 99999999999999999999 \<le> uint x" using uint_nonnegative [of x] by linarith
    with u64_bound [of x] show ?thesis
      by (simp add: decimal_unscaled_fits_precision_def decimal_max_unscaled_def checked_i128_def in_signed_def)
  qed
  have "word_of_int (uint x) = (ucast x :: i128)" for x :: u64 by simp
  then show ?thesis
    by (cases v)
      (simp_all add: uint64_decimal20_cell_at_def baseline_wire_def mssql_cell_from_arrow_cell_def value_cell_def
        Let_def ty null_mssql_cell_def supports_null_decimal_cell_def is_uint64_decimal20_0_mapping_def classified
        col_def mssql_decimal_value_def scale validate_uint64_decimal_scale_compatibility_def
        classify_uint64_decimal20_0_def mssql_decimal_def mssql_decimal_with_shape_def fit mssql_decimal_new_def
        wire_option_def wire_null_def)
qed

subsection \<open>Strings and binary columns\<close>

lemma agree_string:
  assumes "variable_width_fits (StringToNVarChar len) (source_type m) (target_type m)"
  defines "col \<equiv> column_plan_from_mapping m (EncVariableWidth (StringToNVarChar len))"
  shows "agrees (nvarchar_cell_at col (encoded_length col) row v)
    (baseline_wire db m rt col (value_cell CellUtf8 v) row)"
proof -
  have "variable_width_classify m row = Ok (StringToNVarChar len)"
    using assms(1) by (simp only: variable_width_cls.classify_Ok)
  with assms(1) show ?thesis
    by (cases v) (auto simp: baseline_defs col_def nvarchar_cell_at_def null_in_non_nullable_def null_mssql_cell_def
        nvar_char_cell_def mssql_nvarchar_value_def encoded_length_def is_ok_iff split: mssql_type_length.splits)
qed

lemma agree_binary:
  assumes "variable_width_fits (BytesToVarBinary len) (source_type m) (target_type m)"
  defines "col \<equiv> column_plan_from_mapping m (EncVariableWidth (BytesToVarBinary len))"
  shows "agrees (varbinary_cell_at col (encoded_length col) row v)
    (baseline_wire db m rt col (value_cell CellBinary v) row)"
proof -
  have "variable_width_classify m row = Ok (BytesToVarBinary len)"
    using assms(1) by (simp only: variable_width_cls.classify_Ok)
  with assms(1) show ?thesis
    by (cases v) (auto simp: baseline_defs col_def varbinary_cell_at_def null_in_non_nullable_def null_mssql_cell_def
        var_binary_cell_def mssql_varbinary_value_def encoded_length_def is_ok_iff split: mssql_type_length.splits)
qed

lemma agree_fixed_binary:
  assumes "fixed_size_binary_fits c (source_type m) (target_type m)"
  defines "col \<equiv> column_plan_from_mapping m (EncFixedSizeBinary c)"
  shows "agrees (fixed_binary_cell_at col (binary_length c) row v)
    (baseline_wire db m rt col (value_cell CellBinary v) row)"
proof -
  obtain n where c: "c = FixedSizeBinaryToBinary n" by (cases c)
  have "fixed_size_binary_classify m row = Ok c"
    using assms(1) by (simp only: fixed_size_binary_cls.classify_Ok)
  with assms(1) c show ?thesis
    by (cases v) (auto simp: baseline_defs col_def fixed_binary_cell_at_def null_in_non_nullable_def
        null_mssql_cell_def binary_cell_def mssql_varbinary_value_def binary_length_def is_ok_iff)
qed

subsection \<open>Temporal columns\<close>

text \<open>The direct path checks the time zone of the mapping first; the baseline does so inside the
  conversion, so that a conversion that succeeds has passed the check.\<close>

lemma agrees_temporal:
  assumes "\<And>x. wire_cell col (f x) = Ok (temporal_wire col (g x))" and "is_ok r \<Longrightarrow> is_ok a"
  shows "agrees (and_then a (\<lambda>_. map_ok (temporal_wire col) (map_ok g r)))
      (and_then (map_ok f r) (wire_cell col))"
  using assms by (cases a; cases r) simp_all

lemma agrees_zone_checked:
  assumes "\<And>x. wire_cell col (f x) = Ok (temporal_wire col (g x))"
  shows "agrees (and_then a (\<lambda>_. map_ok (temporal_wire col) (map_ok g r)))
      (and_then (map_ok f (and_then a (\<lambda>_. r))) (wire_cell col))"
  using assms by (cases a; cases r) simp_all

lemma wire_temporal:
  "wire_cell col (CDate (Some x1)) = Ok (temporal_wire col (TvDate x1))"
  "wire_cell col (CTime (Some x2)) = Ok (temporal_wire col (TvTime x2))"
  "wire_cell col (CDateTime (Some x3)) = Ok (temporal_wire col (TvDateTime x3))"
  "wire_cell col (CDateTime2 (Some x4)) = Ok (temporal_wire col (TvDateTime2 x4))"
  "wire_cell col (CDateTimeOffset (Some x5)) = Ok (temporal_wire col (TvDateTimeOffset x5))"
  by (simp_all add: wire_option_def)

lemma timezone_checks_same:
  "validate_mapping_timestamp_timezone_metadata db m row = validate_null_timestamp_timezone_metadata db m row"
  by (simp add: validate_mapping_timestamp_timezone_metadata_def validate_null_timestamp_timezone_metadata_def)

text \<open>A null entry, whatever the type: the same check of the zone, then the null of the type.\<close>

lemma temporal_null_agree:
  assumes fits: "temporal_fits c (source_type m) (target_type m)"
  defines "col \<equiv> column_plan_from_mapping m (EncTemporal c)"
  shows "agrees (temporal_cell_at db m col read row None) (baseline_wire db m rt col CellNull row)"
proof -
  have classified: "temporal_classify m row = Ok c" using fits by (simp add: temporal_cls.classify_Ok)
  let ?zone = "validate_null_timestamp_timezone_metadata db m row"
  have null: "\<exists>cell. null_mssql_cell db m row = and_then ?zone (\<lambda>_. Ok cell) \<and> wire_cell col cell = Ok [0]"
    using fits classified
    by (cases c)
      (auto simp: null_mssql_cell_def null_time_cell_def null_datetime_cell_def null_datetime2_cell_def
        null_datetimeoffset_cell_def datetime_mapping_kind_def datetime2_mapping_kind_def
        SQL_SERVER_DATETIME2_TIMESTAMP_SCALE_def timestamp_of_def datetime2_target_def Let_def
        validate_null_timestamp_timezone_metadata_def wire_option_def wire_null_def col_def
        split: data_type.splits mssql_type.splits)
  then obtain cell where "null_mssql_cell db m row = and_then ?zone (\<lambda>_. Ok cell)" "wire_cell col cell = Ok [0]"
    by blast
  then show ?thesis
    by (cases ?zone) (simp_all add: temporal_cell_at_def baseline_wire_def mssql_cell_from_arrow_cell_def col_def Let_def)
qed

lemma temporal_agreeI:
  assumes fits: "temporal_fits c (source_type m) (target_type m)"
  defines "col \<equiv> column_plan_from_mapping m (EncTemporal c)"
  assumes "\<And>x. v = Some x \<Longrightarrow>
      agrees (and_then (validate_null_timestamp_timezone_metadata db m row) (\<lambda>_. map_ok (temporal_wire col) (read row x)))
        (and_then (mssql_cell_from_arrow_cell db \<lparr>rm_mapping = m, rm_context = rt\<rparr> (k x) row) (wire_cell col))"
  shows "agrees (temporal_cell_at db m col read row v) (baseline_wire db m rt col (value_cell k v) row)"
proof (cases v)
  case None
  then show ?thesis using temporal_null_agree [OF fits, folded col_def] by (simp add: value_cell_def)
next
  case (Some x)
  then show ?thesis
    using assms(3) by (simp add: temporal_cell_at_def value_cell_def baseline_wire_def timezone_checks_same)
qed

lemma date_agree:
  assumes fits: "temporal_fits c (source_type m) (target_type m)"
  defines "col \<equiv> column_plan_from_mapping m (EncTemporal c)"
  shows "c = Date32ToDate \<Longrightarrow> agrees (temporal_cell_at db m col (read_date32 col) row v32)
      (baseline_wire db m rt col (value_cell CellDate32 v32) row)"
    and "c = Date64ToDateTime2 \<Longrightarrow> agrees (temporal_cell_at db m col (read_date64 col) row v64)
      (baseline_wire db m rt col (value_cell CellDate64 v64) row)"
proof -
  have classified: "temporal_classify m row = Ok c" using fits by (simp add: temporal_cls.classify_Ok)
  note unfolded = mssql_cell_from_arrow_cell_def Let_def validate_null_timestamp_timezone_metadata_def
    mssql_date_value_def mssql_datetime2_value_def datetime2_mapping_kind_def read_date32_def read_date64_def
    direct_dates_agree col_def
  note date = agrees_temporal [of "column_plan_from_mapping m (EncTemporal c)" "\<lambda>x. CDate (Some x)" TvDate,
      OF wire_temporal(1), of _ "Ok ()"]
    and datetime2 = agrees_temporal [of "column_plan_from_mapping m (EncTemporal c)" "\<lambda>x. CDateTime2 (Some x)"
      TvDateTime2, OF wire_temporal(4), of _ "Ok ()"]
  show "c = Date32ToDate \<Longrightarrow> agrees (temporal_cell_at db m col (read_date32 col) row v32)
      (baseline_wire db m rt col (value_cell CellDate32 v32) row)"
    unfolding col_def
    by (rule temporal_agreeI [OF fits]) (use fits classified date in \<open>simp add: unfolded\<close>)
  show "c = Date64ToDateTime2 \<Longrightarrow> agrees (temporal_cell_at db m col (read_date64 col) row v64)
      (baseline_wire db m rt col (value_cell CellDate64 v64) row)"
    unfolding col_def
    by (rule temporal_agreeI [OF fits]) (use fits datetime2 in \<open>simp add: unfolded\<close>)
qed

lemma time_agree:
  assumes fits: "temporal_fits c (source_type m) (target_type m)"
  defines "col \<equiv> column_plan_from_mapping m (EncTemporal c)"
  shows "c = Time32SecondToTime \<Longrightarrow> agrees (temporal_cell_at db m col (read_time32_second m) row v1)
      (baseline_wire db m rt col (value_cell CellTime32Second v1) row)"
    and "c = Time32MillisecondToTime \<Longrightarrow> agrees (temporal_cell_at db m col (read_time32_millisecond m) row v2)
      (baseline_wire db m rt col (value_cell CellTime32Millisecond v2) row)"
    and "c = Time64MicrosecondToTime \<Longrightarrow> agrees (temporal_cell_at db m col (read_time64_microsecond m) row v3)
      (baseline_wire db m rt col (value_cell CellTime64Microsecond v3) row)"
    and "c = Time64NanosecondToTime \<Longrightarrow> agrees (temporal_cell_at db m col (read_time64_nanosecond m rt) row v4)
      (baseline_wire db m rt col (value_cell CellTime64Nanosecond v4) row)"
proof -
  have classified: "temporal_classify m row = Ok c" using fits by (simp add: temporal_cls.classify_Ok)
  note time = agrees_temporal [of col "\<lambda>x. CTime (Some x)" TvTime, OF wire_temporal(2), of _ "Ok ()"]
  note unfolded = mssql_cell_from_arrow_cell_def Let_def validate_null_timestamp_timezone_metadata_def
    mssql_time_value_def time_conversions rm_nanosecond_policy_def read_time32_second_def
    read_time32_millisecond_def read_time64_microsecond_def read_time64_nanosecond_def
  note I = temporal_agreeI [OF fits, folded col_def]
  show "c = Time32SecondToTime \<Longrightarrow> agrees (temporal_cell_at db m col (read_time32_second m) row v1)
      (baseline_wire db m rt col (value_cell CellTime32Second v1) row)"
    by (rule I) (use fits classified time in \<open>simp add: unfolded\<close>)
  show "c = Time32MillisecondToTime \<Longrightarrow> agrees (temporal_cell_at db m col (read_time32_millisecond m) row v2)
      (baseline_wire db m rt col (value_cell CellTime32Millisecond v2) row)"
    by (rule I) (use fits classified time in \<open>simp add: unfolded\<close>)
  show "c = Time64MicrosecondToTime \<Longrightarrow> agrees (temporal_cell_at db m col (read_time64_microsecond m) row v3)
      (baseline_wire db m rt col (value_cell CellTime64Microsecond v3) row)"
    by (rule I) (use fits classified time in \<open>simp add: unfolded\<close>)
  show "c = Time64NanosecondToTime \<Longrightarrow> agrees (temporal_cell_at db m col (read_time64_nanosecond m rt) row v4)
      (baseline_wire db m rt col (value_cell CellTime64Nanosecond v4) row)"
    by (rule I) (use fits classified time in \<open>simp add: unfolded\<close>)
qed

text \<open>Timestamps, to either target; the unit of the cell is the unit of the array.\<close>

definition timestamp_target :: "schema_mapping \<Rightarrow> bool" where
  "timestamp_target m \<longleftrightarrow> (\<exists>u zone. source_type m = DtTimestamp u zone)
     \<and> (target_type m = MsDateTime \<or> (\<exists>p \<le> 7. target_type m = MsDateTime2 p))"

lemma timestamp_agree:
  assumes fits: "temporal_fits c (source_type m) (target_type m)" and target: "timestamp_target m"
  defines "col \<equiv> column_plan_from_mapping m (EncTemporal c)"
  shows
    "agrees (temporal_cell_at db m col (read_timestamp_second m rt col) row v)
      (baseline_wire db m rt col (value_cell CellTimestampSecond v) row)"
    and "agrees (temporal_cell_at db m col (read_timestamp_millisecond m rt col) row v)
      (baseline_wire db m rt col (value_cell CellTimestampMillisecond v) row)"
    and "agrees (temporal_cell_at db m col (read_timestamp_microsecond m rt col) row v)
      (baseline_wire db m rt col (value_cell CellTimestampMicrosecond v) row)"
    and "agrees (temporal_cell_at db m col (read_timestamp_nanosecond m rt col) row v)
      (baseline_wire db m rt col (value_cell CellTimestampNanosecond v) row)"
proof -
  from target obtain u zone where src: "source_type m = DtTimestamp u zone" by (auto simp: timestamp_target_def)
  let ?zone = "validate_null_timestamp_timezone_metadata db m row"
  note datetime = agrees_zone_checked [of col "\<lambda>x. CDateTime (Some x)" TvDateTime, OF wire_temporal(3), where a = ?zone]
    and datetime2 = agrees_zone_checked [of col "\<lambda>x. CDateTime2 (Some x)" TvDateTime2, OF wire_temporal(4), where a = ?zone]
  note unfolded = mssql_cell_from_arrow_cell_def Let_def mssql_datetime_value_def mssql_datetime2_value_def
    datetime_mapping_kind_def datetime2_mapping_kind_def SQL_SERVER_DATETIME2_TIMESTAMP_SCALE_def src timezone_checks_same
    rm_nanosecond_policy_def rm_datetime_rounding_def col_def reader_defs timestamp_second_value_def
    timestamp_millisecond_value_def timestamp_microsecond_value_def timestamp_nanosecond_value_def
  note I = temporal_agreeI [OF fits, folded col_def]
  show "agrees (temporal_cell_at db m col (read_timestamp_second m rt col) row v)
      (baseline_wire db m rt col (value_cell CellTimestampSecond v) row)"
    by (rule I) (use target datetime datetime2 in \<open>auto simp: unfolded timestamp_target_def\<close>)
  show "agrees (temporal_cell_at db m col (read_timestamp_millisecond m rt col) row v)
      (baseline_wire db m rt col (value_cell CellTimestampMillisecond v) row)"
    by (rule I) (use target datetime datetime2 in \<open>auto simp: unfolded timestamp_target_def\<close>)
  show "agrees (temporal_cell_at db m col (read_timestamp_microsecond m rt col) row v)
      (baseline_wire db m rt col (value_cell CellTimestampMicrosecond v) row)"
    by (rule I) (use target datetime datetime2 in \<open>auto simp: unfolded timestamp_target_def\<close>)
  show "agrees (temporal_cell_at db m col (read_timestamp_nanosecond m rt col) row v)
      (baseline_wire db m rt col (value_cell CellTimestampNanosecond v) row)"
    by (rule I) (use target datetime datetime2 in \<open>auto simp: unfolded timestamp_target_def\<close>)
qed

lemma zone_resolved:
  assumes "source_type m = DtTimestamp u (Some zone)" "zone \<noteq> []"
  shows "is_ok (validate_null_timestamp_timezone_metadata db m row)
    \<longleftrightarrow> is_ok (timezone_resolution_from_metadata db m row zone)"
  using assms
  by (cases "timezone_resolution_from_metadata db m row zone")
    (simp_all add: validate_null_timestamp_timezone_metadata_def validate_timestamp_timezone_metadata_def)

lemma datetimeoffset_agree:
  assumes fits: "temporal_fits c (source_type m) (target_type m)"
  defines "col \<equiv> column_plan_from_mapping m (EncTemporal c)"
  shows
    "c = TimestampSecondTzToDateTimeOffset \<Longrightarrow> agrees (temporal_cell_at db m col (read_datetimeoffset_second db m) row v)
      (baseline_wire db m rt col (value_cell CellTimestampSecond v) row)"
    and "c = TimestampMillisecondTzToDateTimeOffset \<Longrightarrow> agrees (temporal_cell_at db m col (read_datetimeoffset_millisecond db m) row v)
      (baseline_wire db m rt col (value_cell CellTimestampMillisecond v) row)"
    and "c = TimestampMicrosecondTzToDateTimeOffset \<Longrightarrow> agrees (temporal_cell_at db m col (read_datetimeoffset_microsecond db m) row v)
      (baseline_wire db m rt col (value_cell CellTimestampMicrosecond v) row)"
    and "c = TimestampNanosecondTzToDateTimeOffset \<Longrightarrow> agrees (temporal_cell_at db m col (read_datetimeoffset_nanosecond db m rt) row v)
      (baseline_wire db m rt col (value_cell CellTimestampNanosecond v) row)"
proof -
  have classified: "temporal_classify m row = Ok c" using fits by (simp add: temporal_cls.classify_Ok)
  let ?zone = "validate_null_timestamp_timezone_metadata db m row"
  note offset = agrees_temporal [of col "\<lambda>x. CDateTimeOffset (Some x)" TvDateTimeOffset, OF wire_temporal(5), of _ ?zone]
  note unfolded = mssql_cell_from_arrow_cell_def Let_def mssql_datetimeoffset_value_def reader_defs
    datetimeoffset_values timestamp_timezone_for_datetimeoffset_def timestamp_timezone_def rm_nanosecond_policy_def
  note I = temporal_agreeI [OF fits, folded col_def]
  show "agrees (temporal_cell_at db m col (read_datetimeoffset_second db m) row v)
      (baseline_wire db m rt col (value_cell CellTimestampSecond v) row)" if c: "c = TimestampSecondTzToDateTimeOffset"
  proof (rule I)
    fix x assume "v = Some x"
    from fits c obtain zone where src: "source_type m = DtTimestamp Second (Some zone)" "zone \<noteq> []"
      and ty: "target_type m = MsDateTimeOffset 7"
      by (auto simp: timestamp_of_def is_timezone_free_def split: data_type.splits option.splits)
    let ?r = "mssql_datetimeoffset_from_arrow_timestamp_second db m row x zone"
    have "is_ok ?r \<Longrightarrow> is_ok ?zone"
      using zone_resolved [OF src, of db row]
      by (auto simp: datetimeoffset_conversions is_ok_iff and_then_Inr case_prod_unfold)
    from offset [of ?r, OF this] src ty c classified
    show "agrees (and_then ?zone (\<lambda>_. map_ok (temporal_wire col) (read_datetimeoffset_second db m row x)))
        (and_then (mssql_cell_from_arrow_cell db \<lparr>rm_mapping = m, rm_context = rt\<rparr> (CellTimestampSecond x) row)
          (wire_cell col))"
      by (simp add: unfolded)
  qed
  show "agrees (temporal_cell_at db m col (read_datetimeoffset_millisecond db m) row v)
      (baseline_wire db m rt col (value_cell CellTimestampMillisecond v) row)" if c: "c = TimestampMillisecondTzToDateTimeOffset"
  proof (rule I)
    fix x assume "v = Some x"
    from fits c obtain zone where src: "source_type m = DtTimestamp Millisecond (Some zone)" "zone \<noteq> []"
      and ty: "target_type m = MsDateTimeOffset 7"
      by (auto simp: timestamp_of_def is_timezone_free_def split: data_type.splits option.splits)
    let ?r = "mssql_datetimeoffset_from_arrow_timestamp_millisecond db m row x zone"
    have "is_ok ?r \<Longrightarrow> is_ok ?zone"
      using zone_resolved [OF src, of db row]
      by (auto simp: datetimeoffset_conversions is_ok_iff and_then_Inr case_prod_unfold)
    from offset [of ?r, OF this] src ty c classified
    show "agrees (and_then ?zone (\<lambda>_. map_ok (temporal_wire col) (read_datetimeoffset_millisecond db m row x)))
        (and_then (mssql_cell_from_arrow_cell db \<lparr>rm_mapping = m, rm_context = rt\<rparr> (CellTimestampMillisecond x) row)
          (wire_cell col))"
      by (simp add: unfolded)
  qed
  show "agrees (temporal_cell_at db m col (read_datetimeoffset_microsecond db m) row v)
      (baseline_wire db m rt col (value_cell CellTimestampMicrosecond v) row)" if c: "c = TimestampMicrosecondTzToDateTimeOffset"
  proof (rule I)
    fix x assume "v = Some x"
    from fits c obtain zone where src: "source_type m = DtTimestamp Microsecond (Some zone)" "zone \<noteq> []"
      and ty: "target_type m = MsDateTimeOffset 7"
      by (auto simp: timestamp_of_def is_timezone_free_def split: data_type.splits option.splits)
    let ?r = "mssql_datetimeoffset_from_arrow_timestamp_microsecond db m row x zone"
    have "is_ok ?r \<Longrightarrow> is_ok ?zone"
      using zone_resolved [OF src, of db row]
      by (auto simp: datetimeoffset_conversions is_ok_iff and_then_Inr case_prod_unfold)
    from offset [of ?r, OF this] src ty c classified
    show "agrees (and_then ?zone (\<lambda>_. map_ok (temporal_wire col) (read_datetimeoffset_microsecond db m row x)))
        (and_then (mssql_cell_from_arrow_cell db \<lparr>rm_mapping = m, rm_context = rt\<rparr> (CellTimestampMicrosecond x) row)
          (wire_cell col))"
      by (simp add: unfolded)
  qed
  show "agrees (temporal_cell_at db m col (read_datetimeoffset_nanosecond db m rt) row v)
      (baseline_wire db m rt col (value_cell CellTimestampNanosecond v) row)" if c: "c = TimestampNanosecondTzToDateTimeOffset"
  proof (rule I)
    fix x assume "v = Some x"
    from fits c obtain zone where src: "source_type m = DtTimestamp Nanosecond (Some zone)" "zone \<noteq> []"
      and ty: "target_type m = MsDateTimeOffset 7"
      by (auto simp: timestamp_of_def is_timezone_free_def split: data_type.splits option.splits)
    let ?r = "mssql_datetimeoffset_from_arrow_timestamp_nanosecond db m row x zone (context_nanosecond_policy rt)"
    have "is_ok ?r \<Longrightarrow> is_ok ?zone"
      using zone_resolved [OF src, of db row]
      by (auto simp: datetimeoffset_conversions is_ok_iff and_then_Inr case_prod_unfold)
    from offset [of ?r, OF this] src ty c classified
    show "agrees (and_then ?zone (\<lambda>_. map_ok (temporal_wire col) (read_datetimeoffset_nanosecond db m rt row x)))
        (and_then (mssql_cell_from_arrow_cell db \<lparr>rm_mapping = m, rm_context = rt\<rparr> (CellTimestampNanosecond x) row)
          (wire_cell col))"
      by (simp add: unfolded)
  qed
qed

subsection \<open>Agreement of a column\<close>

lemma column_agrees:
  assumes "\<And>row. row < length array \<Longrightarrow> agrees (cell_at row (array ! row)) (conv row)"
  shows "agrees (column_cells cell_at array) (try_map conv [0..<length array])"
  using assms by (auto simp: agrees_def column_cells_def try_map_Inr)

lemma array_class_column:
  assumes "\<And>row v. agrees (cell_at row v) (conv (value_cell k v) row)"
    and "\<And>row. array_cell a row = value_cell k (array ! row)" "array_len a = length array"
  shows "agrees (column_cells cell_at array) (try_map (\<lambda>row. conv (array_cell a row) row) [0..<array_len a])"
  unfolding assms(3) by (rule column_agrees) (simp add: assms(1,2))

lemmas array_classes = is_TimestampNanosecondArray_def is_TimestampMicrosecondArray_def is_TimestampMillisecondArray_def is_BooleanArray_def is_Int8Array_def is_Int16Array_def is_Int32Array_def is_Int64Array_def is_UInt8Array_def is_UInt16Array_def is_UInt32Array_def is_UInt64Array_def is_Float16Array_def is_Float32Array_def is_Float64Array_def is_Decimal32Array_def is_Decimal64Array_def is_Decimal128Array_def is_Decimal256Array_def is_StringArray_def is_LargeStringArray_def is_StringViewArray_def is_BinaryArray_def is_LargeBinaryArray_def is_BinaryViewArray_def is_FixedSizeBinaryArray_def is_Date32Array_def is_Date64Array_def is_Time32SecondArray_def is_Time32MillisecondArray_def is_Time64MicrosecondArray_def is_Time64NanosecondArray_def is_TimestampSecondArray_def

lemmas bind_cases = bind_defs map_ok_Inr and_then_Inr bound_cells_def array_classes

lemmas bound_cases = bind_cases array_len_def values_null_def

text \<open>The cells of a column that was bound, against the cells of its array: one lemma per family.\<close>

definition column_agrees_with_array ::
    "'tz timezone_db \<Rightarrow> runtime_context \<Rightarrow> schema_mapping \<Rightarrow> direct_column_plan \<Rightarrow> bound_direct_column \<Rightarrow> arrow_array \<Rightarrow> bool" where
  "column_agrees_with_array db rt m col c a \<longleftrightarrow>
     agrees (bound_cells db rt c) (try_map (\<lambda>row. baseline_wire db m rt col (array_cell a row) row) [0..<array_len a])"

lemma bound_primitive_agrees:
  assumes "bind_direct_column encoder batch i col = Ok c" "col = column_plan_from_mapping m (EncPrimitive p)"
    and fits: "primitive_fits p (source_type m) (target_type m)"
  shows "column_agrees_with_array db rt m col c (batch_columns batch ! plan_source_index col)"
proof -
  have enc: "plan_encoding col = EncPrimitive p" using assms(2) by simp
  note agree = primitive_agree [OF fits, folded assms(2), where db = db and rt = rt]
  show ?thesis unfolding column_agrees_with_array_def
    using assms(1) enc agree
    by (cases p) (auto simp: bound_cases split: if_splits intro!: column_agrees)
qed

lemma bound_decimal_agrees:
  assumes "bind_direct_column encoder batch i col = Ok c" "col = column_plan_from_mapping m (EncDecimal d)"
    and fits: "decimal_fits d (source_type m) (target_type m)"
  shows "column_agrees_with_array db rt m col c (batch_columns batch ! plan_source_index col)"
proof -
  have enc: "plan_encoding col = EncDecimal d" using assms(2) by simp
  note agree = decimal_agree [OF fits, folded assms(2), where db = db and rt = rt]
  show ?thesis unfolding column_agrees_with_array_def
    using assms(1) enc agree
    by (cases d) (auto simp: bound_cases split: if_splits intro!: column_agrees)
qed

lemma bound_variable_width_agrees:
  assumes "bind_direct_column encoder batch i col = Ok c" "col = column_plan_from_mapping m (EncVariableWidth w)"
    and fits: "variable_width_fits w (source_type m) (target_type m)" and "mapping_for_column_index encoder i = Ok m"
  shows "column_agrees_with_array db rt m col c (batch_columns batch ! plan_source_index col)"
proof (cases w)
  case (StringToNVarChar len)
  with assms show ?thesis
    using agree_string [of len m] unfolding column_agrees_with_array_def
    by (auto simp: bound_cases split: if_splits data_type.splits intro!: column_agrees)
next
  case (BytesToVarBinary len)
  with assms show ?thesis
    using agree_binary [of len m] unfolding column_agrees_with_array_def
    by (auto simp: bound_cases split: if_splits data_type.splits intro!: column_agrees)
qed

lemma timestamp_target_fits:
  assumes "temporal_fits t (source_type m) (target_type m)"
    and "t \<in> {TimestampSecondToDateTime2, TimestampMillisecondToDateTime2, TimestampMicrosecondToDateTime2,
      TimestampNanosecondToDateTime2, TimestampSecondTzToDateTime2, TimestampMillisecondTzToDateTime2,
      TimestampMicrosecondTzToDateTime2, TimestampNanosecondTzToDateTime2, TimestampSecondToDateTime,
      TimestampMillisecondToDateTime, TimestampMicrosecondToDateTime, TimestampNanosecondToDateTime,
      TimestampSecondTzToDateTime, TimestampMillisecondTzToDateTime, TimestampMicrosecondTzToDateTime,
      TimestampNanosecondTzToDateTime}"
  shows "timestamp_target m"
  using assms
  by (auto simp: timestamp_target_def timestamp_of_def datetime2_target_def split: data_type.splits mssql_type.splits)

lemma bound_temporal_agrees:
  assumes bound: "bind_temporal_array t a col m = Ok c" and col: "col = column_plan_from_mapping m (EncTemporal t)"
    and fits: "temporal_fits t (source_type m) (target_type m)"
  shows "column_agrees_with_array db rt m col c a"
  unfolding column_agrees_with_array_def
  using bound date_agree [OF fits, folded col, where db = db and rt = rt] time_agree [OF fits, folded col, where db = db and rt = rt]
    datetimeoffset_agree [OF fits, folded col, where db = db and rt = rt]
    timestamp_agree [OF fits timestamp_target_fits [OF fits], folded col, where db = db and rt = rt]
  by (cases t) (auto simp: bind_temporal_array_def map_ok_Inr bound_cells_def array_classes array_len_def
      values_null_def intro!: column_agrees)

lemma bound_column_agrees:
  assumes bind: "bind_direct_column encoder batch i col = Ok c"
    and col: "col = column_plan_from_mapping m enc"
    and fits: "encoding_fits enc (source_type m) (target_type m)"
    and m: "mapping_for_column_index encoder i = Ok m"
  shows "column_agrees_with_array db rt m col c (batch_columns batch ! plan_source_index col)"
proof (cases enc)
  case EncUInt64Decimal20_0
  with assms show ?thesis
    using uint64_decimal_agree [of m] unfolding column_agrees_with_array_def
    by (auto simp: bound_cases split: if_splits intro!: column_agrees)
next
  case (EncFixedSizeBinary f)
  with assms show ?thesis
    using agree_fixed_binary [of f m] unfolding column_agrees_with_array_def
    by (auto simp: bound_cases split: if_splits intro!: column_agrees)
next
  case (EncTemporal t)
  with bind m col have "bind_temporal_array t (batch_columns batch ! plan_source_index col) col m = Ok c"
    by (simp add: bind_direct_column_def Let_def split: if_splits)
  with bound_temporal_agrees EncTemporal col fits show ?thesis by simp
qed (use assms bound_primitive_agrees bound_decimal_agrees bound_variable_width_agrees in simp_all)

subsection \<open>Agreement of a batch\<close>

definition baseline_rows ::
    "'tz timezone_db \<Rightarrow> schema_mapping list \<Rightarrow> runtime_context \<Rightarrow> record_batch \<Rightarrow> error + mssql_cell list list" where
  "baseline_rows db mappings rt batch =
     and_then (view_new_with_context batch mappings rt) (\<lambda>view.
       try_map (mssql_row db view) [0..<batch_num_rows batch])"

definition wire_row :: "direct_encoder_plan \<Rightarrow> mssql_cell list \<Rightarrow> error + bytes list" where
  "wire_row plan cells = try_map (\<lambda>(col, cell). wire_cell col cell) (zip plan cells)"

text \<open>The cell of a batch at a row and a column, on the baseline.\<close>

definition batch_cell ::
    "'tz timezone_db \<Rightarrow> schema_mapping list \<Rightarrow> runtime_context \<Rightarrow> record_batch \<Rightarrow> usize \<Rightarrow> usize \<Rightarrow> error + mssql_cell" where
  "batch_cell db mappings rt batch row i =
     mssql_cell_from_arrow_cell db \<lparr>rm_mapping = mappings ! i, rm_context = rt\<rparr>
       (array_cell (batch_columns batch ! i) row) row"

lemma baseline_row_cells:
  assumes encoder: "encoder_new_with_context mappings rt = Ok encoder" and batch: "valid_batch batch"
    and shape: "validate_record_batch_encoding_shape batch mappings = Ok ()"
  shows "baseline_rows db mappings rt batch
    = try_map (\<lambda>row. try_map (batch_cell db mappings rt batch row) [0..<length mappings]) [0..<batch_num_rows batch]"
proof -
  note enc = encoder_new_Ok [OF encoder]
  let ?view = "\<lparr>view_batch = batch, view_mappings = mappings, view_context = rt\<rparr>"
  have view: "view_new_with_context batch mappings rt = Ok ?view" using shape by (simp add: view_new_with_context_def)
  have known: "\<forall>m \<in> set mappings. known_class (source_type m)"
    using enc(4) fits_known_class by (metis in_set_conv_nth)
  have len: "length (batch_columns batch) = length mappings"
    using batch shape [unfolded encoding_validation] by (auto simp: valid_batch_def dest: map_eq_imp_length_eq)
  have zip: "zip (batch_columns batch) mappings
      = map (\<lambda>i. (batch_columns batch ! i, mappings ! i)) [0..<length mappings]"
    using len by (intro nth_equalityI) simp_all
  have compose: "try_map f (map g xs) = try_map (\<lambda>x. f (g x)) xs" for f :: "'b \<Rightarrow> error + 'c" and g :: "'d \<Rightarrow> 'b" and xs
    by (induction xs) simp_all
  have "mssql_row db ?view row = try_map (batch_cell db mappings rt batch row) [0..<length mappings]"
    if "row < batch_num_rows batch" for row
    using that mssql_row_converts [OF batch view known, of db row]
    by (simp add: zip compose batch_cell_def [abs_def])
  then have "try_map (mssql_row db ?view) rows
      = try_map (\<lambda>row. try_map (batch_cell db mappings rt batch row) [0..<length mappings]) rows"
    if "\<forall>row \<in> set rows. row < batch_num_rows batch" for rows
    using that by (induction rows) simp_all
  then show ?thesis by (simp add: baseline_rows_def view)
qed

text \<open>Each bound column agrees with the baseline cells of its column.\<close>

lemma batch_columns_agree:
  assumes encoder: "encoder_new_with_context mappings rt = Ok encoder"
    and valid: "\<forall>m \<in> set mappings. valid_mssql_type (target_type m)" "valid_batch batch"
    and shape: "validate_record_batch_encoding_shape batch mappings = Ok ()"
    and bind: "bind_direct_columns encoder batch = Ok cols" and i: "i < length mappings"
  shows "agrees (bound_cells db rt (cols ! i))
    (try_map (\<lambda>row. and_then (batch_cell db mappings rt batch row i) (wire_cell (encoder_plan encoder ! i)))
       [0..<batch_num_rows batch])"
proof -
  note enc = encoder_new_Ok [OF encoder]
  from enc(4) [OF i] obtain e where col: "encoder_plan encoder ! i = column_plan_from_mapping (mappings ! i) e"
    and fits: "encoding_fits e (source_type (mappings ! i)) (target_type (mappings ! i))" by blast
  have m: "mapping_for_column_index encoder i = Ok (mappings ! i)"
    using i by (simp add: mapping_for_column_index_def enc(1))
  obtain cols' where "bind_direct_columns encoder batch = Ok cols'"
    "\<And>i. i < length mappings \<Longrightarrow> bind_direct_column encoder batch i (encoder_plan encoder ! i) = Ok (cols' ! i)"
    by (rule bind_validated [OF encoder valid shape, where db = db and rt' = rt]) blast
  with bind i have bound: "bind_direct_column encoder batch i (encoder_plan encoder ! i) = Ok (cols ! i)" by simp
  have index: "plan_source_index (encoder_plan encoder ! i) = i"
    using shape i by (simp add: col encoding_validation field_matches_def column_plan_from_mapping_def)
  have "i < length (batch_columns batch)"
    using valid(2) shape i by (auto simp: valid_batch_def encoding_validation dest: map_eq_imp_length_eq)
  then have "array_len (batch_columns batch ! i) = batch_num_rows batch"
    using valid(2) by (simp add: valid_batch_def)
  with bound_column_agrees [OF bound col fits m, of db rt] index show ?thesis
    by (simp add: column_agrees_with_array_def baseline_wire_def [abs_def] batch_cell_def)
qed

text \<open>A matrix of results, by rows and by columns.\<close>

definition matrix_at :: "(usize \<Rightarrow> usize \<Rightarrow> error + bytes) \<Rightarrow> usize \<Rightarrow> usize \<Rightarrow> bytes list list \<Rightarrow> bool" where
  "matrix_at f n k wires \<longleftrightarrow>
     length wires = n \<and> (\<forall>row < n. length (wires ! row) = k \<and> (\<forall>i < k. f row i = Ok (wires ! row ! i)))"

lemma matrix_by_rows:
  assumes "length plan = k"
  shows "(\<exists>rows. try_map (\<lambda>row. try_map (x row) [0..<k]) [0..<n] = Ok rows \<and> try_map (wire_row plan) rows = Ok wires)
    \<longleftrightarrow> matrix_at (\<lambda>row i. and_then (x row i) (wire_cell (plan ! i))) n k wires"
proof
  assume "\<exists>rows. try_map (\<lambda>row. try_map (x row) [0..<k]) [0..<n] = Ok rows \<and> try_map (wire_row plan) rows = Ok wires"
  then obtain rows where rows: "length rows = n" "\<forall>row < n. try_map (x row) [0..<k] = Ok (rows ! row)"
    and wires: "length wires = n" "\<forall>row < n. wire_row plan (rows ! row) = Ok (wires ! row)"
    by (auto simp: try_map_Inr)
  have "length (wires ! row) = k \<and> (\<forall>i < k. and_then (x row i) (wire_cell (plan ! i)) = Ok (wires ! row ! i))"
    if "row < n" for row
    using rows(2) wires(2) that assms by (auto simp: wire_row_def try_map_Inr)
  with wires(1) show "matrix_at (\<lambda>row i. and_then (x row i) (wire_cell (plan ! i))) n k wires"
    by (simp add: matrix_at_def)
next
  assume m: "matrix_at (\<lambda>row i. and_then (x row i) (wire_cell (plan ! i))) n k wires"
  then have "\<forall>row < n. \<forall>i < k. \<exists>cell. x row i = Ok cell \<and> wire_cell (plan ! i) cell = Ok (wires ! row ! i)"
    by (simp add: matrix_at_def and_then_Inr)
  then obtain cell where cell: "\<And>row i. row < n \<Longrightarrow> i < k \<Longrightarrow>
      x row i = Ok (cell row i) \<and> wire_cell (plan ! i) (cell row i) = Ok (wires ! row ! i)" by metis
  let ?rows = "map (\<lambda>row. map (cell row) [0..<k]) [0..<n]"
  have "try_map (\<lambda>row. try_map (x row) [0..<k]) [0..<n] = Ok ?rows"
    using cell by (simp add: try_map_Inr)
  moreover have "try_map (wire_row plan) ?rows = Ok wires"
    using cell m assms by (simp add: try_map_Inr wire_row_def matrix_at_def)
  ultimately show "\<exists>rows. try_map (\<lambda>row. try_map (x row) [0..<k]) [0..<n] = Ok rows \<and> try_map (wire_row plan) rows = Ok wires"
    by blast
qed

lemma matrix_by_columns:
  assumes cols: "length cols = k" "\<forall>i < k. agrees (cells_of (cols ! i)) (try_map (\<lambda>row. f row i) [0..<n])"
  shows "try_map cells_of cols = Ok cells \<Longrightarrow> matrix_at f n k (table_rows n cells)"
    and "matrix_at f n k wires \<Longrightarrow> \<exists>cells. try_map cells_of cols = Ok cells \<and> table_rows n cells = wires
      \<and> (\<forall>cs \<in> set cells. length cs = n)"
proof -
  have nth: "cells_of (cols ! i) = Ok cs \<longleftrightarrow> length cs = n \<and> (\<forall>row < n. f row i = Ok (cs ! row))" if "i < k" for i cs
    using cols(2) that by (auto simp: agrees_def try_map_Inr)
  show "try_map cells_of cols = Ok cells \<Longrightarrow> matrix_at f n k (table_rows n cells)"
    using nth cols(1) by (simp add: try_map_Inr matrix_at_def table_rows_def)
  assume m: "matrix_at f n k wires"
  let ?cells = "map (\<lambda>i. map (\<lambda>row. wires ! row ! i) [0..<n]) [0..<k]"
  have "try_map cells_of cols = Ok ?cells"
    using nth cols(1) m by (simp add: try_map_Inr matrix_at_def)
  moreover have "table_rows n ?cells = wires"
    using m by (intro nth_equalityI) (auto simp: table_rows_def matrix_at_def intro!: nth_equalityI)
  moreover have "\<forall>cs \<in> set ?cells. length cs = n" by simp
  ultimately show "\<exists>cells. try_map cells_of cols = Ok cells \<and> table_rows n cells = wires \<and> (\<forall>cs \<in> set cells. length cs = n)"
    by blast
qed

text \<open>Measuring succeeds on cells that encode.\<close>

lemma encodable_measures:
  assumes encoder: "encoder_new_with_context mappings rt = Ok encoder"
    and valid: "\<forall>m \<in> set mappings. valid_mssql_type (target_type m)" "valid_batch batch"
    and shape: "validate_record_batch_encoding_shape batch mappings = Ok ()"
    and bind: "bind_direct_columns encoder batch = Ok cols" and cells: "try_map (bound_cells db rt) cols = Ok cells"
    and lens: "\<forall>cs \<in> set cells. length cs = batch_num_rows batch"
    and size: "length (rows_bytes (table_rows (batch_num_rows batch) cells)) < 2 ^ 64"
      "batch_num_rows batch * length mappings < 2 ^ 64"
  shows "is_ok (measure_batch db encoder batch)"
proof (cases "batch_num_rows batch = 0")
  case True
  with shape encoder_new_Ok(1) [OF encoder] show ?thesis by (simp add: measure_batch_def)
next
  case False
  note enc = encoder_new_Ok [OF encoder]
  let ?n = "batch_num_rows batch"
  let ?b = "\<lparr>bound_columns = cols, bound_context = rt, bound_row_count = ?n\<rparr>"
  obtain cols' where cols': "bind_direct_columns encoder batch = Ok cols'" "length cols' = length mappings"
    "\<forall>c \<in> set cols'. well_bound c"
    by (rule bind_validated [OF encoder valid shape, where db = db and rt' = rt]) blast
  with bind have cols: "length cols = length mappings" "\<forall>c \<in> set cols. well_bound c" by simp_all
  have len: "length cells = length mappings" using cells cols(1) by (simp add: try_map_Inr)
  have "measure_bound_cell_lengths db ?b = Ok (concat (cell_sizes (table_rows ?n cells)))"
    using bound.measure_all [OF cols(2), of db rt ?n] cells lens size(2) cols(1) False
    by (simp add: measure_bound_cell_lengths_def)
  then have "measure_cell_lengths db encoder batch = Ok (concat (cell_sizes (table_rows ?n cells)))"
    using False bind by (simp add: measure_cell_lengths_def bound_batch_new_def enc(2))
  moreover have "is_ok (measured_new ?n (length mappings) (concat (cell_sizes (table_rows ?n cells))))"
  proof -
    have uniform: "\<forall>ns \<in> set (cell_sizes (table_rows ?n cells)). length ns = length mappings"
      using len table_rows_shape(2) [of ?n cells] by simp
    from size(1) have "rows_size (cell_sizes (table_rows ?n cells)) < 2 ^ 64" by (simp only: length_rows_bytes)
    then show ?thesis
      using matrix_rows_concat [OF uniform] length_concat_uniform [OF uniform] size(2)
      by (simp add: measured_new_eq table_rows_shape(1) Let_def)
  qed
  ultimately show ?thesis using False shape enc by (simp add: measure_batch_def Let_def)
qed

lemma batch_agreement:
  assumes encoder: "encoder_new_with_context mappings rt = Ok encoder"
    and valid: "\<forall>m \<in> set mappings. valid_mssql_type (target_type m)" "valid_batch batch"
  shows "case measure_batch db encoder batch of
      Ok measured \<Rightarrow> \<exists>rows wires. baseline_rows db mappings rt batch = Ok rows
        \<and> try_map (wire_row (encoder_plan encoder)) rows = Ok wires
        \<and> measured_payload_len measured = length (rows_bytes wires)
        \<and> (\<forall>flags. encode_batch flags db encoder batch = Some (Ok (rows_payload wires)))
    | Err _ \<Rightarrow> \<not> (\<exists>rows wires. baseline_rows db mappings rt batch = Ok rows
        \<and> try_map (wire_row (encoder_plan encoder)) rows = Ok wires
        \<and> length (rows_bytes wires) < 2 ^ 64 \<and> batch_num_rows batch * length mappings < 2 ^ 64)"
proof (cases "validate_record_batch_encoding_shape batch mappings")
  case (Inl e)
  then show ?thesis
    using encoder_new_Ok(1) [OF encoder]
    by (simp add: measure_batch_def baseline_rows_def view_new_with_context_def)
next
  case (Inr u)
  then have shape: "validate_record_batch_encoding_shape batch mappings = Ok ()" by simp
  note enc = encoder_new_Ok [OF encoder]
  let ?n = "batch_num_rows batch" and ?k = "length mappings"
  let ?f = "\<lambda>row i. and_then (batch_cell db mappings rt batch row i) (wire_cell (encoder_plan encoder ! i))"
  have rows: "(\<exists>rows. baseline_rows db mappings rt batch = Ok rows
      \<and> try_map (wire_row (encoder_plan encoder)) rows = Ok wires) \<longleftrightarrow> matrix_at ?f ?n ?k wires" for wires
    unfolding baseline_row_cells [OF encoder valid(2) shape]
    by (rule matrix_by_rows) (simp add: enc(3))
  obtain cols where bind: "bind_direct_columns encoder batch = Ok cols" and len: "length cols = ?k"
    by (rule bind_validated [OF encoder valid shape, where db = db and rt' = rt]) blast
  have "\<forall>i < ?k. agrees (bound_cells db rt (cols ! i)) (try_map (\<lambda>row. ?f row i) [0..<?n])"
    using batch_columns_agree [OF encoder valid shape bind] by blast
  note columns = matrix_by_columns [OF len this]
  show ?thesis
  proof (cases "measure_batch db encoder batch")
    case (Inr measured)
    obtain cols' cells where bind': "bind_direct_columns encoder batch = Ok cols'"
      and e: "encodes db rt cols' ?n cells" and m: "valid_measured measured"
        "measured_rows measured = cell_sizes (table_rows ?n cells)"
      by (rule measured_batch_encodes [OF encoder valid Inr]) blast
    with bind have cells: "try_map (bound_cells db rt) cols = Ok cells" by (simp add: encodes_def)
    from columns(1) [OF this] rows [of "table_rows ?n cells"] obtain rs where
      "baseline_rows db mappings rt batch = Ok rs"
      "try_map (wire_row (encoder_plan encoder)) rs = Ok (table_rows ?n cells)" by blast
    moreover have "encode_batch flags db encoder batch = Some (Ok (rows_payload (table_rows ?n cells)))" for flags
      using encode_checked_rows [of batch encoder cols db cells flags] shape bind bind' e enc(1,2)
      by (simp add: encode_batch_def)
    moreover have "measured_payload_len measured = length (rows_bytes (table_rows ?n cells))"
      using valid_measuredD(4) [OF m(1)] m(2) by (simp only: length_rows_bytes)
    ultimately show ?thesis using Inr by auto
  next
    case (Inl e)
    have "\<not> (matrix_at ?f ?n ?k wires \<and> length (rows_bytes wires) < 2 ^ 64 \<and> ?n * ?k < 2 ^ 64)" for wires
    proof
      assume *: "matrix_at ?f ?n ?k wires \<and> length (rows_bytes wires) < 2 ^ 64 \<and> ?n * ?k < 2 ^ 64"
      with columns(2) [of wires] obtain cells where "try_map (bound_cells db rt) cols = Ok cells"
        "table_rows ?n cells = wires" "\<forall>cs \<in> set cells. length cs = ?n" by blast
      with encodable_measures [OF encoder valid shape bind] * have "is_ok (measure_batch db encoder batch)" by blast
      with Inl show False by simp
    qed
    with rows Inl show ?thesis by auto
  qed
qed

text \<open>C1: the two backends accept the same batches and write the same cells. For a batch
  of the planned schema, the direct encoder measures it exactly when the baseline converts every
  row of it, every cell has a wire form (a string or binary value fits its length prefix) and the
  payload can be counted; and then the payload it encodes, with or without the fast path, is made
  of the wire forms of the baseline's cells, row by row. A batch of another schema is refused by
  both.\<close>

theorem backends_agree:
  assumes encoder: "encoder_new_with_context mappings rt = Ok encoder"
    and valid: "\<forall>m \<in> set mappings. valid_mssql_type (target_type m)" "valid_batch batch"
  shows "case measure_batch db encoder batch of
      Ok measured \<Rightarrow> \<exists>rows wires. baseline_rows db mappings rt batch = Ok rows
        \<and> try_map (wire_row (encoder_plan encoder)) rows = Ok wires
        \<and> measured_payload_len measured = length (rows_bytes wires)
        \<and> (\<forall>flags. encode_batch flags db encoder batch = Some (Ok (rows_payload wires)))
    | Err _ \<Rightarrow> \<not> (\<exists>rows wires. baseline_rows db mappings rt batch = Ok rows
        \<and> try_map (wire_row (encoder_plan encoder)) rows = Ok wires
        \<and> length (rows_bytes wires) < 2 ^ 64 \<and> batch_num_rows batch * length mappings < 2 ^ 64)"
  by (rule batch_agreement [OF assms])

theorem backends_agree_witness:
  "\<exists>rows wires.
     baseline_rows example_timezone_db [example_mapping DtInt32 MsInt]
       (rm_context (example_runtime DtInt32 MsInt RejectNon100ns)) example_batch = Ok rows
     \<and> try_map (wire_row (encoder_plan example_encoder)) rows = Ok wires
     \<and> length (rows_bytes wires) = 12
     \<and> (\<forall>flags. encode_batch flags example_timezone_db example_encoder example_batch = Some (Ok (rows_payload wires)))"
proof -
  have "\<forall>m \<in> set [example_mapping DtInt32 MsInt]. valid_mssql_type (target_type m)" by simp
  from backends_agree [OF example_encoder_new this example_batch_valid, of example_timezone_db] show ?thesis
    by (auto simp: example_measure)
qed

end
