(* ===== verification/TokenRows.thy ===== *)
theory TokenRows
  imports RecordBatches
begin

text \<open>
  Token rows of the driver (\<^verbatim>\<open>src/write/token_row.rs\<close>): a cell becomes a \<^verbatim>\<open>ColumnData\<close> of the
  tiberius crate. The driver's constructor functions (\<^verbatim>\<open>Date::new\<close>, \<^verbatim>\<open>Numeric::new_with_scale\<close>, ...)
  are not under \<^verbatim>\<open>src/\<close>; a driver value is the record of the arguments it was made from.
\<close>

datatype tiberius_numeric = NumericNewWithScale i128 u8
datatype tiberius_date = TiberiusDate u32
datatype tiberius_time = TiberiusTime u64 u8
datatype tiberius_datetime = TiberiusDateTime i32 u32
datatype tiberius_datetime2 = TiberiusDateTime2 tiberius_date tiberius_time
datatype tiberius_datetimeoffset = TiberiusDateTimeOffset tiberius_datetime2 i16

datatype column_data =
    DataBit "bool option"
  | DataU8 "u8 option"
  | DataI16 "i16 option"
  | DataI32 "i32 option"
  | DataI64 "i64 option"
  | DataNumeric "tiberius_numeric option"
  | DataDate "tiberius_date option"
  | DataTime "tiberius_time option"
  | DataDateTime "tiberius_datetime option"
  | DataDateTime2 "tiberius_datetime2 option"
  | DataDateTimeOffset "tiberius_datetimeoffset option"
  | DataF32 "f32 option"
  | DataF64 "f64 option"
  | DataString "rstr option"
  | DataBinary "bytes option"

type_synonym token_row = "column_data list"

definition to_tiberius_numeric :: "mssql_decimal \<Rightarrow> tiberius_numeric" where
  "to_tiberius_numeric v = NumericNewWithScale (dec_unscaled v) (dec_scale v)"

definition to_tiberius_date :: "mssql_date \<Rightarrow> tiberius_date" where
  "to_tiberius_date v = TiberiusDate (date_days v)"

definition to_tiberius_time :: "mssql_time \<Rightarrow> tiberius_time" where
  "to_tiberius_time v = TiberiusTime (time_increments v) (time_scale v)"

definition to_tiberius_datetime :: "mssql_datetime \<Rightarrow> tiberius_datetime" where
  "to_tiberius_datetime v = TiberiusDateTime (datetime_days v) (datetime_fragments v)"

definition to_tiberius_datetime2 :: "mssql_datetime2 \<Rightarrow> tiberius_datetime2" where
  "to_tiberius_datetime2 v =
     TiberiusDateTime2 (to_tiberius_date (datetime2_date v)) (to_tiberius_time (datetime2_time v))"

definition to_tiberius_datetimeoffset :: "mssql_datetimeoffset \<Rightarrow> tiberius_datetimeoffset" where
  "to_tiberius_datetimeoffset v =
     TiberiusDateTimeOffset (to_tiberius_datetime2 (dto_datetime2 v)) (dto_offset_minutes v)"

primrec mssql_cell_to_tiberius_owned :: "mssql_cell \<Rightarrow> column_data" where
  "mssql_cell_to_tiberius_owned (CBit v) = DataBit v"
| "mssql_cell_to_tiberius_owned (CTinyInt v) = DataU8 v"
| "mssql_cell_to_tiberius_owned (CSmallInt v) = DataI16 v"
| "mssql_cell_to_tiberius_owned (CInt v) = DataI32 v"
| "mssql_cell_to_tiberius_owned (CBigInt v) = DataI64 v"
| "mssql_cell_to_tiberius_owned (CDecimal v) = DataNumeric (map_option to_tiberius_numeric v)"
| "mssql_cell_to_tiberius_owned (CDate v) = DataDate (map_option to_tiberius_date v)"
| "mssql_cell_to_tiberius_owned (CTime v) = DataTime (map_option to_tiberius_time v)"
| "mssql_cell_to_tiberius_owned (CDateTime v) = DataDateTime (map_option to_tiberius_datetime v)"
| "mssql_cell_to_tiberius_owned (CDateTime2 v) = DataDateTime2 (map_option to_tiberius_datetime2 v)"
| "mssql_cell_to_tiberius_owned (CDateTimeOffset v) =
     DataDateTimeOffset (map_option to_tiberius_datetimeoffset v)"
| "mssql_cell_to_tiberius_owned (CReal v) = DataF32 v"
| "mssql_cell_to_tiberius_owned (CFloat v) = DataF64 v"
| "mssql_cell_to_tiberius_owned (CNVarChar v) = DataString v"
| "mssql_cell_to_tiberius_owned (CVarBinary v) = DataBinary v"

definition tiberius_row_owned ::
    "'tz timezone_db \<Rightarrow> record_batch_view \<Rightarrow> usize \<Rightarrow> error + token_row" where
  "tiberius_row_owned db view row_index =
     and_then (mssql_row db view row_index) (\<lambda>cells.
       Ok (fold (\<lambda>cell row. row @ [mssql_cell_to_tiberius_owned cell]) cells []))"

subsection \<open>Nothing is lost\<close>

lemma tiberius_values_inject:
  "to_tiberius_numeric v = to_tiberius_numeric w \<longleftrightarrow> v = w"
  "to_tiberius_date d = to_tiberius_date d' \<longleftrightarrow> d = d'"
  "to_tiberius_time t = to_tiberius_time t' \<longleftrightarrow> t = t'"
  "to_tiberius_datetime x = to_tiberius_datetime x' \<longleftrightarrow> x = x'"
  by (auto simp: to_tiberius_numeric_def to_tiberius_date_def to_tiberius_time_def to_tiberius_datetime_def
      intro: mssql_decimal.equality mssql_date.equality mssql_time.equality mssql_datetime.equality)

lemma tiberius_composites_inject:
  "to_tiberius_datetime2 v = to_tiberius_datetime2 w \<longleftrightarrow> v = w"
  "to_tiberius_datetimeoffset x = to_tiberius_datetimeoffset y \<longleftrightarrow> x = y"
  by (auto simp: to_tiberius_datetime2_def to_tiberius_datetimeoffset_def tiberius_values_inject
      intro: mssql_datetime2.equality mssql_datetimeoffset.equality)

lemma column_data_inject:
  "mssql_cell_to_tiberius_owned a = mssql_cell_to_tiberius_owned b \<longleftrightarrow> a = b"
proof -
  have "inj to_tiberius_numeric" "inj to_tiberius_date" "inj to_tiberius_time" "inj to_tiberius_datetime"
    "inj to_tiberius_datetime2" "inj to_tiberius_datetimeoffset"
    by (simp_all add: inj_def tiberius_values_inject tiberius_composites_inject)
  then show ?thesis
    by (cases a; cases b) (simp_all add: option.inj_map inj_eq [OF option.inj_map])
qed

lemma collect_map: "fold (\<lambda>x ys. ys @ [f x]) xs ys = ys @ map f xs"
  by (induction xs arbitrary: ys) simp_all

lemma tiberius_row_map:
  "tiberius_row_owned db view row = map_ok (map mssql_cell_to_tiberius_owned) (mssql_row db view row)"
  by (cases "mssql_row db view row") (simp_all add: tiberius_row_owned_def collect_map)

text \<open>C11: the row sent to the driver stands for exactly one row of cells. It has
  one entry per mapping, in mapping order, each entry is the cell the view converts there, and
  two cells give the same entry only when they are equal.\<close>

theorem token_row_faithful:
  "inj mssql_cell_to_tiberius_owned
   \<and> (case tiberius_row_owned db view row of
        Ok entries \<Rightarrow> length entries = length (view_mappings view)
          \<and> (\<exists>cells. mssql_row db view row = Ok cells \<and> entries = map mssql_cell_to_tiberius_owned cells)
      | Err e \<Rightarrow> mssql_row db view row = Err e)"
proof
  show "inj mssql_cell_to_tiberius_owned" by (simp add: inj_def column_data_inject)
  have "length cells = length (view_mappings view)" if "mssql_row db view row = Ok cells" for cells
    using that by (auto simp: mssql_row_def for_each_collect result_simps try_map_Inr)
  then show "case tiberius_row_owned db view row of
        Ok entries \<Rightarrow> length entries = length (view_mappings view)
          \<and> (\<exists>cells. mssql_row db view row = Ok cells \<and> entries = map mssql_cell_to_tiberius_owned cells)
      | Err e \<Rightarrow> mssql_row db view row = Err e"
    by (cases "mssql_row db view row") (auto simp: tiberius_row_map)
qed

end
