(* ===== verification/TargetColumns.thy ===== *)
theory TargetColumns
  imports Binding
begin

text \<open>
  Validation of the target table (\<^verbatim>\<open>src/write/writer.rs\<close>): the columns the driver reports are
  compared with the mappings, and for a direct backend with the direct encoder plan.
\<close>

subsection \<open>What the driver reports\<close>

text \<open>The column types and type descriptions of the tiberius crate that the writer tells apart;
  any other is an \<^verbatim>\<open>Other\<close>.\<close>

datatype bulk_column_type =
    TyBit | TyBitn | TyInt1 | TyInt2 | TyInt4 | TyInt8 | TyFloat4 | TyFloat8 | TyDecimaln | TyNVarchar
  | TyBigVarBin | TyBigBinary | TyDaten | TyTimen | TyDatetime | TyDatetimen | TyDatetime2
  | TyDatetimeOffsetn | TyOther nat

datatype var_len_type = VarDecimaln | VarNumericn | VarOther nat

datatype bulk_type_info = VarLenSizedPrecision var_len_type u8 u8 | TypeInfoOther nat

record bulk_load_column =
  bulk_ordinal :: usize
  bulk_name :: rstr
  bulk_nullable :: bool
  bulk_column_ty :: bulk_column_type
  bulk_info :: bulk_type_info

definition decimal_precision_scale :: "bulk_load_column \<Rightarrow> (u8 \<times> u8) option" where
  "decimal_precision_scale column =
     (case bulk_info column of
        VarLenSizedPrecision VarDecimaln precision scale \<Rightarrow> Some (precision, scale)
      | VarLenSizedPrecision VarNumericn precision scale \<Rightarrow> Some (precision, scale)
      | _ \<Rightarrow> None)"

subsection \<open>Columns against mappings\<close>

definition bulk_target_column_diagnostic :: "schema_mapping \<Rightarrow> diagnostic" where
  "bulk_target_column_diagnostic m = with_field (diagnostic_error SchemaMismatch) (mapping_field_ref m)"

definition validate_bulk_target_column ::
    "usize \<Rightarrow> bulk_load_column \<Rightarrow> schema_mapping \<Rightarrow> diagnostic_set \<Rightarrow> diagnostic_set" where
  "validate_bulk_target_column position column m diagnostics =
     (let diagnostics = (if bulk_ordinal column \<noteq> position
            then diagnostics_push diagnostics (bulk_target_column_diagnostic m) else diagnostics);
          diagnostics = (if bulk_name column \<noteq> identifier_as_str (column_name (mapping_mssql m))
            then diagnostics_push diagnostics (bulk_target_column_diagnostic m) else diagnostics)
      in if bulk_nullable column \<noteq> column_nullable (mapping_mssql m)
         then diagnostics_push diagnostics (bulk_target_column_diagnostic m) else diagnostics)"

definition validate_bulk_target_columns ::
    "bulk_load_column list \<Rightarrow> schema_mapping list \<Rightarrow> error + unit" where
  "validate_bulk_target_columns columns mappings =
     (let diagnostics = (if length columns \<noteq> length mappings
            then diagnostics_push [] (diagnostic_error SchemaMismatch) else []);
          diagnostics = fold (\<lambda>(position, column, m). validate_bulk_target_column position column m)
            (List.enumerate 0 (zip columns mappings)) diagnostics
      in if has_errors diagnostics then Err (ValueConversion diagnostics) else Ok ())"

subsection \<open>Columns against the direct plan\<close>

definition expected_direct_bulk_column_type :: "direct_column_plan \<Rightarrow> bulk_column_type option" where
  "expected_direct_bulk_column_type column =
     (case plan_encoding column of
        EncPrimitive BooleanToBit \<Rightarrow> if plan_nullable column then Some TyBitn else Some TyBit
      | EncPrimitive UInt8ToTinyInt \<Rightarrow> Some TyInt1
      | EncPrimitive Int8ToSmallInt \<Rightarrow> Some TyInt2
      | EncPrimitive Int16ToSmallInt \<Rightarrow> Some TyInt2
      | EncPrimitive Int32ToInt \<Rightarrow> Some TyInt4
      | EncPrimitive UInt16ToInt \<Rightarrow> Some TyInt4
      | EncPrimitive Int64ToBigInt \<Rightarrow> Some TyInt8
      | EncPrimitive UInt32ToBigInt \<Rightarrow> Some TyInt8
      | EncPrimitive UInt64ToCheckedBigInt \<Rightarrow> Some TyInt8
      | EncPrimitive Float16ToReal \<Rightarrow> Some TyFloat4
      | EncPrimitive Float32ToReal \<Rightarrow> Some TyFloat4
      | EncPrimitive Float64ToFloat \<Rightarrow> Some TyFloat8
      | EncUInt64Decimal20_0 \<Rightarrow> Some TyDecimaln
      | EncDecimal _ \<Rightarrow> Some TyDecimaln
      | EncVariableWidth (StringToNVarChar _) \<Rightarrow> Some TyNVarchar
      | EncVariableWidth (BytesToVarBinary _) \<Rightarrow> Some TyBigVarBin
      | EncFixedSizeBinary (FixedSizeBinaryToBinary _) \<Rightarrow> Some TyBigBinary
      | EncTemporal Date32ToDate \<Rightarrow> Some TyDaten
      | EncTemporal Date64ToDateTime2 \<Rightarrow> Some TyDatetime2
      | EncTemporal TimestampSecondToDateTime2 \<Rightarrow> Some TyDatetime2
      | EncTemporal TimestampMillisecondToDateTime2 \<Rightarrow> Some TyDatetime2
      | EncTemporal TimestampMicrosecondToDateTime2 \<Rightarrow> Some TyDatetime2
      | EncTemporal TimestampNanosecondToDateTime2 \<Rightarrow> Some TyDatetime2
      | EncTemporal TimestampSecondTzToDateTime2 \<Rightarrow> Some TyDatetime2
      | EncTemporal TimestampMillisecondTzToDateTime2 \<Rightarrow> Some TyDatetime2
      | EncTemporal TimestampMicrosecondTzToDateTime2 \<Rightarrow> Some TyDatetime2
      | EncTemporal TimestampNanosecondTzToDateTime2 \<Rightarrow> Some TyDatetime2
      | EncTemporal TimestampSecondToDateTime \<Rightarrow> Some TyDatetimen
      | EncTemporal TimestampMillisecondToDateTime \<Rightarrow> Some TyDatetimen
      | EncTemporal TimestampMicrosecondToDateTime \<Rightarrow> Some TyDatetimen
      | EncTemporal TimestampNanosecondToDateTime \<Rightarrow> Some TyDatetimen
      | EncTemporal TimestampSecondTzToDateTime \<Rightarrow> Some TyDatetimen
      | EncTemporal TimestampMillisecondTzToDateTime \<Rightarrow> Some TyDatetimen
      | EncTemporal TimestampMicrosecondTzToDateTime \<Rightarrow> Some TyDatetimen
      | EncTemporal TimestampNanosecondTzToDateTime \<Rightarrow> Some TyDatetimen
      | EncTemporal Time32SecondToTime \<Rightarrow> Some TyTimen
      | EncTemporal Time32MillisecondToTime \<Rightarrow> Some TyTimen
      | EncTemporal Time64MicrosecondToTime \<Rightarrow> Some TyTimen
      | EncTemporal Time64NanosecondToTime \<Rightarrow> Some TyTimen
      | EncTemporal TimestampSecondTzToDateTimeOffset \<Rightarrow> Some TyDatetimeOffsetn
      | EncTemporal TimestampMillisecondTzToDateTimeOffset \<Rightarrow> Some TyDatetimeOffsetn
      | EncTemporal TimestampMicrosecondTzToDateTimeOffset \<Rightarrow> Some TyDatetimeOffsetn
      | EncTemporal TimestampNanosecondTzToDateTimeOffset \<Rightarrow> Some TyDatetimeOffsetn)"

definition expected_direct_decimal_precision_scale :: "direct_column_plan \<Rightarrow> (u8 \<times> u8) option" where
  "expected_direct_decimal_precision_scale column =
     (case plan_encoding column of
        EncUInt64Decimal20_0 \<Rightarrow> Some (20, 0)
      | EncDecimal c \<Rightarrow> Some (target_precision c, target_scale c)
      | _ \<Rightarrow> None)"

definition plan_column_diagnostic :: "direct_column_plan \<Rightarrow> diagnostic_code \<Rightarrow> diagnostic" where
  "plan_column_diagnostic column code = with_field (diagnostic_error code)
     \<lparr>ref_index = plan_source_index column, ref_name = plan_source_name column\<rparr>"

definition validate_direct_bulk_target_column_type ::
    "bulk_load_column \<Rightarrow> direct_column_plan \<Rightarrow> diagnostic_set \<Rightarrow> diagnostic_set" where
  "validate_direct_bulk_target_column_type column plan_column diagnostics =
     (case expected_direct_bulk_column_type plan_column of
        None \<Rightarrow>
          diagnostics_push diagnostics (plan_column_diagnostic plan_column DirectEncodingUnsupportedMapping)
      | Some expected \<Rightarrow>
          (let actual = bulk_column_ty column;
               diagnostics = (if actual \<noteq> expected \<and> \<not> (actual = TyDatetime \<and> expected = TyDatetimen)
                 then diagnostics_push diagnostics (plan_column_diagnostic plan_column SchemaMismatch)
                 else diagnostics)
           in case expected_direct_decimal_precision_scale plan_column of
                None \<Rightarrow> diagnostics
              | Some (expected_precision, expected_scale) \<Rightarrow>
                  (case decimal_precision_scale column of
                     Some (actual_precision, actual_scale) \<Rightarrow>
                       if actual_precision = expected_precision \<and> actual_scale = expected_scale
                       then diagnostics
                       else diagnostics_push diagnostics (plan_column_diagnostic plan_column SchemaMismatch)
                   | None \<Rightarrow>
                       diagnostics_push diagnostics (plan_column_diagnostic plan_column SchemaMismatch))))"

definition validate_direct_bulk_target_column_types ::
    "bulk_load_column list \<Rightarrow> direct_encoder_plan \<Rightarrow> error + unit" where
  "validate_direct_bulk_target_column_types columns plan =
     (let diagnostics = (if length columns \<noteq> length plan
            then diagnostics_push [] (diagnostic_error SchemaMismatch) else []);
          diagnostics = fold (\<lambda>(column, plan_column). validate_direct_bulk_target_column_type column plan_column)
            (zip columns plan) diagnostics
      in if has_errors diagnostics then Err (ValueConversion diagnostics) else Ok ())"

subsection \<open>What validation means\<close>

text \<open>The wire type a SQL Server type has, the contract behind the cases of the encodings.\<close>

fun target_wire_type :: "mssql_type \<Rightarrow> bool \<Rightarrow> bulk_column_type" where
  "target_wire_type MsBit nullable = (if nullable then TyBitn else TyBit)"
| "target_wire_type MsTinyInt _ = TyInt1"
| "target_wire_type MsSmallInt _ = TyInt2"
| "target_wire_type MsInt _ = TyInt4"
| "target_wire_type MsBigInt _ = TyInt8"
| "target_wire_type MsReal _ = TyFloat4"
| "target_wire_type (MsFloat _) _ = TyFloat8"
| "target_wire_type (MsNVarChar _) _ = TyNVarchar"
| "target_wire_type (MsVarBinary _) _ = TyBigVarBin"
| "target_wire_type (MsBinary _) _ = TyBigBinary"
| "target_wire_type (MsDecimal _ _) _ = TyDecimaln"
| "target_wire_type MsDate _ = TyDaten"
| "target_wire_type (MsTime _) _ = TyTimen"
| "target_wire_type MsDateTime _ = TyDatetimen"
| "target_wire_type (MsDateTime2 _) _ = TyDatetime2"
| "target_wire_type (MsDateTimeOffset _) _ = TyDatetimeOffsetn"

definition target_decimal :: "mssql_type \<Rightarrow> (u8 \<times> u8) option" where
  "target_decimal ty = (case ty of MsDecimal p s \<Rightarrow> Some (p, s) | _ \<Rightarrow> None)"

text \<open>A target column that takes what a direct encoder writes for a type.\<close>

definition takes_type :: "mssql_type \<Rightarrow> bool \<Rightarrow> bulk_load_column \<Rightarrow> bool" where
  "takes_type ty nullable column \<longleftrightarrow>
     (bulk_column_ty column = target_wire_type ty nullable \<or> bulk_column_ty column = TyDatetime \<and> ty = MsDateTime)
     \<and> (target_decimal ty = None \<or> decimal_precision_scale column = target_decimal ty)"

definition fits_position :: "usize \<Rightarrow> bulk_load_column \<Rightarrow> schema_mapping \<Rightarrow> bool" where
  "fits_position position column m \<longleftrightarrow>
     bulk_ordinal column = position \<and> bulk_name column = identifier_as_str (column_name (mapping_mssql m))
     \<and> bulk_nullable column = column_nullable (mapping_mssql m)"

definition mismatch :: "diagnostic \<Rightarrow> bool" where
  "mismatch d \<longleftrightarrow> diag_code d = SchemaMismatch \<and> is_error d"

definition only_mismatches :: "error + unit \<Rightarrow> bool" where
  "only_mismatches r \<longleftrightarrow>
     (case r of
        Ok _ \<Rightarrow> True
      | Err (ValueConversion ds) \<Rightarrow> ds \<noteq> [] \<and> list_all mismatch ds
      | Err _ \<Rightarrow> False)"

lemma fold_faults:
  assumes "\<And>x ds. g x ds = ds @ f x"
  shows "fold g xs ds = ds @ concat (map f xs)"
  by (induction xs arbitrary: ds) (simp_all add: assms)

lemma faults_outcome:
  assumes "\<forall>d \<in> set ds. mismatch d"
  defines "r \<equiv> (if has_errors ds then Err (ValueConversion ds) else Ok ())"
  shows "r = Ok () \<longleftrightarrow> ds = []" and "only_mismatches r"
  using assms by (cases ds; auto simp: has_errors_def only_mismatches_def list_all_iff mismatch_def)+

lemma mismatch_diagnostics [simp]:
  "mismatch (diagnostic_error SchemaMismatch)" "mismatch (bulk_target_column_diagnostic m)"
  "mismatch (plan_column_diagnostic c SchemaMismatch)"
  by (simp_all add: mismatch_def bulk_target_column_diagnostic_def plan_column_diagnostic_def diagnostic_error_def
      diagnostic_new_def with_field_def is_error_def)

definition position_faults :: "usize \<Rightarrow> bulk_load_column \<Rightarrow> schema_mapping \<Rightarrow> diagnostic list" where
  "position_faults position column m = validate_bulk_target_column position column m []"

lemmas position_checks = position_faults_def validate_bulk_target_column_def diagnostics_push_def Let_def

lemma position_faults_append:
  "validate_bulk_target_column position column m ds = ds @ position_faults position column m"
  by (simp add: position_checks)

lemma position_faults_Nil: "position_faults position column m = [] \<longleftrightarrow> fits_position position column m"
  by (auto simp: position_checks fits_position_def)

lemma position_faults_mismatch: "d \<in> set (position_faults position column m) \<Longrightarrow> mismatch d"
  by (auto simp: position_checks split: if_splits)

lemma bulk_target_validation:
  "validate_bulk_target_columns columns mappings = Ok () \<longleftrightarrow>
     length columns = length mappings \<and> (\<forall>i < length mappings. fits_position i (columns ! i) (mappings ! i))"
  "only_mismatches (validate_bulk_target_columns columns mappings)"
proof -
  let ?count = "if length columns \<noteq> length mappings then [diagnostic_error SchemaMismatch] else []"
  let ?ds = "?count @ concat (map (\<lambda>(position, column, m). position_faults position column m)
      (List.enumerate 0 (zip columns mappings)))"
  have "fold (\<lambda>(position, column, m). validate_bulk_target_column position column m)
        (List.enumerate 0 (zip columns mappings)) ?count = ?ds"
    by (rule fold_faults) (auto simp: position_faults_append)
  then have form: "validate_bulk_target_columns columns mappings
      = (if has_errors ?ds then Err (ValueConversion ?ds) else Ok ())"
    by (simp only: validate_bulk_target_columns_def Let_def diagnostics_push_def append_Nil)
  have codes: "\<forall>d \<in> set ?ds. mismatch d"
    by (auto dest: position_faults_mismatch)
  show "only_mismatches (validate_bulk_target_columns columns mappings)"
    unfolding form by (rule faults_outcome(2) [OF codes])
  have "(\<forall>x \<in> set (List.enumerate 0 (zip columns mappings)). case x of (p, c, m) \<Rightarrow> fits_position p c m)
      \<longleftrightarrow> (\<forall>i < length (zip columns mappings). fits_position i (columns ! i) (mappings ! i))"
    by (auto simp: all_set_conv_all_nth nth_enumerate_eq)
  then show "validate_bulk_target_columns columns mappings = Ok () \<longleftrightarrow>
     length columns = length mappings \<and> (\<forall>i < length mappings. fits_position i (columns ! i) (mappings ! i))"
    unfolding form faults_outcome(1) [OF codes]
    by (auto simp: position_faults_Nil case_prod_unfold)
qed

text \<open>The same for the types, column by column of the plan.\<close>

lemma expected_type_fits:
  assumes "encoding_fits enc (source_type m) (target_type m)"
  shows "expected_direct_bulk_column_type (column_plan_from_mapping m enc)
      = Some (target_wire_type (target_type m) (column_nullable (mapping_mssql m)))"
  using assms
  by (cases enc rule: direct_column_encoding.exhaust)
    (auto simp: expected_direct_bulk_column_type_def column_plan_from_mapping_def decimal_fits_def
      datetime2_target_def
      split: primitive_conversion.splits temporal_conversion.splits variable_width_conversion.splits
        fixed_size_binary_conversion.splits mssql_type.splits)

lemma expected_decimal_fits:
  assumes "encoding_fits enc (source_type m) (target_type m)"
  shows "expected_direct_decimal_precision_scale (column_plan_from_mapping m enc) = target_decimal (target_type m)"
proof (cases enc)
  case (EncPrimitive c)
  with assms show ?thesis
    by (cases c) (simp_all add: expected_direct_decimal_precision_scale_def column_plan_from_mapping_def target_decimal_def)
next
  case EncUInt64Decimal20_0
  with assms show ?thesis
    by (simp add: expected_direct_decimal_precision_scale_def column_plan_from_mapping_def target_decimal_def)
next
  case (EncDecimal c)
  with assms obtain p s where ty: "target_type m = MsDecimal p s" and fit: "p = target_precision c"
    "uint (target_scale c) = sint s"
    by (auto simp: decimal_fits_def split: mssql_type.splits)
  have "uint s = take_bit 8 (sint s)" using uint_sint [of s] by simp
  also have "\<dots> = uint (target_scale c)" using uint_lt2p [of "target_scale c"] by (simp add: fit(2) [symmetric] take_bit_int_eq_self)
  finally have "target_scale c = s" by (simp add: word_uint_eq_iff)
  with ty fit EncDecimal show ?thesis
    by (simp add: expected_direct_decimal_precision_scale_def column_plan_from_mapping_def target_decimal_def)
next
  case (EncVariableWidth c)
  with assms show ?thesis
    by (cases c) (simp_all add: expected_direct_decimal_precision_scale_def column_plan_from_mapping_def target_decimal_def)
next
  case (EncFixedSizeBinary c)
  with assms show ?thesis
    by (cases c) (simp add: expected_direct_decimal_precision_scale_def column_plan_from_mapping_def target_decimal_def)
next
  case (EncTemporal c)
  with assms show ?thesis
    by (cases c) (auto simp: expected_direct_decimal_precision_scale_def column_plan_from_mapping_def
        target_decimal_def datetime2_target_def split: mssql_type.splits)
qed

definition type_faults :: "bulk_load_column \<Rightarrow> direct_column_plan \<Rightarrow> diagnostic list" where
  "type_faults column plan_column = validate_direct_bulk_target_column_type column plan_column []"

lemmas type_checks = type_faults_def validate_direct_bulk_target_column_type_def diagnostics_push_def Let_def

lemma type_faults_append:
  "validate_direct_bulk_target_column_type column plan_column ds = ds @ type_faults column plan_column"
  by (auto simp: type_checks split: option.split)

text \<open>For a planned column the expected type exists and is the wire type of the target.\<close>

lemma type_faults_planned:
  assumes "encoding_fits enc (source_type m) (target_type m)"
  shows "type_faults column (column_plan_from_mapping m enc) = []
      \<longleftrightarrow> takes_type (target_type m) (column_nullable (mapping_mssql m)) column"
    and "\<forall>d \<in> set (type_faults column (column_plan_from_mapping m enc)). mismatch d"
proof -
  have datetimen: "target_wire_type ty nullable = TyDatetimen \<longleftrightarrow> ty = MsDateTime" for ty nullable
    by (cases ty) simp_all
  show "type_faults column (column_plan_from_mapping m enc) = []
      \<longleftrightarrow> takes_type (target_type m) (column_nullable (mapping_mssql m)) column"
    using expected_type_fits [OF assms] expected_decimal_fits [OF assms] datetimen
    by (auto simp: type_checks takes_type_def split: option.splits)
  show "\<forall>d \<in> set (type_faults column (column_plan_from_mapping m enc)). mismatch d"
    using expected_type_fits [OF assms] by (auto simp: type_checks split: option.splits if_splits)
qed

lemma direct_target_validation:
  assumes encoder: "encoder_new_with_context mappings rt = Ok encoder"
  shows "validate_direct_bulk_target_column_types columns (encoder_plan encoder) = Ok () \<longleftrightarrow>
      length columns = length mappings
      \<and> (\<forall>i < length mappings. takes_type (target_type (mappings ! i))
           (column_nullable (mapping_mssql (mappings ! i))) (columns ! i))"
    and "only_mismatches (validate_direct_bulk_target_column_types columns (encoder_plan encoder))"
proof -
  note enc = encoder_new_Ok [OF encoder]
  let ?plan = "encoder_plan encoder"
  let ?count = "if length columns \<noteq> length ?plan then [diagnostic_error SchemaMismatch] else []"
  let ?ds = "?count @ concat (map (\<lambda>(column, plan_column). type_faults column plan_column) (zip columns ?plan))"
  have "fold (\<lambda>(column, plan_column). validate_direct_bulk_target_column_type column plan_column)
      (zip columns ?plan) ?count = ?ds"
    by (rule fold_faults) (auto simp: type_faults_append)
  then have form: "validate_direct_bulk_target_column_types columns ?plan
      = (if has_errors ?ds then Err (ValueConversion ?ds) else Ok ())"
    by (simp only: validate_direct_bulk_target_column_types_def Let_def diagnostics_push_def append_Nil)
  have planned: "\<forall>d \<in> set (type_faults column (?plan ! i)). mismatch d"
      "type_faults column (?plan ! i) = []
        \<longleftrightarrow> takes_type (target_type (mappings ! i)) (column_nullable (mapping_mssql (mappings ! i))) column"
    if "i < length mappings" for i column
    using enc(4) [OF that] type_faults_planned by metis+
  have codes: "\<forall>d \<in> set ?ds. mismatch d"
    using planned(1) enc(3) by (auto simp: set_zip)
  show "only_mismatches (validate_direct_bulk_target_column_types columns ?plan)"
    unfolding form by (rule faults_outcome(2) [OF codes])
  have "(\<forall>x \<in> set (zip columns ?plan). case x of (c, p) \<Rightarrow> type_faults c p = [])
      \<longleftrightarrow> (\<forall>i < min (length columns) (length mappings). type_faults (columns ! i) (?plan ! i) = [])"
    using enc(3) by (auto simp: all_set_conv_all_nth)
  then show "validate_direct_bulk_target_column_types columns ?plan = Ok () \<longleftrightarrow>
      length columns = length mappings
      \<and> (\<forall>i < length mappings. takes_type (target_type (mappings ! i))
           (column_nullable (mapping_mssql (mappings ! i))) (columns ! i))"
    unfolding form faults_outcome(1) [OF codes] using planned(2) enc(3) by (auto simp: case_prod_unfold)
qed

text \<open>C9: the table a writer accepts is the planned one. For the encoder of
  any mappings, the target columns pass exactly when there is one per mapping, in the planned
  order, with the planned name and nullability, and for a direct backend exactly when their wire
  types, decimal precisions and scales are those of the planned SQL Server types (a target
  \<^verbatim>\<open>datetime\<close> may also be reported by its non-nullable type); a refusal lists only schema
  mismatches, and at least one.\<close>

theorem target_validation_exact:
  assumes "encoder_new_with_context mappings rt = Ok encoder"
  shows "(validate_bulk_target_columns columns mappings = Ok () \<longleftrightarrow>
       length columns = length mappings
       \<and> (\<forall>i < length mappings.
            bulk_ordinal (columns ! i) = i
            \<and> bulk_name (columns ! i) = identifier_as_str (column_name (mapping_mssql (mappings ! i)))
            \<and> bulk_nullable (columns ! i) = column_nullable (mapping_mssql (mappings ! i))))
     \<and> (validate_direct_bulk_target_column_types columns (encoder_plan encoder) = Ok () \<longleftrightarrow>
       length columns = length mappings
       \<and> (\<forall>i < length mappings. takes_type (target_type (mappings ! i))
            (column_nullable (mapping_mssql (mappings ! i))) (columns ! i)))
     \<and> only_mismatches (validate_bulk_target_columns columns mappings)
     \<and> only_mismatches (validate_direct_bulk_target_column_types columns (encoder_plan encoder))"
  using bulk_target_validation direct_target_validation [OF assms] by (simp add: fits_position_def)

definition example_target :: "bulk_column_type \<Rightarrow> bulk_load_column" where
  "example_target ty =
     \<lparr>bulk_ordinal = 0, bulk_name = identifier_as_str (column_name (mapping_mssql (example_mapping DtInt32 MsInt))),
      bulk_nullable = column_nullable (mapping_mssql (example_mapping DtInt32 MsInt)),
      bulk_column_ty = ty, bulk_info = TypeInfoOther 0\<rparr>"

theorem target_validation_exact_witness:
  "\<exists>encoder. encoder_new_with_context [example_mapping DtInt32 MsInt]
        (rm_context (example_runtime DtInt32 MsInt RejectNon100ns)) = Ok encoder
     \<and> validate_bulk_target_columns [example_target TyInt4] [example_mapping DtInt32 MsInt] = Ok ()
     \<and> validate_direct_bulk_target_column_types [example_target TyInt4] (encoder_plan encoder) = Ok ()
     \<and> validate_direct_bulk_target_column_types [example_target TyInt8] (encoder_plan encoder) \<noteq> Ok ()
     \<and> validate_bulk_target_columns [] [example_mapping DtInt32 MsInt] \<noteq> Ok ()"
proof -
  let ?rt = "rm_context (example_runtime DtInt32 MsInt RejectNon100ns)"
  obtain encoder where encoder: "encoder_new_with_context [example_mapping DtInt32 MsInt] ?rt = Ok encoder"
    by (simp add: encoder_new_with_context_def direct_encoder_plan_new_def
        current_direct_support_def primitive_classify_def has_errors_def)
  note exact = target_validation_exact [OF encoder]
  show ?thesis
    using encoder exact [of "[example_target TyInt4]"] exact [of "[example_target TyInt8]"] exact [of "[]"]
    by (intro exI [of _ encoder]) (simp add: example_target_def takes_type_def target_decimal_def)
qed

end
