(* ===== verification/Writer.thy ===== *)
theory Writer
  imports DirectRows TokenRows TargetColumns
begin

text \<open>
  The bulk writer (\<^verbatim>\<open>BulkWriter\<close> of \<^verbatim>\<open>src/write/writer.rs\<close>): its state, how it is opened on a
  target table, the two ways of writing a batch, and how it is finished.

  The client and the bulk-load request of the tiberius crate are a parameter: a record of the calls
  the writer makes, over a state of the connection. \<^verbatim>\<open>send_raw_rows_with\<close> takes a callback that
  is run at most once; here it is the call that hands out the buffer and the call that takes
  the result of the callback. Tracing and profiling are left out: they pass every result through.
  A write is a run, since encoding a chunk can panic.
\<close>

subsection \<open>Options and statistics\<close>

record write_options =
  option_backend :: write_backend
  option_schema_check :: schema_check

record write_stats =
  rows_written :: u64
  batches_written :: u64

definition write_options_default :: write_options where
  "write_options_default = \<lparr>option_backend = BackendAuto, option_schema_check = StrictCheck\<rparr>"

definition write_stats_default :: write_stats where
  "write_stats_default = \<lparr>rows_written = 0, batches_written = 0\<rparr>"

definition saturating_add :: "u64 \<Rightarrow> u64 \<Rightarrow> u64" where
  "saturating_add a b = (if unat a + unat b < 2 ^ 64 then a + b else - 1)"

definition usize_to_u64_saturating :: "usize \<Rightarrow> u64" where
  "usize_to_u64_saturating value = (if value < 2 ^ 64 then of_nat value else - 1)"

subsection \<open>The state of a writer\<close>

record writer_state =
  writer_backend :: write_backend
  writer_direct_encoder :: "direct_encoder option"
  writer_schema_check :: schema_check
  writer_context :: runtime_context
  writer_mappings :: "schema_mapping list"
  writer_stats :: write_stats

fun resolve_backend :: "write_backend \<Rightarrow> error + write_backend" where
  "resolve_backend BackendAuto = Ok DirectRawBulk"
| "resolve_backend DirectRawBulk = Ok DirectRawBulk"
| "resolve_backend BaselineTokenRow = Ok BaselineTokenRow"
| "resolve_backend DirectFramedBulk = Ok DirectFramedBulk"

definition execution_unavailable :: "write_backend \<Rightarrow> error" where
  "execution_unavailable backend =
     BackendUnavailable backend (lit ''bulk writer execution is not implemented yet'')"

definition encoder_unavailable :: "write_backend \<Rightarrow> error" where
  "encoder_unavailable backend =
     BackendUnavailable backend (lit ''direct bulk encoder is not available for this writer'')"

definition is_direct_backend :: "write_backend \<Rightarrow> bool" where
  "is_direct_backend backend \<longleftrightarrow> backend = DirectFramedBulk \<or> backend = DirectRawBulk"

definition writer_state_new ::
    "write_backend \<Rightarrow> schema_check \<Rightarrow> planned_schema \<Rightarrow> error + writer_state" where
  "writer_state_new requested_backend schema_check planned =
     and_then (resolve_backend requested_backend) (\<lambda>backend.
       let rt = \<lparr>context_profile = planned_profile planned, context_options = planned_options planned\<rparr>;
           mappings = planned_mappings planned in
       and_then
         (if is_direct_backend backend then map_ok Some (encoder_new_with_context mappings rt) else Ok None)
         (\<lambda>direct_encoder.
           Ok \<lparr>writer_backend = backend, writer_direct_encoder = direct_encoder,
               writer_schema_check = schema_check, writer_context = rt, writer_mappings = mappings,
               writer_stats = write_stats_default\<rparr>))"

definition record_accepted_batch :: "u64 \<Rightarrow> writer_state \<Rightarrow> writer_state" where
  "record_accepted_batch rows state =
     state\<lparr>writer_stats :=
       \<lparr>rows_written = saturating_add (rows_written (writer_stats state)) rows,
        batches_written = saturating_add (batches_written (writer_stats state)) 1\<rparr>\<rparr>"

subsection \<open>Phases of errors\<close>

fun write_phase_for_batch_error :: "error \<Rightarrow> write_phase" where
  "write_phase_for_batch_error (WritePhaseContext phase _) = phase"
| "write_phase_for_batch_error (ValueConversion diagnostics) =
     (if list_all (\<lambda>d. diag_code d = SchemaMismatch) diagnostics then BatchSchemaValidation
      else PhaseValueConversion)"
| "write_phase_for_batch_error (DirectEncoding _) = PhaseDirectEncoding"
| "write_phase_for_batch_error (BackendUnavailable _ _) = PhaseDirectEncoding"
| "write_phase_for_batch_error (Tiberius _) = PacketWrite"
| "write_phase_for_batch_error _ = BatchWrite"

subsection \<open>The driver\<close>

record 's bulk_driver =
  drv_bulk_insert_columns :: "rstr \<Rightarrow> 's \<Rightarrow> (external_error + bulk_load_column list) \<times> 's"
  drv_bulk_insert_with_columns :: "rstr \<Rightarrow> bulk_load_column list \<Rightarrow> 's \<Rightarrow> (external_error + unit) \<times> 's"
  drv_enable_direct_packet_writes :: "'s \<Rightarrow> 's"
  drv_send :: "token_row \<Rightarrow> 's \<Rightarrow> (external_error + unit) \<times> 's"
  drv_send_raw_rows_payload_checked :: "bytes \<Rightarrow> usize list \<Rightarrow> 's \<Rightarrow> (external_error + unit) \<times> 's"
  drv_raw_rows_buffer :: "'s \<Rightarrow> (external_error + bytes) \<times> 's"
  drv_raw_rows_appended :: "external_error + bytes \<times> usize list \<Rightarrow> 's \<Rightarrow> (external_error + unit) \<times> 's"
  drv_finalize :: "'s \<Rightarrow> (external_error + unit) \<times> 's"
  drv_bulk_input_error :: external_error

definition tiberius_call :: "(external_error + 'a) \<times> 's \<Rightarrow> (error + 'a) \<times> 's" where
  "tiberius_call = (\<lambda>(r, s). (map_err Tiberius r, s))"

text \<open>A loop of calls that may fail: it stops at the first error, a panic stops everything.\<close>

primrec call_each ::
    "('a \<Rightarrow> 's \<Rightarrow> ((error + unit) \<times> 's) option) \<Rightarrow> 'a list \<Rightarrow> 's \<Rightarrow> ((error + unit) \<times> 's) option" where
  "call_each call [] s = Some (Ok (), s)"
| "call_each call (x # xs) s =
     (case call x s of
        None \<Rightarrow> None
      | Some (Err e, s) \<Rightarrow> Some (Err e, s)
      | Some (Ok _, s) \<Rightarrow> call_each call xs s)"

subsection \<open>Opening a writer\<close>

definition bulk_insert_table_sql :: "table_name \<Rightarrow> rstr" where
  "bulk_insert_table_sql table = table_quoted_sql table"

text \<open>A \<^verbatim>\<open>BulkWriter\<close> is its state and its request; the request is the state of the driver.\<close>

definition bulk_writer_new ::
    "'s bulk_driver \<Rightarrow> table_name \<Rightarrow> planned_schema \<Rightarrow> write_options \<Rightarrow> 's \<Rightarrow> (error + writer_state) \<times> 's" where
  "bulk_writer_new drv table planned options s =
     (case writer_state_new (option_backend options) (option_schema_check options) planned of
        Err e \<Rightarrow> (Err (with_write_phase e WriterInitialization), s)
      | Ok state \<Rightarrow>
          if writer_backend state = BackendAuto
          then (Err (with_write_phase (execution_unavailable (writer_backend state)) WriterInitialization), s)
          else
            (let table_sql = bulk_insert_table_sql table in
             case tiberius_call (drv_bulk_insert_columns drv table_sql s) of
               (Err e, s) \<Rightarrow> (Err (with_write_phase e TargetMetadataValidation), s)
             | (Ok columns, s) \<Rightarrow>
                 (case validate_bulk_target_columns columns (writer_mappings state) of
                    Err e \<Rightarrow> (Err (with_write_phase e TargetMetadataValidation), s)
                  | Ok _ \<Rightarrow>
                      (case (if is_direct_backend (writer_backend state)
                             then and_then (ok_or (encoder_unavailable (writer_backend state))
                                     (writer_direct_encoder state))
                                   (\<lambda>encoder. validate_direct_bulk_target_column_types columns (encoder_plan encoder))
                             else Ok ()) of
                         Err e \<Rightarrow> (Err (with_write_phase e TargetMetadataValidation), s)
                       | Ok _ \<Rightarrow>
                           (case tiberius_call (drv_bulk_insert_with_columns drv table_sql columns s) of
                              (Err e, s) \<Rightarrow> (Err (with_write_phase e WriterInitialization), s)
                            | (Ok _, s) \<Rightarrow>
                                (Ok state,
                                 if writer_backend state = DirectRawBulk
                                 then drv_enable_direct_packet_writes drv s else s))))))"

subsection \<open>Token rows\<close>

definition record_batch_view ::
    "record_batch \<Rightarrow> schema_mapping list \<Rightarrow> schema_check \<Rightarrow> runtime_context \<Rightarrow> error + record_batch_view" where
  "record_batch_view batch mappings schema_check rt =
     (case schema_check of StrictCheck \<Rightarrow> view_new_with_context batch mappings rt)"

definition validate_batch_rows :: "'tz timezone_db \<Rightarrow> record_batch_view \<Rightarrow> error + unit" where
  "validate_batch_rows db view =
     for_each (\<lambda>row_index _. and_then (mssql_row db view row_index) (\<lambda>_. Ok ())) [0..<view_row_count view] ()"

definition send_view_row ::
    "'s bulk_driver \<Rightarrow> 'tz timezone_db \<Rightarrow> record_batch_view \<Rightarrow> usize \<Rightarrow> 's \<Rightarrow> ((error + unit) \<times> 's) option" where
  "send_view_row drv db view row_index s =
     Some (case tiberius_row_owned db view row_index of
        Err e \<Rightarrow> (Err (with_write_phase e PhaseValueConversion), s)
      | Ok row \<Rightarrow>
          (case tiberius_call (drv_send drv row s) of
             (Err e, s) \<Rightarrow> (Err (with_write_phase e PacketWrite), s)
           | (Ok _, s) \<Rightarrow> (Ok (), s)))"

definition write_batch_to_sink ::
    "'s bulk_driver \<Rightarrow> 'tz timezone_db \<Rightarrow> record_batch \<Rightarrow> writer_state \<times> 's
      \<Rightarrow> ((error + write_stats) \<times> writer_state \<times> 's) option" where
  "write_batch_to_sink drv db batch = (\<lambda>(state, s).
     case record_batch_view batch (writer_mappings state) (writer_schema_check state) (writer_context state) of
       Err e \<Rightarrow> Some (Err (with_write_phase e BatchSchemaValidation), state, s)
     | Ok view \<Rightarrow>
         (case validate_batch_rows db view of
            Err e \<Rightarrow> Some (Err (with_write_phase e PhaseValueConversion), state, s)
          | Ok _ \<Rightarrow>
              (let rows_written = usize_to_u64_saturating (view_row_count view) in
               case call_each (send_view_row drv db view) [0..<view_row_count view] s of
                 None \<Rightarrow> None
               | Some (Err e, s) \<Rightarrow> Some (Err e, state, s)
               | Some (Ok _, s) \<Rightarrow>
                   (let state = record_accepted_batch rows_written state in
                    Some (Ok (writer_stats state), state, s)))))"

subsection \<open>Raw rows\<close>

definition DIRECT_RAW_MAX_PAYLOAD_BYTES :: usize where
  "DIRECT_RAW_MAX_PAYLOAD_BYTES = 8 * 1024 * 1024"

definition send_measured_raw_rows ::
    "'s bulk_driver \<Rightarrow> fast_path_flags \<Rightarrow> 'tz timezone_db \<Rightarrow> direct_encoder \<Rightarrow> record_batch
      \<Rightarrow> measured_direct_batch \<Rightarrow> measured_row_range \<Rightarrow> 's \<Rightarrow> ((error + unit) \<times> 's) option" where
  "send_measured_raw_rows drv flags db encoder batch measured r s =
     (case range_payload_len measured (range_start r) (range_len r) of
        Err e \<Rightarrow> Some (Err e, s)
      | Ok _ \<Rightarrow>
          if \<not> has_variable_width_column encoder
          then
            (case encode_measured_batch_range flags db encoder batch measured (range_start r) (range_len r) of
               None \<Rightarrow> None
             | Some (Err e) \<Rightarrow> Some (Err e, s)
             | Some (Ok payload) \<Rightarrow>
                 Some (tiberius_call (drv_send_raw_rows_payload_checked drv
                   (payload_bytes payload) (payload_row_token_offsets payload) s)))
          else
            (case drv_raw_rows_buffer drv s of
               (Err e, s) \<Rightarrow> Some (tiberius_call (Err e, s))
             | (Ok buf, s) \<Rightarrow>
                 (case encode_measured_batch_range_into db encoder batch measured (range_start r) (range_len r) buf of
                    Err e \<Rightarrow> (let (_, s) = drv_raw_rows_appended drv (Err (drv_bulk_input_error drv)) s in Some (Err e, s))
                  | Ok appended \<Rightarrow> Some (tiberius_call (drv_raw_rows_appended drv (Ok appended) s)))))"

definition write_direct_batch_to_sink ::
    "'s bulk_driver \<Rightarrow> fast_path_flags \<Rightarrow> 'tz timezone_db \<Rightarrow> record_batch \<Rightarrow> writer_state \<times> 's
      \<Rightarrow> ((error + write_stats) \<times> writer_state \<times> 's) option" where
  "write_direct_batch_to_sink drv flags db batch = (\<lambda>(state, s).
     case ok_or (encoder_unavailable (writer_backend state)) (writer_direct_encoder state) of
       Err e \<Rightarrow> Some (Err (with_write_phase e PhaseDirectEncoding), state, s)
     | Ok encoder \<Rightarrow>
         (case measure_batch db encoder batch of
            Err e \<Rightarrow> Some (Err (with_write_phase e (write_phase_for_batch_error e)), state, s)
          | Ok measured \<Rightarrow>
              (let rows_written = usize_to_u64_saturating (measured_row_count measured) in
               case row_ranges measured DIRECT_RAW_MAX_PAYLOAD_BYTES of
                 Err e \<Rightarrow> Some (Err (with_write_phase e PhaseDirectEncoding), state, s)
               | Ok ranges \<Rightarrow>
                   (case call_each (send_measured_raw_rows drv flags db encoder batch measured) ranges s of
                      None \<Rightarrow> None
                    | Some (Err e, s) \<Rightarrow> Some (Err (with_write_phase e (write_phase_for_batch_error e)), state, s)
                    | Some (Ok _, s) \<Rightarrow>
                        (let state = record_accepted_batch rows_written state in
                         Some (Ok (writer_stats state), state, s))))))"

subsection \<open>Writing and finishing\<close>

definition write_batch ::
    "'s bulk_driver \<Rightarrow> fast_path_flags \<Rightarrow> 'tz timezone_db \<Rightarrow> record_batch \<Rightarrow> writer_state \<times> 's
      \<Rightarrow> ((error + write_stats) \<times> writer_state \<times> 's) option" where
  "write_batch drv flags db batch w =
     (case writer_backend (fst w) of
        BaselineTokenRow \<Rightarrow> write_batch_to_sink drv db batch w
      | DirectFramedBulk \<Rightarrow> write_direct_batch_to_sink drv flags db batch w
      | DirectRawBulk \<Rightarrow> write_direct_batch_to_sink drv flags db batch w
      | BackendAuto \<Rightarrow> Some (Err (execution_unavailable BackendAuto), w))"

definition finish_writer :: "'s bulk_driver \<Rightarrow> writer_state \<times> 's \<Rightarrow> (error + write_stats) \<times> 's" where
  "finish_writer drv = (\<lambda>(state, s).
     let stats = writer_stats state in
     case tiberius_call (drv_finalize drv s) of
       (Err e, s) \<Rightarrow> (Err (with_write_phase e Finalize), s)
     | (Ok _, s) \<Rightarrow> (Ok stats, s))"

subsection \<open>Counting\<close>

definition saturated :: "nat \<Rightarrow> u64" where
  "saturated n = (if n < 2 ^ 64 then of_nat n else - 1)"

lemma unat_max_u64: "unat (- 1 :: u64) = 2 ^ 64 - 1"
  by (simp add: unsigned_minus_1_eq_mask mask_eq_exp_minus_1)

lemma unat_saturated: "unat (saturated n) = min n (2 ^ 64 - 1)"
  by (simp add: saturated_def unat_of_nat unat_max_u64 min_def)

lemma usize_to_u64_saturated: "usize_to_u64_saturating n = saturated n"
  by (simp add: usize_to_u64_saturating_def saturated_def)

lemma saturating_add_unat: "unat (saturating_add a b) = min (unat a + unat b) (2 ^ 64 - 1)"
  by (simp add: saturating_add_def unat_word_ariths unat_max_u64 min_def)

lemma saturating_add_saturated: "saturating_add (saturated m) (saturated n) = saturated (m + n)"
proof -
  have "unat (saturating_add (saturated m) (saturated n)) = unat (saturated (m + n))"
    by (auto simp: saturating_add_unat unat_saturated min_def)
  then show ?thesis by (simp only: unat_inject)
qed

lemma saturating_add_one: "saturating_add (saturated m) 1 = saturated (Suc m)"
proof -
  have "saturated 1 = 1" by (simp add: saturated_def)
  with saturating_add_saturated [of m 1] show ?thesis by (simp only: Suc_eq_plus1)
qed

definition counted :: "record_batch list \<Rightarrow> write_stats" where
  "counted batches =
     \<lparr>rows_written = saturated (sum_list (map batch_num_rows batches)),
      batches_written = saturated (length batches)\<rparr>"

lemma counted_Nil [simp]: "counted [] = write_stats_default"
  by (simp add: counted_def write_stats_default_def saturated_def)

lemma counted_snoc:
  "writer_stats state = counted batches \<Longrightarrow>
   writer_stats (record_accepted_batch (usize_to_u64_saturating (batch_num_rows batch)) state)
     = counted (batches @ [batch])"
  by (simp add: record_accepted_batch_def counted_def usize_to_u64_saturated saturating_add_saturated
      saturating_add_one)

subsection \<open>Loops of calls\<close>

text \<open>The steps of a loop that was not stopped.\<close>

primrec chain :: "('a \<Rightarrow> 's \<Rightarrow> 's \<Rightarrow> bool) \<Rightarrow> 'a list \<Rightarrow> 's \<Rightarrow> 's \<Rightarrow> bool" where
  "chain R [] s s' \<longleftrightarrow> s' = s"
| "chain R (x # xs) s s' \<longleftrightarrow> (\<exists>t. R x s t \<and> chain R xs t s')"

lemma call_each_outcome:
  assumes "\<And>x s. x \<in> set xs \<Longrightarrow> \<exists>r s'. call x s = Some (r, s') \<and> (case r of Ok _ \<Rightarrow> R x s s' | Err e \<Rightarrow> E e)"
  shows "\<exists>r s'. call_each call xs s = Some (r, s') \<and> (case r of Ok _ \<Rightarrow> chain R xs s s' | Err e \<Rightarrow> E e)"
  using assms
proof (induction xs arbitrary: s)
  case (Cons x xs)
  from Cons.prems [of x s] obtain r t where call: "call x s = Some (r, t)"
    and r: "case r of Ok _ \<Rightarrow> R x s t | Err e \<Rightarrow> E e" by auto
  show ?case
  proof (cases r)
    case (Inr u)
    from Cons.IH [of t] Cons.prems obtain r' s' where
      "call_each call xs t = Some (r', s')" "case r' of Ok _ \<Rightarrow> chain R xs t s' | Err e \<Rightarrow> E e"
      by auto
    with call r Inr show ?thesis by (cases r') auto
  qed (use call r in auto)
qed simp

lemma chain_collects:
  assumes "chain R xs s s'" and "\<And>x s s'. x \<in> set xs \<Longrightarrow> R x s s' \<Longrightarrow> received s' = received s @ out x"
  shows "received s' = received s @ concat (map out xs)"
  using assms
proof (induction xs arbitrary: s)
  case (Cons x xs)
  from Cons.prems(1) obtain t where "R x s t" "chain R xs t s'" by auto
  with Cons.IH [of t] Cons.prems(2) [of x s t] show ?case using Cons.prems(2) by simp
qed simp

subsection \<open>What the driver promises\<close>

text \<open>A driver that keeps what it was given: a call that returns without an error has added the
  row, or the bytes of the rows, to what the connection received.\<close>

definition delivers :: "'s bulk_driver \<Rightarrow> ('s \<Rightarrow> token_row list) \<Rightarrow> ('s \<Rightarrow> bytes) \<Rightarrow> bool" where
  "delivers drv row_log byte_log \<longleftrightarrow>
     (\<forall>row s s'. drv_send drv row s = (Ok (), s') \<longrightarrow> row_log s' = row_log s @ [row])
     \<and> (\<forall>bs offsets s s'. drv_send_raw_rows_payload_checked drv bs offsets s = (Ok (), s')
          \<longrightarrow> byte_log s' = byte_log s @ bs)
     \<and> (\<forall>s buf t bs offsets s'. drv_raw_rows_buffer drv s = (Ok buf, t)
          \<longrightarrow> drv_raw_rows_appended drv (Ok (buf @ bs, offsets)) t = (Ok (), s')
          \<longrightarrow> byte_log s' = byte_log s @ bs)"

text \<open>A driver that refuses nothing.\<close>

definition accepting :: "'s bulk_driver \<Rightarrow> bool" where
  "accepting drv \<longleftrightarrow>
     (\<forall>row s. is_ok (fst (drv_send drv row s)))
     \<and> (\<forall>bs offsets s. is_ok (fst (drv_send_raw_rows_payload_checked drv bs offsets s)))
     \<and> (\<forall>s. is_ok (fst (drv_raw_rows_buffer drv s)))
     \<and> (\<forall>bs offsets s. is_ok (fst (drv_raw_rows_appended drv (Ok (bs, offsets)) s)))
     \<and> (\<forall>s. is_ok (fst (drv_finalize drv s)))"

text \<open>A step that sent a token row, and one that sent the bytes of raw rows.\<close>

definition row_sent :: "'s bulk_driver \<Rightarrow> token_row \<Rightarrow> 's \<Rightarrow> 's \<Rightarrow> bool" where
  "row_sent drv row s s' \<longleftrightarrow> drv_send drv row s = (Ok (), s')"

definition bytes_sent :: "'s bulk_driver \<Rightarrow> bytes \<Rightarrow> 's \<Rightarrow> 's \<Rightarrow> bool" where
  "bytes_sent drv bs s s' \<longleftrightarrow>
     (\<exists>offsets. drv_send_raw_rows_payload_checked drv bs offsets s = (Ok (), s'))
     \<or> (\<exists>buf t offsets. drv_raw_rows_buffer drv s = (Ok buf, t)
          \<and> drv_raw_rows_appended drv (Ok (buf @ bs, offsets)) t = (Ok (), s'))"

lemma deliversD:
  assumes "delivers drv row_log byte_log"
  shows "row_sent drv row s s' \<Longrightarrow> row_log s' = row_log s @ [row]"
    and "bytes_sent drv bs s s' \<Longrightarrow> byte_log s' = byte_log s @ bs"
  using assms unfolding delivers_def row_sent_def bytes_sent_def by blast+

text \<open>An error only the driver can raise.\<close>

definition driver_refused :: "'s bulk_driver \<Rightarrow> error \<Rightarrow> bool" where
  "driver_refused drv e \<longleftrightarrow> \<not> accepting drv \<and> (\<exists>src. e = Tiberius src)"

lemma acceptingD:
  assumes "accepting drv"
  shows "is_ok (fst (drv_send drv row s))" "is_ok (fst (drv_send_raw_rows_payload_checked drv bs offsets s))"
    "is_ok (fst (drv_raw_rows_buffer drv s))" "is_ok (fst (drv_raw_rows_appended drv (Ok (bs, offsets)) s))"
    "is_ok (fst (drv_finalize drv s))"
  using assms unfolding accepting_def by blast+

lemma unit_result: "r = Ok () \<or> (\<exists>e. r = Err e)" for r :: "'e + unit"
  by (cases r) auto

lemma send_view_row_outcome:
  assumes "tiberius_row_owned db view i = Ok row"
  shows "\<exists>r s'. send_view_row drv db view i s = Some (r, s')
    \<and> (case r of Ok _ \<Rightarrow> row_sent drv row s s'
       | Err e \<Rightarrow> \<exists>inner. e = WritePhaseContext PacketWrite inner \<and> driver_refused drv inner)"
proof -
  obtain r s' where send: "drv_send drv row s = (r, s')" by force
  then have "\<not> is_ok r \<Longrightarrow> \<not> accepting drv" using acceptingD(1) [of drv row s] by auto
  with send assms show ?thesis
    using unit_result [of r]
    by (auto simp: send_view_row_def tiberius_call_def row_sent_def driver_refused_def with_write_phase_def)
qed

subsection \<open>The invariant of a writer\<close>

text \<open>A writer opened for a planned schema: its backend is resolved, and a direct backend has the
  encoder of the planned mappings.\<close>

definition writer_for :: "planned_schema \<Rightarrow> writer_state \<Rightarrow> bool" where
  "writer_for planned state \<longleftrightarrow>
     writer_mappings state = planned_mappings planned
     \<and> writer_context state = \<lparr>context_profile = planned_profile planned, context_options = planned_options planned\<rparr>
     \<and> (case writer_backend state of
          BackendAuto \<Rightarrow> False
        | BaselineTokenRow \<Rightarrow> writer_direct_encoder state = None
        | _ \<Rightarrow> \<exists>encoder. writer_direct_encoder state = Some encoder
                \<and> encoder_new_with_context (writer_mappings state) (writer_context state) = Ok encoder)"

lemma writer_state_new_for:
  assumes "writer_state_new backend check planned = Ok state"
  shows "writer_for planned state" "writer_stats state = write_stats_default"
    "resolve_backend backend = Ok (writer_backend state)"
  using assms
  by (cases backend; auto simp: writer_state_new_def writer_for_def is_direct_backend_def Let_def result_simps
      split: if_splits)+

lemma writer_for_record [simp]: "writer_for planned (record_accepted_batch n state) = writer_for planned state"
  by (simp add: writer_for_def record_accepted_batch_def split: write_backend.split)

subsection \<open>Writing token rows\<close>

lemma validate_batch_rows_Ok:
  "validate_batch_rows db view = Ok () \<longleftrightarrow> (\<forall>row < view_row_count view. is_ok (mssql_row db view row))"
  by (auto simp: validate_batch_rows_def for_each_check and_then_Inr is_ok_iff)

text \<open>The token rows of a batch.\<close>

definition batch_token_rows :: "'tz timezone_db \<Rightarrow> writer_state \<Rightarrow> record_batch \<Rightarrow> error + token_row list" where
  "batch_token_rows db state batch =
     and_then (view_new_with_context batch (writer_mappings state) (writer_context state)) (\<lambda>view.
       try_map (tiberius_row_owned db view) [0..<batch_num_rows batch])"

lemma view_new_row_count:
  "view_new_with_context batch mappings rt = Ok view \<Longrightarrow> view_row_count view = batch_num_rows batch"
  by (auto simp: view_new_with_context_def view_row_count_def result_simps)

lemma token_rows_convert:
  assumes "view_new_with_context batch (writer_mappings state) (writer_context state) = Ok view"
  shows "is_ok (validate_batch_rows db view) \<longleftrightarrow> is_ok (batch_token_rows db state batch)"
proof -
  have "is_ok (validate_batch_rows db view) \<longleftrightarrow> validate_batch_rows db view = Ok ()"
    by (simp add: is_ok_iff)
  also have "\<dots> \<longleftrightarrow> (\<forall>row < batch_num_rows batch. is_ok (tiberius_row_owned db view row))"
    by (auto simp: validate_batch_rows_Ok view_new_row_count [OF assms] tiberius_row_map is_ok_iff map_ok_Inr)
  also have "\<dots> \<longleftrightarrow> is_ok (try_map (tiberius_row_owned db view) [0..<batch_num_rows batch])"
  proof
    assume "\<forall>row < batch_num_rows batch. is_ok (tiberius_row_owned db view row)"
    then have "\<forall>row < batch_num_rows batch. \<exists>r. tiberius_row_owned db view row = Ok r" by (simp add: is_ok_iff)
    then obtain f where "\<forall>row < batch_num_rows batch. tiberius_row_owned db view row = Ok (f row)" by metis
    then have "try_map (tiberius_row_owned db view) [0..<batch_num_rows batch] = Ok (map f [0..<batch_num_rows batch])"
      by (simp add: try_map_Inr)
    then show "is_ok (try_map (tiberius_row_owned db view) [0..<batch_num_rows batch])" by simp
  qed (auto simp: is_ok_iff try_map_Inr)
  finally show ?thesis using assms by (simp add: batch_token_rows_def)
qed

lemma send_view_rows_outcome:
  assumes "try_map (tiberius_row_owned db view) [0..<n] = Ok rows"
  shows "\<exists>r s'. call_each (send_view_row drv db view) [0..<n] s = Some (r, s')
    \<and> (case r of Ok _ \<Rightarrow> chain (\<lambda>i. row_sent drv (rows ! i)) [0..<n] s s'
       | Err e \<Rightarrow> \<exists>inner. e = WritePhaseContext PacketWrite inner \<and> driver_refused drv inner)"
proof (rule call_each_outcome)
  fix i s assume "i \<in> set [0..<n]"
  with assms have "tiberius_row_owned db view i = Ok (rows ! i)" by (simp add: try_map_Inr)
  then show "\<exists>r s'. send_view_row drv db view i s = Some (r, s')
    \<and> (case r of Ok _ \<Rightarrow> row_sent drv (rows ! i) s s'
       | Err e \<Rightarrow> \<exists>inner. e = WritePhaseContext PacketWrite inner \<and> driver_refused drv inner)"
    by (rule send_view_row_outcome)
qed

text \<open>A batch written in full: its state is the recorded one, and every row was sent.\<close>

definition accepted :: "writer_state \<Rightarrow> record_batch \<Rightarrow> writer_state" where
  "accepted state batch = record_accepted_batch (usize_to_u64_saturating (batch_num_rows batch)) state"

definition driver_error :: "'s bulk_driver \<Rightarrow> error \<Rightarrow> bool" where
  "driver_error drv e \<longleftrightarrow> (\<exists>inner. e = WritePhaseContext PacketWrite inner \<and> driver_refused drv inner)"

lemma write_token_rows:
  "\<exists>r state' s'. write_batch_to_sink drv db batch (state, s) = Some (r, state', s')
    \<and> (case r of
         Ok stats \<Rightarrow> state' = accepted state batch \<and> stats = writer_stats state'
           \<and> (\<exists>rows. batch_token_rows db state batch = Ok rows
                \<and> chain (\<lambda>i. row_sent drv (rows ! i)) [0..<batch_num_rows batch] s s')
       | Err e \<Rightarrow> state' = state
           \<and> (driver_error drv e \<and> is_ok (batch_token_rows db state batch)
              \<or> s' = s \<and> \<not> is_ok (batch_token_rows db state batch)))"
proof (cases "view_new_with_context batch (writer_mappings state) (writer_context state)")
  case (Inl e)
  then show ?thesis
    by (simp add: write_batch_to_sink_def record_batch_view_def batch_token_rows_def
        with_write_phase_def split: schema_check.split)
next
  case (Inr view)
  then have view: "record_batch_view batch (writer_mappings state) (writer_schema_check state)
      (writer_context state) = Ok view"
    by (simp add: record_batch_view_def split: schema_check.split)
  note convert = token_rows_convert [OF Inr, of db] and count = view_new_row_count [OF Inr]
  show ?thesis
  proof (cases "validate_batch_rows db view")
    case (Inl e)
    with view convert show ?thesis
      by (simp add: write_batch_to_sink_def with_write_phase_def)
  next
    case valid: (Inr u)
    with convert obtain rows where rows: "batch_token_rows db state batch = Ok rows" by (auto simp: is_ok_iff)
    with Inr have "try_map (tiberius_row_owned db view) [0..<batch_num_rows batch] = Ok rows"
      by (simp add: batch_token_rows_def)
    from send_view_rows_outcome [OF this, of drv s] obtain r s' where
      sent: "call_each (send_view_row drv db view) [0..<batch_num_rows batch] s = Some (r, s')"
      and r: "case r of Ok _ \<Rightarrow> chain (\<lambda>i. row_sent drv (rows ! i)) [0..<batch_num_rows batch] s s'
        | Err e \<Rightarrow> driver_error drv e"
      unfolding driver_error_def by blast
    show ?thesis
    proof (cases r)
      case (Inl e)
      with sent r view valid rows show ?thesis
        by (auto simp: write_batch_to_sink_def count Let_def driver_error_def)
    next
      case (Inr u)
      with sent r view valid rows show ?thesis
        by (simp add: write_batch_to_sink_def count Let_def accepted_def)
    qed
  qed
qed

subsection \<open>Writing raw rows\<close>

lemma send_raw_outcome:
  assumes "range_payload_len measured (range_start r) (range_len r) = Ok bytes"
    and "encode_measured_batch_range flags db encoder batch measured (range_start r) (range_len r) = Some (Ok chunk)"
    and "\<And>buf. encode_measured_batch_range_into db encoder batch measured (range_start r) (range_len r) buf
      = Ok (buf @ payload_bytes chunk, payload_row_token_offsets chunk)"
  shows "\<exists>result s'. send_measured_raw_rows drv flags db encoder batch measured r s = Some (result, s')
    \<and> (case result of Ok _ \<Rightarrow> bytes_sent drv (payload_bytes chunk) s s' | Err e \<Rightarrow> driver_refused drv e)"
proof (cases "has_variable_width_column encoder")
  case False
  obtain result s' where send: "drv_send_raw_rows_payload_checked drv (payload_bytes chunk)
      (payload_row_token_offsets chunk) s = (result, s')" by force
  then have "\<not> is_ok result \<Longrightarrow> \<not> accepting drv"
    using acceptingD(2) [of drv "payload_bytes chunk" "payload_row_token_offsets chunk" s] by auto
  with send assms False show ?thesis
    using unit_result [of result]
    by (auto simp: send_measured_raw_rows_def tiberius_call_def bytes_sent_def driver_refused_def)
next
  case True
  obtain opened t where buffer: "drv_raw_rows_buffer drv s = (opened, t)" by force
  show ?thesis
  proof (cases opened)
    case (Inl src)
    then have "\<not> accepting drv" using acceptingD(3) [of drv s] buffer by auto
    with Inl buffer assms True show ?thesis
      by (simp add: send_measured_raw_rows_def tiberius_call_def driver_refused_def)
  next
    case (Inr buf)
    obtain result s' where send: "drv_raw_rows_appended drv
        (Ok (buf @ payload_bytes chunk, payload_row_token_offsets chunk)) t = (result, s')" by force
    then have "\<not> is_ok result \<Longrightarrow> \<not> accepting drv"
      using acceptingD(4) [of drv "buf @ payload_bytes chunk" "payload_row_token_offsets chunk" t] by auto
    with send buffer Inr assms True show ?thesis
      using unit_result [of result]
      by (auto simp: send_measured_raw_rows_def tiberius_call_def bytes_sent_def driver_refused_def)
  qed
qed

text \<open>The bytes of a batch, as the encoder gives them for the whole batch.\<close>

definition batch_raw_rows :: "'tz timezone_db \<Rightarrow> direct_encoder \<Rightarrow> record_batch \<Rightarrow> bytes list list \<Rightarrow> bool" where
  "batch_raw_rows db encoder batch rows \<longleftrightarrow>
     length rows = batch_num_rows batch
     \<and> (\<forall>flags. encode_batch flags db encoder batch = Some (Ok (rows_payload rows)))"

lemma write_raw_rows:
  assumes encoder: "encoder_new_with_context mappings rt = Ok encoder"
    and valid: "\<forall>m \<in> set mappings. valid_mssql_type (target_type m)" "valid_batch batch"
    and state: "writer_direct_encoder state = Some encoder"
  shows "\<exists>r state' s'. write_direct_batch_to_sink drv flags db batch (state, s) = Some (r, state', s')
    \<and> (case r of
         Ok stats \<Rightarrow> state' = accepted state batch \<and> stats = writer_stats state'
           \<and> (\<exists>rows chunks. batch_raw_rows db encoder batch rows \<and> concat chunks = rows_bytes rows
                \<and> (\<forall>chunk \<in> set chunks. length chunk \<le> DIRECT_RAW_MAX_PAYLOAD_BYTES
                     \<or> (\<exists>row \<in> set rows. chunk = rows_bytes [row]))
                \<and> chain (\<lambda>chunk. bytes_sent drv chunk) chunks s s')
       | Err e \<Rightarrow> state' = state
           \<and> (driver_error drv e \<and> is_ok (measure_batch db encoder batch)
              \<or> s' = s \<and> \<not> is_ok (measure_batch db encoder batch)))"
proof (cases "measure_batch db encoder batch")
  case (Inl e)
  with state show ?thesis
    by (simp add: write_direct_batch_to_sink_def with_write_phase_def)
next
  case (Inr measured)
  from measured_paths [OF encoder valid Inr] obtain rows where len: "length rows = batch_num_rows batch"
    and lens: "measured_row_lengths measured = map (\<lambda>cells. length (rows_bytes [cells])) rows"
    and whole: "\<forall>flags. encode_batch flags db encoder batch = Some (Ok (rows_payload rows))"
    and range: "\<And>start n buf flags. start + n \<le> length rows \<Longrightarrow>
      encode_measured_batch_range flags db encoder batch measured start n
        = Some (Ok (rows_payload (take n (drop start rows))))
      \<and> encode_measured_batch_range_into db encoder batch measured start n buf
        = Ok (buf @ payload_bytes (rows_payload (take n (drop start rows))),
              payload_row_token_offsets (rows_payload (take n (drop start rows))))"
    by (auto simp: Let_def split: if_splits)
  obtain cols cells where m: "valid_measured measured" "measured_row_count measured = batch_num_rows batch"
    by (rule measured_batch_encodes [OF encoder valid Inr])
  have cap: "0 < DIRECT_RAW_MAX_PAYLOAD_BYTES" by (simp add: DIRECT_RAW_MAX_PAYLOAD_BYTES_def)
  have count: "measured_row_count measured = length rows" using m(2) len by simp
  define part where "part r = take (range_len r) (drop (range_start r) rows)" for r :: measured_row_range
  from measured_chunks [OF m(1) cap lens count] obtain ranges where
    ranges: "row_ranges measured DIRECT_RAW_MAX_PAYLOAD_BYTES = Ok ranges"
    and bounds: "\<forall>r \<in> set ranges. range_start r + range_len r \<le> length rows"
    and parts: "concat (map part ranges) = rows"
    and small: "\<forall>r \<in> set ranges. length (rows_bytes (part r)) \<le> DIRECT_RAW_MAX_PAYLOAD_BYTES \<or> range_len r = 1"
    unfolding part_def by blast
  have step: "\<exists>result s'. send_measured_raw_rows drv flags db encoder batch measured r s = Some (result, s')
      \<and> (case result of Ok _ \<Rightarrow> bytes_sent drv (rows_bytes (part r)) s s' | Err e \<Rightarrow> driver_refused drv e)"
    if "r \<in> set ranges" for r s
  proof -
    have inside: "range_start r + range_len r \<le> length rows" using bounds that by blast
    then have "range_payload_len measured (range_start r) (range_len r)
        = Ok (range_bytes (measured_row_lengths measured) \<lparr>range_start = range_start r, range_len = range_len r\<rparr>)"
      using count by (simp add: range_payload_len_eq [OF m(1)])
    from send_raw_outcome [OF this, of flags db encoder batch "rows_payload (part r)" drv s] range [OF inside]
    have "\<exists>result s'. send_measured_raw_rows drv flags db encoder batch measured r s = Some (result, s')
      \<and> (case result of Ok _ \<Rightarrow> bytes_sent drv (payload_bytes (rows_payload (part r))) s s'
         | Err e \<Rightarrow> driver_refused drv e)"
      unfolding part_def by blast
    moreover have "payload_bytes (rows_payload (part r)) = rows_bytes (part r)" by (simp add: rows_payload_def)
    ultimately show ?thesis by (simp only:)
  qed
  obtain result s' where sent: "call_each (send_measured_raw_rows drv flags db encoder batch measured) ranges s
      = Some (result, s')"
    and result: "case result of Ok _ \<Rightarrow> chain (\<lambda>r. bytes_sent drv (rows_bytes (part r))) ranges s s'
      | Err e \<Rightarrow> driver_refused drv e"
    using call_each_outcome [where xs = ranges and s = s and R = "\<lambda>r. bytes_sent drv (rows_bytes (part r))"
        and call = "send_measured_raw_rows drv flags db encoder batch measured" and E = "driver_refused drv", OF step]
    by blast
  show ?thesis
  proof (cases result)
    case (Inl e)
    with sent result state \<open>measure_batch db encoder batch = Ok measured\<close> ranges show ?thesis
      by (auto simp: write_direct_batch_to_sink_def Let_def driver_error_def driver_refused_def
          with_write_phase_def)
  next
    case (Inr u)
    have chunks: "chain (\<lambda>chunk. bytes_sent drv chunk) (map (\<lambda>r. rows_bytes (part r)) ranges) s s'"
      if "chain (\<lambda>r. bytes_sent drv (rows_bytes (part r))) ranges s s'"
      using that by (induction ranges arbitrary: s) auto
    have all: "concat (map (\<lambda>r. rows_bytes (part r)) ranges) = rows_bytes rows"
      using rows_bytes_concat [of "map part ranges"] parts by (simp add: comp_def)
    have "length (rows_bytes (part r)) \<le> DIRECT_RAW_MAX_PAYLOAD_BYTES \<or> (\<exists>row \<in> set rows. rows_bytes (part r) = rows_bytes [row])"
      if "r \<in> set ranges" for r
    proof (cases "range_len r = 1")
      case True
      with bounds that have "range_start r < length rows" by fastforce
      with True have "part r = [rows ! range_start r]"
        by (simp add: part_def Cons_nth_drop_Suc [symmetric])
      with \<open>range_start r < length rows\<close> show ?thesis by (metis nth_mem)
    qed (use small that in blast)
    then have "\<exists>rows chunks. batch_raw_rows db encoder batch rows \<and> concat chunks = rows_bytes rows
        \<and> (\<forall>chunk \<in> set chunks. length chunk \<le> DIRECT_RAW_MAX_PAYLOAD_BYTES
             \<or> (\<exists>row \<in> set rows. chunk = rows_bytes [row]))
        \<and> chain (\<lambda>chunk. bytes_sent drv chunk) chunks s s'"
      using result Inr chunks all len whole
      by (intro exI [of _ rows] exI [of _ "map (\<lambda>r. rows_bytes (part r)) ranges"] conjI)
        (simp_all add: batch_raw_rows_def)
    with Inr sent state \<open>measure_batch db encoder batch = Ok measured\<close> ranges m(2) show ?thesis
      by (simp add: write_direct_batch_to_sink_def Let_def accepted_def)
  qed
qed

subsection \<open>Writing a batch\<close>

text \<open>The condition a batch has to meet, by the backend: every row converts to a token row, or the
  batch measures.\<close>

definition batch_converts :: "'tz timezone_db \<Rightarrow> writer_state \<Rightarrow> record_batch \<Rightarrow> bool" where
  "batch_converts db state batch \<longleftrightarrow>
     (case writer_direct_encoder state of
        None \<Rightarrow> is_ok (batch_token_rows db state batch)
      | Some encoder \<Rightarrow> is_ok (measure_batch db encoder batch))"

text \<open>What was sent for a batch.\<close>

definition batch_sent :: "'s bulk_driver \<Rightarrow> 'tz timezone_db \<Rightarrow> writer_state \<Rightarrow> record_batch \<Rightarrow> 's \<Rightarrow> 's \<Rightarrow> bool" where
  "batch_sent drv db state batch s s' \<longleftrightarrow>
     (case writer_direct_encoder state of
        None \<Rightarrow> \<exists>rows. batch_token_rows db state batch = Ok rows
          \<and> chain (\<lambda>i. row_sent drv (rows ! i)) [0..<batch_num_rows batch] s s'
      | Some encoder \<Rightarrow> \<exists>rows chunks. batch_raw_rows db encoder batch rows \<and> concat chunks = rows_bytes rows
          \<and> (\<forall>chunk \<in> set chunks. length chunk \<le> DIRECT_RAW_MAX_PAYLOAD_BYTES
               \<or> (\<exists>row \<in> set rows. chunk = rows_bytes [row]))
          \<and> chain (\<lambda>chunk. bytes_sent drv chunk) chunks s s')"

lemma writer_forD:
  assumes "writer_for planned state"
  shows "writer_mappings state = planned_mappings planned"
    and "writer_direct_encoder state = None \<Longrightarrow> write_batch drv flags db batch (state, s)
      = write_batch_to_sink drv db batch (state, s)"
    and "writer_direct_encoder state = Some encoder \<Longrightarrow> write_batch drv flags db batch (state, s)
      = write_direct_batch_to_sink drv flags db batch (state, s)"
    and "writer_direct_encoder state = Some encoder \<Longrightarrow>
      encoder_new_with_context (writer_mappings state) (writer_context state) = Ok encoder"
  using assms by (auto simp: writer_for_def write_batch_def split: write_backend.splits)

lemma write_batch_outcome:
  assumes planned: "writer_for planned state" "\<forall>m \<in> set (planned_mappings planned). valid_mssql_type (target_type m)"
    and batch: "valid_batch batch"
  shows "\<exists>r state' s'. write_batch drv flags db batch (state, s) = Some (r, state', s')
    \<and> (case r of
         Ok stats \<Rightarrow> batch_converts db state batch \<and> state' = accepted state batch \<and> stats = writer_stats state'
           \<and> batch_sent drv db state batch s s'
       | Err e \<Rightarrow> state' = state
           \<and> (if batch_converts db state batch then driver_error drv e else s' = s))"
proof (cases "writer_direct_encoder state")
  case None
  from write_token_rows [of drv db batch state s] obtain r state' s' where
    "write_batch_to_sink drv db batch (state, s) = Some (r, state', s')"
    and "case r of
         Ok stats \<Rightarrow> state' = accepted state batch \<and> stats = writer_stats state'
           \<and> (\<exists>rows. batch_token_rows db state batch = Ok rows
                \<and> chain (\<lambda>i. row_sent drv (rows ! i)) [0..<batch_num_rows batch] s s')
       | Err e \<Rightarrow> state' = state
           \<and> (driver_error drv e \<and> is_ok (batch_token_rows db state batch)
              \<or> s' = s \<and> \<not> is_ok (batch_token_rows db state batch))"
    by blast
  with None writer_forD(2) [OF planned(1) None, of drv flags db batch s] show ?thesis
    by (cases r) (auto simp: batch_converts_def batch_sent_def)
next
  case (Some encoder)
  have valid: "\<forall>m \<in> set (writer_mappings state). valid_mssql_type (target_type m)"
    using planned(2) writer_forD(1) [OF planned(1)] by simp
  from write_raw_rows [OF writer_forD(4) [OF planned(1) Some] valid batch Some, of drv flags db s]
  obtain r state' s' where
    "write_direct_batch_to_sink drv flags db batch (state, s) = Some (r, state', s')"
    and "case r of
         Ok stats \<Rightarrow> state' = accepted state batch \<and> stats = writer_stats state'
           \<and> (\<exists>rows chunks. batch_raw_rows db encoder batch rows \<and> concat chunks = rows_bytes rows
                \<and> (\<forall>chunk \<in> set chunks. length chunk \<le> DIRECT_RAW_MAX_PAYLOAD_BYTES
                     \<or> (\<exists>row \<in> set rows. chunk = rows_bytes [row]))
                \<and> chain (\<lambda>chunk. bytes_sent drv chunk) chunks s s')
       | Err e \<Rightarrow> state' = state
           \<and> (driver_error drv e \<and> is_ok (measure_batch db encoder batch)
              \<or> s' = s \<and> \<not> is_ok (measure_batch db encoder batch))"
    by blast
  moreover from this have "is_ok r \<Longrightarrow> is_ok (measure_batch db encoder batch)"
    using Some by (cases "measure_batch db encoder batch")
      (auto simp: write_direct_batch_to_sink_def is_ok_iff)
  ultimately show ?thesis
    using Some writer_forD(3) [OF planned(1) Some, of drv flags db batch s]
    by (cases r) (auto simp: batch_converts_def batch_sent_def)
qed

text \<open>A driver that records.\<close>

definition recording_driver :: "external_error \<Rightarrow> (token_row list \<times> bytes) bulk_driver" where
  "recording_driver src =
     \<lparr>drv_bulk_insert_columns = (\<lambda>_ s. (Ok [example_target TyInt4], s)),
      drv_bulk_insert_with_columns = (\<lambda>_ _ s. (Ok (), s)),
      drv_enable_direct_packet_writes = (\<lambda>s. s),
      drv_send = (\<lambda>row (rows, bs). (Ok (), rows @ [row], bs)),
      drv_send_raw_rows_payload_checked = (\<lambda>payload _ (rows, bs). (Ok (), rows, bs @ payload)),
      drv_raw_rows_buffer = (\<lambda>(rows, bs). (Ok [], rows, bs)),
      drv_raw_rows_appended =
        (\<lambda>r (rows, bs). case r of Err e \<Rightarrow> (Err e, rows, bs) | Ok (payload, _) \<Rightarrow> (Ok (), rows, bs @ payload)),
      drv_finalize = (\<lambda>s. (Ok (), s)),
      drv_bulk_input_error = src\<rparr>"

lemma recording_driver_delivers: "delivers (recording_driver src) fst snd"
  by (auto simp: delivers_def recording_driver_def)

lemma recording_driver_accepting: "accepting (recording_driver src)"
  by (auto simp: accepting_def recording_driver_def)

definition example_planned :: planned_schema where
  "example_planned =
     \<lparr>planned_profile = context_profile (rm_context (example_runtime DtInt32 MsInt RejectNon100ns)),
      planned_options = context_options (rm_context (example_runtime DtInt32 MsInt RejectNon100ns)),
      planned_mappings = [example_mapping DtInt32 MsInt]\<rparr>"

definition example_state :: writer_state where
  "example_state =
     \<lparr>writer_backend = DirectRawBulk, writer_direct_encoder = Some example_encoder,
      writer_schema_check = StrictCheck,
      writer_context = rm_context (example_runtime DtInt32 MsInt RejectNon100ns),
      writer_mappings = [example_mapping DtInt32 MsInt], writer_stats = write_stats_default\<rparr>"

lemma context_surjective [simp]:
  "\<lparr>context_profile = context_profile rt, context_options = context_options rt\<rparr> = rt"
  by (cases rt) simp

lemma example_state_new: "writer_state_new BackendAuto StrictCheck example_planned = Ok example_state"
  using example_encoder_new
  by (simp add: writer_state_new_def example_planned_def example_state_def is_direct_backend_def Let_def)

lemma example_planned_valid: "\<forall>m \<in> set (planned_mappings example_planned). valid_mssql_type (target_type m)"
  by (simp add: example_planned_def)

lemma example_converts: "batch_converts example_timezone_db example_state example_batch"
  using example_measure by (simp add: batch_converts_def example_state_def)

lemma example_writer_for: "writer_for example_planned example_state"
  using writer_state_new_for(1) [OF example_state_new] .

lemma written_delivered:
  assumes "writer_for planned state" "\<forall>m \<in> set (planned_mappings planned). valid_mssql_type (target_type m)"
    and "valid_batch batch" and driver: "delivers drv row_log byte_log"
    and written: "write_batch drv flags db batch (state, s) = Some (Ok stats, state', s')"
  shows "case writer_direct_encoder state of
      None \<Rightarrow> \<exists>rows. batch_token_rows db state batch = Ok rows \<and> length rows = batch_num_rows batch
        \<and> row_log s' = row_log s @ rows
    | Some encoder \<Rightarrow> \<exists>rows. length rows = batch_num_rows batch
        \<and> encode_batch flags' db encoder batch = Some (Ok (rows_payload rows))
        \<and> byte_log s' = byte_log s @ payload_bytes (rows_payload rows)"
proof -
  from write_batch_outcome [OF assms(1-3), of drv flags db s] written
  have sent: "batch_sent drv db state batch s s'" by auto
  show ?thesis
  proof (cases "writer_direct_encoder state")
    case None
    with sent obtain rows where rows: "batch_token_rows db state batch = Ok rows"
      and chain: "chain (\<lambda>i. row_sent drv (rows ! i)) [0..<batch_num_rows batch] s s'"
      by (auto simp: batch_sent_def)
    from rows have len: "length rows = batch_num_rows batch"
      by (auto simp: batch_token_rows_def result_simps try_map_Inr)
    have "row_log s' = row_log s @ concat (map (\<lambda>i. [rows ! i]) [0..<batch_num_rows batch])"
      by (rule chain_collects [OF chain]) (rule deliversD(1) [OF driver])
    with rows len None show ?thesis using map_nth [of rows] by (simp flip: len)
  next
    case (Some encoder)
    with sent obtain rows chunks where rows: "batch_raw_rows db encoder batch rows" "concat chunks = rows_bytes rows"
      and chain: "chain (\<lambda>chunk. bytes_sent drv chunk) chunks s s'"
      by (auto simp: batch_sent_def)
    have "byte_log s' = byte_log s @ concat (map (\<lambda>chunk. chunk) chunks)"
      by (rule chain_collects [OF chain]) (rule deliversD(2) [OF driver])
    with rows Some show ?thesis by (auto simp: batch_raw_rows_def rows_payload_def)
  qed
qed

text \<open>written_batch_delivered: what a successful write delivers is the batch. On a driver that keeps
  what it is given, after a batch was written the connection has received exactly its rows more:
  a token row per row of the batch, in order, on the baseline backend; on a direct backend the
  raw rows that the encoder makes of the whole batch, however it was cut into payloads.\<close>

theorem written_batch_delivered:
  assumes "writer_for planned state" "\<forall>m \<in> set (planned_mappings planned). valid_mssql_type (target_type m)"
    and "valid_batch batch" and driver: "delivers drv row_log byte_log"
    and written: "write_batch drv flags db batch (state, s) = Some (Ok stats, state', s')"
  shows "case writer_direct_encoder state of
      None \<Rightarrow> \<exists>rows. batch_token_rows db state batch = Ok rows \<and> length rows = batch_num_rows batch
        \<and> row_log s' = row_log s @ rows
    | Some encoder \<Rightarrow> \<exists>rows. length rows = batch_num_rows batch
        \<and> encode_batch flags' db encoder batch = Some (Ok (rows_payload rows))
        \<and> byte_log s' = byte_log s @ payload_bytes (rows_payload rows)"
  by (rule written_delivered [OF assms])

text \<open>A driver that refuses nothing writes every batch that converts.\<close>

lemma accepting_writes:
  assumes "writer_for planned state" "\<forall>m \<in> set (planned_mappings planned). valid_mssql_type (target_type m)"
    and "valid_batch batch" "accepting drv" "batch_converts db state batch"
  shows "\<exists>s'. write_batch drv flags db batch (state, s)
    = Some (Ok (writer_stats (accepted state batch)), accepted state batch, s')"
proof -
  from write_batch_outcome [OF assms(1-3), of drv flags db s] obtain r state' s' where
    written: "write_batch drv flags db batch (state, s) = Some (r, state', s')"
    and r: "case r of
         Ok stats \<Rightarrow> batch_converts db state batch \<and> state' = accepted state batch \<and> stats = writer_stats state'
           \<and> batch_sent drv db state batch s s'
       | Err e \<Rightarrow> state' = state
           \<and> (if batch_converts db state batch then driver_error drv e else s' = s)"
    by blast
  from r assms(4,5) have "is_ok r"
    by (cases r) (auto simp: driver_error_def driver_refused_def)
  with written r show ?thesis by (auto simp: is_ok_iff)
qed

theorem written_batch_delivered_witness:
  "\<exists>drv stats state' s' rows.
     write_batch drv \<lparr>fixed_width_fast_path_disabled = False, date_fast_path_disabled = False\<rparr> example_timezone_db
       example_batch (example_state, [] :: token_row list, [9]) = Some (Ok stats, state', s')
     \<and> length rows = 2 \<and> snd s' = 9 # payload_bytes (rows_payload rows)"
proof -
  obtain src :: external_error where True by blast
  let ?flags = "\<lparr>fixed_width_fast_path_disabled = False, date_fast_path_disabled = False\<rparr>"
  from accepting_writes [OF example_writer_for example_planned_valid example_batch_valid
      recording_driver_accepting example_converts, of src ?flags "([], [9])"] obtain s' where
    written: "write_batch (recording_driver src) ?flags example_timezone_db example_batch (example_state, [], [9])
      = Some (Ok (writer_stats (accepted example_state example_batch)), accepted example_state example_batch, s')"
    by blast
  from written_batch_delivered [OF example_writer_for example_planned_valid example_batch_valid
      recording_driver_delivers written, of ?flags]
  obtain rows where "length rows = batch_num_rows example_batch" "snd s' = 9 # payload_bytes (rows_payload rows)"
    by (auto simp: example_state_def)
  moreover have "batch_num_rows example_batch = 2" by (simp add: example_batch_def)
  ultimately show ?thesis using written by fastforce
qed

text \<open>C10: on a connection that refuses nothing, a batch is written exactly
  when it converts, and the writer finishes with what it counted. No batch is left waiting and
  no valid batch is refused, whatever was written before.\<close>

theorem accepting_writer_completes:
  assumes "writer_for planned state" "\<forall>m \<in> set (planned_mappings planned). valid_mssql_type (target_type m)"
    and "valid_batch batch" "accepting drv"
  shows "((\<exists>stats state' s'. write_batch drv flags db batch (state, s) = Some (Ok stats, state', s'))
        \<longleftrightarrow> batch_converts db state batch)
      \<and> fst (finish_writer drv (state, s)) = Ok (writer_stats state)"
proof (intro conjI iffI)
  assume "\<exists>stats state' s'. write_batch drv flags db batch (state, s) = Some (Ok stats, state', s')"
  with write_batch_outcome [OF assms(1-3), of drv flags db s] show "batch_converts db state batch" by auto
next
  assume "batch_converts db state batch"
  with accepting_writes [OF assms] show "\<exists>stats state' s'. write_batch drv flags db batch (state, s)
      = Some (Ok stats, state', s')"
    by blast
next
  show "fst (finish_writer drv (state, s)) = Ok (writer_stats state)"
    using acceptingD(5) [OF assms(4), of s]
    by (cases "drv_finalize drv s") (auto simp: finish_writer_def tiberius_call_def is_ok_iff)
qed

theorem accepting_writer_completes_witness:
  "\<exists>drv stats state' s'.
     write_batch drv \<lparr>fixed_width_fast_path_disabled = True, date_fast_path_disabled = False\<rparr> example_timezone_db
       example_batch (example_state, [] :: token_row list, [] :: bytes) = Some (Ok stats, state', s')"
proof -
  obtain src :: external_error where True by blast
  show ?thesis
    using accepting_writer_completes [OF example_writer_for example_planned_valid example_batch_valid
        recording_driver_accepting, of src _ example_timezone_db] example_converts by blast
qed

subsection \<open>A session\<close>

text \<open>The steps of a session on one writer, and the batches it accepted: a batch is accepted, or it is
  refused. A batch the driver failed to send ends a session, since the code lets a caller go on
  with rows of that batch already sent.\<close>

inductive session ::
    "'s bulk_driver \<Rightarrow> fast_path_flags \<Rightarrow> 'tz timezone_db \<Rightarrow> writer_state \<times> 's
      \<Rightarrow> record_batch list \<Rightarrow> writer_state \<times> 's \<Rightarrow> bool"
  for drv flags db w where
  session_opened: "session drv flags db w [] w"
| session_written: "session drv flags db w batches (state, s) \<Longrightarrow> valid_batch batch
    \<Longrightarrow> write_batch drv flags db batch (state, s) = Some (Ok stats, state', s')
    \<Longrightarrow> session drv flags db w (batches @ [batch]) (state', s')"
| session_refused: "session drv flags db w batches (state, s) \<Longrightarrow> valid_batch batch
    \<Longrightarrow> write_batch drv flags db batch (state, s) = Some (Err e, state', s')
    \<Longrightarrow> error_write_phase e \<noteq> Some PacketWrite
    \<Longrightarrow> session drv flags db w batches (state', s')"

inductive_cases session_Nil: "session drv flags db w [] w'"

text \<open>What the connection should have received for a batch.\<close>

definition expected_rows :: "'tz timezone_db \<Rightarrow> writer_state \<Rightarrow> record_batch \<Rightarrow> token_row list" where
  "expected_rows db state batch = (case batch_token_rows db state batch of Ok rows \<Rightarrow> rows | Err _ \<Rightarrow> [])"

definition expected_bytes :: "fast_path_flags \<Rightarrow> 'tz timezone_db \<Rightarrow> direct_encoder \<Rightarrow> record_batch \<Rightarrow> bytes" where
  "expected_bytes flags db encoder batch =
     (case encode_batch flags db encoder batch of Some (Ok payload) \<Rightarrow> payload_bytes payload | _ \<Rightarrow> [])"

definition session_received ::
    "fast_path_flags \<Rightarrow> 'tz timezone_db \<Rightarrow> writer_state \<Rightarrow> record_batch list
      \<Rightarrow> token_row list \<times> bytes \<Rightarrow> token_row list \<times> bytes \<Rightarrow> bool" where
  "session_received flags db state batches before after \<longleftrightarrow>
     (case writer_direct_encoder state of
        None \<Rightarrow> fst after = fst before @ concat (map (expected_rows db state) batches)
      | Some encoder \<Rightarrow> snd after = snd before @ concat (map (expected_bytes flags db encoder) batches))"

text \<open>Accepting batches changes nothing of a state but its statistics.\<close>

definition same_writer :: "writer_state \<Rightarrow> writer_state \<Rightarrow> bool" where
  "same_writer state state' \<longleftrightarrow> state'\<lparr>writer_stats := writer_stats state\<rparr> = state"

lemma same_writerD:
  assumes "same_writer state state'"
  shows "writer_direct_encoder state' = writer_direct_encoder state" "writer_for planned state' = writer_for planned state"
    "batch_token_rows db state' = batch_token_rows db state"
proof -
  obtain n where "state' = state\<lparr>writer_stats := n\<rparr>"
    using assms by (metis same_writer_def writer_state.surjective writer_state.update_convs(6))
  then show "writer_direct_encoder state' = writer_direct_encoder state"
    "writer_for planned state' = writer_for planned state" "batch_token_rows db state' = batch_token_rows db state"
    by (auto simp: writer_for_def batch_token_rows_def fun_eq_iff split: write_backend.split)
qed

lemma same_writer_rows: "same_writer state state' \<Longrightarrow> expected_rows db state' = expected_rows db state"
  by (simp add: expected_rows_def fun_eq_iff same_writerD(3))

lemma same_writer_accepted: "same_writer state state' \<Longrightarrow> same_writer state (accepted state' batch)"
  by (simp add: same_writer_def accepted_def record_accepted_batch_def)

lemma written_received:
  assumes "writer_for planned state" "\<forall>m \<in> set (planned_mappings planned). valid_mssql_type (target_type m)"
    and "valid_batch batch" "delivers drv row_log byte_log"
    and "write_batch drv flags db batch (state, s) = Some (Ok stats, state', s')"
  shows "session_received flags' db state [batch] (row_log s, byte_log s) (row_log s', byte_log s')"
  using written_delivered [OF assms, of flags']
  by (auto simp: session_received_def expected_rows_def expected_bytes_def split: option.splits)

lemma session_invariant:
  assumes "session drv flags db w batches w'" and w: "w = (state0, s0)"
    and planned: "writer_for planned state0" "\<forall>m \<in> set (planned_mappings planned). valid_mssql_type (target_type m)"
    and driver: "delivers drv row_log byte_log" and "writer_stats state0 = write_stats_default"
  shows "case w' of (state, s) \<Rightarrow> same_writer state0 state \<and> writer_stats state = counted batches
    \<and> session_received flags' db state0 batches (row_log s0, byte_log s0) (row_log s, byte_log s)"
  using assms(1)
proof (induction rule: session.induct)
  case session_opened
  then show ?case using w assms(6) by (simp add: same_writer_def session_received_def split: option.split)
next
  case (session_written batches state s batch stats state' s')
  then have IH: "same_writer state0 state" "writer_stats state = counted batches"
    "session_received flags' db state0 batches (row_log s0, byte_log s0) (row_log s, byte_log s)" by auto
  note same = same_writerD [OF IH(1)]
  have "writer_for planned state" using planned(1) same(2) by simp
  note one = write_batch_outcome [OF this planned(2) session_written.hyps(2), of drv flags db s]
    written_received [OF this planned(2) session_written.hyps(2) driver session_written.hyps(3), of flags']
  from one(1) session_written.hyps(3) have "state' = accepted state batch" by auto
  moreover have "session_received flags' db state0 (batches @ [batch]) (row_log s0, byte_log s0) (row_log s', byte_log s')"
    using one(2) IH(3) same(1) same_writer_rows [OF IH(1), of db] by (auto simp: session_received_def split: option.splits)
  ultimately show ?case
    using counted_snoc [OF IH(2), of batch] same_writer_accepted [OF IH(1), of batch] by (simp add: accepted_def)
next
  case (session_refused batches state s batch e state' s')
  then have IH: "same_writer state0 state" "writer_stats state = counted batches"
    "session_received flags' db state0 batches (row_log s0, byte_log s0) (row_log s, byte_log s)" by auto
  have "writer_for planned state" using planned(1) same_writerD(2) [OF IH(1)] by simp
  from write_batch_outcome [OF this planned(2) session_refused.hyps(2), of drv flags db s] session_refused.hyps(3,4)
  have "state' = state" "s' = s"
    by (auto simp: driver_error_def split: if_splits)
  with IH show ?case by simp
qed

text \<open>A session that accepts two batches.\<close>

lemma example_session:
  "\<exists>state s. session (recording_driver src) flags example_timezone_db (example_state, [], [])
     [example_batch, example_batch] (state, s)"
proof -
  let ?drv = "recording_driver src" and ?db = example_timezone_db and ?state = "accepted example_state example_batch"
  have for': "writer_for example_planned ?state" using example_writer_for by (simp add: accepted_def)
  have converts': "batch_converts ?db ?state example_batch"
    using example_converts by (simp add: batch_converts_def accepted_def record_accepted_batch_def example_state_def)
  note writes = accepting_writes [OF _ example_planned_valid example_batch_valid recording_driver_accepting]
  from writes [OF example_writer_for example_converts, of src flags "([], [])"] obtain s1 where
    "write_batch ?drv flags ?db example_batch (example_state, [], []) = Some (Ok (writer_stats ?state), ?state, s1)"
    by blast
  note first = session_written [OF session_opened example_batch_valid this]
  from writes [OF for' converts', of src flags s1] obtain state s where
    "write_batch ?drv flags ?db example_batch (?state, s1) = Some (Ok (writer_stats state), state, s)" by blast
  from session_written [OF first example_batch_valid this]
  have "session ?drv flags ?db (example_state, [], []) [example_batch, example_batch] (state, s)" by simp
  then show ?thesis by (cases s) blast
qed

text \<open>C4: a session delivers its accepted batches and counts them. However batches are
  written and refused on a new writer, in any order, and as long as the driver does not fail to
  send: the connection has received the rows of the accepted batches, once each and in order, and
  nothing of a refused one; the statistics are the numbers of their rows and batches, saturating
  at the largest \<^verbatim>\<open>u64\<close>; and finishing reports these statistics or the driver's error.\<close>

theorem session_delivers:
  assumes "writer_state_new backend check planned = Ok state0"
    and "\<forall>m \<in> set (planned_mappings planned). valid_mssql_type (target_type m)"
    and "delivers drv row_log byte_log"
    and "session drv flags db (state0, s0) batches (state, s)"
  shows "(case writer_direct_encoder state0 of
        None \<Rightarrow> row_log s = row_log s0 @ concat (map (expected_rows db state0) batches)
      | Some encoder \<Rightarrow> byte_log s = byte_log s0 @ concat (map (expected_bytes flags' db encoder) batches))
    \<and> unat (rows_written (writer_stats state)) = min (sum_list (map batch_num_rows batches)) (2 ^ 64 - 1)
    \<and> unat (batches_written (writer_stats state)) = min (length batches) (2 ^ 64 - 1)
    \<and> (case fst (finish_writer drv (state, s)) of
        Ok stats \<Rightarrow> stats = writer_stats state
      | Err e \<Rightarrow> \<exists>src. e = WritePhaseContext Finalize (Tiberius src))"
proof -
  note new = writer_state_new_for [OF assms(1)]
  from session_invariant [OF assms(4) refl new(1) assms(2,3) new(2), of flags']
  have inv: "writer_stats state = counted batches"
    "session_received flags' db state0 batches (row_log s0, byte_log s0) (row_log s, byte_log s)" by auto
  moreover have "case fst (finish_writer drv (state, s)) of
        Ok stats \<Rightarrow> stats = writer_stats state
      | Err e \<Rightarrow> \<exists>src. e = WritePhaseContext Finalize (Tiberius src)"
    using unit_result [of "fst (drv_finalize drv s)"]
    by (cases "drv_finalize drv s") (auto simp: finish_writer_def tiberius_call_def with_write_phase_def)
  ultimately show ?thesis
    by (cases "writer_direct_encoder state0") (simp_all add: session_received_def counted_def unat_saturated)
qed

theorem session_delivers_witness:
  "\<exists>drv state s. session drv \<lparr>fixed_width_fast_path_disabled = False, date_fast_path_disabled = False\<rparr>
       example_timezone_db (example_state, [] :: token_row list, [] :: bytes) [example_batch, example_batch] (state, s)
     \<and> unat (rows_written (writer_stats state)) = 4 \<and> unat (batches_written (writer_stats state)) = 2"
proof -
  obtain src :: external_error where True by blast
  let ?flags = "\<lparr>fixed_width_fast_path_disabled = False, date_fast_path_disabled = False\<rparr>"
  obtain state s where run: "session (recording_driver src) ?flags example_timezone_db (example_state, [], [])
      [example_batch, example_batch] (state, s)"
    using example_session by blast
  from session_delivers [OF example_state_new example_planned_valid recording_driver_delivers run]
  have "unat (rows_written (writer_stats state)) = 4 \<and> unat (batches_written (writer_stats state)) = 2"
    by (simp add: example_batch_def)
  with run show ?thesis by blast
qed

subsection \<open>Opening\<close>

text \<open>The target table a writer is opened on: the planned columns, and for a direct backend with the
  wire types of the planned SQL Server types.\<close>

definition planned_target :: "writer_state \<Rightarrow> bulk_load_column list \<Rightarrow> bool" where
  "planned_target state columns \<longleftrightarrow>
     list_all2 (\<lambda>(i, m) column. fits_position i column m
         \<and> (is_direct_backend (writer_backend state)
              \<longrightarrow> takes_type (target_type m) (column_nullable (mapping_mssql m)) column))
       (List.enumerate 0 (writer_mappings state)) columns"

lemma planned_target:
  assumes "writer_for planned state"
  shows "planned_target state columns \<longleftrightarrow>
     validate_bulk_target_columns columns (writer_mappings state) = Ok ()
     \<and> (is_direct_backend (writer_backend state) \<longrightarrow>
         (\<exists>encoder. writer_direct_encoder state = Some encoder
            \<and> validate_direct_bulk_target_column_types columns (encoder_plan encoder) = Ok ()))"
proof -
  have "planned_target state columns \<longleftrightarrow> length columns = length (writer_mappings state)
      \<and> (\<forall>i < length (writer_mappings state). fits_position i (columns ! i) (writer_mappings state ! i))
      \<and> (is_direct_backend (writer_backend state) \<longrightarrow> (\<forall>i < length (writer_mappings state).
           takes_type (target_type (writer_mappings state ! i))
             (column_nullable (mapping_mssql (writer_mappings state ! i))) (columns ! i)))"
    by (auto simp: planned_target_def list_all2_conv_all_nth nth_enumerate_eq)
  moreover have "\<exists>encoder. writer_direct_encoder state = Some encoder
      \<and> encoder_new_with_context (writer_mappings state) (writer_context state) = Ok encoder"
    if "is_direct_backend (writer_backend state)"
    using assms that by (auto simp: writer_for_def is_direct_backend_def)
  ultimately show ?thesis
    using bulk_target_validation(1) direct_target_validation(1) by fastforce
qed


end
