(* ===== verification/SqlReading.thy ===== *)
theory SqlReading
  imports Identifiers
begin

text \<open>
  The receiving side of the metadata queries of \<^verbatim>\<open>src/connection.rs\<close>: a reader and an evaluator of a
  fragment of T-SQL. A query text is split into words, delimited names, Unicode string literals and
  symbols, parsed into a small abstract syntax, and evaluated over the tables of a database. The
  theory is specification only, written from the grammar of T-SQL with its own keywords; nothing of it is
  taken from the texts the code sends.
\<close>

subsection \<open>Tokens\<close>

datatype sql_token =
    SqlWord rstr
  | SqlName rstr
  | SqlString rstr
  | SqlSymbol nat

text \<open>The body of a string literal: two quotes stand for one, a single quote ends it.\<close>

fun read_quoted_body :: "rstr \<Rightarrow> (rstr \<times> rstr) option" where
  "read_quoted_body [] = None"
| "read_quoted_body (c # cs) =
     (if c = 39
      then (case cs of
              d # ds \<Rightarrow> if d = 39 then map_option (\<lambda>(v, r). (39 # v, r)) (read_quoted_body ds)
                       else Some ([], cs)
            | [] \<Rightarrow> Some ([], []))
      else map_option (\<lambda>(v, r). (c # v, r)) (read_quoted_body cs))"

lemma read_quoted_body_shorter: "read_quoted_body cs = Some (v, r) \<Longrightarrow> length r < length cs"
  by (induction cs arbitrary: v r rule: read_quoted_body.induct)
    (fastforce split: if_splits list.splits)+

lemma read_bracket_body_shorter: "read_bracket_body cs = Some (v, r) \<Longrightarrow> length r < length cs"
  by (induction cs arbitrary: v r rule: read_bracket_body.induct)
    (fastforce split: if_splits list.splits)+

definition word_char :: "nat \<Rightarrow> bool" where
  "word_char c \<longleftrightarrow> 48 \<le> c \<and> c \<le> 57 \<or> 65 \<le> c \<and> c \<le> 90 \<or> 97 \<le> c \<and> c \<le> 122 \<or> c = 95"

text \<open>White space separates; \<^verbatim>\<open>N'\<close> opens a string, a bracket a name; a word is as long as possible.\<close>

function sql_tokens :: "rstr \<Rightarrow> sql_token list option" where
  "sql_tokens [] = Some []"
| "sql_tokens (c # cs) =
     (if c = 32 then sql_tokens cs
      else if c = 78 \<and> starts_with 39 cs
      then (case read_quoted_body (tl cs) of
              None \<Rightarrow> None
            | Some (v, r) \<Rightarrow> map_option ((#) (SqlString v)) (sql_tokens r))
      else if c = 91
      then (case read_bracket_body cs of
              None \<Rightarrow> None
            | Some (v, r) \<Rightarrow> map_option ((#) (SqlName v)) (sql_tokens r))
      else if word_char c
      then map_option ((#) (SqlWord (c # takeWhile word_char cs))) (sql_tokens (dropWhile word_char cs))
      else map_option ((#) (SqlSymbol c)) (sql_tokens cs))"
  by pat_completeness auto
termination
  by (relation "measure length")
    (auto dest!: read_quoted_body_shorter read_bracket_body_shorter simp: length_dropWhile_le le_imp_less_Suc)

subsection \<open>Syntax\<close>

datatype sql_operand = SqlColumn rstr rstr | SqlText rstr

datatype sql_condition = SqlEqual sql_operand sql_operand | SqlDifferent sql_operand sql_operand

text \<open>\<^verbatim>\<open>SELECT CASE WHEN EXISTS (SELECT \<dots> FROM s JOIN s ON c WHERE c AND \<dots>) THEN b ELSE b END AS n\<close>, and
  \<^verbatim>\<open>SELECT COUNT_BIG(*) AS n FROM t\<close>. A source is a table and its alias.\<close>

datatype sql_query =
    SelectExists "rstr list \<times> rstr" "rstr list \<times> rstr" "sql_condition list" bool bool rstr
  | SelectCount "rstr list" rstr

type_synonym 'a sql_parser = "sql_token list \<Rightarrow> ('a \<times> sql_token list) option"

definition sql_symbol :: "string \<Rightarrow> sql_token" where
  "sql_symbol s = SqlSymbol (hd (lit s))"

definition sql_keyword :: "string \<Rightarrow> sql_token" where
  "sql_keyword s = SqlWord (lit s)"

primrec expect_tokens :: "sql_token list \<Rightarrow> sql_token list \<Rightarrow> sql_token list option" where
  "expect_tokens [] ts = Some ts"
| "expect_tokens (e # es) ts = (case ts of [] \<Rightarrow> None | t # ts \<Rightarrow> if t = e then expect_tokens es ts else None)"

fun name_part :: "sql_token \<Rightarrow> rstr option" where
  "name_part (SqlWord w) = Some w"
| "name_part (SqlName n) = Some n"
| "name_part _ = None"

text \<open>A name of several parts.\<close>

fun parse_sql_name :: "rstr list sql_parser" where
  "parse_sql_name [] = None"
| "parse_sql_name (t # ts) =
     Option.bind (name_part t) (\<lambda>part.
       case ts of
         d # rest \<Rightarrow> if d = SqlSymbol 46 then map_option (apfst (Cons part)) (parse_sql_name rest)
                    else Some ([part], ts)
       | [] \<Rightarrow> Some ([part], []))"

definition parse_sql_alias :: "rstr sql_parser" where
  "parse_sql_alias ts =
     Option.bind (expect_tokens [sql_keyword ''AS''] ts) (\<lambda>ts.
       case ts of t # ts \<Rightarrow> map_option (\<lambda>n. (n, ts)) (name_part t) | [] \<Rightarrow> None)"

definition parse_sql_source :: "(rstr list \<times> rstr) sql_parser" where
  "parse_sql_source ts =
     Option.bind (parse_sql_name ts) (\<lambda>(name, ts). map_option (apfst (Pair name)) (parse_sql_alias ts))"

definition parse_sql_operand :: "sql_operand sql_parser" where
  "parse_sql_operand ts =
     (case ts of
        SqlString v # ts \<Rightarrow> Some (SqlText v, ts)
      | _ \<Rightarrow> Option.bind (parse_sql_name ts) (\<lambda>(name, ts).
          case name of [source, column] \<Rightarrow> Some (SqlColumn source column, ts) | _ \<Rightarrow> None))"

definition parse_sql_condition :: "sql_condition sql_parser" where
  "parse_sql_condition ts =
     Option.bind (parse_sql_operand ts) (\<lambda>(a, ts).
       case expect_tokens [sql_symbol ''=''] ts of
         Some ts \<Rightarrow> map_option (apfst (SqlEqual a)) (parse_sql_operand ts)
       | None \<Rightarrow>
           Option.bind (expect_tokens [sql_symbol ''<'', sql_symbol ''>''] ts) (\<lambda>ts.
             map_option (apfst (SqlDifferent a)) (parse_sql_operand ts)))"

text \<open>A conjunction of at most so many conditions.\<close>

primrec parse_sql_conjunction :: "nat \<Rightarrow> sql_condition list sql_parser" where
  "parse_sql_conjunction 0 ts = None"
| "parse_sql_conjunction (Suc n) ts =
     Option.bind (parse_sql_condition ts) (\<lambda>(c, ts).
       case expect_tokens [sql_keyword ''AND''] ts of
         Some ts \<Rightarrow> map_option (apfst (Cons c)) (parse_sql_conjunction n ts)
       | None \<Rightarrow> Some ([c], ts))"

definition parse_sql_bit :: "bool sql_parser" where
  "parse_sql_bit ts =
     Option.bind (expect_tokens [sql_keyword ''CAST'', sql_symbol ''(''] ts) (\<lambda>ts.
       case ts of
         t # ts \<Rightarrow>
           Option.bind (if t = sql_keyword ''1'' then Some True
                        else if t = sql_keyword ''0'' then Some False else None) (\<lambda>b.
           map_option (Pair b) (expect_tokens [sql_keyword ''AS'', sql_keyword ''bit'', sql_symbol '')''] ts))
       | [] \<Rightarrow> None)"

definition parse_sql_exists :: "sql_query sql_parser" where
  "parse_sql_exists ts =
     Option.bind (expect_tokens (map sql_keyword [''SELECT'', ''CASE'', ''WHEN'', ''EXISTS''] @ [sql_symbol ''('']
         @ map sql_keyword [''SELECT'', ''1'', ''FROM'']) ts) (\<lambda>ts.
     Option.bind (parse_sql_source ts) (\<lambda>(s1, ts).
     Option.bind (expect_tokens (map sql_keyword [''INNER'', ''JOIN'']) ts) (\<lambda>ts.
     Option.bind (parse_sql_source ts) (\<lambda>(s2, ts).
     Option.bind (expect_tokens [sql_keyword ''ON''] ts) (\<lambda>ts.
     Option.bind (parse_sql_condition ts) (\<lambda>(on, ts).
     Option.bind (expect_tokens [sql_keyword ''WHERE''] ts) (\<lambda>ts.
     Option.bind (parse_sql_conjunction (length ts) ts) (\<lambda>(conditions, ts).
     Option.bind (expect_tokens [sql_symbol '')'', sql_keyword ''THEN''] ts) (\<lambda>ts.
     Option.bind (parse_sql_bit ts) (\<lambda>(yes, ts).
     Option.bind (expect_tokens [sql_keyword ''ELSE''] ts) (\<lambda>ts.
     Option.bind (parse_sql_bit ts) (\<lambda>(no, ts).
     Option.bind (expect_tokens [sql_keyword ''END''] ts) (\<lambda>ts.
     map_option (apfst (SelectExists s1 s2 (on # conditions) yes no)) (parse_sql_alias ts))))))))))))))"

definition parse_sql_count :: "sql_query sql_parser" where
  "parse_sql_count ts =
     Option.bind (expect_tokens (map sql_keyword [''SELECT'', ''COUNT_BIG'']
         @ map sql_symbol [''('', ''*'', '')'']) ts) (\<lambda>ts.
     Option.bind (parse_sql_alias ts) (\<lambda>(column, ts).
     Option.bind (expect_tokens [sql_keyword ''FROM''] ts) (\<lambda>ts.
     map_option (apfst (\<lambda>name. SelectCount name column)) (parse_sql_name ts))))"

definition read_sql :: "rstr \<Rightarrow> sql_query option" where
  "read_sql text =
     Option.bind (sql_tokens text) (\<lambda>ts.
       case parse_sql_exists ts of
         Some (q, []) \<Rightarrow> Some q
       | _ \<Rightarrow> (case parse_sql_count ts of Some (q, []) \<Rightarrow> Some q | _ \<Rightarrow> None))"

subsection \<open>Meaning\<close>

datatype sql_value = SqlInt int | SqlChars rstr | SqlBit bool

text \<open>A row gives the values of its columns; a column that is missing or \<^verbatim>\<open>NULL\<close> has none. A database
  resolves a table name to its rows. Texts are compared under a collation.\<close>

type_synonym sql_row = "rstr \<Rightarrow> sql_value option"
type_synonym sql_database = "rstr list \<Rightarrow> sql_row list option"

fun same_sql_value :: "(rstr \<Rightarrow> rstr \<Rightarrow> bool) \<Rightarrow> sql_value \<Rightarrow> sql_value \<Rightarrow> bool" where
  "same_sql_value collation (SqlInt i) (SqlInt j) \<longleftrightarrow> i = j"
| "same_sql_value collation (SqlBit a) (SqlBit b) \<longleftrightarrow> a = b"
| "same_sql_value collation (SqlChars a) (SqlChars b) \<longleftrightarrow> collation a b"
| "same_sql_value collation _ _ \<longleftrightarrow> False"

fun operand_value :: "(rstr \<Rightarrow> sql_row option) \<Rightarrow> sql_operand \<Rightarrow> sql_value option" where
  "operand_value sources (SqlColumn source column) = Option.bind (sources source) (\<lambda>row. row column)"
| "operand_value sources (SqlText v) = Some (SqlChars v)"

fun condition_holds :: "(rstr \<Rightarrow> rstr \<Rightarrow> bool) \<Rightarrow> (rstr \<Rightarrow> sql_row option) \<Rightarrow> sql_condition \<Rightarrow> bool" where
  "condition_holds collation sources (SqlEqual a b) =
     (case (operand_value sources a, operand_value sources b) of
        (Some v, Some w) \<Rightarrow> same_sql_value collation v w | _ \<Rightarrow> False)"
| "condition_holds collation sources (SqlDifferent a b) =
     (case (operand_value sources a, operand_value sources b) of
        (Some v, Some w) \<Rightarrow> \<not> same_sql_value collation v w | _ \<Rightarrow> False)"

text \<open>The name and the value of the one column of the one row of a result; \<^verbatim>\<open>None\<close> is an error.\<close>

fun sql_result :: "(rstr \<Rightarrow> rstr \<Rightarrow> bool) \<Rightarrow> sql_database \<Rightarrow> sql_query \<Rightarrow> (rstr \<times> sql_value) option" where
  "sql_result collation db (SelectExists (t1, a1) (t2, a2) conditions yes no column) =
     (case (db t1, db t2) of
        (Some rows1, Some rows2) \<Rightarrow>
          Some (column, SqlBit (if list_ex (\<lambda>row1. list_ex (\<lambda>row2.
              list_all (condition_holds collation [a1 \<mapsto> row1, a2 \<mapsto> row2]) conditions) rows2) rows1
            then yes else no))
      | _ \<Rightarrow> None)"
| "sql_result collation db (SelectCount name column) =
     map_option (\<lambda>rows. (column, SqlInt (int (length rows)))) (db name)"

subsection \<open>Reading texts in parts\<close>

declare sql_tokens.simps(2) [simp del]

lemma sql_tokens_space [simp]: "sql_tokens (32 # cs) = sql_tokens cs"
  by (simp add: sql_tokens.simps(2))

lemma sql_tokens_symbol:
  "c \<notin> {32, 91} \<Longrightarrow> \<not> word_char c \<Longrightarrow> sql_tokens (c # cs) = map_option ((#) (SqlSymbol c)) (sql_tokens cs)"
  by (auto simp: sql_tokens.simps(2) [of c] word_char_def)

lemma sql_tokens_name:
  "read_bracketed cs = Some (v, r) \<Longrightarrow> sql_tokens cs = map_option ((#) (SqlName v)) (sql_tokens r)"
  by (cases cs) (auto simp: sql_tokens.simps(2) split: if_splits)

lemma sql_tokens_string:
  "read_quoted_body cs = Some (v, r) \<Longrightarrow>
     sql_tokens (78 # 39 # cs) = map_option ((#) (SqlString v)) (sql_tokens r)"
  by (simp add: sql_tokens.simps(2) [of 78])

lemmas sql_text_simps = sql_tokens.simps(2) word_char_def lit_def sql_keyword_def sql_symbol_def option.map_comp comp_def

end
