(* ===== verification/Connections.thy ===== *)
theory Connections
  imports Writer SqlReading
begin

text \<open>
  Connections: \<^verbatim>\<open>src/connection.rs\<close>. The connected client and its probes, statements and bulk writers.

  The configuration parser, the socket and the queries of the tiberius crate are parameters: records
  of the calls the code makes. What a SQL Server answers to the two metadata queries is the condition
  \<^verbatim>\<open>speaks_sql\<close> on the client: it answers any query text of the T-SQL fragment of \<^verbatim>\<open>SqlReading\<close> as that
  theory evaluates it over a database. The texts themselves are only read, never compared with.
\<close>

subsection \<open>Connecting\<close>

record ('cfg, 'tcp, 's) connector =
  con_from_ado_string :: "rstr \<Rightarrow> external_error + 'cfg"
  con_tcp_connect :: "'cfg \<Rightarrow> external_error + 'tcp"
  con_set_nodelay :: "'tcp \<Rightarrow> external_error + 'tcp"
  con_client_connect :: "'cfg \<Rightarrow> 'tcp \<Rightarrow> external_error + 's"

definition connect_mssql_client_from_ado_string ::
    "('cfg, 'tcp, 's) connector \<Rightarrow> rstr \<Rightarrow> error + 's" where
  "connect_mssql_client_from_ado_string con connection_string =
     and_then (map_err (\<lambda>_. InvalidConnectionString) (con_from_ado_string con connection_string)) (\<lambda>config.
     and_then (map_err ConnectionTcpConnect (con_tcp_connect con config)) (\<lambda>tcp.
     and_then (map_err ConnectionTcpConnect (con_set_nodelay con tcp)) (\<lambda>tcp.
     map_err ConnectionClientSetup (con_client_connect con config tcp))))"

subsection \<open>The metadata queries\<close>

definition sql_string_literal :: "rstr \<Rightarrow> rstr" where
  "sql_string_literal v = lit ''N'' @ [39] @ concat (map (\<lambda>c. if c = 39 then [39, 39] else [c]) v) @ [39]"

primrec join_text :: "rstr \<Rightarrow> rstr list \<Rightarrow> rstr" where
  "join_text sep [] = []"
| "join_text sep (x # xs) = (if xs = [] then x else x @ sep @ join_text sep xs)"

definition EXISTS_QUERY_HEAD :: rstr where
  "EXISTS_QUERY_HEAD = lit ''SELECT CASE WHEN EXISTS (SELECT 1 FROM sys.tables AS t INNER JOIN sys.schemas AS s ON s.schema_id = t.schema_id WHERE ''"

definition EXISTS_QUERY_TAIL :: rstr where
  "EXISTS_QUERY_TAIL = lit '') THEN CAST(1 AS bit) ELSE CAST(0 AS bit) END AS [exists]''"

definition table_exists_query :: "table_name \<Rightarrow> rstr" where
  "table_exists_query table =
     (let conditions = [lit ''t.name = '' @ sql_string_literal (identifier_as_str (table_table table))];
          conditions =
            (case table_schema table of
               Some schema \<Rightarrow> conditions @ [lit ''s.name = '' @ sql_string_literal (identifier_as_str schema)]
             | None \<Rightarrow> conditions)
      in EXISTS_QUERY_HEAD @ join_text (lit '' AND '') conditions @ EXISTS_QUERY_TAIL)"

definition COUNT_QUERY_HEAD :: rstr where
  "COUNT_QUERY_HEAD = lit ''SELECT COUNT_BIG(*) AS [row_count] FROM ''"

definition target_row_count_query :: "table_name \<Rightarrow> rstr" where
  "target_row_count_query table = COUNT_QUERY_HEAD @ table_quoted_sql table"

definition count_big_i64_to_u64 :: "i64 \<Rightarrow> error + u64" where
  "count_big_i64_to_u64 count =
     (if 0 \<le> sint count then Ok (word_of_int (sint count))
      else Err (TargetRowCountUnexpectedResult (lit ''target row count was outside the supported range'')))"

subsection \<open>The client\<close>

record ('s, 'stream, 'row) sql_client =
  cl_simple_query :: "rstr \<Rightarrow> 's \<Rightarrow> (external_error + 'stream) \<times> 's"
  cl_into_row :: "'stream \<Rightarrow> 's \<Rightarrow> (external_error + 'row option) \<times> 's"
  cl_get_bit :: "'row \<Rightarrow> rstr \<Rightarrow> external_error + bool option"
  cl_get_bigint :: "'row \<Rightarrow> rstr \<Rightarrow> external_error + i64 option"
  cl_execute :: "rstr \<Rightarrow> 's \<Rightarrow> (external_error + u64 list) \<times> 's"

text \<open>The chain of calls both probes share: a query, its first row, a column of it.\<close>

definition query_cell ::
    "('s, 'stream, 'row) sql_client \<Rightarrow> (external_error \<Rightarrow> error) \<Rightarrow> (rstr \<Rightarrow> error) \<Rightarrow> rstr \<Rightarrow> rstr
      \<Rightarrow> ('row \<Rightarrow> external_error + 'v option) \<Rightarrow> rstr \<Rightarrow> 's \<Rightarrow> (error + 'v) \<times> 's" where
  "query_cell cl failed unexpected no_rows null_value get query s =
     (case cl_simple_query cl query s of
        (Err e, s) \<Rightarrow> (Err (failed e), s)
      | (Ok stream, s) \<Rightarrow>
          (case cl_into_row cl stream s of
             (Err e, s) \<Rightarrow> (Err (failed e), s)
           | (Ok row, s) \<Rightarrow>
               (and_then (ok_or (unexpected no_rows) row) (\<lambda>row.
                and_then (map_err failed (get row)) (\<lambda>value.
                ok_or (unexpected null_value) value)), s)))"

definition table_exists ::
    "('s, 'stream, 'row) sql_client \<Rightarrow> table_name \<Rightarrow> 's \<Rightarrow> (error + bool) \<times> 's" where
  "table_exists cl table s =
     query_cell cl TableExistsQuery TableExistsUnexpectedResult
       (lit ''metadata query returned no rows'') (lit ''metadata query returned NULL'')
       (\<lambda>row. cl_get_bit cl row (lit ''exists'')) (table_exists_query table) s"

definition target_row_count ::
    "('s, 'stream, 'row) sql_client \<Rightarrow> table_name \<Rightarrow> 's \<Rightarrow> (error + u64) \<times> 's" where
  "target_row_count cl table s =
     (let (count, s) =
        query_cell cl TargetRowCountQuery TargetRowCountUnexpectedResult
          (lit ''target row count query returned no rows'') (lit ''target row count query returned NULL'')
          (\<lambda>row. cl_get_bigint cl row (lit ''row_count'')) (target_row_count_query table) s
      in (and_then count count_big_i64_to_u64, s))"

record sql_execution_outcome =
  rows_affected :: "u64 list"

text \<open>The sum of the counts; the additions wrap in a build without overflow checks.\<close>

definition total_rows_affected :: "sql_execution_outcome \<Rightarrow> u64" where
  "total_rows_affected outcome = foldl (+) 0 (rows_affected outcome)"

definition execute_statement ::
    "('s, 'stream, 'row) sql_client \<Rightarrow> rstr \<Rightarrow> 's \<Rightarrow> (error + sql_execution_outcome) \<times> 's" where
  "execute_statement cl sql s =
     (let (result, s) = cl_execute cl sql s in
      (and_then (map_err SqlExecution result) (\<lambda>counts. Ok \<lparr>rows_affected = counts\<rparr>), s))"

text \<open>The writer of a connected client is the bulk writer on the same connection.\<close>

definition connected_bulk_writer ::
    "'s bulk_driver \<Rightarrow> table_name \<Rightarrow> planned_schema \<Rightarrow> write_options \<Rightarrow> 's \<Rightarrow> (error + writer_state) \<times> 's" where
  "connected_bulk_writer drv table planned options s = bulk_writer_new drv table planned options s"

definition connected_write_batch ::
    "'s bulk_driver \<Rightarrow> fast_path_flags \<Rightarrow> 'tz timezone_db \<Rightarrow> record_batch \<Rightarrow> writer_state \<times> 's
      \<Rightarrow> ((error + write_stats) \<times> writer_state \<times> 's) option" where
  "connected_write_batch drv flags db batch w = write_batch drv flags db batch w"

definition connected_finish :: "'s bulk_driver \<Rightarrow> writer_state \<times> 's \<Rightarrow> (error + write_stats) \<times> 's" where
  "connected_finish drv w = finish_writer drv w"

subsection \<open>Reading the queries as SQL\<close>

lemma read_quoted_literal:
  assumes "\<not> starts_with 39 rest"
  shows "read_quoted_body (concat (map (\<lambda>c. if c = 39 then [39, 39] else [c]) v) @ 39 # rest) = Some (v, rest)"
proof (induction v)
  case Nil
  then show ?case using assms by (cases rest) auto
qed auto

lemma sql_tokens_literal:
  assumes "\<not> starts_with 39 r" "sql_tokens r = Some ts"
  shows "sql_tokens (sql_string_literal v @ r) = Some (SqlString v # ts)"
  using sql_tokens_string [OF read_quoted_literal [OF assms(1), of v]] assms(2)
  by (simp add: sql_string_literal_def lit_def)

lemma condition_tokens:
  assumes "\<not> starts_with 39 r" "sql_tokens r = Some ts"
  shows "sql_tokens (lit ''t.name = '' @ sql_string_literal v @ r)
      = Some (sql_keyword ''t'' # sql_symbol ''.'' # sql_keyword ''name'' # sql_symbol ''='' # SqlString v # ts)"
    "sql_tokens (lit ''s.name = '' @ sql_string_literal v @ r)
      = Some (sql_keyword ''s'' # sql_symbol ''.'' # sql_keyword ''name'' # sql_symbol ''='' # SqlString v # ts)"
proof -
  note literal = sql_tokens_literal [OF assms, of v]
  have "sql_tokens (lit ''t.name = '' @ x) = map_option (\<lambda>ts. sql_keyword ''t'' # sql_symbol ''.''
      # sql_keyword ''name'' # sql_symbol ''='' # ts) (sql_tokens x)"
    "sql_tokens (lit ''s.name = '' @ x) = map_option (\<lambda>ts. sql_keyword ''s'' # sql_symbol ''.''
      # sql_keyword ''name'' # sql_symbol ''='' # ts) (sql_tokens x)" for x
    by (simp_all add: sql_text_simps)
  with literal show "sql_tokens (lit ''t.name = '' @ sql_string_literal v @ r)
      = Some (sql_keyword ''t'' # sql_symbol ''.'' # sql_keyword ''name'' # sql_symbol ''='' # SqlString v # ts)"
    "sql_tokens (lit ''s.name = '' @ sql_string_literal v @ r)
      = Some (sql_keyword ''s'' # sql_symbol ''.'' # sql_keyword ''name'' # sql_symbol ''='' # SqlString v # ts)"
    by simp_all
qed

text \<open>What the existence query says.\<close>

definition exists_sql :: "table_name \<Rightarrow> sql_query" where
  "exists_sql table =
     SelectExists ([lit ''sys'', lit ''tables''], lit ''t'') ([lit ''sys'', lit ''schemas''], lit ''s'')
       (SqlEqual (SqlColumn (lit ''s'') (lit ''schema_id'')) (SqlColumn (lit ''t'') (lit ''schema_id''))
        # SqlEqual (SqlColumn (lit ''t'') (lit ''name'')) (SqlText (identifier_as_str (table_table table)))
        # (case table_schema table of
             Some schema \<Rightarrow> [SqlEqual (SqlColumn (lit ''s'') (lit ''name'')) (SqlText (identifier_as_str schema))]
           | None \<Rightarrow> []))
       True False (lit ''exists'')"

definition name_parts :: "table_name \<Rightarrow> rstr list" where
  "name_parts table =
     (case table_schema table of
        Some schema \<Rightarrow> [identifier_as_str schema, identifier_as_str (table_table table)]
      | None \<Rightarrow> [identifier_as_str (table_table table)])"

lemma exists_head_tokens:
  "sql_tokens (EXISTS_QUERY_HEAD @ r) = map_option ((@)
     (map sql_keyword [''SELECT'', ''CASE'', ''WHEN'', ''EXISTS''] @ [sql_symbol ''('']
      @ map sql_keyword [''SELECT'', ''1'', ''FROM''] @ [sql_keyword ''sys'', sql_symbol ''.'']
      @ map sql_keyword [''tables'', ''AS'', ''t'', ''INNER'', ''JOIN'', ''sys''] @ [sql_symbol ''.'']
      @ map sql_keyword [''schemas'', ''AS'', ''s'', ''ON'', ''s''] @ [sql_symbol ''.'', sql_keyword ''schema_id'']
      @ [sql_symbol ''='', sql_keyword ''t'', sql_symbol ''.'', sql_keyword ''schema_id'', sql_keyword ''WHERE'']))
     (sql_tokens r)"
  by (cases "sql_tokens r") (simp_all add: EXISTS_QUERY_HEAD_def sql_text_simps)

lemma exists_tail_tokens:
  "sql_tokens EXISTS_QUERY_TAIL = Some ([sql_symbol '')'', sql_keyword ''THEN'', sql_keyword ''CAST'', sql_symbol ''('']
     @ map sql_keyword [''1'', ''AS'', ''bit''] @ [sql_symbol '')'', sql_keyword ''ELSE'', sql_keyword ''CAST'']
     @ [sql_symbol ''('', sql_keyword ''0'', sql_keyword ''AS'', sql_keyword ''bit'', sql_symbol '')'']
     @ [sql_keyword ''END'', sql_keyword ''AS'', SqlName (lit ''exists'')])"
  by (simp add: EXISTS_QUERY_TAIL_def sql_text_simps)

lemmas sql_parse_simps = parse_sql_exists_def parse_sql_count_def parse_sql_source_def parse_sql_alias_def
  parse_sql_condition_def parse_sql_operand_def parse_sql_bit_def sql_keyword_def sql_symbol_def lit_def

lemma read_exists_query: "read_sql (table_exists_query table) = Some (exists_sql table)"
proof -
  let ?t = "identifier_as_str (table_table table)"
  have tail: "\<not> starts_with 39 EXISTS_QUERY_TAIL" by (simp add: EXISTS_QUERY_TAIL_def lit_def)
  have more: "\<not> starts_with 39 (lit '' AND '' @ r)" for r by (simp add: lit_def)
  have conj: "sql_tokens (lit '' AND '' @ r) = map_option ((#) (sql_keyword ''AND'')) (sql_tokens r)" for r
    by (simp add: sql_text_simps)
  show ?thesis
  proof (cases "table_schema table")
    case None
    note tokens = condition_tokens(1) [OF tail exists_tail_tokens, of ?t]
    from None have "table_exists_query table
        = EXISTS_QUERY_HEAD @ lit ''t.name = '' @ sql_string_literal ?t @ EXISTS_QUERY_TAIL"
      by (simp add: table_exists_query_def)
    with None tokens show ?thesis
      by (simp add: read_sql_def exists_head_tokens exists_sql_def) (simp add: sql_parse_simps)
  next
    case (Some schema)
    let ?s = "identifier_as_str schema"
    note tokens = condition_tokens(2) [OF tail exists_tail_tokens, of ?s]
    from conj tokens have "sql_tokens (lit '' AND '' @ lit ''s.name = '' @ sql_string_literal ?s @ EXISTS_QUERY_TAIL)
      = Some (sql_keyword ''AND'' # the (sql_tokens (lit ''s.name = '' @ sql_string_literal ?s @ EXISTS_QUERY_TAIL)))"
      by simp
    note more_tokens = condition_tokens(1) [OF more this, of ?t]
    from Some have "table_exists_query table = EXISTS_QUERY_HEAD @ lit ''t.name = '' @ sql_string_literal ?t
        @ lit '' AND '' @ lit ''s.name = '' @ sql_string_literal ?s @ EXISTS_QUERY_TAIL"
      by (simp add: table_exists_query_def)
    with Some more_tokens tokens show ?thesis
      by (simp add: read_sql_def exists_head_tokens exists_sql_def) (simp add: sql_parse_simps)
  qed
qed

lemma quoted_name_tokens:
  "sql_tokens (table_quoted_sql table) = Some (case table_schema table of
     Some schema \<Rightarrow> [SqlName (identifier_as_str schema), sql_symbol ''.'', SqlName (identifier_as_str (table_table table))]
   | None \<Rightarrow> [SqlName (identifier_as_str (table_table table))])"
proof -
  have name: "sql_tokens (bracket_quote v @ r) = map_option ((#) (SqlName v)) (sql_tokens r)"
    if "\<not> starts_with 93 r" for v r
    by (rule sql_tokens_name [OF read_bracketed_quoted [OF that]])
  have last: "sql_tokens (bracket_quote v) = Some [SqlName v]" for v using name [of "[]" v] by simp
  have dot: "sql_tokens (46 # r) = map_option ((#) (SqlSymbol 46)) (sql_tokens r)" for r
    by (simp add: sql_tokens_symbol word_char_def)
  show ?thesis
    using name [of "46 # r" for r]
    by (simp add: table_quoted_sql_def identifier_quoted_sql_def last dot lit_def sql_symbol_def split: option.split)
qed

lemma count_head_tokens:
  "sql_tokens (COUNT_QUERY_HEAD @ r) = map_option ((@)
     (map sql_keyword [''SELECT'', ''COUNT_BIG''] @ map sql_symbol [''('', ''*'', '')'']
      @ [sql_keyword ''AS'', SqlName (lit ''row_count''), sql_keyword ''FROM''])) (sql_tokens r)"
  by (cases "sql_tokens r") (simp_all add: COUNT_QUERY_HEAD_def sql_text_simps)

lemma read_count_query:
  "read_sql (target_row_count_query table) = Some (SelectCount (name_parts table) (lit ''row_count''))"
  by (cases "table_schema table")
    (simp_all add: read_sql_def target_row_count_query_def count_head_tokens quoted_name_tokens name_parts_def,
      simp_all add: sql_parse_simps)

subsection \<open>What a server answers\<close>

text \<open>A client that answers with one row and one value in the named column.\<close>

definition answers_with ::
    "('s, 'stream, 'row) sql_client \<Rightarrow> ('row \<Rightarrow> rstr \<Rightarrow> external_error + 'v option) \<Rightarrow> rstr \<Rightarrow> rstr \<Rightarrow> 'v \<Rightarrow> bool" where
  "answers_with cl get query name value \<longleftrightarrow>
     (\<forall>s. \<exists>stream s1 row s2. cl_simple_query cl query s = (Ok stream, s1)
        \<and> cl_into_row cl stream s1 = (Ok (Some row), s2) \<and> get row name = Ok (Some value))"

text \<open>A client whose server answers queries of the fragment from its database: an error, or one row
  with one value of its type. \<^verbatim>\<open>COUNT_BIG\<close> counts up to 2^63 - 1.\<close>

definition speaks_sql ::
    "('s, 'stream, 'row) sql_client \<Rightarrow> (rstr \<Rightarrow> rstr \<Rightarrow> bool) \<Rightarrow> sql_database \<Rightarrow> bool" where
  "speaks_sql cl collation db \<longleftrightarrow>
     (\<forall>query q. read_sql query = Some q \<longrightarrow>
        (case sql_result collation db q of
           None \<Rightarrow> \<forall>s. \<exists>e. fst (cl_simple_query cl query s) = Err e
         | Some (column, SqlBit b) \<Rightarrow> answers_with cl (cl_get_bit cl) query column b
         | Some (column, SqlInt i) \<Rightarrow>
             0 \<le> i \<and> i < 2 ^ 63 \<longrightarrow> answers_with cl (cl_get_bigint cl) query column (word_of_int i)
         | Some (column, SqlChars v) \<Rightarrow> True))"

text \<open>The catalog views of a database: the tables with the identifiers of their schemas, and the
  schemas.\<close>

definition catalog_row :: "sql_row \<Rightarrow> rstr \<times> int \<Rightarrow> bool" where
  "catalog_row row entry \<longleftrightarrow>
     row (lit ''name'') = Some (SqlChars (fst entry)) \<and> row (lit ''schema_id'') = Some (SqlInt (snd entry))"

definition catalog_views :: "sql_database \<Rightarrow> (rstr \<times> int) list \<Rightarrow> (rstr \<times> int) list \<Rightarrow> bool" where
  "catalog_views db tables schemas \<longleftrightarrow>
     (\<exists>rows1 rows2. db [lit ''sys'', lit ''tables''] = Some rows1 \<and> db [lit ''sys'', lit ''schemas''] = Some rows2
        \<and> list_all2 catalog_row rows1 tables \<and> list_all2 catalog_row rows2 schemas)"

lemma list_ex_all2: "list_all2 R xs ys \<Longrightarrow> (\<And>x y. R x y \<Longrightarrow> P x = Q y) \<Longrightarrow> list_ex P xs = list_ex Q ys"
  by (induction rule: list_all2_induct) auto

lemma exists_sql_result:
  assumes "catalog_views db tables schemas"
  shows "sql_result collation db (exists_sql table) = Some (lit ''exists'', SqlBit
    (\<exists>(name, sid) \<in> set tables. collation name (identifier_as_str (table_table table))
       \<and> (\<exists>(schema, schema_id) \<in> set schemas. schema_id = sid
            \<and> pred_option (\<lambda>s. collation schema (identifier_as_str s)) (table_schema table))))"
proof -
  from assms obtain rows1 rows2 where
    db: "db [lit ''sys'', lit ''tables''] = Some rows1" "db [lit ''sys'', lit ''schemas''] = Some rows2"
    and rows: "list_all2 catalog_row rows1 tables" "list_all2 catalog_row rows2 schemas"
    by (auto simp: catalog_views_def)
  let ?conditions = "SqlEqual (SqlColumn (lit ''s'') (lit ''schema_id'')) (SqlColumn (lit ''t'') (lit ''schema_id''))
        # SqlEqual (SqlColumn (lit ''t'') (lit ''name'')) (SqlText (identifier_as_str (table_table table)))
        # (case table_schema table of
             Some schema \<Rightarrow> [SqlEqual (SqlColumn (lit ''s'') (lit ''name'')) (SqlText (identifier_as_str schema))]
           | None \<Rightarrow> [])"
  have aliases: "lit ''t'' \<noteq> lit ''s''" by (simp add: lit_def)
  have match: "list_all (condition_holds collation [lit ''t'' \<mapsto> row1, lit ''s'' \<mapsto> row2]) ?conditions
      \<longleftrightarrow> snd schema = snd entry \<and> collation (fst entry) (identifier_as_str (table_table table))
        \<and> pred_option (\<lambda>s. collation (fst schema) (identifier_as_str s)) (table_schema table)"
    if "catalog_row row1 entry" "catalog_row row2 schema" for row1 row2 entry schema
    using that aliases by (auto simp: catalog_row_def split: option.split)
  have "list_ex (\<lambda>row1. list_ex (\<lambda>row2.
        list_all (condition_holds collation [lit ''t'' \<mapsto> row1, lit ''s'' \<mapsto> row2]) ?conditions) rows2) rows1
      = list_ex (\<lambda>entry. list_ex (\<lambda>schema. snd schema = snd entry
          \<and> collation (fst entry) (identifier_as_str (table_table table))
          \<and> pred_option (\<lambda>s. collation (fst schema) (identifier_as_str s)) (table_schema table)) schemas) tables"
    by (intro list_ex_all2 [OF rows(1)] list_ex_all2 [OF rows(2)] match)
  then show ?thesis
    by (auto simp: exists_sql_def db list_ex_iff case_prod_beta simp del: condition_holds.simps list.pred_inject)
qed

lemma query_cell_answered:
  assumes "answers_with cl get query name value"
  shows "fst (query_cell cl failed unexpected no_rows null_value (\<lambda>row. get row name) query s) = Ok value"
proof -
  from assms obtain stream s1 row s2 where
    "cl_simple_query cl query s = (Ok stream, s1)" "cl_into_row cl stream s1 = (Ok (Some row), s2)"
    "get row name = Ok (Some value)"
    unfolding answers_with_def by blast
  then show ?thesis by (simp add: query_cell_def)
qed

lemma count_big_of_nat: "n < 2 ^ 63 \<Longrightarrow> count_big_i64_to_u64 (word_of_int (int n)) = Ok (of_nat n)"
proof -
  assume "n < 2 ^ 63"
  then have "sint (of_nat n :: i64) = int n"
    using sint_word_of_int_fits [where 'w = 64, of "int n"] by (simp add: in_signed_def)
  then show ?thesis by (simp add: count_big_i64_to_u64_def)
qed

text \<open>C39: the two metadata probes ask for the table they are given and report what
  the server says of it. On a server that parses query texts of a fragment of T-SQL and evaluates
  them over its database, \<^verbatim>\<open>table_exists\<close> is true exactly when \<^verbatim>\<open>sys.tables\<close> has a table of that name
  in a schema of \<^verbatim>\<open>sys.schemas\<close> (of that name, or any when the name has none), under the collation of the
  server, whatever quotes, brackets or keywords the names contain; and \<^verbatim>\<open>target_row_count\<close> is
  the exact number of rows of the table that the server resolves the name to, or the query error when it resolves it to
  none. The parser and the evaluator are written apart from the code, so that a query that asks
  something else is not answered like this.\<close>

theorem metadata_probes_exact:
  assumes "speaks_sql cl collation db" "catalog_views db tables schemas"
  shows "fst (table_exists cl table s) = Ok (\<exists>(name, sid) \<in> set tables.
        collation name (identifier_as_str (table_table table))
        \<and> (\<exists>(schema, schema_id) \<in> set schemas. schema_id = sid
             \<and> pred_option (\<lambda>s. collation schema (identifier_as_str s)) (table_schema table)))
    \<and> (case db (case table_schema table of
             Some schema \<Rightarrow> [identifier_as_str schema, identifier_as_str (table_table table)]
           | None \<Rightarrow> [identifier_as_str (table_table table)]) of
         Some rows \<Rightarrow> length rows < 2 ^ 63 \<longrightarrow>
           (\<exists>count. fst (target_row_count cl table s) = Ok count \<and> unat count = length rows)
       | None \<Rightarrow> \<exists>e. fst (target_row_count cl table s) = Err (TargetRowCountQuery e))"
proof
  have "answers_with cl (cl_get_bit cl) (table_exists_query table) (lit ''exists'')
      (\<exists>(name, sid) \<in> set tables. collation name (identifier_as_str (table_table table))
        \<and> (\<exists>(schema, schema_id) \<in> set schemas. schema_id = sid
             \<and> pred_option (\<lambda>s. collation schema (identifier_as_str s)) (table_schema table)))"
    using assms(1) [unfolded speaks_sql_def, rule_format, OF read_exists_query]
    by (simp only: exists_sql_result [OF assms(2)] option.case prod.case sql_value.case)
  then show "fst (table_exists cl table s) = Ok (\<exists>(name, sid) \<in> set tables.
        collation name (identifier_as_str (table_table table))
        \<and> (\<exists>(schema, schema_id) \<in> set schemas. schema_id = sid
             \<and> pred_option (\<lambda>s. collation schema (identifier_as_str s)) (table_schema table)))"
    unfolding table_exists_def by (rule query_cell_answered)
  note count = assms(1) [unfolded speaks_sql_def, rule_format, OF read_count_query [of table]]
  show "case db (case table_schema table of
             Some schema \<Rightarrow> [identifier_as_str schema, identifier_as_str (table_table table)]
           | None \<Rightarrow> [identifier_as_str (table_table table)]) of
      Some rows \<Rightarrow> length rows < 2 ^ 63 \<longrightarrow>
        (\<exists>count. fst (target_row_count cl table s) = Ok count \<and> unat count = length rows)
    | None \<Rightarrow> \<exists>e. fst (target_row_count cl table s) = Err (TargetRowCountQuery e)"
    unfolding name_parts_def [symmetric]
  proof (cases "db (name_parts table)")
    case None
    with count have "\<exists>e. fst (cl_simple_query cl (target_row_count_query table) s) = Err e" by simp
    then obtain e where "fst (cl_simple_query cl (target_row_count_query table) s) = Err e" ..
    with None show "case db (name_parts table) of
      Some rows \<Rightarrow> length rows < 2 ^ 63 \<longrightarrow>
        (\<exists>count. fst (target_row_count cl table s) = Ok count \<and> unat count = length rows)
    | None \<Rightarrow> \<exists>e. fst (target_row_count cl table s) = Err (TargetRowCountQuery e)"
      by (cases "cl_simple_query cl (target_row_count_query table) s")
        (simp add: target_row_count_def query_cell_def)
  next
    case (Some rows)
    have "\<exists>count. fst (target_row_count cl table s) = Ok count \<and> unat count = length rows"
      if n: "length rows < 2 ^ 63"
    proof -
      from count Some n have answers: "answers_with cl (cl_get_bigint cl) (target_row_count_query table)
          (lit ''row_count'') (word_of_int (int (length rows)))" by simp
      have "fst (target_row_count cl table s) = Ok (of_nat (length rows))"
        using query_cell_answered [OF answers, of TargetRowCountQuery TargetRowCountUnexpectedResult
            "lit ''target row count query returned no rows''" "lit ''target row count query returned NULL''" s]
        by (simp add: target_row_count_def Let_def case_prod_beta count_big_of_nat [OF n] del: of_int_of_nat_eq)
      moreover have "unat (of_nat (length rows) :: u64) = length rows" using n by (simp add: unat_of_nat)
      ultimately show ?thesis by blast
    qed
    with Some show "case db (name_parts table) of
      Some rows \<Rightarrow> length rows < 2 ^ 63 \<longrightarrow>
        (\<exists>count. fst (target_row_count cl table s) = Ok count \<and> unat count = length rows)
    | None \<Rightarrow> \<exists>e. fst (target_row_count cl table s) = Err (TargetRowCountQuery e)" by simp
  qed
qed

text \<open>A server with one table, for the witness; the streams and rows of its client are the queries.\<close>

definition odd_name :: rstr where
  "odd_name = lit ''it'' @ [39] @ lit ''s]''"

definition example_row :: "rstr \<Rightarrow> int \<Rightarrow> sql_row" where
  "example_row name sid = [lit ''name'' \<mapsto> SqlChars name, lit ''schema_id'' \<mapsto> SqlInt sid]"

definition example_db :: sql_database where
  "example_db = [[lit ''sys'', lit ''tables''] \<mapsto> [example_row odd_name 1],
     [lit ''sys'', lit ''schemas''] \<mapsto> [example_row (lit ''dbo'') 1],
     [lit ''dbo'', odd_name] \<mapsto> replicate 7 (\<lambda>_. None)]"

definition example_client :: "external_error \<Rightarrow> (unit, rstr, rstr) sql_client" where
  "example_client src =
     (let answer = (\<lambda>query. Option.bind (read_sql query) (sql_result (=) example_db)) in
     \<lparr>cl_simple_query = (\<lambda>query s. (if answer query = None then Err src else Ok query, s)),
      cl_into_row = (\<lambda>query s. (Ok (Some query), s)),
      cl_get_bit = (\<lambda>query name. case answer query of
          Some (column, SqlBit b) \<Rightarrow> if column = name then Ok (Some b) else Err src | _ \<Rightarrow> Err src),
      cl_get_bigint = (\<lambda>query name. case answer query of
          Some (column, SqlInt i) \<Rightarrow> if column = name then Ok (Some (word_of_int i)) else Err src | _ \<Rightarrow> Err src),
      cl_execute = (\<lambda>_ s. (Ok [], s))\<rparr>)"

lemma example_client_speaks: "speaks_sql (example_client src) (=) example_db"
  by (auto simp: speaks_sql_def answers_with_def example_client_def Let_def split: option.split sql_value.split)

lemma example_views: "catalog_views example_db [(odd_name, 1)] [(lit ''dbo'', 1)]"
  by (simp add: catalog_views_def example_db_def example_row_def catalog_row_def lit_def odd_name_def)

theorem metadata_probes_exact_witness:
  "\<exists>table. table_name_new (lit ''dbo'') odd_name = Ok table
     \<and> (\<forall>src. fst (table_exists (example_client src) table ()) = Ok True)
     \<and> (\<forall>src. \<exists>count. fst (target_row_count (example_client src) table ()) = Ok count \<and> unat count = 7)"
proof -
  let ?table = "\<lparr>table_schema = Some (Identifier (lit ''dbo'')), table_table = Identifier odd_name\<rparr>"
  have "table_name_new (lit ''dbo'') odd_name = Ok ?table"
    by (simp add: table_name_new_Ok valid_table_name_def valid_identifier_def odd_name_def lit_def is_control_def)
  moreover note probes = metadata_probes_exact [OF example_client_speaks example_views, of _ ?table "()"]
  have "fst (table_exists (example_client src) ?table ()) = Ok True" for src
    using probes [of src] by simp
  moreover have "example_db [lit ''dbo'', odd_name] = Some (replicate 7 (\<lambda>_. None))" by (simp add: example_db_def)
  then have "\<exists>count. fst (target_row_count (example_client src) ?table ()) = Ok count \<and> unat count = 7" for src
    using probes [of src] by simp
  ultimately show ?thesis by blast
qed

subsection \<open>Other operations\<close>

text \<open>The affected rows of a statement are added up exactly while they fit.\<close>

lemma total_rows_affected_exact:
  assumes "sum_list (map unat (rows_affected outcome)) < 2 ^ 64"
  shows "unat (total_rows_affected outcome) = sum_list (map unat (rows_affected outcome))"
proof -
  have "foldl (+) a xs = a + sum_list xs" for a :: u64 and xs
    by (induction xs arbitrary: a) (simp_all add: add.assoc)
  moreover have "(sum_list xs :: u64) = of_nat (sum_list (map unat xs))" for xs :: "u64 list"
    by (induction xs) simp_all
  ultimately show ?thesis using assms by (simp add: total_rows_affected_def unat_of_nat)
qed

text \<open>No error of connecting carries the connection string: a string the parser rejects is
  reported by a constant, and everything after parsing sees the configuration only.\<close>

lemma connection_string_not_in_errors:
  "connect_mssql_client_from_ado_string con text =
     (case con_from_ado_string con text of
        Err _ \<Rightarrow> Err InvalidConnectionString
      | Ok config \<Rightarrow>
          and_then (map_err ConnectionTcpConnect
              (and_then (con_tcp_connect con config) (con_set_nodelay con))) (\<lambda>tcp.
          map_err ConnectionClientSetup (con_client_connect con config tcp)))"
  by (auto simp: connect_mssql_client_from_ado_string_def and_then_def map_err_def split: sum.splits)

end
