(* ===== verification/Telemetry.thy ===== *)
theory Telemetry
  imports Writer
begin

text \<open>
  What the crate tells a tracing subscriber: the text helpers of \<^verbatim>\<open>src/observability.rs\<close> and the
  summaries and events of schema planning (\<^verbatim>\<open>src/observability/schema.rs\<close>).

  An event is its level, phase, name and remaining structured attributes. The subscriber is outside
  the program, so an operation with tracing returns the events it emits beside its result. Spans
  repeat the attributes of the events and are left out. Times come from a clock
  parameter: \<^verbatim>\<open>clock n\<close> is the number of elapsed microseconds that the \<^verbatim>\<open>n\<close>-th event of an operation
  reads.
\<close>

subsection \<open>Text and numbers\<close>

definition duration_micros_u64 :: "nat \<Rightarrow> u64" where
  "duration_micros_u64 micros = (if micros < 2 ^ 64 then of_nat micros else - 1)"

definition append_text :: "rstr \<Rightarrow> rstr \<Rightarrow> rstr" where
  "append_text target value = (if target \<noteq> [] then target @ [44] else target) @ value"

definition append_debug_name :: "rstr \<Rightarrow> rstr \<Rightarrow> rstr" where
  "append_debug_name target debug = (if target \<noteq> [] then target @ [44] else target) @ debug"

definition append_unique_text :: "rstr \<Rightarrow> rstr \<Rightarrow> rstr" where
  "append_unique_text target value =
     (if list_ex (\<lambda>existing. existing = value) (split_commas target) then target else append_text target value)"

subsection \<open>Events\<close>

datatype trace_level = TraceInfo | TraceDebug | TraceError

datatype trace_value = TraceText rstr | TraceNumber u64 | TraceFlag bool

record trace_event =
  trace_level :: trace_level
  trace_phase :: rstr
  trace_name :: rstr
  trace_attributes :: "(rstr \<times> trace_value) list"

definition trace_usize :: "usize \<Rightarrow> trace_value" where
  "trace_usize n = TraceNumber (usize_to_u64_saturating n)"

definition trace_elapsed :: "nat \<Rightarrow> rstr \<times> trace_value" where
  "trace_elapsed elapsed = (lit ''elapsed_us'', TraceNumber (duration_micros_u64 elapsed))"

subsection \<open>Families of types\<close>

fun arrow_data_type_family :: "data_type \<Rightarrow> rstr" where
  "arrow_data_type_family DtNull = lit ''null''"
| "arrow_data_type_family DtBoolean = lit ''boolean''"
| "arrow_data_type_family DtInt8 = lit ''int8''"
| "arrow_data_type_family DtInt16 = lit ''int16''"
| "arrow_data_type_family DtInt32 = lit ''int32''"
| "arrow_data_type_family DtInt64 = lit ''int64''"
| "arrow_data_type_family DtUInt8 = lit ''uint8''"
| "arrow_data_type_family DtUInt16 = lit ''uint16''"
| "arrow_data_type_family DtUInt32 = lit ''uint32''"
| "arrow_data_type_family DtUInt64 = lit ''uint64''"
| "arrow_data_type_family DtFloat16 = lit ''float16''"
| "arrow_data_type_family DtFloat32 = lit ''float32''"
| "arrow_data_type_family DtFloat64 = lit ''float64''"
| "arrow_data_type_family DtUtf8 = lit ''utf8''"
| "arrow_data_type_family DtLargeUtf8 = lit ''large_utf8''"
| "arrow_data_type_family DtBinary = lit ''binary''"
| "arrow_data_type_family DtLargeBinary = lit ''large_binary''"
| "arrow_data_type_family (DtFixedSizeBinary _) = lit ''fixed_size_binary''"
| "arrow_data_type_family (DtDecimal32 _ _) = lit ''decimal32''"
| "arrow_data_type_family (DtDecimal64 _ _) = lit ''decimal64''"
| "arrow_data_type_family (DtDecimal128 _ _) = lit ''decimal128''"
| "arrow_data_type_family (DtDecimal256 _ _) = lit ''decimal256''"
| "arrow_data_type_family DtDate32 = lit ''date32''"
| "arrow_data_type_family DtDate64 = lit ''date64''"
| "arrow_data_type_family (DtTime32 _) = lit ''time32''"
| "arrow_data_type_family (DtTime64 _) = lit ''time64''"
| "arrow_data_type_family (DtTimestamp _ _) = lit ''timestamp''"
| "arrow_data_type_family (DtDuration _) = lit ''duration''"
| "arrow_data_type_family (DtInterval _) = lit ''interval''"
| "arrow_data_type_family (DtList _) = lit ''nested''"
| "arrow_data_type_family (DtListView _) = lit ''nested''"
| "arrow_data_type_family (DtFixedSizeList _ _) = lit ''nested''"
| "arrow_data_type_family (DtLargeList _) = lit ''nested''"
| "arrow_data_type_family (DtLargeListView _) = lit ''nested''"
| "arrow_data_type_family (DtStruct _) = lit ''nested''"
| "arrow_data_type_family (DtMap _ _) = lit ''nested''"
| "arrow_data_type_family (DtUnion _) = lit ''nested''"
| "arrow_data_type_family (DtDictionary _) = lit ''encoded''"
| "arrow_data_type_family (DtRunEndEncoded _) = lit ''encoded''"
| "arrow_data_type_family DtBinaryView = lit ''binary_view''"
| "arrow_data_type_family DtUtf8View = lit ''utf8_view''"

fun mssql_type_family :: "mssql_type \<Rightarrow> rstr" where
  "mssql_type_family MsBit = lit ''bit''"
| "mssql_type_family MsTinyInt = lit ''tinyint''"
| "mssql_type_family MsSmallInt = lit ''smallint''"
| "mssql_type_family MsInt = lit ''int''"
| "mssql_type_family MsBigInt = lit ''bigint''"
| "mssql_type_family MsReal = lit ''real''"
| "mssql_type_family (MsFloat _) = lit ''float''"
| "mssql_type_family (MsNVarChar _) = lit ''nvarchar''"
| "mssql_type_family (MsVarBinary _) = lit ''varbinary''"
| "mssql_type_family (MsBinary _) = lit ''binary''"
| "mssql_type_family (MsDecimal _ _) = lit ''decimal''"
| "mssql_type_family MsDate = lit ''date''"
| "mssql_type_family (MsTime _) = lit ''time''"
| "mssql_type_family MsDateTime = lit ''datetime''"
| "mssql_type_family (MsDateTime2 _) = lit ''datetime2''"
| "mssql_type_family (MsDateTimeOffset _) = lit ''datetimeoffset''"

subsection \<open>Summaries\<close>

record planning_shape_trace_summary =
  arrow_data_type_families :: rstr
  mssql_type_families :: rstr

definition from_mappings :: "schema_mapping list \<Rightarrow> planning_shape_trace_summary" where
  "from_mappings mappings =
     foldl (\<lambda>summary mapping.
        \<lparr>arrow_data_type_families = append_unique_text (arrow_data_type_families summary)
           (arrow_data_type_family (arrow_data_type (mapping_arrow mapping))),
         mssql_type_families = append_unique_text (mssql_type_families summary)
           (mssql_type_family (column_ty (mapping_mssql mapping)))\<rparr>)
       \<lparr>arrow_data_type_families = [], mssql_type_families = []\<rparr> mappings"

record diagnostic_trace_summary =
  total_count :: usize
  error_count :: usize
  warning_count :: usize
  summary_codes :: rstr
  summary_field_names :: rstr

definition summarize_diagnostic :: "diagnostic_trace_summary \<Rightarrow> diagnostic \<Rightarrow> diagnostic_trace_summary" where
  "summarize_diagnostic summary d =
     (let summary = summary\<lparr>total_count := total_count summary + 1\<rparr>;
          summary = (case diag_severity d of
             SevWarning \<Rightarrow> summary\<lparr>warning_count := warning_count summary + 1\<rparr>
           | SevError \<Rightarrow> summary\<lparr>error_count := error_count summary + 1\<rparr>);
          summary = summary\<lparr>summary_codes :=
             append_debug_name (summary_codes summary) (diagnostic_code_debug (diag_code d))\<rparr>
      in case diag_field d of
           Some f \<Rightarrow> summary\<lparr>summary_field_names := append_text (summary_field_names summary) (ref_name f)\<rparr>
         | None \<Rightarrow> summary)"

definition from_diagnostics :: "diagnostic_set \<Rightarrow> diagnostic_trace_summary" where
  "from_diagnostics diagnostics =
     foldl summarize_diagnostic
       \<lparr>total_count = 0, error_count = 0, warning_count = 0, summary_codes = [], summary_field_names = []\<rparr>
       diagnostics"

subsection \<open>Events of schema planning\<close>

definition SCHEMA_PLANNING_PHASE :: rstr where
  "SCHEMA_PLANNING_PHASE = lit ''schema_planning''"

definition SCHEMA_PLANNING_STARTED_EVENT :: rstr where
  "SCHEMA_PLANNING_STARTED_EVENT = lit ''arrow_tiberius.schema_planning.started''"

definition SCHEMA_PLANNING_COMPLETED_EVENT :: rstr where
  "SCHEMA_PLANNING_COMPLETED_EVENT = lit ''arrow_tiberius.schema_planning.completed''"

definition SCHEMA_PLANNING_FAILED_EVENT :: rstr where
  "SCHEMA_PLANNING_FAILED_EVENT = lit ''arrow_tiberius.schema_planning.failed''"

definition schema_planning_started :: "usize \<Rightarrow> trace_event" where
  "schema_planning_started field_count =
     \<lparr>trace_level = TraceInfo, trace_phase = SCHEMA_PLANNING_PHASE, trace_name = SCHEMA_PLANNING_STARTED_EVENT,
      trace_attributes = [(lit ''arrow_field_count'', trace_usize field_count)]\<rparr>"

text \<open>The attributes that a completed and a failed event share.\<close>

definition diagnostic_attributes :: "diagnostic_trace_summary \<Rightarrow> (rstr \<times> trace_value) list" where
  "diagnostic_attributes summary =
     [(lit ''diagnostic_count'', trace_usize (total_count summary)),
      (lit ''error_diagnostic_count'', trace_usize (error_count summary)),
      (lit ''warning_diagnostic_count'', trace_usize (warning_count summary)),
      (lit ''diagnostic_codes'', TraceText (summary_codes summary)),
      (lit ''diagnostic_field_names'', TraceText (summary_field_names summary))]"

definition schema_planning_completed ::
    "usize \<Rightarrow> nat \<Rightarrow> schema_mapping list \<Rightarrow> diagnostic_set \<Rightarrow> trace_event" where
  "schema_planning_completed field_count elapsed mappings diagnostics =
     (let summary = from_diagnostics diagnostics; shape = from_mappings mappings in
      \<lparr>trace_level = TraceInfo, trace_phase = SCHEMA_PLANNING_PHASE, trace_name = SCHEMA_PLANNING_COMPLETED_EVENT,
       trace_attributes =
         [(lit ''arrow_field_count'', trace_usize field_count),
          (lit ''planned_mapping_count'', trace_usize (length mappings)),
          (lit ''arrow_data_type_families'', TraceText (arrow_data_type_families shape)),
          (lit ''mssql_type_families'', TraceText (mssql_type_families shape))]
         @ diagnostic_attributes summary @ [trace_elapsed elapsed]\<rparr>)"

definition schema_planning_failed :: "usize \<Rightarrow> nat \<Rightarrow> diagnostic_set \<Rightarrow> trace_event" where
  "schema_planning_failed field_count elapsed diagnostics =
     (let summary = from_diagnostics diagnostics in
      \<lparr>trace_level = TraceError, trace_phase = SCHEMA_PLANNING_PHASE, trace_name = SCHEMA_PLANNING_FAILED_EVENT,
       trace_attributes =
         [(lit ''arrow_field_count'', trace_usize field_count)]
         @ diagnostic_attributes summary
         @ [(lit ''error_summary'', TraceText (lit ''schema planning failed with diagnostics'')),
            trace_elapsed elapsed]\<rparr>)"

definition trace_planned_schema_result ::
    "usize \<Rightarrow> nat \<Rightarrow> error + planned_schema plan_outcome
      \<Rightarrow> trace_event list \<times> (error + planned_schema plan_outcome)" where
  "trace_planned_schema_result field_count elapsed result =
     (case result of
        Ok outcome \<Rightarrow>
          [schema_planning_completed field_count elapsed
             (planned_mappings (outcome_value outcome)) (outcome_diagnostics outcome)]
      | Err (Planning diagnostics) \<Rightarrow> [schema_planning_failed field_count elapsed diagnostics]
      | Err _ \<Rightarrow> [], result)"

definition traced_plan_arrow_schema ::
    "(nat \<Rightarrow> nat) \<Rightarrow> arrow_field list \<Rightarrow> mssql_profile \<Rightarrow> plan_options
      \<Rightarrow> trace_event list \<times> (error + planned_schema plan_outcome)" where
  "traced_plan_arrow_schema clock fs profile options =
     (let field_count = length fs;
          (events, result) = trace_planned_schema_result field_count (clock 1)
            (plan_arrow_schema_inner fs profile options)
      in (schema_planning_started field_count # events, result))"

subsection \<open>What the summaries say\<close>

text \<open>The words of a list, each once, in the order of their first occurrence.\<close>

definition first_occurrences :: "'a list \<Rightarrow> 'a list" where
  "first_occurrences ws = rev (remdups (rev ws))"

lemma first_occurrences_Nil [simp]: "first_occurrences [] = []"
  by (simp add: first_occurrences_def)

lemma first_occurrences_snoc:
  "first_occurrences (ws @ [w]) = (if w \<in> set ws then first_occurrences ws else first_occurrences ws @ [w])"
  by (simp add: first_occurrences_def)

lemma set_first_occurrences [simp]: "set (first_occurrences ws) = set ws"
  by (simp add: first_occurrences_def)

lemma first_occurrences_empty [simp]: "first_occurrences ws = [] \<longleftrightarrow> ws = []"
  by (simp add: first_occurrences_def)

definition trace_word :: "rstr \<Rightarrow> bool" where
  "trace_word w \<longleftrightarrow> w \<noteq> [] \<and> 44 \<notin> set w"

lemma split_commas_nonempty [simp]: "split_commas cs \<noteq> []"
  by (cases cs) (auto split: list.splits)

lemma split_commas_append: "split_commas (a @ 44 # b) = split_commas a @ split_commas b"
proof (induction a)
  case (Cons c a)
  then show ?case by (cases "split_commas a") auto
qed simp

lemma split_append_text:
  "target \<noteq> [] \<Longrightarrow> trace_word w \<Longrightarrow> split_commas (append_text target w) = split_commas target @ [w]"
  by (simp add: append_text_def trace_word_def split_commas_append split_commas_word)

text \<open>A text with the given words: empty for no words.\<close>

definition lists_words :: "rstr \<Rightarrow> rstr list \<Rightarrow> bool" where
  "lists_words text ws \<longleftrightarrow> (if ws = [] then text = [] else text \<noteq> [] \<and> split_commas text = ws)"

lemma lists_append_text:
  assumes "lists_words text ws" "trace_word w"
  shows "lists_words (append_text text w) (ws @ [w])"
proof (cases "ws = []")
  case True
  with assms show ?thesis by (simp add: lists_words_def append_text_def trace_word_def split_commas_word)
next
  case False
  with assms have "text \<noteq> []" by (simp add: lists_words_def)
  with split_append_text [OF this assms(2)] assms False show ?thesis
    by (simp add: lists_words_def append_text_def)
qed

lemma lists_append_unique_text:
  assumes "lists_words text (first_occurrences ws)" "trace_word w"
  shows "lists_words (append_unique_text text w) (first_occurrences (ws @ [w]))"
proof -
  have "list_ex (\<lambda>existing. existing = w) (split_commas text) \<longleftrightarrow> w \<in> set ws"
  proof (cases "ws = []")
    case True
    with assms show ?thesis by (auto simp: lists_words_def trace_word_def)
  next
    case False
    with assms(1) have "split_commas text = first_occurrences ws" by (simp add: lists_words_def)
    then show ?thesis by (simp add: list_ex_iff)
  qed
  with assms(1) lists_append_text [OF assms] show ?thesis
    by (auto simp: append_unique_text_def first_occurrences_snoc)
qed

lemma families_are_words: "trace_word (arrow_data_type_family t)" "trace_word (mssql_type_family ty)"
  by (cases t; simp add: trace_word_def lit_def) (cases ty; simp add: trace_word_def lit_def)

lemma from_mappings_lists:
  "lists_words (arrow_data_type_families (from_mappings ms))
     (first_occurrences (map (\<lambda>m. arrow_data_type_family (arrow_data_type (mapping_arrow m))) ms))"
  "lists_words (mssql_type_families (from_mappings ms))
     (first_occurrences (map (\<lambda>m. mssql_type_family (column_ty (mapping_mssql m))) ms))"
proof (induction ms rule: rev_induct)
  case Nil
  { case 1 then show ?case by (simp add: from_mappings_def lists_words_def) }
  { case 2 then show ?case by (simp add: from_mappings_def lists_words_def) }
next
  case (snoc m ms)
  have "from_mappings (ms @ [m]) =
      \<lparr>arrow_data_type_families = append_unique_text (arrow_data_type_families (from_mappings ms))
         (arrow_data_type_family (arrow_data_type (mapping_arrow m))),
       mssql_type_families = append_unique_text (mssql_type_families (from_mappings ms))
         (mssql_type_family (column_ty (mapping_mssql m)))\<rparr>"
    by (simp add: from_mappings_def)
  note step = this
  { case 1
    show ?case using lists_append_unique_text [OF snoc.IH(1) families_are_words(1)] by (simp add: step) }
  { case 2
    show ?case using lists_append_unique_text [OF snoc.IH(2) families_are_words(2)] by (simp add: step) }
qed

lemma from_diagnostics_snoc: "from_diagnostics (ds @ [d]) = summarize_diagnostic (from_diagnostics ds) d"
  by (simp add: from_diagnostics_def)

lemma from_diagnostics_counts:
  "total_count (from_diagnostics ds) = length ds"
  "error_count (from_diagnostics ds) = length (filter is_error ds)"
  "warning_count (from_diagnostics ds) = length (filter (\<lambda>d. diag_severity d = SevWarning) ds)"
  "summary_codes (from_diagnostics ds) = diagnostic_codes ds"
proof (induction ds rule: rev_induct)
  case Nil
  { case 1 then show ?case by (simp add: from_diagnostics_def) }
  { case 2 then show ?case by (simp add: from_diagnostics_def) }
  { case 3 then show ?case by (simp add: from_diagnostics_def) }
  { case 4 then show ?case by (simp add: from_diagnostics_def diagnostic_codes_def) }
next
  case (snoc d ds)
  note step = from_diagnostics_snoc summarize_diagnostic_def Let_def
  { case 1 show ?case using snoc.IH(1) by (simp add: step split: diagnostic_severity.split option.split) }
  { case 2 show ?case using snoc.IH(2) by (simp add: step split: diagnostic_severity.split option.split) }
  { case 3 show ?case using snoc.IH(3) by (simp add: step split: diagnostic_severity.split option.split) }
  { case 4 show ?case using snoc.IH(4)
      by (simp add: step append_debug_name_def diagnostic_codes_def lit_def split: diagnostic_severity.split option.split) }
qed

lemma severities_partition:
  "length (filter is_error ds) + length (filter (\<lambda>d. diag_severity d = SevWarning) ds) = length ds"
proof (induction ds)
  case (Cons d ds)
  then show ?case by (cases "diag_severity d") auto
qed simp

definition trace_attribute :: "trace_event \<Rightarrow> string \<Rightarrow> trace_value option" where
  "trace_attribute event name = map_of (trace_attributes event) (lit name)"

lemma lit_inject [simp]: "lit a = lit b \<longleftrightarrow> a = b"
  unfolding lit_def by (simp add: inj_map_eq_map inj_of_char)

text \<open>planning_trace_exact: tracing never changes what planning returns, and the one event after the
  start tells exactly what happened. On success it lists the Arrow families and the SQL Server
  families of the planned mappings, each once, in the order of their first column, as
  comma-separated words that read back; on failure it has the numbers of errors and warnings, which
  add up to the diagnostics, and all codes in order.\<close>

theorem planning_trace_exact:
  "case traced_plan_arrow_schema clock fs profile options of (events, result) \<Rightarrow>
     result = plan_arrow_schema_to_mssql_schema fs profile options
     \<and> (\<exists>event. events = [schema_planning_started (length fs), event]
        \<and> (case result of
             Ok outcome \<Rightarrow>
               trace_level event = TraceInfo
               \<and> (let ms = planned_mappings (outcome_value outcome) in
                  trace_attribute event ''planned_mapping_count'' = Some (trace_usize (length ms))
                  \<and> (\<exists>text. trace_attribute event ''arrow_data_type_families'' = Some (TraceText text)
                       \<and> lists_words text (first_occurrences
                            (map (\<lambda>m. arrow_data_type_family (arrow_data_type (mapping_arrow m))) ms)))
                  \<and> (\<exists>text. trace_attribute event ''mssql_type_families'' = Some (TraceText text)
                       \<and> lists_words text (first_occurrences
                            (map (\<lambda>m. mssql_type_family (column_ty (mapping_mssql m))) ms))))
           | Err e \<Rightarrow>
               trace_level event = TraceError
               \<and> (\<exists>ds. e = Planning ds
                  \<and> (let errors = length (filter is_error ds);
                         warnings = length (filter (\<lambda>d. diag_severity d = SevWarning) ds) in
                     errors + warnings = length ds
                  \<and> trace_attribute event ''error_diagnostic_count'' = Some (trace_usize errors)
                  \<and> trace_attribute event ''warning_diagnostic_count'' = Some (trace_usize warnings)
                  \<and> trace_attribute event ''diagnostic_codes'' = Some (TraceText (diagnostic_codes ds))))))"
proof -
  obtain ms ds where planned: "plan_fields options 0 fs ([], []) = (ms, ds)" by force
  show ?thesis
  proof (cases "has_errors ds")
    case True
    with severities_partition [of ds] show ?thesis
      by (simp add: traced_plan_arrow_schema_def trace_planned_schema_result_def Let_def planned
          plan_arrow_schema_to_mssql_schema_def plan_arrow_schema_inner_def schema_planning_failed_def
          trace_attribute_def diagnostic_attributes_def from_diagnostics_counts del: is_error_severity)
  next
    case False
    then show ?thesis
      by (simp add: traced_plan_arrow_schema_def trace_planned_schema_result_def Let_def planned
          plan_arrow_schema_to_mssql_schema_def plan_arrow_schema_inner_def schema_planning_completed_def
          trace_attribute_def from_mappings_lists)
  qed
qed

end
