(* ===== verification/WriterTelemetry.thy ===== *)
theory WriterTelemetry
  imports Telemetry
begin

text \<open>
  Tracing of the bulk writer: \<^verbatim>\<open>src/observability/writer.rs\<close> with its submodules, and the traced
  operations of \<^verbatim>\<open>src/write/writer.rs\<close>. The operations without tracing are those of the theory
  \<^verbatim>\<open>Writer\<close>; here they are composed with the events they emit.
\<close>

subsection \<open>Phases and event names\<close>

definition WRITER_INITIALIZATION_PHASE :: rstr where
  "WRITER_INITIALIZATION_PHASE = lit ''writer_initialization''"

definition TARGET_METADATA_VALIDATION_PHASE :: rstr where
  "TARGET_METADATA_VALIDATION_PHASE = lit ''target_metadata_validation''"

definition BATCH_WRITE_PHASE :: rstr where
  "BATCH_WRITE_PHASE = lit ''batch_write''"

definition DIRECT_ENCODING_PHASE :: rstr where
  "DIRECT_ENCODING_PHASE = lit ''direct_encoding''"

definition PACKET_WRITE_PHASE :: rstr where
  "PACKET_WRITE_PHASE = lit ''packet_write''"

definition FINISH_PHASE :: rstr where
  "FINISH_PHASE = lit ''finish''"

definition FINALIZE_PHASE :: rstr where
  "FINALIZE_PHASE = lit ''finalize''"

definition WRITER_INITIALIZATION_STARTED_EVENT :: rstr where
  "WRITER_INITIALIZATION_STARTED_EVENT = lit ''arrow_tiberius.writer_initialization.started''"

definition WRITER_INITIALIZATION_COMPLETED_EVENT :: rstr where
  "WRITER_INITIALIZATION_COMPLETED_EVENT = lit ''arrow_tiberius.writer_initialization.completed''"

definition WRITER_INITIALIZATION_FAILED_EVENT :: rstr where
  "WRITER_INITIALIZATION_FAILED_EVENT = lit ''arrow_tiberius.writer_initialization.failed''"

definition TARGET_METADATA_VALIDATION_STARTED_EVENT :: rstr where
  "TARGET_METADATA_VALIDATION_STARTED_EVENT = lit ''arrow_tiberius.target_metadata_validation.started''"

definition TARGET_METADATA_VALIDATION_COMPLETED_EVENT :: rstr where
  "TARGET_METADATA_VALIDATION_COMPLETED_EVENT = lit ''arrow_tiberius.target_metadata_validation.completed''"

definition TARGET_METADATA_VALIDATION_FAILED_EVENT :: rstr where
  "TARGET_METADATA_VALIDATION_FAILED_EVENT = lit ''arrow_tiberius.target_metadata_validation.failed''"

definition BATCH_WRITE_STARTED_EVENT :: rstr where
  "BATCH_WRITE_STARTED_EVENT = lit ''arrow_tiberius.batch_write.started''"

definition BATCH_WRITE_COMPLETED_EVENT :: rstr where
  "BATCH_WRITE_COMPLETED_EVENT = lit ''arrow_tiberius.batch_write.completed''"

definition BATCH_WRITE_FAILED_EVENT :: rstr where
  "BATCH_WRITE_FAILED_EVENT = lit ''arrow_tiberius.batch_write.failed''"

definition DIRECT_RAW_MEASURED_EVENT :: rstr where
  "DIRECT_RAW_MEASURED_EVENT = lit ''arrow_tiberius.direct_raw.measured''"

definition DIRECT_RAW_RANGES_PLANNED_EVENT :: rstr where
  "DIRECT_RAW_RANGES_PLANNED_EVENT = lit ''arrow_tiberius.direct_raw.ranges_planned''"

definition DIRECT_RAW_PACKET_WRITE_COMPLETED_EVENT :: rstr where
  "DIRECT_RAW_PACKET_WRITE_COMPLETED_EVENT = lit ''arrow_tiberius.direct_raw.packet_write.completed''"

definition DIRECT_RAW_FAILED_EVENT :: rstr where
  "DIRECT_RAW_FAILED_EVENT = lit ''arrow_tiberius.direct_raw.failed''"

definition FINISH_STARTED_EVENT :: rstr where
  "FINISH_STARTED_EVENT = lit ''arrow_tiberius.finish.started''"

definition FINISH_COMPLETED_EVENT :: rstr where
  "FINISH_COMPLETED_EVENT = lit ''arrow_tiberius.finish.completed''"

definition FINISH_FAILED_EVENT :: rstr where
  "FINISH_FAILED_EVENT = lit ''arrow_tiberius.finish.failed''"

subsection \<open>What an event may say of an error\<close>

fun backend_trace_name :: "write_backend \<Rightarrow> rstr" where
  "backend_trace_name BackendAuto = lit ''Auto''"
| "backend_trace_name BaselineTokenRow = lit ''BaselineTokenRow''"
| "backend_trace_name DirectFramedBulk = lit ''DirectFramedBulk''"
| "backend_trace_name DirectRawBulk = lit ''DirectRawBulk''"

definition sanitized_error_summary :: "'src error_of \<Rightarrow> rstr" where
  "sanitized_error_summary e = info_summary (safe_error_info e)"

definition diagnostic_codes_for_error :: "'src error_of \<Rightarrow> rstr" where
  "diagnostic_codes_for_error e = info_diagnostic_codes (safe_error_info e)"

text \<open>The two attributes of every failed event.\<close>

definition error_attributes :: "'src error_of \<Rightarrow> (rstr \<times> trace_value) list" where
  "error_attributes e =
     [(lit ''error_summary'', TraceText (sanitized_error_summary e)),
      (lit ''diagnostic_codes'', TraceText (diagnostic_codes_for_error e))]"

subsection \<open>Writer initialization\<close>

record writer_initialization_trace =
  init_requested_backend :: write_backend
  init_resolved_backend :: "write_backend option"
  init_target_schema :: rstr
  init_target_table :: rstr
  init_planned_column_count :: usize
  init_direct_validation :: "bool option"

definition initialization_trace_new :: "table_name \<Rightarrow> write_backend \<Rightarrow> usize \<Rightarrow> writer_initialization_trace" where
  "initialization_trace_new table requested_backend planned_column_count =
     \<lparr>init_requested_backend = requested_backend, init_resolved_backend = None,
      init_target_schema = (case table_schema table of Some schema \<Rightarrow> identifier_as_str schema | None \<Rightarrow> []),
      init_target_table = identifier_as_str (table_table table),
      init_planned_column_count = planned_column_count, init_direct_validation = None\<rparr>"

definition record_resolved_backend :: "write_backend \<Rightarrow> writer_initialization_trace \<Rightarrow> writer_initialization_trace" where
  "record_resolved_backend backend trace = trace\<lparr>init_resolved_backend := Some backend\<rparr>"

definition record_direct_target_validation_required ::
    "bool \<Rightarrow> writer_initialization_trace \<Rightarrow> writer_initialization_trace" where
  "record_direct_target_validation_required required trace = trace\<lparr>init_direct_validation := Some required\<rparr>"

definition resolved_backend_name :: "writer_initialization_trace \<Rightarrow> rstr" where
  "resolved_backend_name trace =
     (case init_resolved_backend trace of Some backend \<Rightarrow> backend_trace_name backend | None \<Rightarrow> lit ''unresolved'')"

definition direct_target_validation_required :: "writer_initialization_trace \<Rightarrow> bool" where
  "direct_target_validation_required trace =
     (case init_direct_validation trace of Some required \<Rightarrow> required | None \<Rightarrow> False)"

definition initialization_started :: "writer_initialization_trace \<Rightarrow> trace_event" where
  "initialization_started trace =
     \<lparr>trace_level = TraceInfo, trace_phase = WRITER_INITIALIZATION_PHASE,
      trace_name = WRITER_INITIALIZATION_STARTED_EVENT,
      trace_attributes =
        [(lit ''requested_backend'', TraceText (backend_trace_name (init_requested_backend trace))),
         (lit ''target_schema'', TraceText (init_target_schema trace)),
         (lit ''target_table'', TraceText (init_target_table trace)),
         (lit ''planned_column_count'', trace_usize (init_planned_column_count trace)),
         (lit ''initialization_result'', TraceText (lit ''started''))]\<rparr>"

text \<open>The attributes that all later events of an initialization share.\<close>

definition initialization_attributes ::
    "writer_initialization_trace \<Rightarrow> rstr \<Rightarrow> (rstr \<times> trace_value) list" where
  "initialization_attributes trace result =
     [(lit ''requested_backend'', TraceText (backend_trace_name (init_requested_backend trace))),
      (lit ''resolved_backend'', TraceText (resolved_backend_name trace)),
      (lit ''target_schema'', TraceText (init_target_schema trace)),
      (lit ''target_table'', TraceText (init_target_table trace)),
      (lit ''planned_column_count'', trace_usize (init_planned_column_count trace)),
      (lit ''direct_target_validation_required'', TraceFlag (direct_target_validation_required trace)),
      (lit ''initialization_result'', TraceText result)]"

definition target_metadata_validation_started :: "writer_initialization_trace \<Rightarrow> trace_event" where
  "target_metadata_validation_started trace =
     \<lparr>trace_level = TraceInfo, trace_phase = TARGET_METADATA_VALIDATION_PHASE,
      trace_name = TARGET_METADATA_VALIDATION_STARTED_EVENT,
      trace_attributes = initialization_attributes trace (lit ''validating'')\<rparr>"

definition target_metadata_validation_completed :: "writer_initialization_trace \<Rightarrow> nat \<Rightarrow> trace_event" where
  "target_metadata_validation_completed trace elapsed =
     \<lparr>trace_level = TraceInfo, trace_phase = TARGET_METADATA_VALIDATION_PHASE,
      trace_name = TARGET_METADATA_VALIDATION_COMPLETED_EVENT,
      trace_attributes = initialization_attributes trace (lit ''success'') @ [trace_elapsed elapsed]\<rparr>"

definition initialization_completed :: "writer_initialization_trace \<Rightarrow> nat \<Rightarrow> trace_event" where
  "initialization_completed trace elapsed =
     \<lparr>trace_level = TraceInfo, trace_phase = WRITER_INITIALIZATION_PHASE,
      trace_name = WRITER_INITIALIZATION_COMPLETED_EVENT,
      trace_attributes = initialization_attributes trace (lit ''success'') @ [trace_elapsed elapsed]\<rparr>"

definition initialization_failed ::
    "writer_initialization_trace \<Rightarrow> rstr \<Rightarrow> nat \<Rightarrow> 'src error_of \<Rightarrow> trace_event" where
  "initialization_failed trace phase elapsed e =
     \<lparr>trace_level = TraceError, trace_phase = phase,
      trace_name = (if phase = TARGET_METADATA_VALIDATION_PHASE then TARGET_METADATA_VALIDATION_FAILED_EVENT
                    else WRITER_INITIALIZATION_FAILED_EVENT),
      trace_attributes = initialization_attributes trace (lit ''failure'') @ error_attributes e
        @ [trace_elapsed elapsed]\<rparr>"

text \<open>Opening a writer with its events (\<^verbatim>\<open>BulkWriter::new\<close>).\<close>

definition traced_bulk_writer_new ::
    "(nat \<Rightarrow> nat) \<Rightarrow> 's bulk_driver \<Rightarrow> table_name \<Rightarrow> planned_schema \<Rightarrow> write_options \<Rightarrow> 's
      \<Rightarrow> trace_event list \<times> (error + writer_state) \<times> 's" where
  "traced_bulk_writer_new clock drv table planned options s =
     (let trace = initialization_trace_new table (option_backend options) (length (planned_mappings planned));
          started = [initialization_started trace];
          failed = (\<lambda>trace events phase as_str e s.
            (events @ [initialization_failed trace as_str (clock (length events)) e],
             Err (with_write_phase e phase), s)) in
      case writer_state_new (option_backend options) (option_schema_check options) planned of
        Err e \<Rightarrow> failed trace started WriterInitialization WRITER_INITIALIZATION_PHASE e s
      | Ok state \<Rightarrow>
          (let trace = record_direct_target_validation_required (is_direct_backend (writer_backend state))
                 (record_resolved_backend (writer_backend state) trace) in
           if writer_backend state = BackendAuto
           then failed trace started WriterInitialization WRITER_INITIALIZATION_PHASE
                  (execution_unavailable (writer_backend state)) s
           else
            (let table_sql = bulk_insert_table_sql table in
             case tiberius_call (drv_bulk_insert_columns drv table_sql s) of
               (Err e, s) \<Rightarrow> failed trace started TargetMetadataValidation TARGET_METADATA_VALIDATION_PHASE e s
             | (Ok columns, s) \<Rightarrow>
                 (let validating = started @ [target_metadata_validation_started trace] in
                  case validate_bulk_target_columns columns (writer_mappings state) of
                    Err e \<Rightarrow> failed trace validating TargetMetadataValidation TARGET_METADATA_VALIDATION_PHASE e s
                  | Ok _ \<Rightarrow>
                      (case (if is_direct_backend (writer_backend state)
                             then and_then (ok_or (encoder_unavailable (writer_backend state))
                                     (writer_direct_encoder state))
                                   (\<lambda>encoder. validate_direct_bulk_target_column_types columns (encoder_plan encoder))
                             else Ok ()) of
                         Err e \<Rightarrow> failed trace validating TargetMetadataValidation TARGET_METADATA_VALIDATION_PHASE e s
                       | Ok _ \<Rightarrow>
                           (let validated = validating
                                  @ [target_metadata_validation_completed trace (clock (length validating))] in
                            case tiberius_call (drv_bulk_insert_with_columns drv table_sql columns s) of
                              (Err e, s) \<Rightarrow> failed trace validated WriterInitialization WRITER_INITIALIZATION_PHASE e s
                            | (Ok _, s) \<Rightarrow>
                                (let s = (if writer_backend state = DirectRawBulk
                                          then drv_enable_direct_packet_writes drv s else s) in
                                 (validated @ [initialization_completed trace (clock (length validated))],
                                  Ok state, s))))))))"

subsection \<open>Batches\<close>

record batch_write_trace =
  batch_backend :: write_backend
  batch_attempted_ordinal :: u64
  batch_row_count :: u64
  batch_column_count :: u64
  batch_is_empty :: bool
  batch_rows_before :: u64
  batch_batches_before :: u64

definition batch_num_columns :: "record_batch \<Rightarrow> usize" where
  "batch_num_columns batch = length (batch_columns batch)"

definition batch_trace_new :: "write_backend \<Rightarrow> write_stats \<Rightarrow> record_batch \<Rightarrow> batch_write_trace" where
  "batch_trace_new backend stats batch =
     \<lparr>batch_backend = backend,
      batch_attempted_ordinal = saturating_add (batches_written stats) 1,
      batch_row_count = usize_to_u64_saturating (batch_num_rows batch),
      batch_column_count = usize_to_u64_saturating (batch_num_columns batch),
      batch_is_empty = (batch_num_rows batch = 0),
      batch_rows_before = rows_written stats,
      batch_batches_before = batches_written stats\<rparr>"

definition batch_attributes :: "batch_write_trace \<Rightarrow> (rstr \<times> trace_value) list" where
  "batch_attributes trace =
     [(lit ''backend'', TraceText (backend_trace_name (batch_backend trace))),
      (lit ''attempted_batch_ordinal'', TraceNumber (batch_attempted_ordinal trace)),
      (lit ''batch_row_count'', TraceNumber (batch_row_count trace)),
      (lit ''batch_column_count'', TraceNumber (batch_column_count trace)),
      (lit ''batch_is_empty'', TraceFlag (batch_is_empty trace)),
      (lit ''accepted_rows_before'', TraceNumber (batch_rows_before trace)),
      (lit ''accepted_batches_before'', TraceNumber (batch_batches_before trace))]"

definition batch_started :: "batch_write_trace \<Rightarrow> trace_event" where
  "batch_started trace =
     \<lparr>trace_level = TraceInfo, trace_phase = BATCH_WRITE_PHASE, trace_name = BATCH_WRITE_STARTED_EVENT,
      trace_attributes = batch_attributes trace @ [(lit ''batch_write_result'', TraceText (lit ''started''))]\<rparr>"

definition batch_completed :: "batch_write_trace \<Rightarrow> nat \<Rightarrow> write_stats \<Rightarrow> trace_event" where
  "batch_completed trace elapsed stats =
     \<lparr>trace_level = TraceInfo, trace_phase = BATCH_WRITE_PHASE, trace_name = BATCH_WRITE_COMPLETED_EVENT,
      trace_attributes = batch_attributes trace
        @ [(lit ''accepted_rows_after'', TraceNumber (rows_written stats)),
           (lit ''accepted_batches_after'', TraceNumber (batches_written stats)),
           (lit ''batch_write_result'', TraceText (lit ''success'')), trace_elapsed elapsed]\<rparr>"

definition batch_failed :: "batch_write_trace \<Rightarrow> rstr \<Rightarrow> nat \<Rightarrow> 'src error_of \<Rightarrow> trace_event" where
  "batch_failed trace phase elapsed e =
     \<lparr>trace_level = TraceError, trace_phase = phase, trace_name = BATCH_WRITE_FAILED_EVENT,
      trace_attributes = batch_attributes trace
        @ [(lit ''batch_write_result'', TraceText (lit ''failure''))] @ error_attributes e
        @ [trace_elapsed elapsed]\<rparr>"

text \<open>\<^verbatim>\<open>trace_result\<close> around a write that emits its own events; a panic leaves the events so far.\<close>

definition trace_result ::
    "(nat \<Rightarrow> nat) \<Rightarrow> batch_write_trace
      \<Rightarrow> (trace_event list \<Rightarrow> trace_event list \<times> ((error + write_stats) \<times> 'w) option)
      \<Rightarrow> trace_event list \<times> ((error + write_stats) \<times> 'w) option" where
  "trace_result clock trace future =
     (let (events, run) = future [batch_started trace] in
      (case run of
         None \<Rightarrow> events
       | Some (Ok stats, _) \<Rightarrow> events @ [batch_completed trace (clock (length events)) stats]
       | Some (Err e, _) \<Rightarrow>
           (let phase = (case error_write_phase e of Some phase \<Rightarrow> phase | None \<Rightarrow> BatchWrite) in
            events @ [batch_failed trace (write_phase_as_str phase) (clock (length events)) e]),
       run))"

definition write_traced_batch_to_sink ::
    "(nat \<Rightarrow> nat) \<Rightarrow> 's bulk_driver \<Rightarrow> 'tz timezone_db \<Rightarrow> record_batch \<Rightarrow> writer_state \<times> 's
      \<Rightarrow> trace_event list \<times> ((error + write_stats) \<times> writer_state \<times> 's) option" where
  "write_traced_batch_to_sink clock drv db batch w =
     trace_result clock (batch_trace_new (writer_backend (fst w)) (writer_stats (fst w)) batch)
       (\<lambda>events. (events, write_batch_to_sink drv db batch w))"

subsection \<open>Direct details\<close>

text \<open>Every detail is recorded for the raw backend only.\<close>

definition observe :: "write_backend \<Rightarrow> trace_event \<Rightarrow> trace_event list \<Rightarrow> trace_event list" where
  "observe backend event events = (if backend \<noteq> DirectRawBulk then events else events @ [event])"

definition direct_raw_measured :: "write_backend \<Rightarrow> measured_direct_batch \<Rightarrow> nat \<Rightarrow> trace_event" where
  "direct_raw_measured backend measured elapsed =
     \<lparr>trace_level = TraceDebug, trace_phase = DIRECT_ENCODING_PHASE, trace_name = DIRECT_RAW_MEASURED_EVENT,
      trace_attributes =
        [(lit ''backend'', TraceText (backend_trace_name backend)),
         (lit ''batch_row_count'', trace_usize (measured_row_count measured)),
         (lit ''batch_column_count'', trace_usize (measured_column_count measured)),
         (lit ''encoded_row_count'', trace_usize (measured_row_count measured)),
         (lit ''encoded_byte_count'', trace_usize (measured_payload_len measured)), trace_elapsed elapsed]\<rparr>"

definition direct_raw_ranges_planned ::
    "write_backend \<Rightarrow> measured_direct_batch \<Rightarrow> measured_row_range list \<Rightarrow> nat \<Rightarrow> trace_event" where
  "direct_raw_ranges_planned backend measured ranges elapsed =
     \<lparr>trace_level = TraceDebug, trace_phase = DIRECT_ENCODING_PHASE, trace_name = DIRECT_RAW_RANGES_PLANNED_EVENT,
      trace_attributes =
        [(lit ''backend'', TraceText (backend_trace_name backend)),
         (lit ''batch_row_count'', trace_usize (measured_row_count measured)),
         (lit ''batch_column_count'', trace_usize (measured_column_count measured)),
         (lit ''encoded_byte_count'', trace_usize (measured_payload_len measured)),
         (lit ''encoded_range_count'', trace_usize (length ranges)), trace_elapsed elapsed]\<rparr>"

definition direct_raw_packet_write_completed ::
    "write_backend \<Rightarrow> measured_row_range \<Rightarrow> usize \<Rightarrow> usize \<Rightarrow> nat \<Rightarrow> trace_event" where
  "direct_raw_packet_write_completed backend r encoded_row_count encoded_byte_count elapsed =
     \<lparr>trace_level = TraceDebug, trace_phase = PACKET_WRITE_PHASE,
      trace_name = DIRECT_RAW_PACKET_WRITE_COMPLETED_EVENT,
      trace_attributes =
        [(lit ''backend'', TraceText (backend_trace_name backend)),
         (lit ''encoded_row_start'', trace_usize (range_start r)),
         (lit ''encoded_row_count'', trace_usize encoded_row_count),
         (lit ''encoded_byte_count'', trace_usize encoded_byte_count), trace_elapsed elapsed]\<rparr>"

definition direct_raw_failed ::
    "write_backend \<Rightarrow> rstr \<Rightarrow> record_batch \<Rightarrow> measured_row_range option \<Rightarrow> 'src error_of \<Rightarrow> trace_event" where
  "direct_raw_failed backend phase batch r e =
     \<lparr>trace_level = TraceError, trace_phase = phase, trace_name = DIRECT_RAW_FAILED_EVENT,
      trace_attributes =
        [(lit ''backend'', TraceText (backend_trace_name backend)),
         (lit ''batch_row_count'', trace_usize (batch_num_rows batch)),
         (lit ''batch_column_count'', trace_usize (batch_num_columns batch))]
        @ (case r of None \<Rightarrow> [] | Some r \<Rightarrow>
             [(lit ''encoded_row_start'', trace_usize (range_start r)),
              (lit ''encoded_row_count'', trace_usize (range_len r))])
        @ [(lit ''diagnostic_codes'', TraceText (diagnostic_codes_for_error e)),
           (lit ''error_summary'', TraceText (sanitized_error_summary e))]\<rparr>"

text \<open>The event after the driver has taken a range; a refused range has none here.\<close>

definition observe_packet_write ::
    "(nat \<Rightarrow> nat) \<Rightarrow> write_backend \<Rightarrow> measured_row_range \<Rightarrow> usize \<Rightarrow> usize \<Rightarrow> trace_event list
      \<Rightarrow> (error + unit) \<times> 's \<Rightarrow> (error + unit) \<times> trace_event list \<times> 's" where
  "observe_packet_write clock backend r encoded_row_count encoded_byte_count events = (\<lambda>(send_result, s).
     (send_result,
      case send_result of
        Err _ \<Rightarrow> events
      | Ok _ \<Rightarrow> observe backend
          (direct_raw_packet_write_completed backend r encoded_row_count encoded_byte_count (clock (length events)))
          events,
      s))"

text \<open>Sending one range.\<close>

definition observed_send_measured_raw_rows ::
    "(nat \<Rightarrow> nat) \<Rightarrow> write_backend \<Rightarrow> 's bulk_driver \<Rightarrow> fast_path_flags \<Rightarrow> 'tz timezone_db \<Rightarrow> direct_encoder
      \<Rightarrow> record_batch \<Rightarrow> measured_direct_batch \<Rightarrow> measured_row_range \<Rightarrow> trace_event list \<times> 's
      \<Rightarrow> ((error + unit) \<times> trace_event list \<times> 's) option" where
  "observed_send_measured_raw_rows clock backend drv flags db encoder batch measured r = (\<lambda>(events, s).
     case range_payload_len measured (range_start r) (range_len r) of
       Err e \<Rightarrow> Some (Err e, events, s)
     | Ok encoded_bytes \<Rightarrow>
         if \<not> has_variable_width_column encoder
         then
           (case encode_measured_batch_range flags db encoder batch measured (range_start r) (range_len r) of
              None \<Rightarrow> None
            | Some (Err e) \<Rightarrow> Some (Err e, events, s)
            | Some (Ok payload) \<Rightarrow>
                Some (observe_packet_write clock backend r
                  (length (payload_row_token_offsets payload)) (length (payload_bytes payload)) events
                  (tiberius_call (drv_send_raw_rows_payload_checked drv
                    (payload_bytes payload) (payload_row_token_offsets payload) s))))
         else
           (case drv_raw_rows_buffer drv s of
              (Err e, s) \<Rightarrow> Some (observe_packet_write clock backend r (range_len r) encoded_bytes events
                  (tiberius_call (Err e, s)))
            | (Ok buf, s) \<Rightarrow>
                (case encode_measured_batch_range_into db encoder batch measured (range_start r) (range_len r) buf of
                   Err e \<Rightarrow>
                     (let (_, s) = drv_raw_rows_appended drv (Err (drv_bulk_input_error drv)) s in Some (Err e, events, s))
                 | Ok appended \<Rightarrow>
                     Some (observe_packet_write clock backend r (range_len r) encoded_bytes events
                       (tiberius_call (drv_raw_rows_appended drv (Ok appended) s))))))"

text \<open>The range loop; the event of a failed range names the range.\<close>

definition observed_send_range ::
    "(nat \<Rightarrow> nat) \<Rightarrow> write_backend \<Rightarrow> 's bulk_driver \<Rightarrow> fast_path_flags \<Rightarrow> 'tz timezone_db \<Rightarrow> direct_encoder
      \<Rightarrow> record_batch \<Rightarrow> measured_direct_batch \<Rightarrow> measured_row_range \<Rightarrow> trace_event list \<times> 's
      \<Rightarrow> ((error + unit) \<times> trace_event list \<times> 's) option" where
  "observed_send_range clock backend drv flags db encoder batch measured r w =
     (case observed_send_measured_raw_rows clock backend drv flags db encoder batch measured r w of
        None \<Rightarrow> None
      | Some (Err e, events, s) \<Rightarrow>
          (let phase = write_phase_for_batch_error e in
           Some (Err (with_write_phase e phase),
                 observe backend (direct_raw_failed backend (write_phase_as_str phase) batch (Some r) e) events, s))
      | Some (Ok _, w) \<Rightarrow> Some (Ok (), w))"

text \<open>A panic in the middle of the loop loses the events of its earlier ranges here; the claims
  on events say nothing of a panic.\<close>

definition write_direct_batch_to_sink_with_observer ::
    "(nat \<Rightarrow> nat) \<Rightarrow> 's bulk_driver \<Rightarrow> fast_path_flags \<Rightarrow> 'tz timezone_db \<Rightarrow> record_batch \<Rightarrow> writer_state \<times> 's
      \<Rightarrow> trace_event list \<Rightarrow> trace_event list \<times> ((error + write_stats) \<times> writer_state \<times> 's) option" where
  "write_direct_batch_to_sink_with_observer clock drv flags db batch = (\<lambda>(state, s) events.
     let backend = writer_backend state in
     case ok_or (encoder_unavailable backend) (writer_direct_encoder state) of
       Err e \<Rightarrow> (events, Some (Err (with_write_phase e PhaseDirectEncoding), state, s))
     | Ok encoder \<Rightarrow>
         (case measure_batch db encoder batch of
            Err e \<Rightarrow>
              (let phase = write_phase_for_batch_error e in
               (observe backend (direct_raw_failed backend (write_phase_as_str phase) batch None e) events,
                Some (Err (with_write_phase e phase), state, s)))
          | Ok measured \<Rightarrow>
              (let events = observe backend (direct_raw_measured backend measured (clock (length events))) events;
                   rows_written = usize_to_u64_saturating (measured_row_count measured) in
               case row_ranges measured DIRECT_RAW_MAX_PAYLOAD_BYTES of
                 Err e \<Rightarrow>
                   (observe backend (direct_raw_failed backend DIRECT_ENCODING_PHASE batch None e) events,
                    Some (Err (with_write_phase e PhaseDirectEncoding), state, s))
               | Ok ranges \<Rightarrow>
                   (let events = observe backend
                          (direct_raw_ranges_planned backend measured ranges (clock (length events))) events in
                    case call_each (observed_send_range clock backend drv flags db encoder batch measured)
                           ranges (events, s) of
                      None \<Rightarrow> (events, None)
                    | Some (Err e, events, s) \<Rightarrow> (events, Some (Err e, state, s))
                    | Some (Ok _, events, s) \<Rightarrow>
                        (let state = record_accepted_batch rows_written state in
                         (events, Some (Ok (writer_stats state), state, s)))))))"

definition write_traced_direct_batch_to_sink ::
    "(nat \<Rightarrow> nat) \<Rightarrow> 's bulk_driver \<Rightarrow> fast_path_flags \<Rightarrow> 'tz timezone_db \<Rightarrow> record_batch \<Rightarrow> writer_state \<times> 's
      \<Rightarrow> trace_event list \<times> ((error + write_stats) \<times> writer_state \<times> 's) option" where
  "write_traced_direct_batch_to_sink clock drv flags db batch w =
     trace_result clock (batch_trace_new (writer_backend (fst w)) (writer_stats (fst w)) batch)
       (write_direct_batch_to_sink_with_observer clock drv flags db batch w)"

text \<open>\<^verbatim>\<open>BulkWriter::write_batch\<close> as it is called.\<close>

definition traced_write_batch ::
    "(nat \<Rightarrow> nat) \<Rightarrow> 's bulk_driver \<Rightarrow> fast_path_flags \<Rightarrow> 'tz timezone_db \<Rightarrow> record_batch \<Rightarrow> writer_state \<times> 's
      \<Rightarrow> trace_event list \<times> ((error + write_stats) \<times> writer_state \<times> 's) option" where
  "traced_write_batch clock drv flags db batch w =
     (case writer_backend (fst w) of
        BaselineTokenRow \<Rightarrow> write_traced_batch_to_sink clock drv db batch w
      | DirectFramedBulk \<Rightarrow> write_traced_direct_batch_to_sink clock drv flags db batch w
      | DirectRawBulk \<Rightarrow> write_traced_direct_batch_to_sink clock drv flags db batch w
      | BackendAuto \<Rightarrow> ([], Some (Err (execution_unavailable BackendAuto), w)))"

subsection \<open>Finishing\<close>

record finish_trace =
  finish_backend :: write_backend
  finish_stats :: write_stats

definition finish_attributes :: "finish_trace \<Rightarrow> (rstr \<times> trace_value) list" where
  "finish_attributes trace =
     [(lit ''backend'', TraceText (backend_trace_name (finish_backend trace))),
      (lit ''rows_written'', TraceNumber (rows_written (finish_stats trace))),
      (lit ''batches_written'', TraceNumber (batches_written (finish_stats trace)))]"

definition finish_started :: "finish_trace \<Rightarrow> trace_event" where
  "finish_started trace =
     \<lparr>trace_level = TraceInfo, trace_phase = FINISH_PHASE, trace_name = FINISH_STARTED_EVENT,
      trace_attributes = finish_attributes trace @ [(lit ''finish_result'', TraceText (lit ''started''))]\<rparr>"

definition finish_completed :: "finish_trace \<Rightarrow> nat \<Rightarrow> trace_event" where
  "finish_completed trace elapsed =
     \<lparr>trace_level = TraceInfo, trace_phase = FINISH_PHASE, trace_name = FINISH_COMPLETED_EVENT,
      trace_attributes = finish_attributes trace
        @ [(lit ''finish_result'', TraceText (lit ''success'')), trace_elapsed elapsed]\<rparr>"

definition finish_failed :: "finish_trace \<Rightarrow> nat \<Rightarrow> 'src error_of \<Rightarrow> trace_event" where
  "finish_failed trace elapsed e =
     \<lparr>trace_level = TraceError, trace_phase = FINALIZE_PHASE, trace_name = FINISH_FAILED_EVENT,
      trace_attributes =
        [(lit ''backend'', TraceText (backend_trace_name (finish_backend trace))),
         (lit ''accepted_rows_before'', TraceNumber (rows_written (finish_stats trace))),
         (lit ''accepted_batches_before'', TraceNumber (batches_written (finish_stats trace))),
         (lit ''finish_result'', TraceText (lit ''failure''))]
        @ error_attributes e @ [trace_elapsed elapsed]\<rparr>"

definition finish_writer_to_sink ::
    "(nat \<Rightarrow> nat) \<Rightarrow> 's bulk_driver \<Rightarrow> writer_state \<times> 's \<Rightarrow> trace_event list \<times> (error + write_stats) \<times> 's" where
  "finish_writer_to_sink clock drv = (\<lambda>(state, s).
     let trace = \<lparr>finish_backend = writer_backend state, finish_stats = writer_stats state\<rparr>;
         stats = writer_stats state in
     case tiberius_call (drv_finalize drv s) of
       (Err e, s) \<Rightarrow> ([finish_started trace, finish_failed trace (clock 1) e], Err (with_write_phase e Finalize), s)
     | (Ok _, s) \<Rightarrow> ([finish_started trace, finish_completed trace (clock 1)], Ok stats, s))"

subsection \<open>Tracing passes results through\<close>

lemma observe_packet_write_result:
  "map_prod id snd (observe_packet_write clock backend r rows bytes events result) = result"
  by (cases result) (simp add: observe_packet_write_def)

lemma observed_send_rows_result:
  "map_option (map_prod id snd)
     (observed_send_measured_raw_rows clock backend drv flags db encoder batch measured r (events, s))
   = send_measured_raw_rows drv flags db encoder batch measured r s"
  by (simp add: observed_send_measured_raw_rows_def send_measured_raw_rows_def observe_packet_write_result Let_def
      split: sum.split option.split prod.split)

text \<open>The result of the range loop, its error with the phase that the writer attaches.\<close>

definition with_batch_phase :: "(error + unit) \<times> 's \<Rightarrow> (error + unit) \<times> 's" where
  "with_batch_phase = map_prod (map_err (\<lambda>e. with_write_phase e (write_phase_for_batch_error e))) id"

lemma observed_send_range_result:
  "map_option (map_prod id snd) (observed_send_range clock backend drv flags db encoder batch measured r (events, s))
   = map_option with_batch_phase (send_measured_raw_rows drv flags db encoder batch measured r s)"
proof -
  let ?run = "observed_send_measured_raw_rows clock backend drv flags db encoder batch measured r (events, s)"
  have "map_option (map_prod id snd) (observed_send_range clock backend drv flags db encoder batch measured r (events, s))
      = map_option with_batch_phase (map_option (map_prod id snd) ?run)"
  proof (cases ?run)
    case (Some t)
    then show ?thesis
      by (cases t; cases "fst t")
        (auto simp: observed_send_range_def with_batch_phase_def Let_def)
  qed (simp add: observed_send_range_def)
  then show ?thesis by (simp only: observed_send_rows_result)
qed

lemma observed_ranges_result:
  "map_option (map_prod id snd)
     (call_each (observed_send_range clock backend drv flags db encoder batch measured) ranges (events, s))
   = map_option with_batch_phase (call_each (send_measured_raw_rows drv flags db encoder batch measured) ranges s)"
proof (induction ranges arbitrary: events s)
  case Nil
  then show ?case by (simp add: with_batch_phase_def)
next
  case (Cons r ranges)
  note one = observed_send_range_result [of clock backend drv flags db encoder batch measured r events s]
  show ?case
  proof (cases "observed_send_range clock backend drv flags db encoder batch measured r (events, s)")
    case None
    with one show ?thesis by simp
  next
    case (Some t)
    obtain result events' s' where t: "t = (result, events', s')" by (cases t) auto
    with Some one obtain inner where
      "send_measured_raw_rows drv flags db encoder batch measured r s = Some (inner, s')"
      "result = map_err (\<lambda>e. with_write_phase e (write_phase_for_batch_error e)) inner"
      by (cases "send_measured_raw_rows drv flags db encoder batch measured r s") (auto simp: with_batch_phase_def)
    with Some t Cons.IH [of events' s'] show ?thesis
      by (cases inner) (simp_all add: with_batch_phase_def)
  qed
qed

lemma write_direct_with_observer_result:
  "snd (write_direct_batch_to_sink_with_observer clock drv flags db batch w events)
   = write_direct_batch_to_sink drv flags db batch w"
proof -
  obtain state s where w: "w = (state, s)" by force
  let ?backend = "writer_backend state"
  show ?thesis
  proof (cases "writer_direct_encoder state")
    case None
    then show ?thesis
      by (simp add: w write_direct_batch_to_sink_with_observer_def write_direct_batch_to_sink_def Let_def)
  next
    case (Some encoder)
    note defs = w Some write_direct_batch_to_sink_with_observer_def write_direct_batch_to_sink_def Let_def
    show ?thesis
    proof (cases "measure_batch db encoder batch")
      case (Inl e)
      then show ?thesis by (simp add: defs)
    next
      case (Inr measured)
      show ?thesis
      proof (cases "row_ranges measured DIRECT_RAW_MAX_PAYLOAD_BYTES")
        case (Inl e)
        with Inr show ?thesis by (simp add: defs)
      next
        case Inr': (Inr ranges)
        let ?events = "observe ?backend (direct_raw_measured ?backend measured (clock (length events))) events"
        let ?events = "observe ?backend
          (direct_raw_ranges_planned ?backend measured ranges (clock (length ?events))) ?events"
        let ?observed = "call_each (observed_send_range clock ?backend drv flags db encoder batch measured) ranges (?events, s)"
        let ?plain = "call_each (send_measured_raw_rows drv flags db encoder batch measured) ranges s"
        have same: "map_option (map_prod id snd) ?observed = map_option with_batch_phase ?plain"
          by (rule observed_ranges_result)
        show ?thesis
        proof (cases ?plain)
          case None
          with same have "?observed = None" by simp
          with None Inr Inr' show ?thesis by (simp add: defs)
        next
          case plain: (Some t)
          obtain inner s' where t: "t = (inner, s')" by force
          with plain same obtain events' where
            "?observed = Some (map_err (\<lambda>e. with_write_phase e (write_phase_for_batch_error e)) inner, events', s')"
            by (cases ?observed) (auto simp: with_batch_phase_def)
          with plain t Inr Inr' show ?thesis by (cases inner) (simp_all add: defs)
        qed
      qed
    qed
  qed
qed

lemma trace_result_result: "snd (trace_result clock trace future) = snd (future [batch_started trace])"
  by (simp add: trace_result_def case_prod_beta)

lemma traced_write_batch_result: "snd (traced_write_batch clock drv flags db batch w) = write_batch drv flags db batch w"
  by (simp add: traced_write_batch_def write_batch_def write_traced_batch_to_sink_def
      write_traced_direct_batch_to_sink_def trace_result_result write_direct_with_observer_result
      split: write_backend.split)

lemma traced_bulk_writer_new_result:
  "snd (traced_bulk_writer_new clock drv table planned options s) = bulk_writer_new drv table planned options s"
  by (simp add: traced_bulk_writer_new_def bulk_writer_new_def Let_def del: if_split
      split: sum.split prod.split if_split)

lemma finish_writer_to_sink_result: "snd (finish_writer_to_sink clock drv w) = finish_writer drv w"
  by (simp add: finish_writer_to_sink_def finish_writer_def Let_def split: prod.split sum.split)

subsection \<open>What events may contain\<close>

text \<open>The words of this crate: backends, results and the redacted summaries of errors.\<close>

definition all_diagnostic_codes :: "diagnostic_code list" where
  "all_diagnostic_codes =
     [UnsupportedArrowType, LossyConversionRequiresPolicy, PolicyApplied, IdentifierInvalid, IdentifierTooLong,
      DecimalOutOfRange, IntegerOutOfRange, TimestampOutOfRange, TimezoneUnsupported, SchemaMismatch,
      CodeBackendUnavailable, ProfileDependentConversion, ObservedDataRequired, ValueConversionUnsupported,
      ValueTypeMismatch, NullInNonNullableColumn, NonFiniteFloat, ValueTooLong, RowIndexOutOfBounds,
      DirectEncodingInvalidPayload, DirectEncodingUnsupportedMapping, DirectEncodingUnsupportedBatch]"

definition all_write_phases :: "write_phase list" where
  "all_write_phases =
     [SchemaPlanning, WriterInitialization, TargetMetadataValidation, BatchWrite, BatchSchemaValidation,
      PhaseValueConversion, PhaseDirectEncoding, PacketWrite, Finish, Finalize]"

definition all_summaries :: "rstr list" where
  "all_summaries =
     map lit [''invalid compatibility level'', ''compatibility level is not supported by SQL Server version'',
       ''invalid identifier'', ''planning failed with diagnostics'', ''value conversion failed with diagnostics'',
       ''direct encoding failed with diagnostics'', ''write backend unavailable'', ''invalid connection string'',
       ''TCP connection failed'', ''SQL Server client setup failed'', ''table existence query failed'',
       ''table existence query returned unexpected result'', ''target row count query failed'',
       ''target row count query returned unexpected result'', ''SQL statement execution failed'',
       ''tiberius operation failed'']"

definition public_words :: "rstr list" where
  "public_words =
     map backend_trace_name [BackendAuto, BaselineTokenRow, DirectFramedBulk, DirectRawBulk]
     @ map lit [''started'', ''validating'', ''success'', ''failure'', ''unresolved''] @ all_summaries"

definition code_words :: "rstr \<Rightarrow> bool" where
  "code_words text \<longleftrightarrow>
     list_all (\<lambda>w. w = [] \<or> w \<in> set (map diagnostic_code_debug all_diagnostic_codes)) (split_commas text)"

definition public_value :: "rstr list \<Rightarrow> trace_value \<Rightarrow> bool" where
  "public_value given v \<longleftrightarrow>
     (case v of TraceText text \<Rightarrow> text \<in> set public_words \<or> code_words text \<or> text \<in> set given | _ \<Rightarrow> True)"

definition public_event :: "rstr list \<Rightarrow> trace_event \<Rightarrow> bool" where
  "public_event given event \<longleftrightarrow>
     trace_phase event \<in> set (map write_phase_as_str all_write_phases)
     \<and> list_all (\<lambda>(name, v). public_value given v) (trace_attributes event)"

lemma all_diagnostic_codes: "c \<in> set all_diagnostic_codes"
  by (cases c) (simp_all add: all_diagnostic_codes_def)

lemma all_write_phases: "phase \<in> set all_write_phases"
  by (cases phase) (simp_all add: all_write_phases_def)

lemma safe_summary_listed: "safe_summary e \<in> set all_summaries"
  by (induction e) (simp_all add: all_summaries_def)

lemma code_words_diagnostic_codes: "code_words (diagnostic_codes ds)"
proof (cases "ds = []")
  case False
  with split_commas_diagnostic_codes [of ds "[]"]
  have "split_commas (diagnostic_codes ds) @ [[]] = map (diagnostic_code_debug \<circ> diag_code) ds @ [[]]"
    using split_commas_append [of "diagnostic_codes ds" "[]"] by simp
  then show ?thesis using all_diagnostic_codes by (auto simp: code_words_def list_all_iff)
qed (simp add: code_words_def diagnostic_codes_def)

lemma code_words_single: "code_words (diagnostic_code_debug c)"
  using diagnostic_code_debug_plain [of c] all_diagnostic_codes
  by (simp add: code_words_def split_commas_word list_all_iff)

lemma code_words_error: "code_words (diagnostic_codes_for_error e)"
proof -
  have "code_words []" by (simp add: code_words_def)
  moreover note code_words_single [of CodeBackendUnavailable]
  ultimately show ?thesis
    by (simp add: diagnostic_codes_for_error_def info_diagnostic_codes_def code_words_diagnostic_codes
        code_words_single split: option.split)
qed

lemma public_numbers [simp]:
  "public_value given (TraceNumber n)" "public_value given (TraceFlag b)" "public_value given (trace_usize m)"
  by (simp_all add: public_value_def trace_usize_def)

lemma public_elapsed [simp]: "case trace_elapsed elapsed of (name, v) \<Rightarrow> public_value given v"
  by (simp add: trace_elapsed_def)

lemma public_backend [simp]: "public_value given (TraceText (backend_trace_name backend))"
  by (cases backend) (simp_all add: public_value_def public_words_def)

lemma public_words_value [simp]:
  "public_value given (TraceText (lit ''started''))" "public_value given (TraceText (lit ''validating''))"
  "public_value given (TraceText (lit ''success''))" "public_value given (TraceText (lit ''failure''))"
  "public_value given (TraceText (lit ''unresolved''))"
  by (simp_all add: public_value_def public_words_def)

lemma public_errors [simp]:
  "public_value given (TraceText (sanitized_error_summary e))"
  "public_value given (TraceText (diagnostic_codes_for_error e))"
  using safe_summary_listed [of "without_write_phase e"] code_words_error [of e]
  by (auto simp: public_value_def public_words_def sanitized_error_summary_def safe_error_info_def Let_def)

lemma public_error_attributes [simp]: "list_all (\<lambda>(name, v). public_value given v) (error_attributes e)"
  by (simp add: error_attributes_def)

lemma public_phases [simp]:
  "write_phase_as_str phase \<in> set (map write_phase_as_str all_write_phases)"
  "BATCH_WRITE_PHASE \<in> set (map write_phase_as_str all_write_phases)"
  "WRITER_INITIALIZATION_PHASE \<in> set (map write_phase_as_str all_write_phases)"
  "TARGET_METADATA_VALIDATION_PHASE \<in> set (map write_phase_as_str all_write_phases)"
  "DIRECT_ENCODING_PHASE \<in> set (map write_phase_as_str all_write_phases)"
  "PACKET_WRITE_PHASE \<in> set (map write_phase_as_str all_write_phases)"
  "FINISH_PHASE \<in> set (map write_phase_as_str all_write_phases)"
  "FINALIZE_PHASE \<in> set (map write_phase_as_str all_write_phases)"
  using all_write_phases [of phase]
  by (simp_all only: set_map imageI)
    (simp_all add: all_write_phases_def BATCH_WRITE_PHASE_def WRITER_INITIALIZATION_PHASE_def
      TARGET_METADATA_VALIDATION_PHASE_def DIRECT_ENCODING_PHASE_def PACKET_WRITE_PHASE_def FINISH_PHASE_def
      FINALIZE_PHASE_def)

subsection \<open>Events of batches\<close>

lemma public_batch_events [simp]:
  "public_event given (batch_started trace)" "public_event given (batch_completed trace elapsed stats)"
  "public_event given (batch_failed trace (write_phase_as_str phase) elapsed e)"
  by (simp_all add: public_event_def batch_started_def batch_completed_def batch_failed_def batch_attributes_def
      del: set_map)

lemma public_finish_events [simp]:
  "public_event given (finish_started trace')" "public_event given (finish_completed trace' elapsed)"
  "public_event given (finish_failed trace' elapsed e)"
  by (simp_all add: public_event_def finish_started_def finish_completed_def finish_failed_def finish_attributes_def
      del: set_map)

text \<open>The details of a direct write: events of the raw backend only, appended to the events so far.\<close>

definition detail_event :: "write_backend \<Rightarrow> trace_event \<Rightarrow> bool" where
  "detail_event backend event \<longleftrightarrow>
     backend = DirectRawBulk \<and> public_event [] event
     \<and> trace_name event \<in> {DIRECT_RAW_MEASURED_EVENT, DIRECT_RAW_RANGES_PLANNED_EVENT,
          DIRECT_RAW_PACKET_WRITE_COMPLETED_EVENT, DIRECT_RAW_FAILED_EVENT}"

definition details_after :: "write_backend \<Rightarrow> trace_event list \<Rightarrow> trace_event list \<Rightarrow> bool" where
  "details_after backend events events' \<longleftrightarrow>
     (\<exists>details. events' = events @ details \<and> list_all (detail_event backend) details)"

lemma details_after_refl [simp]: "details_after backend events events"
  by (simp add: details_after_def)

lemma details_after_trans [trans]:
  "details_after backend a b \<Longrightarrow> details_after backend b c \<Longrightarrow> details_after backend a c"
  by (auto simp: details_after_def)

lemma direct_details [simp]:
  "backend = DirectRawBulk \<Longrightarrow> detail_event backend (direct_raw_measured backend measured elapsed)"
  "backend = DirectRawBulk \<Longrightarrow> detail_event backend (direct_raw_ranges_planned backend measured ranges elapsed)"
  "backend = DirectRawBulk \<Longrightarrow> detail_event backend (direct_raw_packet_write_completed backend r rows bytes elapsed)"
  "backend = DirectRawBulk \<Longrightarrow> detail_event backend (direct_raw_failed backend (write_phase_as_str phase) batch o_r e)"
  "backend = DirectRawBulk \<Longrightarrow> detail_event backend (direct_raw_failed backend DIRECT_ENCODING_PHASE batch o_r e)"
  using public_backend [of "[]" DirectRawBulk]
  by (simp_all add: detail_event_def public_event_def direct_raw_measured_def direct_raw_ranges_planned_def
      direct_raw_packet_write_completed_def direct_raw_failed_def del: set_map split: option.split)

lemma details_observe [simp]:
  assumes "backend = DirectRawBulk \<Longrightarrow> detail_event backend event"
  shows "details_after backend events (observe backend event events)"
  using assms by (auto simp: details_after_def observe_def)

lemma observe_packet_write_details:
  "observe_packet_write clock backend r rows bytes events result = (r', events', s') \<Longrightarrow> details_after backend events events'"
  by (cases result) (auto simp: observe_packet_write_def split: sum.splits)

lemma observed_send_rows_details:
  "observed_send_measured_raw_rows clock backend drv flags db encoder batch measured r (events, s) = Some (r', events', s')
    \<Longrightarrow> details_after backend events events'"
  by (auto simp: observed_send_measured_raw_rows_def case_prod_beta Let_def
      split: sum.splits option.splits if_splits prod.splits dest: observe_packet_write_details)

lemma observed_send_range_details:
  assumes "observed_send_range clock backend drv flags db encoder batch measured r (events, s) = Some (r', events', s')"
  shows "details_after backend events events'"
proof -
  from assms obtain inner events1 s1 where
    run: "observed_send_measured_raw_rows clock backend drv flags db encoder batch measured r (events, s)
      = Some (inner, events1, s1)"
    by (auto simp: observed_send_range_def split: option.splits)
  note first = observed_send_rows_details [OF run]
  show ?thesis
  proof (cases inner)
    case (Inl e)
    with assms run have "events' = observe backend
        (direct_raw_failed backend (write_phase_as_str (write_phase_for_batch_error e)) batch (Some r) e) events1"
      by (simp add: observed_send_range_def Let_def)
    with first show ?thesis by (auto intro: details_after_trans)
  next
    case (Inr u)
    with assms run first show ?thesis by (simp add: observed_send_range_def)
  qed
qed

lemma observed_ranges_details:
  "call_each (observed_send_range clock backend drv flags db encoder batch measured) ranges (events, s)
     = Some (r', events', s') \<Longrightarrow> details_after backend events events'"
proof (induction ranges arbitrary: events s)
  case (Cons r ranges)
  from Cons.prems obtain inner events1 s1 where
    run: "observed_send_range clock backend drv flags db encoder batch measured r (events, s) = Some (inner, events1, s1)"
    by (auto split: option.splits)
  note first = observed_send_range_details [OF run]
  show ?case
  proof (cases inner)
    case (Inl e)
    with Cons.prems run first show ?thesis by simp
  next
    case (Inr u)
    with Cons.prems run have
      "call_each (observed_send_range clock backend drv flags db encoder batch measured) ranges (events1, s1)
        = Some (r', events', s')" by simp
    from details_after_trans [OF first Cons.IH [OF this]] show ?thesis .
  qed
qed simp

lemma write_direct_details:
  "details_after (writer_backend (fst w)) events
     (fst (write_direct_batch_to_sink_with_observer clock drv flags db batch w events))"
proof -
  obtain state s where w: "w = (state, s)" by force
  let ?backend = "writer_backend state"
  show ?thesis
  proof (cases "writer_direct_encoder state")
    case None
    then show ?thesis by (simp add: w write_direct_batch_to_sink_with_observer_def Let_def)
  next
    case (Some encoder)
    note defs = w Some write_direct_batch_to_sink_with_observer_def Let_def
    show ?thesis
    proof (cases "measure_batch db encoder batch")
      case (Inl e)
      then show ?thesis by (simp add: defs)
    next
      case (Inr measured)
      let ?one = "observe ?backend (direct_raw_measured ?backend measured (clock (length events))) events"
      have one: "details_after ?backend events ?one" by simp
      show ?thesis
      proof (cases "row_ranges measured DIRECT_RAW_MAX_PAYLOAD_BYTES")
        case (Inl e)
        have "details_after ?backend events
            (observe ?backend (direct_raw_failed ?backend DIRECT_ENCODING_PHASE batch None e) ?one)"
          by (rule details_after_trans [OF one]) simp
        with Inl Inr show ?thesis by (simp add: defs)
      next
        case Inr': (Inr ranges)
        let ?two = "observe ?backend
          (direct_raw_ranges_planned ?backend measured ranges (clock (length ?one))) ?one"
        have two: "details_after ?backend events ?two" by (rule details_after_trans [OF one]) simp
        let ?run = "call_each (observed_send_range clock ?backend drv flags db encoder batch measured) ranges (?two, s)"
        show ?thesis
        proof (cases ?run)
          case None
          with Inr Inr' two show ?thesis by (simp add: defs)
        next
          case run: (Some t)
          obtain r events' s' where t: "t = (r, events', s')" by (cases t) auto
          from details_after_trans [OF two observed_ranges_details [OF run [unfolded t]]]
          show ?thesis using run t Inr Inr' by (cases r) (simp_all add: defs)
        qed
      qed
    qed
  qed
qed

text \<open>The lifecycle of a batch: a start, details, and one outcome unless the write panics.\<close>

definition batch_outcome ::
    "(nat \<Rightarrow> nat) \<Rightarrow> batch_write_trace \<Rightarrow> nat \<Rightarrow> ((error + write_stats) \<times> 'w) option \<Rightarrow> trace_event list" where
  "batch_outcome clock trace position run =
     (case run of
        None \<Rightarrow> []
      | Some (Ok stats, _) \<Rightarrow> [batch_completed trace (clock position) stats]
      | Some (Err e, _) \<Rightarrow>
          [batch_failed trace (write_phase_as_str (case error_write_phase e of Some phase \<Rightarrow> phase | None \<Rightarrow> BatchWrite))
             (clock position) e])"

lemma trace_result_events:
  "fst (trace_result clock trace future) =
     (let (events, run) = future [batch_started trace] in events @ batch_outcome clock trace (length events) run)"
  by (auto simp: trace_result_def batch_outcome_def Let_def split: prod.split option.split sum.split)

lemma traced_write_batch_events:
  assumes "writer_backend (fst w) \<noteq> BackendAuto"
  shows "\<exists>details. list_all (detail_event (writer_backend (fst w))) details
    \<and> fst (traced_write_batch clock drv flags db batch w) =
      (let trace = batch_trace_new (writer_backend (fst w)) (writer_stats (fst w)) batch in
       batch_started trace # details
         @ batch_outcome clock trace (Suc (length details)) (write_batch drv flags db batch w))"
proof -
  let ?trace = "batch_trace_new (writer_backend (fst w)) (writer_stats (fst w)) batch"
  show ?thesis
  proof (cases "writer_backend (fst w) = BaselineTokenRow")
    case True
    then have "fst (traced_write_batch clock drv flags db batch w) =
        batch_started ?trace # [] @ batch_outcome clock ?trace (Suc 0) (write_batch drv flags db batch w)"
      by (simp add: traced_write_batch_def write_traced_batch_to_sink_def write_batch_def trace_result_events)
    then show ?thesis by (intro exI [of _ "[]"]) (simp add: Let_def)
  next
    case False
    with assms have same:
      "traced_write_batch clock drv flags db batch w = write_traced_direct_batch_to_sink clock drv flags db batch w"
      "write_batch drv flags db batch w = write_direct_batch_to_sink drv flags db batch w"
      by (simp_all add: traced_write_batch_def write_batch_def split: write_backend.split)
    let ?future = "write_direct_batch_to_sink_with_observer clock drv flags db batch w [batch_started ?trace]"
    from write_direct_details [of w "[batch_started ?trace]" clock drv flags db batch] obtain details where
      "list_all (detail_event (writer_backend (fst w))) details" "fst ?future = batch_started ?trace # details"
      by (auto simp: details_after_def)
    then show ?thesis
      by (intro exI [of _ details])
        (simp add: same write_traced_direct_batch_to_sink_def trace_result_events case_prod_beta
          write_direct_with_observer_result Let_def)
  qed
qed

subsection \<open>Properties\<close>

lemma public_batch_outcome: "list_all (public_event given) (batch_outcome clock trace n run)"
  by (auto simp: batch_outcome_def split: option.split sum.split prod.split)

lemma public_initialization [simp]:
  assumes "init_target_schema trace \<in> set given" "init_target_table trace \<in> set given"
  shows "public_event given (initialization_started trace)"
    "public_event given (target_metadata_validation_started trace)"
    "public_event given (target_metadata_validation_completed trace elapsed)"
    "public_event given (initialization_completed trace elapsed)"
    "public_event given (initialization_failed trace WRITER_INITIALIZATION_PHASE elapsed e)"
    "public_event given (initialization_failed trace TARGET_METADATA_VALIDATION_PHASE elapsed e)"
proof -
  have "public_value given (TraceText (init_target_schema trace))" "public_value given (TraceText (init_target_table trace))"
    using assms by (simp_all add: public_value_def)
  moreover have "public_value given (TraceText (resolved_backend_name trace))"
    by (simp add: resolved_backend_name_def split: option.split)
  ultimately show "public_event given (initialization_started trace)"
    "public_event given (target_metadata_validation_started trace)"
    "public_event given (target_metadata_validation_completed trace elapsed)"
    "public_event given (initialization_completed trace elapsed)"
    "public_event given (initialization_failed trace WRITER_INITIALIZATION_PHASE elapsed e)"
    "public_event given (initialization_failed trace TARGET_METADATA_VALIDATION_PHASE elapsed e)"
    by (simp_all add: public_event_def initialization_started_def target_metadata_validation_started_def
        target_metadata_validation_completed_def initialization_completed_def initialization_failed_def
        initialization_attributes_def del: set_map)
qed

definition target_words :: "table_name \<Rightarrow> rstr list" where
  "target_words table =
     [case table_schema table of Some schema \<Rightarrow> identifier_as_str schema | None \<Rightarrow> [],
      identifier_as_str (table_table table)]"

lemma public_new_writer: "list_all (public_event (target_words table)) (fst (traced_bulk_writer_new clock drv table planned options s))"
proof -
  let ?trace = "initialization_trace_new table (option_backend options) (length (planned_mappings planned))"
  have words: "init_target_schema ?trace \<in> set (target_words table)" "init_target_table ?trace \<in> set (target_words table)"
    by (simp_all add: initialization_trace_new_def target_words_def)
  have later: "init_target_schema (record_direct_target_validation_required b (record_resolved_backend backend ?trace)) \<in> set (target_words table)"
    "init_target_table (record_direct_target_validation_required b (record_resolved_backend backend ?trace)) \<in> set (target_words table)" for b backend
    using words by (simp_all add: record_direct_target_validation_required_def record_resolved_backend_def)
  note public_initialization [OF words, simp] public_initialization [OF later, simp]
  show ?thesis
    by (simp add: traced_bulk_writer_new_def Let_def del: if_split split: sum.split prod.split if_split)
qed

text \<open>C36: tracing observes the writer and changes nothing. Opening, writing and
  finishing with events return what they return without; and a batch on an open writer tells one
  story: its start, details on the raw backend only, and then exactly the result of the write, the
  statistics after an accepted batch or the phase of the error of a refused one (and no outcome
  when the write panics).\<close>

theorem writer_tracing_faithful:
  "snd (traced_bulk_writer_new clock drv table planned options s) = bulk_writer_new drv table planned options s
   \<and> snd (traced_write_batch clock drv flags db batch (state, s)) = write_batch drv flags db batch (state, s)
   \<and> snd (finish_writer_to_sink clock drv (state, s)) = finish_writer drv (state, s)
   \<and> (let events = fst (traced_write_batch clock drv flags db batch (state, s));
          trace = batch_trace_new (writer_backend state) (writer_stats state) batch in
      if writer_backend state = BackendAuto then events = []
      else \<exists>details. list_all (detail_event (writer_backend state)) details
        \<and> events = batch_started trace # details
            @ (case write_batch drv flags db batch (state, s) of
                 None \<Rightarrow> []
               | Some (Ok stats, _) \<Rightarrow> [batch_completed trace (clock (Suc (length details))) stats]
               | Some (Err e, _) \<Rightarrow>
                   [batch_failed trace
                      (write_phase_as_str (case error_write_phase e of Some phase \<Rightarrow> phase | None \<Rightarrow> BatchWrite))
                      (clock (Suc (length details))) e]))"
proof (cases "writer_backend state = BackendAuto")
  case True
  then show ?thesis
    by (simp add: traced_bulk_writer_new_result traced_write_batch_result finish_writer_to_sink_result)
      (simp add: traced_write_batch_def)
next
  case False
  with traced_write_batch_events [of "(state, s)" clock drv flags db batch] show ?thesis
    by (simp add: traced_bulk_writer_new_result traced_write_batch_result finish_writer_to_sink_result
        batch_outcome_def Let_def)
qed

text \<open>C35: no user data reaches the telemetry of a writer. Whatever the batch, the
  driver and its errors, every text in an event is a word of this crate (a backend, a
  result, a redacted error summary), a list of diagnostic codes, or, while a writer is opened,
  the name of the target table and its schema; everything else is numbers and flags. Values of cells, names of
  columns, texts of the driver and connection strings do not occur.\<close>

theorem telemetry_text_public:
  "list_all (public_event []) (fst (traced_write_batch clock drv flags db batch w))
   \<and> list_all (public_event []) (fst (finish_writer_to_sink clock drv w))
   \<and> list_all (public_event (target_words table)) (fst (traced_bulk_writer_new clock drv table planned options s))"
proof (intro conjI)
  show "list_all (public_event []) (fst (traced_write_batch clock drv flags db batch w))"
  proof (cases "writer_backend (fst w) = BackendAuto")
    case True
    then show ?thesis by (simp add: traced_write_batch_def)
  next
    case False
    have "list_all (detail_event backend) details \<Longrightarrow> list_all (public_event []) details" for backend details
      by (erule list.pred_mono_strong) (simp add: detail_event_def)
    with traced_write_batch_events [OF False, of clock drv flags db batch] show ?thesis
      by (auto simp: Let_def public_batch_outcome)
  qed
  show "list_all (public_event []) (fst (finish_writer_to_sink clock drv w))"
    by (cases w) (simp add: finish_writer_to_sink_def Let_def split: prod.split sum.split)
  show "list_all (public_event (target_words table)) (fst (traced_bulk_writer_new clock drv table planned options s))"
    by (rule public_new_writer)
qed

end
