(* ===== verification/RowDecode.thy ===== *)
theory RowDecode
  imports Agreement WireCells
begin

text \<open>
  Reading rows back. A receiver of the TDS row stream that knows the columns of the target, that is
  their SQL Server types and nullability, and nothing of the sender, reads every row the direct path writes,
  and finds the cells of the baseline conversion. The readers are specification: no code
  under \<^verbatim>\<open>src/\<close> reads rows.
\<close>

subsection \<open>Frames\<close>

text \<open>How a cell is delimited: not at all, by a byte, by two bytes, or in chunks of a partially
  length-prefixed value. Columns that allow nulls are always delimited.\<close>

datatype cell_frame = BareFrame nat | ByteFrame | ShortFrame | ChunkFrame

definition fixed_frame :: "bool \<Rightarrow> nat \<Rightarrow> cell_frame" where
  "fixed_frame nullable n = (if nullable then ByteFrame else BareFrame n)"

fun type_frame :: "bool \<Rightarrow> mssql_type \<Rightarrow> cell_frame" where
  "type_frame nullable MsBit = fixed_frame nullable 1"
| "type_frame nullable MsTinyInt = fixed_frame nullable 1"
| "type_frame nullable MsSmallInt = fixed_frame nullable 2"
| "type_frame nullable MsInt = fixed_frame nullable 4"
| "type_frame nullable MsBigInt = fixed_frame nullable 8"
| "type_frame nullable MsReal = fixed_frame nullable 4"
| "type_frame nullable (MsFloat _) = fixed_frame nullable 8"
| "type_frame nullable MsDateTime = fixed_frame nullable 8"
| "type_frame nullable (MsNVarChar len) = (case len of Bounded _ \<Rightarrow> ShortFrame | MaxLength \<Rightarrow> ChunkFrame)"
| "type_frame nullable (MsVarBinary len) = (case len of Bounded _ \<Rightarrow> ShortFrame | MaxLength \<Rightarrow> ChunkFrame)"
| "type_frame nullable (MsBinary _) = ShortFrame"
| "type_frame nullable (MsDecimal _ _) = ByteFrame"
| "type_frame nullable MsDate = ByteFrame"
| "type_frame nullable (MsTime _) = ByteFrame"
| "type_frame nullable (MsDateTime2 _) = ByteFrame"
| "type_frame nullable (MsDateTimeOffset _) = ByteFrame"

definition split_at :: "nat \<Rightarrow> bytes \<Rightarrow> (bytes \<times> bytes) option" where
  "split_at n bs = (if length bs < n then None else Some (take n bs, drop n bs))"

text \<open>Chunks up to the empty one.\<close>

function read_chunks :: "bytes \<Rightarrow> (bytes \<times> bytes) option" where
  "read_chunks bs =
     (if length bs < 4 then None
      else let n = le_nat (take 4 bs); rest = drop 4 bs in
        if n = 0 then Some ([], rest)
        else if length rest < n then None
        else map_option (apfst ((@) (take n rest))) (read_chunks (drop n rest)))"
  by pat_completeness auto
termination by (relation "measure length") auto

declare read_chunks.simps [simp del]

text \<open>The payload of a cell, or nothing for a null.\<close>

definition read_frame :: "cell_frame \<Rightarrow> bytes \<Rightarrow> (bytes option \<times> bytes) option" where
  "read_frame frame bs =
     (case frame of
        BareFrame n \<Rightarrow> map_option (apfst Some) (split_at n bs)
      | ByteFrame \<Rightarrow>
          Option.bind (split_at 1 bs) (\<lambda>(len, rest).
            if len = [0] then Some (None, rest)
            else map_option (apfst Some) (split_at (unat (hd len)) rest))
      | ShortFrame \<Rightarrow>
          Option.bind (split_at 2 bs) (\<lambda>(len, rest).
            if le_nat len = 0xFFFF then Some (None, rest)
            else map_option (apfst Some) (split_at (le_nat len) rest))
      | ChunkFrame \<Rightarrow>
          Option.bind (split_at 8 bs) (\<lambda>(len, rest).
            if le_nat len = 0xFFFFFFFFFFFFFFFF then Some (None, rest)
            else if le_nat len = 0xFFFFFFFFFFFFFFFE then map_option (apfst Some) (read_chunks rest)
            else None))"

lemma split_at_append [simp]: "length a = n \<Longrightarrow> split_at n (a @ r) = Some (a, r)"
  by (simp add: split_at_def)

lemma split_at_Cons [simp]: "split_at (Suc 0) (b # r) = Some ([b], r)"
  by (simp add: split_at_def)

lemma read_bare: "length p = n \<Longrightarrow> read_frame (BareFrame n) (p @ r) = Some (Some p, r)"
  by (simp add: read_frame_def)

lemma read_byte_null: "read_frame ByteFrame ([0] @ r) = Some (None, r)"
  by (simp add: read_frame_def)

lemma read_byte:
  assumes "0 < length p" "length p < 256"
  shows "read_frame ByteFrame ((of_nat (length p) # p) @ r) = Some (Some p, r)"
proof -
  have n: "unat (of_nat (length p) :: u8) = length p" using assms(2) by (simp add: unat_of_nat)
  with assms(1) have "(of_nat (length p) :: u8) \<noteq> 0" by (metis less_numeral_extra(3) unsigned_0)
  with n show ?thesis by (simp add: read_frame_def)
qed

lemma le_nat_small: "v < 256 ^ n \<Longrightarrow> le_nat (le_bytes n v) = v"
  by (simp add: le_nat_le_bytes)

lemma read_short_null: "read_frame ShortFrame (le_bytes 2 0xFFFF @ r) = Some (None, r)"
  by (simp add: read_frame_def le_nat_small)

lemma read_short: "length p < 0xFFFF \<Longrightarrow> read_frame ShortFrame (le_bytes 2 (length p) @ p @ r) = Some (Some p, r)"
  by (simp add: read_frame_def le_nat_small)

lemma read_chunks_end: "read_chunks (le_bytes 4 0 @ r) = Some ([], r)"
  by (subst read_chunks.simps) (simp add: le_nat_small)

lemma read_one_chunk:
  assumes "p \<noteq> []" "length p < 2 ^ 32"
  shows "read_chunks (le_bytes 4 (length p) @ p @ le_bytes 4 0 @ r) = Some (p, r)"
proof -
  have "le_nat (le_bytes 4 (length p)) = length p" using assms(2) by (simp add: le_nat_small)
  then show ?thesis using assms(1)
    by (subst read_chunks.simps) (simp add: Let_def read_chunks_end)
qed

lemma read_chunked_null: "read_frame ChunkFrame (le_bytes 8 0xFFFFFFFFFFFFFFFF @ r) = Some (None, r)"
  by (simp add: read_frame_def le_nat_small)

lemma read_chunked:
  "length p < 2 ^ 32 \<Longrightarrow>
     read_frame ChunkFrame (le_bytes 8 0xFFFFFFFFFFFFFFFE @ le_bytes 4 (length p) @ p
       @ (if p = [] then [] else le_bytes 4 0) @ r) = Some (Some p, r)"
  using read_one_chunk [of p r] read_chunks_end [of r] by (simp add: read_frame_def le_nat_small)

subsection \<open>Values\<close>

fun read_code_units :: "bytes \<Rightarrow> u16 list option" where
  "read_code_units [] = Some []"
| "read_code_units [_] = None"
| "read_code_units (a # b # bs) = map_option ((#) (word_of_nat (le_nat [a, b]))) (read_code_units bs)"

definition sized_word :: "nat \<Rightarrow> bytes \<Rightarrow> 'w::len word option" where
  "sized_word n bs = (if length bs = n then Some (word_of_nat (le_nat bs)) else None)"

definition read_value :: "mssql_type \<Rightarrow> bytes \<Rightarrow> mssql_cell option" where
  "read_value ty bs =
     (case ty of
        MsBit \<Rightarrow> map_option (\<lambda>v :: u8. CBit (Some (v \<noteq> 0))) (sized_word 1 bs)
      | MsTinyInt \<Rightarrow> map_option (\<lambda>v. CTinyInt (Some v)) (sized_word 1 bs)
      | MsSmallInt \<Rightarrow> map_option (\<lambda>v. CSmallInt (Some v)) (sized_word 2 bs)
      | MsInt \<Rightarrow> map_option (\<lambda>v. CInt (Some v)) (sized_word 4 bs)
      | MsBigInt \<Rightarrow> map_option (\<lambda>v. CBigInt (Some v)) (sized_word 8 bs)
      | MsReal \<Rightarrow> map_option (\<lambda>v. CReal (Some v)) (sized_word 4 bs)
      | MsFloat _ \<Rightarrow> map_option (\<lambda>v. CFloat (Some v)) (sized_word 8 bs)
      | MsDecimal _ scale \<Rightarrow>
          map_option (\<lambda>v. CDecimal (Some \<lparr>dec_unscaled = v, dec_scale = word_of_int (sint scale)\<rparr>)) (read_decimal bs)
      | MsDate \<Rightarrow> map_option (\<lambda>v. CDate (Some v)) (read_date bs)
      | MsTime precision \<Rightarrow> map_option (\<lambda>v. CTime (Some v)) (read_time (time_precision_get precision) bs)
      | MsDateTime \<Rightarrow> map_option (\<lambda>v. CDateTime (Some v)) (read_datetime bs)
      | MsDateTime2 precision \<Rightarrow> map_option (\<lambda>v. CDateTime2 (Some v)) (read_datetime2 precision bs)
      | MsDateTimeOffset precision \<Rightarrow>
          map_option (\<lambda>v. CDateTimeOffset (Some v)) (read_datetimeoffset precision bs)
      | MsNVarChar _ \<Rightarrow> map_option (\<lambda>us. CNVarChar (Some (decode_utf16 us))) (read_code_units bs)
      | MsVarBinary _ \<Rightarrow> Some (CVarBinary (Some bs))
      | MsBinary _ \<Rightarrow> Some (CVarBinary (Some bs)))"

definition read_wire_cell :: "mssql_column \<Rightarrow> bytes \<Rightarrow> (mssql_cell \<times> bytes) option" where
  "read_wire_cell column bs =
     (let ty = column_ty column in
      Option.bind (read_frame (type_frame (column_nullable column) ty) bs) (\<lambda>(payload, rest).
        case payload of
          None \<Rightarrow> Some (null_cell_of ty, rest)
        | Some p \<Rightarrow> map_option (\<lambda>cell. (cell, rest)) (read_value ty p)))"

primrec read_wire_cells :: "mssql_column list \<Rightarrow> bytes \<Rightarrow> (mssql_cell list \<times> bytes) option" where
  "read_wire_cells [] bs = Some ([], bs)"
| "read_wire_cells (column # columns) bs =
     Option.bind (read_wire_cell column bs) (\<lambda>(cell, rest).
       map_option (apfst ((#) cell)) (read_wire_cells columns rest))"

primrec read_rows :: "mssql_column list \<Rightarrow> nat \<Rightarrow> bytes \<Rightarrow> (mssql_cell list list \<times> bytes) option" where
  "read_rows columns 0 bs = Some ([], bs)"
| "read_rows columns (Suc n) bs =
     (case bs of
        [] \<Rightarrow> None
      | token # bs \<Rightarrow>
          if token = TDS_ROW_TOKEN
          then Option.bind (read_wire_cells columns bs) (\<lambda>(cells, rest).
                 map_option (apfst ((#) cells)) (read_rows columns n rest))
          else None)"

lemma read_code_units_utf16le: "read_code_units (concat (map (\<lambda>u. le_bytes 2 (unat u)) us)) = Some us"
proof (induction us)
  case (Cons u us)
  have "le_nat (le_bytes 2 (unat u)) = unat u"
    using unsigned_less [of u, where ?'a = nat] by (simp add: le_nat_small)
  moreover obtain a b where "le_bytes 2 (unat u) = [a, b]" by (simp add: numeral_2_eq_2)
  ultimately show ?case using Cons.IH by simp
qed simp

lemma sized_le_bytes:
  assumes "LENGTH('w::len) \<le> 8 * n"
  shows "sized_word n (le_bytes n (unat (w :: 'w word))) = Some w"
proof -
  have "unat w < 2 ^ LENGTH('w)" by (rule unsigned_less)
  also have "\<dots> \<le> 2 ^ (8 * n)" using assms by (intro power_increasing) simp_all
  finally have "unat w < 256 ^ n" by (simp add: power_mult)
  then show ?thesis by (simp add: sized_word_def le_nat_small)
qed

subsection \<open>Converted cells have the scale of their column\<close>

lemma time_value_scale:
  "mssql_time_value rm row cell = Ok t \<Longrightarrow> target_type (rm_mapping rm) = MsTime (MssqlTimePrecision (time_scale t))"
  by (cases cell)
    (auto simp: mssql_time_value_def Let_def result_simps temporal_cls.classify_Ok mssql_time_from_i64_def
      mssql_time_new_def time_from_nanoseconds_Ok(1) split: if_splits)

lemma at_scale_scale:
  "mssql_datetime2_from_unix_epoch_100ns_ticks_at_scale m row ticks scale = Ok c
    \<Longrightarrow> time_scale (datetime2_time c) = scale"
  by (auto simp: mssql_datetime2_from_unix_epoch_100ns_ticks_at_scale_def Let_def result_simps cell_new_defs
      split: if_splits)

lemma timestamp_ticks_scale:
  assumes "mssql_datetime2_from_arrow_timestamp_ticks m row ticks = Ok c"
  shows "target_type m = MsDateTime2 (time_scale (datetime2_time c))"
proof -
  from assms obtain p where p: "target_datetime2_timestamp_scale m row = Ok p"
    "mssql_datetime2_from_unix_epoch_100ns_ticks_at_scale m row ticks p = Ok c"
    by (auto simp: mssql_datetime2_from_arrow_timestamp_ticks_def result_simps)
  from p(1) have "target_type m = MsDateTime2 p"
    by (simp add: target_datetime2_timestamp_scale_def split: mssql_type.splits if_splits)
  with at_scale_scale [OF p(2)] show ?thesis by simp
qed

lemma date64_value_scale: "mssql_datetime2_from_arrow_date64 m row v = Ok c \<Longrightarrow> time_scale (datetime2_time c) = 3"
  by (auto simp: mssql_datetime2_from_arrow_date64_def Let_def time_constants cell_new_defs split: if_splits)

lemma datetime2_value_scale:
  assumes "mssql_datetime2_value db rm row cell = Ok c"
  shows "target_type (rm_mapping rm) = MsDateTime2 (time_scale (datetime2_time c))"
proof -
  from assms obtain kind where kind: "datetime2_mapping_kind (rm_mapping rm) row = Ok kind"
    by (auto simp: mssql_datetime2_value_def Let_def result_simps)
  then have "kind = KindDate64 \<Longrightarrow> target_type (rm_mapping rm) = MsDateTime2 3"
    by (auto simp: datetime2_mapping_kind_def Let_def split: data_type.splits mssql_type.splits if_splits)
  with assms kind show ?thesis
    by (cases kind; cases cell)
      (auto simp: mssql_datetime2_value_def Let_def result_simps
        mssql_datetime2_from_arrow_timestamp_second_def
        mssql_datetime2_from_arrow_timestamp_millisecond_def
        mssql_datetime2_from_arrow_timestamp_microsecond_def
        mssql_datetime2_from_arrow_timestamp_nanosecond_def
        dest: date64_value_scale timestamp_ticks_scale)
qed

lemma datetimeoffset_utc_scale:
  "mssql_datetimeoffset_from_utc_100ns_ticks m row utc off = Ok c \<Longrightarrow> time_scale (datetime2_time (dto_datetime2 c)) = 7"
  by (auto simp: mssql_datetimeoffset_from_utc_100ns_ticks_def mssql_datetime2_from_unix_epoch_100ns_ticks_def
      Let_def result_simps cell_new_defs time_constants dest: at_scale_scale)

lemma datetimeoffset_value_scale:
  assumes "mssql_datetimeoffset_value db rm row cell = Ok c"
  shows "target_type (rm_mapping rm) = MsDateTimeOffset (time_scale (datetime2_time (dto_datetime2 c)))"
proof -
  have "time_scale (datetime2_time (dto_datetime2 c)) = 7"
    using assms
    by (cases cell)
      (auto simp: mssql_datetimeoffset_value_def Let_def result_simps
        mssql_datetimeoffset_from_arrow_timestamp_second_def
        mssql_datetimeoffset_from_arrow_timestamp_millisecond_def
        mssql_datetimeoffset_from_arrow_timestamp_microsecond_def
        mssql_datetimeoffset_from_arrow_timestamp_nanosecond_def
        split: option.splits if_splits dest: datetimeoffset_utc_scale)
  moreover have "target_type (rm_mapping rm) = MsDateTimeOffset 7"
    using assms
    by (cases cell)
      (auto simp: mssql_datetimeoffset_value_def Let_def result_simps temporal_cls.classify_Ok
        split: option.splits if_splits)
  ultimately show ?thesis by simp
qed

lemma decimal_value_scale:
  assumes ok: "mssql_decimal_value m row cell = Ok d" and ty: "target_type m = MsDecimal p s"
  shows "dec_scale d = word_of_int (sint s)"
proof -
  have "uint (dec_scale d) = sint s"
  proof (cases "source_type m = DtUInt64")
    case True
    with ok ty show ?thesis
      by (cases cell)
        (auto simp: mssql_decimal_value_def result_simps decimal_scale_def try_unsigned_Some mssql_decimal_def
          mssql_decimal_with_shape_def mssql_decimal_new_def split: if_splits)
  next
    case False
    with ok obtain c where c: "decimal_classify m row = Ok c" by (auto simp: mssql_decimal_value_def result_simps)
    with ok False obtain v where d: "mssql_decimal_for_classification m row v c = Ok d"
      by (cases c; cases cell) (auto simp: mssql_decimal_value_def Let_def result_simps)
    from c ty have "uint (target_scale c) = sint s"
      by (auto simp: decimal_cls.classify_Ok decimal_fits_def)
    with d show ?thesis
      by (auto simp: mssql_decimal_for_classification_def mssql_decimal_with_shape_def mssql_decimal_new_def
          split: if_splits)
  qed
  then show ?thesis by (metis word_of_int_uint)
qed

subsection \<open>Readable cells\<close>

text \<open>The text of a string is a sequence of scalar values, as of every Rust string.\<close>

definition scalar_text :: "rstr \<Rightarrow> bool" where
  "scalar_text s \<longleftrightarrow> list_all scalar_value s"

definition scalar_cell :: "arrow_cell \<Rightarrow> bool" where
  "scalar_cell cell \<longleftrightarrow> (case cell of CellUtf8 s \<Rightarrow> scalar_text s | _ \<Rightarrow> True)"

text \<open>What the reader relies on: the kind of the type, and values in range and at the scale of the type.\<close>

definition readable_cell :: "mssql_type \<Rightarrow> mssql_cell \<Rightarrow> bool" where
  "readable_cell ty cell \<longleftrightarrow> cell_has_type cell ty
     \<and> (case cell of
          CDecimal (Some d) \<Rightarrow> (case ty of MsDecimal _ s \<Rightarrow> dec_scale d = word_of_int (sint s) | _ \<Rightarrow> False)
        | CDate (Some d) \<Rightarrow> valid_date d
        | CTime (Some t) \<Rightarrow> valid_time t \<and> ty = MsTime (MssqlTimePrecision (time_scale t))
        | CDateTime2 (Some c) \<Rightarrow> valid_datetime2 c \<and> ty = MsDateTime2 (time_scale (datetime2_time c))
        | CDateTimeOffset (Some z) \<Rightarrow>
            valid_datetimeoffset z \<and> ty = MsDateTimeOffset (time_scale (datetime2_time (dto_datetime2 z)))
        | CNVarChar (Some s) \<Rightarrow> scalar_text s
        | CVarBinary (Some b) \<Rightarrow> (case ty of MsBinary n \<Rightarrow> length b = n | _ \<Rightarrow> True)
        | _ \<Rightarrow> True)"

lemma readable_null [simp]: "readable_cell ty (null_cell_of ty)"
  by (simp add: readable_cell_def null_cell_of_def cell_has_type_def split: mssql_type.split)

lemma readable_other:
  assumes "cell_has_type out ty"
    and "case ty of MsBit \<Rightarrow> True | MsTinyInt \<Rightarrow> True | MsSmallInt \<Rightarrow> True | MsInt \<Rightarrow> True | MsBigInt \<Rightarrow> True
           | MsReal \<Rightarrow> True | MsFloat _ \<Rightarrow> True | MsDateTime \<Rightarrow> True | MsVarBinary _ \<Rightarrow> True | _ \<Rightarrow> False"
  shows "readable_cell ty out"
  using assms by (cases ty) (auto simp: readable_cell_def cell_has_type_def split: mssql_cell.splits option.splits)

lemma temporal_value_facts:
  "mssql_time_value rm row cell = Ok t
    \<Longrightarrow> valid_time t \<and> target_type (rm_mapping rm) = MsTime (MssqlTimePrecision (time_scale t))"
  "mssql_datetime2_value db rm row cell = Ok c
    \<Longrightarrow> valid_datetime2 c \<and> target_type (rm_mapping rm) = MsDateTime2 (time_scale (datetime2_time c))"
  "mssql_datetimeoffset_value db rm row cell = Ok z
    \<Longrightarrow> valid_datetimeoffset z
      \<and> target_type (rm_mapping rm) = MsDateTimeOffset (time_scale (datetime2_time (dto_datetime2 z)))"
  by (rule conjI, erule time_value_valid, erule time_value_scale)
    (rule conjI, erule datetime2_value_valid, erule datetime2_value_scale,
     rule conjI, erule datetimeoffset_value_valid, erule datetimeoffset_value_scale)

lemma converted_cell_readable:
  assumes ok: "mssql_cell_from_arrow_cell db rm cell row = Ok out" and scalar: "scalar_cell cell"
  shows "readable_cell (target_type (rm_mapping rm)) out"
    and "is_null_cell out \<Longrightarrow> out = null_cell_of (target_type (rm_mapping rm))"
    and "is_null_cell out \<Longrightarrow> column_nullable (mapping_mssql (rm_mapping rm))"
proof -
  let ?m = "rm_mapping rm"
  have "readable_cell (target_type ?m) out
    \<and> (is_null_cell out \<longrightarrow> out = null_cell_of (target_type ?m) \<and> column_nullable (mapping_mssql ?m))"
  proof (cases "cell = CellNull")
    case True
    with ok null_mssql_cell_Ok [of db ?m row out] show ?thesis
      by (auto simp: mssql_cell_from_arrow_cell_def Let_def split: if_splits)
  next
    case False
    have prim: "cell_has_type out (target_type ?m)" "\<not> is_null_cell out" if "primitive_mssql_cell ?m row cell = Ok out"
      using primitive_cell_type [OF that] by simp_all
    show ?thesis
    proof (cases "target_type ?m")
      case (MsNVarChar len)
      with ok False have "nvar_char_cell ?m row len cell = Ok out" by (simp add: mssql_cell_from_arrow_cell_def Let_def)
      moreover from this obtain c where "variable_width_classify ?m row = Ok c"
        by (auto simp: nvar_char_cell_def result_simps)
      ultimately obtain v where "cell = CellUtf8 v" "out = CNVarChar (Some v)"
        by (cases c; cases cell) (auto simp: nvar_char_cell_def mssql_nvarchar_value_def result_simps split: if_splits)
      with scalar MsNVarChar show ?thesis
        by (simp add: readable_cell_def cell_has_type_def is_null_cell_def scalar_cell_def)
    next
      case (MsBinary len)
      with ok False show ?thesis
        by (auto simp: mssql_cell_from_arrow_cell_def Let_def binary_cell_def result_simps readable_cell_def
            cell_has_type_def is_null_cell_def split: if_splits)
    next
      case (MsVarBinary len)
      with ok False variable_width_cell_type(2) [of ?m row len cell out] show ?thesis
        by (auto simp: mssql_cell_from_arrow_cell_def Let_def readable_cell_def cell_has_type_def is_null_cell_def)
    qed (use ok False prim readable_other [of out "target_type ?m"] in
        \<open>auto simp: mssql_cell_from_arrow_cell_def Let_def map_ok_Inr readable_cell_def [of _ "CDecimal _"]
           readable_cell_def [of _ "CDate _"] readable_cell_def [of _ "CTime _"] readable_cell_def [of _ "CDateTime _"]
           readable_cell_def [of _ "CDateTime2 _"] readable_cell_def [of _ "CDateTimeOffset _"]
           cell_has_type_def [of _ "MsDecimal _ _"] cell_has_type_def [of _ MsDate] cell_has_type_def [of _ "MsTime _"]
           cell_has_type_def [of _ MsDateTime] cell_has_type_def [of _ "MsDateTime2 _"]
           cell_has_type_def [of _ "MsDateTimeOffset _"] is_null_cell_def dest: temporal_value_facts date_value_valid decimal_value_scale\<close>)
  qed
  then show "readable_cell (target_type ?m) out" "is_null_cell out \<Longrightarrow> out = null_cell_of (target_type ?m)"
    "is_null_cell out \<Longrightarrow> column_nullable (mapping_mssql ?m)" by simp_all
qed

subsection \<open>One cell\<close>

lemma encoding_family:
  assumes "encoding_fits enc t ty"
  shows "case ty of
      MsNVarChar len \<Rightarrow> enc = EncVariableWidth (StringToNVarChar len)
    | MsVarBinary len \<Rightarrow> enc = EncVariableWidth (BytesToVarBinary len)
    | MsBinary n \<Rightarrow> enc = EncFixedSizeBinary (FixedSizeBinaryToBinary n)
    | _ \<Rightarrow> (\<forall>c. enc \<noteq> EncVariableWidth c) \<and> (\<forall>c. enc \<noteq> EncFixedSizeBinary c)"
proof (cases enc)
  case (EncPrimitive c)
  with assms show ?thesis by (cases c) auto
next
  case EncUInt64Decimal20_0
  with assms show ?thesis by auto
next
  case (EncDecimal c)
  with assms show ?thesis by (auto simp: decimal_fits_def split: mssql_type.splits)
next
  case (EncVariableWidth c)
  with assms show ?thesis by (cases c) auto
next
  case (EncFixedSizeBinary c)
  with assms show ?thesis by (cases c) auto
next
  case (EncTemporal c)
  with assms show ?thesis by (cases c) (auto simp: datetime2_target_def split: mssql_type.splits)
qed

lemma read_null_frame:
  assumes fits: "encoding_fits enc t (target_type m)" and col: "col = column_plan_from_mapping m enc"
    and nullable: "column_nullable (mapping_mssql m)"
  shows "read_frame (type_frame True (target_type m)) (wire_null col @ rest) = Some (None, rest)"
  using encoding_family [OF fits] read_byte_null [of rest] read_short_null [of rest] read_chunked_null [of rest]
  by (cases "target_type m"; cases enc)
    (auto simp: wire_null_def col encoded_length_def variable_null_def fixed_frame_def split: mssql_type_length.split)

lemma read_prefixed:
  assumes "length b = n" "0 < n" "n < 256"
  shows "read_frame (fixed_frame (plan_nullable col) n) (prefixed col b @ rest) = Some (Some b, rest)"
  using read_byte [of b rest] read_bare [of b n rest] assms by (simp add: fixed_frame_def prefixed_def)

lemma variable_wire_reads:
  assumes "variable_wire len x = Ok w"
  shows "read_frame (case len of Bounded _ \<Rightarrow> ShortFrame | MaxLength \<Rightarrow> ChunkFrame) (w @ rest) = Some (Some x, rest)"
  using assms read_short [of x rest] read_chunked [of x rest]
  by (auto simp: variable_wire_def MAX_BOUNDED_TDS_VALUE_LEN_def MAX_PLP_CHUNK_LEN_def
      split: mssql_type_length.splits if_splits)

lemma byte_wire_reads:
  "0 < length p \<Longrightarrow> length p < 256 \<Longrightarrow> read_frame ByteFrame ((of_nat (length p) # p) @ rest) = Some (Some p, rest)"
  by (rule read_byte)

lemma cell_has_type_cases [simp]:
  "cell_has_type (CBit v0) ty \<longleftrightarrow> ty = MsBit" "cell_has_type (CTinyInt v1) ty \<longleftrightarrow> ty = MsTinyInt"
  "cell_has_type (CSmallInt v2) ty \<longleftrightarrow> ty = MsSmallInt" "cell_has_type (CInt v3) ty \<longleftrightarrow> ty = MsInt"
  "cell_has_type (CBigInt v4) ty \<longleftrightarrow> ty = MsBigInt" "cell_has_type (CReal v5) ty \<longleftrightarrow> ty = MsReal"
  "cell_has_type (CFloat v6) ty \<longleftrightarrow> (\<exists>p. ty = MsFloat p)" "cell_has_type (CDecimal v7) ty \<longleftrightarrow> (\<exists>p s. ty = MsDecimal p s)"
  "cell_has_type (CDate v8) ty \<longleftrightarrow> ty = MsDate" "cell_has_type (CTime v9) ty \<longleftrightarrow> (\<exists>p. ty = MsTime p)"
  "cell_has_type (CDateTime v10) ty \<longleftrightarrow> ty = MsDateTime" "cell_has_type (CDateTime2 v11) ty \<longleftrightarrow> (\<exists>p. ty = MsDateTime2 p)"
  "cell_has_type (CDateTimeOffset v12) ty \<longleftrightarrow> (\<exists>p. ty = MsDateTimeOffset p)"
  "cell_has_type (CNVarChar v13) ty \<longleftrightarrow> (\<exists>l. ty = MsNVarChar l)"
  "cell_has_type (CVarBinary v14) ty \<longleftrightarrow> (\<exists>l. ty = MsVarBinary l) \<or> (\<exists>n. ty = MsBinary n)"
  by (cases ty; simp add: cell_has_type_def)+

text \<open>The payload of a value is found in its frame, and reads as the value.\<close>

lemma wire_value_reads:
  assumes fits: "encoding_fits enc t (target_type m)" and col: "col = column_plan_from_mapping m enc"
    and valid: "valid_mssql_type (target_type m)" and readable: "readable_cell (target_type m) cell"
    and wire: "wire_cell col cell = Ok w" and "\<not> is_null_cell cell"
  shows "\<exists>p. read_frame (type_frame (column_nullable (mapping_mssql m)) (target_type m)) (w @ rest) = Some (Some p, rest)
    \<and> read_value (target_type m) p = Some cell"
proof -
  let ?nullable = "column_nullable (mapping_mssql m)"
  have plan: "plan_nullable col = ?nullable" "plan_encoding col = enc" by (simp_all add: col)
  note family = encoding_family [OF fits]
  have fixed: "\<exists>p. read_frame (fixed_frame ?nullable n) (prefixed col b @ rest) = Some (Some p, rest)
      \<and> read_value ty p = Some cell" if "read_value ty b = Some cell" "length b = n" "0 < n" "n < 256" for ty b n
    using read_prefixed [of b n col rest] that by (simp add: plan)
  have counted: "\<exists>p. read_frame ByteFrame ((of_nat (length b) # b) @ rest) = Some (Some p, rest)
      \<and> read_value ty p = Some cell" if "read_value ty b = Some cell" "0 < length b" "length b < 256" for ty b
    using read_byte [of b rest] that by blast
  have variable: "\<exists>p. read_frame (case len of Bounded _ \<Rightarrow> ShortFrame | MaxLength \<Rightarrow> ChunkFrame) (w @ rest)
        = Some (Some p, rest) \<and> read_value ty p = Some cell"
    if "read_value ty b = Some cell" "variable_wire len b = Ok w" for ty b len
    using variable_wire_reads [OF that(2)] that(1) by blast
  show ?thesis
  proof (cases cell)
    case (CBit v)
    with assms(6) obtain x where "v = Some x" by (auto simp: is_null_cell_def)
    with CBit wire readable fixed [of MsBit "[if x then 1 else 0]" 1] show ?thesis
      by (simp add: readable_cell_def wire_option_def read_value_def sized_word_def)
  next
    case (CTinyInt v)
    with assms(6) obtain x where "v = Some x" by (auto simp: is_null_cell_def)
    with CTinyInt wire readable fixed [of MsTinyInt "[x]" 1] show ?thesis
      by (simp add: readable_cell_def wire_option_def read_value_def sized_word_def)
  next
    case (CSmallInt v)
    with assms(6) obtain x where "v = Some x" by (auto simp: is_null_cell_def)
    with CSmallInt wire readable fixed [of MsSmallInt "le_bytes 2 (unat x)" 2] show ?thesis
      by (simp add: readable_cell_def wire_option_def read_value_def sized_le_bytes)
  next
    case (CInt v)
    with assms(6) obtain x where "v = Some x" by (auto simp: is_null_cell_def)
    with CInt wire readable fixed [of MsInt "le_bytes 4 (unat x)" 4] show ?thesis
      by (simp add: readable_cell_def wire_option_def read_value_def sized_le_bytes)
  next
    case (CBigInt v)
    with assms(6) obtain x where "v = Some x" by (auto simp: is_null_cell_def)
    with CBigInt wire readable fixed [of MsBigInt "le_bytes 8 (unat x)" 8] show ?thesis
      by (simp add: readable_cell_def wire_option_def read_value_def sized_le_bytes)
  next
    case (CReal v)
    with assms(6) obtain x where "v = Some x" by (auto simp: is_null_cell_def)
    with CReal wire readable fixed [of MsReal "le_bytes 4 (unat x)" 4] show ?thesis
      by (simp add: readable_cell_def wire_option_def read_value_def sized_le_bytes)
  next
    case (CFloat v)
    with assms(6) obtain x where "v = Some x" by (auto simp: is_null_cell_def)
    with CFloat wire readable fixed [of "target_type m" "le_bytes 8 (unat x)" 8] show ?thesis
      by (auto simp: readable_cell_def wire_option_def read_value_def sized_le_bytes)
  next
    case (CDecimal v)
    with assms(6) obtain d where v: "v = Some d" by (auto simp: is_null_cell_def)
    with CDecimal readable obtain p s where ty: "target_type m = MsDecimal p s" and s: "dec_scale d = word_of_int (sint s)"
      by (auto simp: readable_cell_def)
    have "read_value (target_type m) (decimal_cell_payload (dec_unscaled d)) = Some cell"
      using s by (simp add: read_value_def ty CDecimal v read_decimal_payload flip: s)
    moreover have "w = of_nat (length (decimal_cell_payload (dec_unscaled d))) # decimal_cell_payload (dec_unscaled d)"
      using wire CDecimal v by (simp add: wire_option_def decimal_wire_def)
    moreover have "0 < length (decimal_cell_payload (dec_unscaled d))" by (simp add: decimal_cell_payload_def)
    ultimately show ?thesis using counted length_decimal_payload(2) by (simp only: ty type_frame.simps)
  next
    case (CDate v)
    with assms(6) obtain x where "v = Some x" by (auto simp: is_null_cell_def)
    with CDate wire readable counted [of MsDate "date_payload x"] show ?thesis
      by (auto simp: readable_cell_def wire_option_def read_value_def read_date_payload temporal_wire_def
          temporal_payload_def bare_temporal_def)
  next
    case (CTime v)
    with assms(6) obtain x where "v = Some x" by (auto simp: is_null_cell_def)
    with CTime wire readable counted [of "target_type m" "time_payload x"] show ?thesis
      by (auto simp: readable_cell_def wire_option_def read_value_def read_time_payload temporal_wire_def
          temporal_payload_def bare_temporal_def)
  next
    case (CDateTime v)
    with assms(6) obtain x where v: "v = Some x" by (auto simp: is_null_cell_def)
    have "read_value MsDateTime (datetime_payload x) = Some cell"
      by (simp add: read_value_def CDateTime v read_datetime_payload)
    from fixed [OF this, of 8] CDateTime v wire readable show ?thesis
      by (auto simp: readable_cell_def wire_option_def temporal_wire_def temporal_payload_def bare_temporal_def
          prefixed_def plan)
  next
    case (CDateTime2 v)
    with assms(6) obtain x where "v = Some x" by (auto simp: is_null_cell_def)
    with CDateTime2 wire readable counted [of "target_type m" "datetime2_payload x"] show ?thesis
      by (auto simp: readable_cell_def wire_option_def read_value_def read_datetime2_payload temporal_wire_def
          temporal_payload_def bare_temporal_def)
  next
    case (CDateTimeOffset v)
    with assms(6) obtain x where "v = Some x" by (auto simp: is_null_cell_def)
    with CDateTimeOffset wire readable counted [of "target_type m" "datetimeoffset_payload x"] show ?thesis
      by (auto simp: readable_cell_def wire_option_def read_value_def read_datetimeoffset_payload temporal_wire_def
          temporal_payload_def bare_temporal_def)
  next
    case (CNVarChar v)
    with assms(6) obtain x where v: "v = Some x" by (auto simp: is_null_cell_def)
    with CNVarChar readable obtain len where ty: "target_type m = MsNVarChar len" and x: "scalar_text x"
      by (auto simp: readable_cell_def)
    have "read_value (target_type m) (utf16le x) = Some cell"
      using x utf16_round_trip [of x]
      by (simp add: read_value_def ty utf16le_def read_code_units_utf16le CNVarChar v scalar_text_def list_all_iff)
    moreover have "variable_wire len (utf16le x) = Ok w"
      using wire CNVarChar v family by (simp add: ty wire_option_def encoded_length_def plan split: if_splits)
    ultimately show ?thesis using variable ty by simp
  next
    case (CVarBinary v)
    with assms(6) obtain x where v: "v = Some x" by (auto simp: is_null_cell_def)
    with CVarBinary readable consider len where "target_type m = MsVarBinary len"
      | n where "target_type m = MsBinary n" "length x = n"
      by (auto simp: readable_cell_def)
    then show ?thesis
    proof cases
      case 1
      have "read_value (target_type m) x = Some cell" by (simp add: read_value_def 1 CVarBinary v)
      moreover have "variable_wire len x = Ok w"
        using wire CVarBinary v family by (simp add: 1 wire_option_def encoded_length_def plan)
      ultimately show ?thesis using variable 1 by simp
    next
      case 2
      have "w = le_bytes 2 (length x) @ x" using wire CVarBinary v family by (simp add: 2(1) wire_option_def plan)
      moreover have "length x < 0xFFFF" using valid 2 by simp
      ultimately show ?thesis using read_short [of x rest] by (simp add: 2(1) read_value_def CVarBinary v)
    qed
  qed
qed

lemma wire_cell_reads:
  assumes fits: "encoding_fits enc t (target_type m)" and col: "col = column_plan_from_mapping m enc"
    and valid: "valid_mssql_type (target_type m)"
    and cell: "mssql_cell_from_arrow_cell db \<lparr>rm_mapping = m, rm_context = rt\<rparr> arrow row = Ok cell" "scalar_cell arrow"
    and wire: "wire_cell col cell = Ok w"
  shows "read_wire_cell (mapping_mssql m) (w @ rest) = Some (cell, rest)"
proof (cases "is_null_cell cell")
  case True
  note null = converted_cell_readable(2,3) [OF cell True, simplified]
  have "w = wire_null col"
    using wire True by (cases cell) (auto simp: is_null_cell_def wire_option_def split: option.splits)
  with read_null_frame [OF fits col null(2), of rest] null show ?thesis by (simp add: read_wire_cell_def)
next
  case False
  from wire_value_reads [OF fits col valid _ wire False, of rest] converted_cell_readable(1) [OF cell]
  show ?thesis by (auto simp: read_wire_cell_def)
qed

subsection \<open>Rows\<close>

lemma read_wire_cells:
  assumes "length cells = length columns" "length ws = length columns"
    and "\<forall>i < length columns. \<forall>rest. read_wire_cell (columns ! i) (ws ! i @ rest) = Some (cells ! i, rest)"
  shows "read_wire_cells columns (concat ws @ rest) = Some (cells, rest)"
  using assms
proof (induction columns arbitrary: cells ws)
  case (Cons column columns)
  obtain cell cells' where cells: "cells = cell # cells'" using Cons.prems(1) by (cases cells) auto
  obtain w ws' where ws: "ws = w # ws'" using Cons.prems(2) by (cases ws) auto
  have "read_wire_cell column (w @ r) = Some (cell, r)" for r
    using Cons.prems(3) [rule_format, of 0] by (simp add: cells ws)
  moreover have "read_wire_cells columns (concat ws' @ rest) = Some (cells', rest)"
  proof (rule Cons.IH)
    show "\<forall>i < length columns. \<forall>rest. read_wire_cell (columns ! i) (ws' ! i @ rest) = Some (cells' ! i, rest)"
    proof (intro allI impI)
      fix i r
      assume "i < length columns"
      then show "read_wire_cell (columns ! i) (ws' ! i @ r) = Some (cells' ! i, r)"
        using Cons.prems(3) [rule_format, of "Suc i" r] by (simp add: cells ws)
    qed
  qed (use Cons.prems cells ws in simp_all)
  ultimately show ?case by (simp add: cells ws)
qed simp

lemma read_rows:
  assumes "list_all2 (\<lambda>cells ws. \<forall>rest. read_wire_cells columns (concat ws @ rest) = Some (cells, rest)) rows wires"
  shows "read_rows columns (length rows) (rows_bytes wires @ rest) = Some (rows, rest)"
  using assms
proof (induction rule: list_all2_induct)
  case (Cons cells rows ws wires)
  then show ?case by (simp add: rows_bytes_def)
qed (simp add: rows_bytes_def)

text \<open>The text of a batch.\<close>

definition scalar_batch :: "record_batch \<Rightarrow> bool" where
  "scalar_batch batch \<longleftrightarrow>
     list_all (\<lambda>array. list_all (\<lambda>row. scalar_cell (array_cell array row)) [0..<batch_num_rows batch])
       (batch_columns batch)"

lemma baseline_rows_read:
  assumes encoder: "encoder_new_with_context mappings rt = Ok encoder"
    and valid: "\<forall>m \<in> set mappings. valid_mssql_type (target_type m)" "valid_batch batch" "scalar_batch batch"
    and shape: "validate_record_batch_encoding_shape batch mappings = Ok ()"
    and rows: "baseline_rows db mappings rt batch = Ok rows"
    and wires: "try_map (wire_row (encoder_plan encoder)) rows = Ok wires"
  shows "read_rows (map mapping_mssql mappings) (length rows) (rows_bytes wires @ rest) = Some (rows, rest)"
proof (rule read_rows)
  note enc = encoder_new_Ok [OF encoder]
  let ?k = "length mappings" and ?n = "batch_num_rows batch" and ?plan = "encoder_plan encoder"
  have len: "length (batch_columns batch) = ?k"
    using valid(2) shape [unfolded encoding_validation] by (auto simp: valid_batch_def dest: map_eq_imp_length_eq)
  have cells: "length rows = ?n" "\<And>r. r < ?n \<Longrightarrow> length (rows ! r) = ?k"
    "\<And>r i. r < ?n \<Longrightarrow> i < ?k \<Longrightarrow> batch_cell db mappings rt batch r i = Ok (rows ! r ! i)"
    using rows [unfolded baseline_row_cells [OF encoder valid(2) shape]] by (auto simp: try_map_Inr)
  have wired: "length wires = ?n" "\<And>r. r < ?n \<Longrightarrow> length (wires ! r) = ?k"
    "\<And>r i. r < ?n \<Longrightarrow> i < ?k \<Longrightarrow> wire_cell (?plan ! i) (rows ! r ! i) = Ok (wires ! r ! i)"
    using wires cells(1,2) enc(3) by (auto simp: try_map_Inr wire_row_def)
  have scalar: "scalar_cell (array_cell (batch_columns batch ! i) r)" if "r < ?n" "i < ?k" for r i
    using valid(3) that len by (simp add: scalar_batch_def list_all_length)
  have "read_wire_cells (map mapping_mssql mappings) (concat (wires ! r) @ rest) = Some (rows ! r, rest)"
    if r: "r < ?n" for r rest
  proof (rule read_wire_cells)
    show "\<forall>i < length (map mapping_mssql mappings). \<forall>rest.
        read_wire_cell (map mapping_mssql mappings ! i) (wires ! r ! i @ rest) = Some (rows ! r ! i, rest)"
    proof (intro allI impI)
      fix i rest
      assume "i < length (map mapping_mssql mappings)"
      then have i: "i < ?k" by simp
      from enc(4) [OF i] obtain e where e: "?plan ! i = column_plan_from_mapping (mappings ! i) e"
        "encoding_fits e (source_type (mappings ! i)) (target_type (mappings ! i))" by blast
      have "valid_mssql_type (target_type (mappings ! i))" using valid(1) i by simp
      from wire_cell_reads [OF e(2,1) this cells(3) [OF r i, unfolded batch_cell_def] scalar [OF r i]
          wired(3) [OF r i], of rest] i
      show "read_wire_cell (map mapping_mssql mappings ! i) (wires ! r ! i @ rest) = Some (rows ! r ! i, rest)" by simp
    qed
  qed (use cells(2) wired(2) r in simp_all)
  then show "list_all2 (\<lambda>cells ws. \<forall>rest. read_wire_cells (map mapping_mssql mappings) (concat ws @ rest) = Some (cells, rest))
      rows wires"
    by (simp add: list_all2_conv_all_nth cells(1) wired(1))
qed

lemma encoded_batch_read:
  assumes encoder: "encoder_new_with_context mappings rt = Ok encoder"
    and valid: "\<forall>m \<in> set mappings. valid_mssql_type (target_type m)" "valid_batch batch" "scalar_batch batch"
    and measured: "measure_batch db encoder batch = Ok measured"
  shows "\<exists>rows payload. baseline_rows db mappings rt batch = Ok rows \<and> length rows = batch_num_rows batch
    \<and> (\<forall>flags. encode_batch flags db encoder batch = Some (Ok payload))
    \<and> (\<forall>rest. read_rows (map mapping_mssql mappings) (length rows) (payload_bytes payload @ rest) = Some (rows, rest))"
proof -
  have shape: "validate_record_batch_encoding_shape batch mappings = Ok ()"
    using measured encoder_new_Ok(1) [OF encoder]
    by (cases "validate_record_batch_encoding_shape batch mappings") (auto simp: measure_batch_def)
  from batch_agreement [OF encoder valid(1,2), of db] obtain rows wires where
    rows: "baseline_rows db mappings rt batch = Ok rows" "try_map (wire_row (encoder_plan encoder)) rows = Ok wires"
    and payload: "\<forall>flags. encode_batch flags db encoder batch = Some (Ok (rows_payload wires))"
    by (auto simp: measured)
  have "length rows = batch_num_rows batch"
    using rows(1) [unfolded baseline_row_cells [OF encoder valid(2) shape]] by (simp add: try_map_Inr)
  with rows payload baseline_rows_read [OF encoder valid shape rows] show ?thesis
    by (intro exI [of _ rows] exI [of _ "rows_payload wires"]) (simp add: rows_payload_def)
qed

text \<open>C3: what the direct backends write is what the baseline would have sent. For every batch
  that the direct encoder measures, on every path of the encoder, a receiver that knows only
  the types and the nullability of the target columns reads the bytes back, row by row and cell by cell, as
  exactly the cells of the baseline conversion, nulls, scales and text included, and finds the next
  row where the batch ends. The batch is one of arrow-rs with strings of scalar values.\<close>

theorem direct_batch_decodes:
  assumes "encoder_new_with_context mappings rt = Ok encoder"
    and "\<forall>m \<in> set mappings. valid_mssql_type (target_type m)" "valid_batch batch" "scalar_batch batch"
    and "measure_batch db encoder batch = Ok measured"
  shows "\<exists>rows payload. baseline_rows db mappings rt batch = Ok rows \<and> length rows = batch_num_rows batch
    \<and> (\<forall>flags. encode_batch flags db encoder batch = Some (Ok payload))
    \<and> (\<forall>rest. read_rows (map mapping_mssql mappings) (length rows) (payload_bytes payload @ rest) = Some (rows, rest))"
  using assms by (rule encoded_batch_read)

theorem direct_batch_decodes_witness:
  "\<exists>rows payload.
     baseline_rows example_timezone_db [example_mapping DtInt32 MsInt]
       (rm_context (example_runtime DtInt32 MsInt RejectNon100ns)) example_batch = Ok rows
     \<and> (\<forall>flags. encode_batch flags example_timezone_db example_encoder example_batch = Some (Ok payload))
     \<and> read_rows [mapping_mssql (example_mapping DtInt32 MsInt)] 2 (payload_bytes payload) = Some (rows, [])"
proof -
  have "\<forall>m \<in> set [example_mapping DtInt32 MsInt]. valid_mssql_type (target_type m)" "scalar_batch example_batch"
    by (simp_all add: scalar_batch_def scalar_cell_def example_batch_def value_cell_def numeral_2_eq_2)
  from direct_batch_decodes [OF example_encoder_new this(1) example_batch_valid this(2) example_measure]
  obtain rows payload where decoded:
    "baseline_rows example_timezone_db [example_mapping DtInt32 MsInt]
       (rm_context (example_runtime DtInt32 MsInt RejectNon100ns)) example_batch = Ok rows"
    "length rows = batch_num_rows example_batch"
    "\<forall>flags. encode_batch flags example_timezone_db example_encoder example_batch = Some (Ok payload)"
    "\<forall>rest. read_rows (map mapping_mssql [example_mapping DtInt32 MsInt]) (length rows) (payload_bytes payload @ rest)
      = Some (rows, rest)"
    by blast
  have "length rows = 2" using decoded(2) by (simp add: example_batch_def)
  with decoded(4) [rule_format, of "[]"]
  have "read_rows [mapping_mssql (example_mapping DtInt32 MsInt)] 2 (payload_bytes payload) = Some (rows, [])" by simp
  with decoded(1,3) show ?thesis by blast
qed

end
