(* ===== verification/Delivery.thy ===== *)
theory Delivery
  imports Writer RowDecode
begin

text \<open>
  From Arrow to SQL Server, end to end: what a server that reads the stream of a writer's session holds
  afterwards is the baseline conversion of the accepted batches. The theory composes the writer with the
  agreement of the two backends and the reader of rows; it models no further code.
\<close>

subsection \<open>Accepted batches convert\<close>

lemma same_writer_converts: "same_writer state state' \<Longrightarrow> batch_converts db state' = batch_converts db state"
  by (cases "writer_direct_encoder state") (simp_all add: batch_converts_def fun_eq_iff same_writerD(1,3))

lemma session_converts:
  assumes "session drv flags db w batches w'" and w: "w = (state0, s0)"
    and planned: "writer_for planned state0" "\<forall>m \<in> set (planned_mappings planned). valid_mssql_type (target_type m)"
  shows "same_writer state0 (fst w') \<and> list_all (\<lambda>batch. valid_batch batch \<and> batch_converts db state0 batch) batches"
  using assms(1)
proof (induction rule: session.induct)
  case session_opened
  then show ?case using w by (simp add: same_writer_def)
next
  case (session_written batches state s batch stats state' s')
  then have same: "same_writer state0 state" by simp
  then have "writer_for planned state" using planned(1) same_writerD(2) by blast
  from write_batch_outcome [OF this planned(2) session_written.hyps(2), of drv flags db s] session_written.hyps(3)
  have "state' = accepted state batch" "batch_converts db state batch" by auto
  with session_written same_writer_accepted [OF same, of batch] same_writer_converts [OF same, of db] show ?case
    by simp
next
  case (session_refused batches state s batch e state' s')
  then have same: "same_writer state0 state" by simp
  then have "writer_for planned state" using planned(1) same_writerD(2) by blast
  from write_batch_outcome [OF this planned(2) session_refused.hyps(2), of drv flags db s] session_refused.hyps(3)
  have "state' = state" by auto
  with session_refused show ?case by simp
qed

subsection \<open>The rows of a batch\<close>

lemma token_rows_of_baseline:
  assumes "is_ok (batch_token_rows db state batch)"
  shows "\<exists>rows. baseline_rows db (writer_mappings state) (writer_context state) batch = Ok rows
    \<and> expected_rows db state batch = map (map mssql_cell_to_tiberius_owned) rows"
proof -
  from assms obtain trows where trows: "batch_token_rows db state batch = Ok trows" by (auto simp: is_ok_iff)
  then obtain view where view: "view_new_with_context batch (writer_mappings state) (writer_context state) = Ok view"
    "try_map (tiberius_row_owned db view) [0..<batch_num_rows batch] = Ok trows"
    by (auto simp: batch_token_rows_def result_simps)
  then have len: "length trows = batch_num_rows batch"
    and row: "\<And>r. r < batch_num_rows batch \<Longrightarrow>
      map_ok (map mssql_cell_to_tiberius_owned) (mssql_row db view r) = Ok (trows ! r)"
    by (auto simp: try_map_Inr tiberius_row_map)
  then have "\<forall>r < batch_num_rows batch. \<exists>cells. mssql_row db view r = Ok cells
      \<and> trows ! r = map mssql_cell_to_tiberius_owned cells"
    by (auto simp: map_ok_Inr)
  then obtain f where f: "\<forall>r < batch_num_rows batch. mssql_row db view r = Ok (f r)
      \<and> trows ! r = map mssql_cell_to_tiberius_owned (f r)" by metis
  let ?rows = "map f [0..<batch_num_rows batch]"
  have "baseline_rows db (writer_mappings state) (writer_context state) batch = Ok ?rows"
    using f by (simp add: baseline_rows_def view(1) try_map_Inr)
  moreover have "trows = map (map mssql_cell_to_tiberius_owned) ?rows"
    using f len by (intro nth_equalityI) simp_all
  ultimately show ?thesis using trows by (auto simp: expected_rows_def)
qed

lemma read_rows_append:
  "read_rows columns m bs = Some (rows, rest) \<Longrightarrow> read_rows columns n rest = Some (rows', rest')
    \<Longrightarrow> read_rows columns (m + n) bs = Some (rows @ rows', rest')"
proof (induction m arbitrary: bs rows)
  case (Suc m)
  from Suc.prems(1) obtain cells bs1 bs2 rows1 where
    "bs = TDS_ROW_TOKEN # bs1" "read_wire_cells columns bs1 = Some (cells, bs2)"
    "read_rows columns m bs2 = Some (rows1, rest)" "rows = cells # rows1"
    by (auto simp: bind_eq_Some_conv split: list.splits if_splits)
  with Suc.IH [OF _ Suc.prems(2)] show ?case by simp
qed simp

text \<open>What is expected for some batches is what their cells are, or reads as them.\<close>

lemma batches_arrive:
  assumes planned: "writer_for planned state" "\<forall>m \<in> set (planned_mappings planned). valid_mssql_type (target_type m)"
    and batches: "list_all (\<lambda>batch. valid_batch batch \<and> batch_converts db state batch) batches"
      "list_all scalar_batch batches"
  shows "\<exists>rowss. try_map (baseline_rows db (writer_mappings state) (writer_context state)) batches = Ok rowss
    \<and> (case writer_direct_encoder state of
        None \<Rightarrow> concat (map (expected_rows db state) batches) = map (map mssql_cell_to_tiberius_owned) (concat rowss)
      | Some encoder \<Rightarrow> \<forall>rest. read_rows (map mapping_mssql (writer_mappings state)) (length (concat rowss))
            (concat (map (expected_bytes flags db encoder) batches) @ rest) = Some (concat rowss, rest))"
  using batches
proof (induction batches)
  case Nil
  then show ?case by (simp split: option.split)
next
  case (Cons batch batches)
  let ?baseline = "baseline_rows db (writer_mappings state) (writer_context state)"
  from Cons obtain rowss where IH: "try_map ?baseline batches = Ok rowss"
    "case writer_direct_encoder state of
        None \<Rightarrow> concat (map (expected_rows db state) batches) = map (map mssql_cell_to_tiberius_owned) (concat rowss)
      | Some encoder \<Rightarrow> \<forall>rest. read_rows (map mapping_mssql (writer_mappings state)) (length (concat rowss))
            (concat (map (expected_bytes flags db encoder) batches) @ rest) = Some (concat rowss, rest)" by auto
  show ?case
  proof (cases "writer_direct_encoder state")
    case None
    with Cons.prems have "is_ok (batch_token_rows db state batch)" by (simp add: batch_converts_def)
    from token_rows_of_baseline [OF this] obtain rows where "?baseline batch = Ok rows"
      "expected_rows db state batch = map (map mssql_cell_to_tiberius_owned) rows" by blast
    with IH None show ?thesis by (intro exI [of _ "rows # rowss"]) simp
  next
    case (Some encoder)
    with Cons.prems obtain measured where measured: "measure_batch db encoder batch = Ok measured"
      by (auto simp: batch_converts_def is_ok_iff)
    have "\<forall>m \<in> set (writer_mappings state). valid_mssql_type (target_type m)"
      using planned(2) writer_forD(1) [OF planned(1)] by simp
    from encoded_batch_read [OF writer_forD(4) [OF planned(1) Some] this _ _ measured] Cons.prems
    obtain rows payload where rows: "?baseline batch = Ok rows" "length rows = batch_num_rows batch"
      "\<forall>flags. encode_batch flags db encoder batch = Some (Ok payload)"
      "\<forall>rest. read_rows (map mapping_mssql (writer_mappings state)) (length rows) (payload_bytes payload @ rest)
        = Some (rows, rest)" by auto
    have "read_rows (map mapping_mssql (writer_mappings state)) (length rows + length (concat rowss))
        (payload_bytes payload @ concat (map (expected_bytes flags db encoder) batches) @ rest)
        = Some (rows @ concat rowss, rest)" for rest
      using read_rows_append [OF rows(4) [rule_format]] IH(2) Some by simp
    with rows IH(1) Some show ?thesis by (intro exI [of _ "rows # rowss"]) (simp add: expected_bytes_def)
  qed
qed

text \<open>C2: everything that was accepted arrives, as the baseline converts it. However
  batches are written and refused on a new writer, on either backend, and as long as the driver does not fail
  to send: every accepted batch has a baseline conversion to SQL Server cells, and the connection has been sent exactly
  the cells of all these rows, in order. On the baseline backend they are the driver's values of the cells;
  on a direct backend they are bytes that a server which knows only the target's types and nullability
  reads as those cells, whatever bytes follow.\<close>

theorem session_arrives:
  assumes "writer_state_new backend check planned = Ok state0"
    and "\<forall>m \<in> set (planned_mappings planned). valid_mssql_type (target_type m)"
    and "delivers drv row_log byte_log"
    and "session drv flags db (state0, s0) batches (state, s)" "list_all scalar_batch batches"
  shows "\<exists>rowss sent_bytes.
    try_map (baseline_rows db (planned_mappings planned)
       \<lparr>context_profile = planned_profile planned, context_options = planned_options planned\<rparr>) batches = Ok rowss
    \<and> (case resolve_backend backend of
        Ok BaselineTokenRow \<Rightarrow> row_log s = row_log s0 @ map (map mssql_cell_to_tiberius_owned) (concat rowss)
      | _ \<Rightarrow> byte_log s = byte_log s0 @ sent_bytes
          \<and> (\<forall>rest. read_rows (map mapping_mssql (planned_mappings planned)) (length (concat rowss)) (sent_bytes @ rest)
               = Some (concat rowss, rest)))"
proof -
  note new = writer_state_new_for [OF assms(1)]
  let ?flags = "flags"
  from session_invariant [OF assms(4) refl new(1) assms(2,3) new(2), of ?flags]
  have received: "session_received ?flags db state0 batches (row_log s0, byte_log s0) (row_log s, byte_log s)" by auto
  from session_converts [OF assms(4) refl new(1) assms(2)]
  have "list_all (\<lambda>batch. valid_batch batch \<and> batch_converts db state0 batch) batches" by simp
  from batches_arrive [OF new(1) assms(2) this assms(5), of ?flags] obtain rowss where
    "try_map (baseline_rows db (writer_mappings state0) (writer_context state0)) batches = Ok rowss"
    "case writer_direct_encoder state0 of
        None \<Rightarrow> concat (map (expected_rows db state0) batches) = map (map mssql_cell_to_tiberius_owned) (concat rowss)
      | Some encoder \<Rightarrow> \<forall>rest. read_rows (map mapping_mssql (writer_mappings state0)) (length (concat rowss))
            (concat (map (expected_bytes ?flags db encoder) batches) @ rest) = Some (concat rowss, rest)" by blast
  with received new(1,3) show ?thesis
    by (cases "writer_backend state0") (auto simp: writer_for_def session_received_def)
qed

theorem session_arrives_witness:
  "\<exists>drv state s rowss. session drv \<lparr>fixed_width_fast_path_disabled = False, date_fast_path_disabled = False\<rparr>
       example_timezone_db (example_state, [] :: token_row list, [] :: bytes) [example_batch, example_batch] (state, s)
     \<and> try_map (baseline_rows example_timezone_db (planned_mappings example_planned)
         \<lparr>context_profile = planned_profile example_planned, context_options = planned_options example_planned\<rparr>)
         [example_batch, example_batch] = Ok rowss
     \<and> read_rows (map mapping_mssql (planned_mappings example_planned)) (length (concat rowss)) (snd s)
         = Some (concat rowss, [])"
proof -
  obtain src :: external_error where True by blast
  let ?flags = "\<lparr>fixed_width_fast_path_disabled = False, date_fast_path_disabled = False\<rparr>"
  obtain state s where run: "session (recording_driver src) ?flags example_timezone_db (example_state, [], [])
      [example_batch, example_batch] (state, s)"
    using example_session by blast
  have "list_all scalar_batch [example_batch, example_batch]"
    by (simp add: scalar_batch_def scalar_cell_def example_batch_def value_cell_def numeral_2_eq_2)
  from session_arrives [OF example_state_new example_planned_valid recording_driver_delivers run this]
  obtain rowss sent where "try_map (baseline_rows example_timezone_db (planned_mappings example_planned)
      \<lparr>context_profile = planned_profile example_planned, context_options = planned_options example_planned\<rparr>)
      [example_batch, example_batch] = Ok rowss"
    "snd s = sent" "\<forall>rest. read_rows (map mapping_mssql (planned_mappings example_planned)) (length (concat rowss))
      (sent @ rest) = Some (concat rowss, rest)"
    by auto
  moreover from this(3) [rule_format, of "[]"] have "read_rows (map mapping_mssql (planned_mappings example_planned))
      (length (concat rowss)) (snd s) = Some (concat rowss, [])"
    using calculation(2) by simp
  ultimately show ?thesis using run by blast
qed

end
