(* ===== verification/WriteProfile.thy ===== *)
theory WriteProfile
  imports Writer
begin

text \<open>
  The write profile: counters and times that the benchmarks collect on the current thread while a writer runs
  (\<^verbatim>\<open>src/write/profile.rs\<close>), the scoped overrides that switch fast paths off, and the sum of the
  profiles of repeated runs (\<^verbatim>\<open>merge_direct_profile\<close> in \<^verbatim>\<open>xtask/src/writer_bench.rs\<close>).
\<close>

subsection \<open>Durations\<close>

text \<open>A duration is its number of nanoseconds, up to \<^verbatim>\<open>Duration::MAX\<close>. Adding beyond that panics.\<close>

type_synonym duration = nat

definition DURATION_MAX :: duration where
  "DURATION_MAX = (2 ^ 64 - 1) * 1000000000 + 999999999"

subsection \<open>The statistics of the driver\<close>

text \<open>What the driver reports of a finished bulk load, by the fields that the profile reads.\<close>

record bulk_load_packet_stats =
  packet_write_packets_calls :: u64
  packet_packets_written :: u64
  packet_packet_payload_bytes :: u64
  packet_max_packet_payload_bytes :: usize
  packet_max_buffered_bytes_before_write :: usize
  packet_buffered_bytes_after_last_write :: usize
  packet_finalized_packet_payload_bytes :: usize

record bulk_load_timing_stats =
  timing_write_packets_elapsed :: duration
  timing_write_to_wire_calls :: u64
  timing_write_to_wire_elapsed :: duration
  timing_write_to_wire_payload_bytes :: u64
  timing_max_write_to_wire_elapsed :: duration
  timing_max_write_to_wire_payload_bytes :: usize
  timing_flush_calls :: u64
  timing_flush_elapsed :: duration
  timing_max_flush_elapsed :: duration
  timing_finalize_elapsed :: duration
  timing_finalize_write_to_wire_elapsed :: duration
  timing_finalize_flush_elapsed :: duration
  timing_finalize_result_elapsed :: duration

record bulk_load_connection_stats =
  connection_calls :: u64
  connection_payload_bytes :: u64
  connection_ready_elapsed :: duration
  connection_encode_elapsed :: duration
  connection_flush_elapsed :: duration
  connection_max_ready_elapsed :: duration
  connection_max_encode_elapsed :: duration
  connection_max_flush_elapsed :: duration
  connection_max_payload_bytes :: usize

record bulk_load_direct_stats =
  direct_calls :: u64
  direct_payload_bytes :: u64
  direct_header_bytes :: u64
  direct_max_payload_bytes :: usize
  direct_final_calls :: u64
  direct_final_payload_bytes :: u64
  direct_final_header_bytes :: u64
  direct_raw_stream_calls :: u64
  direct_tls_stream_calls :: u64
  direct_write_calls :: u64
  direct_write_bytes :: u64
  direct_max_write_bytes :: usize
  direct_write_elapsed :: duration
  direct_max_write_elapsed :: duration
  direct_header_write_calls :: u64
  direct_header_write_bytes :: u64
  direct_header_max_write_bytes :: usize
  direct_header_write_elapsed :: duration
  direct_header_max_write_elapsed :: duration
  direct_header_partial_writes :: u64
  direct_payload_write_calls :: u64
  direct_payload_write_bytes :: u64
  direct_payload_max_write_bytes :: usize
  direct_payload_write_elapsed :: duration
  direct_payload_max_write_elapsed :: duration
  direct_payload_partial_writes :: u64
  direct_poll_write_polls :: u64
  direct_poll_write_pending_count :: u64
  direct_poll_write_pending_elapsed :: duration
  direct_poll_write_max_pending_elapsed :: duration
  direct_poll_write_ready_count :: u64
  direct_poll_write_ready_elapsed :: duration
  direct_poll_write_max_ready_elapsed :: duration
  direct_flush_calls :: u64
  direct_flush_elapsed :: duration
  direct_max_flush_elapsed :: duration
  direct_flush_pending_count :: u64
  direct_flush_pending_elapsed :: duration
  direct_flush_max_pending_elapsed :: duration

record bulk_load_stats =
  stats_packet :: bulk_load_packet_stats
  stats_timing :: bulk_load_timing_stats
  stats_connection :: bulk_load_connection_stats
  stats_direct :: bulk_load_direct_stats

subsection \<open>The profile\<close>

record direct_write_profile =
  profile_measure_batch :: duration
  profile_row_range_split :: duration
  profile_append_encode :: duration
  profile_send_total :: duration
  profile_rows :: u64
  profile_batches :: u64
  profile_row_ranges :: u64
  profile_encoded_bytes :: u64
  profile_max_row_range_bytes :: u64
  profile_nvarchar_utf16_bytes :: u64
  profile_varbinary_bytes :: u64
  profile_null_cells :: u64
  profile_packet_write_calls :: u64
  profile_packets_written :: u64
  profile_packet_payload_bytes :: u64
  profile_max_packet_payload_bytes :: u64
  profile_max_buffered_bytes_before_write :: u64
  profile_buffered_bytes_after_last_write :: u64
  profile_finalized_packet_payload_bytes :: u64
  bulk_write_packets_elapsed :: duration
  bulk_write_to_wire_calls :: u64
  bulk_write_to_wire_elapsed :: duration
  bulk_write_to_wire_payload_bytes :: u64
  bulk_max_write_to_wire_elapsed :: duration
  bulk_max_write_to_wire_payload_bytes :: u64
  bulk_flush_calls :: u64
  bulk_flush_elapsed :: duration
  bulk_max_flush_elapsed :: duration
  bulk_finalize_elapsed :: duration
  bulk_finalize_write_to_wire_elapsed :: duration
  bulk_finalize_flush_elapsed :: duration
  bulk_finalize_result_elapsed :: duration
  bulk_connection_write_calls :: u64
  bulk_connection_write_payload_bytes :: u64
  bulk_connection_write_ready_elapsed :: duration
  bulk_connection_write_encode_elapsed :: duration
  bulk_connection_write_flush_elapsed :: duration
  bulk_connection_write_max_ready_elapsed :: duration
  bulk_connection_write_max_encode_elapsed :: duration
  bulk_connection_write_max_flush_elapsed :: duration
  bulk_connection_write_max_payload_bytes :: u64
  bulk_direct_packet_write_calls :: u64
  bulk_direct_packet_payload_bytes :: u64
  bulk_direct_packet_header_bytes :: u64
  bulk_direct_packet_max_payload_bytes :: u64
  bulk_direct_packet_final_calls :: u64
  bulk_direct_packet_final_payload_bytes :: u64
  bulk_direct_packet_final_header_bytes :: u64
  bulk_direct_packet_raw_stream_calls :: u64
  bulk_direct_packet_tls_stream_calls :: u64
  bulk_direct_packet_low_level_write_calls :: u64
  bulk_direct_packet_low_level_write_bytes :: u64
  bulk_direct_packet_max_low_level_write_bytes :: u64
  bulk_direct_packet_write_elapsed :: duration
  bulk_direct_packet_max_write_elapsed :: duration
  bulk_direct_packet_header_write_calls :: u64
  bulk_direct_packet_header_write_bytes :: u64
  bulk_direct_packet_header_max_write_bytes :: u64
  bulk_direct_packet_header_write_elapsed :: duration
  bulk_direct_packet_header_max_write_elapsed :: duration
  bulk_direct_packet_header_partial_writes :: u64
  bulk_direct_packet_payload_write_calls :: u64
  bulk_direct_packet_payload_write_bytes :: u64
  bulk_direct_packet_payload_max_write_bytes :: u64
  bulk_direct_packet_payload_write_elapsed :: duration
  bulk_direct_packet_payload_max_write_elapsed :: duration
  bulk_direct_packet_payload_partial_writes :: u64
  bulk_direct_packet_poll_write_polls :: u64
  bulk_direct_packet_poll_write_pending_count :: u64
  bulk_direct_packet_poll_write_pending_elapsed :: duration
  bulk_direct_packet_poll_write_max_pending_elapsed :: duration
  bulk_direct_packet_poll_write_ready_count :: u64
  bulk_direct_packet_poll_write_ready_elapsed :: duration
  bulk_direct_packet_poll_write_max_ready_elapsed :: duration
  bulk_direct_packet_flush_calls :: u64
  bulk_direct_packet_flush_elapsed :: duration
  bulk_direct_packet_max_flush_elapsed :: duration
  bulk_direct_packet_flush_pending_count :: u64
  bulk_direct_packet_flush_pending_elapsed :: duration
  bulk_direct_packet_flush_max_pending_elapsed :: duration

definition direct_write_profile_default :: direct_write_profile where
  "direct_write_profile_default =
    \<lparr>profile_measure_batch = 0, profile_row_range_split = 0, profile_append_encode = 0,
     profile_send_total = 0, profile_rows = 0, profile_batches = 0, profile_row_ranges = 0,
     profile_encoded_bytes = 0, profile_max_row_range_bytes = 0, profile_nvarchar_utf16_bytes = 0,
     profile_varbinary_bytes = 0, profile_null_cells = 0, profile_packet_write_calls = 0,
     profile_packets_written = 0, profile_packet_payload_bytes = 0, profile_max_packet_payload_bytes = 0,
     profile_max_buffered_bytes_before_write = 0, profile_buffered_bytes_after_last_write = 0,
     profile_finalized_packet_payload_bytes = 0, bulk_write_packets_elapsed = 0, bulk_write_to_wire_calls = 0,
     bulk_write_to_wire_elapsed = 0, bulk_write_to_wire_payload_bytes = 0, bulk_max_write_to_wire_elapsed = 0,
     bulk_max_write_to_wire_payload_bytes = 0, bulk_flush_calls = 0, bulk_flush_elapsed = 0,
     bulk_max_flush_elapsed = 0, bulk_finalize_elapsed = 0, bulk_finalize_write_to_wire_elapsed = 0,
     bulk_finalize_flush_elapsed = 0, bulk_finalize_result_elapsed = 0, bulk_connection_write_calls = 0,
     bulk_connection_write_payload_bytes = 0, bulk_connection_write_ready_elapsed = 0,
     bulk_connection_write_encode_elapsed = 0, bulk_connection_write_flush_elapsed = 0,
     bulk_connection_write_max_ready_elapsed = 0, bulk_connection_write_max_encode_elapsed = 0,
     bulk_connection_write_max_flush_elapsed = 0, bulk_connection_write_max_payload_bytes = 0,
     bulk_direct_packet_write_calls = 0, bulk_direct_packet_payload_bytes = 0,
     bulk_direct_packet_header_bytes = 0, bulk_direct_packet_max_payload_bytes = 0,
     bulk_direct_packet_final_calls = 0, bulk_direct_packet_final_payload_bytes = 0,
     bulk_direct_packet_final_header_bytes = 0, bulk_direct_packet_raw_stream_calls = 0,
     bulk_direct_packet_tls_stream_calls = 0, bulk_direct_packet_low_level_write_calls = 0,
     bulk_direct_packet_low_level_write_bytes = 0, bulk_direct_packet_max_low_level_write_bytes = 0,
     bulk_direct_packet_write_elapsed = 0, bulk_direct_packet_max_write_elapsed = 0,
     bulk_direct_packet_header_write_calls = 0, bulk_direct_packet_header_write_bytes = 0,
     bulk_direct_packet_header_max_write_bytes = 0, bulk_direct_packet_header_write_elapsed = 0,
     bulk_direct_packet_header_max_write_elapsed = 0, bulk_direct_packet_header_partial_writes = 0,
     bulk_direct_packet_payload_write_calls = 0, bulk_direct_packet_payload_write_bytes = 0,
     bulk_direct_packet_payload_max_write_bytes = 0, bulk_direct_packet_payload_write_elapsed = 0,
     bulk_direct_packet_payload_max_write_elapsed = 0, bulk_direct_packet_payload_partial_writes = 0,
     bulk_direct_packet_poll_write_polls = 0, bulk_direct_packet_poll_write_pending_count = 0,
     bulk_direct_packet_poll_write_pending_elapsed = 0, bulk_direct_packet_poll_write_max_pending_elapsed = 0,
     bulk_direct_packet_poll_write_ready_count = 0, bulk_direct_packet_poll_write_ready_elapsed = 0,
     bulk_direct_packet_poll_write_max_ready_elapsed = 0, bulk_direct_packet_flush_calls = 0,
     bulk_direct_packet_flush_elapsed = 0, bulk_direct_packet_max_flush_elapsed = 0,
     bulk_direct_packet_flush_pending_count = 0, bulk_direct_packet_flush_pending_elapsed = 0,
     bulk_direct_packet_flush_max_pending_elapsed = 0\<rparr>"

text \<open>The duration fields. An update whose sum of durations is beyond the largest panics.\<close>

definition profile_durations :: "direct_write_profile \<Rightarrow> duration list" where
  "profile_durations p =
    [profile_measure_batch p, profile_row_range_split p, profile_append_encode p, profile_send_total p,
     bulk_write_packets_elapsed p, bulk_write_to_wire_elapsed p, bulk_max_write_to_wire_elapsed p,
     bulk_flush_elapsed p, bulk_max_flush_elapsed p, bulk_finalize_elapsed p,
     bulk_finalize_write_to_wire_elapsed p, bulk_finalize_flush_elapsed p, bulk_finalize_result_elapsed p,
     bulk_connection_write_ready_elapsed p, bulk_connection_write_encode_elapsed p,
     bulk_connection_write_flush_elapsed p, bulk_connection_write_max_ready_elapsed p,
     bulk_connection_write_max_encode_elapsed p, bulk_connection_write_max_flush_elapsed p,
     bulk_direct_packet_write_elapsed p, bulk_direct_packet_max_write_elapsed p,
     bulk_direct_packet_header_write_elapsed p, bulk_direct_packet_header_max_write_elapsed p,
     bulk_direct_packet_payload_write_elapsed p, bulk_direct_packet_payload_max_write_elapsed p,
     bulk_direct_packet_poll_write_pending_elapsed p, bulk_direct_packet_poll_write_max_pending_elapsed p,
     bulk_direct_packet_poll_write_ready_elapsed p, bulk_direct_packet_poll_write_max_ready_elapsed p,
     bulk_direct_packet_flush_elapsed p, bulk_direct_packet_max_flush_elapsed p,
     bulk_direct_packet_flush_pending_elapsed p, bulk_direct_packet_flush_max_pending_elapsed p]"

definition settled :: "direct_write_profile \<Rightarrow> direct_write_profile option" where
  "settled p = (if list_all (\<lambda>d. d \<le> DURATION_MAX) (profile_durations p) then Some p else None)"

definition send_without_append_encode :: "direct_write_profile \<Rightarrow> duration" where
  "send_without_append_encode p = profile_send_total p - profile_append_encode p"

subsection \<open>Recording\<close>

definition record_measure_batch :: "duration \<Rightarrow> direct_write_profile \<Rightarrow> direct_write_profile option" where
  "record_measure_batch elapsed profile =
     settled (profile\<lparr>profile_measure_batch := profile_measure_batch profile + elapsed\<rparr>)"

definition record_row_range_split :: "duration \<Rightarrow> direct_write_profile \<Rightarrow> direct_write_profile option" where
  "record_row_range_split elapsed profile =
     settled (profile\<lparr>profile_row_range_split := profile_row_range_split profile + elapsed\<rparr>)"

definition record_append_encode :: "duration \<Rightarrow> direct_write_profile \<Rightarrow> direct_write_profile option" where
  "record_append_encode elapsed profile =
     settled (profile\<lparr>profile_append_encode := profile_append_encode profile + elapsed\<rparr>)"

definition record_send_total :: "duration \<Rightarrow> direct_write_profile \<Rightarrow> direct_write_profile option" where
  "record_send_total elapsed profile =
     settled (profile\<lparr>profile_send_total := profile_send_total profile + elapsed\<rparr>)"

definition profile_record_accepted_batch :: "usize \<Rightarrow> direct_write_profile \<Rightarrow> direct_write_profile" where
  "profile_record_accepted_batch rows profile = profile
     \<lparr>profile_rows := saturating_add (profile_rows profile) (usize_to_u64_saturating rows),
      profile_batches := saturating_add (profile_batches profile) 1\<rparr>"

definition record_row_range :: "usize \<Rightarrow> direct_write_profile \<Rightarrow> direct_write_profile" where
  "record_row_range encoded_bytes profile =
     (let encoded_bytes = usize_to_u64_saturating encoded_bytes in profile
     \<lparr>profile_row_ranges := saturating_add (profile_row_ranges profile) 1,
      profile_encoded_bytes := saturating_add (profile_encoded_bytes profile) encoded_bytes,
      profile_max_row_range_bytes := max (profile_max_row_range_bytes profile) encoded_bytes\<rparr>)"

definition record_nvarchar_utf16_bytes :: "usize \<Rightarrow> direct_write_profile \<Rightarrow> direct_write_profile" where
  "record_nvarchar_utf16_bytes encoded_bytes profile = profile
     \<lparr>profile_nvarchar_utf16_bytes :=
        saturating_add (profile_nvarchar_utf16_bytes profile) (usize_to_u64_saturating encoded_bytes)\<rparr>"

definition record_varbinary_bytes :: "usize \<Rightarrow> direct_write_profile \<Rightarrow> direct_write_profile" where
  "record_varbinary_bytes encoded_bytes profile = profile
     \<lparr>profile_varbinary_bytes :=
        saturating_add (profile_varbinary_bytes profile) (usize_to_u64_saturating encoded_bytes)\<rparr>"

definition record_null_cell :: "direct_write_profile \<Rightarrow> direct_write_profile" where
  "record_null_cell profile = profile\<lparr>profile_null_cells := saturating_add (profile_null_cells profile) 1\<rparr>"

definition record_packet_stats :: "bulk_load_packet_stats \<Rightarrow> direct_write_profile \<Rightarrow> direct_write_profile" where
  "record_packet_stats packet profile = profile
     \<lparr>profile_packet_write_calls :=
        saturating_add (profile_packet_write_calls profile) (packet_write_packets_calls packet),
      profile_packets_written := saturating_add (profile_packets_written profile) (packet_packets_written packet),
      profile_packet_payload_bytes :=
        saturating_add (profile_packet_payload_bytes profile) (packet_packet_payload_bytes packet),
      profile_max_packet_payload_bytes :=
        max (profile_max_packet_payload_bytes profile)
          (usize_to_u64_saturating (packet_max_packet_payload_bytes packet)),
      profile_max_buffered_bytes_before_write :=
        max (profile_max_buffered_bytes_before_write profile)
          (usize_to_u64_saturating (packet_max_buffered_bytes_before_write packet)),
      profile_buffered_bytes_after_last_write :=
        usize_to_u64_saturating (packet_buffered_bytes_after_last_write packet),
      profile_finalized_packet_payload_bytes :=
        saturating_add (profile_finalized_packet_payload_bytes profile)
          (usize_to_u64_saturating (packet_finalized_packet_payload_bytes packet))\<rparr>"

definition record_timing_stats :: "bulk_load_timing_stats \<Rightarrow> direct_write_profile \<Rightarrow> direct_write_profile" where
  "record_timing_stats timing profile = profile
     \<lparr>bulk_write_packets_elapsed := bulk_write_packets_elapsed profile + timing_write_packets_elapsed timing,
      bulk_write_to_wire_calls :=
        saturating_add (bulk_write_to_wire_calls profile) (timing_write_to_wire_calls timing),
      bulk_write_to_wire_elapsed := bulk_write_to_wire_elapsed profile + timing_write_to_wire_elapsed timing,
      bulk_write_to_wire_payload_bytes :=
        saturating_add (bulk_write_to_wire_payload_bytes profile) (timing_write_to_wire_payload_bytes timing),
      bulk_max_write_to_wire_elapsed :=
        max (bulk_max_write_to_wire_elapsed profile) (timing_max_write_to_wire_elapsed timing),
      bulk_max_write_to_wire_payload_bytes :=
        max (bulk_max_write_to_wire_payload_bytes profile)
          (usize_to_u64_saturating (timing_max_write_to_wire_payload_bytes timing)),
      bulk_flush_calls := saturating_add (bulk_flush_calls profile) (timing_flush_calls timing),
      bulk_flush_elapsed := bulk_flush_elapsed profile + timing_flush_elapsed timing,
      bulk_max_flush_elapsed := max (bulk_max_flush_elapsed profile) (timing_max_flush_elapsed timing),
      bulk_finalize_elapsed := bulk_finalize_elapsed profile + timing_finalize_elapsed timing,
      bulk_finalize_write_to_wire_elapsed :=
        bulk_finalize_write_to_wire_elapsed profile + timing_finalize_write_to_wire_elapsed timing,
      bulk_finalize_flush_elapsed := bulk_finalize_flush_elapsed profile + timing_finalize_flush_elapsed timing,
      bulk_finalize_result_elapsed := bulk_finalize_result_elapsed profile + timing_finalize_result_elapsed timing\<rparr>"

definition record_connection_stats :: "bulk_load_connection_stats \<Rightarrow> direct_write_profile \<Rightarrow> direct_write_profile" where
  "record_connection_stats connection profile = profile
     \<lparr>bulk_connection_write_calls :=
        saturating_add (bulk_connection_write_calls profile) (connection_calls connection),
      bulk_connection_write_payload_bytes :=
        saturating_add (bulk_connection_write_payload_bytes profile) (connection_payload_bytes connection),
      bulk_connection_write_ready_elapsed :=
        bulk_connection_write_ready_elapsed profile + connection_ready_elapsed connection,
      bulk_connection_write_encode_elapsed :=
        bulk_connection_write_encode_elapsed profile + connection_encode_elapsed connection,
      bulk_connection_write_flush_elapsed :=
        bulk_connection_write_flush_elapsed profile + connection_flush_elapsed connection,
      bulk_connection_write_max_ready_elapsed :=
        max (bulk_connection_write_max_ready_elapsed profile) (connection_max_ready_elapsed connection),
      bulk_connection_write_max_encode_elapsed :=
        max (bulk_connection_write_max_encode_elapsed profile) (connection_max_encode_elapsed connection),
      bulk_connection_write_max_flush_elapsed :=
        max (bulk_connection_write_max_flush_elapsed profile) (connection_max_flush_elapsed connection),
      bulk_connection_write_max_payload_bytes :=
        max (bulk_connection_write_max_payload_bytes profile)
          (usize_to_u64_saturating (connection_max_payload_bytes connection))\<rparr>"

definition record_direct_stats :: "bulk_load_direct_stats \<Rightarrow> direct_write_profile \<Rightarrow> direct_write_profile" where
  "record_direct_stats direct profile = profile
     \<lparr>bulk_direct_packet_write_calls := saturating_add (bulk_direct_packet_write_calls profile) (direct_calls direct),
      bulk_direct_packet_payload_bytes :=
        saturating_add (bulk_direct_packet_payload_bytes profile) (direct_payload_bytes direct),
      bulk_direct_packet_header_bytes :=
        saturating_add (bulk_direct_packet_header_bytes profile) (direct_header_bytes direct),
      bulk_direct_packet_max_payload_bytes :=
        max (bulk_direct_packet_max_payload_bytes profile)
          (usize_to_u64_saturating (direct_max_payload_bytes direct)),
      bulk_direct_packet_final_calls :=
        saturating_add (bulk_direct_packet_final_calls profile) (direct_final_calls direct),
      bulk_direct_packet_final_payload_bytes :=
        saturating_add (bulk_direct_packet_final_payload_bytes profile) (direct_final_payload_bytes direct),
      bulk_direct_packet_final_header_bytes :=
        saturating_add (bulk_direct_packet_final_header_bytes profile) (direct_final_header_bytes direct),
      bulk_direct_packet_raw_stream_calls :=
        saturating_add (bulk_direct_packet_raw_stream_calls profile) (direct_raw_stream_calls direct),
      bulk_direct_packet_tls_stream_calls :=
        saturating_add (bulk_direct_packet_tls_stream_calls profile) (direct_tls_stream_calls direct),
      bulk_direct_packet_low_level_write_calls :=
        saturating_add (bulk_direct_packet_low_level_write_calls profile) (direct_write_calls direct),
      bulk_direct_packet_low_level_write_bytes :=
        saturating_add (bulk_direct_packet_low_level_write_bytes profile) (direct_write_bytes direct),
      bulk_direct_packet_max_low_level_write_bytes :=
        max (bulk_direct_packet_max_low_level_write_bytes profile)
          (usize_to_u64_saturating (direct_max_write_bytes direct)),
      bulk_direct_packet_write_elapsed := bulk_direct_packet_write_elapsed profile + direct_write_elapsed direct,
      bulk_direct_packet_max_write_elapsed :=
        max (bulk_direct_packet_max_write_elapsed profile) (direct_max_write_elapsed direct),
      bulk_direct_packet_header_write_calls :=
        saturating_add (bulk_direct_packet_header_write_calls profile) (direct_header_write_calls direct),
      bulk_direct_packet_header_write_bytes :=
        saturating_add (bulk_direct_packet_header_write_bytes profile) (direct_header_write_bytes direct),
      bulk_direct_packet_header_max_write_bytes :=
        max (bulk_direct_packet_header_max_write_bytes profile)
          (usize_to_u64_saturating (direct_header_max_write_bytes direct)),
      bulk_direct_packet_header_write_elapsed :=
        bulk_direct_packet_header_write_elapsed profile + direct_header_write_elapsed direct,
      bulk_direct_packet_header_max_write_elapsed :=
        max (bulk_direct_packet_header_max_write_elapsed profile) (direct_header_max_write_elapsed direct),
      bulk_direct_packet_header_partial_writes :=
        saturating_add (bulk_direct_packet_header_partial_writes profile) (direct_header_partial_writes direct),
      bulk_direct_packet_payload_write_calls :=
        saturating_add (bulk_direct_packet_payload_write_calls profile) (direct_payload_write_calls direct),
      bulk_direct_packet_payload_write_bytes :=
        saturating_add (bulk_direct_packet_payload_write_bytes profile) (direct_payload_write_bytes direct),
      bulk_direct_packet_payload_max_write_bytes :=
        max (bulk_direct_packet_payload_max_write_bytes profile)
          (usize_to_u64_saturating (direct_payload_max_write_bytes direct)),
      bulk_direct_packet_payload_write_elapsed :=
        bulk_direct_packet_payload_write_elapsed profile + direct_payload_write_elapsed direct,
      bulk_direct_packet_payload_max_write_elapsed :=
        max (bulk_direct_packet_payload_max_write_elapsed profile) (direct_payload_max_write_elapsed direct),
      bulk_direct_packet_payload_partial_writes :=
        saturating_add (bulk_direct_packet_payload_partial_writes profile) (direct_payload_partial_writes direct),
      bulk_direct_packet_poll_write_polls :=
        saturating_add (bulk_direct_packet_poll_write_polls profile) (direct_poll_write_polls direct),
      bulk_direct_packet_poll_write_pending_count :=
        saturating_add (bulk_direct_packet_poll_write_pending_count profile)
          (direct_poll_write_pending_count direct),
      bulk_direct_packet_poll_write_pending_elapsed :=
        bulk_direct_packet_poll_write_pending_elapsed profile + direct_poll_write_pending_elapsed direct,
      bulk_direct_packet_poll_write_max_pending_elapsed :=
        max (bulk_direct_packet_poll_write_max_pending_elapsed profile)
          (direct_poll_write_max_pending_elapsed direct),
      bulk_direct_packet_poll_write_ready_count :=
        saturating_add (bulk_direct_packet_poll_write_ready_count profile) (direct_poll_write_ready_count direct),
      bulk_direct_packet_poll_write_ready_elapsed :=
        bulk_direct_packet_poll_write_ready_elapsed profile + direct_poll_write_ready_elapsed direct,
      bulk_direct_packet_poll_write_max_ready_elapsed :=
        max (bulk_direct_packet_poll_write_max_ready_elapsed profile) (direct_poll_write_max_ready_elapsed direct),
      bulk_direct_packet_flush_calls :=
        saturating_add (bulk_direct_packet_flush_calls profile) (direct_flush_calls direct),
      bulk_direct_packet_flush_elapsed := bulk_direct_packet_flush_elapsed profile + direct_flush_elapsed direct,
      bulk_direct_packet_max_flush_elapsed :=
        max (bulk_direct_packet_max_flush_elapsed profile) (direct_max_flush_elapsed direct),
      bulk_direct_packet_flush_pending_count :=
        saturating_add (bulk_direct_packet_flush_pending_count profile) (direct_flush_pending_count direct),
      bulk_direct_packet_flush_pending_elapsed :=
        bulk_direct_packet_flush_pending_elapsed profile + direct_flush_pending_elapsed direct,
      bulk_direct_packet_flush_max_pending_elapsed :=
        max (bulk_direct_packet_flush_max_pending_elapsed profile) (direct_flush_max_pending_elapsed direct)\<rparr>"

text \<open>The updates of the four groups, in the order of the code. Only sums of durations can panic.\<close>

definition bulk_fields :: "bulk_load_stats \<Rightarrow> direct_write_profile \<Rightarrow> direct_write_profile" where
  "bulk_fields stats profile =
     record_direct_stats (stats_direct stats) (record_connection_stats (stats_connection stats)
       (record_timing_stats (stats_timing stats) (record_packet_stats (stats_packet stats) profile)))"

definition record_bulk_load_stats ::
    "bulk_load_stats \<Rightarrow> direct_write_profile \<Rightarrow> direct_write_profile option" where
  "record_bulk_load_stats stats profile = settled (bulk_fields stats profile)"

subsection \<open>Merging\<close>

definition merge_writer_fields :: "direct_write_profile \<Rightarrow> direct_write_profile \<Rightarrow> direct_write_profile" where
  "merge_writer_fields source target = target
     \<lparr>profile_measure_batch := profile_measure_batch target + profile_measure_batch source,
      profile_row_range_split := profile_row_range_split target + profile_row_range_split source,
      profile_append_encode := profile_append_encode target + profile_append_encode source,
      profile_send_total := profile_send_total target + profile_send_total source,
      profile_rows := saturating_add (profile_rows target) (profile_rows source),
      profile_batches := saturating_add (profile_batches target) (profile_batches source),
      profile_row_ranges := saturating_add (profile_row_ranges target) (profile_row_ranges source),
      profile_encoded_bytes := saturating_add (profile_encoded_bytes target) (profile_encoded_bytes source),
      profile_max_row_range_bytes := max (profile_max_row_range_bytes target) (profile_max_row_range_bytes source),
      profile_nvarchar_utf16_bytes :=
        saturating_add (profile_nvarchar_utf16_bytes target) (profile_nvarchar_utf16_bytes source),
      profile_varbinary_bytes := saturating_add (profile_varbinary_bytes target) (profile_varbinary_bytes source),
      profile_null_cells := saturating_add (profile_null_cells target) (profile_null_cells source)\<rparr>"

definition merge_packet_fields :: "direct_write_profile \<Rightarrow> direct_write_profile \<Rightarrow> direct_write_profile" where
  "merge_packet_fields source target = target
     \<lparr>profile_packet_write_calls :=
        saturating_add (profile_packet_write_calls target) (profile_packet_write_calls source),
      profile_packets_written := saturating_add (profile_packets_written target) (profile_packets_written source),
      profile_packet_payload_bytes :=
        saturating_add (profile_packet_payload_bytes target) (profile_packet_payload_bytes source),
      profile_max_packet_payload_bytes :=
        max (profile_max_packet_payload_bytes target) (profile_max_packet_payload_bytes source),
      profile_max_buffered_bytes_before_write :=
        max (profile_max_buffered_bytes_before_write target) (profile_max_buffered_bytes_before_write source),
      profile_buffered_bytes_after_last_write := profile_buffered_bytes_after_last_write source,
      profile_finalized_packet_payload_bytes :=
        saturating_add (profile_finalized_packet_payload_bytes target)
          (profile_finalized_packet_payload_bytes source)\<rparr>"

definition merge_bulk_fields :: "direct_write_profile \<Rightarrow> direct_write_profile \<Rightarrow> direct_write_profile" where
  "merge_bulk_fields source target = target
     \<lparr>bulk_write_packets_elapsed := bulk_write_packets_elapsed target + bulk_write_packets_elapsed source,
      bulk_write_to_wire_calls := saturating_add (bulk_write_to_wire_calls target) (bulk_write_to_wire_calls source),
      bulk_write_to_wire_elapsed := bulk_write_to_wire_elapsed target + bulk_write_to_wire_elapsed source,
      bulk_write_to_wire_payload_bytes :=
        saturating_add (bulk_write_to_wire_payload_bytes target) (bulk_write_to_wire_payload_bytes source),
      bulk_max_write_to_wire_elapsed :=
        max (bulk_max_write_to_wire_elapsed target) (bulk_max_write_to_wire_elapsed source),
      bulk_max_write_to_wire_payload_bytes :=
        max (bulk_max_write_to_wire_payload_bytes target) (bulk_max_write_to_wire_payload_bytes source),
      bulk_flush_calls := saturating_add (bulk_flush_calls target) (bulk_flush_calls source),
      bulk_flush_elapsed := bulk_flush_elapsed target + bulk_flush_elapsed source,
      bulk_max_flush_elapsed := max (bulk_max_flush_elapsed target) (bulk_max_flush_elapsed source),
      bulk_finalize_elapsed := bulk_finalize_elapsed target + bulk_finalize_elapsed source,
      bulk_finalize_write_to_wire_elapsed :=
        bulk_finalize_write_to_wire_elapsed target + bulk_finalize_write_to_wire_elapsed source,
      bulk_finalize_flush_elapsed := bulk_finalize_flush_elapsed target + bulk_finalize_flush_elapsed source,
      bulk_finalize_result_elapsed := bulk_finalize_result_elapsed target + bulk_finalize_result_elapsed source\<rparr>"

definition merge_connection_fields :: "direct_write_profile \<Rightarrow> direct_write_profile \<Rightarrow> direct_write_profile" where
  "merge_connection_fields source target = target
     \<lparr>bulk_connection_write_calls :=
        saturating_add (bulk_connection_write_calls target) (bulk_connection_write_calls source),
      bulk_connection_write_payload_bytes :=
        saturating_add (bulk_connection_write_payload_bytes target) (bulk_connection_write_payload_bytes source),
      bulk_connection_write_ready_elapsed :=
        bulk_connection_write_ready_elapsed target + bulk_connection_write_ready_elapsed source,
      bulk_connection_write_encode_elapsed :=
        bulk_connection_write_encode_elapsed target + bulk_connection_write_encode_elapsed source,
      bulk_connection_write_flush_elapsed :=
        bulk_connection_write_flush_elapsed target + bulk_connection_write_flush_elapsed source,
      bulk_connection_write_max_ready_elapsed :=
        max (bulk_connection_write_max_ready_elapsed target) (bulk_connection_write_max_ready_elapsed source),
      bulk_connection_write_max_encode_elapsed :=
        max (bulk_connection_write_max_encode_elapsed target) (bulk_connection_write_max_encode_elapsed source),
      bulk_connection_write_max_flush_elapsed :=
        max (bulk_connection_write_max_flush_elapsed target) (bulk_connection_write_max_flush_elapsed source),
      bulk_connection_write_max_payload_bytes :=
        max (bulk_connection_write_max_payload_bytes target) (bulk_connection_write_max_payload_bytes source)\<rparr>"

definition merge_direct_packet_fields :: "direct_write_profile \<Rightarrow> direct_write_profile \<Rightarrow> direct_write_profile" where
  "merge_direct_packet_fields source target = target
     \<lparr>bulk_direct_packet_write_calls :=
        saturating_add (bulk_direct_packet_write_calls target) (bulk_direct_packet_write_calls source),
      bulk_direct_packet_payload_bytes :=
        saturating_add (bulk_direct_packet_payload_bytes target) (bulk_direct_packet_payload_bytes source),
      bulk_direct_packet_header_bytes :=
        saturating_add (bulk_direct_packet_header_bytes target) (bulk_direct_packet_header_bytes source),
      bulk_direct_packet_max_payload_bytes :=
        max (bulk_direct_packet_max_payload_bytes target) (bulk_direct_packet_max_payload_bytes source),
      bulk_direct_packet_final_calls :=
        saturating_add (bulk_direct_packet_final_calls target) (bulk_direct_packet_final_calls source),
      bulk_direct_packet_final_payload_bytes :=
        saturating_add (bulk_direct_packet_final_payload_bytes target)
          (bulk_direct_packet_final_payload_bytes source),
      bulk_direct_packet_final_header_bytes :=
        saturating_add (bulk_direct_packet_final_header_bytes target) (bulk_direct_packet_final_header_bytes source),
      bulk_direct_packet_raw_stream_calls :=
        saturating_add (bulk_direct_packet_raw_stream_calls target) (bulk_direct_packet_raw_stream_calls source),
      bulk_direct_packet_tls_stream_calls :=
        saturating_add (bulk_direct_packet_tls_stream_calls target) (bulk_direct_packet_tls_stream_calls source),
      bulk_direct_packet_low_level_write_calls :=
        saturating_add (bulk_direct_packet_low_level_write_calls target)
          (bulk_direct_packet_low_level_write_calls source),
      bulk_direct_packet_low_level_write_bytes :=
        saturating_add (bulk_direct_packet_low_level_write_bytes target)
          (bulk_direct_packet_low_level_write_bytes source),
      bulk_direct_packet_max_low_level_write_bytes :=
        max (bulk_direct_packet_max_low_level_write_bytes target)
          (bulk_direct_packet_max_low_level_write_bytes source),
      bulk_direct_packet_write_elapsed :=
        bulk_direct_packet_write_elapsed target + bulk_direct_packet_write_elapsed source,
      bulk_direct_packet_max_write_elapsed :=
        max (bulk_direct_packet_max_write_elapsed target) (bulk_direct_packet_max_write_elapsed source),
      bulk_direct_packet_header_write_calls :=
        saturating_add (bulk_direct_packet_header_write_calls target) (bulk_direct_packet_header_write_calls source),
      bulk_direct_packet_header_write_bytes :=
        saturating_add (bulk_direct_packet_header_write_bytes target) (bulk_direct_packet_header_write_bytes source),
      bulk_direct_packet_header_max_write_bytes :=
        max (bulk_direct_packet_header_max_write_bytes target) (bulk_direct_packet_header_max_write_bytes source),
      bulk_direct_packet_header_write_elapsed :=
        bulk_direct_packet_header_write_elapsed target + bulk_direct_packet_header_write_elapsed source,
      bulk_direct_packet_header_max_write_elapsed :=
        max (bulk_direct_packet_header_max_write_elapsed target)
          (bulk_direct_packet_header_max_write_elapsed source),
      bulk_direct_packet_header_partial_writes :=
        saturating_add (bulk_direct_packet_header_partial_writes target)
          (bulk_direct_packet_header_partial_writes source),
      bulk_direct_packet_payload_write_calls :=
        saturating_add (bulk_direct_packet_payload_write_calls target)
          (bulk_direct_packet_payload_write_calls source),
      bulk_direct_packet_payload_write_bytes :=
        saturating_add (bulk_direct_packet_payload_write_bytes target)
          (bulk_direct_packet_payload_write_bytes source),
      bulk_direct_packet_payload_max_write_bytes :=
        max (bulk_direct_packet_payload_max_write_bytes target) (bulk_direct_packet_payload_max_write_bytes source),
      bulk_direct_packet_payload_write_elapsed :=
        bulk_direct_packet_payload_write_elapsed target + bulk_direct_packet_payload_write_elapsed source,
      bulk_direct_packet_payload_max_write_elapsed :=
        max (bulk_direct_packet_payload_max_write_elapsed target)
          (bulk_direct_packet_payload_max_write_elapsed source),
      bulk_direct_packet_payload_partial_writes :=
        saturating_add (bulk_direct_packet_payload_partial_writes target)
          (bulk_direct_packet_payload_partial_writes source),
      bulk_direct_packet_poll_write_polls :=
        saturating_add (bulk_direct_packet_poll_write_polls target) (bulk_direct_packet_poll_write_polls source),
      bulk_direct_packet_poll_write_pending_count :=
        saturating_add (bulk_direct_packet_poll_write_pending_count target)
          (bulk_direct_packet_poll_write_pending_count source),
      bulk_direct_packet_poll_write_pending_elapsed :=
        bulk_direct_packet_poll_write_pending_elapsed target + bulk_direct_packet_poll_write_pending_elapsed source,
      bulk_direct_packet_poll_write_max_pending_elapsed :=
        max (bulk_direct_packet_poll_write_max_pending_elapsed target)
          (bulk_direct_packet_poll_write_max_pending_elapsed source),
      bulk_direct_packet_poll_write_ready_count :=
        saturating_add (bulk_direct_packet_poll_write_ready_count target)
          (bulk_direct_packet_poll_write_ready_count source),
      bulk_direct_packet_poll_write_ready_elapsed :=
        bulk_direct_packet_poll_write_ready_elapsed target + bulk_direct_packet_poll_write_ready_elapsed source,
      bulk_direct_packet_poll_write_max_ready_elapsed :=
        max (bulk_direct_packet_poll_write_max_ready_elapsed target)
          (bulk_direct_packet_poll_write_max_ready_elapsed source),
      bulk_direct_packet_flush_calls :=
        saturating_add (bulk_direct_packet_flush_calls target) (bulk_direct_packet_flush_calls source),
      bulk_direct_packet_flush_elapsed :=
        bulk_direct_packet_flush_elapsed target + bulk_direct_packet_flush_elapsed source,
      bulk_direct_packet_max_flush_elapsed :=
        max (bulk_direct_packet_max_flush_elapsed target) (bulk_direct_packet_max_flush_elapsed source),
      bulk_direct_packet_flush_pending_count :=
        saturating_add (bulk_direct_packet_flush_pending_count target)
          (bulk_direct_packet_flush_pending_count source),
      bulk_direct_packet_flush_pending_elapsed :=
        bulk_direct_packet_flush_pending_elapsed target + bulk_direct_packet_flush_pending_elapsed source,
      bulk_direct_packet_flush_max_pending_elapsed :=
        max (bulk_direct_packet_flush_max_pending_elapsed target)
          (bulk_direct_packet_flush_max_pending_elapsed source)\<rparr>"

definition merge_fields :: "direct_write_profile \<Rightarrow> direct_write_profile \<Rightarrow> direct_write_profile" where
  "merge_fields target source =
     merge_direct_packet_fields source (merge_connection_fields source
       (merge_bulk_fields source (merge_packet_fields source (merge_writer_fields source target))))"

definition merge_direct_profile ::
    "direct_write_profile option \<Rightarrow> direct_write_profile option \<Rightarrow> direct_write_profile option option" where
  "merge_direct_profile target source =
     (case source of
        None \<Rightarrow> Some target
      | Some source \<Rightarrow>
          (let target = (case target of None \<Rightarrow> direct_write_profile_default | Some target \<Rightarrow> target) in
           map_option Some (settled (merge_fields target source))))"

subsection \<open>Events\<close>

text \<open>What happens to a profile between its start and its end.\<close>

datatype profile_event =
    MeasuredBatch duration
  | SplitRowRanges duration
  | AppendedRows duration
  | SentRows duration
  | AcceptedBatch usize
  | PlannedRowRange usize
  | EncodedNVarChar usize
  | EncodedVarBinary usize
  | EncodedNull
  | FinishedBulkLoad bulk_load_stats

fun record_event :: "profile_event \<Rightarrow> direct_write_profile \<Rightarrow> direct_write_profile option" where
  "record_event (MeasuredBatch d) p = record_measure_batch d p"
| "record_event (SplitRowRanges d) p = record_row_range_split d p"
| "record_event (AppendedRows d) p = record_append_encode d p"
| "record_event (SentRows d) p = record_send_total d p"
| "record_event (AcceptedBatch n) p = Some (profile_record_accepted_batch n p)"
| "record_event (PlannedRowRange n) p = Some (record_row_range n p)"
| "record_event (EncodedNVarChar n) p = Some (record_nvarchar_utf16_bytes n p)"
| "record_event (EncodedVarBinary n) p = Some (record_varbinary_bytes n p)"
| "record_event EncodedNull p = Some (record_null_cell p)"
| "record_event (FinishedBulkLoad stats) p = record_bulk_load_stats stats p"

primrec record_events :: "profile_event list \<Rightarrow> direct_write_profile \<Rightarrow> direct_write_profile option" where
  "record_events [] p = Some p"
| "record_events (e # es) p = Option.bind (record_event e p) (record_events es)"

lemma record_events_append: "record_events (es @ es') p = Option.bind (record_events es p) (record_events es')"
  by (induction es arbitrary: p) (simp_all split: bind_split)

text \<open>The same without the limit of a duration.\<close>

fun event_fields :: "profile_event \<Rightarrow> direct_write_profile \<Rightarrow> direct_write_profile" where
  "event_fields (MeasuredBatch d) p = p\<lparr>profile_measure_batch := profile_measure_batch p + d\<rparr>"
| "event_fields (SplitRowRanges d) p = p\<lparr>profile_row_range_split := profile_row_range_split p + d\<rparr>"
| "event_fields (AppendedRows d) p = p\<lparr>profile_append_encode := profile_append_encode p + d\<rparr>"
| "event_fields (SentRows d) p = p\<lparr>profile_send_total := profile_send_total p + d\<rparr>"
| "event_fields (AcceptedBatch n) p = profile_record_accepted_batch n p"
| "event_fields (PlannedRowRange n) p = record_row_range n p"
| "event_fields (EncodedNVarChar n) p = record_nvarchar_utf16_bytes n p"
| "event_fields (EncodedVarBinary n) p = record_varbinary_bytes n p"
| "event_fields EncodedNull p = record_null_cell p"
| "event_fields (FinishedBulkLoad stats) p = bulk_fields stats p"

lemmas record_defs = record_measure_batch_def record_row_range_split_def record_append_encode_def
  record_send_total_def profile_record_accepted_batch_def record_row_range_def record_nvarchar_utf16_bytes_def
  record_varbinary_bytes_def record_null_cell_def

lemmas bulk_defs = bulk_fields_def record_packet_stats_def record_timing_stats_def record_connection_stats_def
  record_direct_stats_def
lemmas merge_defs = merge_fields_def merge_writer_fields_def merge_packet_fields_def merge_bulk_fields_def
  merge_connection_fields_def merge_direct_packet_fields_def

lemma saturating_add_assoc: "saturating_add (saturating_add a b) c = saturating_add a (saturating_add b c)"
proof -
  have "unat (saturating_add (saturating_add a b) c) = unat (saturating_add a (saturating_add b c))"
    by (simp add: saturating_add_unat min_def)
  then show ?thesis by (simp only: unat_inject)
qed

lemma saturating_add_0 [simp]: "saturating_add a 0 = a" "saturating_add 0 a = a"
proof -
  have "unat a \<le> 2 ^ 64 - 1" using unsigned_less [of a, where ?'a = nat] by simp
  then have "unat (saturating_add a 0) = unat a" "unat (saturating_add 0 a) = unat a"
    by (simp_all add: saturating_add_unat)
  then show "saturating_add a 0 = a" "saturating_add 0 a = a" by (simp_all only: unat_inject)
qed

lemma merge_event: "merge_fields p (event_fields e q) = event_fields e (merge_fields p q)"
  by (cases e)
    (simp_all add: merge_defs bulk_defs record_defs Let_def saturating_add_assoc max.assoc ac_simps)

lemma merge_default:
  "merge_fields p direct_write_profile_default = p\<lparr>profile_buffered_bytes_after_last_write := 0\<rparr>"
  by (simp add: merge_defs direct_write_profile_default_def)

lemma bulk_after_update:
  "bulk_fields stats (p\<lparr>profile_buffered_bytes_after_last_write := n\<rparr>) = bulk_fields stats p"
  by (simp add: bulk_defs Let_def)

lemma event_keeps_buffered:
  "\<forall>stats. e \<noteq> FinishedBulkLoad stats \<Longrightarrow> event_fields e (p\<lparr>profile_buffered_bytes_after_last_write := n\<rparr>)
     = (event_fields e p)\<lparr>profile_buffered_bytes_after_last_write := n\<rparr>"
  by (cases e) (simp_all add: record_defs Let_def)

lemma durations_grow: "list_all2 (\<le>) (profile_durations p) (profile_durations (event_fields e p))"
  by (cases e) (simp_all add: profile_durations_def bulk_defs record_defs Let_def)

lemma durations_of_merge:
  "list_all2 (\<le>) (profile_durations p) (profile_durations (merge_fields p q))"
  "list_all2 (\<le>) (profile_durations q) (profile_durations (merge_fields p q))"
  by (simp_all add: profile_durations_def merge_defs)

lemma counters_keep_durations:
  "profile_durations (profile_record_accepted_batch n p) = profile_durations p"
  "profile_durations (record_row_range n p) = profile_durations p"
  "profile_durations (record_nvarchar_utf16_bytes n p) = profile_durations p"
  "profile_durations (record_varbinary_bytes n p) = profile_durations p"
  "profile_durations (record_null_cell p) = profile_durations p"
  by (simp_all add: profile_durations_def record_defs Let_def)

definition in_range :: "direct_write_profile \<Rightarrow> bool" where
  "in_range p \<longleftrightarrow> list_all (\<lambda>d. d \<le> DURATION_MAX) (profile_durations p)"

lemma settled_in_range: "settled p = (if in_range p then Some p else None)"
  by (simp add: settled_def in_range_def)

lemma record_event_settled:
  assumes "in_range p"
  shows "record_event e p = settled (event_fields e p)"
proof (cases e)
  case (FinishedBulkLoad stats)
  then show ?thesis by (simp add: record_bulk_load_stats_def)
qed (use assms in \<open>simp_all add: record_measure_batch_def record_row_range_split_def record_append_encode_def
  record_send_total_def settled_in_range in_range_def counters_keep_durations\<close>)

lemma in_range_mono: "list_all2 (\<le>) (profile_durations p) (profile_durations q) \<Longrightarrow> in_range q \<Longrightarrow> in_range p"
  by (fastforce simp: in_range_def list_all2_conv_all_nth list_all_length)

text \<open>A profile is the fields of its events, if no sum of durations is too large.\<close>

definition events_fields :: "profile_event list \<Rightarrow> direct_write_profile \<Rightarrow> direct_write_profile" where
  "events_fields = fold event_fields"

lemma events_grow: "list_all2 (\<le>) (profile_durations p) (profile_durations (events_fields es p))"
proof (induction es arbitrary: p)
  case (Cons e es)
  from list_all2_trans [OF _ durations_grow [of p e] Cons.IH [of "event_fields e p"]] show ?case
    by (simp add: events_fields_def)
qed (simp add: events_fields_def list_all2_refl)

lemma record_events_settled: "in_range p \<Longrightarrow> record_events es p = settled (events_fields es p)"
proof (induction es arbitrary: p)
  case (Cons e es)
  show ?case
  proof (cases "in_range (event_fields e p)")
    case True
    with Cons show ?thesis by (simp add: record_event_settled settled_in_range events_fields_def)
  next
    case False
    then have "\<not> in_range (events_fields es (event_fields e p))" using events_grow in_range_mono by blast
    with False Cons.prems show ?thesis by (simp add: record_event_settled settled_in_range events_fields_def)
  qed
qed (simp add: events_fields_def settled_in_range)

lemma merge_events: "merge_fields p (events_fields es q) = events_fields es (merge_fields p q)"
  by (induction es arbitrary: q) (simp_all add: events_fields_def merge_event)

lemma finished_forgets:
  "\<exists>stats. FinishedBulkLoad stats \<in> set es \<Longrightarrow>
     events_fields es (p\<lparr>profile_buffered_bytes_after_last_write := n\<rparr>) = events_fields es p"
proof (induction es arbitrary: p)
  case (Cons e es)
  show ?case
  proof (cases "\<exists>stats. e = FinishedBulkLoad stats")
    case True
    then show ?thesis by (auto simp: events_fields_def bulk_after_update)
  next
    case False
    with Cons show ?thesis by (auto simp: events_fields_def event_keeps_buffered)
  qed
qed simp

lemma default_in_range: "in_range direct_write_profile_default"
  by (simp add: in_range_def profile_durations_def direct_write_profile_default_def)

lemma default_merge:
  "merge_fields direct_write_profile_default p = p"
  by (rule direct_write_profile.equality) (simp_all add: merge_defs direct_write_profile_default_def)

lemma merge_direct_profile_fields:
  "merge_direct_profile target (Some q) = map_option Some (settled
     (merge_fields (case target of None \<Rightarrow> direct_write_profile_default | Some p \<Rightarrow> p) q))"
  by (simp add: merge_direct_profile_def Let_def)

subsection \<open>Repeated runs\<close>

text \<open>The profile of every run of the driver, merged in order; \<^verbatim>\<open>None\<close> is a panic.\<close>

definition repeat_profile :: "profile_event list \<Rightarrow> direct_write_profile option" where
  "repeat_profile es = record_events es direct_write_profile_default"

primrec merge_repeats ::
    "profile_event list list \<Rightarrow> direct_write_profile option \<Rightarrow> direct_write_profile option option" where
  "merge_repeats [] target = Some target"
| "merge_repeats (es # ess) target =
     Option.bind (repeat_profile es) (\<lambda>p.
     Option.bind (merge_direct_profile target (Some p)) (merge_repeats ess))"

lemma merge_repeat:
  assumes "in_range p" "\<exists>stats. FinishedBulkLoad stats \<in> set es"
  shows "Option.bind (repeat_profile es) (\<lambda>q. merge_direct_profile (Some p) (Some q))
    = map_option Some (record_events es p)"
proof -
  let ?q = "events_fields es direct_write_profile_default"
  have merged: "merge_fields p ?q = events_fields es p"
    using assms(2) by (simp add: merge_events merge_default finished_forgets)
  then have "in_range (events_fields es p) \<Longrightarrow> in_range ?q" using durations_of_merge(2) in_range_mono by metis
  then show ?thesis
    using merged assms(1) default_in_range
    by (auto simp: repeat_profile_def record_events_settled settled_in_range merge_direct_profile_fields)
qed

lemma record_events_in_range: "in_range p \<Longrightarrow> record_events es p = Some q \<Longrightarrow> in_range q"
  by (simp add: record_events_settled settled_in_range split: if_splits)

lemma merge_repeats_from:
  assumes "in_range p" "\<forall>es \<in> set ess. \<exists>stats. FinishedBulkLoad stats \<in> set es"
  shows "merge_repeats ess (Some p) = map_option Some (record_events (concat ess) p)"
  using assms
proof (induction ess arbitrary: p)
  case (Cons es ess)
  from Cons.prems have "merge_repeats (es # ess) (Some p) =
      Option.bind (map_option Some (record_events es p)) (merge_repeats ess)"
    using merge_repeat [of p es] by (simp flip: bind_assoc)
  also have "\<dots> = Option.bind (record_events es p) (\<lambda>q. merge_repeats ess (Some q))"
    by (cases "record_events es p") simp_all
  also have "\<dots> = Option.bind (record_events es p) (\<lambda>q. map_option Some (record_events (concat ess) q))"
    using Cons record_events_in_range [OF Cons.prems(1), of es] by (cases "record_events es p") simp_all
  also have "\<dots> = map_option Some (record_events (concat (es # ess)) p)"
    by (cases "record_events es p") (simp_all add: record_events_append)
  finally show ?case .
qed simp

text \<open>C38: the sum of the profiles of repeated runs is the profile of one long run. When every run finishes
  its bulk load, merging the profiles of the runs in order gives, in each of the eighty fields, what one profile over all
  the events in order would hold: counters and times added, maxima kept, the number of buffered
  bytes that of the last run; and the merge panics on a duration too large exactly when the long run does.\<close>

theorem profiles_merge:
  assumes "\<forall>es \<in> set ess. \<exists>stats. FinishedBulkLoad stats \<in> set es"
  shows "merge_repeats ess None =
    (if ess = [] then Some None else map_option Some (repeat_profile (concat ess)))"
proof (cases ess)
  case (Cons es rest)
  have first: "merge_direct_profile None (Some p) = Some (Some p)" if "repeat_profile es = Some p" for p
    using record_events_in_range [OF default_in_range] that
    by (simp add: repeat_profile_def merge_direct_profile_fields default_merge settled_in_range)
  show ?thesis
  proof (cases "repeat_profile es")
    case (Some p)
    then have "in_range p" using record_events_in_range default_in_range by (simp add: repeat_profile_def)
    with merge_repeats_from [of p rest] assms first Some Cons show ?thesis
      by (simp add: repeat_profile_def record_events_append)
  qed (simp add: Cons repeat_profile_def record_events_append)
qed simp

theorem profiles_merge_witness:
  "\<forall>stats. merge_repeats [[AcceptedBatch 2, FinishedBulkLoad stats], [SentRows 5, FinishedBulkLoad stats]] None
     = map_option Some (repeat_profile
         [AcceptedBatch 2, FinishedBulkLoad stats, SentRows 5, FinishedBulkLoad stats])"
proof
  fix stats
  show "merge_repeats [[AcceptedBatch 2, FinishedBulkLoad stats], [SentRows 5, FinishedBulkLoad stats]] None
     = map_option Some (repeat_profile
         [AcceptedBatch 2, FinishedBulkLoad stats, SentRows 5, FinishedBulkLoad stats])"
    using profiles_merge [of "[[AcceptedBatch 2, FinishedBulkLoad stats], [SentRows 5, FinishedBulkLoad stats]]"]
    by (simp del: merge_repeats.simps)
qed

end
