(* ===== verification/ProfiledWriter.thy ===== *)
theory ProfiledWriter
  imports WriteProfile
begin

text \<open>
  The profiled build of the writer: the thread-local profile and fast-path switches
  (\<^verbatim>\<open>src/write/profile.rs\<close>) and the calls that \<^verbatim>\<open>src/write/writer.rs\<close> makes to them. The calls made
  for single cells are events of the profile but are not threaded through the column encoders.
\<close>

subsection \<open>The state of a thread\<close>

record profile_thread =
  direct_profile :: "direct_write_profile option"
  thread_date_fast_path_disabled :: bool
  thread_fixed_width_fast_path_disabled :: bool

definition start_direct_write_profile :: "profile_thread \<Rightarrow> profile_thread" where
  "start_direct_write_profile th = th\<lparr>direct_profile := Some direct_write_profile_default\<rparr>"

definition finish_direct_write_profile :: "profile_thread \<Rightarrow> direct_write_profile option \<times> profile_thread" where
  "finish_direct_write_profile th = (direct_profile th, th\<lparr>direct_profile := None\<rparr>)"

definition with_profile ::
    "(direct_write_profile \<Rightarrow> direct_write_profile option) \<Rightarrow> profile_thread \<Rightarrow> profile_thread option" where
  "with_profile update th =
     (case direct_profile th of
        None \<Rightarrow> Some th
      | Some profile \<Rightarrow> map_option (\<lambda>p. th\<lparr>direct_profile := Some p\<rparr>) (update profile))"

text \<open>The switches as the encoder reads them.\<close>

definition thread_flags :: "profile_thread \<Rightarrow> fast_path_flags" where
  "thread_flags th = \<lparr>fixed_width_fast_path_disabled = thread_fixed_width_fast_path_disabled th,
     date_fast_path_disabled = thread_date_fast_path_disabled th\<rparr>"

subsection \<open>Scoped overrides\<close>

text \<open>A guard keeps the value to restore; dropping it restores.\<close>

definition disable_direct_date_fast_path_for_scope :: "profile_thread \<Rightarrow> bool \<times> profile_thread" where
  "disable_direct_date_fast_path_for_scope th =
     (thread_date_fast_path_disabled th, th\<lparr>thread_date_fast_path_disabled := True\<rparr>)"

definition disable_direct_fixed_width_fast_path_for_scope :: "profile_thread \<Rightarrow> bool \<times> profile_thread" where
  "disable_direct_fixed_width_fast_path_for_scope th =
     (thread_fixed_width_fast_path_disabled th, th\<lparr>thread_fixed_width_fast_path_disabled := True\<rparr>)"

definition drop_date_override :: "bool \<Rightarrow> profile_thread \<Rightarrow> profile_thread" where
  "drop_date_override previous th = th\<lparr>thread_date_fast_path_disabled := previous\<rparr>"

definition drop_fixed_width_override :: "bool \<Rightarrow> profile_thread \<Rightarrow> profile_thread" where
  "drop_fixed_width_override previous th = th\<lparr>thread_fixed_width_fast_path_disabled := previous\<rparr>"

text \<open>Code with nested scopes: at an encoding the switches are read.\<close>

datatype scoped_code =
    Encoding
  | Recording profile_event
  | DateScope "scoped_code list"
  | FixedWidthScope "scoped_code list"

fun run_scoped :: "scoped_code \<Rightarrow> profile_thread \<Rightarrow> (fast_path_flags list \<times> profile_thread) option"
  and run_scopeds :: "scoped_code list \<Rightarrow> profile_thread \<Rightarrow> (fast_path_flags list \<times> profile_thread) option" where
  "run_scoped Encoding th = Some ([thread_flags th], th)"
| "run_scoped (Recording e) th = map_option (Pair []) (with_profile (record_event e) th)"
| "run_scoped (DateScope body) th =
     (let (previous, th) = disable_direct_date_fast_path_for_scope th in
      map_option (apsnd (drop_date_override previous)) (run_scopeds body th))"
| "run_scoped (FixedWidthScope body) th =
     (let (previous, th) = disable_direct_fixed_width_fast_path_for_scope th in
      map_option (apsnd (drop_fixed_width_override previous)) (run_scopeds body th))"
| "run_scopeds [] th = Some ([], th)"
| "run_scopeds (c # cs) th =
     Option.bind (run_scoped c th) (\<lambda>(flags, th). map_option (apfst ((@) flags)) (run_scopeds cs th))"

text \<open>The flags that the nesting alone gives.\<close>

fun scope_flags :: "fast_path_flags \<Rightarrow> scoped_code \<Rightarrow> fast_path_flags list" where
  "scope_flags flags Encoding = [flags]"
| "scope_flags flags (Recording e) = []"
| "scope_flags flags (DateScope body) = concat (map (scope_flags (flags\<lparr>date_fast_path_disabled := True\<rparr>)) body)"
| "scope_flags flags (FixedWidthScope body) =
     concat (map (scope_flags (flags\<lparr>fixed_width_fast_path_disabled := True\<rparr>)) body)"

lemma thread_flags_update [simp]:
  "thread_flags (th\<lparr>direct_profile := p\<rparr>) = thread_flags th"
  "thread_flags (th\<lparr>thread_date_fast_path_disabled := b\<rparr>) = (thread_flags th)\<lparr>date_fast_path_disabled := b\<rparr>"
  "thread_flags (th\<lparr>thread_fixed_width_fast_path_disabled := b\<rparr>) = (thread_flags th)\<lparr>fixed_width_fast_path_disabled := b\<rparr>"
  by (simp_all add: thread_flags_def)

lemma thread_flags_eq:
  "thread_flags th = thread_flags th' \<longleftrightarrow>
     thread_date_fast_path_disabled th = thread_date_fast_path_disabled th'
     \<and> thread_fixed_width_fast_path_disabled th = thread_fixed_width_fast_path_disabled th'"
  by (auto simp: thread_flags_def)

lemma with_profile_flags: "with_profile f th = Some th' \<Longrightarrow> thread_flags th' = thread_flags th"
  by (auto simp: with_profile_def split: option.splits)

lemma scoped_run:
  "run_scoped c th = Some (flags, th') \<Longrightarrow> flags = scope_flags (thread_flags th) c \<and> thread_flags th' = thread_flags th"
  "run_scopeds cs th = Some (flags, th') \<Longrightarrow>
     flags = concat (map (scope_flags (thread_flags th)) cs) \<and> thread_flags th' = thread_flags th"
proof (induction c th and cs th arbitrary: flags th' and flags th' rule: run_scoped_run_scopeds.induct)
  case (3 body th)
  then show ?case
    by (auto simp: disable_direct_date_fast_path_for_scope_def drop_date_override_def thread_flags_eq) (auto simp: thread_flags_def)
next
  case (4 body th)
  then show ?case
    by (auto simp: disable_direct_fixed_width_fast_path_for_scope_def drop_fixed_width_override_def thread_flags_eq)
      (auto simp: thread_flags_def)
next
  case (6 c cs th)
  from "6.prems" obtain f1 t1 f2 where "run_scoped c th = Some (f1, t1)" "run_scopeds cs t1 = Some (f2, th')"
    "flags = f1 @ f2" by (auto simp: bind_eq_Some_conv)
  with "6.IH" show ?case by fastforce
qed (auto dest: with_profile_flags)

subsection \<open>The profiled writer\<close>

text \<open>The times that a write measures, once at each place: a parameter.\<close>

record write_clock =
  measure_time :: duration
  split_time :: duration
  encode_time :: "measured_row_range \<Rightarrow> duration"
  send_time :: "measured_row_range \<Rightarrow> duration"

definition recording ::
    "(direct_write_profile \<Rightarrow> direct_write_profile option) \<Rightarrow> 'r \<times> 's \<times> profile_thread \<Rightarrow> ('r \<times> 's \<times> profile_thread) option" where
  "recording update = (\<lambda>(r, s, th). map_option (\<lambda>th. (r, s, th)) (with_profile update th))"

definition profiled_send_measured_raw_rows ::
    "'s bulk_driver \<Rightarrow> write_clock \<Rightarrow> 'tz timezone_db \<Rightarrow> direct_encoder \<Rightarrow> record_batch \<Rightarrow> measured_direct_batch
      \<Rightarrow> measured_row_range \<Rightarrow> 's \<times> profile_thread \<Rightarrow> ((error + unit) \<times> 's \<times> profile_thread) option" where
  "profiled_send_measured_raw_rows drv clock db encoder batch measured r = (\<lambda>(s, th).
     case range_payload_len measured (range_start r) (range_len r) of
       Err e \<Rightarrow> Some (Err e, s, th)
     | Ok encoded_bytes \<Rightarrow>
         Option.bind (with_profile (Some \<circ> record_row_range encoded_bytes) th) (\<lambda>th.
         if \<not> has_variable_width_column encoder
         then
           (case encode_measured_batch_range (thread_flags th) db encoder batch measured (range_start r) (range_len r) of
              None \<Rightarrow> None
            | Some (Err e) \<Rightarrow> Some (Err e, s, th)
            | Some (Ok payload) \<Rightarrow>
                Option.bind (with_profile (record_append_encode (encode_time clock r)) th) (\<lambda>th.
                  let (res, s) = tiberius_call (drv_send_raw_rows_payload_checked drv
                    (payload_bytes payload) (payload_row_token_offsets payload) s) in
                  recording (record_send_total (send_time clock r)) (res, s, th)))
         else
           (case drv_raw_rows_buffer drv s of
              (Err e, s) \<Rightarrow>
                (let (res, s) = tiberius_call (Err e, s) in
                 recording (record_send_total (send_time clock r)) (res, s, th))
            | (Ok buf, s) \<Rightarrow>
                (let encoded = encode_measured_batch_range_into db encoder batch measured (range_start r) (range_len r) buf in
                 Option.bind (with_profile (record_append_encode (encode_time clock r)) th) (\<lambda>th.
                 case encoded of
                   Err e \<Rightarrow>
                     (let (_, s) = drv_raw_rows_appended drv (Err (drv_bulk_input_error drv)) s in
                      recording (record_send_total (send_time clock r)) (Err e, s, th))
                 | Ok appended \<Rightarrow>
                     (let (res, s) = tiberius_call (drv_raw_rows_appended drv (Ok appended) s) in
                      recording (record_send_total (send_time clock r)) (res, s, th)))))))"

definition profiled_write_direct_batch_to_sink ::
    "'s bulk_driver \<Rightarrow> write_clock \<Rightarrow> 'tz timezone_db \<Rightarrow> record_batch \<Rightarrow> writer_state \<times> 's \<times> profile_thread
      \<Rightarrow> ((error + write_stats) \<times> writer_state \<times> 's \<times> profile_thread) option" where
  "profiled_write_direct_batch_to_sink drv clock db batch = (\<lambda>(state, s, th).
     case ok_or (encoder_unavailable (writer_backend state)) (writer_direct_encoder state) of
       Err e \<Rightarrow> Some (Err (with_write_phase e PhaseDirectEncoding), state, s, th)
     | Ok encoder \<Rightarrow>
         (let measured = measure_batch db encoder batch in
          Option.bind (with_profile (record_measure_batch (measure_time clock)) th) (\<lambda>th.
          case measured of
            Err e \<Rightarrow> Some (Err (with_write_phase e (write_phase_for_batch_error e)), state, s, th)
          | Ok measured \<Rightarrow>
              (let rows_written = usize_to_u64_saturating (measured_row_count measured);
                   ranges = row_ranges measured DIRECT_RAW_MAX_PAYLOAD_BYTES in
               Option.bind (with_profile (record_row_range_split (split_time clock)) th) (\<lambda>th.
               case ranges of
                 Err e \<Rightarrow> Some (Err (with_write_phase e PhaseDirectEncoding), state, s, th)
               | Ok ranges \<Rightarrow>
                   (case call_each (profiled_send_measured_raw_rows drv clock db encoder batch measured) ranges (s, th) of
                      None \<Rightarrow> None
                    | Some (Err e, s, th) \<Rightarrow> Some (Err (with_write_phase e (write_phase_for_batch_error e)), state, s, th)
                    | Some (Ok _, s, th) \<Rightarrow>
                        Option.bind (with_profile (Some \<circ> profile_record_accepted_batch (measured_row_count measured)) th) (\<lambda>th.
                        let state = record_accepted_batch rows_written state in
                        Some (Ok (writer_stats state), state, s, th))))))))"

definition profiled_write_batch ::
    "'s bulk_driver \<Rightarrow> write_clock \<Rightarrow> 'tz timezone_db \<Rightarrow> record_batch \<Rightarrow> writer_state \<times> 's \<times> profile_thread
      \<Rightarrow> ((error + write_stats) \<times> writer_state \<times> 's \<times> profile_thread) option" where
  "profiled_write_batch drv clock db batch = (\<lambda>(state, s, th).
     case writer_backend state of
       BaselineTokenRow \<Rightarrow>
         map_option (\<lambda>(r, state, s). (r, state, s, th)) (write_batch_to_sink drv db batch (state, s))
     | DirectFramedBulk \<Rightarrow> profiled_write_direct_batch_to_sink drv clock db batch (state, s, th)
     | DirectRawBulk \<Rightarrow> profiled_write_direct_batch_to_sink drv clock db batch (state, s, th)
     | BackendAuto \<Rightarrow> Some (Err (execution_unavailable BackendAuto), state, s, th))"

text \<open>Finishing with the statistics of the driver.\<close>

definition profiled_finish_writer ::
    "'s bulk_driver \<Rightarrow> ('s \<Rightarrow> bulk_load_stats) \<Rightarrow> writer_state \<times> 's \<times> profile_thread
      \<Rightarrow> ((error + write_stats) \<times> 's \<times> profile_thread) option" where
  "profiled_finish_writer drv driver_stats = (\<lambda>(state, s, th).
     let stats = writer_stats state in
     case tiberius_call (drv_finalize drv s) of
       (Err e, s) \<Rightarrow> Some (Err (with_write_phase e Finalize), s, th)
     | (Ok _, s) \<Rightarrow> recording (record_bulk_load_stats (driver_stats s)) (Ok stats, s, th))"

subsection \<open>Profiling changes nothing\<close>

text \<open>Without a profile there is nothing to record; with one, a run is the plain run with its events recorded.\<close>

definition profiling :: "profile_event list \<Rightarrow> profile_thread \<Rightarrow> profile_thread option" where
  "profiling es = with_profile (record_events es)"

lemma profiling_Nil [simp]: "profiling [] th = Some th"
  by (cases th) (simp add: profiling_def with_profile_def split: option.split)

lemma profiling_append: "profiling (es @ es') th = Option.bind (profiling es th) (profiling es')"
  by (cases "direct_profile th") (auto simp: profiling_def with_profile_def record_events_append split: bind_split)

lemma profiling_flags: "profiling es th = Some th' \<Longrightarrow> thread_flags th' = thread_flags th"
  by (auto simp: profiling_def dest: with_profile_flags)

lemma record_no_events: "record_events [] = Some"
  by (rule ext) simp

lemma with_profile_events [simp]:
  "with_profile (record_measure_batch d) th = profiling [MeasuredBatch d] th"
  "with_profile (record_row_range_split d) th = profiling [SplitRowRanges d] th"
  "with_profile (record_append_encode d) th = profiling [AppendedRows d] th"
  "with_profile (record_send_total d) th = profiling [SentRows d] th"
  "with_profile (Some \<circ> profile_record_accepted_batch n) th = profiling [AcceptedBatch n] th"
  "with_profile (Some \<circ> record_row_range n) th = profiling [PlannedRowRange n] th"
  "with_profile (record_bulk_load_stats stats) th = profiling [FinishedBulkLoad stats] th"
  by (simp_all add: profiling_def with_profile_def record_no_events split: option.split)

definition recorded_with ::
    "('x \<Rightarrow> profile_thread \<Rightarrow> 'y) \<Rightarrow> profile_event list \<Rightarrow> profile_thread \<Rightarrow> 'x option \<Rightarrow> 'y option" where
  "recorded_with f es th run = Option.bind run (\<lambda>x. map_option (f x) (profiling es th))"

abbreviation recorded ::
    "profile_event list \<Rightarrow> profile_thread \<Rightarrow> ('r \<times> 's) option \<Rightarrow> ('r \<times> 's \<times> profile_thread) option" where
  "recorded \<equiv> recorded_with (\<lambda>(r, s) th. (r, s, th))"

lemma recorded_simps [simp]:
  "recorded_with f es th None = None"
  "recorded_with f es th (Some x) = map_option (f x) (profiling es th)"
  by (simp_all add: recorded_with_def)

lemma recording_recorded: "recording f (r, s, th) = map_option (\<lambda>th. (r, s, th)) (with_profile f th)"
  by (simp add: recording_def)

lemma record_then:
  assumes "\<And>th'. thread_flags th' = thread_flags th \<Longrightarrow> run' th' = recorded_with f es th' run"
  shows "Option.bind (profiling [e] th) run' = recorded_with f (e # es) th run"
proof (cases "profiling [e] th")
  case (Some th')
  with assms [OF profiling_flags [OF Some]] show ?thesis
    using profiling_append [of "[e]" es th] by (cases run) auto
qed (use profiling_append [of "[e]" es th] in \<open>cases run, auto\<close>)

lemma record_then_value [simp]:
  "Option.bind (profiling [e] th) (\<lambda>th. map_option f (profiling es th)) = map_option f (profiling (e # es) th)"
  using profiling_append [of "[e]" es th] by (cases "profiling [e] th") simp_all

lemma record_then_last [simp]:
  "Option.bind (profiling [e] th) (\<lambda>th. Some (f th)) = map_option f (profiling [e] th)"
  by (cases "profiling [e] th") simp_all

text \<open>The events of a range: none of them accepts a batch.\<close>

definition range_event :: "profile_event \<Rightarrow> bool" where
  "range_event e \<longleftrightarrow> (case e of PlannedRowRange _ \<Rightarrow> True | AppendedRows _ \<Rightarrow> True | SentRows _ \<Rightarrow> True | _ \<Rightarrow> False)"

lemma range_event_simps [simp]:
  "range_event (PlannedRowRange n)" "range_event (AppendedRows d)" "range_event (SentRows d)"
  by (simp_all add: range_event_def)

text \<open>The four times of a profile that a write adds to, and what its events add.\<close>

datatype write_time = MeasureTime | SplitTime | EncodeTime | SendTime

definition profile_time :: "write_time \<Rightarrow> direct_write_profile \<Rightarrow> duration" where
  "profile_time k p = (case k of MeasureTime \<Rightarrow> profile_measure_batch p | SplitTime \<Rightarrow> profile_row_range_split p
     | EncodeTime \<Rightarrow> profile_append_encode p | SendTime \<Rightarrow> profile_send_total p)"

definition event_time :: "write_time \<Rightarrow> profile_event \<Rightarrow> duration" where
  "event_time k e = (case (k, e) of (MeasureTime, MeasuredBatch d) \<Rightarrow> d | (SplitTime, SplitRowRanges d) \<Rightarrow> d
     | (EncodeTime, AppendedRows d) \<Rightarrow> d | (SendTime, SentRows d) \<Rightarrow> d | _ \<Rightarrow> 0)"

definition events_time :: "write_time \<Rightarrow> profile_event list \<Rightarrow> duration" where
  "events_time k es = sum_list (map (event_time k) es)"

definition range_time :: "write_clock \<Rightarrow> write_time \<Rightarrow> measured_row_range \<Rightarrow> duration" where
  "range_time clock k r = (case k of EncodeTime \<Rightarrow> encode_time clock r | SendTime \<Rightarrow> send_time clock r | _ \<Rightarrow> 0)"

definition ranges_time :: "write_clock \<Rightarrow> write_time \<Rightarrow> measured_row_range list \<Rightarrow> duration" where
  "ranges_time clock k ranges = sum_list (map (range_time clock k) ranges)"

lemma events_time_simps [simp]:
  "events_time k [] = 0" "events_time k (e # es) = event_time k e + events_time k es"
  "events_time k (es @ es') = events_time k es + events_time k es'"
  by (simp_all add: events_time_def)

lemma event_time_accepted [simp]: "event_time k (AcceptedBatch n) = 0"
  by (cases k) (simp_all add: event_time_def)

lemma ranges_time_simps [simp]:
  "ranges_time clock k [] = 0" "ranges_time clock k (r # rs) = range_time clock k r + ranges_time clock k rs"
  by (simp_all add: ranges_time_def)

text \<open>Events add at most these times, and exactly these when the run succeeds.\<close>

definition times_within :: "(write_time \<Rightarrow> duration) \<Rightarrow> profile_event list \<Rightarrow> ((error + 'a) \<times> 'b) option \<Rightarrow> bool" where
  "times_within t es run \<longleftrightarrow> (\<forall>k. events_time k es \<le> t k)
     \<and> (\<forall>x. run = Some x \<longrightarrow> is_ok (fst x) \<longrightarrow> (\<forall>k. events_time k es = t k))"

lemma profiled_send:
  "\<exists>es. list_all range_event es
    \<and> times_within (\<lambda>k. range_time clock k r) es (send_measured_raw_rows drv flags db encoder batch measured r s)
    \<and> (\<forall>th. thread_flags th = flags \<longrightarrow>
     profiled_send_measured_raw_rows drv clock db encoder batch measured r (s, th)
       = recorded es th (send_measured_raw_rows drv flags db encoder batch measured r s))"
proof (cases "range_payload_len measured (range_start r) (range_len r)")
  case (Inl e)
  then show ?thesis
    by (intro exI [of _ "[]"])
      (simp add: profiled_send_measured_raw_rows_def send_measured_raw_rows_def times_within_def)
next
  case range: (Inr n)
  let ?a = "AppendedRows (encode_time clock r)" and ?t = "SentRows (send_time clock r)"
  let ?encoded = "encode_measured_batch_range flags db encoder batch measured (range_start r) (range_len r)"
  let ?es = "if \<not> has_variable_width_column encoder
    then (case ?encoded of Some (Ok _) \<Rightarrow> [?a, ?t] | _ \<Rightarrow> [])
    else (case drv_raw_rows_buffer drv s of (Err _, _) \<Rightarrow> [?t] | _ \<Rightarrow> [?a, ?t])"
  have "profiled_send_measured_raw_rows drv clock db encoder batch measured r (s, th)
      = recorded (PlannedRowRange n # ?es) th (send_measured_raw_rows drv flags db encoder batch measured r s)"
    if "thread_flags th = flags" for th
    unfolding profiled_send_measured_raw_rows_def range prod.case sum.case with_profile_events
  proof (rule record_then, goal_cases)
    case (1 th')
    then have flags: "thread_flags th' = flags" using that by simp
    show ?case
    proof (cases "has_variable_width_column encoder")
      case False
      then show ?thesis
        by (auto simp: flags send_measured_raw_rows_def range recording_recorded split: option.split sum.split prod.split
            intro!: record_then)
    next
      case True
      then show ?thesis
        by (auto simp: flags send_measured_raw_rows_def range recording_recorded Let_def split: sum.split prod.split
            intro!: record_then)
    qed
  qed
  moreover have "list_all range_event (PlannedRowRange n # ?es)"
    by (simp split: option.split sum.split prod.split)
  moreover have "times_within (\<lambda>k. range_time clock k r) (PlannedRowRange n # ?es)
      (send_measured_raw_rows drv flags db encoder batch measured r s)"
  proof (cases "has_variable_width_column encoder")
    case True
    then show ?thesis
      by (simp add: times_within_def range_time_def event_time_def send_measured_raw_rows_def range tiberius_call_def
          split: sum.split prod.split write_time.split)
  next
    case False
    then show ?thesis
      by (simp add: times_within_def range_time_def event_time_def send_measured_raw_rows_def range
          split: option.split sum.split prod.split write_time.split)
  qed
  ultimately show ?thesis by blast
qed

lemma profiled_sends:
  "\<exists>es. list_all range_event es
    \<and> times_within (\<lambda>k. ranges_time clock k rs) es (call_each (send_measured_raw_rows drv flags db encoder batch measured) rs s)
    \<and> (\<forall>th. thread_flags th = flags \<longrightarrow>
     call_each (profiled_send_measured_raw_rows drv clock db encoder batch measured) rs (s, th)
       = recorded es th (call_each (send_measured_raw_rows drv flags db encoder batch measured) rs s))"
proof (induction rs arbitrary: s)
  case Nil
  show ?case by (intro exI [of _ "[]"]) (simp add: times_within_def)
next
  case (Cons r rs)
  let ?send = "send_measured_raw_rows drv flags db encoder batch measured"
  from profiled_send [of clock r drv flags db encoder batch measured s] obtain es where
    es: "list_all range_event es" "times_within (\<lambda>k. range_time clock k r) es (?send r s)"
      "\<forall>th. thread_flags th = flags \<longrightarrow>
        profiled_send_measured_raw_rows drv clock db encoder batch measured r (s, th) = recorded es th (?send r s)" by blast
  have short: "events_time k es \<le> ranges_time clock k (r # rs)" for k
    using es(2) by (simp add: times_within_def add_increasing2)
  show ?case
  proof (cases "?send r s")
    case (Some res)
    obtain u s' where res: "res = (u, s')" by (cases res)
    show ?thesis
    proof (cases u)
      case (Inr x)
      from Cons.IH [of s'] obtain es' where
        es': "list_all range_event es'" "times_within (\<lambda>k. ranges_time clock k rs) es' (call_each ?send rs s')"
          "\<forall>th. thread_flags th = flags \<longrightarrow>
          call_each (profiled_send_measured_raw_rows drv clock db encoder batch measured) rs (s', th)
            = recorded es' th (call_each ?send rs s')" by blast
      have "call_each (profiled_send_measured_raw_rows drv clock db encoder batch measured) (r # rs) (s, th)
          = recorded (es @ es') th (call_each ?send (r # rs) s)" if "thread_flags th = flags" for th
        using es(3) es'(3) that profiling_flags [of es th] Some res Inr
        by (cases "profiling es th"; cases "call_each ?send rs s'") (auto simp: profiling_append)
      moreover have "times_within (\<lambda>k. ranges_time clock k (r # rs)) (es @ es') (call_each ?send (r # rs) s)"
        using es(2) es'(2) Some res Inr by (simp add: times_within_def add_mono)
      ultimately show ?thesis using es(1) es'(1) by (intro exI [of _ "es @ es'"]) simp
    next
      case (Inl e)
      with Some res short have "times_within (\<lambda>k. ranges_time clock k (r # rs)) es (call_each ?send (r # rs) s)"
        by (simp add: times_within_def)
      with Inl es Some res show ?thesis by (intro exI [of _ es]) (auto split: option.split)
    qed
  next
    case None
    with short have "times_within (\<lambda>k. ranges_time clock k (r # rs)) es (call_each ?send (r # rs) s)"
      by (simp add: times_within_def)
    with None es show ?thesis by (intro exI [of _ es]) auto
  qed
qed

text \<open>The batches that a list of events accepts.\<close>

definition accepted_rows :: "profile_event list \<Rightarrow> nat list" where
  "accepted_rows es = concat (map (\<lambda>e. case e of AcceptedBatch n \<Rightarrow> [n] | _ \<Rightarrow> []) es)"

lemma accepted_rows_simps [simp]:
  "accepted_rows [] = []"
  "accepted_rows (e # es) = (case e of AcceptedBatch n \<Rightarrow> [n] | _ \<Rightarrow> []) @ accepted_rows es"
  "accepted_rows (es @ es') = accepted_rows es @ accepted_rows es'"
  by (simp_all add: accepted_rows_def)

lemma range_events_accept_nothing: "list_all range_event es \<Longrightarrow> accepted_rows es = []"
  by (induction es) (auto simp: range_event_def split: profile_event.splits)

abbreviation recorded_write ::
    "profile_event list \<Rightarrow> profile_thread \<Rightarrow> ('r \<times> 't \<times> 's) option \<Rightarrow> ('r \<times> 't \<times> 's \<times> profile_thread) option" where
  "recorded_write \<equiv> recorded_with (\<lambda>(r, state, s) th. (r, state, s, th))"

definition accepts :: "record_batch \<Rightarrow> (('e + 'a) \<times> 's) option \<Rightarrow> nat list" where
  "accepts batch run = (case run of Some (Ok _, _) \<Rightarrow> [batch_num_rows batch] | _ \<Rightarrow> [])"

text \<open>The ranges that a write of a batch sends if nothing fails, and the times it then records.\<close>

definition write_ranges :: "'tz timezone_db \<Rightarrow> writer_state \<Rightarrow> record_batch \<Rightarrow> measured_row_range list" where
  "write_ranges db state batch =
     (case writer_direct_encoder state of
        None \<Rightarrow> []
      | Some encoder \<Rightarrow>
          (case and_then (measure_batch db encoder batch) (\<lambda>measured.
              row_ranges measured DIRECT_RAW_MAX_PAYLOAD_BYTES) of
             Err _ \<Rightarrow> []
           | Ok ranges \<Rightarrow> ranges))"

definition clock_time :: "write_clock \<Rightarrow> write_time \<Rightarrow> measured_row_range list \<Rightarrow> duration" where
  "clock_time clock k ranges = (case k of MeasureTime \<Rightarrow> measure_time clock | SplitTime \<Rightarrow> split_time clock
     | EncodeTime \<Rightarrow> sum_list (map (encode_time clock) ranges)
     | SendTime \<Rightarrow> sum_list (map (send_time clock) ranges))"

lemma clock_time_parts:
  "clock_time clock k ranges = event_time k (MeasuredBatch (measure_time clock))
     + (event_time k (SplitRowRanges (split_time clock)) + ranges_time clock k ranges)"
  by (cases k) (simp_all add: clock_time_def event_time_def ranges_time_def range_time_def cong: map_cong)

definition write_event :: "profile_event \<Rightarrow> bool" where
  "write_event e \<longleftrightarrow> (\<forall>stats. e \<noteq> FinishedBulkLoad stats)"

lemma write_event_simps [simp]:
  "write_event (MeasuredBatch d)" "write_event (SplitRowRanges d)" "write_event (AcceptedBatch n)"
  by (simp_all add: write_event_def)

lemma range_write_events: "list_all range_event es \<Longrightarrow> list_all write_event es"
  by (auto simp: list_all_iff range_event_def write_event_def)

lemma profiled_direct:
  assumes rows: "\<forall>encoder measured. writer_direct_encoder state = Some encoder \<longrightarrow>
      measure_batch db encoder batch = Ok measured \<longrightarrow> measured_row_count measured = batch_num_rows batch"
    and direct: "writer_direct_encoder state \<noteq> None"
  shows "\<exists>es. accepted_rows es = accepts batch (write_direct_batch_to_sink drv flags db batch (state, s))
    \<and> list_all write_event es
    \<and> times_within (\<lambda>k. clock_time clock k (write_ranges db state batch)) es
        (write_direct_batch_to_sink drv flags db batch (state, s))
    \<and> (\<forall>th. thread_flags th = flags \<longrightarrow>
     profiled_write_direct_batch_to_sink drv clock db batch (state, s, th)
       = recorded_write es th (write_direct_batch_to_sink drv flags db batch (state, s)))"
proof -
  from direct obtain encoder where encoder: "writer_direct_encoder state = Some encoder" by blast
  let ?m = "MeasuredBatch (measure_time clock)" and ?s = "SplitRowRanges (split_time clock)"
  note defs = profiled_write_direct_batch_to_sink_def write_direct_batch_to_sink_def encoder accepts_def
  show ?thesis
  proof (cases "measure_batch db encoder batch")
    case (Inl e)
    then show ?thesis
      by (intro exI [of _ "[?m]"]) (auto simp: defs times_within_def clock_time_parts intro!: record_then)
  next
    case measured: (Inr measured)
    show ?thesis
    proof (cases "row_ranges measured DIRECT_RAW_MAX_PAYLOAD_BYTES")
      case (Inl e)
      with measured show ?thesis
        by (intro exI [of _ "[?m, ?s]"]) (auto simp: defs times_within_def clock_time_parts intro!: record_then)
    next
      case ranges: (Inr ranges)
      let ?send = "send_measured_raw_rows drv flags db encoder batch measured"
      from profiled_sends [of clock ranges drv flags db encoder batch measured s] obtain es where
        es: "list_all range_event es" and times: "times_within (\<lambda>k. ranges_time clock k ranges) es (call_each ?send ranges s)"
        and run: "\<forall>th. thread_flags th = flags \<longrightarrow>
          call_each (profiled_send_measured_raw_rows drv clock db encoder batch measured) ranges (s, th)
            = recorded es th (call_each ?send ranges s)" by blast
      let ?es = "?m # ?s # es @ (case call_each ?send ranges s of Some (Ok _, _) \<Rightarrow> [AcceptedBatch (batch_num_rows batch)] | _ \<Rightarrow> [])"
      have "accepted_rows ?es = accepts batch (write_direct_batch_to_sink drv flags db batch (state, s))"
        using range_events_accept_nothing [OF es]
        by (auto simp: defs measured ranges Let_def split: option.split sum.split prod.split)
      moreover have "list_all write_event ?es"
        using range_write_events [OF es] by (simp split: option.split sum.split prod.split)
      moreover have "times_within (\<lambda>k. clock_time clock k (write_ranges db state batch)) ?es
          (write_direct_batch_to_sink drv flags db batch (state, s))"
        using times
        by (auto simp: defs measured ranges Let_def write_ranges_def times_within_def clock_time_parts
            split: option.split sum.split prod.split)
      moreover have "profiled_write_direct_batch_to_sink drv clock db batch (state, s, th)
          = recorded_write ?es th (write_direct_batch_to_sink drv flags db batch (state, s))"
        if "thread_flags th = flags" for th
        unfolding profiled_write_direct_batch_to_sink_def prod.case encoder ok_or_def option.case sum.case measured Let_def
          with_profile_events
      proof (rule record_then, goal_cases)
        case (1 th')
        show ?case
        proof (rule record_then, goal_cases)
          case (1 th'')
          then have flags: "thread_flags th'' = flags" using that \<open>thread_flags th' = thread_flags th\<close> by simp
          show ?case
            using run [rule_format, OF flags] rows [rule_format, OF encoder measured]
            by (cases "profiling es th''")
              (auto simp: defs measured ranges Let_def profiling_append split: option.split sum.split prod.split)
        qed
      qed
      ultimately show ?thesis by blast
    qed
  qed
qed

subsection \<open>The counts of the profile\<close>

definition counts_agree :: "direct_write_profile \<Rightarrow> writer_state \<Rightarrow> bool" where
  "counts_agree p state \<longleftrightarrow> profile_rows p = rows_written (writer_stats state)
     \<and> profile_batches p = batches_written (writer_stats state)"

definition count_rows :: "nat list \<Rightarrow> u64 \<Rightarrow> u64" where
  "count_rows = fold (\<lambda>n total. saturating_add total (usize_to_u64_saturating n))"

lemma settled_Some: "settled p = Some q \<longleftrightarrow> in_range p \<and> q = p"
  by (auto simp: settled_in_range)

lemma record_event_counts:
  assumes "record_event e p = Some q"
  shows "profile_rows q = count_rows (accepted_rows [e]) (profile_rows p)"
    and "profile_batches q = count_rows (map (\<lambda>_. 1) (accepted_rows [e])) (profile_batches p)"
  using assms
  by (cases e; auto simp: count_rows_def record_defs bulk_defs record_bulk_load_stats_def settled_Some Let_def
      usize_to_u64_saturating_def)+

lemma record_events_counts:
  assumes "record_events es p = Some q"
  shows "profile_rows q = count_rows (accepted_rows es) (profile_rows p)
    \<and> profile_batches q = count_rows (map (\<lambda>_. 1) (accepted_rows es)) (profile_batches p)"
  using assms
proof (induction es arbitrary: p)
  case (Cons e es)
  then obtain p1 where p1: "record_event e p = Some p1" "record_events es p1 = Some q" by (auto simp: bind_eq_Some_conv)
  from Cons.IH [OF p1(2)] record_event_counts [OF p1(1)] show ?case by (simp add: count_rows_def)
qed (simp add: count_rows_def)

lemma profiled_batch:
  assumes planned: "writer_for planned state" "\<forall>m \<in> set (planned_mappings planned). valid_mssql_type (target_type m)"
    and batch: "valid_batch batch"
  shows "\<exists>es. list_all write_event es \<and> (writer_direct_encoder state = None \<longrightarrow> es = [])
    \<and> (writer_direct_encoder state \<noteq> None \<longrightarrow>
        accepted_rows es = accepts batch (write_batch drv flags db batch (state, s))
        \<and> times_within (\<lambda>k. clock_time clock k (write_ranges db state batch)) es
            (write_batch drv flags db batch (state, s)))
    \<and> (\<forall>th. thread_flags th = flags \<longrightarrow>
     profiled_write_batch drv clock db batch (state, s, th)
       = recorded_write es th (write_batch drv flags db batch (state, s)))"
proof (cases "writer_direct_encoder state")
  case None
  then have "writer_backend state = BaselineTokenRow"
    using planned(1) by (auto simp: writer_for_def split: write_backend.splits)
  then have "profiled_write_batch drv clock db batch (state, s, th)
      = recorded_write [] th (write_batch drv flags db batch (state, s))" for th
    by (cases "write_batch_to_sink drv db batch (state, s)")
      (auto simp: profiled_write_batch_def write_batch_def)
  with None show ?thesis by (intro exI [of _ "[]"]) simp
next
  case (Some encoder)
  have valid: "\<forall>m \<in> set (writer_mappings state). valid_mssql_type (target_type m)"
    using planned(2) writer_forD(1) [OF planned(1)] by simp
  have "\<forall>enc measured. writer_direct_encoder state = Some enc \<longrightarrow> measure_batch db enc batch = Ok measured
      \<longrightarrow> measured_row_count measured = batch_num_rows batch"
    using measured_batch_encodes [OF writer_forD(4) [OF planned(1)] valid batch] by blast
  from profiled_direct [of state db batch drv flags s clock, OF this] Some obtain es where
    es: "accepted_rows es = accepts batch (write_direct_batch_to_sink drv flags db batch (state, s))"
      "list_all write_event es"
      "times_within (\<lambda>k. clock_time clock k (write_ranges db state batch)) es
        (write_direct_batch_to_sink drv flags db batch (state, s))"
      "\<forall>th. thread_flags th = flags \<longrightarrow> profiled_write_direct_batch_to_sink drv clock db batch (state, s, th)
       = recorded_write es th (write_direct_batch_to_sink drv flags db batch (state, s))" by blast
  have "writer_backend state = DirectFramedBulk \<or> writer_backend state = DirectRawBulk"
    using planned(1) Some by (auto simp: writer_for_def split: write_backend.splits)
  then have "profiled_write_batch drv clock db batch (state, s, th)
      = profiled_write_direct_batch_to_sink drv clock db batch (state, s, th)" for th
    by (auto simp: profiled_write_batch_def)
  with es writer_forD(3) [OF planned(1) Some, of drv flags db batch s] Some show ?thesis by auto
qed

text \<open>What the events of a write do to the times of a profile.\<close>

lemma profile_durations_times:
  "profile_durations p = map (\<lambda>k. profile_time k p) [MeasureTime, SplitTime, EncodeTime, SendTime]
     @ drop 4 (profile_durations p)"
  by (simp add: profile_durations_def profile_time_def)

lemma write_event_times:
  assumes "write_event e"
  shows "profile_time k (event_fields e p) = profile_time k p + event_time k e"
    and "drop 4 (profile_durations (event_fields e p)) = drop 4 (profile_durations p)"
proof -
  show "profile_time k (event_fields e p) = profile_time k p + event_time k e"
    using assms by (cases e; cases k) (simp_all add: profile_time_def event_time_def record_defs Let_def write_event_def)
  show "drop 4 (profile_durations (event_fields e p)) = drop 4 (profile_durations p)"
    using assms by (cases e) (simp_all add: profile_durations_def record_defs Let_def write_event_def)
qed

lemma write_events_times:
  assumes "list_all write_event es"
  shows "profile_time k (events_fields es p) = profile_time k p + events_time k es"
    and "drop 4 (profile_durations (events_fields es p)) = drop 4 (profile_durations p)"
  using assms
  by (induction es arbitrary: p) (simp_all add: events_fields_def write_event_times)

lemma write_events_in_range:
  assumes "list_all write_event es" "in_range p"
  shows "in_range (events_fields es p) \<longleftrightarrow> (\<forall>k. profile_time k p + events_time k es \<le> DURATION_MAX)"
proof -
  have all: "(\<forall>k. P k) \<longleftrightarrow> P MeasureTime \<and> P SplitTime \<and> P EncodeTime \<and> P SendTime" for P
    by (metis write_time.exhaust)
  have range: "in_range q \<longleftrightarrow> (\<forall>k. profile_time k q \<le> DURATION_MAX)
      \<and> list_all (\<lambda>d. d \<le> DURATION_MAX) (drop 4 (profile_durations q))" for q
    unfolding in_range_def all by (subst profile_durations_times) simp
  show ?thesis
    using assms(2) unfolding range write_events_times [OF assms(1)] by simp
qed

text \<open>C37: profiling only observes. On a thread without a profile the profiled writer
  is the writer, with the fast-path switches of the thread, which stay as they were. On a thread with a
  profile it gives the same result, the same writer and the same calls to the driver, unless the sum of
  times of one of the four clocks exceeds the largest \<^verbatim>\<open>Duration\<close> (2^64 - 1 seconds and 999,999,999
  nanoseconds, in nanoseconds): only then can it panic, and a write that succeeds has not exceeded it. After
  a successful write each clock of the profile has been advanced by exactly the times measured: once for
  the batch and for the split into ranges, once per range for encoding and sending. On a direct backend a
  profile that agrees with the statistics of the writer on the rows and batches accepted still agrees
  after the write, refused batches included.\<close>

theorem profiling_transparent:
  assumes "writer_for planned state" "\<forall>m \<in> set (planned_mappings planned). valid_mssql_type (target_type m)"
    and "valid_batch batch"
    and "\<forall>p. direct_profile th = Some p \<longrightarrow> (\<forall>d \<in> set (profile_durations p). d \<le> 18446744073709551615999999999)"
  shows "\<exists>result state' s'. write_batch drv (thread_flags th) db batch (state, s) = Some (result, state', s')
    \<and> (case profiled_write_batch drv clock db batch (state, s, th) of
        None \<Rightarrow> writer_direct_encoder state \<noteq> None
          \<and> (\<exists>p k. direct_profile th = Some p
               \<and> profile_time k p + clock_time clock k (write_ranges db state batch) > 18446744073709551615999999999)
      | Some (result', state'', s'', th') \<Rightarrow>
          result' = result \<and> state'' = state' \<and> s'' = s' \<and> thread_flags th' = thread_flags th
          \<and> (direct_profile th = None \<longrightarrow> th' = th)
          \<and> (\<forall>p. direct_profile th = Some p \<longrightarrow> (\<exists>p'. direct_profile th' = Some p'
               \<and> (writer_direct_encoder state = None \<longrightarrow> p' = p)
               \<and> (writer_direct_encoder state \<noteq> None \<and> is_ok result \<longrightarrow>
                    (\<forall>k. profile_time k p' = profile_time k p + clock_time clock k (write_ranges db state batch)
                       \<and> profile_time k p' \<le> 18446744073709551615999999999))
               \<and> (writer_direct_encoder state \<noteq> None \<and> counts_agree p state \<longrightarrow> counts_agree p' state'))))"
proof -
  let ?run = "write_batch drv (thread_flags th) db batch (state, s)"
  let ?time = "\<lambda>k. clock_time clock k (write_ranges db state batch)"
  have largest: "DURATION_MAX = 18446744073709551615999999999" by (simp add: DURATION_MAX_def)
  from write_batch_outcome [OF assms(1-3), of drv "thread_flags th" db s] obtain r state' s' where
    run: "?run = Some (r, state', s')"
    and outcome: "case r of Ok _ \<Rightarrow> state' = accepted state batch | Err _ \<Rightarrow> state' = state"
    by (fastforce split: sum.splits)
  from profiled_batch [OF assms(1-3), of drv "thread_flags th" db s clock] obtain es where
    events: "list_all write_event es"
    and rows: "writer_direct_encoder state = None \<longrightarrow> es = []"
      "writer_direct_encoder state \<noteq> None \<longrightarrow> accepted_rows es = accepts batch ?run \<and> times_within ?time es ?run"
    and "\<forall>th'. thread_flags th' = thread_flags th \<longrightarrow>
      profiled_write_batch drv clock db batch (state, s, th') = recorded_write es th' ?run" by (elim exE conjE)
  then have es: "profiled_write_batch drv clock db batch (state, s, th) = recorded_write es th ?run" by simp
  have counts: "counts_agree p' state'"
    if "record_events es p = Some p'" "writer_direct_encoder state \<noteq> None" "counts_agree p state" for p p'
    using record_events_counts [OF that(1)] that(2,3) rows run outcome
    by (cases r) (simp_all add: accepts_def counts_agree_def count_rows_def accepted_def record_accepted_batch_def
        usize_to_u64_saturating_def)
  show ?thesis
  proof (cases "direct_profile th")
    case None
    then have "profiling es th = Some th" by (simp add: profiling_def with_profile_def)
    with None es run show ?thesis by simp
  next
    case profile: (Some p)
    with assms(4) have "in_range p" by (simp add: in_range_def largest list_all_iff)
    note settled = record_events_settled [OF this, of es, unfolded settled_in_range write_events_in_range [OF events this]]
    show ?thesis
    proof (cases "record_events es p")
      case None
      then obtain k where "profile_time k p + events_time k es > DURATION_MAX"
        using settled by (auto simp: not_le split: if_splits)
      moreover have direct: "writer_direct_encoder state \<noteq> None" using None rows(1) by auto
      then have "events_time k es \<le> ?time k" using rows(2) by (simp add: times_within_def)
      ultimately have "profile_time k p + ?time k > 18446744073709551615999999999" unfolding largest by linarith
      then show ?thesis using profile None es run direct by (auto simp: profiling_def with_profile_def)
    next
      case (Some p')
      with profile es run have
        "profiled_write_batch drv clock db batch (state, s, th) = Some (r, state', s', th\<lparr>direct_profile := Some p'\<rparr>)"
        by (simp add: profiling_def with_profile_def)
      moreover from Some settled have p': "p' = events_fields es p"
        and within: "profile_time k p + events_time k es \<le> DURATION_MAX" for k
        by (auto split: if_splits)
      moreover have "events_time k es = ?time k" if "writer_direct_encoder state \<noteq> None" "is_ok r" for k
        using rows(2) that run by (simp add: times_within_def)
      moreover have "writer_direct_encoder state = None \<Longrightarrow> p' = p" using rows(1) Some by simp
      ultimately show ?thesis
        using run counts [OF Some] profile write_events_times(1) [OF events]
        by (auto simp: largest)
    qed
  qed
qed

text \<open>A thread, and the same after a profile was started.\<close>

definition idle_thread :: profile_thread where
  "idle_thread = \<lparr>direct_profile = None, thread_date_fast_path_disabled = False,
     thread_fixed_width_fast_path_disabled = True\<rparr>"

lemma example_ranges:
  "write_ranges example_timezone_db example_state example_batch = [\<lparr>range_start = 0, range_len = 2\<rparr>]"
  using example_measure
  by (simp add: write_ranges_def example_state_def row_ranges_def row_range_step_def DIRECT_RAW_MAX_PAYLOAD_BYTES_def
      checked_usize_def)

theorem profiling_transparent_witness:
  "\<exists>drv clock result state' s' th'. write_batch drv (thread_flags idle_thread) example_timezone_db example_batch
       (example_state, [] :: token_row list, [] :: bytes) = Some (result, state', s')
     \<and> profiled_write_batch drv clock example_timezone_db example_batch (example_state, ([], []), idle_thread)
         = Some (result, state', s', idle_thread)
     \<and> profiled_write_batch drv clock example_timezone_db example_batch
          (example_state, ([], []), start_direct_write_profile idle_thread) = Some (result, state', s', th')
     \<and> (\<exists>p. direct_profile th' = Some p \<and> counts_agree p state')"
proof -
  obtain src :: external_error where True by blast
  let ?clock = "\<lparr>measure_time = 1, split_time = 2, encode_time = \<lambda>_. 3, send_time = \<lambda>_. 4\<rparr>"
  let ?started = "start_direct_write_profile idle_thread"
  have th: "direct_profile idle_thread = None"
    "direct_profile ?started = Some direct_write_profile_default"
    "thread_flags ?started = thread_flags idle_thread"
    by (simp_all add: idle_thread_def start_direct_write_profile_def thread_flags_def)
  have durations: "\<forall>d \<in> set (profile_durations direct_write_profile_default). d \<le> 18446744073709551615999999999"
    by (simp add: profile_durations_def direct_write_profile_default_def)
  have short: "profile_time k direct_write_profile_default
      + clock_time ?clock k (write_ranges example_timezone_db example_state example_batch) \<le> 18446744073709551615999999999" for k
    by (cases k) (simp_all add: profile_time_def clock_time_def example_ranges direct_write_profile_default_def)
  have agree: "counts_agree direct_write_profile_default example_state"
    by (simp add: counts_agree_def example_state_def direct_write_profile_default_def write_stats_default_def)
  have direct: "writer_direct_encoder example_state \<noteq> None" by (simp add: example_state_def)
  note transparent = profiling_transparent [OF example_writer_for example_planned_valid example_batch_valid,
      of _ "recording_driver src" example_timezone_db "([], [])" ?clock]
  show ?thesis
    using transparent [of idle_thread] transparent [of ?started] th durations short agree direct
    by (intro exI [of _ "recording_driver src"] exI [of _ ?clock]) (fastforce simp: not_less [symmetric] split: option.splits)
qed

end
