(* ===== verification/BatchPhases.thy ===== *)
theory BatchPhases
  imports Writer
begin

text \<open>
  The phase a failed batch is reported in. \<^verbatim>\<open>src/write/writer.rs\<close> labels every error of
  \<^verbatim>\<open>write_batch\<close> with a \<^verbatim>\<open>WritePhase\<close>; on a direct backend it reads the phase off the error.
  The theory shows which errors can reach that labelling, from which cause, and so which phase a
  caller sees for each cause. It models no further code.
\<close>

subsection \<open>Errors of one cell\<close>

text \<open>\<^term>\<open>row_error row e\<close>: one diagnostic for a value at this row.\<close>

definition row_error :: "usize \<Rightarrow> error \<Rightarrow> bool" where
  "row_error row e \<longleftrightarrow> (\<exists>d. e = ValueConversion [d] \<and> diag_row d = Some row)"

definition value_error :: "usize \<Rightarrow> error \<Rightarrow> bool" where
  "value_error row e \<longleftrightarrow>
     (\<exists>d. e = ValueConversion [d] \<and> diag_row d = Some row \<and> diag_code d \<noteq> SchemaMismatch)"

text \<open>\<^term>\<open>reports P r\<close>: the error of \<^term>\<open>r\<close>, if it has one, is as \<^term>\<open>P\<close> says.\<close>

definition reports :: "(error \<Rightarrow> bool) \<Rightarrow> error + 'a \<Rightarrow> bool" where
  "reports P r \<longleftrightarrow> (case r of Inl e \<Rightarrow> P e | Inr _ \<Rightarrow> True)"

lemma reports_basic [simp]:
  "reports P (Inr x)" "reports P (Inl e) \<longleftrightarrow> P e" "reports P (map_ok f r) \<longleftrightarrow> reports P r"
  "reports P (ok_or e opt) \<longleftrightarrow> opt = None \<longrightarrow> P e"
  by (auto simp: reports_def map_ok_def ok_or_def split: sum.split option.split)

lemma reports_ok_or: "P e \<Longrightarrow> reports P (ok_or e opt)"
  by simp

lemma reports_and_then [intro!]:
  "reports P r \<Longrightarrow> (\<And>x. r = Inr x \<Longrightarrow> reports P (f x)) \<Longrightarrow> reports P (and_then r f)"
  by (cases r) simp_all

lemma reports_mono: "reports P r \<Longrightarrow> (\<And>e. P e \<Longrightarrow> Q e) \<Longrightarrow> reports Q r"
  by (cases r) simp_all

lemma reports_for_each:
  "(\<And>x s. x \<in> set xs \<Longrightarrow> reports P (f x s)) \<Longrightarrow> reports P (for_each f xs s)"
  by (induction xs arbitrary: s) auto

lemma reports_try_map: "(\<And>x. x \<in> set xs \<Longrightarrow> reports P (f x)) \<Longrightarrow> reports P (try_map f xs)"
  by (induction xs) auto

lemma located_reports: "located_at m row r \<Longrightarrow> reports (row_error row) r"
  by (cases r) (auto simp: located_at_def located_conversion_error_def row_error_def
      value_conversion_error_def row_mapping_diagnostic_def)

lemma value_error_conversion [simp]:
  "value_error row (conversion_error m row c) \<longleftrightarrow> c \<noteq> SchemaMismatch"
  "value_error row (direct_conversion_error col row c) \<longleftrightarrow> c \<noteq> SchemaMismatch"
  by (simp_all add: value_error_def value_conversion_error_def row_mapping_diagnostic_def mapping_diagnostic_def
      direct_conversion_error_def row_column_diagnostic_def)

abbreviation value_fails :: "usize \<Rightarrow> error + 'a \<Rightarrow> bool" where
  "value_fails row r \<equiv> reports (value_error row) r"

text \<open>The conversions the direct writer shares with the baseline.\<close>

lemma value_fails_times [simp]:
  "value_fails row (time_nanoseconds_to_100ns_ticks m row ns policy)"
  "value_fails row (nanoseconds_to_100ns_ticks m row w policy)"
  "value_fails row (mssql_time_from_i64 m row v n k)"
  "value_fails row (mssql_time_from_nanoseconds m row ns policy)"
  by (auto simp: time_nanoseconds_to_100ns_ticks_def nanoseconds_to_100ns_ticks_def
      mssql_time_from_i64_def mssql_time_from_nanoseconds_def Let_def split: nanosecond_policy.split)

lemma value_fails_datetime2_ticks [simp]:
  "value_fails row (mssql_datetime2_from_unix_epoch_100ns_ticks_at_scale m row ticks scale)"
  "value_fails row (mssql_datetime2_from_unix_epoch_100ns_ticks m row ticks)"
  by (auto simp: mssql_datetime2_from_unix_epoch_100ns_ticks_def
      mssql_datetime2_from_unix_epoch_100ns_ticks_at_scale_def
      round_100ns_ticks_to_datetime2_scale_def Let_def)

lemma value_fails_datetime2 [simp]:
  "value_fails row (mssql_datetime2_from_arrow_timestamp_second m row v)"
  "value_fails row (mssql_datetime2_from_arrow_timestamp_millisecond m row v)"
  "value_fails row (mssql_datetime2_from_arrow_timestamp_microsecond m row v)"
  "value_fails row (mssql_datetime2_from_arrow_timestamp_nanosecond m row v policy)"
  by (auto simp: mssql_datetime2_from_arrow_timestamp_second_def
      mssql_datetime2_from_arrow_timestamp_millisecond_def
      mssql_datetime2_from_arrow_timestamp_microsecond_def
      mssql_datetime2_from_arrow_timestamp_nanosecond_def mssql_datetime2_from_arrow_timestamp_ticks_def
      target_datetime2_timestamp_scale_def split: mssql_type.split)

lemma value_fails_datetime_ticks [simp]:
  "value_fails row (mssql_datetime_from_unix_epoch_100ns_ticks m row ticks rounding)"
  by (auto simp: mssql_datetime_from_unix_epoch_100ns_ticks_def
      round_100ns_ticks_to_datetime_fragments_def round_100ns_ticks_to_nearest_millisecond_def
      round_100ns_ticks_to_nearest_datetime_fragment_def Let_def split: datetime_rounding.split)

lemma value_fails_datetime [simp]:
  "value_fails row (mssql_datetime_from_arrow_timestamp_second m row v rounding)"
  "value_fails row (mssql_datetime_from_arrow_timestamp_millisecond m row v rounding)"
  "value_fails row (mssql_datetime_from_arrow_timestamp_microsecond m row v rounding)"
  "value_fails row (mssql_datetime_from_arrow_timestamp_nanosecond m row v policy rounding)"
  by (auto simp: mssql_datetime_from_arrow_timestamp_second_def
      mssql_datetime_from_arrow_timestamp_millisecond_def
      mssql_datetime_from_arrow_timestamp_microsecond_def
      mssql_datetime_from_arrow_timestamp_nanosecond_def)

lemma value_fails_timezone [simp]:
  "value_fails row (timezone_resolution_from_metadata db m row tz)"
  "value_fails row (offset_for_instant db resolution m row sec n)"
  "value_fails row (epoch_parts m row sec ns)"
proof -
  show "value_fails row (timezone_resolution_from_metadata db m row tz)"
    using parse_fixed_offset_sound [of tz m row] parse_fixed_offset_None [of m row tz]
    by (auto simp: timezone_resolution_from_metadata_def split: option.split)
  show "value_fails row (offset_for_instant db resolution m row sec n)"
    by (auto simp: offset_for_instant_def sql_server_offset_minutes_def split: timezone_resolution.split)
  show "value_fails row (epoch_parts m row sec ns)" by (auto simp: epoch_parts_def)
qed

lemma value_fails_utc [simp]:
  "value_fails row (mssql_datetimeoffset_from_utc_100ns_ticks m row utc off)"
  by (auto simp: mssql_datetimeoffset_from_utc_100ns_ticks_def validate_datetimeoffset_local_range_def
      Let_def)

lemma value_fails_datetimeoffset [simp]:
  "value_fails row (mssql_datetimeoffset_from_arrow_timestamp_second db m row v tz)"
  "value_fails row (mssql_datetimeoffset_from_arrow_timestamp_millisecond db m row v tz)"
  "value_fails row (mssql_datetimeoffset_from_arrow_timestamp_microsecond db m row v tz)"
  "value_fails row (mssql_datetimeoffset_from_arrow_timestamp_nanosecond db m row v tz policy)"
  by (auto simp: mssql_datetimeoffset_from_arrow_timestamp_second_def
      mssql_datetimeoffset_from_arrow_timestamp_millisecond_def
      mssql_datetimeoffset_from_arrow_timestamp_microsecond_def
      mssql_datetimeoffset_from_arrow_timestamp_nanosecond_def
      epoch_parts_from_milliseconds_def epoch_parts_from_microseconds_def
      epoch_parts_from_nanoseconds_def Let_def)

lemma value_fails_timezone_checks [simp]:
  "value_fails row (validate_null_timestamp_timezone_metadata db m row)"
  "value_fails row (validate_mapping_timestamp_timezone_metadata db m row)"
  "value_fails row (timestamp_timezone_for_datetimeoffset m row)"
  by (auto simp: validate_null_timestamp_timezone_metadata_def
      validate_mapping_timestamp_timezone_metadata_def validate_timestamp_timezone_metadata_def
      timestamp_timezone_for_datetimeoffset_def split: data_type.split option.split)

subsection \<open>Errors of bound columns\<close>

lemma value_fails_reads [simp]:
  "value_fails row (read_date32 col row v32)" "value_fails row (read_date64 col row v)"
  "value_fails row (read_timestamp_second m rt col row v)"
  "value_fails row (read_timestamp_millisecond m rt col row v)"
  "value_fails row (read_timestamp_microsecond m rt col row v)"
  "value_fails row (read_timestamp_nanosecond m rt col row v)"
  "value_fails row (read_time32_second m row v32)" "value_fails row (read_time32_millisecond m row v32)"
  "value_fails row (read_time64_microsecond m row v)" "value_fails row (read_time64_nanosecond m rt row v)"
  "value_fails row (read_datetimeoffset_second db m row v)"
  "value_fails row (read_datetimeoffset_millisecond db m row v)"
  "value_fails row (read_datetimeoffset_microsecond db m row v)"
  "value_fails row (read_datetimeoffset_nanosecond db m rt row v)"
  by (auto simp: reader_defs direct_date_from_arrow_date32_def direct_datetime2_from_arrow_date64_def
      timestamp_second_value_def timestamp_millisecond_value_def timestamp_microsecond_value_def
      timestamp_nanosecond_value_def datetimeoffset_values unsupported_timestamp_target_def
      mssql_time_from_arrow_time32_second_def mssql_time_from_arrow_time32_millisecond_def
      mssql_time_from_arrow_time64_microsecond_def mssql_time_from_arrow_time64_nanosecond_def Let_def
      split: mssql_type.split)

text \<open>A cell fails on its value, or because its value has no wire form.\<close>

definition cell_error :: "error \<Rightarrow> bool" where
  "cell_error e \<longleftrightarrow> (\<exists>row. value_error row e) \<or> e = invalid_payload"

lemma cell_error_basic [simp]:
  "cell_error invalid_payload" "cell_error (direct_conversion_error col row c) \<longleftrightarrow> c \<noteq> SchemaMismatch"
  by (auto simp: cell_error_def value_error_def direct_conversion_error_def value_conversion_error_def
      row_column_diagnostic_def invalid_payload_def)

lemma value_fails_cell: "value_fails row r \<Longrightarrow> reports cell_error r"
  by (cases r) (auto simp: cell_error_def)

lemma reports_column_cells:
  "(\<And>row v. reports P (cell_at row v)) \<Longrightarrow> reports P (column_cells cell_at array)"
  by (auto simp: column_cells_def intro: reports_try_map)

lemma cell_error_scalar_cells [simp]:
  "(\<And>row v. reports cell_error (value_bytes row v)) \<Longrightarrow> reports cell_error (primitive_cell_at col value_bytes row x)"
  "(\<And>row v. reports cell_error (read row v)) \<Longrightarrow> reports cell_error (decimal_cell_at col c read row x)"
  "reports cell_error (uint64_decimal20_cell_at col row u)"
  "reports cell_error (nvarchar_cell_at col len row s)" "reports cell_error (varbinary_cell_at col len row b)"
  "reports cell_error (fixed_binary_cell_at col n row b)"
  by (auto simp: primitive_cell_at_def decimal_cell_at_def uint64_decimal20_cell_at_def nvarchar_cell_at_def
      varbinary_cell_at_def fixed_binary_cell_at_def null_in_non_nullable_def variable_wire_def
      value_too_long_error_def normalized_decimal_value_def direct_normalize_negative_scale_def
      split: option.split mssql_type_length.split)

lemma cell_error_temporal_cells [simp]:
  assumes "\<And>row v. value_fails row (read row v)"
  shows "reports cell_error (temporal_cell_at db m col read row x)"
  using assms
  by (auto simp: temporal_cell_at_def split: option.split intro: value_fails_cell [where row = row])

lemma bound_cells_errors: "reports cell_error (bound_cells db rt c)"
  by (cases c) (auto simp: bound_cells_def plain_value_bytes float32_bytes_def float64_bytes_def
      uint64_checked_bigint_bytes_def read_decimal_defs decimal256_to_i128_def
      intro!: reports_column_cells split: option.split)

subsection \<open>Errors of a batch\<close>

text \<open>The plan fits a batch: one field per mapping, of its position, name and type, and columns
  of these types.\<close>

definition batch_fits_plan :: "record_batch \<Rightarrow> schema_mapping list \<Rightarrow> bool" where
  "batch_fits_plan batch mappings \<longleftrightarrow>
     length (batch_fields batch) = length mappings
     \<and> (\<forall>i < length mappings. field_matches i (batch_fields batch ! i) (mappings ! i))
     \<and> (\<forall>(array, m) \<in> set (zip (batch_columns batch) mappings).
          arrow_type_compatible_with_mapping (array_data_type array) m)"

lemma batch_shape:
  "validate_record_batch_encoding_shape batch mappings = Ok () \<longleftrightarrow> batch_fits_plan batch mappings"
  by (simp add: encoding_validation batch_fits_plan_def)

lemma shape_mismatch:
  assumes "\<not> batch_fits_plan batch mappings"
  obtains d where "validate_record_batch_encoding_shape batch mappings = Err (ValueConversion [d])"
    "diag_code d = SchemaMismatch"
proof (cases "validate_record_batch_encoding_shape batch mappings")
  case (Inl e)
  have "schema_mismatch (validate_record_batch_encoding_shape batch mappings)"
    by (auto simp: validate_record_batch_encoding_shape_def case_prod_unfold
        validate_schema_shape_for_record_batch_encoding_def
        intro!: schema_mismatch_and_then schema_mismatch_for_each schema_mismatch_checks)
  with Inl that show thesis by (auto simp: schema_mismatch_def)
next
  case (Inr u)
  with assms batch_shape show thesis by simp
qed

lemma measure_errors:
  assumes encoder: "encoder_new_with_context mappings rt = Ok encoder"
    and valid: "\<forall>m \<in> set mappings. valid_mssql_type (target_type m)" "valid_batch batch"
    and fits: "batch_fits_plan batch mappings"
  shows "reports cell_error (measure_batch db encoder batch)"
proof -
  note enc = encoder_new_Ok [OF encoder]
  have shape: "validate_record_batch_encoding_shape batch mappings = Ok ()" using fits by (simp add: batch_shape)
  obtain cols where bind: "bind_direct_columns encoder batch = Ok cols" and wb: "\<forall>c \<in> set cols. well_bound c"
    by (rule bind_validated [OF encoder valid shape, where db = db and rt' = rt]) blast
  have "reports cell_error (measure_bound_cell_lengths db
      \<lparr>bound_columns = cols, bound_context = rt, bound_row_count = batch_num_rows batch\<rparr>)"
    by (simp add: measure_bound_cell_lengths_def Let_def bound.measure_from [OF wb] reports_try_map bound_cells_errors)
  then have "reports cell_error (measure_cell_lengths db encoder batch)"
    using bind by (simp add: measure_cell_lengths_def bound_batch_new_def enc(2))
  moreover have "reports cell_error (measured_new r c ls)" for r c ls
    by (auto simp: measured_new_eq Let_def)
  ultimately show ?thesis using shape by (auto simp: measure_batch_def enc(1) Let_def)
qed

lemma located_extract_value [simp]:
  "located_at m row (extract_value is_class as_class cell array m row)"
  by (auto simp: extract_value_def downcast_array_def)

lemma located_extract_bytes [simp]:
  "located_at m row (extract_binary_cell array m row)" "located_at m row (extract_utf8_cell array m row)"
  by (simp_all add: extract_binary_cell_def extract_utf8_cell_def split: data_type.split)

lemma located_extract: "located_at m row (extract_arrow_cell array m row)"
  by (cases "source_type m") (simp_all add: extract_arrow_cell_def Let_def split: time_unit.split)

lemma row_errors:
  assumes "view_new_with_context batch mappings rt = Ok view" "row < batch_num_rows batch"
  shows "reports (row_error row) (mssql_row db view row)"
proof -
  have "located_at m row (extract_arrow_cell array m row)" for array m
    by (rule located_extract)
  moreover have "check_row_index view row = Ok ()"
    using assms by (simp add: view_new_row_count check_row_index_def)
  ultimately have "located_at m row (view_mssql_cell db view m row)" for m
    using located_at_cell [of "\<lparr>rm_mapping = m, rm_context = view_context view\<rparr>" row db]
    by (auto simp: view_mssql_cell_def view_arrow_cell_def)
  then have "reports (row_error row) (view_mssql_cell db view m row)" for m
    by (rule located_reports)
  with \<open>check_row_index view row = Ok ()\<close> show ?thesis
    by (auto simp: mssql_row_def intro: reports_for_each)
qed

subsection \<open>The phase of a failure\<close>

lemma unfit_does_not_convert:
  assumes "writer_for planned state" "\<not> batch_fits_plan batch (planned_mappings planned)"
  shows "\<not> batch_converts db state batch"
proof -
  have shape: "\<not> is_ok (validate_record_batch_encoding_shape batch (writer_mappings state))"
    using assms batch_shape [of batch "writer_mappings state"] by (auto simp: writer_forD(1) is_ok_iff)
  have "encoder_mappings encoder = writer_mappings state" if "writer_direct_encoder state = Some encoder" for encoder
    using encoder_new_Ok(1) [OF writer_forD(4) [OF assms(1) that]] .
  with shape show ?thesis
    by (auto simp: batch_converts_def batch_token_rows_def view_new_with_context_def measure_batch_def is_ok_and_then
        is_ok_iff and_then_Inr split: option.split)
qed

lemma refused_token_rows:
  assumes "writer_for planned state" "writer_direct_encoder state = None" "\<not> batch_converts db state batch"
  shows "\<exists>e. write_batch drv flags db batch (state, s) = Some (Err e, state, s)
    \<and> (if batch_fits_plan batch (planned_mappings planned)
       then \<exists>row inner. e = WritePhaseContext PhaseValueConversion inner \<and> row_error row inner
       else \<exists>d. e = WritePhaseContext BatchSchemaValidation (ValueConversion [d]) \<and> diag_code d = SchemaMismatch)"
proof -
  have written: "write_batch drv flags db batch (state, s) = write_batch_to_sink drv db batch (state, s)"
    and mappings: "writer_mappings state = planned_mappings planned"
    by (rule writer_forD(2) [OF assms(1,2)], rule writer_forD(1) [OF assms(1)])
  show ?thesis
  proof (cases "batch_fits_plan batch (planned_mappings planned)")
    case False
    then obtain d where "validate_record_batch_encoding_shape batch (planned_mappings planned) = Err (ValueConversion [d])"
      "diag_code d = SchemaMismatch" by (rule shape_mismatch)
    with False show ?thesis
      by (simp add: written write_batch_to_sink_def record_batch_view_def view_new_with_context_def mappings
          with_write_phase_def split: schema_check.split)
  next
    case True
    then have "validate_record_batch_encoding_shape batch (planned_mappings planned) = Ok ()"
      by (simp add: batch_shape)
    then obtain view where view: "view_new_with_context batch (writer_mappings state) (writer_context state) = Ok view"
      by (simp add: view_new_with_context_def mappings)
    from assms(2,3) have "\<not> is_ok (validate_batch_rows db view)"
      using token_rows_convert [OF view, of db] by (auto simp: batch_converts_def is_ok_iff)
    then obtain inner where inner: "validate_batch_rows db view = Err inner"
      by (cases "validate_batch_rows db view") simp_all
    have "reports (\<lambda>e. \<exists>row. row_error row e) (validate_batch_rows db view)"
      unfolding validate_batch_rows_def view_new_row_count [OF view]
      by (intro reports_for_each reports_and_then)
        (auto intro: reports_mono [OF row_errors [OF view, of _ db]])
    with inner True show ?thesis
      using view
      by (auto simp: written write_batch_to_sink_def record_batch_view_def with_write_phase_def
          split: schema_check.split)
  qed
qed

lemma direct_phases:
  "value_error row e \<Longrightarrow> write_phase_for_batch_error e = PhaseValueConversion"
  "write_phase_for_batch_error invalid_payload = PhaseDirectEncoding"
  "diag_code d = SchemaMismatch \<Longrightarrow> write_phase_for_batch_error (ValueConversion [d]) = BatchSchemaValidation"
  by (auto simp: value_error_def invalid_payload_def)

lemma refused_raw_rows:
  assumes planned: "writer_for planned state" "\<forall>m \<in> set (planned_mappings planned). valid_mssql_type (target_type m)"
    and batch: "valid_batch batch" and direct: "writer_direct_encoder state = Some encoder"
    and refused: "\<not> batch_converts db state batch"
  shows "\<exists>e. write_batch drv flags db batch (state, s) = Some (Err e, state, s)
    \<and> (if batch_fits_plan batch (planned_mappings planned)
       then (\<exists>row inner. e = WritePhaseContext PhaseValueConversion inner \<and> row_error row inner)
         \<or> e = WritePhaseContext PhaseDirectEncoding invalid_payload
       else \<exists>d. e = WritePhaseContext BatchSchemaValidation (ValueConversion [d]) \<and> diag_code d = SchemaMismatch)"
proof -
  have mappings: "writer_mappings state = planned_mappings planned" by (rule writer_forD(1) [OF planned(1)])
  note encoder = writer_forD(4) [OF planned(1) direct]
  from refused direct obtain inner where inner: "measure_batch db encoder batch = Err inner"
    by (cases "measure_batch db encoder batch") (simp_all add: batch_converts_def)
  then have written: "write_batch drv flags db batch (state, s)
      = Some (Err (WritePhaseContext (write_phase_for_batch_error inner) inner), state, s)"
    by (simp add: writer_forD(3) [OF planned(1) direct] write_direct_batch_to_sink_def direct with_write_phase_def)
  show ?thesis
  proof (cases "batch_fits_plan batch (planned_mappings planned)")
    case False
    then obtain d where "validate_record_batch_encoding_shape batch (planned_mappings planned) = Err (ValueConversion [d])"
      and d: "diag_code d = SchemaMismatch" by (rule shape_mismatch)
    with inner have "inner = ValueConversion [d]"
      by (simp add: measure_batch_def encoder_new_Ok(1) [OF encoder] mappings)
    with False written d direct_phases(3) [OF d] show ?thesis by simp
  next
    case True
    from measure_errors [OF encoder _ batch, of db] planned(2) True inner
    have "(\<exists>row. value_error row inner) \<or> inner = invalid_payload" by (simp add: mappings cell_error_def)
    with True written direct_phases(1,2) show ?thesis
      by (auto simp: value_error_def row_error_def)
  qed
qed

text \<open>C5: a batch is written whole or refused before anything is sent, and the error
  says where it failed. On a writer of a planned schema, writing a batch never panics. If it succeeds,
  the batch converts, and the state has it counted. If it fails, the statistics and the writer are as
  before. A batch the plan does not fit has sent nothing and fails in the phase of schema validation,
  with a schema mismatch. A batch of the planned schema that does not convert has sent nothing either,
  whichever its bad row: it fails in the phase of value conversion, with one diagnostic that names the
  row, or, on a direct backend, for a payload without a wire form in the phase of direct encoding. A
  batch that converts fails only when the driver refuses to send, in the packet-write phase.\<close>

theorem write_batch_atomic:
  assumes "writer_for planned state" "\<forall>m \<in> set (planned_mappings planned). valid_mssql_type (target_type m)"
    and "valid_batch batch"
  shows "\<exists>result state' s'. write_batch drv flags db batch (state, s) = Some (result, state', s')
    \<and> (case result of
         Ok stats \<Rightarrow> batch_converts db state batch \<and> stats = writer_stats state'
           \<and> state' = record_accepted_batch (usize_to_u64_saturating (batch_num_rows batch)) state
       | Err e \<Rightarrow> state' = state
           \<and> (if \<not> batch_fits_plan batch (planned_mappings planned)
              then s' = s \<and> (\<exists>d. e = WritePhaseContext BatchSchemaValidation (ValueConversion [d])
                \<and> diag_code d = SchemaMismatch)
              else if \<not> batch_converts db state batch
              then s' = s \<and> ((\<exists>d. e = WritePhaseContext PhaseValueConversion (ValueConversion [d]) \<and> diag_row d \<noteq> None)
                \<or> writer_direct_encoder state \<noteq> None \<and> (\<exists>d. e = WritePhaseContext PhaseDirectEncoding (DirectEncoding [d])
                    \<and> diag_code d = DirectEncodingInvalidPayload))
              else (\<exists>src. e = WritePhaseContext PacketWrite (Tiberius src))))"
proof (cases "batch_converts db state batch")
  case True
  then have fits: "batch_fits_plan batch (planned_mappings planned)"
    using unfit_does_not_convert [OF assms(1)] by blast
  from write_batch_outcome [OF assms, of drv flags db s] obtain r state' s' where
    "write_batch drv flags db batch (state, s) = Some (r, state', s')"
    and "case r of Ok stats \<Rightarrow> state' = accepted state batch \<and> stats = writer_stats state'
       | Err e \<Rightarrow> state' = state \<and> driver_error drv e"
    using True by (fastforce split: sum.splits)
  with True fits show ?thesis
    by (cases r) (auto simp: accepted_def driver_error_def driver_refused_def)
next
  case False
  show ?thesis
  proof (cases "writer_direct_encoder state")
    case None
    from refused_token_rows [OF assms(1) None False, of drv flags s] False show ?thesis
      by (auto simp: row_error_def split: if_splits)
  next
    case (Some encoder)
    from refused_raw_rows [OF assms Some False, of drv flags s] False Some show ?thesis
      by (auto simp: row_error_def invalid_payload_def split: if_splits)
  qed
qed

text \<open>A batch without the planned column is refused.\<close>

definition bare_batch :: record_batch where
  "bare_batch = \<lparr>batch_fields = [], batch_columns = [], batch_num_rows = 3\<rparr>"

lemma bare_batch_unfit: "\<not> batch_fits_plan bare_batch (planned_mappings example_planned)"
  by (simp add: batch_fits_plan_def bare_batch_def example_planned_def)

lemma bare_batch_valid: "valid_batch bare_batch"
  by (simp add: bare_batch_def valid_batch_def)

theorem write_batch_atomic_witness:
  "\<exists>drv d.
     write_batch drv \<lparr>fixed_width_fast_path_disabled = False, date_fast_path_disabled = False\<rparr> example_timezone_db
       bare_batch (example_state, [] :: token_row list, [1, 2 :: u8])
       = Some (Err (WritePhaseContext BatchSchemaValidation (ValueConversion [d])), example_state, [], [1, 2])"
proof -
  obtain src :: external_error where True by blast
  let ?flags = "\<lparr>fixed_width_fast_path_disabled = False, date_fast_path_disabled = False\<rparr>"
  let ?s = "([], [1, 2]) :: token_row list \<times> bytes"
  from write_batch_atomic [OF example_writer_for example_planned_valid bare_batch_valid, of "recording_driver src"
      ?flags example_timezone_db ?s] bare_batch_unfit
    unfit_does_not_convert [OF example_writer_for bare_batch_unfit, of example_timezone_db]
  obtain d where "write_batch (recording_driver src) ?flags example_timezone_db bare_batch (example_state, ?s)
      = Some (Err (WritePhaseContext BatchSchemaValidation (ValueConversion [d])), example_state, ?s)"
    by (fastforce split: sum.splits)
  then show ?thesis by blast
qed

end
