(* ===== verification/BenchData.thy ===== *)
theory BenchData
  imports Binding
begin

text \<open>
  The generated data of the writer benchmarks (\<^verbatim>\<open>xtask/src/writer_bench.rs\<close>): the schemas and columns of the
  scenarios, their plan options, and the reader that cuts the data of a scenario into batches.

  A column is a function of the row number. Integers that grow with the row number are
  words and wrap, as they do in a release build.
  The quotients of floats are computed from their numerators and denominators, rounded to the nearest
  float and ties to even.
\<close>

subsection \<open>Errors\<close>

text \<open>An argument of the operating system need not be text. The errors of other crates are opaque, and so
  are the reasons of validation, which are only printed.\<close>

datatype os_string = OsText rstr | OsBytes bytes

datatype bench_error =
    UnknownCommand rstr
  | UnknownOption rstr
  | MissingOptionValue rstr
  | InvalidUtf8Argument os_string
  | InvalidPositiveInteger rstr rstr
  | InvalidScenario rstr
  | InvalidOutput rstr
  | ArrowError
  | BenchArrowTiberius error
  | BenchTiberius external_error
  | SqlServerFailure
  | OdbcRunnerFailure
  | IoFailure
  | ValidationFailure
  | RowCountMismatch u64 u64

subsection \<open>Arithmetic and text of the generators\<close>

definition wrapping :: "nat \<Rightarrow> usize" where
  "wrapping n = n mod 2 ^ 64"

text \<open>\<^verbatim>\<open>{row:012}\<close>: decimal digits with leading zeros.\<close>

definition padded :: "nat \<Rightarrow> nat \<Rightarrow> rstr" where
  "padded width n = replicate (width - length (dec n)) 48 @ dec n"

fun floor_log2 :: "nat \<Rightarrow> nat" where
  "floor_log2 n = (if n < 2 then 0 else Suc (floor_log2 (n div 2)))"

declare floor_log2.simps [simp del]

definition round_half_even :: "nat \<Rightarrow> nat \<Rightarrow> nat" where
  "round_half_even k d =
     (let q = k div d; r = k mod d in
      if 2 * r < d then q else if d < 2 * r then q + 1 else if even q then q else q + 1)"

text \<open>The bits of the float nearest to \<^verbatim>\<open>k / d\<close>, for a mantissa of \<^verbatim>\<open>m + 1\<close> bits, in the normal range.\<close>

definition float_ratio :: "nat \<Rightarrow> nat \<Rightarrow> nat \<Rightarrow> nat \<Rightarrow> nat" where
  "float_ratio m bias k d =
     (if k = 0 then 0
      else if d \<le> k
      then let e = floor_log2 (k div d) in (bias + e - 1) * 2 ^ m + round_half_even (k * 2 ^ m) (d * 2 ^ e)
      else let e = Suc (floor_log2 ((d - 1) div k)) in (bias - e - 1) * 2 ^ m + round_half_even (k * 2 ^ (m + e)) d)"

definition f64_ratio :: "nat \<Rightarrow> nat \<Rightarrow> f64" where
  "f64_ratio k d = of_nat (float_ratio 52 1023 k d)"

definition f32_ratio :: "int \<Rightarrow> nat \<Rightarrow> f32" where
  "f32_ratio k d = (if k < 0 then of_nat (2 ^ 31 + float_ratio 23 127 (nat (- k)) d) else of_nat (float_ratio 23 127 (nat k) d))"

definition row_values :: "(usize \<Rightarrow> 'a) \<Rightarrow> usize \<Rightarrow> usize \<Rightarrow> 'a list" where
  "row_values f offset len = map f [offset..<offset + len]"

definition unless :: "bool \<Rightarrow> 'a \<Rightarrow> 'a option" where
  "unless b x = (if b then None else Some x)"

definition pick :: "rstr list \<Rightarrow> nat \<Rightarrow> rstr" where
  "pick vs n = vs ! (n mod length vs)"

definition deterministic_i32 :: "usize \<Rightarrow> i32" where
  "deterministic_i32 row =
     (let mixed = wrapping (wrapping (row * 1103515245) + 12345) in of_nat (mixed mod 1000000))"

definition deterministic_score :: "usize \<Rightarrow> f64" where
  "deterministic_score row =
     (let bucket = wrapping (wrapping (row * 37) + 17) mod 100000 in f64_ratio bucket 100)"

definition text_alphabet :: rstr where
  "text_alphabet = lit ''abcdefghijklmnopqrstuvwxyz0123456789 ''"

definition unicode_alphabet :: rstr where
  "unicode_alphabet = [0x6570, 0x636e, 0x5199, 0x5165, 0x6d4b, 0x8bd5, 0x00e9, 0x00f1, 0x03bb, 0x03a9]
     @ lit ''0123 ''"

definition text_at :: "rstr \<Rightarrow> usize \<Rightarrow> usize \<Rightarrow> rstr" where
  "text_at alphabet row len =
     map (\<lambda>index. alphabet ! (wrapping (wrapping (row * 31) + wrapping (index * 7)) mod length alphabet)) [0..<len]"

definition deterministic_text :: "usize \<Rightarrow> usize \<Rightarrow> rstr" where
  "deterministic_text = text_at text_alphabet"

definition deterministic_unicode_text :: "usize \<Rightarrow> usize \<Rightarrow> rstr" where
  "deterministic_unicode_text = text_at unicode_alphabet"

definition deterministic_payload_with_len :: "usize \<Rightarrow> usize \<Rightarrow> bytes" where
  "deterministic_payload_with_len row len =
     map (\<lambda>index. of_nat (wrapping (wrapping (row * 131) + wrapping (index * 29)) mod 251)) [0..<len]"

definition deterministic_description :: "usize \<Rightarrow> rstr" where
  "deterministic_description row =
     (let words = [lit ''batch'', lit ''transfer'', lit ''ledger'', lit ''route'', lit ''validated'', lit ''checkpoint''];
          repeats = 1 + row mod 7 in
      lit ''event-'' @ padded 12 row @ concat (map (\<lambda>index. [45] @ pick words (row + index)) [0..<repeats]))"

definition deterministic_payload :: "usize \<Rightarrow> bytes" where
  "deterministic_payload row =
     (let len = 8 + row mod 57 in
      map (\<lambda>index. of_nat (wrapping (wrapping (row * 31) + wrapping (index * 17)) mod 251)) [0..<len])"

definition fixed_size_payload :: "usize \<Rightarrow> usize \<Rightarrow> bytes" where
  "fixed_size_payload row len =
     map (\<lambda>index. of_nat (wrapping (wrapping (row * 37) + wrapping (index * 19)) mod 251)) [0..<len]"

subsection \<open>Arrays made by arrow-rs\<close>

text \<open>What \<^verbatim>\<open>with_precision_and_scale\<close>, \<^verbatim>\<open>try_from_sparse_iter_with_size\<close> and \<^verbatim>\<open>RecordBatch::try_new\<close> document:
  the errors are a shape beyond 38 digits, a value of another length, and
  columns that do not fit their schema.\<close>

definition decimal128_array :: "i128 option list \<Rightarrow> u8 \<Rightarrow> i8 \<Rightarrow> bench_error + arrow_array" where
  "decimal128_array values precision scale =
     (if 1 \<le> uint precision \<and> uint precision \<le> 38 \<and> sint scale \<le> uint precision
      then Ok (Decimal128Array precision scale values) else Err ArrowError)"

definition fixed_size_binary_array :: "bytes option list \<Rightarrow> i32 \<Rightarrow> bench_error + arrow_array" where
  "fixed_size_binary_array values width =
     (if list_all (\<lambda>v. case v of None \<Rightarrow> True | Some bs \<Rightarrow> int (length bs) = sint width) values
      then Ok (FixedSizeBinaryArray width values) else Err ArrowError)"

text \<open>The row count is that of the columns; a schema without columns needs it given.\<close>

definition record_batch_try_new :: "arrow_field list \<Rightarrow> arrow_array list \<Rightarrow> bench_error + record_batch" where
  "record_batch_try_new schema columns =
     (case columns of
        [] \<Rightarrow> Err ArrowError
      | column # _ \<Rightarrow>
          (let batch = \<lparr>batch_fields = schema, batch_columns = columns, batch_num_rows = array_len column\<rparr> in
           if valid_batch batch
             \<and> list_all2 (\<lambda>field array. field_nullable field \<or> True \<notin> set (array_nulls array)) schema columns
           then Ok batch else Err ArrowError))"

subsection \<open>Schemas\<close>

definition field :: "rstr \<Rightarrow> data_type \<Rightarrow> bool \<Rightarrow> arrow_field" where
  "field name ty nullable = \<lparr>field_name = name, field_data_type = ty, field_nullable = nullable\<rparr>"

definition narrow_numeric_schema :: "arrow_field list" where
  "narrow_numeric_schema =
     [field (lit ''id32'') DtInt32 False, field (lit ''id64'') DtInt64 False, field (lit ''score'') DtFloat64 False]"

definition extended_primitive_schema :: "arrow_field list" where
  "extended_primitive_schema =
     [field (lit ''u8_value'') DtUInt8 False, field (lit ''maybe_u8'') DtUInt8 True,
      field (lit ''i8_value'') DtInt8 False, field (lit ''maybe_i8'') DtInt8 True,
      field (lit ''i16_value'') DtInt16 False, field (lit ''maybe_i16'') DtInt16 True,
      field (lit ''u16_value'') DtUInt16 False, field (lit ''maybe_u16'') DtUInt16 True,
      field (lit ''u32_value'') DtUInt32 False, field (lit ''maybe_u32'') DtUInt32 True,
      field (lit ''f32_value'') DtFloat32 False, field (lit ''maybe_f32'') DtFloat32 True]"

definition uint64_policy_schema :: "arrow_field list" where
  "uint64_policy_schema =
     [field (lit ''row_id'') DtInt32 False, field (lit ''u64_small'') DtUInt64 False,
      field (lit ''u64_mid'') DtUInt64 False, field (lit ''u64_full'') DtUInt64 False,
      field (lit ''maybe_u64_full'') DtUInt64 True]"

definition date_fast_path_schema :: "arrow_field list" where
  "date_fast_path_schema = field (lit ''row_id'') DtInt32 False # concat (map (\<lambda>group.
     [field (lit ''trade_date_'' @ dec group) DtDate32 False,
      field (lit ''maybe_trade_date_'' @ dec group) DtDate32 True,
      field (lit ''posted_at_'' @ dec group) DtDate64 False,
      field (lit ''maybe_posted_at_'' @ dec group) DtDate64 True]) [0..<8])"

definition mixed_nullable_schema :: "arrow_field list" where
  "mixed_nullable_schema =
     [field (lit ''id32'') DtInt32 False, field (lit ''maybe_id64'') DtInt64 True,
      field (lit ''maybe_score'') DtFloat64 True, field (lit ''category'') DtUtf8 True]"

definition wide_mixed_schema :: "arrow_field list" where
  "wide_mixed_schema =
     [field (lit ''id'') DtInt64 False, field (lit ''account_id'') DtInt32 False,
      field (lit ''event_time_ms'') (DtTimestamp Millisecond None) False, field (lit ''amount'') DtFloat64 True,
      field (lit ''status'') DtUtf8 True, field (lit ''region'') DtUtf8 True,
      field (lit ''description'') DtUtf8 True, field (lit ''payload'') DtBinary True]"

definition fixed_size_binary_schema :: "arrow_field list" where
  "fixed_size_binary_schema =
     [field (lit ''row_id'') DtInt64 False, field (lit ''hash16'') (DtFixedSizeBinary 16) False,
      field (lit ''nullable_code4'') (DtFixedSizeBinary 4) True, field (lit ''payload64'') (DtFixedSizeBinary 64) False]"

definition decimal_temporal_schema :: "arrow_field list" where
  "decimal_temporal_schema =
     [field (lit ''transaction_id'') DtInt64 False, field (lit ''account_id'') DtInt32 False,
      field (lit ''amount'') (DtDecimal128 18 4) False, field (lit ''fee'') (DtDecimal128 12 4) True,
      field (lit ''trade_date'') DtDate32 False, field (lit ''posted_at_ms'') (DtTimestamp Millisecond None) False,
      field (lit ''approved'') DtBoolean True]"

definition fixed_width_128_schema :: "arrow_field list" where
  "fixed_width_128_schema = concat (map (\<lambda>group.
     [field (lit ''i32_value_'' @ padded 2 group) DtInt32 False, field (lit ''maybe_i32_'' @ padded 2 group) DtInt32 True,
      field (lit ''i64_value_'' @ padded 2 group) DtInt64 False, field (lit ''maybe_i64_'' @ padded 2 group) DtInt64 True,
      field (lit ''f64_value_'' @ padded 2 group) DtFloat64 False, field (lit ''maybe_f64_'' @ padded 2 group) DtFloat64 True,
      field (lit ''flag_'' @ padded 2 group) DtBoolean False, field (lit ''maybe_flag_'' @ padded 2 group) DtBoolean True])
     [0..<16])"

definition decimal_temporal_128_fields :: "usize \<Rightarrow> arrow_field list" where
  "decimal_temporal_128_fields grp =
     [field (lit ''amount_'' @ padded 2 grp) (DtDecimal128 18 4) False,
      field (lit ''maybe_fee_'' @ padded 2 grp) (DtDecimal128 12 4) True,
      field (lit ''trade_date_'' @ padded 2 grp) DtDate32 False,
      field (lit ''maybe_trade_date_'' @ padded 2 grp) DtDate32 True,
      field (lit ''posted_at_ms_'' @ padded 2 grp) (DtTimestamp Millisecond None) False,
      field (lit ''settlement_time_ms_'' @ padded 2 grp) (DtTime32 Millisecond) False,
      field (lit ''capture_time_us_'' @ padded 2 grp) (DtTime64 Microsecond) False,
      field (lit ''maybe_approved_'' @ padded 2 grp) DtBoolean True]"

definition decimal_temporal_128_schema :: "arrow_field list" where
  "decimal_temporal_128_schema = concat (map decimal_temporal_128_fields [0..<16])"

definition string_heavy_schema :: "arrow_field list" where
  "string_heavy_schema =
     [field (lit ''id'') DtInt64 False, field (lit ''tenant'') DtUtf8 False, field (lit ''document_type'') DtUtf8 True,
      field (lit ''title'') DtUtf8 True, field (lit ''body'') DtUtf8 True, field (lit ''metadata'') DtUtf8 True,
      field (lit ''payload'') DtBinary True]"

definition wide_sparse_schema :: "arrow_field list" where
  "wide_sparse_schema =
     map (\<lambda>index. field (lit ''metric_i32_'' @ padded 2 index) DtInt32 (index \<noteq> 0)) [0..<8]
     @ map (\<lambda>index. field (lit ''metric_f64_'' @ padded 2 index) DtFloat64 True) [0..<8]
     @ map (\<lambda>index. field (lit ''tag_'' @ padded 2 index) DtUtf8 True) [0..<8]
     @ map (\<lambda>index. field (lit ''flag_'' @ padded 2 index) DtBoolean True) [0..<8]"

definition tpch_lineitem_like_schema :: "arrow_field list" where
  "tpch_lineitem_like_schema =
     [field (lit ''l_orderkey'') DtInt64 False, field (lit ''l_partkey'') DtInt64 False,
      field (lit ''l_suppkey'') DtInt64 False, field (lit ''l_linenumber'') DtInt32 False,
      field (lit ''l_quantity'') (DtDecimal128 15 2) False, field (lit ''l_extendedprice'') (DtDecimal128 18 2) False,
      field (lit ''l_discount'') (DtDecimal128 10 4) False, field (lit ''l_tax'') (DtDecimal128 10 4) False,
      field (lit ''l_returnflag'') DtUtf8 False, field (lit ''l_linestatus'') DtUtf8 False,
      field (lit ''l_shipdate'') DtDate32 False, field (lit ''l_commitdate'') DtDate32 False,
      field (lit ''l_receiptdate'') DtDate32 False, field (lit ''l_shipinstruct'') DtUtf8 False,
      field (lit ''l_shipmode'') DtUtf8 False, field (lit ''l_comment'') DtUtf8 True]"

subsection \<open>Columns\<close>

definition narrow_numeric_columns :: "usize \<Rightarrow> usize \<Rightarrow> bench_error + arrow_array list" where
  "narrow_numeric_columns offset len = Ok
     [Int32Array (row_values (\<lambda>row. Some (deterministic_i32 row)) offset len),
      Int64Array (row_values (\<lambda>row. Some (scast (deterministic_i32 row) * 1000)) offset len),
      Float64Array (row_values (\<lambda>row. Some (deterministic_score row)) offset len)]"

definition extended_primitive_columns :: "usize \<Rightarrow> usize \<Rightarrow> bench_error + arrow_array list" where
  "extended_primitive_columns offset len = Ok
     [UInt8Array (row_values (\<lambda>row. Some (of_nat (row mod 256))) offset len),
      UInt8Array (row_values (\<lambda>row. unless (row mod 7 = 0) (of_nat (row mod 256))) offset len),
      Int8Array (row_values (\<lambda>row. Some (word_of_int (int (row mod 256) - 128))) offset len),
      Int8Array (row_values (\<lambda>row. unless (row mod 11 = 0) (word_of_int (int (row mod 256) - 128))) offset len),
      Int16Array (row_values (\<lambda>row. Some (word_of_int (int (row mod 65536) - 32768))) offset len),
      Int16Array (row_values (\<lambda>row. unless (row mod 13 = 0) (word_of_int (int (row mod 65536) - 32768))) offset len),
      UInt16Array (row_values (\<lambda>row. Some (of_nat (row mod 65536))) offset len),
      UInt16Array (row_values (\<lambda>row. unless (row mod 17 = 0) (of_nat (row mod 65536))) offset len),
      UInt32Array (row_values (\<lambda>row. Some (of_nat (wrapping (row * 1103515245)))) offset len),
      UInt32Array (row_values (\<lambda>row. unless (row mod 19 = 0) (of_nat (wrapping (row * 2654435761)))) offset len),
      Float32Array (row_values (\<lambda>row. Some (f32_ratio (int (row mod 10000) - 5000) 8)) offset len),
      Float32Array (row_values (\<lambda>row. unless (row mod 23 = 0) (f32_ratio (int (row mod 10000) - 5000) 16)) offset len)]"

definition uint64_policy_columns :: "usize \<Rightarrow> usize \<Rightarrow> bench_error + arrow_array list" where
  "uint64_policy_columns offset len = Ok
     [Int32Array (row_values (\<lambda>row. Some (deterministic_i32 row)) offset len),
      UInt64Array (row_values (\<lambda>row. Some (of_nat (row mod 1000000000))) offset len),
      UInt64Array (row_values (\<lambda>row. Some (of_nat (2 ^ 63 - 1 - row mod 1000000))) offset len),
      UInt64Array (row_values (\<lambda>row. Some (of_nat (2 ^ 64 - 1 - row mod 1000000))) offset len),
      UInt64Array (row_values (\<lambda>row. unless (row mod 13 = 0) (of_nat (2 ^ 64 - 1 - row mod 1000000))) offset len)]"

definition date_fast_path_columns :: "usize \<Rightarrow> usize \<Rightarrow> bench_error + arrow_array list" where
  "date_fast_path_columns offset len = Ok
     (Int32Array (row_values (\<lambda>row. Some (deterministic_i32 row)) offset len)
      # concat (map (\<lambda>group.
          [Date32Array (row_values (\<lambda>row. Some (of_nat (19723 + (row + group * 17) mod 365))) offset len),
           Date32Array (row_values (\<lambda>row. unless (row mod (11 + group) = 0)
             (of_nat (19723 + (row + group * 19) mod 365))) offset len),
           Date64Array (row_values (\<lambda>row. Some (1735689600000 + of_nat (row + group) * 3701)) offset len),
           Date64Array (row_values (\<lambda>row. unless (row mod (13 + group) = 0)
             (1735689600000 + of_nat (row + group * 3) * 9001)) offset len)]) [0..<8]))"

definition mixed_nullable_columns :: "usize \<Rightarrow> usize \<Rightarrow> bench_error + arrow_array list" where
  "mixed_nullable_columns offset len =
     (let category_values = [lit ''alpha'', lit ''beta'', lit ''gamma'', lit ''delta'', lit ''epsilon''] in Ok
     [Int32Array (row_values (\<lambda>row. Some (deterministic_i32 row)) offset len),
      Int64Array (row_values (\<lambda>row. unless (row mod 7 = 0) (scast (deterministic_i32 row) * 10)) offset len),
      Float64Array (row_values (\<lambda>row. unless (row mod 11 = 0) (deterministic_score row)) offset len),
      StringArray (row_values (\<lambda>row. unless (row mod 5 = 0) (pick category_values row)) offset len)])"

definition wide_mixed_columns :: "usize \<Rightarrow> usize \<Rightarrow> bench_error + arrow_array list" where
  "wide_mixed_columns offset len =
     (let status_values = [lit ''queued'', lit ''active'', lit ''settled'', lit ''failed'', lit ''cancelled''];
          region_values = [lit ''us-west'', lit ''us-east'', lit ''eu-central'', lit ''ap-south''] in Ok
     [Int64Array (row_values (\<lambda>row. Some (10000000 + of_nat row)) offset len),
      Int32Array (row_values (\<lambda>row. Some (1000 + of_nat (row mod 50000))) offset len),
      TimestampMillisecondArray None (row_values (\<lambda>row. Some (1735689600000 + of_nat row * 1000)) offset len),
      Float64Array (row_values (\<lambda>row. unless (row mod 17 = 0) (f64_ratio (row mod 1000000 + 25) 100)) offset len),
      StringArray (row_values (\<lambda>row. unless (row mod 19 = 0) (pick status_values row)) offset len),
      StringArray (row_values (\<lambda>row. unless (row mod 23 = 0) (pick region_values (row div 3))) offset len),
      StringArray (row_values (\<lambda>row. unless (row mod 29 = 0) (deterministic_description row)) offset len),
      BinaryArray (row_values (\<lambda>row. unless (row mod 31 = 0) (deterministic_payload row)) offset len)])"

definition fixed_size_binary_columns :: "usize \<Rightarrow> usize \<Rightarrow> bench_error + arrow_array list" where
  "fixed_size_binary_columns offset len =
     (let row_id = Int64Array (row_values (\<lambda>row. Some (of_nat row)) offset len) in
      and_then (fixed_size_binary_array (row_values (\<lambda>row. Some (fixed_size_payload row 16)) offset len) 16) (\<lambda>hash16.
      and_then (fixed_size_binary_array
        (row_values (\<lambda>row. unless (row mod 7 = 0) (fixed_size_payload row 4)) offset len) 4) (\<lambda>nullable_code4.
      and_then (fixed_size_binary_array (row_values (\<lambda>row. Some (fixed_size_payload row 64)) offset len) 64) (\<lambda>payload64.
        Ok [row_id, hash16, nullable_code4, payload64]))))"

definition decimal_temporal_columns :: "usize \<Rightarrow> usize \<Rightarrow> bench_error + arrow_array list" where
  "decimal_temporal_columns offset len =
     (let transaction_id = Int64Array (row_values (\<lambda>row. Some (500000000 + of_nat row)) offset len);
          account_id = Int32Array (row_values (\<lambda>row. Some (10000 + of_nat (row mod 200000))) offset len) in
      and_then (decimal128_array (row_values (\<lambda>row.
        let sign = (if row mod 13 = 0 then - 1 else 1) in
        Some (sign * (1000000 + of_nat (row mod 50000000)))) offset len) 18 4) (\<lambda>amount.
      and_then (decimal128_array (row_values (\<lambda>row.
        unless (row mod 11 = 0) (25 + of_nat (row mod 10000))) offset len) 12 4) (\<lambda>fee.
        Ok [transaction_id, account_id, amount, fee,
            Date32Array (row_values (\<lambda>row. Some (19723 + of_nat (row mod 365))) offset len),
            TimestampMillisecondArray None (row_values (\<lambda>row. Some (1735689600000 + of_nat row * 17000)) offset len),
            BooleanArray (row_values (\<lambda>row. unless (row mod 17 = 0) (row mod 3 \<noteq> 0)) offset len)])))"

definition fixed_width_128_columns :: "usize \<Rightarrow> usize \<Rightarrow> bench_error + arrow_array list" where
  "fixed_width_128_columns offset len = Ok (concat (map (\<lambda>group.
     [Int32Array (row_values (\<lambda>row. Some (deterministic_i32 (row + group * 101))) offset len),
      Int32Array (row_values (\<lambda>row. unless (row mod (11 + group) = 0) (deterministic_i32 (row + group * 103))) offset len),
      Int64Array (row_values (\<lambda>row. Some (scast (deterministic_i32 (row + group * 107)) * 10000)) offset len),
      Int64Array (row_values (\<lambda>row. unless (row mod (13 + group) = 0)
        (scast (deterministic_i32 (row + group * 109)) * 100000)) offset len),
      Float64Array (row_values (\<lambda>row. Some (deterministic_score (row + group * 113))) offset len),
      Float64Array (row_values (\<lambda>row. unless (row mod (17 + group) = 0) (deterministic_score (row + group * 127))) offset len),
      BooleanArray (row_values (\<lambda>row. Some ((row + group) mod 2 = 0)) offset len),
      BooleanArray (row_values (\<lambda>row. unless (row mod (19 + group) = 0) ((row + group) mod 3 = 0)) offset len)]) [0..<16]))"

text \<open>The columns of one group of \<^verbatim>\<open>decimal_temporal_128\<close>; the first error stops.\<close>

definition decimal_temporal_128_group :: "usize \<Rightarrow> usize \<Rightarrow> usize \<Rightarrow> bench_error + arrow_array list" where
  "decimal_temporal_128_group offset len grp =
     and_then (decimal128_array (row_values (\<lambda>row.
       let sign = (if (row + grp) mod 13 = 0 then - 1 else 1) in
       Some (sign * (1000000 + of_nat ((row + grp * 997) mod 50000000)))) offset len) 18 4) (\<lambda>amount.
     and_then (decimal128_array (row_values (\<lambda>row.
       unless (row mod (11 + grp) = 0) (25 + of_nat ((row + grp * 53) mod 10000))) offset len) 12 4) (\<lambda>fee.
       Ok [amount, fee,
           Date32Array (row_values (\<lambda>row. Some (19723 + of_nat ((row + grp * 17) mod 365))) offset len),
           Date32Array (row_values (\<lambda>row. unless (row mod (13 + grp) = 0)
             (19723 + of_nat ((row + grp * 19) mod 365))) offset len),
           TimestampMillisecondArray None (row_values (\<lambda>row. Some (1735689600000 + of_nat (row + grp * 31) * 17000)) offset len),
           Time32MillisecondArray (row_values (\<lambda>row. Some (of_nat ((row * 37 + grp * 1003) mod 86400000))) offset len),
           Time64MicrosecondArray (row_values (\<lambda>row. Some (of_nat ((row * 41 + grp * 1009) mod 86400000000))) offset len),
           BooleanArray (row_values (\<lambda>row. unless (row mod (17 + grp) = 0) ((row + grp) mod 3 = 0)) offset len)]))"

definition decimal_temporal_128_columns :: "usize \<Rightarrow> usize \<Rightarrow> bench_error + arrow_array list" where
  "decimal_temporal_128_columns offset len =
     map_ok concat (try_map (decimal_temporal_128_group offset len) [0..<16])"

subsection \<open>Text-heavy columns\<close>

datatype string_heavy_text = AsciiText | UnicodeText

datatype string_heavy_shape = FullShape | TextOnlyShape | BinaryOnlyShape | FixedShape usize usize

fun body_len :: "string_heavy_shape \<Rightarrow> usize \<Rightarrow> usize" where
  "body_len FullShape row = 512 + row mod 2048"
| "body_len TextOnlyShape row = 512 + row mod 2048"
| "body_len BinaryOnlyShape row = 24 + row mod 96"
| "body_len (FixedShape body_chars _) row = body_chars"

fun payload_len :: "string_heavy_shape \<Rightarrow> usize \<Rightarrow> usize" where
  "payload_len FullShape row = 1024 + row mod 4096"
| "payload_len BinaryOnlyShape row = 1024 + row mod 4096"
| "payload_len TextOnlyShape row = 8 + row mod 32"
| "payload_len (FixedShape _ payload_size) row = payload_size"

definition tenant :: "string_heavy_text \<Rightarrow> usize \<Rightarrow> rstr" where
  "tenant kind row =
     (case kind of
        AsciiText \<Rightarrow> lit ''tenant-'' @ padded 4 (row mod 512)
      | UnicodeText \<Rightarrow> [0x79df, 0x6237, 45] @ padded 4 (row mod 512))"

definition document_type :: "string_heavy_text \<Rightarrow> usize \<Rightarrow> rstr" where
  "document_type kind row = pick
     (case kind of
        AsciiText \<Rightarrow> [lit ''invoice'', lit ''event'', lit ''profile'', lit ''message'', lit ''audit'']
      | UnicodeText \<Rightarrow> [[0x53d1, 0x7968], [0x4e8b, 0x4ef6], [0x6863, 0x6848], [0x6d88, 0x606f], [0x5ba1, 0x8ba1]]) row"

definition title :: "string_heavy_text \<Rightarrow> usize \<Rightarrow> rstr" where
  "title kind row =
     (case kind of
        AsciiText \<Rightarrow> lit ''document title '' @ padded 12 row
      | UnicodeText \<Rightarrow> [0x6587, 0x6863] @ lit '' title '' @ padded 12 row)"

definition body :: "string_heavy_text \<Rightarrow> usize \<Rightarrow> usize \<Rightarrow> rstr" where
  "body kind row len =
     (case kind of AsciiText \<Rightarrow> deterministic_text row len | UnicodeText \<Rightarrow> deterministic_unicode_text row len)"

definition quoted :: "rstr \<Rightarrow> rstr" where
  "quoted s = [34] @ s @ [34]"

definition metadata :: "string_heavy_text \<Rightarrow> usize \<Rightarrow> rstr" where
  "metadata kind row =
     (case kind of
        AsciiText \<Rightarrow> lit ''{'' @ quoted (lit ''tenant'') @ lit '':'' @ dec (row mod 512)
          @ lit '','' @ quoted (lit ''source'') @ lit '':'' @ dec (row mod 17)
          @ lit '','' @ quoted (lit ''sequence'') @ lit '':'' @ dec row @ lit ''}''
      | UnicodeText \<Rightarrow> lit ''{'' @ quoted (lit ''tenant'') @ lit '':'' @ quoted ([0x79df, 0x6237, 45] @ padded 4 (row mod 512))
          @ lit '','' @ quoted (lit ''source'') @ lit '':'' @ quoted ([0x6765, 0x6e90, 45] @ dec (row mod 17))
          @ lit '','' @ quoted (lit ''sequence'') @ lit '':'' @ dec row @ lit ''}'')"

definition string_heavy_columns_with_shape ::
    "usize \<Rightarrow> usize \<Rightarrow> string_heavy_text \<Rightarrow> string_heavy_shape \<Rightarrow> bench_error + arrow_array list" where
  "string_heavy_columns_with_shape offset len kind shape = Ok
     [Int64Array (row_values (\<lambda>row. Some (900000000 + of_nat row)) offset len),
      StringArray (row_values (\<lambda>row. Some (tenant kind row)) offset len),
      StringArray (row_values (\<lambda>row. unless (row mod 37 = 0) (document_type kind row)) offset len),
      StringArray (row_values (\<lambda>row. unless (row mod 41 = 0) (title kind row)) offset len),
      StringArray (row_values (\<lambda>row. unless (row mod 43 = 0) (body kind row (body_len shape row))) offset len),
      StringArray (row_values (\<lambda>row. unless (row mod 47 = 0) (metadata kind row)) offset len),
      BinaryArray (row_values (\<lambda>row. unless (row mod 53 = 0)
        (deterministic_payload_with_len row (payload_len shape row))) offset len)]"

definition string_heavy_columns :: "usize \<Rightarrow> usize \<Rightarrow> bench_error + arrow_array list" where
  "string_heavy_columns offset len = string_heavy_columns_with_shape offset len AsciiText FullShape"

definition string_heavy_text_only_columns :: "usize \<Rightarrow> usize \<Rightarrow> bench_error + arrow_array list" where
  "string_heavy_text_only_columns offset len = string_heavy_columns_with_shape offset len AsciiText TextOnlyShape"

definition string_heavy_binary_only_columns :: "usize \<Rightarrow> usize \<Rightarrow> bench_error + arrow_array list" where
  "string_heavy_binary_only_columns offset len = string_heavy_columns_with_shape offset len AsciiText BinaryOnlyShape"

definition string_heavy_inline_4k_columns :: "usize \<Rightarrow> usize \<Rightarrow> bench_error + arrow_array list" where
  "string_heavy_inline_4k_columns offset len =
     string_heavy_columns_with_shape offset len AsciiText (FixedShape 1024 2048)"

definition string_heavy_edge_7k_columns :: "usize \<Rightarrow> usize \<Rightarrow> bench_error + arrow_array list" where
  "string_heavy_edge_7k_columns offset len =
     string_heavy_columns_with_shape offset len AsciiText (FixedShape 1536 4096)"

definition string_heavy_lob_9k_columns :: "usize \<Rightarrow> usize \<Rightarrow> bench_error + arrow_array list" where
  "string_heavy_lob_9k_columns offset len =
     string_heavy_columns_with_shape offset len AsciiText (FixedShape 2048 5120)"

definition string_heavy_unicode_columns :: "usize \<Rightarrow> usize \<Rightarrow> bench_error + arrow_array list" where
  "string_heavy_unicode_columns offset len = string_heavy_columns_with_shape offset len UnicodeText FullShape"

subsection \<open>Wide and TPC-H columns\<close>

definition wide_sparse_i32_column :: "usize \<Rightarrow> usize \<Rightarrow> usize \<Rightarrow> arrow_array" where
  "wide_sparse_i32_column offset len column = Int32Array (row_values (\<lambda>row.
     unless (column \<noteq> 0 \<and> row mod (column + 11) = 0) (of_nat (wrapping (row * (column + 3)) mod 1000000))) offset len)"

definition wide_sparse_f64_column :: "usize \<Rightarrow> usize \<Rightarrow> usize \<Rightarrow> arrow_array" where
  "wide_sparse_f64_column offset len column = Float64Array (row_values (\<lambda>row.
     unless (row mod (column + 13) = 0) (f64_ratio (wrapping (row * (column + 19)) mod 10000) 10)) offset len)"

definition wide_sparse_string_column :: "usize \<Rightarrow> usize \<Rightarrow> usize \<Rightarrow> arrow_array" where
  "wide_sparse_string_column offset len column = StringArray (row_values (\<lambda>row.
     unless (row mod (column + 17) = 0) (lit ''tag-'' @ padded 2 column @ [45] @ dec (row mod 128))) offset len)"

definition wide_sparse_bool_column :: "usize \<Rightarrow> usize \<Rightarrow> usize \<Rightarrow> arrow_array" where
  "wide_sparse_bool_column offset len column = BooleanArray (row_values (\<lambda>row.
     unless (row mod (column + 23) = 0) ((row + column) mod 2 = 0)) offset len)"

definition wide_sparse_columns :: "usize \<Rightarrow> usize \<Rightarrow> bench_error + arrow_array list" where
  "wide_sparse_columns offset len = Ok
     (map (wide_sparse_i32_column offset len) [0..<8] @ map (wide_sparse_f64_column offset len) [0..<8]
      @ map (wide_sparse_string_column offset len) [0..<8] @ map (wide_sparse_bool_column offset len) [0..<8])"

definition tpch_lineitem_like_columns :: "usize \<Rightarrow> usize \<Rightarrow> bench_error + arrow_array list" where
  "tpch_lineitem_like_columns offset len =
     (let return_flags = [lit ''A'', lit ''N'', lit ''R'']; line_statuses = [lit ''F'', lit ''O''];
          ship_instructs = [lit ''DELIVER IN PERSON'', lit ''COLLECT COD'', lit ''NONE'', lit ''TAKE BACK RETURN''];
          ship_modes = [lit ''AIR'', lit ''FOB'', lit ''MAIL'', lit ''RAIL'', lit ''REG AIR'', lit ''SHIP'', lit ''TRUCK''] in
      and_then (decimal128_array (row_values (\<lambda>row. Some (100 + of_nat (row mod 5000))) offset len) 15 2) (\<lambda>quantity.
      and_then (decimal128_array (row_values (\<lambda>row. Some (10000 + of_nat (row mod 900000))) offset len) 18 2) (\<lambda>extendedprice.
      and_then (decimal128_array (row_values (\<lambda>row. Some (of_nat (row mod 1000))) offset len) 10 4) (\<lambda>discount.
      and_then (decimal128_array (row_values (\<lambda>row. Some (of_nat (row mod 800))) offset len) 10 4) (\<lambda>tax.
        Ok [Int64Array (row_values (\<lambda>row. Some (1 + of_nat (row div 4))) offset len),
            Int64Array (row_values (\<lambda>row. Some (1 + of_nat (row mod 200000))) offset len),
            Int64Array (row_values (\<lambda>row. Some (1 + of_nat (row mod 10000))) offset len),
            Int32Array (row_values (\<lambda>row. Some (1 + of_nat (row mod 7))) offset len),
            quantity, extendedprice, discount, tax,
            StringArray (row_values (\<lambda>row. Some (pick return_flags row)) offset len),
            StringArray (row_values (\<lambda>row. Some (pick line_statuses (row div 5))) offset len),
            Date32Array (row_values (\<lambda>row. Some (8400 + of_nat (row mod 2500))) offset len),
            Date32Array (row_values (\<lambda>row. Some (8430 + of_nat (row mod 2500))) offset len),
            Date32Array (row_values (\<lambda>row. Some (8460 + of_nat (row mod 2500))) offset len),
            StringArray (row_values (\<lambda>row. Some (pick ship_instructs row)) offset len),
            StringArray (row_values (\<lambda>row. Some (pick ship_modes row)) offset len),
            StringArray (row_values (\<lambda>row. unless (row mod 101 = 0) (deterministic_text row (24 + row mod 96))) offset len)])))))"

subsection \<open>Generated columns\<close>

text \<open>The columns of a scenario on some rows: they fit the schema.\<close>

definition column_of :: "usize \<Rightarrow> arrow_field \<Rightarrow> arrow_array \<Rightarrow> bool" where
  "column_of len fld array \<longleftrightarrow> array_data_type array = field_data_type fld \<and> valid_array array
     \<and> array_len array = len \<and> (field_nullable fld \<or> True \<notin> set (array_nulls array))"

lemma length_row_values [simp]: "length (row_values f offset len) = len"
  by (simp add: row_values_def)

lemma row_values_null [simp]: "values_null (row_values f offset len) = row_values (\<lambda>row. f row = None) offset len"
  by (simp add: row_values_def values_null_def is_none_simps Option.is_none_def)

lemma row_values_all_some [simp]:
  "True \<notin> set (row_values (\<lambda>_. False) offset len)" "True \<notin> set (row_values (\<lambda>row. Some (g row) = None) offset len)"
  by (auto simp: row_values_def)

lemma slice_row_values [simp]:
  "offset + len \<le> n \<Longrightarrow> slice_rows offset len (row_values f 0 n) = row_values f offset len"
  by (simp add: slice_rows_def row_values_def drop_map take_map)

lemma column_of_fields:
  "column_of len (field name ty nullable) array \<longleftrightarrow> array_data_type array = ty \<and> valid_array array
     \<and> array_len array = len \<and> (nullable \<or> True \<notin> set (array_nulls array))"
  by (simp add: column_of_def field_def)

lemmas column_simps = column_of_fields valid_array_def array_len_def

lemma fixed_size_array:
  "fixed_size_binary_array (row_values f offset len) n = Ok (FixedSizeBinaryArray n (row_values f offset len))
     \<longleftrightarrow> (\<forall>row \<in> {offset..<offset + len}. \<forall>bs. f row = Some bs \<longrightarrow> int (length bs) = sint n)"
  by (auto simp: fixed_size_binary_array_def row_values_def list_all_iff split: option.split if_splits)

lemma length_fixed_size_payload [simp]: "length (fixed_size_payload row len) = len"
  by (simp add: fixed_size_payload_def)

lemma list_all2_concat_map:
  "(\<And>x. x \<in> set xs \<Longrightarrow> list_all2 P (g x) (h x)) \<Longrightarrow> list_all2 P (concat (map g xs)) (concat (map h xs))"
  by (induction xs) (auto intro: list_all2_appendI)

text \<open>What a scenario is: columns that fit, and whose rows do not depend on where they are cut.\<close>

definition generates :: "arrow_field list \<Rightarrow> (usize \<Rightarrow> usize \<Rightarrow> bench_error + arrow_array list) \<Rightarrow> bool" where
  "generates schema columns \<longleftrightarrow>
     (\<forall>offset len. \<exists>arrays. columns offset len = Ok arrays \<and> list_all2 (column_of len) schema arrays)
     \<and> (\<forall>offset len n. offset + len \<le> n \<longrightarrow> columns offset len = map_ok (map (array_slice offset len)) (columns 0 n))"

lemma narrow_numeric_generates: "generates narrow_numeric_schema narrow_numeric_columns"
  by (simp add: generates_def narrow_numeric_schema_def narrow_numeric_columns_def column_simps)

lemma extended_primitive_generates: "generates extended_primitive_schema extended_primitive_columns"
  by (simp add: generates_def extended_primitive_schema_def extended_primitive_columns_def column_simps)

lemma uint64_policy_generates: "generates uint64_policy_schema uint64_policy_columns"
  by (simp add: generates_def uint64_policy_schema_def uint64_policy_columns_def column_simps)

lemma mixed_nullable_generates: "generates mixed_nullable_schema mixed_nullable_columns"
  by (simp add: generates_def mixed_nullable_schema_def mixed_nullable_columns_def column_simps Let_def)

lemma wide_mixed_generates: "generates wide_mixed_schema wide_mixed_columns"
  by (simp add: generates_def wide_mixed_schema_def wide_mixed_columns_def column_simps Let_def)

lemma date_fast_path_generates: "generates date_fast_path_schema date_fast_path_columns"
  by (auto simp: generates_def date_fast_path_schema_def date_fast_path_columns_def column_simps map_concat o_def
      intro!: list_all2_concat_map)

lemma fixed_width_128_generates: "generates fixed_width_128_schema fixed_width_128_columns"
  by (auto simp: generates_def fixed_width_128_schema_def fixed_width_128_columns_def column_simps map_concat o_def
      intro!: list_all2_concat_map)

lemma string_heavy_generates:
  "generates string_heavy_schema (\<lambda>offset len. string_heavy_columns_with_shape offset len kind shape)"
  by (simp add: generates_def string_heavy_schema_def string_heavy_columns_with_shape_def column_simps)

lemma wide_sparse_generates: "generates wide_sparse_schema wide_sparse_columns"
  by (auto simp: generates_def wide_sparse_schema_def wide_sparse_columns_def column_simps o_def
      wide_sparse_i32_column_def wide_sparse_f64_column_def wide_sparse_string_column_def wide_sparse_bool_column_def
      unless_def list_all2_map1 list_all2_map2 list.rel_refl
      intro!: list_all2_appendI list_all2_refl)

lemma decimal_shapes [simp]:
  "decimal128_array vs 18 4 = Ok (Decimal128Array 18 4 vs)" "decimal128_array vs 12 4 = Ok (Decimal128Array 12 4 vs)"
  "decimal128_array vs 15 2 = Ok (Decimal128Array 15 2 vs)" "decimal128_array vs 18 2 = Ok (Decimal128Array 18 2 vs)"
  "decimal128_array vs 10 4 = Ok (Decimal128Array 10 4 vs)"
  by (simp_all add: decimal128_array_def)

lemma decimal_temporal_generates: "generates decimal_temporal_schema decimal_temporal_columns"
  by (simp add: generates_def decimal_temporal_schema_def decimal_temporal_columns_def column_simps Let_def)

lemma tpch_lineitem_like_generates: "generates tpch_lineitem_like_schema tpch_lineitem_like_columns"
  by (simp add: generates_def tpch_lineitem_like_schema_def tpch_lineitem_like_columns_def column_simps Let_def)

lemma fixed_size_row_values:
  "(\<And>row. case f row of None \<Rightarrow> True | Some bs \<Rightarrow> int (length bs) = sint n)
     \<Longrightarrow> fixed_size_binary_array (row_values f offset len) n = Ok (FixedSizeBinaryArray n (row_values f offset len))"
  by (simp add: fixed_size_binary_array_def row_values_def list_all_iff)

lemma fixed_size_valid:
  "(\<And>row. case f row of None \<Rightarrow> True | Some bs \<Rightarrow> int (length bs) = sint n) \<Longrightarrow> 0 \<le> sint n
     \<Longrightarrow> valid_array (FixedSizeBinaryArray n (row_values f offset len))"
proof -
  assume fits: "\<And>row. case f row of None \<Rightarrow> True | Some bs \<Rightarrow> int (length bs) = sint n" and n: "0 \<le> sint n"
  have "int (length bs) = sint n" if member: "Some bs \<in> set (row_values f offset len)" for bs
  proof -
    obtain row where "Some bs = f row"
      using member by (auto simp: row_values_def)
    then show ?thesis
      using fits [of row] by (simp split: option.splits)
  qed
  then show ?thesis
    using n by (simp add: valid_array_def)
qed

lemma valid_int64_array [simp]: "valid_array (Int64Array vs)"
  by (simp add: valid_array_def)

lemma fixed_size_binary_generates: "generates fixed_size_binary_schema fixed_size_binary_columns"
  by (simp add: generates_def fixed_size_binary_schema_def fixed_size_binary_columns_def column_of_fields
      fixed_size_row_values fixed_size_valid unless_def array_len_def)

text \<open>Groups that each fit and are each cut with their rows do so together.\<close>

lemma try_map_fits:
  "(\<And>x. x \<in> set xs \<Longrightarrow> \<exists>ys. f x = Ok ys \<and> list_all2 P (h x) ys)
     \<Longrightarrow> \<exists>yss. try_map f xs = Ok yss \<and> list_all2 P (concat (map h xs)) (concat yss)"
proof (induction xs)
  case (Cons x xs)
  then obtain ys yss where "f x = Ok ys" "list_all2 P (h x) ys"
    "try_map f xs = Ok yss" "list_all2 P (concat (map h xs)) (concat yss)"
    by (metis list.set_intros(1,2))
  then show ?case
    by (auto intro: list_all2_appendI)
qed simp

lemma try_map_map_ok:
  "(\<And>x. x \<in> set xs \<Longrightarrow> f x = map_ok g (f' x)) \<Longrightarrow> try_map f xs = map_ok (map g) (try_map f' xs)"
proof (induction xs)
  case (Cons x xs)
  then show ?case
    by (cases "f' x"; cases "try_map f' xs") simp_all
qed simp

lemma decimal_temporal_128_group_fits:
  "\<exists>arrays. decimal_temporal_128_group offset len grp = Ok arrays
     \<and> list_all2 (column_of len) (decimal_temporal_128_fields grp) arrays"
  by (simp add: decimal_temporal_128_group_def decimal_temporal_128_fields_def column_simps Let_def)

lemma decimal_temporal_128_group_slice:
  "offset + len \<le> n \<Longrightarrow> decimal_temporal_128_group offset len grp
     = map_ok (map (array_slice offset len)) (decimal_temporal_128_group 0 n grp)"
  by (simp add: decimal_temporal_128_group_def Let_def)

lemma decimal_temporal_128_generates: "generates decimal_temporal_128_schema decimal_temporal_128_columns"
  unfolding generates_def decimal_temporal_128_schema_def
proof (intro conjI allI impI)
  fix offset len n :: nat
  show "\<exists>arrays. decimal_temporal_128_columns offset len = Ok arrays
      \<and> list_all2 (column_of len) (concat (map decimal_temporal_128_fields [0..<16])) arrays"
    using try_map_fits [where f = "decimal_temporal_128_group offset len", OF decimal_temporal_128_group_fits]
    unfolding decimal_temporal_128_columns_def by force
  assume "offset + len \<le> n"
  then have "try_map (decimal_temporal_128_group offset len) [0..<16]
      = map_ok (map (map (array_slice offset len))) (try_map (decimal_temporal_128_group 0 n) [0..<16])"
    by (rule try_map_map_ok [OF decimal_temporal_128_group_slice])
  then show "decimal_temporal_128_columns offset len
      = map_ok (map (array_slice offset len)) (decimal_temporal_128_columns 0 n)"
    by (cases "try_map (decimal_temporal_128_group 0 n) [0..<16]")
      (simp_all add: decimal_temporal_128_columns_def map_concat)
qed

text \<open>What arrow-rs is given makes a batch.\<close>

lemma generates_batch:
  assumes "generates schema columns" and "schema \<noteq> []"
  shows "\<exists>arrays. columns offset len = Ok arrays \<and> record_batch_try_new schema arrays
      = Ok \<lparr>batch_fields = schema, batch_columns = arrays, batch_num_rows = len\<rparr>
    \<and> valid_batch \<lparr>batch_fields = schema, batch_columns = arrays, batch_num_rows = len\<rparr>"
proof -
  from assms(1) obtain arrays where arrays: "columns offset len = Ok arrays"
    and fit: "list_all2 (column_of len) schema arrays"
    unfolding generates_def by metis
  from fit assms(2) obtain array rest where cons: "arrays = array # rest" "array_len array = len"
    by (cases arrays) (auto simp: list_all2_Cons2 column_of_def)
  have "map field_data_type schema = map array_data_type arrays"
    using fit by (induction rule: list_all2_induct) (auto simp: column_of_def)
  moreover have "\<forall>array \<in> set arrays. valid_array array \<and> array_len array = len"
    using fit by (induction rule: list_all2_induct) (auto simp: column_of_def)
  moreover have "list_all2 (\<lambda>field array. field_nullable field \<or> True \<notin> set (array_nulls array)) schema arrays"
    using fit by (rule list_all2_mono) (auto simp: column_of_def)
  ultimately show ?thesis
    using arrays cons by (simp add: record_batch_try_new_def valid_batch_def)
qed

end
