(* ===== verification/BenchScenarios.thy ===== *)
theory BenchScenarios
  imports BenchData
begin

text \<open>
  The scenarios of the writer benchmarks, which backends they may run on, how they are planned, and the
  reader that generates their batches (\<^verbatim>\<open>xtask/src/writer_bench.rs\<close>). The claims compare the lists of
  supported scenarios with what planning and the direct encoder really do, and show that the batches of a reader
  are the data of the scenario, cut up.
\<close>

subsection \<open>Scenarios\<close>

text \<open>The description of a scenario is only printed.\<close>

record benchmark_scenario =
  scenario_name :: rstr
  scenario_schema :: "arrow_field list"
  scenario_columns :: "usize \<Rightarrow> usize \<Rightarrow> bench_error + arrow_array list"

definition NARROW_NUMERIC_SCENARIO :: benchmark_scenario where
  "NARROW_NUMERIC_SCENARIO = \<lparr>scenario_name = lit ''narrow_numeric'',
     scenario_schema = narrow_numeric_schema, scenario_columns = narrow_numeric_columns\<rparr>"

definition EXTENDED_PRIMITIVE_SCENARIO :: benchmark_scenario where
  "EXTENDED_PRIMITIVE_SCENARIO = \<lparr>scenario_name = lit ''extended_primitive'',
     scenario_schema = extended_primitive_schema, scenario_columns = extended_primitive_columns\<rparr>"

definition UINT64_POLICY_SCENARIO :: benchmark_scenario where
  "UINT64_POLICY_SCENARIO = \<lparr>scenario_name = lit ''uint64_policy'',
     scenario_schema = uint64_policy_schema, scenario_columns = uint64_policy_columns\<rparr>"

definition DATE_FAST_PATH_SCENARIO :: benchmark_scenario where
  "DATE_FAST_PATH_SCENARIO = \<lparr>scenario_name = lit ''date_fast_path'',
     scenario_schema = date_fast_path_schema, scenario_columns = date_fast_path_columns\<rparr>"

definition MIXED_NULLABLE_SCENARIO :: benchmark_scenario where
  "MIXED_NULLABLE_SCENARIO = \<lparr>scenario_name = lit ''mixed_nullable'',
     scenario_schema = mixed_nullable_schema, scenario_columns = mixed_nullable_columns\<rparr>"

definition FIXED_SIZE_BINARY_SCENARIO :: benchmark_scenario where
  "FIXED_SIZE_BINARY_SCENARIO = \<lparr>scenario_name = lit ''fixed_size_binary'',
     scenario_schema = fixed_size_binary_schema, scenario_columns = fixed_size_binary_columns\<rparr>"

definition WIDE_MIXED_SCENARIO :: benchmark_scenario where
  "WIDE_MIXED_SCENARIO = \<lparr>scenario_name = lit ''wide_mixed'',
     scenario_schema = wide_mixed_schema, scenario_columns = wide_mixed_columns\<rparr>"

definition DECIMAL_TEMPORAL_SCENARIO :: benchmark_scenario where
  "DECIMAL_TEMPORAL_SCENARIO = \<lparr>scenario_name = lit ''decimal_temporal'',
     scenario_schema = decimal_temporal_schema, scenario_columns = decimal_temporal_columns\<rparr>"

definition FIXED_WIDTH_128_SCENARIO :: benchmark_scenario where
  "FIXED_WIDTH_128_SCENARIO = \<lparr>scenario_name = lit ''fixed_width_128'',
     scenario_schema = fixed_width_128_schema, scenario_columns = fixed_width_128_columns\<rparr>"

definition DECIMAL_TEMPORAL_128_SCENARIO :: benchmark_scenario where
  "DECIMAL_TEMPORAL_128_SCENARIO = \<lparr>scenario_name = lit ''decimal_temporal_128'',
     scenario_schema = decimal_temporal_128_schema, scenario_columns = decimal_temporal_128_columns\<rparr>"

definition STRING_HEAVY_SCENARIO :: benchmark_scenario where
  "STRING_HEAVY_SCENARIO = \<lparr>scenario_name = lit ''string_heavy'',
     scenario_schema = string_heavy_schema, scenario_columns = string_heavy_columns\<rparr>"

definition STRING_HEAVY_TEXT_ONLY_SCENARIO :: benchmark_scenario where
  "STRING_HEAVY_TEXT_ONLY_SCENARIO = \<lparr>scenario_name = lit ''string_heavy_text_only'',
     scenario_schema = string_heavy_schema, scenario_columns = string_heavy_text_only_columns\<rparr>"

definition STRING_HEAVY_BINARY_ONLY_SCENARIO :: benchmark_scenario where
  "STRING_HEAVY_BINARY_ONLY_SCENARIO = \<lparr>scenario_name = lit ''string_heavy_binary_only'',
     scenario_schema = string_heavy_schema, scenario_columns = string_heavy_binary_only_columns\<rparr>"

definition STRING_HEAVY_INLINE_4K_SCENARIO :: benchmark_scenario where
  "STRING_HEAVY_INLINE_4K_SCENARIO = \<lparr>scenario_name = lit ''string_heavy_inline_4k'',
     scenario_schema = string_heavy_schema, scenario_columns = string_heavy_inline_4k_columns\<rparr>"

definition STRING_HEAVY_EDGE_7K_SCENARIO :: benchmark_scenario where
  "STRING_HEAVY_EDGE_7K_SCENARIO = \<lparr>scenario_name = lit ''string_heavy_edge_7k'',
     scenario_schema = string_heavy_schema, scenario_columns = string_heavy_edge_7k_columns\<rparr>"

definition STRING_HEAVY_LOB_9K_SCENARIO :: benchmark_scenario where
  "STRING_HEAVY_LOB_9K_SCENARIO = \<lparr>scenario_name = lit ''string_heavy_lob_9k'',
     scenario_schema = string_heavy_schema, scenario_columns = string_heavy_lob_9k_columns\<rparr>"

definition STRING_HEAVY_UNICODE_SCENARIO :: benchmark_scenario where
  "STRING_HEAVY_UNICODE_SCENARIO = \<lparr>scenario_name = lit ''string_heavy_unicode'',
     scenario_schema = string_heavy_schema, scenario_columns = string_heavy_unicode_columns\<rparr>"

definition WIDE_SPARSE_SCENARIO :: benchmark_scenario where
  "WIDE_SPARSE_SCENARIO = \<lparr>scenario_name = lit ''wide_sparse'',
     scenario_schema = wide_sparse_schema, scenario_columns = wide_sparse_columns\<rparr>"

definition TPCH_LINEITEM_LIKE_SCENARIO :: benchmark_scenario where
  "TPCH_LINEITEM_LIKE_SCENARIO = \<lparr>scenario_name = lit ''tpch_lineitem_like'',
     scenario_schema = tpch_lineitem_like_schema, scenario_columns = tpch_lineitem_like_columns\<rparr>"

definition SCENARIOS :: "benchmark_scenario list" where
  "SCENARIOS =
    [NARROW_NUMERIC_SCENARIO, EXTENDED_PRIMITIVE_SCENARIO, UINT64_POLICY_SCENARIO,
     DATE_FAST_PATH_SCENARIO, MIXED_NULLABLE_SCENARIO, FIXED_SIZE_BINARY_SCENARIO, WIDE_MIXED_SCENARIO,
     DECIMAL_TEMPORAL_SCENARIO, FIXED_WIDTH_128_SCENARIO, DECIMAL_TEMPORAL_128_SCENARIO,
     STRING_HEAVY_SCENARIO, STRING_HEAVY_TEXT_ONLY_SCENARIO, STRING_HEAVY_BINARY_ONLY_SCENARIO,
     STRING_HEAVY_INLINE_4K_SCENARIO, STRING_HEAVY_EDGE_7K_SCENARIO, STRING_HEAVY_LOB_9K_SCENARIO,
     STRING_HEAVY_UNICODE_SCENARIO, WIDE_SPARSE_SCENARIO, TPCH_LINEITEM_LIKE_SCENARIO]"

definition DIRECT_RAW_SUPPORTED_SCENARIOS :: "rstr list" where
  "DIRECT_RAW_SUPPORTED_SCENARIOS =
    [scenario_name NARROW_NUMERIC_SCENARIO, scenario_name EXTENDED_PRIMITIVE_SCENARIO,
     scenario_name UINT64_POLICY_SCENARIO, scenario_name DATE_FAST_PATH_SCENARIO,
     scenario_name MIXED_NULLABLE_SCENARIO, scenario_name FIXED_SIZE_BINARY_SCENARIO,
     scenario_name DECIMAL_TEMPORAL_SCENARIO, scenario_name STRING_HEAVY_SCENARIO,
     scenario_name STRING_HEAVY_TEXT_ONLY_SCENARIO, scenario_name STRING_HEAVY_BINARY_ONLY_SCENARIO,
     scenario_name STRING_HEAVY_INLINE_4K_SCENARIO, scenario_name STRING_HEAVY_EDGE_7K_SCENARIO,
     scenario_name STRING_HEAVY_LOB_9K_SCENARIO, scenario_name STRING_HEAVY_UNICODE_SCENARIO,
     scenario_name WIDE_SPARSE_SCENARIO, scenario_name FIXED_WIDTH_128_SCENARIO,
     scenario_name DECIMAL_TEMPORAL_128_SCENARIO]"

definition ARROW_ODBC_UNSUPPORTED_SCENARIOS :: "rstr list" where
  "ARROW_ODBC_UNSUPPORTED_SCENARIOS =
    [scenario_name EXTENDED_PRIMITIVE_SCENARIO, scenario_name UINT64_POLICY_SCENARIO,
     scenario_name DATE_FAST_PATH_SCENARIO, scenario_name FIXED_SIZE_BINARY_SCENARIO,
     scenario_name DECIMAL_TEMPORAL_128_SCENARIO, scenario_name STRING_HEAVY_UNICODE_SCENARIO]"

definition ODBC_BCP_UNSUPPORTED_SCENARIOS :: "rstr list" where
  "ODBC_BCP_UNSUPPORTED_SCENARIOS =
    [scenario_name UINT64_POLICY_SCENARIO, scenario_name DATE_FAST_PATH_SCENARIO,
     scenario_name FIXED_SIZE_BINARY_SCENARIO, scenario_name DECIMAL_TEMPORAL_128_SCENARIO]"

definition scenario_by_name :: "rstr \<Rightarrow> benchmark_scenario option" where
  "scenario_by_name name = find (\<lambda>scenario. scenario_name scenario = name) SCENARIOS"

definition parse_scenario :: "rstr \<Rightarrow> bench_error + benchmark_scenario" where
  "parse_scenario v = ok_or (InvalidScenario v) (scenario_by_name v)"

subsection \<open>Options\<close>

datatype benchmark_output = HumanOutput

record writer_bench_options =
  bench_rows :: usize
  bench_batch_size :: usize
  bench_scenario :: benchmark_scenario
  bench_repeat :: usize
  bench_output :: benchmark_output

definition writer_bench_options_default :: writer_bench_options where
  "writer_bench_options_default =
     \<lparr>bench_rows = 100000, bench_batch_size = 8192,
      bench_scenario = (case scenario_by_name (lit ''narrow_numeric'') of
        Some scenario \<Rightarrow> scenario | None \<Rightarrow> NARROW_NUMERIC_SCENARIO),
      bench_repeat = 1, bench_output = HumanOutput\<rparr>"

subsection \<open>Which backends take a scenario\<close>

definition ensure_direct_raw_supported_scenario :: "writer_bench_options \<Rightarrow> bench_error + unit" where
  "ensure_direct_raw_supported_scenario benchmark =
     (if scenario_name (bench_scenario benchmark) \<in> set DIRECT_RAW_SUPPORTED_SCENARIOS
      then Ok () else Err ValidationFailure)"

definition ensure_direct_date_fast_path_ab_scenario :: "writer_bench_options \<Rightarrow> bench_error + unit" where
  "ensure_direct_date_fast_path_ab_scenario benchmark =
     (if scenario_name (bench_scenario benchmark) = scenario_name DATE_FAST_PATH_SCENARIO
      then Ok () else Err ValidationFailure)"

definition ensure_arrow_odbc_supported_scenario :: "writer_bench_options \<Rightarrow> bench_error + unit" where
  "ensure_arrow_odbc_supported_scenario benchmark =
     (if scenario_name (bench_scenario benchmark) \<notin> set ARROW_ODBC_UNSUPPORTED_SCENARIOS
      then Ok () else Err ValidationFailure)"

definition ensure_odbc_bcp_supported_scenario :: "writer_bench_options \<Rightarrow> bench_error + unit" where
  "ensure_odbc_bcp_supported_scenario benchmark =
     (if scenario_name (bench_scenario benchmark) \<notin> set ODBC_BCP_UNSUPPORTED_SCENARIOS
      then Ok () else Err ValidationFailure)"

subsection \<open>Planning a scenario\<close>

definition benchmark_plan_options :: "benchmark_scenario \<Rightarrow> plan_options" where
  "benchmark_plan_options scenario =
     (if scenario_name scenario = scenario_name UINT64_POLICY_SCENARIO
      then plan_options_default\<lparr>uint64_policy := PolDecimal20_0\<rparr>
      else if scenario_name scenario = scenario_name DATE_FAST_PATH_SCENARIO
      then plan_options_default\<lparr>date64_policy := TimestampDateTime2\<rparr>
      else plan_options_default)"

definition benchmark_mappings_for_schema_with_options ::
    "arrow_field list \<Rightarrow> plan_options \<Rightarrow> bench_error + planned_schema" where
  "benchmark_mappings_for_schema_with_options schema options =
     map_ok outcome_value (map_err BenchArrowTiberius
       (plan_arrow_schema_to_mssql_schema schema sql_server_2017_compat_100 options))"

definition benchmark_mappings_for_scenario :: "benchmark_scenario \<Rightarrow> bench_error + planned_schema" where
  "benchmark_mappings_for_scenario scenario =
     benchmark_mappings_for_schema_with_options (scenario_schema scenario) (benchmark_plan_options scenario)"

subsection \<open>Generated batches\<close>

definition generate_batch ::
    "benchmark_scenario \<Rightarrow> arrow_field list \<Rightarrow> usize \<Rightarrow> usize \<Rightarrow> bench_error + record_batch" where
  "generate_batch scenario schema offset len =
     and_then (scenario_columns scenario offset len) (record_batch_try_new schema)"

record generated_batch_reader =
  reader_scenario :: benchmark_scenario
  reader_schema :: "arrow_field list"
  reader_rows :: usize
  reader_batch_size :: usize
  reader_next_offset :: usize

definition reader_new_with_schema :: "writer_bench_options \<Rightarrow> arrow_field list \<Rightarrow> generated_batch_reader" where
  "reader_new_with_schema options schema =
     \<lparr>reader_scenario = bench_scenario options, reader_schema = schema, reader_rows = bench_rows options,
      reader_batch_size = bench_batch_size options, reader_next_offset = 0\<rparr>"

definition reader_new :: "writer_bench_options \<Rightarrow> generated_batch_reader" where
  "reader_new options = reader_new_with_schema options (scenario_schema (bench_scenario options))"

definition reader_next ::
    "generated_batch_reader \<Rightarrow> (bench_error + record_batch) option \<times> generated_batch_reader" where
  "reader_next reader =
     (if reader_next_offset reader = reader_rows reader then (None, reader)
      else
        let offset = reader_next_offset reader;
            len = min (reader_batch_size reader) (reader_rows reader - offset) in
        (Some (generate_batch (reader_scenario reader) (reader_schema reader) offset len),
         reader\<lparr>reader_next_offset := reader_next_offset reader + len\<rparr>))"

text \<open>The batches until the reader ends: a reader that does not end has none.\<close>

partial_function (option) read_batches ::
    "generated_batch_reader \<Rightarrow> (bench_error + record_batch) list option" where
  "read_batches reader =
     (case reader_next reader of
        (None, _) \<Rightarrow> Some []
      | (Some batch, reader) \<Rightarrow> Option.bind (read_batches reader) (\<lambda>batches. Some (batch # batches)))"

record generated_batch_summary =
  summary_batches :: usize
  summary_rows :: usize

text \<open>The loop of the summary: the first error ends it.\<close>

definition summarize_batch ::
    "bench_error + record_batch \<Rightarrow> generated_batch_summary \<Rightarrow> bench_error + generated_batch_summary" where
  "summarize_batch batch summary = map_ok (\<lambda>batch. summary
     \<lparr>summary_batches := summary_batches summary + 1, summary_rows := summary_rows summary + batch_num_rows batch\<rparr>) batch"

definition summarize_generated_batches ::
    "writer_bench_options \<Rightarrow> (bench_error + generated_batch_summary) option" where
  "summarize_generated_batches options =
     map_option (\<lambda>batches. for_each summarize_batch batches \<lparr>summary_batches = 0, summary_rows = 0\<rparr>)
       (read_batches (reader_new options))"

subsection \<open>The batches of a reader\<close>

text \<open>A scenario of the list generates its schema.\<close>

lemmas scenario_defs = NARROW_NUMERIC_SCENARIO_def EXTENDED_PRIMITIVE_SCENARIO_def UINT64_POLICY_SCENARIO_def
  DATE_FAST_PATH_SCENARIO_def MIXED_NULLABLE_SCENARIO_def FIXED_SIZE_BINARY_SCENARIO_def WIDE_MIXED_SCENARIO_def
  DECIMAL_TEMPORAL_SCENARIO_def FIXED_WIDTH_128_SCENARIO_def DECIMAL_TEMPORAL_128_SCENARIO_def
  STRING_HEAVY_SCENARIO_def STRING_HEAVY_TEXT_ONLY_SCENARIO_def STRING_HEAVY_BINARY_ONLY_SCENARIO_def
  STRING_HEAVY_INLINE_4K_SCENARIO_def STRING_HEAVY_EDGE_7K_SCENARIO_def STRING_HEAVY_LOB_9K_SCENARIO_def
  STRING_HEAVY_UNICODE_SCENARIO_def WIDE_SPARSE_SCENARIO_def TPCH_LINEITEM_LIKE_SCENARIO_def

lemma string_heavy_scenarios_generate:
  "generates string_heavy_schema string_heavy_columns" "generates string_heavy_schema string_heavy_text_only_columns"
  "generates string_heavy_schema string_heavy_binary_only_columns"
  "generates string_heavy_schema string_heavy_inline_4k_columns"
  "generates string_heavy_schema string_heavy_edge_7k_columns"
  "generates string_heavy_schema string_heavy_lob_9k_columns" "generates string_heavy_schema string_heavy_unicode_columns"
  using string_heavy_generates
  by (simp_all add: string_heavy_columns_def [abs_def] string_heavy_text_only_columns_def [abs_def]
      string_heavy_binary_only_columns_def [abs_def] string_heavy_inline_4k_columns_def [abs_def]
      string_heavy_edge_7k_columns_def [abs_def] string_heavy_lob_9k_columns_def [abs_def]
      string_heavy_unicode_columns_def [abs_def])

lemma schemas_not_empty:
  "narrow_numeric_schema \<noteq> []" "extended_primitive_schema \<noteq> []" "uint64_policy_schema \<noteq> []"
  "date_fast_path_schema \<noteq> []" "mixed_nullable_schema \<noteq> []" "fixed_size_binary_schema \<noteq> []"
  "wide_mixed_schema \<noteq> []" "decimal_temporal_schema \<noteq> []" "fixed_width_128_schema \<noteq> []"
  "decimal_temporal_128_schema \<noteq> []" "string_heavy_schema \<noteq> []" "wide_sparse_schema \<noteq> []"
  "tpch_lineitem_like_schema \<noteq> []"
  by (simp_all add: narrow_numeric_schema_def extended_primitive_schema_def uint64_policy_schema_def
      date_fast_path_schema_def mixed_nullable_schema_def fixed_size_binary_schema_def wide_mixed_schema_def
      decimal_temporal_schema_def fixed_width_128_schema_def decimal_temporal_128_schema_def
      decimal_temporal_128_fields_def string_heavy_schema_def wide_sparse_schema_def tpch_lineitem_like_schema_def
      upt_rec)

lemma scenario_generates:
  assumes "scenario \<in> set SCENARIOS"
  shows "generates (scenario_schema scenario) (scenario_columns scenario)" and "scenario_schema scenario \<noteq> []"
  using assms
  by (auto simp: SCENARIOS_def scenario_defs narrow_numeric_generates extended_primitive_generates
      uint64_policy_generates date_fast_path_generates mixed_nullable_generates fixed_size_binary_generates
      wide_mixed_generates decimal_temporal_generates fixed_width_128_generates decimal_temporal_128_generates
      string_heavy_scenarios_generate wide_sparse_generates tpch_lineitem_like_generates schemas_not_empty)

lemma scenario_batch:
  assumes "scenario \<in> set SCENARIOS"
  shows "\<exists>whole. generate_batch scenario (scenario_schema scenario) 0 n = Ok whole \<and> valid_batch whole
    \<and> batch_num_rows whole = n
    \<and> (\<forall>offset len. offset + len \<le> n \<longrightarrow>
        generate_batch scenario (scenario_schema scenario) offset len = Ok (batch_slice offset len whole))"
proof -
  note fits = generates_batch [OF scenario_generates [OF assms]]
  obtain arrays where whole: "scenario_columns scenario 0 n = Ok arrays"
    "record_batch_try_new (scenario_schema scenario) arrays
       = Ok \<lparr>batch_fields = scenario_schema scenario, batch_columns = arrays, batch_num_rows = n\<rparr>"
    "valid_batch \<lparr>batch_fields = scenario_schema scenario, batch_columns = arrays, batch_num_rows = n\<rparr>"
    using fits by blast
  have "generate_batch scenario (scenario_schema scenario) offset len
      = Ok (batch_slice offset len \<lparr>batch_fields = scenario_schema scenario, batch_columns = arrays, batch_num_rows = n\<rparr>)"
    if "offset + len \<le> n" for offset len
  proof -
    obtain part where part: "scenario_columns scenario offset len = Ok part"
      "record_batch_try_new (scenario_schema scenario) part
         = Ok \<lparr>batch_fields = scenario_schema scenario, batch_columns = part, batch_num_rows = len\<rparr>"
      using fits by blast
    have "scenario_columns scenario offset len = map_ok (map (array_slice offset len)) (scenario_columns scenario 0 n)"
      using scenario_generates(1) [OF assms] that unfolding generates_def by blast
    with part whole(1) show ?thesis
      by (simp add: generate_batch_def batch_slice_def)
  qed
  with whole show ?thesis
    by (auto simp: generate_batch_def)
qed

text \<open>Batch number \<^verbatim>\<open>i\<close> starts at \<^verbatim>\<open>i * batch_size\<close>, and the last is cut at the end.\<close>

lemma read_batches_cut:
  assumes "\<And>offset len. offset + len \<le> rows \<Longrightarrow> generate_batch scenario schema offset len = Ok (part offset len)"
    and "0 < batch_size" and "offset \<le> rows"
  shows "read_batches \<lparr>reader_scenario = scenario, reader_schema = schema, reader_rows = rows,
       reader_batch_size = batch_size, reader_next_offset = offset\<rparr>
    = Some (map (\<lambda>i. Ok (part (offset + i * batch_size) (min batch_size (rows - (offset + i * batch_size)))))
        [0..<(rows - offset + batch_size - 1) div batch_size])"
  using assms(3)
proof (induction "rows - offset" arbitrary: offset rule: less_induct)
  case less
  show ?case
  proof (cases "offset = rows")
    case True
    with assms(2) show ?thesis
      by (subst read_batches.simps) (simp add: reader_next_def)
  next
    case False
    let ?len = "min batch_size (rows - offset)"
    from False less.prems have step: "read_batches \<lparr>reader_scenario = scenario, reader_schema = schema, reader_rows = rows,
         reader_batch_size = batch_size, reader_next_offset = offset\<rparr>
      = Option.bind (read_batches \<lparr>reader_scenario = scenario, reader_schema = schema, reader_rows = rows,
         reader_batch_size = batch_size, reader_next_offset = offset + ?len\<rparr>)
          (\<lambda>batches. Some (Ok (part offset ?len) # batches))"
      by (subst read_batches.simps) (simp add: reader_next_def Let_def assms(1))
    from False less.prems assms(2) have rest: "rows - (offset + ?len) < rows - offset" "offset + ?len \<le> rows"
      by auto
    show ?thesis
    proof (cases "batch_size \<le> rows - offset")
      case True
      define n where "n = (rows - (offset + batch_size) + batch_size - 1) div batch_size"
      have count: "(rows - offset + batch_size - 1) div batch_size = Suc n"
        using True assms(2) le_div_geq [of batch_size "rows - offset + batch_size - 1"] by (simp add: n_def)
      have "read_batches \<lparr>reader_scenario = scenario, reader_schema = schema, reader_rows = rows,
            reader_batch_size = batch_size, reader_next_offset = offset + batch_size\<rparr>
          = Some (map (\<lambda>i. Ok (part (offset + batch_size + i * batch_size)
              (min batch_size (rows - (offset + batch_size + i * batch_size))))) [0..<n])"
        using less.hyps [OF rest] True by (simp add: n_def)
      with True step show ?thesis
        unfolding count
        by (simp add: upt_conv_Cons map_Suc_upt [symmetric] add.assoc del: upt_Suc)
    next
      case short: False
      then have "(rows - offset + batch_size - 1) div batch_size = 1"
        using False less.prems assms(2) by (simp add: Suc_leI div_nat_eqI)
      with short less.hyps [OF rest] step assms(2) False less.prems show ?thesis
        by simp
    qed
  qed
qed

lemma summed_cuts:
  fixes size rows :: nat
  shows "sum_list (map (\<lambda>i. min size (rows - i * size)) [0..<n]) = min rows (n * size)"
  by (induction n) auto

lemma summarized:
  "for_each summarize_batch (map Ok batches) summary
    = Ok (summary\<lparr>summary_batches := summary_batches summary + length batches,
        summary_rows := summary_rows summary + sum_list (map batch_num_rows batches)\<rparr>)"
  by (induction batches arbitrary: summary) (simp_all add: summarize_batch_def)

text \<open>generated_batches_partition: the data of a scenario does not depend on how it is batched. For every
  scenario of the list and every positive batch size the reader ends, and its batches are the consecutive slices of
  the one valid batch that holds all rows: each of them but the last has the batch size, and the summary counts
  them and all of the rows.\<close>

theorem generated_batches_partition:
  assumes "bench_scenario options \<in> set SCENARIOS" and "0 < bench_batch_size options"
  shows "\<exists>whole. generate_batch (bench_scenario options) (scenario_schema (bench_scenario options)) 0 (bench_rows options)
        = Ok whole
    \<and> valid_batch whole \<and> batch_num_rows whole = bench_rows options
    \<and> (let n = (bench_rows options + bench_batch_size options - 1) div bench_batch_size options;
           start = (\<lambda>i. i * bench_batch_size options) in
       read_batches (reader_new options)
         = Some (map (\<lambda>i. Ok (batch_slice (start i) (min (bench_batch_size options) (bench_rows options - start i)) whole)) [0..<n])
       \<and> summarize_generated_batches options = Some (Ok \<lparr>summary_batches = n, summary_rows = bench_rows options\<rparr>))"
proof -
  let ?rows = "bench_rows options" and ?size = "bench_batch_size options"
  let ?n = "(?rows + ?size - 1) div ?size"
  obtain whole where whole: "generate_batch (bench_scenario options) (scenario_schema (bench_scenario options)) 0 ?rows = Ok whole"
    "valid_batch whole" "batch_num_rows whole = ?rows"
    and cut: "\<And>offset len. offset + len \<le> ?rows \<Longrightarrow> generate_batch (bench_scenario options)
        (scenario_schema (bench_scenario options)) offset len = Ok (batch_slice offset len whole)"
    using scenario_batch [OF assms(1), of ?rows] by blast
  let ?batches = "map (\<lambda>i. batch_slice (i * ?size) (min ?size (?rows - i * ?size)) whole) [0..<?n]"
  have reads: "read_batches (reader_new options) = Some (map Ok ?batches)"
    using read_batches_cut [where offset = 0 and rows = ?rows, OF cut assms(2)]
    by (simp add: reader_new_def reader_new_with_schema_def o_def)
  have "?rows \<le> ?n * ?size"
    using assms(2) dividend_less_div_times [of ?size "?rows + ?size - 1"] by simp
  then have "sum_list (map batch_num_rows ?batches) = ?rows"
    by (simp add: o_def batch_slice_def summed_cuts)
  then have "summarize_generated_batches options = Some (Ok \<lparr>summary_batches = ?n, summary_rows = ?rows\<rparr>)"
    using summarized [of ?batches] by (simp add: summarize_generated_batches_def reads)
  with whole reads show ?thesis
    by (auto simp: Let_def o_def)
qed

text \<open>The options refuse a batch size of zero: such a reader would not end.\<close>

lemma read_batches_stuck:
  "reader_batch_size reader = 0 \<Longrightarrow> reader_next_offset reader < reader_rows reader \<Longrightarrow> read_batches reader = None"
proof (rule ccontr)
  assume zero: "reader_batch_size reader = 0" "reader_next_offset reader < reader_rows reader"
    and "read_batches reader \<noteq> None"
  then obtain batches where "read_batches reader = Some batches" by blast
  then have "\<not> (reader_batch_size reader = 0 \<and> reader_next_offset reader < reader_rows reader)"
    by (rule read_batches.raw_induct [rotated])
      (fastforce simp: reader_next_def Let_def bind_eq_Some_conv split: if_splits)
  with zero show False by simp
qed

subsection \<open>Planning the scenarios\<close>

text \<open>A field that plans wherever it stands, to a column of the direct encoder.\<close>

definition plannable :: "plan_options \<Rightarrow> arrow_field \<Rightarrow> bool" where
  "plannable options f \<longleftrightarrow> valid_identifier (Identifier (field_name f))
     \<and> (\<forall>i. \<exists>ty. plan_arrow_data_type i f options = Ok ty \<and> \<not> beyond_driver_scale ty)"

lemma failures_empty: "failures rs = [] \<longleftrightarrow> (\<forall>r \<in> set rs. is_ok r)"
proof (induction rs)
  case (Cons r rs)
  then show ?case by (cases r) simp_all
qed simp

lemma plannable_schema:
  assumes "list_all (plannable options) fs"
  shows "\<exists>out. plan_arrow_schema_to_mssql_schema fs profile options = Ok out
    \<and> length (planned_mappings (outcome_value out)) = length fs
    \<and> (\<exists>cols. direct_encoder_plan_new (planned_mappings (outcome_value out)) current_direct_support = Ok cols
        \<and> length cols = length fs)"
proof -
  have "is_ok (plan_arrow_field i (fs ! i) options)" if "i < length fs" for i
    using assms that
    by (force simp: list_all_length plannable_def plan_arrow_field_def is_ok_iff result_simps identifier_new_Ok)
  then have "failures (planned_fields options 0 fs) = []"
    by (auto simp: failures_empty planned_fields_def)
  then obtain out where out: "plan_arrow_schema_to_mssql_schema fs profile options = Ok out"
    by (simp add: plan_arrow_schema_to_mssql_schema_def plan_arrow_schema_inner_def plan_fields_spec has_errors_def)
  let ?ms = "planned_mappings (outcome_value out)"
  have "\<not> beyond_driver_scale (target_type (?ms ! i))" if "i < length fs" for i
  proof -
    from assms that have "\<exists>ty. plan_arrow_data_type i (fs ! i) options = Ok ty \<and> \<not> beyond_driver_scale ty"
      by (simp add: list_all_length plannable_def)
    with plan_arrow_field_Ok(5) [OF planned_mappings_nth(2) [OF out refl that]] show ?thesis by auto
  qed
  then have "\<forall>m \<in> set ?ms. current_direct_support m \<noteq> Unsupported"
    using planned_mapping_supported [OF out] planned_mappings_nth(1) [OF out refl]
    by (metis in_set_conv_nth)
  then obtain cols where cols: "direct_encoder_plan_new ?ms current_direct_support = Ok cols"
    by (auto simp: current_support.plan_new)
  from current_support.plan_new_Ok(1) [OF cols] planned_mappings_nth(1) [OF out refl] out cols show ?thesis
    by auto
qed

lemma padded_digits: "c \<in> set (padded width n) \<Longrightarrow> 48 \<le> c \<and> c \<le> 57"
  by (auto simp: padded_def dest: dec_digits)

lemma length_dec_two: "n < 100 \<Longrightarrow> length (dec n) \<le> 2"
  by (simp add: dec.simps [of n] dec.simps [of "n div 10"] div_less_iff_less_mult)

lemma valid_numbered_name:
  assumes "list_all (\<lambda>c. \<not> is_control (of_char c)) s" and "length s \<le> 64" and "n < 100"
  shows "valid_identifier (Identifier (lit s @ padded 2 n))" and "valid_identifier (Identifier (lit s @ dec n))"
  using assms length_dec_two [OF assms(3)]
  by (auto simp: valid_identifier_def Let_def list_all_iff is_control_def padded_def lit_def dest!: dec_digits)

lemma valid_literal_name:
  assumes "s \<noteq> []" and "list_all (\<lambda>c. \<not> is_control (of_char c)) s" and "length s \<le> 64"
  shows "valid_identifier (Identifier (lit s))"
  using assms by (auto simp: valid_identifier_def Let_def list_all_iff lit_def)

text \<open>The types of the scenarios, under options that keep the defaults but for \<^verbatim>\<open>UInt64\<close> and \<^verbatim>\<open>Date64\<close>.\<close>

lemma plannable_fields:
  assumes "options = plan_options_default\<lparr>uint64_policy := p, date64_policy := q\<rparr>"
  shows "ty \<in> {DtBoolean, DtInt8, DtInt16, DtInt32, DtInt64, DtUInt8, DtUInt16, DtUInt32, DtFloat32, DtFloat64,
       DtUtf8, DtBinary, DtDate32, DtTime32 Millisecond, DtTime64 Microsecond, DtTimestamp Millisecond None,
       DtFixedSizeBinary 16, DtFixedSizeBinary 4, DtFixedSizeBinary 64, DtDecimal128 18 4, DtDecimal128 12 4,
       DtDecimal128 15 2, DtDecimal128 18 2, DtDecimal128 10 4}
     \<Longrightarrow> plannable options (field name ty nullable) \<longleftrightarrow> valid_identifier (Identifier name)"
    and "p = PolDecimal20_0 \<Longrightarrow> plannable options (field name DtUInt64 nullable) \<longleftrightarrow> valid_identifier (Identifier name)"
    and "q = TimestampDateTime2 \<Longrightarrow> plannable options (field name DtDate64 nullable) \<longleftrightarrow> valid_identifier (Identifier name)"
  using assms
  by (auto simp: plannable_def field_def plan_arrow_data_type_def plan_cases plan_options_default_def
      beyond_driver_scale_def plan_arrow_decimal_def normalize_arrow_decimal_shape_def
      SQL_SERVER_MAX_DECIMAL_PRECISION_def SQL_SERVER_MAX_BINARY_LEN_def try_unsigned_def in_unsigned_def has_timezone_def)

lemma list_all_numbered:
  "list_all P (concat xss) \<longleftrightarrow> list_all (list_all P) xss" "list_all P (map f [0..<n]) \<longleftrightarrow> (\<forall>i < n. P (f i))"
  by (auto simp: list_all_iff)

lemmas name_simps = valid_literal_name valid_numbered_name list_all_numbered is_control_def

lemma schemas_plannable:
  assumes "options = plan_options_default\<lparr>uint64_policy := p, date64_policy := q\<rparr>"
  shows "list_all (plannable options) narrow_numeric_schema"
    and "list_all (plannable options) extended_primitive_schema"
    and "p = PolDecimal20_0 \<Longrightarrow> list_all (plannable options) uint64_policy_schema"
    and "q = TimestampDateTime2 \<Longrightarrow> list_all (plannable options) date_fast_path_schema"
    and "list_all (plannable options) mixed_nullable_schema"
    and "list_all (plannable options) wide_mixed_schema"
    and "list_all (plannable options) fixed_size_binary_schema"
    and "list_all (plannable options) decimal_temporal_schema"
    and "list_all (plannable options) fixed_width_128_schema"
    and "list_all (plannable options) decimal_temporal_128_schema"
    and "list_all (plannable options) string_heavy_schema"
    and "list_all (plannable options) wide_sparse_schema"
    and "list_all (plannable options) tpch_lineitem_like_schema"
  by (simp_all add: plannable_fields [OF assms] name_simps narrow_numeric_schema_def extended_primitive_schema_def
      uint64_policy_schema_def date_fast_path_schema_def mixed_nullable_schema_def wide_mixed_schema_def
      fixed_size_binary_schema_def decimal_temporal_schema_def fixed_width_128_schema_def
      decimal_temporal_128_schema_def decimal_temporal_128_fields_def string_heavy_schema_def wide_sparse_schema_def
      tpch_lineitem_like_schema_def)

lemma benchmark_plan_options_shape:
  "benchmark_plan_options scenario = plan_options_default
     \<lparr>uint64_policy := (if scenario_name scenario = lit ''uint64_policy'' then PolDecimal20_0 else uint64_policy plan_options_default),
      date64_policy := (if scenario_name scenario = lit ''date_fast_path'' then TimestampDateTime2
        else date64_policy plan_options_default)\<rparr>"
  by (simp add: benchmark_plan_options_def scenario_defs lit_def plan_options_default_def)

lemma scenario_plannable:
  assumes "scenario \<in> set SCENARIOS"
  shows "list_all (plannable (benchmark_plan_options scenario)) (scenario_schema scenario)"
  using assms schemas_plannable [OF benchmark_plan_options_shape]
  by (auto simp: SCENARIOS_def scenario_defs)

lemma refused_by_direct_raw:
  assumes "scenario \<in> set SCENARIOS"
  shows "ensure_direct_raw_supported_scenario (options\<lparr>bench_scenario := scenario\<rparr>) = Ok ()
    \<longleftrightarrow> scenario_name scenario \<notin> {lit ''wide_mixed'', lit ''tpch_lineitem_like''}"
  using assms
  by (auto simp: SCENARIOS_def ensure_direct_raw_supported_scenario_def DIRECT_RAW_SUPPORTED_SCENARIOS_def
      scenario_defs lit_def)

text \<open>scenarios_planned_direct: every scenario plans under its options and has a direct encoder, with one column
  per field. The benchmark still refuses two of them for the direct backends, \<^verbatim>\<open>wide_mixed\<close> and
  \<^verbatim>\<open>tpch_lineitem_like\<close>, with the message that they contain column types which the direct encoder does not
  implement.\<close>

theorem scenarios_planned_direct:
  assumes "scenario \<in> set SCENARIOS"
  shows "(\<exists>schema encoder. benchmark_mappings_for_scenario scenario = Ok schema
        \<and> encoder_new_with_context (planned_mappings schema) rt = Ok encoder
        \<and> length (encoder_plan encoder) = length (scenario_schema scenario))
    \<and> (ensure_direct_raw_supported_scenario (options\<lparr>bench_scenario := scenario\<rparr>) = Ok ()
        \<longleftrightarrow> scenario_name scenario \<notin> {lit ''wide_mixed'', lit ''tpch_lineitem_like''})"
proof -
  from plannable_schema [OF scenario_plannable [OF assms], of sql_server_2017_compat_100]
  obtain out cols where "plan_arrow_schema_to_mssql_schema (scenario_schema scenario) sql_server_2017_compat_100
      (benchmark_plan_options scenario) = Ok out"
    "direct_encoder_plan_new (planned_mappings (outcome_value out)) current_direct_support = Ok cols"
    "length cols = length (scenario_schema scenario)"
    by blast
  then show ?thesis
    using refused_by_direct_raw [OF assms]
    by (simp add: benchmark_mappings_for_scenario_def benchmark_mappings_for_schema_with_options_def
        encoder_new_with_context_def)
qed

theorem scenarios_planned_direct_witness:
  "(\<forall>rt. \<exists>schema encoder. benchmark_mappings_for_scenario WIDE_MIXED_SCENARIO = Ok schema
      \<and> encoder_new_with_context (planned_mappings schema) rt = Ok encoder \<and> length (encoder_plan encoder) = 8)
   \<and> ensure_direct_raw_supported_scenario (writer_bench_options_default\<lparr>bench_scenario := WIDE_MIXED_SCENARIO\<rparr>) \<noteq> Ok ()"
proof -
  have wide: "WIDE_MIXED_SCENARIO \<in> set SCENARIOS" "length (scenario_schema WIDE_MIXED_SCENARIO) = 8"
    "scenario_name WIDE_MIXED_SCENARIO = lit ''wide_mixed''"
    by (simp_all add: SCENARIOS_def WIDE_MIXED_SCENARIO_def wide_mixed_schema_def)
  with scenarios_planned_direct [OF wide(1), of _ writer_bench_options_default] show ?thesis
    by simp
qed

theorem generated_batches_partition_witness:
  "summarize_generated_batches (writer_bench_options_default
       \<lparr>bench_scenario := DECIMAL_TEMPORAL_128_SCENARIO, bench_rows := 2500, bench_batch_size := 1000\<rparr>)
     = Some (Ok \<lparr>summary_batches = 3, summary_rows = 2500\<rparr>)"
  using generated_batches_partition [of "writer_bench_options_default
       \<lparr>bench_scenario := DECIMAL_TEMPORAL_128_SCENARIO, bench_rows := 2500, bench_batch_size := 1000\<rparr>"]
  by (auto simp: SCENARIOS_def Let_def)

end
