(* ===== verification/RunnerIo.thy ===== *)
theory RunnerIo
  imports Binding
begin

text \<open>
  The native side of the ODBC BCP runner (\<^verbatim>\<open>xtask/odbc-bcp-runner/src/main.rs\<close>): connections, statements
  and the queries of the runner over the ODBC functions of the driver.

  A step of the runner takes the state of the outside world to a result and a new state, and is
  \<^verbatim>\<open>None\<close> when it does not return. The functions of the driver are parameters; a destructor is the call it makes.
  Errors are boxed messages that are only printed: the model keeps their kinds.
\<close>

subsection \<open>Steps of the runner\<close>

datatype runner_error =
    CallFailed i16
  | InteriorNul
  | NullText
  | TooManyRows
  | NoRow
  | InvalidText
  | InvalidNumber
  | MissingVariable rstr
  | EmptyVariable rstr
  | MissingOption
  | UnknownRunnerOption rstr
  | UnknownRunnerCommand rstr
  | NotPositive
  | MissingPlaceholder
  | PlaceholderInTable
  | UnsupportedArrowType data_type
  | ColumnsChanged
  | UnexpectedNull usize
  | ArrayMismatch
  | NegativeScale i8
  | MinimumDecimal
  | TimeOutOfRange
  | TimestampKind
  | NoBatches
  | InputRows usize usize
  | NegativeRows
  | ReportedRows u64 u64
  | CountMismatch u64 u64
  | InputFailure

type_synonym ('d, 'a) runner_step = "'d \<Rightarrow> ((runner_error + 'a) \<times> 'd) option"

definition ok_step :: "'a \<Rightarrow> ('d, 'a) runner_step" where
  "ok_step x d = Some (Ok x, d)"

definition of_result :: "runner_error + 'a \<Rightarrow> ('d, 'a) runner_step" where
  "of_result r d = Some (r, d)"

definition next_step :: "('d, 'a) runner_step \<Rightarrow> ('a \<Rightarrow> ('d, 'b) runner_step) \<Rightarrow> ('d, 'b) runner_step" where
  "next_step m f d =
     (case m d of None \<Rightarrow> None | Some (Err e, d) \<Rightarrow> Some (Err e, d) | Some (Ok x, d) \<Rightarrow> f x d)"

text \<open>A call into a library.\<close>

definition external :: "('d \<Rightarrow> 'a \<times> 'd) \<Rightarrow> ('d, 'a) runner_step" where
  "external f d = (let (x, d) = f d in Some (Ok x, d))"

text \<open>The destructor of a value runs however its scope ends.\<close>

definition dropping :: "('d \<Rightarrow> 'x \<times> 'd) \<Rightarrow> ('d, 'a) runner_step \<Rightarrow> ('d, 'a) runner_step" where
  "dropping destroy m d = (case m d of None \<Rightarrow> None | Some (r, d) \<Rightarrow> Some (r, snd (destroy d)))"

lemma next_step_simps [simp]:
  "next_step (ok_step x) f = f x" "next_step (of_result (Inr x)) f = f x" "next_step (of_result (Inl e)) f = of_result (Inl e)"
  "ok_step x d = Some (Ok x, d)" "of_result r d = Some (r, d)"
  by (simp_all add: next_step_def ok_step_def of_result_def fun_eq_iff)

lemma next_step_ok:
  "next_step m f d = Some (Ok y, d'') \<longleftrightarrow> (\<exists>x d'. m d = Some (Ok x, d') \<and> f x d' = Some (Ok y, d''))"
  by (auto simp: next_step_def split: option.split sum.split)

lemma next_step_some:
  "next_step m f d = Some (r, d'') \<longleftrightarrow>
     (\<exists>e. m d = Some (Err e, d'') \<and> r = Err e) \<or> (\<exists>x d'. m d = Some (Ok x, d') \<and> f x d' = Some (r, d''))"
  by (auto simp: next_step_def split: option.split sum.split)

lemma external_some: "external f d = Some (r, d') \<longleftrightarrow> r = Ok (fst (f d)) \<and> d' = snd (f d)"
  by (auto simp: external_def case_prod_beta)

subsection \<open>Text from the driver\<close>

definition c_string :: "rstr \<Rightarrow> runner_error + bytes" where
  "c_string v = (if 0 \<in> set v then Err InteriorNul else Ok (map of_nat (utf8_bytes v)))"

definition is_whitespace :: "nat \<Rightarrow> bool" where
  "is_whitespace c \<longleftrightarrow> (9 \<le> c \<and> c \<le> 13) \<or> c = 32 \<or> c = 0x85 \<or> c = 0xa0 \<or> c = 0x1680 \<or> (0x2000 \<le> c \<and> c \<le> 0x200a)
     \<or> c = 0x2028 \<or> c = 0x2029 \<or> c = 0x202f \<or> c = 0x205f \<or> c = 0x3000"

definition trim_text :: "rstr \<Rightarrow> rstr" where
  "trim_text v = rev (dropWhile is_whitespace (rev (dropWhile is_whitespace v)))"

text \<open>\<^verbatim>\<open>parse\<close> of an integer: a sign where the type has one, digits, and a value in range.\<close>

definition parse_digits :: "rstr \<Rightarrow> nat option" where
  "parse_digits v = (if v \<noteq> [] \<and> list_all (\<lambda>c. 48 \<le> c \<and> c \<le> 57) v then Some (undec v) else None)"

definition parse_unsigned :: "nat \<Rightarrow> rstr \<Rightarrow> runner_error + nat" where
  "parse_unsigned bits v =
     (case parse_digits (case v of c # cs \<Rightarrow> if c = 43 then cs else v | [] \<Rightarrow> v) of
        Some n \<Rightarrow> (if n < 2 ^ bits then Ok n else Err InvalidNumber)
      | None \<Rightarrow> Err InvalidNumber)"

definition parse_signed :: "nat \<Rightarrow> rstr \<Rightarrow> runner_error + int" where
  "parse_signed bits v =
     (case (case v of c # cs \<Rightarrow> if c = 45 then map_option (\<lambda>n. - int n) (parse_digits cs)
          else map_option int (parse_digits (if c = 43 then cs else v)) | [] \<Rightarrow> None) of
        Some x \<Rightarrow> (if - (2 ^ (bits - 1)) \<le> x \<and> x < 2 ^ (bits - 1) then Ok x else Err InvalidNumber)
      | None \<Rightarrow> Err InvalidNumber)"

text \<open>\<^verbatim>\<open>str::from_utf8\<close>: well-formed UTF-8 and nothing else.\<close>

definition continuation :: "nat \<Rightarrow> bool" where
  "continuation b \<longleftrightarrow> 0x80 \<le> b \<and> b < 0xc0"

fun utf8_scalars :: "nat list \<Rightarrow> rstr option" where
  "utf8_scalars [] = Some []"
| "utf8_scalars (a # rest) =
     (if a < 0x80 then map_option ((#) a) (utf8_scalars rest)
      else if a < 0xe0 then
        (case rest of
           b # rest \<Rightarrow>
             if 0xc2 \<le> a \<and> continuation b
             then map_option ((#) ((a - 0xc0) * 64 + (b - 0x80))) (utf8_scalars rest) else None
         | _ \<Rightarrow> None)
      else if a < 0xf0 then
        (case rest of
           b # c # rest \<Rightarrow>
             (let v = (a - 0xe0) * 4096 + (b - 0x80) * 64 + (c - 0x80) in
              if continuation b \<and> continuation c \<and> 0x800 \<le> v \<and> scalar_value v
              then map_option ((#) v) (utf8_scalars rest) else None)
         | _ \<Rightarrow> None)
      else
        (case rest of
           b # c # e # rest \<Rightarrow>
             (let v = (a - 0xf0) * 262144 + (b - 0x80) * 4096 + (c - 0x80) * 64 + (e - 0x80) in
              if a < 0xf5 \<and> continuation b \<and> continuation c \<and> continuation e \<and> 0x10000 \<le> v \<and> scalar_value v
              then map_option ((#) v) (utf8_scalars rest) else None)
         | _ \<Rightarrow> None))"

definition from_utf8 :: "bytes \<Rightarrow> runner_error + rstr" where
  "from_utf8 bs = ok_or InvalidText (utf8_scalars (map unat bs))"

text \<open>A buffer up to its first NUL byte.\<close>

definition buffer_text :: "bytes \<Rightarrow> runner_error + rstr" where
  "buffer_text buffer = from_utf8 (takeWhile (\<lambda>byte. byte \<noteq> 0) buffer)"

subsection \<open>The ODBC functions\<close>

type_synonym handle = nat

definition null_handle :: handle where "null_handle = 0"

definition SQL_SUCCESS :: i16 where "SQL_SUCCESS = 0"
definition SQL_SUCCESS_WITH_INFO :: i16 where "SQL_SUCCESS_WITH_INFO = 1"
definition SQL_NO_DATA :: i16 where "SQL_NO_DATA = 100"
definition SQL_HANDLE_ENV :: i16 where "SQL_HANDLE_ENV = 1"
definition SQL_HANDLE_DBC :: i16 where "SQL_HANDLE_DBC = 2"
definition SQL_HANDLE_STMT :: i16 where "SQL_HANDLE_STMT = 3"
definition SQL_ATTR_ODBC_VERSION :: i32 where "SQL_ATTR_ODBC_VERSION = 200"
definition SQL_OV_ODBC3 :: i64 where "SQL_OV_ODBC3 = 3"
definition SQL_DRIVER_NOPROMPT :: u16 where "SQL_DRIVER_NOPROMPT = 0"
definition SQL_NTS :: i16 where "SQL_NTS = - 3"
definition SQL_IS_INTEGER :: i32 where "SQL_IS_INTEGER = - 6"
definition SQL_C_CHAR :: i16 where "SQL_C_CHAR = 1"
definition SQL_COPT_SS_BCP :: i32 where "SQL_COPT_SS_BCP = 1219"
definition SQL_BCP_ON :: i64 where "SQL_BCP_ON = 1"

text \<open>What a function writes through its pointers is part of what it returns: the new handle, or a buffer of the
  given size and an indicator.\<close>

record 'd odbc_api =
  sql_alloc_handle :: "i16 \<Rightarrow> handle \<Rightarrow> 'd \<Rightarrow> (i16 \<times> handle) \<times> 'd"
  sql_disconnect :: "handle \<Rightarrow> 'd \<Rightarrow> i16 \<times> 'd"
  sql_driver_connect :: "handle \<Rightarrow> bytes \<Rightarrow> i16 \<Rightarrow> u16 \<Rightarrow> 'd \<Rightarrow> i16 \<times> 'd"
  sql_exec_direct :: "handle \<Rightarrow> bytes \<Rightarrow> i32 \<Rightarrow> 'd \<Rightarrow> i16 \<times> 'd"
  sql_fetch :: "handle \<Rightarrow> 'd \<Rightarrow> i16 \<times> 'd"
  sql_free_handle :: "i16 \<Rightarrow> handle \<Rightarrow> 'd \<Rightarrow> i16 \<times> 'd"
  sql_get_data :: "handle \<Rightarrow> u16 \<Rightarrow> i16 \<Rightarrow> usize \<Rightarrow> 'd \<Rightarrow> (i16 \<times> bytes \<times> i64) \<times> 'd"
  sql_set_connect_attr :: "handle \<Rightarrow> i32 \<Rightarrow> i64 \<Rightarrow> i32 \<Rightarrow> 'd \<Rightarrow> i16 \<times> 'd"
  sql_set_env_attr :: "handle \<Rightarrow> i32 \<Rightarrow> i64 \<Rightarrow> i32 \<Rightarrow> 'd \<Rightarrow> i16 \<times> 'd"

definition require_odbc_success :: "i16 \<Rightarrow> runner_error + unit" where
  "require_odbc_success code =
     (if code = SQL_SUCCESS \<or> code = SQL_SUCCESS_WITH_INFO then Ok () else Err (CallFailed code))"

definition odbc_call :: "('d \<Rightarrow> i16 \<times> 'd) \<Rightarrow> ('d, unit) runner_step" where
  "odbc_call f = next_step (external f) (\<lambda>code. of_result (require_odbc_success code))"

subsection \<open>Connections\<close>

record raw_connection =
  conn_henv :: handle
  conn_hdbc :: handle
  conn_connected :: bool

definition free_handle :: "'d odbc_api \<Rightarrow> i16 \<Rightarrow> handle \<Rightarrow> 'd \<Rightarrow> unit \<times> 'd" where
  "free_handle api kind h d = (let (_, d) = sql_free_handle api kind h d in ((), d))"

definition drop_connection :: "'d odbc_api \<Rightarrow> raw_connection \<Rightarrow> 'd \<Rightarrow> unit \<times> 'd" where
  "drop_connection api conn d =
     (let d = (if conn_connected conn then snd (sql_disconnect api (conn_hdbc conn) d) else d);
          d = snd (free_handle api SQL_HANDLE_DBC (conn_hdbc conn) d) in
      free_handle api SQL_HANDLE_ENV (conn_henv conn) d)"

text \<open>A failing step after an allocation frees the environment handle and returns the error.\<close>

definition or_free :: "'d odbc_api \<Rightarrow> i16 \<Rightarrow> handle \<Rightarrow> ('d, 'a) runner_step \<Rightarrow> ('d, 'a) runner_step" where
  "or_free api kind h m d =
     (case m d of Some (Err e, d) \<Rightarrow> Some (Err e, snd (free_handle api kind h d)) | outcome \<Rightarrow> outcome)"

definition alloc_handle :: "'d odbc_api \<Rightarrow> i16 \<Rightarrow> handle \<Rightarrow> ('d, handle) runner_step" where
  "alloc_handle api kind parent =
     next_step (external (sql_alloc_handle api kind parent)) (\<lambda>(code, h).
     next_step (of_result (require_odbc_success code)) (\<lambda>_. ok_step h))"

definition connection_allocate :: "'d odbc_api \<Rightarrow> ('d, raw_connection) runner_step" where
  "connection_allocate api =
     next_step (alloc_handle api SQL_HANDLE_ENV null_handle) (\<lambda>henv.
     next_step (or_free api SQL_HANDLE_ENV henv
       (odbc_call (sql_set_env_attr api henv SQL_ATTR_ODBC_VERSION SQL_OV_ODBC3 0))) (\<lambda>_.
     next_step (or_free api SQL_HANDLE_ENV henv (alloc_handle api SQL_HANDLE_DBC henv)) (\<lambda>hdbc.
     ok_step \<lparr>conn_henv = henv, conn_hdbc = hdbc, conn_connected = False\<rparr>)))"

definition enable_bcp :: "'d odbc_api \<Rightarrow> raw_connection \<Rightarrow> ('d, unit) runner_step" where
  "enable_bcp api conn =
     odbc_call (sql_set_connect_attr api (conn_hdbc conn) SQL_COPT_SS_BCP SQL_BCP_ON SQL_IS_INTEGER)"

definition driver_connect :: "'d odbc_api \<Rightarrow> rstr \<Rightarrow> raw_connection \<Rightarrow> ('d, raw_connection) runner_step" where
  "driver_connect api connection_string conn =
     next_step (of_result (c_string connection_string)) (\<lambda>connection_string.
     next_step (odbc_call (sql_driver_connect api (conn_hdbc conn) connection_string SQL_NTS SQL_DRIVER_NOPROMPT)) (\<lambda>_.
     ok_step (conn\<lparr>conn_connected := True\<rparr>)))"

text \<open>A connection that is not returned is dropped.\<close>

definition connection_connect :: "'d odbc_api \<Rightarrow> rstr \<Rightarrow> ('d, raw_connection) runner_step" where
  "connection_connect api connection_string =
     next_step (connection_allocate api) (\<lambda>conn d.
       case next_step (enable_bcp api conn) (\<lambda>_. driver_connect api connection_string conn) d of
         Some (Err e, d) \<Rightarrow> Some (Err e, snd (drop_connection api conn d))
       | outcome \<Rightarrow> outcome)"

subsection \<open>Statements\<close>

definition with_statement ::
    "'d odbc_api \<Rightarrow> raw_connection \<Rightarrow> (handle \<Rightarrow> ('d, 'a) runner_step) \<Rightarrow> ('d, 'a) runner_step" where
  "with_statement api conn use =
     next_step (alloc_handle api SQL_HANDLE_STMT (conn_hdbc conn)) (\<lambda>hstmt.
     dropping (free_handle api SQL_HANDLE_STMT hstmt) (use hstmt))"

definition execute_sql :: "'d odbc_api \<Rightarrow> raw_connection \<Rightarrow> rstr \<Rightarrow> ('d, unit) runner_step" where
  "execute_sql api conn sql =
     next_step (of_result (c_string sql)) (\<lambda>sql.
     with_statement api conn (\<lambda>hstmt. odbc_call (sql_exec_direct api hstmt sql (scast SQL_NTS))))"

definition text_column :: "'d odbc_api \<Rightarrow> handle \<Rightarrow> u16 \<Rightarrow> ('d, rstr option) runner_step" where
  "text_column api hstmt column =
     next_step (external (sql_get_data api hstmt column SQL_C_CHAR 256)) (\<lambda>(code, buffer, indicator).
     next_step (of_result (require_odbc_success code)) (\<lambda>_.
     if sint indicator < 0 then ok_step None
     else next_step (of_result (buffer_text buffer)) (\<lambda>v. ok_step (Some v))))"

primrec text_columns :: "'d odbc_api \<Rightarrow> handle \<Rightarrow> usize list \<Rightarrow> rstr option list \<Rightarrow> ('d, rstr option list) runner_step" where
  "text_columns api hstmt [] row = ok_step row"
| "text_columns api hstmt (column # columns) row =
     (if 2 ^ 16 \<le> column then of_result (Err InvalidNumber)
      else next_step (text_column api hstmt (of_nat column)) (\<lambda>v. text_columns api hstmt columns (row @ [v])))"

partial_function (option) fetch_rows ::
    "'d odbc_api \<Rightarrow> handle \<Rightarrow> usize \<Rightarrow> rstr option list list \<Rightarrow> 'd \<Rightarrow> ((runner_error + rstr option list list) \<times> 'd) option" where
  "fetch_rows api hstmt columns rows d =
     (let (code, d) = sql_fetch api hstmt d in
      if code = SQL_NO_DATA then Some (Ok rows, d)
      else
        case require_odbc_success code of
          Err e \<Rightarrow> Some (Err e, d)
        | Ok _ \<Rightarrow>
            (case text_columns api hstmt [1..<columns + 1] [] d of
               None \<Rightarrow> None
             | Some (Err e, d) \<Rightarrow> Some (Err e, d)
             | Some (Ok row, d) \<Rightarrow> fetch_rows api hstmt columns (rows @ [row]) d))"

definition text_rows ::
    "'d odbc_api \<Rightarrow> raw_connection \<Rightarrow> rstr \<Rightarrow> usize \<Rightarrow> ('d, rstr option list list) runner_step" where
  "text_rows api conn sql columns =
     next_step (of_result (c_string sql)) (\<lambda>sql.
     with_statement api conn (\<lambda>hstmt.
       next_step (odbc_call (sql_exec_direct api hstmt sql (scast SQL_NTS))) (\<lambda>_.
       fetch_rows api hstmt columns [])))"

definition select_count_query :: "'d odbc_api \<Rightarrow> raw_connection \<Rightarrow> rstr \<Rightarrow> ('d, u64) runner_step" where
  "select_count_query api conn sql =
     next_step (of_result (c_string sql)) (\<lambda>sql.
     with_statement api conn (\<lambda>hstmt.
       next_step (odbc_call (sql_exec_direct api hstmt sql (scast SQL_NTS))) (\<lambda>_.
       next_step (odbc_call (sql_fetch api hstmt)) (\<lambda>_.
       next_step (external (sql_get_data api hstmt 1 SQL_C_CHAR 64)) (\<lambda>(code, buffer, indicator).
       next_step (of_result (require_odbc_success code)) (\<lambda>_.
       if sint indicator < 0 then of_result (Err NullText)
       else
         next_step (of_result (buffer_text buffer)) (\<lambda>v.
         next_step (external (sql_fetch api hstmt)) (\<lambda>no_more_rows.
         if no_more_rows \<noteq> SQL_NO_DATA then of_result (Err TooManyRows)
         else of_result (map_ok of_nat (parse_unsigned 64 (trim_text v)))))))))))"

definition select_count :: "'d odbc_api \<Rightarrow> raw_connection \<Rightarrow> rstr \<Rightarrow> ('d, u64) runner_step" where
  "select_count api conn table = select_count_query api conn (lit ''SELECT COUNT_BIG(*) FROM '' @ table)"

subsection \<open>Handles are released\<close>

text \<open>The handles an ODBC driver holds: each with the handle it was allocated on, and the open connections.
  What the functions are documented to do with them: a new handle is none of those held; a handle is freed unless
  handles are left on it, or it is a connection that is still open.\<close>

record odbc_view =
  held_handles :: "(i16 \<times> handle) \<rightharpoonup> handle"
  open_connections :: "handle set"

definition fresh_handle :: "odbc_view \<Rightarrow> handle \<Rightarrow> bool" where
  "fresh_handle v h \<longleftrightarrow> (\<forall>kind. (kind, h) \<notin> dom (held_handles v)) \<and> h \<notin> ran (held_handles v)
     \<and> h \<notin> open_connections v \<and> h \<noteq> null_handle"

definition hold_handle :: "i16 \<Rightarrow> handle \<Rightarrow> handle \<Rightarrow> odbc_view \<Rightarrow> odbc_view" where
  "hold_handle kind h parent v = v\<lparr>held_handles := (held_handles v)((kind, h) \<mapsto> parent)\<rparr>"

definition release_handle :: "i16 \<Rightarrow> handle \<Rightarrow> odbc_view \<Rightarrow> odbc_view" where
  "release_handle kind h v =
     (if h \<notin> ran (held_handles v) \<and> (kind = SQL_HANDLE_DBC \<longrightarrow> h \<notin> open_connections v)
      then v\<lparr>held_handles := (held_handles v)((kind, h) := None)\<rparr> else v)"

definition odbc_success :: "i16 \<Rightarrow> bool" where
  "odbc_success code \<longleftrightarrow> require_odbc_success code = Ok ()"

definition documented_odbc :: "'d odbc_api \<Rightarrow> ('d \<Rightarrow> odbc_view) \<Rightarrow> bool" where
  "documented_odbc api view \<longleftrightarrow>
     (\<forall>kind parent d code h d'. sql_alloc_handle api kind parent d = ((code, h), d') \<longrightarrow>
        (if odbc_success code then fresh_handle (view d) h \<and> h \<noteq> parent \<and> view d' = hold_handle kind h parent (view d)
         else view d' = view d))
     \<and> (\<forall>kind h d. view (snd (sql_free_handle api kind h d)) = release_handle kind h (view d))
     \<and> (\<forall>h text len prompt d code d'. sql_driver_connect api h text len prompt d = (code, d') \<longrightarrow>
          view d' = (if odbc_success code then view d\<lparr>open_connections := insert h (open_connections (view d))\<rparr>
            else view d))
     \<and> (\<forall>h d. view (snd (sql_disconnect api h d)) = view d\<lparr>open_connections := open_connections (view d) - {h}\<rparr>)
     \<and> (\<forall>h sql len d. view (snd (sql_exec_direct api h sql len d)) = view d)
     \<and> (\<forall>h d. view (snd (sql_fetch api h d)) = view d)
     \<and> (\<forall>h column ctype len d. view (snd (sql_get_data api h column ctype len d)) = view d)
     \<and> (\<forall>h attr v len d. view (snd (sql_set_connect_attr api h attr v len d)) = view d)
     \<and> (\<forall>h attr v len d. view (snd (sql_set_env_attr api h attr v len d)) = view d)"

text \<open>Steps that leave the handles alone.\<close>

definition keeps :: "('d \<Rightarrow> 'v) \<Rightarrow> ('d, 'a) runner_step \<Rightarrow> bool" where
  "keeps view m \<longleftrightarrow> (\<forall>d r d'. m d = Some (r, d') \<longrightarrow> view d' = view d)"

lemma keeps_simple [simp]: "keeps view (ok_step x)" "keeps view (of_result r)"
  by (auto simp: keeps_def ok_step_def of_result_def)

lemma keeps_next_step: "keeps view m \<Longrightarrow> (\<And>x. keeps view (f x)) \<Longrightarrow> keeps view (next_step m f)"
  unfolding keeps_def next_step_some by metis

lemma keeps_external: "(\<And>d. view (snd (f d)) = view d) \<Longrightarrow> keeps view (external f)"
  by (simp add: keeps_def external_some)

lemma keeps_odbc_call: "(\<And>d. view (snd (f d)) = view d) \<Longrightarrow> keeps view (odbc_call f)"
  by (simp add: odbc_call_def keeps_next_step keeps_external)

lemma alloc_handle_held:
  assumes "documented_odbc api view" and "alloc_handle api kind parent d = Some (r, d')"
  shows "case r of Ok h \<Rightarrow> fresh_handle (view d) h \<and> h \<noteq> parent \<and> view d' = hold_handle kind h parent (view d)
    | Err _ \<Rightarrow> view d' = view d"
proof -
  obtain code h d1 where call: "sql_alloc_handle api kind parent d = ((code, h), d1)"
    by (metis prod.exhaust)
  have "\<forall>kind parent d code h d'. sql_alloc_handle api kind parent d = ((code, h), d') \<longrightarrow>
      (if odbc_success code then fresh_handle (view d) h \<and> h \<noteq> parent \<and> view d' = hold_handle kind h parent (view d)
       else view d' = view d)"
    using assms(1) unfolding documented_odbc_def by (rule conjunct1)
  with call have "if odbc_success code then fresh_handle (view d) h \<and> h \<noteq> parent \<and> view d1 = hold_handle kind h parent (view d)
      else view d1 = view d"
    by simp
  with assms(2) call show ?thesis
    by (cases "require_odbc_success code")
      (auto simp: alloc_handle_def next_step_some external_some odbc_success_def split: if_splits)
qed

lemma ran_hold: "(kind, h) \<notin> dom m \<Longrightarrow> ran (m((kind, h) \<mapsto> parent)) = insert parent (ran m)"
  by (rule ran_map_upd) auto

lemma release_held:
  "fresh_handle v h \<Longrightarrow> h \<noteq> parent \<Longrightarrow> release_handle kind h (hold_handle kind h parent v) = v"
  by (auto simp: release_handle_def hold_handle_def fresh_handle_def ran_hold fun_eq_iff domIff intro!: odbc_view.equality)

lemma view_free:
  "documented_odbc api view \<Longrightarrow> view (snd (free_handle api kind h d)) = release_handle kind h (view d)"
  by (simp add: documented_odbc_def free_handle_def case_prod_beta)

lemma with_statement_keeps:
  assumes "documented_odbc api view" and "\<And>h. keeps view (use h)"
  shows "keeps view (with_statement api conn use)"
  unfolding keeps_def
proof (intro allI impI)
  fix d r d'
  assume "with_statement api conn use d = Some (r, d')"
  then consider (failed) e where "alloc_handle api SQL_HANDLE_STMT (conn_hdbc conn) d = Some (Err e, d')"
    | (ran) h d1 d2 where "alloc_handle api SQL_HANDLE_STMT (conn_hdbc conn) d = Some (Ok h, d1)"
        "use h d1 = Some (r, d2)" "d' = snd (free_handle api SQL_HANDLE_STMT h d2)"
    by (auto simp: with_statement_def next_step_some dropping_def split: option.splits)
  then show "view d' = view d"
  proof cases
    case failed
    with alloc_handle_held [OF assms(1)] show ?thesis by fastforce
  next
    case ran
    from alloc_handle_held [OF assms(1) ran(1)] have held: "fresh_handle (view d) h" "h \<noteq> conn_hdbc conn"
      "view d1 = hold_handle SQL_HANDLE_STMT h (conn_hdbc conn) (view d)" by simp_all
    have "view d2 = view d1"
      using assms(2) ran(2) unfolding keeps_def by blast
    with held ran(3) show ?thesis
      by (simp add: view_free [OF assms(1)] release_held)
  qed
qed

lemma keeps_calls:
  assumes "documented_odbc api view"
  shows "view (snd (sql_exec_direct api h sql len d)) = view d" and "view (snd (sql_fetch api h d)) = view d"
    and "view (snd (sql_get_data api h column ctype buffer_len d)) = view d"
    and "view (snd (sql_set_connect_attr api h attr v len d)) = view d"
    and "view (snd (sql_set_env_attr api h attr v len d)) = view d"
  using assms by (simp_all add: documented_odbc_def)

lemma keeps_case_prod: "(\<And>a b. keeps view (f a b)) \<Longrightarrow> keeps view (case p of (a, b) \<Rightarrow> f a b)"
  by (cases p) simp

lemmas keeps_intros = keeps_next_step keeps_external keeps_odbc_call keeps_case_prod with_statement_keeps

lemma text_column_keeps: "documented_odbc api view \<Longrightarrow> keeps view (text_column api h column)"
  unfolding text_column_def by (auto intro!: keeps_intros keeps_calls)

lemma text_columns_keeps: "documented_odbc api view \<Longrightarrow> keeps view (text_columns api h columns row)"
  by (induction columns arbitrary: row) (auto intro!: keeps_intros text_column_keeps)

lemma keepsD: "keeps view m \<Longrightarrow> m d = Some (r, d') \<Longrightarrow> view d' = view d"
  by (auto simp: keeps_def)

lemma fetch_rows_keeps:
  assumes "fetch_rows api h columns rows d = Some out"
  shows "documented_odbc api view \<longrightarrow> view (snd out) = view d"
  using assms
proof (rule fetch_rows.raw_induct [where P = "\<lambda>api h columns rows d out. documented_odbc api view \<longrightarrow> view (snd out) = view d",
      rotated])
  fix fetch api h columns rows d out
  assume hyp: "\<And>api h columns rows d out. fetch api h columns rows d = Some out
      \<Longrightarrow> documented_odbc api view \<longrightarrow> view (snd out) = view d"
    and body: "(let (code, d) = sql_fetch api h d in
      if code = SQL_NO_DATA then Some (Ok rows, d)
      else
        case require_odbc_success code of
          Err e \<Rightarrow> Some (Err e, d)
        | Ok _ \<Rightarrow>
            (case text_columns api h [1..<columns + 1] [] d of
               None \<Rightarrow> None
             | Some (Err e, d) \<Rightarrow> Some (Err e, d)
             | Some (Ok row, d) \<Rightarrow> fetch api h columns (rows @ [row]) d)) = Some out"
  show "documented_odbc api view \<longrightarrow> view (snd out) = view d"
  proof
    assume doc: "documented_odbc api view"
    obtain code d1 where fetch: "sql_fetch api h d = (code, d1)" by (metis prod.exhaust)
    with keeps_calls(2) [OF doc] have d1: "view d1 = view d" by (metis snd_conv)
    have row: "text_columns api h cs [] d1 = Some (r, d2) \<Longrightarrow> view d2 = view d1" for cs r d2
      by (rule keepsD [OF text_columns_keeps [OF doc]])
    from body fetch d1 show "view (snd out) = view d"
      by (auto split: if_splits sum.splits option.splits dest!: row hyp simp: doc simp del: upt_Suc)
  qed
qed

lemma or_free_some:
  "or_free api kind h m d = Some (r, d') \<longleftrightarrow>
     (case r of Ok _ \<Rightarrow> m d = Some (r, d')
      | Err e \<Rightarrow> \<exists>d1. m d = Some (Err e, d1) \<and> d' = snd (free_handle api kind h d1))"
  by (auto simp: or_free_def split: option.split sum.split)

lemma connection_allocate_held:
  assumes "documented_odbc api view" and "connection_allocate api d = Some (r, d')"
  shows "case r of
      Err _ \<Rightarrow> view d' = view d
    | Ok conn \<Rightarrow> \<not> conn_connected conn \<and> fresh_handle (view d) (conn_henv conn) \<and> conn_henv conn \<noteq> null_handle
        \<and> fresh_handle (hold_handle SQL_HANDLE_ENV (conn_henv conn) null_handle (view d)) (conn_hdbc conn)
        \<and> conn_hdbc conn \<noteq> conn_henv conn
        \<and> view d' = hold_handle SQL_HANDLE_DBC (conn_hdbc conn) (conn_henv conn)
            (hold_handle SQL_HANDLE_ENV (conn_henv conn) null_handle (view d))"
proof -
  note alloc = alloc_handle_held [OF assms(1)] and free = view_free [OF assms(1)]
  have env: "odbc_call (sql_set_env_attr api h attr v len) d1 = Some (r, d2) \<Longrightarrow> view d2 = view d1" for h attr v len d1 r d2
    by (rule keepsD [OF keeps_odbc_call]) (rule keeps_calls [OF assms(1)])
  consider (env) e where "alloc_handle api SQL_HANDLE_ENV null_handle d = Some (Err e, d')" "r = Err e"
    | (held) henv d1 where "alloc_handle api SQL_HANDLE_ENV null_handle d = Some (Ok henv, d1)"
        "next_step (or_free api SQL_HANDLE_ENV henv
          (odbc_call (sql_set_env_attr api henv SQL_ATTR_ODBC_VERSION SQL_OV_ODBC3 0))) (\<lambda>_.
        next_step (or_free api SQL_HANDLE_ENV henv (alloc_handle api SQL_HANDLE_DBC henv)) (\<lambda>hdbc.
          ok_step \<lparr>conn_henv = henv, conn_hdbc = hdbc, conn_connected = False\<rparr>)) d1 = Some (r, d')"
    using assms(2) unfolding connection_allocate_def next_step_some by blast
  then show ?thesis
  proof cases
    case env
    then show ?thesis using alloc [OF env(1)] by simp
  next
    case held
    from alloc [OF held(1)] have henv: "fresh_handle (view d) henv" "henv \<noteq> null_handle"
      "view d1 = hold_handle SQL_HANDLE_ENV henv null_handle (view d)" by simp_all
    have restored: "view d2 = view d1 \<Longrightarrow> view (snd (free_handle api SQL_HANDLE_ENV henv d2)) = view d" for d2
      using henv by (simp add: free release_held)
    from held(2) consider
        (attr) e d2 where "odbc_call (sql_set_env_attr api henv SQL_ATTR_ODBC_VERSION SQL_OV_ODBC3 0) d1 = Some (Err e, d2)"
          "r = Err e" "d' = snd (free_handle api SQL_HANDLE_ENV henv d2)"
      | (dbc) d2 e d3 where "odbc_call (sql_set_env_attr api henv SQL_ATTR_ODBC_VERSION SQL_OV_ODBC3 0) d1 = Some (Ok (), d2)"
          "alloc_handle api SQL_HANDLE_DBC henv d2 = Some (Err e, d3)" "r = Err e"
          "d' = snd (free_handle api SQL_HANDLE_ENV henv d3)"
      | (conn) d2 hdbc where "odbc_call (sql_set_env_attr api henv SQL_ATTR_ODBC_VERSION SQL_OV_ODBC3 0) d1 = Some (Ok (), d2)"
          "alloc_handle api SQL_HANDLE_DBC henv d2 = Some (Ok hdbc, d')"
          "r = Ok \<lparr>conn_henv = henv, conn_hdbc = hdbc, conn_connected = False\<rparr>"
      by (auto simp: next_step_some or_free_some)
    then show ?thesis
    proof cases
      case attr
      then show ?thesis using env [OF attr(1)] by (simp add: restored)
    next
      case dbc
      then show ?thesis using env [OF dbc(1)] alloc [OF dbc(2)] by (simp add: restored)
    next
      case conn
      then show ?thesis using env [OF conn(1)] alloc [OF conn(2)] henv by simp
    qed
  qed
qed

text \<open>What dropping a connection releases, whether it was connected or not.\<close>

lemma drop_connection_held:
  assumes "documented_odbc api view"
    and "fresh_handle v (conn_henv conn)" and "conn_henv conn \<noteq> null_handle"
    and "fresh_handle (hold_handle SQL_HANDLE_ENV (conn_henv conn) null_handle v) (conn_hdbc conn)"
    and "conn_hdbc conn \<noteq> conn_henv conn"
    and "view d = (hold_handle SQL_HANDLE_DBC (conn_hdbc conn) (conn_henv conn)
        (hold_handle SQL_HANDLE_ENV (conn_henv conn) null_handle v))
          \<lparr>open_connections := (if conn_connected conn then insert (conn_hdbc conn) else id) (open_connections v)\<rparr>"
  shows "view (snd (drop_connection api conn d)) = v"
proof -
  let ?v1 = "hold_handle SQL_HANDLE_ENV (conn_henv conn) null_handle v"
  let ?d = "if conn_connected conn then snd (sql_disconnect api (conn_hdbc conn) d) else d"
  have closed: "conn_hdbc conn \<notin> open_connections v"
    using assms(4) by (simp add: fresh_handle_def hold_handle_def)
  have "view ?d = hold_handle SQL_HANDLE_DBC (conn_hdbc conn) (conn_henv conn) ?v1"
    using assms(1,6) closed by (auto simp: documented_odbc_def hold_handle_def)
  then have "view (snd (free_handle api SQL_HANDLE_DBC (conn_hdbc conn) ?d)) = ?v1"
    using assms(4,5) by (simp add: view_free [OF assms(1)] release_held)
  then have "view (snd (free_handle api SQL_HANDLE_ENV (conn_henv conn)
      (snd (free_handle api SQL_HANDLE_DBC (conn_hdbc conn) ?d)))) = v"
    using assms(2,3) by (simp add: view_free [OF assms(1)] release_held)
  then show ?thesis
    by (simp add: drop_connection_def Let_def)
qed

lemma connection_connect_held:
  assumes "documented_odbc api view" and "connection_connect api connection_string d = Some (r, d')"
  shows "case r of
      Err _ \<Rightarrow> view d' = view d
    | Ok conn \<Rightarrow> view d' = hold_handle SQL_HANDLE_DBC (conn_hdbc conn) (conn_henv conn)
            (hold_handle SQL_HANDLE_ENV (conn_henv conn) null_handle
              (view d\<lparr>open_connections := insert (conn_hdbc conn) (open_connections (view d))\<rparr>))
        \<and> (\<forall>d''. view d'' = view d' \<longrightarrow> view (snd (drop_connection api conn d'')) = view d)"
proof (cases "connection_allocate api d")
  case None
  with assms(2) show ?thesis by (simp add: connection_connect_def next_step_def)
next
  case (Some out)
  obtain q d1 where out: "out = (q, d1)" by (metis prod.exhaust)
  note held = connection_allocate_held [OF assms(1) Some [unfolded out]]
  show ?thesis
  proof (cases q)
    case (Inl e)
    with assms(2) Some out held show ?thesis by (auto simp: connection_connect_def next_step_def)
  next
    case (Inr conn)
    let ?m = "next_step (enable_bcp api conn) (\<lambda>_. driver_connect api connection_string conn)"
    from assms(2) Some out Inr have run: "(case ?m d1 of Some (Err e, d) \<Rightarrow> Some (Err e, snd (drop_connection api conn d))
        | outcome \<Rightarrow> outcome) = Some (r, d')"
      by (simp add: connection_connect_def next_step_def)
    have enable: "enable_bcp api conn d1 = Some (x, d2) \<Longrightarrow> view d2 = view d1" for x d2
      unfolding enable_bcp_def by (rule keepsD [OF keeps_odbc_call]) (rule keeps_calls [OF assms(1)])
    have connect: "driver_connect api connection_string conn d2 = Some (x, d3) \<Longrightarrow>
        (case x of Err _ \<Rightarrow> view d3 = view d2
         | Ok conn' \<Rightarrow> conn' = conn\<lparr>conn_connected := True\<rparr>
             \<and> view d3 = view d2\<lparr>open_connections := insert (conn_hdbc conn) (open_connections (view d2))\<rparr>)" for x d2 d3
      using assms(1) by (auto simp: driver_connect_def next_step_some odbc_call_def external_some documented_odbc_def
          odbc_success_def ok_step_def of_result_def prod_eq_iff split: sum.splits)
    consider (failed) e d2 where "?m d1 = Some (Err e, d2)" "r = Err e" "d' = snd (drop_connection api conn d2)"
      | (connected) conn' where "?m d1 = Some (Ok conn', d')" "r = Ok conn'"
      using run by (auto split: option.splits sum.splits)
    then show ?thesis
    proof cases
      case failed
      then have "view d2 = view d1"
        by (auto simp: next_step_some dest: enable dest!: connect)
      with failed held Inr show ?thesis
        by (simp add: drop_connection_held [OF assms(1), of "view d"] hold_handle_def)
    next
      case connected
      then have conn': "conn' = conn\<lparr>conn_connected := True\<rparr>"
        "view d' = view d1\<lparr>open_connections := insert (conn_hdbc conn) (open_connections (view d1))\<rparr>"
        by (auto simp: next_step_some dest: enable dest!: connect)
      with connected held Inr show ?thesis
        by (auto simp: hold_handle_def intro!: drop_connection_held [OF assms(1)])
    qed
  qed
qed

text \<open>odbc_handles_released: the runner leaks no ODBC handle. With a driver that treats handles as documented, a
  connection that fails leaves the driver with the handles it had, one that succeeds adds its environment and its open
  connection, and dropping it takes exactly these away again; a statement, a query and a count leave the handles as they
  were, with every error of their functions.\<close>

theorem odbc_handles_released:
  assumes "documented_odbc api view"
  shows "(\<forall>e. connection_connect api connection_string d = Some (Err e, d') \<longrightarrow> view d' = view d)
    \<and> (\<forall>conn. connection_connect api connection_string d = Some (Ok conn, d') \<longrightarrow>
        view d' = hold_handle SQL_HANDLE_DBC (conn_hdbc conn) (conn_henv conn)
            (hold_handle SQL_HANDLE_ENV (conn_henv conn) null_handle
              (view d\<lparr>open_connections := insert (conn_hdbc conn) (open_connections (view d))\<rparr>))
        \<and> (\<forall>d''. view d'' = view d' \<longrightarrow> view (snd (drop_connection api conn d'')) = view d))
    \<and> (\<forall>conn sql r. execute_sql api conn sql d = Some (r, d') \<longrightarrow> view d' = view d)
    \<and> (\<forall>conn table r. select_count api conn table d = Some (r, d') \<longrightarrow> view d' = view d)
    \<and> (\<forall>conn sql columns r. text_rows api conn sql columns d = Some (r, d') \<longrightarrow> view d' = view d)"
proof -
  have "keeps view (execute_sql api conn sql)" for conn sql
    unfolding execute_sql_def by (intro keeps_intros keeps_simple keeps_calls assms)
  moreover have "keeps view (select_count api conn table)" for conn table
    unfolding select_count_def select_count_query_def
    by (auto intro!: keeps_intros keeps_calls assms)
  moreover have "keeps view (fetch_rows api h columns rows)" for h columns rows
    using fetch_rows_keeps assms by (fastforce simp: keeps_def)
  then have "keeps view (text_rows api conn sql columns)" for conn sql columns
    unfolding text_rows_def by (intro keeps_intros keeps_simple keeps_calls assms)
  ultimately show ?thesis
    using connection_connect_held [OF assms] by (fastforce dest: keepsD)
qed

text \<open>A driver that numbers its handles.\<close>

definition example_odbc :: "(nat \<times> odbc_view) odbc_api" where
  "example_odbc =
     \<lparr>sql_alloc_handle = (\<lambda>kind parent (n, v).
        if fresh_handle v n \<and> n \<noteq> parent then ((0, n), (n + 1, hold_handle kind n parent v)) else ((- 1, 0), (n, v))),
      sql_disconnect = (\<lambda>h (n, v). (0, (n, v\<lparr>open_connections := open_connections v - {h}\<rparr>))),
      sql_driver_connect = (\<lambda>h _ _ _ (n, v). (0, (n, v\<lparr>open_connections := insert h (open_connections v)\<rparr>))),
      sql_exec_direct = (\<lambda>_ _ _ d. (0, d)), sql_fetch = (\<lambda>_ d. (100, d)),
      sql_free_handle = (\<lambda>kind h (n, v). (0, (n, release_handle kind h v))),
      sql_get_data = (\<lambda>_ _ _ _ d. ((0, [], 0), d)), sql_set_connect_attr = (\<lambda>_ _ _ _ d. (0, d)),
      sql_set_env_attr = (\<lambda>_ _ _ _ d. (0, d))\<rparr>"

lemma example_odbc_documented: "documented_odbc example_odbc snd"
  by (auto simp: documented_odbc_def example_odbc_def odbc_success_def require_odbc_success_def SQL_SUCCESS_def
      SQL_SUCCESS_WITH_INFO_def)

theorem odbc_handles_released_witness:
  "\<exists>conn d'. connection_connect example_odbc (lit ''Driver=x'') (1, \<lparr>held_handles = Map.empty, open_connections = {}\<rparr>)
       = Some (Ok conn, d')
     \<and> open_connections (snd d') = {2}
     \<and> snd (snd (drop_connection example_odbc conn d')) = \<lparr>held_handles = Map.empty, open_connections = {}\<rparr>"
proof -
  let ?d = "(1, \<lparr>held_handles = Map.empty, open_connections = {}\<rparr>) :: nat \<times> odbc_view"
  have "\<exists>conn d'. connection_connect example_odbc (lit ''Driver=x'') ?d = Some (Ok conn, d') \<and> open_connections (snd d') = {2}"
    by (simp add: connection_connect_def connection_allocate_def alloc_handle_def or_free_def odbc_call_def
        next_step_def external_def ok_step_def of_result_def enable_bcp_def driver_connect_def c_string_def lit_def
        example_odbc_def require_odbc_success_def SQL_SUCCESS_def fresh_handle_def hold_handle_def null_handle_def)
  with odbc_handles_released [OF example_odbc_documented, of "lit ''Driver=x''" ?d] show ?thesis
    by (auto simp: hold_handle_def)
qed

end
