(* ===== verification/ServerProfile.thy ===== *)
theory ServerProfile
  imports RunnerIo "HOL-Library.List_Lexorder" "HOL-Library.Product_Lexorder"
begin

text \<open>
  The SQL Server profile of the ODBC BCP runner (\<^verbatim>\<open>xtask/odbc-bcp-runner/src/main.rs\<close>): snapshots of the
  counters of the server read through a second connection, and their differences over the run and over its phases.
  Its printing is left out.
\<close>

subsection \<open>Snapshots\<close>

record session_wait =
  wait_type :: rstr
  waiting_tasks_count :: i64
  wait_time_ms :: i64
  signal_wait_time_ms :: i64

record connection_snapshot =
  net_transport :: rstr
  protocol_type :: rstr
  encrypt_option :: rstr
  net_packet_size :: i32
  num_reads :: i64
  num_writes :: i64
  last_read :: "rstr option"
  last_write :: "rstr option"

record database_file_io =
  file_id :: i32
  logical_name :: rstr
  file_type :: rstr
  read_count :: i64
  read_bytes :: i64
  read_stall_ms :: i64
  write_count :: i64
  write_bytes :: i64
  write_stall_ms :: i64

record table_page_snapshot =
  page_table :: rstr
  page_row_count :: i64
  in_row_used_page_count :: i64
  lob_used_page_count :: i64
  row_overflow_used_page_count :: i64
  used_page_count :: i64

definition required_profile_column :: "rstr option list \<Rightarrow> usize \<Rightarrow> runner_error + rstr" where
  "required_profile_column row index =
     (if index < length row then ok_or NullText (row ! index) else Err NullText)"

definition parse_i64 :: "rstr option list \<Rightarrow> usize \<Rightarrow> runner_error + i64" where
  "parse_i64 row index =
     and_then (required_profile_column row index) (\<lambda>v. map_ok word_of_int (parse_signed 64 v))"

definition parse_i32 :: "rstr option list \<Rightarrow> usize \<Rightarrow> runner_error + i32" where
  "parse_i32 row index =
     and_then (required_profile_column row index) (\<lambda>v. map_ok word_of_int (parse_signed 32 v))"

definition first_row :: "rstr option list list \<Rightarrow> runner_error + rstr option list" where
  "first_row rows = (case rows of [] \<Rightarrow> Err NoRow | row # _ \<Rightarrow> Ok row)"

definition select_session_id :: "'d odbc_api \<Rightarrow> raw_connection \<Rightarrow> ('d, i32) runner_step" where
  "select_session_id api conn =
     next_step (text_rows api conn (lit ''SELECT CONVERT(nvarchar(16), @@SPID)'') 1) (\<lambda>rows.
     of_result (and_then (first_row rows) (\<lambda>row.
       and_then (required_profile_column row 0) (\<lambda>v. map_ok word_of_int (parse_signed 32 (trim_text v))))))"

definition recovery_model :: "'d odbc_api \<Rightarrow> raw_connection \<Rightarrow> ('d, rstr) runner_step" where
  "recovery_model api conn =
     next_step (text_rows api conn (lit ''SELECT CONVERT(nvarchar(60), d.recovery_model_desc) ''
       @ lit ''FROM sys.databases AS d '' @ lit ''WHERE d.database_id = DB_ID()'') 1) (\<lambda>rows.
     of_result (and_then (first_row rows) (\<lambda>row. required_profile_column row 0)))"

definition connection_query :: "i32 \<Rightarrow> rstr" where
  "connection_query writer_session_id =
     lit ''SELECT CONVERT(nvarchar(60), c.net_transport), CONVERT(nvarchar(60), c.protocol_type), ''
     @ lit ''CONVERT(nvarchar(60), c.encrypt_option), CONVERT(nvarchar(16), CONVERT(int, c.net_packet_size)), ''
     @ lit ''CONVERT(nvarchar(32), CONVERT(bigint, c.num_reads)), CONVERT(nvarchar(32), CONVERT(bigint, c.num_writes)), ''
     @ lit ''CONVERT(nvarchar(33), c.last_read, 126), CONVERT(nvarchar(33), c.last_write, 126) ''
     @ lit ''FROM sys.dm_exec_connections AS c WHERE CONVERT(int, c.session_id) = '' @ dec_int (sint writer_session_id)"

definition take_connection_snapshot ::
    "'d odbc_api \<Rightarrow> raw_connection \<Rightarrow> i32 \<Rightarrow> ('d, connection_snapshot) runner_step" where
  "take_connection_snapshot api conn writer_session_id =
     next_step (text_rows api conn (connection_query writer_session_id) 8) (\<lambda>rows.
     of_result (and_then (first_row rows) (\<lambda>row.
       and_then (required_profile_column row 0) (\<lambda>transport.
       and_then (required_profile_column row 1) (\<lambda>protocol.
       and_then (required_profile_column row 2) (\<lambda>encrypt.
       and_then (parse_i32 row 3) (\<lambda>packet_size.
       and_then (parse_i64 row 4) (\<lambda>reads.
       and_then (parse_i64 row 5) (\<lambda>writes.
       Ok \<lparr>net_transport = transport, protocol_type = protocol, encrypt_option = encrypt,
           net_packet_size = packet_size, num_reads = reads, num_writes = writes,
           last_read = row ! 6, last_write = row ! 7\<rparr>)))))))))"

definition table_page_query :: "rstr \<Rightarrow> rstr" where
  "table_page_query table =
     lit ''SELECT CONVERT(nvarchar(32), COALESCE(SUM(s.row_count), 0)), ''
     @ lit ''CONVERT(nvarchar(32), COALESCE(SUM(s.in_row_used_page_count), 0)), ''
     @ lit ''CONVERT(nvarchar(32), COALESCE(SUM(s.lob_used_page_count), 0)), ''
     @ lit ''CONVERT(nvarchar(32), COALESCE(SUM(s.row_overflow_used_page_count), 0)), ''
     @ lit ''CONVERT(nvarchar(32), COALESCE(SUM(s.used_page_count), 0)) ''
     @ lit ''FROM sys.dm_db_partition_stats AS s WHERE s.object_id = OBJECT_ID(N'' @ [39]
     @ concat (map (\<lambda>c. if c = 39 then [39, 39] else [c]) table) @ [39] @ lit '')''"

definition take_table_page_snapshot ::
    "'d odbc_api \<Rightarrow> raw_connection \<Rightarrow> rstr \<Rightarrow> ('d, table_page_snapshot) runner_step" where
  "take_table_page_snapshot api conn table =
     next_step (text_rows api conn (table_page_query table) 5) (\<lambda>rows.
     of_result (and_then (first_row rows) (\<lambda>row.
       and_then (parse_i64 row 0) (\<lambda>count.
       and_then (parse_i64 row 1) (\<lambda>in_row.
       and_then (parse_i64 row 2) (\<lambda>lob.
       and_then (parse_i64 row 3) (\<lambda>overflow.
       and_then (parse_i64 row 4) (\<lambda>used.
       Ok \<lparr>page_table = table, page_row_count = count, in_row_used_page_count = in_row,
           lob_used_page_count = lob, row_overflow_used_page_count = overflow, used_page_count = used\<rparr>))))))))"

definition session_wait_query :: "i32 \<Rightarrow> rstr" where
  "session_wait_query writer_session_id =
     lit ''SELECT CONVERT(nvarchar(60), s.wait_type), CONVERT(nvarchar(32), CONVERT(bigint, s.waiting_tasks_count)), ''
     @ lit ''CONVERT(nvarchar(32), CONVERT(bigint, s.wait_time_ms)), ''
     @ lit ''CONVERT(nvarchar(32), CONVERT(bigint, s.signal_wait_time_ms)) ''
     @ lit ''FROM sys.dm_exec_session_wait_stats AS s WHERE CONVERT(int, s.session_id) = ''
     @ dec_int (sint writer_session_id) @ lit '' ORDER BY s.wait_time_ms DESC, s.wait_type''"

definition session_wait_of_row :: "rstr option list \<Rightarrow> runner_error + session_wait" where
  "session_wait_of_row row =
     and_then (required_profile_column row 0) (\<lambda>type_name.
     and_then (parse_i64 row 1) (\<lambda>tasks.
     and_then (parse_i64 row 2) (\<lambda>time.
     and_then (parse_i64 row 3) (\<lambda>signal_time.
     Ok \<lparr>wait_type = type_name, waiting_tasks_count = tasks, wait_time_ms = time, signal_wait_time_ms = signal_time\<rparr>))))"

definition session_wait_snapshots :: "'d odbc_api \<Rightarrow> raw_connection \<Rightarrow> i32 \<Rightarrow> ('d, session_wait list) runner_step" where
  "session_wait_snapshots api conn writer_session_id =
     next_step (text_rows api conn (session_wait_query writer_session_id) 4) (\<lambda>rows.
     of_result (try_map session_wait_of_row rows))"

definition FILE_IO_QUERY :: rstr where
  "FILE_IO_QUERY =
     lit ''SELECT CONVERT(nvarchar(16), CONVERT(int, f.file_id)), CONVERT(nvarchar(128), f.name), ''
     @ lit ''CONVERT(nvarchar(60), f.type_desc), CONVERT(nvarchar(32), CONVERT(bigint, vfs.num_of_reads)), ''
     @ lit ''CONVERT(nvarchar(32), CONVERT(bigint, vfs.num_of_bytes_read)), ''
     @ lit ''CONVERT(nvarchar(32), CONVERT(bigint, vfs.io_stall_read_ms)), ''
     @ lit ''CONVERT(nvarchar(32), CONVERT(bigint, vfs.num_of_writes)), ''
     @ lit ''CONVERT(nvarchar(32), CONVERT(bigint, vfs.num_of_bytes_written)), ''
     @ lit ''CONVERT(nvarchar(32), CONVERT(bigint, vfs.io_stall_write_ms)) ''
     @ lit ''FROM sys.dm_io_virtual_file_stats(DB_ID(), NULL) AS vfs INNER JOIN sys.database_files AS f ''
     @ lit ''ON f.file_id = vfs.file_id ORDER BY f.type, f.file_id''"

definition file_io_of_row :: "rstr option list \<Rightarrow> runner_error + database_file_io" where
  "file_io_of_row row =
     and_then (parse_i32 row 0) (\<lambda>id.
     and_then (required_profile_column row 1) (\<lambda>name.
     and_then (required_profile_column row 2) (\<lambda>type_name.
     and_then (parse_i64 row 3) (\<lambda>r_count.
     and_then (parse_i64 row 4) (\<lambda>r_bytes.
     and_then (parse_i64 row 5) (\<lambda>r_stall.
     and_then (parse_i64 row 6) (\<lambda>w_count.
     and_then (parse_i64 row 7) (\<lambda>w_bytes.
     and_then (parse_i64 row 8) (\<lambda>w_stall.
     Ok \<lparr>file_id = id, logical_name = name, file_type = type_name, read_count = r_count, read_bytes = r_bytes,
         read_stall_ms = r_stall, write_count = w_count, write_bytes = w_bytes, write_stall_ms = w_stall\<rparr>)))))))))"

definition database_file_io_snapshots :: "'d odbc_api \<Rightarrow> raw_connection \<Rightarrow> ('d, database_file_io list) runner_step" where
  "database_file_io_snapshots api conn =
     next_step (text_rows api conn FILE_IO_QUERY 9) (\<lambda>rows. of_result (try_map file_io_of_row rows))"

subsection \<open>Differences\<close>

definition counter_delta :: "i64 \<Rightarrow> i64 \<Rightarrow> i64" where
  "counter_delta initial final_value =
     word_of_int (max (- (2 ^ 63)) (min (2 ^ 63 - 1) (sint final_value - sint initial)))"

text \<open>A map collected from a list keeps the last entry of a key.\<close>

definition collected :: "('a \<Rightarrow> 'k) \<Rightarrow> 'a list \<Rightarrow> 'k \<Rightarrow> 'a option" where
  "collected key xs = map_of (rev (map (\<lambda>x. (key x, x)) xs))"

definition since :: "('a \<Rightarrow> i64) \<Rightarrow> 'a option \<Rightarrow> 'a \<Rightarrow> i64" where
  "since counter initial final_entry =
     counter_delta (case initial of Some entry \<Rightarrow> counter entry | None \<Rightarrow> 0) (counter final_entry)"

definition session_wait_deltas :: "session_wait list \<Rightarrow> session_wait list \<Rightarrow> session_wait list" where
  "session_wait_deltas initial final_waits =
     (let initial_waits = collected wait_type initial;
          deltas = filter (\<lambda>delta. 0 < sint (waiting_tasks_count delta) \<or> 0 < sint (wait_time_ms delta))
            (map (\<lambda>final_wait. let initial_wait = initial_waits (wait_type final_wait) in
               \<lparr>wait_type = wait_type final_wait,
                waiting_tasks_count = since waiting_tasks_count initial_wait final_wait,
                wait_time_ms = since wait_time_ms initial_wait final_wait,
                signal_wait_time_ms = since signal_wait_time_ms initial_wait final_wait\<rparr>) final_waits)
      in sort_key (\<lambda>delta. (- sint (wait_time_ms delta), wait_type delta)) deltas)"

definition database_file_io_deltas :: "database_file_io list \<Rightarrow> database_file_io list \<Rightarrow> database_file_io list" where
  "database_file_io_deltas initial final_files =
     (let initial_files = collected file_id initial;
          deltas = map (\<lambda>final_file. let initial_file = initial_files (file_id final_file) in
            \<lparr>file_id = file_id final_file, logical_name = logical_name final_file, file_type = file_type final_file,
             read_count = since read_count initial_file final_file, read_bytes = since read_bytes initial_file final_file,
             read_stall_ms = since read_stall_ms initial_file final_file,
             write_count = since write_count initial_file final_file,
             write_bytes = since write_bytes initial_file final_file,
             write_stall_ms = since write_stall_ms initial_file final_file\<rparr>) final_files
      in sort_key (\<lambda>delta. (file_type delta, logical_name delta, sint (file_id delta))) deltas)"

definition connection_delta :: "connection_snapshot \<Rightarrow> connection_snapshot \<Rightarrow> connection_snapshot" where
  "connection_delta initial final_connection =
     final_connection\<lparr>num_reads := counter_delta (num_reads initial) (num_reads final_connection),
       num_writes := counter_delta (num_writes initial) (num_writes final_connection)\<rparr>"

subsection \<open>The profile\<close>

record phase_delta =
  phase_name :: rstr
  phase_session_wait_deltas :: "session_wait list"
  phase_database_file_io_deltas :: "database_file_io list"
  phase_connection_deltas :: "connection_snapshot list"

record server_profile =
  profile_observer :: raw_connection
  writer_session_id :: i32
  profile_recovery_model :: rstr
  initial_connection :: connection_snapshot
  initial_session_waits :: "session_wait list"
  initial_database_file_io :: "database_file_io list"
  connection_deltas :: "connection_snapshot list"
  profile_session_wait_deltas :: "session_wait list"
  profile_database_file_io_deltas :: "database_file_io list"
  phase_deltas :: "phase_delta list"
  table_page_snapshots :: "table_page_snapshot list"

definition profile_start ::
    "'d odbc_api \<Rightarrow> raw_connection \<Rightarrow> raw_connection \<Rightarrow> ('d, server_profile) runner_step" where
  "profile_start api writer observer =
     next_step (select_session_id api writer) (\<lambda>session.
     next_step (recovery_model api observer) (\<lambda>model.
     next_step (take_connection_snapshot api observer session) (\<lambda>connection.
     next_step (session_wait_snapshots api observer session) (\<lambda>waits.
     next_step (database_file_io_snapshots api observer) (\<lambda>files.
     ok_step \<lparr>profile_observer = observer, writer_session_id = session, profile_recovery_model = model,
       initial_connection = connection, initial_session_waits = waits, initial_database_file_io = files,
       connection_deltas = [], profile_session_wait_deltas = [], profile_database_file_io_deltas = [],
       phase_deltas = [], table_page_snapshots = []\<rparr>)))))"

text \<open>The three snapshots of the writer session, in the order the code takes them.\<close>

definition session_snapshots ::
    "'d odbc_api \<Rightarrow> server_profile
      \<Rightarrow> ('d, session_wait list \<times> database_file_io list \<times> connection_snapshot) runner_step" where
  "session_snapshots api profile =
     next_step (session_wait_snapshots api (profile_observer profile) (writer_session_id profile)) (\<lambda>waits.
     next_step (database_file_io_snapshots api (profile_observer profile)) (\<lambda>files.
     next_step (take_connection_snapshot api (profile_observer profile) (writer_session_id profile)) (\<lambda>connection.
     ok_step (waits, files, connection))))"

definition profile_finish :: "'d odbc_api \<Rightarrow> server_profile \<Rightarrow> ('d, server_profile) runner_step" where
  "profile_finish api profile =
     next_step (session_snapshots api profile) (\<lambda>(waits, files, connection).
     ok_step (profile
       \<lparr>profile_session_wait_deltas := session_wait_deltas (initial_session_waits profile) waits,
        profile_database_file_io_deltas := database_file_io_deltas (initial_database_file_io profile) files,
        connection_deltas := [connection_delta (initial_connection profile) connection]\<rparr>))"

text \<open>A phase is recorded whether its work succeeds or not; a snapshot that fails afterwards hides the result.\<close>

definition capture_phase ::
    "'d odbc_api \<Rightarrow> rstr \<Rightarrow> ('d, 'a) runner_step \<Rightarrow> server_profile
      \<Rightarrow> ('d, (runner_error + 'a) \<times> server_profile) runner_step" where
  "capture_phase api phase work profile =
     next_step (session_snapshots api profile) (\<lambda>(waits0, files0, connection0) d.
       case work d of
         None \<Rightarrow> None
       | Some (outcome, d) \<Rightarrow>
           next_step (session_snapshots api profile) (\<lambda>(waits, files, connection).
           ok_step (outcome, profile\<lparr>phase_deltas := phase_deltas profile @
             [\<lparr>phase_name = phase, phase_session_wait_deltas = session_wait_deltas waits0 waits,
               phase_database_file_io_deltas = database_file_io_deltas files0 files,
               phase_connection_deltas = [connection_delta connection0 connection]\<rparr>]\<rparr>)) d)"

definition snapshot_table_pages :: "'d odbc_api \<Rightarrow> rstr \<Rightarrow> server_profile \<Rightarrow> ('d, server_profile) runner_step" where
  "snapshot_table_pages api table profile =
     next_step (take_table_page_snapshot api (profile_observer profile) table) (\<lambda>snapshot.
     ok_step (profile\<lparr>table_page_snapshots := table_page_snapshots profile @ [snapshot]\<rparr>))"

subsection \<open>What the differences say\<close>

text \<open>Counters that only grow and start below a bound do not saturate.\<close>

lemma counter_delta_exact:
  assumes "0 \<le> sint initial" and "sint initial \<le> sint final_value"
  shows "sint (counter_delta initial final_value) = sint final_value - sint initial"
proof -
  have bound: "sint final_value < 2 ^ 63"
    using sint_lt [of final_value] by simp
  then have "counter_delta initial final_value = word_of_int (sint final_value - sint initial)"
    using assms by (simp add: counter_delta_def del: of_int_diff)
  moreover have "sint (word_of_int (sint final_value - sint initial) :: i64) = sint final_value - sint initial"
    unfolding sint_sbintrunc' using assms bound by (intro signed_take_bit_int_eq_self) simp_all
  ultimately show ?thesis by simp
qed

text \<open>The counters of a wait; a wait that is not there has none.\<close>

definition wait_counters :: "session_wait option \<Rightarrow> int \<times> int \<times> int" where
  "wait_counters w = (case w of None \<Rightarrow> (0, 0, 0)
     | Some w \<Rightarrow> (sint (waiting_tasks_count w), sint (wait_time_ms w), sint (signal_wait_time_ms w)))"

definition grown_since :: "session_wait option \<Rightarrow> session_wait \<Rightarrow> bool" where
  "grown_since initial final_wait \<longleftrightarrow>
     (case wait_counters initial of (tasks, time, signal) \<Rightarrow>
        0 \<le> tasks \<and> tasks \<le> sint (waiting_tasks_count final_wait) \<and> 0 \<le> time \<and> time \<le> sint (wait_time_ms final_wait)
        \<and> 0 \<le> signal \<and> signal \<le> sint (signal_wait_time_ms final_wait))"

definition reported_wait :: "session_wait list \<Rightarrow> rstr \<Rightarrow> session_wait option" where
  "reported_wait waits name = find (\<lambda>w. wait_type w = name) waits"

lemma since_exact:
  assumes "grown_since initial final_wait"
  shows "sint (since waiting_tasks_count initial final_wait)
        = sint (waiting_tasks_count final_wait) - fst (wait_counters initial)"
    and "sint (since wait_time_ms initial final_wait)
        = sint (wait_time_ms final_wait) - fst (snd (wait_counters initial))"
    and "sint (since signal_wait_time_ms initial final_wait)
        = sint (signal_wait_time_ms final_wait) - snd (snd (wait_counters initial))"
  using assms by (auto simp: since_def grown_since_def wait_counters_def counter_delta_exact split: option.splits)

lemma find_unique:
  "x \<in> set xs \<Longrightarrow> distinct (map key xs) \<Longrightarrow> find (\<lambda>y. key y = key x) xs = Some x"
  by (induction xs) (auto simp: rev_image_eqI)

text \<open>session_wait_deltas_account: the reported waits of a profile account for the run. When the counters of the
  writer session only grew, the report is ordered by time and then by name, names only waits of the last snapshot, and
  adds up: for each of these the initial counts of tasks and milliseconds plus the reported ones are the final ones,
  where a wait that is not reported did not grow.\<close>

theorem session_wait_deltas_account:
  assumes "distinct (map wait_type final_waits)"
    and "\<forall>w \<in> set final_waits. grown_since (collected wait_type initial (wait_type w)) w"
  shows "sorted (map (\<lambda>w. (- sint (wait_time_ms w), wait_type w)) (session_wait_deltas initial final_waits))
    \<and> wait_type ` set (session_wait_deltas initial final_waits) \<subseteq> wait_type ` set final_waits
    \<and> (\<forall>w \<in> set final_waits. case (wait_counters (collected wait_type initial (wait_type w)),
          wait_counters (reported_wait (session_wait_deltas initial final_waits) (wait_type w))) of
        ((tasks, time, signal), (more_tasks, more_time, more_signal)) \<Rightarrow>
          tasks + more_tasks = sint (waiting_tasks_count w) \<and> time + more_time = sint (wait_time_ms w))"
proof -
  let ?delta = "\<lambda>w. let i = collected wait_type initial (wait_type w) in
      \<lparr>wait_type = wait_type w, waiting_tasks_count = since waiting_tasks_count i w,
       wait_time_ms = since wait_time_ms i w, signal_wait_time_ms = since signal_wait_time_ms i w\<rparr>"
  let ?grew = "\<lambda>d. 0 < sint (waiting_tasks_count d) \<or> 0 < sint (wait_time_ms d)"
  let ?report = "session_wait_deltas initial final_waits"
  have report: "?report = sort_key (\<lambda>d. (- sint (wait_time_ms d), wait_type d)) (filter ?grew (map ?delta final_waits))"
    by (simp add: session_wait_deltas_def Let_def)
  have names: "wait_type (?delta w) = wait_type w" for w
    by (simp add: Let_def)
  have members: "set ?report = {?delta w | w. w \<in> set final_waits \<and> ?grew (?delta w)}"
    unfolding report by auto
  have "distinct (map wait_type (filter ?grew (map ?delta final_waits)))"
    using assms(1) by (intro distinct_map_filter) (simp add: o_def names)
  then have distinct: "distinct (map wait_type ?report)"
    unfolding report by (simp add: distinct_map)
  have sums: "case (wait_counters (collected wait_type initial (wait_type w)),
          wait_counters (reported_wait ?report (wait_type w))) of
        ((tasks, time, signal), (more_tasks, more_time, more_signal)) \<Rightarrow>
          tasks + more_tasks = sint (waiting_tasks_count w) \<and> time + more_time = sint (wait_time_ms w)"
    if w: "w \<in> set final_waits" for w
  proof -
    have grown: "grown_since (collected wait_type initial (wait_type w)) w"
      using assms(2) w by blast
    show ?thesis
    proof (cases "?grew (?delta w)")
      case True
      with w members have "?delta w \<in> set ?report" by blast
      then have "reported_wait ?report (wait_type w) = Some (?delta w)"
        unfolding reported_wait_def using find_unique [OF _ distinct] names by metis
      with grown show ?thesis
        by (auto simp: wait_counters_def since_exact [OF grown] Let_def case_prod_beta)
    next
      case False
      then have "wait_type w \<notin> wait_type ` set ?report"
        using members w assms(1) names by (auto simp: distinct_map inj_on_def)
      then have "reported_wait ?report (wait_type w) = None"
        unfolding reported_wait_def find_None_iff by (metis imageI)
      with False grown show ?thesis
        by (auto simp: wait_counters_def since_exact [OF grown] Let_def grown_since_def split: option.splits)
    qed
  qed
  have ordered: "sorted (map (\<lambda>w. (- sint (wait_time_ms w), wait_type w)) ?report)"
    unfolding report by (rule sorted_sort_key)
  have named: "wait_type ` set ?report \<subseteq> wait_type ` set final_waits"
  proof
    fix name assume "name \<in> wait_type ` set ?report"
    then obtain d where d: "d \<in> set ?report" "name = wait_type d" by (rule imageE)
    from d(1) [unfolded members] obtain w where "d = ?delta w" "w \<in> set final_waits"
      by (elim CollectE exE conjE)
    with d(2) show "name \<in> wait_type ` set final_waits" by (simp add: Let_def)
  qed
  show ?thesis
    using ordered named sums by (intro conjI ballI)
qed

theorem session_wait_deltas_account_witness:
  "let w = (\<lambda>name tasks time. \<lparr>wait_type = lit name, waiting_tasks_count = tasks, wait_time_ms = time,
       signal_wait_time_ms = 0\<rparr>);
       report = session_wait_deltas [w ''IO'' 3 40] [w ''IO'' 5 70, w ''LOG'' 1 90] in
   sorted (map (\<lambda>w. (- sint (wait_time_ms w), wait_type w)) report)
     \<and> report = [w ''LOG'' 1 90, w ''IO'' 2 30]"
proof -
  let ?w = "\<lambda>name tasks time. \<lparr>wait_type = lit name, waiting_tasks_count = tasks, wait_time_ms = time,
       signal_wait_time_ms = 0\<rparr> :: session_wait"
  have "sorted (map (\<lambda>w. (- sint (wait_time_ms w), wait_type w))
      (session_wait_deltas [?w ''IO'' 3 40] [?w ''IO'' 5 70, ?w ''LOG'' 1 90]))"
    using session_wait_deltas_account [of "[?w ''IO'' 5 70, ?w ''LOG'' 1 90]" "[?w ''IO'' 3 40]"]
    by (simp add: grown_since_def collected_def wait_counters_def lit_def)
  then show ?thesis
    by (simp add: Let_def session_wait_deltas_def collected_def since_def counter_delta_def lit_def)
qed

end
