(* ===== verification/BcpColumns.thy ===== *)
theory BcpColumns
  imports RunnerIo RowDecode
begin

text \<open>
  The columns of the ODBC BCP runner (\<^verbatim>\<open>xtask/odbc-bcp-runner/src/main.rs\<close>): how a value becomes the bytes of
  a bound buffer, and how buffers are bound to the driver and set row by row.

  A buffer of fixed width stays where it was bound. The data of a vector may move whenever it is refilled, so its
  address is the column with the number of its refills: a driver that kept the old pointer would read nothing.
  The date arithmetic of chrono is a parameter.
\<close>

subsection \<open>Text\<close>

definition format_decimal :: "i128 \<Rightarrow> i8 \<Rightarrow> runner_error + rstr" where
  "format_decimal unscaled scale =
     (if sint scale < 0 then Err (NegativeScale scale)
      else
        let scale = nat (sint scale); negative = sint unscaled < 0 in
        if negative \<and> sint unscaled = - (2 ^ 127) then Err MinimumDecimal
        else
          let magnitude = nat (if negative then - sint unscaled else sint unscaled); digits = dec magnitude in
          if scale = 0 then Ok (if negative then 45 # digits else digits)
          else
            let digits = (if length digits \<le> scale then replicate (scale - length digits + 1) 48 @ digits else digits);
                split = length digits - scale;
                v = take split digits @ [46] @ drop split digits in
            Ok (if negative then 45 # v else v))"

definition push_utf16le :: "bytes \<Rightarrow> rstr \<Rightarrow> bytes" where
  "push_utf16le output v = output @ concat (map (\<lambda>u. le_bytes 2 (unat u)) (encode_utf16 v))"

text \<open>The width of \<^verbatim>\<open>{:04}\<close> counts the sign.\<close>

definition zero_padded :: "nat \<Rightarrow> int \<Rightarrow> rstr" where
  "zero_padded width x =
     (if x < 0 then 45 # replicate (width - 1 - length (dec (nat (- x)))) 48 @ dec (nat (- x))
      else replicate (width - length (dec (nat x))) 48 @ dec (nat x))"

text \<open>The Gregorian date so many days after 1970-01-01, and the time so many milliseconds after it, where chrono
  can represent them.\<close>

record calendar =
  date_after_epoch :: "int \<Rightarrow> (int \<times> nat \<times> nat) option"
  millis_after_epoch :: "int \<Rightarrow> ((int \<times> nat \<times> nat) \<times> (nat \<times> nat \<times> nat) \<times> nat) option"

definition date_text :: "int \<times> nat \<times> nat \<Rightarrow> rstr" where
  "date_text = (\<lambda>(year, month, day).
     zero_padded 4 year @ [45] @ zero_padded 2 (int month) @ [45] @ zero_padded 2 (int day))"

definition format_date32 :: "calendar \<Rightarrow> i32 \<Rightarrow> runner_error + rstr" where
  "format_date32 cal days_since_epoch =
     map_ok date_text (ok_or TimeOutOfRange (date_after_epoch cal (sint days_since_epoch)))"

definition format_timestamp_millis :: "calendar \<Rightarrow> i64 \<Rightarrow> runner_error + rstr" where
  "format_timestamp_millis cal milliseconds =
     map_ok (\<lambda>(date, (hour, minute, second), millis).
         date_text date @ [32] @ zero_padded 2 (int hour) @ [58] @ zero_padded 2 (int minute) @ [58]
           @ zero_padded 2 (int second) @ [46] @ zero_padded 3 (int millis))
       (ok_or TimeOutOfRange (millis_after_epoch cal (sint milliseconds)))"

subsection \<open>Buffers\<close>

datatype bcp_column_buffer =
    BufU8 u8
  | BufI16 i16
  | BufI32 i32
  | BufI64 i64
  | BufF32 f32
  | BufF64 f64
  | BufBit u8
  | BufText bytes
  | BufWideText bytes
  | BufBinary bytes

definition SQLVARBINARY :: i32 where "SQLVARBINARY = 0x25"
definition SQLVARCHAR :: i32 where "SQLVARCHAR = 0x27"
definition SQLINT1 :: i32 where "SQLINT1 = 0x30"
definition SQLBIT :: i32 where "SQLBIT = 0x32"
definition SQLINT2 :: i32 where "SQLINT2 = 0x34"
definition SQLINT4 :: i32 where "SQLINT4 = 0x38"
definition SQLFLT4 :: i32 where "SQLFLT4 = 0x3b"
definition SQLFLT8 :: i32 where "SQLFLT8 = 0x3e"
definition SQLINT8 :: i32 where "SQLINT8 = 0x7f"
definition SQLNVARCHAR :: i32 where "SQLNVARCHAR = 0xe7"
definition SQL_NULL_DATA :: i32 where "SQL_NULL_DATA = - 1"
definition BCP_SUCCEED :: i16 where "BCP_SUCCEED = 1"
definition DB_IN :: i32 where "DB_IN = 1"

definition buffer_new :: "data_type \<Rightarrow> runner_error + bcp_column_buffer" where
  "buffer_new ty =
     (case ty of
        DtUInt8 \<Rightarrow> Ok (BufU8 0)
      | DtInt8 \<Rightarrow> Ok (BufI16 0)
      | DtInt16 \<Rightarrow> Ok (BufI16 0)
      | DtInt32 \<Rightarrow> Ok (BufI32 0)
      | DtUInt16 \<Rightarrow> Ok (BufI32 0)
      | DtInt64 \<Rightarrow> Ok (BufI64 0)
      | DtUInt32 \<Rightarrow> Ok (BufI64 0)
      | DtFloat32 \<Rightarrow> Ok (BufF32 0)
      | DtFloat64 \<Rightarrow> Ok (BufF64 0)
      | DtBoolean \<Rightarrow> Ok (BufBit 0)
      | DtUtf8 \<Rightarrow> Ok (BufWideText [0])
      | DtDecimal128 _ _ \<Rightarrow> Ok (BufText [0])
      | DtDate32 \<Rightarrow> Ok (BufText [0])
      | DtTimestamp _ _ \<Rightarrow> Ok (BufText [0])
      | DtBinary \<Rightarrow> Ok (BufBinary [0])
      | other \<Rightarrow> Err (UnsupportedArrowType other))"

fun server_type :: "bcp_column_buffer \<Rightarrow> i32" where
  "server_type (BufU8 _) = SQLINT1"
| "server_type (BufI16 _) = SQLINT2"
| "server_type (BufI32 _) = SQLINT4"
| "server_type (BufI64 _) = SQLINT8"
| "server_type (BufF32 _) = SQLFLT4"
| "server_type (BufF64 _) = SQLFLT8"
| "server_type (BufBit _) = SQLBIT"
| "server_type (BufText _) = SQLVARCHAR"
| "server_type (BufWideText _) = SQLNVARCHAR"
| "server_type (BufBinary _) = SQLVARBINARY"

definition db_int :: "nat \<Rightarrow> runner_error + i32" where
  "db_int n = (if n < 2 ^ 31 then Ok (of_nat n) else Err InvalidNumber)"

fun bind_len :: "bcp_column_buffer \<Rightarrow> runner_error + i32" where
  "bind_len (BufU8 _) = db_int 1"
| "bind_len (BufI16 _) = db_int 2"
| "bind_len (BufI32 _) = db_int 4"
| "bind_len (BufI64 _) = db_int 8"
| "bind_len (BufF32 _) = db_int 4"
| "bind_len (BufF64 _) = db_int 8"
| "bind_len (BufBit _) = db_int 1"
| "bind_len (BufText bs) = db_int (length bs)"
| "bind_len (BufWideText bs) = db_int (length bs)"
| "bind_len (BufBinary bs) = db_int (length bs)"

fun current_len :: "bcp_column_buffer \<Rightarrow> runner_error + i32" where
  "current_len (BufU8 _) = db_int 1"
| "current_len (BufI16 _) = db_int 2"
| "current_len (BufI32 _) = db_int 4"
| "current_len (BufI64 _) = db_int 8"
| "current_len (BufF32 _) = db_int 4"
| "current_len (BufF64 _) = db_int 8"
| "current_len (BufBit _) = db_int 1"
| "current_len (BufText bs) = db_int (length bs)"
| "current_len (BufWideText bs) = db_int (length bs)"
| "current_len (BufBinary bs) = db_int (length bs)"

fun is_variable_len :: "bcp_column_buffer \<Rightarrow> bool" where
  "is_variable_len (BufText _) = True"
| "is_variable_len (BufWideText _) = True"
| "is_variable_len (BufBinary _) = True"
| "is_variable_len _ = False"

text \<open>The bytes a pointer to the buffer gives, on a little-endian machine.\<close>

fun buffer_bytes :: "bcp_column_buffer \<Rightarrow> bytes" where
  "buffer_bytes (BufU8 v) = le_bytes 1 (unat v)"
| "buffer_bytes (BufI16 v) = le_bytes 2 (unat v)"
| "buffer_bytes (BufI32 v) = le_bytes 4 (unat v)"
| "buffer_bytes (BufI64 v) = le_bytes 8 (unat v)"
| "buffer_bytes (BufF32 v) = le_bytes 4 (unat v)"
| "buffer_bytes (BufF64 v) = le_bytes 8 (unat v)"
| "buffer_bytes (BufBit v) = le_bytes 1 (unat v)"
| "buffer_bytes (BufText bs) = bs"
| "buffer_bytes (BufWideText bs) = bs"
| "buffer_bytes (BufBinary bs) = bs"

definition required_column ::
    "(arrow_array \<Rightarrow> bool) \<Rightarrow> (arrow_array \<Rightarrow> 'a option list) \<Rightarrow> record_batch \<Rightarrow> usize \<Rightarrow> usize \<Rightarrow> runner_error + 'a" where
  "required_column is_class as_class batch index row =
     (let array = batch_columns batch ! index in
      if is_class array then Ok (the (as_class array ! row)) else Err ArrayMismatch)"

definition batch_type :: "record_batch \<Rightarrow> usize \<Rightarrow> data_type" where
  "batch_type batch index = field_data_type (batch_fields batch ! index)"

definition ascii_bytes :: "rstr \<Rightarrow> bytes" where
  "ascii_bytes v = map of_nat v"

definition set_from_batch ::
    "calendar \<Rightarrow> record_batch \<Rightarrow> usize \<Rightarrow> usize \<Rightarrow> bcp_column_buffer \<Rightarrow> runner_error + bcp_column_buffer" where
  "set_from_batch cal batch index row buffer =
     (case buffer of
        BufU8 _ \<Rightarrow>
          (case batch_type batch index of
             DtUInt8 \<Rightarrow> map_ok BufU8 (required_column is_UInt8Array as_uint8 batch index row)
           | _ \<Rightarrow> Err ArrayMismatch)
      | BufI16 _ \<Rightarrow>
          (case batch_type batch index of
             DtInt8 \<Rightarrow> map_ok (\<lambda>v. BufI16 (scast v)) (required_column is_Int8Array as_int8 batch index row)
           | DtInt16 \<Rightarrow> map_ok BufI16 (required_column is_Int16Array as_int16 batch index row)
           | _ \<Rightarrow> Err ArrayMismatch)
      | BufI32 _ \<Rightarrow>
          (case batch_type batch index of
             DtInt32 \<Rightarrow> map_ok BufI32 (required_column is_Int32Array as_int32 batch index row)
           | DtUInt16 \<Rightarrow> map_ok (\<lambda>v. BufI32 (ucast v)) (required_column is_UInt16Array as_uint16 batch index row)
           | _ \<Rightarrow> Err ArrayMismatch)
      | BufI64 _ \<Rightarrow>
          (case batch_type batch index of
             DtInt64 \<Rightarrow> map_ok BufI64 (required_column is_Int64Array as_int64 batch index row)
           | DtUInt32 \<Rightarrow> map_ok (\<lambda>v. BufI64 (ucast v)) (required_column is_UInt32Array as_uint32 batch index row)
           | _ \<Rightarrow> Err ArrayMismatch)
      | BufF32 _ \<Rightarrow> map_ok BufF32 (required_column is_Float32Array as_float32 batch index row)
      | BufF64 _ \<Rightarrow> map_ok BufF64 (required_column is_Float64Array as_float64 batch index row)
      | BufBit _ \<Rightarrow> map_ok (\<lambda>v. BufBit (if v then 1 else 0)) (required_column is_BooleanArray as_boolean batch index row)
      | BufText _ \<Rightarrow>
          (case batch_type batch index of
             DtDecimal128 _ scale \<Rightarrow>
               and_then (required_column is_Decimal128Array as_decimal128 batch index row) (\<lambda>v.
               map_ok (\<lambda>s. BufText (ascii_bytes s)) (format_decimal v scale))
           | DtDate32 \<Rightarrow>
               and_then (required_column is_Date32Array as_date32 batch index row) (\<lambda>v.
               map_ok (\<lambda>s. BufText (ascii_bytes s)) (format_date32 cal v))
           | DtTimestamp unit timezone \<Rightarrow>
               if timezone \<noteq> None then Err TimestampKind
               else if unit \<noteq> Millisecond then Err TimestampKind
               else
                 and_then (required_column is_TimestampMillisecondArray as_timestamp_millisecond batch index row) (\<lambda>v.
                 map_ok (\<lambda>s. BufText (ascii_bytes s)) (format_timestamp_millis cal v))
           | _ \<Rightarrow> Err ArrayMismatch)
      | BufWideText _ \<Rightarrow>
          map_ok (\<lambda>v. BufWideText (push_utf16le [] v)) (required_column is_StringArray as_string batch index row)
      | BufBinary _ \<Rightarrow> map_ok BufBinary (required_column is_BinaryArray as_binary batch index row))"

subsection \<open>The BCP functions\<close>

text \<open>Where a pointer leads: to the value of a column, or to the data of its vector after so many refills.
  Sending a row reads the memory through the pointers the driver was given.\<close>

datatype bcp_pointer = ValueOf usize | DataOf usize nat

record 'd bcp_api =
  bcp_init :: "bytes \<Rightarrow> i32 \<Rightarrow> 'd \<Rightarrow> i16 \<times> 'd"
  bcp_bind :: "bcp_pointer \<Rightarrow> i32 \<Rightarrow> i32 \<Rightarrow> i32 \<Rightarrow> 'd \<Rightarrow> i16 \<times> 'd"
  bcp_collen :: "i32 \<Rightarrow> i32 \<Rightarrow> 'd \<Rightarrow> i16 \<times> 'd"
  bcp_colptr :: "bcp_pointer \<Rightarrow> i32 \<Rightarrow> 'd \<Rightarrow> i16 \<times> 'd"
  bcp_sendrow :: "(bcp_pointer \<Rightarrow> bytes option) \<Rightarrow> 'd \<Rightarrow> i16 \<times> 'd"
  bcp_batch :: "'d \<Rightarrow> i32 \<times> 'd"
  bcp_done :: "'d \<Rightarrow> i32 \<times> 'd"

definition require_bcp_success :: "i16 \<Rightarrow> runner_error + unit" where
  "require_bcp_success code = (if code = BCP_SUCCEED then Ok () else Err (CallFailed code))"

definition bcp_call :: "('d \<Rightarrow> i16 \<times> 'd) \<Rightarrow> ('d, unit) runner_step" where
  "bcp_call f = next_step (external f) (\<lambda>code. of_result (require_bcp_success code))"

definition bind_column :: "'d bcp_api \<Rightarrow> bcp_pointer \<Rightarrow> i32 \<Rightarrow> i32 \<Rightarrow> i32 \<Rightarrow> ('d, unit) runner_step" where
  "bind_column api value_ptr value_len type_code server_column =
     bcp_call (bcp_bind api value_ptr value_len type_code server_column)"

definition set_column_len :: "'d bcp_api \<Rightarrow> i32 \<Rightarrow> i32 \<Rightarrow> ('d, unit) runner_step" where
  "set_column_len api value_len server_column = bcp_call (bcp_collen api value_len server_column)"

definition set_column_ptr :: "'d bcp_api \<Rightarrow> bcp_pointer \<Rightarrow> i32 \<Rightarrow> ('d, unit) runner_step" where
  "set_column_ptr api value_ptr server_column = bcp_call (bcp_colptr api value_ptr server_column)"

definition flush_batch :: "'d bcp_api \<Rightarrow> ('d, u64) runner_step" where
  "flush_batch api =
     next_step (external (bcp_batch api)) (\<lambda>rows.
     of_result (if sint rows < 0 then Err NegativeRows else Ok (word_of_int (sint rows))))"

subsection \<open>Bound columns\<close>

text \<open>\<^term>\<open>binding_refills\<close> counts the refills of the vector, the address of its data.\<close>

record bcp_column_binding =
  binding_index :: usize
  binding_server_column :: i32
  binding_name :: rstr
  binding_data_type :: data_type
  binding_nullable :: bool
  binding_buffer :: bcp_column_buffer
  binding_refills :: nat

definition binding_new :: "usize \<Rightarrow> rstr \<Rightarrow> data_type \<Rightarrow> bool \<Rightarrow> runner_error + bcp_column_binding" where
  "binding_new index name ty nullable =
     and_then (db_int (index + 1)) (\<lambda>server_column.
     and_then (buffer_new ty) (\<lambda>buffer.
     Ok \<lparr>binding_index = index, binding_server_column = server_column, binding_name = name, binding_data_type = ty,
         binding_nullable = nullable, binding_buffer = buffer, binding_refills = 0\<rparr>))"

definition bindings_new :: "record_batch \<Rightarrow> runner_error + bcp_column_binding list" where
  "bindings_new batch =
     try_map (\<lambda>(index, f). binding_new index (field_name f) (field_data_type f) (field_nullable f))
       (List.enumerate 0 (batch_fields batch))"

definition buffer_pointer :: "bcp_column_binding \<Rightarrow> bcp_pointer" where
  "buffer_pointer b =
     (if is_variable_len (binding_buffer b) then DataOf (binding_index b) (binding_refills b)
      else ValueOf (binding_index b))"

definition memory :: "bcp_column_binding list \<Rightarrow> bcp_pointer \<Rightarrow> bytes option" where
  "memory bindings p =
     map_option (\<lambda>b. buffer_bytes (binding_buffer b)) (find (\<lambda>b. buffer_pointer b = p) bindings)"

definition binding_bind :: "'d bcp_api \<Rightarrow> bcp_column_binding \<Rightarrow> ('d, unit) runner_step" where
  "binding_bind api b =
     next_step (of_result (bind_len (binding_buffer b))) (\<lambda>len.
     bind_column api (buffer_pointer b) len (server_type (binding_buffer b)) (binding_server_column b))"

primrec bindings_bind :: "'d bcp_api \<Rightarrow> bcp_column_binding list \<Rightarrow> ('d, unit) runner_step" where
  "bindings_bind api [] = ok_step ()"
| "bindings_bind api (b # bs) = next_step (binding_bind api b) (\<lambda>_. bindings_bind api bs)"

definition binding_validate_batch :: "record_batch \<Rightarrow> bcp_column_binding \<Rightarrow> runner_error + unit" where
  "binding_validate_batch batch b =
     (let f = batch_fields batch ! binding_index b in
      if field_name f \<noteq> binding_name b then Err ColumnsChanged
      else if field_data_type f \<noteq> binding_data_type b then Err ColumnsChanged
      else if field_nullable f \<noteq> binding_nullable b then Err ColumnsChanged
      else Ok ())"

definition bindings_validate_batch :: "record_batch \<Rightarrow> bcp_column_binding list \<Rightarrow> runner_error + unit" where
  "bindings_validate_batch batch bs =
     (if length (batch_columns batch) \<noteq> length bs then Err ColumnsChanged
      else for_each (\<lambda>b _. binding_validate_batch batch b) bs ())"

definition binding_set_row ::
    "calendar \<Rightarrow> 'd bcp_api \<Rightarrow> record_batch \<Rightarrow> usize \<Rightarrow> bcp_column_binding \<Rightarrow> ('d, bcp_column_binding) runner_step" where
  "binding_set_row cal api batch row b =
     (if array_nulls (batch_columns batch ! binding_index b) ! row
      then
        if \<not> binding_nullable b then of_result (Err (UnexpectedNull row))
        else next_step (set_column_len api SQL_NULL_DATA (binding_server_column b)) (\<lambda>_. ok_step b)
      else
        next_step (of_result (set_from_batch cal batch (binding_index b) row (binding_buffer b))) (\<lambda>buffer.
        let b = b\<lparr>binding_buffer := buffer, binding_refills := binding_refills b + 1\<rparr> in
        next_step (if is_variable_len (binding_buffer b)
          then set_column_ptr api (buffer_pointer b) (binding_server_column b) else ok_step ()) (\<lambda>_.
        next_step (of_result (current_len (binding_buffer b))) (\<lambda>len.
        next_step (set_column_len api len (binding_server_column b)) (\<lambda>_. ok_step b)))))"

primrec bindings_set_row ::
    "calendar \<Rightarrow> 'd bcp_api \<Rightarrow> record_batch \<Rightarrow> usize \<Rightarrow> bcp_column_binding list
      \<Rightarrow> ('d, bcp_column_binding list) runner_step" where
  "bindings_set_row cal api batch row [] = ok_step []"
| "bindings_set_row cal api batch row (b # bs) =
     next_step (binding_set_row cal api batch row b) (\<lambda>b.
     next_step (bindings_set_row cal api batch row bs) (\<lambda>bs. ok_step (b # bs)))"

subsection \<open>Decimals keep their value\<close>

text \<open>Reading a decimal literal: its digits without the point, and how many follow it.\<close>

definition read_decimal_text :: "rstr \<Rightarrow> (int \<times> nat) option" where
  "read_decimal_text v =
     (let negative = v \<noteq> [] \<and> hd v = 45; body = (if negative then tl v else v);
          whole = takeWhile (\<lambda>c. c \<noteq> 46) body; rest = dropWhile (\<lambda>c. c \<noteq> 46) body; fraction = drop 1 rest in
      if whole \<noteq> [] \<and> list_all (\<lambda>c. 48 \<le> c \<and> c \<le> 57) (whole @ fraction) \<and> (rest = [] \<or> fraction \<noteq> [])
      then Some ((if negative then - 1 else 1) * int (undec (whole @ fraction)), length fraction) else None)"

lemma undec_zero [simp]: "undec (48 # ds) = undec ds"
  by (simp add: undec_def)

lemma undec_zeros [simp]: "undec (replicate k 48 @ ds) = undec ds"
  by (induction k) (simp_all add: undec_def)

lemma dec_all_digits: "list_all (\<lambda>c. 48 \<le> c \<and> c \<le> 57) (dec n)"
  by (simp add: list_all_iff dec_digits)

lemma digits_no_mark: "list_all (\<lambda>c. 48 \<le> c \<and> c \<le> 57) ds \<Longrightarrow> 45 \<notin> set ds \<and> 46 \<notin> set (ds :: rstr)"
  by (force simp: list_all_iff)

lemma split_at_point:
  "46 \<notin> set a \<Longrightarrow> takeWhile (\<lambda>c. c \<noteq> 46) a = a" "46 \<notin> set a \<Longrightarrow> dropWhile (\<lambda>c. c \<noteq> 46) a = []"
  "46 \<notin> set a \<Longrightarrow> takeWhile (\<lambda>c. c \<noteq> 46) (a @ 46 # b) = a" "46 \<notin> set a \<Longrightarrow> dropWhile (\<lambda>c. c \<noteq> 46) (a @ 46 # b) = 46 # b"
  by (induction a) auto

lemma read_plain:
  assumes "list_all (\<lambda>c. 48 \<le> c \<and> c \<le> 57) ds" and "ds \<noteq> []"
  shows "read_decimal_text ds = Some (int (undec ds), 0)" and "read_decimal_text (45 # ds) = Some (- int (undec ds), 0)"
  using assms digits_no_mark [OF assms(1)]
  by (auto simp: read_decimal_text_def Let_def split_at_point dest: hd_in_set)

lemma read_pointed:
  assumes "list_all (\<lambda>c. 48 \<le> c \<and> c \<le> 57) (a @ b)" and "a \<noteq> []" and "b \<noteq> []"
  shows "read_decimal_text (a @ 46 # b) = Some (int (undec (a @ b)), length b)"
    and "read_decimal_text (45 # a @ 46 # b) = Some (- int (undec (a @ b)), length b)"
proof -
  have marks: "hd a \<noteq> 45" "46 \<notin> set a"
    using digits_no_mark [OF assms(1)] hd_in_set [OF assms(2)] by auto
  with assms show "read_decimal_text (a @ 46 # b) = Some (int (undec (a @ b)), length b)"
    and "read_decimal_text (45 # a @ 46 # b) = Some (- int (undec (a @ b)), length b)"
    by (simp_all add: read_decimal_text_def Let_def split_at_point)
qed

text \<open>decimal_text_exact: the text of a decimal keeps value and scale. For every 128-bit value but the least and every
  scale that is not negative, reading the text gives back the unscaled value and exactly the digits of the scale; the
  only errors are the negative scale and the least value.\<close>

theorem decimal_text_exact:
  "case format_decimal unscaled scale of
     Ok v \<Rightarrow> read_decimal_text v = Some (sint unscaled, nat (sint scale)) \<and> 0 \<le> sint scale
   | Err e \<Rightarrow> (if sint scale < 0 then e = NegativeScale scale else e = MinimumDecimal \<and> sint unscaled = - (2 ^ 127))"
proof (cases "sint scale < 0 \<or> sint unscaled = - (2 ^ 127)")
  case True
  then show ?thesis by (auto simp: format_decimal_def Let_def)
next
  case False
  define scale' where "scale' = nat (sint scale)"
  define magnitude where "magnitude = nat \<bar>sint unscaled\<bar>"
  define ds where "ds = (if length (dec magnitude) \<le> scale'
    then replicate (scale' - length (dec magnitude) + 1) 48 @ dec magnitude else dec magnitude)"
  have ds: "list_all (\<lambda>c. 48 \<le> c \<and> c \<le> 57) ds" "undec ds = magnitude" "scale' < length ds"
    using dec_all_digits [of magnitude] by (auto simp: ds_def list_all_iff)
  let ?split = "length ds - scale'"
  have parts: "take ?split ds \<noteq> []" "take ?split ds @ drop ?split ds = ds" "length (drop ?split ds) = scale'"
    using ds(3) by auto
  have sign: "sint unscaled = (if sint unscaled < 0 then - int magnitude else int magnitude)"
    by (simp add: magnitude_def)
  have formatted: "format_decimal unscaled scale = Ok (if scale' = 0
      then (if sint unscaled < 0 then 45 # dec magnitude else dec magnitude)
      else (if sint unscaled < 0 then 45 # take ?split ds @ 46 # drop ?split ds
        else take ?split ds @ 46 # drop ?split ds))"
    using False by (simp add: format_decimal_def scale'_def magnitude_def ds_def Let_def)
  show ?thesis
  proof (cases "scale' = 0")
    case True
    with formatted sign False read_plain [OF dec_all_digits dec_not_Nil, of magnitude] show ?thesis
      by (auto simp: scale'_def)
  next
    case pointed: False
    have "drop ?split ds \<noteq> []"
      using parts(3) pointed by auto
    from read_pointed [of "take ?split ds" "drop ?split ds"] parts this ds
    have "read_decimal_text (take ?split ds @ 46 # drop ?split ds) = Some (int magnitude, scale')"
      "read_decimal_text (45 # take ?split ds @ 46 # drop ?split ds) = Some (- int magnitude, scale')"
      by simp_all
    with formatted sign False pointed show ?thesis
      by (auto simp: scale'_def)
  qed
qed

subsection \<open>What a buffer says\<close>

text \<open>The value of an entry that is not null, and the value a receiver reads from the bytes of a buffer under its
  server type. Decimals and times travel as text.\<close>

datatype bcp_value =
    BcpInt int
  | BcpBool bool
  | BcpF32 f32
  | BcpF64 f64
  | BcpText rstr
  | BcpBytes bytes
  | BcpDecimal int nat

definition entry_value :: "calendar \<Rightarrow> arrow_array \<Rightarrow> usize \<Rightarrow> bcp_value option" where
  "entry_value cal array row =
     (case array of
        UInt8Array vs \<Rightarrow> map_option (\<lambda>v. BcpInt (uint v)) (vs ! row)
      | Int8Array vs \<Rightarrow> map_option (\<lambda>v. BcpInt (sint v)) (vs ! row)
      | Int16Array vs \<Rightarrow> map_option (\<lambda>v. BcpInt (sint v)) (vs ! row)
      | Int32Array vs \<Rightarrow> map_option (\<lambda>v. BcpInt (sint v)) (vs ! row)
      | Int64Array vs \<Rightarrow> map_option (\<lambda>v. BcpInt (sint v)) (vs ! row)
      | UInt16Array vs \<Rightarrow> map_option (\<lambda>v. BcpInt (uint v)) (vs ! row)
      | UInt32Array vs \<Rightarrow> map_option (\<lambda>v. BcpInt (uint v)) (vs ! row)
      | Float32Array vs \<Rightarrow> map_option BcpF32 (vs ! row)
      | Float64Array vs \<Rightarrow> map_option BcpF64 (vs ! row)
      | BooleanArray vs \<Rightarrow> map_option BcpBool (vs ! row)
      | StringArray vs \<Rightarrow> map_option BcpText (vs ! row)
      | BinaryArray vs \<Rightarrow> map_option BcpBytes (vs ! row)
      | Decimal128Array _ scale vs \<Rightarrow> map_option (\<lambda>v. BcpDecimal (sint v) (nat (sint scale))) (vs ! row)
      | Date32Array vs \<Rightarrow>
          Option.bind (vs ! row) (\<lambda>v. map_option (\<lambda>date. BcpText (date_text date)) (date_after_epoch cal (sint v)))
      | TimestampMillisecondArray _ vs \<Rightarrow>
          Option.bind (vs ! row) (\<lambda>v. case format_timestamp_millis cal v of Ok s \<Rightarrow> Some (BcpText s) | Err _ \<Rightarrow> None)
      | _ \<Rightarrow> None)"

definition ascii_text :: "bytes \<Rightarrow> rstr" where
  "ascii_text bs = map unat bs"

definition received_value :: "bool \<Rightarrow> i32 \<Rightarrow> bytes \<Rightarrow> bcp_value option" where
  "received_value decimal ty bs =
     (if ty = SQLINT1 then map_option (\<lambda>v :: u8. BcpInt (uint v)) (sized_word 1 bs)
      else if ty = SQLINT2 then map_option (\<lambda>v :: i16. BcpInt (sint v)) (sized_word 2 bs)
      else if ty = SQLINT4 then map_option (\<lambda>v :: i32. BcpInt (sint v)) (sized_word 4 bs)
      else if ty = SQLINT8 then map_option (\<lambda>v :: i64. BcpInt (sint v)) (sized_word 8 bs)
      else if ty = SQLFLT4 then map_option BcpF32 (sized_word 4 bs)
      else if ty = SQLFLT8 then map_option BcpF64 (sized_word 8 bs)
      else if ty = SQLBIT then map_option (\<lambda>v :: u8. BcpBool (v \<noteq> 0)) (sized_word 1 bs)
      else if ty = SQLNVARCHAR then map_option (\<lambda>us. BcpText (decode_utf16 us)) (read_code_units bs)
      else if ty = SQLVARBINARY then Some (BcpBytes bs)
      else if decimal then map_option (\<lambda>(v, scale). BcpDecimal v scale) (read_decimal_text (ascii_text bs))
      else Some (BcpText (ascii_text bs)))"

lemmas server_types = SQLVARBINARY_def SQLVARCHAR_def SQLINT1_def SQLBIT_def SQLINT2_def SQLINT4_def SQLFLT4_def
  SQLFLT8_def SQLINT8_def SQLNVARCHAR_def

text \<open>Dates and times are texts of ASCII characters: digits and marks.\<close>

definition ascii :: "rstr \<Rightarrow> bool" where
  "ascii v \<longleftrightarrow> list_all (\<lambda>c. c < 128) v"

lemma ascii_text_bytes: "ascii v \<Longrightarrow> ascii_text (ascii_bytes v) = v"
  by (induction v) (auto simp: ascii_def ascii_text_def ascii_bytes_def unat_of_nat)

lemma ascii_dec: "ascii (dec n)"
  by (auto simp: ascii_def list_all_iff dest: dec_digits)

lemma ascii_append [simp]: "ascii (a @ b) \<longleftrightarrow> ascii a \<and> ascii b" "ascii (c # b) \<longleftrightarrow> c < 128 \<and> ascii b" "ascii []"
  "ascii (replicate n 48)"
  by (auto simp: ascii_def list_all_iff)

lemma ascii_zero_padded: "ascii (zero_padded width x)"
  by (simp add: zero_padded_def ascii_dec)

lemma ascii_date: "ascii (date_text date)"
  by (simp add: date_text_def ascii_zero_padded case_prod_beta)

lemma ascii_formatted:
  "format_date32 cal v = Ok s \<Longrightarrow> ascii s" "format_timestamp_millis cal t = Ok s \<Longrightarrow> ascii s"
  "format_decimal d scale = Ok s \<Longrightarrow> ascii s"
proof -
  show "format_date32 cal v = Ok s \<Longrightarrow> ascii s"
    by (auto simp: format_date32_def result_simps ascii_date)
  show "format_timestamp_millis cal t = Ok s \<Longrightarrow> ascii s"
    by (auto simp: format_timestamp_millis_def result_simps ascii_date ascii_zero_padded split: prod.splits)
  show "format_decimal d scale = Ok s \<Longrightarrow> ascii s"
    using ascii_dec by (auto simp: format_decimal_def Let_def ascii_def list_all_iff split: if_splits
        dest!: in_set_takeD in_set_dropD)
qed

definition is_decimal_type :: "data_type \<Rightarrow> bool" where
  "is_decimal_type ty \<longleftrightarrow> (case ty of DtDecimal128 _ _ \<Rightarrow> True | _ \<Rightarrow> False)"

text \<open>The strings of an array are texts of scalar values.\<close>

definition scalar_array :: "arrow_array \<Rightarrow> bool" where
  "scalar_array array \<longleftrightarrow> (case array of StringArray vs \<Rightarrow> \<forall>s. Some s \<in> set vs \<longrightarrow> scalar_text s | _ \<Rightarrow> True)"

lemma received_fixed:
  "received_value decimal SQLINT1 [v8] = Some (BcpInt (uint v8))"
  "received_value decimal SQLINT2 (le_bytes 2 (unat v16)) = Some (BcpInt (sint v16))"
  "received_value decimal SQLINT4 (le_bytes 4 (unat v32)) = Some (BcpInt (sint v32))"
  "received_value decimal SQLINT8 (le_bytes 8 (unat v64)) = Some (BcpInt (sint v64))"
  "received_value decimal SQLFLT4 (le_bytes 4 (unat f)) = Some (BcpF32 f)"
  "received_value decimal SQLFLT8 (le_bytes 8 (unat g)) = Some (BcpF64 g)"
  "received_value decimal SQLBIT [v8] = Some (BcpBool (v8 \<noteq> 0))"
  "received_value decimal SQLVARBINARY bs = Some (BcpBytes bs)"
  for v8 :: u8 and v16 :: i16 and v32 :: i32 and v64 :: i64 and f :: f32 and g :: f64
  using sized_le_bytes [of 1 v8]
  by (simp_all add: received_value_def server_types sized_le_bytes)

lemma received_text:
  "scalar_text v \<Longrightarrow> received_value decimal SQLNVARCHAR (push_utf16le [] v) = Some (BcpText v)"
  "ascii v \<Longrightarrow> received_value False SQLVARCHAR (ascii_bytes v) = Some (BcpText v)"
  "ascii v \<Longrightarrow> received_value True SQLVARCHAR (ascii_bytes v)
     = map_option (\<lambda>(x, scale). BcpDecimal x scale) (read_decimal_text v)"
  using utf16_round_trip [of v]
  by (simp_all add: received_value_def server_types push_utf16le_def read_code_units_utf16le ascii_text_bytes
      scalar_text_def list_all_iff)

lemma not_null_entry:
  "\<not> values_null vs ! row \<Longrightarrow> row < length vs \<Longrightarrow> \<exists>v. vs ! row = Some v \<and> Some v \<in> set vs"
  by (auto simp: values_null_def Option.is_none_def) (metis nth_mem)

lemmas read_simps = set_from_batch_def required_column_def result_simps

lemma widened:
  "sint (scast v8 :: i16) = sint v8" "sint (ucast v16 :: i32) = uint v16" "sint (ucast v32 :: i64) = uint v32"
  for v8 :: i8 and v16 :: u16 and v32 :: u32
proof -
  have "- 2147483648 \<le> uint v16" "- 9223372036854775808 \<le> uint v32"
    by (rule order_trans [OF _ uint_nonnegative], simp)+
  moreover have "uint v16 < 2 ^ 16" "uint v32 < 2 ^ 32"
    using unsigned_less [of v16, where ?'a = int] unsigned_less [of v32, where ?'a = int] by simp_all
  ultimately show "sint (ucast v16 :: i32) = uint v16" "sint (ucast v32 :: i64) = uint v32"
    by (simp_all add: signed_ucast_eq signed_take_bit_int_eq_self_iff)
  show "sint (scast v8 :: i16) = sint v8"
    by (simp add: sint_up_scast is_up)
qed

lemma set_from_batch_reads:
  assumes set: "set_from_batch cal batch index row buffer = Ok buffer'"
    and array: "batch_columns batch ! index = array" "array_data_type array = batch_type batch index"
    and entry: "\<not> array_nulls array ! row" "row < array_len array" "scalar_array array"
  shows "server_type buffer' = server_type buffer \<and> is_variable_len buffer' = is_variable_len buffer
    \<and> (\<exists>v. entry_value cal array row = Some v
      \<and> received_value (is_decimal_type (batch_type batch index)) (server_type buffer') (buffer_bytes buffer') = Some v)"
proof (cases buffer)
  case (BufU8 x)
  with set array(1) obtain vs where "array = UInt8Array vs" "buffer' = BufU8 ((the (vs ! row)))"
    by (auto simp: read_simps is_UInt8Array_def split: data_type.splits if_splits)
  with BufU8 entry show ?thesis
    by (auto simp: entry_value_def received_fixed array_len_def dest!: not_null_entry)
next
  case (BufI16 x)
  with set array(1) consider
      (first) vs where "array = Int8Array vs" "buffer' = BufI16 (scast (the (vs ! row)))"
    | (second) vs where "array = Int16Array vs" "buffer' = BufI16 (the (vs ! row))"
    by (auto simp: read_simps is_Int8Array_def is_Int16Array_def split: data_type.splits if_splits)
  then show ?thesis
    using BufI16 entry
    by cases (auto simp: entry_value_def received_fixed array_len_def widened dest!: not_null_entry)
next
  case (BufI32 x)
  with set array(1) consider
      (first) vs where "array = Int32Array vs" "buffer' = BufI32 (the (vs ! row))"
    | (second) vs where "array = UInt16Array vs" "buffer' = BufI32 (ucast (the (vs ! row)))"
    by (auto simp: read_simps is_Int32Array_def is_UInt16Array_def split: data_type.splits if_splits)
  then show ?thesis
    using BufI32 entry
    by cases (auto simp: entry_value_def received_fixed array_len_def widened dest!: not_null_entry)
next
  case (BufI64 x)
  with set array(1) consider
      (first) vs where "array = Int64Array vs" "buffer' = BufI64 (the (vs ! row))"
    | (second) vs where "array = UInt32Array vs" "buffer' = BufI64 (ucast (the (vs ! row)))"
    by (auto simp: read_simps is_Int64Array_def is_UInt32Array_def split: data_type.splits if_splits)
  then show ?thesis
    using BufI64 entry
    by cases (auto simp: entry_value_def received_fixed array_len_def widened dest!: not_null_entry)
next
  case (BufF32 x)
  with set array(1) obtain vs where "array = Float32Array vs" "buffer' = BufF32 ((the (vs ! row)))"
    by (auto simp: read_simps is_Float32Array_def split: data_type.splits if_splits)
  with BufF32 entry show ?thesis
    by (auto simp: entry_value_def received_fixed array_len_def dest!: not_null_entry)
next
  case (BufF64 x)
  with set array(1) obtain vs where "array = Float64Array vs" "buffer' = BufF64 ((the (vs ! row)))"
    by (auto simp: read_simps is_Float64Array_def split: data_type.splits if_splits)
  with BufF64 entry show ?thesis
    by (auto simp: entry_value_def received_fixed array_len_def dest!: not_null_entry)
next
  case (BufBit x)
  with set array(1) obtain vs where "array = BooleanArray vs" "buffer' = BufBit (if the (vs ! row) then 1 else 0)"
    by (auto simp: read_simps is_BooleanArray_def split: data_type.splits if_splits)
  with BufBit entry show ?thesis
    by (auto simp: entry_value_def received_fixed array_len_def dest!: not_null_entry)
next
  case (BufBinary x)
  with set array(1) obtain vs where "array = BinaryArray vs" "buffer' = BufBinary ((the (vs ! row)))"
    by (auto simp: read_simps is_BinaryArray_def split: data_type.splits if_splits)
  with BufBinary entry show ?thesis
    by (auto simp: entry_value_def received_fixed array_len_def dest!: not_null_entry)
next
  case (BufWideText x)
  with set array(1) obtain vs where vs: "array = StringArray vs" "buffer' = BufWideText (push_utf16le [] (the (vs ! row)))"
    by (auto simp: read_simps is_StringArray_def split: if_splits)
  with entry obtain v where "vs ! row = Some v" "scalar_text v"
    by (auto simp: array_len_def scalar_array_def dest!: not_null_entry)
  with vs BufWideText show ?thesis
    by (simp add: entry_value_def received_text)
next
  case (BufText x)
  with set array(1) consider
      (decimal) p scale r q vs s where "batch_type batch index = DtDecimal128 p scale" "array = Decimal128Array r q vs"
        "format_decimal (the (vs ! row)) scale = Ok s" "buffer' = BufText (ascii_bytes s)"
    | (date) vs s where "batch_type batch index = DtDate32" "array = Date32Array vs"
        "format_date32 cal (the (vs ! row)) = Ok s" "buffer' = BufText (ascii_bytes s)"
    | (timestamp) tz vs s where "batch_type batch index = DtTimestamp Millisecond None"
        "array = TimestampMillisecondArray tz vs"
        "format_timestamp_millis cal (the (vs ! row)) = Ok s" "buffer' = BufText (ascii_bytes s)"
    by (cases "batch_type batch index")
      (auto simp: read_simps is_Decimal128Array_def is_Date32Array_def is_TimestampMillisecondArray_def split: if_splits)
  then show ?thesis
  proof cases
    case decimal
    with entry obtain v where "vs ! row = Some v" by (auto simp: array_len_def dest!: not_null_entry)
    with decimal array(2) BufText decimal_text_exact [where unscaled = v and scale = scale] show ?thesis
      by (auto simp: entry_value_def is_decimal_type_def received_text ascii_formatted)
  next
    case date
    with entry obtain v where "vs ! row = Some v" by (auto simp: array_len_def dest!: not_null_entry)
    with date BufText show ?thesis
      by (auto simp: entry_value_def is_decimal_type_def received_text ascii_formatted format_date32_def result_simps
          ascii_date)
  next
    case timestamp
    with entry obtain v where "vs ! row = Some v" by (auto simp: array_len_def dest!: not_null_entry)
    with timestamp BufText show ?thesis
      by (auto simp: entry_value_def is_decimal_type_def received_text ascii_formatted)
  qed
qed

end
