(* ===== verification/BcpRunner.thy ===== *)
theory BcpRunner
  imports BcpColumns ServerProfile BenchScenarios
begin

text \<open>
  The ODBC BCP runner (\<^verbatim>\<open>xtask/odbc-bcp-runner/src/main.rs\<close>): its options, the copy of an Arrow IPC file
  through the bulk copy functions, and the repeats of a benchmark with their validation and cleanup.

  The Arrow IPC reader, the environment and the loading of the two libraries are parameters. Printing is left out.
\<close>

subsection \<open>Options\<close>

definition TABLE_PLACEHOLDER :: rstr where
  "TABLE_PLACEHOLDER = lit ''__ARROW_TIBERIUS_ODBC_TABLE__''"

record runner_options =
  opt_rows :: usize
  opt_batch_size :: usize
  opt_scenario :: rstr
  opt_repeat :: usize
  opt_input_ipc :: rstr
  opt_create_table_sql_template :: rstr
  opt_profile_sqlserver :: bool
  opt_defer_batches :: bool

definition required_arg :: "rstr option \<Rightarrow> runner_error + rstr" where
  "required_arg v = ok_or MissingOption v"

definition parse_positive_usize :: "rstr option \<Rightarrow> runner_error + usize" where
  "parse_positive_usize v =
     and_then (required_arg v) (\<lambda>v.
     and_then (parse_unsigned 64 v) (\<lambda>parsed. if parsed = 0 then Err NotPositive else Ok parsed))"

definition opt_arg :: "rstr list \<Rightarrow> rstr option" where
  "opt_arg args = (case args of [] \<Rightarrow> None | v # _ \<Rightarrow> Some v)"

text \<open>The loop over the arguments, with the two required options apart until its end.\<close>

function parse_runner_args ::
    "rstr list \<Rightarrow> runner_options \<times> rstr option \<times> rstr option
      \<Rightarrow> runner_error + runner_options \<times> rstr option \<times> rstr option" where
  "parse_runner_args [] acc = Ok acc"
| "parse_runner_args (arg # rest) (options, input_ipc, template) =
     (if arg = lit ''--rows'' then
        and_then (parse_positive_usize (opt_arg rest)) (\<lambda>v.
        parse_runner_args (tl rest) (options\<lparr>opt_rows := v\<rparr>, input_ipc, template))
      else if arg = lit ''--batch-size'' then
        and_then (parse_positive_usize (opt_arg rest)) (\<lambda>v.
        parse_runner_args (tl rest) (options\<lparr>opt_batch_size := v\<rparr>, input_ipc, template))
      else if arg = lit ''--scenario'' then
        and_then (required_arg (opt_arg rest)) (\<lambda>v.
        parse_runner_args (tl rest) (options\<lparr>opt_scenario := v\<rparr>, input_ipc, template))
      else if arg = lit ''--repeat'' then
        and_then (parse_positive_usize (opt_arg rest)) (\<lambda>v.
        parse_runner_args (tl rest) (options\<lparr>opt_repeat := v\<rparr>, input_ipc, template))
      else if arg = lit ''--input-ipc'' then
        and_then (required_arg (opt_arg rest)) (\<lambda>v.
        parse_runner_args (tl rest) (options, Some v, template))
      else if arg = lit ''--create-table-sql-template'' then
        and_then (required_arg (opt_arg rest)) (\<lambda>v.
        parse_runner_args (tl rest) (options, input_ipc, Some v))
      else if arg = lit ''--profile-sqlserver'' then
        parse_runner_args rest (options\<lparr>opt_profile_sqlserver := True\<rparr>, input_ipc, template)
      else if arg = lit ''--defer-batches'' then
        parse_runner_args rest (options\<lparr>opt_defer_batches := True\<rparr>, input_ipc, template)
      else Err (UnknownRunnerOption arg))"
  by pat_completeness auto
termination
  by (relation "measure (\<lambda>(args, _). length args)") auto

fun starts_with_text :: "rstr \<Rightarrow> rstr \<Rightarrow> bool" where
  "starts_with_text [] _ = True"
| "starts_with_text (p # ps) (c # cs) = (p = c \<and> starts_with_text ps cs)"
| "starts_with_text (_ # _) [] = False"

text \<open>\<^verbatim>\<open>str::contains\<close> and \<^verbatim>\<open>str::replace\<close> for a pattern that is not empty: matches from the left that do not overlap.\<close>

primrec contains_text :: "rstr \<Rightarrow> rstr \<Rightarrow> bool" where
  "contains_text p [] = (p = [])"
| "contains_text p (c # cs) = (starts_with_text p (c # cs) \<or> contains_text p cs)"

function replace_text :: "rstr \<Rightarrow> rstr \<Rightarrow> rstr \<Rightarrow> rstr" where
  "replace_text p r [] = []"
| "replace_text p r (c # cs) =
     (if p \<noteq> [] \<and> starts_with_text p (c # cs) then r @ replace_text p r (drop (length p) (c # cs))
      else c # replace_text p r cs)"
  by pat_completeness auto
termination
  by (relation "measure (\<lambda>(_, _, v). length v)") (auto simp: neq_Nil_conv)

definition runner_options_parse :: "rstr list \<Rightarrow> runner_error + runner_options" where
  "runner_options_parse args =
     and_then (parse_runner_args args
       (\<lparr>opt_rows = 100000, opt_batch_size = 8192, opt_scenario = lit ''narrow_numeric'', opt_repeat = 1,
         opt_input_ipc = [], opt_create_table_sql_template = [], opt_profile_sqlserver = False,
         opt_defer_batches = False\<rparr>, None, None)) (\<lambda>(options, input_ipc, template).
     and_then (ok_or MissingOption input_ipc) (\<lambda>input_ipc.
     and_then (ok_or MissingOption template) (\<lambda>template.
     if \<not> contains_text TABLE_PLACEHOLDER template then Err MissingPlaceholder
     else Ok (options\<lparr>opt_input_ipc := input_ipc, opt_create_table_sql_template := template\<rparr>))))"

definition runner_create_table_sql :: "runner_options \<Rightarrow> rstr \<Rightarrow> runner_error + rstr" where
  "runner_create_table_sql options table =
     (if contains_text TABLE_PLACEHOLDER table then Err PlaceholderInTable
      else Ok (replace_text TABLE_PLACEHOLDER table (opt_create_table_sql_template options)))"

subsection \<open>Copying a dataset\<close>

record bcp_copy_result =
  rows_reported :: u64
  batch_calls :: u64
  batch_rows_reported :: u64
  done_rows_reported :: u64

definition saturating_add_u64 :: "u64 \<Rightarrow> u64 \<Rightarrow> u64" where
  "saturating_add_u64 a b = (if uint a + uint b < 2 ^ 64 then a + b else - 1)"

definition copy_result_default :: bcp_copy_result where
  "copy_result_default =
     \<lparr>rows_reported = 0, batch_calls = 0, batch_rows_reported = 0, done_rows_reported = 0\<rparr>"

definition copy_result_merge :: "bcp_copy_result \<Rightarrow> bcp_copy_result \<Rightarrow> bcp_copy_result" where
  "copy_result_merge target source =
     \<lparr>rows_reported = saturating_add_u64 (rows_reported target) (rows_reported source),
      batch_calls = saturating_add_u64 (batch_calls target) (batch_calls source),
      batch_rows_reported = saturating_add_u64 (batch_rows_reported target) (batch_rows_reported source),
      done_rows_reported = saturating_add_u64 (done_rows_reported target) (done_rows_reported source)\<rparr>"

record copy_state =
  copy_bindings :: "bcp_column_binding list option"
  copy_rows_seen :: usize
  copy_sent_since_batch :: usize
  copy_report :: bcp_copy_result

text \<open>The rows sent so far become a batch.\<close>

definition copy_flush :: "'d bcp_api \<Rightarrow> copy_state \<Rightarrow> ('d, copy_state) runner_step" where
  "copy_flush api st =
     next_step (flush_batch api) (\<lambda>rows.
     ok_step (st\<lparr>copy_report := (copy_report st)
         \<lparr>batch_rows_reported := saturating_add_u64 (batch_rows_reported (copy_report st)) rows,
          batch_calls := saturating_add_u64 (batch_calls (copy_report st)) 1\<rparr>\<rparr>))"

definition copy_row_sent :: "'d bcp_api \<Rightarrow> runner_options \<Rightarrow> copy_state \<Rightarrow> ('d, copy_state) runner_step" where
  "copy_row_sent api options st =
     (let st = st\<lparr>copy_sent_since_batch := copy_sent_since_batch st + 1, copy_rows_seen := copy_rows_seen st + 1\<rparr> in
      if \<not> opt_defer_batches options \<and> copy_sent_since_batch st = opt_batch_size options
      then next_step (copy_flush api st) (\<lambda>st. ok_step (st\<lparr>copy_sent_since_batch := 0\<rparr>)) else ok_step st)"

definition copy_last_batch :: "'d bcp_api \<Rightarrow> runner_options \<Rightarrow> copy_state \<Rightarrow> ('d, copy_state) runner_step" where
  "copy_last_batch api options st =
     (if \<not> opt_defer_batches options \<and> 0 < copy_sent_since_batch st then copy_flush api st else ok_step st)"

primrec copy_rows ::
    "calendar \<Rightarrow> 'd bcp_api \<Rightarrow> runner_options \<Rightarrow> record_batch \<Rightarrow> usize list \<Rightarrow> bcp_column_binding list \<Rightarrow> copy_state
      \<Rightarrow> ('d, copy_state) runner_step" where
  "copy_rows cal api options batch [] bindings st = ok_step (st\<lparr>copy_bindings := Some bindings\<rparr>)"
| "copy_rows cal api options batch (row # rows) bindings st =
     next_step (bindings_set_row cal api batch row bindings) (\<lambda>bindings.
     next_step (bcp_call (bcp_sendrow api (memory bindings))) (\<lambda>_.
     next_step (copy_row_sent api options st) (\<lambda>st.
     copy_rows cal api options batch rows bindings st)))"

definition copy_batch ::
    "calendar \<Rightarrow> 'd bcp_api \<Rightarrow> runner_options \<Rightarrow> runner_error + record_batch \<Rightarrow> copy_state
      \<Rightarrow> ('d, copy_state) runner_step" where
  "copy_batch cal api options batch st =
     next_step (of_result batch) (\<lambda>batch.
     next_step
       (case copy_bindings st of
          Some bindings \<Rightarrow> ok_step bindings
        | None \<Rightarrow>
            next_step (of_result (bindings_new batch)) (\<lambda>bindings.
            next_step (bindings_bind api bindings) (\<lambda>_. ok_step bindings))) (\<lambda>bindings.
     next_step (of_result (bindings_validate_batch batch bindings)) (\<lambda>_.
     copy_rows cal api options batch [0..<batch_num_rows batch] bindings st)))"

primrec copy_batches ::
    "calendar \<Rightarrow> 'd bcp_api \<Rightarrow> runner_options \<Rightarrow> (runner_error + record_batch) list \<Rightarrow> copy_state
      \<Rightarrow> ('d, copy_state) runner_step" where
  "copy_batches cal api options [] st = ok_step st"
| "copy_batches cal api options (batch # batches) st =
     next_step (copy_batch cal api options batch st) (copy_batches cal api options batches)"

text \<open>The Arrow IPC reader: what opening a file gives, and then its batches.\<close>

type_synonym 'd ipc_reader = "rstr \<Rightarrow> 'd \<Rightarrow> (runner_error + (runner_error + record_batch) list) \<times> 'd"

definition copy_and_batch ::
    "calendar \<Rightarrow> 'd bcp_api \<Rightarrow> 'd ipc_reader \<Rightarrow> runner_options \<Rightarrow> ('d, bcp_copy_result) runner_step" where
  "copy_and_batch cal api ipc options =
     next_step (external (ipc (opt_input_ipc options))) (\<lambda>opened.
     next_step (of_result opened) (\<lambda>batches.
     next_step (copy_batches cal api options batches
       \<lparr>copy_bindings = None, copy_rows_seen = 0, copy_sent_since_batch = 0, copy_report = copy_result_default\<rparr>) (\<lambda>st.
     if copy_bindings st = None then of_result (Err NoBatches)
     else
       next_step (copy_last_batch api options st) (\<lambda>st.
       if copy_rows_seen st \<noteq> opt_rows options then of_result (Err (InputRows (opt_rows options) (copy_rows_seen st)))
       else ok_step (copy_report st)))))"

definition bcp_finish :: "'d bcp_api \<Rightarrow> ('d, u64) runner_step" where
  "bcp_finish api =
     next_step (external (bcp_done api)) (\<lambda>rows.
     of_result (if sint rows < 0 then Err NegativeRows else Ok (word_of_int (sint rows))))"

text \<open>A step in a phase of the profile, if there is one.\<close>

definition in_phase ::
    "'d odbc_api \<Rightarrow> server_profile option \<Rightarrow> rstr \<Rightarrow> ('d, 'a) runner_step \<Rightarrow> ('d, 'a \<times> server_profile option) runner_step" where
  "in_phase odbc profile phase work =
     (case profile of
        None \<Rightarrow> next_step work (\<lambda>x. ok_step (x, None))
      | Some p \<Rightarrow>
          next_step (capture_phase odbc phase work p) (\<lambda>(outcome, p).
          next_step (of_result outcome) (\<lambda>x. ok_step (x, Some p))))"

definition copy_ipc_dataset ::
    "calendar \<Rightarrow> 'd odbc_api \<Rightarrow> 'd bcp_api \<Rightarrow> 'd ipc_reader \<Rightarrow> rstr \<Rightarrow> runner_options \<Rightarrow> server_profile option
      \<Rightarrow> ('d, bcp_copy_result \<times> server_profile option) runner_step" where
  "copy_ipc_dataset cal odbc api ipc table options profile =
     next_step (of_result (c_string table)) (\<lambda>table.
     next_step (bcp_call (bcp_init api table DB_IN)) (\<lambda>_.
     next_step (in_phase odbc profile (lit ''copy_and_bcp_batch'') (copy_and_batch cal api ipc options)) (\<lambda>(report, profile).
     next_step (in_phase odbc profile (lit ''bcp_done'') (bcp_finish api)) (\<lambda>(done_rows, profile).
     let report = report\<lparr>done_rows_reported := done_rows,
           rows_reported := saturating_add_u64 (batch_rows_reported report) done_rows\<rparr> in
     if uint (rows_reported report) \<noteq> int (opt_rows options)
     then of_result (Err (ReportedRows (rows_reported report) (of_nat (opt_rows options))))
     else ok_step (report, profile)))))"

subsection \<open>Repeats\<close>

definition STRING_HEAVY_UNICODE :: rstr where
  "STRING_HEAVY_UNICODE = lit ''string_heavy_unicode''"

definition TENANT_FIRST_CODEPOINT :: u32 where "TENANT_FIRST_CODEPOINT = 0x79df"
definition TENANT_SECOND_CODEPOINT :: u32 where "TENANT_SECOND_CODEPOINT = 0x6237"

definition string_heavy_unicode_tenant_sentinel_count_sql :: "rstr \<Rightarrow> rstr" where
  "string_heavy_unicode_tenant_sentinel_count_sql table =
     lit ''SELECT COUNT_BIG(*) FROM '' @ table @ lit '' WHERE UNICODE(SUBSTRING([tenant], 1, 1)) = ''
     @ dec (unat TENANT_FIRST_CODEPOINT) @ lit '' AND UNICODE(SUBSTRING([tenant], 2, 1)) = ''
     @ dec (unat TENANT_SECOND_CODEPOINT)"

definition validate_string_heavy_unicode_contents ::
    "'d odbc_api \<Rightarrow> raw_connection \<Rightarrow> rstr \<Rightarrow> u64 \<Rightarrow> ('d, unit) runner_step" where
  "validate_string_heavy_unicode_contents odbc conn table expected_rows =
     next_step (select_count_query odbc conn (string_heavy_unicode_tenant_sentinel_count_sql table)) (\<lambda>actual.
     of_result (if actual \<noteq> expected_rows then Err (CountMismatch expected_rows actual) else Ok ()))"

definition validate_scenario_contents ::
    "'d odbc_api \<Rightarrow> raw_connection \<Rightarrow> rstr \<Rightarrow> rstr \<Rightarrow> u64 \<Rightarrow> ('d, unit) runner_step" where
  "validate_scenario_contents odbc conn table scenario expected_rows =
     (if scenario = STRING_HEAVY_UNICODE then validate_string_heavy_unicode_contents odbc conn table expected_rows
      else ok_step ())"

text \<open>What the runner is given: the two libraries, the reader and the calendar.\<close>

record 'd runner_env =
  env_odbc :: "'d odbc_api"
  env_bcp :: "'d bcp_api"
  env_ipc :: "'d ipc_reader"
  env_calendar :: calendar
  env_process_id :: u32

definition run_repeat ::
    "'d runner_env \<Rightarrow> raw_connection \<Rightarrow> rstr \<Rightarrow> runner_options \<Rightarrow> server_profile option
      \<Rightarrow> ('d, bcp_copy_result \<times> server_profile option) runner_step" where
  "run_repeat env conn table options profile =
     next_step (execute_sql (env_odbc env) conn (lit ''DROP TABLE IF EXISTS '' @ table)) (\<lambda>_.
     next_step (of_result (runner_create_table_sql options table)) (\<lambda>sql.
     next_step (execute_sql (env_odbc env) conn sql) (\<lambda>_.
     next_step (copy_ipc_dataset (env_calendar env) (env_odbc env) (env_bcp env) (env_ipc env) table options profile)
       (\<lambda>(copy_result, profile).
     next_step (select_count (env_odbc env) conn table) (\<lambda>actual.
     if actual \<noteq> rows_reported copy_result then of_result (Err (CountMismatch (rows_reported copy_result) actual))
     else
       next_step (validate_scenario_contents (env_odbc env) conn table (opt_scenario options) actual) (\<lambda>_.
       case profile of
         None \<Rightarrow> ok_step (copy_result, None)
       | Some p \<Rightarrow>
           next_step (snapshot_table_pages (env_odbc env) table p) (\<lambda>p. ok_step (copy_result, Some p))))))))"

definition bench_table :: "u32 \<Rightarrow> usize \<Rightarrow> rstr" where
  "bench_table process_id repeat =
     lit ''[dbo].[arrow_tiberius_odbc_bcp_bench_'' @ dec (unat process_id) @ lit ''_'' @ dec repeat @ lit '']''"

text \<open>The table is dropped after every repeat. A cleanup that fails is an error only if the repeat did not fail.\<close>

definition run_one_repeat ::
    "'d runner_env \<Rightarrow> raw_connection \<Rightarrow> runner_options \<Rightarrow> usize \<Rightarrow> bcp_copy_result \<times> server_profile option
      \<Rightarrow> ('d, bcp_copy_result \<times> server_profile option) runner_step" where
  "run_one_repeat env conn options repeat = (\<lambda>(report, profile) d.
     let table = bench_table (env_process_id env) repeat in
     case run_repeat env conn table options profile d of
       None \<Rightarrow> None
     | Some (repeat_result, d) \<Rightarrow>
         (case execute_sql (env_odbc env) conn (lit ''DROP TABLE IF EXISTS '' @ table) d of
            None \<Rightarrow> None
          | Some (cleanup_result, d) \<Rightarrow>
              (case (cleanup_result, repeat_result) of
                 (Err e, Ok _) \<Rightarrow> Some (Err e, d)
               | _ \<Rightarrow> Some (map_ok (\<lambda>(copied, profile). (copy_result_merge report copied, profile)) repeat_result, d))))"

primrec run_repeats_from ::
    "'d runner_env \<Rightarrow> raw_connection \<Rightarrow> runner_options \<Rightarrow> usize list \<Rightarrow> bcp_copy_result \<times> server_profile option
      \<Rightarrow> ('d, bcp_copy_result \<times> server_profile option) runner_step" where
  "run_repeats_from env conn options [] acc = ok_step acc"
| "run_repeats_from env conn options (repeat # repeats) acc =
     next_step (run_one_repeat env conn options repeat acc) (run_repeats_from env conn options repeats)"

definition run_repeats ::
    "'d runner_env \<Rightarrow> raw_connection \<Rightarrow> runner_options \<Rightarrow> server_profile option
      \<Rightarrow> ('d, bcp_copy_result \<times> server_profile option) runner_step" where
  "run_repeats env conn options profile =
     run_repeats_from env conn options [0..<opt_repeat options] (copy_result_default, profile)"

subsection \<open>Commands\<close>

definition required_env :: "(rstr \<Rightarrow> rstr option) \<Rightarrow> rstr \<Rightarrow> runner_error + rstr" where
  "required_env vars name =
     and_then (ok_or (MissingVariable name) (vars name)) (\<lambda>v. if v = [] then Err (EmptyVariable name) else Ok v)"

definition CONNECTION_STRING_ENV :: rstr where
  "CONNECTION_STRING_ENV = lit ''ARROW_TIBERIUS_BENCH_ODBC_CONNECTION_STRING''"

definition DATABASE_ENV :: rstr where
  "DATABASE_ENV = lit ''ARROW_TIBERIUS_BENCH_DATABASE''"

text \<open>A connection lives as long as its use.\<close>

definition with_connection ::
    "'d odbc_api \<Rightarrow> rstr \<Rightarrow> (raw_connection \<Rightarrow> ('d, 'a) runner_step) \<Rightarrow> ('d, 'a) runner_step" where
  "with_connection odbc connection_string use =
     next_step (connection_connect odbc connection_string) (\<lambda>conn. dropping (drop_connection odbc conn) (use conn))"

text \<open>Loading the libraries gives their functions.\<close>

type_synonym 'd loader = "'d \<Rightarrow> (runner_error + 'd runner_env) \<times> 'd"

definition validate_command :: "(rstr \<Rightarrow> rstr option) \<Rightarrow> 'd loader \<Rightarrow> ('d, unit) runner_step" where
  "validate_command vars load =
     next_step (of_result (required_env vars CONNECTION_STRING_ENV)) (\<lambda>connection_string.
     next_step (of_result (required_env vars DATABASE_ENV)) (\<lambda>_.
     next_step (external load) (\<lambda>loaded.
     next_step (of_result loaded) (\<lambda>env. with_connection (env_odbc env) connection_string (\<lambda>_. ok_step ())))))"

definition bench_run ::
    "'d runner_env \<Rightarrow> runner_options \<Rightarrow> raw_connection \<Rightarrow> server_profile option
      \<Rightarrow> ('d, bcp_copy_result \<times> server_profile option) runner_step" where
  "bench_run env options conn profile =
     next_step (run_repeats env conn options profile) (\<lambda>(report, profile).
     case profile of
       None \<Rightarrow> ok_step (report, None)
     | Some p \<Rightarrow> next_step (profile_finish (env_odbc env) p) (\<lambda>p. ok_step (report, Some p)))"

definition bench_command ::
    "(rstr \<Rightarrow> rstr option) \<Rightarrow> 'd loader \<Rightarrow> rstr list \<Rightarrow> ('d, bcp_copy_result \<times> server_profile option) runner_step" where
  "bench_command vars load args =
     next_step (of_result (runner_options_parse args)) (\<lambda>options.
     next_step (of_result (required_env vars CONNECTION_STRING_ENV)) (\<lambda>connection_string.
     next_step (of_result (required_env vars DATABASE_ENV)) (\<lambda>_.
     next_step (external load) (\<lambda>loaded.
     next_step (of_result loaded) (\<lambda>env.
     with_connection (env_odbc env) connection_string (\<lambda>conn.
       if opt_profile_sqlserver options
       then
         with_connection (env_odbc env) connection_string (\<lambda>observer.
           next_step (profile_start (env_odbc env) conn observer) (\<lambda>profile.
           bench_run env options conn (Some profile)))
       else bench_run env options conn None))))))"

definition runner_main ::
    "(rstr \<Rightarrow> rstr option) \<Rightarrow> 'd loader \<Rightarrow> rstr list \<Rightarrow> ('d, unit) runner_step" where
  "runner_main vars load args =
     (case args of
        [] \<Rightarrow> of_result (Err MissingOption)
      | command # args \<Rightarrow>
          if command = lit ''validate'' then validate_command vars load
          else if command = lit ''bench'' then next_step (bench_command vars load args) (\<lambda>_. ok_step ())
          else of_result (Err (UnknownRunnerCommand command)))"

end
