(* ===== verification/BcpDelivery.thy ===== *)
theory BcpDelivery
  imports BcpRunner
begin

text \<open>
  What the ODBC BCP runner delivers. The bulk copy functions are specified by a view of the driver: the slots that are
  bound, the rows that were sent, and how many of them no batch has confirmed. A copy that reports success has sent
  every row of the file, each column with the value of its entry, through pointers that were valid when the driver read
  them, and every row is confirmed.
\<close>

subsection \<open>The documented driver\<close>

record bcp_slot =
  slot_pointer :: bcp_pointer
  slot_length :: i32
  slot_type :: i32

type_synonym bcp_row = "i32 \<rightharpoonup> i32 \<times> bytes option"

record bcp_view =
  bound_slots :: "i32 \<rightharpoonup> bcp_slot"
  sent_rows :: "bcp_row list"
  unconfirmed_rows :: nat

text \<open>A row can be read when every column that is not null points to enough bytes.\<close>

definition readable_slots :: "(bcp_pointer \<Rightarrow> bytes option) \<Rightarrow> (i32 \<rightharpoonup> bcp_slot) \<Rightarrow> bool" where
  "readable_slots mem slots \<longleftrightarrow>
     (\<forall>slot \<in> ran slots. slot_length slot \<noteq> SQL_NULL_DATA \<longrightarrow>
        (\<exists>bs. mem (slot_pointer slot) = Some bs \<and> 0 \<le> sint (slot_length slot)
          \<and> nat (sint (slot_length slot)) \<le> length bs))"

definition read_slot :: "(bcp_pointer \<Rightarrow> bytes option) \<Rightarrow> bcp_slot \<Rightarrow> i32 \<times> bytes option" where
  "read_slot mem slot =
     (slot_type slot,
      if slot_length slot = SQL_NULL_DATA then None
      else map_option (take (nat (sint (slot_length slot)))) (mem (slot_pointer slot)))"

definition update_slot :: "i32 \<Rightarrow> (bcp_slot \<Rightarrow> bcp_slot) \<Rightarrow> bcp_view \<Rightarrow> bcp_view" where
  "update_slot column f v = v\<lparr>bound_slots := (bound_slots v)(column := map_option f (bound_slots v column))\<rparr>"

text \<open>A call that succeeds has its effect; of a call that fails nothing is known.\<close>

definition documented_bcp :: "'d bcp_api \<Rightarrow> ('d \<Rightarrow> bcp_view) \<Rightarrow> bool" where
  "documented_bcp api view \<longleftrightarrow>
     (\<forall>table direction d. fst (bcp_init api table direction d) = BCP_SUCCEED \<longrightarrow>
        view (snd (bcp_init api table direction d)) = \<lparr>bound_slots = Map.empty, sent_rows = [], unconfirmed_rows = 0\<rparr>)
     \<and> (\<forall>pointer len ty column d. fst (bcp_bind api pointer len ty column d) = BCP_SUCCEED \<longrightarrow>
        view (snd (bcp_bind api pointer len ty column d)) = (view d)\<lparr>bound_slots := (bound_slots (view d))
          (column \<mapsto> \<lparr>slot_pointer = pointer, slot_length = len, slot_type = ty\<rparr>)\<rparr>)
     \<and> (\<forall>len column d. fst (bcp_collen api len column d) = BCP_SUCCEED \<longrightarrow>
        view (snd (bcp_collen api len column d)) = update_slot column (\<lambda>slot. slot\<lparr>slot_length := len\<rparr>) (view d))
     \<and> (\<forall>pointer column d. fst (bcp_colptr api pointer column d) = BCP_SUCCEED \<longrightarrow>
        view (snd (bcp_colptr api pointer column d)) = update_slot column (\<lambda>slot. slot\<lparr>slot_pointer := pointer\<rparr>) (view d))
     \<and> (\<forall>mem d. fst (bcp_sendrow api mem d) = BCP_SUCCEED \<longrightarrow> readable_slots mem (bound_slots (view d)) \<longrightarrow>
        view (snd (bcp_sendrow api mem d)) = (view d)
          \<lparr>sent_rows := sent_rows (view d) @ [\<lambda>column. map_option (read_slot mem) (bound_slots (view d) column)],
           unconfirmed_rows := unconfirmed_rows (view d) + 1\<rparr>)
     \<and> (\<forall>d. 0 \<le> sint (fst (bcp_batch api d)) \<longrightarrow> sint (fst (bcp_batch api d)) = int (unconfirmed_rows (view d))
        \<and> view (snd (bcp_batch api d)) = (view d)\<lparr>unconfirmed_rows := 0\<rparr>)
     \<and> (\<forall>d. 0 \<le> sint (fst (bcp_done api d)) \<longrightarrow> sint (fst (bcp_done api d)) = int (unconfirmed_rows (view d))
        \<and> view (snd (bcp_done api d)) = (view d)\<lparr>unconfirmed_rows := 0\<rparr>)"

lemma bcp_call_ok:
  "bcp_call f d = Some (Ok u, d') \<longleftrightarrow> d' = snd (f d) \<and> fst (f d) = BCP_SUCCEED"
  by (auto simp: bcp_call_def next_step_def external_def of_result_def case_prod_beta require_bcp_success_def)

lemma bind_column_view:
  assumes "documented_bcp api view" and "bind_column api pointer len ty column d = Some (Ok u, d')"
  shows "view d' = (view d)\<lparr>bound_slots := (bound_slots (view d))
    (column \<mapsto> \<lparr>slot_pointer = pointer, slot_length = len, slot_type = ty\<rparr>)\<rparr>"
  using assms by (auto simp: bind_column_def bcp_call_ok documented_bcp_def)

lemma set_column_len_view:
  assumes "documented_bcp api view" and "set_column_len api len column d = Some (Ok u, d')"
  shows "view d' = update_slot column (\<lambda>slot. slot\<lparr>slot_length := len\<rparr>) (view d)"
  using assms by (auto simp: set_column_len_def bcp_call_ok documented_bcp_def)

lemma set_column_ptr_view:
  assumes "documented_bcp api view" and "set_column_ptr api pointer column d = Some (Ok u, d')"
  shows "view d' = update_slot column (\<lambda>slot. slot\<lparr>slot_pointer := pointer\<rparr>) (view d)"
  using assms by (auto simp: set_column_ptr_def bcp_call_ok documented_bcp_def)

lemma sendrow_view:
  assumes "documented_bcp api view" and "bcp_call (bcp_sendrow api mem) d = Some (Ok u, d')"
    and "readable_slots mem (bound_slots (view d))"
  shows "view d' = (view d)
    \<lparr>sent_rows := sent_rows (view d) @ [\<lambda>column. map_option (read_slot mem) (bound_slots (view d) column)],
     unconfirmed_rows := unconfirmed_rows (view d) + 1\<rparr>"
  using assms by (auto simp: bcp_call_ok documented_bcp_def)

lemma reported_rows:
  assumes "0 \<le> sint (rows :: i32)"
  shows "uint (scast rows :: u64) = sint rows"
proof -
  have "sint rows < 2 ^ 31" using sint_lt [of rows] by simp
  with assms have "uint (word_of_int (sint rows) :: u64) = sint rows"
    unfolding uint_word_of_int by simp
  then show ?thesis unfolding scast_eq .
qed

lemma flush_batch_view:
  assumes "documented_bcp api view" and "flush_batch api d = Some (Ok rows, d')"
  shows "uint rows = int (unconfirmed_rows (view d)) \<and> view d' = (view d)\<lparr>unconfirmed_rows := 0\<rparr>"
  using assms
  by (auto simp: flush_batch_def next_step_def external_def of_result_def case_prod_beta documented_bcp_def reported_rows
      split: if_splits)

lemma bcp_finish_view:
  assumes "documented_bcp api view" and "bcp_finish api d = Some (Ok rows, d')"
  shows "uint rows = int (unconfirmed_rows (view d)) \<and> view d' = (view d)\<lparr>unconfirmed_rows := 0\<rparr>"
  using assms
  by (auto simp: bcp_finish_def next_step_def external_def of_result_def case_prod_beta documented_bcp_def reported_rows
      split: if_splits)

subsection \<open>Binding the columns\<close>

text \<open>The bindings of a schema: column number \<^verbatim>\<open>i\<close> is bound to server column \<^verbatim>\<open>i + 1\<close>.\<close>

definition server_column :: "usize \<Rightarrow> i32" where
  "server_column index = of_nat (index + 1)"

definition bindings_match :: "arrow_field list \<Rightarrow> bcp_column_binding list \<Rightarrow> bool" where
  "bindings_match schema bs \<longleftrightarrow> length bs = length schema \<and> length schema < 2 ^ 31
     \<and> (\<forall>i < length schema. binding_index (bs ! i) = i \<and> binding_server_column (bs ! i) = server_column i
          \<and> binding_name (bs ! i) = field_name (schema ! i)
          \<and> binding_data_type (bs ! i) = field_data_type (schema ! i)
          \<and> binding_nullable (bs ! i) = field_nullable (schema ! i))"

lemma db_int_ok: "db_int n = Inr w \<longleftrightarrow> n < 2 ^ 31 \<and> w = of_nat n"
  by (auto simp: db_int_def)

lemma binding_new_ok:
  assumes "binding_new i name ty nullable = Ok b"
  shows "i + 1 < 2 ^ 31 \<and> binding_index b = i \<and> binding_server_column b = server_column i \<and> binding_name b = name
    \<and> binding_data_type b = ty \<and> binding_nullable b = nullable \<and> buffer_new ty = Ok (binding_buffer b)"
  using assms by (auto simp: binding_new_def result_simps db_int_ok server_column_def)

lemma bindings_new_match:
  assumes "bindings_new batch = Ok bs"
  shows "bindings_match (batch_fields batch) bs"
proof -
  from assms have len: "length bs = length (batch_fields batch)"
    and each: "\<And>i. i < length (batch_fields batch) \<Longrightarrow> binding_new i (field_name (batch_fields batch ! i))
      (field_data_type (batch_fields batch ! i)) (field_nullable (batch_fields batch ! i)) = Ok (bs ! i)"
    by (auto simp: bindings_new_def try_map_Inr nth_enumerate_eq)
  have "length (batch_fields batch) < 2 ^ 31"
  proof (cases "batch_fields batch")
    case (Cons f fs)
    then have "length fs < length (batch_fields batch)" by simp
    from binding_new_ok [OF each [OF this]] Cons show ?thesis by simp
  qed simp
  moreover have "binding_index (bs ! i) = i \<and> binding_server_column (bs ! i) = server_column i
      \<and> binding_name (bs ! i) = field_name (batch_fields batch ! i)
      \<and> binding_data_type (bs ! i) = field_data_type (batch_fields batch ! i)
      \<and> binding_nullable (bs ! i) = field_nullable (batch_fields batch ! i)" if "i < length (batch_fields batch)" for i
    using binding_new_ok [OF each [OF that]] by blast
  ultimately show ?thesis
    using len by (simp add: bindings_match_def)
qed

lemma server_column_inject:
  "i < 2 ^ 31 - 1 \<Longrightarrow> j < 2 ^ 31 - 1 \<Longrightarrow> server_column i = server_column j \<longleftrightarrow> i = j"
  by (simp add: server_column_def unat_inject [symmetric] unat_of_nat del: of_nat_Suc of_nat_add)

subsection \<open>Setting a row\<close>

text \<open>Between rows the driver knows the type of every column and where a value of fixed width is.\<close>

definition steady_slot :: "bcp_column_binding \<Rightarrow> bcp_slot \<Rightarrow> bool" where
  "steady_slot b slot \<longleftrightarrow> slot_type slot = server_type (binding_buffer b)
     \<and> (\<not> is_variable_len (binding_buffer b) \<longrightarrow> slot_pointer slot = buffer_pointer b)"

definition same_binding :: "bcp_column_binding \<Rightarrow> bcp_column_binding \<Rightarrow> bool" where
  "same_binding b b' \<longleftrightarrow> binding_index b' = binding_index b \<and> binding_server_column b' = binding_server_column b
     \<and> binding_name b' = binding_name b \<and> binding_data_type b' = binding_data_type b
     \<and> binding_nullable b' = binding_nullable b"

text \<open>Once a row is set, a column is null or points to its value.\<close>

definition ready_slot :: "calendar \<Rightarrow> record_batch \<Rightarrow> usize \<Rightarrow> bcp_column_binding \<Rightarrow> bcp_slot \<Rightarrow> bool" where
  "ready_slot cal batch row b slot \<longleftrightarrow>
     (let array = batch_columns batch ! binding_index b; bs = buffer_bytes (binding_buffer b) in
      if array_nulls array ! row then slot_length slot = SQL_NULL_DATA
      else slot_pointer slot = buffer_pointer b \<and> length bs < 2 ^ 31 \<and> slot_length slot = of_nat (length bs)
        \<and> (\<exists>v. entry_value cal array row = Some v
             \<and> received_value (is_decimal_type (batch_type batch (binding_index b))) (slot_type slot) bs = Some v))"

definition readable_array :: "record_batch \<Rightarrow> usize \<Rightarrow> usize \<Rightarrow> bool" where
  "readable_array batch index row \<longleftrightarrow>
     (let array = batch_columns batch ! index in
      array_data_type array = batch_type batch index \<and> row < array_len array \<and> scalar_array array)"

lemma current_len_bytes:
  "current_len buffer = Ok len \<Longrightarrow> length (buffer_bytes buffer) < 2 ^ 31 \<and> len = of_nat (length (buffer_bytes buffer))"
  by (cases buffer) (auto simp: db_int_ok)

lemma binding_set_row_ready:
  assumes doc: "documented_bcp api view" and set: "binding_set_row cal api batch row b d = Some (Ok b', d')"
    and array: "readable_array batch (binding_index b) row"
    and slot: "bound_slots (view d) (binding_server_column b) = Some slot" "steady_slot b slot"
  shows "same_binding b b' \<and> (\<exists>slot'. view d' = (view d)\<lparr>bound_slots := (bound_slots (view d))(binding_server_column b \<mapsto> slot')\<rparr>
    \<and> steady_slot b' slot' \<and> ready_slot cal batch row b' slot')"
proof (cases "array_nulls (batch_columns batch ! binding_index b) ! row")
  case True
  with set have "binding_nullable b" "b' = b" "set_column_len api SQL_NULL_DATA (binding_server_column b) d = Some (Ok (), d')"
    by (auto simp: binding_set_row_def next_step_ok split: if_splits)
  with set_column_len_view [OF doc] True slot show ?thesis
    by (fastforce simp: same_binding_def update_slot_def steady_slot_def ready_slot_def Let_def)
next
  case False
  let ?array = "batch_columns batch ! binding_index b"
  from set False obtain buffer len d1 where buffer: "set_from_batch cal batch (binding_index b) row (binding_buffer b) = Ok buffer"
    and b': "b' = b\<lparr>binding_buffer := buffer, binding_refills := binding_refills b + 1\<rparr>"
    and ptr: "(if is_variable_len buffer then set_column_ptr api (buffer_pointer b') (binding_server_column b') else ok_step ()) d
      = Some (Ok (), d1)"
    and len: "current_len buffer = Ok len" "set_column_len api len (binding_server_column b) d1 = Some (Ok (), d')"
    by (auto simp: binding_set_row_def next_step_ok Let_def)
  from array False have reads: "server_type buffer = server_type (binding_buffer b)
      \<and> is_variable_len buffer = is_variable_len (binding_buffer b)
      \<and> (\<exists>v. entry_value cal ?array row = Some v
        \<and> received_value (is_decimal_type (batch_type batch (binding_index b))) (server_type buffer) (buffer_bytes buffer) = Some v)"
    by (intro set_from_batch_reads [OF buffer refl]) (simp_all add: readable_array_def Let_def)
  define slot1 where "slot1 = slot\<lparr>slot_pointer := buffer_pointer b'\<rparr>"
  have "view d1 = (view d)\<lparr>bound_slots := (bound_slots (view d))(binding_server_column b \<mapsto> slot1)\<rparr>"
  proof (cases "is_variable_len buffer")
    case True
    with ptr set_column_ptr_view [OF doc] slot(1) show ?thesis
      by (auto simp: update_slot_def slot1_def b')
  next
    case fixed: False
    with ptr have "d1 = d" by simp
    moreover have "slot1 = slot"
      using fixed reads slot(2) by (simp add: slot1_def steady_slot_def buffer_pointer_def b')
    ultimately show ?thesis
      using slot(1) by (simp add: fun_upd_idem)
  qed
  then have "view d' = (view d)\<lparr>bound_slots := (bound_slots (view d))
      (binding_server_column b \<mapsto> slot1\<lparr>slot_length := len\<rparr>)\<rparr>"
    using set_column_len_view [OF doc len(2)] by (simp add: update_slot_def)
  moreover have "steady_slot b' (slot1\<lparr>slot_length := len\<rparr>)"
    using slot(2) reads by (simp add: steady_slot_def slot1_def b')
  moreover have "ready_slot cal batch row b' (slot1\<lparr>slot_length := len\<rparr>)"
    using slot(2) reads False current_len_bytes [OF len(1)]
    by (auto simp: ready_slot_def steady_slot_def slot1_def b' Let_def)
  ultimately show ?thesis
    by (auto simp: same_binding_def b')
qed

text \<open>The columns of a row are set one after the other; none touches the slot of another.\<close>

definition steady_slots :: "bcp_column_binding list \<Rightarrow> (i32 \<rightharpoonup> bcp_slot) \<Rightarrow> bool" where
  "steady_slots bs slots \<longleftrightarrow>
     distinct (map binding_server_column bs)
     \<and> (\<forall>b \<in> set bs. \<exists>slot. slots (binding_server_column b) = Some slot \<and> steady_slot b slot)"

lemma same_binding_columns: "list_all2 same_binding bs bs' \<Longrightarrow> map binding_server_column bs' = map binding_server_column bs"
  by (induction rule: list_all2_induct) (auto simp: same_binding_def)

lemma bindings_set_row_ready:
  assumes doc: "documented_bcp api view" and "bindings_set_row cal api batch row bs d = Some (Ok bs', d')"
    and "\<forall>b \<in> set bs. readable_array batch (binding_index b) row" and "steady_slots bs (bound_slots (view d))"
  shows "list_all2 same_binding bs bs'
    \<and> (\<exists>slots. view d' = (view d)\<lparr>bound_slots := slots\<rparr>
      \<and> (\<forall>column. column \<notin> binding_server_column ` set bs \<longrightarrow> slots column = bound_slots (view d) column)
      \<and> (\<forall>b \<in> set bs'. \<exists>slot. slots (binding_server_column b) = Some slot \<and> steady_slot b slot
          \<and> ready_slot cal batch row b slot))"
  using assms(2-)
proof (induction bs arbitrary: bs' d)
  case Nil
  then show ?case by (auto simp: next_step_ok intro!: exI [of _ "bound_slots (view d)"])
next
  case (Cons b bs)
  from Cons.prems(1) obtain c d1 cs where c: "binding_set_row cal api batch row b d = Some (Ok c, d1)"
    and cs: "bindings_set_row cal api batch row bs d1 = Some (Ok cs, d')" and bs': "bs' = c # cs"
    by (auto simp: next_step_ok)
  from Cons.prems(3) obtain slot where slot: "bound_slots (view d) (binding_server_column b) = Some slot" "steady_slot b slot"
    by (auto simp: steady_slots_def)
  from binding_set_row_ready [OF doc c _ slot] Cons.prems(2) obtain slot1 where one: "same_binding b c"
    "view d1 = (view d)\<lparr>bound_slots := (bound_slots (view d))(binding_server_column b \<mapsto> slot1)\<rparr>"
    "steady_slot c slot1" "ready_slot cal batch row c slot1" by auto
  have "steady_slots bs (bound_slots (view d1))"
    using Cons.prems(3) by (auto simp: steady_slots_def one(2)) (metis imageI)
  from Cons.IH [OF cs _ this] Cons.prems(2) obtain slots where rest: "list_all2 same_binding bs cs"
    "view d' = (view d1)\<lparr>bound_slots := slots\<rparr>"
    "\<forall>column. column \<notin> binding_server_column ` set bs \<longrightarrow> slots column = bound_slots (view d1) column"
    "\<forall>b \<in> set cs. \<exists>slot. slots (binding_server_column b) = Some slot \<and> steady_slot b slot \<and> ready_slot cal batch row b slot"
    by auto
  have "binding_server_column c = binding_server_column b"
    using one(1) by (simp add: same_binding_def)
  moreover have "slots (binding_server_column b) = Some slot1"
    using rest(3) Cons.prems(3) by (simp add: steady_slots_def one(2))
  ultimately show ?case
    using one rest by (auto simp: bs' intro!: exI [of _ slots])
qed

subsection \<open>Sending a row\<close>

text \<open>The row the server receives: every column under its server type, null or with the value of its entry.\<close>

definition row_delivered :: "calendar \<Rightarrow> record_batch \<Rightarrow> usize \<Rightarrow> bcp_row \<Rightarrow> bool" where
  "row_delivered cal batch row r \<longleftrightarrow>
     dom r = server_column ` {..<length (batch_columns batch)}
     \<and> (\<forall>i < length (batch_columns batch). \<exists>ty payload. r (server_column i) = Some (ty, payload)
          \<and> (if array_nulls (batch_columns batch ! i) ! row then payload = None
             else \<exists>bs v. payload = Some bs \<and> entry_value cal (batch_columns batch ! i) row = Some v
               \<and> received_value (is_decimal_type (batch_type batch i)) ty bs = Some v))"

lemma memory_own:
  assumes "distinct (map binding_index bs)" and "b \<in> set bs"
  shows "memory bs (buffer_pointer b) = Some (buffer_bytes (binding_buffer b))"
proof -
  have same: "buffer_pointer c = buffer_pointer b \<Longrightarrow> binding_index c = binding_index b" for c
    by (auto simp: buffer_pointer_def split: if_splits)
  have "find (\<lambda>c. buffer_pointer c = buffer_pointer b) bs = Some b"
    using assms
  proof (induction bs)
    case (Cons c bs)
    then show ?case
      using same [of c] by (auto simp: rev_image_eqI)
  qed simp
  then show ?thesis by (simp add: memory_def)
qed

text \<open>The state of a copy between rows: the bound columns are those of the schema and no others.\<close>

definition bound_exactly :: "arrow_field list \<Rightarrow> bcp_column_binding list \<Rightarrow> (i32 \<rightharpoonup> bcp_slot) \<Rightarrow> bool" where
  "bound_exactly schema bs slots \<longleftrightarrow> bindings_match schema bs \<and> steady_slots bs slots
     \<and> dom slots = binding_server_column ` set bs"

lemma bindings_match_set:
  assumes "bindings_match schema bs"
  shows "distinct (map binding_index bs)" and "binding_server_column ` set bs = server_column ` {..<length schema}"
    and "b \<in> set bs \<Longrightarrow> binding_index b < length schema \<and> binding_server_column b = server_column (binding_index b)"
proof -
  have "map binding_index bs = [0..<length schema]"
    using assms by (auto simp: bindings_match_def intro!: nth_equalityI)
  then show "distinct (map binding_index bs)" by simp
  have "map binding_server_column bs = map server_column [0..<length schema]"
    using assms by (auto simp: bindings_match_def intro!: nth_equalityI)
  then show "binding_server_column ` set bs = server_column ` {..<length schema}"
    by (metis atLeast_upt image_set)
  show "b \<in> set bs \<Longrightarrow> binding_index b < length schema \<and> binding_server_column b = server_column (binding_index b)"
    using assms by (auto simp: bindings_match_def in_set_conv_nth)
qed

lemma bindings_match_same:
  assumes "bindings_match schema bs" and "list_all2 same_binding bs bs'"
  shows "bindings_match schema bs'"
  using assms by (simp add: bindings_match_def same_binding_def list_all2_conv_all_nth)

definition sendable_batch :: "record_batch \<Rightarrow> bool" where
  "sendable_batch batch \<longleftrightarrow> valid_batch batch \<and> (\<forall>array \<in> set (batch_columns batch). scalar_array array)"

lemma sendable_readable:
  assumes "sendable_batch batch" and i: "i < length (batch_columns batch)" and "row < batch_num_rows batch"
  shows "readable_array batch i row"
proof -
  have types: "map field_data_type (batch_fields batch) = map array_data_type (batch_columns batch)"
    and arrays: "\<forall>array \<in> set (batch_columns batch). array_len array = batch_num_rows batch \<and> scalar_array array"
    using assms(1) by (auto simp: sendable_batch_def valid_batch_def)
  have "length (batch_fields batch) = length (batch_columns batch)"
    using types by (rule map_eq_imp_length_eq)
  then have "field_data_type (batch_fields batch ! i) = array_data_type (batch_columns batch ! i)"
    using arg_cong [OF types, of "\<lambda>xs. xs ! i"] i by simp
  moreover have "array_len (batch_columns batch ! i) = batch_num_rows batch \<and> scalar_array (batch_columns batch ! i)"
    using arrays i by (metis nth_mem)
  ultimately show ?thesis
    using assms(3) unfolding readable_array_def batch_type_def Let_def by metis
qed

lemma sint_of_small_nat: "n < 2 ^ 31 \<Longrightarrow> sint (of_nat n :: i32) = int n"
  using sint_word_of_int_fits [of "int n", where ?'w = 32] by (simp add: in_signed_def)

lemma row_sent:
  assumes doc: "documented_bcp api view" and batch: "sendable_batch batch" "row < batch_num_rows batch"
    and bound: "bound_exactly schema bs (bound_slots (view d))" "length (batch_columns batch) = length schema"
    and set: "bindings_set_row cal api batch row bs d = Some (Ok bs', d1)"
    and send: "bcp_call (bcp_sendrow api (memory bs')) d1 = Some (Ok u, d')"
  shows "bound_exactly schema bs' (bound_slots (view d'))
    \<and> (\<exists>r. row_delivered cal batch row r \<and> sent_rows (view d') = sent_rows (view d) @ [r])
    \<and> unconfirmed_rows (view d') = unconfirmed_rows (view d) + 1"
proof -
  have matching: "bindings_match schema bs" and steady: "steady_slots bs (bound_slots (view d))"
    using bound(1) by (simp_all add: bound_exactly_def)
  have "\<forall>b \<in> set bs. readable_array batch (binding_index b) row"
    using bindings_match_set(3) [OF matching] sendable_readable [OF batch(1) _ batch(2)] bound(2) by simp
  from bindings_set_row_ready [OF doc set this steady] obtain slots where same: "list_all2 same_binding bs bs'"
    and view1: "view d1 = (view d)\<lparr>bound_slots := slots\<rparr>"
    and others: "\<forall>column. column \<notin> binding_server_column ` set bs \<longrightarrow> slots column = bound_slots (view d) column"
    and ready: "\<forall>b \<in> set bs'. \<exists>slot. slots (binding_server_column b) = Some slot \<and> steady_slot b slot
      \<and> ready_slot cal batch row b slot"
    by blast
  have matching': "bindings_match schema bs'"
    using bindings_match_same [OF matching same] .
  note own = memory_own [OF bindings_match_set(1) [OF matching']]
  have columns: "binding_server_column ` set bs' = binding_server_column ` set bs"
    using same_binding_columns [OF same] by (metis image_set)
  have dom: "dom slots = binding_server_column ` set bs'"
  proof
    show "dom slots \<subseteq> binding_server_column ` set bs'"
      using others bound(1) columns by (force simp: bound_exactly_def dom_def)
    show "binding_server_column ` set bs' \<subseteq> dom slots"
      using ready by auto
  qed
  have entry: "(if array_nulls (batch_columns batch ! binding_index b) ! row
        then slot_length slot = SQL_NULL_DATA
        else \<exists>bytes v. memory bs' (slot_pointer slot) = Some bytes \<and> sint (slot_length slot) = int (length bytes)
          \<and> entry_value cal (batch_columns batch ! binding_index b) row = Some v
          \<and> received_value (is_decimal_type (batch_type batch (binding_index b))) (slot_type slot) bytes = Some v)"
    if "b \<in> set bs'" "slots (binding_server_column b) = Some slot" for b slot
  proof -
    have "ready_slot cal batch row b slot"
      using ready that by fastforce
    then show ?thesis
      using own [OF that(1)] by (auto simp: ready_slot_def Let_def sint_of_small_nat)
  qed
  have "readable_slots (memory bs') slots"
    unfolding readable_slots_def
  proof (intro ballI impI)
    fix slot assume "slot \<in> ran slots" and not_null: "slot_length slot \<noteq> SQL_NULL_DATA"
    then obtain column where column: "slots column = Some slot" by (auto simp: ran_def)
    then obtain b where "b \<in> set bs'" "column = binding_server_column b" using dom by blast
    with entry [of b slot] column not_null show "\<exists>bs. memory bs' (slot_pointer slot) = Some bs
        \<and> 0 \<le> sint (slot_length slot) \<and> nat (sint (slot_length slot)) \<le> length bs"
      by (auto split: if_splits)
  qed
  then have sent: "view d' = (view d1)\<lparr>sent_rows := sent_rows (view d1)
        @ [\<lambda>column. map_option (read_slot (memory bs')) (slots column)], unconfirmed_rows := unconfirmed_rows (view d1) + 1\<rparr>"
    using sendrow_view [OF doc send] by (simp add: view1)
  have "row_delivered cal batch row (\<lambda>column. map_option (read_slot (memory bs')) (slots column))"
    unfolding row_delivered_def
  proof (intro conjI allI impI)
    show "dom (\<lambda>column. map_option (read_slot (memory bs')) (slots column)) = server_column ` {..<length (batch_columns batch)}"
      using dom bindings_match_set(2) [OF matching'] bound(2) by (auto simp: dom_def)
    fix i assume i: "i < length (batch_columns batch)"
    then obtain b where b: "b \<in> set bs'" "binding_index b = i" "binding_server_column b = server_column i"
      using matching' bound(2) by (metis bindings_match_def nth_mem)
    then obtain slot where slot: "slots (server_column i) = Some slot" using ready by fastforce
    have "sint (slot_length slot) \<noteq> int n" if "slot_length slot = SQL_NULL_DATA" for n
      using that by (simp add: SQL_NULL_DATA_def)
    with entry [of b slot] b slot show "\<exists>ty payload. map_option (read_slot (memory bs')) (slots (server_column i)) = Some (ty, payload)
        \<and> (if array_nulls (batch_columns batch ! i) ! row then payload = None
           else \<exists>bs v. payload = Some bs \<and> entry_value cal (batch_columns batch ! i) row = Some v
             \<and> received_value (is_decimal_type (batch_type batch i)) ty bs = Some v)"
      by (auto simp: read_slot_def split: if_splits)
  qed
  moreover have "bound_exactly schema bs' slots"
    using matching' dom ready steady columns same_binding_columns [OF same]
    by (simp add: bound_exactly_def steady_slots_def) blast
  ultimately show ?thesis
    by (auto simp: sent view1)
qed

subsection \<open>Copying a file\<close>

text \<open>How the counters of a copy follow the driver: without deferring, what no batch has confirmed is what was sent
  since the last batch of \<^verbatim>\<open>batch_size\<close> rows.\<close>

definition counters_follow :: "runner_options \<Rightarrow> bcp_view \<Rightarrow> copy_state \<Rightarrow> bool" where
  "counters_follow options v st \<longleftrightarrow>
     copy_rows_seen st = length (sent_rows v)
     \<and> (if opt_defer_batches options
        then unconfirmed_rows v = copy_rows_seen st \<and> copy_report st = copy_result_default
        else unconfirmed_rows v = copy_sent_since_batch st
          \<and> copy_sent_since_batch st = copy_rows_seen st mod opt_batch_size options
          \<and> uint (batch_calls (copy_report st)) = min (2 ^ 64 - 1) (int (copy_rows_seen st div opt_batch_size options)))"

lemma saturating_uint: "uint (saturating_add_u64 a b) = min (2 ^ 64 - 1) (uint a + uint b)"
proof -
  have "uint (a + b) = uint a + uint b" if "uint a + uint b < 2 ^ 64"
    using that by (simp add: uint_plus_if')
  moreover have "uint (- 1 :: u64) = 2 ^ 64 - 1"
    by (simp add: unsigned_minus_1_eq_mask mask_eq_exp_minus_1)
  ultimately show ?thesis by (auto simp: saturating_add_u64_def min_def)
qed

lemma copy_flush_view:
  assumes "documented_bcp api view" and "copy_flush api st d = Some (Ok st', d')"
  shows "view d' = (view d)\<lparr>unconfirmed_rows := 0\<rparr>
    \<and> copy_rows_seen st' = copy_rows_seen st \<and> copy_bindings st' = copy_bindings st
    \<and> uint (batch_calls (copy_report st')) = min (2 ^ 64 - 1) (uint (batch_calls (copy_report st)) + 1)"
  using assms(2) flush_batch_view [OF assms(1)]
  by (auto simp: copy_flush_def next_step_ok saturating_uint)

text \<open>The batch that ends after a row, if one does.\<close>

lemma batch_end_follows:
  assumes doc: "documented_bcp api view" and size: "0 < opt_batch_size options"
    and before: "counters_follow options v st" "sent_rows (view d) = sent_rows v @ [r]"
      "unconfirmed_rows (view d) = unconfirmed_rows v + 1"
    and step: "copy_row_sent api options st d = Some (Ok st', d')"
  shows "counters_follow options (view d') st' \<and> bound_slots (view d') = bound_slots (view d)
    \<and> sent_rows (view d') = sent_rows (view d)"
proof -
  define st1 where st: "st1 = st\<lparr>copy_sent_since_batch := copy_sent_since_batch st + 1, copy_rows_seen := copy_rows_seen st + 1\<rparr>"
  have step: "(if \<not> opt_defer_batches options \<and> copy_sent_since_batch st1 = opt_batch_size options
      then next_step (copy_flush api st1) (\<lambda>st. ok_step (st\<lparr>copy_sent_since_batch := 0\<rparr>)) else ok_step st1) d
    = Some (Ok st', d')"
    using step unfolding copy_row_sent_def Let_def st .
  show ?thesis
proof (cases "\<not> opt_defer_batches options \<and> copy_sent_since_batch st1 = opt_batch_size options")
  case True
  with step obtain st2 where flush: "copy_flush api st1 d = Some (Ok st2, d')"
    and st': "st' = st2\<lparr>copy_sent_since_batch := 0\<rparr>"
    by (auto simp: next_step_ok)
  let ?n = "copy_rows_seen st" and ?size = "opt_batch_size options"
  have "Suc (?n mod ?size) = ?size"
    using True before(1) by (simp add: counters_follow_def st)
  then have "Suc ?n mod ?size = 0" "Suc ?n div ?size = Suc (?n div ?size)"
    by (simp_all add: mod_Suc div_Suc)
  with copy_flush_view [OF doc flush] True before show ?thesis
    by (auto simp: counters_follow_def st st')
next
  case False
  with step have out: "st' = st1" "d' = d" by (auto split: if_splits)
  show ?thesis
  proof (cases "opt_defer_batches options")
    case True
    with before show ?thesis by (simp add: counters_follow_def out st)
  next
    case batched: False
    let ?n = "copy_rows_seen st" and ?size = "opt_batch_size options"
    have "Suc (?n mod ?size) \<noteq> ?size"
      using False batched before(1) by (simp add: counters_follow_def st)
    then have "Suc ?n mod ?size = Suc (?n mod ?size)" "Suc ?n div ?size = ?n div ?size"
      by (simp_all add: mod_Suc div_Suc)
    with batched before show ?thesis by (simp add: counters_follow_def out st)
  qed
qed
qed

lemma copy_rows_sent:
  assumes doc: "documented_bcp api view" and size: "0 < opt_batch_size options"
    and batch: "sendable_batch batch" "length (batch_columns batch) = length schema"
    and "set rows \<subseteq> {..<batch_num_rows batch}"
    and "copy_rows cal api options batch rows bs st d = Some (Ok st', d')"
    and "bound_exactly schema bs (bound_slots (view d))" and "counters_follow options (view d) st"
  shows "\<exists>bs' rs. copy_bindings st' = Some bs' \<and> bound_exactly schema bs' (bound_slots (view d'))
    \<and> list_all2 (row_delivered cal batch) rows rs \<and> sent_rows (view d') = sent_rows (view d) @ rs
    \<and> counters_follow options (view d') st'"
  using assms(5-)
proof (induction rows arbitrary: bs st d)
  case Nil
  then show ?case by (auto simp: counters_follow_def)
next
  case (Cons row rows)
  from Cons.prems(2) obtain bs1 d1 u d2 st1 d3 where
    set: "bindings_set_row cal api batch row bs d = Some (Ok bs1, d1)"
    and send: "bcp_call (bcp_sendrow api (memory bs1)) d1 = Some (Ok u, d2)"
    and batch_end: "copy_row_sent api options st d2 = Some (Ok st1, d3)"
    and rest: "copy_rows cal api options batch rows bs1 st1 d3 = Some (Ok st', d')"
    by (auto simp: next_step_ok Let_def)
  from row_sent [OF doc batch(1) _ Cons.prems(3) batch(2) set send] Cons.prems(1) obtain r where
    sent: "bound_exactly schema bs1 (bound_slots (view d2))" "row_delivered cal batch row r"
      "sent_rows (view d2) = sent_rows (view d) @ [r]" "unconfirmed_rows (view d2) = unconfirmed_rows (view d) + 1"
    by auto
  from batch_end_follows [OF doc size Cons.prems(4) sent(3,4) batch_end]
  have after: "counters_follow options (view d3) st1" "bound_slots (view d3) = bound_slots (view d2)"
    "sent_rows (view d3) = sent_rows (view d2)" by simp_all
  from Cons.IH [OF _ rest] Cons.prems(1) sent(1) after obtain bs' rs where
    "copy_bindings st' = Some bs'" "bound_exactly schema bs' (bound_slots (view d'))"
    "list_all2 (row_delivered cal batch) rows rs" "sent_rows (view d') = sent_rows (view d3) @ rs"
    "counters_follow options (view d') st'" by auto
  with sent(2,3) after(3) show ?case
    by (intro exI [of _ bs'] exI [of _ "r # rs"]) simp
qed

lemma bindings_bind_steady:
  assumes doc: "documented_bcp api view" and "bindings_bind api bs d = Some (Ok u, d')"
    and "distinct (map binding_server_column bs)"
  shows "\<exists>slots. view d' = (view d)\<lparr>bound_slots := slots\<rparr>
    \<and> (\<forall>column. column \<notin> binding_server_column ` set bs \<longrightarrow> slots column = bound_slots (view d) column)
    \<and> (\<forall>b \<in> set bs. \<exists>slot. slots (binding_server_column b) = Some slot \<and> steady_slot b slot)"
  using assms(2-)
proof (induction bs arbitrary: d)
  case Nil
  then show ?case by (auto intro!: exI [of _ "bound_slots (view d)"])
next
  case (Cons b bs)
  from Cons.prems(1) obtain len u1 d1 where
    one: "bind_column api (buffer_pointer b) len (server_type (binding_buffer b)) (binding_server_column b) d = Some (Ok u1, d1)"
    and rest: "bindings_bind api bs d1 = Some (Ok u, d')"
    by (auto simp: next_step_ok binding_bind_def)
  define slot where "slot = \<lparr>slot_pointer = buffer_pointer b, slot_length = len, slot_type = server_type (binding_buffer b)\<rparr>"
  from bind_column_view [OF doc one] have view1: "view d1 = (view d)\<lparr>bound_slots := (bound_slots (view d))
      (binding_server_column b \<mapsto> slot)\<rparr>"
    by (simp add: slot_def)
  from Cons.IH [OF rest] Cons.prems(2) obtain slots where slots: "view d' = (view d1)\<lparr>bound_slots := slots\<rparr>"
    "\<forall>column. column \<notin> binding_server_column ` set bs \<longrightarrow> slots column = bound_slots (view d1) column"
    "\<forall>b \<in> set bs. \<exists>slot. slots (binding_server_column b) = Some slot \<and> steady_slot b slot" by auto
  have "slots (binding_server_column b) = Some slot" "steady_slot b slot"
    using slots(2) Cons.prems(2) by (simp_all add: view1 steady_slot_def slot_def)
  with slots view1 show ?case
    by (intro exI [of _ slots]) auto
qed

definition copy_bound :: "(i32 \<rightharpoonup> bcp_slot) \<Rightarrow> copy_state \<Rightarrow> bool" where
  "copy_bound slots st \<longleftrightarrow>
     (case copy_bindings st of None \<Rightarrow> slots = Map.empty | Some bs \<Rightarrow> \<exists>schema. bound_exactly schema bs slots)"

lemma first_batch_bound:
  assumes doc: "documented_bcp api view" and new: "bindings_new b = Ok bs"
    and bind: "bindings_bind api bs d = Some (Ok u, d1)" and empty: "bound_slots (view d) = Map.empty"
  shows "\<exists>slots. view d1 = (view d)\<lparr>bound_slots := slots\<rparr> \<and> bound_exactly (batch_fields b) bs slots"
proof -
  note matching = bindings_new_match [OF new]
  have "map binding_server_column bs = map server_column [0..<length bs]"
    using matching by (auto simp: bindings_match_def intro!: nth_equalityI)
  moreover have "distinct (map server_column [0..<length bs])"
    using matching by (auto simp: distinct_map inj_on_def bindings_match_def server_column_inject)
  ultimately have distinct: "distinct (map binding_server_column bs)" by simp
  from bindings_bind_steady [OF doc bind distinct] obtain slots where slots: "view d1 = (view d)\<lparr>bound_slots := slots\<rparr>"
    "\<forall>column. column \<notin> binding_server_column ` set bs \<longrightarrow> slots column = bound_slots (view d) column"
    "\<forall>b \<in> set bs. \<exists>slot. slots (binding_server_column b) = Some slot \<and> steady_slot b slot" by blast
  have "dom slots = binding_server_column ` set bs"
    using slots(2,3) empty by (force simp: dom_def)
  with slots distinct matching show ?thesis
    by (auto simp: bound_exactly_def steady_slots_def)
qed

lemma copy_batch_sent:
  assumes doc: "documented_bcp api view" and size: "0 < opt_batch_size options"
    and batch: "\<forall>b. batch = Ok b \<longrightarrow> sendable_batch b"
    and step: "copy_batch cal api options batch st d = Some (Ok st', d')"
    and before: "copy_bound (bound_slots (view d)) st" "counters_follow options (view d) st"
  shows "\<exists>b rs. batch = Ok b \<and> copy_bindings st' \<noteq> None \<and> copy_bound (bound_slots (view d')) st'
    \<and> list_all2 (row_delivered cal b) [0..<batch_num_rows b] rs \<and> sent_rows (view d') = sent_rows (view d) @ rs
    \<and> counters_follow options (view d') st'"
proof -
  from step obtain b bs d1 where b: "batch = Ok b"
    and bound: "(case copy_bindings st of
          Some bindings \<Rightarrow> ok_step bindings
        | None \<Rightarrow> next_step (of_result (bindings_new b)) (\<lambda>bindings.
            next_step (bindings_bind api bindings) (\<lambda>_. ok_step bindings))) d = Some (Ok bs, d1)"
    and shape: "bindings_validate_batch b bs = Ok ()"
    and rows: "copy_rows cal api options b [0..<batch_num_rows b] bs st d1 = Some (Ok st', d')"
    by (auto simp: copy_batch_def next_step_ok of_result_def)
  have "\<exists>schema slots. view d1 = (view d)\<lparr>bound_slots := slots\<rparr> \<and> bound_exactly schema bs slots"
  proof (cases "copy_bindings st")
    case None
    with bound obtain u where new: "bindings_new b = Ok bs" and bind: "bindings_bind api bs d = Some (Ok u, d1)"
      by (auto simp: next_step_ok of_result_def)
    from first_batch_bound [OF doc new bind] None before(1) show ?thesis
      by (auto simp: copy_bound_def)
  next
    case (Some bindings)
    with bound before(1) show ?thesis
      by (auto simp: copy_bound_def intro!: exI [of _ "bound_slots (view d)"])
  qed
  then obtain schema slots where view1: "view d1 = (view d)\<lparr>bound_slots := slots\<rparr>" and exact: "bound_exactly schema bs slots"
    by blast
  have "length (batch_columns b) = length schema"
    using shape exact by (simp add: bindings_validate_batch_def bound_exactly_def bindings_match_def split: if_splits)
  note shape = this
  have bound1: "bound_exactly schema bs (bound_slots (view d1))" and follow1: "counters_follow options (view d1) st"
    using exact before(2) by (simp_all add: view1 counters_follow_def)
  have "sendable_batch b" and "set [0..<batch_num_rows b] \<subseteq> {..<batch_num_rows b}"
    using batch b by auto
  from copy_rows_sent [OF doc size this(1) shape this(2) rows bound1 follow1] obtain bs' rs where
    "copy_bindings st' = Some bs'" "bound_exactly schema bs' (bound_slots (view d'))"
    "list_all2 (row_delivered cal b) [0..<batch_num_rows b] rs" "sent_rows (view d') = sent_rows (view d1) @ rs"
    "counters_follow options (view d') st'"
    by blast
  with b show ?thesis
    by (auto simp: copy_bound_def view1)
qed

text \<open>The rows of a file, in order.\<close>

definition file_rows :: "record_batch list \<Rightarrow> (record_batch \<times> usize) list" where
  "file_rows bs = concat (map (\<lambda>b. map (Pair b) [0..<batch_num_rows b]) bs)"

definition row_of_file :: "calendar \<Rightarrow> record_batch \<times> usize \<Rightarrow> bcp_row \<Rightarrow> bool" where
  "row_of_file cal = (\<lambda>(batch, row). row_delivered cal batch row)"

lemma copy_batches_sent:
  assumes doc: "documented_bcp api view" and size: "0 < opt_batch_size options"
    and "\<forall>b. Ok b \<in> set batches \<longrightarrow> sendable_batch b"
    and "copy_batches cal api options batches st d = Some (Ok st', d')"
    and "copy_bound (bound_slots (view d)) st" and "counters_follow options (view d) st"
  shows "\<exists>bs rs. batches = map Ok bs \<and> list_all2 (row_of_file cal) (file_rows bs) rs
    \<and> sent_rows (view d') = sent_rows (view d) @ rs \<and> counters_follow options (view d') st'"
  using assms(3-)
proof (induction batches arbitrary: st d)
  case Nil
  then show ?case by (auto simp: file_rows_def)
next
  case (Cons batch batches)
  from Cons.prems(2) obtain st1 d1 where first: "copy_batch cal api options batch st d = Some (Ok st1, d1)"
    and rest: "copy_batches cal api options batches st1 d1 = Some (Ok st', d')"
    by (auto simp: next_step_ok)
  have sendable: "\<forall>b. batch = Ok b \<longrightarrow> sendable_batch b" "\<forall>b. Ok b \<in> set batches \<longrightarrow> sendable_batch b"
    using Cons.prems(1) by auto
  from copy_batch_sent [OF doc size sendable(1) first Cons.prems(3,4)] obtain b rs where b: "batch = Ok b"
    "copy_bound (bound_slots (view d1)) st1" "list_all2 (row_delivered cal b) [0..<batch_num_rows b] rs"
    "sent_rows (view d1) = sent_rows (view d) @ rs" "counters_follow options (view d1) st1"
    by blast
  from Cons.IH [OF sendable(2) rest b(2,5)] obtain bs rs' where more: "batches = map Ok bs"
    "list_all2 (row_of_file cal) (file_rows bs) rs'" "sent_rows (view d') = sent_rows (view d1) @ rs'"
    "counters_follow options (view d') st'"
    by blast
  have "list_all2 (row_of_file cal) (map (Pair b) [0..<batch_num_rows b]) rs"
    using b(3) by (simp add: list_all2_map1 row_of_file_def)
  then have "list_all2 (row_of_file cal) (file_rows (b # bs)) (rs @ rs')"
    using more(2) by (simp add: file_rows_def list_all2_appendI)
  with b more show ?case
    by (intro exI [of _ "b # bs"] exI [of _ "rs @ rs'"]) simp
qed

lemma copy_and_batch_ok:
  assumes "copy_and_batch cal api ipc options d = Some (Ok report, d')"
  obtains batches st d3 st1 where "fst (ipc (opt_input_ipc options) d) = Ok batches"
    and "copy_batches cal api options batches \<lparr>copy_bindings = None, copy_rows_seen = 0, copy_sent_since_batch = 0,
        copy_report = copy_result_default\<rparr> (snd (ipc (opt_input_ipc options) d)) = Some (Ok st, d3)"
    and "copy_last_batch api options st d3 = Some (Ok st1, d')" and "copy_rows_seen st1 = opt_rows options"
    and "report = copy_report st1"
  using assms by (auto simp: copy_and_batch_def next_step_ok external_some split: if_splits)

lemma copy_ipc_dataset_ok:
  assumes "copy_ipc_dataset cal odbc api ipc table options None d = Some (Ok (report, profile), d')"
  obtains table1 d1 copied d2 done_rows where "bcp_call (bcp_init api table1 DB_IN) d = Some (Ok (), d1)"
    and "copy_and_batch cal api ipc options d1 = Some (Ok copied, d2)"
    and "bcp_finish api d2 = Some (Ok done_rows, d')"
    and "report = copied\<lparr>done_rows_reported := done_rows,
        rows_reported := saturating_add_u64 (batch_rows_reported copied) done_rows\<rparr>"
    and "uint (rows_reported report) = int (opt_rows options)"
  using assms by (auto simp: copy_ipc_dataset_def in_phase_def next_step_ok Let_def split: if_splits)

lemma batches_rounded_up:
  fixes n size :: nat
  assumes "0 < size"
  shows "(n + size - 1) div size = (if n mod size = 0 then n div size else Suc (n div size))"
proof -
  define q r where "q = n div size" and "r = n mod size"
  have n: "n = size * q + r" "r < size"
    using assms by (simp_all add: q_def r_def)
  have "(size * q + r + size - 1) div size = (if r = 0 then q else Suc q)"
    using n(2) by (auto intro!: div_nat_eqI)
  then show ?thesis
    using n(1) unfolding q_def r_def by metis
qed

lemma copy_last_batch_follows:
  assumes "documented_bcp api view" and "0 < opt_batch_size options" and "counters_follow options (view d) st"
    and "copy_last_batch api options st d = Some (Ok st', d')"
  shows "sent_rows (view d') = sent_rows (view d) \<and> copy_rows_seen st' = length (sent_rows (view d'))
    \<and> (if opt_defer_batches options
       then unconfirmed_rows (view d') = copy_rows_seen st' \<and> copy_report st' = copy_result_default
       else unconfirmed_rows (view d') = 0
         \<and> uint (batch_calls (copy_report st')) = min (2 ^ 64 - 1)
             (int ((copy_rows_seen st' + opt_batch_size options - 1) div opt_batch_size options)))"
proof (cases "\<not> opt_defer_batches options \<and> 0 < copy_sent_since_batch st")
  case True
  let ?n = "copy_rows_seen st" and ?size = "opt_batch_size options"
  have "0 < ?n mod ?size"
    using True assms(3) by (simp add: counters_follow_def)
  then have "(?n + ?size - 1) div ?size = Suc (?n div ?size)"
    using batches_rounded_up [OF assms(2)] by simp
  with True assms copy_flush_view [OF assms(1), of st d st' d'] show ?thesis
    by (auto simp: copy_last_batch_def counters_follow_def)
next
  case False
  let ?n = "copy_rows_seen st" and ?size = "opt_batch_size options"
  have "(?n + ?size - 1) div ?size = ?n div ?size" if "?n mod ?size = 0"
    using batches_rounded_up [OF assms(2)] that by simp
  with False assms(3,4) show ?thesis
    by (auto simp: copy_last_batch_def counters_follow_def)
qed

subsection \<open>The scenarios of the runner\<close>

lemma bindings_new_ok:
  assumes "length (batch_fields batch) < 2 ^ 31"
  shows "is_ok (bindings_new batch) \<longleftrightarrow> list_all (\<lambda>f. is_ok (buffer_new (field_data_type f))) (batch_fields batch)"
proof -
  have all: "is_ok (try_map g xs) \<longleftrightarrow> (\<forall>x \<in> set xs. is_ok (g x))" for g :: "nat \<times> arrow_field \<Rightarrow> runner_error + bcp_column_binding" and xs
    by (induction xs) (auto simp: is_ok_iff and_then_Inr map_ok_Inr)
  have "is_ok (binding_new i name ty nullable) \<longleftrightarrow> is_ok (buffer_new ty)" if "i + 1 < 2 ^ 31" for i name ty nullable
    using that by (auto simp: binding_new_def db_int_def is_ok_iff and_then_Inr)
  with assms have "is_ok (binding_new n (field_name (batch_fields batch ! n)) (field_data_type (batch_fields batch ! n))
      (field_nullable (batch_fields batch ! n))) \<longleftrightarrow> is_ok (buffer_new (field_data_type (batch_fields batch ! n)))"
    if "n < length (batch_fields batch)" for n using that by simp
  moreover have "is_ok (try_map (\<lambda>(i, f). h i f) (List.enumerate 0 fs)) \<longleftrightarrow> (\<forall>n < length fs. is_ok (h n (fs ! n)))"
    for h :: "nat \<Rightarrow> arrow_field \<Rightarrow> runner_error + bcp_column_binding" and fs
    unfolding all by (simp add: Ball_def in_set_enumerate_eq split_paired_all)
  ultimately show ?thesis by (simp add: bindings_new_def list_all_length)
qed

lemma schema_sizes:
  "scenario \<in> set SCENARIOS \<Longrightarrow> length (scenario_schema scenario) < 2 ^ 31"
  by (auto simp: SCENARIOS_def scenario_defs narrow_numeric_schema_def extended_primitive_schema_def
      uint64_policy_schema_def date_fast_path_schema_def mixed_nullable_schema_def wide_mixed_schema_def
      fixed_size_binary_schema_def decimal_temporal_schema_def fixed_width_128_schema_def
      decimal_temporal_128_schema_def decimal_temporal_128_fields_def string_heavy_schema_def wide_sparse_schema_def
      tpch_lineitem_like_schema_def length_concat comp_def sum_list_triv)

text \<open>Which schemas have only types the runner binds.\<close>

lemma schemas_bindable:
  fixes bindable :: "arrow_field \<Rightarrow> bool"
  assumes "\<And>f. bindable f \<longleftrightarrow> is_ok (buffer_new (field_data_type f))"
  shows "list_all bindable narrow_numeric_schema" "list_all bindable extended_primitive_schema"
    "\<not> list_all bindable uint64_policy_schema" "\<not> list_all bindable date_fast_path_schema"
    "list_all bindable mixed_nullable_schema" "list_all bindable wide_mixed_schema"
    "\<not> list_all bindable fixed_size_binary_schema" "list_all bindable decimal_temporal_schema"
    "list_all bindable fixed_width_128_schema" "\<not> list_all bindable decimal_temporal_128_schema"
    "list_all bindable string_heavy_schema" "list_all bindable wide_sparse_schema"
    "list_all bindable tpch_lineitem_like_schema"
proof -
  note schemas = assms buffer_new_def field_def narrow_numeric_schema_def extended_primitive_schema_def
    uint64_policy_schema_def date_fast_path_schema_def mixed_nullable_schema_def wide_mixed_schema_def
    fixed_size_binary_schema_def decimal_temporal_schema_def fixed_width_128_schema_def
    decimal_temporal_128_schema_def decimal_temporal_128_fields_def string_heavy_schema_def wide_sparse_schema_def
    tpch_lineitem_like_schema_def
  have first: "list_all P (concat (map f [0..<n])) \<Longrightarrow> 0 < n \<Longrightarrow> list_all P (f 0)" for P and f :: "nat \<Rightarrow> arrow_field list" and n
    by (auto simp: list_all_iff)
  show "list_all bindable narrow_numeric_schema" "list_all bindable extended_primitive_schema"
    "\<not> list_all bindable uint64_policy_schema" "list_all bindable mixed_nullable_schema"
    "list_all bindable wide_mixed_schema" "\<not> list_all bindable fixed_size_binary_schema"
    "list_all bindable decimal_temporal_schema" "list_all bindable fixed_width_128_schema"
    "list_all bindable string_heavy_schema" "list_all bindable wide_sparse_schema"
    "list_all bindable tpch_lineitem_like_schema"
    by (simp_all add: schemas list_all_numbered)
  show "\<not> list_all bindable date_fast_path_schema" "\<not> list_all bindable decimal_temporal_128_schema"
    by (auto simp: schemas dest!: first)
qed

text \<open>bcp_scenarios_exact: the list of scenarios that the benchmark refuses for the ODBC BCP runner is exact: a
  scenario passes the check if and only if the runner can bind every column of its schema.\<close>

theorem bcp_scenarios_exact:
  assumes "scenario \<in> set SCENARIOS" and "batch_fields batch = scenario_schema scenario"
  shows "ensure_odbc_bcp_supported_scenario (options\<lparr>bench_scenario := scenario\<rparr>) = Ok ()
    \<longleftrightarrow> is_ok (bindings_new batch)"
  using assms(1) schemas_bindable [OF refl] unfolding bindings_new_ok [of batch, unfolded assms(2), OF schema_sizes [OF assms(1)]]
  by (auto simp: SCENARIOS_def scenario_defs ensure_odbc_bcp_supported_scenario_def ODBC_BCP_UNSUPPORTED_SCENARIOS_def lit_def)

end
