(* ===== verification/BcpCopies.thy ===== *)
theory BcpCopies
  imports BcpDelivery
begin

text \<open>
  The contract of a copy of the ODBC BCP runner: it always returns, a reported success has delivered the file, and on
  a driver that accepts every call a file of values the runner can send is copied.
\<close>

subsection \<open>What can be copied\<close>

text \<open>A driver that accepts: every call succeeds, and row counts are reported where they fit the result.\<close>

definition accepting_bcp :: "'d bcp_api \<Rightarrow> ('d \<Rightarrow> bcp_view) \<Rightarrow> bool" where
  "accepting_bcp api view \<longleftrightarrow>
     (\<forall>table direction d. fst (bcp_init api table direction d) = BCP_SUCCEED)
     \<and> (\<forall>pointer len ty column d. fst (bcp_bind api pointer len ty column d) = BCP_SUCCEED)
     \<and> (\<forall>len column d. fst (bcp_collen api len column d) = BCP_SUCCEED)
     \<and> (\<forall>pointer column d. fst (bcp_colptr api pointer column d) = BCP_SUCCEED)
     \<and> (\<forall>mem d. fst (bcp_sendrow api mem d) = BCP_SUCCEED)
     \<and> (\<forall>d. unconfirmed_rows (view d) < 2 ^ 31 \<longrightarrow> 0 \<le> sint (fst (bcp_batch api d)))
     \<and> (\<forall>d. unconfirmed_rows (view d) < 2 ^ 31 \<longrightarrow> 0 \<le> sint (fst (bcp_done api d)))"

definition runner_type :: "data_type \<Rightarrow> bool" where
  "runner_type ty \<longleftrightarrow>
     ty \<in> {DtUInt8, DtInt8, DtInt16, DtInt32, DtUInt16, DtInt64, DtUInt32, DtFloat32, DtFloat64, DtBoolean,
       DtUtf8, DtBinary, DtDate32}
     \<or> (\<exists>precision scale. ty = DtDecimal128 precision scale) \<or> (\<exists>unit timezone. ty = DtTimestamp unit timezone)"

text \<open>An entry that is null in a nullable column, or has a value: a decimal other than the least with a scale that is
  not negative, a time the calendar has, as a timestamp in milliseconds without a zone, and text or bytes that are
  not too long for a 32-bit length.\<close>

definition copyable_entry :: "calendar \<Rightarrow> bool \<Rightarrow> arrow_array \<Rightarrow> usize \<Rightarrow> bool" where
  "copyable_entry cal nullable array row \<longleftrightarrow>
     (if array_nulls array ! row then nullable
      else
        (case entry_value cal array row of
           None \<Rightarrow> False
         | Some (BcpText s) \<Rightarrow> 4 * length s < 2 ^ 31
         | Some (BcpBytes bs) \<Rightarrow> length bs < 2 ^ 31
         | Some (BcpDecimal v _) \<Rightarrow> v \<noteq> - (2 ^ 127)
         | Some _ \<Rightarrow> True)
        \<and> (case array of
             Decimal128Array _ scale _ \<Rightarrow> 0 \<le> sint scale
           | TimestampMillisecondArray timezone _ \<Rightarrow> timezone = None
           | _ \<Rightarrow> True))"

definition copyable_batch :: "calendar \<Rightarrow> arrow_field list \<Rightarrow> record_batch \<Rightarrow> bool" where
  "copyable_batch cal schema batch \<longleftrightarrow> batch_fields batch = schema \<and> sendable_batch batch
     \<and> (\<forall>row < batch_num_rows batch. \<forall>i < length schema.
          copyable_entry cal (field_nullable (schema ! i)) (batch_columns batch ! i) row)"

definition copyable_file :: "calendar \<Rightarrow> record_batch list \<Rightarrow> bool" where
  "copyable_file cal bs \<longleftrightarrow> (\<exists>schema. bs \<noteq> [] \<and> length schema < 2 ^ 31
     \<and> (\<forall>f \<in> set schema. runner_type (field_data_type f)) \<and> (\<forall>batch \<in> set bs. copyable_batch cal schema batch))"

subsection \<open>Values are set\<close>

lemma length_push_utf16le: "length (push_utf16le [] v) \<le> 4 * length v"
proof (induction v)
  case (Cons c v)
  have "length (utf16_units c) \<le> 2" by (simp add: utf16_units_def)
  with Cons show ?case by (simp add: push_utf16le_def encode_utf16_def sum_list_triv length_concat comp_def)
qed (simp add: push_utf16le_def encode_utf16_def)

lemma format_decimal_fits:
  assumes "0 \<le> sint scale" and "sint v \<noteq> - (2 ^ 127)"
  shows "\<exists>s. format_decimal v scale = Ok s \<and> length s < 2 ^ 31"
proof -
  have "nat \<bar>sint v\<bar> < 10 ^ 39"
    using sint_bounds [of v] by auto
  then have digits: "length (dec (nat \<bar>sint v\<bar>)) \<le> 39"
    by (simp add: length_dec_le)
  have "sint scale < 128"
    using sint_lt [of scale] by simp
  with assms digits show ?thesis
    by (cases "sint v < 0") (auto simp: format_decimal_def Let_def)
qed

text \<open>The buffer of a column keeps its kind, which its server type tells.\<close>

lemma buffer_kind:
  assumes "buffer_new ty = Ok b0" "server_type buffer = server_type b0"
  shows "case ty of DtUInt8 \<Rightarrow> \<exists>x. buffer = BufU8 x | DtInt8 \<Rightarrow> \<exists>x. buffer = BufI16 x | DtInt16 \<Rightarrow> \<exists>x. buffer = BufI16 x
    | DtInt32 \<Rightarrow> \<exists>x. buffer = BufI32 x | DtUInt16 \<Rightarrow> \<exists>x. buffer = BufI32 x | DtInt64 \<Rightarrow> \<exists>x. buffer = BufI64 x
    | DtUInt32 \<Rightarrow> \<exists>x. buffer = BufI64 x | DtFloat32 \<Rightarrow> \<exists>x. buffer = BufF32 x | DtFloat64 \<Rightarrow> \<exists>x. buffer = BufF64 x
    | DtBoolean \<Rightarrow> \<exists>x. buffer = BufBit x | DtUtf8 \<Rightarrow> \<exists>x. buffer = BufWideText x | DtBinary \<Rightarrow> \<exists>x. buffer = BufBinary x
    | DtDecimal128 _ _ \<Rightarrow> \<exists>x. buffer = BufText x | DtDate32 \<Rightarrow> \<exists>x. buffer = BufText x
    | DtTimestamp _ _ \<Rightarrow> \<exists>x. buffer = BufText x | _ \<Rightarrow> False"
  using assms by (cases buffer; cases ty) (auto simp: buffer_new_def server_types)

lemma set_from_batch_fits:
  assumes new: "buffer_new ty = Ok b0" "server_type buffer = server_type b0"
    and ty: "batch_type batch index = ty" "array_data_type (batch_columns batch ! index) = ty"
    and entry: "copyable_entry cal nullable (batch_columns batch ! index) row" "\<not> array_nulls (batch_columns batch ! index) ! row"
  shows "\<exists>buffer'. set_from_batch cal batch index row buffer = Ok buffer' \<and> length (buffer_bytes buffer') < 2 ^ 31"
proof -
  let ?array = "batch_columns batch ! index"
  from entry obtain v where v: "entry_value cal ?array row = Some v"
    by (auto simp: copyable_entry_def split: option.splits)
  note kind = buffer_kind [OF new, folded ty(2)] and ty = trans [OF ty(1) ty(2) [symmetric]]
  show ?thesis
  proof (cases ?array)
    case (Decimal128Array p scale vs)
    with v obtain w where w: "vs ! row = Some w" by (auto simp: entry_value_def)
    with Decimal128Array entry have "0 \<le> sint scale" "sint w \<noteq> - (2 ^ 127)"
      by (simp_all add: copyable_entry_def entry_value_def)
    from format_decimal_fits [OF this] w Decimal128Array ty kind show ?thesis
      by (auto simp: read_simps is_Decimal128Array_def ascii_bytes_def)
  next
    case (Date32Array vs)
    with v obtain w where w: "vs ! row = Some w" by (auto simp: entry_value_def bind_eq_Some_conv)
    with Date32Array entry ty kind show ?thesis
      by (auto simp: read_simps is_Date32Array_def ascii_bytes_def copyable_entry_def entry_value_def format_date32_def
          split: option.splits)
  next
    case (TimestampMillisecondArray tz vs)
    with v obtain w s where w: "vs ! row = Some w" "format_timestamp_millis cal w = Ok s"
      by (cases "format_timestamp_millis cal (the (vs ! row))") (auto simp: entry_value_def bind_eq_Some_conv)
    with TimestampMillisecondArray entry ty kind show ?thesis
      by (auto simp: read_simps is_TimestampMillisecondArray_def ascii_bytes_def copyable_entry_def entry_value_def)
  next
    case (StringArray vs)
    with v obtain w where w: "vs ! row = Some w" by (auto simp: entry_value_def)
    with StringArray entry have "4 * length w < 2 ^ 31"
      by (simp add: copyable_entry_def entry_value_def)
    with length_push_utf16le [of w] have "length (push_utf16le [] w) < 2 ^ 31" by linarith
    with StringArray w ty kind show ?thesis
      by (auto simp: read_simps is_StringArray_def)
  next
    case (BinaryArray vs)
    with v obtain w where w: "vs ! row = Some w" by (auto simp: entry_value_def)
    with BinaryArray entry ty kind show ?thesis
      by (auto simp: read_simps is_BinaryArray_def copyable_entry_def entry_value_def)
  qed (use v ty kind in \<open>auto simp: entry_value_def read_simps is_UInt8Array_def is_Int8Array_def is_Int16Array_def
      is_Int32Array_def is_Int64Array_def is_UInt16Array_def is_UInt32Array_def is_Float32Array_def is_Float64Array_def
      is_BooleanArray_def\<close>)
qed

subsection \<open>Rows are sent\<close>

lemma bcp_call_accepted: "fst (f d) = BCP_SUCCEED \<Longrightarrow> bcp_call f d = Some (Ok (), snd (f d))"
  by (simp add: bcp_call_ok)

lemma accepted_columns:
  assumes "accepting_bcp api view"
  shows "\<exists>d'. bind_column api pointer len ty column d = Some (Ok (), d')"
    and "\<exists>d'. set_column_len api len column d = Some (Ok (), d')"
    and "\<exists>d'. set_column_ptr api pointer column d = Some (Ok (), d')"
    and "\<exists>d'. bcp_call (bcp_sendrow api mem) d = Some (Ok (), d')"
    and "\<exists>d'. bcp_call (bcp_init api table direction) d = Some (Ok (), d')"
  using assms by (simp_all add: accepting_bcp_def bind_column_def set_column_len_def set_column_ptr_def bcp_call_accepted)

text \<open>The bindings of a schema with buffers of the kind of their columns.\<close>

definition typed_bindings :: "bcp_column_binding list \<Rightarrow> bool" where
  "typed_bindings bs \<longleftrightarrow> (\<forall>b \<in> set bs. \<exists>b0. buffer_new (binding_data_type b) = Ok b0
     \<and> server_type (binding_buffer b) = server_type b0)"

lemma binding_set_row_accepted:
  assumes accept: "accepting_bcp api view"
    and array: "readable_array batch (binding_index b) row" "batch_type batch (binding_index b) = binding_data_type b"
    and entry: "copyable_entry cal (binding_nullable b) (batch_columns batch ! binding_index b) row"
    and new: "buffer_new (binding_data_type b) = Ok b0" "server_type (binding_buffer b) = server_type b0"
  shows "\<exists>b' d'. binding_set_row cal api batch row b d = Some (Ok b', d') \<and> binding_data_type b' = binding_data_type b
    \<and> server_type (binding_buffer b') = server_type b0"
proof (cases "array_nulls (batch_columns batch ! binding_index b) ! row")
  case True
  with entry accepted_columns(2) [OF accept] new show ?thesis
    by (auto simp: binding_set_row_def copyable_entry_def next_step_ok)
next
  case False
  have ty: "array_data_type (batch_columns batch ! binding_index b) = binding_data_type b"
    using array by (simp add: readable_array_def Let_def)
  from set_from_batch_fits [OF new array(2) ty entry False] obtain buffer where
    buffer: "set_from_batch cal batch (binding_index b) row (binding_buffer b) = Ok buffer" "length (buffer_bytes buffer) < 2 ^ 31"
    by blast
  have "current_len buffer = Ok (of_nat (length (buffer_bytes buffer)))"
    using buffer(2) by (cases buffer) (simp_all add: db_int_def)
  moreover have "server_type buffer = server_type (binding_buffer b)"
    using set_from_batch_reads [OF buffer(1) refl] array False by (auto simp: readable_array_def Let_def)
  moreover define c where "c = b\<lparr>binding_buffer := buffer, binding_refills := binding_refills b + 1\<rparr>"
  moreover obtain d1 where "(if is_variable_len buffer then set_column_ptr api (buffer_pointer c) (binding_server_column b)
      else ok_step ()) d = Some (Ok (), d1)"
    using accepted_columns(3) [OF accept] by fastforce
  moreover obtain d' where
    "set_column_len api (of_nat (length (buffer_bytes buffer))) (binding_server_column b) d1 = Some (Ok (), d')"
    using accepted_columns(2) [OF accept] by blast
  ultimately show ?thesis
    using False buffer(1) new by (intro exI [of _ c] exI [of _ d']) (auto simp: binding_set_row_def next_step_ok Let_def)
qed

lemma bindings_set_row_accepted:
  assumes accept: "accepting_bcp api view" and "typed_bindings bs"
    and "\<forall>b \<in> set bs. readable_array batch (binding_index b) row \<and> batch_type batch (binding_index b) = binding_data_type b
      \<and> copyable_entry cal (binding_nullable b) (batch_columns batch ! binding_index b) row"
  shows "\<exists>bs' d'. bindings_set_row cal api batch row bs d = Some (Ok bs', d') \<and> typed_bindings bs'"
  using assms(2-)
proof (induction bs arbitrary: d)
  case (Cons b bs)
  then obtain b0 where "buffer_new (binding_data_type b) = Ok b0" "server_type (binding_buffer b) = server_type b0"
    by (auto simp: typed_bindings_def)
  from binding_set_row_accepted [OF accept _ _ _ this] Cons.prems(2) obtain b' d1 where
    one: "binding_set_row cal api batch row b d = Some (Ok b', d1)" "binding_data_type b' = binding_data_type b"
      "server_type (binding_buffer b') = server_type b0" "buffer_new (binding_data_type b) = Ok b0"
    using \<open>buffer_new (binding_data_type b) = Ok b0\<close> by (metis list.set_intros(1))
  from Cons.IH [of d1] Cons.prems obtain bs' d' where "bindings_set_row cal api batch row bs d1 = Some (Ok bs', d')"
    "typed_bindings bs'"
    by (auto simp: typed_bindings_def)
  with one show ?case
    by (intro exI [of _ "b' # bs'"] exI [of _ d']) (simp add: typed_bindings_def next_step_ok)
qed (simp add: typed_bindings_def)

subsection \<open>Counts are kept\<close>

definition counts_kept :: "bcp_view \<Rightarrow> copy_state \<Rightarrow> bool" where
  "counts_kept v st \<longleftrightarrow>
     uint (batch_rows_reported (copy_report st)) + int (unconfirmed_rows v) = int (copy_rows_seen st)"

lemma flush_batch_accepted:
  assumes "accepting_bcp api view" and "unconfirmed_rows (view d) < 2 ^ 31"
  shows "\<exists>rows d'. flush_batch api d = Some (Ok rows, d')" and "\<exists>rows d'. bcp_finish api d = Some (Ok rows, d')"
  using assms
  by (auto simp: accepting_bcp_def flush_batch_def bcp_finish_def next_step_def external_def of_result_def case_prod_beta
      not_less)

lemma copy_flush_accepted:
  assumes "documented_bcp api view" and "accepting_bcp api view" and "unconfirmed_rows (view d) < 2 ^ 31"
    and "counts_kept (view d) st" and "copy_rows_seen st < 2 ^ 64"
  shows "\<exists>st' d'. copy_flush api st d = Some (Ok st', d') \<and> counts_kept (view d') st'"
proof -
  obtain rows d' where flush: "flush_batch api d = Some (Ok rows, d')"
    using flush_batch_accepted(1) [OF assms(2,3)] by blast
  from flush_batch_view [OF assms(1) flush] assms(4,5) show ?thesis
    by (auto simp: copy_flush_def next_step_def flush counts_kept_def saturating_uint)
qed

text \<open>How many rows a batch may have before it is confirmed.\<close>

definition batches_fit :: "runner_options \<Rightarrow> bool" where
  "batches_fit options \<longleftrightarrow> opt_rows options < 2 ^ 64
     \<and> (if opt_defer_batches options then opt_rows options else opt_batch_size options) < 2 ^ 31"

lemma unconfirmed_fits:
  assumes "counters_follow options v st" and "batches_fit options" and "0 < opt_batch_size options"
    and "copy_rows_seen st \<le> opt_rows options"
  shows "unconfirmed_rows v < 2 ^ 31"
  using assms mod_less_divisor [OF assms(3), of "copy_rows_seen st"]
  by (auto simp: counters_follow_def batches_fit_def simp del: mod_less_divisor split: if_splits)

lemma copy_row_sent_accepted:
  assumes doc: "documented_bcp api view" and accept: "accepting_bcp api view"
    and fit: "batches_fit options" and size: "0 < opt_batch_size options"
    and before: "counters_follow options v st" "counts_kept v st" "unconfirmed_rows (view d) = unconfirmed_rows v + 1"
    and more: "copy_rows_seen st < opt_rows options"
  shows "\<exists>st' d'. copy_row_sent api options st d = Some (Ok st', d') \<and> counts_kept (view d') st'
    \<and> copy_rows_seen st' = copy_rows_seen st + 1"
proof -
  let ?st = "st\<lparr>copy_sent_since_batch := copy_sent_since_batch st + 1, copy_rows_seen := copy_rows_seen st + 1\<rparr>"
  have kept: "counts_kept (view d) ?st"
    using before(2,3) by (simp add: counts_kept_def)
  show ?thesis
  proof (cases "\<not> opt_defer_batches options \<and> copy_sent_since_batch st + 1 = opt_batch_size options")
    case True
    have "unconfirmed_rows (view d) < 2 ^ 31" "copy_rows_seen ?st < 2 ^ 64"
      using True before(1,3) fit more by (auto simp: counters_follow_def batches_fit_def)
    from copy_flush_accepted [OF doc accept this(1) kept this(2)] obtain st' d' where
      "copy_flush api ?st d = Some (Ok st', d')" "counts_kept (view d') st'" by blast
    with copy_flush_view [OF doc this(1)] True show ?thesis
      by (intro exI [of _ "st'\<lparr>copy_sent_since_batch := 0\<rparr>"] exI [of _ d'])
        (simp add: copy_row_sent_def next_step_ok Let_def counts_kept_def)
  next
    case False
    with kept show ?thesis by (auto simp: copy_row_sent_def Let_def)
  qed
qed

subsection \<open>Files are copied\<close>

lemma bindings_match_types:
  assumes "bindings_match schema bs" and "b \<in> set bs"
  shows "binding_data_type b = field_data_type (schema ! binding_index b)"
    and "binding_nullable b = field_nullable (schema ! binding_index b)" and "binding_name b = field_name (schema ! binding_index b)"
  using assms by (auto simp: bindings_match_def in_set_conv_nth)

lemma copyable_columns:
  "copyable_batch cal schema batch \<Longrightarrow> length (batch_columns batch) = length schema"
  unfolding copyable_batch_def sendable_batch_def valid_batch_def by (metis length_map)

lemma copy_rows_accepted:
  assumes doc: "documented_bcp api view" and accept: "accepting_bcp api view"
    and fit: "batches_fit options" and size: "0 < opt_batch_size options" and batch: "copyable_batch cal schema batch"
    and "set rows \<subseteq> {..<batch_num_rows batch}" and "bound_exactly schema bs (bound_slots (view d))" "typed_bindings bs"
    and "counters_follow options (view d) st" "counts_kept (view d) st" "copy_rows_seen st + length rows \<le> opt_rows options"
  shows "\<exists>bs' st' d'. copy_rows cal api options batch rows bs st d = Some (Ok st', d') \<and> copy_bindings st' = Some bs'
    \<and> typed_bindings bs' \<and> bound_exactly schema bs' (bound_slots (view d')) \<and> counters_follow options (view d') st'
    \<and> counts_kept (view d') st' \<and> copy_rows_seen st' = copy_rows_seen st + length rows"
  using assms(6-)
proof (induction rows arbitrary: bs st d)
  case Nil
  then show ?case by (auto simp: counters_follow_def counts_kept_def)
next
  case (Cons row rows)
  have sendable: "sendable_batch batch" and row: "row < batch_num_rows batch"
    and columns: "length (batch_columns batch) = length schema"
    using batch Cons.prems(1) copyable_columns [OF batch] by (simp_all add: copyable_batch_def)
  have matching: "bindings_match schema bs"
    using Cons.prems(2) by (simp add: bound_exactly_def)
  have "\<forall>b \<in> set bs. readable_array batch (binding_index b) row \<and> batch_type batch (binding_index b) = binding_data_type b
      \<and> copyable_entry cal (binding_nullable b) (batch_columns batch ! binding_index b) row"
    using bindings_match_set(3) [OF matching] bindings_match_types [OF matching] batch row columns
      sendable_readable [OF sendable _ row]
    by (simp add: copyable_batch_def batch_type_def)
  from bindings_set_row_accepted [OF accept Cons.prems(3) this] obtain bs1 d1 where
    set: "bindings_set_row cal api batch row bs d = Some (Ok bs1, d1)" "typed_bindings bs1" by blast
  obtain d2 where send: "bcp_call (bcp_sendrow api (memory bs1)) d1 = Some (Ok (), d2)"
    using accepted_columns(4) [OF accept] by blast
  from row_sent [OF doc sendable row Cons.prems(2) columns set(1) send] obtain r where
    sent: "bound_exactly schema bs1 (bound_slots (view d2))" "sent_rows (view d2) = sent_rows (view d) @ [r]"
      "unconfirmed_rows (view d2) = unconfirmed_rows (view d) + 1" by blast
  have "copy_rows_seen st < opt_rows options"
    using Cons.prems(6) by simp
  from copy_row_sent_accepted [OF doc accept fit size Cons.prems(4,5) sent(3) this] obtain st1 d3 where
    batch_end: "copy_row_sent api options st d2 = Some (Ok st1, d3)" "counts_kept (view d3) st1"
      "copy_rows_seen st1 = copy_rows_seen st + 1" by blast
  note after = batch_end_follows [OF doc size Cons.prems(4) sent(2,3) batch_end(1)]
  from Cons.IH [of bs1 d3 st1] Cons.prems(1,6) set(2) sent(1) after batch_end(2,3) obtain bs' st' d' where
    "copy_rows cal api options batch rows bs1 st1 d3 = Some (Ok st', d')" "copy_bindings st' = Some bs'"
    "typed_bindings bs'" "bound_exactly schema bs' (bound_slots (view d'))" "counters_follow options (view d') st'"
    "counts_kept (view d') st'" "copy_rows_seen st' = copy_rows_seen st1 + length rows"
    by auto
  with set(1) send batch_end show ?case
    by (intro exI [of _ bs'] exI [of _ st'] exI [of _ d']) (simp add: next_step_ok)
qed

lemma runner_type_buffer: "runner_type ty \<Longrightarrow> \<exists>b l. buffer_new ty = Ok b \<and> bind_len b = Ok l"
  by (auto simp: runner_type_def buffer_new_def db_int_def)

lemma bindings_bind_accepted:
  assumes "accepting_bcp api view" and "\<forall>b \<in> set bs. \<exists>l. bind_len (binding_buffer b) = Ok l"
  shows "\<exists>d'. bindings_bind api bs d = Some (Ok (), d')"
  using assms(2)
proof (induction bs arbitrary: d)
  case (Cons b bs)
  from Cons.prems accepted_columns(1) [OF assms(1)] obtain d1 where "binding_bind api b d = Some (Ok (), d1)"
    by (fastforce simp: binding_bind_def next_step_ok)
  with Cons show ?case by (auto simp: next_step_ok)
qed simp

lemma first_bindings_accepted:
  assumes "accepting_bcp api view" and "length (batch_fields batch) < 2 ^ 31"
    and "\<forall>f \<in> set (batch_fields batch). runner_type (field_data_type f)"
  shows "\<exists>bs d'. bindings_new batch = Ok bs \<and> typed_bindings bs \<and> bindings_bind api bs d = Some (Ok (), d')"
proof -
  have "is_ok (bindings_new batch)"
    unfolding bindings_new_ok [OF assms(2)] list_all_iff using assms(3) runner_type_buffer by (fastforce simp: is_ok_iff)
  then obtain bs where new: "bindings_new batch = Ok bs" by (auto simp: is_ok_iff)
  have fresh: "buffer_new (binding_data_type b) = Ok (binding_buffer b) \<and> runner_type (binding_data_type b)" if b: "b \<in> set bs" for b
  proof -
    from b obtain i where i: "i < length bs" "b = bs ! i" by (auto simp: in_set_conv_nth)
    with new have "i < length (batch_fields batch)" "binding_new i (field_name (batch_fields batch ! i))
        (field_data_type (batch_fields batch ! i)) (field_nullable (batch_fields batch ! i)) = Ok b"
      by (auto simp: bindings_new_def try_map_Inr nth_enumerate_eq)
    with binding_new_ok [OF this(2)] assms(3) show ?thesis by simp
  qed
  then have "typed_bindings bs"
    by (auto simp: typed_bindings_def)
  moreover have "\<forall>b \<in> set bs. \<exists>l. bind_len (binding_buffer b) = Ok l"
    using fresh runner_type_buffer by fastforce
  ultimately show ?thesis
    using new bindings_bind_accepted [OF assms(1)] by blast
qed

definition copy_ready :: "arrow_field list \<Rightarrow> bcp_view \<Rightarrow> copy_state \<Rightarrow> bool" where
  "copy_ready schema v st \<longleftrightarrow>
     (case copy_bindings st of
        None \<Rightarrow> bound_slots v = Map.empty
      | Some bs \<Rightarrow> bound_exactly schema bs (bound_slots v) \<and> typed_bindings bs)"

lemma validated:
  assumes "copyable_batch cal schema batch" and "bindings_match schema bs"
  shows "bindings_validate_batch batch bs = Ok ()"
proof -
  have "\<forall>b \<in> set bs. binding_validate_batch batch b = Ok ()"
    using assms bindings_match_types [OF assms(2)] by (simp add: binding_validate_batch_def copyable_batch_def Let_def)
  then have "for_each (\<lambda>b _. binding_validate_batch batch b) bs () = Ok ()"
    by (induction bs) simp_all
  with assms copyable_columns [OF assms(1)] show ?thesis
    by (simp add: bindings_validate_batch_def bindings_match_def)
qed

lemma copy_batch_accepted:
  assumes doc: "documented_bcp api view" and accept: "accepting_bcp api view"
    and fit: "batches_fit options" and size: "0 < opt_batch_size options" and batch: "copyable_batch cal schema batch"
    and schema: "length schema < 2 ^ 31" "\<forall>f \<in> set schema. runner_type (field_data_type f)"
    and before: "copy_ready schema (view d) st" "counters_follow options (view d) st" "counts_kept (view d) st"
      "copy_rows_seen st + batch_num_rows batch \<le> opt_rows options"
  shows "\<exists>st' d'. copy_batch cal api options (Ok batch) st d = Some (Ok st', d') \<and> copy_bindings st' \<noteq> None
    \<and> copy_ready schema (view d') st' \<and> counters_follow options (view d') st' \<and> counts_kept (view d') st'
    \<and> copy_rows_seen st' = copy_rows_seen st + batch_num_rows batch"
proof -
  have "\<exists>bs d1 slots. (case copy_bindings st of
          Some bindings \<Rightarrow> ok_step bindings
        | None \<Rightarrow> next_step (of_result (bindings_new batch)) (\<lambda>bindings.
            next_step (bindings_bind api bindings) (\<lambda>_. ok_step bindings))) d = Some (Ok bs, d1)
      \<and> view d1 = (view d)\<lparr>bound_slots := slots\<rparr> \<and> bound_exactly schema bs slots \<and> typed_bindings bs"
  proof (cases "copy_bindings st")
    case None
    have fields: "batch_fields batch = schema" using batch by (simp add: copyable_batch_def)
    with first_bindings_accepted [OF accept] schema obtain bs d1 where first: "bindings_new batch = Ok bs"
      "typed_bindings bs" "bindings_bind api bs d = Some (Ok (), d1)"
      by blast
    from first_batch_bound [OF doc first(1,3)] None before(1) fields obtain slots where
      "view d1 = (view d)\<lparr>bound_slots := slots\<rparr>" "bound_exactly schema bs slots" by (auto simp: copy_ready_def)
    with None first show ?thesis
      by (intro exI [of _ bs] exI [of _ d1] exI [of _ slots]) (simp add: next_step_ok)
  next
    case (Some bs)
    with before(1) show ?thesis
      by (intro exI [of _ bs] exI [of _ d] exI [of _ "bound_slots (view d)"]) (simp add: copy_ready_def)
  qed
  then obtain bs d1 slots where bound: "(case copy_bindings st of
          Some bindings \<Rightarrow> ok_step bindings
        | None \<Rightarrow> next_step (of_result (bindings_new batch)) (\<lambda>bindings.
            next_step (bindings_bind api bindings) (\<lambda>_. ok_step bindings))) d = Some (Ok bs, d1)"
    and view1: "view d1 = (view d)\<lparr>bound_slots := slots\<rparr>" "bound_exactly schema bs slots" and typed: "typed_bindings bs"
    by blast
  have "bindings_match schema bs" using view1(2) by (simp add: bound_exactly_def)
  note valid = validated [OF batch this]
  have state: "bound_exactly schema bs (bound_slots (view d1))" "counters_follow options (view d1) st"
    "counts_kept (view d1) st" "set [0..<batch_num_rows batch] \<subseteq> {..<batch_num_rows batch}"
    using view1 before(2,3) by (auto simp: counters_follow_def counts_kept_def)
  from copy_rows_accepted [OF doc accept fit size batch state(4,1) typed state(2,3)] before(4) obtain bs' st' d' where
    rows: "copy_rows cal api options batch [0..<batch_num_rows batch] bs st d1 = Some (Ok st', d')"
      "copy_bindings st' = Some bs'" "typed_bindings bs'" "bound_exactly schema bs' (bound_slots (view d'))"
      "counters_follow options (view d') st'" "counts_kept (view d') st'"
      "copy_rows_seen st' = copy_rows_seen st + batch_num_rows batch" by auto
  have "copy_batch cal api options (Ok batch) st d = Some (Ok st', d')"
    unfolding copy_batch_def next_step_simps(2) next_step_ok
    by (intro exI conjI, rule bound, simp add: valid, rule rows(1))
  with rows show ?thesis by (auto simp: copy_ready_def)
qed

lemma copy_batches_accepted:
  assumes doc: "documented_bcp api view" and accept: "accepting_bcp api view"
    and fit: "batches_fit options" and size: "0 < opt_batch_size options"
    and schema: "length schema < 2 ^ 31" "\<forall>f \<in> set schema. runner_type (field_data_type f)"
    and "\<forall>batch \<in> set bs. copyable_batch cal schema batch"
    and "copy_ready schema (view d) st" "counters_follow options (view d) st" "counts_kept (view d) st"
      "copy_rows_seen st + length (file_rows bs) \<le> opt_rows options"
  shows "\<exists>st' d'. copy_batches cal api options (map Ok bs) st d = Some (Ok st', d')
    \<and> (bs \<noteq> [] \<or> copy_bindings st \<noteq> None \<longrightarrow> copy_bindings st' \<noteq> None)
    \<and> counters_follow options (view d') st' \<and> counts_kept (view d') st'
    \<and> copy_rows_seen st' = copy_rows_seen st + length (file_rows bs)"
  using assms(7-)
proof (induction bs arbitrary: st d)
  case Nil
  then show ?case by (simp add: file_rows_def)
next
  case (Cons batch bs)
  have lengths: "length (file_rows (batch # bs)) = batch_num_rows batch + length (file_rows bs)"
    by (simp add: file_rows_def)
  from Cons.prems lengths copy_batch_accepted [OF doc accept fit size _ schema, of cal batch d st] obtain st1 d1 where
    one: "copy_batch cal api options (Ok batch) st d = Some (Ok st1, d1)" "copy_bindings st1 \<noteq> None"
      "copy_ready schema (view d1) st1" "counters_follow options (view d1) st1" "counts_kept (view d1) st1"
      "copy_rows_seen st1 = copy_rows_seen st + batch_num_rows batch"
    by auto
  from Cons.IH [of d1 st1] Cons.prems(1,5) lengths one obtain st' d' where
    "copy_batches cal api options (map Ok bs) st1 d1 = Some (Ok st', d')" "copy_bindings st' \<noteq> None"
    "counters_follow options (view d') st'" "counts_kept (view d') st'"
    "copy_rows_seen st' = copy_rows_seen st1 + length (file_rows bs)" by auto
  with one lengths show ?case
    by (intro exI [of _ st'] exI [of _ d']) (auto simp: next_step_ok)
qed

lemma copy_and_batch_accepted:
  assumes doc: "documented_bcp api view" and accept: "accepting_bcp api view"
    and fit: "batches_fit options" and size: "0 < opt_batch_size options"
    and opened: "fst (ipc (opt_input_ipc options) d) = Ok (map Ok bs)" "view (snd (ipc (opt_input_ipc options) d)) = view d"
    and rows: "copyable_file cal bs" "length (file_rows bs) = opt_rows options"
    and start: "view d = \<lparr>bound_slots = Map.empty, sent_rows = [], unconfirmed_rows = 0\<rparr>"
  shows "\<exists>report d'. copy_and_batch cal api ipc options d = Some (Ok report, d')
    \<and> uint (batch_rows_reported report) + int (unconfirmed_rows (view d')) = int (opt_rows options)
    \<and> unconfirmed_rows (view d') < 2 ^ 31"
proof -
  let ?d0 = "snd (ipc (opt_input_ipc options) d)"
  let ?start = "\<lparr>copy_bindings = None, copy_rows_seen = 0, copy_sent_since_batch = 0, copy_report = copy_result_default\<rparr>"
  from rows(1) obtain schema where schema: "bs \<noteq> []" "length schema < 2 ^ 31"
    "\<forall>f \<in> set schema. runner_type (field_data_type f)" "\<forall>batch \<in> set bs. copyable_batch cal schema batch"
    by (auto simp: copyable_file_def)
  have "copy_ready schema (view ?d0) ?start" "counters_follow options (view ?d0) ?start" "counts_kept (view ?d0) ?start"
    by (simp_all add: opened(2) start copy_ready_def counters_follow_def counts_kept_def copy_result_default_def)
  from copy_batches_accepted [OF doc accept fit size schema(2,3,4) this] schema(1) rows(2) obtain st d1 where
    copied: "copy_batches cal api options (map Ok bs) ?start ?d0 = Some (Ok st, d1)" "copy_bindings st \<noteq> None"
      "counters_follow options (view d1) st" "counts_kept (view d1) st" "copy_rows_seen st = opt_rows options"
    by auto
  have unconfirmed: "unconfirmed_rows (view d1) < 2 ^ 31"
    using unconfirmed_fits [OF copied(3) fit size] copied(5) by simp
  have seen: "copy_rows_seen st < 2 ^ 64"
    using copied(5) fit by (simp add: batches_fit_def)
  have "\<exists>st' d'. copy_last_batch api options st d1 = Some (Ok st', d') \<and> counts_kept (view d') st'
      \<and> unconfirmed_rows (view d') < 2 ^ 31 \<and> copy_rows_seen st' = opt_rows options"
  proof (cases "\<not> opt_defer_batches options \<and> 0 < copy_sent_since_batch st")
    case True
    from copy_flush_accepted [OF doc accept unconfirmed copied(4) seen] obtain st' d' where
      "copy_flush api st d1 = Some (Ok st', d')" "counts_kept (view d') st'" by blast
    with copy_flush_view [OF doc this(1)] True copied(5) show ?thesis
      by (simp add: copy_last_batch_def)
  next
    case False
    then have "copy_last_batch api options st d1 = Some (Ok st, d1)" by (auto simp: copy_last_batch_def)
    with copied(4,5) unconfirmed show ?thesis by blast
  qed
  then obtain st' d' where last: "copy_last_batch api options st d1 = Some (Ok st', d')" "counts_kept (view d') st'"
    "unconfirmed_rows (view d') < 2 ^ 31" "copy_rows_seen st' = opt_rows options" by blast
  have "copy_and_batch cal api ipc options d = Some (Ok (copy_report st'), d')"
    using opened(1) copied(1,2) last(1,4) by (simp add: copy_and_batch_def next_step_def external_def case_prod_beta of_result_def)
  with last show ?thesis by (auto simp: counts_kept_def)
qed

lemma copy_ipc_dataset_accepted:
  assumes doc: "documented_bcp api view" and accept: "accepting_bcp api view"
    and fit: "batches_fit options" and size: "0 < opt_batch_size options" and keeps: "\<forall>path d. view (snd (ipc path d)) = view d"
    and opened: "\<forall>d. fst (ipc (opt_input_ipc options) d) = Ok (map Ok bs)"
    and rows: "copyable_file cal bs" "length (file_rows bs) = opt_rows options" and table: "0 \<notin> set table"
  shows "\<exists>report profile d'. copy_ipc_dataset cal odbc api ipc table options None d = Some (Ok (report, profile), d')"
proof -
  let ?table = "map of_nat (utf8_bytes table)"
  obtain d1 where init: "bcp_call (bcp_init api ?table DB_IN) d = Some (Ok (), d1)"
    using accepted_columns(5) [OF accept] by blast
  have start: "view d1 = \<lparr>bound_slots = Map.empty, sent_rows = [], unconfirmed_rows = 0\<rparr>"
    using doc init by (auto simp: bcp_call_ok documented_bcp_def)
  from copy_and_batch_accepted [OF doc accept fit size _ _ rows start] opened keeps obtain report d2 where
    copied: "copy_and_batch cal api ipc options d1 = Some (Ok report, d2)"
      "uint (batch_rows_reported report) + int (unconfirmed_rows (view d2)) = int (opt_rows options)"
      "unconfirmed_rows (view d2) < 2 ^ 31" by blast
  obtain confirmed d' where finish: "bcp_finish api d2 = Some (Ok confirmed, d')"
    using flush_batch_accepted(2) [OF accept copied(3)] by blast
  have "uint (saturating_add_u64 (batch_rows_reported report) confirmed) = int (opt_rows options)"
    using bcp_finish_view [OF doc finish] copied(2) fit by (simp add: saturating_uint batches_fit_def)
  with init copied(1) finish table show ?thesis
    by (intro exI [of _ "report\<lparr>done_rows_reported := confirmed,
          rows_reported := saturating_add_u64 (batch_rows_reported report) confirmed\<rparr>"] exI [of _ None] exI [of _ d'])
      (auto simp: copy_ipc_dataset_def in_phase_def next_step_def of_result_def c_string_def Let_def)
qed

subsection \<open>A copy returns\<close>

definition returns :: "('d, 'a) runner_step \<Rightarrow> bool" where
  "returns m \<longleftrightarrow> (\<forall>d. m d \<noteq> None)"

lemma returns_steps [intro]:
  "returns (ok_step x)" "returns (of_result r)" "returns (external f)" "returns (bcp_call h)"
  "returns m \<Longrightarrow> (\<And>x. returns (g x)) \<Longrightarrow> returns (next_step m g)"
  by (auto simp: returns_def external_def bcp_call_def next_step_def ok_step_def of_result_def case_prod_beta
      split: option.split sum.split)

lemma returns_choice [intro]:
  "(P \<Longrightarrow> returns m) \<Longrightarrow> (\<not> P \<Longrightarrow> returns n) \<Longrightarrow> returns (if P then m else n)"
  "returns m \<Longrightarrow> (\<And>x. returns (g x)) \<Longrightarrow> returns (case z of None \<Rightarrow> m | Some x \<Rightarrow> g x)"
  by (auto split: option.split)

lemma copy_returns:
  "returns (flush_batch api)" "returns (bcp_finish api)" "returns (copy_flush api st)"
  "returns (copy_row_sent api options st)" "returns (copy_last_batch api options st)"
  "returns (binding_bind api b)" "returns (binding_set_row cal api batch row b)"
  by (auto simp: flush_batch_def bcp_finish_def copy_flush_def copy_row_sent_def copy_last_batch_def binding_bind_def
      bind_column_def binding_set_row_def set_column_len_def set_column_ptr_def Let_def intro!: returns_steps returns_choice)

lemma copy_batch_returns: "returns (copy_batch cal api options batch st)"
proof -
  have "returns (bindings_bind api bs)" "returns (bindings_set_row cal api b row bs)" for b row bs
    by (induction bs) (auto intro: copy_returns)
  note bindings = this
  have "returns (copy_rows cal api options b rows bs st)" for b rows bs st
    by (induction rows arbitrary: bs st) (auto intro!: returns_steps bindings copy_returns)
  with bindings show ?thesis
    unfolding copy_batch_def by (auto intro!: returns_steps returns_choice)
qed

lemma returns_without_profile: "returns m \<Longrightarrow> returns (in_phase odbc None phase m)"
  by (auto simp: in_phase_def)

text \<open>Without a profile the copy runs with none to its end.\<close>

lemma next_without_profile: "next_step (in_phase odbc None phase m) f = next_step (in_phase odbc None phase m) (\<lambda>(x, _). f (x, None))"
  by (auto simp: in_phase_def next_step_def ok_step_def fun_eq_iff split: option.split sum.split)

lemma copy_ipc_dataset_returns: "returns (copy_ipc_dataset cal odbc api ipc table options None)"
proof -
  have "returns (copy_batches cal api options batches st)" for batches st
    by (induction batches arbitrary: st) (auto intro: copy_batch_returns)
  then have "returns (copy_and_batch cal api ipc options)"
    unfolding copy_and_batch_def by (auto intro!: returns_steps returns_choice copy_returns)
  then show ?thesis
    unfolding copy_ipc_dataset_def Let_def
    by (subst next_without_profile)
      (auto intro!: returns_without_profile returns_steps returns_choice copy_returns)
qed

subsection \<open>The contract of a copy\<close>

lemma successful_copy_delivered:
  assumes "documented_bcp api view" and "\<forall>path d. view (snd (ipc path d)) = view d"
    and "\<forall>path d batches b. fst (ipc path d) = Ok batches \<longrightarrow> Ok b \<in> set batches \<longrightarrow> sendable_batch b"
    and "0 < opt_batch_size options" and "opt_rows options < 2 ^ 64"
    and "copy_ipc_dataset cal odbc api ipc table options None d = Some (Ok (report, profile), d')"
  shows "\<exists>d0 bs. fst (ipc (opt_input_ipc options) d0) = Ok (map Ok bs)
    \<and> list_all2 (row_of_file cal) (file_rows bs) (sent_rows (view d'))
    \<and> length (sent_rows (view d')) = opt_rows options \<and> unconfirmed_rows (view d') = 0
    \<and> uint (rows_reported report) = int (opt_rows options)
    \<and> (if opt_defer_batches options
       then batch_calls report = 0 \<and> uint (done_rows_reported report) = int (opt_rows options)
       else done_rows_reported report = 0
         \<and> uint (batch_calls report)
             = int ((opt_rows options + opt_batch_size options - 1) div opt_batch_size options))"
proof -
  from copy_ipc_dataset_ok [OF assms(6)] obtain table1 d1 copied d2 done_rows where
    init: "bcp_call (bcp_init api table1 DB_IN) d = Some (Ok (), d1)"
    and copy: "copy_and_batch cal api ipc options d1 = Some (Ok copied, d2)"
    and finish: "bcp_finish api d2 = Some (Ok done_rows, d')"
    and report: "report = copied\<lparr>done_rows_reported := done_rows,
        rows_reported := saturating_add_u64 (batch_rows_reported copied) done_rows\<rparr>"
    and total: "uint (rows_reported report) = int (opt_rows options)" .
  let ?start = "\<lparr>copy_bindings = None, copy_rows_seen = 0, copy_sent_since_batch = 0, copy_report = copy_result_default\<rparr>"
  let ?d0 = "snd (ipc (opt_input_ipc options) d1)"
  from copy_and_batch_ok [OF copy] obtain batches st d3 st1 where
    opened: "fst (ipc (opt_input_ipc options) d1) = Ok batches"
    and batches: "copy_batches cal api options batches ?start ?d0 = Some (Ok st, d3)"
    and last: "copy_last_batch api options st d3 = Some (Ok st1, d2)"
    and seen: "copy_rows_seen st1 = opt_rows options" and copied: "copied = copy_report st1" .
  have "view ?d0 = view d1"
    using assms(2) by simp
  also have "\<dots> = \<lparr>bound_slots = Map.empty, sent_rows = [], unconfirmed_rows = 0\<rparr>"
    using assms(1) init by (auto simp: bcp_call_ok documented_bcp_def)
  finally have start: "view ?d0 = \<lparr>bound_slots = Map.empty, sent_rows = [], unconfirmed_rows = 0\<rparr>" .
  have "copy_bound (bound_slots (view ?d0)) ?start" "counters_follow options (view ?d0) ?start"
    by (simp_all add: start copy_bound_def counters_follow_def copy_result_default_def)
  from copy_batches_sent [OF assms(1,4) _ batches this] assms(3) opened obtain bs rs where
    sent: "batches = map Ok bs" "list_all2 (row_of_file cal) (file_rows bs) rs" "sent_rows (view d3) = rs"
    and follow: "counters_follow options (view d3) st"
    by (auto simp: start)
  note last = copy_last_batch_follows [OF assms(1,4) follow last]
  note finish = bcp_finish_view [OF assms(1) finish]
  have rows: "sent_rows (view d') = rs" "length rs = opt_rows options"
    using last finish seen sent(3) by simp_all
  have "opt_rows options \<le> opt_rows options * opt_batch_size options"
    using assms(4) by simp
  then have "opt_rows options + opt_batch_size options - 1 < Suc (opt_rows options) * opt_batch_size options"
    unfolding mult_Suc using assms(4) by linarith
  then have "(opt_rows options + opt_batch_size options - 1) div opt_batch_size options < Suc (opt_rows options)"
    by (rule less_mult_imp_div_less)
  then have "min (2 ^ 64 - 1) (int ((opt_rows options + opt_batch_size options - 1) div opt_batch_size options))
      = int ((opt_rows options + opt_batch_size options - 1) div opt_batch_size options)"
    using assms(5) by simp
  with last finish seen have counts: "if opt_defer_batches options
       then batch_calls report = 0 \<and> uint (done_rows_reported report) = int (opt_rows options)
       else done_rows_reported report = 0
         \<and> uint (batch_calls report)
             = int ((opt_rows options + opt_batch_size options - 1) div opt_batch_size options)"
    by (auto simp: report copied copy_result_default_def uint_0_iff)
  show ?thesis
    using sent(1,2) opened rows finish total counts by (intro exI [of _ d1] exI [of _ bs]) simp
qed


text \<open>A driver that does what is documented: it keeps the view itself and never fails.\<close>

definition example_bcp :: "bcp_view bcp_api" where
  "example_bcp =
     \<lparr>bcp_init = (\<lambda>_ _ _. (1, \<lparr>bound_slots = Map.empty, sent_rows = [], unconfirmed_rows = 0\<rparr>)),
      bcp_bind = (\<lambda>pointer len ty column v. (1, v\<lparr>bound_slots := (bound_slots v)
        (column \<mapsto> \<lparr>slot_pointer = pointer, slot_length = len, slot_type = ty\<rparr>)\<rparr>)),
      bcp_collen = (\<lambda>len column v. (1, update_slot column (\<lambda>slot. slot\<lparr>slot_length := len\<rparr>) v)),
      bcp_colptr = (\<lambda>pointer column v. (1, update_slot column (\<lambda>slot. slot\<lparr>slot_pointer := pointer\<rparr>) v)),
      bcp_sendrow = (\<lambda>mem v. (1, v\<lparr>sent_rows := sent_rows v @ [\<lambda>column. map_option (read_slot mem) (bound_slots v column)],
        unconfirmed_rows := unconfirmed_rows v + 1\<rparr>)),
      bcp_batch = (\<lambda>v. if unconfirmed_rows v < 2 ^ 31 then (of_nat (unconfirmed_rows v), v\<lparr>unconfirmed_rows := 0\<rparr>)
        else (- 1, v)),
      bcp_done = (\<lambda>v. if unconfirmed_rows v < 2 ^ 31 then (of_nat (unconfirmed_rows v), v\<lparr>unconfirmed_rows := 0\<rparr>)
        else (- 1, v))\<rparr>"

lemma example_bcp_documented: "documented_bcp example_bcp (\<lambda>v. v)"
  by (auto simp: documented_bcp_def example_bcp_def sint_of_small_nat)

definition example_file :: record_batch where
  "example_file = \<lparr>batch_fields = [field (lit ''id'') DtInt32 False, field (lit ''name'') DtUtf8 True],
     batch_columns = [Int32Array [Some 7, Some (- 1), Some 9], StringArray [Some (lit ''a''), None, Some (lit ''bc'')]],
     batch_num_rows = 3\<rparr>"

definition example_runner_options :: runner_options where
  "example_runner_options = \<lparr>opt_rows = 3, opt_batch_size = 2, opt_scenario = lit ''x'', opt_repeat = 1,
     opt_input_ipc = lit ''f'', opt_create_table_sql_template = [], opt_profile_sqlserver = False,
     opt_defer_batches = False\<rparr>"

definition example_calendar :: calendar where
  "example_calendar = \<lparr>date_after_epoch = (\<lambda>_. None), millis_after_epoch = (\<lambda>_. None)\<rparr>"

lemma example_copy:
  "map_option fst (copy_ipc_dataset example_calendar odbc example_bcp
      (\<lambda>_ d. (Ok [Ok example_file], d)) (lit ''t'') example_runner_options None
      \<lparr>bound_slots = Map.empty, sent_rows = [], unconfirmed_rows = 0\<rparr>)
    = Some (Ok (\<lparr>rows_reported = 3, batch_calls = 2, batch_rows_reported = 3, done_rows_reported = 0\<rparr>, None))"
  by (simp add: copy_ipc_dataset_def in_phase_def copy_and_batch_def copy_batch_def copy_row_sent_def copy_last_batch_def
      copy_flush_def flush_batch_def bcp_finish_def bcp_call_def next_step_def external_def of_result_def ok_step_def
      c_string_def lit_def example_bcp_def example_file_def example_runner_options_def require_bcp_success_def
      BCP_SUCCEED_def bindings_new_def binding_new_def db_int_def buffer_new_def field_def binding_bind_def
      bind_column_def set_column_len_def set_column_ptr_def bindings_validate_batch_def binding_validate_batch_def
      binding_set_row_def buffer_pointer_def set_from_batch_def required_column_def batch_type_def
      saturating_add_u64_def copy_result_default_def values_null_def upt_rec update_slot_def push_utf16le_def encode_utf16_def utf16_units_def Let_def)

text \<open>Three rows in batches of two.\<close>

lemma example_bcp_accepting: "accepting_bcp example_bcp (\<lambda>v. v)"
  by (auto simp: accepting_bcp_def example_bcp_def BCP_SUCCEED_def sint_of_small_nat)

lemma example_file_sendable: "sendable_batch example_file"
  by (auto simp: sendable_batch_def example_file_def valid_batch_def valid_array_def array_len_def values_null_def
      field_def scalar_array_def scalar_text_def lit_def scalar_value_def)

lemma example_file_copyable: "copyable_file example_calendar [example_file]"
proof -
  have sizes: "batch_num_rows example_file = 3" "length (batch_fields example_file) = 2"
    by (simp_all add: example_file_def)
  have "\<forall>row \<in> {0, 1, 2}. \<forall>i \<in> {0, 1}. copyable_entry example_calendar (field_nullable (batch_fields example_file ! i))
      (batch_columns example_file ! i) row"
    by (simp add: copyable_entry_def entry_value_def example_file_def field_def values_null_def lit_def)
  moreover have "{0, 1, 2} = {..<3::nat}" "{0, 1} = {..<2::nat}"
    by auto
  ultimately have "copyable_batch example_calendar (batch_fields example_file) example_file"
    using example_file_sendable unfolding copyable_batch_def sizes by blast
  moreover have "\<forall>f \<in> set (batch_fields example_file). runner_type (field_data_type f)"
    by (simp add: example_file_def field_def runner_type_def)
  ultimately show ?thesis
    unfolding copyable_file_def by (intro exI [of _ "batch_fields example_file"]) (simp add: sizes)
qed


end
