(* ===== verification/Spec2Isabelle.thy ===== *)
theory Spec2Isabelle
  imports Errors Identifiers MssqlTypes Profiles Planning DirectPlan CellConversion WireCells RowLayout
    Measure DirectColumns PrimitiveColumns DecimalColumns BinaryColumns TemporalColumns
    RecordBatches Binding FixedWidth FastPath FastRows Slices DirectRows Agreement TokenRows TargetColumns Writer
    Connections Telemetry WriterTelemetry RowDecode Delivery WriteProfile ProfiledWriter
    BatchPhases SqlReading BenchData BenchScenarios RunnerIo ServerProfile BcpColumns BcpRunner BcpDelivery BcpCopies
begin

text \<open>
  \<^item> The program.  The crate writes Arrow record batches to SQL Server. A schema is planned once:
  every Arrow field gets a SQL Server column type under the options, or a diagnostic. A bulk writer is
  opened on a target table, whose columns must be the planned ones. Then each batch is validated
  against the plan and sent, in one of two ways: the baseline backend converts every Arrow cell
  to a SQL Server cell and hands rows of cells to the driver; the direct backends bind each Arrow array
  to a typed column loop, measure all cells, and write the bytes of the rows themselves, in
  ranges of at most 8 MiB. Finishing ends the bulk load and reports the accepted rows and batches.

  \<^item> How the sources are modelled.  A machine integer that is stored is a word (u8 .. u64, i8 .. i128, i256);
  arithmetic on it is done on integers with each checked operation written out as its range check.
  A \<^verbatim>\<open>usize\<close> is a natural number with explicit checks against 2^64. Floats are their bit
  patterns. Text is the list of its code points. A fallible operation returns \<^verbatim>\<open>error + 'a\<close>;
  message texts are left out of diagnostics, since no code reads them. Mutable buffers and counters are passed
  and returned; what an error leaves behind in a buffer that is then dropped is not described. A run
  that may panic (the fast path indexes without checks) is an option with None for the panic.
  Loops over rows and columns are structural recursion over lists; the one \<^verbatim>\<open>while\<close> of the sources,
  the digit count of decimals, is shown to end in \<^verbatim>\<open>TdsDecimal\<close>. No definition has
  fuel. The rows of a query of the ODBC runner are fetched until the driver has no more: that loop is a partial
  function, \<^verbatim>\<open>None\<close> where it does not end.

  \<^item> Foundations.  \<^verbatim>\<open>Prelude\<close> has the shared lemmas on results, words, division, byte lists and text.
  \<^verbatim>\<open>Errors\<close> (\<^verbatim>\<open>src/error.rs\<close>, \<^verbatim>\<open>src/diagnostic.rs\<close>), \<^verbatim>\<open>Identifiers\<close> (\<^verbatim>\<open>src/mssql/identifier.rs\<close>), \<^verbatim>\<open>MssqlTypes\<close>
  (\<^verbatim>\<open>src/mssql/ty.rs\<close>, \<^verbatim>\<open>column.rs\<close>, \<^verbatim>\<open>ddl.rs\<close>), \<^verbatim>\<open>Profiles\<close> (\<^verbatim>\<open>src/mssql/profile.rs\<close>, \<^verbatim>\<open>src/write/policy.rs\<close>,
  \<^verbatim>\<open>context.rs\<close>) and \<^verbatim>\<open>ArrowTypes\<close> hold the data that all parts exchange. They show what the safe information of
  an error depends on (the diagnostics are passed on whole, with the columns they name), and that their codes are
  recovered from the code list of an event; quoted names are safe and the DDL text is injective.

  \<^item> Planning.  \<^verbatim>\<open>Planning\<close> (\<^verbatim>\<open>src/schema/\<close>) plans types, fields and schemas; \<^verbatim>\<open>Classify\<close>
  (\<^verbatim>\<open>src/conversion/arrow_to_mssql/\<close>) decides which planned pairs can be converted; \<^verbatim>\<open>DirectPlan\<close>
  (\<^verbatim>\<open>src/write/direct/plan.rs\<close>) which can be encoded directly, and how. The claims state planning field by field
  with all diagnostics, and that a plan of planning is one that the direct encoder supports
  exactly where the specification \<^verbatim>\<open>encoding_fits\<close> says so.

  \<^item> Cell conversion.  \<^verbatim>\<open>Cells\<close>, \<^verbatim>\<open>ScalarConversion\<close>, \<^verbatim>\<open>DateTimes\<close>, \<^verbatim>\<open>DateTimeOffsets\<close> and \<^verbatim>\<open>CellConversion\<close>
  (\<^verbatim>\<open>src/mssql/cell/\<close>, \<^verbatim>\<open>src/arrow/cell.rs\<close>) convert one cell. Decimals, datetimes and offsets are specified by
  arithmetic on integers: the value, its rounding, its range. \<^verbatim>\<open>WireCells\<close> shows that every
  converted cell is in the range that the encoders need.

  \<^item> Wire formats.  \<^verbatim>\<open>CellCodec\<close>, \<^verbatim>\<open>TdsValues\<close> and \<^verbatim>\<open>TdsDecimal\<close> (\<^verbatim>\<open>src/write/direct/types/temporal/value.rs\<close>,
  \<^verbatim>\<open>decimal.rs\<close>) write cells, with readers as their specification and round trips as claims.
  \<^verbatim>\<open>RowLayout\<close> (\<^verbatim>\<open>layout.rs\<close>, \<^verbatim>\<open>payload.rs\<close>) places cells in rows; \<^verbatim>\<open>Measure\<close> (\<^verbatim>\<open>measure.rs\<close>) adds up lengths and cuts
  batches into ranges.

  \<^item> Direct columns.  \<^verbatim>\<open>DirectColumns\<close> states what a column loop promises; \<^verbatim>\<open>PrimitiveColumns\<close>,
  \<^verbatim>\<open>DecimalColumns\<close>, \<^verbatim>\<open>BinaryColumns\<close> and \<^verbatim>\<open>TemporalColumns\<close> (\<^verbatim>\<open>src/write/direct/types/\<close>) model the loops of every
  column class, and \<^verbatim>\<open>Binding\<close> (\<^verbatim>\<open>src/write/direct/binding/\<close>) the choice among them. \<^verbatim>\<open>FixedWidth\<close>, \<^verbatim>\<open>FastPath\<close> and
  \<^verbatim>\<open>FastRows\<close> (\<^verbatim>\<open>src/write/direct/rows/fixed_width.rs\<close>) are the fast path with its unchecked indexing;
  \<^verbatim>\<open>Slices\<close> relates a slice of a batch to the batch. \<^verbatim>\<open>DirectRows\<close> (\<^verbatim>\<open>encoder.rs\<close>, \<^verbatim>\<open>rows/\<close>) has the encoder: measured,
  appended and laid-out rows are the same bytes, the fast path does not panic, and ranges compose to
  the whole batch.

  \<^item> Batches and writers.  \<^verbatim>\<open>RecordBatches\<close> (\<^verbatim>\<open>src/write/record_batch.rs\<close>, \<^verbatim>\<open>validate.rs\<close>) validates batches and views
  their rows; \<^verbatim>\<open>TokenRows\<close> (\<^verbatim>\<open>src/write/token_row.rs\<close>) turns rows of cells into driver data;
  \<^verbatim>\<open>Agreement\<close> shows that a direct batch is, byte for byte, the wire format of the cells of
  the baseline. \<^verbatim>\<open>TargetColumns\<close> and \<^verbatim>\<open>Writer\<close> (\<^verbatim>\<open>src/write/writer.rs\<close>) open, write and finish. A session is the
  inductive relation of the accepted and refused batches on a writer; by rule
  induction over it the connection has received exactly the rows of the accepted batches.
  \<^verbatim>\<open>BatchPhases\<close> gives, for each way in which a batch can fail, the phase and the error it fails with.
  \<^verbatim>\<open>RowDecode\<close> reads the bytes of a direct batch back, knowing only the target columns, and \<^verbatim>\<open>Delivery\<close> composes the
  three: what a session sent is, on either backend, the baseline conversion of its batches.

  \<^item> Around the writer.  \<^verbatim>\<open>Connections\<close> (\<^verbatim>\<open>src/connection.rs\<close>) has connecting, statements and the two metadata
  probes. Their SQL text is read by \<^verbatim>\<open>SqlReading\<close>, a tokenizer, parser and evaluator of a fragment of T-SQL that is
  written apart from the code: the probes are exact on every server that answers query texts as it does. \<^verbatim>\<open>Telemetry\<close> and
  \<^verbatim>\<open>WriterTelemetry\<close> (\<^verbatim>\<open>src/observability.rs\<close> and its submodules) have every event with its attributes, and the
  writer's operations composed with the events they emit: events pass results through, and
  their texts carry no user data. \<^verbatim>\<open>WriteProfile\<close> (\<^verbatim>\<open>src/write/profile.rs\<close>, and \<^verbatim>\<open>merge_direct_profile\<close> of
  \<^verbatim>\<open>xtask/src/writer_bench.rs\<close>) has the eighty fields of the write profile and their sums, \<^verbatim>\<open>ProfiledWriter\<close> the
  state of a thread, the scoped switches of the fast paths and the writer that records: it panics only when the
  times of one clock exceed the largest duration.

  \<^item> Benchmarks.  \<^verbatim>\<open>BenchData\<close> and \<^verbatim>\<open>BenchScenarios\<close> (\<^verbatim>\<open>xtask/src/writer_bench.rs\<close>) have the schemas and the generators
  of the benchmark data and the table of scenarios: every generated batch is well formed, and every scenario is
  planned and encoded directly. \<^verbatim>\<open>RunnerIo\<close>, \<^verbatim>\<open>ServerProfile\<close>, \<^verbatim>\<open>BcpColumns\<close> and \<^verbatim>\<open>BcpRunner\<close>
  (\<^verbatim>\<open>xtask/odbc-bcp-runner/src/main.rs\<close>) are the ODBC bulk copy runner: handles and queries over the functions of
  the driver, the counters of the server and their differences, the buffers of columns with the pointers the
  driver is given, options, the copy of an Arrow file and the repeats. \<^verbatim>\<open>BcpDelivery\<close> specifies bulk copy by a view of
  the driver and follows the rows through it; \<^verbatim>\<open>BcpCopies\<close> has the contract of a copy: it returns, a reported success has
  delivered the rows of the file, and on a driver that accepts every call a file of values it can send is copied.

  \<^item> Interfaces.  \<^verbatim>\<open>mapping_classifier\<close> (what a classifier decides, six interpretations),
  \<^verbatim>\<open>direct_encoder_support\<close> (which mappings are encoded, two), \<^verbatim>\<open>nearest_rounding\<close> (rounding to the
  resolution of a type, three), \<^verbatim>\<open>cell_codec\<close> (write, append and read of one wire cell, six), \<^verbatim>\<open>column_codec\<close>
  (measure, fill and append of one cell of a column) with \<^verbatim>\<open>primitive_values\<close>, \<^verbatim>\<open>decimal_reader\<close> and
  \<^verbatim>\<open>temporal_reader\<close> that give it for the column classes (a sublocale each; 11, 4 and 14
  interpretations), \<^verbatim>\<open>direct_columns\<close> (a matrix of bound columns measures and fills as its cells; interpreted on
  \<^verbatim>\<open>Binding\<close>), and \<^verbatim>\<open>fixed_width_codec\<close> (a writer of the fast path, four).

  \<^item> Parameters.  Code outside the sources is an argument: the time zone database of chrono-tz
  (\<^verbatim>\<open>timezone_db\<close>), the driver (\<^verbatim>\<open>bulk_driver\<close>; the claims on delivery assume that it appends what it accepts and
  nothing else, \<^verbatim>\<open>delivers\<close>, or that it never fails, \<^verbatim>\<open>accepting\<close>, and \<^verbatim>\<open>recording_driver\<close> is an instance of
  both), the SQL client and its server (\<^verbatim>\<open>sql_client\<close>, \<^verbatim>\<open>speaks_sql\<close>, with an example), the
  connector, the clock of the telemetry, the two switches of the fast path, and the errors of the I/O
  layer, an uninterpreted type. For the runner they are the ODBC and BCP functions (\<^verbatim>\<open>documented_odbc\<close>,
  \<^verbatim>\<open>documented_bcp\<close> and \<^verbatim>\<open>accepting_bcp\<close>, with examples), the reader of Arrow files, the calendar of chrono and the environment. Arrow arrays and batches are datatypes, and what arrow-rs
  promises of a batch is the predicate \<^verbatim>\<open>valid_batch\<close>. The widening of float16 is done by the half crate and
  stays outside.

  \<^item> Not modelled.  The spans of tracing, on which no result depends; the calls that column encoders make to the profile; the
  asynchronous scheduling of the calls, which the code awaits one by one; message texts; of \<^verbatim>\<open>xtask/\<close>, the
  measuring loops and reports of the benchmarks, the other runners, the printing and the container tooling; and the tests.
\<close>

end
